(* ===== verification/Prelude.thy ===== *)
theory Prelude
  imports Main
begin

text \<open>
  What every component of the development shares: the reading of Python values in HOL
  (result types, strings, dictionaries), tables of rows with the generic lemmas on looking
  rows up, saving and updating them, and the fact collections the component proofs use.
  Nothing in this theory models a particular file of the repository.
\<close>

named_theorems row_simps "lookups and updates of table rows"
named_theorems status_defs "the status groups of app/constants.py"

section \<open>Identifiers, time and results\<close>

text \<open>
  A UUID is a 128-bit number, a timestamp is a number of microseconds since the epoch (UTC,
  without a time zone, as the database stores it), and a date is a number of days.
\<close>

type_synonym uuid = nat
type_synonym time = int
type_synonym date = int

definition seconds :: "int \<Rightarrow> time" where
  "seconds n = n * 1000000"

definition minutes :: "int \<Rightarrow> time" where
  "minutes n = seconds (60 * n)"

definition days :: "int \<Rightarrow> time" where
  "days n = seconds (86400 * n)"

definition date_of :: "time \<Rightarrow> date" where
  "date_of t = t div days 1"

definition midnight_of :: "date \<Rightarrow> time" where
  "midnight_of d = days d"

definition time_of_day :: "time \<Rightarrow> time" where
  "time_of_day t = t mod days 1"

lemma date_of_midnight [simp]: "date_of (midnight_of d) = d"
  by (simp add: date_of_def midnight_of_def days_def seconds_def)

lemma time_of_day_bounds: "0 \<le> time_of_day t \<and> time_of_day t < days 1"
  by (simp add: time_of_day_def days_def seconds_def)

lemma seconds_mono: "m \<le> n \<Longrightarrow> seconds m \<le> seconds n"
  by (simp add: seconds_def)

text \<open>The result of a call that may raise: \<open>Inl\<close> is the exception.\<close>

fun res_bind :: "'e + 'a \<Rightarrow> ('a \<Rightarrow> 'e + 'b) \<Rightarrow> 'e + 'b" where
  "res_bind (Inl e) f = Inl e"
| "res_bind (Inr x) f = f x"

lemma res_bind_Inr_iff:
  "res_bind m f = Inr y \<longleftrightarrow> (\<exists>x. m = Inr x \<and> f x = Inr y)"
  by (cases m) auto

lemma res_bind_Inl_iff:
  "res_bind m f = Inl e \<longleftrightarrow> m = Inl e \<or> (\<exists>x. m = Inr x \<and> f x = Inl e)"
  by (cases m) auto

text \<open>A comprehension whose element expression may raise, left to right.\<close>

fun map_res :: "('a \<Rightarrow> 'e + 'b) \<Rightarrow> 'a list \<Rightarrow> 'e + 'b list" where
  "map_res f [] = Inr []"
| "map_res f (x # xs) =
     res_bind (f x) (\<lambda>y. res_bind (map_res f xs) (\<lambda>ys. Inr (y # ys)))"

lemma map_res_total: "(\<And>x. x \<in> set xs \<Longrightarrow> f x = Inr (g x)) \<Longrightarrow> map_res f xs = Inr (map g xs)"
  by (induction xs) auto

lemma map_res_length: "map_res f xs = Inr ys \<Longrightarrow> length ys = length xs"
  by (induction xs arbitrary: ys) (auto simp: res_bind_Inr_iff)

section \<open>Python strings\<close>

text \<open>
  Strings are lists of characters. The case conversions act on the ASCII letters, the only
  letters of the identifiers, file names and statuses they are applied to here.
\<close>

definition upper_char :: "char \<Rightarrow> char" where
  "upper_char c =
     (if 97 \<le> (of_char c :: nat) \<and> (of_char c :: nat) \<le> 122
      then char_of ((of_char c :: nat) - 32) else c)"

definition lower_char :: "char \<Rightarrow> char" where
  "lower_char c =
     (if 65 \<le> (of_char c :: nat) \<and> (of_char c :: nat) \<le> 90
      then char_of ((of_char c :: nat) + 32) else c)"

definition py_upper :: "string \<Rightarrow> string" where
  "py_upper s = map upper_char s"

definition py_lower :: "string \<Rightarrow> string" where
  "py_lower s = map lower_char s"

definition py_replace_char :: "char \<Rightarrow> string \<Rightarrow> string \<Rightarrow> string" where
  "py_replace_char c r s = concat (map (\<lambda>x. if x = c then r else [x]) s)"

fun py_split :: "char \<Rightarrow> string \<Rightarrow> string list" where
  "py_split c [] = [[]]"
| "py_split c (x # xs) =
     (if x = c then [] # py_split c xs
      else (case py_split c xs of [] \<Rightarrow> [[x]] | p # ps \<Rightarrow> (x # p) # ps))"

lemma py_split_ne [simp]: "py_split c s \<noteq> []"
  by (induction s) (auto split: list.splits)

lemma py_split_no_sep: "c \<notin> set s \<Longrightarrow> py_split c s = [s]"
  by (induction s) auto

lemma py_split_append:
  "c \<notin> set s \<Longrightarrow> py_split c (s @ c # t) = s # py_split c t"
  by (induction s) auto

definition py_is_space :: "char \<Rightarrow> bool" where
  "py_is_space c \<longleftrightarrow> (of_char c :: nat) = 32 \<or> (9 \<le> (of_char c :: nat) \<and> (of_char c :: nat) \<le> 13)
     \<or> (28 \<le> (of_char c :: nat) \<and> (of_char c :: nat) \<le> 31)"

definition remove_spaces :: "string \<Rightarrow> string" where
  \<comment> \<open>\<open>"".join(s.split())\<close>\<close>
  "remove_spaces s = filter (\<lambda>c. \<not> py_is_space c) s"

lemma remove_spaces_idem [simp]: "remove_spaces (remove_spaces s) = remove_spaces s"
  by (simp add: remove_spaces_def)

text \<open>Decimal and fixed-width renderings of numbers.\<close>

fun nat_digits :: "nat \<Rightarrow> nat \<Rightarrow> nat list" where
  "nat_digits b n = (if b < 2 \<or> n < b then [n] else nat_digits b (n div b) @ [n mod b])"

declare nat_digits.simps [simp del]

definition digit_char :: "nat \<Rightarrow> char" where
  "digit_char d = (if d < 10 then char_of (48 + d) else char_of (87 + d))"

definition nat_str :: "nat \<Rightarrow> string" where
  "nat_str n = map digit_char (nat_digits 10 n)"

definition int_str :: "int \<Rightarrow> string" where
  "int_str i = (if i < 0 then CHR ''-'' # nat_str (nat (- i)) else nat_str (nat i))"

definition hex_str :: "nat \<Rightarrow> string" where
  "hex_str n = map digit_char (nat_digits 16 n)"

definition zfill :: "nat \<Rightarrow> string \<Rightarrow> string" where
  "zfill w s = replicate (w - length s) (CHR ''0'') @ s"

section \<open>Association lists with Python's dictionary semantics\<close>

text \<open>
  A dictionary that is iterated, or whose insertion order matters, is an association list in
  insertion order: an assignment to a present key keeps its place, to a new key appends.
\<close>

fun dict_set :: "'k \<Rightarrow> 'v \<Rightarrow> ('k \<times> 'v) list \<Rightarrow> ('k \<times> 'v) list" where
  "dict_set k v [] = [(k, v)]"
| "dict_set k v ((k', v') # d) = (if k = k' then (k, v) # d else (k', v') # dict_set k v d)"

lemma map_of_dict_set [simp]: "map_of (dict_set k v d) = (map_of d)(k \<mapsto> v)"
  by (induction d) auto

lemma keys_dict_set: "fst ` set (dict_set k v d) = insert k (fst ` set d)"
proof (induction d)
  case Nil
  then show ?case by simp
next
  case (Cons p d)
  then show ?case by (cases p) (simp add: insert_commute)
qed

lemma distinct_dict_set:
  "distinct (map fst d) \<Longrightarrow> distinct (map fst (dict_set k v d))"
  by (induction d) (auto simp: keys_dict_set)

section \<open>Tables of rows\<close>

text \<open>
  A table is the list of its rows in the order the database returns them without an
  \<open>ORDER BY\<close>. A query keeps the rows that satisfy its filters, an update maps them. The
  primary key is a parameter.
\<close>

definition find_row :: "('r \<Rightarrow> 'k) \<Rightarrow> 'k \<Rightarrow> 'r list \<Rightarrow> 'r option" where
  "find_row key k rows = find (\<lambda>r. key r = k) rows"

fun save_row :: "('r \<Rightarrow> 'k) \<Rightarrow> 'r \<Rightarrow> 'r list \<Rightarrow> 'r list" where
  \<comment> \<open>\<open>db.session.add\<close>: an update of the row with the same key, an insert otherwise\<close>
  "save_row key r [] = [r]"
| "save_row key r (x # rows) = (if key x = key r then r # rows else x # save_row key r rows)"

definition update_rows :: "('r \<Rightarrow> bool) \<Rightarrow> ('r \<Rightarrow> 'r) \<Rightarrow> 'r list \<Rightarrow> 'r list" where
  "update_rows p f rows = map (\<lambda>r. if p r then f r else r) rows"

definition delete_rows :: "('r \<Rightarrow> bool) \<Rightarrow> 'r list \<Rightarrow> 'r list" where
  "delete_rows p rows = filter (\<lambda>r. \<not> p r) rows"

definition distinct_rows :: "('r \<Rightarrow> 'k) \<Rightarrow> 'r list \<Rightarrow> bool" where
  "distinct_rows key rows \<longleftrightarrow> distinct (map key rows)"

lemma find_row_Nil [simp]: "find_row key k [] = None"
  by (simp add: find_row_def)

lemma find_row_Cons [row_simps]:
  "find_row key k (r # rows) = (if key r = k then Some r else find_row key k rows)"
  by (simp add: find_row_def)

lemma find_row_SomeD: "find_row key k rows = Some r \<Longrightarrow> r \<in> set rows \<and> key r = k"
  by (auto simp: find_row_def find_Some_iff)

lemma find_row_None_iff: "find_row key k rows = None \<longleftrightarrow> k \<notin> key ` set rows"
  by (auto simp: find_row_def find_None_iff)

lemma find_row_append:
  "find_row key k (rows @ more) =
     (case find_row key k rows of Some r \<Rightarrow> Some r | None \<Rightarrow> find_row key k more)"
  by (induction rows) (auto simp: row_simps)

lemma find_row_eqI:
  "distinct_rows key rows \<Longrightarrow> r \<in> set rows \<Longrightarrow> find_row key (key r) rows = Some r"
  by (induction rows) (auto simp: row_simps distinct_rows_def)

lemma find_save_row [row_simps]:
  "find_row key k (save_row key r rows) = (if key r = k then Some r else find_row key k rows)"
  by (induction rows) (auto simp: row_simps)

lemma keys_save_row: "key ` set (save_row key r rows) = insert (key r) (key ` set rows)"
  by (induction rows) auto

lemma set_save_row:
  "set (save_row key r rows) \<subseteq> insert r (set rows)"
  by (induction rows) auto

lemma save_row_in: "r \<in> set (save_row key r rows)"
  by (induction rows) auto

lemma set_save_row_distinct:
  "distinct_rows key rows \<Longrightarrow>
   set (save_row key r rows) = insert r {x \<in> set rows. key x \<noteq> key r}"
  by (induction rows) (auto simp: distinct_rows_def image_iff)

lemma distinct_save_row [simp]:
  "distinct_rows key (save_row key r rows) \<longleftrightarrow> distinct_rows key rows"
proof (induction rows)
  case Nil
  then show ?case by (simp add: distinct_rows_def)
next
  case (Cons x rows)
  then show ?case
    using keys_save_row [of key r rows] by (auto simp: distinct_rows_def)
qed

lemma map_key_save_row_present:
  "key r \<in> key ` set rows \<Longrightarrow> map key (save_row key r rows) = map key rows"
  by (induction rows) auto

lemma map_key_save_row_absent:
  "key r \<notin> key ` set rows \<Longrightarrow> save_row key r rows = rows @ [r]"
  by (induction rows) auto

lemma length_update_rows [simp]: "length (update_rows p f rows) = length rows"
  by (simp add: update_rows_def)

lemma find_update_rows [row_simps]:
  assumes "\<And>r. key (f r) = key r"
  shows "find_row key k (update_rows p f rows) =
    map_option (\<lambda>r. if p r then f r else r) (find_row key k rows)"
  using assms by (induction rows) (auto simp: row_simps update_rows_def)

lemma keys_update_rows:
  assumes "\<And>r. key (f r) = key r"
  shows "map key (update_rows p f rows) = map key rows"
  using assms by (induction rows) (auto simp: update_rows_def)

lemma distinct_update_rows:
  "(\<And>r. key (f r) = key r) \<Longrightarrow> distinct_rows key (update_rows p f rows) = distinct_rows key rows"
  by (simp add: distinct_rows_def keys_update_rows)

lemma distinct_filter_rows: "distinct_rows key rows \<Longrightarrow> distinct_rows key (filter p rows)"
  by (induction rows) (auto simp: distinct_rows_def)

lemma distinct_delete_rows: "distinct_rows key rows \<Longrightarrow> distinct_rows key (delete_rows p rows)"
  by (simp add: delete_rows_def distinct_filter_rows)

lemma set_delete_rows: "set (delete_rows p rows) = {r \<in> set rows. \<not> p r}"
  by (auto simp: delete_rows_def)

lemma filter_ids_of_sublist:
  assumes "distinct_rows key rows" "set xs \<subseteq> set rows"
  shows "filter (\<lambda>r. key r \<in> key ` set xs) rows = filter (\<lambda>r. r \<in> set xs) rows"
proof (rule filter_cong [OF refl])
  fix r assume "r \<in> set rows"
  then show "(key r \<in> key ` set xs) = (r \<in> set xs)"
    using assms find_row_eqI [OF assms(1)] by (metis (no_types, lifting) image_iff option.inject subsetD)
qed

lemma distinct_rows_distinct: "distinct_rows key rows \<Longrightarrow> distinct rows"
  by (simp add: distinct_rows_def distinct_map)

lemma length_filter_mem:
  assumes "distinct rows" "distinct xs" "set xs \<subseteq> set rows"
  shows "length (filter (\<lambda>r. r \<in> set xs) rows) = length xs"
proof -
  have "set (filter (\<lambda>r. r \<in> set xs) rows) = set xs" using assms(3) by auto
  then show ?thesis using assms(1,2) by (metis distinct_card distinct_filter)
qed

lemma length_delete_ids:
  assumes "distinct_rows key rows" "distinct xs" "set xs \<subseteq> set rows"
  shows "length (delete_rows (\<lambda>r. key r \<in> key ` set xs) rows) + length xs = length rows"
proof -
  have "length (filter (\<lambda>r. key r \<in> key ` set xs) rows) = length xs"
    using assms by (simp add: filter_ids_of_sublist length_filter_mem distinct_rows_distinct)
  then show ?thesis
    using sum_length_filter_compl [of "\<lambda>r. key r \<in> key ` set xs" rows]
    by (simp add: delete_rows_def)
qed

lemma find_delete_rows:
  assumes "distinct_rows key rows"
  shows "find_row key i (delete_rows p rows) =
    (case find_row key i rows of Some r \<Rightarrow> if p r then None else Some r | None \<Rightarrow> None)"
  using assms
proof (induction rows)
  case Nil
  then show ?case by (simp add: delete_rows_def)
next
  case (Cons x rows)
  have "find_row key (key x) rows = None"
    using Cons.prems by (simp add: find_row_None_iff distinct_rows_def)
  with Cons show ?case
    by (auto simp: delete_rows_def row_simps distinct_rows_def split: option.splits)
qed
lemma row_unique:
  "distinct_rows key rows \<Longrightarrow> m \<in> set rows \<Longrightarrow> n \<in> set rows \<Longrightarrow> key m = key n \<Longrightarrow> m = n"
  by (auto simp: distinct_rows_def distinct_map dest: inj_onD)

lemma key_in_sublist:
  assumes "distinct_rows key rows" "set xs \<subseteq> set rows" "n \<in> set rows"
  shows "key n \<in> key ` set xs \<longleftrightarrow> n \<in> set xs"
  using assms row_unique [OF assms(1)] by blast

lemma find_row_sublist:
  assumes "distinct_rows key rows" "distinct_rows key xs" "set xs \<subseteq> set rows"
  shows "find_row key i xs =
    (case find_row key i rows of Some n \<Rightarrow> if n \<in> set xs then Some n else None | None \<Rightarrow> None)"
proof (cases "find_row key i rows")
  case None
  then have "find_row key i xs = None" using assms(3) by (auto simp: find_row_None_iff)
  then show ?thesis using None by simp
next
  case (Some n)
  then have n: "n \<in> set rows" "key n = i" by (auto dest: find_row_SomeD)
  show ?thesis
  proof (cases "n \<in> set xs")
    case True
    then show ?thesis using Some n(2) find_row_eqI [OF assms(2) True] by simp
  next
    case False
    then have "i \<notin> key ` set xs" using key_in_sublist [OF assms(1,3) n(1)] n(2) by simp
    then show ?thesis using Some False by (simp add: find_row_None_iff [THEN iffD2])
  qed
qed

text \<open>\<open>Query.one()\<close>: exactly one row, or an exception.\<close>

definition query_one :: "'e \<Rightarrow> 'e \<Rightarrow> ('r \<Rightarrow> bool) \<Rightarrow> 'r list \<Rightarrow> 'e + 'r" where
  "query_one none many p rows =
     (case filter p rows of [] \<Rightarrow> Inl none | [r] \<Rightarrow> Inr r | _ \<Rightarrow> Inl many)"

definition query_first :: "('r \<Rightarrow> bool) \<Rightarrow> 'r list \<Rightarrow> 'r option" where
  "query_first p rows = find p rows"

lemma query_one_InrD: "query_one a b p rows = Inr r \<Longrightarrow> r \<in> set rows \<and> p r"
proof -
  assume "query_one a b p rows = Inr r"
  then have "filter p rows = [r]" by (auto simp: query_one_def split: list.splits)
  then have "r \<in> set (filter p rows)" by simp
  then show ?thesis by simp
qed

lemma query_one_key:
  assumes "distinct_rows key rows"
  shows "query_one a b (\<lambda>r. key r = k \<and> q r) rows =
    (case find_row key k rows of
       Some r \<Rightarrow> if q r then Inr r else Inl a
     | None \<Rightarrow> Inl a)"
  using assms
proof (induction rows)
  case Nil
  then show ?case by (simp add: query_one_def)
next
  case (Cons x rows)
  have "filter (\<lambda>r. key r = key x \<and> q r) rows = []"
    using Cons.prems by (fastforce simp: distinct_rows_def filter_empty_conv image_iff)
  with Cons show ?case
    by (auto simp: query_one_def row_simps distinct_rows_def split: list.splits)
qed

lemma query_first_SomeD: "query_first p rows = Some r \<Longrightarrow> r \<in> set rows \<and> p r"
  by (auto simp: query_first_def find_Some_iff)

lemma query_first_key: "query_first (\<lambda>r. key r = k) rows = find_row key k rows"
  by (simp add: query_first_def find_row_def)

end
