(* ===== verification/Constants.thy ===== *)
theory Constants
  imports Prelude
begin

text \<open>
  \<^verbatim>\<open>app/constants.py\<close>: the enumerations of the program as datatypes, each with the string the
  code and the database use for it, and the groups of statuses the components test
  membership in.
\<close>

section \<open>Notification statuses\<close>

datatype nstatus =
    Cancelled | Created | Sending | Sent | Delivered | Pending | Failed
  | TechnicalFailure | TemporaryFailure | PermanentFailure
  | PendingVirusCheck | ValidationFailed | VirusScanFailed | ReturnedLetter

fun nstatus_name :: "nstatus \<Rightarrow> string" where
  "nstatus_name Cancelled = ''cancelled''"
| "nstatus_name Created = ''created''"
| "nstatus_name Sending = ''sending''"
| "nstatus_name Sent = ''sent''"
| "nstatus_name Delivered = ''delivered''"
| "nstatus_name Pending = ''pending''"
| "nstatus_name Failed = ''failed''"
| "nstatus_name TechnicalFailure = ''technical-failure''"
| "nstatus_name TemporaryFailure = ''temporary-failure''"
| "nstatus_name PermanentFailure = ''permanent-failure''"
| "nstatus_name PendingVirusCheck = ''pending-virus-check''"
| "nstatus_name ValidationFailed = ''validation-failed''"
| "nstatus_name VirusScanFailed = ''virus-scan-failed''"
| "nstatus_name ReturnedLetter = ''returned-letter''"

definition NOTIFICATION_STATUS_TYPES_FAILED :: "nstatus list" where
  [status_defs]: "NOTIFICATION_STATUS_TYPES_FAILED =
     [TechnicalFailure, TemporaryFailure, PermanentFailure, ValidationFailed,
      VirusScanFailed, ReturnedLetter]"

definition NOTIFICATION_STATUS_TYPES_COMPLETED :: "nstatus list" where
  [status_defs]: "NOTIFICATION_STATUS_TYPES_COMPLETED =
     [Sent, Delivered, Failed, TechnicalFailure, TemporaryFailure, PermanentFailure,
      ReturnedLetter, Cancelled, ValidationFailed]"

definition NOTIFICATION_STATUS_SUCCESS :: "nstatus list" where
  [status_defs]: "NOTIFICATION_STATUS_SUCCESS = [Sent, Delivered]"

definition NOTIFICATION_STATUS_TYPES_BILLABLE :: "nstatus list" where
  [status_defs]: "NOTIFICATION_STATUS_TYPES_BILLABLE =
     [Sending, Sent, Delivered, Pending, Failed, TemporaryFailure, PermanentFailure,
      ReturnedLetter]"

definition NOTIFICATION_STATUS_TYPES_BILLABLE_SMS :: "nstatus list" where
  [status_defs]: "NOTIFICATION_STATUS_TYPES_BILLABLE_SMS =
     [Sending, Sent, Delivered, Pending, TemporaryFailure, PermanentFailure]"

definition NOTIFICATION_STATUS_TYPES_BILLABLE_FOR_LETTERS :: "nstatus list" where
  [status_defs]: "NOTIFICATION_STATUS_TYPES_BILLABLE_FOR_LETTERS =
     [Sending, Delivered, ReturnedLetter]"

definition NOTIFICATION_STATUS_TYPES_LETTERS_NEVER_SENT :: "nstatus list" where
  [status_defs]: "NOTIFICATION_STATUS_TYPES_LETTERS_NEVER_SENT =
     [Cancelled, TechnicalFailure, ValidationFailed, VirusScanFailed]"

definition NOTIFICATION_STATUS_TYPES_SENT_EMAILS :: "nstatus list" where
  [status_defs]: "NOTIFICATION_STATUS_TYPES_SENT_EMAILS =
     [Sending, Delivered, TemporaryFailure, PermanentFailure]"

definition NOTIFICATION_STATUS_TYPES_DEPRECATED :: "nstatus list" where
  [status_defs]: "NOTIFICATION_STATUS_TYPES_DEPRECATED = [Failed]"

definition NOTIFICATION_STATUS_TYPES :: "nstatus list" where
  [status_defs]: "NOTIFICATION_STATUS_TYPES =
     [Cancelled, Created, Sending, Sent, Delivered, Pending, Failed, TechnicalFailure,
      TemporaryFailure, PermanentFailure, PendingVirusCheck, ValidationFailed,
      VirusScanFailed, ReturnedLetter]"

definition NOTIFICATION_STATUS_TYPES_NON_BILLABLE :: "nstatus list" where
  \<comment> \<open>the order of \<open>list(set)\<close> is unspecified in Python; only membership is used\<close>
  [status_defs]: "NOTIFICATION_STATUS_TYPES_NON_BILLABLE =
     filter (\<lambda>s. s \<notin> set NOTIFICATION_STATUS_TYPES_BILLABLE) NOTIFICATION_STATUS_TYPES"

definition nstatus_of :: "string \<Rightarrow> nstatus option" where
  "nstatus_of s = find (\<lambda>x. nstatus_name x = s) NOTIFICATION_STATUS_TYPES"

lemma nstatus_of_name [simp]: "nstatus_of (nstatus_name s) = Some s"
  by (cases s) (simp_all add: nstatus_of_def NOTIFICATION_STATUS_TYPES_def)

lemma nstatus_name_inj [simp]: "nstatus_name a = nstatus_name b \<longleftrightarrow> a = b"
  using nstatus_of_name [of a] nstatus_of_name [of b] by (metis option.inject)

lemma set_status_types [simp]: "set NOTIFICATION_STATUS_TYPES = UNIV"
proof -
  have "s \<in> set NOTIFICATION_STATUS_TYPES" for s
    by (cases s) (simp_all add: NOTIFICATION_STATUS_TYPES_def)
  then show ?thesis by blast
qed

subsection \<open>Statuses of report requests and of the print provider\<close>

definition NOTIFICATION_STATUS_LETTER_ACCEPTED :: string where
  "NOTIFICATION_STATUS_LETTER_ACCEPTED = ''accepted''"

definition NOTIFICATION_STATUS_LETTER_RECEIVED :: string where
  "NOTIFICATION_STATUS_LETTER_RECEIVED = ''received''"

datatype report_filter = ReportSending | ReportFailed | ReportDelivered | ReportAll

fun report_filter_name :: "report_filter \<Rightarrow> string" where
  "report_filter_name ReportSending = ''sending''"
| "report_filter_name ReportFailed = ''failed''"
| "report_filter_name ReportDelivered = ''delivered''"
| "report_filter_name ReportAll = ''all''"

definition NOTIFICATION_REQUEST_REPORT_SENDING_STATUSES :: "nstatus list" where
  [status_defs]: "NOTIFICATION_REQUEST_REPORT_SENDING_STATUSES =
     [Created, Pending, PendingVirusCheck, Sending]"

definition NOTIFICATION_REQUEST_REPORT_DELIVERED_STATUSES :: "nstatus list" where
  [status_defs]: "NOTIFICATION_REQUEST_REPORT_DELIVERED_STATUSES =
     [Delivered, ReturnedLetter, Sent]"

definition NOTIFICATION_REQUEST_REPORT_FAILURE_STATUSES :: "nstatus list" where
  [status_defs]: "NOTIFICATION_REQUEST_REPORT_FAILURE_STATUSES =
     [Failed, PermanentFailure, TechnicalFailure, TemporaryFailure, ValidationFailed,
      VirusScanFailed]"

definition NOTIFICATION_REQUEST_REPORT_ALL_STATUSES :: "nstatus list" where
  [status_defs]: "NOTIFICATION_REQUEST_REPORT_ALL_STATUSES =
     NOTIFICATION_REQUEST_REPORT_SENDING_STATUSES
     @ NOTIFICATION_REQUEST_REPORT_DELIVERED_STATUSES
     @ NOTIFICATION_REQUEST_REPORT_FAILURE_STATUSES"

fun NOTIFICATION_REPORT_REQUEST_MAPPING :: "report_filter \<Rightarrow> nstatus list" where
  "NOTIFICATION_REPORT_REQUEST_MAPPING ReportAll = NOTIFICATION_REQUEST_REPORT_ALL_STATUSES"
| "NOTIFICATION_REPORT_REQUEST_MAPPING ReportDelivered =
     NOTIFICATION_REQUEST_REPORT_DELIVERED_STATUSES"
| "NOTIFICATION_REPORT_REQUEST_MAPPING ReportFailed =
     NOTIFICATION_REQUEST_REPORT_FAILURE_STATUSES"
| "NOTIFICATION_REPORT_REQUEST_MAPPING ReportSending =
     NOTIFICATION_REQUEST_REPORT_SENDING_STATUSES"

definition DVLA_NOTIFICATION_DISPATCHED :: string where
  "DVLA_NOTIFICATION_DISPATCHED = ''DESPATCHED''"

definition DVLA_NOTIFICATION_REJECTED :: string where
  "DVLA_NOTIFICATION_REJECTED = ''REJECTED''"

definition DVLA_TO_NOTIFICATION_STATUS_MAP :: "(string \<times> nstatus) list" where
  "DVLA_TO_NOTIFICATION_STATUS_MAP =
     [(DVLA_NOTIFICATION_DISPATCHED, Delivered), (DVLA_NOTIFICATION_REJECTED, TechnicalFailure)]"

section \<open>Postage\<close>

datatype postage = Netherlands | Europe | RestOfWorld

fun postage_name :: "postage \<Rightarrow> string" where
  "postage_name Netherlands = ''netherlands''"
| "postage_name Europe = ''europe''"
| "postage_name RestOfWorld = ''rest-of-world''"

definition POSTAGE_TYPES :: "postage list" where
  "POSTAGE_TYPES = [Netherlands, Europe, RestOfWorld]"

definition UK_POSTAGE_TYPES :: "postage list" where
  "UK_POSTAGE_TYPES = [Netherlands]"

definition INTERNATIONAL_POSTAGE_TYPES :: "postage list" where
  "INTERNATIONAL_POSTAGE_TYPES = [Europe, RestOfWorld]"

definition DEFAULT_POSTAGE :: postage where
  "DEFAULT_POSTAGE = Netherlands"

fun RESOLVE_POSTAGE_FOR_FILE_NAME :: "postage \<Rightarrow> string" where
  "RESOLVE_POSTAGE_FOR_FILE_NAME Netherlands = ''1''"
| "RESOLVE_POSTAGE_FOR_FILE_NAME Europe = ''E''"
| "RESOLVE_POSTAGE_FOR_FILE_NAME RestOfWorld = ''N''"

text \<open>
  \<open>ORDER BY postage\<close> sorts the stored strings: europe, netherlands, rest-of-world.
\<close>

fun postage_rank :: "postage \<Rightarrow> nat" where
  "postage_rank Europe = 0"
| "postage_rank Netherlands = 1"
| "postage_rank RestOfWorld = 2"

instantiation postage :: linorder
begin

definition less_eq_postage :: "postage \<Rightarrow> postage \<Rightarrow> bool" where
  "less_eq_postage a b \<longleftrightarrow> postage_rank a \<le> postage_rank b"

definition less_postage :: "postage \<Rightarrow> postage \<Rightarrow> bool" where
  "less_postage a b \<longleftrightarrow> postage_rank a < postage_rank b"

instance
proof
  fix x y z :: postage
  show "x < y \<longleftrightarrow> x \<le> y \<and> \<not> y \<le> x"
    by (auto simp: less_eq_postage_def less_postage_def)
  show "x \<le> x" by (simp add: less_eq_postage_def)
  show "x \<le> y \<Longrightarrow> y \<le> z \<Longrightarrow> x \<le> z" by (simp add: less_eq_postage_def)
  show "x \<le> y \<Longrightarrow> y \<le> x \<Longrightarrow> x = y"
    by (cases x; cases y) (simp_all add: less_eq_postage_def)
  show "x \<le> y \<or> y \<le> x" by (auto simp: less_eq_postage_def)
qed

end

section \<open>Types of templates, notifications and permissions\<close>

datatype ntype = Sms | Email | Letter | Messagebox

fun ntype_name :: "ntype \<Rightarrow> string" where
  "ntype_name Sms = ''sms''"
| "ntype_name Email = ''email''"
| "ntype_name Letter = ''letter''"
| "ntype_name Messagebox = ''messagebox''"

definition TEMPLATE_TYPES :: "ntype list" where
  "TEMPLATE_TYPES = [Sms, Email, Letter, Messagebox]"

definition NOTIFICATION_TYPES :: "ntype list" where
  "NOTIFICATION_TYPES = [Sms, Email, Letter, Messagebox]"

definition NOTIFICATION_TYPE :: "ntype list" where
  "NOTIFICATION_TYPE = [Email, Sms, Letter, Messagebox]"

lemma set_notification_types [simp]: "set NOTIFICATION_TYPES = UNIV"
proof -
  have "t \<in> set NOTIFICATION_TYPES" for t by (cases t) (simp_all add: NOTIFICATION_TYPES_def)
  then show ?thesis by blast
qed

lemma ntype_name_inj [simp]: "ntype_name a = ntype_name b \<longleftrightarrow> a = b"
  by (cases a; cases b) simp_all

datatype letter_language = English | WelshThenEnglish

datatype org_type =
    OrgCentral | OrgLocal | OrgNhsCentral | OrgNhsLocal | OrgNhsGp
  | OrgEmergencyService | OrgSchoolOrCollege | OrgOther

definition ORGANISATION_TYPES :: "org_type list" where
  "ORGANISATION_TYPES =
     [OrgCentral, OrgLocal, OrgNhsCentral, OrgNhsLocal, OrgNhsGp, OrgEmergencyService,
      OrgSchoolOrCollege, OrgOther]"

definition CROWN_ORGANISATION_TYPES :: "org_type list" where
  "CROWN_ORGANISATION_TYPES = [OrgNhsCentral]"

definition NON_CROWN_ORGANISATION_TYPES :: "org_type list" where
  "NON_CROWN_ORGANISATION_TYPES =
     [OrgLocal, OrgNhsLocal, OrgNhsGp, OrgEmergencyService, OrgSchoolOrCollege]"

definition NHS_ORGANISATION_TYPES :: "org_type list" where
  "NHS_ORGANISATION_TYPES = [OrgNhsCentral, OrgNhsLocal, OrgNhsGp]"

datatype service_permission =
    SendType ntype | InternationalSms | InboundSmsPermission | EmailAuthPermission
  | EditFolderPermissions | InternationalLetters | SmsToUkLandlines

fun service_permission_name :: "service_permission \<Rightarrow> string" where
  "service_permission_name (SendType t) = ntype_name t"
| "service_permission_name InternationalSms = ''international_sms''"
| "service_permission_name InboundSmsPermission = ''inbound_sms''"
| "service_permission_name EmailAuthPermission = ''email_auth''"
| "service_permission_name EditFolderPermissions = ''edit_folder_permissions''"
| "service_permission_name InternationalLetters = ''international_letters''"
| "service_permission_name SmsToUkLandlines = ''sms_to_uk_landlines''"

definition SERVICE_PERMISSION_TYPES :: "service_permission list" where
  "SERVICE_PERMISSION_TYPES =
     [SendType Email, SendType Sms, SendType Letter, SendType Messagebox, InternationalSms,
      InboundSmsPermission, EmailAuthPermission, EditFolderPermissions, InternationalLetters,
      SmsToUkLandlines]"

datatype permission =
    ManageUsers | ManageTemplates | ManageSettings | SendTexts | SendEmails | SendLetters
  | ManageApiKeys | PlatformAdmin | ViewActivity

definition PERMISSION_LIST :: "permission list" where
  "PERMISSION_LIST =
     [ManageUsers, ManageTemplates, ManageSettings, SendTexts, SendEmails, SendLetters,
      ManageApiKeys, PlatformAdmin, ViewActivity]"

datatype auth_type = SmsAuth | EmailAuth | WebauthnAuth

datatype invite_status = InvitePending | InviteAccepted | InviteCancelled

datatype callback_type =
    DeliveryStatusCallback | ComplaintCallback | ReturnedLetterCallback | InboundSmsCallback

datatype brand_type = BrandingOrg | BrandingBoth | BrandingOrgBanner

section \<open>API keys, providers, jobs and report requests\<close>

datatype key_type = NormalKey | TeamKey | TestKey

fun key_type_name :: "key_type \<Rightarrow> string" where
  "key_type_name NormalKey = ''normal''"
| "key_type_name TeamKey = ''team''"
| "key_type_name TestKey = ''test''"

definition MMG_PROVIDER :: string where "MMG_PROVIDER = ''mmg''"
definition FIRETEXT_PROVIDER :: string where "FIRETEXT_PROVIDER = ''firetext''"
definition SPRYNG_PROVIDER :: string where "SPRYNG_PROVIDER = ''spryng''"
definition SES_PROVIDER :: string where "SES_PROVIDER = ''ses''"

definition SMS_PROVIDERS :: "string list" where
  "SMS_PROVIDERS = [MMG_PROVIDER, FIRETEXT_PROVIDER, SPRYNG_PROVIDER]"

definition EMAIL_PROVIDERS :: "string list" where
  "EMAIL_PROVIDERS = [SES_PROVIDER]"

definition PROVIDERS :: "string list" where
  "PROVIDERS = SMS_PROVIDERS @ EMAIL_PROVIDERS"

datatype job_status =
    JobPending | JobInProgress | JobFinished | JobFinishedAllNotificationsCreated
  | JobSendingLimitsExceeded | JobScheduled | JobCancelled | JobReadyToSend
  | JobSentToDvla | JobError

definition JOB_STATUS_TYPES :: "job_status list" where
  "JOB_STATUS_TYPES =
     [JobPending, JobInProgress, JobFinished, JobFinishedAllNotificationsCreated,
      JobSendingLimitsExceeded, JobScheduled, JobCancelled, JobReadyToSend, JobSentToDvla,
      JobError]"

definition HIGH_VOLUME_SERVICE_THRESHOLD :: int where
  "HIGH_VOLUME_SERVICE_THRESHOLD = 400000"

definition SMS_PROVIDER_ERROR_THRESHOLD :: int where
  "SMS_PROVIDER_ERROR_THRESHOLD = 50"

definition SMS_PROVIDER_ERROR_INTERVAL :: int where
  "SMS_PROVIDER_ERROR_INTERVAL = 60"

datatype join_request_status = JoinPending | JoinApproved | JoinRejected | JoinCancelled

datatype report_request_status =
    ReportRequestPending | ReportRequestInProgress | ReportRequestStored
  | ReportRequestFailed | ReportRequestDeleted

lemma status_group_facts:
  "set NOTIFICATION_STATUS_SUCCESS \<subseteq> set NOTIFICATION_STATUS_TYPES_COMPLETED"
  "set NOTIFICATION_STATUS_TYPES_BILLABLE_SMS \<subseteq> set NOTIFICATION_STATUS_TYPES_BILLABLE"
  "set NOTIFICATION_STATUS_TYPES_BILLABLE_FOR_LETTERS \<subseteq> set NOTIFICATION_STATUS_TYPES_BILLABLE"
  "set NOTIFICATION_STATUS_TYPES_LETTERS_NEVER_SENT \<inter>
     set NOTIFICATION_STATUS_TYPES_BILLABLE_FOR_LETTERS = {}"
  by (auto simp: status_defs)

end
