(* ===== verification/Errors.thy ===== *)
theory Errors
  imports Constants
begin

text \<open>
  The exceptions of the program (\<^verbatim>\<open>app/errors.py\<close>, \<^verbatim>\<open>app/v2/errors.py\<close>, \<^verbatim>\<open>app/exceptions.py\<close>, the
  client exceptions and the ones of the language and of the libraries that the code catches
  by class), and the responses the public API turns them into.
\<close>

section \<open>Exceptions\<close>

text \<open>
  One datatype per family of exception classes, so that an \<open>except\<close> clause on a base class
  is a pattern on the family's constructor.
\<close>

datatype py_exn =
    KeyError string | IndexError | StopIteration | TypeError | ValueError string
  | AttributeError | AssertionError | UnboundLocalError | RaisedException string

datatype db_exn = NoResultFound | MultipleResultsFound | DataError | OtherSQLAlchemyError

datatype api_exn =
    InvalidRequest string nat
  | TooManyRequestsError string int
  | RateLimitError int int key_type
  | BadRequestError string nat
  | ValidationError string
  | PDFNotReadyError
  | QrCodeTooLongError int int string

datatype phone_error_code = NotAUkMobile | OtherPhoneError string

datatype recipient_exn = InvalidPhoneError phone_error_code | InvalidEmailError string

datatype client_exn =
    ClientException string
  | SmsClientResponseException string
  | EmailClientNonRetryableException string
  | AwsSesClientThrottlingSendRateException
  | AwsSesClientException string

datatype dvla_exn =
    DvlaRetryableException | DvlaThrottlingException
  | DvlaDuplicatePrintRequestException | DvlaNonRetryableException

datatype task_exn =
    CeleryRetry string | MaxRetriesExceededError | UnprocessableJobRow
  | ProcessReportRequestException | NotificationTechnicalFailureException string
  | VirusScanError string

datatype storage_exn = BotoClientError string | LetterPDFNotFound | S3ObjectNotFound

datatype exn =
    Py py_exn | Db db_exn | Api api_exn | Recipient recipient_exn | Client client_exn
  | Dvla dvla_exn | Task task_exn | Storage storage_exn
  | ArchiveValidationError string | JsonSchemaValidationError string
  | DocumentDownloadError string nat | BadSignature | EventletTimeout | AuthError string nat
  | HttpAbort nat

type_synonym 'a result = "exn + 'a"

abbreviation py_exception :: "string \<Rightarrow> exn" where
  "py_exception m \<equiv> Py (RaisedException m)"

abbreviation bad_request :: "string \<Rightarrow> exn" where
  "bad_request m \<equiv> Api (BadRequestError m 400)"

abbreviation forbidden_request :: "string \<Rightarrow> exn" where
  "forbidden_request m \<equiv> Api (BadRequestError m 403)"

abbreviation invalid_request :: "string \<Rightarrow> nat \<Rightarrow> exn" where
  "invalid_request m c \<equiv> Api (InvalidRequest m c)"

abbreviation technical_failure_exn :: "string \<Rightarrow> exn" where
  "technical_failure_exn m \<equiv> Task (NotificationTechnicalFailureException m)"

section \<open>Responses of the public API\<close>

record api_response =
  resp_status :: nat
  resp_body_status :: "nat option"
  resp_error :: string
  resp_message :: string

definition rate_limit_message :: "int \<Rightarrow> int \<Rightarrow> key_type \<Rightarrow> string" where
  "rate_limit_message limit interval k =
     (let key = (if k = NormalKey then ''live'' else key_type_name k)
      in ''Exceeded rate limit for key type '' @ py_upper key @ '' of '' @ int_str limit
         @ '' requests per '' @ int_str interval @ '' seconds'')"

definition too_many_requests_message :: "string \<Rightarrow> int \<Rightarrow> string" where
  "too_many_requests_message limit_name sending_limit =
     ''Exceeded send limits ('' @ limit_name @ '': '' @ int_str sending_limit @ '') for today''"

fun invalid_request_status :: "api_exn \<Rightarrow> nat" where
  "invalid_request_status (InvalidRequest m c) = c"
| "invalid_request_status (TooManyRequestsError l n) = 429"
| "invalid_request_status (RateLimitError a b k) = 429"
| "invalid_request_status (BadRequestError m c) = c"
| "invalid_request_status (ValidationError m) = 400"
| "invalid_request_status PDFNotReadyError = 400"
| "invalid_request_status (QrCodeTooLongError a b d) = 400"

fun invalid_request_message :: "api_exn \<Rightarrow> string" where
  "invalid_request_message (InvalidRequest m c) = m"
| "invalid_request_message (TooManyRequestsError l n) = too_many_requests_message l n"
| "invalid_request_message (RateLimitError a b k) = rate_limit_message a b k"
| "invalid_request_message (BadRequestError m c) =
     (if m = [] then ''An error occurred'' else m)"
| "invalid_request_message (ValidationError m) =
     (if m = [] then ''Your notification has failed validation'' else m)"
| "invalid_request_message PDFNotReadyError = ''PDF not available yet, try again later''"
| "invalid_request_message (QrCodeTooLongError a b d) =
     ''Cannot create a usable QR code - the link is too long''"

fun invalid_request_class :: "api_exn \<Rightarrow> string" where
  \<comment> \<open>\<open>self.__class__.__name__\<close>; \<open>QrCodeTooLongError.to_dict_v2\<close> writes its parent's name\<close>
  "invalid_request_class (InvalidRequest m c) = ''InvalidRequest''"
| "invalid_request_class (TooManyRequestsError l n) = ''TooManyRequestsError''"
| "invalid_request_class (RateLimitError a b k) = ''RateLimitError''"
| "invalid_request_class (BadRequestError m c) = ''BadRequestError''"
| "invalid_request_class (ValidationError m) = ''ValidationError''"
| "invalid_request_class PDFNotReadyError = ''PDFNotReadyError''"
| "invalid_request_class (QrCodeTooLongError a b d) = ''ValidationError''"

definition error_response :: "nat \<Rightarrow> string \<Rightarrow> string \<Rightarrow> api_response" where
  "error_response code cls m =
     \<lparr>resp_status = code, resp_body_status = Some code, resp_error = cls, resp_message = m\<rparr>"

definition v2_invalid_data :: "api_exn \<Rightarrow> api_response" where
  "v2_invalid_data a =
     error_response (invalid_request_status a) (invalid_request_class a) (invalid_request_message a)"

text \<open>
  The error handlers that \<open>register_errors\<close> of \<^verbatim>\<open>app/v2/errors.py\<close> installs. Flask calls the
  handler of the most specific class; the last one takes every other exception. The texts of
  the recipient errors come from the validation library: the message is a parameter, and so is
  the class name that the last handler reads off an arbitrary exception. For \<open>abort(404)\<close> Flask
  takes the handler \<^verbatim>\<open>app/__init__.py\<close> registers for that code.
\<close>

fun v2_error_response :: "(exn \<Rightarrow> string) \<Rightarrow> (exn \<Rightarrow> string) \<Rightarrow> exn \<Rightarrow> api_response" where
  "v2_error_response msg cls (Recipient (InvalidPhoneError c)) =
     error_response 400 ''InvalidPhoneError'' (msg (Recipient (InvalidPhoneError c)))"
| "v2_error_response msg cls (Recipient (InvalidEmailError m)) =
     error_response 400 ''InvalidEmailError'' (msg (Recipient (InvalidEmailError m)))"
| "v2_error_response msg cls (Api a) = v2_invalid_data a"
| "v2_error_response msg cls (DocumentDownloadError m c) =
     (v2_invalid_data (BadRequestError m 400))\<lparr>resp_status := c\<rparr>"
| "v2_error_response msg cls (JsonSchemaValidationError m) =
     \<lparr>resp_status = 400, resp_body_status = None, resp_error = [], resp_message = m\<rparr>"
| "v2_error_response msg cls (Db NoResultFound) =
     error_response 404 ''NoResultFound'' ''No result found''"
| "v2_error_response msg cls (Db DataError) = error_response 404 ''DataError'' ''No result found''"
| "v2_error_response msg cls (AuthError m c) = error_response c ''AuthError'' m"
| "v2_error_response msg cls EventletTimeout =
     error_response 504 ''EventletTimeout'' ''Timeout serving request''"
| "v2_error_response msg cls (HttpAbort c) =
     (if c = 404 then \<lparr>resp_status = 404, resp_body_status = None, resp_error = ''error'',
                         resp_message = msg (HttpAbort c)\<rparr>
      else error_response 500 (cls (HttpAbort c)) ''Internal server error'')"
| "v2_error_response msg cls e = error_response 500 (cls e) ''Internal server error''"

end
