(* ===== verification/Models.thy ===== *)
theory Models
  imports Complex_Main Errors
begin

text \<open>
  \<^verbatim>\<open>app/models.py\<close>: the tables as records, one field per column (a nullable column is an option,
  a foreign key the id it refers to), and the methods of the rows that only read the row. A
  relationship to one row is looked up through its foreign key in \<^theory_text>\<open>World\<close>; a child table
  that is only read as a list of its parent (a service's permissions) is a list of the parent.
  Rates are exact rationals, as \<^verbatim>\<open>Numeric\<close> columns are. A signed column holds the signed string.
\<close>

section \<open>Personalisation values\<close>

datatype pvalue = PText string | PNumber int | PList "string list" | PDict "(string \<times> string) list"

type_synonym personalisation = "(string \<times> pvalue) list"

section \<open>Users, organisations and services\<close>

record user =
  u_id :: uuid
  u_name :: string
  u_email_address :: string
  u_created_at :: time
  u_updated_at :: "time option"
  u_password :: string
  u_mobile_number :: "string option"
  u_password_changed_at :: time
  u_logged_in_at :: "time option"
  u_failed_login_count :: int
  u_state :: string
  u_platform_admin :: bool
  u_current_session_id :: "uuid option"
  u_auth_type :: auth_type
  u_email_access_validated_at :: time
  u_take_part_in_research :: bool
  u_receives_new_features_email :: bool

definition user_row_ok :: "user \<Rightarrow> bool" where
  \<comment> \<open>the table's check constraint\<close>
  "user_row_ok u \<longleftrightarrow> u_auth_type u \<in> {EmailAuth, WebauthnAuth} \<or> u_mobile_number u \<noteq> None"

text \<open>
  Of a service the columns on volumes, research consent and billing contacts, which no modelled
  code reads, are left out.
\<close>

record service =
  svc_id :: uuid
  svc_name :: string
  svc_normalised_service_name :: string
  svc_custom_email_sender_name :: "string option"
  svc_email_sender_local_part :: string
  svc_created_at :: time
  svc_updated_at :: "time option"
  svc_active :: bool
  svc_restricted :: bool
  svc_created_by_id :: uuid
  svc_prefix_sms :: bool
  svc_organisation_type :: "org_type option"
  svc_crown :: "bool option"
  svc_rate_limit :: int
  svc_contact_link :: "string option"
  svc_letter_message_limit :: int
  svc_sms_message_limit :: int
  svc_international_sms_message_limit :: int
  svc_email_message_limit :: int
  svc_messagebox_message_limit :: int
  svc_count_as_live :: bool
  svc_go_live_user_id :: "uuid option"
  svc_go_live_at :: "time option"
  svc_organisation_id :: "uuid option"
  svc_email_branding :: "uuid option"
  svc_letter_branding :: "uuid option"
  svc_permissions :: "service_permission list"
  svc_version :: int

definition set_service_name :: "(string \<Rightarrow> string) \<Rightarrow> string \<Rightarrow> service \<Rightarrow> service" where
  \<comment> \<open>the \<open>name\<close> setter; \<open>safe\<close> is \<open>make_string_safe_for_email_local_part\<close> of the utils library\<close>
  "set_service_name safe v s =
     (let s' = s\<lparr>svc_name := v, svc_normalised_service_name := safe v\<rparr>
      in if svc_custom_email_sender_name s' \<in> {None, Some []}
         then s'\<lparr>svc_email_sender_local_part := svc_normalised_service_name s'\<rparr> else s')"

definition set_custom_email_sender_name ::
  "(string \<Rightarrow> string) \<Rightarrow> string option \<Rightarrow> service \<Rightarrow> service" where
  "set_custom_email_sender_name safe v s =
     (let s' = s\<lparr>svc_custom_email_sender_name := v\<rparr>
      in s'\<lparr>svc_email_sender_local_part :=
             safe (case v of None \<Rightarrow> svc_name s' | Some x \<Rightarrow> if x = [] then svc_name s' else x)\<rparr>)"

definition has_permission :: "service \<Rightarrow> service_permission \<Rightarrow> bool" where
  "has_permission s p \<longleftrightarrow> p \<in> set (svc_permissions s)"

record inbound_number =
  in_id :: uuid
  in_number :: string
  in_provider :: string
  in_service_id :: "uuid option"
  in_active :: bool
  in_created_at :: time
  in_updated_at :: "time option"

record sms_sender =
  ss_id :: uuid
  ss_sms_sender :: string
  ss_service_id :: uuid
  ss_is_default :: bool
  ss_archived :: bool
  ss_inbound_number_id :: "uuid option"
  ss_created_at :: time
  ss_updated_at :: "time option"

record guest_list_entry =
  gl_id :: uuid
  gl_service_id :: uuid
  gl_recipient_type :: string
  gl_recipient :: string
  gl_created_at :: time

record service_callback_api =
  cb_id :: uuid
  cb_service_id :: uuid
  cb_url :: string
  cb_callback_type :: callback_type
  cb_bearer_token :: string
  cb_created_at :: time
  cb_updated_at :: "time option"
  cb_updated_by_id :: uuid

record api_key =
  k_id :: uuid
  k_name :: string
  k_secret :: string
  k_service_id :: uuid
  k_key_type :: key_type
  k_expiry_date :: "time option"
  k_created_at :: time
  k_updated_at :: "time option"
  k_created_by_id :: uuid
  k_version :: int

record email_reply_to =
  rt_id :: uuid
  rt_service_id :: uuid
  rt_email_address :: string
  rt_is_default :: bool
  rt_archived :: bool
  rt_created_at :: time
  rt_updated_at :: "time option"

record letter_contact =
  lc_id :: uuid
  lc_service_id :: uuid
  lc_contact_block :: string
  lc_is_default :: bool
  lc_archived :: bool
  lc_created_at :: time
  lc_updated_at :: "time option"

record verify_code =
  vc_id :: uuid
  vc_user_id :: uuid
  vc_code :: string
  vc_code_type :: ntype
  vc_expiry_datetime :: time
  vc_code_used :: bool
  vc_created_at :: time

section \<open>Templates, folders and providers\<close>

record template_folder =
  tf_id :: uuid
  tf_service_id :: uuid
  tf_name :: string
  tf_parent_id :: "uuid option"
  tf_users :: "uuid list"

record template =
  t_id :: uuid
  t_name :: string
  t_type :: ntype
  t_created_at :: time
  t_updated_at :: "time option"
  t_content :: string
  t_archived :: bool
  t_hidden :: bool
  t_subject :: "string option"
  t_postage :: "postage option"
  t_letter_welsh_content :: "string option"
  t_letter_welsh_subject :: "string option"
  t_letter_languages :: "letter_language option"
  t_has_unsubscribe_link :: bool
  t_service_id :: uuid
  t_created_by_id :: uuid
  t_version :: int
  t_service_letter_contact_id :: "uuid option"
  t_letter_attachment_id :: "uuid option"
  t_folder :: "uuid option"

definition template_row_ok :: "template \<Rightarrow> bool" where
  \<comment> \<open>the check constraints of \<open>templates\<close> and \<open>templates_history\<close>\<close>
  "template_row_ok t \<longleftrightarrow>
     (t_type t = Letter \<or> t_letter_attachment_id t = None)
     \<and> ((t_type t \<noteq> Letter \<and> t_letter_languages t = None)
        \<or> (t_type t = Letter \<and> t_letter_languages t \<noteq> None))
     \<and> (t_type t = Email \<or> \<not> t_has_unsubscribe_link t)"

definition letter_languages_default :: "ntype \<Rightarrow> letter_language option" where
  "letter_languages_default t = (if t = Letter then Some English else None)"

definition template_reply_to :: "template \<Rightarrow> uuid option" where
  "template_reply_to t = (if t_type t = Letter then t_service_letter_contact_id t else None)"

definition set_template_reply_to :: "uuid option \<Rightarrow> template \<Rightarrow> template result" where
  "set_template_reply_to v t =
     (if t_type t = Letter then Inr (t\<lparr>t_service_letter_contact_id := v\<rparr>)
      else if v = None then Inr t
      else Inl (Py (ValueError (''Unable to set sender for '' @ ntype_name (t_type t) @ '' template''))))"

definition PRECOMPILED_TEMPLATE_NAME :: string where
  "PRECOMPILED_TEMPLATE_NAME = ''Pre-compiled PDF''"

definition is_precompiled_letter :: "template \<Rightarrow> bool" where
  "is_precompiled_letter t \<longleftrightarrow>
     t_hidden t \<and> t_name t = PRECOMPILED_TEMPLATE_NAME \<and> t_type t = Letter"

record provider_details =
  p_id :: uuid
  p_display_name :: string
  p_identifier :: string
  p_priority :: int
  p_notification_type :: ntype
  p_active :: bool
  p_version :: int
  p_updated_at :: "time option"
  p_created_by_id :: "uuid option"
  p_supports_international :: bool

record provider_details_history =
  ph_id :: uuid
  ph_display_name :: string
  ph_identifier :: string
  ph_priority :: int
  ph_notification_type :: ntype
  ph_active :: bool
  ph_version :: int
  ph_updated_at :: "time option"
  ph_created_by_id :: "uuid option"
  ph_supports_international :: bool

definition provider_history_from_original :: "provider_details \<Rightarrow> provider_details_history" where
  "provider_history_from_original p =
     \<lparr>ph_id = p_id p, ph_display_name = p_display_name p, ph_identifier = p_identifier p,
      ph_priority = p_priority p, ph_notification_type = p_notification_type p,
      ph_active = p_active p, ph_version = p_version p, ph_updated_at = p_updated_at p,
      ph_created_by_id = p_created_by_id p,
      ph_supports_international = p_supports_international p\<rparr>"

section \<open>Jobs and notifications\<close>

record job =
  j_id :: uuid
  j_original_file_name :: string
  j_service_id :: uuid
  j_template_id :: uuid
  j_template_version :: int
  j_created_at :: time
  j_updated_at :: "time option"
  j_notification_count :: int
  j_notifications_sent :: int
  j_notifications_delivered :: int
  j_notifications_failed :: int
  j_processing_started :: "time option"
  j_processing_finished :: "time option"
  j_created_by_id :: "uuid option"
  j_scheduled_for :: "time option"
  j_job_status :: job_status
  j_archived :: bool
  j_contact_list_id :: "uuid option"

record notification =
  n_id :: uuid
  n_to :: string
  n_normalised_to :: "string option"
  n_job_id :: "uuid option"
  n_job_row_number :: "int option"
  n_service_id :: uuid
  n_template_id :: uuid
  n_template_version :: int
  n_api_key_id :: "uuid option"
  n_key_type :: key_type
  n_billable_units :: int
  n_type :: ntype
  n_created_at :: time
  n_sent_at :: "time option"
  n_sent_by :: "string option"
  n_updated_at :: "time option"
  n_status :: nstatus
  n_reference :: "string option"
  n_client_reference :: "string option"
  n_personalisation :: "string option"
  n_international :: bool
  n_phone_prefix :: "string option"
  n_rate_multiplier :: "rat option"
  n_created_by_id :: "uuid option"
  n_reply_to_text :: "string option"
  n_document_download_count :: "int option"
  n_postage :: "postage option"
  n_unsubscribe_link :: "string option"

definition notification_row_ok :: "notification \<Rightarrow> bool" where
  \<comment> \<open>the table's check constraint\<close>
  "notification_row_ok n \<longleftrightarrow> n_type n = Email \<or> n_unsubscribe_link n = None"

definition job_row :: "notification \<Rightarrow> (uuid \<times> int) option" where
  \<comment> \<open>the columns of the unique constraint; nulls are distinct from everything\<close>
  "job_row n = (case (n_job_id n, n_job_row_number n) of (Some j, Some r) \<Rightarrow> Some (j, r) | _ \<Rightarrow> None)"

definition distinct_job_rows :: "notification list \<Rightarrow> bool" where
  "distinct_job_rows rows \<longleftrightarrow> distinct (filter (\<lambda>x. x \<noteq> None) (map job_row rows))"

record notification_history =
  h_id :: uuid
  h_job_id :: "uuid option"
  h_job_row_number :: "int option"
  h_service_id :: uuid
  h_template_id :: uuid
  h_template_version :: int
  h_api_key_id :: "uuid option"
  h_key_type :: key_type
  h_billable_units :: int
  h_type :: ntype
  h_created_at :: time
  h_sent_at :: "time option"
  h_sent_by :: "string option"
  h_updated_at :: "time option"
  h_status :: nstatus
  h_reference :: "string option"
  h_client_reference :: "string option"
  h_international :: bool
  h_phone_prefix :: "string option"
  h_rate_multiplier :: "rat option"
  h_created_by_id :: "uuid option"
  h_postage :: "postage option"
  h_document_download_count :: "int option"

datatype letter_cost_threshold = Sorted | Unsorted

record letter_despatch =
  ld_notification_id :: uuid
  ld_despatched_on :: date
  ld_cost_threshold :: letter_cost_threshold

section \<open>Rates, facts and records of callbacks\<close>

record sms_rate =
  r_id :: uuid
  r_valid_from :: time
  r_rate :: rat
  r_notification_type :: ntype

record letter_rate =
  lr_id :: uuid
  lr_start_date :: time
  lr_end_date :: "time option"
  lr_sheet_count :: int
  lr_rate :: rat
  lr_crown :: bool
  lr_post_class :: postage

record fact_notification_status =
  fs_bst_date :: date
  fs_template_id :: uuid
  fs_service_id :: uuid
  fs_job_id :: uuid
  fs_notification_type :: ntype
  fs_key_type :: key_type
  fs_notification_status :: nstatus
  fs_notification_count :: int
  fs_created_at :: time
  fs_updated_at :: "time option"

record complaint =
  c_id :: uuid
  c_notification_id :: uuid
  c_service_id :: uuid
  c_ses_feedback_id :: "string option"
  c_complaint_type :: "string option"
  c_complaint_date :: "time option"
  c_created_at :: time

record data_retention =
  dr_id :: uuid
  dr_service_id :: uuid
  dr_notification_type :: ntype
  dr_days_of_retention :: int
  dr_created_at :: time
  dr_updated_at :: "time option"

record inbound_sms =
  is_id :: uuid
  is_created_at :: time
  is_service_id :: uuid
  is_notify_number :: string
  is_user_number :: string
  is_provider_date :: "time option"
  is_provider_reference :: "string option"
  is_provider :: string
  is_content :: string

record inbound_sms_history =
  ih_id :: uuid
  ih_created_at :: time
  ih_service_id :: uuid
  ih_notify_number :: string
  ih_provider_date :: "time option"
  ih_provider_reference :: "string option"
  ih_provider :: string

record returned_letter =
  rtl_id :: uuid
  rtl_reported_at :: date
  rtl_service_id :: uuid
  rtl_notification_id :: uuid
  rtl_created_at :: time
  rtl_updated_at :: "time option"

text \<open>Of the parameter of a report the two keys its schema allows.\<close>

record report_request =
  rr_id :: uuid
  rr_user_id :: uuid
  rr_service_id :: uuid
  rr_status :: report_request_status
  rr_notification_type :: string
  rr_notification_status :: string
  rr_created_at :: time
  rr_updated_at :: "time option"

section \<open>Permissions, organisations and keys to sign in with\<close>

record user_permission =
  pm_service_id :: "uuid option"
  pm_user_id :: uuid
  pm_permission :: permission
  pm_created_at :: time

text \<open>Of an organisation the columns on agreements and branding are left out.\<close>

record organisation =
  o_id :: uuid
  o_name :: string
  o_active :: bool
  o_organisation_type :: "org_type option"
  o_crown :: "bool option"
  o_email_branding_id :: "uuid option"
  o_letter_branding_id :: "uuid option"

record organisation_user_permission =
  op_organisation_id :: uuid
  op_user_id :: uuid
  op_permission :: string

record webauthn_credential =
  wc_id :: uuid
  wc_user_id :: uuid
  wc_name :: string
  wc_credential_data :: string
  wc_registration_response :: string
  wc_created_at :: time
  wc_updated_at :: "time option"
  wc_logged_in_at :: "time option"

section \<open>What belongs to a template\<close>

record template_redacted =
  trd_template_id :: uuid
  trd_redact_personalisation :: bool
  trd_updated_at :: time
  trd_updated_by_id :: uuid

record letter_attachment =
  la_id :: uuid
  la_created_at :: time
  la_created_by_id :: uuid
  la_archived_at :: "time option"
  la_archived_by_id :: "uuid option"
  la_original_filename :: string
  la_page_count :: int

record letter_branding =
  lb_id :: uuid
  lb_name :: string
  lb_filename :: string

section \<open>Billing\<close>

record annual_billing =
  ab_id :: uuid
  ab_service_id :: uuid
  ab_financial_year_start :: int
  ab_free_sms_fragment_limit :: int
  ab_high_volume_service_last_year :: bool
  ab_has_custom_allowance :: bool

record default_annual_allowance =
  da_id :: uuid
  da_valid_from_financial_year_start :: int
  da_organisation_type :: "org_type option"
  da_allowance :: int
  da_notification_type :: ntype

record fact_billing =
  fb_bst_date :: date
  fb_template_id :: uuid
  fb_service_id :: uuid
  fb_notification_type :: ntype
  fb_provider :: string
  fb_rate_multiplier :: int
  fb_international :: bool
  fb_rate :: rat
  fb_postage :: string
  fb_billable_units :: int
  fb_notifications_sent :: int
  fb_updated_at :: "time option"

record fact_letter_despatch =
  fd_bst_date :: date
  fd_postage :: "postage option"
  fd_cost_threshold :: letter_cost_threshold
  fd_rate :: rat
  fd_billable_units :: int
  fd_notifications_sent :: int
  fd_updated_at :: "time option"

section \<open>Unsubscribe requests\<close>

record unsubscribe_request =
  ur_id :: uuid
  ur_notification_id :: uuid
  ur_service_id :: uuid
  ur_template_id :: uuid
  ur_template_version :: int
  ur_email_address :: string
  ur_created_at :: time
  ur_report_id :: "uuid option"

record unsubscribe_report =
  up_id :: uuid
  up_service_id :: uuid
  up_created_at :: "time option"
  up_earliest_timestamp :: time
  up_latest_timestamp :: time
  up_processed_by_service_at :: "time option"
  up_count :: int

record unsubscribe_request_history =
  uh_id :: uuid
  uh_notification_id :: uuid
  uh_service_id :: uuid
  uh_template_id :: uuid
  uh_template_version :: int
  uh_created_at :: time
  uh_report_id :: "uuid option"

definition serialize_for_history :: "unsubscribe_request \<Rightarrow> unsubscribe_request_history" where
  \<comment> \<open>all columns but the email address\<close>
  "serialize_for_history r =
     \<lparr>uh_id = ur_id r, uh_notification_id = ur_notification_id r, uh_service_id = ur_service_id r,
      uh_template_id = ur_template_id r, uh_template_version = ur_template_version r,
      uh_created_at = ur_created_at r, uh_report_id = ur_report_id r\<rparr>"

section \<open>Invitations, requests to join and contact lists\<close>

record invited_user =
  iu_id :: uuid
  iu_email_address :: string
  iu_user_id :: uuid
  iu_service_id :: uuid
  iu_created_at :: time
  iu_status :: invite_status
  iu_permissions :: string
  iu_auth_type :: auth_type
  iu_folder_permissions :: "uuid list"

record invited_org_user =
  io_id :: uuid
  io_email_address :: string
  io_invited_by_id :: uuid
  io_organisation_id :: uuid
  io_permissions :: string
  io_created_at :: time
  io_status :: invite_status

record join_request =
  sj_id :: uuid
  sj_requester_id :: uuid
  sj_service_id :: uuid
  sj_created_at :: time
  sj_status :: join_request_status
  sj_status_changed_at :: "time option"
  sj_status_changed_by_id :: "uuid option"
  sj_reason :: "string option"
  sj_contacted_service_users :: "uuid list"

record contact_list =
  cl_id :: uuid
  cl_original_file_name :: string
  cl_row_count :: int
  cl_template_type :: ntype
  cl_service_id :: uuid
  cl_created_by_id :: "uuid option"
  cl_created_at :: time
  cl_updated_at :: "time option"
  cl_archived :: bool

record fact_processing_time =
  pt_bst_date :: date
  pt_messages_total :: int
  pt_messages_within_10_secs :: int
  pt_created_at :: time
  pt_updated_at :: "time option"

end
