(* ===== verification/World.thy ===== *)
theory World
  imports Models
begin

text \<open>
  The state every component works on and the parameters of the model. A \<open>world\<close> holds the
  database tables, the Redis counters, the S3 objects, the celery messages sent so far and the
  clock. An \<open>env\<close> holds the configuration values and the functions of the libraries the code
  calls; theorems that rely on what such a function does state it as a hypothesis. Queue names
  come from \<open>QueueNames\<close> of \<^verbatim>\<open>app/config.py\<close>. An operation takes the world and returns its result
  and the new world: what it committed, enqueued or stored before raising stays done.
\<close>

section \<open>Celery messages\<close>

datatype queue =
    PERIODIC | DATABASE | SEND_SMS | SEND_EMAIL | SEND_LETTER | RESEARCH_MODE | REPORTING
  | JOBS | RETRY | NOTIFY | CREATE_LETTERS_PDF | CALLBACKS | CALLBACKS_RETRY | LETTERS
  | SES_CALLBACKS | SMS_CALLBACKS | MESSAGEBOX_CALLBACKS | LETTER_CALLBACKS | ANTIVIRUS
  | SANITISE_LETTERS | REPORT_REQUESTS_NOTIFICATIONS

definition all_queues :: "queue list" where
  "all_queues =
     [PERIODIC, DATABASE, SEND_SMS, SEND_EMAIL, SEND_LETTER, RESEARCH_MODE, REPORTING, JOBS,
      RETRY, NOTIFY, CREATE_LETTERS_PDF, CALLBACKS, CALLBACKS_RETRY, LETTERS, SES_CALLBACKS,
      SMS_CALLBACKS, MESSAGEBOX_CALLBACKS, LETTER_CALLBACKS, REPORT_REQUESTS_NOTIFICATIONS]"

definition external_queues :: "queue list" where
  "external_queues = [ANTIVIRUS, SANITISE_LETTERS]"

lemma queues_cover: "set (all_queues @ external_queues) = UNIV"
proof -
  have "q \<in> set (all_queues @ external_queues)" for q
    by (cases q) (simp_all add: all_queues_def external_queues_def)
  then show ?thesis by blast
qed

text \<open>The body \<open>create_delivery_status_callback_data\<close> signs, and the one of a complaint.\<close>

record status_callback_data =
  sc_notification_id :: uuid
  sc_client_reference :: "string option"
  sc_to :: string
  sc_status :: nstatus
  sc_created_at :: time
  sc_updated_at :: "time option"
  sc_sent_at :: "time option"
  sc_type :: ntype
  sc_api_url :: string
  sc_bearer_token :: string
  sc_template_id :: uuid
  sc_template_version :: int

record complaint_callback_data =
  cc_complaint_id :: uuid
  cc_notification_id :: uuid
  cc_reference :: "string option"
  cc_to :: string
  cc_complaint_date :: time
  cc_api_url :: string
  cc_bearer_token :: string

record returned_letter_callback_data =
  rl_notification_id :: uuid
  rl_reference :: "string option"
  rl_created_at :: time
  rl_email_address :: string
  rl_template_name :: "string option"
  rl_template_id :: "uuid option"
  rl_template_version :: "int option"
  rl_original_file_name :: "string option"
  rl_job_row_number :: "int option"
  rl_upload_letter_file_name :: "string option"
  rl_api_url :: string
  rl_bearer_token :: string

text \<open>One row of a job as the recipients library yields it, with what the code reads of it.\<close>

record recipient_row =
  row_index :: int
  row_recipient :: string
  row_personalisation :: personalisation
  row_reference :: "string option"

text \<open>What the message for one row of a job carries, signed, and the arguments around it.\<close>

record job_row_data =
  jr_template :: uuid
  jr_template_version :: int
  jr_job :: uuid
  jr_to :: string
  jr_row_number :: int
  jr_personalisation :: personalisation
  jr_client_reference :: "string option"

record row_task =
  jt_service_id :: uuid
  jt_notification_id :: uuid
  jt_data :: job_row_data
  jt_sender_id :: "uuid option"

text \<open>What the template preview service is sent to make the PDF of a letter from a template.\<close>

record pdf_letter_data =
  pl_letter_contact_block :: "string option"
  pl_service :: uuid
  pl_letter_languages :: "letter_language option"
  pl_subject :: "string option"
  pl_content :: string
  pl_letter_welsh_subject :: "string option"
  pl_letter_welsh_content :: "string option"
  pl_template_type :: ntype
  pl_letter_attachment :: "letter_attachment option"
  pl_values :: "string option"
  pl_logo_filename :: "string option"
  pl_letter_filename :: string
  pl_notification_id :: uuid
  pl_key_type :: key_type

datatype celery_task =
    TDeliverSms uuid | TDeliverEmail uuid | TDeliverLetter uuid
  | TGetPdfForTemplatedLetter uuid | TSanitiseLetter "string option" | TScanFile string
  | TSanitiseAndUploadLetter uuid string bool
  | TCreatePdf pdf_letter_data | TRecreatePdf uuid string bool | TCreateFakeLetterCallback uuid int "postage option"
  | TProcessSesResults string string
  | TShatterDeliverLetterTasks "uuid list"
  | TSendDeliveryStatus status_callback_data uuid
  | TSendComplaint complaint_callback_data
  | TSendReturnedLetter returned_letter_callback_data
  | TProcessSmsClientResponse string "string option" string "string option"
  | TProcessLetterCallback uuid int string letter_cost_threshold date
  | TProcessMessageboxResponse string string string "string option"
  | TProcessJob uuid "uuid option"
  | TShatterJobRows ntype "row_task list"
  | TSaveSms row_task | TSaveEmail row_task | TSaveLetter row_task
  | TProcessIncompleteJobs "uuid list"
  | TDeleteNotifications uuid ntype time
  | TDeleteTestNotifications uuid ntype time
  | TSendInboundSms uuid uuid
  | TCollateLetterPdfs time
  | TDeleteNotificationsByType ntype
  | TArchiveBatchedUnsubscribeRequests uuid | TArchiveOldUnsubscribeRequests uuid
  | TDeleteHistoryBetween time time
  | TFtBillingForDay date | TFtBillingLetterDespatchForDay date
  | TNotificationStatusForServiceAndDay date ntype uuid
  | TZendeskTicket string
  | TProcessReportRequest uuid uuid

section \<open>The world\<close>

text \<open>
  An S3 object is its contents and its metadata, kept under its bucket and key. A bucket is
  named by the configuration key that holds its name.
\<close>

type_synonym s3_object = "string \<times> (string \<times> string) list"

record world =
  w_now :: time
  w_notifications :: "notification list"
  w_history :: "notification_history list"
  w_services :: "service list"
  w_users :: "user list"
  w_user_services :: "(uuid \<times> uuid) list"
  w_guest_list :: "guest_list_entry list"
  w_templates :: "template list"
  w_template_history :: "template list"
  w_api_keys :: "api_key list"
  w_callback_apis :: "service_callback_api list"
  w_sms_senders :: "sms_sender list"
  w_reply_tos :: "email_reply_to list"
  w_letter_contacts :: "letter_contact list"
  w_inbound_numbers :: "inbound_number list"
  w_inbound_sms :: "inbound_sms list"
  w_jobs :: "job list"
  w_despatches :: "letter_despatch list"
  w_providers :: "provider_details list"
  w_provider_history :: "provider_details_history list"
  w_complaints :: "complaint list"
  w_retention :: "data_retention list"
  w_fact_status :: "fact_notification_status list"
  w_verify_codes :: "verify_code list"
  w_folders :: "template_folder list"
  w_returned_letters :: "returned_letter list"
  w_report_requests :: "report_request list"
  w_permissions :: "user_permission list"
  w_organisations :: "organisation list"
  w_user_organisations :: "(uuid \<times> uuid) list"
  w_org_permissions :: "organisation_user_permission list"
  w_webauthn :: "webauthn_credential list"
  w_redacted :: "template_redacted list"
  w_attachments :: "letter_attachment list"
  w_letter_brandings :: "letter_branding list"
  w_api_key_history :: "api_key list"
  w_annual_billing :: "annual_billing list"
  w_default_allowances :: "default_annual_allowance list"
  w_ft_billing :: "fact_billing list"
  w_ft_despatch :: "fact_letter_despatch list"
  w_sms_rates :: "sms_rate list"
  w_letter_rates :: "letter_rate list"
  w_unsubscribe_requests :: "unsubscribe_request list"
  w_unsubscribe_reports :: "unsubscribe_report list"
  w_unsubscribe_history :: "unsubscribe_request_history list"
  w_inbound_history :: "inbound_sms_history list"
  w_service_history :: "service list"
  w_invited_users :: "invited_user list"
  w_invited_org_users :: "invited_org_user list"
  w_join_requests :: "join_request list"
  w_contact_lists :: "contact_list list"
  w_processing_times :: "fact_processing_time list"
  w_domains :: "(string \<times> uuid) list"
  w_organisation_permissions :: "(uuid \<times> string) list"
  w_email_branding_pool :: "(uuid \<times> uuid) list"
  w_letter_branding_pool :: "(uuid \<times> uuid) list"
  w_redis :: "(string \<times> int) list"
  w_tasks :: "(queue \<times> celery_task) list"
  w_s3 :: "((string \<times> string) \<times> s3_object) list"
  w_uuids :: nat

text \<open>
  \<open>lib_retry retries max_retries exc\<close> is what celery's \<open>Task.retry\<close> raises after so many retries; the
  hypothesis \<open>celery_retry\<close> of some theorems is what its documentation says: the retry exception
  while retries are left, then the exception it was given or else \<open>MaxRetriesExceededError\<close>.
  \<open>create_uuid\<close> takes the next value of a supply, \<open>lib_uuid\<close>.\<close>

record env =
  cfg_redis_enabled :: bool
  cfg_api_rate_limit_enabled :: bool
  cfg_antivirus_enabled :: bool
  cfg_sms_resting_points :: "(string \<times> int) list"
  cfg_page_size :: nat
  cfg_from_number :: string
  lib_uuid :: "nat \<Rightarrow> uuid"
  lib_utc_to_bst :: "time \<Rightarrow> time"
  lib_bst_to_utc :: "time \<Rightarrow> time"
  lib_london_to_utc :: "time \<Rightarrow> time"
  lib_letter_processing_deadline :: time
  lib_daily_limit_key :: "date \<Rightarrow> uuid \<Rightarrow> string \<Rightarrow> string"
  lib_rate_limit_key :: "uuid \<Rightarrow> key_type \<Rightarrow> string"
  lib_exceeded_rate_limit :: "string \<Rightarrow> int \<Rightarrow> int \<Rightarrow> time \<Rightarrow> bool"
  lib_dlr :: "string \<Rightarrow> string option option"
  lib_retry :: "nat \<Rightarrow> nat \<Rightarrow> exn option \<Rightarrow> exn"
  lib_validate_email :: "string \<Rightarrow> string result"
  lib_national_number :: "string \<Rightarrow> string result"
  lib_normalised_phone :: "string \<Rightarrow> string result"

definition celery_retry :: "env \<Rightarrow> bool" where
  "celery_retry env \<longleftrightarrow>
     (\<forall>retries limit exc.
        if retries < limit then \<exists>m. lib_retry env retries limit exc = Task (CeleryRetry m)
        else lib_retry env retries limit exc =
               (case exc of None \<Rightarrow> Task MaxRetriesExceededError | Some e \<Rightarrow> e))"

text \<open>
  A concrete environment, notification and (empty) world, used to evaluate the model: London is
  an hour ahead of UTC.
\<close>

definition sample_env :: env where
  "sample_env =
     \<lparr>cfg_redis_enabled = True, cfg_api_rate_limit_enabled = True, cfg_antivirus_enabled = True,
      cfg_sms_resting_points = [(''mmg'', 51), (''firetext'', 49)], cfg_page_size = 50,
      cfg_from_number = ''NOTIFY'', lib_uuid = (\<lambda>n. 1000 + n),
      lib_utc_to_bst = (\<lambda>t. t + minutes 60), lib_bst_to_utc = (\<lambda>t. t - minutes 60),
      lib_london_to_utc = (\<lambda>t. t - minutes 60),
      lib_letter_processing_deadline = minutes (17 * 60 + 30),
      lib_daily_limit_key = (\<lambda>d s t. int_str d @ ''-'' @ nat_str s @ ''-'' @ t),
      lib_rate_limit_key = (\<lambda>s k. nat_str s @ ''-'' @ key_type_name k),
      lib_exceeded_rate_limit = (\<lambda>k l i t. False),
      lib_dlr = (\<lambda>prefix. if prefix = ''1'' then Some (Some ''NO'') else Some (Some ''YES'')),
      lib_retry = (\<lambda>retries limit exc.
        if retries < limit then Task (CeleryRetry [])
        else (case exc of None \<Rightarrow> Task MaxRetriesExceededError | Some e \<Rightarrow> e)),
      lib_validate_email = (\<lambda>e. Inr e), lib_national_number = (\<lambda>n. Inr n),
      lib_normalised_phone = (\<lambda>n. Inr n)\<rparr>"

definition sample_notification :: notification where
  "sample_notification =
     \<lparr>n_id = 1, n_to = ''447900900123'', n_normalised_to = None, n_job_id = None,
      n_job_row_number = None, n_service_id = 10, n_template_id = 20, n_template_version = 1,
      n_api_key_id = None, n_key_type = NormalKey, n_billable_units = 2, n_type = Sms,
      n_created_at = 90000000000, n_sent_at = None, n_sent_by = None, n_updated_at = None,
      n_status = Delivered, n_reference = None, n_client_reference = None,
      n_personalisation = None, n_international = False, n_phone_prefix = None,
      n_rate_multiplier = Some 1, n_created_by_id = None, n_reply_to_text = None,
      n_document_download_count = None, n_postage = None, n_unsubscribe_link = None\<rparr>"

lemma sample_celery_retry [simp]: "celery_retry sample_env"
  by (auto simp: celery_retry_def sample_env_def)

lemma sample_notification_fields [simp]:
  "n_id sample_notification = 1" "n_service_id sample_notification = 10"
  "n_template_id sample_notification = 20" "n_status sample_notification = Delivered"
  "n_type sample_notification = Sms" "n_key_type sample_notification = NormalKey"
  "n_created_at sample_notification = 90000000000" "n_sent_by sample_notification = None"
  "n_client_reference sample_notification = None" "n_normalised_to sample_notification = None"
  "n_international sample_notification = False" "n_billable_units sample_notification = 2"
  "n_job_id sample_notification = None" "n_updated_at sample_notification = None"
  "n_reference sample_notification = None" "n_to sample_notification = ''447900900123''"
  by (simp_all add: sample_notification_def)

definition sample_world :: world where
  "sample_world =
     \<lparr>w_now = 0, w_notifications = [], w_history = [], w_services = [], w_users = [],
      w_user_services = [], w_guest_list = [], w_templates = [],
      w_template_history = [], w_api_keys = [],
      w_callback_apis = [], w_sms_senders = [], w_reply_tos = [], w_letter_contacts = [],
      w_inbound_numbers = [], w_inbound_sms = [], w_jobs = [], w_despatches = [],
      w_providers = [], w_provider_history = [], w_complaints = [], w_retention = [],
      w_fact_status = [], w_verify_codes = [], w_folders = [], w_returned_letters = [],
      w_report_requests = [],
      w_permissions = [], w_organisations = [], w_user_organisations = [],
      w_org_permissions = [], w_webauthn = [], w_redacted = [],
      w_attachments = [], w_letter_brandings = [], w_api_key_history = [],
      w_annual_billing = [], w_default_allowances = [], w_ft_billing = [],
      w_ft_despatch = [], w_sms_rates = [], w_letter_rates = [],
      w_unsubscribe_requests = [], w_unsubscribe_reports = [],
      w_unsubscribe_history = [], w_inbound_history = [], w_service_history = [],
      w_invited_users = [], w_invited_org_users = [], w_join_requests = [], w_contact_lists = [],
      w_processing_times = [], w_domains = [], w_organisation_permissions = [],
      w_email_branding_pool = [], w_letter_branding_pool = [],
      w_redis = [], w_tasks = [],
      w_s3 = [], w_uuids = 0\<rparr>"

type_synonym 'a op = "world \<Rightarrow> 'a result \<times> world"

definition op_return :: "'a \<Rightarrow> 'a op" where
  "op_return x w = (Inr x, w)"

definition op_raise :: "exn \<Rightarrow> 'a op" where
  "op_raise e w = (Inl e, w)"

definition op_bind :: "'a op \<Rightarrow> ('a \<Rightarrow> 'b op) \<Rightarrow> 'b op" where
  "op_bind m f w = (case m w of (Inl e, w') \<Rightarrow> (Inl e, w') | (Inr x, w') \<Rightarrow> f x w')"

definition op_lift :: "'a result \<Rightarrow> 'a op" where
  "op_lift r w = (r, w)"

lemma op_bind_simps [simp]:
  "m w = (Inl e, w') \<Longrightarrow> op_bind m f w = (Inl e, w')"
  "m w = (Inr x, w') \<Longrightarrow> op_bind m f w = f x w'"
  by (simp_all add: op_bind_def)

fun op_iter :: "('a \<Rightarrow> unit op) \<Rightarrow> 'a list \<Rightarrow> unit op" where
  \<comment> \<open>a loop whose body may raise: it stops at the first exception\<close>
  "op_iter f [] w = (Inr (), w)"
| "op_iter f (x # xs) w =
     (case f x w of (Inl e, w') \<Rightarrow> (Inl e, w') | (Inr _, w') \<Rightarrow> op_iter f xs w')"

lemma op_iter_invariant:
  assumes "I w" and "\<And>x v. x \<in> set xs \<Longrightarrow> I v \<Longrightarrow> I (snd (f x v))"
  shows "I (snd (op_iter f xs w))"
  using assms
proof (induction xs arbitrary: w)
  case Nil
  then show ?case by simp
next
  case (Cons x xs)
  have step: "I (snd (f x w))" by (rule Cons.prems(2)) (use Cons.prems in simp_all)
  show ?case
  proof (cases "f x w")
    case (Pair r v)
    then show ?thesis
      using step Cons.IH [of v] Cons.prems(2) by (cases r) simp_all
  qed
qed

definition enqueue :: "queue \<Rightarrow> celery_task \<Rightarrow> world \<Rightarrow> world" where
  "enqueue q t w = w\<lparr>w_tasks := w_tasks w @ [(q, t)]\<rparr>"

definition create_uuid :: "env \<Rightarrow> world \<Rightarrow> uuid \<times> world" where
  "create_uuid env w = (lib_uuid env (w_uuids w), w\<lparr>w_uuids := Suc (w_uuids w)\<rparr>)"

text \<open>The calls of the Redis client; expiry times are left out.\<close>

definition redis_get :: "string \<Rightarrow> world \<Rightarrow> int option" where
  "redis_get k w = map_of (w_redis w) k"

definition redis_set :: "string \<Rightarrow> int \<Rightarrow> world \<Rightarrow> world" where
  "redis_set k v w = w\<lparr>w_redis := dict_set k v (w_redis w)\<rparr>"

definition redis_incrby :: "string \<Rightarrow> int \<Rightarrow> world \<Rightarrow> world" where
  "redis_incrby k n w =
     redis_set k ((case redis_get k w of None \<Rightarrow> 0 | Some v \<Rightarrow> v) + n) w"

lemma redis_get_set [simp]: "redis_get k (redis_set k' v w) = (if k = k' then Some v else redis_get k w)"
  by (simp add: redis_get_def redis_set_def)

section \<open>Transactions\<close>

text \<open>
  \<open>db.session.rollback()\<close> restores the tables of the last commit and nothing else: messages
  already sent, Redis and S3 keep their new contents. \<open>autocommit\<close> of
  \<^verbatim>\<open>app/dao/dao_utils.py\<close> commits when the decorated function returns, and rolls back and
  raises again when it raises.
\<close>

definition rollback_to :: "world \<Rightarrow> world \<Rightarrow> world" where
  "rollback_to w0 w =
     w0\<lparr>w_redis := w_redis w, w_tasks := w_tasks w, w_s3 := w_s3 w, w_uuids := w_uuids w,
        w_now := w_now w\<rparr>"

definition autocommit :: "'a op \<Rightarrow> 'a op" where
  "autocommit f w =
     (case f w of (Inr x, w') \<Rightarrow> (Inr x, w') | (Inl e, w') \<Rightarrow> (Inl e, rollback_to w w'))"

lemma autocommit_return [simp]: "f w = (Inr x, w') \<Longrightarrow> autocommit f w = (Inr x, w')"
  by (simp add: autocommit_def)

lemma autocommit_raise [simp]:
  "f w = (Inl e, w') \<Longrightarrow> autocommit f w = (Inl e, rollback_to w w')"
  by (simp add: autocommit_def)

lemma autocommit_fst [simp]: "fst (autocommit f w) = fst (f w)"
  by (cases "f w", cases "fst (f w)") (auto simp: autocommit_def split: sum.splits)

lemma rollback_to_notifications [simp]:
  "w_notifications (rollback_to w0 w) = w_notifications w0"
  "w_history (rollback_to w0 w) = w_history w0"
  "w_jobs (rollback_to w0 w) = w_jobs w0"
  "w_tasks (rollback_to w0 w) = w_tasks w"
  "w_redis (rollback_to w0 w) = w_redis w"
  by (simp_all add: rollback_to_def)

lemma rollback_to_same [simp]: "rollback_to w w = w"
  by (simp add: rollback_to_def)

end
