(* ===== verification/Senders.thy ===== *)
theory Senders
  imports World
begin

text \<open>
  The senders of a service: its text message senders (\<^verbatim>\<open>app/dao/service_sms_sender_dao.py\<close>), email
  reply-to addresses (\<^verbatim>\<open>app/dao/service_email_reply_to_dao.py\<close>) and letter contact blocks
  (\<^verbatim>\<open>app/dao/service_letter_contact_dao.py\<close>), one of each kind being the default, and the inbound
  numbers (\<^verbatim>\<open>app/dao/inbound_numbers_dao.py\<close>), data retention and guest list of a service. The
  locale \<open>default_rows\<close> holds what the three kinds of sender share.
\<close>

section \<open>Tables with a default row\<close>

definition live_row :: "('r \<Rightarrow> uuid) \<Rightarrow> ('r \<Rightarrow> bool) \<Rightarrow> uuid \<Rightarrow> 'r \<Rightarrow> bool" where
  "live_row service archived sid r \<longleftrightarrow> service r = sid \<and> \<not> archived r"

definition one_default ::
  "('r \<Rightarrow> uuid) \<Rightarrow> ('r \<Rightarrow> bool) \<Rightarrow> ('r \<Rightarrow> bool) \<Rightarrow> 'r list \<Rightarrow> bool" where
  \<comment> \<open>a service with senders has exactly one default\<close>
  "one_default service archived is_default rows \<longleftrightarrow>
     (\<forall>sid. list_ex (live_row service archived sid) rows \<longrightarrow>
        (\<exists>!r. r \<in> set rows \<and> live_row service archived sid r \<and> is_default r))"

definition at_most_one_default ::
  "('r \<Rightarrow> uuid) \<Rightarrow> ('r \<Rightarrow> bool) \<Rightarrow> ('r \<Rightarrow> bool) \<Rightarrow> 'r list \<Rightarrow> bool" where
  "at_most_one_default service archived is_default rows \<longleftrightarrow>
     (\<forall>sid. \<exists>\<^sub>\<le>\<^sub>1r. r \<in> set rows \<and> live_row service archived sid r \<and> is_default r)"

definition default_first :: "('r \<Rightarrow> bool) \<Rightarrow> 'r list \<Rightarrow> 'r list" where
  \<comment> \<open>\<open>order_by(desc(is_default))\<close>\<close>
  "default_first is_default rows = sort_key (\<lambda>r. if is_default r then 0 else 1 :: nat) rows"

lemma set_default_first [simp]: "set (default_first d rows) = set rows"
  by (simp add: default_first_def)

definition touched :: "('r \<Rightarrow> 'r) \<Rightarrow> 'r \<Rightarrow> 'r \<Rightarrow> 'r" where
  \<comment> \<open>\<open>onupdate\<close>: the time is set when a column of the stored row changes\<close>
  "touched stamp old new = (if new = old then new else stamp new)"

section \<open>Text message senders\<close>

definition stamp_sender :: "world \<Rightarrow> sms_sender \<Rightarrow> sms_sender" where
  "stamp_sender w r = r\<lparr>ss_updated_at := Some (w_now w)\<rparr>"

definition save_sender :: "sms_sender \<Rightarrow> world \<Rightarrow> world" where
  "save_sender r w = w\<lparr>w_sms_senders := save_row ss_id r (w_sms_senders w)\<rparr>"

definition new_sms_sender ::
  "env \<Rightarrow> uuid \<Rightarrow> string \<Rightarrow> bool \<Rightarrow> uuid option \<Rightarrow> world \<Rightarrow> sms_sender \<times> world" where
  "new_sms_sender env service_id text is_default inbound_number_id w =
     (let (i, w1) = create_uuid env w;
          r = \<lparr>ss_id = i, ss_sms_sender = text, ss_service_id = service_id,
               ss_is_default = is_default, ss_archived = False,
               ss_inbound_number_id = inbound_number_id, ss_created_at = w_now w,
               ss_updated_at = None\<rparr>
      in (r, save_sender r w1))"

definition insert_service_sms_sender :: "env \<Rightarrow> uuid \<Rightarrow> string \<Rightarrow> world \<Rightarrow> world" where
  "insert_service_sms_sender env service_id text w =
     snd (new_sms_sender env service_id text True None w)"

definition dao_get_service_sms_senders_by_id :: "uuid \<Rightarrow> uuid \<Rightarrow> world \<Rightarrow> sms_sender result" where
  "dao_get_service_sms_senders_by_id service_id i w =
     query_one (Db NoResultFound) (Db MultipleResultsFound)
       (\<lambda>r. ss_id r = i \<and> ss_service_id r = service_id \<and> \<not> ss_archived r) (w_sms_senders w)"

definition dao_get_sms_senders_by_service_id :: "uuid \<Rightarrow> world \<Rightarrow> sms_sender list" where
  "dao_get_sms_senders_by_service_id service_id w =
     default_first ss_is_default
       (filter (live_row ss_service_id ss_archived service_id) (w_sms_senders w))"

definition sms_existing_default :: "uuid \<Rightarrow> world \<Rightarrow> sms_sender option result" where
  "sms_existing_default service_id w =
     (case dao_get_sms_senders_by_service_id service_id w of
        [] \<Rightarrow> Inr None
      | rs \<Rightarrow>
          (case filter ss_is_default rs of
             [d] \<Rightarrow> Inr (Some d)
           | ds \<Rightarrow> Inl (py_exception
                     (''There should only be one default sms sender for each service. Service ''
                      @ nat_str service_id @ '' has '' @ nat_str (length ds)))))"

definition sms_reset_old_default :: "sms_sender option \<Rightarrow> world \<Rightarrow> world" where
  "sms_reset_old_default old w =
     (case old of
        None \<Rightarrow> w
      | Some d \<Rightarrow> save_sender (stamp_sender w (d\<lparr>ss_is_default := False\<rparr>)) w)"

definition dao_add_sms_sender_for_service ::
  "env \<Rightarrow> uuid \<Rightarrow> string \<Rightarrow> bool \<Rightarrow> uuid option \<Rightarrow> sms_sender op" where
  "dao_add_sms_sender_for_service env service_id text is_default inbound_number_id =
     autocommit (\<lambda>w.
       case sms_existing_default service_id w of
         Inl e \<Rightarrow> (Inl e, w)
       | Inr old \<Rightarrow>
           if \<not> is_default \<and> old = None
           then (Inl (py_exception ''You must have at least one SMS sender as the default.''), w)
           else
             (let w1 = (if is_default then sms_reset_old_default old w else w);
                  (r, w2) = new_sms_sender env service_id text is_default inbound_number_id w1
              in (Inr r, w2)))"

definition dao_update_service_sms_sender ::
  "uuid \<Rightarrow> uuid \<Rightarrow> bool \<Rightarrow> string option \<Rightarrow> sms_sender op" where
  \<comment> \<open>the row is fetched by its id alone\<close>
  "dao_update_service_sms_sender service_id i is_default text =
     autocommit (\<lambda>w.
       case sms_existing_default service_id w of
         Inl e \<Rightarrow> (Inl e, w)
       | Inr old \<Rightarrow>
           if \<not> is_default \<and> old = None then (Inl (Py AttributeError), w)
           else if \<not> is_default \<and> map_option ss_id old = Some i
           then (Inl (py_exception ''You must have at least one SMS sender as the default''), w)
           else
             (let w1 = (if is_default then sms_reset_old_default old w else w)
              in case find_row ss_id i (w_sms_senders w) of
                   None \<Rightarrow> (Inl (Py AttributeError), w1)
                 | Some r \<Rightarrow>
                     (let r1 = r\<lparr>ss_is_default := is_default\<rparr>;
                          r2 = (if ss_inbound_number_id r = None \<and> text \<notin> {None, Some []}
                                then r1\<lparr>ss_sms_sender := the text\<rparr> else r1);
                          r3 = touched (stamp_sender w) r r2
                      in (Inr r3, save_sender r3 w1))))"

definition update_existing_sms_sender_with_inbound_number ::
  "sms_sender \<Rightarrow> string \<Rightarrow> uuid \<Rightarrow> world \<Rightarrow> sms_sender \<times> world" where
  "update_existing_sms_sender_with_inbound_number r text inbound_number_id w =
     (let r' = touched (stamp_sender w) r
            (r\<lparr>ss_sms_sender := text, ss_inbound_number_id := Some inbound_number_id\<rparr>)
      in (r', save_sender r' w))"

definition archive_sms_sender :: "uuid \<Rightarrow> uuid \<Rightarrow> sms_sender op" where
  "archive_sms_sender service_id i =
     autocommit (\<lambda>w.
       case query_one (Db NoResultFound) (Db MultipleResultsFound)
              (\<lambda>r. ss_id r = i \<and> ss_service_id r = service_id) (w_sms_senders w) of
         Inl e \<Rightarrow> (Inl e, w)
       | Inr r \<Rightarrow>
           if ss_inbound_number_id r \<noteq> None
           then (Inl (ArchiveValidationError ''You cannot delete an inbound number''), w)
           else if ss_is_default r
           then (Inl (ArchiveValidationError ''You cannot delete a default sms sender''), w)
           else
             (let r' = touched (stamp_sender w) r (r\<lparr>ss_archived := True\<rparr>)
              in (Inr r', save_sender r' w)))"

definition dao_remove_inbound_sms_senders :: "uuid \<Rightarrow> world \<Rightarrow> nat \<times> world" where
  "dao_remove_inbound_sms_senders service_id w =
     (let p = (\<lambda>r. ss_service_id r = service_id \<and> ss_inbound_number_id r \<noteq> None)
      in (length (filter p (w_sms_senders w)),
          w\<lparr>w_sms_senders := delete_rows p (w_sms_senders w)\<rparr>))"

definition update_service_sms_sender :: "uuid \<Rightarrow> uuid \<Rightarrow> bool \<Rightarrow> string \<Rightarrow> sms_sender op" where
  \<comment> \<open>the endpoint, with a valid form\<close>
  "update_service_sms_sender service_id i is_default text w =
     (case dao_get_service_sms_senders_by_id service_id i w of
        Inl e \<Rightarrow> (Inl e, w)
      | Inr r \<Rightarrow>
          if ss_inbound_number_id r \<noteq> None \<and> text \<noteq> ss_sms_sender r
          then (Inl (invalid_request
                  (''You can not change the inbound number for service '' @ nat_str service_id) 400), w)
          else dao_update_service_sms_sender service_id i is_default (Some text) w)"

section \<open>Email reply-to addresses\<close>

definition stamp_reply_to :: "world \<Rightarrow> email_reply_to \<Rightarrow> email_reply_to" where
  "stamp_reply_to w r = r\<lparr>rt_updated_at := Some (w_now w)\<rparr>"

definition save_reply_to :: "email_reply_to \<Rightarrow> world \<Rightarrow> world" where
  "save_reply_to r w = w\<lparr>w_reply_tos := save_row rt_id r (w_reply_tos w)\<rparr>"

definition default_then_newest :: "('r \<Rightarrow> bool) \<Rightarrow> ('r \<Rightarrow> time) \<Rightarrow> 'r list \<Rightarrow> 'r list" where
  \<comment> \<open>\<open>order_by(desc(is_default), desc(created_at))\<close>\<close>
  "default_then_newest is_default created rows =
     default_first is_default (sort_key (\<lambda>r. - created r) rows)"

lemma set_default_then_newest [simp]: "set (default_then_newest d c rows) = set rows"
  by (simp add: default_then_newest_def)

definition dao_get_reply_to_by_service_id :: "uuid \<Rightarrow> world \<Rightarrow> email_reply_to list" where
  "dao_get_reply_to_by_service_id service_id w =
     default_then_newest rt_is_default rt_created_at
       (filter (live_row rt_service_id rt_archived service_id) (w_reply_tos w))"

definition dao_get_reply_to_by_id :: "uuid \<Rightarrow> uuid option \<Rightarrow> world \<Rightarrow> email_reply_to result" where
  "dao_get_reply_to_by_id i service_id w =
     query_one (Db NoResultFound) (Db MultipleResultsFound)
       (\<lambda>r. rt_id r = i \<and> \<not> rt_archived r
            \<and> (case service_id of None \<Rightarrow> True | Some s \<Rightarrow> rt_service_id r = s)) (w_reply_tos w)"

definition reply_to_existing_default :: "uuid \<Rightarrow> world \<Rightarrow> email_reply_to option result" where
  "reply_to_existing_default service_id w =
     (case dao_get_reply_to_by_service_id service_id w of
        [] \<Rightarrow> Inr None
      | rs \<Rightarrow>
          (case filter rt_is_default rs of
             [d] \<Rightarrow> Inr (Some d)
           | ds \<Rightarrow> Inl (py_exception
                     (''There should only be one default reply to email for each service. Service ''
                      @ nat_str service_id @ '' has '' @ nat_str (length ds)))))"

definition reply_to_reset_old_default :: "email_reply_to option \<Rightarrow> world \<Rightarrow> world" where
  "reply_to_reset_old_default old w =
     (case old of
        None \<Rightarrow> w
      | Some d \<Rightarrow> save_reply_to (stamp_reply_to w (d\<lparr>rt_is_default := False\<rparr>)) w)"

definition no_default_reply_to :: exn where
  "no_default_reply_to =
     invalid_request ''You must have at least one reply to email address as the default.'' 400"

definition new_reply_to ::
  "env \<Rightarrow> uuid \<Rightarrow> string \<Rightarrow> bool \<Rightarrow> world \<Rightarrow> email_reply_to \<times> world" where
  "new_reply_to env service_id email is_default w =
     (let (i, w1) = create_uuid env w;
          r = \<lparr>rt_id = i, rt_service_id = service_id, rt_email_address = email,
               rt_is_default = is_default, rt_archived = False, rt_created_at = w_now w,
               rt_updated_at = None\<rparr>
      in (r, save_reply_to r w1))"

definition add_reply_to_email_address_for_service ::
  "env \<Rightarrow> uuid \<Rightarrow> string \<Rightarrow> bool \<Rightarrow> email_reply_to op" where
  "add_reply_to_email_address_for_service env service_id email is_default =
     autocommit (\<lambda>w.
       case reply_to_existing_default service_id w of
         Inl e \<Rightarrow> (Inl e, w)
       | Inr old \<Rightarrow>
           if \<not> is_default \<and> old = None then (Inl no_default_reply_to, w)
           else
             (let w1 = (if is_default then reply_to_reset_old_default old w else w);
                  (r, w2) = new_reply_to env service_id email is_default w1
              in (Inr r, w2)))"

definition update_reply_to_email_address ::
  "uuid \<Rightarrow> uuid \<Rightarrow> string \<Rightarrow> bool \<Rightarrow> email_reply_to op" where
  \<comment> \<open>the row is fetched by its id alone\<close>
  "update_reply_to_email_address service_id i email is_default =
     autocommit (\<lambda>w.
       case reply_to_existing_default service_id w of
         Inl e \<Rightarrow> (Inl e, w)
       | Inr old \<Rightarrow>
           if \<not> is_default \<and> old = None then (Inl (Py AttributeError), w)
           else if \<not> is_default \<and> map_option rt_id old = Some i then (Inl no_default_reply_to, w)
           else
             (let w1 = (if is_default then reply_to_reset_old_default old w else w)
              in case find_row rt_id i (w_reply_tos w) of
                   None \<Rightarrow> (Inl (Py AttributeError), w1)
                 | Some r \<Rightarrow>
                     (let r' = touched (stamp_reply_to w) r
                            (r\<lparr>rt_email_address := email, rt_is_default := is_default\<rparr>)
                      in (Inr r', save_reply_to r' w1))))"

definition archive_reply_to_email_address :: "uuid \<Rightarrow> uuid \<Rightarrow> email_reply_to op" where
  "archive_reply_to_email_address service_id i =
     autocommit (\<lambda>w.
       case query_one (Db NoResultFound) (Db MultipleResultsFound)
              (\<lambda>r. rt_id r = i \<and> rt_service_id r = service_id) (w_reply_tos w) of
         Inl e \<Rightarrow> (Inl e, w)
       | Inr r \<Rightarrow>
           if rt_is_default r
           then (Inl (ArchiveValidationError
                   ''You cannot delete a default email reply to address''), w)
           else
             (let r' = touched (stamp_reply_to w) r (r\<lparr>rt_archived := True\<rparr>)
              in (Inr r', save_reply_to r' w)))"

section \<open>Letter contact blocks\<close>

definition stamp_contact :: "world \<Rightarrow> letter_contact \<Rightarrow> letter_contact" where
  "stamp_contact w r = r\<lparr>lc_updated_at := Some (w_now w)\<rparr>"

definition save_contact :: "letter_contact \<Rightarrow> world \<Rightarrow> world" where
  "save_contact r w = w\<lparr>w_letter_contacts := save_row lc_id r (w_letter_contacts w)\<rparr>"

definition dao_get_letter_contacts_by_service_id :: "uuid \<Rightarrow> world \<Rightarrow> letter_contact list" where
  "dao_get_letter_contacts_by_service_id service_id w =
     default_then_newest lc_is_default lc_created_at
       (filter (live_row lc_service_id lc_archived service_id) (w_letter_contacts w))"

definition dao_get_letter_contact_by_id :: "uuid \<Rightarrow> uuid \<Rightarrow> world \<Rightarrow> letter_contact result" where
  "dao_get_letter_contact_by_id service_id i w =
     query_one (Db NoResultFound) (Db MultipleResultsFound)
       (\<lambda>r. lc_id r = i \<and> lc_service_id r = service_id \<and> \<not> lc_archived r) (w_letter_contacts w)"

definition contact_existing_default :: "uuid \<Rightarrow> world \<Rightarrow> letter_contact option result" where
  "contact_existing_default service_id w =
     (case filter lc_is_default (dao_get_letter_contacts_by_service_id service_id w) of
        [] \<Rightarrow> Inr None
      | [d] \<Rightarrow> Inr (Some d)
      | ds \<Rightarrow> Inl (py_exception
                (''There should only be one default letter contact for each service. Service ''
                 @ nat_str service_id @ '' has '' @ nat_str (length ds))))"

definition contact_reset_old_default :: "letter_contact option \<Rightarrow> world \<Rightarrow> world" where
  "contact_reset_old_default old w =
     (case old of
        None \<Rightarrow> w
      | Some d \<Rightarrow> save_contact (stamp_contact w (d\<lparr>lc_is_default := False\<rparr>)) w)"

definition new_letter_contact ::
  "env \<Rightarrow> uuid \<Rightarrow> string \<Rightarrow> bool \<Rightarrow> world \<Rightarrow> letter_contact \<times> world" where
  "new_letter_contact env service_id block is_default w =
     (let (i, w1) = create_uuid env w;
          r = \<lparr>lc_id = i, lc_service_id = service_id, lc_contact_block = block,
               lc_is_default = is_default, lc_archived = False, lc_created_at = w_now w,
               lc_updated_at = None\<rparr>
      in (r, save_contact r w1))"

definition add_letter_contact_for_service ::
  "env \<Rightarrow> uuid \<Rightarrow> string \<Rightarrow> bool \<Rightarrow> letter_contact op" where
  "add_letter_contact_for_service env service_id block is_default =
     autocommit (\<lambda>w.
       case contact_existing_default service_id w of
         Inl e \<Rightarrow> (Inl e, w)
       | Inr old \<Rightarrow>
           (let w1 = (if is_default then contact_reset_old_default old w else w);
                (r, w2) = new_letter_contact env service_id block is_default w1
            in (Inr r, w2)))"

definition update_letter_contact :: "uuid \<Rightarrow> uuid \<Rightarrow> string \<Rightarrow> bool \<Rightarrow> letter_contact op" where
  "update_letter_contact service_id i block is_default =
     autocommit (\<lambda>w.
       case contact_existing_default service_id w of
         Inl e \<Rightarrow> (Inl e, w)
       | Inr old \<Rightarrow>
           (let w1 = (if is_default then contact_reset_old_default old w else w)
            in case find_row lc_id i (w_letter_contacts w) of
                 None \<Rightarrow> (Inl (Py AttributeError), w1)
               | Some r \<Rightarrow>
                   (let r' = touched (stamp_contact w) r
                          (r\<lparr>lc_contact_block := block, lc_is_default := is_default\<rparr>)
                    in (Inr r', save_contact r' w1))))"

definition archive_letter_contact :: "uuid \<Rightarrow> uuid \<Rightarrow> letter_contact op" where
  \<comment> \<open>the bulk update of the templates stamps them, too\<close>
  "archive_letter_contact service_id i =
     autocommit (\<lambda>w.
       case query_one (Db NoResultFound) (Db MultipleResultsFound)
              (\<lambda>r. lc_id r = i \<and> lc_service_id r = service_id) (w_letter_contacts w) of
         Inl e \<Rightarrow> (Inl e, w)
       | Inr r \<Rightarrow>
           (let r' = touched (stamp_contact w) r (r\<lparr>lc_archived := True\<rparr>);
                ts = update_rows (\<lambda>t. t_service_letter_contact_id t = Some i)
                  (\<lambda>t. t\<lparr>t_service_letter_contact_id := None, t_updated_at := Some (w_now w)\<rparr>)
                  (w_templates w)
            in (Inr r', save_contact r' (w\<lparr>w_templates := ts\<rparr>))))"

section \<open>Inbound numbers, permissions, retention and guest list\<close>

definition dao_get_available_inbound_numbers :: "world \<Rightarrow> inbound_number list" where
  "dao_get_available_inbound_numbers w =
     filter (\<lambda>r. in_active r \<and> in_service_id r = None) (w_inbound_numbers w)"

definition dao_get_inbound_number_for_service :: "uuid \<Rightarrow> world \<Rightarrow> inbound_number option" where
  "dao_get_inbound_number_for_service service_id w =
     query_first (\<lambda>r. in_service_id r = Some service_id) (w_inbound_numbers w)"

definition dao_get_inbound_number :: "uuid \<Rightarrow> world \<Rightarrow> inbound_number option" where
  "dao_get_inbound_number i w = query_first (\<lambda>r. in_id r = i) (w_inbound_numbers w)"

definition stamp_number :: "world \<Rightarrow> inbound_number \<Rightarrow> inbound_number" where
  "stamp_number w r = r\<lparr>in_updated_at := Some (w_now w)\<rparr>"

definition dao_set_inbound_number_to_service ::
  "uuid \<Rightarrow> inbound_number \<Rightarrow> world \<Rightarrow> world" where
  "dao_set_inbound_number_to_service service_id r w =
     w\<lparr>w_inbound_numbers := save_row in_id
         (touched (stamp_number w) r (r\<lparr>in_service_id := Some service_id\<rparr>)) (w_inbound_numbers w)\<rparr>"

definition dao_set_inbound_number_active_flag :: "uuid \<Rightarrow> bool \<Rightarrow> unit op" where
  "dao_set_inbound_number_active_flag service_id active w =
     (case dao_get_inbound_number_for_service service_id w of
        None \<Rightarrow> (Inl (Py AttributeError), w)
      | Some r \<Rightarrow>
          (Inr (), w\<lparr>w_inbound_numbers := save_row in_id
             (touched (stamp_number w) r (r\<lparr>in_active := active\<rparr>)) (w_inbound_numbers w)\<rparr>))"

definition dao_allocate_number_for_service :: "uuid \<Rightarrow> uuid \<Rightarrow> inbound_number op" where
  \<comment> \<open>the unique constraint on the service is not part of the model\<close>
  "dao_allocate_number_for_service service_id i =
     autocommit (\<lambda>w.
       let free = (\<lambda>r. in_id r = i \<and> in_active r \<and> in_service_id r = None);
           w1 = w\<lparr>w_inbound_numbers := update_rows free
                    (\<lambda>r. stamp_number w (r\<lparr>in_service_id := Some service_id\<rparr>)) (w_inbound_numbers w)\<rparr>
       in if filter free (w_inbound_numbers w) = []
          then (Inl (py_exception (''Inbound number: '' @ nat_str i @ '' is not available'')), w)
          else (case find_row in_id i (w_inbound_numbers w1) of
                  None \<Rightarrow> (Inl (Py AttributeError), w1)
                | Some r \<Rightarrow> (Inr r, w1)))"

definition archive_or_release_inbound_number_for_service ::
  "uuid \<Rightarrow> bool \<Rightarrow> world \<Rightarrow> nat \<times> world" where
  "archive_or_release_inbound_number_for_service service_id archive w =
     (let p = (\<lambda>r. in_service_id r = Some service_id \<and> in_active r)
      in (length (filter p (w_inbound_numbers w)),
          w\<lparr>w_inbound_numbers := update_rows p
              (\<lambda>r. stamp_number w (r\<lparr>in_service_id := None,
                     in_active := (if archive then False else in_active r)\<rparr>)) (w_inbound_numbers w)\<rparr>))"

definition dao_remove_service_permission ::
  "uuid \<Rightarrow> service_permission \<Rightarrow> world \<Rightarrow> world" where
  "dao_remove_service_permission service_id p w =
     w\<lparr>w_services := update_rows (\<lambda>s. svc_id s = service_id)
         (\<lambda>s. s\<lparr>svc_permissions := removeAll p (svc_permissions s)\<rparr>) (w_services w)\<rparr>"

definition dao_add_service_permission ::
  "uuid \<Rightarrow> service_permission \<Rightarrow> unit op" where
  \<comment> \<open>the pair is the primary key\<close>
  "dao_add_service_permission service_id p w =
     (case find_row svc_id service_id (w_services w) of
        None \<Rightarrow> (Inl (Db OtherSQLAlchemyError), w)
      | Some s \<Rightarrow>
          if p \<in> set (svc_permissions s) then (Inl (Db OtherSQLAlchemyError), w)
          else (Inr (), w\<lparr>w_services := update_rows (\<lambda>s. svc_id s = service_id)
                   (\<lambda>s. s\<lparr>svc_permissions := svc_permissions s @ [p]\<rparr>) (w_services w)\<rparr>))"

definition dao_remove_inbound_sms_for_service :: "uuid \<Rightarrow> bool \<Rightarrow> world \<Rightarrow> world" where
  "dao_remove_inbound_sms_for_service service_id archive w =
     snd (archive_or_release_inbound_number_for_service service_id archive
       (snd (dao_remove_inbound_sms_senders service_id
         (dao_remove_service_permission service_id InboundSmsPermission w))))"

definition fetch_service_data_retention_by_id :: "uuid \<Rightarrow> uuid \<Rightarrow> world \<Rightarrow> data_retention option" where
  "fetch_service_data_retention_by_id service_id i w =
     query_first (\<lambda>r. dr_service_id r = service_id \<and> dr_id r = i) (w_retention w)"

definition fetch_service_data_retention_by_notification_type ::
  "uuid \<Rightarrow> ntype \<Rightarrow> world \<Rightarrow> data_retention option" where
  "fetch_service_data_retention_by_notification_type service_id t w =
     query_first (\<lambda>r. dr_service_id r = service_id \<and> dr_notification_type r = t) (w_retention w)"

definition fetch_service_data_retention_for_all_services_by_notification_type ::
  "ntype \<Rightarrow> world \<Rightarrow> data_retention list" where
  "fetch_service_data_retention_for_all_services_by_notification_type t w =
     filter (\<lambda>r. dr_notification_type r = t) (w_retention w)"

definition insert_service_data_retention ::
  "env \<Rightarrow> uuid \<Rightarrow> ntype \<Rightarrow> int \<Rightarrow> data_retention op" where
  \<comment> \<open>one row for a service and a type, by the table's unique constraint\<close>
  "insert_service_data_retention env service_id t days_of_retention w =
     (if fetch_service_data_retention_by_notification_type service_id t w \<noteq> None
      then (Inl (Db OtherSQLAlchemyError), w)
      else
        (let (i, w1) = create_uuid env w;
             r = \<lparr>dr_id = i, dr_service_id = service_id, dr_notification_type = t,
                  dr_days_of_retention = days_of_retention, dr_created_at = w_now w,
                  dr_updated_at = None\<rparr>
         in (Inr r, w1\<lparr>w_retention := w_retention w1 @ [r]\<rparr>)))"

definition update_service_data_retention :: "uuid \<Rightarrow> uuid \<Rightarrow> int \<Rightarrow> world \<Rightarrow> nat \<times> world" where
  "update_service_data_retention i service_id days_of_retention w =
     (let p = (\<lambda>r. dr_id r = i \<and> dr_service_id r = service_id)
      in (length (filter p (w_retention w)),
          w\<lparr>w_retention := update_rows p (\<lambda>r. r\<lparr>dr_days_of_retention := days_of_retention,
              dr_updated_at := Some (w_now w)\<rparr>) (w_retention w)\<rparr>))"

definition dao_fetch_service_guest_list :: "uuid \<Rightarrow> world \<Rightarrow> guest_list_entry list" where
  "dao_fetch_service_guest_list service_id w =
     filter (\<lambda>g. gl_service_id g = service_id) (w_guest_list w)"

definition dao_add_and_commit_guest_list_contacts :: "guest_list_entry list \<Rightarrow> world \<Rightarrow> world" where
  "dao_add_and_commit_guest_list_contacts gs w = w\<lparr>w_guest_list := w_guest_list w @ gs\<rparr>"

definition dao_remove_service_guest_list :: "uuid \<Rightarrow> world \<Rightarrow> nat \<times> world" where
  "dao_remove_service_guest_list service_id w =
     (length (dao_fetch_service_guest_list service_id w),
      w\<lparr>w_guest_list := delete_rows (\<lambda>g. gl_service_id g = service_id) (w_guest_list w)\<rparr>)"

section \<open>The contract of a table with a default row\<close>

locale default_rows =
  fixes key :: "'r \<Rightarrow> uuid" and service :: "'r \<Rightarrow> uuid" and archived is_default :: "'r \<Rightarrow> bool"
    and clear :: "'r \<Rightarrow> 'r"
  assumes clear_key: "key (clear r) = key r"
    and clear_service: "service (clear r) = service r"
    and clear_archived: "archived (clear r) = archived r"
    and clear_default: "\<not> is_default (clear r)"
begin

abbreviation live :: "uuid \<Rightarrow> 'r \<Rightarrow> bool" where
  "live \<equiv> live_row service archived"

definition defaults :: "uuid \<Rightarrow> 'r list \<Rightarrow> 'r set" where
  "defaults sid rows = {r \<in> set rows. live sid r \<and> is_default r}"

definition reset_default :: "'r option \<Rightarrow> 'r list \<Rightarrow> 'r list" where
  "reset_default old rows = (case old of None \<Rightarrow> rows | Some d \<Rightarrow> save_row key (clear d) rows)"

lemma live_clear [simp]: "live sid (clear r) = live sid r"
  by (simp add: live_row_def clear_service clear_archived)

lemma live_service: "live sid r \<Longrightarrow> live sid' r \<longleftrightarrow> sid' = sid"
  by (auto simp: live_row_def)

lemma defaults_append:
  "defaults sid (rows @ [n]) = defaults sid rows \<union> (if live sid n \<and> is_default n then {n} else {})"
  by (auto simp: defaults_def)

lemma defaults_save:
  assumes "distinct_rows key rows"
  shows "defaults sid (save_row key r rows) =
    {x \<in> defaults sid rows. key x \<noteq> key r} \<union> (if live sid r \<and> is_default r then {r} else {})"
  by (auto simp: defaults_def set_save_row_distinct [OF assms])

lemma live_save:
  assumes "distinct_rows key rows" "r0 \<in> set rows" "key r = key r0" "\<And>sid. live sid r = live sid r0"
  shows "list_ex (live sid) (save_row key r rows) = list_ex (live sid) rows"
proof -
  have "x = r0" if "x \<in> set rows" "key x = key r0" for x
    using row_unique [OF assms(1) that(1) assms(2)] that(2) by simp
  then show ?thesis
    using assms(2-4) by (auto simp: list_ex_iff set_save_row_distinct [OF assms(1)])
qed

lemma distinct_reset [simp]: "distinct_rows key (reset_default old rows) = distinct_rows key rows"
  by (simp add: reset_default_def split: option.split)

lemma keys_reset:
  assumes "defaults sid rows = set_option old"
  shows "key ` set (reset_default old rows) = key ` set rows"
proof (cases old)
  case (Some d)
  then have "d \<in> set rows" using assms by (auto simp: defaults_def)
  then show ?thesis using Some by (auto simp: reset_default_def keys_save_row clear_key)
qed (simp add: reset_default_def)

lemma save_new_row:
  assumes "defaults sid rows = set_option old" "key n \<notin> key ` set rows"
  shows "save_row key n (if is_default n then reset_default old rows else rows) =
    (if is_default n then reset_default old rows else rows) @ [n]"
  by (rule map_key_save_row_absent) (simp add: keys_reset [OF assms(1)] assms(2))

lemma defaults_reset:
  assumes "distinct_rows key rows" "defaults sid rows = set_option old"
  shows "defaults sid' (reset_default old rows) = (if sid' = sid then {} else defaults sid' rows)"
proof (cases old)
  case None
  then show ?thesis using assms(2) by (simp add: reset_default_def)
next
  case (Some d)
  then have d: "d \<in> set rows" "live sid d" "defaults sid rows = {d}"
    using assms(2) by (auto simp: defaults_def)
  have "key x \<noteq> key d" if "x \<in> defaults sid' rows" "sid' \<noteq> sid" for x
  proof
    assume "key x = key d"
    then have "x = d" using row_unique [OF assms(1) _ d(1)] that(1) by (simp add: defaults_def)
    then show False using that d(2) by (simp add: defaults_def live_row_def)
  qed
  then show ?thesis
    using Some d by (auto simp: reset_default_def defaults_save [OF assms(1)] clear_key clear_default)
qed

lemma live_reset:
  assumes "distinct_rows key rows" "defaults sid rows = set_option old"
  shows "list_ex (live sid') (reset_default old rows) = list_ex (live sid') rows"
proof (cases old)
  case (Some d)
  then have "d \<in> set rows" using assms(2) by (auto simp: defaults_def)
  then show ?thesis using Some live_save [OF assms(1), of d "clear d"]
    by (simp add: reset_default_def clear_key)
qed (simp add: reset_default_def)

lemma one_default_iff: "one_default service archived is_default rows \<longleftrightarrow>
    (\<forall>sid. list_ex (live sid) rows \<longrightarrow> (\<exists>r. defaults sid rows = {r}))"
  unfolding one_default_def defaults_def set_eq_iff by (simp add: Ex1_def) metis

lemma at_most_iff: "at_most_one_default service archived is_default rows \<longleftrightarrow>
    (\<forall>sid. \<exists>r. defaults sid rows \<subseteq> {r})"
  unfolding at_most_one_default_def defaults_def Uniq_def by (simp add: subset_iff) metis

lemma reset_row:
  assumes "distinct_rows key rows" "defaults sid rows = set_option old" "r0 \<in> set rows"
  obtains x where "x \<in> set (reset_default old rows)" "key x = key r0" "\<And>s. live s x = live s r0"
proof (cases old)
  case None
  then show ?thesis using that [of r0] assms(3) by (simp add: reset_default_def)
next
  case (Some d)
  then have d: "d \<in> set rows" using assms(2) by (auto simp: defaults_def)
  have set: "set (reset_default old rows) = insert (clear d) {x \<in> set rows. key x \<noteq> key d}"
    by (simp add: Some reset_default_def set_save_row_distinct [OF assms(1)] clear_key)
  show ?thesis
  proof (cases "key r0 = key d")
    case True
    then have "r0 = d" using row_unique [OF assms(1,3) d] by simp
    then show ?thesis using that [of "clear d"] set by (simp add: clear_key)
  next
    case False
    then show ?thesis using that [of r0] set assms(3) by simp
  qed
qed

text \<open>Adding a row, making it the default when it is to be.\<close>

lemma defaults_add:
  assumes "distinct_rows key rows" "defaults sid rows = set_option old" "live sid n"
  shows "defaults sid' ((if is_default n then reset_default old rows else rows) @ [n]) =
    (if sid' = sid then (if is_default n then {n} else set_option old) else defaults sid' rows)"
  using assms(2,3) live_service [OF assms(3)]
  by (auto simp: defaults_append defaults_reset [OF assms(1,2)])

lemma one_default_add:
  assumes "distinct_rows key rows" "defaults sid rows = set_option old" "live sid n"
    and "one_default service archived is_default rows" "is_default n \<or> old \<noteq> None"
  shows "one_default service archived is_default
    ((if is_default n then reset_default old rows else rows) @ [n])"
  unfolding one_default_iff
proof (intro allI impI)
  fix sid'
  assume ex: "list_ex (live sid') ((if is_default n then reset_default old rows else rows) @ [n])"
  show "\<exists>r. defaults sid' ((if is_default n then reset_default old rows else rows) @ [n]) = {r}"
  proof (cases "sid' = sid")
    case True
    then show ?thesis using assms(5) unfolding defaults_add [OF assms(1-3)] by (cases old) auto
  next
    case False
    then have "list_ex (live sid') rows"
      using ex live_service [OF assms(3)] by (simp add: live_reset [OF assms(1,2)] split: if_splits)
    then show ?thesis
      using False assms(4) unfolding defaults_add [OF assms(1-3)] by (simp add: one_default_iff)
  qed
qed

lemma at_most_add:
  assumes "distinct_rows key rows" "defaults sid rows = set_option old" "live sid n"
    and "at_most_one_default service archived is_default rows"
  shows "at_most_one_default service archived is_default
    ((if is_default n then reset_default old rows else rows) @ [n])"
  using assms(4) unfolding at_most_iff
  by (cases old) (auto simp: defaults_add [OF assms(1-3)])

text \<open>Changing a row of the service in place.\<close>

lemma defaults_update:
  assumes "distinct_rows key rows" "defaults sid rows = set_option old"
    and "r0 \<in> set rows" "live sid r0" "key r = key r0" "\<And>s. live s r = live s r0"
  shows "defaults sid' (save_row key r (if is_default r then reset_default old rows else rows)) =
    (if sid' = sid then (if is_default r then {r} else {x \<in> set_option old. key x \<noteq> key r0})
     else defaults sid' rows)"
proof -
  have "x = r0" if "x \<in> defaults sid' rows" "key x = key r0" for x
    using row_unique [OF assms(1) _ assms(3)] that by (simp add: defaults_def)
  then have "key x \<noteq> key r0" if "x \<in> defaults sid' rows" "sid' \<noteq> sid" for x
    using that assms(4) by (auto simp: defaults_def live_row_def)
  then show ?thesis
    using assms(2,4) assms(6) live_service [OF assms(4)]
    by (auto simp: defaults_save assms(1,5) defaults_reset [OF assms(1,2)])
qed

lemma live_update:
  assumes "distinct_rows key rows" "defaults sid rows = set_option old"
    and "r0 \<in> set rows" "key r = key r0" "\<And>s. live s r = live s r0"
  shows "list_ex (live sid') (save_row key r (if is_default r then reset_default old rows else rows)) =
    list_ex (live sid') rows"
proof -
  obtain x where "x \<in> set (reset_default old rows)" "key x = key r0" "\<And>s. live s x = live s r0"
    using reset_row [OF assms(1-3)] by blast
  then show ?thesis
    using live_save [of "reset_default old rows" x r sid'] live_save [OF assms(1,3-5)]
    by (simp add: assms(1,4,5) live_reset [OF assms(1,2)])
qed

lemma one_default_update:
  assumes "distinct_rows key rows" "defaults sid rows = set_option old"
    and "r0 \<in> set rows" "live sid r0" "key r = key r0" "\<And>s. live s r = live s r0"
    and "one_default service archived is_default rows"
    and "is_default r \<or> (\<exists>d. old = Some d \<and> key d \<noteq> key r0)"
  shows "one_default service archived is_default
    (save_row key r (if is_default r then reset_default old rows else rows))"
  unfolding one_default_iff live_update [OF assms(1-3,5,6)] defaults_update [OF assms(1-6)]
  using assms(7,8) by (auto simp: one_default_iff)

lemma at_most_update:
  assumes "distinct_rows key rows" "defaults sid rows = set_option old"
    and "r0 \<in> set rows" "live sid r0" "key r = key r0" "\<And>s. live s r = live s r0"
    and "at_most_one_default service archived is_default rows"
  shows "at_most_one_default service archived is_default
    (save_row key r (if is_default r then reset_default old rows else rows))"
  unfolding at_most_iff defaults_update [OF assms(1-6)]
  using assms(7) by (cases old) (auto simp: at_most_iff)

text \<open>Archiving a row.\<close>

lemma defaults_archive:
  assumes "distinct_rows key rows" "r0 \<in> set rows" "key r = key r0" "archived r"
  shows "defaults sid (save_row key r rows) = {x \<in> defaults sid rows. key x \<noteq> key r0}"
  using assms(3,4) by (auto simp: defaults_save [OF assms(1)] live_row_def)

lemma one_default_archive:
  assumes "distinct_rows key rows" "r0 \<in> set rows" "key r = key r0" "archived r"
    and "\<not> is_default r0" "one_default service archived is_default rows"
  shows "one_default service archived is_default (save_row key r rows)"
  unfolding one_default_iff
proof (intro allI impI)
  fix sid
  assume "list_ex (live sid) (save_row key r rows)"
  then have "list_ex (live sid) rows"
    using assms(4) by (auto simp: list_ex_iff set_save_row_distinct [OF assms(1)] live_row_def)
  then obtain d where d: "defaults sid rows = {d}" using assms(6) by (auto simp: one_default_iff)
  then have "d \<in> set rows" "is_default d" by (auto simp: defaults_def)
  then have "key d \<noteq> key r0" using row_unique [OF assms(1) _ assms(2)] assms(5) by metis
  then show "\<exists>r'. defaults sid (save_row key r rows) = {r'}"
    using d by (auto simp: defaults_archive [OF assms(1-4)])
qed

lemma at_most_archive:
  assumes "distinct_rows key rows" "r0 \<in> set rows" "key r = key r0" "archived r"
    and "at_most_one_default service archived is_default rows"
  shows "at_most_one_default service archived is_default (save_row key r rows)"
  using assms(5) unfolding at_most_iff defaults_archive [OF assms(1-4)] by blast

text \<open>
  What an operation may do to the table. With \<open>strict\<close>, a service keeps a default: a row that is
  not the default needs one already, the default itself is not demoted or archived.
\<close>

definition change :: "bool \<Rightarrow> 'r list \<Rightarrow> 'r list \<Rightarrow> bool" where
  "change strict rows rows' \<longleftrightarrow>
     rows' = rows
     \<or> (\<exists>sid old n. defaults sid rows = set_option old \<and> live sid n \<and> key n \<notin> key ` set rows
          \<and> (strict \<longrightarrow> is_default n \<or> old \<noteq> None)
          \<and> rows' = save_row key n (if is_default n then reset_default old rows else rows))
     \<or> (\<exists>sid old r0 r. defaults sid rows = set_option old \<and> r0 \<in> set rows \<and> live sid r0
          \<and> key r = key r0 \<and> (\<forall>s. live s r = live s r0)
          \<and> (strict \<longrightarrow> is_default r \<or> (\<exists>d. old = Some d \<and> key d \<noteq> key r0))
          \<and> rows' = save_row key r (if is_default r then reset_default old rows else rows))
     \<or> (\<exists>r0 r. r0 \<in> set rows \<and> key r = key r0 \<and> archived r \<and> (strict \<longrightarrow> \<not> is_default r0)
          \<and> rows' = save_row key r rows)"

lemma change_refl: "change strict rows rows"
  by (simp add: change_def)

lemma change_add:
  assumes "defaults sid rows = set_option old" "live sid n" "key n \<notin> key ` set rows"
    and "strict \<Longrightarrow> is_default n \<or> old \<noteq> None"
  shows "change strict rows (save_row key n (if is_default n then reset_default old rows else rows))"
  unfolding change_def
  by (rule disjI2, rule disjI1, rule exI [of _ sid], rule exI [of _ old], rule exI [of _ n])
    (use assms in simp)

lemma change_update:
  assumes "defaults sid rows = set_option old" "r0 \<in> set rows" "live sid r0" "key r = key r0"
    and "\<And>s. live s r = live s r0"
    and "strict \<Longrightarrow> is_default r \<or> (\<exists>d. old = Some d \<and> key d \<noteq> key r0)"
  shows "change strict rows (save_row key r (if is_default r then reset_default old rows else rows))"
  unfolding change_def
  by (rule disjI2, rule disjI2, rule disjI1, rule exI [of _ sid], rule exI [of _ old],
      rule exI [of _ r0], rule exI [of _ r]) (use assms in simp)

lemma change_archive:
  assumes "r0 \<in> set rows" "key r = key r0" "archived r" "strict \<Longrightarrow> \<not> is_default r0"
  shows "change strict rows (save_row key r rows)"
  unfolding change_def
  by (rule disjI2, rule disjI2, rule disjI2, rule exI [of _ r0], rule exI [of _ r])
    (use assms in simp)

lemma change_distinct:
  assumes "change strict rows rows'" "distinct_rows key rows"
  shows "distinct_rows key rows'"
  using assms by (auto simp: change_def)

lemma change_one_default:
  assumes "change True rows rows'" "distinct_rows key rows"
    and "one_default service archived is_default rows"
  shows "one_default service archived is_default rows'"
  using assms(1) unfolding change_def
proof (elim disjE exE conjE)
  fix sid old n
  assume "defaults sid rows = set_option old" "live sid n" "key n \<notin> key ` set rows"
    "True \<longrightarrow> is_default n \<or> old \<noteq> None"
    "rows' = save_row key n (if is_default n then reset_default old rows else rows)"
  then show ?thesis
    using one_default_add [OF assms(2) _ _ assms(3)] save_new_row by simp
next
  fix sid old r0 r
  assume "defaults sid rows = set_option old" "r0 \<in> set rows" "live sid r0" "key r = key r0"
    "\<forall>s. live s r = live s r0" "True \<longrightarrow> is_default r \<or> (\<exists>d. old = Some d \<and> key d \<noteq> key r0)"
    "rows' = save_row key r (if is_default r then reset_default old rows else rows)"
  then show ?thesis using one_default_update [OF assms(2) _ _ _ _ _ assms(3)] by blast
next
  fix r0 r
  assume "r0 \<in> set rows" "key r = key r0" "archived r" "True \<longrightarrow> \<not> is_default r0"
    "rows' = save_row key r rows"
  then show ?thesis using one_default_archive [OF assms(2) _ _ _ _ assms(3)] by simp
qed (simp add: assms(3))

lemma change_at_most:
  assumes "change strict rows rows'" "distinct_rows key rows"
    and "at_most_one_default service archived is_default rows"
  shows "at_most_one_default service archived is_default rows'"
  using assms(1) unfolding change_def
proof (elim disjE exE conjE)
  fix sid old n
  assume "defaults sid rows = set_option old" "live sid n" "key n \<notin> key ` set rows"
    "rows' = save_row key n (if is_default n then reset_default old rows else rows)"
  then show ?thesis
    using at_most_add [OF assms(2) _ _ assms(3)] save_new_row by simp
next
  fix sid old r0 r
  assume "defaults sid rows = set_option old" "r0 \<in> set rows" "live sid r0" "key r = key r0"
    "\<forall>s. live s r = live s r0"
    "rows' = save_row key r (if is_default r then reset_default old rows else rows)"
  then show ?thesis using at_most_update [OF assms(2) _ _ _ _ _ assms(3)] by blast
next
  fix r0 r
  assume "r0 \<in> set rows" "key r = key r0" "archived r" "rows' = save_row key r rows"
  then show ?thesis using at_most_archive [OF assms(2) _ _ _ assms(3)] by simp
qed (simp add: assms(3))

end

interpretation sms: default_rows ss_id ss_service_id ss_archived ss_is_default
    "\<lambda>r. stamp_sender w (r\<lparr>ss_is_default := False\<rparr>)" for w
  by unfold_locales (simp_all add: stamp_sender_def)

interpretation reply: default_rows rt_id rt_service_id rt_archived rt_is_default
    "\<lambda>r. stamp_reply_to w (r\<lparr>rt_is_default := False\<rparr>)" for w
  by unfold_locales (simp_all add: stamp_reply_to_def)

interpretation contact: default_rows lc_id lc_service_id lc_archived lc_is_default
    "\<lambda>r. stamp_contact w (r\<lparr>lc_is_default := False\<rparr>)" for w
  by unfold_locales (simp_all add: stamp_contact_def)

section \<open>The three tables\<close>

lemma sole_default:
  assumes "case filter p rs of [] \<Rightarrow> old = None | [d] \<Rightarrow> old = Some d | _ \<Rightarrow> False"
  shows "{x \<in> set rs. p x} = set_option old"
proof -
  have "{x \<in> set rs. p x} = set (filter p rs)" by auto
  also have "\<dots> = set_option old" using assms by (simp del: set_filter split: list.splits)
  finally show ?thesis .
qed

lemma sms_existing_default_defaults:
  assumes "sms_existing_default sid w = Inr old"
  shows "sms.defaults sid (w_sms_senders w) = set_option old"
proof -
  define rs where "rs = dao_get_sms_senders_by_service_id sid w"
  have "sms.defaults sid (w_sms_senders w) = {r \<in> set rs. ss_is_default r}"
    by (auto simp: sms.defaults_def dao_get_sms_senders_by_service_id_def rs_def)
  also have "\<dots> = set_option old"
    by (rule sole_default) (use assms in \<open>auto simp: sms_existing_default_def rs_def [symmetric] split: list.splits\<close>)
  finally show ?thesis .
qed

lemma reply_existing_default_defaults:
  assumes "reply_to_existing_default sid w = Inr old"
  shows "reply.defaults sid (w_reply_tos w) = set_option old"
proof -
  define rs where "rs = dao_get_reply_to_by_service_id sid w"
  have "reply.defaults sid (w_reply_tos w) = {r \<in> set rs. rt_is_default r}"
    by (auto simp: reply.defaults_def dao_get_reply_to_by_service_id_def rs_def)
  also have "\<dots> = set_option old"
    by (rule sole_default) (use assms in \<open>auto simp: reply_to_existing_default_def rs_def [symmetric] split: list.splits\<close>)
  finally show ?thesis .
qed

lemma contact_existing_default_defaults:
  assumes "contact_existing_default sid w = Inr old"
  shows "contact.defaults sid (w_letter_contacts w) = set_option old"
proof -
  define rs where "rs = dao_get_letter_contacts_by_service_id sid w"
  have "contact.defaults sid (w_letter_contacts w) = {r \<in> set rs. lc_is_default r}"
    by (auto simp: contact.defaults_def dao_get_letter_contacts_by_service_id_def rs_def)
  also have "\<dots> = set_option old"
    by (rule sole_default) (use assms in \<open>auto simp: contact_existing_default_def rs_def [symmetric] split: list.splits\<close>)
  finally show ?thesis .
qed

lemma sms_reset_rows:
  "w_sms_senders (sms_reset_old_default old w) = sms.reset_default w old (w_sms_senders w)"
  by (simp add: sms_reset_old_default_def sms.reset_default_def save_sender_def split: option.split)

lemma reply_reset_rows:
  "w_reply_tos (reply_to_reset_old_default old w) = reply.reset_default w old (w_reply_tos w)"
  by (simp add: reply_to_reset_old_default_def reply.reset_default_def save_reply_to_def
      split: option.split)

lemma contact_reset_rows:
  "w_letter_contacts (contact_reset_old_default old w) = contact.reset_default w old (w_letter_contacts w)"
  by (simp add: contact_reset_old_default_def contact.reset_default_def save_contact_def
      split: option.split)

lemma reset_keeps_rest [simp]:
  "w_uuids (sms_reset_old_default o1 w) = w_uuids w"
  "w_uuids (reply_to_reset_old_default o2 w) = w_uuids w"
  "w_uuids (contact_reset_old_default o3 w) = w_uuids w"
  "w_now (sms_reset_old_default o1 w) = w_now w"
  "w_now (reply_to_reset_old_default o2 w) = w_now w"
  "w_now (contact_reset_old_default o3 w) = w_now w"
  by (simp_all add: sms_reset_old_default_def reply_to_reset_old_default_def
      contact_reset_old_default_def save_sender_def save_reply_to_def save_contact_def split: option.split)

definition fresh_uuid :: "env \<Rightarrow> world \<Rightarrow> bool" where
  "fresh_uuid env w \<longleftrightarrow> lib_uuid env (w_uuids w) \<notin> ss_id ` set (w_sms_senders w)
     \<union> rt_id ` set (w_reply_tos w) \<union> lc_id ` set (w_letter_contacts w)"

lemma rollback_senders [simp]:
  "w_sms_senders (rollback_to w w') = w_sms_senders w"
  "w_reply_tos (rollback_to w w') = w_reply_tos w"
  "w_letter_contacts (rollback_to w w') = w_letter_contacts w"
  by (simp_all add: rollback_to_def)

definition senders_ok :: "world \<Rightarrow> bool" where
  \<comment> \<open>exactly one default text message sender and reply-to address, at most one contact block\<close>
  "senders_ok w \<longleftrightarrow>
     distinct_rows ss_id (w_sms_senders w) \<and> distinct_rows rt_id (w_reply_tos w)
     \<and> distinct_rows lc_id (w_letter_contacts w)
     \<and> one_default ss_service_id ss_archived ss_is_default (w_sms_senders w)
     \<and> one_default rt_service_id rt_archived rt_is_default (w_reply_tos w)
     \<and> at_most_one_default lc_service_id lc_archived lc_is_default (w_letter_contacts w)"

lemmas sender_ops =
  dao_add_sms_sender_for_service_def dao_update_service_sms_sender_def archive_sms_sender_def
  add_reply_to_email_address_for_service_def update_reply_to_email_address_def
  archive_reply_to_email_address_def add_letter_contact_for_service_def update_letter_contact_def
  archive_letter_contact_def new_sms_sender_def new_reply_to_def new_letter_contact_def
  save_sender_def save_reply_to_def save_contact_def create_uuid_def

text \<open>An operation leaves the two other tables alone.\<close>

lemma sms_ops_frame [simp]:
  "w_reply_tos (snd (dao_add_sms_sender_for_service env sid t d inb w)) = w_reply_tos w"
  "w_letter_contacts (snd (dao_add_sms_sender_for_service env sid t d inb w)) = w_letter_contacts w"
  "w_reply_tos (snd (dao_update_service_sms_sender sid i d x w)) = w_reply_tos w"
  "w_letter_contacts (snd (dao_update_service_sms_sender sid i d x w)) = w_letter_contacts w"
  "w_reply_tos (snd (archive_sms_sender sid i w)) = w_reply_tos w"
  "w_letter_contacts (snd (archive_sms_sender sid i w)) = w_letter_contacts w"
  by (auto simp: sender_ops autocommit_def Let_def sms_reset_old_default_def rollback_to_def
      split: sum.split option.split)

lemma reply_ops_frame [simp]:
  "w_sms_senders (snd (add_reply_to_email_address_for_service env sid e d w)) = w_sms_senders w"
  "w_letter_contacts (snd (add_reply_to_email_address_for_service env sid e d w)) = w_letter_contacts w"
  "w_sms_senders (snd (update_reply_to_email_address sid i e d w)) = w_sms_senders w"
  "w_letter_contacts (snd (update_reply_to_email_address sid i e d w)) = w_letter_contacts w"
  "w_sms_senders (snd (archive_reply_to_email_address sid i w)) = w_sms_senders w"
  "w_letter_contacts (snd (archive_reply_to_email_address sid i w)) = w_letter_contacts w"
  by (auto simp: sender_ops autocommit_def Let_def reply_to_reset_old_default_def rollback_to_def
      split: sum.split option.split)

lemma contact_ops_frame [simp]:
  "w_sms_senders (snd (add_letter_contact_for_service env sid b d w)) = w_sms_senders w"
  "w_reply_tos (snd (add_letter_contact_for_service env sid b d w)) = w_reply_tos w"
  "w_sms_senders (snd (update_letter_contact sid i b d w)) = w_sms_senders w"
  "w_reply_tos (snd (update_letter_contact sid i b d w)) = w_reply_tos w"
  "w_sms_senders (snd (archive_letter_contact sid i w)) = w_sms_senders w"
  "w_reply_tos (snd (archive_letter_contact sid i w)) = w_reply_tos w"
  by (auto simp: sender_ops autocommit_def Let_def contact_reset_old_default_def rollback_to_def
      split: sum.split option.split)

lemma touched_fields [simp]:
  "ss_id (touched (stamp_sender w) r x) = ss_id x"
  "ss_service_id (touched (stamp_sender w) r x) = ss_service_id x"
  "ss_archived (touched (stamp_sender w) r x) = ss_archived x"
  "ss_is_default (touched (stamp_sender w) r x) = ss_is_default x"
  "rt_id (touched (stamp_reply_to w) s y) = rt_id y"
  "rt_service_id (touched (stamp_reply_to w) s y) = rt_service_id y"
  "rt_archived (touched (stamp_reply_to w) s y) = rt_archived y"
  "rt_is_default (touched (stamp_reply_to w) s y) = rt_is_default y"
  "lc_id (touched (stamp_contact w) c z) = lc_id z"
  "lc_service_id (touched (stamp_contact w) c z) = lc_service_id z"
  "lc_archived (touched (stamp_contact w) c z) = lc_archived z"
  "lc_is_default (touched (stamp_contact w) c z) = lc_is_default z"
  by (simp_all add: touched_def stamp_sender_def stamp_reply_to_def stamp_contact_def)

lemma add_sms_change:
  assumes "lib_uuid env (w_uuids w) \<notin> ss_id ` set (w_sms_senders w)"
  shows "sms.change w True (w_sms_senders w)
    (w_sms_senders (snd (dao_add_sms_sender_for_service env sid t d inb w)))"
proof (cases "sms_existing_default sid w")
  case (Inl e)
  then show ?thesis
    by (simp add: sms.change_refl dao_add_sms_sender_for_service_def autocommit_def)
next
  case (Inr old)
  show ?thesis
  proof (cases "\<not> d \<and> old = None")
    case True
    then show ?thesis using Inr
      by (simp add: sms.change_refl dao_add_sms_sender_for_service_def autocommit_def)
  next
    case False
    define n where "n = \<lparr>ss_id = lib_uuid env (w_uuids w), ss_sms_sender = t, ss_service_id = sid,
      ss_is_default = d, ss_archived = False, ss_inbound_number_id = inb, ss_created_at = w_now w,
      ss_updated_at = None\<rparr>"
    have n: "live_row ss_service_id ss_archived sid n" "ss_is_default n = d"
        "ss_id n \<notin> ss_id ` set (w_sms_senders w)"
      using assms by (simp_all add: n_def live_row_def)
    have "w_sms_senders (snd (dao_add_sms_sender_for_service env sid t d inb w)) =
        save_row ss_id n (if ss_is_default n then sms.reset_default w old (w_sms_senders w)
          else w_sms_senders w)"
      using False Inr by (auto simp: sender_ops autocommit_def Let_def sms_reset_rows n_def)
    then show ?thesis
      using sms.change_add [OF sms_existing_default_defaults [OF Inr] n(1,3), of True w] n(2) False
      by auto
  qed
qed

lemma update_sms_change:
  assumes "find_row ss_id i (w_sms_senders w) = Some r" "live_row ss_service_id ss_archived sid r"
  shows "sms.change w True (w_sms_senders w)
    (w_sms_senders (snd (dao_update_service_sms_sender sid i d x w)))"
proof (cases "sms_existing_default sid w")
  case (Inl e)
  then show ?thesis by (simp add: sms.change_refl dao_update_service_sms_sender_def autocommit_def)
next
  case (Inr old)
  have r: "r \<in> set (w_sms_senders w)" "ss_id r = i" using find_row_SomeD [OF assms(1)] by simp_all
  show ?thesis
  proof (cases "\<not> d \<and> (old = None \<or> map_option ss_id old = Some i)")
    case True
    then show ?thesis using Inr
      by (auto simp add: sms.change_refl dao_update_service_sms_sender_def autocommit_def)
  next
    case False
    define q where "q = touched (stamp_sender w) r
      (if ss_inbound_number_id r = None \<and> x \<notin> {None, Some []}
       then (r\<lparr>ss_is_default := d\<rparr>)\<lparr>ss_sms_sender := the x\<rparr> else r\<lparr>ss_is_default := d\<rparr>)"
    have q: "ss_id q = ss_id r" "ss_is_default q = d"
        "\<And>s. live_row ss_service_id ss_archived s q = live_row ss_service_id ss_archived s r"
      by (simp_all add: live_row_def q_def)
    have guards: "(\<not> d \<and> old = None) = False" "(\<not> d \<and> map_option ss_id old = Some i) = False"
      using False by auto
    have "dao_update_service_sms_sender sid i d x w =
        (Inr q, save_sender q (if d then sms_reset_old_default old w else w))"
      unfolding dao_update_service_sms_sender_def autocommit_def Inr sum.case guards if_False assms(1)
      by (simp only: Let_def option.case prod.case sum.case q_def)
    then have rows: "w_sms_senders (snd (dao_update_service_sms_sender sid i d x w)) =
        save_row ss_id q (if ss_is_default q then sms.reset_default w old (w_sms_senders w)
          else w_sms_senders w)"
      by (simp add: q(2) save_sender_def sms_reset_rows)
    have strict: "ss_is_default q \<or> (\<exists>o1. old = Some o1 \<and> ss_id o1 \<noteq> ss_id r)"
      using False q(2) r(2) by (cases old) auto
    show ?thesis
      unfolding rows
      by (rule sms.change_update [OF sms_existing_default_defaults [OF Inr] r(1) assms(2) q(1,3) strict])
  qed
qed

lemma archive_sms_change:
  "sms.change w True (w_sms_senders w) (w_sms_senders (snd (archive_sms_sender sid i w)))"
proof (cases "query_one (Db NoResultFound) (Db MultipleResultsFound)
    (\<lambda>r. ss_id r = i \<and> ss_service_id r = sid) (w_sms_senders w)")
  case (Inl e)
  then show ?thesis by (simp add: sms.change_refl archive_sms_sender_def autocommit_def)
next
  case (Inr r)
  define q where "q = touched (stamp_sender w) r (r\<lparr>ss_archived := True\<rparr>)"
  have q: "ss_id q = ss_id r" "ss_archived q" by (simp_all add: q_def)
  show ?thesis
  proof (cases "ss_inbound_number_id r \<noteq> None \<or> ss_is_default r")
    case True
    then show ?thesis using Inr
      by (auto simp add: sms.change_refl archive_sms_sender_def autocommit_def)
  next
    case False
    then have "w_sms_senders (snd (archive_sms_sender sid i w)) = save_row ss_id q (w_sms_senders w)"
      using Inr by (simp add: archive_sms_sender_def save_sender_def autocommit_def Let_def q_def)
    then show ?thesis
      using sms.change_archive [OF _ q, of "w_sms_senders w" True] query_one_InrD [OF Inr] False by simp
  qed
qed

lemma add_reply_change:
  assumes "lib_uuid env (w_uuids w) \<notin> rt_id ` set (w_reply_tos w)"
  shows "reply.change w True (w_reply_tos w) (w_reply_tos (snd (add_reply_to_email_address_for_service env sid e d w)))"
proof (cases "reply_to_existing_default sid w")
  case (Inl e)
  then show ?thesis by (simp add: reply.change_refl add_reply_to_email_address_for_service_def autocommit_def)
next
  case (Inr old)
  show ?thesis
  proof (cases "\<not> d \<and> old = None")
    case True
    then show ?thesis using Inr by (simp add: reply.change_refl add_reply_to_email_address_for_service_def autocommit_def)
  next
    case False
    define n where "n = \<lparr>rt_id = lib_uuid env (w_uuids w), rt_service_id = sid, rt_email_address = e,
      rt_is_default = d, rt_archived = False, rt_created_at = w_now w, rt_updated_at = None\<rparr>"
    have n: "live_row rt_service_id rt_archived sid n" "rt_is_default n = d"
        "rt_id n \<notin> rt_id ` set (w_reply_tos w)"
      using assms by (simp_all add: n_def live_row_def)
    have "w_reply_tos (snd (add_reply_to_email_address_for_service env sid e d w)) =
        save_row rt_id n (if rt_is_default n then reply.reset_default w old (w_reply_tos w)
          else w_reply_tos w)"
      using False Inr by (auto simp: sender_ops autocommit_def Let_def reply_reset_rows n_def)
    then show ?thesis
      using reply.change_add [OF reply_existing_default_defaults [OF Inr] n(1,3), of True w] n(2) False
      by auto
  qed
qed

lemma update_reply_change:
  assumes "find_row rt_id i (w_reply_tos w) = Some r" "live_row rt_service_id rt_archived sid r"
  shows "reply.change w True (w_reply_tos w) (w_reply_tos (snd (update_reply_to_email_address sid i e d w)))"
proof (cases "reply_to_existing_default sid w")
  case (Inl e)
  then show ?thesis by (simp add: reply.change_refl update_reply_to_email_address_def autocommit_def)
next
  case (Inr old)
  have r: "r \<in> set (w_reply_tos w)" "rt_id r = i" using find_row_SomeD [OF assms(1)] by simp_all
  show ?thesis
  proof (cases "\<not> d \<and> (old = None \<or> map_option rt_id old = Some i)")
    case True
    then show ?thesis using Inr by (auto simp add: reply.change_refl update_reply_to_email_address_def autocommit_def)
  next
    case False
    define q where "q = touched (stamp_reply_to w) r (r\<lparr>rt_email_address := e, rt_is_default := d\<rparr>)"
    have q: "rt_id q = rt_id r" "rt_is_default q = d"
        "\<And>s. live_row rt_service_id rt_archived s q = live_row rt_service_id rt_archived s r"
      by (simp_all add: live_row_def q_def)
    have guards: "(\<not> d \<and> old = None) = False" "(\<not> d \<and> map_option rt_id old = Some i) = False"
      using False by auto
    have "update_reply_to_email_address sid i e d w = (Inr q, save_reply_to q (if d then reply_to_reset_old_default old w else w))"
      unfolding update_reply_to_email_address_def autocommit_def Inr sum.case guards if_False assms(1)
      by (simp only: Let_def option.case prod.case sum.case q_def)
    then have rows: "w_reply_tos (snd (update_reply_to_email_address sid i e d w)) =
        save_row rt_id q (if rt_is_default q then reply.reset_default w old (w_reply_tos w)
          else w_reply_tos w)"
      by (simp add: q(2) save_reply_to_def reply_reset_rows)
    have strict: "rt_is_default q \<or> (\<exists>o1. old = Some o1 \<and> rt_id o1 \<noteq> rt_id r)"
      using False q(2) r(2) by (cases old) auto
    show ?thesis
      unfolding rows
      by (rule reply.change_update [OF reply_existing_default_defaults [OF Inr] r(1) assms(2) q(1,3) strict])
  qed
qed

lemma archive_reply_change:
  "reply.change w True (w_reply_tos w) (w_reply_tos (snd (archive_reply_to_email_address sid i w)))"
proof (cases "query_one (Db NoResultFound) (Db MultipleResultsFound)
    (\<lambda>r. rt_id r = i \<and> rt_service_id r = sid) (w_reply_tos w)")
  case (Inl e)
  then show ?thesis by (simp add: reply.change_refl archive_reply_to_email_address_def autocommit_def)
next
  case (Inr r)
  define q where "q = touched (stamp_reply_to w) r (r\<lparr>rt_archived := True\<rparr>)"
  have q: "rt_id q = rt_id r" "rt_archived q" by (simp_all add: q_def)
  show ?thesis
  proof (cases "rt_is_default r")
    case True
    then show ?thesis using Inr by (simp add: reply.change_refl archive_reply_to_email_address_def autocommit_def)
  next
    case False
    then have "w_reply_tos (snd (archive_reply_to_email_address sid i w)) = save_row rt_id q (w_reply_tos w)"
      using Inr by (simp add: archive_reply_to_email_address_def save_reply_to_def autocommit_def Let_def q_def)
    then show ?thesis
      using reply.change_archive [OF _ q, of "w_reply_tos w" True] query_one_InrD [OF Inr] False by simp
  qed
qed

lemma add_contact_change:
  assumes "lib_uuid env (w_uuids w) \<notin> lc_id ` set (w_letter_contacts w)"
  shows "contact.change w False (w_letter_contacts w) (w_letter_contacts (snd (add_letter_contact_for_service env sid b d w)))"
proof (cases "contact_existing_default sid w")
  case (Inl e)
  then show ?thesis by (simp add: contact.change_refl add_letter_contact_for_service_def autocommit_def)
next
  case (Inr old)
  define n where "n = \<lparr>lc_id = lib_uuid env (w_uuids w), lc_service_id = sid, lc_contact_block = b,
    lc_is_default = d, lc_archived = False, lc_created_at = w_now w, lc_updated_at = None\<rparr>"
  have n: "live_row lc_service_id lc_archived sid n" "lc_is_default n = d"
      "lc_id n \<notin> lc_id ` set (w_letter_contacts w)"
    using assms by (simp_all add: n_def live_row_def)
  have "w_letter_contacts (snd (add_letter_contact_for_service env sid b d w)) =
      save_row lc_id n (if lc_is_default n then contact.reset_default w old (w_letter_contacts w)
        else w_letter_contacts w)"
    using Inr Inr by (auto simp: sender_ops autocommit_def Let_def contact_reset_rows n_def)
  then show ?thesis
    using contact.change_add [OF contact_existing_default_defaults [OF Inr] n(1,3), of False w] n(2) Inr
    by auto
qed

lemma update_contact_change:
  assumes "find_row lc_id i (w_letter_contacts w) = Some r" "live_row lc_service_id lc_archived sid r"
  shows "contact.change w False (w_letter_contacts w) (w_letter_contacts (snd (update_letter_contact sid i b d w)))"
proof (cases "contact_existing_default sid w")
  case (Inl e)
  then show ?thesis by (simp add: contact.change_refl update_letter_contact_def autocommit_def)
next
  case (Inr old)
  have r: "r \<in> set (w_letter_contacts w)" "lc_id r = i" using find_row_SomeD [OF assms(1)] by simp_all
  define q where "q = touched (stamp_contact w) r (r\<lparr>lc_contact_block := b, lc_is_default := d\<rparr>)"
  have q: "lc_id q = lc_id r" "lc_is_default q = d"
      "\<And>s. live_row lc_service_id lc_archived s q = live_row lc_service_id lc_archived s r"
    by (simp_all add: live_row_def q_def)
  have "update_letter_contact sid i b d w = (Inr q, save_contact q (if d then contact_reset_old_default old w else w))"
    unfolding update_letter_contact_def autocommit_def Inr sum.case assms(1)
    by (simp only: Let_def option.case prod.case sum.case q_def)
  then have rows: "w_letter_contacts (snd (update_letter_contact sid i b d w)) =
      save_row lc_id q (if lc_is_default q then contact.reset_default w old (w_letter_contacts w)
        else w_letter_contacts w)"
    by (simp add: q(2) save_contact_def contact_reset_rows)
  show ?thesis
    unfolding rows
    by (rule contact.change_update [OF contact_existing_default_defaults [OF Inr] r(1) assms(2) q(1,3)]) simp
qed

lemma archive_contact_change:
  "contact.change w False (w_letter_contacts w) (w_letter_contacts (snd (archive_letter_contact sid i w)))"
proof (cases "query_one (Db NoResultFound) (Db MultipleResultsFound)
    (\<lambda>r. lc_id r = i \<and> lc_service_id r = sid) (w_letter_contacts w)")
  case (Inl e)
  then show ?thesis by (simp add: contact.change_refl archive_letter_contact_def autocommit_def)
next
  case (Inr r)
  define q where "q = touched (stamp_contact w) r (r\<lparr>lc_archived := True\<rparr>)"
  have q: "lc_id q = lc_id r" "lc_archived q" by (simp_all add: q_def)
  have "w_letter_contacts (snd (archive_letter_contact sid i w)) = save_row lc_id q (w_letter_contacts w)"
    using Inr by (simp add: archive_letter_contact_def save_contact_def autocommit_def Let_def q_def)
  then show ?thesis
    using contact.change_archive [OF _ q, of "w_letter_contacts w" False] query_one_InrD [OF Inr] by simp
qed

section \<open>A service keeps its default\<close>

text \<open>
  The operations the endpoints of \<^verbatim>\<open>app/service/rest.py\<close> run on the three tables, in any order.
  Only the one of text message senders looks the row up among the live rows of the service; for
  the other two kinds the rule asks for it.
\<close>

inductive sender_step :: "env \<Rightarrow> world \<Rightarrow> world \<Rightarrow> bool" for env where
  add_sms: "fresh_uuid env w \<Longrightarrow>
    sender_step env w (snd (dao_add_sms_sender_for_service env sid t d inb w))"
| update_sms: "sender_step env w (snd (update_service_sms_sender sid i d t w))"
| archive_sms: "sender_step env w (snd (archive_sms_sender sid i w))"
| add_reply: "fresh_uuid env w \<Longrightarrow>
    sender_step env w (snd (add_reply_to_email_address_for_service env sid e d w))"
| update_reply: "find_row rt_id i (w_reply_tos w) = Some r \<Longrightarrow>
    live_row rt_service_id rt_archived sid r \<Longrightarrow>
    sender_step env w (snd (update_reply_to_email_address sid i e d w))"
| archive_reply: "sender_step env w (snd (archive_reply_to_email_address sid i w))"
| add_contact: "fresh_uuid env w \<Longrightarrow>
    sender_step env w (snd (add_letter_contact_for_service env sid b d w))"
| update_contact: "find_row lc_id i (w_letter_contacts w) = Some c \<Longrightarrow>
    live_row lc_service_id lc_archived sid c \<Longrightarrow>
    sender_step env w (snd (update_letter_contact sid i b d w))"
| archive_contact: "sender_step env w (snd (archive_letter_contact sid i w))"

lemma senders_ok_sms_change:
  assumes "senders_ok w" "sms.change v True (w_sms_senders w) (w_sms_senders w')"
    and "w_reply_tos w' = w_reply_tos w" "w_letter_contacts w' = w_letter_contacts w"
  shows "senders_ok w'"
  using assms sms.change_distinct [OF assms(2)] sms.change_one_default [OF assms(2)]
  by (simp add: senders_ok_def)

lemma senders_ok_reply_change:
  assumes "senders_ok w" "reply.change v True (w_reply_tos w) (w_reply_tos w')"
    and "w_sms_senders w' = w_sms_senders w" "w_letter_contacts w' = w_letter_contacts w"
  shows "senders_ok w'"
  using assms reply.change_distinct [OF assms(2)] reply.change_one_default [OF assms(2)]
  by (simp add: senders_ok_def)

lemma senders_ok_contact_change:
  assumes "senders_ok w" "contact.change v False (w_letter_contacts w) (w_letter_contacts w')"
    and "w_sms_senders w' = w_sms_senders w" "w_reply_tos w' = w_reply_tos w"
  shows "senders_ok w'"
  using assms contact.change_distinct [OF assms(2)] contact.change_at_most [OF assms(2)]
  by (simp add: senders_ok_def)

lemma update_service_sms_sender_cases:
  assumes "distinct_rows ss_id (w_sms_senders w)"
  obtains "snd (update_service_sms_sender sid i d t w) = w"
  | r where "find_row ss_id i (w_sms_senders w) = Some r" "live_row ss_service_id ss_archived sid r"
      "update_service_sms_sender sid i d t w = dao_update_service_sms_sender sid i d (Some t) w"
proof (cases "dao_get_service_sms_senders_by_id sid i w")
  case (Inl e)
  then show ?thesis using that(1) by (simp add: update_service_sms_sender_def)
next
  case (Inr r)
  then have r: "r \<in> set (w_sms_senders w)" "ss_id r = i" "live_row ss_service_id ss_archived sid r"
    using query_one_InrD [of _ _ _ _ r]
    by (auto simp: dao_get_service_sms_senders_by_id_def live_row_def dest!: query_one_InrD)
  have "find_row ss_id i (w_sms_senders w) = Some r"
    using find_row_eqI [OF assms r(1)] r(2) by simp
  show ?thesis
  proof (cases "ss_inbound_number_id r \<noteq> None \<and> t \<noteq> ss_sms_sender r")
    case True
    then show ?thesis using that(1) Inr by (auto simp: update_service_sms_sender_def)
  next
    case False
    then show ?thesis
      using that(2) [OF \<open>find_row _ _ _ = _\<close> r(3)] Inr by (auto simp: update_service_sms_sender_def)
  qed
qed

lemma sender_step_ok:
  assumes "sender_step env w w'" "senders_ok w"
  shows "senders_ok w'"
  using assms
proof (induction rule: sender_step.induct)
  case (add_sms w sid t d inb)
  then show ?case
    by (intro senders_ok_sms_change [OF _ add_sms_change, of w env]) (simp_all add: fresh_uuid_def)
next
  case (update_sms w sid i d t)
  then have "distinct_rows ss_id (w_sms_senders w)" by (simp add: senders_ok_def)
  then show ?case
  proof (cases rule: update_service_sms_sender_cases [where sid = sid and i = i and d = d and t = t])
    case 1
    then show ?thesis using update_sms by simp
  next
    case (2 r)
    then show ?thesis
      using senders_ok_sms_change [OF update_sms update_sms_change [OF 2(1,2)]] by simp
  qed
next
  case (archive_sms w sid i)
  then show ?case by (intro senders_ok_sms_change [OF _ archive_sms_change, of w]) simp_all
next
  case (add_reply w sid e d)
  then show ?case
    by (intro senders_ok_reply_change [OF _ add_reply_change, of w env]) (simp_all add: fresh_uuid_def)
next
  case (update_reply i w r sid e d)
  then show ?case
    by (intro senders_ok_reply_change [OF _ update_reply_change, of w i r sid]) simp_all
next
  case (archive_reply w sid i)
  then show ?case by (intro senders_ok_reply_change [OF _ archive_reply_change, of w]) simp_all
next
  case (add_contact w sid b d)
  then show ?case
    by (intro senders_ok_contact_change [OF _ add_contact_change, of w env]) (simp_all add: fresh_uuid_def)
next
  case (update_contact i w c sid b d)
  then show ?case
    by (intro senders_ok_contact_change [OF _ update_contact_change, of w i c sid]) simp_all
next
  case (archive_contact w sid i)
  then show ?case by (intro senders_ok_contact_change [OF _ archive_contact_change, of w]) simp_all
qed

section \<open>Properties\<close>


lemma senders_ok_empty: "senders_ok sample_world"
  by (simp add: senders_ok_def distinct_rows_def one_default_def at_most_one_default_def
      sample_world_def Uniq_def)


text \<open>
  The update of a reply-to address fetches the row by its id alone, archived or
  not. Making an archived address the default takes the mark off the service's default and puts
  it on a row no query returns: the update succeeds, and from then on every addition and every
  update of a reply-to address of the service raises.
\<close>

theorem archived_reply_to_default:
  assumes "senders_ok w" "reply_to_existing_default sid w = Inr (Some d)"
    and "find_row rt_id i (w_reply_tos w) = Some r" "rt_archived r"
  shows "(case update_reply_to_email_address sid i e True w of
      (res, w') \<Rightarrow> (\<exists>r'. res = Inr r' \<and> rt_id r' = i)
        \<and> (\<exists>m. reply_to_existing_default sid w' = Inl (py_exception m)
            \<and> (\<forall>e2 d2. add_reply_to_email_address_for_service env sid e2 d2 w' = (Inl (py_exception m), w'))
            \<and> (\<forall>i2 e2 d2. update_reply_to_email_address sid i2 e2 d2 w' = (Inl (py_exception m), w'))))"
proof -
  define q where "q = touched (stamp_reply_to w) r (r\<lparr>rt_email_address := e, rt_is_default := True\<rparr>)"
  define w' where "w' = save_reply_to q (reply_to_reset_old_default (Some d) w)"
  have upd: "update_reply_to_email_address sid i e True w = (Inr q, w')"
    using assms(2,3) by (simp add: update_reply_to_email_address_def autocommit_def q_def w'_def Let_def)
  have dist: "distinct_rows rt_id (w_reply_tos w)" using assms(1) by (simp add: senders_ok_def)
  note defs = reply_existing_default_defaults [OF assms(2)]
  then have d: "d \<in> set (w_reply_tos w)" "live_row rt_service_id rt_archived sid d"
    by (auto simp: reply.defaults_def)
  have r: "r \<in> set (w_reply_tos w)" "rt_id r = i" using find_row_SomeD [OF assms(3)] by simp_all
  have rows: "w_reply_tos w' = save_row rt_id q (reply.reset_default w (Some d) (w_reply_tos w))"
    by (simp add: w'_def save_reply_to_def reply_reset_rows)
  have "rt_id d \<noteq> i" using row_unique [OF dist d(1) r(1)] r(2) assms(4) d(2) by (auto simp: live_row_def)
  then have live: "stamp_reply_to w (d\<lparr>rt_is_default := False\<rparr>) \<in> set (w_reply_tos w')"
      (is "?d \<in> _")
    using r(2) dist by (simp add: rows set_save_row_distinct reply.reset_default_def q_def reply.clear_key)
  have "reply.defaults sid (reply.reset_default w (Some d) (w_reply_tos w)) = {}"
    using reply.defaults_reset [OF dist, of sid "Some d" sid w] defs by simp
  then have none: "reply.defaults sid (w_reply_tos w') = {}"
    unfolding rows using dist assms(4)
    by (subst reply.defaults_save) (simp_all add: q_def live_row_def)
  have "\<exists>m. reply_to_existing_default sid w' = Inl (py_exception m)"
  proof -
    define rs where "rs = dao_get_reply_to_by_service_id sid w'"
    have "?d \<in> set rs" using live d(2)
      by (simp add: rs_def dao_get_reply_to_by_service_id_def live_row_def stamp_reply_to_def)
    moreover have "filter rt_is_default rs = []"
      using none by (auto simp: filter_empty_conv rs_def dao_get_reply_to_by_service_id_def reply.defaults_def)
    ultimately show ?thesis
      by (cases rs) (auto simp: reply_to_existing_default_def rs_def [symmetric])
  qed
  then obtain m where m: "reply_to_existing_default sid w' = Inl (py_exception m)" ..
  show ?thesis
    unfolding upd prod.case using m r(2)
    by (auto simp: q_def add_reply_to_email_address_for_service_def update_reply_to_email_address_def
        autocommit_def)
qed


lemma one_default_check:
  assumes "list_all (\<lambda>r. archived r
    \<or> length (filter (\<lambda>x. live_row service archived (service r) x \<and> is_default x) rows) = 1) rows"
  shows "one_default service archived is_default rows"
  unfolding one_default_def
proof (intro allI impI)
  fix sid
  assume "list_ex (live_row service archived sid) rows"
  then obtain r where "r \<in> set rows" "service r = sid" "\<not> archived r"
    by (auto simp: list_ex_iff live_row_def)
  then have "length (filter (\<lambda>x. live_row service archived sid x \<and> is_default x) rows) = 1"
    using assms by (auto simp: list_all_iff)
  then obtain x where "filter (\<lambda>x. live_row service archived sid x \<and> is_default x) rows = [x]"
    by (auto simp: length_Suc_conv)
  then have "set (filter (\<lambda>x. live_row service archived sid x \<and> is_default x) rows) = {x}" by simp
  then have "{r \<in> set rows. live_row service archived sid r \<and> is_default r} = {x}" by simp
  then have "r \<in> set rows \<and> live_row service archived sid r \<and> is_default r \<longleftrightarrow> r = x" for r
    by auto
  then show "\<exists>!r. r \<in> set rows \<and> live_row service archived sid r \<and> is_default r" by simp
qed

lemma senders_okI:
  assumes "distinct_rows ss_id (w_sms_senders w)" "distinct_rows rt_id (w_reply_tos w)"
    "distinct_rows lc_id (w_letter_contacts w)"
    "one_default ss_service_id ss_archived ss_is_default (w_sms_senders w)"
    "one_default rt_service_id rt_archived rt_is_default (w_reply_tos w)"
    "at_most_one_default lc_service_id lc_archived lc_is_default (w_letter_contacts w)"
  shows "senders_ok w"
  using assms by (simp add: senders_ok_def)

definition sample_reply_to :: "uuid \<Rightarrow> bool \<Rightarrow> bool \<Rightarrow> email_reply_to" where
  "sample_reply_to i is_default is_archived =
     \<lparr>rt_id = i, rt_service_id = 10, rt_email_address = ''a@b'', rt_is_default = is_default,
      rt_archived = is_archived, rt_created_at = 0, rt_updated_at = None\<rparr>"

definition archived_reply_world :: world where
  "archived_reply_world = sample_world
     \<lparr>w_reply_tos := [sample_reply_to 1 True False, sample_reply_to 2 False True]\<rparr>"

lemma archived_reply_world_ok: "senders_ok archived_reply_world"
  unfolding archived_reply_world_def
  by (intro senders_okI one_default_check)
    (simp_all add: distinct_rows_def at_most_one_default_def Uniq_def live_row_def
      sample_reply_to_def sample_world_def)

theorem archived_reply_to_default_witness:
  "\<exists>m. fst (add_reply_to_email_address_for_service sample_env 10 ''c@d'' True
     (snd (update_reply_to_email_address 10 2 ''a@b'' True archived_reply_world))) =
   Inl (py_exception m)"
proof -
  have "reply_to_existing_default 10 archived_reply_world = Inr (Some (sample_reply_to 1 True False))"
    "find_row rt_id 2 (w_reply_tos archived_reply_world) = Some (sample_reply_to 2 False True)"
    by (simp_all add: reply_to_existing_default_def dao_get_reply_to_by_service_id_def
        archived_reply_world_def live_row_def sample_reply_to_def default_then_newest_def
        default_first_def row_simps)
  from archived_reply_to_default [OF archived_reply_world_ok this, where e = "''a@b''" and env = sample_env]
  show ?thesis by (auto simp: sample_reply_to_def split: prod.splits)
qed

text \<open>
  Taking inbound messages off a service deletes its sender with the inbound
  number even when that one is the default: the service keeps its other senders without a
  default, and from then on every addition and every update of a text message sender raises.
\<close>

theorem removing_inbound_default:
  assumes "senders_ok w" "sms_existing_default sid w = Inr (Some d)" "ss_inbound_number_id d \<noteq> None"
    and "r \<in> set (w_sms_senders w)" "live_row ss_service_id ss_archived sid r"
    and "ss_inbound_number_id r = None"
  shows "(let w' = dao_remove_inbound_sms_for_service sid archive w
    in \<exists>m. sms_existing_default sid w' = Inl (py_exception m)
         \<and> (\<forall>env t2 d2 n2. dao_add_sms_sender_for_service env sid t2 d2 n2 w' = (Inl (py_exception m), w'))
         \<and> (\<forall>i2 d2 t2. dao_update_service_sms_sender sid i2 d2 t2 w' = (Inl (py_exception m), w')))"
proof -
  define w' where "w' = dao_remove_inbound_sms_for_service sid archive w"
  define rs where "rs = dao_get_sms_senders_by_service_id sid w'"
  have rows: "set (w_sms_senders w') =
      {x \<in> set (w_sms_senders w). \<not> (ss_service_id x = sid \<and> ss_inbound_number_id x \<noteq> None)}"
    by (simp add: w'_def dao_remove_inbound_sms_for_service_def set_delete_rows
        archive_or_release_inbound_number_for_service_def dao_remove_inbound_sms_senders_def
        dao_remove_service_permission_def Let_def)
  note defs = sms_existing_default_defaults [OF assms(2)]
  then have d: "d \<in> set (w_sms_senders w)" "ss_service_id d = sid"
    by (auto simp: sms.defaults_def live_row_def)
  have "sms.defaults sid (w_sms_senders w') \<subseteq> sms.defaults sid (w_sms_senders w) - {d}"
    using assms(3) d(2) by (auto simp: sms.defaults_def rows)
  then have none: "sms.defaults sid (w_sms_senders w') = {}" using defs by simp
  have "r \<in> set rs" using assms(4-6) by (simp add: rs_def dao_get_sms_senders_by_service_id_def rows)
  moreover have "filter ss_is_default rs = []"
    using none by (auto simp: filter_empty_conv rs_def dao_get_sms_senders_by_service_id_def sms.defaults_def)
  ultimately have "\<exists>m. sms_existing_default sid w' = Inl (py_exception m)"
    by (cases rs) (auto simp: sms_existing_default_def rs_def [symmetric])
  then obtain m where m: "sms_existing_default sid w' = Inl (py_exception m)" ..
  show ?thesis
    unfolding w'_def [symmetric] Let_def using m
    by (auto simp: dao_add_sms_sender_for_service_def dao_update_service_sms_sender_def autocommit_def)
qed

definition sample_sender :: "uuid \<Rightarrow> bool \<Rightarrow> uuid option \<Rightarrow> sms_sender" where
  "sample_sender i is_default inbound =
     \<lparr>ss_id = i, ss_sms_sender = ''NOTIFY'', ss_service_id = 10, ss_is_default = is_default,
      ss_archived = False, ss_inbound_number_id = inbound, ss_created_at = 0, ss_updated_at = None\<rparr>"

theorem removing_inbound_default_witness:
  "\<exists>m. sms_existing_default 10 (dao_remove_inbound_sms_for_service 10 True
     (sample_world\<lparr>w_sms_senders := [sample_sender 1 True (Some 7), sample_sender 2 False None]\<rparr>)) =
   Inl (py_exception m)"
proof -
  define w where "w = sample_world\<lparr>w_sms_senders := [sample_sender 1 True (Some 7), sample_sender 2 False None]\<rparr>"
  have ok: "senders_ok w"
    unfolding w_def
    by (intro senders_okI one_default_check)
      (simp_all add: distinct_rows_def at_most_one_default_def Uniq_def live_row_def
        sample_sender_def sample_world_def)
  have "sms_existing_default 10 w = Inr (Some (sample_sender 1 True (Some 7)))"
    by (simp add: sms_existing_default_def dao_get_sms_senders_by_service_id_def w_def live_row_def
        sample_sender_def default_first_def)
  from removing_inbound_default [OF ok this, of "sample_sender 2 False None" True]
  show ?thesis by (auto simp: w_def sample_sender_def live_row_def Let_def)
qed

end
