(* ===== verification/Utils.thy ===== *)
theory Utils
  imports World "HOL-Library.Sublist"
begin

text \<open>
  \<^verbatim>\<open>app/utils.py\<close>: batching of iterables, escaping of the search terms that go into a \<open>LIKE\<close>
  pattern, London midnights, links between pages, phone numbers. A generator is modelled by what
  it yields and how it ends: the list of yielded values and the exception it stops with, if any.
  \<open>like_match\<close> is PostgreSQL's \<open>LIKE\<close> with its default escape character, which the escaping is
  written for.
\<close>

section \<open>Batches\<close>

function batches :: "bool \<Rightarrow> nat \<Rightarrow> 'a list \<Rightarrow> 'a list list \<times> exn option" where
  "batches strict n xs =
     (let batch = take n xs
      in if batch = [] then ([], None)
         else if strict \<and> length batch \<noteq> n
              then ([], Some (Py (ValueError ''batched(): incomplete batch'')))
         else (let (rest, e) = batches strict n (drop n xs) in (batch # rest, e)))"
  by pat_completeness auto
termination
  by (relation "measure (\<lambda>(s, n, xs). length xs)") auto

declare batches.simps [simp del]

definition batched :: "bool \<Rightarrow> int \<Rightarrow> 'a list \<Rightarrow> 'a list list \<times> exn option" where
  "batched strict n xs =
     (if n < 1 then ([], Some (Py (ValueError ''n must be at least one'')))
      else batches strict (nat n) xs)"

lemma batches_step:
  "0 < n \<Longrightarrow> xs \<noteq> [] \<Longrightarrow> \<not> (strict \<and> length xs < n) \<Longrightarrow>
   batches strict n xs =
     (take n xs # fst (batches strict n (drop n xs)), snd (batches strict n (drop n xs)))"
  by (subst batches.simps) (simp add: Let_def case_prod_beta not_less)

lemma batches_Nil [simp]: "batches strict n [] = ([], None)"
  by (subst batches.simps) simp

lemma batches_lenient:
  assumes "0 < n"
  shows "snd (batches False n xs) = None \<and> concat (fst (batches False n xs)) = xs
    \<and> (\<forall>b \<in> set (fst (batches False n xs)). b \<noteq> [] \<and> length b \<le> n)
    \<and> (\<forall>b \<in> set (butlast (fst (batches False n xs))). length b = n)"
  using assms
proof (induction xs rule: length_induct)
  case (1 xs)
  show ?case
  proof (cases "xs = []")
    case True
    then show ?thesis by simp
  next
    case False
    have "length (drop n xs) < length xs" using False \<open>0 < n\<close> by simp
    then have IH: "snd (batches False n (drop n xs)) = None
      \<and> concat (fst (batches False n (drop n xs))) = drop n xs
      \<and> (\<forall>b \<in> set (fst (batches False n (drop n xs))). b \<noteq> [] \<and> length b \<le> n)
      \<and> (\<forall>b \<in> set (butlast (fst (batches False n (drop n xs)))). length b = n)"
      using 1 by blast
    obtain bs e where rest: "batches False n (drop n xs) = (bs, e)" by fastforce
    have step: "batches False n xs = (take n xs # bs, e)"
      using batches_step [of n xs False] False \<open>0 < n\<close> rest by simp
    have full: "length (take n xs) = n" if "bs \<noteq> []"
    proof -
      have "drop n xs \<noteq> []" using that rest by auto
      then show ?thesis by simp
    qed
    have "take n xs \<noteq> []" "length (take n xs) \<le> n" using False \<open>0 < n\<close> by simp_all
    moreover have "take n xs @ concat bs = xs" "e = None"
      "\<forall>b \<in> set bs. b \<noteq> [] \<and> length b \<le> n" "\<forall>b \<in> set (butlast bs). length b = n"
      using IH unfolding rest by simp_all
    ultimately show ?thesis unfolding step using full by simp
  qed
qed

lemma batches_strict_multiple:
  "0 < n \<Longrightarrow> length xs mod n = 0 \<Longrightarrow> batches True n xs = batches False n xs"
proof (induction xs rule: length_induct)
  case (1 xs)
  show ?case
  proof (cases "xs = []")
    case False
    then have le: "n \<le> length xs"
      using 1 mod_less [of "length xs" n] by (metis length_0_conv not_less)
    have "length (drop n xs) mod n = 0" using 1(3) le by (simp add: le_mod_geq)
    moreover have "length (drop n xs) < length xs" using False \<open>0 < n\<close> by simp
    ultimately have "batches True n (drop n xs) = batches False n (drop n xs)"
      using 1(1) \<open>0 < n\<close> by metis
    moreover have "batches s n xs =
        (take n xs # fst (batches s n (drop n xs)), snd (batches s n (drop n xs)))" for s
      by (rule batches_step) (use False le \<open>0 < n\<close> in auto)
    ultimately show ?thesis by metis
  qed simp
qed

lemma batches_strict_incomplete:
  "0 < n \<Longrightarrow> length xs mod n \<noteq> 0 \<Longrightarrow>
   snd (batches True n xs) = Some (Py (ValueError ''batched(): incomplete batch''))
   \<and> length (fst (batches True n xs)) = length xs div n"
proof (induction xs rule: length_induct)
  case (1 xs)
  then have ne: "xs \<noteq> []" by auto
  show ?case
  proof (cases "n \<le> length xs")
    case True
    have "length (drop n xs) mod n \<noteq> 0" using 1(3) True by (simp add: le_mod_geq)
    moreover have "length (drop n xs) < length xs" using ne \<open>0 < n\<close> by simp
    ultimately have "snd (batches True n (drop n xs)) =
        Some (Py (ValueError ''batched(): incomplete batch''))
      \<and> length (fst (batches True n (drop n xs))) = length (drop n xs) div n"
      using 1(1) \<open>0 < n\<close> by metis
    moreover have "batches True n xs =
        (take n xs # fst (batches True n (drop n xs)), snd (batches True n (drop n xs)))"
      by (rule batches_step) (use ne True \<open>0 < n\<close> in auto)
    ultimately show ?thesis using True \<open>0 < n\<close> by (simp only: fst_conv snd_conv) (simp add: le_div_geq)
  next
    case False
    then show ?thesis using ne \<open>0 < n\<close> batches.simps [of True n xs] by (simp only: Let_def) simp
  qed
qed

section \<open>Escaping for LIKE\<close>

definition backslash :: char where
  "backslash = CHR 0x5C"

definition special_characters :: "char list" where
  "special_characters = [backslash, CHR ''_'', CHR ''%'', CHR ''/'']"

definition escape_special_characters :: "string \<Rightarrow> string" where
  "escape_special_characters s =
     fold (\<lambda>c s. py_replace_char c [backslash, c] s) special_characters s"

fun like_match :: "string \<Rightarrow> string \<Rightarrow> bool" where
  "like_match [] t = (t = [])"
| "like_match (p # ps) t =
     (if p = CHR ''%'' then (\<exists>k \<in> set [0..<Suc (length t)]. like_match ps (drop k t))
      else if p = CHR ''_'' then (case t of [] \<Rightarrow> False | _ # t' \<Rightarrow> like_match ps t')
      else if p = backslash
           then (case ps of
                   [] \<Rightarrow> False
                 | c # ps' \<Rightarrow> (case t of [] \<Rightarrow> False | x # t' \<Rightarrow> x = c \<and> like_match ps' t'))
      else (case t of [] \<Rightarrow> False | x # t' \<Rightarrow> x = p \<and> like_match ps t'))"

lemma backslash_neq [simp]:
  "backslash \<noteq> CHR ''_''" "backslash \<noteq> CHR ''%''" "backslash \<noteq> CHR ''/''"
  "CHR ''_'' \<noteq> backslash" "CHR ''%'' \<noteq> backslash" "CHR ''/'' \<noteq> backslash"
  by (simp_all add: backslash_def)

lemma py_replace_char_append:
  "py_replace_char c r (s @ t) = py_replace_char c r s @ py_replace_char c r t"
  by (simp add: py_replace_char_def)

lemma escape_append:
  "escape_special_characters (s @ t) = escape_special_characters s @ escape_special_characters t"
  by (simp add: escape_special_characters_def special_characters_def py_replace_char_append)

lemma escape_single:
  "escape_special_characters [c] =
     (if c \<in> set special_characters then [backslash, c] else [c])"
  by (auto simp: escape_special_characters_def special_characters_def py_replace_char_def)

lemma escape_Nil [simp]: "escape_special_characters [] = []"
  by (simp add: escape_special_characters_def special_characters_def py_replace_char_def)

lemma escape_Cons:
  "escape_special_characters (c # s) =
     (if c \<in> set special_characters then [backslash, c] else [c]) @ escape_special_characters s"
  using escape_append [of "[c]" s] by (simp add: escape_single)

lemma like_match_escaped:
  "like_match (escape_special_characters s @ p) t \<longleftrightarrow> (\<exists>u. t = s @ u \<and> like_match p u)"
proof (induction s arbitrary: t)
  case Nil
  then show ?case by simp
next
  case (Cons c s)
  have special: "c \<in> set special_characters \<longleftrightarrow>
      c = backslash \<or> c = CHR ''_'' \<or> c = CHR ''%'' \<or> c = CHR ''/''"
    by (simp add: special_characters_def)
  show ?case
    using Cons.IH by (auto simp: escape_Cons special split: list.splits)
qed

lemma like_match_percent: "like_match [CHR ''%''] t"
proof -
  have "\<exists>k \<in> set [0..<Suc (length t)]. drop k t = []" by (rule bexI [of _ "length t"]) auto
  then show ?thesis by simp
qed

definition contains_pattern :: "string \<Rightarrow> string" where
  \<comment> \<open>the f-string of \<open>dao_get_notifications_by_recipient_or_reference\<close>\<close>
  "contains_pattern s = CHR ''%'' # s @ [CHR ''%'']"

lemma like_contains:
  "like_match (contains_pattern (escape_special_characters s)) t \<longleftrightarrow> sublist s t"
proof -
  have "like_match (contains_pattern (escape_special_characters s)) t \<longleftrightarrow>
      (\<exists>k \<le> length t. like_match (escape_special_characters s @ [CHR ''%'']) (drop k t))"
    by (simp only: contains_pattern_def like_match.simps if_True set_upt Bex_def
          atLeastLessThan_iff le0 simp_thms less_Suc_eq_le append.simps)
  also have "\<dots> \<longleftrightarrow> (\<exists>k \<le> length t. \<exists>u. drop k t = s @ u)"
    by (simp add: like_match_escaped like_match_percent del: like_match.simps)
  also have "\<dots> \<longleftrightarrow> sublist s t"
  proof
    assume "\<exists>k \<le> length t. \<exists>u. drop k t = s @ u"
    then obtain k u where "drop k t = s @ u" by blast
    then have "t = take k t @ s @ u" by (metis append_take_drop_id)
    then show "sublist s t" by (metis sublist_appendI)
  next
    assume "sublist s t"
    then obtain ps ss where t: "t = ps @ s @ ss" by (auto simp: sublist_def)
    then have "drop (length ps) t = s @ ss" "length ps \<le> length t" by simp_all
    then show "\<exists>k \<le> length t. \<exists>u. drop k t = s @ u" by blast
  qed
  finally show ?thesis .
qed

section \<open>London midnights\<close>

definition get_london_midnight_in_utc :: "env \<Rightarrow> date \<Rightarrow> time" where
  "get_london_midnight_in_utc env d = lib_bst_to_utc env (midnight_of d)"

definition get_midnight_for_day_before :: "env \<Rightarrow> date \<Rightarrow> time" where
  "get_midnight_for_day_before env d = get_london_midnight_in_utc env (d - 1)"

definition midnight_n_days_ago :: "env \<Rightarrow> int \<Rightarrow> world \<Rightarrow> time" where
  "midnight_n_days_ago env n w = get_london_midnight_in_utc env (date_of (w_now w - days n))"

section \<open>Small formatters\<close>

definition get_public_notify_type_text :: "ntype \<Rightarrow> bool \<Rightarrow> string" where
  "get_public_notify_type_text t plural =
     (if t = Sms then ''text message'' else ntype_name t) @ (if plural then ''s'' else [])"

definition email_address_is_nhs :: "string \<Rightarrow> bool" where
  "email_address_is_nhs a =
     list_ex (\<lambda>sfx. suffix sfx (py_lower a)) [''@nhs.uk'', ''@nhs.net'', ''.nhs.uk'', ''.nhs.net'']"

definition format_sequential_number :: "nat \<Rightarrow> string" where
  "format_sequential_number n = zfill 8 (hex_str n)"

record page_links =
  link_prev :: "int option"
  link_next :: "int option"
  link_last :: "int option"

record pagination =
  pg_page :: int
  pg_per_page :: int
  pg_total :: int

definition pg_pages :: "pagination \<Rightarrow> int" where
  \<comment> \<open>flask-sqlalchemy: \<open>ceil(total / per_page)\<close>, and no pages for an empty query\<close>
  "pg_pages p =
     (if pg_per_page p = 0 \<or> pg_total p = 0 then 0
      else (pg_total p + pg_per_page p - 1) div pg_per_page p)"

definition pagination_links :: "pagination \<Rightarrow> page_links" where
  "pagination_links p =
     (let has_prev = pg_page p > 1; has_next = pg_page p < pg_pages p
      in \<lparr>link_prev = (if has_prev then Some (pg_page p - 1) else None),
          link_next = (if has_next then Some (pg_page p + 1) else None),
          link_last = (if has_next then Some (pg_pages p) else None)\<rparr>)"

definition get_prev_next_pagination_links :: "int \<Rightarrow> bool \<Rightarrow> bool \<times> bool" where
  \<comment> \<open>whether the keys \<open>prev\<close> and \<open>next\<close> are present\<close>
  "get_prev_next_pagination_links current_page next_page_exists =
     (current_page > 1, next_page_exists)"

section \<open>Phone numbers\<close>

definition parse_and_format_phone_number :: "env \<Rightarrow> string \<Rightarrow> bool \<Rightarrow> string result" where
  "parse_and_format_phone_number env number with_country_code =
     (if \<not> with_country_code then lib_national_number env number
      else lib_normalised_phone env number)"

definition try_parse_and_format_phone_number :: "env \<Rightarrow> string \<Rightarrow> bool \<Rightarrow> string result" where
  "try_parse_and_format_phone_number env number with_country_code =
     (case parse_and_format_phone_number env number with_country_code of
        Inl (Recipient (InvalidPhoneError c)) \<Rightarrow> Inr number
      | r \<Rightarrow> r)"

section \<open>Properties\<close>

text \<open>
  For every \<open>n \<ge> 1\<close> the lenient \<open>batched\<close> never raises, loses, duplicates or reorders
  nothing, yields no empty batch, and every batch but the last has exactly \<open>n\<close> elements.
\<close>

theorem batched_partitions:
  assumes "1 \<le> n"
  shows "snd (batched False n xs) = None \<and> concat (fst (batched False n xs)) = xs
    \<and> (\<forall>b \<in> set (fst (batched False n xs)). b \<noteq> [] \<and> length b \<le> nat n)
    \<and> (\<forall>b \<in> set (butlast (fst (batched False n xs))). length b = nat n)"
proof -
  have "0 < nat n" "\<not> n < 1" using assms by simp_all
  then show ?thesis using batches_lenient [of "nat n" xs] by (simp add: batched_def)
qed

theorem batched_partitions_witness:
  "snd (batched False 3 ''ABCDEFG'') = None
   \<and> fst (batched False 3 ''ABCDEFG'') = [''ABC'', ''DEF'', ''G'']
   \<and> concat (fst (batched False 3 ''ABCDEFG'')) = ''ABCDEFG''"
proof -
  have "snd (batched False 3 ''ABCDEFG'') = None"
    "concat (fst (batched False 3 ''ABCDEFG'')) = ''ABCDEFG''"
    using batched_partitions [of 3 "''ABCDEFG''"] by simp_all
  moreover have "fst (batched False 3 ''ABCDEFG'') = [''ABC'', ''DEF'', ''G'']"
    by (simp add: batched_def batches_step)
  ultimately show ?thesis by simp
qed

text \<open>
  A search term that has gone through \<open>escape_special_characters\<close> matches literally: the
  pattern \<open>%term%\<close> matches exactly the strings that contain the term, whatever percent signs,
  underscores, slashes and backslashes it holds.
\<close>

theorem escaped_search_is_substring:
  "like_match (contains_pattern (escape_special_characters s)) t \<longleftrightarrow> sublist s t"
  by (rule like_contains)

end
