(* ===== verification/Notification_Model.thy ===== *)
theory Notification_Model
  imports Utils
begin

text \<open>
  The methods of \<open>Notification\<close> in \<^verbatim>\<open>app/models.py\<close> and the rate tables they read
  (\<^verbatim>\<open>app/dao/sms_rate_dao.py\<close>, \<^verbatim>\<open>app/dao/letter_rate_dao.py\<close>): completion time, the statuses shown
  to users, the substitution of deprecated statuses in a search, and the cost of a message. Rates
  are exact rationals where the code converts to float. The template of a notification is the
  row its foreign key points to. \<open>ORDER BY\<close> is a stable sort.
\<close>

section \<open>Rates\<close>

definition latest_by :: "('r \<Rightarrow> 'k::linorder) \<Rightarrow> 'r list \<Rightarrow> 'r option" where
  \<comment> \<open>\<open>.order_by(desc(key)).first()\<close>\<close>
  "latest_by key rows = (case rev (sort_key key rows) of [] \<Rightarrow> None | r # _ \<Rightarrow> Some r)"

lemma latest_by_None [simp]: "latest_by key rows = None \<longleftrightarrow> rows = []"
proof -
  have "rev (sort_key key rows) = [] \<longleftrightarrow> rows = []"
    by (metis length_0_conv length_rev length_sort)
  then show ?thesis by (auto simp: latest_by_def split: list.splits)
qed

lemma latest_by_Some:
  assumes "latest_by key rows = Some r"
  shows "r \<in> set rows \<and> (\<forall>x \<in> set rows. key x \<le> key r)"
proof -
  obtain rs where rs: "rev (sort_key key rows) = r # rs"
    using assms by (auto simp: latest_by_def split: list.splits)
  then have eq: "sort_key key rows = rev rs @ [r]" by (metis rev.simps(2) rev_rev_ident)
  have "sorted (map key (sort_key key rows))" by simp
  then have le: "\<forall>x \<in> set (rev rs). key x \<le> key r" by (simp add: eq sorted_append)
  have "set rows = set (rev rs @ [r])" by (metis eq set_sort)
  then show ?thesis using le by auto
qed

definition dao_get_sms_rate_for_timestamp :: "sms_rate list \<Rightarrow> time \<Rightarrow> sms_rate option" where
  "dao_get_sms_rate_for_timestamp rates t =
     latest_by r_valid_from (filter (\<lambda>r. r_valid_from r \<le> t) rates)"

definition dao_get_current_sms_rate :: "sms_rate list \<Rightarrow> world \<Rightarrow> sms_rate option" where
  "dao_get_current_sms_rate rates w =
     latest_by r_valid_from (filter (\<lambda>r. r_valid_from r \<le> w_now w) rates)"

definition letter_rate_in_force :: "time \<Rightarrow> letter_rate \<Rightarrow> bool" where
  "letter_rate_in_force t r \<longleftrightarrow>
     lr_crown r \<and> lr_start_date r \<le> t
     \<and> (case lr_end_date r of None \<Rightarrow> True | Some e \<Rightarrow> e > t)"

definition order_letter_rates :: "letter_rate list \<Rightarrow> letter_rate list" where
  "order_letter_rates rs =
     sort_key lr_sheet_count (sort_key lr_rate (sort_key lr_post_class rs))"

definition dao_get_letter_rates_for_timestamp :: "letter_rate list \<Rightarrow> time \<Rightarrow> letter_rate list" where
  "dao_get_letter_rates_for_timestamp rates t =
     order_letter_rates (filter (letter_rate_in_force t) rates)"

definition dao_get_current_letter_rates :: "letter_rate list \<Rightarrow> world \<Rightarrow> letter_rate list" where
  "dao_get_current_letter_rates rates w =
     order_letter_rates (filter (letter_rate_in_force (w_now w)) rates)"

lemma set_letter_rates_for_timestamp:
  "set (dao_get_letter_rates_for_timestamp rates t) = {r \<in> set rates. letter_rate_in_force t r}"
  by (simp add: dao_get_letter_rates_for_timestamp_def order_letter_rates_def)

section \<open>What a notification reports of itself\<close>

definition completed_at :: "notification \<Rightarrow> time option result" where
  \<comment> \<open>the rendering of the time is left out; \<open>updated_at\<close> may be \<open>None\<close>\<close>
  "completed_at n =
     (if n_status n \<in> set NOTIFICATION_STATUS_TYPES_COMPLETED
      then (case n_updated_at n of
              None \<Rightarrow> Inl (Py AttributeError)
            | Some t \<Rightarrow> Inr (Some t))
      else Inr None)"

definition substitute_one :: "string \<Rightarrow> string list" where
  "substitute_one s =
     (if s = nstatus_name Failed then map nstatus_name NOTIFICATION_STATUS_TYPES_FAILED
      else if s = NOTIFICATION_STATUS_LETTER_ACCEPTED
           then [nstatus_name Created, nstatus_name Sending]
      else if s = NOTIFICATION_STATUS_LETTER_RECEIVED then [nstatus_name Delivered]
      else [s])"

definition substitute_status :: "string list \<Rightarrow> string list" where
  \<comment> \<open>the order of \<open>list(set)\<close> is unspecified; the callers only test membership\<close>
  "substitute_status statuses = remdups (concat (map substitute_one statuses))"

definition right_quote :: string where
  \<comment> \<open>U+2019 in UTF-8\<close>
  "right_quote = [CHR 0xE2, CHR 0x80, CHR 0x99]"

fun email_status_text :: "nstatus \<Rightarrow> string option" where
  "email_status_text Failed = Some ''Failed''"
| "email_status_text TechnicalFailure = Some ''Technical failure''"
| "email_status_text TemporaryFailure = Some ''Inbox not accepting messages right now''"
| "email_status_text PermanentFailure =
     Some (''Email address doesn'' @ right_quote @ ''t exist'')"
| "email_status_text Delivered = Some ''Delivered''"
| "email_status_text Sending = Some ''Sending''"
| "email_status_text Created = Some ''Sending''"
| "email_status_text Sent = Some ''Delivered''"
| "email_status_text _ = None"

fun sms_status_text :: "nstatus \<Rightarrow> string option" where
  "sms_status_text Failed = Some ''Failed''"
| "sms_status_text TechnicalFailure = Some ''Technical failure''"
| "sms_status_text TemporaryFailure = Some ''Phone not accepting messages right now''"
| "sms_status_text PermanentFailure = Some (''Phone number doesn'' @ right_quote @ ''t exist'')"
| "sms_status_text Delivered = Some ''Delivered''"
| "sms_status_text Sending = Some ''Sending''"
| "sms_status_text Created = Some ''Sending''"
| "sms_status_text Sent = Some ''Sent internationally''"
| "sms_status_text _ = None"

fun letter_status_text :: "nstatus \<Rightarrow> string option" where
  "letter_status_text TechnicalFailure = Some ''Technical failure''"
| "letter_status_text PermanentFailure = Some ''Permanent failure''"
| "letter_status_text Sending = Some ''Accepted''"
| "letter_status_text Created = Some ''Accepted''"
| "letter_status_text Delivered = Some ''Received''"
| "letter_status_text ReturnedLetter = Some ''Returned''"
| "letter_status_text _ = None"

definition formatted_status :: "ntype \<Rightarrow> nstatus \<Rightarrow> string result" where
  \<comment> \<open>the type is the one of the template; the table has no entry for message boxes\<close>
  "formatted_status template_type s =
     (let show_in = (\<lambda>text. Inr (case text s of Some m \<Rightarrow> m | None \<Rightarrow> nstatus_name s))
      in case template_type of
           Email \<Rightarrow> show_in email_status_text
         | Sms \<Rightarrow> show_in sms_status_text
         | Letter \<Rightarrow> show_in letter_status_text
         | Messagebox \<Rightarrow> Inl (Py (KeyError (ntype_name Messagebox))))"

definition get_letter_status :: "notification \<Rightarrow> string result" where
  "get_letter_status n =
     (if n_type n \<noteq> Letter then Inl (Py AssertionError)
      else if n_status n \<in> {Created, Sending} then Inr NOTIFICATION_STATUS_LETTER_ACCEPTED
      else if n_status n \<in> {Delivered, ReturnedLetter} then Inr NOTIFICATION_STATUS_LETTER_RECEIVED
      else Inr (nstatus_name (n_status n)))"

section \<open>The cost of a message\<close>

record cost_data =
  cost_ready :: bool
  cost_fragments :: "int option"
  cost_multiplier :: "rat option"
  cost_sms_rate :: "rat option"
  cost_sheets :: "int option"
  cost_postage :: "postage option"
  cost_in_pounds :: "rat option"

definition no_details :: cost_data where
  "no_details =
     \<lparr>cost_ready = True, cost_fragments = None, cost_multiplier = None, cost_sms_rate = None,
      cost_sheets = None, cost_postage = None, cost_in_pounds = Some 0\<rparr>"

definition is_cost_data_ready_for_sms :: "notification \<Rightarrow> bool" where
  "is_cost_data_ready_for_sms n \<longleftrightarrow> \<not> (n_status n = Created \<and> n_billable_units n = 0)"

definition is_cost_data_ready_for_letter :: "notification \<Rightarrow> bool" where
  "is_cost_data_ready_for_letter n \<longleftrightarrow>
     \<not> (n_status n = PendingVirusCheck \<or> (n_status n = Created \<and> n_billable_units n = 0))"

definition letter_was_never_sent :: "notification \<Rightarrow> bool" where
  "letter_was_never_sent n \<longleftrightarrow> n_status n \<in> set NOTIFICATION_STATUS_TYPES_LETTERS_NEVER_SENT"

text \<open>
  The two rate caches of Redis, keyed by the day (and the sheets and postage of a letter). An
  entry is a non-empty string of digits, so a cached rate is never falsy, not even zero.
\<close>

record rate_cache =
  cached_sms_rate :: "date \<Rightarrow> rat option"
  cached_letter_rate :: "(date \<times> int \<times> postage option) \<Rightarrow> rat option"

definition get_sms_rate ::
  "sms_rate list \<Rightarrow> notification \<Rightarrow> rate_cache \<Rightarrow> rat result \<times> rate_cache" where
  "get_sms_rate rates n c =
     (let d = date_of (n_created_at n)
      in case cached_sms_rate c d of
           Some r \<Rightarrow> (Inr r, c)
         | None \<Rightarrow>
             (case dao_get_sms_rate_for_timestamp rates (midnight_of d) of
                None \<Rightarrow> (Inl (Py AttributeError), c)
              | Some r \<Rightarrow>
                  (Inr (r_rate r),
                   c\<lparr>cached_sms_rate := (cached_sms_rate c)(d \<mapsto> r_rate r)\<rparr>)))"

definition get_letter_cost ::
  "letter_rate list \<Rightarrow> notification \<Rightarrow> rate_cache \<Rightarrow> rat result \<times> rate_cache" where
  "get_letter_cost rates n c =
     (if n_billable_units n = 0 then (Inr 0, c)
      else
        (let d = date_of (n_created_at n); k = (d, n_billable_units n, n_postage n)
         in case cached_letter_rate c k of
              Some r \<Rightarrow> (Inr r, c)
            | None \<Rightarrow>
                (case find (\<lambda>r. lr_sheet_count r = n_billable_units n
                                \<and> Some (lr_post_class r) = n_postage n)
                        (dao_get_letter_rates_for_timestamp rates (midnight_of d)) of
                   None \<Rightarrow> (Inl (Py AttributeError), c)
                 | Some r \<Rightarrow>
                     (Inr (lr_rate r),
                      c\<lparr>cached_letter_rate := (cached_letter_rate c)(k \<mapsto> lr_rate r)\<rparr>))))"

definition add_cost_data_for_sms ::
  "sms_rate list \<Rightarrow> notification \<Rightarrow> rate_cache \<Rightarrow> cost_data result \<times> rate_cache" where
  "add_cost_data_for_sms rates n c =
     (if \<not> is_cost_data_ready_for_sms n
      then (Inr (no_details\<lparr>cost_ready := False, cost_in_pounds := None\<rparr>), c)
      else
        (case get_sms_rate rates n c of
           (Inl e, c') \<Rightarrow> (Inl e, c')
         | (Inr rate, c') \<Rightarrow>
             (case n_rate_multiplier n of
                None \<Rightarrow> (Inl (Py TypeError), c')
              | Some m \<Rightarrow>
                  (Inr (no_details\<lparr>cost_fragments := Some (n_billable_units n),
                          cost_multiplier := Some m, cost_sms_rate := Some rate,
                          cost_in_pounds := Some (of_int (n_billable_units n) * m * rate)\<rparr>), c'))))"

definition add_cost_data_for_letter ::
  "letter_rate list \<Rightarrow> notification \<Rightarrow> rate_cache \<Rightarrow> cost_data result \<times> rate_cache" where
  "add_cost_data_for_letter rates n c =
     (if \<not> is_cost_data_ready_for_letter n
      then (Inr (no_details\<lparr>cost_ready := False, cost_in_pounds := None\<rparr>), c)
      else if letter_was_never_sent n
      then (Inr (no_details\<lparr>cost_sheets := Some 0, cost_postage := n_postage n\<rparr>), c)
      else
        (case get_letter_cost rates n c of
           (Inl e, c') \<Rightarrow> (Inl e, c')
         | (Inr cost, c') \<Rightarrow>
             (Inr (no_details\<lparr>cost_sheets := Some (n_billable_units n),
                     cost_postage := n_postage n, cost_in_pounds := Some cost\<rparr>), c')))"

definition serialize_cost_data ::
  "sms_rate list \<Rightarrow> letter_rate list \<Rightarrow> notification \<Rightarrow> rate_cache
     \<Rightarrow> cost_data result \<times> rate_cache" where
  "serialize_cost_data sms_rates letter_rates n c =
     (case n_type n of
        Sms \<Rightarrow> add_cost_data_for_sms sms_rates n c
      | Letter \<Rightarrow> add_cost_data_for_letter letter_rates n c
      | _ \<Rightarrow> (Inr no_details, c))"

section \<open>The rate caches are transparent\<close>

definition no_rate_cache :: rate_cache where
  "no_rate_cache = \<lparr>cached_sms_rate = \<lambda>_. None, cached_letter_rate = \<lambda>_. None\<rparr>"

definition rate_cache_ok :: "sms_rate list \<Rightarrow> letter_rate list \<Rightarrow> rate_cache \<Rightarrow> bool" where
  "rate_cache_ok rates letter_rates c \<longleftrightarrow>
     (\<forall>d r. cached_sms_rate c d = Some r \<longrightarrow>
        map_option r_rate (dao_get_sms_rate_for_timestamp rates (midnight_of d)) = Some r)
     \<and> (\<forall>d sheets post r. cached_letter_rate c (d, sheets, post) = Some r \<longrightarrow>
        map_option lr_rate (find (\<lambda>x. lr_sheet_count x = sheets \<and> Some (lr_post_class x) = post)
          (dao_get_letter_rates_for_timestamp letter_rates (midnight_of d))) = Some r)"

lemma no_rate_cache_ok [simp]: "rate_cache_ok rates letter_rates no_rate_cache"
  by (simp add: rate_cache_ok_def no_rate_cache_def)

lemma rate_cache_okD:
  assumes "rate_cache_ok rates lrs c"
  shows "cached_sms_rate c d = Some r \<Longrightarrow>
      \<exists>x. dao_get_sms_rate_for_timestamp rates (midnight_of d) = Some x \<and> r_rate x = r"
    and "cached_letter_rate c (d, sheets, post) = Some r \<Longrightarrow>
      \<exists>y. find (\<lambda>x. lr_sheet_count x = sheets \<and> Some (lr_post_class x) = post)
            (dao_get_letter_rates_for_timestamp lrs (midnight_of d)) = Some y \<and> lr_rate y = r"
  using assms by (auto simp: rate_cache_ok_def)

lemma get_sms_rate_ok:
  assumes "rate_cache_ok rates lrs c"
  shows "fst (get_sms_rate rates n c) = fst (get_sms_rate rates n no_rate_cache)"
    and "rate_cache_ok rates lrs (snd (get_sms_rate rates n c))"
proof -
  show "fst (get_sms_rate rates n c) = fst (get_sms_rate rates n no_rate_cache)"
  proof (cases "cached_sms_rate c (date_of (n_created_at n))")
    case None
    then show ?thesis
      by (simp add: get_sms_rate_def Let_def no_rate_cache_def split: option.splits)
  next
    case (Some r)
    then obtain x where
      "dao_get_sms_rate_for_timestamp rates (midnight_of (date_of (n_created_at n))) = Some x"
      "r_rate x = r"
      using rate_cache_okD(1) [OF assms] by blast
    with Some show ?thesis by (simp add: get_sms_rate_def Let_def no_rate_cache_def)
  qed
  show "rate_cache_ok rates lrs (snd (get_sms_rate rates n c))"
    using assms by (auto simp: get_sms_rate_def Let_def rate_cache_ok_def split: option.splits)
qed

lemma get_letter_cost_ok:
  assumes "rate_cache_ok rates lrs c"
  shows "fst (get_letter_cost lrs n c) = fst (get_letter_cost lrs n no_rate_cache)"
    and "rate_cache_ok rates lrs (snd (get_letter_cost lrs n c))"
proof -
  show "fst (get_letter_cost lrs n c) = fst (get_letter_cost lrs n no_rate_cache)"
  proof (cases "cached_letter_rate c (date_of (n_created_at n), n_billable_units n, n_postage n)")
    case None
    then show ?thesis
      by (simp add: get_letter_cost_def Let_def no_rate_cache_def split: option.splits)
  next
    case (Some r)
    then obtain y where
      "find (\<lambda>x. lr_sheet_count x = n_billable_units n \<and> Some (lr_post_class x) = n_postage n)
         (dao_get_letter_rates_for_timestamp lrs (midnight_of (date_of (n_created_at n)))) = Some y"
      "lr_rate y = r"
      using rate_cache_okD(2) [OF assms] by blast
    with Some show ?thesis by (simp add: get_letter_cost_def Let_def no_rate_cache_def)
  qed
  show "rate_cache_ok rates lrs (snd (get_letter_cost lrs n c))"
    using assms
    by (auto simp: get_letter_cost_def Let_def rate_cache_ok_def split: option.splits if_splits)
qed

lemma add_cost_data_for_sms_ok:
  assumes "rate_cache_ok rates lrs c"
  shows "fst (add_cost_data_for_sms rates n c) = fst (add_cost_data_for_sms rates n no_rate_cache)"
    and "rate_cache_ok rates lrs (snd (add_cost_data_for_sms rates n c))"
  using get_sms_rate_ok [OF assms, of n] assms
  by (auto simp: add_cost_data_for_sms_def split: prod.splits sum.splits option.splits)

lemma add_cost_data_for_letter_ok:
  assumes "rate_cache_ok rates lrs c"
  shows "fst (add_cost_data_for_letter lrs n c) = fst (add_cost_data_for_letter lrs n no_rate_cache)"
    and "rate_cache_ok rates lrs (snd (add_cost_data_for_letter lrs n c))"
  using get_letter_cost_ok [OF assms, of n] assms
  by (auto simp: add_cost_data_for_letter_def split: prod.splits sum.splits)

section \<open>Unsubscribe links\<close>

definition get_unsubscribe_link_for_headers ::
  "(string \<Rightarrow> string) \<Rightarrow> bool \<Rightarrow> notification \<Rightarrow> string option" where
  \<comment> \<open>\<open>generate\<close> is \<open>_generate_unsubscribe_link\<close> on the API host name\<close>
  "get_unsubscribe_link_for_headers generate template_has_unsubscribe_link n =
     (if n_unsubscribe_link n \<notin> {None, Some []} then n_unsubscribe_link n
      else if template_has_unsubscribe_link then Some (generate (n_to n)) else None)"

definition get_unsubscribe_link_for_body ::
  "(string \<Rightarrow> string) \<Rightarrow> bool \<Rightarrow> notification \<Rightarrow> string option" where
  "get_unsubscribe_link_for_body generate template_has_unsubscribe_link n =
     (if template_has_unsubscribe_link then Some (generate (n_to n)) else None)"

section \<open>Properties\<close>

text \<open>
  As long as the rate tables do not change under them, the Redis caches are transparent:
  the cost data of a notification are the same with any coherent cache as with an empty one, and
  the cache stays coherent.
\<close>

theorem cost_cache_transparent:
  assumes "rate_cache_ok rates letter_rates c"
  shows "fst (serialize_cost_data rates letter_rates n c) =
           fst (serialize_cost_data rates letter_rates n no_rate_cache)
         \<and> rate_cache_ok rates letter_rates (snd (serialize_cost_data rates letter_rates n c))"
  using add_cost_data_for_sms_ok [OF assms, of n] add_cost_data_for_letter_ok [OF assms, of n] assms
  by (cases "n_type n") (simp_all add: serialize_cost_data_def)

theorem cost_cache_transparent_witness:
  "let rates = [\<lparr>r_id = 1, r_valid_from = 0, r_rate = 3, r_notification_type = Sms\<rparr>];
       c = no_rate_cache\<lparr>cached_sms_rate := [1 \<mapsto> 3]\<rparr>
   in rate_cache_ok rates [] c
      \<and> fst (serialize_cost_data rates [] sample_notification c) =
          fst (serialize_cost_data rates [] sample_notification no_rate_cache)"
proof -
  let ?rates = "[\<lparr>r_id = 1, r_valid_from = 0, r_rate = 3, r_notification_type = Sms\<rparr>]"
  let ?c = "no_rate_cache\<lparr>cached_sms_rate := [1 \<mapsto> 3]\<rparr>"
  have "rate_cache_ok ?rates [] ?c"
    by (auto simp: rate_cache_ok_def no_rate_cache_def dao_get_sms_rate_for_timestamp_def
        latest_by_def midnight_of_def days_def seconds_def split: if_splits)
  then show ?thesis
    using cost_cache_transparent [of ?rates "[]" ?c sample_notification] by (simp add: Let_def)
qed

text \<open>
  \<open>formatted_status\<close> gives a text for every status of an email, a text message or a
  letter, and never one for a notification to a message box: the table of texts has no entry for
  that template type, so the CSV row of such a notification raises \<open>KeyError\<close>.
\<close>

theorem formatted_status_defined_iff:
  "(\<exists>m. formatted_status t s = Inr m) \<longleftrightarrow> t \<noteq> Messagebox"
  by (cases t) (simp_all add: formatted_status_def Let_def)

end
