(* ===== verification/Datetime.thy ===== *)
theory Datetime
  imports World
begin

text \<open>
  The calendar of Python's \<open>datetime\<close> (proleptic Gregorian, days since 1970-01-01) as far as the
  code uses it, and \<^verbatim>\<open>app/dao/date_util.py\<close>: months and financial years. The time-zone
  conversions are the library functions of the \<open>env\<close>; what they are relied on for (London is UTC or
  one hour ahead of it) is the hypothesis \<open>london_offset\<close>.
\<close>

section \<open>The calendar\<close>

definition is_leap_year :: "int \<Rightarrow> bool" where
  "is_leap_year y \<longleftrightarrow> 4 dvd y \<and> (\<not> 100 dvd y \<or> 400 dvd y)"

definition days_before_year :: "int \<Rightarrow> int" where
  \<comment> \<open>counted from 0001-01-01\<close>
  "days_before_year y = 365 * (y - 1) + (y - 1) div 4 - (y - 1) div 100 + (y - 1) div 400"

definition epoch_offset :: int where
  "epoch_offset = 719162"

definition month_lengths :: "int \<Rightarrow> int list" where
  "month_lengths y =
     [31, if is_leap_year y then 29 else 28, 31, 30, 31, 30, 31, 31, 30, 31, 30, 31]"

definition year_of_ordinal :: "int \<Rightarrow> int" where
  "year_of_ordinal d =
     (let q = (400 * d) div 146097 + 1
      in if days_before_year (q + 1) \<le> d then q + 1
         else if d < days_before_year q then q - 1 else q)"

fun month_and_day :: "int list \<Rightarrow> int \<Rightarrow> int \<Rightarrow> int \<times> int" where
  "month_and_day [] m doy = (m, doy + 1)"
| "month_and_day (l # ls) m doy =
     (if doy < l then (m, doy + 1) else month_and_day ls (m + 1) (doy - l))"

definition civil_of_date :: "date \<Rightarrow> int \<times> int \<times> int" where
  "civil_of_date d =
     (let n = d + epoch_offset; y = year_of_ordinal n
      in (y, month_and_day (month_lengths y) 1 (n - days_before_year y)))"

definition date_of_civil :: "int \<Rightarrow> int \<Rightarrow> int \<Rightarrow> date" where
  "date_of_civil y m d =
     days_before_year y + sum_list (take (nat (m - 1)) (month_lengths y)) + (d - 1) - epoch_offset"

definition year_of_date :: "date \<Rightarrow> int" where
  "year_of_date d = fst (civil_of_date d)"

lemma int_div_bounds:
  fixes a k :: int
  assumes "0 < k"
  shows "k * (a div k) \<le> a \<and> a < k * (a div k) + k"
proof -
  have "k * (a div k) + a mod k = a" by simp
  moreover have "0 \<le> a mod k" "a mod k < k" using assms by simp_all
  ultimately show ?thesis by linarith
qed

lemmas century_bounds =
  int_div_bounds [of 4, simplified] int_div_bounds [of 100, simplified]
  int_div_bounds [of 400, simplified]

lemma days_before_year_mono: "x \<le> y \<Longrightarrow> days_before_year x \<le> days_before_year y"
proof (induction "nat (y - x)" arbitrary: y)
  case 0
  then show ?case by simp
next
  case (Suc k)
  have "(y - 2) div 4 \<le> (y - 1) div 4" "(y - 2) div 400 \<le> (y - 1) div 400"
    "(y - 1) div 100 \<le> (y - 2) div 100 + 1"
    by (simp_all add: zdiv_mono1)
  then have "days_before_year (y - 1) \<le> days_before_year y"
    by (simp add: days_before_year_def)
  moreover have "days_before_year x \<le> days_before_year (y - 1)"
    by (rule Suc.hyps) (use Suc in simp_all)
  ultimately show ?case by simp
qed

lemma year_of_ordinal_bounds:
  "days_before_year (year_of_ordinal d) \<le> d \<and> d < days_before_year (year_of_ordinal d + 1)"
proof -
  define r where "r = (400 * d) div 146097"
  have r: "146097 * r \<le> 400 * d" "400 * d < 146097 * r + 146097"
    using int_div_bounds [of 146097 "400 * d"] by (simp_all add: r_def)
  have "400 * days_before_year (x + 1) \<le> 146097 * x + 400"
    "146097 * x - 800 \<le> 400 * days_before_year (x + 1)" for x
    using century_bounds [of x] by (simp_all add: days_before_year_def)
  from this [of "r - 1"] this [of "r + 2"] r
  have "days_before_year r \<le> d" "d < days_before_year (r + 3)"
    by (simp_all add: algebra_simps)
  then show ?thesis
    by (auto simp: year_of_ordinal_def Let_def r_def [symmetric] add.commute)
qed

lemma year_of_ordinal_unique:
  assumes "days_before_year y \<le> d" "d < days_before_year (y + 1)"
  shows "year_of_ordinal d = y"
proof (rule ccontr)
  assume "year_of_ordinal d \<noteq> y"
  then consider "year_of_ordinal d + 1 \<le> y" | "y + 1 \<le> year_of_ordinal d" by linarith
  then show False
    using days_before_year_mono year_of_ordinal_bounds [of d] assms
    by cases (meson leD less_le_trans order_trans)+
qed

lemma length_month_lengths [simp]: "length (month_lengths y) = 12"
  by (simp add: month_lengths_def)

lemma int_div_step:
  fixes y k :: int
  assumes "0 < k"
  shows "y div k - (y - 1) div k = (if k dvd y then 1 else 0)"
proof -
  have y: "y = k * (y div k) + y mod k" and r: "0 \<le> y mod k" "y mod k < k"
    using assms by simp_all
  show ?thesis
  proof (cases "y mod k = 0")
    case True
    have "(y - 1) div k = y div k - 1"
      by (rule int_div_pos_eq [of _ _ _ "k - 1"]) (use y True assms in \<open>auto simp: algebra_simps\<close>)
    then show ?thesis using True by (simp add: dvd_eq_mod_eq_0)
  next
    case False
    have "(y - 1) div k = y div k"
      by (rule int_div_pos_eq [of _ _ _ "y mod k - 1"]) (use y r False in linarith)+
    then show ?thesis using False by (simp add: dvd_eq_mod_eq_0)
  qed
qed

lemma month_lengths_pos: "l \<in> set (month_lengths y) \<Longrightarrow> 0 < l"
  by (auto simp: month_lengths_def split: if_splits)

lemma sum_month_lengths: "days_before_year y + sum_list (month_lengths y) = days_before_year (y + 1)"
proof -
  have steps: "y div 4 - (y - 1) div 4 = (if 4 dvd y then 1 else 0)"
    "y div 100 - (y - 1) div 100 = (if 100 dvd y then 1 else 0)"
    "y div 400 - (y - 1) div 400 = (if 400 dvd y then 1 else 0)"
    by (rule int_div_step, simp)+
  have "100 dvd y \<Longrightarrow> 4 dvd y" by (rule dvd_trans [of 4 100]) simp_all
  moreover have "400 dvd y \<Longrightarrow> 100 dvd y" by (rule dvd_trans [of 100 400]) simp_all
  ultimately have "(if 4 dvd y then 1 else 0) - (if 100 dvd y then 1 else 0)
      + (if 400 dvd y then 1 else 0) = (if is_leap_year y then 1 else 0 :: int)"
    unfolding is_leap_year_def by (cases "4 dvd y"; cases "100 dvd y"; cases "400 dvd y") simp_all
  then have "(y div 4 - (y - 1) div 4) - (y div 100 - (y - 1) div 100)
      + (y div 400 - (y - 1) div 400) = (if is_leap_year y then 1 else 0)"
    by (simp only: steps)
  moreover have "sum_list (month_lengths y) = 365 + (if is_leap_year y then 1 else 0)"
    by (simp add: month_lengths_def)
  ultimately show ?thesis by (simp only: days_before_year_def) simp
qed

lemma month_and_day_sum:
  assumes "0 \<le> doy" "doy < sum_list ls" "month_and_day ls m doy = (m', d)"
    "\<And>l. l \<in> set ls \<Longrightarrow> 0 < l"
  shows "m \<le> m' \<and> m' < m + int (length ls) \<and> 1 \<le> d
    \<and> sum_list (take (nat (m' - m)) ls) + (d - 1) = doy \<and> d \<le> ls ! nat (m' - m)"
  using assms
proof (induction ls m doy arbitrary: m' d rule: month_and_day.induct)
  case (1 m doy)
  then show ?case by simp
next
  case (2 l ls m doy)
  show ?case
  proof (cases "doy < l")
    case True
    then show ?thesis using 2(2-4) by auto
  next
    case False
    then have "m + 1 \<le> m' \<and> m' < m + 1 + int (length ls) \<and> 1 \<le> d
        \<and> sum_list (take (nat (m' - (m + 1))) ls) + (d - 1) = doy - l
        \<and> d \<le> ls ! nat (m' - (m + 1))"
      using 2 by simp
    moreover from this have "nat (m' - m) = Suc (nat (m' - (m + 1)))" by linarith
    ultimately show ?thesis by simp
  qed
qed

lemma date_of_civil_of_date:
  assumes "civil_of_date x = (y, m, d)"
  shows "date_of_civil y m d = x \<and> 1 \<le> m \<and> m \<le> 12 \<and> 1 \<le> d \<and> d \<le> month_lengths y ! nat (m - 1)"
proof -
  define n where "n = x + epoch_offset"
  have y: "y = year_of_ordinal n"
    and md: "month_and_day (month_lengths y) 1 (n - days_before_year y) = (m, d)"
    using assms by (auto simp: civil_of_date_def Let_def n_def)
  have "0 \<le> n - days_before_year y" "n - days_before_year y < sum_list (month_lengths y)"
    using year_of_ordinal_bounds [of n] sum_month_lengths [of y] y by auto
  from month_and_day_sum [OF this md month_lengths_pos] have
    "1 \<le> m \<and> m < 1 + 12 \<and> 1 \<le> d
      \<and> sum_list (take (nat (m - 1)) (month_lengths y)) + (d - 1) = n - days_before_year y
      \<and> d \<le> month_lengths y ! nat (m - 1)"
    by simp
  then show ?thesis by (simp add: date_of_civil_def n_def)
qed

lemma year_of_date_eq_iff:
  "year_of_date d = y \<longleftrightarrow> date_of_civil y 1 1 \<le> d \<and> d < date_of_civil (y + 1) 1 1"
  using year_of_ordinal_bounds [of "d + epoch_offset"] year_of_ordinal_unique [of y "d + epoch_offset"]
  by (auto simp: year_of_date_def civil_of_date_def date_of_civil_def Let_def)

subsection \<open>Renderings\<close>

definition date_str :: "date \<Rightarrow> string" where
  \<comment> \<open>\<open>str(date)\<close>, i.e. \<open>%Y-%m-%d\<close>, of a year from 1000\<close>
  "date_str d =
     (let (y, m, day) = civil_of_date d
      in int_str y @ ''-'' @ zfill 2 (int_str m) @ ''-'' @ zfill 2 (int_str day))"

definition compact_datetime_str :: "time \<Rightarrow> string" where
  \<comment> \<open>\<open>%Y%m%d%H%M%S\<close>\<close>
  "compact_datetime_str t =
     (let (y, m, day) = civil_of_date (date_of t); s = time_of_day t div seconds 1
      in int_str y @ zfill 2 (int_str m) @ zfill 2 (int_str day)
         @ zfill 2 (int_str (s div 3600)) @ zfill 2 (int_str (s div 60 mod 60))
         @ zfill 2 (int_str (s mod 60)))"

lemma int_str_chars: "0 \<le> i \<Longrightarrow> c \<in> set (int_str i) \<Longrightarrow> c \<in> digit_char ` {0..<10}"
proof -
  have digits: "d < 10" if "d \<in> set (nat_digits 10 n)" for d n
    using that
  proof (induction "10 :: nat" n rule: nat_digits.induct)
    case (1 n)
    then show ?case by (subst (asm) nat_digits.simps) (auto split: if_splits)
  qed
  assume "0 \<le> i" "c \<in> set (int_str i)"
  then show ?thesis using digits by (auto simp: int_str_def nat_str_def)
qed

section \<open>Months and financial years\<close>

definition datetime_of :: "int \<Rightarrow> int \<Rightarrow> int \<Rightarrow> time" where
  \<comment> \<open>\<open>datetime(year, month, day)\<close>\<close>
  "datetime_of y m d = midnight_of (date_of_civil y m d)"

definition get_months_for_year :: "int \<Rightarrow> int \<Rightarrow> int \<Rightarrow> time list" where
  "get_months_for_year start end_month year = map (\<lambda>m. datetime_of year m 1) [start..end_month - 1]"

definition get_months_for_financial_year :: "env \<Rightarrow> int \<Rightarrow> world \<Rightarrow> time list" where
  "get_months_for_financial_year env year w =
     map (lib_bst_to_utc env)
       (filter (\<lambda>month. lib_bst_to_utc env month < w_now w)
         (get_months_for_year 4 13 year @ get_months_for_year 1 4 (year + 1)))"

definition get_april_fools :: "env \<Rightarrow> int \<Rightarrow> time" where
  "get_april_fools env year = lib_london_to_utc env (datetime_of year 4 1)"

definition get_financial_year :: "env \<Rightarrow> int \<Rightarrow> time \<times> time" where
  "get_financial_year env year = (get_april_fools env year, get_april_fools env (year + 1) - 1)"

definition get_financial_year_dates :: "env \<Rightarrow> int \<Rightarrow> date \<times> date" where
  "get_financial_year_dates env year =
     (let (s, e) = get_financial_year env year
      in (date_of (lib_utc_to_bst env s), date_of (lib_utc_to_bst env e)))"

definition get_current_financial_year :: "env \<Rightarrow> world \<Rightarrow> time \<times> time" where
  "get_current_financial_year env w =
     (let (y, m, d) = civil_of_date (date_of (w_now w))
      in get_financial_year env (if m > 3 then y else y - 1))"

definition get_month_start_and_end_date_in_utc :: "env \<Rightarrow> time \<Rightarrow> time \<times> time" where
  "get_month_start_and_end_date_in_utc env month_year =
     (let (y, m, d) = civil_of_date (date_of month_year);
          num_days = month_lengths y ! nat (m - 1);
          first_day = datetime_of y m 1;
          last_day = datetime_of y m num_days + seconds (23 * 3600 + 59 * 60 + 59) + 99999
      in (lib_bst_to_utc env first_day, lib_bst_to_utc env last_day))"

definition get_current_financial_year_start_year :: "env \<Rightarrow> world \<Rightarrow> int" where
  \<comment> \<open>\<open>datetime.now()\<close> of a server that runs in UTC\<close>
  "get_current_financial_year_start_year env w =
     (let y = year_of_date (date_of (w_now w))
      in if w_now w < fst (get_financial_year env y) then y - 1 else y)"

definition get_financial_year_for_datetime :: "env \<Rightarrow> time \<Rightarrow> int" where
  \<comment> \<open>a \<open>date\<close> argument is first combined with midnight\<close>
  "get_financial_year_for_datetime env t =
     (let y = year_of_date (date_of t) in if t < get_april_fools env y then y - 1 else y)"

lemma month_end_microseconds:
  assumes "civil_of_date (date_of t) = (y, m, d)"
  shows "snd (get_month_start_and_end_date_in_utc env t) =
    lib_bst_to_utc env (midnight_of (date_of_civil y m (month_lengths y ! nat (m - 1)) + 1) - 900001)"
  using assms
  by (simp add: get_month_start_and_end_date_in_utc_def Let_def datetime_of_def midnight_of_def
      days_def seconds_def)

section \<open>Properties\<close>

definition london_offset :: "env \<Rightarrow> bool" where
  "london_offset env \<longleftrightarrow>
     (\<forall>t. lib_london_to_utc env t \<in> {t - minutes 60, t})"

lemma april_first: "date_of_civil y 1 1 + 90 \<le> date_of_civil y 4 1
    \<and> date_of_civil y 4 1 \<le> date_of_civil y 1 1 + 91"
  by (simp add: date_of_civil_def month_lengths_def numeral_eq_Suc take_Suc_conv_app_nth)

lemma april_fools_between:
  assumes "london_offset env"
  shows "datetime_of y 1 1 < get_april_fools env y
    \<and> get_april_fools env y < datetime_of (y + 1) 1 1"
proof -
  have "get_april_fools env y \<in> {datetime_of y 4 1 - minutes 60, datetime_of y 4 1}"
    using assms by (simp add: london_offset_def get_april_fools_def)
  moreover have "date_of_civil (y + 1) 1 1 \<ge> date_of_civil y 1 1 + 365"
    using sum_month_lengths [of y]
    by (simp add: date_of_civil_def month_lengths_def split: if_splits)
  ultimately show ?thesis
    using april_first [of y]
    by (auto simp: datetime_of_def midnight_of_def days_def minutes_def seconds_def)
qed

lemma datetime_of_year:
  "datetime_of (year_of_date (date_of t)) 1 1 \<le> t
   \<and> t < datetime_of (year_of_date (date_of t) + 1) 1 1"
proof -
  define d where "d = date_of t"
  have "days d \<le> t" "t < days (d + 1)"
    unfolding d_def date_of_def days_def seconds_def
    using int_div_bounds [of "86400000000" t] by (simp_all add: algebra_simps)
  moreover have "date_of_civil (year_of_date d) 1 1 \<le> d" "d + 1 \<le> date_of_civil (year_of_date d + 1) 1 1"
    using year_of_date_eq_iff [of d "year_of_date d"] by simp_all
  ultimately show ?thesis
    unfolding datetime_of_def midnight_of_def d_def [symmetric] days_def seconds_def
    by (simp add: algebra_simps)
qed

lemma april_fools_mono:
  assumes "london_offset env" "y < z"
  shows "get_april_fools env y < get_april_fools env z"
proof -
  have "days_before_year (y + 1) \<le> days_before_year z" using assms by (simp add: days_before_year_mono)
  then have "datetime_of (y + 1) 1 1 \<le> datetime_of z 1 1"
    by (simp add: datetime_of_def midnight_of_def days_def seconds_def date_of_civil_def)
  then show ?thesis
    using april_fools_between [OF assms(1), of y] april_fools_between [OF assms(1), of z] by linarith
qed

text \<open>
  With London at UTC or one hour ahead of it, \<open>get_financial_year_for_datetime\<close> gives
  exactly the year whose \<open>get_financial_year\<close> interval contains the instant: the financial years
  cover the time line without gap or overlap.
\<close>

theorem financial_year_contains:
  assumes "london_offset env"
  shows "get_financial_year_for_datetime env t = y \<longleftrightarrow>
    fst (get_financial_year env y) \<le> t \<and> t \<le> snd (get_financial_year env y)"
proof -
  define z where "z = get_financial_year_for_datetime env t"
  have z: "get_april_fools env z \<le> t \<and> t < get_april_fools env (z + 1)"
    using april_fools_between [OF assms, of "year_of_date (date_of t)"]
      april_fools_between [OF assms, of "year_of_date (date_of t) - 1"]
      april_fools_between [OF assms, of "year_of_date (date_of t) + 1"] datetime_of_year [of t]
    by (auto simp: z_def get_financial_year_for_datetime_def Let_def)
  have "z = y" if "get_april_fools env y \<le> t" "t < get_april_fools env (y + 1)"
  proof (rule ccontr)
    assume "z \<noteq> y"
    then consider "z + 1 \<le> y" | "y + 1 \<le> z" by linarith
    then show False
      using z that april_fools_mono [OF assms]
      by cases (metis less_le_not_le order_le_less order_less_le_trans)+
  qed
  then show ?thesis using z by (auto simp: z_def [symmetric] get_financial_year_def)
qed

theorem financial_year_contains_witness:
  "london_offset sample_env
   \<and> get_financial_year_for_datetime sample_env (datetime_of 2024 3 31 + minutes (23 * 60)) = 2024"
proof -
  have london: "london_offset sample_env" by (simp add: london_offset_def sample_env_def)
  have "fst (get_financial_year sample_env 2024) \<le> datetime_of 2024 3 31 + minutes (23 * 60)
      \<and> datetime_of 2024 3 31 + minutes (23 * 60) \<le> snd (get_financial_year sample_env 2024)"
    by (simp add: get_financial_year_def get_april_fools_def sample_env_def datetime_of_def
        date_of_civil_def days_before_year_def month_lengths_def is_leap_year_def epoch_offset_def
        midnight_of_def days_def minutes_def seconds_def numeral_eq_Suc)
  then show ?thesis
    using financial_year_contains [OF london, of "datetime_of 2024 3 31 + minutes (23 * 60)" 2024]
      london by simp
qed

end
