(* ===== verification/Letters_Utils.thy ===== *)
theory Letters_Utils
  imports Datetime Utils "HOL-Library.List_Lexorder" "HOL-Library.Char_ord"
begin

text \<open>
  \<^verbatim>\<open>app/letters/utils.py\<close> and the S3 calls under it: the names and folders of letter PDFs, finding
  the PDF of a notification, moving files between buckets, the sheets of a letter, the daily
  limits after a cancellation. S3 lists the keys of a bucket in lexicographic order, a deletion
  of a missing key succeeds, and a copy of one raises a client error.
\<close>

section \<open>S3\<close>

definition s3_get :: "string \<Rightarrow> string \<Rightarrow> world \<Rightarrow> s3_object option" where
  "s3_get bucket key w = map_of (w_s3 w) (bucket, key)"

definition s3_put :: "string \<Rightarrow> string \<Rightarrow> s3_object \<Rightarrow> world \<Rightarrow> world" where
  "s3_put bucket key obj w = w\<lparr>w_s3 := dict_set (bucket, key) obj (w_s3 w)\<rparr>"

definition s3_delete :: "string \<Rightarrow> string \<Rightarrow> world \<Rightarrow> world" where
  "s3_delete bucket key w = w\<lparr>w_s3 := filter (\<lambda>(k, _). k \<noteq> (bucket, key)) (w_s3 w)\<rparr>"

definition s3_list :: "string \<Rightarrow> string \<Rightarrow> world \<Rightarrow> string list" where
  "s3_list bucket pre w =
     sort (map (snd \<circ> fst) (filter (\<lambda>((b, k), _). b = bucket \<and> prefix pre k) (w_s3 w)))"

lemma s3_get_put [simp]:
  "s3_get b k (s3_put b' k' obj w) = (if b = b' \<and> k = k' then Some obj else s3_get b k w)"
  by (simp add: s3_get_def s3_put_def)

lemma map_of_filter_key: "map_of (filter (\<lambda>(k, _). k \<noteq> x) xs) y = (if x = y then None else map_of xs y)"
  by (induction xs) auto

lemma s3_get_delete [simp]:
  "s3_get b k (s3_delete b' k' w) = (if b = b' \<and> k = k' then None else s3_get b k w)"
  by (auto simp: s3_get_def s3_delete_def map_of_filter_key)

lemma set_s3_list: "k \<in> set (s3_list b pre w) \<longleftrightarrow> s3_get b k w \<noteq> None \<and> prefix pre k"
proof -
  have "s3_get b k w \<noteq> None \<longleftrightarrow> (b, k) \<in> fst ` set (w_s3 w)"
    by (simp add: s3_get_def map_of_eq_None_iff)
  then show ?thesis by (force simp: s3_list_def image_iff)
qed

definition S3_BUCKET_LETTERS_SCAN :: string where
  "S3_BUCKET_LETTERS_SCAN = ''S3_BUCKET_LETTERS_SCAN''"

definition S3_BUCKET_INVALID_PDF :: string where
  "S3_BUCKET_INVALID_PDF = ''S3_BUCKET_INVALID_PDF''"

definition S3_BUCKET_TEST_LETTERS :: string where
  "S3_BUCKET_TEST_LETTERS = ''S3_BUCKET_TEST_LETTERS''"

definition S3_BUCKET_LETTERS_PDF :: string where
  "S3_BUCKET_LETTERS_PDF = ''S3_BUCKET_LETTERS_PDF''"

definition S3_BUCKET_TRANSIENT_UPLOADED_LETTERS :: string where
  "S3_BUCKET_TRANSIENT_UPLOADED_LETTERS = ''S3_BUCKET_TRANSIENT_UPLOADED_LETTERS''"

definition S3_BUCKET_LETTER_SANITISE :: string where
  "S3_BUCKET_LETTER_SANITISE = ''S3_BUCKET_LETTER_SANITISE''"

lemmas bucket_defs =
  S3_BUCKET_LETTERS_SCAN_def S3_BUCKET_INVALID_PDF_def S3_BUCKET_TEST_LETTERS_def
  S3_BUCKET_LETTERS_PDF_def S3_BUCKET_TRANSIENT_UPLOADED_LETTERS_def
  S3_BUCKET_LETTER_SANITISE_def

section \<open>Names of letter PDFs\<close>

definition print_folder_date :: "env \<Rightarrow> time \<Rightarrow> date" where
  "print_folder_date env created_at =
     (let print_datetime = lib_utc_to_bst env created_at
      in date_of (if time_of_day print_datetime > lib_letter_processing_deadline env
                  then print_datetime + days 1 else print_datetime))"

definition get_folder_name :: "env \<Rightarrow> time \<Rightarrow> string" where
  "get_folder_name env created_at = date_str (print_folder_date env created_at) @ ''/''"

definition format_reference :: "string option \<Rightarrow> string" where
  "format_reference r = (case r of None \<Rightarrow> ''None'' | Some x \<Rightarrow> x)"

definition generate_letter_pdf_filename ::
  "env \<Rightarrow> string option \<Rightarrow> time \<Rightarrow> bool \<Rightarrow> postage option \<Rightarrow> string result" where
  "generate_letter_pdf_filename env reference created_at ignore_folder post =
     (case post of
        None \<Rightarrow> Inl (Py (KeyError ''None''))
      | Some p \<Rightarrow>
          Inr (py_upper
            ((if ignore_folder then [] else get_folder_name env created_at)
             @ ''NOTIFY.'' @ format_reference reference @ ''.'' @ ''D'' @ ''.''
             @ RESOLVE_POSTAGE_FOR_FILE_NAME p @ ''.'' @ ''C'' @ ''.''
             @ compact_datetime_str created_at @ ''.pdf'')))"

definition get_bucket_name_and_prefix_for_notification ::
  "env \<Rightarrow> notification \<Rightarrow> string \<times> string" where
  "get_bucket_name_and_prefix_for_notification env n =
     (let (bucket, folder) =
        (if n_status n = ValidationFailed then (S3_BUCKET_INVALID_PDF, [])
         else if n_key_type n = TestKey then (S3_BUCKET_TEST_LETTERS, [])
         else (S3_BUCKET_LETTERS_PDF, get_folder_name env (n_created_at n)))
      in (bucket, py_upper (folder @ ''NOTIFY.'' @ format_reference (n_reference n))))"

definition get_reference_from_filename :: "string \<Rightarrow> string result" where
  "get_reference_from_filename filename =
     (case py_split (CHR ''.'') filename of
        _ # r # _ \<Rightarrow> Inr r
      | _ \<Rightarrow> Inl (Py IndexError))"

definition find_letter_pdf_in_s3 :: "env \<Rightarrow> notification \<Rightarrow> world \<Rightarrow> (string \<times> string) result" where
  "find_letter_pdf_in_s3 env n w =
     (let (bucket, pre) = get_bucket_name_and_prefix_for_notification env n
      in case s3_list bucket pre w of
           [] \<Rightarrow> Inl (Storage LetterPDFNotFound)
         | key # _ \<Rightarrow> Inr (bucket, key))"

definition get_letter_pdf_and_metadata :: "env \<Rightarrow> notification \<Rightarrow> world \<Rightarrow> s3_object result" where
  "get_letter_pdf_and_metadata env n w =
     res_bind (find_letter_pdf_in_s3 env n w) (\<lambda>(bucket, key).
       case s3_get bucket key w of
         None \<Rightarrow> Inl (Storage (BotoClientError ''NoSuchKey'')) | Some obj \<Rightarrow> Inr obj)"

definition upload_letter_pdf :: "env \<Rightarrow> notification \<Rightarrow> string \<Rightarrow> bool \<Rightarrow> string op" where
  "upload_letter_pdf env n pdf_data precompiled w =
     (case generate_letter_pdf_filename env (n_reference n) (n_created_at n)
             (precompiled \<or> n_key_type n = TestKey) (n_postage n) of
        Inl e \<Rightarrow> (Inl e, w)
      | Inr upload_file_name \<Rightarrow>
          (let bucket = (if precompiled then S3_BUCKET_LETTERS_SCAN
                         else if n_key_type n = TestKey then S3_BUCKET_TEST_LETTERS
                         else S3_BUCKET_LETTERS_PDF)
           in (Inr upload_file_name, s3_put bucket upload_file_name (pdf_data, []) w)))"

section \<open>Moving files\<close>

datatype scan_error_type = ScanError | ScanFailure

definition move_s3_object ::
  "string \<Rightarrow> string \<Rightarrow> string \<Rightarrow> string \<Rightarrow> (string \<times> string) list \<Rightarrow> unit op" where
  \<comment> \<open>an empty metadata argument keeps the metadata of the source\<close>
  "move_s3_object source_bucket source target_bucket target metadata w =
     (case s3_get source_bucket source w of
        None \<Rightarrow> (Inl (Storage (BotoClientError ''404'')), w)
      | Some (content, old) \<Rightarrow>
          (Inr (), s3_delete source_bucket source
                     (s3_put target_bucket target
                        (content, if metadata = [] then old else metadata) w)))"

definition move_failed_pdf :: "string \<Rightarrow> scan_error_type \<Rightarrow> unit op" where
  "move_failed_pdf source_filename scan_error =
     move_s3_object S3_BUCKET_LETTERS_SCAN source_filename S3_BUCKET_LETTERS_SCAN
       ((if scan_error = ScanError then ''ERROR/'' else ''FAILURE/'') @ source_filename) []"

definition move_error_pdf_to_scan_bucket :: "string \<Rightarrow> unit op" where
  "move_error_pdf_to_scan_bucket source_filename =
     move_s3_object S3_BUCKET_LETTERS_SCAN (''ERROR/'' @ source_filename)
       S3_BUCKET_LETTERS_SCAN source_filename []"

definition json_int_list :: "int list \<Rightarrow> string" where
  "json_int_list xs =
     ''['' @ concat (map (\<lambda>(i, x). (if i = 0 then [] else '', '') @ int_str x) (enumerate 0 xs)) @ '']''"

definition move_scan_to_invalid_pdf_bucket ::
  "string \<Rightarrow> string \<Rightarrow> int list \<Rightarrow> int \<Rightarrow> unit op" where
  \<comment> \<open>an argument that is not given is empty or 0, falsy as \<open>None\<close> is\<close>
  "move_scan_to_invalid_pdf_bucket source_filename message invalid_pages page_count =
     move_s3_object S3_BUCKET_LETTERS_SCAN source_filename S3_BUCKET_INVALID_PDF source_filename
       ((if message \<noteq> [] then [(''message'', message)] else [])
        @ (if invalid_pages \<noteq> [] then [(''invalid_pages'', json_int_list invalid_pages)] else [])
        @ (if page_count \<noteq> 0 then [(''page_count'', int_str page_count)] else []))"

definition move_uploaded_pdf_to_letters_bucket :: "string \<Rightarrow> string \<Rightarrow> unit op" where
  "move_uploaded_pdf_to_letters_bucket source_filename upload_filename =
     move_s3_object S3_BUCKET_TRANSIENT_UPLOADED_LETTERS source_filename S3_BUCKET_LETTERS_PDF
       upload_filename []"

definition move_sanitised_letter_to_test_or_live_pdf_bucket ::
  "env \<Rightarrow> string \<Rightarrow> bool \<Rightarrow> time \<Rightarrow> string \<Rightarrow> unit op" where
  "move_sanitised_letter_to_test_or_live_pdf_bucket env filename is_test_letter created_at new_filename =
     move_s3_object S3_BUCKET_LETTER_SANITISE filename
       (if is_test_letter then S3_BUCKET_TEST_LETTERS else S3_BUCKET_LETTERS_PDF)
       ((if is_test_letter then [] else get_folder_name env created_at) @ new_filename) []"

definition get_file_names_from_error_bucket :: "world \<Rightarrow> string list" where
  "get_file_names_from_error_bucket w = s3_list S3_BUCKET_LETTERS_SCAN ''ERROR'' w"

lemma move_s3_object_moves:
  assumes "s3_get b k w = Some (content, old)" "(b, k) \<noteq> (b', k')"
  shows "\<exists>w'. move_s3_object b k b' k' meta w = (Inr (), w')
    \<and> s3_get b k w' = None
    \<and> s3_get b' k' w' = Some (content, if meta = [] then old else meta)"
  using assms by (auto simp: move_s3_object_def)

section \<open>Print days, sheets and limits\<close>

fun month_name :: "int \<Rightarrow> string" where
  "month_name m =
     [''January'', ''February'', ''March'', ''April'', ''May'', ''June'', ''July'', ''August'',
      ''September'', ''October'', ''November'', ''December''] ! nat (m - 1)"

definition letter_print_date :: "env \<Rightarrow> time \<Rightarrow> date" where
  "letter_print_date env created_at =
     date_of (lib_utc_to_bst env created_at + minutes (6 * 60 + 30))"

definition letter_print_day :: "env \<Rightarrow> time \<Rightarrow> world \<Rightarrow> string" where
  "letter_print_day env created_at w =
     (let d = letter_print_date env created_at
      in if d \<ge> date_of (lib_utc_to_bst env (w_now w)) then ''today''
         else (let (y, m, day) = civil_of_date d
               in ''on '' @ dropWhile (\<lambda>c. c = CHR ''0'')
                    (zfill 2 (int_str day) @ '' '' @ month_name m)))"

definition get_billable_units_for_letter_page_count :: "int option \<Rightarrow> int" where
  \<comment> \<open>\<open>math.ceil(page_count / 2)\<close>\<close>
  "get_billable_units_for_letter_page_count page_count =
     (case page_count of None \<Rightarrow> 0 | Some p \<Rightarrow> if p = 0 then 0 else - ((- p) div 2))"

definition adjust_daily_service_limits_for_cancelled_letters ::
  "env \<Rightarrow> uuid \<Rightarrow> int \<Rightarrow> time \<Rightarrow> world \<Rightarrow> world" where
  "adjust_daily_service_limits_for_cancelled_letters env service_id no_of_cancelled created_at w =
     (if \<not> cfg_redis_enabled env then w
      else if date_of created_at \<noteq> date_of (w_now w) then w
      else
        (let k = lib_daily_limit_key env (date_of (w_now w)) service_id (ntype_name Letter)
         in case redis_get k w of
              None \<Rightarrow> w
            | Some sent \<Rightarrow>
                if sent - no_of_cancelled \<ge> 0 then redis_incrby k (- no_of_cancelled) w else w))"

section \<open>Lemmas on names\<close>

lemma digit_char_no_dot: "d < 10 \<Longrightarrow> digit_char d \<noteq> CHR ''.''"
proof
  assume d: "d < 10" and eq: "digit_char d = CHR ''.''"
  from d have "of_char (digit_char d) = (48 + d :: nat)" by (simp add: digit_char_def)
  with eq show False by simp
qed

lemma nat_digits_decimal: "d \<in> set (nat_digits 10 n) \<Longrightarrow> d < 10"
proof (induction "10 :: nat" n rule: nat_digits.induct)
  case (1 n)
  then show ?case by (subst (asm) nat_digits.simps) (auto split: if_splits)
qed

lemma no_dot_int_str [simp]: "CHR ''.'' \<notin> set (int_str i)"
proof -
  have "digit_char d \<noteq> CHR ''.''" if "d \<in> set (nat_digits 10 n)" for d n
    using nat_digits_decimal [OF that] by (rule digit_char_no_dot)
  then have "CHR ''.'' \<notin> set (nat_str n)" for n by (force simp: nat_str_def)
  then show ?thesis by (simp add: int_str_def)
qed

lemma no_dot_folder [simp]: "CHR ''.'' \<notin> set (get_folder_name env t)"
  by (auto simp: get_folder_name_def date_str_def zfill_def split: prod.splits)

lemma upper_char_dot [simp]: "upper_char c = CHR ''.'' \<longleftrightarrow> c = CHR ''.''"
proof
  assume up: "upper_char c = CHR ''.''"
  show "c = CHR ''.''"
  proof (rule ccontr)
    assume "c \<noteq> CHR ''.''"
    with up have c: "97 \<le> (of_char c :: nat)" "(of_char c :: nat) \<le> 122"
      "char_of ((of_char c :: nat) - 32) = CHR ''.''"
      by (auto simp: upper_char_def split: if_splits)
    then have "(of_char (char_of ((of_char c :: nat) - 32)) :: nat) = 46" by simp
    moreover have "(of_char c :: nat) - 32 < 2 ^ 8" using c(2) by simp
    ultimately have "(of_char c :: nat) - 32 = 46" by (simp add: take_bit_nat_eq_self)
    with c(1) show False by simp
  qed
qed (simp add: upper_char_def)

lemma dot_py_upper [simp]: "CHR ''.'' \<in> set (py_upper s) \<longleftrightarrow> CHR ''.'' \<in> set s"
proof -
  have "CHR ''.'' = upper_char c \<longleftrightarrow> c = CHR ''.''" for c using upper_char_dot by metis
  then show ?thesis by (induction s) (auto simp: py_upper_def)
qed

lemma py_upper_append: "py_upper (s @ t) = py_upper s @ py_upper t"
  by (simp add: py_upper_def)

lemma reference_of_name:
  assumes "CHR ''.'' \<notin> set f" "CHR ''.'' \<notin> set r"
  shows "get_reference_from_filename (py_upper (f @ ''NOTIFY.'' @ r @ CHR ''.'' # rest)) =
    Inr (py_upper r)"
proof -
  have name: "py_upper (f @ ''NOTIFY.'' @ r @ CHR ''.'' # rest)
     = py_upper (f @ ''NOTIFY'') @ CHR ''.'' # (py_upper r @ CHR ''.'' # py_upper rest)"
    by (simp add: py_upper_def)
  have "CHR ''.'' \<notin> set (py_upper (f @ ''NOTIFY''))" using assms by (simp only: dot_py_upper) simp
  moreover have "CHR ''.'' \<notin> set (py_upper r)" using assms by simp
  ultimately have "py_split (CHR ''.'') (py_upper (f @ ''NOTIFY'') @ CHR ''.'' #
        (py_upper r @ CHR ''.'' # py_upper rest))
     = py_upper (f @ ''NOTIFY'') # py_upper r # py_split (CHR ''.'') (py_upper rest)"
    by (simp only: py_split_append not_False_eq_True)
  then show ?thesis by (simp only: name get_reference_from_filename_def list.case)
qed

lemma generated_name_shape:
  assumes "generate_letter_pdf_filename env r t ignore p = Inr name"
  obtains rest where "name = py_upper ((if ignore then [] else get_folder_name env t)
    @ ''NOTIFY.'' @ format_reference r @ CHR ''.'' # rest)"
proof -
  obtain q where "p = Some q"
    using assms by (auto simp: generate_letter_pdf_filename_def split: option.splits)
  then show ?thesis
    using assms that [of "''D'' @ ''.'' @ RESOLVE_POSTAGE_FOR_FILE_NAME q @ ''.'' @ ''C'' @ ''.''
             @ compact_datetime_str t @ ''.pdf''"]
    by (simp add: generate_letter_pdf_filename_def)
qed

lemma generated_name_prefix:
  assumes "generate_letter_pdf_filename env r t ignore p = Inr name"
  shows "prefix (py_upper ((if ignore then [] else get_folder_name env t)
    @ ''NOTIFY.'' @ format_reference r)) name"
proof -
  obtain rest where "name = py_upper ((if ignore then [] else get_folder_name env t)
      @ ''NOTIFY.'' @ format_reference r @ CHR ''.'' # rest)"
    by (rule generated_name_shape [OF assms])
  then show ?thesis by (simp add: py_upper_def)
qed

lemma s3_list_put_alone:
  assumes "s3_list b pre w = []" "prefix pre key"
  shows "\<exists>ks. s3_list b pre (s3_put b key obj w) = key # ks"
proof -
  have none: "\<not> (s3_get b k w \<noteq> None \<and> prefix pre k)" for k
    using set_s3_list [of k b pre w] by (simp add: assms)
  have "k \<in> set (s3_list b pre (s3_put b key obj w)) \<longleftrightarrow> k = key" for k
    using none [of k] assms by (auto simp: set_s3_list)
  then show ?thesis by (cases "s3_list b pre (s3_put b key obj w)") (auto simp: set_eq_iff)
qed

section \<open>Properties\<close>

text \<open>
  C40: the reference read back from the name of a letter's PDF is the (upper-cased)
  reference of the notification it was generated for, in whatever folder it lies, for every
  reference without a dot.
\<close>

theorem filename_reference_roundtrip:
  assumes "generate_letter_pdf_filename env reference created_at ignore_folder post = Inr name"
    and "CHR ''.'' \<notin> set (format_reference reference)"
  shows "get_reference_from_filename name = Inr (py_upper (format_reference reference))"
proof -
  obtain rest where name: "name = py_upper ((if ignore_folder then [] else get_folder_name env created_at)
      @ ''NOTIFY.'' @ format_reference reference @ CHR ''.'' # rest)"
    by (rule generated_name_shape [OF assms(1)])
  show ?thesis unfolding name by (rule reference_of_name) (use assms(2) in simp_all)
qed

theorem filename_reference_roundtrip_witness:
  "case generate_letter_pdf_filename sample_env (Some ''ABC123'') 0 False (Some Europe) of
     Inr name \<Rightarrow> get_reference_from_filename name = Inr ''ABC123''
   | Inl e \<Rightarrow> False"
proof -
  obtain name where name:
    "generate_letter_pdf_filename sample_env (Some ''ABC123'') 0 False (Some Europe) = Inr name"
    by (simp add: generate_letter_pdf_filename_def)
  have up: "py_upper ''ABC123'' = ''ABC123''" by code_simp
  show ?thesis
    using filename_reference_roundtrip [OF name] name by (simp add: format_reference_def up)
qed

text \<open>
  A letter's PDF is found where it was put: after \<open>upload_letter_pdf\<close> of a letter that is
  not a pre-compiled one and has not failed validation, \<open>find_letter_pdf_in_s3\<close> looks in the
  bucket and under the folder it was uploaded to, and returns it unless another file of the
  bucket has the same prefix.
\<close>

theorem uploaded_letter_is_found:
  assumes up: "upload_letter_pdf env n pdf False w = (Inr name, w')"
    and status: "n_status n \<noteq> ValidationFailed"
    and alone: "s3_list (fst (get_bucket_name_and_prefix_for_notification env n))
        (snd (get_bucket_name_and_prefix_for_notification env n)) w = []"
  shows "\<exists>bucket. find_letter_pdf_in_s3 env n w' = Inr (bucket, name)
    \<and> s3_get bucket name w' = Some (pdf, [])"
proof -
  let ?b = "if n_key_type n = TestKey then S3_BUCKET_TEST_LETTERS else S3_BUCKET_LETTERS_PDF"
  let ?f = "if n_key_type n = TestKey then [] else get_folder_name env (n_created_at n)"
  let ?p = "py_upper (?f @ ''NOTIFY.'' @ format_reference (n_reference n))"
  have bp: "get_bucket_name_and_prefix_for_notification env n = (?b, ?p)"
    using status by (auto simp: get_bucket_name_and_prefix_for_notification_def Let_def)
  have gen: "generate_letter_pdf_filename env (n_reference n) (n_created_at n)
        (n_key_type n = TestKey) (n_postage n) = Inr name"
    and w': "w' = s3_put ?b name (pdf, []) w"
    using up by (auto simp: upload_letter_pdf_def Let_def split: sum.splits)
  have pre: "prefix ?p name" using generated_name_prefix [OF gen] by (simp split: if_splits)
  obtain ks where "s3_list ?b ?p w' = name # ks"
    using s3_list_put_alone [of ?b ?p w name] alone pre by (auto simp: bp w')
  then have "find_letter_pdf_in_s3 env n w' = Inr (?b, name)"
    by (simp add: find_letter_pdf_in_s3_def bp)
  then show ?thesis by (auto simp: w')
qed

theorem uploaded_letter_is_found_witness:
  "\<exists>name w' bucket.
     upload_letter_pdf sample_env (sample_notification\<lparr>n_type := Letter, n_postage := Some Europe\<rparr>)
       ''%PDF'' False sample_world = (Inr name, w')
     \<and> find_letter_pdf_in_s3 sample_env
         (sample_notification\<lparr>n_type := Letter, n_postage := Some Europe\<rparr>) w' = Inr (bucket, name)"
proof -
  let ?n = "sample_notification\<lparr>n_type := Letter, n_postage := Some Europe\<rparr>"
  obtain name w' where up: "upload_letter_pdf sample_env ?n ''%PDF'' False sample_world = (Inr name, w')"
    by (simp add: upload_letter_pdf_def generate_letter_pdf_filename_def Let_def)
  have "n_status ?n \<noteq> ValidationFailed" by (simp add: sample_notification_def)
  moreover have "s3_list b p sample_world = []" for b p by (simp add: s3_list_def sample_world_def)
  ultimately show ?thesis using uploaded_letter_is_found [OF up] up by blast
qed

text \<open>
  With the deadline at 17:30 London time, the day a letter is announced to be printed
  on (\<open>letter_print_day\<close> adds six and a half hours) is the day of the folder it is filed under
  (\<open>get_folder_name\<close> moves letters past the deadline to the next day), except for a letter created
  at 17:30 exactly, which is filed for the same day and announced for the next.
\<close>

theorem print_day_is_folder_day:
  assumes "lib_letter_processing_deadline env = minutes (17 * 60 + 30)"
  shows "letter_print_date env t =
    print_folder_date env t + (if time_of_day (lib_utc_to_bst env t) = minutes (17 * 60 + 30) then 1 else 0)"
proof -
  define b where "b = lib_utc_to_bst env t"
  define d where "d = date_of b"
  define s where "s = time_of_day b"
  have b: "b = 86400000000 * d + s" and s: "0 \<le> s" "s < 86400000000"
    by (simp_all add: d_def s_def date_of_def time_of_day_def days_def seconds_def)
  have day: "(86400000000 * d + x) div 86400000000 = d" if "0 \<le> x" "x < 86400000000" for x :: int
    using that by simp
  have next_day: "(86400000000 * d + x) div 86400000000 = d + 1"
    if "86400000000 \<le> x" "x < 2 * 86400000000" for x :: int
    using day [of "x - 86400000000"] that by (simp add: int_div_pos_eq)
  have "letter_print_date env t = d + (if s \<ge> 63000000000 then 1 else 0)"
    using s day [of "s + 23400000000"] next_day [of "s + 23400000000"]
    by (simp add: letter_print_date_def b_def [symmetric] b date_of_def days_def minutes_def
        seconds_def add.assoc)
  moreover have "print_folder_date env t = d + (if s > 63000000000 then 1 else 0)"
    using s day [of s] next_day [of "s + 86400000000"] assms
    by (simp add: print_folder_date_def Let_def b_def [symmetric] s_def [symmetric] date_of_def
        days_def minutes_def seconds_def) (simp add: b add.assoc)
  ultimately show ?thesis
    by (simp add: b_def [symmetric] s_def [symmetric] minutes_def seconds_def)
qed

theorem print_day_is_folder_day_witness:
  "lib_letter_processing_deadline sample_env = minutes (17 * 60 + 30)
   \<and> letter_print_date sample_env (minutes (16 * 60 + 30)) =
       print_folder_date sample_env (minutes (16 * 60 + 30)) + 1"
proof -
  have deadline: "lib_letter_processing_deadline sample_env = minutes (17 * 60 + 30)"
    by (simp add: sample_env_def)
  have "time_of_day (lib_utc_to_bst sample_env (minutes (16 * 60 + 30))) = minutes (17 * 60 + 30)"
    by (simp add: sample_env_def time_of_day_def minutes_def seconds_def days_def)
  then show ?thesis
    using print_day_is_folder_day [OF deadline, of "minutes (16 * 60 + 30)"] deadline by simp
qed

end
