(* ===== verification/Clients.thy ===== *)
theory Clients
  imports World
begin

text \<open>
  The provider clients under \<^verbatim>\<open>app/clients\<close>: the tables that turn a provider's delivery status
  into a notification status, and what a client makes of the provider's HTTP answer. The HTTP
  exchange itself (\<open>requests\<close>, \<open>boto3\<close>) is the argument \<open>http_outcome\<close>. All the response
  parsers satisfy one contract, the locale \<open>response_parser\<close>, which the callback tasks rely on.
\<close>

section \<open>The contract of a response parser\<close>

type_synonym response_parser_fn = "string \<Rightarrow> string option \<Rightarrow> (nstatus \<times> string option) result"

definition callback_statuses :: "nstatus list" where
  \<comment> \<open>the statuses a delivery receipt can report\<close>
  "callback_statuses = [Delivered, PermanentFailure, TemporaryFailure, Pending]"

locale response_parser =
  fixes parse :: response_parser_fn and statuses :: "string list"
  assumes parse_known: "s \<in> set statuses \<Longrightarrow> \<exists>st d. parse s code = Inr (st, d)"
    and parse_unknown: "s \<notin> set statuses \<Longrightarrow> parse s code = Inl (Py (KeyError s))"
    and parse_reports: "parse s code = Inr (st, d) \<Longrightarrow> st \<in> set callback_statuses"
    and parse_status_fixed: "parse s code = Inr (st, d) \<Longrightarrow> \<exists>d'. parse s code' = Inr (st, d')"
begin

lemma parse_cases:
  obtains (known) st d where "s \<in> set statuses" "parse s code = Inr (st, d)"
      "st \<in> set callback_statuses"
  | (unknown) "s \<notin> set statuses" "parse s code = Inl (Py (KeyError s))"
  using parse_known parse_unknown parse_reports by metis

lemma parse_fails_iff: "(\<exists>e. parse s code = Inl e) \<longleftrightarrow> s \<notin> set statuses"
  using parse_known [of s code] parse_unknown [of s code] by (metis Inl_Inr_False)

lemma parse_never_technical: "parse s code \<noteq> Inr (TechnicalFailure, d)"
  using parse_reports [of s code TechnicalFailure d] by (auto simp: callback_statuses_def)

end

definition lookup_response ::
  "(string \<times> nstatus \<times> (string \<times> string) list) list \<Rightarrow> response_parser_fn" where
  \<comment> \<open>the shape \<open>(m[status]["status"], m[status][...].get(code, None))\<close> of three parsers\<close>
  "lookup_response m status code =
     (case map_of m status of
        None \<Rightarrow> Inl (Py (KeyError status))
      | Some (st, reasons) \<Rightarrow>
          Inr (st, case code of None \<Rightarrow> None | Some c \<Rightarrow> map_of reasons c))"

lemma response_parser_lookup:
  assumes "\<And>s st rs. (s, st, rs) \<in> set m \<Longrightarrow> st \<in> set callback_statuses"
  shows "response_parser (lookup_response m) (map fst m)"
proof
  fix s code code' st d
  show "s \<in> set (map fst m) \<Longrightarrow> \<exists>st d. lookup_response m s code = Inr (st, d)"
    by (cases "map_of m s") (auto simp: lookup_response_def map_of_eq_None_iff)
  show "s \<notin> set (map fst m) \<Longrightarrow> lookup_response m s code = Inl (Py (KeyError s))"
    by (simp add: lookup_response_def map_of_eq_None_iff [THEN iffD2])
  assume *: "lookup_response m s code = Inr (st, d)"
  then show "st \<in> set callback_statuses"
    using assms by (auto simp: lookup_response_def split: option.splits dest: map_of_SomeD)
  show "\<exists>d'. lookup_response m s code' = Inr (st, d')"
    using * by (auto simp: lookup_response_def split: option.splits)
qed

section \<open>Firetext\<close>

definition firetext_responses :: "(string \<times> nstatus) list" where
  "firetext_responses = [(''0'', Delivered), (''1'', PermanentFailure), (''2'', Pending)]"

definition firetext_codes :: "(string \<times> nstatus \<times> string) list" where
  "firetext_codes =
     [(''000'', TemporaryFailure, ''No error reported''),
      (''101'', PermanentFailure, ''Unknown Subscriber''),
      (''102'', TemporaryFailure, ''Absent Subscriber''),
      (''103'', TemporaryFailure, ''Subscriber Busy''),
      (''104'', TemporaryFailure, ''No Subscriber Memory''),
      (''201'', PermanentFailure, ''Invalid Number''),
      (''301'', PermanentFailure, ''SMS Not Supported''),
      (''302'', TemporaryFailure, ''SMS Not Supported''),
      (''401'', PermanentFailure, ''Message Rejected''),
      (''900'', TemporaryFailure, ''Routing Error'')]"

definition get_firetext_responses :: response_parser_fn where
  "get_firetext_responses status code =
     (case map_of firetext_responses status of
        None \<Rightarrow> Inl (Py (KeyError status))
      | Some st \<Rightarrow>
          Inr (st, case code of
                     None \<Rightarrow> None
                   | Some c \<Rightarrow> map_option snd (map_of firetext_codes c)))"

definition get_message_status_and_reason_from_firetext_code ::
  "string \<Rightarrow> (nstatus \<times> string) result" where
  "get_message_status_and_reason_from_firetext_code code =
     (case map_of firetext_codes code of None \<Rightarrow> Inl (Py (KeyError code)) | Some r \<Rightarrow> Inr r)"

interpretation firetext: response_parser get_firetext_responses "map fst firetext_responses"
proof
  fix s code code' st d
  show "s \<in> set (map fst firetext_responses) \<Longrightarrow> \<exists>st d. get_firetext_responses s code = Inr (st, d)"
    by (cases "map_of firetext_responses s")
      (auto simp: get_firetext_responses_def map_of_eq_None_iff)
  show "s \<notin> set (map fst firetext_responses) \<Longrightarrow> get_firetext_responses s code = Inl (Py (KeyError s))"
    by (simp add: get_firetext_responses_def map_of_eq_None_iff [THEN iffD2])
  assume *: "get_firetext_responses s code = Inr (st, d)"
  then show "st \<in> set callback_statuses"
    by (auto simp: get_firetext_responses_def firetext_responses_def callback_statuses_def
        split: option.splits if_splits)
  show "\<exists>d'. get_firetext_responses s code' = Inr (st, d')"
    using * by (auto simp: get_firetext_responses_def split: option.splits)
qed

lemma firetext_code_status:
  "get_message_status_and_reason_from_firetext_code c = Inr (st, reason) \<Longrightarrow>
   st \<in> {TemporaryFailure, PermanentFailure}"
  by (auto simp: get_message_status_and_reason_from_firetext_code_def firetext_codes_def
      split: option.splits if_splits)

section \<open>MMG and Spryng\<close>

definition mmg_response_map :: "(string \<times> nstatus \<times> (string \<times> string) list) list" where
  "mmg_response_map =
     [(''2'', PermanentFailure,
         [(''1'', ''Number does not exist''), (''4'', ''Rejected by operator''),
          (''5'', ''Unidentified Subscriber''), (''9'', ''Undelivered''),
          (''11'', ''Service for Subscriber suspended''), (''12'', ''Illegal equipment''),
          (''2049'', ''Subscriber IMSI blacklisted''),
          (''2050'', ''Number blacklisted in do-not-disturb blacklist''),
          (''2052'', ''Destination number blacklisted''),
          (''2053'', ''Source address blacklisted'')]),
      (''3'', Delivered,
         [(''2'', ''Delivered to operator''), (''5'', ''Delivered to handset'')]),
      (''4'', TemporaryFailure,
         [(''6'', ''Absent Subscriber''), (''8'', ''Roaming not allowed''),
          (''13'', ''SMS Not Supported''), (''15'', ''Expired''),
          (''27'', ''Absent Subscriber''), (''29'', ''Invalid delivery report''),
          (''32'', ''Delivery Failure'')]),
      (''5'', PermanentFailure,
         [(''6'', ''Network out of coverage''), (''8'', ''Incorrect number prefix''),
          (''10'', ''Number on do-not-disturb service''), (''11'', ''Sender id not registered''),
          (''13'', ''Sender id blacklisted''), (''14'', ''Destination number blacklisted''),
          (''19'', ''Routing unavailable''), (''20'', ''Rejected by anti-flooding mechanism''),
          (''21'', ''System error''), (''23'', ''Duplicate message id''),
          (''24'', ''Message formatted incorrectly''), (''25'', ''Message too long''),
          (''51'', ''Missing recipient value''), (''52'', ''Invalid destination'')])]"

definition get_mmg_responses :: response_parser_fn where
  "get_mmg_responses = lookup_response mmg_response_map"

interpretation mmg: response_parser get_mmg_responses "map fst mmg_response_map"
  unfolding get_mmg_responses_def
  by (rule response_parser_lookup) (auto simp: mmg_response_map_def callback_statuses_def)

definition spryng_response_map :: "(string \<times> nstatus \<times> (string \<times> string) list) list" where
  "spryng_response_map =
     [(''10'', Delivered, [(''0'', ''No error'')]),
      (''20'', PermanentFailure,
         [(''20'', ''Recipient number unreachable''), (''21'', ''Recipient number incorrect''),
          (''22'', ''Delivery failure''), (''31'', ''The recipient is blacklisted''),
          (''32'', ''The originator is not registered for this country'')])]"

definition get_spryng_responses :: response_parser_fn where
  "get_spryng_responses = lookup_response spryng_response_map"

interpretation spryng: response_parser get_spryng_responses "map fst spryng_response_map"
  unfolding get_spryng_responses_def
  by (rule response_parser_lookup) (auto simp: spryng_response_map_def callback_statuses_def)

section \<open>The message box and SES\<close>

definition messagebox_response_map :: "(string \<times> nstatus \<times> (string \<times> string) list) list" where
  "messagebox_response_map =
     [(''10'', Delivered, [(''0'', ''No error'')]),
      (''20'', PermanentFailure,
         [(''TechnischProbleem'', ''Technisch probleem bij verwerken''),
          (''NietActiefOfGeabonneerd'', ''Geen actieve berichtenbox of geen abonnement''),
          (''BerichtTypeNietOndersteund'', ''Bericht type bestaat niet of is niet actief''),
          (''AanmaakDatumLigtTeVerInHetVerleden'', ''Aanmaakdatum te ver in het verleden''),
          (''PublicatieDatumLigtTeVerInDeToekomst'', ''Publicatiedatum te ver in de toekomst''),
          (''BerichtBestaatAl'', ''Een bericht met hetzelfde berichtID is reeds aangeboden''),
          (''BijlageTeGroot'',
             ''De omvang van de persoonlijke bijlage(n) in het bericht is te groot''),
          (''OinInCPAKomtNietOvereenMetOinInBericht'',
             ''OIN uit CPA komt niet overeen met OID in het bericht''),
          (''XmlValidatieTegenXsdValtNegatiefUit'', ''Bericht xml valideert niet tegen XSD''),
          (''ValidatieBerichtType'', ''Niet gelukt om bericht type te valideren''),
          (''ValidatieGebruiker'', ''Niet gelukt om de burger te valideren''),
          (''StoreMessage'', ''Niet gelukt om bericht op te slaan'')])]"

definition get_messagebox_responses :: response_parser_fn where
  "get_messagebox_responses = lookup_response messagebox_response_map"

interpretation messagebox: response_parser get_messagebox_responses "map fst messagebox_response_map"
  unfolding get_messagebox_responses_def
  by (rule response_parser_lookup) (auto simp: messagebox_response_map_def callback_statuses_def)

record ses_response =
  ses_message :: string
  ses_success :: bool
  ses_notification_status :: nstatus
  ses_statistics_status :: string

definition ses_response_map :: "(string \<times> ses_response) list" where
  "ses_response_map =
     [(''Permanent'',
        \<lparr>ses_message = ''Hard bounced'', ses_success = False,
         ses_notification_status = PermanentFailure, ses_statistics_status = ''failure''\<rparr>),
      (''Temporary'',
        \<lparr>ses_message = ''Soft bounced'', ses_success = False,
         ses_notification_status = TemporaryFailure, ses_statistics_status = ''failure''\<rparr>),
      (''Delivery'',
        \<lparr>ses_message = ''Delivered'', ses_success = True,
         ses_notification_status = Delivered, ses_statistics_status = ''delivered''\<rparr>),
      (''Complaint'',
        \<lparr>ses_message = ''Complaint'', ses_success = True,
         ses_notification_status = Delivered, ses_statistics_status = ''delivered''\<rparr>)]"

definition get_aws_responses :: "string \<Rightarrow> ses_response result" where
  "get_aws_responses s =
     (case map_of ses_response_map s of None \<Rightarrow> Inl (Py (KeyError s)) | Some r \<Rightarrow> Inr r)"

lemma get_aws_responses_status:
  "get_aws_responses s = Inr r \<Longrightarrow> ses_notification_status r \<in> set callback_statuses"
  by (auto simp: get_aws_responses_def ses_response_map_def callback_statuses_def
      split: option.splits if_splits)

section \<open>What a client makes of the provider's answer\<close>

datatype json_code = CodeInt int | CodeOther

datatype json_body = NotJson | JsonObject "(string \<times> json_code) list" | JsonOther

datatype http_outcome = RequestException | HttpResponse nat json_body

definition raise_for_status :: "nat \<Rightarrow> bool" where
  "raise_for_status code \<longleftrightarrow> 400 \<le> code \<and> code < 600"

abbreviation sms_client_exn :: "string \<Rightarrow> exn" where
  "sms_client_exn m \<equiv> Client (SmsClientResponseException m)"

definition firetext_send_sms :: "http_outcome \<Rightarrow> unit result" where
  "firetext_send_sms out =
     (case out of
        RequestException \<Rightarrow> Inl (sms_client_exn ''Request failed'')
      | HttpResponse code body \<Rightarrow>
          if raise_for_status code then Inl (sms_client_exn ''Request failed'')
          else (case body of
                  NotJson \<Rightarrow> Inl (sms_client_exn ''Invalid response JSON'')
                | JsonOther \<Rightarrow> Inl (Py TypeError)
                | JsonObject kvs \<Rightarrow>
                    (case map_of kvs ''code'' of
                       None \<Rightarrow> Inl (Py (KeyError ''code''))
                     | Some c \<Rightarrow>
                         if c = CodeInt 0 then Inr ()
                         else Inl (sms_client_exn ''Invalid response JSON''))))"

definition mmg_send_sms :: "http_outcome \<Rightarrow> unit result" where
  "mmg_send_sms out =
     (case out of
        RequestException \<Rightarrow> Inl (sms_client_exn ''Request failed'')
      | HttpResponse code body \<Rightarrow>
          if raise_for_status code then Inl (sms_client_exn ''Request failed'')
          else if body = NotJson then Inl (sms_client_exn ''Invalid response JSON'')
          else Inr ())"

definition spryng_send_sms :: "http_outcome \<Rightarrow> unit result" where
  "spryng_send_sms out =
     (case out of
        RequestException \<Rightarrow> Inl (sms_client_exn ''Request failed'')
      | HttpResponse code body \<Rightarrow>
          if raise_for_status code then Inl (sms_client_exn ''Request failed'')
          else if body = NotJson \<or> code \<noteq> 200 then Inl (sms_client_exn ''Invalid response JSON'')
          else Inr ())"

section \<open>Properties\<close>

definition parser_contract :: "response_parser_fn \<Rightarrow> string list \<Rightarrow> bool" where
  "parser_contract parse known \<longleftrightarrow>
     (\<forall>s code code'.
        if s \<in> set known
        then \<exists>st d d'. parse s code = Inr (st, d) \<and> parse s code' = Inr (st, d')
               \<and> st \<in> {Delivered, PermanentFailure, TemporaryFailure, Pending}
        else parse s code = Inl (Py (KeyError s)))"

lemma parser_contractI:
  assumes "response_parser parse known"
  shows "parser_contract parse known"
proof -
  note known = response_parser.parse_known [OF assms]
    and unknown = response_parser.parse_unknown [OF assms]
    and reports = response_parser.parse_reports [OF assms]
    and fixed_status = response_parser.parse_status_fixed [OF assms]
  have "\<exists>st d d'. parse s code = Inr (st, d) \<and> parse s code' = Inr (st, d')
      \<and> st \<in> {Delivered, PermanentFailure, TemporaryFailure, Pending}"
    if ks: "s \<in> set known" for s code code'
  proof -
    obtain st d where st: "parse s code = Inr (st, d)" using known [OF ks] by blast
    obtain d' where "parse s code' = Inr (st, d')" using fixed_status [OF st] by blast
    then show ?thesis using st reports [OF st] by (auto simp: callback_statuses_def)
  qed
  then show ?thesis using unknown by (auto simp: parser_contract_def)
qed

text \<open>
  Every parser of delivery receipts (Firetext, MMG, Spryng, the message box) accepts
  exactly the statuses of its table and raises \<open>KeyError\<close> with the status otherwise, the detailed
  code never changes the status it reports, and it never reports a technical failure.
\<close>

theorem response_parsers_contract:
  "parser_contract get_firetext_responses [''0'', ''1'', ''2'']
   \<and> parser_contract get_mmg_responses [''2'', ''3'', ''4'', ''5'']
   \<and> parser_contract get_spryng_responses [''10'', ''20'']
   \<and> parser_contract get_messagebox_responses [''10'', ''20'']"
  using parser_contractI [OF firetext.response_parser_axioms]
    parser_contractI [OF mmg.response_parser_axioms]
    parser_contractI [OF spryng.response_parser_axioms]
    parser_contractI [OF messagebox.response_parser_axioms]
  by (simp add: firetext_responses_def mmg_response_map_def spryng_response_map_def
      messagebox_response_map_def)

end
