(* ===== verification/Notifications_Dao.thy ===== *)
theory Notifications_Dao
  imports Notification_Model Letters_Utils Clients "HOL-Library.Product_Lexorder"
begin

text \<open>
  \<^verbatim>\<open>app/dao/notifications_dao.py\<close>: reading, updating, searching, timing out and archiving rows of
  \<open>notifications\<close>. A query is a filter of the table in its order, an \<open>ORDER BY\<close> a stable sort;
  what pagination makes of an ordered result is left to the library.
\<close>

section \<open>Creating and updating\<close>

definition history_from_notification :: "notification \<Rightarrow> notification_history" where
  \<comment> \<open>\<open>FIELDS_TO_TRANSFER_TO_NOTIFICATION_HISTORY\<close>\<close>
  "history_from_notification n =
     \<lparr>h_id = n_id n, h_job_id = n_job_id n, h_job_row_number = n_job_row_number n,
      h_service_id = n_service_id n, h_template_id = n_template_id n,
      h_template_version = n_template_version n, h_api_key_id = n_api_key_id n,
      h_key_type = n_key_type n, h_billable_units = n_billable_units n, h_type = n_type n,
      h_created_at = n_created_at n, h_sent_at = n_sent_at n, h_sent_by = n_sent_by n,
      h_updated_at = n_updated_at n, h_status = n_status n, h_reference = n_reference n,
      h_client_reference = n_client_reference n, h_international = n_international n,
      h_phone_prefix = n_phone_prefix n, h_rate_multiplier = n_rate_multiplier n,
      h_created_by_id = n_created_by_id n, h_postage = n_postage n,
      h_document_download_count = n_document_download_count n\<rparr>"

lemma h_id_history [simp]: "h_id (history_from_notification n) = n_id n"
  by (simp add: history_from_notification_def)

definition save_notification :: "notification \<Rightarrow> world \<Rightarrow> world" where
  "save_notification n w = w\<lparr>w_notifications := save_row n_id n (w_notifications w)\<rparr>"

definition insert_refused :: "notification \<Rightarrow> notification list \<Rightarrow> bool" where
  \<comment> \<open>the primary key, the check constraint and the unique constraint on the row of a job\<close>
  "insert_refused n rows \<longleftrightarrow> n_id n \<in> n_id ` set rows \<or> \<not> notification_row_ok n
     \<or> (job_row n \<noteq> None \<and> job_row n \<in> job_row ` set rows)"

definition dao_create_notification ::
  "env \<Rightarrow> uuid option \<Rightarrow> nstatus option \<Rightarrow> (uuid \<Rightarrow> nstatus \<Rightarrow> notification) \<Rightarrow> uuid op" where
  \<comment> \<open>a transient row: its id and status may still be unset\<close>
  "dao_create_notification env given_id given_status row =
     autocommit (\<lambda>w.
       let (i, w1) = (case given_id of None \<Rightarrow> create_uuid env w | Some i \<Rightarrow> (i, w));
           s = (case given_status of None \<Rightarrow> Created | Some s \<Rightarrow> s);
           n = (row i s)\<lparr>n_id := i, n_status := s\<rparr>
       in if insert_refused n (w_notifications w1) then (Inl (Db OtherSQLAlchemyError), w1)
          else (Inr i, save_notification n w1))"

definition dao_update_notification :: "notification \<Rightarrow> world \<Rightarrow> notification \<times> world" where
  "dao_update_notification n w =
     (let n' = n\<lparr>n_updated_at := Some (w_now w)\<rparr> in (n', save_notification n' w))"

definition decide_permanent_temporary_failure ::
  "nstatus \<Rightarrow> notification \<Rightarrow> string option \<Rightarrow> nstatus" where
  "decide_permanent_temporary_failure status n detailed_status_code =
     (if n_sent_by n = Some ''firetext'' then
        (let fallback = (if status = PermanentFailure \<and> n_status n = Pending
                         then TemporaryFailure else status)
         in case detailed_status_code of
              None \<Rightarrow> fallback
            | Some code \<Rightarrow>
                if status = PermanentFailure \<and> code \<noteq> [] then
                  (case get_message_status_and_reason_from_firetext_code code of
                     Inr (s, reason) \<Rightarrow> s
                   | Inl e \<Rightarrow> fallback)
                else fallback)
      else status)"

definition country_records_delivery :: "env \<Rightarrow> string option \<Rightarrow> bool result" where
  "country_records_delivery env phone_prefix =
     (case phone_prefix of
        None \<Rightarrow> Inl (Py (KeyError ''None''))
      | Some p \<Rightarrow>
          (case lib_dlr env p of
             None \<Rightarrow> Inl (Py (KeyError p))
           | Some None \<Rightarrow> Inr False
           | Some (Some dlr) \<Rightarrow> Inr (py_lower dlr = ''yes'')))"

definition update_status_row ::
  "notification \<Rightarrow> nstatus \<Rightarrow> string option \<Rightarrow> world \<Rightarrow> notification \<times> world" where
  \<comment> \<open>\<open>_update_notification_status\<close>\<close>
  "update_status_row n status detailed_status_code w =
     dao_update_notification
       (n\<lparr>n_status := decide_permanent_temporary_failure status n detailed_status_code\<rparr>) w"

definition updatable_statuses :: "nstatus list" where
  "updatable_statuses = [Created, Sending, Pending, Sent, PendingVirusCheck]"

definition update_notification_status_by_id ::
  "env \<Rightarrow> uuid \<Rightarrow> nstatus \<Rightarrow> string option \<Rightarrow> string option \<Rightarrow> notification option op" where
  "update_notification_status_by_id env notification_id status sent_by detailed_status_code =
     autocommit (\<lambda>w.
       case find_row n_id notification_id (w_notifications w) of
         None \<Rightarrow> (Inr None, w)
       | Some n \<Rightarrow>
           if n_status n \<notin> set updatable_statuses then (Inr None, w)
           else
             (case (if n_type n = Sms \<and> n_international n
                    then country_records_delivery env (n_phone_prefix n) else Inr True) of
                Inl e \<Rightarrow> (Inl e, w)
              | Inr False \<Rightarrow> (Inr None, w)
              | Inr True \<Rightarrow>
                  (let n1 = (if n_sent_by n \<in> {None, Some []} \<and> sent_by \<notin> {None, Some []}
                             then n\<lparr>n_sent_by := sent_by\<rparr> else n);
                       (n2, w') = update_status_row n1 status detailed_status_code w
                   in (Inr (Some n2), w'))))"

definition dao_update_notifications_by_reference ::
  "string list \<Rightarrow> (notification \<Rightarrow> notification)
     \<Rightarrow> (notification_history \<Rightarrow> notification_history) \<Rightarrow> world \<Rightarrow> (nat \<times> nat) \<times> world" where
  \<comment> \<open>the same update dictionary for both tables\<close>
  "dao_update_notifications_by_reference references upd upd_history w =
     (let hit = (\<lambda>n. case n_reference n of None \<Rightarrow> False | Some r \<Rightarrow> r \<in> set references);
          hit_history = (\<lambda>h. case h_reference h of None \<Rightarrow> False | Some r \<Rightarrow> r \<in> set references);
          updated_count = length (filter hit (w_notifications w));
          w1 = w\<lparr>w_notifications := update_rows hit upd (w_notifications w)\<rparr>
      in if updated_count \<noteq> length references
         then ((updated_count, length (filter hit_history (w_history w1))),
               w1\<lparr>w_history := update_rows hit_history upd_history (w_history w1)\<rparr>)
         else ((updated_count, 0), w1))"

definition dao_delete_notifications_by_id :: "uuid \<Rightarrow> world \<Rightarrow> world" where
  "dao_delete_notifications_by_id i w =
     w\<lparr>w_notifications := delete_rows (\<lambda>n. n_id n = i) (w_notifications w)\<rparr>"

definition dao_record_letter_despatched_on_by_id ::
  "uuid \<Rightarrow> date \<Rightarrow> letter_cost_threshold \<Rightarrow> world \<Rightarrow> world" where
  \<comment> \<open>\<open>ON CONFLICT (notification_id) DO UPDATE\<close>\<close>
  "dao_record_letter_despatched_on_by_id i d c w =
     w\<lparr>w_despatches := save_row ld_notification_id
         \<lparr>ld_notification_id = i, ld_despatched_on = d, ld_cost_threshold = c\<rparr> (w_despatches w)\<rparr>"

section \<open>Lookups\<close>

definition get_notification_by_id :: "uuid \<Rightarrow> uuid option \<Rightarrow> world \<Rightarrow> notification option" where
  \<comment> \<open>without \<open>_raise\<close>\<close>
  "get_notification_by_id i service_id w =
     query_first (\<lambda>n. n_id n = i \<and> (case service_id of None \<Rightarrow> True | Some s \<Rightarrow> n_service_id n = s))
       (w_notifications w)"

definition get_notification_by_id_raise ::
  "uuid \<Rightarrow> uuid option \<Rightarrow> world \<Rightarrow> notification result" where
  "get_notification_by_id_raise i service_id w =
     query_one (Db NoResultFound) (Db MultipleResultsFound)
       (\<lambda>n. n_id n = i \<and> (case service_id of None \<Rightarrow> True | Some s \<Rightarrow> n_service_id n = s))
       (w_notifications w)"

definition get_notification_with_personalisation ::
  "uuid \<Rightarrow> uuid \<Rightarrow> key_type option \<Rightarrow> world \<Rightarrow> notification result" where
  "get_notification_with_personalisation service_id i k w =
     query_one (Db NoResultFound) (Db MultipleResultsFound)
       (\<lambda>n. n_service_id n = service_id \<and> n_id n = i
            \<and> (case k of None \<Rightarrow> True | Some kt \<Rightarrow> n_key_type n = kt))
       (w_notifications w)"

definition dao_get_notification_or_history_by_id ::
  "uuid \<Rightarrow> world \<Rightarrow> (notification + notification_history) option" where
  "dao_get_notification_or_history_by_id i w =
     (case find_row n_id i (w_notifications w) of
        Some n \<Rightarrow> Some (Inl n)
      | None \<Rightarrow> map_option Inr (find_row h_id i (w_history w)))"

definition dao_get_notification_by_reference :: "string \<Rightarrow> world \<Rightarrow> notification result" where
  "dao_get_notification_by_reference r w =
     query_one (Db NoResultFound) (Db MultipleResultsFound) (\<lambda>n. n_reference n = Some r)
       (w_notifications w)"

definition dao_get_notification_or_history_by_reference ::
  "string \<Rightarrow> world \<Rightarrow> (notification + notification_history) result" where
  "dao_get_notification_or_history_by_reference r w =
     (case dao_get_notification_by_reference r w of
        Inr n \<Rightarrow> Inr (Inl n)
      | Inl (Db NoResultFound) \<Rightarrow>
          (case query_one (Db NoResultFound) (Db MultipleResultsFound)
                  (\<lambda>h. h_reference h = Some r) (w_history w) of
             Inl e \<Rightarrow> Inl e
           | Inr h \<Rightarrow> Inr (Inr h))
      | Inl e \<Rightarrow> Inl e)"

definition dao_get_notification_count_for_job_id :: "uuid \<Rightarrow> world \<Rightarrow> nat" where
  "dao_get_notification_count_for_job_id job_id w =
     length (filter (\<lambda>n. n_job_id n = Some job_id) (w_notifications w))"

definition dao_get_last_notification_added_for_job_id :: "uuid \<Rightarrow> world \<Rightarrow> notification option" where
  \<comment> \<open>\<open>ORDER BY job_row_number DESC\<close> puts the rows without a number first\<close>
  "dao_get_last_notification_added_for_job_id job_id w =
     latest_by (\<lambda>n. case n_job_row_number n of None \<Rightarrow> (1 :: int, 0) | Some r \<Rightarrow> (0, r))
       (filter (\<lambda>n. n_job_id n = Some job_id) (w_notifications w))"

section \<open>Lists for services, jobs and print runs\<close>

record list_options =
  lo_status :: "string list"
  lo_template_type :: "ntype list"

definition filter_query :: "list_options option \<Rightarrow> notification \<Rightarrow> bool" where
  "filter_query filter_dict n =
     (case filter_dict of
        None \<Rightarrow> True
      | Some f \<Rightarrow>
          (lo_status f = []
           \<or> (let statuses = substitute_status (lo_status f)
              in list_all (\<lambda>s. nstatus_name s \<in> set statuses)
                   (filter (\<lambda>s. s \<notin> set NOTIFICATION_STATUS_TYPES_DEPRECATED) NOTIFICATION_STATUS_TYPES)
                 \<or> nstatus_name (n_status n) \<in> set statuses))
          \<and> (lo_template_type f = [] \<or> n_type n \<in> set (lo_template_type f)))"

definition get_notifications_for_job ::
  "uuid \<Rightarrow> uuid \<Rightarrow> list_options option \<Rightarrow> world \<Rightarrow> notification list" where
  "get_notifications_for_job service_id job_id filter_dict w =
     sort_key (\<lambda>n. case n_job_row_number n of None \<Rightarrow> (1 :: int, 0) | Some r \<Rightarrow> (0, r))
       (filter (\<lambda>n. n_service_id n = service_id \<and> n_job_id n = Some job_id \<and> filter_query filter_dict n)
         (w_notifications w))"

record service_list_options =
  sl_filter :: "list_options option"
  sl_limit_days :: "int option"
  sl_key_type :: "key_type option"
  sl_include_jobs :: bool
  sl_include_from_test_key :: bool
  sl_older_than :: "uuid option"
  sl_client_reference :: "string option"
  sl_include_one_off :: bool

definition older_than_matches ::
  "uuid \<Rightarrow> uuid option \<Rightarrow> notification list \<Rightarrow> notification \<Rightarrow> bool" where
  "older_than_matches service_id older_than rows n =
     (case older_than of
        None \<Rightarrow> True
      | Some i \<Rightarrow>
          (case find (\<lambda>x. n_id x = i \<and> n_service_id x = service_id) rows of
             None \<Rightarrow> False
           | Some x \<Rightarrow> n_created_at n < n_created_at x))"

definition get_notifications_for_service ::
  "env \<Rightarrow> uuid \<Rightarrow> service_list_options \<Rightarrow> world \<Rightarrow> notification list" where
  \<comment> \<open>the ordered result that is paginated\<close>
  "get_notifications_for_service env service_id opts w =
     rev (sort_key n_created_at (filter (\<lambda>n.
       n_service_id n = service_id
       \<and> (case sl_limit_days opts of None \<Rightarrow> True
          | Some d \<Rightarrow> n_created_at n \<ge> midnight_n_days_ago env d w)
       \<and> older_than_matches service_id (sl_older_than opts) (w_notifications w) n
       \<and> (sl_include_jobs opts \<or> n_job_id n = None)
       \<and> (sl_include_one_off opts \<or> n_created_by_id n = None)
       \<and> (case sl_key_type opts of Some k \<Rightarrow> n_key_type n = k
          | None \<Rightarrow> sl_include_from_test_key opts \<or> n_key_type n \<noteq> TestKey)
       \<and> (case sl_client_reference opts of None \<Rightarrow> True
          | Some r \<Rightarrow> n_client_reference n = Some r)
       \<and> filter_query (sl_filter opts) n) (w_notifications w)))"

definition notifications_not_yet_sent :: "int \<Rightarrow> ntype \<Rightarrow> world \<Rightarrow> notification list" where
  "notifications_not_yet_sent after_seconds t w =
     filter (\<lambda>n. n_created_at n \<le> w_now w - seconds after_seconds \<and> n_type n = t
                 \<and> n_status n = Created) (w_notifications w)"

definition ready_to_print :: "notification \<Rightarrow> bool" where
  "ready_to_print n \<longleftrightarrow>
     n_type n = Letter \<and> n_status n = Created \<and> n_key_type n = NormalKey \<and> n_billable_units n > 0"

definition dao_get_letters_to_be_printed :: "env \<Rightarrow> time \<Rightarrow> world \<Rightarrow> uuid list" where
  \<comment> \<open>the rows that \<open>yield_per\<close> fetches in batches\<close>
  "dao_get_letters_to_be_printed env print_run_deadline_local w =
     map n_id (filter (\<lambda>n. n_created_at n < lib_bst_to_utc env print_run_deadline_local
                           \<and> ready_to_print n) (w_notifications w))"

definition dao_get_letters_to_be_printed_all :: "world \<Rightarrow> uuid list" where
  "dao_get_letters_to_be_printed_all w = map n_id (filter ready_to_print (w_notifications w))"

definition dao_get_letters_and_sheets_volume_by_postage ::
  "env \<Rightarrow> time \<Rightarrow> world \<Rightarrow> (nat \<times> int \<times> postage option) list" where
  \<comment> \<open>PostgreSQL sorts a missing postage last\<close>
  "dao_get_letters_and_sheets_volume_by_postage env print_run_deadline_local w =
     (let rows = filter (\<lambda>n. n_created_at n < lib_bst_to_utc env print_run_deadline_local
                             \<and> ready_to_print n) (w_notifications w);
          group = (\<lambda>p. filter (\<lambda>n. n_postage n = p) rows)
      in map (\<lambda>p. (length (group p), sum_list (map n_billable_units (group p)), p))
           (filter (\<lambda>p. group p \<noteq> []) [Some Europe, Some Netherlands, Some RestOfWorld, None]))"

definition dao_old_letters_with_created_status :: "env \<Rightarrow> world \<Rightarrow> notification list" where
  "dao_old_letters_with_created_status env w =
     (let yesterday_bst = lib_utc_to_bst env (w_now w) - days 1;
          deadline = midnight_of (date_of yesterday_bst) + minutes (17 * 60 + 30)
      in sort_key n_created_at
           (filter (\<lambda>n. n_created_at n < lib_bst_to_utc env deadline \<and> n_type n = Letter
                        \<and> n_status n = Created) (w_notifications w)))"

definition letters_missing_from_sending_bucket :: "int \<Rightarrow> world \<Rightarrow> notification list" where
  "letters_missing_from_sending_bucket seconds_to_subtract w =
     sort_key n_created_at
       (filter (\<lambda>n. n_billable_units n = 0 \<and> n_updated_at n = None \<and> n_status n = Created
                    \<and> n_created_at n \<le> w_now w - seconds seconds_to_subtract
                    \<and> n_type n = Letter \<and> n_key_type n = NormalKey) (w_notifications w))"

definition dao_precompiled_letters_still_pending_virus_check :: "int \<Rightarrow> world \<Rightarrow> notification list" where
  "dao_precompiled_letters_still_pending_virus_check max_minutes_ago_to_check w =
     sort_key n_created_at
       (filter (\<lambda>n. n_created_at n > w_now w - minutes max_minutes_ago_to_check
                    \<and> n_created_at n < w_now w - minutes 10
                    \<and> n_status n = PendingVirusCheck \<and> n_type n = Letter) (w_notifications w))"

definition get_service_ids_with_notifications_before :: "ntype \<Rightarrow> time \<Rightarrow> world \<Rightarrow> uuid set" where
  "get_service_ids_with_notifications_before t timestamp w =
     n_service_id ` set (filter (\<lambda>n. n_type n = t \<and> n_created_at n < timestamp) (w_notifications w))"

definition get_service_ids_with_notifications_on_date :: "env \<Rightarrow> ntype \<Rightarrow> date \<Rightarrow> world \<Rightarrow> uuid set" where
  "get_service_ids_with_notifications_on_date env t d w =
     n_service_id ` set (filter (\<lambda>n. n_type n = t \<and> get_london_midnight_in_utc env d \<le> n_created_at n
        \<and> n_created_at n < get_london_midnight_in_utc env (d + 1)) (w_notifications w))
     \<union> fs_service_id ` set (filter (\<lambda>f. fs_notification_type f = t \<and> fs_bst_date f = d)
         (w_fact_status w))"

definition dao_get_notifications_processing_time_stats :: "time \<Rightarrow> time \<Rightarrow> world \<Rightarrow> nat \<times> nat" where
  "dao_get_notifications_processing_time_stats start_date end_date w =
     (let rows = filter (\<lambda>n. start_date \<le> n_created_at n \<and> n_created_at n < end_date
            \<and> n_api_key_id n \<noteq> None \<and> n_key_type n \<noteq> TestKey \<and> n_type n \<noteq> Letter)
          (w_notifications w);
          under = (\<lambda>n. case n_sent_at n of None \<Rightarrow> False
                       | Some s \<Rightarrow> s - n_created_at n \<le> seconds 10)
      in (length rows, length (filter under rows)))"

section \<open>Search\<close>

definition ilike :: "string \<Rightarrow> string \<Rightarrow> bool" where
  "ilike p t = like_match (py_lower p) (py_lower t)"

definition lstrip_chars :: "char list \<Rightarrow> string \<Rightarrow> string" where
  "lstrip_chars cs s = dropWhile (\<lambda>c. c \<in> set cs) s"

definition normalise_search_term :: "env \<Rightarrow> string \<Rightarrow> ntype option \<Rightarrow> string result" where
  "normalise_search_term env search_term notification_type =
     (case notification_type of
        Some Sms \<Rightarrow>
          res_bind (try_parse_and_format_phone_number env search_term False) (\<lambda>n.
            Inr (lstrip_chars ''+0'' (filter (\<lambda>c. c \<notin> set ''() -'') n)))
      | Some Email \<Rightarrow>
          (case lib_validate_email env search_term of
             Inl (Recipient (InvalidEmailError m)) \<Rightarrow> Inr (py_lower search_term)
           | r \<Rightarrow> r)
      | Some Letter \<Rightarrow> Inr (py_lower (remove_spaces search_term))
      | None \<Rightarrow> Inr (py_lower (remove_spaces search_term))
      | Some Messagebox \<Rightarrow> Inl (Py TypeError))"

definition dao_get_notifications_by_recipient_or_reference ::
  "env \<Rightarrow> uuid \<Rightarrow> string \<Rightarrow> ntype option \<Rightarrow> nstatus list \<Rightarrow> world \<Rightarrow> notification list result" where
  "dao_get_notifications_by_recipient_or_reference env service_id search_term t statuses w =
     res_bind (normalise_search_term env search_term t) (\<lambda>normalised.
       let normalised_pattern = contains_pattern (escape_special_characters normalised);
           reference_pattern = contains_pattern (escape_special_characters search_term)
       in Inr (rev (sort_key n_created_at (filter (\<lambda>n.
            n_service_id n = service_id
            \<and> ((case n_normalised_to n of None \<Rightarrow> False | Some x \<Rightarrow> like_match normalised_pattern x)
               \<or> (case n_client_reference n of None \<Rightarrow> False | Some x \<Rightarrow> ilike reference_pattern x))
            \<and> n_key_type n \<noteq> TestKey
            \<and> (statuses = [] \<or> n_status n \<in> set statuses)
            \<and> (case t of None \<Rightarrow> True | Some ty \<Rightarrow> n_type n = ty)) (w_notifications w)))))"

section \<open>Timing out and slow providers\<close>

definition dao_timeout_notifications :: "time \<Rightarrow> nat \<Rightarrow> world \<Rightarrow> notification list \<times> world" where
  \<comment> \<open>the rows are reloaded after the commit, so the caller sees them updated\<close>
  "dao_timeout_notifications cutoff_time qlimit w =
     (let hits = take qlimit (filter (\<lambda>n. n_created_at n < cutoff_time
                    \<and> n_status n \<in> {Sending, Pending} \<and> n_type n \<in> {Sms, Email})
                  (w_notifications w));
          time_out = (\<lambda>n. n\<lparr>n_status := TemporaryFailure, n_updated_at := Some (w_now w)\<rparr>);
          ids = map n_id hits
      in (map time_out hits,
          w\<lparr>w_notifications := update_rows (\<lambda>n. n_id n \<in> set ids) time_out (w_notifications w)\<rparr>))"

record slow_provider_report =
  sp_provider :: string
  sp_slow_ratio :: rat
  sp_slow :: nat
  sp_total :: nat

definition is_slow :: "time \<Rightarrow> time \<Rightarrow> notification \<Rightarrow> bool" where
  \<comment> \<open>a missing \<open>updated_at\<close> makes the comparison \<open>NULL\<close>, which is falsy\<close>
  "is_slow now delivery_time n =
     (case n_sent_at n of
        None \<Rightarrow> False
      | Some s \<Rightarrow>
          if n_status n = Delivered
          then (case n_updated_at n of None \<Rightarrow> False | Some u \<Rightarrow> u - s \<ge> delivery_time)
          else now - s \<ge> delivery_time)"

definition slow_report_for :: "int \<Rightarrow> int \<Rightarrow> world \<Rightarrow> string \<Rightarrow> slow_provider_report" where
  \<comment> \<open>the group of one identifier; without messages it is the one row of the outer join\<close>
  "slow_report_for created_within delivered_within w provider =
     (let rows = filter (\<lambda>n. n_type n = Sms \<and> n_sent_by n = Some provider
            \<and> n_created_at n \<ge> w_now w - minutes created_within \<and> n_sent_at n \<noteq> None
            \<and> n_status n \<in> {Delivered, Pending, Sending} \<and> n_key_type n \<noteq> TestKey)
          (w_notifications w);
          slow = length (filter (is_slow (w_now w) (minutes delivered_within)) rows);
          total = (if rows = [] then 1 else length rows)
      in \<lparr>sp_provider = provider, sp_slow_ratio = of_nat slow / of_nat total,
          sp_slow = slow, sp_total = total\<rparr>)"

definition get_slow_text_message_delivery_reports_by_provider ::
  "int \<Rightarrow> int \<Rightarrow> world \<Rightarrow> slow_provider_report list" where
  \<comment> \<open>the identifiers of the providers are unique\<close>
  "get_slow_text_message_delivery_reports_by_provider created_within delivered_within w =
     map (slow_report_for created_within delivered_within w)
       (sort (map p_identifier
          (filter (\<lambda>p. p_notification_type p = Sms \<and> p_active p) (w_providers w))))"

definition is_delivery_slow_for_providers ::
  "int \<Rightarrow> int \<Rightarrow> rat \<Rightarrow> world \<Rightarrow> (string \<times> bool) list" where
  "is_delivery_slow_for_providers created_within delivered_within threshold w =
     fold (\<lambda>r d. dict_set (sp_provider r) (sp_slow_ratio r \<ge> threshold) d)
       (get_slow_text_message_delivery_reports_by_provider created_within delivered_within w) []"

section \<open>Archiving\<close>

definition to_archive :: "ntype \<Rightarrow> uuid \<Rightarrow> time \<Rightarrow> notification \<Rightarrow> bool" where
  "to_archive t service_id timestamp n \<longleftrightarrow>
     n_service_id n = service_id \<and> n_type n = t \<and> n_created_at n < timestamp
     \<and> (t = Letter \<longrightarrow> n_status n \<notin> {PendingVirusCheck, Created, Sending})
     \<and> n_key_type n \<in> {NormalKey, TeamKey}"

definition insert_history :: "notification_history list \<Rightarrow> notification list \<Rightarrow> notification_history list" where
  \<comment> \<open>\<open>ON CONFLICT ... DO NOTHING\<close>\<close>
  "insert_history hist ns =
     fold (\<lambda>n h. if find_row h_id (n_id n) h = None then h @ [history_from_notification n] else h)
       ns hist"

definition insert_notification_history_delete_notifications ::
  "ntype \<Rightarrow> uuid \<Rightarrow> time \<Rightarrow> nat \<Rightarrow> world \<Rightarrow> nat \<times> world" where
  "insert_notification_history_delete_notifications t service_id timestamp qry_limit w =
     (let archive = take qry_limit
            (sort_key n_created_at (filter (to_archive t service_id timestamp) (w_notifications w)))
      in (length archive,
          w\<lparr>w_history := insert_history (w_history w) archive,
            w_notifications := delete_rows (\<lambda>n. n_id n \<in> n_id ` set archive) (w_notifications w)\<rparr>))"

definition delete_letters_loop :: "env \<Rightarrow> notification list \<Rightarrow> world \<Rightarrow> world" where
  \<comment> \<open>an S3 failure or a missing PDF is logged, the loop goes on\<close>
  "delete_letters_loop env letters w =
     fold (\<lambda>l v. case find_letter_pdf_in_s3 env l v of
                   Inl e \<Rightarrow> v
                 | Inr (bucket, key) \<Rightarrow> s3_delete bucket key v) letters w"

definition delete_letters_from_s3 :: "env \<Rightarrow> ntype \<Rightarrow> uuid \<Rightarrow> time \<Rightarrow> nat \<Rightarrow> world \<Rightarrow> world" where
  "delete_letters_from_s3 env t service_id date_to_delete_from query_limit w =
     delete_letters_loop env (take query_limit (sort_key n_created_at (filter (\<lambda>n.
       n_type n = t \<and> n_created_at n < date_to_delete_from \<and> n_service_id n = service_id
       \<and> n_status n \<in> set NOTIFICATION_STATUS_TYPES_COMPLETED) (w_notifications w)))) w"

definition delete_test_letters_from_s3 :: "env \<Rightarrow> uuid \<Rightarrow> time \<Rightarrow> nat \<Rightarrow> world \<Rightarrow> world" where
  "delete_test_letters_from_s3 env service_id date_to_delete_from query_limit w =
     delete_letters_loop env (take query_limit (sort_key n_created_at (filter (\<lambda>n.
       n_type n = Letter \<and> n_created_at n < date_to_delete_from \<and> n_service_id n = service_id
       \<and> n_key_type n = TestKey) (w_notifications w)))) w"

definition move_notifications_to_notification_history ::
  "env \<Rightarrow> ntype \<Rightarrow> uuid \<Rightarrow> time \<Rightarrow> nat \<Rightarrow> world \<Rightarrow> nat \<times> world" where
  "move_notifications_to_notification_history env t service_id timestamp qry_limit w =
     (if t = Letter then
        (let qlimit = min qry_limit 5000
         in insert_notification_history_delete_notifications t service_id timestamp qlimit
              (delete_letters_from_s3 env t service_id timestamp qlimit w))
      else insert_notification_history_delete_notifications t service_id timestamp qry_limit w)"

definition delete_test_notifications ::
  "env \<Rightarrow> ntype \<Rightarrow> uuid \<Rightarrow> time \<Rightarrow> nat \<Rightarrow> world \<Rightarrow> nat \<times> world" where
  "delete_test_notifications env t service_id timestamp qry_limit w =
     (let qlimit = (if t = Letter then min qry_limit 5000 else qry_limit);
          w1 = (if t = Letter then delete_test_letters_from_s3 env service_id timestamp qlimit w else w);
          hits = take qlimit (sort_key n_created_at (filter (\<lambda>n. n_type n = t
            \<and> n_service_id n = service_id \<and> n_created_at n < timestamp \<and> n_key_type n = TestKey)
            (w_notifications w1)));
          doomed = (\<lambda>n. n_id n \<in> n_id ` set hits)
      in (length (filter doomed (w_notifications w1)),
          w1\<lparr>w_notifications := delete_rows doomed (w_notifications w1)\<rparr>))"

section \<open>The last use of a template\<close>

datatype last_used = UsedAt time | UsedOn date

definition dao_get_last_date_template_was_used ::
  "env \<Rightarrow> (time \<Rightarrow> time) \<Rightarrow> template \<Rightarrow> world \<Rightarrow> last_used option" where
  \<comment> \<open>\<open>year_before t\<close> is \<open>t - relativedelta(years=1)\<close>; the server runs in UTC\<close>
  "dao_get_last_date_template_was_used env year_before tmpl w =
     (let today = filter (\<lambda>n. n_template_id n = t_id tmpl \<and> n_key_type n \<noteq> TestKey
            \<and> n_created_at n \<ge> get_london_midnight_in_utc env (date_of (w_now w))
            \<and> n_type n = t_type tmpl \<and> n_service_id n = t_service_id tmpl) (w_notifications w);
          facts = filter (\<lambda>f. fs_template_id f = t_id tmpl \<and> fs_key_type f \<noteq> TestKey
            \<and> midnight_of (fs_bst_date f) > year_before (w_now w)) (w_fact_status w)
      in case latest_by n_created_at today of
           Some n \<Rightarrow> Some (UsedAt (n_created_at n))
         | None \<Rightarrow> map_option (UsedOn \<circ> fs_bst_date) (latest_by fs_bst_date facts))"

section \<open>Lemmas\<close>

lemma find_insert_history:
  "find_row h_id i (insert_history hist ns) =
     (case find_row h_id i hist of
        Some h \<Rightarrow> Some h
      | None \<Rightarrow> map_option history_from_notification (find_row n_id i ns))"
proof (induction ns arbitrary: hist)
  case Nil
  then show ?case by (simp add: insert_history_def split: option.splits)
next
  case (Cons n ns)
  have step: "insert_history hist (n # ns) =
      insert_history (if find_row h_id (n_id n) hist = None
        then hist @ [history_from_notification n] else hist) ns"
    by (simp add: insert_history_def)
  show ?case
    unfolding step Cons.IH
    by (auto simp: row_simps find_row_append split: option.splits)
qed

lemma find_save_notification [row_simps]:
  "find_row n_id i (w_notifications (save_notification n w)) =
     (if n_id n = i then Some n else find_row n_id i (w_notifications w))"
  by (simp add: save_notification_def row_simps)

lemma update_status_cases:
  assumes "update_notification_status_by_id env i st sent_by code w = (r, w')"
  obtains (skipped) "w' = w" "r = Inr None \<or> (\<exists>e. r = Inl e)"
  | (updated) n n1 where "find_row n_id i (w_notifications w) = Some n"
      "n_status n \<in> set updatable_statuses"
      "n1 = (if n_sent_by n \<in> {None, Some []} \<and> sent_by \<notin> {None, Some []}
             then n\<lparr>n_sent_by := sent_by\<rparr> else n)"
      "w' = save_notification (n1\<lparr>n_status := decide_permanent_temporary_failure st n1 code,
         n_updated_at := Some (w_now w)\<rparr>) w"
      "r = Inr (Some (n1\<lparr>n_status := decide_permanent_temporary_failure st n1 code,
         n_updated_at := Some (w_now w)\<rparr>))"
proof (cases "find_row n_id i (w_notifications w)")
  case None
  then show ?thesis using assms skipped
    by (simp add: update_notification_status_by_id_def autocommit_def)
next
  case (Some n)
  let ?n1 = "if n_sent_by n \<in> {None, Some []} \<and> sent_by \<notin> {None, Some []}
             then n\<lparr>n_sent_by := sent_by\<rparr> else n"
  let ?c = "if n_type n = Sms \<and> n_international n
            then country_records_delivery env (n_phone_prefix n) else Inr True"
  consider (final) "n_status n \<notin> set updatable_statuses"
    | (err) e where "n_status n \<in> set updatable_statuses" "?c = Inl e"
    | (no) "n_status n \<in> set updatable_statuses" "?c = Inr False"
    | (yes) "n_status n \<in> set updatable_statuses" "?c = Inr True"
    by (metis (full_types) old.sum.exhaust)
  then show ?thesis
  proof cases
    case final
    then show ?thesis using assms Some skipped
      by (simp add: update_notification_status_by_id_def autocommit_def)
  next
    case (err e)
    then show ?thesis using assms Some skipped
      by (auto simp add: update_notification_status_by_id_def autocommit_def)
  next
    case no
    then show ?thesis using assms Some skipped
      by (simp add: update_notification_status_by_id_def autocommit_def)
  next
    case yes
    have "update_notification_status_by_id env i st sent_by code w =
      (Inr (Some (?n1\<lparr>n_status := decide_permanent_temporary_failure st ?n1 code,
         n_updated_at := Some (w_now w)\<rparr>)),
       save_notification (?n1\<lparr>n_status := decide_permanent_temporary_failure st ?n1 code,
         n_updated_at := Some (w_now w)\<rparr>) w)"
      unfolding update_notification_status_by_id_def autocommit_def Some option.case
      by (simp only: yes(1) not_True_eq_False if_False yes(2) sum.case bool.case Let_def
          update_status_row_def dao_update_notification_def prod.case)
    with assms show ?thesis using updated [OF Some yes(1) refl] by simp
  qed
qed

lemma archive_subset:
  "set (take k (sort_key n_created_at (filter p rows))) \<subseteq> {n \<in> set rows. p n}"
  using set_take_subset [of k "sort_key n_created_at (filter p rows)"] by simp

lemma archive_distinct:
  "distinct_rows n_id rows \<Longrightarrow> distinct_rows n_id (take k (sort_key n_created_at (filter p rows)))"
proof -
  assume "distinct_rows n_id rows"
  then have "distinct_rows n_id (filter p rows)" by (rule distinct_filter_rows)
  then have "distinct_rows n_id (sort_key n_created_at (filter p rows))"
    by (simp add: distinct_rows_def distinct_map)
  then show ?thesis by (simp add: distinct_rows_def take_map [symmetric])
qed

lemma lower_char_special:
  "lower_char c \<in> set special_characters \<longleftrightarrow> c \<in> set special_characters"
  "c \<in> set special_characters \<Longrightarrow> lower_char c = c"
proof -
  have special: "c \<in> set special_characters \<longleftrightarrow> (of_char c :: nat) \<in> {92, 95, 37, 47}" for c
  proof -
    have "c = backslash \<longleftrightarrow> (of_char c :: nat) = 92" "c = CHR ''_'' \<longleftrightarrow> (of_char c :: nat) = 95"
      "c = CHR ''%'' \<longleftrightarrow> (of_char c :: nat) = 37" "c = CHR ''/'' \<longleftrightarrow> (of_char c :: nat) = 47"
      by (simp_all add: backslash_def flip: of_char_eq_iff [where ?'a = nat])
    then show ?thesis by (simp add: special_characters_def)
  qed
  have upper: "(of_char (lower_char c) :: nat) = (of_char c :: nat) + 32"
    if "65 \<le> (of_char c :: nat)" "(of_char c :: nat) \<le> 90" for c
  proof -
    have "(of_char c :: nat) + 32 < 2 ^ 8" using that by simp
    then show ?thesis using that by (simp add: lower_char_def take_bit_nat_eq_self)
  qed
  show "lower_char c \<in> set special_characters \<longleftrightarrow> c \<in> set special_characters"
    using upper [of c] special by (cases "65 \<le> (of_char c :: nat) \<and> (of_char c :: nat) \<le> 90")
      (auto simp: lower_char_def)
  show "c \<in> set special_characters \<Longrightarrow> lower_char c = c"
    unfolding special by (auto simp: lower_char_def)
qed

lemma lower_escape: "py_lower (escape_special_characters s) = escape_special_characters (py_lower s)"
proof (induction s)
  case Nil
  then show ?case by (simp add: py_lower_def)
next
  case (Cons c s)
  have "lower_char backslash = backslash" by code_simp
  then show ?case
    using Cons lower_char_special [of c] by (simp add: escape_Cons py_lower_def)
qed

lemma ilike_contains:
  "ilike (contains_pattern (escape_special_characters s)) t \<longleftrightarrow> sublist (py_lower s) (py_lower t)"
proof -
  have percent: "lower_char (CHR ''%'') = CHR ''%''" by code_simp
  have "py_lower (contains_pattern (escape_special_characters s)) =
      contains_pattern (escape_special_characters (py_lower s))"
    using lower_escape [of s] by (simp add: contains_pattern_def py_lower_def percent)
  then show ?thesis by (simp add: ilike_def like_contains)
qed

section \<open>Properties\<close>


text \<open>
  C1: \<open>update_notification_status_by_id\<close> touches at most the row it names and only while
  that row is created, sending, pending, sent or waiting for the virus check: a notification in
  any other status is never changed. A row it does change is stamped with the time and gets the
  reported status, a reported permanent failure possibly softened to a temporary one.
\<close>

theorem update_by_id_respects_final:
  assumes "update_notification_status_by_id env i st sent_by code w = (r, w')"
  shows "w_history w' = w_history w \<and> w_tasks w' = w_tasks w
    \<and> (case find_row n_id j (w_notifications w) of
         None \<Rightarrow> find_row n_id j (w_notifications w') = None
       | Some n \<Rightarrow>
           if j = i \<and> n_status n \<in> set updatable_statuses
           then find_row n_id j (w_notifications w') = Some n
             \<or> (\<exists>n'. find_row n_id j (w_notifications w') = Some n' \<and> r = Inr (Some n')
                  \<and> n_updated_at n' = Some (w_now w)
                  \<and> (n_status n' = st \<or> (st = PermanentFailure \<and> n_status n' = TemporaryFailure)))
           else find_row n_id j (w_notifications w') = Some n)"
  using assms
proof (cases rule: update_status_cases)
  case skipped
  then show ?thesis by (auto split: option.split)
next
  case (updated n n1)
  have id: "n_id n = i" using updated(1) by (auto dest: find_row_SomeD)
  let ?n2 = "n1\<lparr>n_status := decide_permanent_temporary_failure st n1 code,
     n_updated_at := Some (w_now w)\<rparr>"
  have "n_id ?n2 = i" using updated(3) id by simp
  then have found: "find_row n_id j (w_notifications w') =
      (if j = i then Some ?n2 else find_row n_id j (w_notifications w))"
    unfolding updated(4) by (simp add: row_simps)
  have "decide_permanent_temporary_failure st n1 code = st
      \<or> (st = PermanentFailure \<and> decide_permanent_temporary_failure st n1 code = TemporaryFailure)"
    by (auto simp: decide_permanent_temporary_failure_def Let_def
        dest!: firetext_code_status split: option.splits sum.splits)
  then have row: "n_updated_at ?n2 = Some (w_now w)
      \<and> (n_status ?n2 = st \<or> (st = PermanentFailure \<and> n_status ?n2 = TemporaryFailure))"
    by simp
  have frame: "w_history w' = w_history w" "w_tasks w' = w_tasks w"
    unfolding updated(4) by (simp_all add: save_notification_def)
  show ?thesis
  proof (cases "j = i")
    case True
    then show ?thesis using found frame row updated(1,2,5) by auto
  next
    case False
    then show ?thesis using found frame by (simp split: option.split)
  qed
qed

theorem update_by_id_respects_final_witness:
  "let w = sample_world\<lparr>w_notifications := [sample_notification]\<rparr>;
       (r, w') = update_notification_status_by_id sample_env 1 TechnicalFailure None None w
   in find_row n_id 1 (w_notifications w') = Some sample_notification"
proof -
  let ?w = "sample_world\<lparr>w_notifications := [sample_notification]\<rparr>"
  obtain r w' where run:
    "update_notification_status_by_id sample_env 1 TechnicalFailure None None ?w = (r, w')"
    by fastforce
  have "n_status sample_notification \<notin> set updatable_statuses" "n_id sample_notification = 1"
    by (simp_all add: sample_notification_def updatable_statuses_def)
  then have "find_row n_id 1 (w_notifications w') = Some sample_notification"
    using update_by_id_respects_final [OF run, of 1] by (simp add: row_simps)
  then show ?thesis by (simp only: Let_def run prod.case)
qed

text \<open>
  How the failure of a text message is classed. Only a permanent failure reported by
  Firetext is revised: a recognised detailed code decides; without one, or with an unknown one,
  the failure is temporary exactly when a pending report came before it.
\<close>

theorem failure_classification:
  "decide_permanent_temporary_failure st n code =
     (if n_sent_by n = Some ''firetext'' \<and> st = PermanentFailure
      then (case (case code of None \<Rightarrow> None | Some c \<Rightarrow> map_of firetext_codes c) of
              Some (decided, reason) \<Rightarrow> decided
            | None \<Rightarrow> if n_status n = Pending then TemporaryFailure else PermanentFailure)
      else st)"
proof -
  have "map_of firetext_codes [] = None" by (simp add: firetext_codes_def)
  then show ?thesis
    by (auto simp: decide_permanent_temporary_failure_def Let_def
        get_message_status_and_reason_from_firetext_code_def split: option.splits)
qed

text \<open>
  A search by recipient or reference finds exactly the service's notifications whose
  normalised recipient contains the normalised term, or whose client reference contains the term
  up to case (never those of a test key), of the asked type and statuses; percent signs,
  underscores and backslashes in the term are matched literally.
\<close>

theorem search_finds_substrings:
  assumes "normalise_search_term env term t = Inr normalised"
  shows "\<exists>rows. dao_get_notifications_by_recipient_or_reference env s term t statuses w = Inr rows
    \<and> set rows = {n \<in> set (w_notifications w).
        n_service_id n = s \<and> n_key_type n \<noteq> TestKey
        \<and> ((\<exists>x. n_normalised_to n = Some x \<and> sublist normalised x)
           \<or> (\<exists>x. n_client_reference n = Some x \<and> sublist (py_lower term) (py_lower x)))
        \<and> (statuses = [] \<or> n_status n \<in> set statuses)
        \<and> (t = None \<or> t = Some (n_type n))}"
proof -
  have opt: "(case o' of None \<Rightarrow> False | Some x \<Rightarrow> P x) \<longleftrightarrow> (\<exists>x. o' = Some x \<and> P x)"
    for o' :: "string option" and P by (cases o') simp_all
  have ty: "(case t of None \<Rightarrow> True | Some ty \<Rightarrow> n_type n = ty) \<longleftrightarrow> t = None \<or> t = Some (n_type n)" for n
    by (cases t) auto
  show ?thesis
    unfolding dao_get_notifications_by_recipient_or_reference_def assms res_bind.simps Let_def
      opt ty like_contains ilike_contains
    by (rule exI, rule conjI [OF refl]) auto
qed

theorem search_finds_substrings_witness:
  "let n = sample_notification\<lparr>n_client_reference := Some ''Case_50%''\<rparr>;
       w = sample_world\<lparr>w_notifications := [n]\<rparr>
   in \<exists>rows. dao_get_notifications_by_recipient_or_reference sample_env 10 ''e_5'' None [] w = Inr rows
      \<and> set rows = {n}"
proof -
  let ?n = "sample_notification\<lparr>n_client_reference := Some ''Case_50%''\<rparr>"
  let ?w = "sample_world\<lparr>w_notifications := [?n]\<rparr>"
  have norm: "normalise_search_term sample_env ''e_5'' None = Inr ''e_5''"
    by (simp add: normalise_search_term_def) code_simp
  have low: "py_lower ''e_5'' = ''e_5''" "py_lower ''Case_50%'' = ''case_50%''" by code_simp+
  have "sublist ''e_5'' ''case_50%''"
    using sublist_appendI [of "''e_5''" "''cas''" "''0%''"] by simp
  then have "set rows = {?n}" if "set rows = {n \<in> set (w_notifications ?w).
        n_service_id n = 10 \<and> n_key_type n \<noteq> TestKey
        \<and> ((\<exists>x. n_normalised_to n = Some x \<and> sublist ''e_5'' x)
           \<or> (\<exists>x. n_client_reference n = Some x \<and> sublist (py_lower ''e_5'') (py_lower x)))
        \<and> ([] = [] \<or> n_status n \<in> set [])
        \<and> (None = None \<or> None = Some (n_type n))}" for rows
    unfolding that by (auto simp: low)
  then show ?thesis
    using search_finds_substrings [OF norm, of 10 "[]" ?w] unfolding Let_def by blast
qed

text \<open>
  Timing out touches only emails and text messages created before the cutoff and still
  sending or pending: those become temporary failures stamped with the time, every other
  notification (every letter among them) stays as it is, and when the limit allows no stale
  notification is left.
\<close>

theorem timeout_only_stale:
  assumes distinct: "distinct_rows n_id (w_notifications w)"
    and run: "dao_timeout_notifications cutoff qry_limit w = (timed_out, w')"
  shows "(case find_row n_id i (w_notifications w) of
      None \<Rightarrow> find_row n_id i (w_notifications w') = None
    | Some n \<Rightarrow>
        find_row n_id i (w_notifications w') = Some n
        \<or> (n_created_at n < cutoff \<and> n_status n \<in> {Sending, Pending} \<and> n_type n \<in> {Sms, Email}
           \<and> find_row n_id i (w_notifications w') =
               Some (n\<lparr>n_status := TemporaryFailure, n_updated_at := Some (w_now w)\<rparr>)))
    \<and> (length (filter (\<lambda>n. n_created_at n < cutoff \<and> n_status n \<in> {Sending, Pending}
          \<and> n_type n \<in> {Sms, Email}) (w_notifications w)) \<le> qry_limit \<longrightarrow>
       filter (\<lambda>n. n_created_at n < cutoff \<and> n_status n \<in> {Sending, Pending}
          \<and> n_type n \<in> {Sms, Email}) (w_notifications w') = [])"
proof -
  let ?stale = "\<lambda>n. n_created_at n < cutoff \<and> n_status n \<in> {Sending, Pending} \<and> n_type n \<in> {Sms, Email}"
  let ?hits = "take qry_limit (filter ?stale (w_notifications w))"
  let ?f = "\<lambda>n. n\<lparr>n_status := TemporaryFailure, n_updated_at := Some (w_now w)\<rparr>"
  have w': "w_notifications w' =
      update_rows (\<lambda>n. n_id n \<in> n_id ` set ?hits) ?f (w_notifications w)"
    using run by (auto simp: dao_timeout_notifications_def Let_def)
  have "set ?hits \<subseteq> set (filter ?stale (w_notifications w))" by (rule set_take_subset)
  then have sub: "set ?hits \<subseteq> set (w_notifications w)" and stale: "\<forall>n \<in> set ?hits. ?stale n"
    by auto
  note member = key_in_sublist [OF distinct sub]
  have found: "find_row n_id i (w_notifications w') =
      map_option (\<lambda>n. if n_id n \<in> n_id ` set ?hits then ?f n else n) (find_row n_id i (w_notifications w))"
    unfolding w' by (rule find_update_rows) simp
  have one: "find_row n_id i (w_notifications w') = Some n \<or> (?stale n
      \<and> find_row n_id i (w_notifications w') = Some (?f n))"
    if "find_row n_id i (w_notifications w) = Some n" for n
  proof (cases "n \<in> set ?hits")
    case True
    then have "?stale n" "n_id n \<in> n_id ` set ?hits" using stale by (blast, blast)
    then show ?thesis unfolding found that by (simp only: if_True option.map simp_thms)
  next
    case False
    then have "n_id n \<notin> n_id ` set ?hits"
      unfolding member [OF find_row_SomeD [OF that, THEN conjunct1]] .
    then show ?thesis unfolding found that by (simp only: if_False option.map simp_thms)
  qed
  have "filter ?stale (w_notifications w') = []"
    if "length (filter ?stale (w_notifications w)) \<le> qry_limit"
  proof -
    have hits: "?hits = filter ?stale (w_notifications w)" using that by simp
    have "\<not> ?stale x" if "x \<in> set (w_notifications w')" for x
    proof -
      obtain n where n: "n \<in> set (w_notifications w)"
        "x = (if n_id n \<in> n_id ` set ?hits then ?f n else n)"
        using \<open>x \<in> set (w_notifications w')\<close> unfolding w' update_rows_def by auto
      show ?thesis
      proof (cases "n \<in> set ?hits")
        case True
        then show ?thesis using n(2) by simp
      next
        case False
        then have "x = n" unfolding n(2) member [OF n(1)] by simp
        moreover have "\<not> ?stale n" using False n(1) unfolding hits by simp
        ultimately show ?thesis by simp
      qed
    qed
    then show ?thesis by (simp only: filter_empty_conv) blast
  qed
  then show ?thesis using one found by (auto split: option.split)
qed

theorem timeout_only_stale_witness:
  "let n = sample_notification\<lparr>n_status := Sending\<rparr>;
       w = sample_world\<lparr>w_notifications := [n]\<rparr>;
       (hits, w') = dao_timeout_notifications 90000000001 10 w
   in distinct_rows n_id (w_notifications w)
      \<and> filter (\<lambda>n. n_created_at n < 90000000001 \<and> n_status n \<in> {Sending, Pending}
          \<and> n_type n \<in> {Sms, Email}) (w_notifications w') = []"
proof -
  let ?w = "sample_world\<lparr>w_notifications := [sample_notification\<lparr>n_status := Sending\<rparr>]\<rparr>"
  obtain hits w' where run: "dao_timeout_notifications 90000000001 10 ?w = (hits, w')" by fastforce
  have "distinct_rows n_id (w_notifications ?w)" by (simp add: distinct_rows_def)
  moreover from this have "filter (\<lambda>n. n_created_at n < 90000000001
      \<and> n_status n \<in> {Sending, Pending} \<and> n_type n \<in> {Sms, Email}) (w_notifications w') = []"
    using timeout_only_stale [OF _ run, THEN conjunct2] by simp
  ultimately show ?thesis by (simp only: Let_def run prod.case simp_thms)
qed

text \<open>
  The slow-delivery report of every active provider of text messages has a positive
  total, counts at most the total as slow, and its ratio is slow over total, between 0 and 1; no
  provider is missing, also not one that sent nothing, which counts as not slow.
\<close>

theorem slow_report_ratio:
  "list_all (\<lambda>r. 1 \<le> sp_total r \<and> sp_slow r \<le> sp_total r \<and> 0 \<le> sp_slow_ratio r
       \<and> sp_slow_ratio r \<le> 1 \<and> sp_slow_ratio r * of_nat (sp_total r) = of_nat (sp_slow r))
     (get_slow_text_message_delivery_reports_by_provider created_within delivered_within w)
   \<and> set (map sp_provider
       (get_slow_text_message_delivery_reports_by_provider created_within delivered_within w)) =
     p_identifier ` {p \<in> set (w_providers w). p_notification_type p = Sms \<and> p_active p}"
proof -
  have row: "1 \<le> t \<and> s \<le> t \<and> 0 \<le> of_nat s / (of_nat t :: rat) \<and> of_nat s / (of_nat t :: rat) \<le> 1
      \<and> of_nat s / (of_nat t :: rat) * of_nat t = of_nat s"
    if "s = length (filter P xs)" "t = (if xs = [] then 1 else length xs)"
    for s t P and xs :: "notification list"
  proof -
    have t: "1 \<le> t" and st: "s \<le> t" unfolding that by (cases xs, simp_all add: le_SucI)
    then have "(of_nat s :: rat) \<le> of_nat t" by simp
    then show ?thesis using t st by (simp add: divide_le_eq_1)
  qed
  have "1 \<le> sp_total r \<and> sp_slow r \<le> sp_total r \<and> 0 \<le> sp_slow_ratio r
       \<and> sp_slow_ratio r \<le> 1 \<and> sp_slow_ratio r * of_nat (sp_total r) = of_nat (sp_slow r)"
    if "r = slow_report_for created_within delivered_within w p" for r p
    unfolding that slow_report_for_def Let_def slow_provider_report.simps by (rule row [OF refl refl])
  moreover have "sp_provider (slow_report_for created_within delivered_within w p) = p" for p
    by (simp add: slow_report_for_def Let_def)
  ultimately show ?thesis
    by (simp add: get_slow_text_message_delivery_reports_by_provider_def list_all_iff image_image)
qed

end
