(* ===== verification/Callbacks.thy ===== *)
theory Callbacks
  imports Notifications_Dao
begin

text \<open>
  Delivery receipts. The REST endpoints under \<^verbatim>\<open>app/notifications\<close> validate what a provider sends
  and queue a task; the tasks under \<^verbatim>\<open>app/celery\<close> turn the provider's status into a status of the
  notification and queue the callback to the service (\<^verbatim>\<open>app/celery/service_callback_tasks.py\<close>,
  \<^verbatim>\<open>app/dao/service_callback_api_dao.py\<close>). Signing the callback data is the identity here. The
  number of fragments of a text message comes from the template library: it is an argument.
\<close>

section \<open>Python helpers\<close>

definition hex_value :: "char \<Rightarrow> nat option" where
  "hex_value c =
     (let n = (of_char c :: nat)
      in if 48 \<le> n \<and> n \<le> 57 then Some (n - 48)
         else if 97 \<le> n \<and> n \<le> 102 then Some (n - 87)
         else if 65 \<le> n \<and> n \<le> 70 then Some (n - 55) else None)"

definition parse_uuid :: "string \<Rightarrow> uuid option" where
  \<comment> \<open>\<open>uuid.UUID(s, version=4)\<close> of a string without \<open>urn:\<close> prefix\<close>
  "parse_uuid s =
     (let h = filter (\<lambda>c. c \<noteq> CHR ''-'' \<and> c \<noteq> CHR 0x7B \<and> c \<noteq> CHR 0x7D) s
      in if length h = 32 \<and> list_all (\<lambda>c. hex_value c \<noteq> None) h
         then Some (fold (\<lambda>c n. 16 * n + the (hex_value c)) h 0) else None)"

definition parse_nat :: "string \<Rightarrow> nat option" where
  "parse_nat s =
     (if s \<noteq> [] \<and> list_all (\<lambda>c. 48 \<le> (of_char c :: nat) \<and> (of_char c :: nat) \<le> 57) s
      then Some (fold (\<lambda>c n. 10 * n + ((of_char c :: nat) - 48)) s 0) else None)"

definition parse_int :: "string \<Rightarrow> int option" where
  \<comment> \<open>\<open>int(s)\<close> of a string without spaces or underscores\<close>
  "parse_int s =
     (case s of
        c # r \<Rightarrow> if c = CHR ''-'' then map_option (\<lambda>n. - int n) (parse_nat r)
                 else if c = CHR ''+'' then map_option int (parse_nat r)
                 else map_option int (parse_nat s)
      | [] \<Rightarrow> None)"

section \<open>The callbacks of a service\<close>

definition get_service_callback_api_by_callback_type ::
  "uuid \<Rightarrow> callback_type \<Rightarrow> world \<Rightarrow> service_callback_api option" where
  "get_service_callback_api_by_callback_type service_id t w =
     query_first (\<lambda>a. cb_service_id a = service_id \<and> cb_callback_type a = t) (w_callback_apis w)"

definition get_service_callback_api ::
  "uuid \<Rightarrow> uuid \<Rightarrow> callback_type \<Rightarrow> world \<Rightarrow> service_callback_api option" where
  "get_service_callback_api i service_id t w =
     query_first (\<lambda>a. cb_id a = i \<and> cb_service_id a = service_id \<and> cb_callback_type a = t)
       (w_callback_apis w)"

definition get_delivery_status_callback_api_for_service ::
  "uuid \<Rightarrow> world \<Rightarrow> service_callback_api option" where
  "get_delivery_status_callback_api_for_service service_id w =
     get_service_callback_api_by_callback_type service_id DeliveryStatusCallback w"

definition get_returned_letter_callback_api_for_service ::
  "uuid \<Rightarrow> world \<Rightarrow> service_callback_api option" where
  "get_returned_letter_callback_api_for_service service_id w =
     get_service_callback_api_by_callback_type service_id ReturnedLetterCallback w"

definition get_complaint_callback_api_for_service ::
  "uuid \<Rightarrow> world \<Rightarrow> service_callback_api option" where
  "get_complaint_callback_api_for_service service_id w =
     get_service_callback_api_by_callback_type service_id ComplaintCallback w"

definition save_service_callback_api :: "service_callback_api \<Rightarrow> world \<Rightarrow> world" where
  "save_service_callback_api a w =
     w\<lparr>w_callback_apis := save_row cb_id (a\<lparr>cb_created_at := w_now w\<rparr>) (w_callback_apis w)\<rparr>"

definition reset_service_callback_api ::
  "service_callback_api \<Rightarrow> uuid \<Rightarrow> string option \<Rightarrow> string option \<Rightarrow> world \<Rightarrow> world" where
  "reset_service_callback_api a updated_by url token w =
     (let truthy = (\<lambda>x. x \<notin> {None, Some []});
          a1 = (if truthy url then a\<lparr>cb_url := the url\<rparr> else a);
          a2 = (if truthy token then a1\<lparr>cb_bearer_token := the token\<rparr> else a1);
          a3 = a2\<lparr>cb_updated_by_id := updated_by, cb_updated_at := Some (w_now w)\<rparr>
      in w\<lparr>w_callback_apis := save_row cb_id a3 (w_callback_apis w)\<rparr>)"

definition delete_service_callback_api :: "service_callback_api \<Rightarrow> world \<Rightarrow> world" where
  "delete_service_callback_api a w =
     w\<lparr>w_callback_apis := delete_rows (\<lambda>x. cb_id x = cb_id a) (w_callback_apis w)\<rparr>"

type_synonym notification_or_history = "notification + notification_history"

definition create_delivery_status_callback_data ::
  "notification_or_history \<Rightarrow> service_callback_api \<Rightarrow> status_callback_data result" where
  \<comment> \<open>a history row has no recipient (\<open>to\<close>)\<close>
  "create_delivery_status_callback_data row a =
     (case row of
        Inr h \<Rightarrow> Inl (Py AttributeError)
      | Inl n \<Rightarrow>
          Inr \<lparr>sc_notification_id = n_id n, sc_client_reference = n_client_reference n,
               sc_to = n_to n, sc_status = n_status n, sc_created_at = n_created_at n,
               sc_updated_at = n_updated_at n, sc_sent_at = n_sent_at n, sc_type = n_type n,
               sc_api_url = cb_url a, sc_bearer_token = cb_bearer_token a,
               sc_template_id = n_template_id n, sc_template_version = n_template_version n\<rparr>)"

definition row_id :: "notification_or_history \<Rightarrow> uuid" where
  "row_id row = (case row of Inl n \<Rightarrow> n_id n | Inr h \<Rightarrow> h_id h)"

definition row_service_id :: "notification_or_history \<Rightarrow> uuid" where
  "row_service_id row = (case row of Inl n \<Rightarrow> n_service_id n | Inr h \<Rightarrow> h_service_id h)"

definition row_status :: "notification_or_history \<Rightarrow> nstatus" where
  "row_status row = (case row of Inl n \<Rightarrow> n_status n | Inr h \<Rightarrow> h_status h)"

definition check_and_queue_callback_task :: "notification_or_history \<Rightarrow> unit op" where
  "check_and_queue_callback_task row w =
     (case get_delivery_status_callback_api_for_service (row_service_id row) w of
        None \<Rightarrow> (Inr (), w)
      | Some a \<Rightarrow>
          (case create_delivery_status_callback_data row a of
             Inl e \<Rightarrow> (Inl e, w)
           | Inr d \<Rightarrow> (Inr (), enqueue CALLBACKS (TSendDeliveryStatus d (row_id row)) w)))"

text \<open>
  What the tasks that call a service do with its answer: \<open>HttpResponse\<close> with an error code is an
  \<open>HTTPError\<close>, \<open>RequestException\<close> any other failure of the request.
\<close>

definition send_data_to_service_callback_api :: "env \<Rightarrow> nat \<Rightarrow> http_outcome \<Rightarrow> unit result" where
  "send_data_to_service_callback_api env retries out =
     (let retry =
        (case lib_retry env retries 5 None of
           Task MaxRetriesExceededError \<Rightarrow> Inr ()
         | e \<Rightarrow> Inl e)
      in case out of
           RequestException \<Rightarrow> retry
         | HttpResponse code body \<Rightarrow>
             if \<not> raise_for_status code then Inr ()
             else if code \<ge> 500 \<or> code = 429 then retry
             else Inr ())"

definition send_inbound_sms_to_service :: "env \<Rightarrow> nat \<Rightarrow> uuid \<Rightarrow> uuid \<Rightarrow> http_outcome \<Rightarrow> unit op" where
  "send_inbound_sms_to_service env retries inbound_sms_id service_id out w =
     (case get_service_callback_api_by_callback_type service_id InboundSmsCallback w of
        None \<Rightarrow> (Inr (), w)
      | Some a \<Rightarrow>
          (case query_one (Db NoResultFound) (Db MultipleResultsFound)
                  (\<lambda>s. is_service_id s = service_id \<and> is_id s = inbound_sms_id) (w_inbound_sms w) of
             Inl e \<Rightarrow> (Inl e, w)
           | Inr s \<Rightarrow>
               if is_provider_date s = None then (Inl (Py AttributeError), w)
               else (send_data_to_service_callback_api env retries out, w)))"

section \<open>Receipts for text messages and message boxes\<close>

text \<open>The tasks for text messages and for message boxes share their steps.\<close>

definition client_response_task ::
  "response_parser_fn option \<Rightarrow> (nstatus \<Rightarrow> uuid \<Rightarrow> string option \<Rightarrow> unit op)
     \<Rightarrow> string \<Rightarrow> string option \<Rightarrow> string \<Rightarrow> string option \<Rightarrow> unit op" where
  "client_response_task parser process status provider_reference client_name code w =
     (case provider_reference of
        None \<Rightarrow> (Inl (Py TypeError), w)
      | Some r \<Rightarrow>
          (case parse_uuid r of
             None \<Rightarrow> (Inl (Py (ValueError ''badly formed hexadecimal UUID string'')), w)
           | Some i \<Rightarrow>
               (case parser of
                  None \<Rightarrow> (Inl (Py (KeyError client_name)), w)
                | Some parse \<Rightarrow>
                    (case parse status code of
                       Inr (st, reason) \<Rightarrow> process st i code w
                     | Inl (Py (KeyError k)) \<Rightarrow>
                         (case process TechnicalFailure i None w of
                            (Inl e, w') \<Rightarrow> (Inl e, w')
                          | (Inr _, w') \<Rightarrow>
                              (Inl (Client (ClientException (client_name @ '' callback failed: status ''
                                      @ status @ '' not found.''))), w'))
                     | Inl e \<Rightarrow> (Inl e, w)))))"

definition sms_response_mapper :: "(string \<times> response_parser_fn) list" where
  "sms_response_mapper =
     [(''MMG'', get_mmg_responses), (''Firetext'', get_firetext_responses),
      (''Spryng'', get_spryng_responses)]"

type_synonym fragment_fn = "template \<Rightarrow> string option \<Rightarrow> string \<Rightarrow> bool \<Rightarrow> int"

definition dao_get_template_by_id :: "uuid \<Rightarrow> int option \<Rightarrow> world \<Rightarrow> template result" where
  "dao_get_template_by_id i version w =
     (case version of
        Some v \<Rightarrow> query_one (Db NoResultFound) (Db MultipleResultsFound)
                    (\<lambda>t. t_id t = i \<and> t_version t = v) (w_template_history w)
      | None \<Rightarrow> query_one (Db NoResultFound) (Db MultipleResultsFound) (\<lambda>t. t_id t = i)
                  (w_templates w))"

definition fill_billable_units :: "fragment_fn \<Rightarrow> notification \<Rightarrow> notification op" where
  \<comment> \<open>the receipt came before the sender stored the fragments\<close>
  "fill_billable_units fragments n w =
     (if n_billable_units n = 0 then
        (case find_row svc_id (n_service_id n) (w_services w) of
           None \<Rightarrow> (Inl (Py AttributeError), w)
         | Some s \<Rightarrow>
             (case dao_get_template_by_id (n_template_id n) (Some (n_template_version n)) w of
                Inl e \<Rightarrow> (Inl e, w)
              | Inr t \<Rightarrow>
                  (let (n', w') = dao_update_notification
                         (n\<lparr>n_billable_units :=
                             fragments t (n_personalisation n) (svc_name s) (svc_prefix_sms s)\<rparr>) w
                   in (Inr n', w'))))
      else (Inr n, w))"

definition process_for_status ::
  "env \<Rightarrow> fragment_fn \<Rightarrow> string \<Rightarrow> nstatus \<Rightarrow> uuid \<Rightarrow> string option \<Rightarrow> unit op" where
  "process_for_status env fragments client_name status i code w =
     (case update_notification_status_by_id env i status (Some (py_lower client_name)) code w of
        (Inl e, w') \<Rightarrow> (Inl e, w')
      | (Inr None, w') \<Rightarrow> (Inr (), w')
      | (Inr (Some n), w') \<Rightarrow>
          (case fill_billable_units fragments n w' of
             (Inl e, w'') \<Rightarrow> (Inl e, w'')
           | (Inr n', w'') \<Rightarrow>
               if status \<noteq> Pending then check_and_queue_callback_task (Inl n') w'' else (Inr (), w'')))"

definition process_sms_client_response ::
  "env \<Rightarrow> fragment_fn \<Rightarrow> string \<Rightarrow> string option \<Rightarrow> string \<Rightarrow> string option \<Rightarrow> unit op" where
  "process_sms_client_response env fragments status provider_reference client_name code =
     client_response_task (map_of sms_response_mapper client_name)
       (process_for_status env fragments client_name) status provider_reference client_name code"

definition process_messagebox_for_status ::
  "env \<Rightarrow> string \<Rightarrow> nstatus \<Rightarrow> uuid \<Rightarrow> string option \<Rightarrow> unit op" where
  "process_messagebox_for_status env client_name status i code w =
     (case update_notification_status_by_id env i status (Some (py_lower client_name)) code w of
        (Inl e, w') \<Rightarrow> (Inl e, w')
      | (Inr None, w') \<Rightarrow> (Inr (), w')
      | (Inr (Some n), w') \<Rightarrow>
          if status \<noteq> Pending then check_and_queue_callback_task (Inl n) w' else (Inr (), w'))"

definition process_messagebox_client_response ::
  "env \<Rightarrow> string \<Rightarrow> string option \<Rightarrow> string \<Rightarrow> string option \<Rightarrow> unit op" where
  "process_messagebox_client_response env status provider_reference client_name code =
     client_response_task (Some get_messagebox_responses)
       (process_messagebox_for_status env client_name) status provider_reference client_name code"

subsection \<open>The endpoints\<close>

datatype cb_value = CbNull | CbText string | CbNumber int

fun cb_str :: "cb_value \<Rightarrow> string" where
  \<comment> \<open>\<open>str()\<close>\<close>
  "cb_str CbNull = ''None''"
| "cb_str (CbText s) = s"
| "cb_str (CbNumber i) = int_str i"

type_synonym callback_form = "(string \<times> cb_value) list"

definition validate_callback_data :: "callback_form \<Rightarrow> string list \<Rightarrow> string \<Rightarrow> string list" where
  \<comment> \<open>\<open>None\<close> of the code is the empty list\<close>
  "validate_callback_data data fs client_name =
     map (\<lambda>f. client_name @ '' callback failed: '' @ f @ '' missing'')
       (filter (\<lambda>f. (case map_of data f of None \<Rightarrow> [] | Some v \<Rightarrow> cb_str v) = []) fs)"

definition form_get :: "callback_form \<Rightarrow> string \<Rightarrow> string option" where
  "form_get data f =
     (case map_of data f of None \<Rightarrow> None | Some CbNull \<Rightarrow> None | Some v \<Rightarrow> Some (cb_str v))"

definition str_get :: "callback_form \<Rightarrow> string \<Rightarrow> string" where
  \<comment> \<open>\<open>str(data.get(f))\<close>\<close>
  "str_get data f = (case form_get data f of None \<Rightarrow> ''None'' | Some s \<Rightarrow> s)"

definition joined :: "string list \<Rightarrow> string" where
  "joined xs = concat (map (\<lambda>x. x @ '' '') xs)"

definition process_mmg_response :: "callback_form \<Rightarrow> unit op" where
  "process_mmg_response data w =
     (let errors = validate_callback_data data [''status'', ''CID''] ''MMG''
      in if errors \<noteq> [] then (Inl (invalid_request (joined errors) 400), w)
         else (Inr (), enqueue SMS_CALLBACKS
                 (TProcessSmsClientResponse (str_get data ''status'') (form_get data ''CID'') ''MMG''
                    (Some (str_get data ''substatus''))) w))"

definition process_firetext_response :: "callback_form \<Rightarrow> unit op" where
  "process_firetext_response data w =
     (let errors = validate_callback_data data [''status'', ''reference''] ''Firetext''
      in if errors \<noteq> [] then (Inl (invalid_request (joined errors) 400), w)
         else (Inr (), enqueue SMS_CALLBACKS
                 (TProcessSmsClientResponse (str_get data ''status'') (form_get data ''reference'')
                    ''Firetext'' (form_get data ''code'')) w))"

definition process_spryng_response :: "callback_form \<Rightarrow> unit op" where
  "process_spryng_response data w =
     (let errors = validate_callback_data data [''STATUS'', ''REASONCODE''] ''Spryng''
      in if errors \<noteq> [] then (Inl (invalid_request (joined errors) 400), w)
         else (Inr (), enqueue SMS_CALLBACKS
                 (TProcessSmsClientResponse (str_get data ''STATUS'') (form_get data ''REFERENCE'')
                    ''Spryng'' (form_get data ''REASONCODE'')) w))"

definition process_messagebox_response :: "callback_form \<Rightarrow> unit op" where
  "process_messagebox_response data w =
     (let errors = validate_callback_data data [''status'', ''reference''] ''Messagebox''
      in if errors \<noteq> [] then (Inl (invalid_request (joined errors) 400), w)
         else (Inr (), enqueue MESSAGEBOX_CALLBACKS
                 (TProcessMessageboxResponse (str_get data ''status'') (str_get data ''reference'')
                    ''Messagebox'' (form_get data ''code'')) w))"

section \<open>Receipts for emails\<close>

text \<open>
  The message SES posts, read from its JSON: a key the message does not have is \<open>None\<close>, and so is
  the whole message when \<open>json.loads\<close> fails. \<open>iso8601.parse_date\<close> and the database's reading of a
  timestamp belong to libraries: one function \<open>parse_iso\<close> stands for both.
\<close>

record ses_mail =
  mail_message_id :: "string option"
  mail_destination :: "string list option"
  mail_timestamp :: "string option"

record ses_complaint =
  comp_recipients :: bool
  comp_feedback_id :: "string option"
  comp_type :: "string option"
  comp_timestamp :: "string option"

record ses_message =
  sm_type :: "string option"
  sm_mail :: "ses_mail option"
  sm_bounce :: "(string option \<times> bool) option"
  sm_complaint :: "ses_complaint option"

definition dict_item :: "string \<Rightarrow> 'a option \<Rightarrow> 'a result" where
  \<comment> \<open>\<open>d[key]\<close>\<close>
  "dict_item key v = (case v of None \<Rightarrow> Inl (Py (KeyError key)) | Some x \<Rightarrow> Inr x)"

definition save_complaint :: "complaint \<Rightarrow> world \<Rightarrow> world" where
  "save_complaint c w = w\<lparr>w_complaints := save_row c_id c (w_complaints w)\<rparr>"

definition fetch_count_of_complaints :: "env \<Rightarrow> date \<Rightarrow> date \<Rightarrow> world \<Rightarrow> nat" where
  "fetch_count_of_complaints env start_date end_date w =
     (let s = get_london_midnight_in_utc env start_date;
          e = get_london_midnight_in_utc env (end_date + 1)
      in length (filter (\<lambda>c. s \<le> c_created_at c \<and> c_created_at c < e) (w_complaints w)))"

definition determine_notification_bounce_type :: "ses_message \<Rightarrow> string result" where
  \<comment> \<open>with \<open>remove_emails_from_bounce\<close>; the second component of the boolean pair says whether
      \<open>bouncedRecipients\<close> is there\<close>
  "determine_notification_bounce_type m =
     res_bind (dict_item ''mail'' (sm_mail m)) (\<lambda>mail.
     res_bind (dict_item ''destination'' (mail_destination mail)) (\<lambda>d.
     res_bind (dict_item ''bounce'' (sm_bounce m)) (\<lambda>(bounce_type, recipients).
     if \<not> recipients then Inl (Py (KeyError ''bouncedRecipients''))
     else res_bind (dict_item ''bounceType'' bounce_type) (\<lambda>t.
       Inr (if t = ''Permanent'' then t else ''Temporary'')))))"

definition remove_emails_from_complaint :: "ses_message \<Rightarrow> string list result" where
  "remove_emails_from_complaint m =
     res_bind (dict_item ''mail'' (sm_mail m)) (\<lambda>mail.
     res_bind (dict_item ''complaint'' (sm_complaint m)) (\<lambda>c.
     if \<not> comp_recipients c then Inl (Py (KeyError ''complainedRecipients''))
     else dict_item ''destination'' (mail_destination mail)))"

definition row_client_reference :: "notification_or_history \<Rightarrow> string option" where
  "row_client_reference row =
     (case row of Inl n \<Rightarrow> n_client_reference n | Inr h \<Rightarrow> h_client_reference h)"

type_synonym iso_fn = "string \<Rightarrow> time option"

definition handle_complaint ::
  "env \<Rightarrow> iso_fn \<Rightarrow> ses_message \<Rightarrow> (complaint \<times> notification_or_history \<times> string) option op" where
  \<comment> \<open>\<open>None\<close> when the message has no \<open>messageId\<close>\<close>
  "handle_complaint env parse_iso m w =
     (case remove_emails_from_complaint m of
        Inl e \<Rightarrow> (Inl e, w)
      | Inr [] \<Rightarrow> (Inl (Py IndexError), w)
      | Inr (recipient_email # rest) \<Rightarrow>
          (case Option.bind (sm_mail m) mail_message_id of
             None \<Rightarrow> (Inr None, w)
           | Some reference \<Rightarrow>
               (case dao_get_notification_or_history_by_reference reference w of
                  Inl e \<Rightarrow> (Inl e, w)
                | Inr row \<Rightarrow>
                    (let sc = the (sm_complaint m);
                         date = map_option parse_iso (comp_timestamp sc);
                         (i, w1) = create_uuid env w;
                         c = \<lparr>c_id = i, c_notification_id = row_id row,
                              c_service_id = row_service_id row,
                              c_ses_feedback_id = comp_feedback_id sc,
                              c_complaint_type = comp_type sc,
                              c_complaint_date = Option.bind date id, c_created_at = w_now w\<rparr>
                     in if date = Some None then (Inl (Db DataError), w)
                        else (Inr (Some (c, row, recipient_email)), save_complaint c w1)))))"

definition create_complaint_callback_data ::
  "complaint \<Rightarrow> notification_or_history \<Rightarrow> service_callback_api \<Rightarrow> string
     \<Rightarrow> complaint_callback_data result" where
  "create_complaint_callback_data c row a recipient =
     (case c_complaint_date c of
        None \<Rightarrow> Inl (Py AttributeError)
      | Some d \<Rightarrow>
          Inr \<lparr>cc_complaint_id = c_id c, cc_notification_id = row_id row,
               cc_reference = row_client_reference row, cc_to = recipient,
               cc_complaint_date = d, cc_api_url = cb_url a,
               cc_bearer_token = cb_bearer_token a\<rparr>)"

definition check_and_queue_complaint_callback_task ::
  "complaint \<Rightarrow> notification_or_history \<Rightarrow> string \<Rightarrow> unit op" where
  "check_and_queue_complaint_callback_task c row recipient w =
     (case get_complaint_callback_api_for_service (row_service_id row) w of
        None \<Rightarrow> (Inr (), w)
      | Some a \<Rightarrow>
          (case create_complaint_callback_data c row a recipient of
             Inl e \<Rightarrow> (Inl e, w)
           | Inr d \<Rightarrow> (Inr (), enqueue CALLBACKS (TSendComplaint d) w)))"

text \<open>
  \<open>process_ses_results\<close>: the body of its \<open>try\<close>, then what its two \<open>except\<close> clauses do with an
  exception. The rows are updated by a query on the reference, which also stamps \<open>updated_at\<close>;
  the notification is read again when its callback is built.
\<close>

definition ses_set_status :: "string \<Rightarrow> nstatus \<Rightarrow> world \<Rightarrow> world" where
  "ses_set_status reference status w =
     snd (dao_update_notifications_by_reference [reference]
       (\<lambda>n. n\<lparr>n_status := status, n_updated_at := Some (w_now w)\<rparr>)
       (\<lambda>h. h\<lparr>h_status := status, h_updated_at := Some (w_now w)\<rparr>) w)"

definition reread :: "notification_or_history \<Rightarrow> world \<Rightarrow> notification_or_history" where
  "reread row w =
     (case row of
        Inl n \<Rightarrow> (case find_row n_id (n_id n) (w_notifications w) of None \<Rightarrow> row | Some n' \<Rightarrow> Inl n')
      | Inr h \<Rightarrow> (case find_row h_id (h_id h) (w_history w) of None \<Rightarrow> row | Some h' \<Rightarrow> Inr h'))"

definition ses_notification_missing ::
  "env \<Rightarrow> nat \<Rightarrow> iso_fn \<Rightarrow> ses_mail \<Rightarrow> world \<Rightarrow> bool result" where
  \<comment> \<open>the \<open>except NoResultFound\<close> clause\<close>
  "ses_notification_missing env retries parse_iso mail w =
     res_bind (dict_item ''timestamp'' (mail_timestamp mail)) (\<lambda>ts.
       case parse_iso ts of
         None \<Rightarrow> Inl (Py (ValueError ''Unable to parse date string''))
       | Some message_time \<Rightarrow>
           if w_now w - message_time < minutes 5 then Inl (lib_retry env retries 5 None)
           else Inr False)"

definition ses_results_body ::
  "env \<Rightarrow> nat \<Rightarrow> iso_fn \<Rightarrow> ses_message option \<Rightarrow> bool op" where
  "ses_results_body env retries parse_iso response w =
     (case res_bind (dict_item ''Message'' response) (\<lambda>m.
             res_bind (dict_item ''notificationType'' (sm_type m)) (\<lambda>t. Inr (m, t))) of
        Inl e \<Rightarrow> (Inl e, w)
      | Inr (m, t) \<Rightarrow>
          if t = ''Complaint'' then
            (case handle_complaint env parse_iso m w of
               (Inl e, w') \<Rightarrow> (Inl e, w')
             | (Inr None, w') \<Rightarrow> (Inl (Py TypeError), w')
             | (Inr (Some (c, row, recipient)), w') \<Rightarrow>
                 (case check_and_queue_complaint_callback_task c row recipient w' of
                    (Inl e, w'') \<Rightarrow> (Inl e, w'')
                  | (Inr _, w'') \<Rightarrow> (Inr True, w'')))
          else
            (case res_bind (if t = ''Bounce'' then determine_notification_bounce_type m else Inr t)
                    (\<lambda>nt. res_bind (get_aws_responses nt) (\<lambda>r.
                          res_bind (dict_item ''mail'' (sm_mail m)) (\<lambda>mail.
                          res_bind (dict_item ''messageId'' (mail_message_id mail)) (\<lambda>ref.
                            Inr (ses_notification_status r, mail, ref))))) of
               Inl e \<Rightarrow> (Inl e, w)
             | Inr (status, mail, ref) \<Rightarrow>
                 (case dao_get_notification_or_history_by_reference ref w of
                    Inl e \<Rightarrow>
                      (if e = Db NoResultFound then ses_notification_missing env retries parse_iso mail w
                       else Inl e, w)
                  | Inr row \<Rightarrow>
                      if row_status row \<notin> {Sending, Pending} then (Inr False, w)
                      else
                        (let w1 = ses_set_status ref status w
                         in case check_and_queue_callback_task (reread row w1) w1 of
                              (Inl e, w2) \<Rightarrow> (Inl e, w2)
                            | (Inr _, w2) \<Rightarrow> (Inr True, w2)))))"

definition process_ses_results ::
  "env \<Rightarrow> nat \<Rightarrow> iso_fn \<Rightarrow> ses_message option \<Rightarrow> bool op" where
  "process_ses_results env retries parse_iso response w =
     (case ses_results_body env retries parse_iso response w of
        (Inr b, w') \<Rightarrow> (Inr b, w')
      | (Inl (Task (CeleryRetry m)), w') \<Rightarrow> (Inl (Task (CeleryRetry m)), w')
      | (Inl e, w') \<Rightarrow> (Inl (lib_retry env retries 5 None), w'))"

section \<open>Receipts for letters\<close>

definition hhmm :: "nat \<Rightarrow> nat \<Rightarrow> string \<Rightarrow> nat option" where
  \<comment> \<open>a field of \<open>strptime\<close>: at most so many digits, at most this value\<close>
  "hhmm width limit s =
     (case parse_nat s of None \<Rightarrow> None
      | Some n \<Rightarrow> if length s \<le> width \<and> n \<le> limit then Some n else None)"

definition parse_transition_date :: "string \<Rightarrow> time option" where
  \<comment> \<open>\<open>strptime(s, "%Y-%m-%dT%H:%M:%SZ")\<close>\<close>
  "parse_transition_date s0 =
     (case py_split (CHR ''T'') (py_upper s0) of
        [d, t] \<Rightarrow>
          (case (py_split (CHR ''-'') d, py_split (CHR '':'') t) of
             ([y, m, dd], [h, mi, s]) \<Rightarrow>
               (case (if length y = 4 then parse_nat y else None, hhmm 2 12 m, hhmm 2 31 dd,
                      hhmm 2 23 h, hhmm 2 59 mi,
                      if s \<noteq> [] \<and> last s = CHR ''Z'' then hhmm 2 59 (butlast s) else None) of
                  (Some yy, Some mm, Some day, Some hh, Some mn, Some ss) \<Rightarrow>
                    if yy = 0 \<or> mm = 0 \<or> day = 0
                       \<or> int day > month_lengths (int yy) ! (mm - 1) then None
                    else Some (datetime_of (int yy) (int mm) (int day)
                               + seconds (3600 * int hh + 60 * int mn + int ss))
                | _ \<Rightarrow> None)
           | _ \<Rightarrow> None)
      | _ \<Rightarrow> None)"

text \<open>
  The body DVLA posts, with the properties the schema requires and the ones the code reads. What
  the JSON schema library makes of a format is an argument.
\<close>

record letter_callback_request =
  lq_despatch_properties :: "(string \<times> string) list"
  lq_job_id :: string
  lq_job_status :: string
  lq_transition_date :: string

definition despatch_property_ok :: "string \<times> string \<Rightarrow> bool" where
  \<comment> \<open>the \<open>oneOf\<close> of an item\<close>
  "despatch_property_ok p =
     (let (k, v) = p
      in if k = ''postageClass'' then v \<in> {''1ST'', ''2ND'', ''INTERNATIONAL''}
         else if k = ''mailingProduct'' then
           v \<in> {''UNCODED'', ''MM UNSORTED'', ''UNSORTED'', ''MM'', ''INT EU'', ''INT ROW'',
                ''UNSORTEDE'', ''MM ECONOMY''}
         else True)"

definition dvla_letter_callback_schema ::
  "(string \<Rightarrow> string \<Rightarrow> bool) \<Rightarrow> letter_callback_request \<Rightarrow> bool" where
  "dvla_letter_callback_schema format_ok q \<longleftrightarrow>
     length (lq_despatch_properties q) \<ge> 3 \<and> distinct (lq_despatch_properties q)
     \<and> list_all despatch_property_ok (lq_despatch_properties q)
     \<and> format_ok ''uuid'' (lq_job_id q)
     \<and> lq_job_status q \<in> {DVLA_NOTIFICATION_DISPATCHED, DVLA_NOTIFICATION_REJECTED}
     \<and> format_ok ''date-time'' (lq_transition_date q)"

definition parse_token :: "(string \<Rightarrow> string option) \<Rightarrow> string \<Rightarrow> string result" where
  \<comment> \<open>\<open>decode\<close> is the signing library; no value stands for \<open>BadSignature\<close>\<close>
  "parse_token decode token =
     (case decode token of
        None \<Rightarrow> Inl (invalid_request ''A valid token must be provided in the query string'' 403)
      | Some i \<Rightarrow> Inr i)"

definition check_token_matches_payload :: "string \<Rightarrow> string \<Rightarrow> unit result" where
  "check_token_matches_payload token_id json_id =
     (if token_id \<noteq> json_id
      then Inl (invalid_request
        ''Notification ID in letter callback data does not match ID in token'' 400)
      else Inr ())"

definition get_cost_threshold :: "string \<Rightarrow> string \<Rightarrow> letter_cost_threshold" where
  "get_cost_threshold mailing_product postage =
     (if (mailing_product = ''MM'' \<or> mailing_product = ''MM ECONOMY'') \<and> postage = ''2ND''
      then Sorted else Unsorted)"

record letter_update =
  lu_page_count :: int
  lu_status :: string
  lu_cost_threshold :: letter_cost_threshold
  lu_despatch_date :: date

definition next_property :: "string \<Rightarrow> letter_callback_request \<Rightarrow> string result" where
  \<comment> \<open>\<open>next\<close> of a generator without default\<close>
  "next_property k q =
     (case map_of (lq_despatch_properties q) k of
        None \<Rightarrow> Inl (Py StopIteration) | Some v \<Rightarrow> Inr v)"

definition extract_properties_from_request ::
  "env \<Rightarrow> letter_callback_request \<Rightarrow> letter_update result" where
  "extract_properties_from_request env q =
     res_bind (next_property ''totalSheets'' q) (\<lambda>sheets.
     case parse_int sheets of
       None \<Rightarrow> Inl (Py (ValueError ''invalid literal for int() with base 10''))
     | Some page_count \<Rightarrow>
         res_bind (next_property ''mailingProduct'' q) (\<lambda>mailing_product.
         res_bind (next_property ''postageClass'' q) (\<lambda>postage.
         case parse_transition_date (lq_transition_date q) of
           None \<Rightarrow> Inl (Py (ValueError ''time data does not match format''))
         | Some t \<Rightarrow>
             Inr \<lparr>lu_page_count = page_count, lu_status = lq_job_status q,
                  lu_cost_threshold = get_cost_threshold mailing_product postage,
                  lu_despatch_date = date_of (lib_utc_to_bst env t)\<rparr>)))"

definition process_letter_callback ::
  "env \<Rightarrow> (string \<Rightarrow> string option) \<Rightarrow> (string \<Rightarrow> string \<Rightarrow> bool) \<Rightarrow> string
     \<Rightarrow> letter_callback_request \<Rightarrow> unit op" where
  "process_letter_callback env decode format_ok token q w =
     (case res_bind (parse_token decode token) (\<lambda>i.
            res_bind (if dvla_letter_callback_schema format_ok q then Inr ()
                      else Inl (JsonSchemaValidationError [])) (\<lambda>_.
            res_bind (check_token_matches_payload i (lq_job_id q)) (\<lambda>_.
            res_bind (extract_properties_from_request env q) (\<lambda>u.
            case parse_uuid i of
              None \<Rightarrow> Inl (Py (ValueError ''badly formed hexadecimal UUID string''))
            | Some n \<Rightarrow> Inr (TProcessLetterCallback n (lu_page_count u) (lu_status u)
                          (lu_cost_threshold u) (lu_despatch_date u)))))) of
        Inl e \<Rightarrow> (Inl e, w)
      | Inr t \<Rightarrow> (Inr (), enqueue LETTER_CALLBACKS t w))"

definition save_row_status :: "notification_or_history \<Rightarrow> nstatus \<Rightarrow> world \<Rightarrow> notification_or_history \<times> world" where
  \<comment> \<open>\<open>notification.status = ...\<close> and \<open>dao_update_notification\<close>, for either table\<close>
  "save_row_status row status w =
     (case row of
        Inl n \<Rightarrow> (let (n', w') = dao_update_notification (n\<lparr>n_status := status\<rparr>) w in (Inl n', w'))
      | Inr h \<Rightarrow>
          (let h' = h\<lparr>h_status := status, h_updated_at := Some (w_now w)\<rparr>
           in (Inr h', w\<lparr>w_history := save_row h_id h' (w_history w)\<rparr>)))"

definition determine_new_status :: "string \<Rightarrow> nstatus result" where
  "determine_new_status dvla_status =
     (case map_of DVLA_TO_NOTIFICATION_STATUS_MAP dvla_status of
        None \<Rightarrow> Inl (Py (KeyError dvla_status)) | Some s \<Rightarrow> Inr s)"

definition process_letter_callback_data ::
  "uuid \<Rightarrow> int \<Rightarrow> string \<Rightarrow> letter_cost_threshold \<Rightarrow> date \<Rightarrow> unit op" where
  \<comment> \<open>\<open>validate_billable_units\<close> only logs the number of pages\<close>
  "process_letter_callback_data i page_count dvla_status cost_threshold despatch_date w =
     (case dao_get_notification_or_history_by_id i w of
        None \<Rightarrow> (Inl (Py AttributeError), w)
      | Some row \<Rightarrow>
          (case determine_new_status dvla_status of
             Inl e \<Rightarrow> (Inl e, w)
           | Inr new_status \<Rightarrow>
               if row_status row \<in> set (map snd DVLA_TO_NOTIFICATION_STATUS_MAP) then (Inr (), w)
               else
                 (let (row', w1) = save_row_status row new_status w
                  in if new_status = TechnicalFailure
                     then (Inl (technical_failure_exn
                             (''Letter status received as REJECTED for notification id: ''
                              @ nat_str (row_id row))), w1)
                     else check_and_queue_callback_task row'
                            (dao_record_letter_despatched_on_by_id i despatch_date cost_threshold w1))))"

section \<open>Lemmas\<close>

text \<open>What every task for a provider's receipt does, from the contract of its parser alone.\<close>

context response_parser
begin

lemma task_known:
  assumes "parse_uuid r = Some i" "parse st code = Inr (s, d)"
  shows "client_response_task (Some parse) process st (Some r) name code w = process s i code w"
  using assms by (simp add: client_response_task_def)

lemma task_unknown:
  assumes "parse_uuid r = Some i" "st \<notin> set statuses"
    and "process TechnicalFailure i None w = (Inr (), w')"
  shows "client_response_task (Some parse) process st (Some r) name code w =
    (Inl (Client (ClientException (name @ '' callback failed: status '' @ st @ '' not found.''))), w')"
  using assms parse_unknown [of st code] by (simp add: client_response_task_def)

lemma task_quiet:
  \<comment> \<open>a task whose processing changes nothing changes nothing\<close>
  assumes "parse_uuid r = Some i" "\<And>s c. process s i c w = (Inr (), w)"
  shows "client_response_task (Some parse) process st (Some r) name code w =
    (if st \<in> set statuses then Inr ()
     else Inl (Client (ClientException (name @ '' callback failed: status '' @ st @ '' not found.''))), w)"
proof (cases "st \<in> set statuses")
  case True
  then obtain s d where "parse st code = Inr (s, d)" using parse_known by blast
  then show ?thesis using True assms by (simp add: task_known)
next
  case False
  then show ?thesis using assms by (simp add: task_unknown)
qed

end

definition known_sms_statuses :: "string \<Rightarrow> string list" where
  \<comment> \<open>the statuses in the tables of the three text message providers\<close>
  "known_sms_statuses name =
     (if name = ''MMG'' then map fst mmg_response_map
      else if name = ''Firetext'' then map fst firetext_responses
      else if name = ''Spryng'' then map fst spryng_response_map else [])"

lemma update_by_id_final:
  assumes "find_row n_id i (w_notifications w) = Some n" "n_status n \<notin> set updatable_statuses"
  shows "update_notification_status_by_id env i st sb code w = (Inr None, w)"
  using assms by (simp add: update_notification_status_by_id_def)

definition receipt_row ::
  "string option \<Rightarrow> nstatus \<Rightarrow> string option \<Rightarrow> notification \<Rightarrow> time \<Rightarrow> notification" where
  \<comment> \<open>reference: the row after a receipt\<close>
  "receipt_row sent_by s code n now =
     (let n1 = (if n_sent_by n \<in> {None, Some []} \<and> sent_by \<notin> {None, Some []}
                then n\<lparr>n_sent_by := sent_by\<rparr> else n)
      in n1\<lparr>n_status := decide_permanent_temporary_failure s n1 code,
            n_updated_at := Some now\<rparr>)"

lemma receipt_row_fields [simp]:
  "n_id (receipt_row sb s code n now) = n_id n"
  "n_billable_units (receipt_row sb s code n now) = n_billable_units n"
  "n_service_id (receipt_row sb s code n now) = n_service_id n"
  by (simp_all add: receipt_row_def Let_def)

lemma update_by_id_national:
  assumes "find_row n_id i (w_notifications w) = Some n" "n_status n \<in> set updatable_statuses"
    and "\<not> (n_type n = Sms \<and> n_international n)"
  shows "update_notification_status_by_id env i st sb code w =
    (Inr (Some (receipt_row sb st code n (w_now w))),
     save_notification (receipt_row sb st code n (w_now w)) w)"
  unfolding update_notification_status_by_id_def autocommit_def assms(1) option.case
  by (simp only: assms(2-3) if_False not_True_eq_False if_True sum.case bool.case Let_def
      update_status_row_def dao_update_notification_def prod.case receipt_row_def)

definition queue_status_callback :: "notification \<Rightarrow> world \<Rightarrow> world" where
  \<comment> \<open>reference: what queueing the callback of a live notification amounts to\<close>
  "queue_status_callback n w =
     (case get_delivery_status_callback_api_for_service (n_service_id n) w of
        None \<Rightarrow> w
      | Some a \<Rightarrow>
          (case create_delivery_status_callback_data (Inl n) a of
             Inl e \<Rightarrow> w
           | Inr d \<Rightarrow> enqueue CALLBACKS (TSendDeliveryStatus d (n_id n)) w))"

lemma check_and_queue_live:
  "check_and_queue_callback_task (Inl n) w = (Inr (), queue_status_callback n w)"
  by (simp add: check_and_queue_callback_task_def queue_status_callback_def row_id_def
      row_service_id_def create_delivery_status_callback_data_def split: option.split)

lemma queue_status_callback_frame [simp]:
  "w_notifications (queue_status_callback n w) = w_notifications w"
  "w_history (queue_status_callback n w) = w_history w"
  "w_callback_apis (queue_status_callback n w) = w_callback_apis w"
  by (simp_all add: queue_status_callback_def enqueue_def split: option.split sum.split)

definition record_receipt ::
  "string option \<Rightarrow> nstatus \<Rightarrow> string option \<Rightarrow> notification \<Rightarrow> world \<Rightarrow> world" where
  \<comment> \<open>reference: a receipt of a live notification is recorded, then the service is told\<close>
  "record_receipt sent_by s code n w =
     (if s = Pending then id else queue_status_callback (receipt_row sent_by s code n (w_now w)))
       (save_notification (receipt_row sent_by s code n (w_now w)) w)"

lemma process_for_status_live:
  assumes "find_row n_id i (w_notifications w) = Some n" "n_status n \<in> set updatable_statuses"
    and "\<not> (n_type n = Sms \<and> n_international n)" "n_billable_units n \<noteq> 0"
  shows "process_for_status env fragments name s i code w =
    (Inr (), record_receipt (Some (py_lower name)) s code n w)"
  unfolding process_for_status_def update_by_id_national [OF assms(1-3)]
  using assms(4)
  by (simp add: fill_billable_units_def record_receipt_def check_and_queue_live)

lemma process_for_status_final:
  assumes "find_row n_id i (w_notifications w) = Some n" "n_status n \<notin> set updatable_statuses"
  shows "process_for_status env fragments name s i code w = (Inr (), w)"
  by (simp add: process_for_status_def update_by_id_final [OF assms])

lemma process_messagebox_live:
  assumes "find_row n_id i (w_notifications w) = Some n" "n_status n \<in> set updatable_statuses"
    and "\<not> (n_type n = Sms \<and> n_international n)"
  shows "process_messagebox_for_status env name s i code w =
    (Inr (), record_receipt (Some (py_lower name)) s code n w)"
  unfolding process_messagebox_for_status_def update_by_id_national [OF assms(1-3)]
  by (simp add: record_receipt_def check_and_queue_live)

lemma process_messagebox_final:
  assumes "find_row n_id i (w_notifications w) = Some n" "n_status n \<notin> set updatable_statuses"
  shows "process_messagebox_for_status env name s i code w = (Inr (), w)"
  by (simp add: process_messagebox_for_status_def update_by_id_final [OF assms])

lemma sms_mapper_cases:
  assumes "map_of sms_response_mapper name = Some parse"
  obtains "name = ''MMG''" "parse = get_mmg_responses"
  | "name = ''Firetext''" "parse = get_firetext_responses"
  | "name = ''Spryng''" "parse = get_spryng_responses"
  using assms by (auto simp: sms_response_mapper_def split: if_splits)

lemma sms_mapper_parser:
  assumes "map_of sms_response_mapper name = Some parse"
  shows "response_parser parse (known_sms_statuses name)"
  using assms
proof (cases rule: sms_mapper_cases)
  case 1 then show ?thesis
    using mmg.response_parser_axioms by (simp add: known_sms_statuses_def)
next
  case 2 then show ?thesis
    using firetext.response_parser_axioms by (simp add: known_sms_statuses_def)
next
  case 3 then show ?thesis
    using spryng.response_parser_axioms by (simp add: known_sms_statuses_def)
qed

text \<open>A query that finds one row, and the update of the rows the same query finds.\<close>

lemma query_one_filter: "query_one a b p rows = Inr r \<longleftrightarrow> filter p rows = [r]"
  by (auto simp: query_one_def split: list.splits)

lemma update_rows_unique:
  assumes "distinct_rows key rows" "filter p rows = [r]" "\<And>x. key (f x) = key x"
  shows "update_rows p f rows = save_row key (f r) rows"
  using assms
proof (induction rows)
  case Nil
  then show ?case by simp
next
  case (Cons x rows)
  show ?case
  proof (cases "p x")
    case True
    then have "r = x" "filter p rows = []" using Cons.prems(2) by simp_all
    then show ?thesis
      using True Cons.prems(3) by (auto simp: update_rows_def filter_empty_conv intro: map_idI)
  next
    case False
    then have hit: "filter p rows = [r]" using Cons.prems(2) by simp
    then have "r \<in> set (filter p rows)" by simp
    then have "key x \<noteq> key r" using Cons.prems(1) by (auto simp: distinct_rows_def)
    moreover have "update_rows p f rows = save_row key (f r) rows"
      using Cons hit by (simp add: distinct_rows_def)
    ultimately show ?thesis using False Cons.prems(3) by (simp add: update_rows_def)
  qed
qed

lemma update_rows_none: "filter p rows = [] \<Longrightarrow> update_rows p f rows = rows"
  by (auto simp: update_rows_def filter_empty_conv intro: map_idI)

lemma filter_update_rows:
  "(\<And>x. p (f x) = p x) \<Longrightarrow> filter p (update_rows p f rows) = map f (filter p rows)"
  by (induction rows) (auto simp: update_rows_def)

lemma reference_live:
  "dao_get_notification_or_history_by_reference r w = Inr (Inl n) \<longleftrightarrow>
     filter (\<lambda>n. n_reference n = Some r) (w_notifications w) = [n]"
  by (auto simp: dao_get_notification_or_history_by_reference_def
      dao_get_notification_by_reference_def query_one_def
      split: sum.splits exn.splits db_exn.splits list.splits)

lemma reference_archived:
  "dao_get_notification_or_history_by_reference r w = Inr (Inr h) \<longleftrightarrow>
     filter (\<lambda>n. n_reference n = Some r) (w_notifications w) = []
     \<and> filter (\<lambda>h. h_reference h = Some r) (w_history w) = [h]"
  by (auto simp: dao_get_notification_or_history_by_reference_def
      dao_get_notification_by_reference_def query_one_def
      split: sum.splits exn.splits db_exn.splits list.splits)

lemma in_one_reference:
  "(\<lambda>n. case n_reference n of None \<Rightarrow> False | Some x \<Rightarrow> x \<in> set [r]) = (\<lambda>n. n_reference n = Some r)"
  "(\<lambda>h. case h_reference h of None \<Rightarrow> False | Some x \<Rightarrow> x \<in> set [r]) = (\<lambda>h. h_reference h = Some r)"
  by (auto simp: fun_eq_iff split: option.split)

lemma ses_set_status_live:
  assumes "distinct_rows n_id (w_notifications w)"
    and "dao_get_notification_or_history_by_reference r w = Inr (Inl n)"
  shows "ses_set_status r s w = save_notification (n\<lparr>n_status := s, n_updated_at := Some (w_now w)\<rparr>) w"
  unfolding ses_set_status_def dao_update_notifications_by_reference_def in_one_reference Let_def
  using assms(2) update_rows_unique [OF assms(1),
      of "\<lambda>n. n_reference n = Some r" n "\<lambda>n. n\<lparr>n_status := s, n_updated_at := Some (w_now w)\<rparr>"]
  by (simp add: reference_live save_notification_def)

lemma ses_set_status_archived:
  assumes "dao_get_notification_or_history_by_reference r w = Inr (Inr h)"
  shows "ses_set_status r s w = w\<lparr>w_history := update_rows (\<lambda>h. h_reference h = Some r)
     (\<lambda>h. h\<lparr>h_status := s, h_updated_at := Some (w_now w)\<rparr>) (w_history w)\<rparr>"
  unfolding ses_set_status_def dao_update_notifications_by_reference_def in_one_reference Let_def
  using assms by (simp add: reference_archived update_rows_none)

section \<open>Properties\<close>

text \<open>
  C25: the whole effect of a receipt for a text message that still waits for one (sent within
  the country, its fragments counted). A status the provider's table knows is recorded, an
  unknown one is recorded as a technical failure and raised; in both cases the service's callback
  is queued, except for a pending report; nothing else changes.
\<close>

theorem sms_receipt_effect:
  assumes "map_of sms_response_mapper client_name = Some parse" "parse_uuid r = Some i"
    and "find_row n_id i (w_notifications w) = Some n" "n_status n \<in> set updatable_statuses"
    and "\<not> n_international n" "n_billable_units n \<noteq> 0"
  shows "process_sms_client_response env fragments st (Some r) client_name code w =
    (case parse st code of
       Inr (s, d) \<Rightarrow> (Inr (), record_receipt (Some (py_lower client_name)) s code n w)
     | Inl _ \<Rightarrow>
         (Inl (Client (ClientException (client_name @ '' callback failed: status '' @ st
                 @ '' not found.''))),
          record_receipt (Some (py_lower client_name)) TechnicalFailure None n w))"
proof (cases "st \<in> set (known_sms_statuses client_name)")
  case True
  then obtain s d where "parse st code = Inr (s, d)"
    using response_parser.parse_known [OF sms_mapper_parser [OF assms(1)]] by blast
  then show ?thesis
    using assms response_parser.task_known [OF sms_mapper_parser [OF assms(1)] assms(2)]
    by (simp add: process_sms_client_response_def process_for_status_live)
next
  case False
  then have "parse st code = Inl (Py (KeyError st))"
    using response_parser.parse_unknown [OF sms_mapper_parser [OF assms(1)]] by blast
  then show ?thesis
    using assms False response_parser.task_unknown [OF sms_mapper_parser [OF assms(1)] assms(2)]
    by (simp add: process_sms_client_response_def process_for_status_live)
qed

theorem sms_receipt_effect_witness:
  "let w = sample_world\<lparr>w_notifications := [sample_notification\<lparr>n_status := Sending\<rparr>]\<rparr>
   in process_sms_client_response sample_env (\<lambda>t v p b. 1) ''nonsense''
        (Some ''00000000-0000-0000-0000-000000000001'') ''MMG'' None w =
      (Inl (Client (ClientException ''MMG callback failed: status nonsense not found.'')),
       save_notification
         (receipt_row (Some ''mmg'') TechnicalFailure None (sample_notification\<lparr>n_status := Sending\<rparr>) 0) w)"
proof -
  let ?n = "sample_notification\<lparr>n_status := Sending\<rparr>"
  let ?w = "sample_world\<lparr>w_notifications := [?n]\<rparr>"
  have id: "parse_uuid ''00000000-0000-0000-0000-000000000001'' = Some 1" by code_simp
  have parser: "map_of sms_response_mapper ''MMG'' = Some get_mmg_responses"
    by (simp add: sms_response_mapper_def)
  have unknown: "get_mmg_responses ''nonsense'' None = Inl (Py (KeyError ''nonsense''))"
    by code_simp
  have name: "py_lower ''MMG'' = ''mmg''" by code_simp
  have quiet: "record_receipt (Some ''mmg'') TechnicalFailure None ?n ?w =
      save_notification (receipt_row (Some ''mmg'') TechnicalFailure None ?n 0) ?w"
    by (simp add: record_receipt_def queue_status_callback_def save_notification_def
        get_delivery_status_callback_api_for_service_def query_first_def
        get_service_callback_api_by_callback_type_def sample_world_def)
  show ?thesis
    using sms_receipt_effect [OF parser id, of ?w ?n sample_env "\<lambda>t v p b. 1" "''nonsense''" None]
    by (simp add: row_simps updatable_statuses_def unknown name quiet Let_def)
qed

text \<open>
  Receipts for a notification that has its final status (or is not in an updatable one)
  change nothing at all, whatever provider, status and code they carry and however often they
  are delivered: no row, no callback to the service.
\<close>

theorem receipts_of_final_ignored:
  assumes "parse_uuid r = Some i" "find_row n_id i (w_notifications w) = Some n"
    and "n_status n \<notin> set updatable_statuses"
  shows "snd (process_sms_client_response env fragments st (Some r) client_name code w) = w
    \<and> snd (process_messagebox_client_response env st (Some r) client_name code w) = w"
proof
  show "snd (process_sms_client_response env fragments st (Some r) client_name code w) = w"
  proof (cases "map_of sms_response_mapper client_name")
    case None
    then show ?thesis using assms(1)
      by (simp add: process_sms_client_response_def client_response_task_def)
  next
    case (Some parse)
    show ?thesis
      unfolding process_sms_client_response_def Some
      using response_parser.task_quiet [OF sms_mapper_parser [OF Some] assms(1),
          of "process_for_status env fragments client_name" w st client_name code]
        process_for_status_final [OF assms(2,3)] by simp
  qed
next
  show "snd (process_messagebox_client_response env st (Some r) client_name code w) = w"
    unfolding process_messagebox_client_response_def
    using messagebox.task_quiet [OF assms(1),
        of "process_messagebox_for_status env client_name" w st client_name code]
      process_messagebox_final [OF assms(2,3)] by simp
qed

theorem receipts_of_final_ignored_witness:
  "let w = sample_world\<lparr>w_notifications := [sample_notification]\<rparr>
   in snd (process_sms_client_response sample_env (\<lambda>t v p b. 1) ''5''
        (Some ''00000000-0000-0000-0000-000000000001'') ''MMG'' None w) = w"
proof -
  have "parse_uuid ''00000000-0000-0000-0000-000000000001'' = Some 1" by code_simp
  from receipts_of_final_ignored [OF this, of "sample_world\<lparr>w_notifications := [sample_notification]\<rparr>"
      sample_notification]
  show ?thesis by (simp add: row_simps updatable_statuses_def Let_def)
qed

text \<open>
  A callback to a service is tried again exactly when the request itself failed or the
  service answered 429 or 5xx, five times at most; in every other case, after the last retry
  too, the task ends without raising.
\<close>

theorem service_callback_retries:
  assumes "celery_retry env"
  shows "if retries < 5 \<and> (case out of RequestException \<Rightarrow> True
           | HttpResponse code body \<Rightarrow> code = 429 \<or> (500 \<le> code \<and> code < 600))
    then \<exists>m. send_data_to_service_callback_api env retries out = Inl (Task (CeleryRetry m))
    else send_data_to_service_callback_api env retries out = Inr ()"
proof -
  have retry: "\<exists>m. lib_retry env retries 5 None = Task (CeleryRetry m)" if "retries < 5"
    using assms that unfolding celery_retry_def by metis
  have last: "lib_retry env retries 5 None = Task MaxRetriesExceededError" if "\<not> retries < 5"
    using assms that unfolding celery_retry_def by (metis option.case(1))
  show ?thesis
    using retry last
    by (cases out; cases "retries < 5")
      (auto simp: send_data_to_service_callback_api_def raise_for_status_def)
qed

theorem service_callback_retries_witness:
  "\<exists>m. send_data_to_service_callback_api sample_env 0 (HttpResponse 503 NotJson)
         = Inl (Task (CeleryRetry m))"
  using service_callback_retries [OF sample_celery_retry, of 0 "HttpResponse 503 NotJson"] by simp

text \<open>
  The whole effect of a delivery or bounce message for an email that is sending or pending:
  the row with the message's reference gets the status of the message's type and the time, the
  service's callback is queued with the new status, and nothing else changes. For an email in
  any other status the message changes nothing.
\<close>

theorem ses_receipt_effect:
  assumes "distinct_rows n_id (w_notifications w)"
    and "sm_type m = Some t" "t \<noteq> ''Complaint''"
    and "(if t = ''Bounce'' then determine_notification_bounce_type m else Inr t) = Inr nt"
    and "get_aws_responses nt = Inr resp"
    and "sm_mail m = Some mail" "mail_message_id mail = Some r"
    and "dao_get_notification_or_history_by_reference r w = Inr (Inl n)"
  shows "process_ses_results env retries parse_iso (Some m) w =
    (if n_status n \<in> {Sending, Pending} then
       (let n' = n\<lparr>n_status := ses_notification_status resp, n_updated_at := Some (w_now w)\<rparr>
        in (Inr True, queue_status_callback n' (save_notification n' w)))
     else (Inr False, w))"
proof -
  have head: "res_bind (dict_item ''Message'' (Some m)) (\<lambda>m.
        res_bind (dict_item ''notificationType'' (sm_type m)) (\<lambda>t. Inr (m, t))) = Inr (m, t)"
    using assms(2) by (simp add: dict_item_def)
  have decided: "res_bind (if t = ''Bounce'' then determine_notification_bounce_type m else Inr t)
      (\<lambda>nt. res_bind (get_aws_responses nt) (\<lambda>r. res_bind (dict_item ''mail'' (sm_mail m)) (\<lambda>mail.
        res_bind (dict_item ''messageId'' (mail_message_id mail)) (\<lambda>ref.
          Inr (ses_notification_status r, mail, ref)))))
      = Inr (ses_notification_status resp, mail, r)"
    using assms(5-7) unfolding assms(4) by (simp add: dict_item_def)
  show ?thesis
    using assms(3,8) ses_set_status_live [OF assms(1,8)]
    unfolding process_ses_results_def ses_results_body_def head sum.case prod.case decided
    by (simp add: row_status_def reread_def row_simps Let_def check_and_queue_live)
qed

theorem ses_receipt_effect_witness:
  "let w = sample_world\<lparr>w_notifications :=
         [sample_notification\<lparr>n_status := Sending, n_reference := Some ''ref''\<rparr>]\<rparr>;
       m = \<lparr>sm_type = Some ''Delivery'',
            sm_mail = Some \<lparr>mail_message_id = Some ''ref'', mail_destination = None,
                            mail_timestamp = None\<rparr>, sm_bounce = None, sm_complaint = None\<rparr>
   in fst (process_ses_results sample_env 0 (\<lambda>_. None) (Some m) w) = Inr True"
proof -
  let ?n = "sample_notification\<lparr>n_status := Sending, n_reference := Some ''ref''\<rparr>"
  let ?w = "sample_world\<lparr>w_notifications := [?n]\<rparr>"
  let ?m = "\<lparr>sm_type = Some ''Delivery'',
             sm_mail = Some \<lparr>mail_message_id = Some ''ref'', mail_destination = None,
                             mail_timestamp = None\<rparr>, sm_bounce = None, sm_complaint = None\<rparr>"
  have a: "distinct_rows n_id (w_notifications ?w)" by (simp add: distinct_rows_def)
  have b: "dao_get_notification_or_history_by_reference ''ref'' ?w = Inr (Inl ?n)"
    by (simp add: reference_live)
  obtain resp where c: "get_aws_responses ''Delivery'' = Inr resp"
    by (simp add: get_aws_responses_def ses_response_map_def)
  show ?thesis
    using ses_receipt_effect [OF a, of ?m "''Delivery''" "''Delivery''" resp _ "''ref''" ?n
        sample_env 0 "\<lambda>_. None"] b c by (simp add: Let_def)
qed

text \<open>
  The callback for an archived email is lost. When the row is in the history table, the
  first delivery of the message records the status, then fails to build the callback (a history
  row has no recipient) and is tried again; the second finds the status already set and ends
  well. The service never hears of the delivery.
\<close>

theorem archived_receipt_loses_callback:
  assumes "celery_retry env" "retries < 5"
    and "sm_type m = Some ''Delivery''" "sm_mail m = Some mail" "mail_message_id mail = Some r"
    and "dao_get_notification_or_history_by_reference r w = Inr (Inr h)"
    and "h_status h \<in> {Sending, Pending}"
    and "get_delivery_status_callback_api_for_service (h_service_id h) w = Some a"
    and "process_ses_results env retries parse_iso (Some m) w = (r1, w1)"
    and "distinct_rows h_id (w_history w)"
  shows "(\<exists>x. r1 = Inl (Task (CeleryRetry x))) \<and> w_tasks w1 = w_tasks w
    \<and> process_ses_results env (Suc retries) parse_iso (Some m) w1 = (Inr False, w1)"
proof -
  define h' where "h' = h\<lparr>h_status := Delivered, h_updated_at := Some (w_now w)\<rparr>"
  define v where "v = w\<lparr>w_history := update_rows (\<lambda>h. h_reference h = Some r)
     (\<lambda>h. h\<lparr>h_status := Delivered, h_updated_at := Some (w_now w)\<rparr>) (w_history w)\<rparr>"
  obtain resp where resp: "get_aws_responses ''Delivery'' = Inr resp"
      "ses_notification_status resp = Delivered"
    by (simp add: get_aws_responses_def ses_response_map_def)
  have set: "ses_set_status r Delivered w = v"
    unfolding v_def by (rule ses_set_status_archived [OF assms(6)])
  have api: "get_delivery_status_callback_api_for_service (h_service_id h) v = Some a"
    using assms(8) by (simp add: get_delivery_status_callback_api_for_service_def
        get_service_callback_api_by_callback_type_def v_def)
  have service: "row_service_id (reread (Inr h) v) = h_service_id h \<and> (\<exists>x. reread (Inr h) v = Inr x)"
  proof -
    have hit: "filter (\<lambda>h. h_reference h = Some r) (w_history w) = [h]"
      using assms(6) by (simp add: reference_archived)
    then have "h \<in> set (filter (\<lambda>h. h_reference h = Some r) (w_history w))" by simp
    then have "find_row h_id (h_id h) (w_history w) = Some h" "h_reference h = Some r"
      using find_row_eqI [OF assms(10)] by auto
    then show ?thesis
      by (simp add: reread_def v_def find_update_rows row_service_id_def)
  qed
  have fails: "check_and_queue_callback_task (reread (Inr h) v) v = (Inl (Py AttributeError), v)"
    using service api
    by (auto simp: check_and_queue_callback_task_def create_delivery_status_callback_data_def)
  obtain x where x: "lib_retry env retries 5 None = Task (CeleryRetry x)"
    using assms(1,2) unfolding celery_retry_def by metis
  have body: "ses_results_body env retries parse_iso (Some m) w = (Inl (Py AttributeError), v)"
    using assms(3-7) resp set fails
    by (simp add: ses_results_body_def dict_item_def row_status_def Let_def)
  then have first: "r1 = Inl (Task (CeleryRetry x)) \<and> w1 = v"
    using assms(9) x by (simp add: process_ses_results_def)
  have again: "dao_get_notification_or_history_by_reference r v = Inr (Inr h')"
    using assms(6) by (simp add: reference_archived v_def filter_update_rows h'_def)
  have "process_ses_results env (Suc retries) parse_iso (Some m) v = (Inr False, v)"
    using assms(3-5) resp again
    by (simp add: process_ses_results_def ses_results_body_def dict_item_def row_status_def
        Let_def h'_def)
  then show ?thesis using first by (simp add: v_def)
qed

theorem archived_receipt_loses_callback_witness:
  "let w = sample_world\<lparr>w_history := [history_from_notification
             (sample_notification\<lparr>n_status := Sending, n_reference := Some ''ref''\<rparr>)],
         w_callback_apis := [\<lparr>cb_id = 1, cb_service_id = 10, cb_url = ''https://example.nl'',
             cb_callback_type = DeliveryStatusCallback, cb_bearer_token = ''token'',
             cb_created_at = 0, cb_updated_at = None, cb_updated_by_id = 2\<rparr>]\<rparr>;
       m = \<lparr>sm_type = Some ''Delivery'',
            sm_mail = Some \<lparr>mail_message_id = Some ''ref'', mail_destination = None,
                            mail_timestamp = None\<rparr>, sm_bounce = None, sm_complaint = None\<rparr>
   in w_tasks (snd (process_ses_results sample_env 0 (\<lambda>_. None) (Some m) w)) = []"
proof -
  let ?h = "history_from_notification
             (sample_notification\<lparr>n_status := Sending, n_reference := Some ''ref''\<rparr>)"
  let ?a = "\<lparr>cb_id = 1, cb_service_id = 10, cb_url = ''https://example.nl'',
             cb_callback_type = DeliveryStatusCallback, cb_bearer_token = ''token'',
             cb_created_at = 0, cb_updated_at = None, cb_updated_by_id = 2\<rparr>"
  let ?w = "sample_world\<lparr>w_history := [?h], w_callback_apis := [?a]\<rparr>"
  let ?mail = "\<lparr>mail_message_id = Some ''ref'', mail_destination = None, mail_timestamp = None\<rparr>"
  let ?m = "\<lparr>sm_type = Some ''Delivery'', sm_mail = Some ?mail, sm_bounce = None,
             sm_complaint = None\<rparr>"
  obtain r1 w1 where run: "process_ses_results sample_env 0 (\<lambda>_. None) (Some ?m) ?w = (r1, w1)"
    by fastforce
  have row: "dao_get_notification_or_history_by_reference ''ref'' ?w = Inr (Inr ?h)"
    by (simp add: reference_archived sample_world_def history_from_notification_def)
  have api: "get_delivery_status_callback_api_for_service (h_service_id ?h) ?w = Some ?a"
    by (simp add: get_delivery_status_callback_api_for_service_def query_first_def
        get_service_callback_api_by_callback_type_def history_from_notification_def)
  have "w_tasks w1 = w_tasks ?w"
    using archived_receipt_loses_callback [OF sample_celery_retry _ _ _ _ row _ api run]
    by (simp add: distinct_rows_def history_from_notification_def)
  then have "w_tasks w1 = []" by (simp add: sample_world_def)
  then show ?thesis by (simp only: Let_def run snd_conv)
qed

text \<open>
  The whole effect of DVLA's report on a letter in the notifications table. A report on a
  letter already delivered or failed is ignored; a despatch records the status, the date and the
  cost threshold and queues the service's callback; a rejection records the technical failure
  and raises.
\<close>

theorem letter_receipt_effect:
  assumes "find_row n_id i (w_notifications w) = Some n"
  shows "process_letter_callback_data i pages dvla_status cost despatched w =
    (if dvla_status \<notin> {''DESPATCHED'', ''REJECTED''} then (Inl (Py (KeyError dvla_status)), w)
     else if n_status n \<in> {Delivered, TechnicalFailure} then (Inr (), w)
     else if dvla_status = ''DESPATCHED'' then
       (let n' = n\<lparr>n_status := Delivered, n_updated_at := Some (w_now w)\<rparr>
        in (Inr (), queue_status_callback n'
              (dao_record_letter_despatched_on_by_id i despatched cost (save_notification n' w))))
     else
       (Inl (technical_failure_exn
          (''Letter status received as REJECTED for notification id: '' @ nat_str i)),
        save_notification (n\<lparr>n_status := TechnicalFailure, n_updated_at := Some (w_now w)\<rparr>) w))"
proof -
  have id: "n_id n = i" using assms by (auto dest: find_row_SomeD)
  have row: "dao_get_notification_or_history_by_id i w = Some (Inl n)"
    using assms by (simp add: dao_get_notification_or_history_by_id_def)
  note defs = process_letter_callback_data_def row determine_new_status_def row_status_def
    DVLA_TO_NOTIFICATION_STATUS_MAP_def DVLA_NOTIFICATION_DISPATCHED_def
    DVLA_NOTIFICATION_REJECTED_def save_row_status_def dao_update_notification_def
    check_and_queue_live row_id_def
  consider "dvla_status = ''DESPATCHED''" | "dvla_status = ''REJECTED''"
    | "dvla_status \<notin> {''DESPATCHED'', ''REJECTED''}" by blast
  then show ?thesis
    by cases (simp_all add: defs id Let_def)
qed

theorem letter_receipt_effect_witness:
  "let w = sample_world\<lparr>w_notifications := [sample_notification]\<rparr>
   in process_letter_callback_data 1 1 ''REJECTED'' Sorted 0 w = (Inr (), w)"
  using letter_receipt_effect
    [of 1 "sample_world\<lparr>w_notifications := [sample_notification]\<rparr>" sample_notification]
  by (simp add: row_simps Let_def)

text \<open>
  C29: a report on a letter is queued only with a valid token for the very notification the body
  names, and only when the body satisfies the schema; a request that is refused changes nothing.
\<close>

theorem letter_callback_authenticated:
  shows "case process_letter_callback env decode format_ok token q w of
      (Inl e, w') \<Rightarrow> w' = w
    | (Inr _, w') \<Rightarrow>
        decode token = Some (lq_job_id q) \<and> dvla_letter_callback_schema format_ok q
        \<and> (\<exists>i u. parse_uuid (lq_job_id q) = Some i \<and> extract_properties_from_request env q = Inr u
             \<and> w' = enqueue LETTER_CALLBACKS (TProcessLetterCallback i (lu_page_count u)
                      (lq_job_status q) (lu_cost_threshold u) (lu_despatch_date u)) w)"
proof -
  have status: "lu_status u = lq_job_status q" if "extract_properties_from_request env q = Inr u" for u
    using that by (auto simp: extract_properties_from_request_def res_bind_Inr_iff
        split: option.splits)
  show ?thesis
    using status
    by (auto simp: process_letter_callback_def parse_token_def check_token_matches_payload_def
        res_bind_Inr_iff split: sum.splits option.splits if_splits prod.splits)
qed

definition no_sheets_request :: letter_callback_request where
  "no_sheets_request =
     \<lparr>lq_despatch_properties = [(''postageClass'', ''2ND''), (''mailingProduct'', ''MM''),
        (''productionRunDate'', ''2024-10-15 04:00:16.287'')],
      lq_job_id = ''00000000-0000-0000-0000-000000000001'', lq_job_status = ''DESPATCHED'',
      lq_transition_date = ''2024-10-15T04:00:16Z''\<rparr>"

text \<open>
  The schema does not make the three properties the code reads mandatory: a body with three
  other properties, signed for the right letter, passes validation and ends in a
  \<open>StopIteration\<close>.
\<close>

theorem valid_letter_callback_raises:
  "dvla_letter_callback_schema (\<lambda>_ _. True) no_sheets_request
   \<and> process_letter_callback env (\<lambda>_. Some (lq_job_id no_sheets_request)) (\<lambda>_ _. True) token
        no_sheets_request w = (Inl (Py StopIteration), w)"
proof -
  have schema: "dvla_letter_callback_schema (\<lambda>_ _. True) no_sheets_request"
    by (simp add: dvla_letter_callback_schema_def no_sheets_request_def despatch_property_ok_def
        DVLA_NOTIFICATION_DISPATCHED_def)
  have "extract_properties_from_request env no_sheets_request = Inl (Py StopIteration)"
    by (simp add: extract_properties_from_request_def next_property_def no_sheets_request_def)
  then show ?thesis
    using schema by (simp add: process_letter_callback_def parse_token_def
        check_token_matches_payload_def)
qed

end
