(* ===== verification/Providers.thy ===== *)
theory Providers
  imports World
begin

text \<open>
  \<^verbatim>\<open>app/dao/provider_details_dao.py\<close>: the providers of text messages and their priorities. After
  errors or slow deliveries ten points move from one provider to its alternative; undisturbed,
  the priorities go back to the resting points of the configuration ten points at a time. Every
  change bumps the version and writes a history row.
\<close>

section \<open>Operations\<close>

definition notify_user_id :: uuid where
  \<comment> \<open>\<open>NOTIFY_USER_ID\<close> of the configuration\<close>
  "notify_user_id = 0x6af522d0291545629d0b8af3a2e3ccf1"

definition get_provider_details_by_identifier :: "string \<Rightarrow> world \<Rightarrow> provider_details result" where
  "get_provider_details_by_identifier identifier w =
     query_one (Db NoResultFound) (Db MultipleResultsFound) (\<lambda>p. p_identifier p = identifier)
       (w_providers w)"

definition get_alternative_sms_provider :: "string \<Rightarrow> string result" where
  "get_alternative_sms_provider identifier =
     (if identifier = ''spryng'' then Inr ''firetext''
      else if identifier \<in> {''firetext'', ''mmg''} then Inr ''spryng''
      else Inl (Py (ValueError (''Unrecognised sms provider '' @ identifier))))"

definition dao_get_provider_versions :: "uuid \<Rightarrow> world \<Rightarrow> provider_details_history list" where
  "dao_get_provider_versions i w =
     take 100 (rev (sort_key ph_version (filter (\<lambda>h. ph_id h = i) (w_provider_history w))))"

definition update_provider_details_without_commit :: "provider_details \<Rightarrow> world \<Rightarrow> world" where
  "update_provider_details_without_commit p w =
     (let p' = p\<lparr>p_version := p_version p + 1, p_updated_at := Some (w_now w)\<rparr>
      in w\<lparr>w_providers := save_row p_id p' (w_providers w),
           w_provider_history := w_provider_history w @ [provider_history_from_original p']\<rparr>)"

definition dao_update_provider_details :: "provider_details \<Rightarrow> world \<Rightarrow> world" where
  "dao_update_provider_details = update_provider_details_without_commit"

definition adjust_provider_priority :: "provider_details \<Rightarrow> int \<Rightarrow> world \<Rightarrow> world" where
  "adjust_provider_priority p new_priority w =
     update_provider_details_without_commit
       (p\<lparr>p_priority := new_priority, p_created_by_id := Some notify_user_id\<rparr>) w"

definition is_sms_provider :: "provider_details \<Rightarrow> bool" where
  "is_sms_provider p \<longleftrightarrow> p_notification_type p = Sms \<and> p_active p"

definition get_sms_providers_for_update :: "time \<Rightarrow> world \<Rightarrow> provider_details list" where
  "get_sms_providers_for_update time_threshold w =
     (let q = filter is_sms_provider (w_providers w)
      in if list_ex (\<lambda>p. case p_updated_at p of None \<Rightarrow> False
                         | Some u \<Rightarrow> u > w_now w - time_threshold) q
         then [] else q)"

definition provider_dict :: "provider_details list \<Rightarrow> (string \<times> provider_details) list" where
  "provider_dict ps = fold (\<lambda>p d. dict_set (p_identifier p) p d) ps []"

definition dict_get :: "(string \<times> 'v) list \<Rightarrow> string \<Rightarrow> 'v result" where
  \<comment> \<open>\<open>d[k]\<close>\<close>
  "dict_get d k = (case map_of d k of None \<Rightarrow> Inl (Py (KeyError k)) | Some v \<Rightarrow> Inr v)"

definition dao_reduce_sms_provider_priority :: "string \<Rightarrow> time \<Rightarrow> unit op" where
  "dao_reduce_sms_provider_priority identifier time_threshold =
     autocommit (\<lambda>w.
       let providers_list = get_sms_providers_for_update time_threshold w;
           providers = provider_dict providers_list
       in if length providers_list < 2 then (Inr (), w)
          else
            (case res_bind (get_alternative_sms_provider identifier) (\<lambda>other.
                    res_bind (dict_get providers identifier) (\<lambda>reduced.
                      res_bind (dict_get providers other) (\<lambda>increased. Inr (reduced, increased)))) of
               Inl e \<Rightarrow> (Inl e, w)
             | Inr (reduced, increased) \<Rightarrow>
                 (Inr (),
                  adjust_provider_priority increased (min 100 (p_priority increased + 10))
                    (adjust_provider_priority reduced (max 0 (p_priority reduced - 10)) w))))"

definition towards :: "int \<Rightarrow> int \<Rightarrow> int" where
  \<comment> \<open>ten points from the current priority towards the target\<close>
  "towards target current =
     (if current = target then current
      else if current > target then max target (current - 10) else min target (current + 10))"

definition adjust_to_resting_point :: "env \<Rightarrow> provider_details \<Rightarrow> unit op" where
  \<comment> \<open>the body of the loop\<close>
  "adjust_to_resting_point env p w =
     (case dict_get (cfg_sms_resting_points env) (p_identifier p) of
        Inl e \<Rightarrow> (Inl e, w)
      | Inr target \<Rightarrow>
          (if p_priority p \<noteq> target
           then (Inr (), adjust_provider_priority p (towards target (p_priority p)) w)
           else (Inr (), w)))"

definition dao_adjust_provider_priority_back_to_resting_points :: "env \<Rightarrow> unit op" where
  "dao_adjust_provider_priority_back_to_resting_points env =
     autocommit (\<lambda>w. op_iter (adjust_to_resting_point env)
       (get_sms_providers_for_update (minutes 15) w) w)"

definition get_provider_details_by_notification_type ::
  "ntype \<Rightarrow> bool \<Rightarrow> world \<Rightarrow> provider_details list" where
  "get_provider_details_by_notification_type t supports_international w =
     sort_key p_priority (filter (\<lambda>p. p_notification_type p = t
       \<and> (supports_international \<longrightarrow> p_supports_international p)) (w_providers w))"

section \<open>Lemmas\<close>

lemma find_adjusted [row_simps]:
  "find_row p_id i (w_providers (adjust_provider_priority p v w)) =
     (if p_id p = i
      then Some (p\<lparr>p_priority := v, p_created_by_id := Some notify_user_id,
              p_version := p_version p + 1, p_updated_at := Some (w_now w)\<rparr>)
      else find_row p_id i (w_providers w))"
  by (simp add: adjust_provider_priority_def update_provider_details_without_commit_def Let_def
      row_simps)

lemma adjust_now [simp]: "w_now (adjust_provider_priority p v w) = w_now w"
  by (simp add: adjust_provider_priority_def update_provider_details_without_commit_def Let_def)

lemma towards_bounds:
  "min target current \<le> towards target current \<and> towards target current \<le> max target current"
  by (simp add: towards_def)

lemma towards_distance:
  "\<bar>towards target current - target\<bar> = max 0 (\<bar>current - target\<bar> - 10)"
  by (auto simp: towards_def max_def min_def)

lemma set_adjusted:
  "set (w_providers (adjust_provider_priority p v w)) \<subseteq>
     insert (p\<lparr>p_priority := v, p_created_by_id := Some notify_user_id,
              p_version := p_version p + 1, p_updated_at := Some (w_now w)\<rparr>) (set (w_providers w))"
  using set_save_row
  by (fastforce simp: adjust_provider_priority_def update_provider_details_without_commit_def Let_def)

lemma rollback_no_change: "w_providers w' = w_providers w \<Longrightarrow> w_provider_history w' = w_provider_history w \<Longrightarrow>
   w_providers (rollback_to w w') = w_providers w \<and> w_provider_history (rollback_to w w') = w_provider_history w"
  by (simp add: rollback_to_def)

lemma reduce_cases:
  obtains (kept) r where "dao_reduce_sms_provider_priority identifier threshold w = (r, w)"
  | (moved) reduced increased other where
      "get_alternative_sms_provider identifier = Inr other"
      "dict_get (provider_dict (get_sms_providers_for_update threshold w)) identifier = Inr reduced"
      "dict_get (provider_dict (get_sms_providers_for_update threshold w)) other = Inr increased"
      "dao_reduce_sms_provider_priority identifier threshold w =
        (Inr (), adjust_provider_priority increased (min 100 (p_priority increased + 10))
                   (adjust_provider_priority reduced (max 0 (p_priority reduced - 10)) w))"
proof -
  let ?d = "provider_dict (get_sms_providers_for_update threshold w)"
  let ?r = "res_bind (get_alternative_sms_provider identifier) (\<lambda>other.
     res_bind (dict_get ?d identifier) (\<lambda>reduced.
       res_bind (dict_get ?d other) (\<lambda>increased. Inr (reduced, increased))))"
  show ?thesis
  proof (cases "length (get_sms_providers_for_update threshold w) < 2")
    case True
    then show ?thesis
      using kept by (simp add: dao_reduce_sms_provider_priority_def autocommit_def Let_def)
  next
    case False
    show ?thesis
    proof (cases ?r)
      case (Inl e)
      then show ?thesis
        using False kept by (simp add: dao_reduce_sms_provider_priority_def autocommit_def Let_def)
    next
      case (Inr pair)
      then obtain other reduced increased where
        "get_alternative_sms_provider identifier = Inr other"
        "dict_get ?d identifier = Inr reduced" "dict_get ?d other = Inr increased"
        by (auto simp: res_bind_Inr_iff)
      then show ?thesis
        using False moved by (simp add: dao_reduce_sms_provider_priority_def autocommit_def Let_def)
    qed
  qed
qed

lemma provider_dict_values:
  "dict_get (provider_dict ps) k = Inr p \<Longrightarrow> p \<in> set ps \<and> p_identifier p = k"
proof -
  have "map_of (fold (\<lambda>p d. dict_set (p_identifier p) p d) ps d) k = Some p \<Longrightarrow>
      (p \<in> set ps \<and> p_identifier p = k) \<or> map_of d k = Some p" for d
    by (induction ps arbitrary: d) (fastforce split: if_splits)+
  then show "dict_get (provider_dict ps) k = Inr p \<Longrightarrow> p \<in> set ps \<and> p_identifier p = k"
    by (fastforce simp: dict_get_def provider_dict_def split: option.splits)
qed

lemma provider_dict_keys:
  "(\<exists>p. dict_get (provider_dict ps) k = Inr p) \<longleftrightarrow> k \<in> p_identifier ` set ps"
proof -
  have "map_of (fold (\<lambda>p d. dict_set (p_identifier p) p d) ps d) k \<noteq> None \<longleftrightarrow>
      k \<in> p_identifier ` set ps \<or> map_of d k \<noteq> None" for d
    by (induction ps arbitrary: d) auto
  from this [of "[]"] show ?thesis
    by (auto simp: dict_get_def provider_dict_def split: option.splits)
qed

lemma for_update_subset:
  "set (get_sms_providers_for_update threshold w) \<subseteq> {p \<in> set (w_providers w). is_sms_provider p}"
  by (auto simp: get_sms_providers_for_update_def Let_def)

text \<open>
  What every adjustment within a bound keeps, both operations keep: the shape of the invariants
  below.
\<close>

lemma reduce_keeps:
  assumes "I w"
    and "\<And>p v u. I u \<Longrightarrow> p \<in> set (w_providers w) \<Longrightarrow> v = max 0 (p_priority p - 10) \<or> v = min 100 (p_priority p + 10)
      \<Longrightarrow> I (adjust_provider_priority p v u)"
  shows "I (snd (dao_reduce_sms_provider_priority identifier threshold w))"
proof (cases rule: reduce_cases [of "identifier" "threshold" "w"])
  case kept
  then show ?thesis using assms(1) by simp
next
  case (moved reduced increased other)
  have "reduced \<in> set (w_providers w)" "increased \<in> set (w_providers w)"
    using provider_dict_values [OF moved(2)] provider_dict_values [OF moved(3)]
      for_update_subset [of threshold w] by auto
  then show ?thesis using moved(4) assms by simp
qed

lemma resting_keeps:
  assumes "I w"
    and "\<And>p u. I u \<Longrightarrow> p \<in> set (w_providers w) \<Longrightarrow> I (snd (adjust_to_resting_point env p u))"
    and "\<And>u u'. I u \<Longrightarrow> I (rollback_to u u')"
  shows "I (snd (dao_adjust_provider_priority_back_to_resting_points env w))"
proof -
  let ?ps = "get_sms_providers_for_update (minutes 15) w"
  have "I (snd (op_iter (adjust_to_resting_point env) ?ps w))"
    using assms(1)
  proof (rule op_iter_invariant)
    fix p v assume "p \<in> set ?ps" "I v"
    then show "I (snd (adjust_to_resting_point env p v))"
      using assms(2) for_update_subset by blast
  qed
  then show ?thesis
    using assms(1,3)
    by (auto simp: dao_adjust_provider_priority_back_to_resting_points_def autocommit_def
        split: prod.splits sum.splits)
qed

subsection \<open>One round of the adjustment\<close>

definition adjusted :: "env \<Rightarrow> time \<Rightarrow> provider_details \<Rightarrow> provider_details" where
  \<comment> \<open>what a round makes of an active provider of text messages with a resting point\<close>
  "adjusted env now p =
     (case map_of (cfg_sms_resting_points env) (p_identifier p) of
        None \<Rightarrow> p
      | Some t \<Rightarrow>
          if p_priority p = t then p
          else p\<lparr>p_priority := towards t (p_priority p), p_created_by_id := Some notify_user_id,
                 p_version := p_version p + 1, p_updated_at := Some now\<rparr>)"

lemma p_id_adjusted [simp]:
  "p_id (adjusted env now p) = p_id p" "p_identifier (adjusted env now p) = p_identifier p"
  "is_sms_provider (adjusted env now p) = is_sms_provider p"
  by (simp_all add: adjusted_def is_sms_provider_def split: option.split)

lemma adjust_step:
  assumes "map_of (cfg_sms_resting_points env) (p_identifier p) = Some t"
    and "find_row p_id (p_id p) (w_providers w) = Some p"
  shows "\<exists>w'. adjust_to_resting_point env p w = (Inr (), w') \<and> w_now w' = w_now w
    \<and> (distinct_rows p_id (w_providers w) \<longrightarrow> distinct_rows p_id (w_providers w'))
    \<and> (\<forall>i. find_row p_id i (w_providers w') =
         (if i = p_id p then Some (adjusted env (w_now w) p) else find_row p_id i (w_providers w)))"
proof (cases "p_priority p = t")
  case True
  then show ?thesis using assms by (auto simp: adjust_to_resting_point_def dict_get_def adjusted_def)
next
  case False
  have "distinct_rows p_id (w_providers w) \<Longrightarrow>
      distinct_rows p_id (w_providers (adjust_provider_priority p v w))" for v
    by (simp add: adjust_provider_priority_def update_provider_details_without_commit_def Let_def)
  then show ?thesis
    using False assms
    by (auto simp: adjust_to_resting_point_def dict_get_def adjusted_def row_simps)
qed

lemma adjust_loop:
  assumes "distinct (map p_id ps)"
    and "\<And>p. p \<in> set ps \<Longrightarrow> map_of (cfg_sms_resting_points env) (p_identifier p) \<noteq> None"
    and "\<And>p. p \<in> set ps \<Longrightarrow> find_row p_id (p_id p) (w_providers w) = Some p"
  shows "\<exists>w'. op_iter (adjust_to_resting_point env) ps w = (Inr (), w') \<and> w_now w' = w_now w
    \<and> (distinct_rows p_id (w_providers w) \<longrightarrow> distinct_rows p_id (w_providers w'))
    \<and> (\<forall>i. find_row p_id i (w_providers w') =
         (case find_row p_id i ps of
            Some p \<Rightarrow> Some (adjusted env (w_now w) p) | None \<Rightarrow> find_row p_id i (w_providers w)))"
  using assms
proof (induction ps arbitrary: w)
  case Nil
  then show ?case by simp
next
  case (Cons p ps)
  obtain t where "map_of (cfg_sms_resting_points env) (p_identifier p) = Some t"
    using Cons.prems(2) [of p] by auto
  from adjust_step [OF this Cons.prems(3) [of p]] obtain v where
    v: "adjust_to_resting_point env p w = (Inr (), v)" "w_now v = w_now w"
      "distinct_rows p_id (w_providers w) \<longrightarrow> distinct_rows p_id (w_providers v)"
      "\<And>i. find_row p_id i (w_providers v) =
         (if i = p_id p then Some (adjusted env (w_now w) p) else find_row p_id i (w_providers w))"
    by auto
  have "find_row p_id (p_id q) (w_providers v) = Some q" if "q \<in> set ps" for q
    using that Cons.prems(1,3) v(4) [of "p_id q"] by (auto simp: image_iff)
  then obtain w' where
    w': "op_iter (adjust_to_resting_point env) ps v = (Inr (), w')" "w_now w' = w_now v"
      "distinct_rows p_id (w_providers v) \<longrightarrow> distinct_rows p_id (w_providers w')"
      "\<And>i. find_row p_id i (w_providers w') = (case find_row p_id i ps of
         Some p \<Rightarrow> Some (adjusted env (w_now v) p) | None \<Rightarrow> find_row p_id i (w_providers v))"
    using Cons.IH [of v] Cons.prems(1,2) by auto
  have none: "find_row p_id (p_id p) ps = None"
    using Cons.prems(1) by (simp add: find_row_None_iff)
  have "find_row p_id i (w_providers w') = (case find_row p_id i (p # ps) of
      Some p \<Rightarrow> Some (adjusted env (w_now w) p) | None \<Rightarrow> find_row p_id i (w_providers w))" for i
    using w'(4) [of i] v(2) v(4) [of i] none
    by (cases "i = p_id p") (auto simp: find_row_Cons split: option.split)
  moreover have "op_iter (adjust_to_resting_point env) (p # ps) w = (Inr (), w')"
    using v(1) w'(1) by simp
  ultimately show ?case using v(2,3) w'(2,3) by (intro exI [of _ w']) simp
qed

definition settled_clock :: "world \<Rightarrow> bool" where
  \<comment> \<open>no active provider of text messages was updated in the last fifteen minutes\<close>
  "settled_clock w \<longleftrightarrow>
     list_all (\<lambda>p. is_sms_provider p \<longrightarrow>
       (case p_updated_at p of None \<Rightarrow> True | Some u \<Rightarrow> u \<le> w_now w - minutes 15)) (w_providers w)"

definition all_have_resting_points :: "env \<Rightarrow> world \<Rightarrow> bool" where
  "all_have_resting_points env w \<longleftrightarrow>
     list_all (\<lambda>p. is_sms_provider p \<longrightarrow>
       map_of (cfg_sms_resting_points env) (p_identifier p) \<noteq> None) (w_providers w)"

lemma round_result:
  assumes "distinct_rows p_id (w_providers w)" "settled_clock w" "all_have_resting_points env w"
  shows "\<exists>w'. dao_adjust_provider_priority_back_to_resting_points env w = (Inr (), w')
    \<and> w_now w' = w_now w \<and> distinct_rows p_id (w_providers w')
    \<and> (\<forall>i. find_row p_id i (w_providers w') = map_option
         (\<lambda>p. if is_sms_provider p then adjusted env (w_now w) p else p)
         (find_row p_id i (w_providers w)))"
proof -
  let ?ps = "filter is_sms_provider (w_providers w)"
  have ps: "get_sms_providers_for_update (minutes 15) w = ?ps"
    using assms(2)
    by (fastforce simp: get_sms_providers_for_update_def Let_def settled_clock_def list_all_iff
        list_ex_iff split: option.splits)
  have dps: "distinct_rows p_id ?ps" using assms(1) by (rule distinct_filter_rows)
  have "\<exists>w'. op_iter (adjust_to_resting_point env) ?ps w = (Inr (), w') \<and> w_now w' = w_now w
    \<and> (distinct_rows p_id (w_providers w) \<longrightarrow> distinct_rows p_id (w_providers w'))
    \<and> (\<forall>i. find_row p_id i (w_providers w') =
         (case find_row p_id i ?ps of
            Some p \<Rightarrow> Some (adjusted env (w_now w) p) | None \<Rightarrow> find_row p_id i (w_providers w)))"
    using dps assms(3) find_row_eqI [OF assms(1)]
    by (intro adjust_loop) (auto simp: distinct_rows_def all_have_resting_points_def list_all_iff)
  then obtain w' where
    w': "op_iter (adjust_to_resting_point env) ?ps w = (Inr (), w')" "w_now w' = w_now w"
      "distinct_rows p_id (w_providers w')"
      "\<And>i. find_row p_id i (w_providers w') = (case find_row p_id i ?ps of
         Some p \<Rightarrow> Some (adjusted env (w_now w) p) | None \<Rightarrow> find_row p_id i (w_providers w))"
    using assms(1) by blast
  have "find_row p_id i ?ps = (case find_row p_id i (w_providers w) of
      Some p \<Rightarrow> if p \<in> set ?ps then Some p else None | None \<Rightarrow> None)" for i
    by (rule find_row_sublist [OF assms(1) dps]) auto
  moreover have "find_row p_id i (w_providers w) = Some p \<Longrightarrow> p \<in> set (w_providers w)" for i p
    by (auto dest: find_row_SomeD)
  ultimately have "find_row p_id i (w_providers w') = map_option
      (\<lambda>p. if is_sms_provider p then adjusted env (w_now w) p else p)
      (find_row p_id i (w_providers w))" for i
    unfolding w'(4) by (cases "find_row p_id i (w_providers w)") auto
  then show ?thesis
    using w' ps
    by (simp add: dao_adjust_provider_priority_back_to_resting_points_def autocommit_def)
qed

section \<open>Properties\<close>

definition priorities_ok :: "world \<Rightarrow> bool" where
  "priorities_ok w \<longleftrightarrow> list_all (\<lambda>p. 0 \<le> p_priority p \<and> p_priority p \<le> 100) (w_providers w)"

definition resting_points_ok :: "env \<Rightarrow> bool" where
  "resting_points_ok env \<longleftrightarrow> list_all (\<lambda>(k, t). 0 \<le> t \<and> t \<le> 100) (cfg_sms_resting_points env)"

definition history_ok :: "world \<Rightarrow> bool" where
  \<comment> \<open>the current version of every provider is in the history\<close>
  "history_ok w \<longleftrightarrow>
     list_all (\<lambda>p. provider_history_from_original p \<in> set (w_provider_history w)) (w_providers w)"

lemma adjust_priorities_ok:
  assumes "priorities_ok u" "0 \<le> v" "v \<le> 100"
  shows "priorities_ok (adjust_provider_priority p v u)"
  using assms set_adjusted [of p v u] by (fastforce simp: priorities_ok_def list_all_iff)

lemma adjust_history_ok:
  assumes "history_ok u"
  shows "history_ok (adjust_provider_priority p v u)"
proof -
  let ?p = "p\<lparr>p_priority := v, p_created_by_id := Some notify_user_id,
     p_version := p_version p + 1, p_updated_at := Some (w_now u)\<rparr>"
  have "w_provider_history (adjust_provider_priority p v u) =
      w_provider_history u @ [provider_history_from_original ?p]"
    by (simp add: adjust_provider_priority_def update_provider_details_without_commit_def Let_def)
  then show ?thesis
    using assms set_adjusted [of p v u] by (auto simp: history_ok_def list_all_iff)
qed

lemma target_bounds:
  "resting_points_ok env \<Longrightarrow> dict_get (cfg_sms_resting_points env) k = Inr t \<Longrightarrow> 0 \<le> t \<and> t \<le> 100"
  by (auto simp: resting_points_ok_def dict_get_def list_all_iff split: option.splits dest!: map_of_SomeD)


definition sample_provider :: "nat \<Rightarrow> string \<Rightarrow> int \<Rightarrow> provider_details" where
  "sample_provider i name priority =
     \<lparr>p_id = i, p_display_name = name, p_identifier = name, p_priority = priority,
      p_notification_type = Sms, p_active = True, p_version = 1, p_updated_at = None,
      p_created_by_id = None, p_supports_international = True\<rparr>"


text \<open>
  When a reduction is not held back (two active providers, none updated within the
  threshold), it goes through exactly when both the provider and its fixed alternative are among
  them; otherwise it raises and changes nothing. With MMG and Firetext as the active pair the
  alternative of either is Spryng, so the priority can never be reduced.
\<close>

theorem reduction_needs_alternative:
  assumes "length (get_sms_providers_for_update threshold w) \<ge> 2"
  shows "(fst (dao_reduce_sms_provider_priority name threshold w) = Inr () \<longleftrightarrow>
      (\<exists>other. get_alternative_sms_provider name = Inr other
         \<and> {name, other} \<subseteq> p_identifier ` set (get_sms_providers_for_update threshold w)))
    \<and> (fst (dao_reduce_sms_provider_priority name threshold w) \<noteq> Inr () \<longrightarrow>
         snd (dao_reduce_sms_provider_priority name threshold w) = w)
    \<and> (p_identifier ` set (get_sms_providers_for_update threshold w) = {''mmg'', ''firetext''}
         \<and> name \<in> {''mmg'', ''firetext''} \<longrightarrow>
       dao_reduce_sms_provider_priority name threshold w = (Inl (Py (KeyError ''spryng'')), w))"
proof -
  let ?ps = "get_sms_providers_for_update threshold w"
  let ?d = "provider_dict ?ps"
  let ?r = "res_bind (get_alternative_sms_provider name) (\<lambda>other.
     res_bind (dict_get ?d name) (\<lambda>reduced.
       res_bind (dict_get ?d other) (\<lambda>increased. Inr (reduced, increased))))"
  have outcome: "dao_reduce_sms_provider_priority name threshold w =
    (case ?r of Inl e \<Rightarrow> (Inl e, w)
     | Inr (reduced, increased) \<Rightarrow>
         (Inr (), adjust_provider_priority increased (min 100 (p_priority increased + 10))
                    (adjust_provider_priority reduced (max 0 (p_priority reduced - 10)) w)))"
    using assms
    by (auto simp: dao_reduce_sms_provider_priority_def autocommit_def Let_def split: sum.splits)
  have keys: "(\<exists>p. dict_get ?d k = Inr p) \<longleftrightarrow> k \<in> p_identifier ` set ?ps" for k
    by (rule provider_dict_keys)
  have "(\<exists>pair. ?r = Inr pair) \<longleftrightarrow>
      (\<exists>other. get_alternative_sms_provider name = Inr other \<and> {name, other} \<subseteq> p_identifier ` set ?ps)"
    using keys by (fastforce simp: res_bind_Inr_iff)
  moreover have "fst (dao_reduce_sms_provider_priority name threshold w) = Inr () \<longleftrightarrow> (\<exists>pair. ?r = Inr pair)"
    unfolding outcome by (cases ?r) auto
  moreover have "fst (dao_reduce_sms_provider_priority name threshold w) \<noteq> Inr () \<Longrightarrow>
      snd (dao_reduce_sms_provider_priority name threshold w) = w"
    unfolding outcome by (cases ?r) (auto split: prod.splits)
  moreover have "dao_reduce_sms_provider_priority name threshold w = (Inl (Py (KeyError ''spryng'')), w)"
    if "p_identifier ` set ?ps = {''mmg'', ''firetext''}" "name \<in> {''mmg'', ''firetext''}"
  proof -
    have "\<not> (\<exists>p. dict_get ?d ''spryng'' = Inr p)" unfolding keys that(1) by simp
    then have "dict_get ?d ''spryng'' = Inl (Py (KeyError ''spryng''))"
      by (simp add: dict_get_def split: option.splits)
    moreover have "name \<in> p_identifier ` set ?ps" unfolding that(1) by (rule that(2))
    then obtain p where "dict_get ?d name = Inr p" using keys [of name] by blast
    moreover have "get_alternative_sms_provider name = Inr ''spryng''"
      using that(2) by (auto simp: get_alternative_sms_provider_def)
    ultimately show ?thesis unfolding outcome by simp
  qed
  ultimately show ?thesis by blast
qed

theorem reduction_needs_alternative_witness:
  "let w = sample_world\<lparr>w_providers := [sample_provider 1 ''mmg'' 51, sample_provider 2 ''firetext'' 49]\<rparr>
   in dao_reduce_sms_provider_priority ''mmg'' (minutes 1) w = (Inl (Py (KeyError ''spryng'')), w)"
proof -
  let ?ps = "[sample_provider 1 ''mmg'' 51, sample_provider 2 ''firetext'' 49]"
  let ?w = "sample_world\<lparr>w_providers := ?ps\<rparr>"
  have "get_sms_providers_for_update (minutes 1) ?w = ?ps"
    by (simp add: get_sms_providers_for_update_def Let_def sample_provider_def is_sms_provider_def)
  then show ?thesis
    using reduction_needs_alternative [of "minutes 1" ?w "''mmg''"]
    by (simp add: sample_provider_def)
qed

definition round_ok :: "env \<Rightarrow> world \<Rightarrow> bool" where
  "round_ok env w \<longleftrightarrow>
     distinct_rows p_id (w_providers w) \<and> all_have_resting_points env w
     \<and> list_all (\<lambda>p. case p_updated_at p of None \<Rightarrow> True | Some u \<Rightarrow> u \<le> w_now w) (w_providers w)"

fun resting_rounds :: "env \<Rightarrow> nat \<Rightarrow> world \<Rightarrow> world" where
  \<comment> \<open>the scheduled task runs every fifteen minutes and nothing else touches the providers\<close>
  "resting_rounds env 0 w = w"
| "resting_rounds env (Suc n) w =
     (let v = resting_rounds env n w
      in snd (dao_adjust_provider_priority_back_to_resting_points env
                (v\<lparr>w_now := w_now v + minutes 15\<rparr>)))"

lemma resting_round:
  assumes ok: "round_ok env v"
    and w': "w' = snd (dao_adjust_provider_priority_back_to_resting_points env
      (v\<lparr>w_now := w_now v + minutes 15\<rparr>))"
  shows "round_ok env w' \<and> (\<forall>i. find_row p_id i (w_providers w') = map_option
    (\<lambda>p. if is_sms_provider p then adjusted env (w_now v + minutes 15) p else p)
    (find_row p_id i (w_providers v)))"
proof -
  let ?v = "v\<lparr>w_now := w_now v + minutes 15\<rparr>"
  let ?adj = "\<lambda>p. if is_sms_provider p then adjusted env (w_now v + minutes 15) p else p"
  have distinct: "distinct_rows p_id (w_providers v)"
    and configured: "\<And>p. p \<in> set (w_providers v) \<Longrightarrow> is_sms_provider p \<Longrightarrow>
      map_of (cfg_sms_resting_points env) (p_identifier p) \<noteq> None"
    and past: "\<And>p u. p \<in> set (w_providers v) \<Longrightarrow> p_updated_at p = Some u \<Longrightarrow> u \<le> w_now v"
    using ok by (fastforce simp: round_ok_def all_have_resting_points_def list_all_iff)+
  have pre: "distinct_rows p_id (w_providers ?v)" "settled_clock ?v" "all_have_resting_points env ?v"
    using distinct configured past
    by (auto simp: settled_clock_def all_have_resting_points_def list_all_iff split: option.split)
  have now: "w_now ?v = w_now v + minutes 15" "w_providers ?v = w_providers v" by simp_all
  from round_result [OF pre, unfolded now] have res: "w_now w' = w_now v + minutes 15"
    "distinct_rows p_id (w_providers w')"
    "\<And>i. find_row p_id i (w_providers w') = map_option ?adj (find_row p_id i (w_providers v))"
    using w' by auto
  have "(is_sms_provider q \<longrightarrow> map_of (cfg_sms_resting_points env) (p_identifier q) \<noteq> None)
      \<and> (case p_updated_at q of None \<Rightarrow> True | Some u \<Rightarrow> u \<le> w_now w')"
    if q: "q \<in> set (w_providers w')" for q
  proof -
    have "find_row p_id (p_id q) (w_providers w') = Some q" by (rule find_row_eqI [OF res(2) q])
    then obtain p where p: "p \<in> set (w_providers v)" "q = ?adj p"
      using res(3) [of "p_id q"] by (auto dest: find_row_SomeD)
    have "w_now v \<le> w_now v + minutes 15" by (simp add: minutes_def seconds_def)
    then show ?thesis
      using configured [OF p(1)] past [OF p(1)] unfolding p(2) res(1)
      by (auto simp: adjusted_def is_sms_provider_def split: option.splits)
  qed
  then have "round_ok env w'"
    using res(2) by (simp add: round_ok_def all_have_resting_points_def list_all_iff)
  then show ?thesis using res(3) by blast
qed

lemma resting_rounds_priority:
  assumes "round_ok env w" "find_row p_id i (w_providers w) = Some p" "is_sms_provider p"
    "map_of (cfg_sms_resting_points env) (p_identifier p) = Some t"
  shows "round_ok env (resting_rounds env n w)
    \<and> (\<exists>q. find_row p_id i (w_providers (resting_rounds env n w)) = Some q \<and> is_sms_provider q
         \<and> p_identifier q = p_identifier p
         \<and> \<bar>p_priority q - t\<bar> = max 0 (\<bar>p_priority p - t\<bar> - 10 * int n))"
proof (induction n)
  case 0
  then show ?case using assms by simp
next
  case (Suc n)
  let ?v = "resting_rounds env n w"
  obtain q where q: "find_row p_id i (w_providers ?v) = Some q" "is_sms_provider q"
    "p_identifier q = p_identifier p" "\<bar>p_priority q - t\<bar> = max 0 (\<bar>p_priority p - t\<bar> - 10 * int n)"
    using Suc by blast
  note next_round = resting_round [OF Suc [THEN conjunct1] refl]
  have found: "find_row p_id i (w_providers (resting_rounds env (Suc n) w)) =
      Some (adjusted env (w_now ?v + minutes 15) q)"
    using next_round [THEN conjunct2, THEN spec, of i] q(1,2) by (simp add: Let_def)
  have "p_priority (adjusted env (w_now ?v + minutes 15) q) = towards t (p_priority q)"
    using q(3) assms(4) by (simp add: adjusted_def towards_def)
  moreover have "\<bar>towards t (p_priority q) - t\<bar> = max 0 (\<bar>p_priority p - t\<bar> - 10 * int (Suc n))"
    unfolding towards_distance q(4) by simp
  moreover have "round_ok env (resting_rounds env (Suc n) w)"
    using next_round [THEN conjunct1] by (simp add: Let_def)
  ultimately show ?case using found q(2,3) by simp
qed

text \<open>
  Left alone, every active provider of text messages comes ten points closer to its
  resting point with each quarter-hourly run of
  \<open>dao_adjust_provider_priority_back_to_resting_points\<close>: after \<open>n\<close> runs its distance has dropped
  by \<open>10 * n\<close>, and once it is at its resting point it stays there.
\<close>

theorem resting_points_reached:
  assumes "round_ok env w" "find_row p_id i (w_providers w) = Some p" "is_sms_provider p"
    "map_of (cfg_sms_resting_points env) (p_identifier p) = Some t"
  shows "\<exists>q. find_row p_id i (w_providers (resting_rounds env n w)) = Some q
    \<and> \<bar>p_priority q - t\<bar> = max 0 (\<bar>p_priority p - t\<bar> - 10 * int n)
    \<and> (\<bar>p_priority p - t\<bar> \<le> 10 * int n \<longrightarrow> p_priority q = t)"
proof -
  obtain q where "find_row p_id i (w_providers (resting_rounds env n w)) = Some q"
    "\<bar>p_priority q - t\<bar> = max 0 (\<bar>p_priority p - t\<bar> - 10 * int n)"
    using resting_rounds_priority [OF assms, of n] by blast
  then show ?thesis by (intro exI [of _ q]) auto
qed

theorem resting_points_reached_witness:
  "let w = sample_world\<lparr>w_providers := [sample_provider 1 ''mmg'' 100, sample_provider 2 ''firetext'' 0]\<rparr>
   in \<exists>q. find_row p_id 1 (w_providers (resting_rounds sample_env 5 w)) = Some q \<and> p_priority q = 51"
proof -
  let ?w = "sample_world\<lparr>w_providers := [sample_provider 1 ''mmg'' 100, sample_provider 2 ''firetext'' 0]\<rparr>"
  have "round_ok sample_env ?w"
    by (simp add: round_ok_def distinct_rows_def all_have_resting_points_def sample_provider_def
        sample_env_def)
  moreover have "find_row p_id 1 (w_providers ?w) = Some (sample_provider 1 ''mmg'' 100)"
    by (simp add: find_row_Cons sample_provider_def)
  moreover have "is_sms_provider (sample_provider 1 ''mmg'' 100)"
    "map_of (cfg_sms_resting_points sample_env) (p_identifier (sample_provider 1 ''mmg'' 100)) = Some 51"
    by (simp_all add: is_sms_provider_def sample_provider_def sample_env_def)
  ultimately have "\<exists>q. find_row p_id 1 (w_providers (resting_rounds sample_env 5 ?w)) = Some q
    \<and> (\<bar>p_priority (sample_provider 1 ''mmg'' 100) - 51\<bar> \<le> 10 * int 5 \<longrightarrow> p_priority q = 51)"
    using resting_points_reached [of sample_env ?w 1 "sample_provider 1 ''mmg'' 100" 51 5] by blast
  then show ?thesis by (simp add: Let_def sample_provider_def)
qed

end
