(* ===== verification/Delivery.thy ===== *)
theory Delivery
  imports Callbacks Providers Letters_Utils
begin

text \<open>
  Sending a notification: \<^verbatim>\<open>app/delivery/send_to_providers.py\<close> chooses a provider and calls its
  client, the tasks of \<^verbatim>\<open>app/celery/provider_tasks.py\<close> retry and give up, test keys go through
  \<^verbatim>\<open>app/celery/research_mode_tasks.py\<close>, which posts a made-up receipt to the endpoints of
  \<^theory_text>\<open>Callbacks\<close>, and letters go to DVLA (\<^verbatim>\<open>app/clients/letter/dvla.py\<close>). What lies outside is an
  \<open>outside\<close> record: the random choice, the fragment count of the template library, the answers of
  the providers, and what other processes do to the world while a provider is being called.
  Caches (the provider, the serialised service and template) are left out.
\<close>

section \<open>The outside\<close>

datatype ses_answer = SesSent string | SesClientError string string | SesOtherError string

datatype dvla_answer = DvlaConnectionError | DvlaStatus nat

record outside =
  out_choose :: "(provider_details \<times> int) list \<Rightarrow> provider_details"
  out_fragments :: fragment_fn
  out_sms :: "string \<Rightarrow> http_outcome"
  out_meanwhile :: "world \<Rightarrow> world"
  out_ses :: ses_answer
  out_dvla_auth :: "dvla_answer option"
  out_dvla :: dvla_answer

definition random_choice :: "outside \<Rightarrow> bool" where
  \<comment> \<open>\<open>random.choices\<close>: a member of the population with a positive weight, if there is one\<close>
  "random_choice io \<longleftrightarrow>
     (\<forall>ps. (\<exists>p v. (p, v) \<in> set ps \<and> 0 < v)
        \<longrightarrow> (\<exists>v. (out_choose io ps, v) \<in> set ps \<and> 0 < v))"

section \<open>Clients\<close>

definition sms_client_names :: "string list" where
  "sms_client_names = [''firetext'', ''mmg'', ''spryng'']"

definition email_client_names :: "string list" where
  \<comment> \<open>the SES client or its stub\<close>
  "email_client_names = [''ses'']"

definition get_client_by_name_and_type :: "string \<Rightarrow> ntype \<Rightarrow> string option result" where
  "get_client_by_name_and_type name t =
     (if t = Email then Inr (if name \<in> set email_client_names then Some name else None)
      else if t = Sms then Inr (if name \<in> set sms_client_names then Some name else None)
      else Inl (Py AssertionError))"

definition provider_send_sms :: "string \<Rightarrow> http_outcome \<Rightarrow> unit result" where
  "provider_send_sms name ans =
     (if name = ''firetext'' then firetext_send_sms ans
      else if name = ''mmg'' then mmg_send_sms ans else spryng_send_sms ans)"

definition aws_send_email :: "ses_answer \<Rightarrow> string result" where
  "aws_send_email ans =
     (case ans of
        SesSent message_id \<Rightarrow> Inr message_id
      | SesClientError code m \<Rightarrow>
          if code = ''InvalidParameterValue'' then Inl (Client (EmailClientNonRetryableException m))
          else if code = ''TooManyRequestsException''
          then Inl (Client AwsSesClientThrottlingSendRateException)
          else Inl (Client (AwsSesClientException (m @ code)))
      | SesOtherError m \<Rightarrow> Inl (Client (AwsSesClientException m)))"

section \<open>Choosing a provider\<close>

definition provider_weights :: "provider_details list \<Rightarrow> (provider_details \<times> int) list" where
  "provider_weights ps = (if length ps = 1 then map (\<lambda>p. (p, 100)) ps
     else map (\<lambda>p. (p, p_priority p)) ps)"

definition provider_to_use :: "outside \<Rightarrow> ntype \<Rightarrow> bool \<Rightarrow> world \<Rightarrow> string option result" where
  \<comment> \<open>the name of the client, which an unregistered identifier does not have\<close>
  "provider_to_use io t international w =
     (let active_providers = filter p_active
            (get_provider_details_by_notification_type t international w);
          ws = provider_weights active_providers
      in if active_providers = [] then Inl (py_exception (''No active '' @ ntype_name t @ '' providers''))
         else if sum_list (map snd ws) \<le> 0
         then Inl (Py (ValueError ''Total of weights must be greater than zero''))
         else get_client_by_name_and_type (p_identifier (out_choose io ws)) t)"

section \<open>Test keys\<close>

definition ends_with :: "string \<Rightarrow> string \<Rightarrow> bool" where
  \<comment> \<open>\<open>s.strip().endswith(t)\<close>\<close>
  "ends_with s t \<longleftrightarrow> suffix t (rev (dropWhile py_is_space (rev s)))"

definition temp_fail :: string where
  "temp_fail = ''7700900003''"

definition perm_fail :: string where
  "perm_fail = ''7700900002''"

definition perm_fail_email :: string where
  "perm_fail_email = ''perm-fail@simulator.notify''"

definition temp_fail_email :: string where
  "temp_fail_email = ''temp-fail@simulator.notify''"

definition mmg_callback :: "string \<Rightarrow> string \<Rightarrow> callback_form" where
  "mmg_callback notification_id recipient =
     (let status = (if ends_with recipient temp_fail then ''4''
                    else if ends_with recipient perm_fail then ''5'' else ''3'')
      in [(''reference'', CbText ''mmg_reference''), (''CID'', CbText notification_id),
          (''MSISDN'', CbText recipient), (''status'', CbText status),
          (''deliverytime'', CbText ''2016-04-05 16:01:07'')])"

definition firetext_callback :: "string \<Rightarrow> string \<Rightarrow> callback_form" where
  "firetext_callback notification_id recipient =
     (let status = (if ends_with recipient perm_fail then ''1''
                    else if ends_with recipient temp_fail then ''2'' else ''0'')
      in [(''mobile'', CbText recipient), (''status'', CbText status),
          (''time'', CbText ''2016-03-10 14:17:00''), (''reference'', CbText notification_id)])"

definition http_error :: exn where
  "http_error = py_exception ''HTTPError''"

definition make_request :: "string \<Rightarrow> callback_form \<Rightarrow> unit op" where
  \<comment> \<open>a \<open>POST\<close> to the API itself; the Spryng endpoint only has a \<open>GET\<close>\<close>
  "make_request provider data w =
     (case (if provider = ''mmg'' then process_mmg_response data w
            else if provider = ''firetext'' then process_firetext_response data w
            else (Inl http_error, w)) of
        (Inl e, w') \<Rightarrow> (Inl http_error, w')
      | (Inr _, w') \<Rightarrow> (Inr (), w'))"

definition send_sms_response :: "string \<Rightarrow> string \<Rightarrow> string \<Rightarrow> unit op" where
  "send_sms_response provider reference recipient w =
     (if provider = ''mmg'' then make_request provider (mmg_callback reference recipient) w
      else
        (let body = firetext_callback reference recipient
         in if map_of body ''status'' = Some (CbText ''2'')
            then op_bind (make_request provider body) (\<lambda>_. make_request provider
                   [(''mobile'', CbText recipient), (''status'', CbText ''1''),
                    (''time'', CbText ''2016-03-10 14:17:00''), (''reference'', CbText reference)]) w
            else make_request provider body w))"

definition ses_callback_type :: "string \<Rightarrow> string" where
  \<comment> \<open>which of the three fake messages the recipient gets\<close>
  "ses_callback_type recipient =
     (if recipient = perm_fail_email then ''Permanent''
      else if recipient = temp_fail_email then ''Temporary'' else ''Delivery'')"

definition send_email_response :: "string \<Rightarrow> string \<Rightarrow> world \<Rightarrow> world" where
  "send_email_response reference recipient w =
     enqueue RESEARCH_MODE (TProcessSesResults (ses_callback_type recipient) reference) w"

section \<open>Sending a text message or an email\<close>

definition uuid_hex :: "uuid \<Rightarrow> string" where
  "uuid_hex i = map (\<lambda>k. digit_char (i div 16 ^ (31 - k) mod 16)) [0..<32]"

definition uuid_str :: "uuid \<Rightarrow> string" where
  \<comment> \<open>\<open>str(uuid)\<close>\<close>
  "uuid_str i =
     (let h = uuid_hex i
      in take 8 h @ ''-'' @ take 4 (drop 8 h) @ ''-'' @ take 4 (drop 12 h) @ ''-''
         @ take 4 (drop 16 h) @ ''-'' @ drop 20 h)"

definition technical_failure :: "notification \<Rightarrow> 'a op" where
  "technical_failure n w =
     (let (n', w') = dao_update_notification (n\<lparr>n_status := TechnicalFailure\<rparr>) w
      in (Inl (technical_failure_exn (''Send '' @ ntype_name (n_type n) @ '' for notification id ''
                 @ uuid_str (n_id n) @ '' to provider is not allowed: service ''
                 @ uuid_str (n_service_id n) @ '' is inactive'')), w'))"

definition sending_status :: "notification \<Rightarrow> nstatus" where
  "sending_status n =
     (if n_status n \<in> set NOTIFICATION_STATUS_TYPES_COMPLETED then n_status n
      else if n_international n then Sent else Sending)"

definition update_notification_to_sending ::
  "notification \<Rightarrow> (notification \<Rightarrow> notification) \<Rightarrow> string \<Rightarrow> world \<Rightarrow> world" where
  \<comment> \<open>the object \<open>n\<close> as it was loaded, what was assigned to it before, the provider's name: the
      session writes the columns whose value changed\<close>
  "update_notification_to_sending n assigned provider w =
     w\<lparr>w_notifications := update_rows (\<lambda>r. n_id r = n_id n)
         (\<lambda>r. let r1 = assigned r
              in r1\<lparr>n_sent_at := Some (w_now w), n_sent_by := Some provider,
                    n_status := (if sending_status n = n_status n then n_status r1
                                 else sending_status n),
                    n_updated_at := Some (w_now w)\<rparr>) (w_notifications w)\<rparr>"

definition service_by_id :: "uuid \<Rightarrow> world \<Rightarrow> service result" where
  "service_by_id i w = query_one (Db NoResultFound) (Db MultipleResultsFound) (\<lambda>s. svc_id s = i)
     (w_services w)"

definition dao_get_template_by_id_and_service_id ::
  "uuid \<Rightarrow> uuid \<Rightarrow> int option \<Rightarrow> world \<Rightarrow> template result" where
  "dao_get_template_by_id_and_service_id i service_id version w =
     (case version of
        Some v \<Rightarrow> query_one (Db NoResultFound) (Db MultipleResultsFound)
                    (\<lambda>t. t_id t = i \<and> \<not> t_hidden t \<and> t_service_id t = service_id \<and> t_version t = v)
                    (w_template_history w)
      | None \<Rightarrow> query_one (Db NoResultFound) (Db MultipleResultsFound)
                  (\<lambda>t. t_id t = i \<and> \<not> t_hidden t \<and> t_service_id t = service_id) (w_templates w))"

definition with_sms_client :: "string option \<Rightarrow> (string \<Rightarrow> 'a op) \<Rightarrow> 'a op" where
  \<comment> \<open>\<open>provider.name\<close> of a client that may be \<open>None\<close>\<close>
  "with_sms_client provider f w =
     (case provider of None \<Rightarrow> (Inl (Py AttributeError), w) | Some name \<Rightarrow> f name w)"

definition sms_error_rate_exceeded :: "env \<Rightarrow> string \<Rightarrow> world \<Rightarrow> bool" where
  "sms_error_rate_exceeded env name w =
     lib_exceeded_rate_limit env (name @ ''-error-rate'') SMS_PROVIDER_ERROR_THRESHOLD
       SMS_PROVIDER_ERROR_INTERVAL (w_now w)"

definition sms_send_failed ::
  "env \<Rightarrow> notification \<Rightarrow> int \<Rightarrow> string option \<Rightarrow> exn \<Rightarrow> unit op" where
  \<comment> \<open>the \<open>except\<close> clause; an exception of its own replaces the one it handles\<close>
  "sms_send_failed env n fragments provider e w =
     (let w1 = w\<lparr>w_notifications := update_rows (\<lambda>r. n_id r = n_id n)
            (\<lambda>r. r\<lparr>n_billable_units := fragments, n_updated_at := Some (w_now w)\<rparr>)
            (w_notifications w)\<rparr>
      in with_sms_client provider (\<lambda>name v.
           if sms_error_rate_exceeded env name v
           then (case dao_reduce_sms_provider_priority name (minutes 1) v of
                   (Inl e', v') \<Rightarrow> (Inl e', v')
                 | (Inr _, v') \<Rightarrow> (Inl e, v'))
           else (Inl e, v)) w1)"

definition send_sms_with ::
  "env \<Rightarrow> outside \<Rightarrow> notification \<Rightarrow> int \<Rightarrow> string option \<Rightarrow> unit op" where
  \<comment> \<open>from the choice between test key and real sending on\<close>
  "send_sms_with env io n fragments provider w =
     (if n_key_type n = TestKey then
        with_sms_client provider (\<lambda>name v.
          send_sms_response name (uuid_str (n_id n)) (n_to n)
            (update_notification_to_sending n id name v)) w
      else
        (let w1 = out_meanwhile io w
         in case provider of
              None \<Rightarrow> sms_send_failed env n fragments None (Py AttributeError) w1
            | Some name \<Rightarrow>
                (case provider_send_sms name (out_sms io name) of
                   Inl e \<Rightarrow> sms_send_failed env n fragments (Some name) e w1
                 | Inr _ \<Rightarrow>
                     (Inr (), update_notification_to_sending n
                        (\<lambda>r. r\<lparr>n_billable_units := fragments\<rparr>) name w1))))"

definition send_sms_to_provider :: "env \<Rightarrow> outside \<Rightarrow> notification \<Rightarrow> unit op" where
  "send_sms_to_provider env io n w =
     (case service_by_id (n_service_id n) w of
        Inl e \<Rightarrow> (Inl e, w)
      | Inr s \<Rightarrow>
          if \<not> svc_active s then technical_failure n w
          else if n_status n \<noteq> Created then (Inr (), w)
          else
            (case res_bind (provider_to_use io Sms (n_international n) w) (\<lambda>provider.
                    res_bind (dao_get_template_by_id_and_service_id (n_template_id n) (svc_id s)
                        (Some (n_template_version n)) w) (\<lambda>t. Inr (provider, t))) of
               Inl e \<Rightarrow> (Inl e, w)
             | Inr (provider, t) \<Rightarrow>
                 send_sms_with env io n
                   (out_fragments io t (n_personalisation n) (svc_name s) (svc_prefix_sms s))
                   provider w))"

definition send_email_to_provider :: "env \<Rightarrow> outside \<Rightarrow> notification \<Rightarrow> unit op" where
  "send_email_to_provider env io n w =
     (case service_by_id (n_service_id n) w of
        Inl e \<Rightarrow> (Inl e, w)
      | Inr s \<Rightarrow>
          if \<not> svc_active s then technical_failure n w
          else if n_status n \<noteq> Created then (Inr (), w)
          else
            (case res_bind (provider_to_use io Email False w) (\<lambda>provider.
                    res_bind (dao_get_template_by_id_and_service_id (n_template_id n) (svc_id s)
                        (Some (n_template_version n)) w) (\<lambda>t. Inr provider)) of
               Inl e \<Rightarrow> (Inl e, w)
             | Inr provider \<Rightarrow>
                 with_sms_client provider (\<lambda>name v.
                   if n_key_type n = TestKey then
                     (let (i, v1) = create_uuid env v
                      in (Inr (), send_email_response (uuid_str i) (n_to n)
                            (update_notification_to_sending n
                              (\<lambda>r. r\<lparr>n_reference := Some (uuid_str i)\<rparr>) name v1)))
                   else
                     (case aws_send_email (out_ses io) of
                        Inl e \<Rightarrow> (Inl e, v)
                      | Inr reference \<Rightarrow>
                          (Inr (), update_notification_to_sending n
                             (\<lambda>r. r\<lparr>n_reference := Some reference\<rparr>) name v))) w))"

section \<open>The tasks\<close>

definition give_up :: "env \<Rightarrow> uuid \<Rightarrow> string \<Rightarrow> 'a op" where
  \<comment> \<open>no retries left: the notification becomes a technical failure and the task fails\<close>
  "give_up env i message w =
     (case update_notification_status_by_id env i TechnicalFailure None None w of
        (Inl e, w') \<Rightarrow> (Inl e, w')
      | (Inr _, w') \<Rightarrow> (Inl (technical_failure_exn message), w'))"

definition retry_or_give_up :: "env \<Rightarrow> nat \<Rightarrow> nat \<Rightarrow> uuid \<Rightarrow> string \<Rightarrow> 'a op" where
  "retry_or_give_up env retries limit i message w =
     (case lib_retry env retries limit None of
        Task MaxRetriesExceededError \<Rightarrow> give_up env i message w
      | e \<Rightarrow> (Inl e, w))"

definition with_notification :: "uuid \<Rightarrow> (notification \<Rightarrow> unit op) \<Rightarrow> unit op" where
  "with_notification i f w =
     (case get_notification_by_id i None w of
        None \<Rightarrow> (Inl (Db NoResultFound), w) | Some n \<Rightarrow> f n w)"

definition deliver_sms :: "env \<Rightarrow> outside \<Rightarrow> nat \<Rightarrow> uuid \<Rightarrow> unit op" where
  "deliver_sms env io retries i w =
     (case with_notification i (send_sms_to_provider env io) w of
        (Inr _, w') \<Rightarrow> (Inr (), w')
      | (Inl e, w') \<Rightarrow>
          retry_or_give_up env retries 48 i
            (''RETRY FAILED: Max retries reached. The task send_sms_to_provider failed for notification ''
             @ uuid_str i @ ''. Notification has been updated to technical-failure'') w')"

definition deliver_email :: "env \<Rightarrow> outside \<Rightarrow> nat \<Rightarrow> uuid \<Rightarrow> unit op" where
  "deliver_email env io retries i w =
     (case with_notification i (send_email_to_provider env io) w of
        (Inr _, w') \<Rightarrow> (Inr (), w')
      | (Inl (Client (EmailClientNonRetryableException m)), w') \<Rightarrow>
          op_bind (update_notification_status_by_id env i TechnicalFailure None None)
            (\<lambda>_. op_return ()) w'
      | (Inl e, w') \<Rightarrow>
          retry_or_give_up env retries 48 i
            (''RETRY FAILED: Max retries reached. The task send_email_to_provider failed for notification ''
             @ uuid_str i @ ''. Notification has been updated to technical-failure'') w')"

section \<open>Letters\<close>

text \<open>What the address library gives of a recipient's address.\<close>

record postal_address =
  pa_is_bfpo :: bool
  pa_bfpo_lines :: "string list"
  pa_bfpo_number :: string
  pa_postcode :: "string option"
  pa_normalised_lines :: "string list"

type_synonym address_fields = "(string \<times> string) list"

definition list_pop :: "'a list \<Rightarrow> ('a \<times> 'a list) result" where
  \<comment> \<open>\<open>xs.pop(0)\<close>, and \<open>xs[0]\<close>\<close>
  "list_pop xs = (case xs of [] \<Rightarrow> Inl (Py IndexError) | x # r \<Rightarrow> Inr (x, r))"

definition build_address :: "string list \<Rightarrow> string \<Rightarrow> address_fields result" where
  "build_address lines last_line_key =
     (if lines = [] then Inl (Py IndexError)
      else Inr (dict_set last_line_key (last lines)
        (zip [''line1'', ''line2'', ''line3'', ''line4'', ''line5''] (butlast lines))))"

definition parse_bfpo_recipient_and_address :: "postal_address \<Rightarrow> (string \<times> address_fields) result" where
  \<comment> \<open>the number is text here\<close>
  "parse_bfpo_recipient_and_address a =
     res_bind (list_pop (pa_bfpo_lines a)) (\<lambda>(recipient, _).
       let d = zip [''line1'', ''line2'', ''line3'', ''line4''] (pa_bfpo_lines a);
           d1 = (case pa_postcode a of
                   None \<Rightarrow> d
                 | Some pc \<Rightarrow> if pc = [] then d else dict_set ''postcode'' pc d)
       in Inr (recipient, dict_set ''bfpoNumber'' (pa_bfpo_number a) d1))"

definition parse_recipient_and_address ::
  "postage option \<Rightarrow> postal_address \<Rightarrow> (string \<times> string \<times> address_fields) result" where
  "parse_recipient_and_address postage a =
     (if pa_is_bfpo a
      then res_bind (parse_bfpo_recipient_and_address a) (\<lambda>(r, d). Inr (r, ''bfpoAddress'', d))
      else res_bind (list_pop (pa_normalised_lines a)) (\<lambda>(recipient, lines).
        if postage \<in> Some ` set INTERNATIONAL_POSTAGE_TYPES
        then res_bind (build_address lines ''country'')
               (\<lambda>d. Inr (recipient, ''internationalAddress'', d))
        else res_bind (build_address lines ''postcode'')
               (\<lambda>d. Inr (recipient, ''unstructuredAddress'', d))))"

definition truncate_line :: "string \<Rightarrow> string \<Rightarrow> string" where
  "truncate_line k v =
     take (if k = ''postcode'' then 40 else if k = ''country'' then 256 else 45) v"

definition truncate_long_address_lines :: "address_fields \<Rightarrow> address_fields" where
  "truncate_long_address_lines d = map (\<lambda>(k, v). (k, truncate_line k v)) d"

record print_job =
  pj_id :: string
  pj_reference :: string
  pj_recipient :: string
  pj_address_type :: string
  pj_address :: address_fields
  pj_despatch_method :: "string option"
  pj_pdf :: string
  pj_organisation :: string
  pj_service :: string
  pj_callback_url :: string

definition despatch_method :: "postage option \<Rightarrow> string option" where
  "despatch_method postage = map_option (\<lambda>p.
     (case p of Netherlands \<Rightarrow> ''NETHERLANDS'' | Europe \<Rightarrow> ''INTERNATIONAL_EU''
      | RestOfWorld \<Rightarrow> ''INTERNATIONAL_ROW'')) postage"

definition format_create_print_job ::
  "string \<Rightarrow> string \<Rightarrow> postal_address \<Rightarrow> postage option \<Rightarrow> string \<Rightarrow> string \<Rightarrow> string
     \<Rightarrow> string \<Rightarrow> print_job result" where
  "format_create_print_job i reference a postage service_id organisation_id pdf_file callback_url =
     res_bind (parse_recipient_and_address postage a) (\<lambda>(recipient, address_type, d).
       Inr \<lparr>pj_id = i, pj_reference = reference, pj_recipient = take 255 recipient,
            pj_address_type = address_type, pj_address = truncate_long_address_lines d,
            pj_despatch_method = despatch_method postage, pj_pdf = pdf_file,
            pj_organisation = organisation_id, pj_service = service_id,
            pj_callback_url = callback_url\<rparr>)"

definition handle_common_dvla_errors :: "(nat \<Rightarrow> dvla_exn option) \<Rightarrow> dvla_answer \<Rightarrow> unit result" where
  "handle_common_dvla_errors custom ans =
     (case ans of
        DvlaConnectionError \<Rightarrow> Inl (Dvla DvlaRetryableException)
      | DvlaStatus code \<Rightarrow>
          if \<not> raise_for_status code then Inr ()
          else (case custom code of
                  Some e \<Rightarrow> Inl (Dvla e)
                | None \<Rightarrow>
                    if code = 429 then Inl (Dvla DvlaThrottlingException)
                    else if code \<ge> 500 then Inl (Dvla DvlaRetryableException)
                    else Inl (Dvla DvlaNonRetryableException)))"

definition dvla_authenticate :: "dvla_answer \<Rightarrow> unit result" where
  "dvla_authenticate =
     handle_common_dvla_errors (\<lambda>code. if code = 401 then Some DvlaRetryableException else None)"

definition dvla_send_letter ::
  "dvla_answer option \<Rightarrow> print_job result \<Rightarrow> dvla_answer \<Rightarrow> print_job result" where
  \<comment> \<open>the job that was posted; no first answer stands for a token that is still valid;
      \<open>DvlaUnauthorisedRequestException\<close> is one of the retryable ones\<close>
  "dvla_send_letter auth job ans =
     res_bind (case auth of None \<Rightarrow> Inr () | Some a \<Rightarrow> dvla_authenticate a) (\<lambda>_.
     res_bind job (\<lambda>j.
     res_bind (handle_common_dvla_errors
         (\<lambda>code. if code = 400 then Some DvlaNonRetryableException
                 else if code \<in> {401, 403} then Some DvlaRetryableException
                 else if code = 409 then Some DvlaDuplicatePrintRequestException else None) ans) (\<lambda>_.
     Inr j)))"

definition update_letter_to_sending :: "notification \<Rightarrow> unit op" where
  "update_letter_to_sending n w =
     (case get_provider_details_by_notification_type Letter False w of
        [] \<Rightarrow> (Inl (Py IndexError), w)
      | p # ps \<Rightarrow>
          (Inr (), snd (dao_update_notification
             (n\<lparr>n_status := Sending, n_sent_at := Some (w_now w),
                n_sent_by := Some (p_identifier p)\<rparr>) w)))"

definition get_callback_url :: "string \<Rightarrow> (string \<Rightarrow> string) \<Rightarrow> uuid \<Rightarrow> string" where
  "get_callback_url api_host_name sign i =
     api_host_name @ ''/notifications/letter/status?token='' @ sign (uuid_str i)"

definition send_letter_to_dvla ::
  "outside \<Rightarrow> (string \<Rightarrow> postal_address) \<Rightarrow> (uuid \<Rightarrow> string) \<Rightarrow> notification \<Rightarrow> string \<Rightarrow> unit op" where
  \<comment> \<open>the second \<open>try\<close> of \<open>deliver_letter\<close>\<close>
  "send_letter_to_dvla io address callback_url n pdf w =
     (case find_row svc_id (n_service_id n) (w_services w) of
        None \<Rightarrow> (Inl (Py AttributeError), w)
      | Some s \<Rightarrow>
          (case dvla_send_letter (out_dvla_auth io)
                  (format_create_print_job (uuid_str (n_id n)) (format_reference (n_reference n))
                     (address (n_to n)) (n_postage n) (uuid_str (n_service_id n))
                     (case svc_organisation_id s of None \<Rightarrow> ''None'' | Some i \<Rightarrow> uuid_str i)
                     pdf (callback_url (n_id n))) (out_dvla io) of
             Inl e \<Rightarrow> (Inl e, w)
           | Inr _ \<Rightarrow> update_letter_to_sending n w))"

definition deliver_letter_errors :: "env \<Rightarrow> nat \<Rightarrow> notification \<Rightarrow> unit result \<times> world \<Rightarrow> unit result \<times> world" where
  \<comment> \<open>its \<open>except\<close> clauses\<close>
  "deliver_letter_errors env retries n attempt =
     (let failed = give_up env (n_id n) (''Error when sending letter notification '' @ uuid_str (n_id n))
      in case attempt of
           (Inr _, w) \<Rightarrow> (Inr (), w)
         | (Inl (Dvla e), w) \<Rightarrow>
             (if e \<in> {DvlaRetryableException, DvlaThrottlingException} then
                retry_or_give_up env retries 55 (n_id n)
                  (''RETRY FAILED: Max retries reached. The task deliver_letter failed for notification ''
                   @ uuid_str (n_id n) @ ''. Notification has been updated to technical-failure'') w
              else if e = DvlaDuplicatePrintRequestException then update_letter_to_sending n w
              else failed w)
         | (Inl e, w) \<Rightarrow> failed w)"

definition deliver_letter ::
  "env \<Rightarrow> outside \<Rightarrow> (string \<Rightarrow> postal_address) \<Rightarrow> (uuid \<Rightarrow> string) \<Rightarrow> nat \<Rightarrow> uuid \<Rightarrow> unit op" where
  "deliver_letter env io address callback_url retries i w =
     (case get_notification_by_id_raise i None w of
        Inl e \<Rightarrow> (Inl e, w)
      | Inr n \<Rightarrow>
          if n_status n \<noteq> Created \<or> n_key_type n \<noteq> NormalKey then (Inr (), w)
          else
            (case get_letter_pdf_and_metadata env n w of
               Inl e \<Rightarrow> give_up env i (''Error getting letter from bucket for notification '' @ uuid_str i) w
             | Inr (pdf, meta) \<Rightarrow>
                 deliver_letter_errors env retries n
                   (send_letter_to_dvla io address callback_url n pdf w)))"

subsection \<open>Letters of test keys\<close>

definition fake_letter_product :: "postage \<Rightarrow> string \<times> string" where
  \<comment> \<open>postage class and mailing product; the other branches are for postages this API does not have\<close>
  "fake_letter_product p =
     (if p = Europe then (''INTERNATIONAL'', ''INT EU'') else (''INTERNATIONAL'', ''INT ROW''))"

definition create_fake_letter_callback_data ::
  "uuid \<Rightarrow> int \<Rightarrow> postage \<Rightarrow> string \<Rightarrow> string \<Rightarrow> letter_callback_request" where
  \<comment> \<open>the two texts are the clock in two formats\<close>
  "create_fake_letter_callback_data i billable_units p run_date transition_date =
     (let (post, product) = fake_letter_product p
      in \<lparr>lq_despatch_properties =
            [(''totalSheets'', int_str billable_units), (''postageClass'', post),
             (''mailingProduct'', product), (''productionRunDate'', run_date)],
          lq_job_id = uuid_str i, lq_job_status = ''DESPATCHED'',
          lq_transition_date = transition_date\<rparr>)"

definition create_fake_letter_callback ::
  "env \<Rightarrow> (string \<Rightarrow> string) \<Rightarrow> (string \<Rightarrow> string option) \<Rightarrow> (string \<Rightarrow> string \<Rightarrow> bool) \<Rightarrow> nat
     \<Rightarrow> uuid \<Rightarrow> int \<Rightarrow> postage \<Rightarrow> string \<Rightarrow> string \<Rightarrow> unit op" where
  \<comment> \<open>posts to the endpoint of \<open>Callbacks\<close>; its refusal is an \<open>HTTPError\<close>\<close>
  "create_fake_letter_callback env sign decode format_ok retries i units p run_date transition_date w =
     (case process_letter_callback env decode format_ok (sign (uuid_str i))
             (create_fake_letter_callback_data i units p run_date transition_date) w of
        (Inr _, w') \<Rightarrow> (Inr (), w')
      | (Inl e, w') \<Rightarrow>
          (case lib_retry env retries 3 None of
             Task MaxRetriesExceededError \<Rightarrow> (Inr (), w')
           | e' \<Rightarrow> (Inl e', w')))"

section \<open>Lemmas\<close>

text \<open>The text of an identifier reads back.\<close>

lemma hex_digit:
  assumes "d < 16"
  shows "hex_value (digit_char d) = Some d"
    and "digit_char d \<noteq> CHR ''-''" "digit_char d \<noteq> CHR 0x7B" "digit_char d \<noteq> CHR 0x7D"
proof -
  show val: "hex_value (digit_char d) = Some d"
    using assms by (auto simp: hex_value_def digit_char_def Let_def)
  have "hex_value (CHR ''-'') = None" "hex_value (CHR 0x7B) = None" "hex_value (CHR 0x7D) = None"
    by (simp_all add: hex_value_def)
  with val show "digit_char d \<noteq> CHR ''-''" "digit_char d \<noteq> CHR 0x7B" "digit_char d \<noteq> CHR 0x7D"
    by (metis option.distinct(1))+
qed

lemma uuid_hex_chars:
  "list_all (\<lambda>c. hex_value c \<noteq> None \<and> c \<noteq> CHR ''-'' \<and> c \<noteq> CHR 0x7B \<and> c \<noteq> CHR 0x7D) (uuid_hex i)"
  by (auto simp: uuid_hex_def list_all_iff hex_digit)

lemma join_uuid_parts:
  "take 8 h @ take 4 (drop 8 h) @ take 4 (drop 12 h) @ take 4 (drop 16 h) @ drop 20 h = h"
proof -
  have "take 4 (drop 16 h) @ drop 20 h = drop 16 h"
    using append_take_drop_id [of 4 "drop 16 h"] by simp
  moreover have "take 4 (drop 12 h) @ drop 16 h = drop 12 h"
    using append_take_drop_id [of 4 "drop 12 h"] by simp
  moreover have "take 4 (drop 8 h) @ drop 12 h = drop 8 h"
    using append_take_drop_id [of 4 "drop 8 h"] by simp
  ultimately show ?thesis using append_take_drop_id [of 8 h] by metis
qed

lemma digits_step: "16 * (i div 16 ^ Suc k mod 16 ^ m) + i div 16 ^ k mod 16 = i div 16 ^ k mod (16 ^ Suc m :: nat)"
proof -
  have "i div 16 ^ Suc k = i div 16 ^ k div 16" by (simp only: power_Suc2 div_mult2_eq)
  then show ?thesis by (simp add: mod_mult2_eq)
qed

lemma fold_uuid_digits:
  assumes "m \<le> 32"
  shows "fold (\<lambda>c n. 16 * n + the (hex_value c))
     (map (\<lambda>k. digit_char (i div 16 ^ (31 - k) mod 16)) [0..<m]) 0 = i div 16 ^ (32 - m) mod 16 ^ m"
  using assms
proof (induction m)
  case 0
  then show ?case by simp
next
  case (Suc m)
  have "32 - m = Suc (31 - m)" using Suc.prems by simp
  then show ?case
    using Suc digits_step [of i "31 - m" m] by (simp add: hex_digit)
qed

lemma parse_uuid_str:
  assumes "i < 2 ^ 128"
  shows "parse_uuid (uuid_str i) = Some i"
proof -
  let ?ok = "\<lambda>c. c \<noteq> CHR ''-'' \<and> c \<noteq> CHR 0x7B \<and> c \<noteq> CHR 0x7D"
  have ok: "?ok c" if "c \<in> set (uuid_hex i)" for c
    using uuid_hex_chars [of i] that by (auto simp: list_all_iff)
  have part: "filter ?ok (take a (drop b (uuid_hex i))) = take a (drop b (uuid_hex i))" for a b
    by (rule filter_True) (use ok in \<open>blast dest: in_set_takeD in_set_dropD\<close>)
  have part': "filter ?ok (drop b (uuid_hex i)) = drop b (uuid_hex i)" for b
    by (rule filter_True) (use ok in \<open>blast dest: in_set_dropD\<close>)
  have "filter ?ok (uuid_str i) = uuid_hex i"
    using part [of 8 0] part [of 4 8] part [of 4 12] part [of 4 16] part' [of 20]
      join_uuid_parts [of "uuid_hex i"]
    by (simp add: uuid_str_def Let_def)
  moreover have "length (uuid_hex i) = 32" by (simp add: uuid_hex_def)
  moreover have "list_all (\<lambda>c. hex_value c \<noteq> None) (uuid_hex i)"
    using uuid_hex_chars [of i] by (simp add: list_all_iff)
  moreover have "fold (\<lambda>c n. 16 * n + the (hex_value c)) (uuid_hex i) 0 = i"
    using fold_uuid_digits [of 32 i] assms by (simp add: uuid_hex_def)
  ultimately show ?thesis unfolding parse_uuid_def Let_def by simp
qed

text \<open>An update of one row by its key.\<close>

lemma filter_key:
  "distinct_rows key rows \<Longrightarrow> find_row key k rows = Some r \<Longrightarrow> filter (\<lambda>x. key x = k) rows = [r]"
proof (induction rows)
  case Nil
  then show ?case by simp
next
  case (Cons x rows)
  have "filter (\<lambda>y. key y = key x) rows = []"
    using Cons.prems(1) by (auto simp: distinct_rows_def filter_empty_conv image_iff)
  with Cons show ?case by (auto simp: row_simps distinct_rows_def split: if_splits)
qed

lemma update_row_by_id:
  assumes "distinct_rows n_id (w_notifications w)"
    and "find_row n_id (n_id n) (w_notifications w) = Some n" "\<And>x. n_id (f x) = n_id x"
  shows "w\<lparr>w_notifications := update_rows (\<lambda>r. n_id r = n_id n) f (w_notifications w)\<rparr> =
    save_notification (f n) w"
  using update_rows_unique [OF assms(1) filter_key [OF assms(1,2)] assms(3)]
  by (simp add: save_notification_def)

lemma find_update_by_id:
  assumes "\<And>x. n_id (f x) = n_id x"
  shows "find_row n_id i (update_rows (\<lambda>r. n_id r = j) f rows) =
    (if i = j then map_option f (find_row n_id i rows) else find_row n_id i rows)"
  using assms by (auto simp: find_update_rows map_option_case dest: find_row_SomeD split: option.split)

lemma get_by_id: "get_notification_by_id i None w = find_row n_id i (w_notifications w)"
  by (simp add: get_notification_by_id_def query_first_key)

text \<open>Everything a text message needs to be sent now, by the named provider.\<close>

definition sms_ready ::
  "outside \<Rightarrow> world \<Rightarrow> notification \<Rightarrow> service \<Rightarrow> template \<Rightarrow> string \<Rightarrow> bool" where
  "sms_ready io w n s t name \<longleftrightarrow>
     find_row n_id (n_id n) (w_notifications w) = Some n \<and> n_status n = Created
     \<and> service_by_id (n_service_id n) w = Inr s \<and> svc_active s
     \<and> provider_to_use io Sms (n_international n) w = Inr (Some name)
     \<and> dao_get_template_by_id_and_service_id (n_template_id n) (svc_id s)
         (Some (n_template_version n)) w = Inr t"

abbreviation fragments_of :: "outside \<Rightarrow> notification \<Rightarrow> service \<Rightarrow> template \<Rightarrow> int" where
  "fragments_of io n s t \<equiv>
     out_fragments io t (n_personalisation n) (svc_name s) (svc_prefix_sms s)"

lemma send_sms_ready:
  assumes "sms_ready io w n s t name"
  shows "with_notification (n_id n) (send_sms_to_provider env io) w =
    send_sms_with env io n (fragments_of io n s t) (Some name) w"
  using assms by (simp add: sms_ready_def with_notification_def get_by_id send_sms_to_provider_def)

lemma created_goes_to_sending:
  "n_status n = Created \<Longrightarrow> sending_status n = (if n_international n then Sent else Sending)"
  by (simp add: sending_status_def NOTIFICATION_STATUS_TYPES_COMPLETED_def)

lemma celery_retry_first:
  assumes "celery_retry env" "retries < limit"
  obtains m where "lib_retry env retries limit exc = Task (CeleryRetry m)"
  using assms unfolding celery_retry_def by metis

lemma celery_retry_last:
  assumes "celery_retry env" "limit \<le> retries"
  shows "lib_retry env retries limit None = Task MaxRetriesExceededError"
  using assms unfolding celery_retry_def by (metis option.case(1) not_less)

lemma retry_while_left:
  assumes "celery_retry env" "retries < limit"
  shows "retry_or_give_up env retries limit i m w = (Inl (lib_retry env retries limit None), w)"
proof -
  obtain x where "lib_retry env retries limit None = Task (CeleryRetry x)"
    using celery_retry_first [OF assms] by blast
  then show ?thesis by (simp add: retry_or_give_up_def)
qed

lemma give_up_final:
  assumes "give_up env i m w = (r, w')" "find_row n_id i (w_notifications w') = Some n'"
    and "\<not> (n_type n' = Sms \<and> n_international n')"
  shows "n_status n' \<notin> set updatable_statuses"
proof (cases "find_row n_id i (w_notifications w)")
  case None
  then show ?thesis using assms(1,2)
    by (auto simp: give_up_def update_notification_status_by_id_def autocommit_def)
next
  case (Some n)
  show ?thesis
  proof (cases "n_status n \<in> set updatable_statuses")
    case False
    then have "w' = w" using assms(1) update_by_id_final [OF Some] by (auto simp: give_up_def)
    then show ?thesis using assms(2) Some False by simp
  next
    case True
    show ?thesis
    proof (cases "n_type n = Sms \<and> n_international n")
      case True
      have "n_type n' = n_type n \<and> n_international n' = n_international n"
      proof -
        obtain a b where run: "update_notification_status_by_id env i TechnicalFailure None None w = (a, b)"
          by fastforce
        then have "w' = b" using assms(1) by (cases a) (auto simp: give_up_def)
        with run show ?thesis using assms(2) Some find_row_SomeD [OF Some]
          by (cases rule: update_status_cases) (auto simp: row_simps)
      qed
      then show ?thesis using True assms(3) by simp
    next
      case False
      have "find_row n_id i (w_notifications w') = Some (receipt_row None TechnicalFailure None n (w_now w))"
        using assms(1) update_by_id_national [OF Some True False] find_row_SomeD [OF Some]
        by (auto simp: give_up_def row_simps)
      then show ?thesis using assms(2)
        by (simp add: receipt_row_def decide_permanent_temporary_failure_def updatable_statuses_def
            Let_def split: option.splits if_splits) 
    qed
  qed
qed

lemma sms_failure_row:
  assumes "\<not> sms_error_rate_exceeded env name w"
    and "distinct_rows n_id (w_notifications w)"
    and "find_row n_id (n_id n) (w_notifications w) = Some n"
  shows "sms_send_failed env n k (Some name) e w =
    (Inl e, save_notification (n\<lparr>n_billable_units := k, n_updated_at := Some (w_now w)\<rparr>) w)"
  using assms(1)
    update_row_by_id [OF assms(2,3), of "\<lambda>r. r\<lparr>n_billable_units := k, n_updated_at := Some (w_now w)\<rparr>"]
  by (simp add: sms_send_failed_def with_sms_client_def sms_error_rate_exceeded_def Let_def
      save_notification_def)

lemma sms_sent_row:
  assumes "n_status n = Created" "distinct_rows n_id (w_notifications w)"
    and "find_row n_id (n_id n) (w_notifications w) = Some n"
  shows "update_notification_to_sending n (\<lambda>r. r\<lparr>n_billable_units := k\<rparr>) name w =
    save_notification (n\<lparr>n_billable_units := k, n_sent_at := Some (w_now w), n_sent_by := Some name,
      n_status := (if n_international n then Sent else Sending), n_updated_at := Some (w_now w)\<rparr>) w"
proof -
  let ?s = "if n_international n then Sent else Sending"
  have "?s \<noteq> Created" by simp
  then have "update_notification_to_sending n (\<lambda>r. r\<lparr>n_billable_units := k\<rparr>) name w =
      w\<lparr>w_notifications := update_rows (\<lambda>r. n_id r = n_id n)
        (\<lambda>r. r\<lparr>n_billable_units := k, n_sent_at := Some (w_now w), n_sent_by := Some name,
              n_status := ?s, n_updated_at := Some (w_now w)\<rparr>) (w_notifications w)\<rparr>"
    using assms(1) by (simp only: update_notification_to_sending_def created_goes_to_sending
        if_False Let_def)
  also have "\<dots> = save_notification (n\<lparr>n_billable_units := k, n_sent_at := Some (w_now w),
      n_sent_by := Some name, n_status := ?s, n_updated_at := Some (w_now w)\<rparr>) w"
    by (rule update_row_by_id [OF assms(2,3)]) simp
  finally show ?thesis .
qed

section \<open>A concrete world\<close>

definition sample_service :: service where
  "sample_service =
     \<lparr>svc_id = 10, svc_name = ''Service'', svc_normalised_service_name = ''service'',
      svc_custom_email_sender_name = None, svc_email_sender_local_part = ''service'',
      svc_created_at = 0, svc_updated_at = None, svc_active = True, svc_restricted = False,
      svc_created_by_id = 5, svc_prefix_sms = True, svc_organisation_type = None, svc_crown = None,
      svc_rate_limit = 3000, svc_contact_link = None, svc_letter_message_limit = 100,
      svc_sms_message_limit = 100, svc_international_sms_message_limit = 10,
      svc_email_message_limit = 100, svc_messagebox_message_limit = 100, svc_count_as_live = True,
      svc_go_live_user_id = None, svc_go_live_at = None, svc_organisation_id = None,
      svc_email_branding = None, svc_letter_branding = None,
      svc_permissions = [SendType Email, SendType Sms, SendType Letter], svc_version = 1\<rparr>"

definition sample_template :: template where
  "sample_template =
     \<lparr>t_id = 20, t_name = ''Template'', t_type = Sms, t_created_at = 0, t_updated_at = None,
      t_content = ''Hello'', t_archived = False, t_hidden = False, t_subject = None,
      t_postage = None, t_letter_welsh_content = None, t_letter_welsh_subject = None,
      t_letter_languages = None, t_has_unsubscribe_link = False, t_service_id = 10,
      t_created_by_id = 5, t_version = 1, t_service_letter_contact_id = None,
      t_letter_attachment_id = None, t_folder = None\<rparr>"

definition sample_outside :: outside where
  \<comment> \<open>MMG is chosen, accepts the message, and nothing happens meanwhile\<close>
  "sample_outside =
     \<lparr>out_choose = (\<lambda>ps. fst (hd ps)), out_fragments = (\<lambda>t v n p. 1),
      out_sms = (\<lambda>_. HttpResponse 200 (JsonObject [])), out_meanwhile = id,
      out_ses = SesSent ''ref'', out_dvla_auth = None, out_dvla = DvlaStatus 200\<rparr>"

definition ready_notification :: notification where
  "ready_notification = sample_notification\<lparr>n_status := Created\<rparr>"

definition ready_world :: world where
  "ready_world = sample_world\<lparr>w_notifications := [ready_notification],
     w_services := [sample_service], w_template_history := [sample_template],
     w_providers := [sample_provider 1 ''mmg'' 100]\<rparr>"

lemma ready_notification_fields [simp]:
  "n_id ready_notification = 1" "n_status ready_notification = Created"
  "n_key_type ready_notification = NormalKey" "n_international ready_notification = False"
  "n_type ready_notification = Sms"
  by (simp_all add: ready_notification_def)

lemma ready_rows [simp]: "w_notifications ready_world = [ready_notification]"
  by (simp add: ready_world_def)

lemma ready_world_ready:
  "sms_ready (sample_outside\<lparr>out_meanwhile := f, out_sms := g\<rparr>) ready_world ready_notification
     sample_service sample_template ''mmg''"
proof -
  have "get_provider_details_by_notification_type Sms False ready_world = [sample_provider 1 ''mmg'' 100]"
    by (simp add: get_provider_details_by_notification_type_def ready_world_def sample_provider_def)
  then have "provider_to_use (sample_outside\<lparr>out_meanwhile := f, out_sms := g\<rparr>) Sms False ready_world
      = Inr (Some ''mmg'')"
    by (simp add: provider_to_use_def provider_weights_def sample_outside_def sample_provider_def
        get_client_by_name_and_type_def sms_client_names_def Let_def)
  then show ?thesis
    by (simp add: sms_ready_def row_simps service_by_id_def query_one_def ready_world_def
        sample_service_def dao_get_template_by_id_and_service_id_def sample_template_def
        ready_notification_def sample_notification_def)
qed

section \<open>Properties\<close>

text \<open>
  C30: the whole effect of a delivery attempt for a text message with a live key: the provider
  accepted it, and the row is sending (sent, for a message abroad) with the provider, the time
  and the fragments; or it failed, the fragments are stored, the row keeps its status and the task
  is tried again. Nothing else changes.
\<close>

theorem deliver_sms_effect:
  assumes "sms_ready io w n s t name" "n_key_type n \<noteq> TestKey" "out_meanwhile io = id"
    and "\<not> sms_error_rate_exceeded env name w" "distinct_rows n_id (w_notifications w)"
    and "celery_retry env" "retries < 48"
  shows "deliver_sms env io retries (n_id n) w =
    (case provider_send_sms name (out_sms io name) of
       Inr _ \<Rightarrow>
         (Inr (), save_notification (n\<lparr>n_billable_units := fragments_of io n s t,
            n_sent_at := Some (w_now w), n_sent_by := Some name,
            n_status := (if n_international n then Sent else Sending),
            n_updated_at := Some (w_now w)\<rparr>) w)
     | Inl _ \<Rightarrow>
         (Inl (lib_retry env retries 48 None),
          save_notification (n\<lparr>n_billable_units := fragments_of io n s t,
            n_updated_at := Some (w_now w)\<rparr>) w))"
proof -
  have row: "find_row n_id (n_id n) (w_notifications w) = Some n" and created: "n_status n = Created"
    using assms(1) by (simp_all add: sms_ready_def)
  have sent: "send_sms_with env io n (fragments_of io n s t) (Some name) w =
    (case provider_send_sms name (out_sms io name) of
       Inr _ \<Rightarrow> (Inr (), update_notification_to_sending n
                   (\<lambda>r. r\<lparr>n_billable_units := fragments_of io n s t\<rparr>) name w)
     | Inl e \<Rightarrow> sms_send_failed env n (fragments_of io n s t) (Some name) e w)"
    using assms(2,3) by (simp add: send_sms_with_def split: sum.split)
  show ?thesis
    unfolding deliver_sms_def send_sms_ready [OF assms(1)] sent
      sms_failure_row [OF assms(4,5) row] sms_sent_row [OF created assms(5) row]
    by (simp add: retry_while_left [OF assms(6,7)] split: sum.split)
qed

theorem deliver_sms_effect_witness:
  "fst (deliver_sms sample_env sample_outside 0 1 ready_world) = Inr ()"
proof -
  have ok: "provider_send_sms ''mmg'' (out_sms sample_outside ''mmg'') = Inr ()"
    by (simp add: provider_send_sms_def mmg_send_sms_def sample_outside_def raise_for_status_def)
  have ready: "sms_ready sample_outside ready_world ready_notification sample_service
      sample_template ''mmg''"
    using ready_world_ready [of "out_sms sample_outside" "out_meanwhile sample_outside"] by simp
  have calm: "\<not> sms_error_rate_exceeded sample_env ''mmg'' ready_world"
    by (simp add: sms_error_rate_exceeded_def sample_env_def)
  show ?thesis
    using deliver_sms_effect [OF ready _ _ calm _ sample_celery_retry, of 0] ok
    by (simp add: distinct_rows_def sample_outside_def)
qed

text \<open>
  A delivery task that has used up its retries and fails leaves no notification behind
  that still waits: its status is a technical failure, or one that was already final. The
  exception are text messages abroad.
\<close>

theorem giving_up_is_final:
  assumes "celery_retry env" "48 \<le> retries"
    and "deliver_sms env io retries i w = (Inl e, w') \<or> deliver_email env io retries i w = (Inl e, w')"
    and "find_row n_id i (w_notifications w') = Some n" "\<not> (n_type n = Sms \<and> n_international n)"
  shows "n_status n \<notin> set updatable_statuses"
proof -
  note last = celery_retry_last [OF assms(1,2)]
  have up: "n_status n \<notin> set updatable_statuses" if "retry_or_give_up env retries 48 i m v = (Inl e, w')" for m v
    using that last give_up_final [OF _ assms(4,5)] by (simp add: retry_or_give_up_def)
  have email: "n_status n \<notin> set updatable_statuses"
    if "op_bind (update_notification_status_by_id env i TechnicalFailure None None) (\<lambda>_. op_return ()) v
          = (Inl e, w')" for v
  proof (rule give_up_final [OF _ assms(4,5)])
    show "give_up env i [] v = (Inl e, w')"
      using that by (auto simp: give_up_def op_bind_def op_return_def split: prod.splits sum.splits)
  qed
  show ?thesis
    using assms(3) up email
    by (auto simp: deliver_sms_def deliver_email_def split: prod.splits sum.splits exn.splits
        client_exn.splits)
qed

theorem giving_up_is_final_witness:
  "\<exists>e w'. deliver_sms sample_env sample_outside 48 1
     (ready_world\<lparr>w_services := []\<rparr>) = (Inl e, w')
   \<and> (\<exists>n. find_row n_id 1 (w_notifications w') = Some n \<and> n_status n \<notin> set updatable_statuses)"
proof -
  let ?w = "ready_world\<lparr>w_services := []\<rparr>"
  obtain e w' where run: "deliver_sms sample_env sample_outside 48 1 ?w = (Inl e, w')"
      and row: "find_row n_id 1 (w_notifications w') =
        Some (receipt_row None TechnicalFailure None ready_notification (w_now ?w))"
    using celery_retry_last [OF sample_celery_retry, of 48 48]
      update_by_id_national [of 1 ?w ready_notification]
    by (simp add: deliver_sms_def with_notification_def get_by_id row_simps send_sms_to_provider_def
        service_by_id_def query_one_def retry_or_give_up_def give_up_def updatable_statuses_def)
  have "\<not> (n_type (receipt_row None TechnicalFailure None ready_notification (w_now ?w)) = Sms
      \<and> n_international (receipt_row None TechnicalFailure None ready_notification (w_now ?w)))"
    by (simp add: receipt_row_def Let_def)
  then show ?thesis
    using giving_up_is_final [OF sample_celery_retry _ _ row] run row by blast
qed

text \<open>
  A redelivered task sends nothing twice. For an active service, a notification that is no
  longer in its first status is left alone by both delivery tasks, whatever the providers would
  answer.
\<close>

theorem redelivery_is_noop:
  assumes "find_row n_id i (w_notifications w) = Some n" "n_status n \<noteq> Created"
    and "service_by_id (n_service_id n) w = Inr s" "svc_active s"
  shows "deliver_sms env io retries i w = (Inr (), w) \<and> deliver_email env io retries i w = (Inr (), w)"
  using assms by (simp add: deliver_sms_def deliver_email_def with_notification_def get_by_id
      send_sms_to_provider_def send_email_to_provider_def)

theorem redelivery_is_noop_witness:
  "deliver_sms sample_env sample_outside 0 1 (ready_world\<lparr>w_notifications := [sample_notification]\<rparr>)
     = (Inr (), ready_world\<lparr>w_notifications := [sample_notification]\<rparr>)"
  using redelivery_is_noop [of 1 "ready_world\<lparr>w_notifications := [sample_notification]\<rparr>"
      sample_notification sample_service]
  by (simp add: row_simps service_by_id_def query_one_def ready_world_def sample_service_def)

text \<open>
  The order of the two checks matters: for a service that was made inactive, a redelivered
  task turns a notification of any status, a delivered one included, into a technical failure,
  and is then tried again.
\<close>

theorem inactive_service_overwrites_status:
  assumes "find_row n_id i (w_notifications w) = Some n"
    and "service_by_id (n_service_id n) w = Inr s" "\<not> svc_active s"
    and "celery_retry env" "retries < 48"
  shows "deliver_sms env io retries i w =
    (Inl (lib_retry env retries 48 None),
     save_notification (n\<lparr>n_status := TechnicalFailure, n_updated_at := Some (w_now w)\<rparr>) w)"
proof -
  have id: "n_id n = i" using assms(1) by (auto dest: find_row_SomeD)
  show ?thesis
    using assms(1-3) retry_while_left [OF assms(4,5)]
    by (simp add: deliver_sms_def with_notification_def get_by_id send_sms_to_provider_def
        technical_failure_def dao_update_notification_def Let_def)
qed

theorem inactive_service_overwrites_status_witness:
  "let w = ready_world\<lparr>w_notifications := [sample_notification],
         w_services := [sample_service\<lparr>svc_active := False\<rparr>]\<rparr>
   in snd (deliver_sms sample_env sample_outside 0 1 w) =
        save_notification (sample_notification\<lparr>n_status := TechnicalFailure, n_updated_at := Some 0\<rparr>) w"
  using inactive_service_overwrites_status [OF _ _ _ sample_celery_retry,
      of 1 "ready_world\<lparr>w_notifications := [sample_notification],
         w_services := [sample_service\<lparr>svc_active := False\<rparr>]\<rparr>" sample_notification
      "sample_service\<lparr>svc_active := False\<rparr>" 0 sample_outside]
  by (simp add: row_simps service_by_id_def query_one_def ready_world_def sample_service_def
      sample_world_def Let_def)

text \<open>
  The status a receipt recorded while the provider was being called is lost. The session is
  closed during the call, so the status is decided on the row as it was loaded: whatever row
  \<open>m\<close> is in the table when the provider's call returns, it ends up sending (or sent).
\<close>

theorem concurrent_receipt_overwritten:
  assumes "sms_ready io w n s t name" "n_key_type n \<noteq> TestKey"
    and "provider_send_sms name (out_sms io name) = Inr ()"
    and "find_row n_id (n_id n) (w_notifications (out_meanwhile io w)) = Some m"
  shows "\<exists>m'. find_row n_id (n_id n)
      (w_notifications (snd (deliver_sms env io retries (n_id n) w))) = Some m'
    \<and> n_status m' = (if n_international n then Sent else Sending)"
proof -
  have created: "n_status n = Created" using assms(1) by (simp add: sms_ready_def)
  have "deliver_sms env io retries (n_id n) w = (Inr (), update_notification_to_sending n
      (\<lambda>r. r\<lparr>n_billable_units := fragments_of io n s t\<rparr>) name (out_meanwhile io w))"
    using assms(2,3) by (simp add: deliver_sms_def send_sms_ready [OF assms(1)] send_sms_with_def)
  then show ?thesis
    using assms(4) created
    by (simp add: update_notification_to_sending_def find_update_by_id Let_def created_goes_to_sending)
qed

theorem concurrent_receipt_overwritten_witness:
  "\<exists>m'. find_row n_id 1 (w_notifications (snd (deliver_sms sample_env
       (sample_outside\<lparr>out_meanwhile := save_notification sample_notification\<rparr>) 0 1 ready_world)))
     = Some m' \<and> n_status m' = Sending"
proof -
  let ?io = "sample_outside\<lparr>out_meanwhile := save_notification sample_notification,
    out_sms := out_sms sample_outside\<rparr>"
  have ok: "provider_send_sms ''mmg'' (out_sms ?io ''mmg'') = Inr ()"
    by (simp add: provider_send_sms_def mmg_send_sms_def sample_outside_def raise_for_status_def)
  have row: "find_row n_id (n_id ready_notification) (w_notifications (out_meanwhile ?io ready_world))
      = Some sample_notification"
    by (simp add: row_simps)
  show ?thesis
    using concurrent_receipt_overwritten [OF ready_world_ready _ ok row, of sample_env 0] by simp
qed

lemma truncate_line_length:
  "length (truncate_line k v) \<le> (if k = ''postcode'' then 40 else if k = ''country'' then 256 else 45)"
  by (simp add: truncate_line_def)

lemma length_dict_set:
  "length (dict_set k v d) = (if k \<in> fst ` set d then length d else Suc (length d))"
  by (induction d) (auto simp: rev_image_eqI)

text \<open>
  The print job DVLA gets is within its bounds: the recipient at most 255 characters, at most
  six lines of address, each cut to its length; without lines the address raises \<open>IndexError\<close>.
\<close>

theorem print_job_fits:
  "case format_create_print_job i reference a postage service_id organisation_id pdf url of
     Inl e \<Rightarrow> e = Py IndexError
   | Inr j \<Rightarrow> length (pj_recipient j) \<le> 255 \<and> length (pj_address j) \<le> 6
       \<and> list_all (\<lambda>(k, v). length v \<le> (if k = ''postcode'' then 40
           else if k = ''country'' then 256 else 45)) (pj_address j)"
proof -
  have fits: "list_all (\<lambda>(k, v). length v \<le> (if k = ''postcode'' then 40
      else if k = ''country'' then 256 else 45)) (truncate_long_address_lines d)" for d
    using truncate_line_length by (auto simp: truncate_long_address_lines_def list_all_iff)
  have small: "length d \<le> 6" if "parse_recipient_and_address postage a = Inr (r, ty, d)" for r ty d
    using that
    by (auto simp: parse_recipient_and_address_def parse_bfpo_recipient_and_address_def
        build_address_def list_pop_def res_bind_Inr_iff Let_def length_dict_set
        split: if_splits list.splits option.splits)
  have errs: "e = Py IndexError" if "parse_recipient_and_address postage a = Inl e" for e
    using that by (auto simp: parse_recipient_and_address_def parse_bfpo_recipient_and_address_def
        build_address_def list_pop_def res_bind_Inl_iff Let_def
        split: if_splits list.splits)
  show ?thesis
  proof (cases "parse_recipient_and_address postage a")
    case (Inl e)
    then show ?thesis using errs by (simp add: format_create_print_job_def)
  next
    case (Inr x)
    obtain r ty d where "x = (r, ty, d)" by (cases x)
    then show ?thesis
      using Inr small fits by (simp add: format_create_print_job_def truncate_long_address_lines_def)
  qed
qed

definition run_sms_callback :: "env \<Rightarrow> fragment_fn \<Rightarrow> celery_task \<Rightarrow> unit op" where
  \<comment> \<open>a worker of the receipts' queue\<close>
  "run_sms_callback env fragments t w =
     (case t of
        TProcessSmsClientResponse st r client code \<Rightarrow>
          process_sms_client_response env fragments st r client code w
      | _ \<Rightarrow> (Inr (), w))"

lemma process_for_status_records:
  assumes "find_row n_id i (w_notifications w) = Some n" "n_status n \<in> set updatable_statuses"
    and "\<not> (n_type n = Sms \<and> n_international n)"
    and "find_row svc_id (n_service_id n) (w_services w) = Some s"
    and "dao_get_template_by_id (n_template_id n) (Some (n_template_version n)) w = Inr t"
  shows "\<exists>w' n'. process_for_status env fragments name st i code w = (Inr (), w')
    \<and> find_row n_id i (w_notifications w') = Some n'
    \<and> n_status n' = n_status (receipt_row (Some (py_lower name)) st code n (w_now w))"
proof -
  let ?n = "receipt_row (Some (py_lower name)) st code n (w_now w)"
  have id: "n_id n = i" using assms(1) by (auto dest: find_row_SomeD)
  have fields: "n_template_id ?n = n_template_id n" "n_template_version ?n = n_template_version n"
    by (simp_all add: receipt_row_def Let_def)
  have same: "dao_get_template_by_id a b (save_notification m w) = dao_get_template_by_id a b w"
    "w_services (save_notification m w) = w_services w" "w_now (save_notification m w) = w_now w"
    for a b m
    by (simp_all add: dao_get_template_by_id_def save_notification_def split: option.split)
  obtain n' w' where fill: "fill_billable_units fragments ?n (save_notification ?n w) = (Inr n', w')"
      "find_row n_id i (w_notifications w') = Some n'" "n_status n' = n_status ?n"
  proof (cases "n_billable_units n = 0")
    case True
    let ?m = "?n\<lparr>n_billable_units :=
        fragments t (n_personalisation ?n) (svc_name s) (svc_prefix_sms s)\<rparr>"
    have "fill_billable_units fragments ?n (save_notification ?n w) =
        (Inr (?m\<lparr>n_updated_at := Some (w_now w)\<rparr>),
         save_notification (?m\<lparr>n_updated_at := Some (w_now w)\<rparr>) (save_notification ?n w))"
      using True assms(4,5)
      by (simp add: fill_billable_units_def fields same dao_update_notification_def Let_def)
    then show ?thesis using that id by (simp add: row_simps)
  next
    case False
    then show ?thesis using that [of ?n] id by (simp add: fill_billable_units_def row_simps)
  qed
  show ?thesis
    using fill by (auto simp: process_for_status_def update_by_id_national [OF assms(1-3)]
        check_and_queue_live)
qed

lemma fake_receipt:
  assumes "name \<in> {''mmg'', ''firetext''}" "\<not> ends_with recipient temp_fail"
    "\<not> ends_with recipient perm_fail"
  obtains st client parse code where
    "send_sms_response name (uuid_str i) recipient w =
       (Inr (), enqueue SMS_CALLBACKS
          (TProcessSmsClientResponse st (Some (uuid_str i)) client code) w)"
    "map_of sms_response_mapper client = Some parse" "\<exists>d. parse st code = Inr (Delivered, d)"
proof (cases "name = ''mmg''")
  case True
  have "send_sms_response name (uuid_str i) recipient w =
      (Inr (), enqueue SMS_CALLBACKS (TProcessSmsClientResponse ''3'' (Some (uuid_str i)) ''MMG''
         (Some ''None'')) w)"
    using True assms(2,3)
    by (simp add: send_sms_response_def make_request_def mmg_callback_def process_mmg_response_def
        validate_callback_data_def form_get_def str_get_def uuid_str_def Let_def)
  moreover have "\<exists>d. get_mmg_responses ''3'' c = Inr (Delivered, d)" for c
    by (simp add: get_mmg_responses_def lookup_response_def mmg_response_map_def)
  ultimately show ?thesis
    using that [of "''3''" "''MMG''" _ get_mmg_responses] by (simp add: sms_response_mapper_def)
next
  case False
  then have name: "name = ''firetext''" using assms(1) by simp
  have "send_sms_response name (uuid_str i) recipient w =
      (Inr (), enqueue SMS_CALLBACKS (TProcessSmsClientResponse ''0'' (Some (uuid_str i)) ''Firetext''
         None) w)"
    using name assms(2,3)
    by (simp add: send_sms_response_def make_request_def firetext_callback_def
        process_firetext_response_def validate_callback_data_def form_get_def str_get_def
        uuid_str_def Let_def)
  moreover have "\<exists>d. get_firetext_responses ''0'' c = Inr (Delivered, d)" for c
    by (simp add: get_firetext_responses_def firetext_responses_def)
  ultimately show ?thesis
    using that [of "''0''" "''Firetext''" _ get_firetext_responses]
    by (simp add: sms_response_mapper_def)
qed

text \<open>
  End to end, a text message sent with a test key. The delivery task leaves the row sending and
  posts a made-up receipt to the provider's own endpoint; the task that endpoint queues, run by
  a worker, parses the receipt's reference back into the notification and marks it delivered.
\<close>

theorem test_message_is_delivered:
  assumes "sms_ready io w n s t name" "n_key_type n = TestKey" "name \<in> {''mmg'', ''firetext''}"
    and "\<not> ends_with (n_to n) temp_fail" "\<not> ends_with (n_to n) perm_fail"
    and "n_id n < 2 ^ 128" "\<not> n_international n"
    and "find_row svc_id (n_service_id n) (w_services w) = Some s"
    and "dao_get_template_by_id (n_template_id n) (Some (n_template_version n)) w = Inr t'"
  shows "let w1 = snd (deliver_sms env io retries (n_id n) w);
             (r, w2) = run_sms_callback env fragments (snd (last (w_tasks w1))) w1
    in r = Inr () \<and> map_option n_status (find_row n_id (n_id n) (w_notifications w2)) = Some Delivered"
proof -
  let ?v = "update_notification_to_sending n id name w"
  obtain st client parse code where sent:
    "send_sms_response name (uuid_str (n_id n)) (n_to n) ?v =
       (Inr (), enqueue SMS_CALLBACKS
          (TProcessSmsClientResponse st (Some (uuid_str (n_id n))) client code) ?v)"
    and parse: "map_of sms_response_mapper client = Some parse" "\<exists>d. parse st code = Inr (Delivered, d)"
    using fake_receipt [OF assms(3-5)] by metis
  define w1 where "w1 = enqueue SMS_CALLBACKS
    (TProcessSmsClientResponse st (Some (uuid_str (n_id n))) client code) ?v"
  have run: "deliver_sms env io retries (n_id n) w = (Inr (), w1)"
    using assms(2) sent
    by (simp add: deliver_sms_def send_sms_ready [OF assms(1)] send_sms_with_def with_sms_client_def
        w1_def)
  define m where "m = n\<lparr>n_sent_at := Some (w_now w), n_sent_by := Some name, n_status := Sending,
    n_updated_at := Some (w_now w)\<rparr>"
  have row: "find_row n_id (n_id n) (w_notifications w1) = Some m"
    using assms(1,7) by (simp add: w1_def enqueue_def update_notification_to_sending_def
        find_update_by_id Let_def m_def sms_ready_def created_goes_to_sending)
  have others: "w_services w1 = w_services w" "w_template_history w1 = w_template_history w"
      "w_templates w1 = w_templates w" "w_now w1 = w_now w"
    by (simp_all add: w1_def enqueue_def update_notification_to_sending_def)
  obtain d where d: "parse st code = Inr (Delivered, d)" using parse(2) by blast
  obtain w2 n' where rec: "process_for_status env fragments client Delivered (n_id n) code w1 = (Inr (), w2)"
      "find_row n_id (n_id n) (w_notifications w2) = Some n'"
      "n_status n' = n_status (receipt_row (Some (py_lower client)) Delivered code m (w_now w1))"
    using process_for_status_records [OF row, of s t' env fragments client Delivered code] assms(7-9)
    by (auto simp: others dao_get_template_by_id_def m_def updatable_statuses_def)
  have "n_status n' = Delivered"
    by (simp add: rec(3) receipt_row_def decide_permanent_temporary_failure_def Let_def
        split: option.split)
  moreover have "snd (last (w_tasks w1)) =
      TProcessSmsClientResponse st (Some (uuid_str (n_id n))) client code"
    by (simp add: w1_def enqueue_def)
  then have "run_sms_callback env fragments (snd (last (w_tasks w1))) w1 = (Inr (), w2)"
    using rec(1) parse(1) d
      response_parser.task_known [OF sms_mapper_parser [OF parse(1)] parse_uuid_str [OF assms(6)] d]
    by (simp add: run_sms_callback_def process_sms_client_response_def)
  ultimately show ?thesis using rec(2) by (simp add: run)
qed

theorem test_message_is_delivered_witness:
  "let n = ready_notification\<lparr>n_key_type := TestKey\<rparr>;
       w = ready_world\<lparr>w_notifications := [n]\<rparr>;
       w1 = snd (deliver_sms sample_env sample_outside 0 1 w)
   in fst (run_sms_callback sample_env (\<lambda>t v n p. 1) (snd (last (w_tasks w1))) w1) = Inr ()"
proof -
  let ?n = "ready_notification\<lparr>n_key_type := TestKey\<rparr>"
  let ?w = "ready_world\<lparr>w_notifications := [?n]\<rparr>"
  have "get_provider_details_by_notification_type Sms False ?w = [sample_provider 1 ''mmg'' 100]"
    by (simp add: get_provider_details_by_notification_type_def ready_world_def sample_provider_def)
  then have "provider_to_use sample_outside Sms False ?w = Inr (Some ''mmg'')"
    by (simp add: provider_to_use_def provider_weights_def sample_outside_def sample_provider_def
        get_client_by_name_and_type_def sms_client_names_def Let_def)
  then have ready: "sms_ready sample_outside ?w ?n sample_service sample_template ''mmg''"
    by (simp add: sms_ready_def row_simps service_by_id_def query_one_def ready_world_def
        sample_service_def dao_get_template_by_id_and_service_id_def sample_template_def
        ready_notification_def sample_notification_def)
  have number: "n_to ?n = ''447900900123''"
    by (simp add: ready_notification_def)
  have plain: "\<not> ends_with (n_to ?n) temp_fail" "\<not> ends_with (n_to ?n) perm_fail"
    unfolding number by code_simp+
  have found: "find_row svc_id (n_service_id ?n) (w_services ?w) = Some sample_service"
    by (simp add: row_simps ready_world_def sample_service_def ready_notification_def)
  have template: "dao_get_template_by_id (n_template_id ?n) (Some (n_template_version ?n)) ?w
      = Inr sample_template"
    by (simp add: dao_get_template_by_id_def query_one_def ready_world_def sample_template_def
        ready_notification_def sample_notification_def)
  show ?thesis
    using test_message_is_delivered [OF ready _ _ plain _ _ found template,
        of sample_env 0 "\<lambda>t v n p. 1"]
    by (simp add: Let_def split: prod.splits)
qed

text \<open>
  The provider a notification is sent with is active, sends its type, sends abroad when it must,
  and has a positive priority unless it is the only one.
\<close>

theorem chosen_provider_can_send:
  assumes "random_choice io" "provider_to_use io t international w = Inr (Some name)"
  shows "\<exists>p \<in> set (w_providers w). p_identifier p = name \<and> p_active p \<and> p_notification_type p = t
    \<and> (p_supports_international p \<or> \<not> international)
    \<and> (p_priority p > 0 \<or> length (filter p_active
          (get_provider_details_by_notification_type t international w)) = 1)"
proof -
  define ps where "ps = filter p_active (get_provider_details_by_notification_type t international w)"
  have run: "ps \<noteq> []" "0 < sum_list (map snd (provider_weights ps))"
      "p_identifier (out_choose io (provider_weights ps)) = name"
    using assms(2) by (auto simp: provider_to_use_def ps_def Let_def get_client_by_name_and_type_def
        split: if_splits)
  have "\<exists>p v. (p, v) \<in> set (provider_weights ps) \<and> 0 < v"
  proof (rule ccontr)
    assume "\<not> ?thesis"
    then have "sum_list (map snd (provider_weights ps)) \<le> 0"
      by (intro sum_list_nonpos) (auto simp: not_less)
    then show False using run(2) by simp
  qed
  then obtain v where v: "(out_choose io (provider_weights ps), v) \<in> set (provider_weights ps)" "0 < v"
    using assms(1) unfolding random_choice_def by blast
  then have "out_choose io (provider_weights ps) \<in> set ps"
      "v = p_priority (out_choose io (provider_weights ps)) \<or> length ps = 1"
    by (auto simp: provider_weights_def split: if_splits)
  then show ?thesis
    using v(2) run(3)
    by (intro bexI [of _ "out_choose io (provider_weights ps)"])
      (auto simp: ps_def get_provider_details_by_notification_type_def)
qed

theorem chosen_provider_can_send_witness:
  "\<exists>p \<in> set (w_providers ready_world). p_identifier p = ''mmg'' \<and> p_active p"
proof -
  have "random_choice (sample_outside\<lparr>out_choose := \<lambda>ps. fst (hd (filter (\<lambda>x. 0 < snd x) ps))\<rparr>)"
    unfolding random_choice_def
  proof (intro allI impI)
    fix ps :: "(provider_details \<times> int) list"
    assume "\<exists>p v. (p, v) \<in> set ps \<and> 0 < v"
    then have "filter (\<lambda>x. 0 < snd x) ps \<noteq> []"
      by (force simp: filter_empty_conv)
    then have "hd (filter (\<lambda>x. 0 < snd x) ps) \<in> set (filter (\<lambda>x. 0 < snd x) ps)" by (rule hd_in_set)
    then show "\<exists>v. (out_choose (sample_outside\<lparr>out_choose := \<lambda>ps. fst (hd (filter (\<lambda>x. 0 < snd x) ps))\<rparr>)
        ps, v) \<in> set ps \<and> 0 < v"
      by (intro exI [of _ "snd (hd (filter (\<lambda>x. 0 < snd x) ps))"]) simp
  qed
  moreover have "provider_to_use (sample_outside\<lparr>out_choose := \<lambda>ps. fst (hd (filter (\<lambda>x. 0 < snd x) ps))\<rparr>)
      Sms False ready_world = Inr (Some ''mmg'')"
    by (simp add: provider_to_use_def provider_weights_def sample_outside_def sample_provider_def
        get_client_by_name_and_type_def sms_client_names_def Let_def ready_world_def
        get_provider_details_by_notification_type_def)
  ultimately show ?thesis using chosen_provider_can_send by blast
qed

text \<open>
  A text message abroad, to a country without delivery receipts, that fails 48 retries long: the
  task says it set the notification to technical failure, but the update skips such messages,
  so the row stays created.
\<close>

theorem international_failure_stays_created:
  assumes "sms_ready io w n s t name" "n_key_type n \<noteq> TestKey" "out_meanwhile io = id"
    and "\<not> sms_error_rate_exceeded env name w" "distinct_rows n_id (w_notifications w)"
    and "celery_retry env" "48 \<le> retries"
    and "n_type n = Sms" "n_international n"
    and "country_records_delivery env (n_phone_prefix n) = Inr False"
    and "provider_send_sms name (out_sms io name) = Inl e"
  shows "\<exists>m w'. deliver_sms env io retries (n_id n) w = (Inl (technical_failure_exn m), w')
    \<and> map_option n_status (find_row n_id (n_id n) (w_notifications w')) = Some Created"
proof -
  have row: "find_row n_id (n_id n) (w_notifications w) = Some n" and created: "n_status n = Created"
    using assms(1) by (simp_all add: sms_ready_def)
  let ?n = "n\<lparr>n_billable_units := fragments_of io n s t, n_updated_at := Some (w_now w)\<rparr>"
  have "send_sms_with env io n (fragments_of io n s t) (Some name) w = (Inl e, save_notification ?n w)"
    using assms(2,3,11) sms_failure_row [OF assms(4,5) row] by (simp add: send_sms_with_def)
  moreover have "update_notification_status_by_id env (n_id n) TechnicalFailure None None
      (save_notification ?n w) = (Inr None, save_notification ?n w)"
    using assms(8-10) created
    by (simp add: update_notification_status_by_id_def row_simps updatable_statuses_def)
  ultimately have "\<exists>m. deliver_sms env io retries (n_id n) w =
      (Inl (technical_failure_exn m), save_notification ?n w)"
    using celery_retry_last [OF assms(6,7)]
    by (auto simp: deliver_sms_def send_sms_ready [OF assms(1)] retry_or_give_up_def give_up_def)
  then show ?thesis using created by (auto simp: row_simps)
qed

theorem international_failure_stays_created_witness:
  "let n = ready_notification\<lparr>n_international := True, n_phone_prefix := Some ''1''\<rparr>;
       w = ready_world\<lparr>w_notifications := [n]\<rparr>
   in \<exists>m w'. deliver_sms sample_env (sample_outside\<lparr>out_sms := \<lambda>_. RequestException\<rparr>) 48 1 w =
          (Inl (technical_failure_exn m), w')
        \<and> map_option n_status (find_row n_id 1 (w_notifications w')) = Some Created"
proof -
  let ?n = "ready_notification\<lparr>n_international := True, n_phone_prefix := Some ''1''\<rparr>"
  let ?w = "ready_world\<lparr>w_notifications := [?n]\<rparr>"
  let ?io = "sample_outside\<lparr>out_sms := \<lambda>_. RequestException\<rparr>"
  have "get_provider_details_by_notification_type Sms True ?w = [sample_provider 1 ''mmg'' 100]"
    by (simp add: get_provider_details_by_notification_type_def ready_world_def sample_provider_def)
  then have "provider_to_use ?io Sms True ?w = Inr (Some ''mmg'')"
    by (simp add: provider_to_use_def provider_weights_def sample_outside_def sample_provider_def
        get_client_by_name_and_type_def sms_client_names_def Let_def)
  then have ready: "sms_ready ?io ?w ?n sample_service sample_template ''mmg''"
    by (simp add: sms_ready_def row_simps service_by_id_def query_one_def ready_world_def
        sample_service_def dao_get_template_by_id_and_service_id_def sample_template_def
        ready_notification_def sample_notification_def)
  have calm: "\<not> sms_error_rate_exceeded sample_env ''mmg'' ?w"
    by (simp add: sms_error_rate_exceeded_def sample_env_def)
  have no_receipts: "country_records_delivery sample_env (n_phone_prefix ?n) = Inr False"
    by (simp add: country_records_delivery_def sample_env_def py_lower_def lower_char_def)
  have failing: "provider_send_sms ''mmg'' (out_sms ?io ''mmg'') = Inl (sms_client_exn ''Request failed'')"
    by (simp add: provider_send_sms_def mmg_send_sms_def)
  show ?thesis
    using international_failure_stays_created [OF ready _ _ calm _ sample_celery_retry _ _ _
        no_receipts failing, of 48]
    by (simp add: distinct_rows_def sample_outside_def)
qed

end
