(* ===== verification/Validation.thy ===== *)
theory Validation
  imports Delivery Senders
begin

text \<open>
  The checks of a request and the creation of a notification:
  \<^verbatim>\<open>app/notifications/validators.py\<close>, \<^verbatim>\<open>app/notifications/process_notifications.py\<close>,
  \<^verbatim>\<open>app/service/utils.py\<close> and \<^verbatim>\<open>app/notifications/process_letter_notifications.py\<close>. The
  libraries they call (phone numbers, addresses, templates, signing) and what publishing a
  message to the broker raises are the fields of \<open>api_lib\<close>. Templates and services are read
  from their tables, without the caches in front of them; typographic quotes in messages are
  plain ones.
\<close>

fun py_join :: "string \<Rightarrow> string list \<Rightarrow> string" where
  "py_join sep [] = []"
| "py_join sep [x] = x"
| "py_join sep (x # y # xs) = x @ sep @ py_join sep (y # xs)"

section \<open>What the libraries give\<close>

record phone =
  ph_uk :: bool
  ph_normalised :: string
  ph_international :: bool
  ph_crown_dependency :: bool
  ph_country_prefix :: string
  ph_rate_multiplier :: rat

record rendered =
  rd_missing :: "string list"
  rd_empty :: bool
  rd_too_long :: bool
  rd_count :: int
  rd_bytes :: int
  rd_qr_error :: "(int \<times> int) option"
  rd_subject :: string
  rd_content :: string

record recipient_address =
  ra_enough_lines :: bool
  ra_too_many_lines :: bool
  ra_invalid_characters :: bool
  ra_international :: bool
  ra_postcode :: "string option"
  ra_city :: "string option"
  ra_postage :: "postage option"
  ra_normalised :: string

record file_upload =
  fu_file :: string
  fu_is_csv :: "bool option"
  fu_confirm_email :: "bool option"
  fu_retention_period :: "string option"
  fu_filename :: "string option"

text \<open>
  A template as the code reads it: its row and the text of its reply-to. \<open>al_render\<close> takes the
  type, content, subject and contact block of the template and the personalisation; \<open>al_publish\<close>
  is what \<open>apply_async\<close> raises for a message, if it raises; \<open>al_file\<close> reads a file of the
  personalisation by its schema.
\<close>

record serialised_template =
  st_row :: template
  st_reply_to_text :: "string option"

record api_lib =
  al_phone :: "string \<Rightarrow> phone result"
  al_validate_phone :: "phone \<Rightarrow> bool \<Rightarrow> bool \<Rightarrow> unit result"
  al_nl_prefix :: string
  al_allowed_to_send_to :: "string \<Rightarrow> string option list \<Rightarrow> bool"
  al_render :: "ntype \<Rightarrow> string \<Rightarrow> string option \<Rightarrow> string option \<Rightarrow> personalisation \<Rightarrow> rendered"
  al_format_email :: "string \<Rightarrow> string result"
  al_address :: "personalisation \<Rightarrow> bool \<Rightarrow> recipient_address"
  al_sign :: "personalisation \<Rightarrow> string"
  al_base64 :: "string \<Rightarrow> string option"
  al_file :: "(string \<times> string) list \<Rightarrow> file_upload result"
  al_upload_document :: "uuid \<Rightarrow> file_upload \<Rightarrow> string option \<Rightarrow> string result"
  al_simulated_upload_url :: "uuid \<Rightarrow> string"
  al_publish :: "queue \<Rightarrow> celery_task \<Rightarrow> exn option"
  al_random_identifier :: "nat \<Rightarrow> string"
  al_sms_char_limit :: int
  al_address_min_lines :: int
  al_address_max_lines :: int
  al_admin_url :: string
  al_email_domain :: string
  al_notify_user_id :: uuid
  al_fake_letter_delivery :: bool

definition apply_async :: "api_lib \<Rightarrow> queue \<Rightarrow> celery_task \<Rightarrow> unit op" where
  "apply_async lib q t w =
     (case al_publish lib q t of Some e \<Rightarrow> (Inl e, w) | None \<Rightarrow> (Inr (), enqueue q t w))"

lemma apply_async_simps [simp]:
  "al_publish lib q t = None \<Longrightarrow> apply_async lib q t w = (Inr (), enqueue q t w)"
  "al_publish lib q t = Some e \<Longrightarrow> apply_async lib q t w = (Inl e, w)"
  by (simp_all add: apply_async_def)

section \<open>Limits\<close>

definition check_service_over_api_rate_limit :: "env \<Rightarrow> service \<Rightarrow> key_type \<Rightarrow> world \<Rightarrow> unit result" where
  "check_service_over_api_rate_limit env s k w =
     (if cfg_api_rate_limit_enabled env \<and> cfg_redis_enabled env
         \<and> lib_exceeded_rate_limit env (lib_rate_limit_key env (svc_id s) k) (svc_rate_limit s) 60 (w_now w)
      then Inl (Api (RateLimitError (svc_rate_limit s) 60 k)) else Inr ())"

definition rate_limits :: "service \<Rightarrow> (string \<times> int) list" where
  "rate_limits s =
     [(ntype_name Email, svc_email_message_limit s), (ntype_name Sms, svc_sms_message_limit s),
      (service_permission_name InternationalSms, svc_international_sms_message_limit s),
      (ntype_name Letter, svc_letter_message_limit s),
      (ntype_name Messagebox, svc_messagebox_message_limit s)]"

definition daily_key :: "env \<Rightarrow> service \<Rightarrow> string \<Rightarrow> world \<Rightarrow> string" where
  "daily_key env s name w = lib_daily_limit_key env (date_of (w_now w)) (svc_id s) name"

definition check_service_over_daily_message_limit ::
  "env \<Rightarrow> service \<Rightarrow> key_type \<Rightarrow> string \<Rightarrow> int \<Rightarrow> unit op" where
  "check_service_over_daily_message_limit env s k name num_notifications w =
     (if k = TestKey \<or> \<not> cfg_redis_enabled env then (Inr (), w)
      else
        (case map_of (rate_limits s) name of
           None \<Rightarrow> (Inl (Py (KeyError name)), w)
         | Some limit \<Rightarrow>
             (let key = daily_key env s name w;
                  (service_stats, w1) =
                    (case redis_get key w of None \<Rightarrow> (0, redis_set key 0 w) | Some v \<Rightarrow> (v, w))
              in if service_stats + num_notifications > limit
                 then (Inl (Api (TooManyRequestsError name limit)), w1)
                 else (Inr (), w1))))"

definition check_rate_limiting :: "env \<Rightarrow> service \<Rightarrow> api_key \<Rightarrow> string \<Rightarrow> unit op" where
  "check_rate_limiting env s key name =
     op_bind (\<lambda>w. (check_service_over_api_rate_limit env s (k_key_type key) w, w))
       (\<lambda>_. check_service_over_daily_message_limit env s (k_key_type key) name 1)"

section \<open>Templates, recipients and permissions\<close>

definition check_template_is_for_notification_type :: "ntype \<Rightarrow> ntype \<Rightarrow> unit result" where
  "check_template_is_for_notification_type t template_type =
     (if t \<noteq> template_type
      then Inl (bad_request (ntype_name template_type @ '' template is not suitable for ''
             @ ntype_name t @ '' notification''))
      else Inr ())"

definition check_template_is_active :: "template \<Rightarrow> unit result" where
  "check_template_is_active t =
     (if t_archived t then Inl (bad_request ''Template has been deleted'') else Inr ())"

definition dao_fetch_service_by_id :: "uuid \<Rightarrow> bool \<Rightarrow> world \<Rightarrow> service result" where
  "dao_fetch_service_by_id i only_active w =
     query_one (Db NoResultFound) (Db MultipleResultsFound)
       (\<lambda>s. svc_id s = i \<and> (only_active \<longrightarrow> svc_active s)) (w_services w)"

definition service_users :: "uuid \<Rightarrow> world \<Rightarrow> user list" where
  "service_users i w = filter (\<lambda>u. (u_id u, i) \<in> set (w_user_services w)) (w_users w)"

definition service_allowed_to_send_to ::
  "api_lib \<Rightarrow> string \<Rightarrow> service \<Rightarrow> key_type \<Rightarrow> bool \<Rightarrow> world \<Rightarrow> bool result" where
  "service_allowed_to_send_to lib recipient s k allow_guest_list w =
     (if k = TestKey \<or> (k = NormalKey \<and> \<not> svc_restricted s) then Inr True
      else res_bind (dao_fetch_service_by_id (svc_id s) False w) (\<lambda>row.
        let team_members = concat (map (\<lambda>u. [u_mobile_number u, Some (u_email_address u)])
              (service_users (svc_id row) w));
            guest_list_members = map (\<lambda>g. Some (gl_recipient g))
              (filter (\<lambda>g. allow_guest_list) (dao_fetch_service_guest_list (svc_id row) w))
        in Inr ((k = TeamKey \<or> svc_restricted row)
                \<and> al_allowed_to_send_to lib recipient (team_members @ guest_list_members))))"

definition service_can_send_to_recipient ::
  "api_lib \<Rightarrow> string \<Rightarrow> key_type \<Rightarrow> service \<Rightarrow> bool \<Rightarrow> world \<Rightarrow> unit result" where
  "service_can_send_to_recipient lib send_to k s allow_guest_list w =
     res_bind (service_allowed_to_send_to lib send_to s k allow_guest_list w) (\<lambda>ok.
       if ok then Inr ()
       else if k = TeamKey
       then Inl (bad_request ''Can't send to this recipient using a team-only API key'')
       else Inl (bad_request (''Can't send to this recipient when service is in trial mode ''
              @ ''- see https://www.notifications.service.gov.uk/trial-mode'')))"

definition check_service_has_permission :: "service \<Rightarrow> ntype \<Rightarrow> unit result" where
  "check_service_has_permission s t =
     (if has_permission s (SendType t) then Inr ()
      else Inl (bad_request (''Service is not allowed to send '' @ get_public_notify_type_text t True)))"

definition check_if_service_can_send_files_by_email ::
  "api_lib \<Rightarrow> string option \<Rightarrow> uuid \<Rightarrow> unit result" where
  "check_if_service_can_send_files_by_email lib contact_link service_id =
     (if contact_link \<in> {None, Some []}
      then Inl (bad_request (''Send files by email has not been set up - add contact details for your service at ''
             @ al_admin_url lib @ ''/services/'' @ uuid_str service_id
             @ ''/service-settings/send-files-by-email''))
      else Inr ())"

record recipient_info =
  ri_unformatted :: string
  ri_normalised_to :: string
  ri_international :: bool
  ri_phone_prefix :: string
  ri_rate_multiplier :: rat

datatype recipient_data = PhoneData recipient_info | TextData string | NoData

definition get_extended_phone_number_info :: "phone \<Rightarrow> string \<Rightarrow> recipient_info" where
  "get_extended_phone_number_info p send_to =
     \<lparr>ri_unformatted = send_to, ri_normalised_to = ph_normalised p,
      ri_international = ph_international p, ri_phone_prefix = ph_country_prefix p,
      ri_rate_multiplier = ph_rate_multiplier p\<rparr>"

definition is_international_number :: "phone \<Rightarrow> bool" where
  "is_international_number p \<longleftrightarrow> ph_international p \<and> \<not> ph_crown_dependency p"

definition phone_error :: "phone option \<Rightarrow> exn \<Rightarrow> exn" where
  \<comment> \<open>the \<open>except\<close> clause; the number is unbound when its constructor raised\<close>
  "phone_error p e =
     (case e of
        Recipient (InvalidPhoneError c) \<Rightarrow>
          if c = NotAUkMobile
          then (case p of
                  None \<Rightarrow> Py UnboundLocalError
                | Some n \<Rightarrow> if is_international_number n
                    then bad_request ''Cannot send to international mobile numbers'' else e)
          else e
      | _ \<Rightarrow> e)"

definition validate_and_return_extended_phone_number_info ::
  "env \<Rightarrow> api_lib \<Rightarrow> service \<Rightarrow> string \<Rightarrow> key_type \<Rightarrow> bool \<Rightarrow> recipient_info op" where
  "validate_and_return_extended_phone_number_info env lib s send_to k check_intl_sms_limit w =
     (case al_phone lib send_to of
        Inl e \<Rightarrow> (Inl (phone_error None e), w)
      | Inr p \<Rightarrow>
          (case al_validate_phone lib p (has_permission s InternationalSms)
                  (has_permission s SmsToUkLandlines) of
             Inl e \<Rightarrow> (Inl (phone_error (Some p) e), w)
           | Inr _ \<Rightarrow>
               if check_intl_sms_limit \<and> \<not> ph_uk p
               then op_bind (check_service_over_daily_message_limit env s k
                               (service_permission_name InternationalSms) 1)
                      (\<lambda>_. op_return (get_extended_phone_number_info p send_to)) w
               else (Inr (get_extended_phone_number_info p send_to), w)))"

definition validate_and_format_recipient ::
  "env \<Rightarrow> api_lib \<Rightarrow> string option \<Rightarrow> key_type \<Rightarrow> service \<Rightarrow> ntype \<Rightarrow> bool \<Rightarrow> bool \<Rightarrow> recipient_data op" where
  "validate_and_format_recipient env lib send_to k s t allow_guest_list check_intl_sms_limit w =
     (case send_to of
        None \<Rightarrow> (Inl (bad_request ''Recipient can't be empty''), w)
      | Some x \<Rightarrow>
          op_bind (op_lift (service_can_send_to_recipient lib x k s allow_guest_list w)) (\<lambda>_ v.
            if t = Sms
            then op_bind (validate_and_return_extended_phone_number_info env lib s x k check_intl_sms_limit)
                   (\<lambda>i. op_return (PhoneData i)) v
            else if t = Email
            then op_bind (op_lift (lib_validate_email env x)) (\<lambda>e. op_return (TextData e)) v
            else (Inr NoData, v)) w)"

definition check_is_message_too_long :: "api_lib \<Rightarrow> ntype \<Rightarrow> rendered \<Rightarrow> unit result" where
  "check_is_message_too_long lib t r =
     (if rd_too_long r
      then Inl (bad_request (''Your message is too long. ''
             @ (if t = Sms
                then ''Text messages cannot be longer than '' @ int_str (al_sms_char_limit lib)
                     @ '' characters. Your message is '' @ int_str (rd_count r) @ '' characters long.''
                else if t = Email
                then ''Emails cannot be longer than 2000000 bytes. Your message is ''
                     @ int_str (rd_bytes r) @ '' bytes.''
                else [])))
      else Inr ())"

definition check_notification_content_is_not_empty :: "rendered \<Rightarrow> unit result" where
  "check_notification_content_is_not_empty r =
     (if rd_empty r then Inl (bad_request ''Your message is empty.'') else Inr ())"

definition is_file :: "pvalue \<Rightarrow> bool" where
  "is_file v \<longleftrightarrow> (case v of PDict d \<Rightarrow> ''file'' \<in> fst ` set d | _ \<Rightarrow> False)"

definition check_template_can_contain_documents :: "ntype \<Rightarrow> personalisation \<Rightarrow> unit result" where
  "check_template_can_contain_documents t ps =
     (if t \<noteq> Email \<and> list_ex (\<lambda>(k, v). is_file v) ps
      then Inl (bad_request ''Can only send a file by email'') else Inr ())"

section \<open>Senders\<close>

definition get_default_sms_sender :: "uuid \<Rightarrow> world \<Rightarrow> string result" where
  "get_default_sms_sender i w =
     (case filter (\<lambda>r. ss_service_id r = i \<and> ss_is_default r) (w_sms_senders w) of
        [] \<Rightarrow> Inl (Py IndexError) | r # _ \<Rightarrow> Inr (ss_sms_sender r))"

definition get_default_reply_to_email_address :: "uuid \<Rightarrow> world \<Rightarrow> string option" where
  "get_default_reply_to_email_address i w =
     (case filter (\<lambda>r. rt_service_id r = i \<and> rt_is_default r) (w_reply_tos w) of
        [] \<Rightarrow> None | r # _ \<Rightarrow> Some (rt_email_address r))"

definition get_default_letter_contact :: "uuid \<Rightarrow> world \<Rightarrow> string option" where
  "get_default_letter_contact i w =
     (case filter (\<lambda>r. lc_service_id r = i \<and> lc_is_default r) (w_letter_contacts w) of
        [] \<Rightarrow> None | r # _ \<Rightarrow> Some (lc_contact_block r))"

definition template_reply_to_text :: "env \<Rightarrow> template \<Rightarrow> world \<Rightarrow> string option result" where
  "template_reply_to_text env t w =
     (case t_type t of
        Letter \<Rightarrow> Inr (case t_service_letter_contact_id t of
            None \<Rightarrow> None
          | Some c \<Rightarrow> map_option lc_contact_block (find_row lc_id c (w_letter_contacts w)))
      | Email \<Rightarrow> Inr (get_default_reply_to_email_address (t_service_id t) w)
      | Sms \<Rightarrow> res_bind (get_default_sms_sender (t_service_id t) w) (\<lambda>sender.
          res_bind (try_parse_and_format_phone_number env sender True) (\<lambda>x. Inr (Some x)))
      | Messagebox \<Rightarrow> Inr None)"

definition serialised_template_from_id_and_service_id ::
  "env \<Rightarrow> uuid \<Rightarrow> uuid \<Rightarrow> int option \<Rightarrow> world \<Rightarrow> serialised_template result" where
  "serialised_template_from_id_and_service_id env i service_id version w =
     res_bind (dao_get_template_by_id_and_service_id i service_id version w) (\<lambda>t.
       res_bind (template_reply_to_text env t w) (\<lambda>r. Inr \<lparr>st_row = t, st_reply_to_text = r\<rparr>))"

definition check_sender ::
  "string \<Rightarrow> uuid \<Rightarrow> uuid option \<Rightarrow> (uuid \<Rightarrow> string result) \<Rightarrow> string option result" where
  \<comment> \<open>the common shape of the three functions below\<close>
  "check_sender name service_id i look_up =
     (case i of
        None \<Rightarrow> Inr None
      | Some x \<Rightarrow>
          (case look_up x of
             Inr r \<Rightarrow> Inr (Some r)
           | Inl (Db NoResultFound) \<Rightarrow> Inl (bad_request (name @ '' '' @ uuid_str x
               @ '' does not exist in database for service id '' @ uuid_str service_id))
           | Inl e \<Rightarrow> Inl e))"

definition check_service_email_reply_to_id :: "uuid \<Rightarrow> uuid option \<Rightarrow> world \<Rightarrow> string option result" where
  "check_service_email_reply_to_id service_id i w =
     check_sender ''email_reply_to_id'' service_id i
       (\<lambda>x. res_bind (dao_get_reply_to_by_id x (Some service_id) w) (\<lambda>r. Inr (rt_email_address r)))"

definition check_service_sms_sender_id :: "uuid \<Rightarrow> uuid option \<Rightarrow> world \<Rightarrow> string option result" where
  "check_service_sms_sender_id service_id i w =
     check_sender ''sms_sender_id'' service_id i
       (\<lambda>x. res_bind (dao_get_service_sms_senders_by_id service_id x w) (\<lambda>r. Inr (ss_sms_sender r)))"

definition check_service_letter_contact_id :: "uuid \<Rightarrow> uuid option \<Rightarrow> world \<Rightarrow> string option result" where
  "check_service_letter_contact_id service_id i w =
     check_sender ''letter_contact_id'' service_id i
       (\<lambda>x. res_bind (dao_get_letter_contact_by_id service_id x w) (\<lambda>r. Inr (lc_contact_block r)))"

definition validate_address :: "api_lib \<Rightarrow> service \<Rightarrow> personalisation \<Rightarrow> postage option result" where
  "validate_address lib s letter_data =
     (let a = al_address lib letter_data (has_permission s InternationalLetters)
      in if \<not> ra_enough_lines a
         then Inl (Api (ValidationError (''Address must be at least ''
                @ int_str (al_address_min_lines lib) @ '' lines'')))
         else if ra_too_many_lines a
         then Inl (Api (ValidationError (''Address must be no more than ''
                @ int_str (al_address_max_lines lib) @ '' lines'')))
         else if ra_invalid_characters a
         then Inl (Api (ValidationError (''Address lines must not start with any of the following ''
                @ ''characters: @ ( ) = [ ] '' @ [CHR 0x22, CHR 0x20, CHR 0x5C] @ '' / , < >'')))
         else if \<not> ra_international a \<and> ra_postcode a \<in> {None, Some []}
         then Inl (Api (ValidationError (''Cant detect a dutch postcode, postcode must be in the same ''
                @ ''line together with a city'')))
         else if \<not> ra_international a \<and> ra_city a \<in> {None, Some []}
         then Inl (Api (ValidationError (''cant detect a dutch city, city name must be in the same line ''
                @ ''as postcode'')))
         else Inr (if ra_international a then ra_postage a else None))"

section \<open>Creating a notification\<close>

definition create_content_for_notification ::
  "api_lib \<Rightarrow> serialised_template \<Rightarrow> personalisation \<Rightarrow> rendered result" where
  \<comment> \<open>no branch binds the template object of a message box\<close>
  "create_content_for_notification lib st ps =
     (let t = st_row st;
          r = al_render lib (t_type t) (t_content t) (if t_type t = Sms then None else t_subject t)
                (if t_type t = Letter then st_reply_to_text st else None) ps
      in if t_type t = Messagebox then Inl (Py UnboundLocalError)
         else
           (case (if t_type t = Letter then rd_qr_error r else None) of
              Some (num_bytes, max_bytes) \<Rightarrow> Inl (Api (QrCodeTooLongError num_bytes max_bytes (t_content t)))
            | None \<Rightarrow>
                if rd_missing r \<noteq> []
                then Inl (bad_request (''Missing personalisation: '' @ py_join '', '' (rd_missing r)))
                else Inr r))"

definition validate_template ::
  "env \<Rightarrow> api_lib \<Rightarrow> uuid \<Rightarrow> personalisation \<Rightarrow> service \<Rightarrow> ntype \<Rightarrow> bool \<Rightarrow> world
     \<Rightarrow> (serialised_template \<times> rendered) result" where
  "validate_template env lib template_id ps s t check_char_count w =
     (case serialised_template_from_id_and_service_id env template_id (svc_id s) None w of
        Inl (Db NoResultFound) \<Rightarrow> Inl (bad_request ''Template not found'')
      | Inl e \<Rightarrow> Inl e
      | Inr st \<Rightarrow>
          res_bind (check_template_is_for_notification_type t (t_type (st_row st))) (\<lambda>_.
          res_bind (check_template_is_active (st_row st)) (\<lambda>_.
          res_bind (create_content_for_notification lib st ps) (\<lambda>r.
          res_bind (check_notification_content_is_not_empty r) (\<lambda>_.
          res_bind (if check_char_count then check_is_message_too_long lib (t_type (st_row st)) r
                    else Inr ()) (\<lambda>_.
          res_bind (check_template_can_contain_documents t ps) (\<lambda>_. Inr (st, r))))))))"

record persist_args =
  pn_template_id :: uuid
  pn_template_version :: int
  pn_recipient :: recipient_data
  pn_personalisation :: "personalisation option"
  pn_notification_type :: ntype
  pn_api_key_id :: "uuid option"
  pn_key_type :: key_type
  pn_created_at :: "time option"
  pn_job_id :: "uuid option"
  pn_job_row_number :: "int option"
  pn_reference :: "string option"
  pn_client_reference :: "string option"
  pn_notification_id :: "uuid option"
  pn_simulated :: bool
  pn_created_by_id :: "uuid option"
  pn_status :: nstatus
  pn_reply_to_text :: "string option"
  pn_unsubscribe_link :: "string option"
  pn_billable_units :: "int option"
  pn_postage :: "postage option"
  pn_document_download_count :: "int option"
  pn_updated_at :: "time option"

definition persist_call ::
  "uuid \<Rightarrow> int \<Rightarrow> recipient_data \<Rightarrow> personalisation option \<Rightarrow> ntype \<Rightarrow> uuid option \<Rightarrow> key_type
     \<Rightarrow> persist_args" where
  \<comment> \<open>the keyword arguments every caller gives, the others at their defaults\<close>
  "persist_call template_id version recipient ps t api_key_id k =
     \<lparr>pn_template_id = template_id, pn_template_version = version, pn_recipient = recipient,
      pn_personalisation = ps, pn_notification_type = t, pn_api_key_id = api_key_id, pn_key_type = k,
      pn_created_at = None, pn_job_id = None, pn_job_row_number = None, pn_reference = None,
      pn_client_reference = None, pn_notification_id = None, pn_simulated = False,
      pn_created_by_id = None, pn_status = Created, pn_reply_to_text = None,
      pn_unsubscribe_link = None, pn_billable_units = None, pn_postage = None,
      pn_document_download_count = None, pn_updated_at = None\<rparr>"

definition recipient_text :: "recipient_data \<Rightarrow> string" where
  "recipient_text r = (case r of PhoneData i \<Rightarrow> ri_unformatted i | TextData x \<Rightarrow> x | NoData \<Rightarrow> [])"

definition set_personalisation :: "api_lib \<Rightarrow> personalisation option \<Rightarrow> string option" where
  \<comment> \<open>the \<open>personalisation\<close> setter of \<open>Notification\<close>\<close>
  "set_personalisation lib ps = Some (al_sign lib (case ps of None \<Rightarrow> [] | Some p \<Rightarrow> p))"

definition new_notification :: "api_lib \<Rightarrow> service \<Rightarrow> persist_args \<Rightarrow> uuid \<Rightarrow> time \<Rightarrow> notification" where
  "new_notification lib s a i now =
     \<lparr>n_id = i, n_to = recipient_text (pn_recipient a), n_normalised_to = None,
      n_job_id = pn_job_id a, n_job_row_number = pn_job_row_number a, n_service_id = svc_id s,
      n_template_id = pn_template_id a, n_template_version = pn_template_version a,
      n_api_key_id = pn_api_key_id a, n_key_type = pn_key_type a,
      n_billable_units = (case pn_billable_units a of None \<Rightarrow> 0 | Some u \<Rightarrow> u),
      n_type = pn_notification_type a,
      n_created_at = (case pn_created_at a of None \<Rightarrow> now | Some t \<Rightarrow> t),
      n_sent_at = None, n_sent_by = None, n_updated_at = pn_updated_at a, n_status = pn_status a,
      n_reference = pn_reference a, n_client_reference = pn_client_reference a,
      n_personalisation = set_personalisation lib (pn_personalisation a), n_international = False,
      n_phone_prefix = None, n_rate_multiplier = None, n_created_by_id = pn_created_by_id a,
      n_reply_to_text = pn_reply_to_text a,
      n_document_download_count = pn_document_download_count a, n_postage = None,
      n_unsubscribe_link = pn_unsubscribe_link a\<rparr>"

definition set_recipient ::
  "api_lib \<Rightarrow> persist_args \<Rightarrow> notification \<Rightarrow> notification result" where
  \<comment> \<open>the part of a notification that depends on its type\<close>
  "set_recipient lib a n =
     (case pn_notification_type a of
        Sms \<Rightarrow>
          (case pn_recipient a of
             PhoneData i \<Rightarrow> Inr (n\<lparr>n_normalised_to := Some (ri_normalised_to i),
                 n_international := ri_international i, n_phone_prefix := Some (ri_phone_prefix i),
                 n_rate_multiplier := Some (ri_rate_multiplier i)\<rparr>)
           | _ \<Rightarrow> Inl (Py TypeError))
      | Email \<Rightarrow> res_bind (al_format_email lib (n_to n)) (\<lambda>e. Inr (n\<lparr>n_normalised_to := Some e\<rparr>))
      | Letter \<Rightarrow> Inr (n\<lparr>n_postage := pn_postage a,
            n_international := (pn_postage a \<in> Some ` set INTERNATIONAL_POSTAGE_TYPES),
            n_normalised_to := Some (py_lower (remove_spaces (n_to n)))\<rparr>)
      | Messagebox \<Rightarrow> Inr n)"

definition increment_daily_limit_cache :: "env \<Rightarrow> service \<Rightarrow> string \<Rightarrow> world \<Rightarrow> world" where
  "increment_daily_limit_cache env s name w =
     (let key = daily_key env s name w
      in case redis_get key w of None \<Rightarrow> redis_set key 1 w | Some _ \<Rightarrow> redis_incrby key 1 w)"

definition increment_daily_limit_caches ::
  "env \<Rightarrow> api_lib \<Rightarrow> service \<Rightarrow> notification \<Rightarrow> key_type \<Rightarrow> world \<Rightarrow> world" where
  "increment_daily_limit_caches env lib s n k w =
     (if k = TestKey \<or> \<not> cfg_redis_enabled env then w
      else
        (let w1 = increment_daily_limit_cache env s (ntype_name (n_type n)) w
         in if n_type n = Sms
               \<and> (case n_phone_prefix n of None \<Rightarrow> ''None'' | Some p \<Rightarrow> p) \<noteq> al_nl_prefix lib
            then increment_daily_limit_cache env s (service_permission_name InternationalSms) w1
            else w1))"

definition persist_notification ::
  "env \<Rightarrow> api_lib \<Rightarrow> service \<Rightarrow> persist_args \<Rightarrow> notification op" where
  "persist_notification env lib s a w =
     (let (i, w1) = (case pn_notification_id a of None \<Rightarrow> create_uuid env w | Some i \<Rightarrow> (i, w))
      in case set_recipient lib a (new_notification lib s a i (w_now w)) of
           Inl e \<Rightarrow> (Inl e, w1)
         | Inr n \<Rightarrow>
             if pn_simulated a then (Inr n, w1)
             else
               (case dao_create_notification env (Some i) (Some (n_status n)) (\<lambda>_ _. n) w1 of
                  (Inl e, w2) \<Rightarrow> (Inl e, w2)
                | (Inr _, w2) \<Rightarrow>
                    (Inr n, increment_daily_limit_caches env lib s n (pn_key_type a) w2)))"

definition send_notification_to_queue_detached ::
  "api_lib \<Rightarrow> key_type \<Rightarrow> ntype \<Rightarrow> uuid \<Rightarrow> queue option \<Rightarrow> unit op" where
  \<comment> \<open>no branch binds the task of a message box; any failure deletes the notification\<close>
  "send_notification_to_queue_detached lib k t i given w =
     (let given' = (if k = TestKey then Some RESEARCH_MODE else given);
          q = (case given' of
                 Some q \<Rightarrow> q
               | None \<Rightarrow> (case t of Sms \<Rightarrow> SEND_SMS | Email \<Rightarrow> SEND_EMAIL | _ \<Rightarrow> CREATE_LETTERS_PDF));
          task = (case t of Sms \<Rightarrow> Some (TDeliverSms i) | Email \<Rightarrow> Some (TDeliverEmail i)
                  | Letter \<Rightarrow> Some (TGetPdfForTemplatedLetter i) | Messagebox \<Rightarrow> None)
      in case (case task of
                 None \<Rightarrow> (Inl (Py UnboundLocalError), w)
               | Some x \<Rightarrow> apply_async lib q x w) of
           (Inl e, w1) \<Rightarrow> (Inl e, dao_delete_notifications_by_id i w1)
         | (Inr _, w1) \<Rightarrow> (Inr (), w1))"

definition send_notification_to_queue :: "api_lib \<Rightarrow> notification \<Rightarrow> queue option \<Rightarrow> unit op" where
  "send_notification_to_queue lib n given =
     send_notification_to_queue_detached lib (n_key_type n) (n_type n) (n_id n) given"

definition SIMULATED_EMAIL_ADDRESSES :: "string list" where
  "SIMULATED_EMAIL_ADDRESSES =
     [''simulate-delivered@notifications.service.gov.uk'',
      ''simulate-delivered-2@notifications.service.gov.uk'',
      ''simulate-delivered-3@notifications.service.gov.uk'']"

definition SIMULATED_SMS_NUMBERS :: "string list" where
  "SIMULATED_SMS_NUMBERS = [''+447700900000'', ''+447700900111'', ''+447700900222'']"

definition simulated_recipient :: "env \<Rightarrow> string \<Rightarrow> ntype \<Rightarrow> bool result" where
  "simulated_recipient env to t =
     (if t = Sms
      then res_bind (map_res (\<lambda>n. parse_and_format_phone_number env n True) SIMULATED_SMS_NUMBERS)
             (\<lambda>ns. Inr (to \<in> set ns))
      else Inr (to \<in> set SIMULATED_EMAIL_ADDRESSES))"

definition create_letter_notification ::
  "env \<Rightarrow> api_lib \<Rightarrow> personalisation \<Rightarrow> string option \<Rightarrow> postage option \<Rightarrow> serialised_template
     \<Rightarrow> service \<Rightarrow> api_key \<Rightarrow> nstatus \<Rightarrow> string option \<Rightarrow> time option \<Rightarrow> postage option
     \<Rightarrow> notification op" where
  \<comment> \<open>personalisation, reference and postage are what the letter data hold\<close>
  "create_letter_notification env lib ps reference data_postage st s key status reply_to_text
       updated_at given_postage w =
     (let t = st_row st;
          call = persist_call (t_id t) (t_version t)
            (TextData (ra_normalised (al_address lib ps False))) (Some ps) Letter (Some (k_id key))
            (k_key_type key)
      in persist_notification env lib s
           (call\<lparr>pn_reference := Some (al_random_identifier lib (w_uuids w)),
             pn_client_reference := reference, pn_status := status,
             pn_reply_to_text := reply_to_text, pn_updated_at := updated_at,
             pn_postage := (case given_postage of
                 Some p \<Rightarrow> Some p
               | None \<Rightarrow> (case data_postage of Some p \<Rightarrow> Some p | None \<Rightarrow> t_postage t))\<rparr>) w)"

end
