(* ===== verification/Post.thy ===== *)
theory Post
  imports Validation
begin

text \<open>
  The endpoints that accept a message, \<^verbatim>\<open>app/v2/notifications/post_notifications.py\<close>, with the
  responses of \<^verbatim>\<open>create_response.py\<close>, the one for message boxes of
  \<^verbatim>\<open>post_notifications_messagebox.py\<close> and the hidden templates of precompiled letters and message
  boxes (\<^verbatim>\<open>app/dao/templates_dao.py\<close>, \<^verbatim>\<open>app/dao/templates_messagebox_dao.py\<close>). A handler takes the service and the API key that the
  authentication found and the outcome of reading the request by its schema: the form, or what
  reading it raised.
\<close>

section \<open>Forms and answers\<close>

record post_form =
  pf_template_id :: uuid
  pf_recipient :: string
  pf_personalisation :: "personalisation option"
  pf_reference :: "string option"
  pf_sender_id :: "uuid option"
  pf_unsubscribe_url :: "string option"

record precompiled_form =
  pc_reference :: string
  pc_content :: string
  pc_postage :: "postage option"

text \<open>\<open>rq_content\<close>: the body has the key \<open>content\<close>.\<close>

record post_request =
  rq_json :: "unit result"
  rq_content :: bool
  rq_form :: "ntype \<Rightarrow> post_form result"
  rq_precompiled :: "precompiled_form result"
  rq_messagebox :: "string option result"
  rq_url_root :: string

record post_response =
  rs_id :: uuid
  rs_reference :: "string option"
  rs_uri :: string
  rs_template_id :: uuid
  rs_template_version :: int
  rs_template_uri :: string
  rs_body :: string
  rs_from :: "string option"
  rs_subject :: "string option"
  rs_unsubscribe_url :: "string option"

datatype answer =
    Answer post_response | PrecompiledAnswer uuid "string option" "postage option"
  | MessageboxAnswer uuid "uuid option" string

section \<open>Responses\<close>

definition create_notification_response ::
  "string \<Rightarrow> uuid \<Rightarrow> string option \<Rightarrow> uuid \<Rightarrow> int \<Rightarrow> uuid \<Rightarrow> string \<Rightarrow> post_response" where
  "create_notification_response url_root i reference template_id version service_id content =
     \<lparr>rs_id = i, rs_reference = reference,
      rs_uri = url_root @ ''v2/notifications/'' @ uuid_str i, rs_template_id = template_id,
      rs_template_version = version,
      rs_template_uri = url_root @ ''services/'' @ uuid_str service_id @ ''/templates/''
        @ uuid_str template_id,
      rs_body = content, rs_from = None, rs_subject = None, rs_unsubscribe_url = None\<rparr>"

definition create_post_sms_response ::
  "string option \<Rightarrow> post_response \<Rightarrow> post_response" where
  "create_post_sms_response from_number r = r\<lparr>rs_from := from_number\<rparr>"

definition create_post_email_response ::
  "string \<Rightarrow> string \<Rightarrow> string option \<Rightarrow> post_response \<Rightarrow> post_response" where
  "create_post_email_response subject email_from unsubscribe_link r =
     r\<lparr>rs_from := Some email_from, rs_subject := Some subject, rs_unsubscribe_url := unsubscribe_link\<rparr>"

definition create_post_letter_response :: "string \<Rightarrow> post_response \<Rightarrow> post_response" where
  "create_post_letter_response subject r = r\<lparr>rs_subject := Some subject\<rparr>"

definition create_response_for_post_notification ::
  "api_lib \<Rightarrow> string \<Rightarrow> service \<Rightarrow> uuid \<Rightarrow> string option \<Rightarrow> uuid \<Rightarrow> int \<Rightarrow> ntype \<Rightarrow> string option
     \<Rightarrow> rendered \<Rightarrow> string option \<Rightarrow> post_response result" where
  \<comment> \<open>no branch binds the response of a message box\<close>
  "create_response_for_post_notification lib url_root s i reference template_id version t reply_to
       content unsubscribe_link =
     (let r = create_notification_response url_root i reference template_id version (svc_id s)
                (rd_content content)
      in case t of
           Sms \<Rightarrow> Inr (create_post_sms_response reply_to r)
         | Email \<Rightarrow> Inr (create_post_email_response (rd_subject content)
             (svc_email_sender_local_part s @ ''@'' @ al_email_domain lib) unsubscribe_link r)
         | Letter \<Rightarrow> Inr (create_post_letter_response (rd_subject content) r)
         | Messagebox \<Rightarrow> Inl (Py UnboundLocalError))"

definition get_reply_to_text ::
  "env \<Rightarrow> service \<Rightarrow> ntype \<Rightarrow> post_form \<Rightarrow> serialised_template \<Rightarrow> world \<Rightarrow> string option result" where
  "get_reply_to_text env s t form st w =
     (case t of
        Email \<Rightarrow>
          res_bind (check_service_email_reply_to_id (svc_id s) (pf_sender_id form) w) (\<lambda>r.
            Inr (if r \<in> {None, Some []} then st_reply_to_text st else r))
      | Sms \<Rightarrow>
          res_bind (check_service_sms_sender_id (svc_id s) (pf_sender_id form) w) (\<lambda>r.
            case r of
              Some x \<Rightarrow> if x = [] then Inr (st_reply_to_text st)
                else res_bind (try_parse_and_format_phone_number env x True) (\<lambda>y. Inr (Some y))
            | None \<Rightarrow> Inr (st_reply_to_text st))
      | Letter \<Rightarrow> Inr (st_reply_to_text st)
      | Messagebox \<Rightarrow> Inr None)"

section \<open>Text messages and emails\<close>

definition DEFAULT_DOCUMENT_DOWNLOAD_RETENTION_PERIOD :: string where
  "DEFAULT_DOCUMENT_DOWNLOAD_RETENTION_PERIOD = ''26 weeks''"

definition upload_file ::
  "api_lib \<Rightarrow> service \<Rightarrow> string \<Rightarrow> bool \<Rightarrow> file_upload \<Rightarrow> string result" where
  "upload_file lib s send_to simulated f =
     (if simulated then Inr (al_simulated_upload_url lib (svc_id s) @ ''/test-document'')
      else al_upload_document lib (svc_id s)
        (f\<lparr>fu_retention_period :=
             (if fu_retention_period f \<in> {None, Some []}
              then Some DEFAULT_DOCUMENT_DOWNLOAD_RETENTION_PERIOD else fu_retention_period f)\<rparr>)
        (if fu_confirm_email f = Some False then None else Some send_to))"

definition replace_file ::
  "api_lib \<Rightarrow> service \<Rightarrow> string \<Rightarrow> bool \<Rightarrow> string \<times> pvalue \<Rightarrow> (string \<times> pvalue) result" where
  "replace_file lib s send_to simulated kv =
     (case snd kv of
        PDict d \<Rightarrow>
          if is_file (snd kv)
          then res_bind (al_file lib d) (\<lambda>f.
            res_bind (upload_file lib s send_to simulated f) (\<lambda>url. Inr (fst kv, PText url)))
          else Inr kv
      | _ \<Rightarrow> Inr kv)"

definition process_document_uploads ::
  "api_lib \<Rightarrow> personalisation option \<Rightarrow> service \<Rightarrow> string \<Rightarrow> bool
     \<Rightarrow> (personalisation option \<times> int option) result" where
  "process_document_uploads lib data s send_to simulated =
     (let files = filter (\<lambda>(k, v). is_file v) (case data of None \<Rightarrow> [] | Some d \<Rightarrow> d)
      in if files = [] then Inr (data, None)
         else
           res_bind (map_res (\<lambda>(k, v). case v of PDict d \<Rightarrow> al_file lib d | _ \<Rightarrow> Inl (Py TypeError)) files) (\<lambda>_.
           res_bind (check_if_service_can_send_files_by_email lib (svc_contact_link s) (svc_id s)) (\<lambda>_.
           res_bind (map_res (replace_file lib s send_to simulated) (the data)) (\<lambda>d.
             Inr (Some d, Some (int (length files)))))))"

definition process_message_with_id ::
  "env \<Rightarrow> api_lib \<Rightarrow> string \<Rightarrow> service \<Rightarrow> api_key \<Rightarrow> post_form \<Rightarrow> ntype \<Rightarrow> serialised_template \<Rightarrow> rendered
     \<Rightarrow> string option \<Rightarrow> string option \<Rightarrow> uuid \<Rightarrow> post_response op" where
  "process_message_with_id env lib url_root s key form t st content reply_to_text unsubscribe_link i =
     (let k = k_key_type key;
          row = st_row st
      in op_bind (validate_and_format_recipient env lib (Some (pf_recipient form)) k s t True True) (\<lambda>recipient.
         let send_to = (case recipient of PhoneData d \<Rightarrow> ri_normalised_to d | TextData x \<Rightarrow> x | NoData \<Rightarrow> [])
         in op_bind (op_lift (simulated_recipient env send_to t)) (\<lambda>simulated.
            op_bind (op_lift (process_document_uploads lib (pf_personalisation form) s send_to simulated))
              (\<lambda>(ps, documents).
            let content' = (if documents \<in> {None, Some 0} then content
                  else al_render lib (t_type row) (t_content row)
                         (if t_type row = Sms then None else t_subject row) None (the ps))
            in op_bind (op_lift (check_is_message_too_long lib (t_type row) content')) (\<lambda>_.
               op_bind (op_lift (create_response_for_post_notification lib url_root s i (pf_reference form)
                   (t_id row) (t_version row) t reply_to_text content' unsubscribe_link)) (\<lambda>response.
               op_bind (persist_notification env lib s
                   ((persist_call (t_id row) (t_version row)
                       (case recipient of PhoneData d \<Rightarrow> recipient | _ \<Rightarrow> TextData (pf_recipient form))
                       ps t (Some (k_id key)) k)
                    \<lparr>pn_notification_id := Some i, pn_client_reference := pf_reference form,
                     pn_simulated := simulated, pn_reply_to_text := reply_to_text,
                     pn_unsubscribe_link := unsubscribe_link, pn_document_download_count := documents\<rparr>)) (\<lambda>_.
               op_bind (if simulated then op_return ()
                        else send_notification_to_queue_detached lib k t i None) (\<lambda>_.
               op_return response))))))))"

definition process_sms_or_email_notification ::
  "env \<Rightarrow> api_lib \<Rightarrow> string \<Rightarrow> service \<Rightarrow> api_key \<Rightarrow> post_form \<Rightarrow> ntype \<Rightarrow> serialised_template \<Rightarrow> rendered
     \<Rightarrow> string option \<Rightarrow> string option \<Rightarrow> post_response op" where
  "process_sms_or_email_notification env lib url_root s key form t st content reply_to_text
       unsubscribe_link w =
     (let (i, w1) = create_uuid env w
      in process_message_with_id env lib url_root s key form t st content reply_to_text
           unsubscribe_link i w1)"

section \<open>Letters\<close>

definition template_to_history :: "template \<Rightarrow> template" where
  \<comment> \<open>the history table has the columns of the table\<close>
  "template_to_history t = t"

definition dao_create_template :: "template \<Rightarrow> template op" where
  \<comment> \<open>a new template is version 1\<close>
  "dao_create_template t =
     autocommit (\<lambda>w.
       let t1 = t\<lparr>t_archived := False, t_version := 1, t_created_at := w_now w\<rparr>;
           redacted = \<lparr>trd_template_id = t_id t, trd_redact_personalisation = False,
                       trd_updated_at = w_now w, trd_updated_by_id = t_created_by_id t\<rparr>
       in (Inr t1, w\<lparr>w_templates := w_templates w @ [t1],
                     w_template_history := w_template_history w @ [template_to_history t1],
                     w_redacted := w_redacted w @ [redacted]\<rparr>))"

definition hidden_template ::
  "ntype \<Rightarrow> string \<Rightarrow> string \<Rightarrow> postage option \<Rightarrow> uuid \<Rightarrow> uuid \<Rightarrow> uuid \<Rightarrow> time \<Rightarrow> template" where
  "hidden_template t name content postage i user_id service_id now =
     \<lparr>t_id = i, t_name = name, t_type = t, t_created_at = now, t_updated_at = None,
      t_content = content, t_archived = False, t_hidden = True, t_subject = Some name,
      t_postage = postage, t_letter_welsh_content = None, t_letter_welsh_subject = None,
      t_letter_languages = letter_languages_default t, t_has_unsubscribe_link = False,
      t_service_id = service_id, t_created_by_id = user_id, t_version = 0,
      t_service_letter_contact_id = None, t_letter_attachment_id = None, t_folder = None\<rparr>"

definition find_or_create_hidden_template ::
  "env \<Rightarrow> api_lib \<Rightarrow> ntype \<Rightarrow> (uuid \<Rightarrow> uuid \<Rightarrow> time \<Rightarrow> template) \<Rightarrow> uuid \<Rightarrow> template op" where
  \<comment> \<open>the common shape of the two functions below\<close>
  "find_or_create_hidden_template env lib t new_row service_id w =
     (case query_first (\<lambda>r. t_service_id r = service_id \<and> t_type r = t \<and> t_hidden r) (w_templates w) of
        Some r \<Rightarrow> (Inr r, w)
      | None \<Rightarrow>
          (case query_one (Db NoResultFound) (Db MultipleResultsFound)
                  (\<lambda>u. u_id u = al_notify_user_id lib) (w_users w) of
             Inl e \<Rightarrow> (Inl e, w)
           | Inr user \<Rightarrow>
               (let (i, w1) = create_uuid env w in dao_create_template (new_row i (u_id user) (w_now w)) w1)))"

definition get_precompiled_letter_template :: "env \<Rightarrow> api_lib \<Rightarrow> uuid \<Rightarrow> template op" where
  "get_precompiled_letter_template env lib service_id =
     find_or_create_hidden_template env lib Letter
       (\<lambda>i u now. hidden_template Letter PRECOMPILED_TEMPLATE_NAME [] (Some Netherlands) i u service_id now)
       service_id"

definition get_messagebox_template :: "env \<Rightarrow> api_lib \<Rightarrow> uuid \<Rightarrow> template op" where
  \<comment> \<open>its empty postage is none here\<close>
  "get_messagebox_template env lib service_id =
     find_or_create_hidden_template env lib Messagebox
       (\<lambda>i u now. hidden_template Messagebox ''Berichtenbox bericht''
          ''Notify heeft geen toegang tot de inhoud van berichtenbox berichten.'' None i u service_id now)
       service_id"

definition process_precompiled_letter_notifications ::
  "env \<Rightarrow> api_lib \<Rightarrow> precompiled_form \<Rightarrow> api_key \<Rightarrow> service \<Rightarrow> serialised_template \<Rightarrow> answer op" where
  "process_precompiled_letter_notifications env lib form key s st w =
     (case al_base64 lib (pc_content form) of
        None \<Rightarrow> (Inl (bad_request ''Cannot decode letter content (invalid base64 encoding)''), w)
      | Some pdf \<Rightarrow>
          op_bind (autocommit (
            op_bind (create_letter_notification env lib [(''address_line_1'', PText ''Provided as PDF'')]
                (Some (pc_reference form)) (pc_postage form) st s key PendingVirusCheck (Some []) None None)
              (\<lambda>n. op_bind (upload_letter_pdf env n pdf True) (\<lambda>filename. op_return (n, filename)))))
            (\<lambda>(n, filename).
             op_bind (if cfg_antivirus_enabled env then apply_async lib ANTIVIRUS (TScanFile filename)
                      else apply_async lib LETTERS (TSanitiseLetter (Some filename)))
               (\<lambda>_. op_return (PrecompiledAnswer (n_id n) (n_client_reference n) (n_postage n)))) w)"

definition letter_start_status :: "api_lib \<Rightarrow> bool \<Rightarrow> nstatus" where
  "letter_start_status lib test_key =
     (if \<not> test_key then Created
      else if al_fake_letter_delivery lib then Sending else Delivered)"

definition check_letter_key :: "service \<Rightarrow> api_key \<Rightarrow> unit result" where
  "check_letter_key s key =
     (if k_key_type key = TeamKey then Inl (forbidden_request ''Cannot send letters with a team api key'')
      else if svc_restricted s \<and> k_key_type key \<noteq> TestKey
      then Inl (forbidden_request ''Cannot send letters when service is in trial mode'')
      else Inr ())"

definition process_letter_notification ::
  "env \<Rightarrow> api_lib \<Rightarrow> string \<Rightarrow> post_form \<Rightarrow> api_key \<Rightarrow> service \<Rightarrow> serialised_template \<Rightarrow> rendered
     \<Rightarrow> string option \<Rightarrow> answer op" where
  \<comment> \<open>with a template; the guards are those of precompiled letters, too\<close>
  "process_letter_notification env lib url_root form key s st content reply_to_text =
     op_bind (op_lift (check_letter_key s key)) (\<lambda>_ w.
       let ps = (case pf_personalisation form of None \<Rightarrow> [] | Some p \<Rightarrow> p);
           test_key = (k_key_type key = TestKey);
           status = letter_start_status lib test_key;
           q = (if test_key then RESEARCH_MODE else CREATE_LETTERS_PDF)
       in op_bind (op_lift (validate_address lib s ps)) (\<lambda>postage.
          op_bind (create_letter_notification env lib ps (pf_reference form) None st s key status
              reply_to_text (if status = Delivered then Some (w_now w) else None) postage) (\<lambda>n.
          op_bind (apply_async lib q (TGetPdfForTemplatedLetter (n_id n))) (\<lambda>_.
          op_bind (if test_key \<and> al_fake_letter_delivery lib
                   then apply_async lib q (TCreateFakeLetterCallback (n_id n) (n_billable_units n) (n_postage n))
                   else op_return ()) (\<lambda>_.
          op_bind (op_lift (create_response_for_post_notification lib url_root s (n_id n)
              (n_client_reference n) (n_template_id n) (n_template_version n) (n_type n) reply_to_text
              content None)) (\<lambda>r. op_return (Answer r)))))) w)"

section \<open>The endpoints\<close>

definition ntype_of_name :: "string \<Rightarrow> ntype option" where
  \<comment> \<open>the three types \<open>post_notification\<close> has a schema for\<close>
  "ntype_of_name name =
     find (\<lambda>t. ntype_name t = name) [Email, Sms, Letter]"

definition post_with_template ::
  "env \<Rightarrow> api_lib \<Rightarrow> service \<Rightarrow> api_key \<Rightarrow> post_request \<Rightarrow> ntype \<Rightarrow> answer op" where
  \<comment> \<open>from the validation of the form on\<close>
  "post_with_template env lib s key req t =
     op_bind (op_lift (rq_form req t)) (\<lambda>form.
     op_bind (op_lift (check_service_has_permission s t)) (\<lambda>_.
     op_bind (\<lambda>w. (validate_template env lib (pf_template_id form)
         (case pf_personalisation form of None \<Rightarrow> [] | Some p \<Rightarrow> p) s t False w, w)) (\<lambda>(st, content).
     op_bind (\<lambda>w. (get_reply_to_text env s t form st w, w)) (\<lambda>reply_to.
       if t = Letter
       then process_letter_notification env lib (rq_url_root req) form key s st content reply_to
       else op_bind (process_sms_or_email_notification env lib (rq_url_root req) s key form t st
              content reply_to (pf_unsubscribe_url form)) (\<lambda>r. op_return (Answer r))))))"

definition post_notification ::
  "env \<Rightarrow> api_lib \<Rightarrow> service \<Rightarrow> api_key \<Rightarrow> post_request \<Rightarrow> string \<Rightarrow> answer op" where
  "post_notification env lib s key req name =
     op_bind (check_rate_limiting env s key name) (\<lambda>_.
     op_bind (op_lift (rq_json req)) (\<lambda>_.
       case ntype_of_name name of
         None \<Rightarrow> op_raise (HttpAbort 404)
       | Some t \<Rightarrow> post_with_template env lib s key req t))"

definition post_precompiled_letter_notification ::
  "env \<Rightarrow> api_lib \<Rightarrow> service \<Rightarrow> api_key \<Rightarrow> post_request \<Rightarrow> answer op" where
  "post_precompiled_letter_notification env lib s key req =
     op_bind (check_rate_limiting env s key (ntype_name Letter)) (\<lambda>_.
     op_bind (op_lift (rq_json req)) (\<lambda>_.
       if \<not> rq_content req then post_notification env lib s key req (ntype_name Letter)
       else
         op_bind (op_lift (rq_precompiled req)) (\<lambda>form.
         op_bind (op_lift (check_service_has_permission s Letter)) (\<lambda>_.
         op_bind (get_precompiled_letter_template env lib (svc_id s)) (\<lambda>t.
         op_bind (op_lift (check_letter_key s key)) (\<lambda>_.
           process_precompiled_letter_notifications env lib form key s
             \<lparr>st_row = t, st_reply_to_text = Some []\<rparr>))))))"

definition process_messagebox_notification ::
  "env \<Rightarrow> api_lib \<Rightarrow> string \<Rightarrow> string option \<Rightarrow> api_key \<Rightarrow> service \<Rightarrow> answer op" where
  "process_messagebox_notification env lib url_root reference key s w0 =
     (if k_key_type key = TeamKey
      then (Inl (forbidden_request ''Cannot send messagebox messages with a team api key''), w0)
      else if svc_restricted s \<and> k_key_type key \<noteq> TestKey
      then (Inl (forbidden_request ''Cannot send messagebox messages when service is in trial mode''), w0)
      else
        (let test_key = (k_key_type key = TestKey);
             (i, w) = create_uuid env w0
         in op_bind (get_messagebox_template env lib (svc_id s)) (\<lambda>t.
            op_bind (persist_notification env lib s
                ((persist_call (t_id t) (t_version t) (TextData []) None Messagebox (Some (k_id key))
                    (k_key_type key))
                 \<lparr>pn_notification_id := Some i, pn_client_reference := reference,
                  pn_status := (if test_key then Delivered else Created),
                  pn_updated_at := (if test_key then Some (w_now w0) else None)\<rparr>)) (\<lambda>_ v.
              (Inr (MessageboxAnswer i
                 (case find_row svc_id (t_service_id t) (w_services v) of
                    None \<Rightarrow> None | Some row \<Rightarrow> svc_organisation_id row)
                 (url_root @ ''v2/notifications/'' @ uuid_str i)), v))) w))"

definition post_notification_messagebox ::
  "env \<Rightarrow> api_lib \<Rightarrow> service \<Rightarrow> api_key \<Rightarrow> post_request \<Rightarrow> answer op" where
  "post_notification_messagebox env lib s key req =
     op_bind (check_rate_limiting env s key (ntype_name Messagebox)) (\<lambda>_.
     op_bind (op_lift (rq_json req)) (\<lambda>_.
     op_bind (op_lift (rq_messagebox req)) (\<lambda>reference.
     op_bind (process_messagebox_notification env lib (rq_url_root req) reference key s) (\<lambda>a.
     op_bind (op_lift (check_service_has_permission s Messagebox)) (\<lambda>_. op_return a)))))"

section \<open>Lemmas\<close>

text \<open>
  What runs before a notification is created: it writes no notification, sends no message and
  counts nothing (a counter that is missing is set to zero).
\<close>

definition redis_count :: "string \<Rightarrow> world \<Rightarrow> int" where
  "redis_count k w = (case redis_get k w of None \<Rightarrow> 0 | Some v \<Rightarrow> v)"

definition idle :: "'a op \<Rightarrow> bool" where
  "idle m \<longleftrightarrow>
     (\<forall>w. w_notifications (snd (m w)) = w_notifications w \<and> w_tasks (snd (m w)) = w_tasks w
        \<and> w_now (snd (m w)) = w_now w \<and> (\<forall>k. redis_count k (snd (m w)) = redis_count k w))"

lemma idle_pure: "(\<And>w. snd (m w) = w) \<Longrightarrow> idle m"
  by (simp add: idle_def)

lemma idle_lift [simp]: "idle (op_lift r)" "idle (op_return x)" "idle (op_raise e)"
    "idle (\<lambda>w. (f w, w))" "idle (Pair r')"
  by (simp_all add: idle_def op_lift_def op_return_def op_raise_def)

lemma idle_bind:
  assumes "idle m" "\<And>x. idle (f x)"
  shows "idle (op_bind m f)"
  unfolding idle_def
proof
  fix w
  obtain r v where m: "m w = (r, v)" by (cases "m w")
  then show "w_notifications (snd (op_bind m f w)) = w_notifications w \<and> w_tasks (snd (op_bind m f w)) = w_tasks w
      \<and> w_now (snd (op_bind m f w)) = w_now w
      \<and> (\<forall>k. redis_count k (snd (op_bind m f w)) = redis_count k w)"
    using assms(1) assms(2) by (cases r) (force simp: idle_def dest: spec [of _ w])+
qed

lemma redis_set_other [simp]:
  "w_notifications (redis_set k v w) = w_notifications w" "w_tasks (redis_set k v w) = w_tasks w"
  "w_now (redis_set k v w) = w_now w" "w_uuids (redis_set k v w) = w_uuids w"
  by (simp_all add: redis_set_def)

lemma idle_daily_check: "idle (check_service_over_daily_message_limit env s k name n)"
  by (auto simp: idle_def check_service_over_daily_message_limit_def Let_def redis_count_def
      split: option.split if_splits)

lemma idle_check_rate_limiting: "idle (check_rate_limiting env s key name)"
  unfolding check_rate_limiting_def by (intro idle_bind idle_daily_check) simp

lemma idle_phone: "idle (validate_and_return_extended_phone_number_info env lib s x k c)"
proof -
  have *: "idle (op_bind (check_service_over_daily_message_limit env s k name 1) (\<lambda>_. op_return p))"
      for p :: recipient_info and name
    by (intro idle_bind idle_daily_check) simp_all
  show ?thesis
    using * by (auto simp: validate_and_return_extended_phone_number_info_def idle_def split: sum.split)
qed

lemma idle_recipient: "idle (validate_and_format_recipient env lib x k s t g c)"
proof (cases x)
  case None
  then show ?thesis by (simp add: idle_def validate_and_format_recipient_def)
next
  case (Some y)
  have "idle (op_bind (\<lambda>w. (service_can_send_to_recipient lib y k s g w, w)) (\<lambda>_ v.
      if t = Sms
      then op_bind (validate_and_return_extended_phone_number_info env lib s y k c)
             (\<lambda>i. op_return (PhoneData i)) v
      else if t = Email
      then op_bind (op_lift (lib_validate_email env y)) (\<lambda>e. op_return (TextData e)) v
      else (Inr NoData, v)))"
    by (cases t) (auto intro!: idle_bind idle_phone)
  moreover have "validate_and_format_recipient env lib x k s t g c = op_bind (\<lambda>w. (service_can_send_to_recipient lib y k s g w, w)) (\<lambda>_ v.
      if t = Sms
      then op_bind (validate_and_return_extended_phone_number_info env lib s y k c)
             (\<lambda>i. op_return (PhoneData i)) v
      else if t = Email
      then op_bind (op_lift (lib_validate_email env y)) (\<lambda>e. op_return (TextData e)) v
      else (Inr NoData, v))"
    by (rule ext) (simp add: validate_and_format_recipient_def Some op_lift_def op_bind_def)
  ultimately show ?thesis by simp
qed

definition delivery_task :: "notification \<Rightarrow> celery_task" where
  "delivery_task n = (case n_type n of Sms \<Rightarrow> TDeliverSms (n_id n) | Email \<Rightarrow> TDeliverEmail (n_id n)
     | _ \<Rightarrow> TGetPdfForTemplatedLetter (n_id n))"

definition delivery_queue :: "key_type \<Rightarrow> ntype \<Rightarrow> queue" where
  "delivery_queue k t = (if k = TestKey then RESEARCH_MODE
     else case t of Sms \<Rightarrow> SEND_SMS | Email \<Rightarrow> SEND_EMAIL | _ \<Rightarrow> CREATE_LETTERS_PDF)"

lemma increment_frame [simp]:
  "w_notifications (increment_daily_limit_caches env lib s n k w) = w_notifications w"
  "w_tasks (increment_daily_limit_caches env lib s n k w) = w_tasks w"
  "w_now (increment_daily_limit_caches env lib s n k w) = w_now w"
  by (simp_all add: increment_daily_limit_caches_def increment_daily_limit_cache_def redis_incrby_def
      Let_def split: option.split)

lemma increment_cache_redis:
  assumes "w_redis v = w_redis w" "w_now v = w_now w"
  shows "w_redis (increment_daily_limit_cache env s name v) = w_redis (increment_daily_limit_cache env s name w)"
    "w_now (increment_daily_limit_cache env s name v) = w_now (increment_daily_limit_cache env s name w)"
  using assms
  by (simp_all add: increment_daily_limit_cache_def daily_key_def redis_get_def redis_set_def
      redis_incrby_def Let_def split: option.split)

lemma increment_caches_redis:
  assumes "w_redis v = w_redis w" "w_now v = w_now w"
  shows "w_redis (increment_daily_limit_caches env lib s n k v) =
    w_redis (increment_daily_limit_caches env lib s n k w)"
  using increment_cache_redis [OF assms] increment_cache_redis [OF increment_cache_redis [OF assms]] assms
  by (simp add: increment_daily_limit_caches_def Let_def)

lemma set_recipient_keeps:
  assumes "set_recipient lib a n = Inr n'"
  shows "n_id n' = n_id n" "n_status n' = n_status n" "n_service_id n' = n_service_id n"
    "n_key_type n' = n_key_type n" "n_type n' = n_type n" "n_client_reference n' = n_client_reference n"
    "n_created_at n' = n_created_at n" "n_to n' = n_to n" "n_job_id n' = n_job_id n"
    "n_job_row_number n' = n_job_row_number n" "n_template_id n' = n_template_id n"
    "n_billable_units n' = n_billable_units n" "n_reference n' = n_reference n"
  using assms
  by (auto simp: set_recipient_def res_bind_Inr_iff split: ntype.splits recipient_data.splits)

text \<open>The row a call of \<open>persist_notification\<close> writes, and nothing but it.\<close>

lemma persist_notification_cases:
  assumes "persist_notification env lib s a w = (r, v)"
  obtains e where "r = Inl e" "w_notifications v = w_notifications w" "w_tasks v = w_tasks w"
      "w_now v = w_now w" "w_redis v = w_redis w"
  | n i where "r = Inr n" "pn_simulated a" "w_notifications v = w_notifications w"
      "w_tasks v = w_tasks w" "w_now v = w_now w" "w_redis v = w_redis w"
      "set_recipient lib a (new_notification lib s a i (w_now w)) = Inr n"
  | n i where "r = Inr n" "\<not> pn_simulated a" "n_id n \<notin> n_id ` set (w_notifications w)"
      "w_notifications v = w_notifications w @ [n]" "w_tasks v = w_tasks w" "w_now v = w_now w"
      "w_redis v = w_redis (increment_daily_limit_caches env lib s n (pn_key_type a) w)"
      "set_recipient lib a (new_notification lib s a i (w_now w)) = Inr n" "n_id n = i"
      "case pn_notification_id a of None \<Rightarrow> True | Some j \<Rightarrow> i = j"
      "\<not> insert_refused n (w_notifications w)"
proof -
  obtain i w1 where i: "(case pn_notification_id a of None \<Rightarrow> create_uuid env w | Some i \<Rightarrow> (i, w)) = (i, w1)"
    by (cases "case pn_notification_id a of None \<Rightarrow> create_uuid env w | Some i \<Rightarrow> (i, w)")
  have w1: "w_notifications w1 = w_notifications w" "w_tasks w1 = w_tasks w" "w_now w1 = w_now w"
      "w_redis w1 = w_redis w"
    using i by (auto simp: create_uuid_def split: option.splits)
  have given: "case pn_notification_id a of None \<Rightarrow> True | Some j \<Rightarrow> i = j"
    using i by (simp split: option.splits)
  show ?thesis
  proof (cases "set_recipient lib a (new_notification lib s a i (w_now w))")
    case (Inl e)
    then have "r = Inl e" "v = w1" using assms i by (simp_all add: persist_notification_def)
    then show ?thesis using w1 that(1) by simp
  next
    case (Inr n)
    have n: "n_id n = i" using set_recipient_keeps(1) [OF Inr] by (simp add: new_notification_def)
    show ?thesis
    proof (cases "pn_simulated a")
      case True
      then have "r = Inr n" "v = w1" using assms i Inr by (simp_all add: persist_notification_def)
      then show ?thesis using w1 Inr True that(2) by simp
    next
      case False
      show ?thesis
      proof (cases "insert_refused n (w_notifications w)")
        case True
        have row: "n\<lparr>n_id := i\<rparr> = n" by (simp add: n [symmetric])
        have "persist_notification env lib s a w = (Inl (Db OtherSQLAlchemyError), w1)"
          using i Inr False True w1(1)
          by (simp add: persist_notification_def dao_create_notification_def autocommit_def row Let_def)
        then show ?thesis using assms w1 that(1) by simp
      next
        case accepted: False
        then have new: "i \<notin> n_id ` set (w_notifications w)" by (simp add: insert_refused_def n)
        have row: "n\<lparr>n_id := i\<rparr> = n" by (simp add: n [symmetric])
        have save: "save_row n_id n (w_notifications w) = w_notifications w @ [n]"
          by (rule map_key_save_row_absent) (simp add: n new)
        have "persist_notification env lib s a w = (Inr n,
            increment_daily_limit_caches env lib s n (pn_key_type a) (save_notification n w1))"
          using i w1 Inr False accepted
          by (simp add: persist_notification_def dao_create_notification_def autocommit_def row Let_def)
        then have v: "r = Inr n"
            "v = increment_daily_limit_caches env lib s n (pn_key_type a) (save_notification n w1)"
          using assms by simp_all
        have same: "w_redis (increment_daily_limit_caches env lib s n (pn_key_type a) (save_notification n w1)) =
            w_redis (increment_daily_limit_caches env lib s n (pn_key_type a) w)"
          by (rule increment_caches_redis) (simp_all add: w1 save_notification_def)
        show ?thesis
          by (rule that(3) [of n i])
            (use v same w1 save False new accepted n Inr given in \<open>simp_all add: save_notification_def\<close>)
      qed
    qed
  qed
qed

lemma delete_new_row:
  "n_id n \<notin> n_id ` set rows \<Longrightarrow> delete_rows (\<lambda>r. n_id r = n_id n) (rows @ [n]) = rows"
  by (force simp: delete_rows_def filter_id_conv image_iff)

lemma send_detached_cases:
  assumes "send_notification_to_queue_detached lib k t i None w = (r, v)" "t \<in> {Sms, Email, Letter}"
  obtains e where "r = Inl e" "v = dao_delete_notifications_by_id i w"
  | "r = Inr ()" "v = enqueue (delivery_queue k t)
       (case t of Sms \<Rightarrow> TDeliverSms i | Email \<Rightarrow> TDeliverEmail i | _ \<Rightarrow> TGetPdfForTemplatedLetter i) w"
  using assms
  by (auto simp: send_notification_to_queue_detached_def apply_async_def delivery_queue_def Let_def
      split: option.splits if_splits)

definition settled ::
  "notification list \<Rightarrow> (queue \<times> celery_task) list \<Rightarrow> ('a \<Rightarrow> world \<Rightarrow> bool) \<Rightarrow> 'a result \<times> world \<Rightarrow> bool" where
  \<comment> \<open>an error leaves the notifications and the messages as they were, a result has \<open>Q\<close>\<close>
  "settled ns ts Q o1 \<longleftrightarrow>
     (case o1 of (Inl e, v) \<Rightarrow> w_notifications v = ns \<and> w_tasks v = ts | (Inr x, v) \<Rightarrow> Q x v)"

lemma settled_bind:
  assumes "w_notifications (snd (m w)) = ns" "w_tasks (snd (m w)) = ts"
    and "\<And>x v. m w = (Inr x, v) \<Longrightarrow> w_notifications v = ns \<Longrightarrow> w_tasks v = ts \<Longrightarrow> settled ns ts Q (f x v)"
  shows "settled ns ts Q (op_bind m f w)"
proof (cases "m w")
  case (Pair r v)
  then show ?thesis using assms by (cases r) (auto simp: settled_def)
qed

lemma settled_idle_bind:
  assumes "idle m" "w_notifications w = ns" "w_tasks w = ts"
    and "\<And>x v. m w = (Inr x, v) \<Longrightarrow> w_notifications v = ns \<Longrightarrow> w_tasks v = ts \<Longrightarrow> settled ns ts Q (f x v)"
  shows "settled ns ts Q (op_bind m f w)"
  by (rule settled_bind) (use assms in \<open>simp_all add: idle_def\<close>)

lemma settled_lift:
  assumes "w_notifications w = ns" "w_tasks w = ts"
    and "\<And>x. r = Inr x \<Longrightarrow> settled ns ts Q (f x w)"
  shows "settled ns ts Q (op_bind (op_lift r) f w)"
  using assms by (cases r) (auto simp: settled_def op_bind_def op_lift_def)

lemma settled_read:
  assumes "w_notifications w = ns" "w_tasks w = ts"
    and "\<And>x. g w = Inr x \<Longrightarrow> settled ns ts Q (f x w)"
  shows "settled ns ts Q (op_bind (\<lambda>v. (g v, v)) f w)"
  using assms by (cases "g w") (auto simp: settled_def op_bind_def)

definition accepted_message ::
  "env \<Rightarrow> service \<Rightarrow> api_key \<Rightarrow> ntype \<Rightarrow> notification list \<Rightarrow> (queue \<times> celery_task) list
     \<Rightarrow> post_response \<Rightarrow> world \<Rightarrow> bool" where
  \<comment> \<open>a simulated recipient leaves no trace; else one notification is stored and one message sent\<close>
  "accepted_message env s key t ns ts r v \<longleftrightarrow>
     ((\<exists>x. simulated_recipient env x t = Inr True) \<and> w_notifications v = ns \<and> w_tasks v = ts)
     \<or> (\<exists>n. w_notifications v = ns @ [n] \<and> \<not> insert_refused n ns \<and> n_id n = rs_id r
          \<and> n_status n = Created \<and> n_type n = t \<and> n_service_id n = svc_id s
          \<and> n_key_type n = k_key_type key \<and> n_api_key_id n = Some (k_id key)
          \<and> n_client_reference n = rs_reference r \<and> n_template_id n = rs_template_id r
          \<and> w_tasks v = ts @ [(delivery_queue (k_key_type key) t, delivery_task n)])"

lemma set_recipient_api_key:
  "set_recipient lib a n = Inr n' \<Longrightarrow> n_api_key_id n' = n_api_key_id n"
  by (auto simp: set_recipient_def res_bind_Inr_iff split: ntype.splits recipient_data.splits)

lemma persist_and_send:
  assumes "w_notifications w = ns" "w_tasks w = ts" "t \<in> {Sms, Email}"
    and "pn_notification_id a = Some i" "pn_simulated a \<longleftrightarrow> simulated"
    and "simulated \<Longrightarrow> \<exists>x. simulated_recipient env x t = Inr True"
    and "pn_notification_type a = t" "pn_key_type a = k_key_type key" "pn_api_key_id a = Some (k_id key)"
    and "pn_client_reference a = rs_reference r" "pn_template_id a = rs_template_id r" "pn_status a = Created"
    and "rs_id r = i"
  shows "settled ns ts (accepted_message env s key t ns ts)
    (op_bind (persist_notification env lib s a) (\<lambda>_.
       op_bind (if simulated then op_return ()
                else send_notification_to_queue_detached lib (k_key_type key) t i None) (\<lambda>_.
       op_return r)) w)"
proof (cases "persist_notification env lib s a w")
  case (Pair res v)
  then show ?thesis
  proof (cases rule: persist_notification_cases)
    case (1 e)
    then show ?thesis using Pair assms(1,2) by (simp add: settled_def)
  next
    case (2 n j)
    then show ?thesis
      using Pair assms by (simp add: settled_def op_bind_def op_return_def accepted_message_def)
  next
    case (3 n j)
    note keeps = set_recipient_keeps [OF 3(8)] set_recipient_api_key [OF 3(8)]
    have i: "n_id n = i" "j = i" using 3(9,10) assms(4) by simp_all
    obtain res2 v2 where send: "send_notification_to_queue_detached lib (k_key_type key) t i None v = (res2, v2)"
      by (cases "send_notification_to_queue_detached lib (k_key_type key) t i None v")
    have t: "t \<in> {Sms, Email, Letter}" using assms(3) by auto
    have split: "op_bind (persist_notification env lib s a) (\<lambda>_.
       op_bind (if simulated then op_return ()
                else send_notification_to_queue_detached lib (k_key_type key) t i None) (\<lambda>_.
       op_return r)) w = (case res2 of Inl e \<Rightarrow> (Inl e, v2) | Inr _ \<Rightarrow> (Inr r, v2))"
      using Pair 3(1,2) assms(5) send by (simp add: op_bind_def op_return_def split: sum.split)
    show ?thesis
      using send t
    proof (cases rule: send_detached_cases)
      case (1 e)
      have "w_notifications v2 = ns" "w_tasks v2 = ts"
        using 1(2) 3(3-5) assms(1,2) delete_new_row [OF 3(3)] i(1)
        by (simp_all add: dao_delete_notifications_by_id_def)
      then show ?thesis unfolding split 1(1) by (simp add: settled_def)
    next
      case 2
      have type: "n_type n = t" using keeps assms(7) by (simp add: new_notification_def)
      have task: "(case t of Sms \<Rightarrow> TDeliverSms i | Email \<Rightarrow> TDeliverEmail i
          | _ \<Rightarrow> TGetPdfForTemplatedLetter i) = delivery_task n"
        unfolding delivery_task_def type i(1) by (rule refl)
      have "accepted_message env s key t ns ts r v2"
        unfolding accepted_message_def
        by (rule disjI2, rule exI [of _ n])
          (use 2(2) 3(4,5,11) keeps assms i(1) task in
            \<open>simp add: enqueue_def new_notification_def\<close>)
      then show ?thesis unfolding split 2(1) by (simp add: settled_def)
    qed
  qed
qed

lemma response_fields:
  assumes "create_response_for_post_notification lib url s i reference template_id version t reply_to
    content link = Inr r"
  shows "rs_id r = i" "rs_reference r = reference" "rs_template_id r = template_id"
    "rs_body r = rd_content content"
  using assms
  by (auto simp: create_response_for_post_notification_def create_post_sms_response_def
      create_post_email_response_def create_post_letter_response_def
      create_notification_response_def Let_def split: ntype.splits)

lemma process_message_settled:
  assumes "w_notifications w = ns" "w_tasks w = ts" "t \<in> {Sms, Email}"
  shows "settled ns ts (accepted_message env s key t ns ts)
    (process_message_with_id env lib url s key form t st content reply_to link i w)"
  unfolding process_message_with_id_def Let_def case_prod_beta
  apply (rule settled_idle_bind [OF idle_recipient assms(1,2)])
  apply (rule settled_lift, assumption, assumption)
  apply (rule settled_lift, assumption, assumption)
  apply (rule settled_lift, assumption, assumption)
  apply (rule settled_lift, assumption, assumption)
  subgoal premises prems for recipient v simulated docs u r
    by (rule persist_and_send)
      (use prems assms(3) response_fields [OF prems(7)] in \<open>auto simp: persist_call_def\<close>)
  done

lemma create_uuid_frame [simp]:
  "w_notifications (snd (create_uuid env w)) = w_notifications w"
  "w_tasks (snd (create_uuid env w)) = w_tasks w" "w_now (snd (create_uuid env w)) = w_now w"
  "w_redis (snd (create_uuid env w)) = w_redis w" "w_templates (snd (create_uuid env w)) = w_templates w"
  by (simp_all add: create_uuid_def)

lemma post_settled:
  assumes "t \<in> {Sms, Email}"
  shows "settled (w_notifications w) (w_tasks w)
    (\<lambda>a v. \<exists>r. a = Answer r \<and> accepted_message env s key t (w_notifications w) (w_tasks w) r v)
    (post_notification env lib s key req (ntype_name t) w)"
proof -
  have t: "ntype_of_name (ntype_name t) = Some t" "t \<noteq> Letter"
    using assms by (auto simp: ntype_of_name_def)
  show ?thesis
    unfolding post_notification_def t option.case post_with_template_def
    apply (rule settled_idle_bind [OF idle_check_rate_limiting refl refl])
    apply (rule settled_lift, assumption, assumption)
    apply (rule settled_lift, assumption, assumption)
    apply (rule settled_lift, assumption, assumption)
    apply (rule settled_read, assumption, assumption)
    apply (simp only: case_prod_beta)
    apply (rule settled_read, assumption, assumption)
    subgoal premises prems for x v y form u content reply_to
    proof -
      have "settled (w_notifications w) (w_tasks w)
          (accepted_message env s key t (w_notifications w) (w_tasks w))
          (process_sms_or_email_notification env lib (rq_url_root req) s key form t (fst content)
            (snd content) reply_to (pf_unsubscribe_url form) v)" (is "settled _ _ _ (?m v)")
        unfolding process_sms_or_email_notification_def case_prod_beta Let_def
        by (rule process_message_settled [OF _ _ assms]) (simp_all add: prems(2,3))
      then show ?thesis
        using t(2) by (cases "?m v") (auto simp: settled_def op_bind_def op_return_def split: sum.splits)
    qed
    done
qed

text \<open>A concrete instance of the libraries, a key and a request.\<close>

definition sample_api :: api_lib where
  "sample_api =
     \<lparr>al_phone = (\<lambda>n. Inr \<lparr>ph_uk = False, ph_normalised = n, ph_international = False,
        ph_crown_dependency = False, ph_country_prefix = ''31'', ph_rate_multiplier = 1\<rparr>),
      al_validate_phone = (\<lambda>p i l. Inr ()), al_nl_prefix = ''31'',
      al_allowed_to_send_to = (\<lambda>r ms. Some r \<in> set ms),
      al_render = (\<lambda>t content subject block ps.
        \<lparr>rd_missing = [], rd_empty = False, rd_too_long = False, rd_count = 5, rd_bytes = 5,
         rd_qr_error = None, rd_subject = [], rd_content = content\<rparr>),
      al_format_email = Inr,
      al_address = (\<lambda>ps i. \<lparr>ra_enough_lines = True, ra_too_many_lines = False,
        ra_invalid_characters = False, ra_international = False, ra_postcode = Some ''1234AB'',
        ra_city = Some ''Delft'', ra_postage = None, ra_normalised = ''Jan''\<rparr>),
      al_sign = (\<lambda>ps. ''signed''), al_base64 = Some, al_file = (\<lambda>d. Inl (JsonSchemaValidationError [])),
      al_upload_document = (\<lambda>s f c. Inr ''url''), al_simulated_upload_url = (\<lambda>s. ''url''),
      al_publish = (\<lambda>q t. None), al_random_identifier = (\<lambda>n. ''REF''), al_sms_char_limit = 918,
      al_address_min_lines = 3, al_address_max_lines = 7, al_admin_url = ''admin'',
      al_email_domain = ''notify'', al_notify_user_id = 5, al_fake_letter_delivery = True\<rparr>"

definition sample_key :: "key_type \<Rightarrow> api_key" where
  "sample_key k = \<lparr>k_id = 30, k_name = ''key'', k_secret = ''secret'', k_service_id = 10,
     k_key_type = k, k_expiry_date = None, k_created_at = 0, k_updated_at = None,
     k_created_by_id = 5, k_version = 1\<rparr>"

definition sample_request :: post_request where
  "sample_request =
     \<lparr>rq_json = Inr (), rq_content = False,
      rq_form = (\<lambda>t. Inr \<lparr>pf_template_id = 20, pf_recipient = ''31612345678'',
        pf_personalisation = None, pf_reference = Some ''mine'', pf_sender_id = None,
        pf_unsubscribe_url = None\<rparr>),
      rq_precompiled = Inl (JsonSchemaValidationError []), rq_messagebox = Inr None,
      rq_url_root = ''https://api/''\<rparr>"

definition post_world :: world where
  "post_world = sample_world\<lparr>w_services := [sample_service], w_templates := [sample_template],
     w_sms_senders := [sample_sender 1 True None]\<rparr>"

section \<open>Daily limits\<close>

definition daily_count :: "env \<Rightarrow> service \<Rightarrow> ntype \<Rightarrow> world \<Rightarrow> int" where
  "daily_count env s t w = redis_count (daily_key env s (ntype_name t) w) w"

definition daily_limit :: "service \<Rightarrow> ntype \<Rightarrow> int" where
  "daily_limit s t = (case t of Email \<Rightarrow> svc_email_message_limit s | Sms \<Rightarrow> svc_sms_message_limit s
     | Letter \<Rightarrow> svc_letter_message_limit s | Messagebox \<Rightarrow> svc_messagebox_message_limit s)"

definition within_daily_limits :: "env \<Rightarrow> service \<Rightarrow> world \<Rightarrow> bool" where
  "within_daily_limits env s w \<longleftrightarrow> (\<forall>t. daily_count env s t w \<le> daily_limit s t)"

definition distinct_daily_keys :: "env \<Rightarrow> bool" where
  \<comment> \<open>the key of the counter depends on the type\<close>
  "distinct_daily_keys env \<longleftrightarrow>
     (\<forall>d i a b. lib_daily_limit_key env d i a = lib_daily_limit_key env d i b \<longrightarrow> a = b)"

lemma rate_limits_ntype: "map_of (rate_limits s) (ntype_name t) = Some (daily_limit s t)"
  by (cases t) (simp_all add: rate_limits_def daily_limit_def)

lemma daily_key_now: "w_now v = w_now w \<Longrightarrow> daily_key env s name v = daily_key env s name w"
  by (simp add: daily_key_def)

text \<open>Operations that count at most one message of a type.\<close>

definition spends :: "env \<Rightarrow> service \<Rightarrow> ntype set \<Rightarrow> 'a op \<Rightarrow> bool" where
  "spends env s ts m \<longleftrightarrow>
     (\<forall>w. w_now (snd (m w)) = w_now w
        \<and> (\<forall>t. daily_count env s t (snd (m w)) \<le> daily_count env s t w + (if t \<in> ts then 1 else 0)))"

lemma spendsD:
  assumes "spends env s ts m" "m w = (r, v)"
  shows "w_now v = w_now w" "daily_count env s t v \<le> daily_count env s t w + (if t \<in> ts then 1 else 0)"
  using assms unfolding spends_def by (metis snd_conv)+

lemma spendsI:
  assumes "\<And>w r v. m w = (r, v) \<Longrightarrow> w_now v = w_now w
    \<and> (\<forall>t. daily_count env s t v \<le> daily_count env s t w + (if t \<in> ts then 1 else 0))"
  shows "spends env s ts m"
  unfolding spends_def using assms by (metis prod.collapse)

lemma idle_spends: "idle m \<Longrightarrow> spends env s {} m"
  by (simp add: idle_def spends_def daily_count_def daily_key_def)

lemma spends_mono:
  assumes "spends env s {} m"
  shows "spends env s ts m"
proof (rule spendsI)
  fix w r v assume m: "m w = (r, v)"
  have "daily_count env s t v \<le> daily_count env s t w + (if t \<in> ts then 1 else 0)" for t
    using spendsD(2) [OF assms m, of t] by simp
  then show "w_now v = w_now w
      \<and> (\<forall>t. daily_count env s t v \<le> daily_count env s t w + (if t \<in> ts then 1 else 0))"
    using spendsD(1) [OF assms m] by simp
qed

lemma spends_bind_idle:
  assumes "spends env s {} m" "\<And>x. spends env s ts (f x)"
  shows "spends env s ts (op_bind m f)"
proof (rule spendsI)
  fix w r v assume "op_bind m f w = (r, v)"
  then obtain r1 v1 where m: "m w = (r1, v1)"
      "(case r1 of Inl e \<Rightarrow> (Inl e, v1) | Inr x \<Rightarrow> f x v1) = (r, v)"
    by (cases "m w") (auto simp: op_bind_def split: sum.splits)
  note 1 = spendsD [OF assms(1) m(1)]
  show "w_now v = w_now w
      \<and> (\<forall>t. daily_count env s t v \<le> daily_count env s t w + (if t \<in> ts then 1 else 0))"
  proof (cases r1)
    case (Inl e)
    then show ?thesis using m(2) 1 by (auto simp: add_increasing2)
  next
    case (Inr x)
    then have "f x v1 = (r, v)" using m(2) by simp
    note 2 = spendsD [OF assms(2) this]
    show ?thesis using 1 2 by (auto intro: order_trans [OF 2(2)])
  qed
qed

lemma spends_bind:
  assumes "spends env s ts m" "\<And>x. spends env s {} (f x)"
  shows "spends env s ts (op_bind m f)"
proof (rule spendsI)
  fix w r v assume "op_bind m f w = (r, v)"
  then obtain r1 v1 where m: "m w = (r1, v1)"
      "(case r1 of Inl e \<Rightarrow> (Inl e, v1) | Inr x \<Rightarrow> f x v1) = (r, v)"
    by (cases "m w") (auto simp: op_bind_def split: sum.splits)
  note 1 = spendsD [OF assms(1) m(1)]
  show "w_now v = w_now w
      \<and> (\<forall>t. daily_count env s t v \<le> daily_count env s t w + (if t \<in> ts then 1 else 0))"
  proof (cases r1)
    case (Inl e)
    then show ?thesis using m(2) 1 by auto
  next
    case (Inr x)
    then have "f x v1 = (r, v)" using m(2) by simp
    note 2 = spendsD [OF assms(2) this]
    have "daily_count env s t v \<le> daily_count env s t w + (if t \<in> ts then 1 else 0)" for t
      using 1(2) [of t] 2(2) [of t] by simp
    then show ?thesis using 1(1) 2(1) by simp
  qed
qed

lemma rollback_counts [simp]:
  "w_now (rollback_to w0 w) = w_now w" "daily_count env s t (rollback_to w0 w) = daily_count env s t w"
  by (simp_all add: daily_count_def daily_key_def redis_count_def redis_get_def rollback_to_def)

lemma spends_autocommit:
  assumes "spends env s ts m"
  shows "spends env s ts (autocommit m)"
proof (rule spendsI)
  fix w r v assume a: "autocommit m w = (r, v)"
  obtain r1 v1 where m: "m w = (r1, v1)" by (cases "m w")
  have "w_now v = w_now v1" "daily_count env s t v = daily_count env s t v1" for t
    using a m by (cases r1; auto)+
  then show "w_now v = w_now w
      \<and> (\<forall>t. daily_count env s t v \<le> daily_count env s t w + (if t \<in> ts then 1 else 0))"
    using spendsD [OF assms m] by simp
qed

lemma spends_apply_async: "spends env s {} (apply_async lib q t)"
  by (auto simp: spends_def apply_async_def enqueue_def daily_count_def daily_key_def
      redis_count_def redis_get_def split: option.split)

lemma redis_count_set [simp]: "redis_count k (redis_set k' x w) = (if k = k' then x else redis_count k w)"
  by (simp add: redis_count_def)

lemma redis_count_increment:
  "redis_count k (increment_daily_limit_cache env s name w) =
     redis_count k w + (if k = daily_key env s name w then 1 else 0)"
  "w_now (increment_daily_limit_cache env s name w) = w_now w"
  by (auto simp: increment_daily_limit_cache_def redis_incrby_def Let_def split: option.split)
    (simp_all add: redis_count_def)

lemma daily_count_increment:
  assumes "distinct_daily_keys env"
  shows "daily_count env s t (increment_daily_limit_caches env lib s n k w) =
    daily_count env s t w + (if k \<noteq> TestKey \<and> cfg_redis_enabled env \<and> t = n_type n then 1 else 0)"
proof -
  have "ntype_name a \<noteq> service_permission_name InternationalSms" for a by (cases a) simp_all
  then have intl: "daily_key env s (ntype_name a) w \<noteq> daily_key env s (service_permission_name InternationalSms) w"
      for a
    using assms unfolding distinct_daily_keys_def daily_key_def by metis
  have same: "daily_key env s (ntype_name a) w = daily_key env s (ntype_name b) w \<longleftrightarrow> a = b" for a b
    using assms unfolding distinct_daily_keys_def daily_key_def by (metis ntype_name_inj)
  show ?thesis
    using intl
    by (simp add: increment_daily_limit_caches_def daily_count_def Let_def redis_count_increment
        daily_key_now [OF redis_count_increment(2)] same
        del: ntype_name.simps service_permission_name.simps)
qed

lemma persist_spends:
  assumes "distinct_daily_keys env"
    and "pn_key_type a \<noteq> TestKey \<Longrightarrow> cfg_redis_enabled env \<Longrightarrow> pn_notification_type a \<in> ts"
  shows "spends env s ts (persist_notification env lib s a)"
proof (rule spendsI)
  fix w r v assume "persist_notification env lib s a w = (r, v)"
  then show "w_now v = w_now w \<and> (\<forall>t. daily_count env s t v \<le> daily_count env s t w
      + (if t \<in> ts then 1 else 0))"
  proof (cases rule: persist_notification_cases)
    case (1 e)
    then show ?thesis by (simp add: daily_count_def daily_key_def redis_count_def redis_get_def)
  next
    case (2 n i)
    then show ?thesis by (simp add: daily_count_def daily_key_def redis_count_def redis_get_def)
  next
    case (3 n i)
    have "daily_count env s t v = daily_count env s t (increment_daily_limit_caches env lib s n (pn_key_type a) w)" for t
      using 3(6,7) by (simp add: daily_count_def daily_key_def redis_count_def redis_get_def)
    moreover have "n_type n = pn_notification_type a"
      using set_recipient_keeps(5) [OF 3(8)] by (simp add: new_notification_def)
    ultimately show ?thesis
      using 3(6) assms(2) by (simp add: daily_count_increment [OF assms(1)])
  qed
qed

definition counted :: "env \<Rightarrow> api_key \<Rightarrow> ntype \<Rightarrow> ntype set" where
  "counted env key t0 = {t. t = t0 \<and> k_key_type key \<noteq> TestKey \<and> cfg_redis_enabled env}"

lemmas spends_intros = spends_bind_idle idle_spends [OF idle_lift(1)] idle_spends [OF idle_lift(4)]
  idle_spends [OF idle_recipient]

lemma create_letter_spends:
  assumes "distinct_daily_keys env"
  shows "spends env s (counted env key Letter)
    (create_letter_notification env lib ps ref dp st s key status rt u gp)"
proof (rule spendsI)
  fix w r v assume c: "create_letter_notification env lib ps ref dp st s key status rt u gp w = (r, v)"
  show "w_now v = w_now w \<and> (\<forall>t. daily_count env s t v \<le> daily_count env s t w
      + (if t \<in> counted env key Letter then 1 else 0))"
    using spendsD [OF persist_spends [OF assms, where ts = "counted env key Letter"]
        c [unfolded create_letter_notification_def Let_def]]
    by (simp add: persist_call_def counted_def)
qed

lemma send_detached_spends: "spends env s {} (send_notification_to_queue_detached lib k t i given)"
proof (rule spendsI)
  fix w r v assume "send_notification_to_queue_detached lib k t i given w = (r, v)"
  then have "w_redis v = w_redis w" "w_now v = w_now w"
    by (auto simp: send_notification_to_queue_detached_def apply_async_def enqueue_def Let_def
        dao_delete_notifications_by_id_def split: option.splits ntype.splits)
  then show "w_now v = w_now w \<and> (\<forall>t. daily_count env s t v \<le> daily_count env s t w
      + (if t \<in> {} then 1 else 0))"
    by (simp add: daily_count_def daily_key_def redis_count_def redis_get_def)
qed

lemma process_message_spends:
  assumes "distinct_daily_keys env"
  shows "spends env s (counted env key t)
    (process_message_with_id env lib url s key form t st content reply_to link i)"
  unfolding process_message_with_id_def Let_def case_prod_beta
  by (intro spends_intros spends_bind [OF persist_spends [OF assms]] allI)
    (auto simp: persist_call_def counted_def intro!: spends_bind_idle send_detached_spends idle_spends)

lemma check_passed:
  assumes "check_rate_limiting env s key (ntype_name t) w = (Inr u, v)"
    and "t' \<in> counted env key t"
  shows "daily_count env s t' w + 1 \<le> daily_limit s t'"
proof -
  have t: "t' = t" "k_key_type key \<noteq> TestKey" "cfg_redis_enabled env" using assms(2) by (simp_all add: counted_def)
  have "check_service_over_daily_message_limit env s (k_key_type key) (ntype_name t) 1 w = (Inr u, v)"
    using assms(1) by (auto simp: check_rate_limiting_def op_bind_def split: sum.splits)
  then show ?thesis
    using t by (auto simp: check_service_over_daily_message_limit_def rate_limits_ntype daily_count_def
        redis_count_def Let_def split: option.splits if_splits)
qed

lemma check_then_spend:
  assumes "within_daily_limits env s w"
    and "\<And>x. spends env s (counted env key t) (f x)"
  shows "within_daily_limits env s (snd (op_bind (check_rate_limiting env s key (ntype_name t)) f w))"
proof -
  obtain r v where c: "check_rate_limiting env s key (ntype_name t) w = (r, v)"
    by (cases "check_rate_limiting env s key (ntype_name t) w")
  have same: "daily_count env s t' v = daily_count env s t' w" for t'
    using idle_check_rate_limiting [of env s key "ntype_name t"] c
    by (auto simp: idle_def daily_count_def daily_key_def dest: spec [of _ w])
  show ?thesis
  proof (cases r)
    case (Inl e)
    then show ?thesis using c same assms(1) by (simp add: within_daily_limits_def)
  next
    case (Inr u)
    obtain r2 v2 where f: "f u v = (r2, v2)" by (cases "f u v")
    have "daily_count env s t' v2 \<le> daily_limit s t'" for t'
      using spendsD(2) [OF assms(2) f, of t'] same [of t'] assms(1)
        check_passed [of env s key t w u v t'] c Inr
      by (cases "t' \<in> counted env key t") (auto simp: within_daily_limits_def intro: order_trans)
    then show ?thesis using c Inr f by (simp add: within_daily_limits_def)
  qed
qed

lemma process_letter_spends:
  assumes "distinct_daily_keys env"
  shows "spends env s (counted env key Letter)
    (process_letter_notification env lib url form key s st content reply_to)"
proof -
  have "spends env s (counted env key Letter) (op_bind (op_lift (validate_address lib s ps)) (\<lambda>postage.
          op_bind (create_letter_notification env lib ps (pf_reference form) None st s key status
              reply_to u postage) (\<lambda>n.
          op_bind (apply_async lib q (TGetPdfForTemplatedLetter (n_id n))) (\<lambda>_.
          op_bind (if b then apply_async lib q (TCreateFakeLetterCallback (n_id n) (n_billable_units n) (n_postage n))
                   else op_return ()) (\<lambda>_.
          op_bind (op_lift (create_response_for_post_notification lib url s (n_id n)
              (n_client_reference n) (n_template_id n) (n_template_version n) (n_type n) reply_to
              content None)) (\<lambda>r. op_return (Answer r)))))))" for ps status u q b
    by (intro spends_intros spends_bind [OF create_letter_spends [OF assms]])
      (auto intro!: spends_bind_idle spends_apply_async idle_spends)
  note rest = spendsD [OF this]
  show ?thesis
    unfolding process_letter_notification_def
    by (rule spends_bind_idle, rule idle_spends [OF idle_lift(1)], rule spendsI)
      (unfold Let_def, rule conjI, erule rest(1), rule allI, erule rest(2))
qed

lemma spends_if: "spends env s ts a \<Longrightarrow> spends env s ts b \<Longrightarrow> spends env s ts (if c then a else b)"
  by simp

lemma post_with_template_spends:
  assumes "distinct_daily_keys env"
  shows "spends env s (counted env key t) (post_with_template env lib s key req t)"
proof -
  have message: "spends env s (counted env key t)
      (process_sms_or_email_notification env lib url s key form t st content reply_to link)"
      for url form st content reply_to link
  proof (rule spendsI)
    fix w r v
    assume "process_sms_or_email_notification env lib url s key form t st content reply_to link w = (r, v)"
    then have "process_message_with_id env lib url s key form t st content reply_to link
        (fst (create_uuid env w)) (snd (create_uuid env w)) = (r, v)"
      by (simp add: process_sms_or_email_notification_def case_prod_beta)
    note spendsD [OF process_message_spends [OF assms] this]
    then show "w_now v = w_now w \<and> (\<forall>t'. daily_count env s t' v \<le> daily_count env s t' w
        + (if t' \<in> counted env key t then 1 else 0))"
      by (simp add: daily_count_def daily_key_def redis_count_def redis_get_def)
  qed
  show ?thesis
    unfolding post_with_template_def case_prod_beta
    by (cases "t = Letter")
      (auto intro!: spends_intros spends_bind [OF message] process_letter_spends [OF assms] idle_spends)
qed

lemma post_notification_within:
  assumes "distinct_daily_keys env" "within_daily_limits env s w"
  shows "within_daily_limits env s (snd (post_notification env lib s key req name w))"
proof (cases "ntype_of_name name")
  case None
  have "idle (post_notification env lib s key req name)"
    unfolding post_notification_def None option.case
    by (intro idle_bind idle_check_rate_limiting) simp_all
  then show ?thesis
    using assms(2) by (simp add: idle_def within_daily_limits_def daily_count_def daily_key_def)
next
  case (Some t)
  then have "name = ntype_name t" by (auto simp: ntype_of_name_def split: if_splits)
  then show ?thesis
    unfolding post_notification_def Some option.case
    by (auto intro!: check_then_spend [OF assms(2)] spends_intros post_with_template_spends [OF assms(1)])
qed

lemma find_template_spends: "spends env s ts (find_or_create_hidden_template env lib t mk i)"
proof (rule spends_mono, rule idle_spends)
  show "idle (find_or_create_hidden_template env lib t mk i)"
    by (auto simp: idle_def find_or_create_hidden_template_def dao_create_template_def Let_def
        create_uuid_def redis_count_def redis_get_def autocommit_def split: option.split sum.split)
qed

lemma precompiled_spends:
  assumes "distinct_daily_keys env"
  shows "spends env s (counted env key Letter)
    (process_precompiled_letter_notifications env lib form key s st)"
proof (cases "al_base64 lib (pc_content form)")
  case None
  then have "idle (process_precompiled_letter_notifications env lib form key s st)"
    by (simp add: idle_def process_precompiled_letter_notifications_def)
  then show ?thesis by (rule spends_mono [OF idle_spends])
next
  case (Some pdf)
  have upload: "spends env s {} (upload_letter_pdf env n pdf True)" for n
  proof (rule idle_spends)
    show "idle (upload_letter_pdf env n pdf True)"
      by (auto simp: idle_def upload_letter_pdf_def s3_put_def redis_count_def redis_get_def
          split: sum.split)
  qed
  have "spends env s (counted env key Letter) (op_bind (autocommit (
            op_bind (create_letter_notification env lib [(''address_line_1'', PText ''Provided as PDF'')]
                (Some (pc_reference form)) (pc_postage form) st s key PendingVirusCheck (Some []) None None)
              (\<lambda>n. op_bind (upload_letter_pdf env n pdf True) (\<lambda>filename. op_return (n, filename)))))
            (\<lambda>(n, filename).
             op_bind (if cfg_antivirus_enabled env then apply_async lib ANTIVIRUS (TScanFile filename)
                      else apply_async lib LETTERS (TSanitiseLetter (Some filename)))
               (\<lambda>_. op_return (PrecompiledAnswer (n_id n) (n_client_reference n) (n_postage n)))))"
    unfolding case_prod_beta
    by (rule spends_bind, rule spends_autocommit, rule spends_bind, rule create_letter_spends [OF assms])
      (intro spends_bind_idle upload spends_if spends_apply_async idle_spends idle_lift)+
  moreover have "process_precompiled_letter_notifications env lib form key s st = (op_bind (autocommit (
            op_bind (create_letter_notification env lib [(''address_line_1'', PText ''Provided as PDF'')]
                (Some (pc_reference form)) (pc_postage form) st s key PendingVirusCheck (Some []) None None)
              (\<lambda>n. op_bind (upload_letter_pdf env n pdf True) (\<lambda>filename. op_return (n, filename)))))
            (\<lambda>(n, filename).
             op_bind (if cfg_antivirus_enabled env then apply_async lib ANTIVIRUS (TScanFile filename)
                      else apply_async lib LETTERS (TSanitiseLetter (Some filename)))
               (\<lambda>_. op_return (PrecompiledAnswer (n_id n) (n_client_reference n) (n_postage n)))))"
    by (rule ext) (simp add: process_precompiled_letter_notifications_def Some)
  ultimately show ?thesis by simp
qed

lemma post_precompiled_within:
  assumes "distinct_daily_keys env" "within_daily_limits env s w"
  shows "within_daily_limits env s (snd (post_precompiled_letter_notification env lib s key req w))"
proof -
  have again: "spends env s (counted env key Letter) (post_notification env lib s key req (ntype_name Letter))"
  proof -
    have t: "ntype_of_name (ntype_name Letter) = Some Letter" by (simp add: ntype_of_name_def)
    show ?thesis
      unfolding post_notification_def t option.case
      by (intro spends_intros idle_spends [OF idle_check_rate_limiting] post_with_template_spends [OF assms(1)])
  qed
  show ?thesis
    unfolding post_precompiled_letter_notification_def get_precompiled_letter_template_def
    by (intro check_then_spend [OF assms(2)] spends_intros spends_if again precompiled_spends [OF assms(1)]
        find_template_spends)
qed

lemma post_messagebox_within:
  assumes "distinct_daily_keys env" "within_daily_limits env s w"
  shows "within_daily_limits env s (snd (post_notification_messagebox env lib s key req w))"
proof -
  have "spends env s (counted env key Messagebox) (process_messagebox_notification env lib url ref key s)"
      for url ref
  proof (rule spendsI)
    fix w r v assume c: "process_messagebox_notification env lib url ref key s w = (r, v)"
    have inner: "spends env s (counted env key Messagebox) (op_bind (get_messagebox_template env lib (svc_id s)) (\<lambda>t.
            op_bind (persist_notification env lib s
                ((persist_call (t_id t) (t_version t) (TextData []) None Messagebox (Some (k_id key))
                    (k_key_type key))
                 \<lparr>pn_notification_id := Some i, pn_client_reference := ref,
                  pn_status := (if b then Delivered else Created),
                  pn_updated_at := (if b then Some u else None)\<rparr>)) (\<lambda>_ v. (Inr (f t v), v))))"
      for i b u and f :: "template \<Rightarrow> world \<Rightarrow> answer"
      unfolding get_messagebox_template_def
      by (intro spends_bind_idle find_template_spends spends_bind [OF persist_spends [OF assms(1)]])
        (auto simp: persist_call_def counted_def spends_def)
    show "w_now v = w_now w \<and> (\<forall>t. daily_count env s t v \<le> daily_count env s t w
        + (if t \<in> counted env key Messagebox then 1 else 0))"
    proof (cases "k_key_type key = TeamKey \<or> svc_restricted s \<and> k_key_type key \<noteq> TestKey")
      case True
      then have "v = w" using c by (auto simp: process_messagebox_notification_def split: if_splits)
      then show ?thesis by simp
    next
      case False
      then have "k_key_type key \<noteq> TeamKey" "\<not> (svc_restricted s \<and> k_key_type key \<noteq> TestKey)" by auto
      note c' = c [unfolded process_messagebox_notification_def if_not_P [OF this(1)] if_not_P [OF this(2)]
          Let_def case_prod_beta]
      show ?thesis
        using spendsD [OF inner c']
        by (simp add: daily_count_def daily_key_def redis_count_def redis_get_def)
    qed
  qed
  then show ?thesis
    unfolding post_notification_messagebox_def
    by (intro check_then_spend [OF assms(2)] spends_intros spends_bind)
      (auto intro!: spends_bind_idle idle_spends)
qed

section \<open>Properties\<close>



text \<open>
  C8: whatever requests a service sends one after the other on a day - with a template,
  with a PDF or to a message box, with keys of any kind - the counter of each type of message
  stays within the limit of that type, when the keys of the counters are different for different
  types.
\<close>

inductive post_step :: "env \<Rightarrow> api_lib \<Rightarrow> service \<Rightarrow> world \<Rightarrow> world \<Rightarrow> bool" for env lib s where
  template: "post_step env lib s w (snd (post_notification env lib s key req name w))"
| letter: "post_step env lib s w (snd (post_precompiled_letter_notification env lib s key req w))"
| messagebox: "post_step env lib s w (snd (post_notification_messagebox env lib s key req w))"


lemma sample_daily_keys: "distinct_daily_keys sample_env"
  by (simp add: distinct_daily_keys_def sample_env_def)


text \<open>
  The check and the count are two steps. When one message is left of the day's limit, two
  requests that are both checked before either is counted both pass, and after both are stored
  the counter is above the limit.
\<close>

theorem concurrent_requests_exceed_limit:
  assumes "distinct_daily_keys env" "cfg_redis_enabled env" "k_key_type key \<noteq> TestKey"
    and "check_service_over_api_rate_limit env s (k_key_type key) w = Inr ()"
    and "daily_count env s t w + 1 = daily_limit s t"
  shows "\<exists>v. check_rate_limiting env s key (ntype_name t) w = (Inr (), v)
    \<and> check_rate_limiting env s key (ntype_name t) v = (Inr (), v)
    \<and> (\<forall>a b n m v1 v2. pn_notification_type a = t \<and> pn_key_type a = k_key_type key \<and> \<not> pn_simulated a
         \<and> pn_notification_type b = t \<and> pn_key_type b = k_key_type key \<and> \<not> pn_simulated b
         \<and> persist_notification env lib s a v = (Inr n, v1) \<and> persist_notification env lib s b v1 = (Inr m, v2)
         \<longrightarrow> daily_count env s t v2 = daily_limit s t + 1)"
proof -
  define v where "v = (case redis_get (daily_key env s (ntype_name t) w) w of
      None \<Rightarrow> redis_set (daily_key env s (ntype_name t) w) 0 w | Some x \<Rightarrow> w)"
  have v: "w_now v = w_now w" "daily_count env s t v = daily_count env s t w"
    by (auto simp: v_def daily_count_def daily_key_def redis_count_def split: option.split)
  have some: "redis_get (daily_key env s (ntype_name t) w) v = Some (daily_count env s t w)"
    by (auto simp: v_def daily_count_def redis_count_def split: option.split)
  have 1: "check_rate_limiting env s key (ntype_name t) w = (Inr (), v)"
    using assms(2-5) by (auto simp: check_rate_limiting_def op_bind_def rate_limits_ntype v_def
        check_service_over_daily_message_limit_def daily_count_def redis_count_def Let_def
        split: option.splits)
  have rate: "check_service_over_api_rate_limit env s (k_key_type key) v = Inr ()"
    using assms(4) v(1) by (simp add: check_service_over_api_rate_limit_def)
  have 2: "check_rate_limiting env s key (ntype_name t) v = (Inr (), v)"
    using assms(2,3,5) rate some
    by (simp add: check_rate_limiting_def op_bind_def rate_limits_ntype daily_key_now [OF v(1)]
        check_service_over_daily_message_limit_def Let_def)
  have count: "daily_count env s t x' = daily_count env s t x + 1"
    if "persist_notification env lib s a x = (Inr n, x')" "\<not> pn_simulated a"
      "pn_notification_type a = t" "pn_key_type a = k_key_type key" for a n x x'
    using that(1)
  proof (cases rule: persist_notification_cases)
    case (3 n' i)
    have "n_type n' = t" using set_recipient_keeps(5) [OF 3(8)] that(3) by (simp add: new_notification_def)
    then have "daily_count env s t (increment_daily_limit_caches env lib s n' (pn_key_type a) x)
        = daily_count env s t x + 1"
      using assms(2,3) that(4) by (simp add: daily_count_increment [OF assms(1)])
    then show ?thesis
      using 3(6,7) by (simp add: daily_count_def daily_key_def redis_count_def redis_get_def)
  qed (use that in auto)
  show ?thesis
    by (rule exI [of _ v]) (use 1 2 v(2) assms(5) in \<open>auto dest!: count\<close>)
qed

theorem concurrent_requests_exceed_limit_witness:
  "\<exists>v. check_rate_limiting sample_env (sample_service\<lparr>svc_sms_message_limit := 1\<rparr>) (sample_key NormalKey)
       (ntype_name Sms) post_world = (Inr (), v)
    \<and> check_rate_limiting sample_env (sample_service\<lparr>svc_sms_message_limit := 1\<rparr>) (sample_key NormalKey)
       (ntype_name Sms) v = (Inr (), v)"
proof -
  have "cfg_redis_enabled sample_env" "k_key_type (sample_key NormalKey) \<noteq> TestKey"
    "check_service_over_api_rate_limit sample_env (sample_service\<lparr>svc_sms_message_limit := 1\<rparr>)
       (k_key_type (sample_key NormalKey)) post_world = Inr ()"
    "daily_count sample_env (sample_service\<lparr>svc_sms_message_limit := 1\<rparr>) Sms post_world + 1
       = daily_limit (sample_service\<lparr>svc_sms_message_limit := 1\<rparr>) Sms"
    by (simp_all add: sample_env_def sample_key_def check_service_over_api_rate_limit_def
        daily_limit_def daily_count_def redis_count_def redis_get_def post_world_def sample_world_def)
  from concurrent_requests_exceed_limit [OF sample_daily_keys this, of sample_api]
  show ?thesis by blast
qed

lemma hidden_template_frame:
  assumes "find_or_create_hidden_template env lib t mk i w = (r, v)"
  shows "w_notifications v = w_notifications w" "w_tasks v = w_tasks w"
  using assms
  by (auto simp: find_or_create_hidden_template_def dao_create_template_def Let_def create_uuid_def
      autocommit_def split: option.splits sum.splits)

lemma process_messagebox_stores:
  assumes "process_messagebox_notification env lib url ref key s w = (Inr a, v)"
  shows "\<exists>n. w_notifications v = w_notifications w @ [n] \<and> n_type n = Messagebox
    \<and> n_service_id n = svc_id s \<and> w_tasks v = w_tasks w"
proof -
  have ok: "k_key_type key \<noteq> TeamKey" "\<not> (svc_restricted s \<and> k_key_type key \<noteq> TestKey)"
    using assms by (auto simp: process_messagebox_notification_def split: if_splits)
  define w1 where "w1 = snd (create_uuid env w)"
  have w1: "w_notifications w1 = w_notifications w" "w_tasks w1 = w_tasks w" by (simp_all add: w1_def)
  note bind = assms [unfolded process_messagebox_notification_def if_not_P [OF ok(1)]
      if_not_P [OF ok(2)] Let_def case_prod_beta, folded w1_def]
  obtain r2 w2 where t: "get_messagebox_template env lib (svc_id s) w1 = (r2, w2)"
    by (cases "get_messagebox_template env lib (svc_id s) w1")
  note w2 = hidden_template_frame [OF t [unfolded get_messagebox_template_def]]
  obtain t where r2: "r2 = Inr t" using bind t by (cases r2) auto
  define args where "args = persist_call (t_id t) (t_version t) (TextData []) None Messagebox (Some (k_id key))
      (k_key_type key)\<lparr>pn_notification_id := Some (fst (create_uuid env w)), pn_client_reference := ref,
       pn_status := (if k_key_type key = TestKey then Delivered else Created),
       pn_updated_at := (if k_key_type key = TestKey then Some (w_now w) else None)\<rparr>"
  have args: "pn_notification_type args = Messagebox" "\<not> pn_simulated args"
    by (simp_all add: args_def persist_call_def)
  obtain r3 w3 where p: "persist_notification env lib s args w2 = (r3, w3)"
    by (cases "persist_notification env lib s args w2")
  have r3: "\<exists>m. r3 = Inr m" "w3 = v"
    using bind [unfolded op_bind_def t r2 prod.case sum.case, folded args_def, unfolded p prod.case]
    by (cases r3; simp)+
  show ?thesis
    using p
  proof (cases rule: persist_notification_cases)
    case (3 n i)
    then show ?thesis
      using w1 w2 r3(2) set_recipient_keeps(3,5) [OF 3(8)] args(1) by (simp add: new_notification_def)
  qed (use r3 args in auto)
qed

text \<open>
  The endpoint of message boxes asks for the permission last. A service without the
  permission is refused with a bad request, but its notification is stored and counted all the
  same; and with or without the permission no task that would deliver it is ever sent.
\<close>

theorem messagebox_without_permission_is_stored:
  assumes "\<not> has_permission s (SendType Messagebox)"
    and "check_rate_limiting env s key (ntype_name Messagebox) w = (Inr (), v)"
    and "rq_json req = Inr ()" "rq_messagebox req = Inr reference"
    and "process_messagebox_notification env lib (rq_url_root req) reference key s v = (Inr a, w')"
  shows "post_notification_messagebox env lib s key req w =
      (Inl (bad_request ''Service is not allowed to send messageboxs''), w')
    \<and> (\<exists>n. w_notifications w' = w_notifications w @ [n] \<and> n_type n = Messagebox
         \<and> n_service_id n = svc_id s \<and> w_tasks w' = w_tasks w)"
proof -
  have "w_notifications v = w_notifications w" "w_tasks v = w_tasks w"
    using idle_check_rate_limiting [of env s key "ntype_name Messagebox"] assms(2)
    by (auto simp: idle_def dest: spec [of _ w])
  then show ?thesis
    using process_messagebox_stores [OF assms(5)] assms
    by (simp add: post_notification_messagebox_def op_lift_def op_bind_def
        check_service_has_permission_def get_public_notify_type_text_def)
qed

definition messagebox_world :: world where
  "messagebox_world = sample_world\<lparr>w_services := [sample_service],
     w_templates := [hidden_template Messagebox ''Berichtenbox bericht'' [] None 21 5 10 0]\<rparr>"

theorem messagebox_without_permission_is_stored_witness:
  "\<exists>n. post_notification_messagebox sample_env sample_api sample_service (sample_key NormalKey)
       sample_request messagebox_world =
     (Inl (bad_request ''Service is not allowed to send messageboxs''),
      snd (post_notification_messagebox sample_env sample_api sample_service (sample_key NormalKey)
        sample_request messagebox_world))
   \<and> w_notifications (snd (post_notification_messagebox sample_env sample_api sample_service
       (sample_key NormalKey) sample_request messagebox_world)) = [n]"
proof -
  have rows: "w_notifications messagebox_world = []"
    by (simp add: messagebox_world_def sample_world_def)
  have perm: "\<not> has_permission sample_service (SendType Messagebox)"
    by (simp add: has_permission_def sample_service_def)
  have "\<exists>v. check_rate_limiting sample_env sample_service (sample_key NormalKey) (ntype_name Messagebox)
      messagebox_world = (Inr (), v) \<and> w_notifications v = []
      \<and> w_templates v = [hidden_template Messagebox ''Berichtenbox bericht'' [] None 21 5 10 0]"
    by (simp add: check_rate_limiting_def op_bind_def check_service_over_api_rate_limit_def sample_env_def
        sample_key_def check_service_over_daily_message_limit_def rate_limits_def sample_service_def
        redis_get_def redis_set_def messagebox_world_def sample_world_def Let_def)
  then obtain v where v: "check_rate_limiting sample_env sample_service (sample_key NormalKey)
      (ntype_name Messagebox) messagebox_world = (Inr (), v)" "w_notifications v = []"
      "w_templates v = [hidden_template Messagebox ''Berichtenbox bericht'' [] None 21 5 10 0]" by blast
  have "\<exists>a w'. process_messagebox_notification sample_env sample_api (rq_url_root sample_request) None
      (sample_key NormalKey) sample_service v = (Inr a, w')"
    using v(2,3)
    by (simp add: process_messagebox_notification_def sample_key_def sample_service_def op_bind_def
        get_messagebox_template_def find_or_create_hidden_template_def query_first_def create_uuid_def
        hidden_template_def persist_notification_def persist_call_def set_recipient_def
        new_notification_def dao_create_notification_def autocommit_def save_notification_def Let_def
        insert_refused_def notification_row_ok_def job_row_def)
  then obtain a w' where p: "process_messagebox_notification sample_env sample_api (rq_url_root sample_request)
      None (sample_key NormalKey) sample_service v = (Inr a, w')" by blast
  have "rq_json sample_request = Inr ()" "rq_messagebox sample_request = Inr None"
    by (simp_all add: sample_request_def)
  from messagebox_without_permission_is_stored [OF perm v(1) this p]
  show ?thesis by (auto simp: rows)
qed

text \<open>
  C18: a recipient passes the checks only with a test key, with a live key of a service that is
  not in trial mode, or when it is in the team or on the guest list of the service.
\<close>

theorem trial_mode_recipients:
  assumes "validate_and_format_recipient env lib send_to k s t True c w = (Inr r, v)"
  shows "k = TestKey \<or> k = NormalKey \<and> \<not> svc_restricted s
    \<or> (\<exists>x row. send_to = Some x \<and> dao_fetch_service_by_id (svc_id s) False w = Inr row
        \<and> al_allowed_to_send_to lib x
             (concat (map (\<lambda>u. [u_mobile_number u, Some (u_email_address u)]) (service_users (svc_id row) w))
              @ map (\<lambda>g. Some (gl_recipient g)) (dao_fetch_service_guest_list (svc_id row) w)))"
proof (rule ccontr)
  assume neg: "\<not> ?thesis"
  then have k: "\<not> (k = TestKey \<or> k = NormalKey \<and> \<not> svc_restricted s)" by blast
  obtain x where x: "send_to = Some x"
    using assms by (cases send_to) (simp_all add: validate_and_format_recipient_def)
  have "service_can_send_to_recipient lib x k s True w = Inr ()"
    using assms x by (auto simp: validate_and_format_recipient_def op_bind_def op_lift_def split: sum.splits)
  then have "service_allowed_to_send_to lib x s k True w = Inr True"
    by (auto simp: service_can_send_to_recipient_def res_bind_Inr_iff split: if_splits)
  then show False
    using k neg x by (auto simp: service_allowed_to_send_to_def res_bind_Inr_iff Let_def split: if_splits)
qed

theorem trial_mode_recipients_witness:
  "\<exists>r v. validate_and_format_recipient sample_env sample_api (Some ''a@b'') NormalKey sample_service Email
      True True post_world = (Inr r, v)
    \<and> (NormalKey = TestKey \<or> NormalKey = NormalKey \<and> \<not> svc_restricted sample_service
       \<or> (\<exists>x row. Some ''a@b'' = Some x \<and> dao_fetch_service_by_id (svc_id sample_service) False post_world = Inr row))"
proof -
  have "validate_and_format_recipient sample_env sample_api (Some ''a@b'') NormalKey sample_service Email
      True True post_world = (Inr (TextData ''a@b''), post_world)"
    by (simp add: validate_and_format_recipient_def op_bind_def op_lift_def op_return_def
        service_can_send_to_recipient_def service_allowed_to_send_to_def sample_service_def sample_env_def)
  from this trial_mode_recipients [OF this] show ?thesis by blast
qed

text \<open>
  A type of message nobody knows is looked up in the table of limits before the endpoint can
  answer that there is no such page: the answer is an internal error unless the key is a test key.
\<close>

lemma unknown_type_is_internal_error:
  assumes "map_of (rate_limits s) name = None" "cfg_redis_enabled env"
    and "check_service_over_api_rate_limit env s (k_key_type key) w = Inr ()"
    and "k_key_type key \<noteq> TestKey"
  shows "post_notification env lib s key req name w = (Inl (Py (KeyError name)), w)"
    and "resp_status (v2_error_response msg cls (Py (KeyError name))) = 500"
  using assms
  by (simp_all add: post_notification_def check_rate_limiting_def op_bind_def
      check_service_over_daily_message_limit_def error_response_def)

end
