(* ===== verification/Jobs.thy ===== *)
theory Jobs
  imports Post
begin

text \<open>
  Jobs, the messages of an uploaded list: their table (\<^verbatim>\<open>app/dao/jobs_dao.py\<close>), the tasks that
  process one (\<^verbatim>\<open>app/celery/tasks.py\<close>: splitting the rows into messages, saving the notification
  of a row, resuming after a failure) and the endpoints that create and cancel one
  (\<^verbatim>\<open>app/job/rest.py\<close>). \<open>job_lib\<close> holds what the recipients library makes of the uploaded file and
  the rules of the letter library.
\<close>

record job_lib =
  jl_rows :: "string \<Rightarrow> template \<Rightarrow> recipient_row list"
  jl_cancellable_statuses :: "nstatus list"
  jl_letter_can_be_cancelled :: "nstatus \<Rightarrow> time \<Rightarrow> bool"

section \<open>The table\<close>

definition stamp_job :: "world \<Rightarrow> job \<Rightarrow> job" where
  "stamp_job w j = j\<lparr>j_updated_at := Some (w_now w)\<rparr>"

definition dao_update_job :: "job \<Rightarrow> world \<Rightarrow> world" where
  "dao_update_job j w =
     w\<lparr>w_jobs := save_row j_id
         (case find_row j_id (j_id j) (w_jobs w) of
            None \<Rightarrow> j | Some old \<Rightarrow> touched (stamp_job w) old j) (w_jobs w)\<rparr>"

definition dao_get_job_by_id :: "uuid \<Rightarrow> world \<Rightarrow> job result" where
  "dao_get_job_by_id i w =
     query_one (Db NoResultFound) (Db MultipleResultsFound) (\<lambda>j. j_id j = i) (w_jobs w)"

definition dao_get_job_by_service_id_and_job_id :: "uuid \<Rightarrow> uuid \<Rightarrow> world \<Rightarrow> job result" where
  "dao_get_job_by_service_id_and_job_id service_id i w =
     query_one (Db NoResultFound) (Db MultipleResultsFound)
       (\<lambda>j. j_service_id j = service_id \<and> j_id j = i) (w_jobs w)"

definition status_counts :: "nstatus list \<Rightarrow> (int \<times> nstatus) list" where
  \<comment> \<open>\<open>GROUP BY status\<close>, a group for each status that occurs\<close>
  "status_counts ss = map (\<lambda>s. (int (length (filter (\<lambda>x. x = s) ss)), s)) (remdups ss)"

definition dao_get_notification_outcomes_for_job :: "uuid \<Rightarrow> world \<Rightarrow> (int \<times> nstatus) list" where
  "dao_get_notification_outcomes_for_job i w =
     (case status_counts (map n_status (filter (\<lambda>n. n_job_id n = Some i) (w_notifications w))) of
        [] \<Rightarrow> map (\<lambda>f. (fs_notification_count f, fs_notification_status f))
                (filter (\<lambda>f. fs_job_id f = i) (w_fact_status w))
      | counts \<Rightarrow> counts)"

definition dao_get_scheduled_job_stats :: "uuid \<Rightarrow> world \<Rightarrow> nat \<times> time option" where
  "dao_get_scheduled_job_stats service_id w =
     (let js = filter (\<lambda>j. j_service_id j = service_id \<and> j_job_status j = JobScheduled) (w_jobs w);
          times = map the (filter (\<lambda>t. t \<noteq> None) (map j_scheduled_for js))
      in (length js, if times = [] then None else Some (Min (set times))))"

definition dao_archive_job :: "job \<Rightarrow> world \<Rightarrow> world" where
  "dao_archive_job j w = dao_update_job (j\<lparr>j_archived := True\<rparr>) w"

definition is_due :: "world \<Rightarrow> job \<Rightarrow> bool" where
  "is_due w j \<longleftrightarrow> j_job_status j = JobScheduled
     \<and> (case j_scheduled_for j of None \<Rightarrow> False | Some t \<Rightarrow> t < w_now w)"

definition dao_set_scheduled_jobs_to_pending :: "world \<Rightarrow> job list \<times> world" where
  "dao_set_scheduled_jobs_to_pending w =
     (let due = sort_key (\<lambda>j. the (j_scheduled_for j)) (filter (is_due w) (w_jobs w));
          set_pending = (\<lambda>j. stamp_job w (j\<lparr>j_job_status := JobPending\<rparr>))
      in (map set_pending due, w\<lparr>w_jobs := update_rows (is_due w) set_pending (w_jobs w)\<rparr>))"

definition dao_get_scheduled_job_by_id_and_service_id :: "uuid \<Rightarrow> uuid \<Rightarrow> world \<Rightarrow> job result" where
  "dao_get_scheduled_job_by_id_and_service_id i service_id w =
     query_one (Db NoResultFound) (Db MultipleResultsFound)
       (\<lambda>j. j_service_id j = service_id \<and> j_id j = i \<and> j_job_status j = JobScheduled) (w_jobs w)"

definition dao_create_job :: "env \<Rightarrow> uuid option \<Rightarrow> job \<Rightarrow> job op" where
  \<comment> \<open>the id is the primary key\<close>
  "dao_create_job env given j w =
     (let (i, w1) = (case given of None \<Rightarrow> create_uuid env w | Some i \<Rightarrow> (i, w))
      in if i \<in> j_id ` set (w_jobs w1) then (Inl (Db OtherSQLAlchemyError), w1)
         else (Inr (j\<lparr>j_id := i\<rparr>), w1\<lparr>w_jobs := w_jobs w1 @ [j\<lparr>j_id := i\<rparr>]\<rparr>))"

definition job_template_type :: "job \<Rightarrow> world \<Rightarrow> ntype option" where
  \<comment> \<open>the join with \<open>templates\<close>\<close>
  "job_template_type j w = map_option t_type (find_row t_id (j_template_id j) (w_templates w))"

definition jobs_before :: "date \<Rightarrow> ntype \<Rightarrow> (uuid \<Rightarrow> bool) \<Rightarrow> world \<Rightarrow> job list" where
  "jobs_before end_date t of_service w =
     sort_key (\<lambda>j. - j_created_at j)
       (filter (\<lambda>j. (case j_scheduled_for j of None \<Rightarrow> j_created_at j | Some s \<Rightarrow> s) < midnight_of end_date
                    \<and> \<not> j_archived j \<and> job_template_type j w = Some t \<and> of_service (j_service_id j))
          (w_jobs w))"

definition dao_get_jobs_older_than_data_retention :: "ntype list \<Rightarrow> world \<Rightarrow> job list" where
  "dao_get_jobs_older_than_data_retention types w =
     (let flexible = filter (\<lambda>r. dr_notification_type r \<in> set types) (w_retention w);
          today = date_of (w_now w)
      in concat (map (\<lambda>f. jobs_before (today - dr_days_of_retention f) (dr_notification_type f)
                   (\<lambda>s. s = dr_service_id f) w) flexible)
         @ concat (map (\<lambda>t. jobs_before (today - 7) t
                   (\<lambda>s. s \<notin> dr_service_id ` set (filter (\<lambda>f. dr_notification_type f = t) flexible)) w) types))"

definition dao_cancel_letter_job :: "job \<Rightarrow> world \<Rightarrow> nat \<times> world" where
  "dao_cancel_letter_job j w =
     (let p = (\<lambda>n. n_job_id n = Some (j_id j));
          w1 = w\<lparr>w_notifications := update_rows p
            (\<lambda>n. n\<lparr>n_status := Cancelled, n_updated_at := Some (w_now w), n_billable_units := 0\<rparr>)
            (w_notifications w)\<rparr>
      in (length (filter p (w_notifications w)), dao_update_job (j\<lparr>j_job_status := JobCancelled\<rparr>) w1))"

definition can_letter_job_be_cancelled :: "job_lib \<Rightarrow> job \<Rightarrow> world \<Rightarrow> (bool \<times> string option) result" where
  "can_letter_job_be_cancelled jl j w =
     res_bind (dao_get_template_by_id (j_template_id j) None w) (\<lambda>t. Inr (
       if t_type t \<noteq> Letter
       then (False, Some (''Only letter jobs can be cancelled through this endpoint. ''
              @ ''This is not a letter job.''))
       else if j_job_status j \<noteq> JobFinishedAllNotificationsCreated
       then (False, Some ''We are still processing these letters, please try again in a minute.'')
       else if \<not> jl_letter_can_be_cancelled jl Created (j_created_at j)
            \<or> list_ex (\<lambda>n. n_job_id n = Some (j_id j) \<and> n_status n \<notin> set (jl_cancellable_statuses jl))
                 (w_notifications w)
       then (False, Some ''It's too late to cancel sending, these letters have already been sent.'')
       else (True, None)))"

definition created_rows :: "uuid \<Rightarrow> world \<Rightarrow> notification list" where
  "created_rows i w = filter (\<lambda>n. n_job_id n = Some i) (w_notifications w)"

definition recently_finished :: "world \<Rightarrow> job \<Rightarrow> bool" where
  "recently_finished w j \<longleftrightarrow> j_job_status j = JobFinished
     \<and> (case j_processing_finished j of None \<Rightarrow> False
        | Some t \<Rightarrow> t < w_now w - minutes 20 \<and> t > w_now w - days 1)"

definition find_jobs_with_missing_rows :: "world \<Rightarrow> job list \<times> job list" where
  \<comment> \<open>the inner join drops a job without any notification\<close>
  "find_jobs_with_missing_rows w =
     (let js = filter (\<lambda>j. recently_finished w j \<and> created_rows (j_id j) w \<noteq> []) (w_jobs w);
          has_all = (\<lambda>j. int (length (created_rows (j_id j) w)) = j_notification_count j)
      in (filter (\<lambda>j. \<not> has_all j) js, filter has_all js))"

definition find_missing_row_for_job :: "uuid \<Rightarrow> int \<Rightarrow> world \<Rightarrow> int list" where
  "find_missing_row_for_job i job_size w =
     filter (\<lambda>r. Some r \<notin> n_job_row_number ` set (created_rows i w)) [0..job_size - 1]"

section \<open>The uploaded file\<close>

definition S3_BUCKET_CSV_UPLOAD :: string where
  "S3_BUCKET_CSV_UPLOAD = ''S3_BUCKET_CSV_UPLOAD''"

definition get_job_location :: "uuid \<Rightarrow> uuid \<Rightarrow> string \<times> string" where
  "get_job_location service_id i =
     (S3_BUCKET_CSV_UPLOAD, ''service-'' @ uuid_str service_id @ ''-notify/'' @ uuid_str i @ ''.csv'')"

definition get_job_and_metadata_from_s3 :: "uuid \<Rightarrow> uuid \<Rightarrow> world \<Rightarrow> s3_object result" where
  "get_job_and_metadata_from_s3 service_id i w =
     (case s3_get (fst (get_job_location service_id i)) (snd (get_job_location service_id i)) w of
        None \<Rightarrow> Inl (Storage (BotoClientError ''NoSuchKey'')) | Some obj \<Rightarrow> Inr obj)"

definition remove_job_from_s3 :: "uuid \<Rightarrow> uuid \<Rightarrow> world \<Rightarrow> world" where
  "remove_job_from_s3 service_id i w =
     s3_delete (fst (get_job_location service_id i)) (snd (get_job_location service_id i)) w"

definition get_recipient_csv_and_template_and_sender_id ::
  "job_lib \<Rightarrow> job \<Rightarrow> world \<Rightarrow> (recipient_row list \<times> template \<times> uuid option) result" where
  "get_recipient_csv_and_template_and_sender_id jl j w =
     res_bind (dao_get_template_by_id (j_template_id j) (Some (j_template_version j)) w) (\<lambda>t.
       res_bind (get_job_and_metadata_from_s3 (j_service_id j) (j_id j) w) (\<lambda>(contents, meta).
         Inr (jl_rows jl contents t, t,
              case map_of meta ''sender_id'' of None \<Rightarrow> None | Some x \<Rightarrow> parse_uuid x)))"

section \<open>Splitting a job into messages\<close>

definition get_id_task_args_kwargs_for_job_row ::
  "env \<Rightarrow> recipient_row \<Rightarrow> template \<Rightarrow> job \<Rightarrow> uuid \<Rightarrow> uuid option \<Rightarrow> world \<Rightarrow> row_task \<times> world" where
  "get_id_task_args_kwargs_for_job_row env row t j service_id sender_id w =
     (let (i, w1) = create_uuid env w
      in (\<lparr>jt_service_id = service_id, jt_notification_id = i,
           jt_data = \<lparr>jr_template = t_id t, jr_template_version = j_template_version j,
             jr_job = j_id j, jr_to = row_recipient row, jr_row_number = row_index row,
             jr_personalisation = row_personalisation row, jr_client_reference = row_reference row\<rparr>,
           jt_sender_id = sender_id\<rparr>, w1))"

fun row_tasks ::
  "env \<Rightarrow> template \<Rightarrow> job \<Rightarrow> uuid \<Rightarrow> uuid option \<Rightarrow> recipient_row list \<Rightarrow> world \<Rightarrow> row_task list \<times> world" where
  "row_tasks env t j service_id sender_id [] w = ([], w)"
| "row_tasks env t j service_id sender_id (row # rows) w =
     (let (x, w1) = get_id_task_args_kwargs_for_job_row env row t j service_id sender_id w;
          (xs, w2) = row_tasks env t j service_id sender_id rows w1
      in (x # xs, w2))"

definition too_large :: "exn \<Rightarrow> bool" where
  "too_large e = (case e of
     Storage (BotoClientError m) \<Rightarrow> sublist ''InvalidParameterValue'' m | _ \<Rightarrow> False)"

function shatter_job_rows_with_subdivision ::
  "api_lib \<Rightarrow> ntype \<Rightarrow> row_task list \<Rightarrow> unit op" where
  "shatter_job_rows_with_subdivision lib t xs w =
     (case apply_async lib JOBS (TShatterJobRows t xs) w of
        (Inr _, w1) \<Rightarrow> (Inr (), w1)
      | (Inl e, w1) \<Rightarrow>
          if \<not> too_large e then (Inl e, w1)
          else
            (let k = length xs div 2
             in if k < 1 then (Inl (Task UnprocessableJobRow), w1)
                else
                  (case shatter_job_rows_with_subdivision lib t (take k xs) w1 of
                     (Inl e2, w2) \<Rightarrow> (Inl e2, w2)
                   | (Inr _, w2) \<Rightarrow> shatter_job_rows_with_subdivision lib t (drop k xs) w2)))"
  by pat_completeness auto
termination
  by (relation "measure (\<lambda>(lib, t, xs, w). length xs)") auto

declare shatter_job_rows_with_subdivision.simps [simp del]

definition save_task :: "ntype \<Rightarrow> row_task \<Rightarrow> celery_task result" where
  "save_task t x = (case t of Sms \<Rightarrow> Inr (TSaveSms x) | Email \<Rightarrow> Inr (TSaveEmail x)
     | Letter \<Rightarrow> Inr (TSaveLetter x) | Messagebox \<Rightarrow> Inl (Py (KeyError (ntype_name t))))"

definition process_job_row :: "api_lib \<Rightarrow> ntype \<Rightarrow> row_task \<Rightarrow> unit op" where
  "process_job_row lib t x =
     op_bind (op_lift (save_task t x)) (\<lambda>task. apply_async lib DATABASE task)"

definition shatter_job_rows :: "api_lib \<Rightarrow> ntype \<Rightarrow> row_task list \<Rightarrow> unit op" where
  "shatter_job_rows lib t xs = op_iter (process_job_row lib t) xs"

definition DEFAULT_SHATTER_JOB_ROWS_BATCH_SIZE :: int where
  "DEFAULT_SHATTER_JOB_ROWS_BATCH_SIZE = 32"

definition shatter_batch ::
  "env \<Rightarrow> api_lib \<Rightarrow> template \<Rightarrow> job \<Rightarrow> uuid \<Rightarrow> uuid option \<Rightarrow> recipient_row list \<Rightarrow> unit op" where
  "shatter_batch env lib t j service_id sender_id rows w =
     (let (xs, w1) = row_tasks env t j service_id sender_id rows w
      in shatter_job_rows_with_subdivision lib (t_type t) xs w1)"

definition shatter_rows ::
  "env \<Rightarrow> api_lib \<Rightarrow> int \<Rightarrow> template \<Rightarrow> job \<Rightarrow> uuid \<Rightarrow> uuid option \<Rightarrow> recipient_row list \<Rightarrow> unit op" where
  \<comment> \<open>the loop over the batches, and the exception of \<open>batched\<close> itself\<close>
  "shatter_rows env lib n t j service_id sender_id rows w =
     (let (bs, e) = batched False n rows
      in op_bind (op_iter (shatter_batch env lib t j service_id sender_id) bs)
           (\<lambda>_. case e of None \<Rightarrow> op_return () | Some x \<Rightarrow> op_raise x) w)"

definition job_complete :: "job \<Rightarrow> world \<Rightarrow> world" where
  "job_complete j w =
     dao_update_job (j\<lparr>j_job_status := JobFinished, j_processing_finished := Some (w_now w)\<rparr>) w"

definition sending_limits_for_job_exceeded :: "env \<Rightarrow> service \<Rightarrow> job \<Rightarrow> bool op" where
  "sending_limits_for_job_exceeded env s j w =
     (case find_row t_id (j_template_id j) (w_templates w) of
        None \<Rightarrow> (Inl (Py AttributeError), w)
      | Some t \<Rightarrow>
          (case check_service_over_daily_message_limit env s NormalKey (ntype_name (t_type t))
                  (j_notification_count j) w of
             (Inr _, w1) \<Rightarrow> (Inr False, w1)
           | (Inl (Api (TooManyRequestsError l n)), w1) \<Rightarrow>
               (Inr True, dao_update_job (j\<lparr>j_job_status := JobSendingLimitsExceeded,
                  j_processing_finished := Some (w_now w1)\<rparr>) w1)
           | (Inl e, w1) \<Rightarrow> (Inl e, w1)))"

definition job_service :: "job \<Rightarrow> world \<Rightarrow> service result" where
  "job_service j w =
     (case find_row svc_id (j_service_id j) (w_services w) of
        None \<Rightarrow> Inl (Py AttributeError) | Some s \<Rightarrow> Inr s)"

definition process_job :: "env \<Rightarrow> api_lib \<Rightarrow> job_lib \<Rightarrow> int \<Rightarrow> uuid \<Rightarrow> unit op" where
  \<comment> \<open>the parameter \<open>sender_id\<close> is overwritten by the one of the file\<close>
  "process_job env lib jl batch_size i w =
     (case dao_get_job_by_id i w of
        Inl e \<Rightarrow> (Inl e, w)
      | Inr j0 \<Rightarrow>
          if j_job_status j0 \<noteq> JobPending then (Inr (), w)
          else
            (let j = j0\<lparr>j_job_status := JobInProgress, j_processing_started := Some (w_now w)\<rparr>;
                 w1 = dao_update_job j w
             in case job_service j w of
                  Inl e \<Rightarrow> (Inl e, w1)
                | Inr s \<Rightarrow>
                    if \<not> svc_active s
                    then (Inr (), dao_update_job (j\<lparr>j_job_status := JobCancelled\<rparr>) w1)
                    else
                      op_bind (sending_limits_for_job_exceeded env s j) (\<lambda>exceeded v.
                        if exceeded then (Inr (), v)
                        else op_bind (\<lambda>v. (get_recipient_csv_and_template_and_sender_id jl j v, v))
                          (\<lambda>(rows, t, sender_id).
                           op_bind (shatter_rows env lib batch_size t j (svc_id s) sender_id rows)
                             (\<lambda>_ u. (Inr (), job_complete j u))) v) w1))"

definition process_incomplete_job :: "env \<Rightarrow> api_lib \<Rightarrow> job_lib \<Rightarrow> int \<Rightarrow> uuid \<Rightarrow> unit op" where
  "process_incomplete_job env lib jl batch_size i w =
     (case dao_get_job_by_id i w of
        Inl e \<Rightarrow> (Inl e, w)
      | Inr j \<Rightarrow>
          (let resume_from_row = (case dao_get_last_notification_added_for_job_id i w of
                   None \<Rightarrow> Some (-1) | Some n \<Rightarrow> n_job_row_number n)
           in op_bind (\<lambda>v. (get_recipient_csv_and_template_and_sender_id jl j v, v)) (\<lambda>(rows, t, sender_id) v.
                case (resume_from_row, job_service j v) of
                  (Some r, Inr s) \<Rightarrow>
                    op_bind (shatter_rows env lib batch_size t j (svc_id s) sender_id
                        (filter (\<lambda>row. row_index row > r) rows))
                      (\<lambda>_ u. (Inr (), job_complete j u)) v
                | (None, _) \<Rightarrow> (if rows = [] then (Inr (), job_complete j v) else (Inl (Py TypeError), v))
                | (_, Inl e) \<Rightarrow> (Inl e, v)) w))"

fun resume_jobs :: "env \<Rightarrow> api_lib \<Rightarrow> job_lib \<Rightarrow> int \<Rightarrow> uuid list \<Rightarrow> unit op" where
  \<comment> \<open>an \<open>UnprocessableJobRow\<close> is logged, the loop goes on\<close>
  "resume_jobs env lib jl batch_size [] w = (Inr (), w)"
| "resume_jobs env lib jl batch_size (i # is) w =
     (case process_incomplete_job env lib jl batch_size i w of
        (Inr _, w1) \<Rightarrow> resume_jobs env lib jl batch_size is w1
      | (Inl (Task UnprocessableJobRow), w1) \<Rightarrow> resume_jobs env lib jl batch_size is w1
      | (Inl e, w1) \<Rightarrow> (Inl e, w1))"

definition process_incomplete_jobs :: "env \<Rightarrow> api_lib \<Rightarrow> job_lib \<Rightarrow> int \<Rightarrow> uuid list \<Rightarrow> unit op" where
  "process_incomplete_jobs env lib jl batch_size is w =
     (case map_res (\<lambda>i. dao_get_job_by_id i w) is of
        Inl e \<Rightarrow> (Inl e, w)
      | Inr js \<Rightarrow>
          resume_jobs env lib jl batch_size is
            (fold (\<lambda>j v. dao_update_job (j\<lparr>j_job_status := JobInProgress,
                 j_processing_started := Some (w_now v)\<rparr>) v) js w))"

section \<open>Saving the notification of a row\<close>

definition handle_exception :: "env \<Rightarrow> nat \<Rightarrow> uuid \<Rightarrow> exn \<Rightarrow> unit op" where
  "handle_exception env retries i e w =
     (case get_notification_by_id i None w of
        Some _ \<Rightarrow> (Inr (), w)
      | None \<Rightarrow>
          (case lib_retry env retries 5 (Some e) of
             Task MaxRetriesExceededError \<Rightarrow> (Inr (), w) | e' \<Rightarrow> (Inl e', w)))"

definition catch_database_error :: "env \<Rightarrow> nat \<Rightarrow> uuid \<Rightarrow> unit op \<Rightarrow> unit op" where
  \<comment> \<open>\<open>except SQLAlchemyError\<close>\<close>
  "catch_database_error env retries i m w =
     (case m w of
        (Inl (Db e), w1) \<Rightarrow> handle_exception env retries i (Db e) w1
      | r \<Rightarrow> r)"

definition row_call :: "row_task \<Rightarrow> recipient_data \<Rightarrow> ntype \<Rightarrow> time \<Rightarrow> string option \<Rightarrow> persist_args" where
  \<comment> \<open>the arguments the three tasks share\<close>
  "row_call x recipient t now reply_to =
     (let d = jt_data x
      in (persist_call (jr_template d) (jr_template_version d) recipient (Some (jr_personalisation d)) t
            None NormalKey)
         \<lparr>pn_created_at := Some now, pn_job_id := Some (jr_job d),
          pn_job_row_number := Some (jr_row_number d), pn_client_reference := jr_client_reference d,
          pn_notification_id := Some (jt_notification_id x), pn_reply_to_text := reply_to\<rparr>)"

definition row_service_and_template ::
  "env \<Rightarrow> row_task \<Rightarrow> world \<Rightarrow> (service \<times> serialised_template) result" where
  "row_service_and_template env x w =
     res_bind (dao_fetch_service_by_id (jt_service_id x) False w) (\<lambda>s.
       res_bind (serialised_template_from_id_and_service_id env (jr_template (jt_data x)) (svc_id s)
           (Some (jr_template_version (jt_data x))) w) (\<lambda>st. Inr (s, st)))"

definition invalid_number_data :: "string \<Rightarrow> recipient_info" where
  "invalid_number_data to =
     \<lparr>ri_unformatted = to, ri_normalised_to = to, ri_international = False,
      ri_phone_prefix = ''+44'', ri_rate_multiplier = 0\<rparr>"

definition save_sms :: "env \<Rightarrow> api_lib \<Rightarrow> nat \<Rightarrow> row_task \<Rightarrow> unit op" where
  "save_sms env lib retries x =
     op_bind (\<lambda>w. (row_service_and_template env x w, w)) (\<lambda>(s, st).
     op_bind (\<lambda>w. (case jt_sender_id x of
           None \<Rightarrow> Inr (st_reply_to_text st)
         | Some i \<Rightarrow> res_bind (dao_get_service_sms_senders_by_id (jt_service_id x) i w)
                       (\<lambda>r. Inr (Some (ss_sms_sender r))), w)) (\<lambda>reply_to.
     op_bind (\<lambda>w. (service_allowed_to_send_to lib (jr_to (jt_data x)) s NormalKey True w, w)) (\<lambda>allowed w.
       if \<not> allowed then (Inr (), w)
       else
         (case validate_and_format_recipient env lib (Some (jr_to (jt_data x))) NormalKey s Sms True False w of
            (Inl (Recipient (InvalidPhoneError c)), w1) \<Rightarrow>
              catch_database_error env retries (jt_notification_id x)
                (op_bind (persist_notification env lib s
                    ((row_call x (PhoneData (invalid_number_data (jr_to (jt_data x)))) Sms (w_now w1) reply_to)
                     \<lparr>pn_status := ValidationFailed, pn_billable_units := Some 0,
                      pn_updated_at := Some (w_now w1)\<rparr>)) (\<lambda>_. op_return ())) w1
          | (Inl e, w1) \<Rightarrow> (Inl e, w1)
          | (Inr recipient, w1) \<Rightarrow>
              catch_database_error env retries (jt_notification_id x)
                (op_bind (persist_notification env lib s (row_call x recipient Sms (w_now w1) reply_to))
                   (\<lambda>n. apply_async lib SEND_SMS (TDeliverSms (n_id n)))) w1))))"

definition save_email :: "env \<Rightarrow> api_lib \<Rightarrow> nat \<Rightarrow> row_task \<Rightarrow> unit op" where
  "save_email env lib retries x =
     op_bind (\<lambda>w. (row_service_and_template env x w, w)) (\<lambda>(s, st).
     op_bind (\<lambda>w. (case jt_sender_id x of
           None \<Rightarrow> Inr (st_reply_to_text st)
         | Some i \<Rightarrow> res_bind (dao_get_reply_to_by_id i (Some (jt_service_id x)) w)
                       (\<lambda>r. Inr (Some (rt_email_address r))), w)) (\<lambda>reply_to.
     op_bind (\<lambda>w. (service_allowed_to_send_to lib (jr_to (jt_data x)) s NormalKey True w, w)) (\<lambda>allowed w.
       if \<not> allowed then (Inr (), w)
       else
         catch_database_error env retries (jt_notification_id x)
           (op_bind (persist_notification env lib s
               (row_call x (TextData (jr_to (jt_data x))) Email (w_now w) reply_to))
              (\<lambda>n. apply_async lib SEND_EMAIL (TDeliverEmail (n_id n)))) w)))"

definition save_letter :: "env \<Rightarrow> api_lib \<Rightarrow> nat \<Rightarrow> row_task \<Rightarrow> unit op" where
  "save_letter env lib retries x =
     (let a = al_address lib (jr_personalisation (jt_data x)) False
      in op_bind (\<lambda>w. (row_service_and_template env x w, w)) (\<lambda>(s, st) w.
           catch_database_error env retries (jt_notification_id x)
             (op_bind (persist_notification env lib s
                 ((row_call x (TextData (ra_normalised a)) Letter (w_now w) (st_reply_to_text st))
                  \<lparr>pn_postage := (if ra_international a then ra_postage a else t_postage (st_row st)),
                   pn_reference := Some (al_random_identifier lib (w_uuids w))\<rparr>))
                (\<lambda>n. apply_async lib CREATE_LETTERS_PDF (TGetPdfForTemplatedLetter (n_id n)))) w))"

section \<open>Endpoints and scheduled tasks\<close>

definition cancel_job :: "uuid \<Rightarrow> uuid \<Rightarrow> unit op" where
  \<comment> \<open>the answer, the job as the next read finds it, is left out\<close>
  "cancel_job service_id i w =
     (case dao_get_scheduled_job_by_id_and_service_id i service_id w of
        Inl e \<Rightarrow> (Inl e, w)
      | Inr j \<Rightarrow> (Inr (), dao_update_job (j\<lparr>j_job_status := JobCancelled\<rparr>) w))"

definition cancel_letter_job :: "env \<Rightarrow> job_lib \<Rightarrow> uuid \<Rightarrow> uuid \<Rightarrow> (string + nat) op" where
  \<comment> \<open>the message of the refusal, or the number of cancelled letters\<close>
  "cancel_letter_job env jl service_id i w =
     (case res_bind (dao_get_job_by_service_id_and_job_id service_id i w) (\<lambda>j.
             res_bind (can_letter_job_be_cancelled jl j w) (\<lambda>r. Inr (j, r))) of
        Inl e \<Rightarrow> (Inl e, w)
      | Inr (j, True, m) \<Rightarrow>
          (let (n, w1) = dao_cancel_letter_job j w
           in (Inr (Inr n),
               adjust_daily_service_limits_for_cancelled_letters env service_id (int n) (j_created_at j) w1))
      | Inr (j, False, m) \<Rightarrow> (Inr (Inl (case m of None \<Rightarrow> [] | Some x \<Rightarrow> x)), w))"

record job_request =
  jq_id :: "uuid option"
  jq_metadata_ok :: bool
  jq_template_id :: uuid
  jq_valid :: bool
  jq_job :: job
  jq_sender_id :: "uuid option"

definition create_job :: "env \<Rightarrow> api_lib \<Rightarrow> uuid \<Rightarrow> job_request \<Rightarrow> job op" where
  \<comment> \<open>\<open>jq_metadata_ok\<close>: the request has an id and the file has metadata; \<open>jq_job\<close>: what the schema loads\<close>
  "create_job env lib service_id q w =
     (case dao_fetch_service_by_id service_id False w of
        Inl e \<Rightarrow> (Inl e, w)
      | Inr s \<Rightarrow>
          if \<not> svc_active s
          then (Inl (invalid_request ''Create job is not allowed: service is inactive '' 403), w)
          else if \<not> jq_metadata_ok q
          then (Inl (invalid_request ''Missing data for required field.'' 400), w)
          else
            (case dao_get_template_by_id (jq_template_id q) None w of
               Inl e \<Rightarrow> (Inl e, w)
             | Inr t \<Rightarrow>
                 if t_type t = Letter \<and> svc_restricted s
                 then (Inl (invalid_request
                         ''Create letter job is not allowed for service in trial mode '' 403), w)
                 else if \<not> jq_valid q
                 then (Inl (invalid_request ''File is not valid, can't create job'' 400), w)
                 else if t_archived t
                 then (Inl (invalid_request ''Template has been deleted'' 400), w)
                 else
                   (let j0 = (jq_job q)\<lparr>j_service_id := service_id, j_template_id := t_id t,
                          j_template_version := t_version t\<rparr>;
                        j = (if j_scheduled_for j0 \<noteq> None then j0\<lparr>j_job_status := JobScheduled\<rparr> else j0)
                    in op_bind (dao_create_job env (jq_id q) j) (\<lambda>j'.
                       op_bind (if j_job_status j' = JobPending
                                then apply_async lib JOBS (TProcessJob (j_id j') (jq_sender_id q))
                                else op_return ()) (\<lambda>_. op_return j')) w)))"

definition run_scheduled_jobs :: "api_lib \<Rightarrow> unit op" where
  "run_scheduled_jobs lib w =
     (let (js, w1) = dao_set_scheduled_jobs_to_pending w
      in op_iter (\<lambda>j. apply_async lib JOBS (TProcessJob (j_id j) None)) js w1)"

definition stuck_job :: "world \<Rightarrow> job \<Rightarrow> bool" where
  "stuck_job w j \<longleftrightarrow>
     (let between = (\<lambda>t. case t of None \<Rightarrow> False
            | Some x \<Rightarrow> w_now w - minutes 35 \<le> x \<and> x \<le> w_now w - minutes 30)
      in (j_job_status j = JobInProgress \<and> between (j_processing_started j))
         \<or> (j_job_status j = JobPending \<and> between (j_scheduled_for j)))"

definition check_job_status :: "api_lib \<Rightarrow> unit op" where
  "check_job_status lib w =
     (let js = sort_key (\<lambda>j. case j_processing_started j of None \<Rightarrow> (1 :: int, 0) | Some t \<Rightarrow> (0, t))
            (sort_key (\<lambda>j. case j_scheduled_for j of None \<Rightarrow> (1 :: int, 0) | Some t \<Rightarrow> (0, t))
              (filter (stuck_job w) (w_jobs w)));
          w1 = fold (\<lambda>j. dao_update_job (j\<lparr>j_job_status := JobError\<rparr>)) js w
      in if js = [] then (Inr (), w1)
         else apply_async lib JOBS (TProcessIncompleteJobs (map j_id js)) w1)"

definition process_missing_row ::
  "env \<Rightarrow> api_lib \<Rightarrow> job \<Rightarrow> recipient_row list \<Rightarrow> template \<Rightarrow> uuid \<Rightarrow> uuid option \<Rightarrow> int \<Rightarrow> unit op" where
  "process_missing_row env lib j rows t service_id sender_id r w =
     (if nat r < length rows
      then (let (x, w1) = get_id_task_args_kwargs_for_job_row env (rows ! nat r) t j service_id sender_id w
            in process_job_row lib (t_type t) x w1)
      else (Inl (Py IndexError), w))"

definition process_missing_rows :: "env \<Rightarrow> api_lib \<Rightarrow> job_lib \<Rightarrow> job \<Rightarrow> unit op" where
  "process_missing_rows env lib jl j =
     op_bind (\<lambda>w. (get_recipient_csv_and_template_and_sender_id jl j w, w)) (\<lambda>(rows, t, sender_id) w.
       op_iter (process_missing_row env lib j rows t (j_service_id j) sender_id)
         (find_missing_row_for_job (j_id j) (j_notification_count j) w) w)"

definition check_for_missing_rows_in_completed_jobs :: "env \<Rightarrow> api_lib \<Rightarrow> job_lib \<Rightarrow> unit op" where
  "check_for_missing_rows_in_completed_jobs env lib jl w =
     (let (missing, complete) = find_jobs_with_missing_rows w;
          w1 = fold (\<lambda>j. dao_update_job (j\<lparr>j_job_status := JobFinishedAllNotificationsCreated\<rparr>)) complete w
      in op_iter (process_missing_rows env lib jl) missing w1)"

definition replay_created_notifications :: "api_lib \<Rightarrow> unit op" where
  "replay_created_notifications lib w =
     op_bind (\<lambda>v. op_iter (\<lambda>n. send_notification_to_queue lib n None) (notifications_not_yet_sent 3600 Email v) v) (\<lambda>_.
     op_bind (\<lambda>v. op_iter (\<lambda>n. send_notification_to_queue lib n None) (notifications_not_yet_sent 3600 Sms v) v) (\<lambda>_ v.
       op_iter (\<lambda>n. apply_async lib CREATE_LETTERS_PDF (TGetPdfForTemplatedLetter (n_id n)))
         (letters_missing_from_sending_bucket 3600 v) v)) w"

section \<open>Lemmas\<close>

definition send_batches :: "ntype \<Rightarrow> row_task list list \<Rightarrow> world \<Rightarrow> world" where
  "send_batches t bs w = w\<lparr>w_tasks := w_tasks w @ map (\<lambda>b. (JOBS, TShatterJobRows t b)) bs\<rparr>"

lemma send_batches_simps [simp]:
  "send_batches t [] w = w"
  "send_batches t bs2 (send_batches t bs1 w) = send_batches t (bs1 @ bs2) w"
  "w_tasks (send_batches t bs w) = w_tasks w @ map (\<lambda>b. (JOBS, TShatterJobRows t b)) bs"
  "w_uuids (send_batches t bs w) = w_uuids w" "w_jobs (send_batches t bs w) = w_jobs w"
  "w_now (send_batches t bs w) = w_now w" "w_notifications (send_batches t bs w) = w_notifications w"
  by (simp_all add: send_batches_def)

lemma enqueue_batch: "enqueue JOBS (TShatterJobRows t xs) w = send_batches t [xs] w"
  by (simp add: enqueue_def send_batches_def)

text \<open>What splitting a batch into messages comes to, whatever the broker answers.\<close>

definition split_outcome ::
  "api_lib \<Rightarrow> ntype \<Rightarrow> row_task list \<Rightarrow> world \<Rightarrow> unit result \<times> world \<Rightarrow> bool" where
  "split_outcome lib t xs w o1 \<longleftrightarrow>
     (case o1 of
        (Inr _, w') \<Rightarrow> \<exists>bs. concat bs = xs \<and> w' = send_batches t bs w
      | (Inl e, w') \<Rightarrow> \<exists>bs zs ys e'. xs = concat bs @ zs @ ys \<and> w' = send_batches t bs w
          \<and> al_publish lib JOBS (TShatterJobRows t zs) = Some e'
          \<and> (if too_large e' then length zs \<le> 1 \<and> e = Task UnprocessableJobRow else e = e'))"

lemma split_outcome_holds: "split_outcome lib t xs w (shatter_job_rows_with_subdivision lib t xs w)"
proof (induction lib t xs w rule: shatter_job_rows_with_subdivision.induct)
  case (1 lib t xs w)
  show ?case
  proof (cases "al_publish lib JOBS (TShatterJobRows t xs)")
    case None
    then show ?thesis
      by (simp add: shatter_job_rows_with_subdivision.simps [of lib t xs] split_outcome_def enqueue_batch)
        (metis append.right_neutral concat.simps)
  next
    case (Some e)
    then have ap: "apply_async lib JOBS (TShatterJobRows t xs) w = (Inl e, w)" by simp
    show ?thesis
    proof (cases "too_large e")
      case False
      have "split_outcome lib t xs w (Inl e, w)"
        unfolding split_outcome_def using Some False
        by simp (metis append.right_neutral append_Nil concat.simps(1) send_batches_simps(1))
      then show ?thesis
        using ap False by (simp add: shatter_job_rows_with_subdivision.simps [of lib t xs])
    next
      case True
      show ?thesis
      proof (cases "length xs div 2 < 1")
        case short: True
        have "split_outcome lib t xs w (Inl (Task UnprocessableJobRow), w)"
          unfolding split_outcome_def prod.case sum.case
          by (rule exI [of _ "[]"], rule exI [of _ xs], rule exI [of _ "[]"], rule exI [of _ e])
            (use Some True short in auto)
        then show ?thesis
          using ap True short by (simp add: shatter_job_rows_with_subdivision.simps [of lib t xs] Let_def)
      next
        case long: False
        define k where "k = length xs div 2"
        obtain r1 w1 where a: "shatter_job_rows_with_subdivision lib t (take k xs) w = (r1, w1)"
          by (cases "shatter_job_rows_with_subdivision lib t (take k xs) w")
        have IH1: "split_outcome lib t (take k xs) w (r1, w1)"
          using 1(1) [OF ap [symmetric]] True long a by (simp add: k_def)
        show ?thesis
        proof (cases r1)
          case (Inl e1)
          have "split_outcome lib t xs w (Inl e1, w1)"
          proof -
            obtain bs zs ys e' where *: "take k xs = concat bs @ zs @ ys" "w1 = send_batches t bs w"
                "al_publish lib JOBS (TShatterJobRows t zs) = Some e'"
                "if too_large e' then length zs \<le> 1 \<and> e1 = Task UnprocessableJobRow else e1 = e'"
              using IH1 Inl by (auto simp: split_outcome_def)
            have "xs = concat bs @ zs @ (ys @ drop k xs)" using *(1) by (metis append.assoc append_take_drop_id)
            then show ?thesis unfolding split_outcome_def prod.case sum.case using *(2-4) by blast
          qed
          then show ?thesis
            using ap True long a Inl
            by (simp add: shatter_job_rows_with_subdivision.simps [of lib t xs] Let_def k_def)
        next
          case (Inr u)
          obtain r2 w2 where b: "shatter_job_rows_with_subdivision lib t (drop k xs) w1 = (r2, w2)"
            by (cases "shatter_job_rows_with_subdivision lib t (drop k xs) w1")
          have IH2: "split_outcome lib t (drop k xs) w1 (r2, w2)"
            using 1(2) [OF ap [symmetric]] True long a Inr b by (simp add: k_def)
          obtain bs where bs: "concat bs = take k xs" "w1 = send_batches t bs w"
            using IH1 Inr by (auto simp: split_outcome_def)
          have "split_outcome lib t xs w (r2, w2)"
          proof (cases r2)
            case (Inl e2)
            obtain cs zs ys e' where *: "drop k xs = concat cs @ zs @ ys" "w2 = send_batches t cs w1"
                "al_publish lib JOBS (TShatterJobRows t zs) = Some e'"
                "if too_large e' then length zs \<le> 1 \<and> e2 = Task UnprocessableJobRow else e2 = e'"
              using IH2 Inl by (auto simp: split_outcome_def)
            have "xs = concat (bs @ cs) @ zs @ ys" "w2 = send_batches t (bs @ cs) w"
              using *(1,2) bs by (metis append.assoc append_take_drop_id concat_append, simp)
            then show ?thesis unfolding split_outcome_def Inl prod.case sum.case using *(3,4) by blast
          next
            case (Inr u2)
            then obtain cs where "concat cs = drop k xs" "w2 = send_batches t cs w1"
              using IH2 by (auto simp: split_outcome_def)
            then have "concat (bs @ cs) = xs" "w2 = send_batches t (bs @ cs) w" using bs by simp_all
            then show ?thesis unfolding split_outcome_def Inr prod.case sum.case by blast
          qed
          then show ?thesis
            using ap True long a Inr b
            by (simp add: shatter_job_rows_with_subdivision.simps [of lib t xs] Let_def k_def)
        qed
      qed
    qed
  qed
qed

definition next_id :: "world \<Rightarrow> world" where
  "next_id w = w\<lparr>w_uuids := Suc (w_uuids w)\<rparr>"

lemma next_id_simps [simp]: "w_uuids (next_id w) = Suc (w_uuids w)"
  by (simp add: next_id_def)

lemma row_tasks_Cons:
  "row_tasks env t j sid sender (row # rows) w =
     (fst (get_id_task_args_kwargs_for_job_row env row t j sid sender w)
        # fst (row_tasks env t j sid sender rows (next_id w)),
      snd (row_tasks env t j sid sender rows (next_id w)))"
  by (simp add: get_id_task_args_kwargs_for_job_row_def create_uuid_def next_id_def split: prod.split)

lemma task_fields:
  "jr_row_number (jt_data (fst (get_id_task_args_kwargs_for_job_row env row t j sid sender w))) = row_index row"
  "jr_to (jt_data (fst (get_id_task_args_kwargs_for_job_row env row t j sid sender w))) = row_recipient row"
  "jt_notification_id (fst (get_id_task_args_kwargs_for_job_row env row t j sid sender w)) = lib_uuid env (w_uuids w)"
  "jr_job (jt_data (fst (get_id_task_args_kwargs_for_job_row env row t j sid sender w))) = j_id j"
  by (simp_all add: get_id_task_args_kwargs_for_job_row_def create_uuid_def)

lemma row_tasks_world:
  "snd (row_tasks env t j sid sender rows w) = w\<lparr>w_uuids := w_uuids w + length rows\<rparr>"
proof (induction rows arbitrary: w)
  case (Cons row rows)
  show ?case unfolding row_tasks_Cons snd_conv Cons.IH by (simp add: next_id_def)
qed simp

lemma row_tasks_data:
  "map (\<lambda>x. (jr_row_number (jt_data x), jr_to (jt_data x), jr_job (jt_data x)))
     (fst (row_tasks env t j sid sender rows w)) =
   map (\<lambda>r. (row_index r, row_recipient r, j_id j)) rows"
proof (induction rows arbitrary: w)
  case (Cons row rows)
  show ?case unfolding row_tasks_Cons fst_conv list.map Cons.IH by (simp add: task_fields)
qed simp

lemma row_tasks_ids:
  "map jt_notification_id (fst (row_tasks env t j sid sender rows w)) =
   map (lib_uuid env) [w_uuids w ..< w_uuids w + length rows]"
proof (induction rows arbitrary: w)
  case (Cons row rows)
  have "[w_uuids w ..< w_uuids w + length (row # rows)] =
      w_uuids w # [w_uuids (next_id w) ..< w_uuids (next_id w) + length rows]"
    by (simp add: upt_conv_Cons del: upt_Suc)
  then show ?case unfolding row_tasks_Cons fst_conv list.map Cons.IH by (simp add: task_fields)
qed simp

definition rows_sent ::
  "env \<Rightarrow> template \<Rightarrow> job \<Rightarrow> recipient_row list \<Rightarrow> world \<Rightarrow> world \<Rightarrow> bool" where
  \<comment> \<open>the messages sent between the two worlds carry the rows, each once and in order, with new ids\<close>
  "rows_sent env t j rows w w' \<longleftrightarrow>
     (\<exists>bs. w' = (send_batches (t_type t) bs w)\<lparr>w_uuids := w_uuids w + length rows\<rparr>
        \<and> map (\<lambda>x. (jr_row_number (jt_data x), jr_to (jt_data x), jr_job (jt_data x))) (concat bs)
            = map (\<lambda>r. (row_index r, row_recipient r, j_id j)) rows
        \<and> map jt_notification_id (concat bs) = map (lib_uuid env) [w_uuids w ..< w_uuids w + length rows])"

lemma rows_sent_Nil: "rows_sent env t j [] w w"
  unfolding rows_sent_def by (rule exI [of _ "[]"]) simp

lemma uuids_then_tasks: "w\<lparr>w_uuids := m, w_tasks := x\<rparr> = w\<lparr>w_tasks := x, w_uuids := m\<rparr>"
  by simp

lemma tasks_twice: "w\<lparr>w_tasks := x, w_tasks := y\<rparr> = w\<lparr>w_tasks := y\<rparr>"
  by simp

lemma uuids_twice: "w\<lparr>w_uuids := x, w_uuids := y\<rparr> = w\<lparr>w_uuids := y\<rparr>"
  by simp

lemma tasks_of_uuids: "w_tasks (w\<lparr>w_uuids := m\<rparr>) = w_tasks w"
  by simp

lemma send_batches_uuids:
  "send_batches t bs (w\<lparr>w_uuids := m\<rparr>) = (send_batches t bs w)\<lparr>w_uuids := m\<rparr>"
  unfolding send_batches_def uuids_then_tasks tasks_of_uuids ..

lemma send_batches_twice:
  "(send_batches t cs ((send_batches t bs w)\<lparr>w_uuids := m\<rparr>))\<lparr>w_uuids := n\<rparr> =
   (send_batches t (bs @ cs) w)\<lparr>w_uuids := n\<rparr>"
  unfolding send_batches_uuids uuids_twice send_batches_simps(2) ..

lemma rows_sent_append:
  assumes "rows_sent env t j xs w w1" "rows_sent env t j ys w1 w2"
  shows "rows_sent env t j (xs @ ys) w w2"
proof -
  let ?d = "\<lambda>x. (jr_row_number (jt_data x), jr_to (jt_data x), jr_job (jt_data x))"
  obtain bs where bs: "w1 = (send_batches (t_type t) bs w)\<lparr>w_uuids := w_uuids w + length xs\<rparr>"
      "map ?d (concat bs) = map (\<lambda>r. (row_index r, row_recipient r, j_id j)) xs"
      "map jt_notification_id (concat bs) = map (lib_uuid env) [w_uuids w ..< w_uuids w + length xs]"
    using assms(1) unfolding rows_sent_def by blast
  obtain cs where cs: "w2 = (send_batches (t_type t) cs w1)\<lparr>w_uuids := w_uuids w1 + length ys\<rparr>"
      "map ?d (concat cs) = map (\<lambda>r. (row_index r, row_recipient r, j_id j)) ys"
      "map jt_notification_id (concat cs) = map (lib_uuid env) [w_uuids w1 ..< w_uuids w1 + length ys]"
    using assms(2) unfolding rows_sent_def by blast
  have u: "w_uuids w1 = w_uuids w + length xs" by (simp add: bs(1))
  have upt: "[w_uuids w ..< w_uuids w + length (xs @ ys)] =
      [w_uuids w ..< w_uuids w + length xs] @ [w_uuids w1 ..< w_uuids w1 + length ys]"
    unfolding u length_append add.assoc [symmetric] by (rule upt_add_eq_append) simp
  have w2: "w2 = (send_batches (t_type t) (bs @ cs) w)\<lparr>w_uuids := w_uuids w + length (xs @ ys)\<rparr>"
    unfolding cs(1) u length_append unfolding bs(1) send_batches_twice add.assoc ..
  show ?thesis
    unfolding rows_sent_def upt
    by (rule exI [of _ "bs @ cs"], intro conjI, rule w2)
      (simp_all only: concat_append map_append bs(2,3) cs(2,3))
qed

lemma shatter_batch_sends:
  assumes "shatter_batch env lib t j sid sender rows w = (Inr u, w')"
  shows "rows_sent env t j rows w w'"
proof -
  define xs where "xs = fst (row_tasks env t j sid sender rows w)"
  have "shatter_job_rows_with_subdivision lib (t_type t) xs (w\<lparr>w_uuids := w_uuids w + length rows\<rparr>) = (Inr u, w')"
    using assms unfolding shatter_batch_def case_prod_beta row_tasks_world xs_def Let_def .
  then obtain bs where bs: "concat bs = xs" "w' = send_batches (t_type t) bs (w\<lparr>w_uuids := w_uuids w + length rows\<rparr>)"
    using split_outcome_holds [of lib "t_type t" xs "w\<lparr>w_uuids := w_uuids w + length rows\<rparr>"]
    by (auto simp: split_outcome_def)
  have "w' = (send_batches (t_type t) bs w)\<lparr>w_uuids := w_uuids w + length rows\<rparr>"
    unfolding bs(2) send_batches_uuids ..
  then show ?thesis
    unfolding rows_sent_def
    by (intro exI [of _ bs] conjI) (simp_all only: bs(1) xs_def row_tasks_data row_tasks_ids)
qed

lemma shatter_batches_send:
  assumes "op_iter (shatter_batch env lib t j sid sender) bs w = (Inr u, w')"
  shows "rows_sent env t j (concat bs) w w'"
  using assms
proof (induction bs arbitrary: w)
  case Nil
  then show ?case by (simp add: rows_sent_Nil)
next
  case (Cons b bs)
  then obtain v where v: "shatter_batch env lib t j sid sender b w = (Inr (), v)"
      "op_iter (shatter_batch env lib t j sid sender) bs v = (Inr u, w')"
    by (auto split: prod.splits sum.splits)
  show ?case
    using rows_sent_append [OF shatter_batch_sends [OF v(1)] Cons.IH [OF v(2)]] by simp
qed

text \<open>What a run of \<open>process_job\<close> leaves in the table of jobs.\<close>

definition keeps_jobs :: "'a op \<Rightarrow> bool" where
  "keeps_jobs m \<longleftrightarrow> (\<forall>w. w_jobs (snd (m w)) = w_jobs w)"

lemma keeps_jobsD: "keeps_jobs m \<Longrightarrow> m w = (r, v) \<Longrightarrow> w_jobs v = w_jobs w"
  unfolding keeps_jobs_def by (metis snd_conv)

lemma keeps_jobs_pure: "keeps_jobs (\<lambda>w. (f w, w))"
  by (simp add: keeps_jobs_def)

lemma keeps_jobs_iter: "(\<And>x. keeps_jobs (f x)) \<Longrightarrow> keeps_jobs (op_iter f xs)"
proof (induction xs)
  case Nil
  then show ?case by (simp add: keeps_jobs_def)
next
  case (Cons x xs)
  show ?case
    unfolding keeps_jobs_def
  proof
    fix w
    obtain r v where m: "f x w = (r, v)" by (cases "f x w")
    then have "w_jobs v = w_jobs w" using keeps_jobsD Cons.prems by blast
    moreover have "w_jobs (snd (op_iter f xs v)) = w_jobs v"
      using Cons.IH [OF Cons.prems] unfolding keeps_jobs_def by blast
    ultimately show "w_jobs (snd (op_iter f (x # xs) w)) = w_jobs w"
      using m by (cases r) simp_all
  qed
qed

lemma shatter_batch_keeps: "keeps_jobs (shatter_batch env lib t j sid sender rows)"
  unfolding keeps_jobs_def
proof
  fix w
  let ?v = "w\<lparr>w_uuids := w_uuids w + length rows\<rparr>" and ?xs = "fst (row_tasks env t j sid sender rows w)"
  obtain r v where s: "shatter_job_rows_with_subdivision lib (t_type t) ?xs ?v = (r, v)"
    by (cases "shatter_job_rows_with_subdivision lib (t_type t) ?xs ?v")
  then have "\<exists>bs. v = send_batches (t_type t) bs ?v"
    using split_outcome_holds [of lib "t_type t" ?xs ?v] by (cases r) (auto simp: split_outcome_def)
  then have "w_jobs v = w_jobs w" by auto
  then show "w_jobs (snd (shatter_batch env lib t j sid sender rows w)) = w_jobs w"
    unfolding shatter_batch_def case_prod_beta row_tasks_world Let_def s snd_conv .
qed

lemma shatter_rows_keep:
  assumes "shatter_rows env lib n t j sid sender rows w = (r, v)"
  shows "w_jobs v = w_jobs w"
proof -
  obtain bs e where b: "batched False n rows = (bs, e)" by (cases "batched False n rows")
  obtain r1 v1 where i: "op_iter (shatter_batch env lib t j sid sender) bs w = (r1, v1)"
    by (cases "op_iter (shatter_batch env lib t j sid sender) bs w")
  have "w_jobs v1 = w_jobs w"
    by (rule keeps_jobsD [OF keeps_jobs_iter [OF shatter_batch_keeps] i])
  moreover have "v = v1"
    using assms b i by (cases r1) (auto simp: shatter_rows_def op_return_def op_raise_def split: option.splits)
  ultimately show ?thesis by simp
qed

lemma filter_save_row:
  "filter (\<lambda>x. key x = key r) (save_row key r rows) =
     (case filter (\<lambda>x. key x = key r) rows of [] \<Rightarrow> [r] | _ # xs \<Rightarrow> r # xs)"
  by (induction rows) auto

lemma dao_update_job_frame [simp]:
  "w_template_history (dao_update_job j w) = w_template_history w" "w_s3 (dao_update_job j w) = w_s3 w"
  "w_templates (dao_update_job j w) = w_templates w" "w_services (dao_update_job j w) = w_services w"
  "w_notifications (dao_update_job j w) = w_notifications w" "w_tasks (dao_update_job j w) = w_tasks w"
  "w_redis (dao_update_job j w) = w_redis w" "w_now (dao_update_job j w) = w_now w"
  "w_uuids (dao_update_job j w) = w_uuids w"
  by (simp_all add: dao_update_job_def)

lemma read_updated_job:
  assumes "dao_get_job_by_id i w = Inr j0" "j_id j = i"
  shows "\<exists>j'. dao_get_job_by_id i (dao_update_job j w) = Inr j' \<and> j_job_status j' = j_job_status j"
proof -
  define r where "r = (case find_row j_id (j_id j) (w_jobs w) of
      None \<Rightarrow> j | Some old \<Rightarrow> touched (stamp_job w) old j)"
  have r: "j_id r = i" "j_job_status r = j_job_status j"
    using assms(2) by (auto simp: r_def touched_def stamp_job_def split: option.splits)
  have "filter (\<lambda>x. j_id x = i) (w_jobs w) = [j0]"
    using assms(1) by (auto simp: dao_get_job_by_id_def query_one_def split: list.splits)
  then have "filter (\<lambda>x. j_id x = i) (save_row j_id r (w_jobs w)) = [r]"
    using filter_save_row [of j_id r] r(1) by simp
  moreover have "w_jobs (dao_update_job j w) = save_row j_id r (w_jobs w)"
    unfolding dao_update_job_def r_def [symmetric] by simp
  ultimately have "dao_get_job_by_id i (dao_update_job j w) = Inr r"
    by (simp add: dao_get_job_by_id_def query_one_def)
  then show ?thesis using r(2) by blast
qed

lemma get_job_keeps: "w_jobs v = w_jobs w \<Longrightarrow> dao_get_job_by_id i v = dao_get_job_by_id i w"
  by (simp add: dao_get_job_by_id_def)

definition job_past_pending :: "uuid \<Rightarrow> world \<Rightarrow> bool" where
  "job_past_pending i w \<longleftrightarrow> (\<exists>j. dao_get_job_by_id i w = Inr j \<and> j_job_status j \<noteq> JobPending)"

lemma past_pending_keeps: "w_jobs v = w_jobs w \<Longrightarrow> job_past_pending i w \<Longrightarrow> job_past_pending i v"
  by (simp add: job_past_pending_def dao_get_job_by_id_def)

lemma past_pending_update:
  assumes "job_past_pending i w" "j_id j = i" "j_job_status j \<noteq> JobPending"
  shows "job_past_pending i (dao_update_job j w)"
proof -
  obtain j0 where j0: "dao_get_job_by_id i w = Inr j0"
    using assms(1) unfolding job_past_pending_def by blast
  obtain j' where "dao_get_job_by_id i (dao_update_job j w) = Inr j'" "j_job_status j' = j_job_status j"
    using read_updated_job [OF j0 assms(2)] by blast
  then show ?thesis unfolding job_past_pending_def using assms(3) by metis
qed

lemma limits_keep_pending:
  assumes "sending_limits_for_job_exceeded env s j w = (r, v)" "job_past_pending (j_id j) w"
  shows "job_past_pending (j_id j) v"
proof (cases "find_row t_id (j_template_id j) (w_templates w)")
  case None
  then show ?thesis using assms by (auto simp: sending_limits_for_job_exceeded_def)
next
  case (Some t)
  define c where "c = check_service_over_daily_message_limit env s NormalKey (ntype_name (t_type t))
    (j_notification_count j)"
  obtain r1 v1 where c1: "c w = (r1, v1)" by (cases "c w")
  have "keeps_jobs c"
    unfolding c_def keeps_jobs_def check_service_over_daily_message_limit_def
    by (auto simp: Let_def redis_set_def split: option.splits)
  then have v1: "job_past_pending (j_id j) v1"
    using past_pending_keeps [OF keeps_jobsD [where m = c, OF _ c1] assms(2)] by blast
  then have "job_past_pending (j_id j) (dao_update_job (j\<lparr>j_job_status := JobSendingLimitsExceeded,
      j_processing_finished := Some (w_now v1)\<rparr>) v1)"
    by (rule past_pending_update) simp_all
  then show ?thesis
    using assms(1) c1 v1 Some unfolding sending_limits_for_job_exceeded_def c_def
    by (auto split: sum.splits exn.splits api_exn.splits)
qed

text \<open>The part of \<open>process_job\<close> after the job is started.\<close>

lemma started_job_past_pending:
  assumes "op_bind (sending_limits_for_job_exceeded env s j) (\<lambda>exceeded v.
        if exceeded then (Inr (), v)
        else op_bind (\<lambda>v. (get_recipient_csv_and_template_and_sender_id jl j v, v))
          (\<lambda>(rows, t, sender_id).
           op_bind (shatter_rows env lib n t j sid sender_id rows)
             (\<lambda>_ u. (Inr (), job_complete j u))) v) w1 = (r, w')"
    and "job_past_pending (j_id j) w1"
  shows "job_past_pending (j_id j) w'"
proof -
  obtain r1 v where l: "sending_limits_for_job_exceeded env s j w1 = (r1, v)"
    by (cases "sending_limits_for_job_exceeded env s j w1")
  note pv = limits_keep_pending [OF l assms(2)]
  show ?thesis
  proof (cases "r1 = Inr False")
    case False
    then show ?thesis using assms(1) l pv by (cases r1) auto
  next
    case True
    show ?thesis
    proof (cases "get_recipient_csv_and_template_and_sender_id jl j v")
      case (Inl e)
      then have "w' = v" using assms(1) by (simp add: op_bind_def l True)
      then show ?thesis using pv by simp
    next
      case (Inr x)
      obtain rows t sender where x: "x = (rows, t, sender)" by (cases x)
      obtain r2 v2 where s2: "shatter_rows env lib n t j sid sender rows v = (r2, v2)"
        by (cases "shatter_rows env lib n t j sid sender rows v")
      have p2: "job_past_pending (j_id j) v2"
        by (rule past_pending_keeps [OF shatter_rows_keep [OF s2] pv])
      have "w' = v2 \<or> w' = job_complete j v2"
        using assms(1) by (cases r2) (auto simp: op_bind_def l True Inr x s2)
      moreover have "job_past_pending (j_id j) (job_complete j v2)"
        unfolding job_complete_def by (rule past_pending_update [OF p2]) simp_all
      ultimately show ?thesis using p2 by auto
    qed
  qed
qed

lemma process_job_past_pending:
  assumes "process_job env lib jl n i w = (r, w')"
  shows "w' = w \<and> (\<exists>e. dao_get_job_by_id i w = Inl e) \<or> job_past_pending i w'"
proof (cases "dao_get_job_by_id i w")
  case (Inl e)
  then show ?thesis using assms by (simp add: process_job_def)
next
  case (Inr j0)
  show ?thesis
  proof (cases "j_job_status j0 = JobPending")
    case False
    then show ?thesis using assms Inr by (auto simp: process_job_def job_past_pending_def)
  next
    case True
    define j where "j = j0\<lparr>j_job_status := JobInProgress, j_processing_started := Some (w_now w)\<rparr>"
    define w1 where "w1 = dao_update_job j w"
    have i: "j_id j = i" using query_one_InrD [OF Inr [unfolded dao_get_job_by_id_def]] by (simp add: j_def)
    have "j_job_status j \<noteq> JobPending" by (simp add: j_def)
    then have p1: "job_past_pending i w1"
      unfolding w1_def job_past_pending_def using read_updated_job [OF Inr i] by auto
    note run = assms [unfolded process_job_def Inr sum.case if_not_P [OF not_not [THEN iffD2, OF True]],
        folded j_def, unfolded Let_def, folded w1_def]
    show ?thesis
    proof (cases "job_service j w")
      case (Inl e)
      then show ?thesis using run p1 by simp
    next
      case (Inr s)
      show ?thesis
      proof (cases "svc_active s")
        case False
        have "job_past_pending i (dao_update_job (j\<lparr>j_job_status := JobCancelled\<rparr>) w1)"
          by (rule past_pending_update [OF p1]) (simp_all add: i)
        then show ?thesis using run Inr False by simp
      next
        case active: True
        show ?thesis
          using started_job_past_pending [OF run [unfolded Inr sum.case if_not_P [OF not_not [THEN iffD2, OF active]]]]
            p1 i by simp
      qed
    qed
  qed
qed

lemma batched_lenient:
  assumes "1 \<le> n"
  shows "snd (batched False n xs) = None \<and> concat (fst (batched False n xs)) = xs"
proof -
  have "0 < nat n" "\<not> n < 1" using assms by simp_all
  then show ?thesis using batches_lenient [of "nat n" xs] by (simp add: batched_def)
qed

lemma shatter_rows_sent:
  assumes "shatter_rows env lib n t j sid sender rows w = (Inr u, v)" "1 \<le> n"
  shows "rows_sent env t j rows w v"
proof -
  have b: "batched False n rows = (fst (batched False n rows), None)"
      "concat (fst (batched False n rows)) = rows"
    using batched_lenient [OF assms(2), of rows] by (metis prod.collapse)+
  obtain r1 v1 where i: "op_iter (shatter_batch env lib t j sid sender) (fst (batched False n rows)) w = (r1, v1)"
    by (cases "op_iter (shatter_batch env lib t j sid sender) (fst (batched False n rows)) w")
  have "r1 = Inr () \<and> v1 = v"
    using assms(1) i unfolding shatter_rows_def b(1) [symmetric]
    by (subst (asm) b(1)) (cases r1; simp add: op_bind_def op_return_def)
  then have "op_iter (shatter_batch env lib t j sid sender) (fst (batched False n rows)) w = (Inr (), v)"
    using i by simp
  from shatter_batches_send [OF this] show ?thesis using b(2) by simp
qed

lemma shatter_rows_total:
  assumes "\<And>ys. al_publish lib JOBS (TShatterJobRows (t_type t) ys) = None" "1 \<le> n"
  shows "\<exists>v. shatter_rows env lib n t j sid sender rows w = (Inr (), v)"
proof -
  have batch: "\<exists>v. shatter_batch env lib t j sid sender b w = (Inr (), v)" for b w
    unfolding shatter_batch_def case_prod_beta Let_def
    by (simp add: shatter_job_rows_with_subdivision.simps assms(1))
  have "\<exists>v. op_iter (shatter_batch env lib t j sid sender) bs w = (Inr (), v)" for bs
  proof (induction bs arbitrary: w)
    case (Cons b bs)
    obtain v where "shatter_batch env lib t j sid sender b w = (Inr (), v)" using batch by blast
    then show ?case using Cons.IH [of v] by simp
  qed simp
  then obtain v where v: "op_iter (shatter_batch env lib t j sid sender) (fst (batched False n rows)) w = (Inr (), v)"
    by blast
  have b: "snd (batched False n rows) = None"
    using batched_lenient [OF assms(2), of rows] by simp
  have "shatter_rows env lib n t j sid sender rows w = (Inr (), v)"
    unfolding shatter_rows_def case_prod_beta Let_def using v b by (simp add: op_return_def)
  then show ?thesis ..
qed

section \<open>Properties\<close>

text \<open>
  Splitting a batch of rows into messages ends whatever the broker answers. When
  it returns, the messages sent carry every row of the batch exactly once and in order. When it
  raises, the messages sent carry a prefix of the rows, the broker has refused the message of the
  rows after it, and the exception is the broker's own, or \<open>UnprocessableJobRow\<close> for a message of
  one row at most that the broker found too large.
\<close>

theorem rows_subdivided:
  "case shatter_job_rows_with_subdivision lib t xs w of
     (Inr _, w') \<Rightarrow> \<exists>bs. concat bs = xs
        \<and> w_tasks w' = w_tasks w @ map (\<lambda>b. (JOBS, TShatterJobRows t b)) bs
   | (Inl e, w') \<Rightarrow> \<exists>bs zs ys e'. xs = concat bs @ zs @ ys
        \<and> w_tasks w' = w_tasks w @ map (\<lambda>b. (JOBS, TShatterJobRows t b)) bs
        \<and> al_publish lib JOBS (TShatterJobRows t zs) = Some e'
        \<and> (if too_large e' then length zs \<le> 1 \<and> e = Task UnprocessableJobRow else e = e')"
proof -
  obtain r w' where run: "shatter_job_rows_with_subdivision lib t xs w = (r, w')"
    by (cases "shatter_job_rows_with_subdivision lib t xs w")
  note o = split_outcome_holds [of lib t xs w, unfolded run split_outcome_def prod.case]
  show ?thesis
  proof (cases r)
    case (Inl e)
    show ?thesis
      using o unfolding run prod.case Inl sum.case
      by (elim exE conjE, intro exI conjI) (assumption | simp only: send_batches_simps)+
  next
    case (Inr u)
    show ?thesis using o unfolding run prod.case Inr sum.case by (elim exE conjE) auto
  qed
qed

text \<open>
  When the broker refuses nothing but messages it finds too large,
  and never one of a single row, the splitting of a batch succeeds and sends all of its rows.
\<close>

theorem subdivision_reaches_every_row:
  assumes "\<And>ys e. al_publish lib JOBS (TShatterJobRows t ys) = Some e \<Longrightarrow> too_large e \<and> 1 < length ys"
  shows "\<exists>bs w'. shatter_job_rows_with_subdivision lib t xs w = (Inr (), w') \<and> concat bs = xs
    \<and> w_tasks w' = w_tasks w @ map (\<lambda>b. (JOBS, TShatterJobRows t b)) bs"
proof -
  obtain r w' where run: "shatter_job_rows_with_subdivision lib t xs w = (r, w')"
    by (cases "shatter_job_rows_with_subdivision lib t xs w")
  note o = split_outcome_holds [of lib t xs w, unfolded run split_outcome_def]
  show ?thesis
  proof (cases r)
    case (Inl e)
    then obtain zs e' where "al_publish lib JOBS (TShatterJobRows t zs) = Some e'"
        "too_large e' \<longrightarrow> length zs \<le> 1"
      using o by (auto split: if_splits)
    then show ?thesis using assms by fastforce
  next
    case (Inr u)
    then show ?thesis using o run by auto
  qed
qed

definition small_messages_api :: api_lib where
  \<comment> \<open>a broker that refuses more than two rows in a message\<close>
  "small_messages_api = sample_api\<lparr>al_publish := (\<lambda>q x. case x of
     TShatterJobRows t ys \<Rightarrow> if 2 < length ys
       then Some (Storage (BotoClientError ''InvalidParameterValue'')) else None
   | _ \<Rightarrow> None)\<rparr>"

theorem subdivision_reaches_every_row_witness:
  "\<exists>bs w'. shatter_job_rows_with_subdivision small_messages_api Sms
       (replicate 5 \<lparr>jt_service_id = 10, jt_notification_id = 1,
          jt_data = \<lparr>jr_template = 20, jr_template_version = 1, jr_job = 7, jr_to = ''31612345678'',
            jr_row_number = 0, jr_personalisation = [], jr_client_reference = None\<rparr>,
          jt_sender_id = None\<rparr>) sample_world = (Inr (), w')
     \<and> concat bs = replicate 5 \<lparr>jt_service_id = 10, jt_notification_id = 1,
          jt_data = \<lparr>jr_template = 20, jr_template_version = 1, jr_job = 7, jr_to = ''31612345678'',
            jr_row_number = 0, jr_personalisation = [], jr_client_reference = None\<rparr>,
          jt_sender_id = None\<rparr>
     \<and> w_tasks w' = w_tasks sample_world @ map (\<lambda>b. (JOBS, TShatterJobRows Sms b)) bs"
proof (rule subdivision_reaches_every_row)
  fix ys e
  assume "al_publish small_messages_api JOBS (TShatterJobRows Sms ys) = Some e"
  then have "2 < length ys" "e = Storage (BotoClientError ''InvalidParameterValue'')"
    by (auto simp: small_messages_api_def split: if_splits)
  then show "too_large e \<and> 1 < length ys" by (simp add: too_large_def)
qed

text \<open>
  C20: whatever happens in a run of \<open>process_job\<close>, an error included, running
  it again on the state it left changes nothing: no row of a job is split into messages twice by a
  task that is delivered twice.
\<close>

theorem process_job_runs_once:
  "snd (process_job env lib jl n i (snd (process_job env lib jl n i w))) = snd (process_job env lib jl n i w)"
proof -
  obtain r w' where run: "process_job env lib jl n i w = (r, w')" by (cases "process_job env lib jl n i w")
  from process_job_past_pending [OF run] show ?thesis
  proof (elim disjE conjE exE)
    fix e assume "w' = w" "dao_get_job_by_id i w = Inl e"
    then show ?thesis using run by (simp add: process_job_def)
  next
    assume "job_past_pending i w'"
    then obtain j where "dao_get_job_by_id i w' = Inr j" "j_job_status j \<noteq> JobPending"
      unfolding job_past_pending_def by blast
    then show ?thesis unfolding run snd_conv by (simp add: process_job_def)
  qed
qed

text \<open>
  C19: a pending job of an active service, within its daily limit and with its
  file in the store, when the broker takes the messages: the run succeeds, the messages sent carry
  every row of the file exactly once, in order and with an id of its own, and the job is marked as
  finished at the time of the run.
\<close>

theorem process_job_sends_rows:
  assumes "dao_get_job_by_id i w = Inr j0" "j_job_status j0 = JobPending"
    and "job_service j0 w = Inr s" "svc_active s"
    and "sending_limits_for_job_exceeded env s
        (j0\<lparr>j_job_status := JobInProgress, j_processing_started := Some (w_now w)\<rparr>)
        (dao_update_job (j0\<lparr>j_job_status := JobInProgress, j_processing_started := Some (w_now w)\<rparr>) w)
      = (Inr False, v)"
    and "get_recipient_csv_and_template_and_sender_id jl
        (j0\<lparr>j_job_status := JobInProgress, j_processing_started := Some (w_now w)\<rparr>) v = Inr (rows, t, sender)"
    and "\<And>ys. al_publish lib JOBS (TShatterJobRows (t_type t) ys) = None" "1 \<le> n"
  shows "\<exists>v' j'. process_job env lib jl n i w
        = (Inr (), dao_update_job (j'\<lparr>j_job_status := JobFinished, j_processing_finished := Some (w_now v')\<rparr>) v')
    \<and> j_id j' = i \<and> rows_sent env t j' rows v v'"
proof -
  define j where "j = j0\<lparr>j_job_status := JobInProgress, j_processing_started := Some (w_now w)\<rparr>"
  have i: "j_id j = i" using query_one_InrD [OF assms(1) [unfolded dao_get_job_by_id_def]] by (simp add: j_def)
  have js: "job_service j w = Inr s" using assms(3) by (simp add: job_service_def j_def)
  obtain v' where v': "shatter_rows env lib n t j (svc_id s) sender rows v = (Inr (), v')"
    using shatter_rows_total [OF assms(7,8)] by blast
  have "process_job env lib jl n i w = (Inr (), job_complete j v')"
    using assms(2,4,5,6) js v' unfolding process_job_def assms(1) sum.case
    by (simp add: Let_def op_bind_def flip: j_def)
  then show ?thesis
    using shatter_rows_sent [OF v' assms(8)] i unfolding job_complete_def by blast
qed

definition sample_job :: job where
  "sample_job =
     \<lparr>j_id = 7, j_original_file_name = ''list.csv'', j_service_id = 10, j_template_id = 20,
      j_template_version = 1, j_created_at = 0, j_updated_at = None, j_notification_count = 2,
      j_notifications_sent = 0, j_notifications_delivered = 0, j_notifications_failed = 0,
      j_processing_started = None, j_processing_finished = None, j_created_by_id = None,
      j_scheduled_for = None, j_job_status = JobPending, j_archived = False,
      j_contact_list_id = None\<rparr>"

definition sample_rows :: "recipient_row list" where
  "sample_rows =
     map (\<lambda>k. \<lparr>row_index = k, row_recipient = ''31612345678'', row_personalisation = [],
       row_reference = None\<rparr>) [0, 1]"

definition sample_job_lib :: job_lib where
  "sample_job_lib =
     \<lparr>jl_rows = (\<lambda>s t. sample_rows), jl_cancellable_statuses = [Created],
      jl_letter_can_be_cancelled = (\<lambda>s t. True)\<rparr>"

definition job_world :: world where
  "job_world = post_world\<lparr>w_jobs := [sample_job], w_template_history := [sample_template],
     w_s3 := [((fst (get_job_location 10 7), snd (get_job_location 10 7)), (''data'', []))]\<rparr>"

lemma job_world_reads:
  "dao_get_job_by_id 7 job_world = Inr sample_job" "job_service sample_job job_world = Inr sample_service"
  by (simp_all add: dao_get_job_by_id_def query_one_def job_world_def sample_job_def job_service_def
      post_world_def find_row_Cons sample_service_def)

lemma job_world_file:
  assumes "w_template_history v = [sample_template]" "w_s3 v = w_s3 job_world"
    and "j_id j = 7" "j_service_id j = 10" "j_template_id j = 20" "j_template_version j = 1"
  shows "get_recipient_csv_and_template_and_sender_id sample_job_lib j v = Inr (sample_rows, sample_template, None)"
proof -
  have t: "dao_get_template_by_id 20 (Some 1) v = Inr sample_template"
    by (simp add: dao_get_template_by_id_def query_one_def assms(1)) (simp add: sample_template_def)
  have s3: "get_job_and_metadata_from_s3 10 7 v = Inr (''data'', [])"
    by (simp add: get_job_and_metadata_from_s3_def s3_get_def assms(2) job_world_def)
  have l: "jl_rows sample_job_lib = (\<lambda>s t. sample_rows)" by (simp add: sample_job_lib_def)
  show ?thesis
    unfolding get_recipient_csv_and_template_and_sender_id_def assms(3-6) t s3 l by simp
qed

theorem process_job_sends_rows_witness:
  "\<exists>v v' j'. process_job sample_env sample_api sample_job_lib 32 7 job_world
        = (Inr (), dao_update_job (j'\<lparr>j_job_status := JobFinished, j_processing_finished := Some (w_now v')\<rparr>) v')
    \<and> j_id j' = 7 \<and> rows_sent sample_env sample_template j' sample_rows v v'"
proof -
  let ?j = "sample_job\<lparr>j_job_status := JobInProgress, j_processing_started := Some (w_now job_world)\<rparr>"
  let ?w = "dao_update_job ?j job_world"
  define key where "key = daily_key sample_env sample_service (ntype_name Sms) ?w"
  have frame: "w_templates ?w = [sample_template]" "w_template_history ?w = [sample_template]"
      "w_s3 ?w = w_s3 job_world" "w_redis ?w = []"
    by (simp_all add: dao_update_job_def job_world_def post_world_def sample_world_def)
  have limit: "check_service_over_daily_message_limit sample_env sample_service NormalKey (ntype_name Sms) 2 ?w
      = (Inr (), redis_set key 0 ?w)"
  proof -
    have "daily_limit sample_service Sms = 100" "cfg_redis_enabled sample_env"
      by (simp_all add: daily_limit_def sample_service_def sample_env_def)
    then show ?thesis
      using rate_limits_ntype [of sample_service Sms] unfolding key_def
      by (simp add: check_service_over_daily_message_limit_def Let_def redis_get_def frame(4) del: dao_update_job_frame)
  qed
  have c: "sending_limits_for_job_exceeded sample_env sample_service ?j ?w = (Inr False, redis_set key 0 ?w)"
  proof -
    have "j_template_id ?j = 20" "j_notification_count ?j = 2" by (simp_all add: sample_job_def)
    moreover have "find_row t_id 20 [sample_template] = Some sample_template" "t_type sample_template = Sms"
      by (simp_all add: find_row_Cons sample_template_def)
    ultimately show ?thesis unfolding sending_limits_for_job_exceeded_def frame by (simp only: option.case limit) simp
  qed
  have d: "get_recipient_csv_and_template_and_sender_id sample_job_lib ?j (redis_set key 0 ?w)
      = Inr (sample_rows, sample_template, None)"
    by (rule job_world_file)
      (simp_all add: redis_set_def job_world_def post_world_def, simp_all add: sample_job_def)
  have p: "al_publish sample_api JOBS (TShatterJobRows (t_type sample_template) ys) = None" for ys
    by (simp add: sample_api_def)
  from process_job_sends_rows [OF job_world_reads(1) _ job_world_reads(2) _ c d p, of 32]
  show ?thesis by (fastforce simp: sample_job_def sample_service_def)
qed

text \<open>
  C23: when a job is resumed, the messages sent carry exactly the rows of its file
  after the last row whose notification is saved, in order and once each (all of them when none is),
  and the job is marked as finished. A saved notification of a later row hides the rows before it.
\<close>

theorem resume_sends_rest:
  assumes "dao_get_job_by_id i w = Inr j" "job_service j w = Inr s"
    and "case dao_get_last_notification_added_for_job_id i w of
        None \<Rightarrow> r = -1 | Some m \<Rightarrow> n_job_row_number m = Some r"
    and "get_recipient_csv_and_template_and_sender_id jl j w = Inr (rows, t, sender)"
    and "\<And>ys. al_publish lib JOBS (TShatterJobRows (t_type t) ys) = None" "1 \<le> n"
  shows "\<exists>v. process_incomplete_job env lib jl n i w = (Inr (), job_complete j v)
    \<and> rows_sent env t j (filter (\<lambda>row. r < row_index row) rows) w v"
proof -
  obtain v where v: "shatter_rows env lib n t j (svc_id s) sender (filter (\<lambda>row. r < row_index row) rows) w
      = (Inr (), v)"
    using shatter_rows_total [OF assms(5,6)] by blast
  have "(case dao_get_last_notification_added_for_job_id i w of
      None \<Rightarrow> Some (-1) | Some n \<Rightarrow> n_job_row_number n) = Some r"
    using assms(3) by (simp split: option.splits)
  then have "process_incomplete_job env lib jl n i w = (Inr (), job_complete j v)"
    unfolding process_incomplete_job_def assms(1) sum.case Let_def
    by (simp add: op_bind_def assms(2,4) v)
  then show ?thesis using shatter_rows_sent [OF v assms(6)] by blast
qed

theorem resume_sends_rest_witness:
  "\<exists>v. process_incomplete_job sample_env sample_api sample_job_lib 32 7 job_world
      = (Inr (), job_complete sample_job v)
    \<and> rows_sent sample_env sample_template sample_job (filter (\<lambda>row. -1 < row_index row) sample_rows) job_world v"
proof -
  have d: "get_recipient_csv_and_template_and_sender_id sample_job_lib sample_job job_world
      = Inr (sample_rows, sample_template, None)"
    by (rule job_world_file) (simp_all add: job_world_def post_world_def sample_job_def)
  have n: "case dao_get_last_notification_added_for_job_id 7 job_world of
      None \<Rightarrow> (-1 :: int) = -1 | Some m \<Rightarrow> n_job_row_number m = Some (-1)"
    by (simp add: dao_get_last_notification_added_for_job_id_def job_world_def post_world_def sample_world_def
        latest_by_def)
  have p: "al_publish sample_api JOBS (TShatterJobRows (t_type sample_template) ys) = None" for ys
    by (simp add: sample_api_def)
  show ?thesis
    by (rule resume_sends_rest [OF job_world_reads(1) job_world_reads(2) n d p]) simp
qed

end
