(* ===== verification/Job_Rows.thy ===== *)
theory Job_Rows
  imports Jobs
begin

text \<open>
  What the tasks that save the notification of a row (\<^verbatim>\<open>save_sms\<close>, \<^verbatim>\<open>save_email\<close> and
  \<^verbatim>\<open>save_letter\<close> of \<^verbatim>\<open>app/celery/tasks.py\<close>) and the scheduled tasks that mend jobs and
  messages (\<^verbatim>\<open>app/celery/scheduled_tasks.py\<close>) do, over the definitions of \<open>Jobs\<close>.
\<close>

section \<open>A task delivered twice\<close>

definition unchanged :: "notification list \<Rightarrow> (queue \<times> celery_task) list \<Rightarrow> 'a result \<times> world \<Rightarrow> bool" where
  "unchanged ns ts = settled ns ts (\<lambda>_ v. w_notifications v = ns \<and> w_tasks v = ts)"

lemma unchangedI: "w_notifications (snd o1) = ns \<Longrightarrow> w_tasks (snd o1) = ts \<Longrightarrow> unchanged ns ts o1"
  by (cases o1) (auto simp: unchanged_def settled_def split: sum.split)

lemma unchangedD:
  assumes "unchanged ns ts o1"
  shows "w_notifications (snd o1) = ns" "w_tasks (snd o1) = ts"
  using assms by (cases o1; auto simp: unchanged_def settled_def split: sum.splits)+

lemma unchanged_bind:
  assumes "w_notifications w = ns" "w_tasks w = ts"
    and "\<And>x. g w = Inr x \<Longrightarrow> unchanged ns ts (f x w)"
  shows "unchanged ns ts (op_bind (\<lambda>w. (g w, w)) f w)"
  using assms unfolding unchanged_def by (rule settled_read)

lemma unchanged_pair_bind:
  assumes "w_notifications w = ns" "w_tasks w = ts"
    and "\<And>a b. g w = Inr (a, b) \<Longrightarrow> unchanged ns ts (f a b w)"
  shows "unchanged ns ts (op_bind (\<lambda>w. (g w, w)) (\<lambda>(a, b). f a b) w)"
  by (rule unchanged_bind [OF assms(1,2)]) (use assms(3) in auto)

lemma persist_existing:
  assumes "get_notification_by_id i None v = Some m" "pn_notification_id a = Some i" "\<not> pn_simulated a"
    and "w_notifications v = ns" "w_tasks v = ts"
  shows "\<exists>e u. persist_notification env lib s a v = (Inl e, u) \<and> w_notifications u = ns \<and> w_tasks u = ts"
proof (cases "persist_notification env lib s a v")
  case (Pair r u)
  have mem: "i \<in> n_id ` set (w_notifications v)"
    using assms(1) unfolding get_notification_by_id_def by (auto dest!: query_first_SomeD)
  from Pair show ?thesis
  proof (cases rule: persist_notification_cases)
    case (1 e)
    then show ?thesis using Pair assms(4,5) by simp
  next
    case (2 n j)
    then show ?thesis using assms(3) by simp
  next
    case (3 n j)
    then show ?thesis using mem assms(2) by simp
  qed
qed

lemma catch_existing:
  assumes "get_notification_by_id i None v = Some m" "pn_notification_id a = Some i" "\<not> pn_simulated a"
    and "w_notifications v = ns" "w_tasks v = ts"
  shows "unchanged ns ts (catch_database_error env k i (op_bind (persist_notification env lib s a) f) v)"
proof -
  obtain e u where "persist_notification env lib s a v = (Inl e, u)" "w_notifications u = ns" "w_tasks u = ts"
    using persist_existing [OF assms] by blast
  then show ?thesis
    by (intro unchangedI)
      (auto simp: catch_database_error_def op_bind_def handle_exception_def
        split: exn.split option.split task_exn.split)
qed

lemma row_call_id [simp]:
  "pn_notification_id (row_call x r t now reply) = Some (jt_notification_id x)"
  "\<not> pn_simulated (row_call x r t now reply)"
  by (simp_all add: row_call_def persist_call_def Let_def)

lemma get_notification_keeps:
  "w_notifications v = w_notifications w \<Longrightarrow> get_notification_by_id i None v = get_notification_by_id i None w"
  by (simp add: get_notification_by_id_def)

lemma save_sms_twice:
  assumes "get_notification_by_id (jt_notification_id x) None w = Some m"
  shows "unchanged (w_notifications w) (w_tasks w) (save_sms env lib k x w)"
  unfolding save_sms_def
proof (rule unchanged_pair_bind [OF refl refl], intro unchanged_bind refl)
  fix s st reply allowed
  let ?v = "validate_and_format_recipient env lib (Some (jr_to (jt_data x))) NormalKey s Sms True False w"
  obtain r v where v: "?v = (r, v)" by (cases "?v")
  have same: "w_notifications v = w_notifications w" "w_tasks v = w_tasks w"
    using idle_recipient [of env lib "Some (jr_to (jt_data x))" NormalKey s Sms True False, unfolded idle_def,
        THEN spec, of w] unfolding v snd_conv by blast+
  have found: "get_notification_by_id (jt_notification_id x) None v = Some m"
    using assms unfolding get_notification_keeps [OF same(1)] .
  note caught = catch_existing [OF found _ _ same]
  have err: "unchanged (w_notifications w) (w_tasks w) (Inl e, v)" for e
    by (intro unchangedI) (simp_all add: same)
  have skip: "unchanged (w_notifications w) (w_tasks w) (Inr (), w)"
    by (intro unchangedI) simp_all
  show "unchanged (w_notifications w) (w_tasks w)
     (if \<not> allowed then (Inr (), w) else
        (case ?v of
           (Inl (Recipient (InvalidPhoneError c)), w1) \<Rightarrow>
              catch_database_error env k (jt_notification_id x)
                (op_bind (persist_notification env lib s
                    ((row_call x (PhoneData (invalid_number_data (jr_to (jt_data x)))) Sms (w_now w1) reply)
                     \<lparr>pn_status := ValidationFailed, pn_billable_units := Some 0,
                      pn_updated_at := Some (w_now w1)\<rparr>)) (\<lambda>_. op_return ())) w1
          | (Inl e, w1) \<Rightarrow> (Inl e, w1)
          | (Inr recipient, w1) \<Rightarrow>
              catch_database_error env k (jt_notification_id x)
                (op_bind (persist_notification env lib s (row_call x recipient Sms (w_now w1) reply))
                   (\<lambda>n. apply_async lib SEND_SMS (TDeliverSms (n_id n)))) w1))"
    unfolding v by (auto intro!: caught err skip split: sum.split exn.split recipient_exn.split)
qed

lemma save_email_twice:
  assumes "get_notification_by_id (jt_notification_id x) None w = Some m"
  shows "unchanged (w_notifications w) (w_tasks w) (save_email env lib k x w)"
  unfolding save_email_def
proof (rule unchanged_pair_bind [OF refl refl], intro unchanged_bind refl)
  fix s st reply allowed
  have skip: "unchanged (w_notifications w) (w_tasks w) (Inr (), w)"
    by (intro unchangedI) simp_all
  show "unchanged (w_notifications w) (w_tasks w)
     (if \<not> allowed then (Inr (), w)
      else catch_database_error env k (jt_notification_id x)
           (op_bind (persist_notification env lib s
               (row_call x (TextData (jr_to (jt_data x))) Email (w_now w) reply))
              (\<lambda>n. apply_async lib SEND_EMAIL (TDeliverEmail (n_id n)))) w)"
    using skip catch_existing [OF assms row_call_id refl refl] by simp
qed

lemma save_letter_twice:
  assumes "get_notification_by_id (jt_notification_id x) None w = Some m"
  shows "unchanged (w_notifications w) (w_tasks w) (save_letter env lib k x w)"
  unfolding save_letter_def Let_def
  by (rule unchanged_pair_bind [OF refl refl], rule catch_existing [OF assms _ _ refl refl]) simp_all

section \<open>Missing rows\<close>

lemma missing_row_sent:
  assumes "0 \<le> r" "nat r < length rows" "t_type t \<noteq> Messagebox" "\<And>q y. al_publish lib q y = None"
  shows "\<exists>x. jr_row_number (jt_data x) = row_index (rows ! nat r)
    \<and> process_missing_row env lib j rows t sid sender r w
       = (Inr (), enqueue DATABASE (projr (save_task (t_type t) x)) (next_id w))"
proof -
  define y where "y = fst (get_id_task_args_kwargs_for_job_row env (rows ! nat r) t j sid sender w)"
  have x: "get_id_task_args_kwargs_for_job_row env (rows ! nat r) t j sid sender w = (y, next_id w)"
    unfolding y_def
    by (simp add: get_id_task_args_kwargs_for_job_row_def create_uuid_def next_id_def split: prod.split)
  have s: "\<exists>z. save_task (t_type t) y = Inr z" using assms(3) by (cases "t_type t") (auto simp: save_task_def)
  then have "process_missing_row env lib j rows t sid sender r w
      = (Inr (), enqueue DATABASE (projr (save_task (t_type t) y)) (next_id w))"
    unfolding process_missing_row_def process_job_row_def x if_P [OF assms(2)] Let_def prod.case
    by (auto simp: op_bind_def op_lift_def assms(4))
  then show ?thesis using task_fields(1) unfolding y_def by blast
qed

lemma missing_rows_loop:
  assumes "t_type t \<noteq> Messagebox" "\<And>q y. al_publish lib q y = None"
    and "\<And>r. r \<in> set rs \<Longrightarrow> 0 \<le> r \<and> nat r < length rows \<and> row_index (rows ! nat r) = r"
  shows "\<exists>xs v. op_iter (process_missing_row env lib j rows t sid sender) rs w = (Inr (), v)
    \<and> w_tasks v = w_tasks w @ map (\<lambda>x. (DATABASE, projr (save_task (t_type t) x))) xs
    \<and> map (\<lambda>x. jr_row_number (jt_data x)) xs = rs"
  using assms(3)
proof (induction rs arbitrary: w)
  case Nil
  show ?case by (rule exI [of _ "[]"]) simp
next
  case (Cons r rs)
  have r: "0 \<le> r" "nat r < length rows" "row_index (rows ! nat r) = r" using Cons.prems by simp_all
  obtain x where x: "jr_row_number (jt_data x) = r" "process_missing_row env lib j rows t sid sender r w
      = (Inr (), enqueue DATABASE (projr (save_task (t_type t) x)) (next_id w))"
    using missing_row_sent [OF r(1,2) assms(1,2)] r(3) by metis
  let ?w = "enqueue DATABASE (projr (save_task (t_type t) x)) (next_id w)"
  obtain xs v where v: "op_iter (process_missing_row env lib j rows t sid sender) rs ?w = (Inr (), v)"
      "w_tasks v = w_tasks ?w @ map (\<lambda>x. (DATABASE, projr (save_task (t_type t) x))) xs"
      "map (\<lambda>x. jr_row_number (jt_data x)) xs = rs"
    using Cons.IH [of ?w] Cons.prems by auto
  have "w_tasks ?w = w_tasks w @ [(DATABASE, projr (save_task (t_type t) x))]"
    by (simp add: enqueue_def next_id_def)
  then show ?case
    by (intro exI [of _ "x # xs"] exI [of _ v]) (simp add: x v)
qed

section \<open>Properties\<close>

text \<open>
  C22: the tasks that save the notification of a row, run again for an id
  that is already in the table (the broker delivers a task at least once), leave the notifications
  and the messages as they were, whatever the row, the service and the libraries.
\<close>

theorem saved_row_not_duplicated:
  assumes "get_notification_by_id (jt_notification_id x) None w = Some m"
    and "save \<in> {save_sms env lib k, save_email env lib k, save_letter env lib k}"
  shows "w_notifications (snd (save x w)) = w_notifications w \<and> w_tasks (snd (save x w)) = w_tasks w"
  using assms(2) unchangedD [OF save_sms_twice [OF assms(1)]] unchangedD [OF save_email_twice [OF assms(1)]]
    unchangedD [OF save_letter_twice [OF assms(1)]]
  by auto

definition sample_row_task :: row_task where
  "sample_row_task =
     \<lparr>jt_service_id = 10, jt_notification_id = 1,
      jt_data = \<lparr>jr_template = 20, jr_template_version = 1, jr_job = 7, jr_to = ''31612345678'',
        jr_row_number = 0, jr_personalisation = [], jr_client_reference = None\<rparr>,
      jt_sender_id = None\<rparr>"

theorem saved_row_not_duplicated_witness:
  "let w = job_world\<lparr>w_notifications := [sample_notification]\<rparr>
   in w_notifications (snd (save_sms sample_env sample_api 0 sample_row_task w)) = w_notifications w
      \<and> w_tasks (snd (save_sms sample_env sample_api 0 sample_row_task w)) = w_tasks w"
proof -
  let ?w = "job_world\<lparr>w_notifications := [sample_notification]\<rparr>"
  have "get_notification_by_id (jt_notification_id sample_row_task) None ?w = Some sample_notification"
    by (simp add: get_notification_by_id_def query_first_def sample_row_task_def)
  from saved_row_not_duplicated [OF this, of "save_sms sample_env sample_api 0" sample_env sample_api 0]
  show ?thesis by (simp add: Let_def)
qed

text \<open>
  A row of a text message job with a foreign mobile number, in a service
  without the permission for foreign numbers: the task that saves the row raises, and nothing is
  stored. The branch that stores an invalid number as \<open>validation-failed\<close> is not reached, since
  the validation turns \<open>InvalidPhoneError\<close> into \<open>BadRequestError\<close> for such a number.
\<close>

theorem foreign_row_is_lost:
  assumes "row_service_and_template env x w = Inr (s, st)" "jt_sender_id x = None"
    and "service_allowed_to_send_to lib (jr_to (jt_data x)) s NormalKey True w = Inr True"
    and "al_phone lib (jr_to (jt_data x)) = Inr p" "is_international_number p"
    and "al_validate_phone lib p (has_permission s InternationalSms) (has_permission s SmsToUkLandlines)
        = Inl (Recipient (InvalidPhoneError NotAUkMobile))"
  shows "save_sms env lib k x w = (Inl (bad_request ''Cannot send to international mobile numbers''), w)"
proof -
  have "validate_and_format_recipient env lib (Some (jr_to (jt_data x))) NormalKey s Sms True False w
      = (Inl (bad_request ''Cannot send to international mobile numbers''), w)"
    by (simp add: validate_and_format_recipient_def service_can_send_to_recipient_def assms(3)
        validate_and_return_extended_phone_number_info_def assms(4-6) phone_error_def op_bind_def op_lift_def)
  then show ?thesis
    unfolding save_sms_def by (simp add: op_bind_def assms(1-3))
qed

definition foreign_phone :: phone where
  "foreign_phone = \<lparr>ph_uk = False, ph_normalised = ''4915112345678'', ph_international = True,
     ph_crown_dependency = False, ph_country_prefix = ''49'', ph_rate_multiplier = 2\<rparr>"

definition foreign_api :: api_lib where
  "foreign_api = sample_api\<lparr>al_phone := (\<lambda>n. Inr foreign_phone),
     al_validate_phone := (\<lambda>p i l. if ph_international p \<and> \<not> i
        then Inl (Recipient (InvalidPhoneError NotAUkMobile)) else Inr ())\<rparr>"

theorem foreign_row_is_lost_witness:
  "save_sms sample_env foreign_api 0 sample_row_task job_world
     = (Inl (bad_request ''Cannot send to international mobile numbers''), job_world)"
proof -
  have t: "dao_get_template_by_id_and_service_id 20 10 (Some 1) job_world = Inr sample_template"
    by (simp add: dao_get_template_by_id_and_service_id_def query_one_def job_world_def)
      (simp add: sample_template_def)
  have s: "dao_fetch_service_by_id 10 False job_world = Inr sample_service" "svc_id sample_service = 10"
    by (simp_all add: dao_fetch_service_by_id_def query_one_def job_world_def post_world_def)
      (simp_all add: sample_service_def)
  obtain r where r: "template_reply_to_text sample_env sample_template job_world = Inr r"
    by (simp add: template_reply_to_text_def sample_template_def get_default_sms_sender_def job_world_def
        post_world_def sample_sender_def sample_env_def try_parse_and_format_phone_number_def
        parse_and_format_phone_number_def)
  have f: "jt_service_id sample_row_task = 10" "jr_template (jt_data sample_row_task) = 20"
      "jr_template_version (jt_data sample_row_task) = 1" "jt_sender_id sample_row_task = None"
    by (simp_all add: sample_row_task_def)
  have "row_service_and_template sample_env sample_row_task job_world
      = Inr (sample_service, \<lparr>st_row = sample_template, st_reply_to_text = r\<rparr>)"
    by (simp add: row_service_and_template_def serialised_template_from_id_and_service_id_def f t s r)
  then show ?thesis
    by (rule foreign_row_is_lost [OF _ f(4), where p = foreign_phone])
      (simp_all add: service_allowed_to_send_to_def sample_service_def foreign_api_def
        foreign_phone_def is_international_number_def has_permission_def)
qed

text \<open>
  The scheduled task that sends again the messages whose task was lost,
  when the broker refuses a message: the notification, stored and acknowledged to the client an hour
  before, is deleted, and the notifications after it are not looked at.
\<close>

theorem replay_deletes_accepted:
  assumes "notifications_not_yet_sent 3600 Email w = n # ns" "n_key_type n = NormalKey"
    and "al_publish lib SEND_EMAIL (TDeliverEmail (n_id n)) = Some e"
  shows "replay_created_notifications lib w = (Inl e, dao_delete_notifications_by_id (n_id n) w)
    \<and> n \<in> set (w_notifications w)
    \<and> n_id n \<notin> n_id ` set (w_notifications (dao_delete_notifications_by_id (n_id n) w))"
proof -
  have n: "n \<in> set (w_notifications w)" "n_type n = Email"
  proof -
    have "n \<in> set (notifications_not_yet_sent 3600 Email w)" using assms(1) by simp
    then show "n \<in> set (w_notifications w)" "n_type n = Email"
      by (auto simp: notifications_not_yet_sent_def)
  qed
  have "send_notification_to_queue lib n None w = (Inl e, dao_delete_notifications_by_id (n_id n) w)"
    by (simp add: send_notification_to_queue_def send_notification_to_queue_detached_def assms(2,3) n(2) Let_def)
  then have "replay_created_notifications lib w = (Inl e, dao_delete_notifications_by_id (n_id n) w)"
    unfolding replay_created_notifications_def by (simp add: op_bind_def assms(1))
  then show ?thesis
    using n(1) by (auto simp: dao_delete_notifications_by_id_def delete_rows_def)
qed

definition refusing_api :: api_lib where
  "refusing_api = sample_api\<lparr>al_publish := (\<lambda>q x. Some (Storage (BotoClientError ''ServiceUnavailable'')))\<rparr>"

definition unsent_email :: notification where
  "unsent_email = sample_notification\<lparr>n_type := Email, n_status := Created, n_created_at := 0\<rparr>"

theorem replay_deletes_accepted_witness:
  "let w = sample_world\<lparr>w_now := minutes 120, w_notifications := [unsent_email]\<rparr>
   in replay_created_notifications refusing_api w
        = (Inl (Storage (BotoClientError ''ServiceUnavailable'')), dao_delete_notifications_by_id 1 w)
      \<and> w_notifications (dao_delete_notifications_by_id 1 w) = []"
proof -
  let ?w = "sample_world\<lparr>w_now := minutes 120, w_notifications := [unsent_email]\<rparr>"
  have a: "notifications_not_yet_sent 3600 Email ?w = [unsent_email]"
    by (simp add: notifications_not_yet_sent_def unsent_email_def minutes_def seconds_def)
  have b: "al_publish refusing_api SEND_EMAIL (TDeliverEmail (n_id unsent_email))
      = Some (Storage (BotoClientError ''ServiceUnavailable''))"
    by (simp add: refusing_api_def)
  have c: "n_key_type unsent_email = NormalKey" "n_id unsent_email = 1" by (simp_all add: unsent_email_def)
  show ?thesis
    using replay_deletes_accepted [OF a c(1) b] c(2)
    by (simp add: Let_def dao_delete_notifications_by_id_def delete_rows_def)
qed

text \<open>
  For a finished job whose file still has its rows in place, the task that
  looks for missing rows sends one message for each row number below the size of the job that no
  notification of the job has, in order, and for no other row.
\<close>

theorem missing_rows_sent:
  assumes "get_recipient_csv_and_template_and_sender_id jl j w = Inr (rows, t, sender)"
    and "\<And>k. k < length rows \<Longrightarrow> row_index (rows ! k) = int k" "j_notification_count j \<le> int (length rows)"
    and "t_type t \<noteq> Messagebox" "\<And>q y. al_publish lib q y = None"
  shows "\<exists>xs v. process_missing_rows env lib jl j w = (Inr (), v)
    \<and> w_tasks v = w_tasks w @ map (\<lambda>x. (DATABASE, projr (save_task (t_type t) x))) xs
    \<and> sorted_wrt (<) (map (\<lambda>x. jr_row_number (jt_data x)) xs)
    \<and> (\<lambda>x. jr_row_number (jt_data x)) ` set xs =
        {r. 0 \<le> r \<and> r < j_notification_count j
          \<and> \<not> (\<exists>n \<in> set (w_notifications w). n_job_id n = Some (j_id j) \<and> n_job_row_number n = Some r)}"
proof -
  let ?rs = "find_missing_row_for_job (j_id j) (j_notification_count j) w"
  have set: "set ?rs = {r. 0 \<le> r \<and> r < j_notification_count j
      \<and> \<not> (\<exists>n \<in> set (w_notifications w). n_job_id n = Some (j_id j) \<and> n_job_row_number n = Some r)}"
    by (force simp: find_missing_row_for_job_def created_rows_def)
  have rows: "0 \<le> r \<and> nat r < length rows \<and> row_index (rows ! nat r) = r" if "r \<in> set ?rs" for r
  proof -
    have "0 \<le> r" "r < j_notification_count j" using that unfolding set by auto
    then show ?thesis using assms(2) [of "nat r"] assms(3) by auto
  qed
  have sorted: "sorted_wrt (<) ?rs"
    unfolding find_missing_row_for_job_def by (rule sorted_wrt_filter) simp
  obtain xs v where v: "op_iter (process_missing_row env lib j rows t (j_service_id j) sender) ?rs w = (Inr (), v)"
      "w_tasks v = w_tasks w @ map (\<lambda>x. (DATABASE, projr (save_task (t_type t) x))) xs"
      "map (\<lambda>x. jr_row_number (jt_data x)) xs = ?rs"
    using missing_rows_loop [OF assms(4,5) rows] by blast
  have "process_missing_rows env lib jl j w = (Inr (), v)"
    unfolding process_missing_rows_def by (simp add: op_bind_def assms(1) v(1))
  moreover have "(\<lambda>x. jr_row_number (jt_data x)) ` set xs = set ?rs"
    by (simp flip: v(3))
  moreover have "sorted_wrt (<) (map (\<lambda>x. jr_row_number (jt_data x)) xs)" unfolding v(3) by (rule sorted)
  ultimately show ?thesis using v(2) unfolding set by blast
qed

theorem missing_rows_sent_witness:
  "\<exists>xs v. process_missing_rows sample_env sample_api sample_job_lib sample_job job_world = (Inr (), v)
    \<and> w_tasks v = w_tasks job_world @ map (\<lambda>x. (DATABASE, projr (save_task Sms x))) xs
    \<and> (\<lambda>x. jr_row_number (jt_data x)) ` set xs = {0, 1}"
proof -
  have d: "get_recipient_csv_and_template_and_sender_id sample_job_lib sample_job job_world
      = Inr (sample_rows, sample_template, None)"
    by (rule job_world_file) (simp_all add: job_world_def post_world_def sample_job_def)
  have f: "t_type sample_template = Sms" "j_notification_count sample_job = 2" "length sample_rows = 2"
      "w_notifications job_world = []"
    by (simp_all add: sample_template_def sample_job_def sample_rows_def job_world_def post_world_def sample_world_def)
  have i: "row_index (sample_rows ! k) = int k" if "k < length sample_rows" for k
    using that by (auto simp: sample_rows_def less_Suc_eq numeral_2_eq_2)
  have p: "al_publish sample_api q y = None" for q y by (simp add: sample_api_def)
  have two: "{r :: int. 0 \<le> r \<and> r < 2} = {0, 1}" by auto
  show ?thesis
    using missing_rows_sent [OF d i _ _ p, of sample_env] unfolding f by (fastforce simp: two)
qed

text \<open>
  A finished job none of whose notifications was saved is neither found
  as incomplete nor as complete, whatever its size: its rows are never sent again.
\<close>

theorem rowless_job_not_mended:
  assumes "created_rows (j_id j) w = []"
  shows "j \<notin> set (fst (find_jobs_with_missing_rows w)) \<and> j \<notin> set (snd (find_jobs_with_missing_rows w))"
  using assms by (auto simp: find_jobs_with_missing_rows_def Let_def)

theorem rowless_job_not_mended_witness:
  "sample_job \<notin> set (fst (find_jobs_with_missing_rows job_world))
   \<and> sample_job \<notin> set (snd (find_jobs_with_missing_rows job_world))"
  by (rule rowless_job_not_mended)
    (simp add: created_rows_def job_world_def post_world_def sample_world_def)

end
