(* ===== verification/Lifecycle.thy ===== *)
theory Lifecycle
  imports Delivery Job_Rows
begin

text \<open>
  The life of a notification across the components: accepted by an endpoint, handed to a provider
  by a delivery task, reported on by the provider's receipts, timed out. The specification is a
  state machine on the statuses alone (\<open>life_step\<close>, \<open>message_spec\<close>); the operations of
  \<open>Post\<close>, \<open>Delivery\<close>, \<open>Callbacks\<close> and \<open>Notifications_Dao\<close> refine it step by step, and what holds
  of every run follows by rule induction.
\<close>

section \<open>The specification\<close>

definition reported_statuses :: "nstatus list" where
  "reported_statuses = [Delivered, Pending, TemporaryFailure, PermanentFailure, TechnicalFailure]"

inductive life_step :: "nstatus \<Rightarrow> nstatus \<Rightarrow> bool" where
  sent: "s = Sending \<or> s = Sent \<Longrightarrow> life_step Created s"
| reported: "s \<in> set updatable_statuses \<Longrightarrow> s' \<in> set reported_statuses \<Longrightarrow> life_step s s'"

inductive_cases life_stepE: "life_step s s'"

type_synonym status_map = "uuid \<Rightarrow> nstatus option"

definition status_map :: "world \<Rightarrow> status_map" where
  "status_map w = (\<lambda>i. map_option n_status (find_row n_id i (w_notifications w)))"

definition moves_on :: "status_map \<Rightarrow> status_map \<Rightarrow> bool" where
  "moves_on m m' \<longleftrightarrow> (\<forall>i. rel_option life_step\<^sup>*\<^sup>* (m i) (m' i))"

inductive message_spec :: "status_map \<Rightarrow> status_map \<Rightarrow> bool" where
  accepted: "m i = None \<Longrightarrow> s = Created \<or> s = ValidationFailed \<Longrightarrow> message_spec m (m(i \<mapsto> s))"
| moved: "moves_on m m' \<Longrightarrow> message_spec m m'"

lemma life_final: "life_step\<^sup>*\<^sup>* s s' \<Longrightarrow> s \<notin> set updatable_statuses \<Longrightarrow> s' = s"
  by (induction rule: rtranclp_induct) (auto elim!: life_stepE simp: updatable_statuses_def)

lemma life_leaves_created: "life_step\<^sup>*\<^sup>* s s' \<Longrightarrow> s \<noteq> Created \<Longrightarrow> s' \<noteq> Created"
  by (induction rule: rtranclp_induct) (auto elim!: life_stepE simp: reported_statuses_def)

lemma life_sent_once: "life_step\<^sup>*\<^sup>* s s' \<Longrightarrow> s \<notin> {Created, Sending, Sent} \<Longrightarrow> s' \<notin> {Created, Sending, Sent}"
  by (induction rule: rtranclp_induct) (auto elim!: life_stepE simp: reported_statuses_def)

lemma moves_on_refl [simp]: "moves_on m m"
  by (simp add: moves_on_def option.rel_refl)

lemma moves_on_trans: "moves_on a b \<Longrightarrow> moves_on b c \<Longrightarrow> moves_on a c"
  unfolding moves_on_def by (metis (no_types, lifting) option.rel_sel rtranclp_trans)

section \<open>The parts of a step\<close>

text \<open>An update keeps the rows, and of each row the columns the constraints of the table are about.\<close>

definition shape :: "notification \<Rightarrow> uuid \<times> ntype \<times> uuid option \<times> int option \<times> string option" where
  [simp]: "shape n = (n_id n, n_type n, n_job_id n, n_job_row_number n, n_unsubscribe_link n)"

definition evolves :: "world \<Rightarrow> world \<Rightarrow> bool" where
  "evolves w w' \<longleftrightarrow> map shape (w_notifications w') = map shape (w_notifications w)
     \<and> moves_on (status_map w) (status_map w')"

lemma evolves_same: "w_notifications w' = w_notifications w \<Longrightarrow> evolves w w'"
  by (simp add: evolves_def status_map_def)

lemma evolves_refl [simp]: "evolves w w"
  by (simp add: evolves_def)

lemma evolves_trans: "evolves a b \<Longrightarrow> evolves b c \<Longrightarrow> evolves a c"
  unfolding evolves_def using moves_on_trans by metis

lemma evolves_save:
  assumes "find_row n_id (n_id n') (w_notifications w) = Some n" "shape n' = shape n"
    and "life_step\<^sup>*\<^sup>* (n_status n) (n_status n')"
  shows "evolves w (save_notification n' w)"
  unfolding evolves_def moves_on_def
proof (intro conjI allI)
  have "map shape (save_row n_id n' rows) = map shape rows"
    if "find_row n_id (n_id n') rows = Some n" for rows
    using that assms(2) by (induction rows) (auto simp: row_simps split: if_splits)
  then show "map shape (w_notifications (save_notification n' w)) = map shape (w_notifications w)"
    using assms(1) by (simp add: save_notification_def)
next
  fix i
  show "rel_option life_step\<^sup>*\<^sup>* (status_map w i) (status_map (save_notification n' w) i)"
    using assms(1,3) by (cases "i = n_id n'") (simp_all add: status_map_def row_simps option.rel_refl)
qed

lemma evolves_update:
  assumes "w_notifications w' = update_rows p f (w_notifications w)" "\<And>n. shape (f n) = shape n"
    and "\<And>i n. find_row n_id i (w_notifications w) = Some n \<Longrightarrow> p n \<Longrightarrow> life_step\<^sup>*\<^sup>* (n_status n) (n_status (f n))"
  shows "evolves w w'"
  unfolding evolves_def moves_on_def
proof (intro conjI allI)
  show "map shape (w_notifications w') = map shape (w_notifications w)"
    unfolding assms(1) using assms(2) by (simp add: update_rows_def)
next
  fix i
  have f: "find_row n_id i (w_notifications w') =
      map_option (\<lambda>r. if p r then f r else r) (find_row n_id i (w_notifications w))"
    unfolding assms(1) by (rule find_update_rows) (use assms(2) in simp)
  show "rel_option life_step\<^sup>*\<^sup>* (status_map w i) (status_map w' i)"
    using assms(3) [of i] by (cases "find_row n_id i (w_notifications w)") (simp_all add: status_map_def f)
qed

lemma decided_is_reported:
  assumes "s \<in> set reported_statuses"
  shows "decide_permanent_temporary_failure s n code \<in> set reported_statuses"
proof -
  have codes: "st \<in> set reported_statuses"
    if "get_message_status_and_reason_from_firetext_code c = Inr (st, r)" for c st r
    using that by (auto simp: get_message_status_and_reason_from_firetext_code_def firetext_codes_def
        reported_statuses_def split: option.splits if_splits)
  show ?thesis
    using assms codes
    by (auto simp: decide_permanent_temporary_failure_def Let_def reported_statuses_def
        split: option.splits sum.splits)
qed

lemma update_by_id_evolves:
  assumes "update_notification_status_by_id env i s sent_by code w = (r, w')" "s \<in> set reported_statuses"
  shows "evolves w w'"
  using assms(1)
proof (cases rule: update_status_cases)
  case skipped
  then show ?thesis by simp
next
  case (updated n n1)
  let ?n = "n1\<lparr>n_status := decide_permanent_temporary_failure s n1 code, n_updated_at := Some (w_now w)\<rparr>"
  have i: "n_id n = i" using find_row_SomeD [OF updated(1)] by simp
  have sh: "shape n1 = shape n" by (simp add: updated(3))
  have "life_step (n_status n) (n_status ?n)"
    using life_step.reported [OF updated(2) decided_is_reported [OF assms(2)]] by simp
  then show ?thesis
    unfolding updated(4) by (intro evolves_save [where n = n]) (use sh i in \<open>simp_all add: updated(1)\<close>)
qed

lemma update_by_id_result:
  assumes "update_notification_status_by_id env i s sent_by code w = (Inr (Some n), w')"
  shows "find_row n_id (n_id n) (w_notifications w') = Some n"
  using assms by (cases rule: update_status_cases) (auto simp: row_simps)

section \<open>Receipts\<close>

lemma check_and_queue_keeps:
  "w_notifications (snd (check_and_queue_callback_task row w)) = w_notifications w"
  by (simp add: check_and_queue_callback_task_def enqueue_def split: option.split sum.split)

lemma fill_units_evolves:
  assumes "fill_billable_units fragments n w = (r, w')" "find_row n_id (n_id n) (w_notifications w) = Some n"
  shows "evolves w w'"
proof -
  consider "w' = w" | u where "w' = snd (dao_update_notification (n\<lparr>n_billable_units := u\<rparr>) w)"
    using assms(1) by (auto simp: fill_billable_units_def dao_update_notification_def Let_def
        split: if_splits option.splits sum.splits)
  then show ?thesis
    by cases (auto simp: dao_update_notification_def Let_def assms(2) intro!: evolves_save)
qed

lemma process_for_status_evolves:
  assumes "s \<in> set reported_statuses"
  shows "evolves w (snd (process_for_status env fragments name s i code w))"
proof -
  obtain r w1 where u: "update_notification_status_by_id env i s (Some (py_lower name)) code w = (r, w1)"
    by (cases "update_notification_status_by_id env i s (Some (py_lower name)) code w")
  note m1 = update_by_id_evolves [OF u assms]
  show ?thesis
  proof (cases "\<exists>n. r = Inr (Some n)")
    case True
    then obtain n where n: "r = Inr (Some n)" by blast
    obtain r2 w2 where f: "fill_billable_units fragments n w1 = (r2, w2)"
      by (cases "fill_billable_units fragments n w1")
    have m2: "evolves w w2"
      by (rule evolves_trans [OF m1 fill_units_evolves [OF f update_by_id_result [OF u [unfolded n]]]])
    have "w_notifications (snd (process_for_status env fragments name s i code w)) = w_notifications w2"
      using u f unfolding n by (cases r2) (simp_all add: process_for_status_def check_and_queue_keeps)
    then show ?thesis by (rule evolves_trans [OF m2 evolves_same])
  next
    case False
    then have "snd (process_for_status env fragments name s i code w) = w1"
      using u by (auto simp: process_for_status_def split: sum.split option.split)
    then show ?thesis using m1 by simp
  qed
qed

lemma process_messagebox_evolves:
  assumes "s \<in> set reported_statuses"
  shows "evolves w (snd (process_messagebox_for_status env name s i code w))"
proof -
  obtain r w1 where u: "update_notification_status_by_id env i s (Some (py_lower name)) code w = (r, w1)"
    by (cases "update_notification_status_by_id env i s (Some (py_lower name)) code w")
  have "w_notifications (snd (process_messagebox_for_status env name s i code w)) = w_notifications w1"
    using u by (simp add: process_messagebox_for_status_def check_and_queue_keeps split: sum.split option.split)
  then show ?thesis by (rule evolves_trans [OF update_by_id_evolves [OF u assms] evolves_same])
qed

context response_parser
begin

lemma task_evolves:
  assumes "\<And>s i code w. s \<in> set reported_statuses \<Longrightarrow> evolves w (snd (process s i code w))"
  shows "evolves w (snd (client_response_task (Some parse) process st ref name code w))"
proof -
  have technical: "TechnicalFailure \<in> set reported_statuses" by (simp add: reported_statuses_def)
  have known: "s \<in> set reported_statuses" if "parse st code = Inr (s, d)" for s d
    using parse_reports [OF that] by (auto simp: callback_statuses_def reported_statuses_def)
  show ?thesis
  proof (cases "\<exists>i. ref \<noteq> None \<and> parse_uuid (the ref) = Some i")
    case False
    then show ?thesis by (auto simp: client_response_task_def split: option.split)
  next
    case True
    then obtain i where i: "ref = Some (the ref)" "parse_uuid (the ref) = Some i" by auto
    show ?thesis
    proof (cases rule: parse_cases [of st code])
      case (known s d)
      have "client_response_task (Some parse) process st ref name code w = process s i code w"
        by (subst i(1)) (rule task_known [OF i(2) known(2)])
      then show ?thesis using assms [OF \<open>\<And>s d. parse st code = Inr (s, d) \<Longrightarrow> s \<in> set reported_statuses\<close> [OF known(2)]]
        by simp
    next
      case unknown
      have "snd (client_response_task (Some parse) process st ref name code w) =
          snd (process TechnicalFailure i None w)"
        by (subst i(1)) (simp add: client_response_task_def i(2) unknown(2) split: prod.split sum.split)
      then show ?thesis using assms [OF technical] by simp
    qed
  qed
qed

end

lemma sms_response_evolves: "evolves w (snd (process_sms_client_response env fragments st ref name code w))"
proof (cases "map_of sms_response_mapper name")
  case None
  then show ?thesis
    by (auto simp: process_sms_client_response_def client_response_task_def split: option.split)
next
  case (Some parse)
  note step = process_for_status_evolves [of _ _ env fragments name]
  show ?thesis
    unfolding process_sms_client_response_def Some
  proof (cases rule: sms_mapper_cases [OF Some])
    case 1
    then show "evolves w (snd (client_response_task (Some parse) (process_for_status env fragments name) st ref name code w))"
      using mmg.task_evolves step by blast
  next
    case 2
    then show "evolves w (snd (client_response_task (Some parse) (process_for_status env fragments name) st ref name code w))"
      using firetext.task_evolves step by blast
  next
    case 3
    then show "evolves w (snd (client_response_task (Some parse) (process_for_status env fragments name) st ref name code w))"
      using spryng.task_evolves step by blast
  qed
qed

lemma messagebox_response_evolves: "evolves w (snd (process_messagebox_client_response env st ref name code w))"
  unfolding process_messagebox_client_response_def
  by (rule messagebox.task_evolves) (rule process_messagebox_evolves)

lemma handle_complaint_keeps: "w_notifications (snd (handle_complaint env parse_iso m w)) = w_notifications w"
  by (auto simp: handle_complaint_def save_complaint_def create_uuid_def Let_def
      split: sum.split option.split list.split)

lemma complaint_callback_keeps:
  "w_notifications (snd (check_and_queue_complaint_callback_task c row x w)) = w_notifications w"
  by (simp add: check_and_queue_complaint_callback_task_def enqueue_def split: option.split sum.split)

lemma ses_set_status_evolves:
  assumes "dao_get_notification_or_history_by_reference ref w = Inr row" "row_status row \<in> {Sending, Pending}"
    and "s \<in> set reported_statuses" "distinct_rows n_id (w_notifications w)"
  shows "evolves w (ses_set_status ref s w)"
proof (cases row)
  case (Inl n)
  have f: "filter (\<lambda>n. n_reference n = Some ref) (w_notifications w) = [n]"
    using assms(1) Inl by (simp add: reference_live)
  then have "n \<in> set (filter (\<lambda>n. n_reference n = Some ref) (w_notifications w))" by simp
  then have n: "find_row n_id (n_id n) (w_notifications w) = Some n"
    using find_row_eqI [OF assms(4)] by simp
  have "n_status n \<in> set updatable_statuses"
    using assms(2) Inl by (auto simp: row_status_def updatable_statuses_def)
  then have "life_step (n_status n) s" using assms(3) by (rule life_step.reported)
  then show ?thesis
    unfolding ses_set_status_live [OF assms(4,1) [unfolded Inl]]
    by (intro evolves_save [where n = n]) (simp_all add: n)
next
  case (Inr h)
  have "w_notifications (ses_set_status ref s w) = w_notifications w"
    unfolding ses_set_status_archived [OF assms(1) [unfolded Inr]] by simp
  then show ?thesis by (rule evolves_same)
qed

lemma ses_results_evolves:
  assumes "distinct_rows n_id (w_notifications w)"
  shows "evolves w (snd (process_ses_results env retries parse_iso response w))"
proof -
  have body: "snd (process_ses_results env retries parse_iso response w) =
      snd (ses_results_body env retries parse_iso response w)"
    by (auto simp: process_ses_results_def split: prod.split sum.split exn.split task_exn.split)
  have "evolves w (snd (ses_results_body env retries parse_iso response w))"
  proof (cases "res_bind (dict_item ''Message'' response) (\<lambda>m.
             res_bind (dict_item ''notificationType'' (sm_type m)) (\<lambda>t. Inr (m, t)))")
    case (Inl e)
    then show ?thesis by (simp add: ses_results_body_def)
  next
    case (Inr mt)
    obtain m t where mt: "mt = (m, t)" by (cases mt)
    show ?thesis
    proof (cases "t = ''Complaint''")
      case True
      have "w_notifications (snd (ses_results_body env retries parse_iso response w)) = w_notifications w"
        unfolding ses_results_body_def Inr mt sum.case prod.case if_P [OF True]
        using handle_complaint_keeps [of env parse_iso m w] complaint_callback_keeps
        by (auto split: prod.split sum.split option.split) (metis snd_conv)+
      then show ?thesis by (rule evolves_same)
    next
      case False
      let ?p = "res_bind (if t = ''Bounce'' then determine_notification_bounce_type m else Inr t)
                    (\<lambda>nt. res_bind (get_aws_responses nt) (\<lambda>r.
                          res_bind (dict_item ''mail'' (sm_mail m)) (\<lambda>mail.
                          res_bind (dict_item ''messageId'' (mail_message_id mail)) (\<lambda>ref.
                            Inr (ses_notification_status r, mail, ref)))))"
      show ?thesis
      proof (cases ?p)
        case (Inl e)
        then show ?thesis unfolding ses_results_body_def Inr mt sum.case prod.case if_not_P [OF False] by simp
      next
        case p: (Inr x)
        obtain status mail ref where x: "x = (status, mail, ref)" by (cases x)
        have s: "status \<in> set reported_statuses"
          using p get_aws_responses_status unfolding x
          by (force simp: res_bind_Inr_iff callback_statuses_def reported_statuses_def)
        note run = ses_results_body_def Inr mt sum.case prod.case if_not_P [OF False] p x
        show ?thesis
        proof (cases "dao_get_notification_or_history_by_reference ref w")
          case (Inl e)
          then show ?thesis unfolding run by simp
        next
          case row: (Inr row)
          show ?thesis
          proof (cases "row_status row \<in> {Sending, Pending}")
            case False
            then show ?thesis unfolding run row by simp
          next
            case True
            note m = ses_set_status_evolves [OF row True s assms]
            have "w_notifications (snd (ses_results_body env retries parse_iso response w)) =
                w_notifications (ses_set_status ref status w)"
              unfolding run row Let_def using True
                check_and_queue_keeps [of "reread row (ses_set_status ref status w)" "ses_set_status ref status w"]
              by (auto split: prod.split sum.split)
            then show ?thesis by (rule evolves_trans [OF m evolves_same])
          qed
        qed
      qed
    qed
  qed
  then show ?thesis unfolding body .
qed

lemma timeout_evolves:
  assumes "distinct_rows n_id (w_notifications w)"
  shows "evolves w (snd (dao_timeout_notifications cutoff k w))"
proof -
  define hits where "hits = take k (filter (\<lambda>n. n_created_at n < cutoff
      \<and> n_status n \<in> {Sending, Pending} \<and> n_type n \<in> {Sms, Email}) (w_notifications w))"
  have h: "n \<in> set (w_notifications w)" "n_status n \<in> {Sending, Pending}" if "n \<in> set hits" for n
    using that set_take_subset unfolding hits_def by fastforce+
  show ?thesis
  proof (rule evolves_update)
    show "w_notifications (snd (dao_timeout_notifications cutoff k w)) =
        update_rows (\<lambda>n. n_id n \<in> set (map n_id hits))
          (\<lambda>n. n\<lparr>n_status := TemporaryFailure, n_updated_at := Some (w_now w)\<rparr>) (w_notifications w)"
      by (simp add: dao_timeout_notifications_def Let_def hits_def)
  next
    fix i n
    assume n: "find_row n_id i (w_notifications w) = Some n" "n_id n \<in> set (map n_id hits)"
    then obtain n' where n': "n' \<in> set hits" "n_id n' = n_id n" by auto
    have "n = n'"
      using row_unique [OF assms _ h(1) [OF n'(1)]] find_row_SomeD [OF n(1)] n'(2) by metis
    then have "n_status n \<in> set updatable_statuses" using h(2) [OF n'(1)] by (auto simp: updatable_statuses_def)
    then have "life_step (n_status n) TemporaryFailure"
      by (rule life_step.reported) (simp add: reported_statuses_def)
    then show "life_step\<^sup>*\<^sup>* (n_status n)
        (n_status (n\<lparr>n_status := TemporaryFailure, n_updated_at := Some (w_now w)\<rparr>))" by simp
  qed simp
qed

section \<open>Delivery\<close>

lemma to_sending_evolves:
  assumes "find_row n_id (n_id n) (w_notifications w) = Some n" "n_status n = Created"
    and "\<And>r. shape (f r) = shape r" "\<And>r. n_status (f r) = n_status r"
  shows "evolves w (update_notification_to_sending n f name w)"
proof (rule evolves_update)
  show "w_notifications (update_notification_to_sending n f name w) =
      update_rows (\<lambda>r. n_id r = n_id n)
         (\<lambda>r. let r1 = f r
              in r1\<lparr>n_sent_at := Some (w_now w), n_sent_by := Some name,
                    n_status := (if sending_status n = n_status n then n_status r1 else sending_status n),
                    n_updated_at := Some (w_now w)\<rparr>) (w_notifications w)"
    by (simp add: update_notification_to_sending_def)
next
  fix i r
  assume "find_row n_id i (w_notifications w) = Some r" "n_id r = n_id n"
  then have "r = n" using assms(1) find_row_SomeD by (metis option.inject)
  then show "life_step\<^sup>*\<^sup>* (n_status r) (n_status (let r1 = f r
      in r1\<lparr>n_sent_at := Some (w_now w), n_sent_by := Some name,
            n_status := (if sending_status n = n_status n then n_status r1 else sending_status n),
            n_updated_at := Some (w_now w)\<rparr>))"
    using assms(2) created_goes_to_sending [OF assms(2)] life_step.sent
    by (auto simp: Let_def intro!: r_into_rtranclp life_step.sent)
qed (use assms(3) in \<open>simp_all add: Let_def\<close>)

lemma make_request_keeps: "w_notifications (snd (make_request provider form w)) = w_notifications w"
  by (auto simp: make_request_def process_mmg_response_def process_firetext_response_def Let_def enqueue_def
      split: prod.split sum.split)

lemma send_sms_response_keeps: "w_notifications (snd (send_sms_response p ref to w)) = w_notifications w"
  by (auto simp: send_sms_response_def Let_def op_bind_def make_request_keeps split: prod.split sum.split)
    (metis make_request_keeps snd_conv)+

lemma reduce_keeps_notifications: "w_notifications (snd (dao_reduce_sms_provider_priority name t w)) = w_notifications w"
  by (auto simp: dao_reduce_sms_provider_priority_def autocommit_def Let_def adjust_provider_priority_def
      update_provider_details_without_commit_def split: prod.split sum.split)

lemma sms_failed_evolves: "evolves w (snd (sms_send_failed env n k provider e w))"
proof -
  define v where "v = w\<lparr>w_notifications := update_rows (\<lambda>r. n_id r = n_id n)
      (\<lambda>r. r\<lparr>n_billable_units := k, n_updated_at := Some (w_now w)\<rparr>) (w_notifications w)\<rparr>"
  have "evolves w v"
    by (rule evolves_update [where p = "\<lambda>r. n_id r = n_id n" and
          f = "\<lambda>r. r\<lparr>n_billable_units := k, n_updated_at := Some (w_now w)\<rparr>"]) (simp_all add: v_def)
  moreover have "w_notifications (snd (sms_send_failed env n k provider e w)) = w_notifications v"
  proof (cases provider)
    case None
    then show ?thesis by (simp add: sms_send_failed_def with_sms_client_def v_def)
  next
    case (Some name)
    obtain r u where "dao_reduce_sms_provider_priority name (minutes 1) v = (r, u)"
      by (cases "dao_reduce_sms_provider_priority name (minutes 1) v")
    moreover have "w_notifications (snd (dao_reduce_sms_provider_priority name (minutes 1) v)) = w_notifications v"
      by (rule reduce_keeps_notifications)
    ultimately show ?thesis
      unfolding sms_send_failed_def Let_def v_def [symmetric] Some with_sms_client_def option.case
      by (cases r) simp_all
  qed
  ultimately show ?thesis using evolves_trans evolves_same by blast
qed

definition of_active_service :: "uuid \<Rightarrow> world \<Rightarrow> bool" where
  "of_active_service i w \<longleftrightarrow> (\<forall>n s. find_row n_id i (w_notifications w) = Some n \<longrightarrow>
     service_by_id (n_service_id n) w = Inr s \<longrightarrow> svc_active s)"

lemma send_sms_evolves:
  assumes "find_row n_id (n_id n) (w_notifications w) = Some n" "of_active_service (n_id n) w" "out_meanwhile io = id"
  shows "evolves w (snd (send_sms_to_provider env io n w))"
proof (cases "service_by_id (n_service_id n) w")
  case (Inl e)
  then show ?thesis by (simp add: send_sms_to_provider_def)
next
  case (Inr s)
  have active: "svc_active s" using assms(1,2) Inr unfolding of_active_service_def by blast
  show ?thesis
  proof (cases "n_status n = Created")
    case False
    then show ?thesis using Inr active by (simp add: send_sms_to_provider_def)
  next
    case True
    have real: "evolves w (snd (send_sms_with env io n k provider w))" for k provider
    proof -
      have sent: "evolves w (update_notification_to_sending n (\<lambda>r. r\<lparr>n_billable_units := k\<rparr>) name w)" for name
        by (rule to_sending_evolves [OF assms(1) True]) simp_all
      have test: "evolves w (update_notification_to_sending n id name w)" for name
        by (rule to_sending_evolves [OF assms(1) True]) simp_all
      have test2: "evolves w (snd (send_sms_response p ref to (update_notification_to_sending n id name w)))"
        for p ref to name
        by (rule evolves_trans [OF test evolves_same]) (rule send_sms_response_keeps)
      show ?thesis
        using sent test2 sms_failed_evolves assms(3)
        by (auto simp: send_sms_with_def with_sms_client_def split: option.split sum.split)
    qed
    then show ?thesis
      unfolding send_sms_to_provider_def Inr using active True
      by (auto split: sum.split)
  qed
qed

lemma send_email_evolves:
  assumes "find_row n_id (n_id n) (w_notifications w) = Some n" "of_active_service (n_id n) w"
  shows "evolves w (snd (send_email_to_provider env io n w))"
proof (cases "service_by_id (n_service_id n) w")
  case (Inl e)
  then show ?thesis by (simp add: send_email_to_provider_def)
next
  case (Inr s)
  have active: "svc_active s" using assms(1,2) Inr unfolding of_active_service_def by blast
  show ?thesis
  proof (cases "n_status n = Created")
    case False
    then show ?thesis using Inr active by (simp add: send_email_to_provider_def)
  next
    case True
    have sent: "evolves w (update_notification_to_sending n (\<lambda>r. r\<lparr>n_reference := x\<rparr>) name w)" for name x
      by (rule to_sending_evolves [OF assms(1) True]) simp_all
    have test: "evolves w (send_email_response a b (update_notification_to_sending n (\<lambda>r. r\<lparr>n_reference := x\<rparr>) name
        (snd (create_uuid env w))))" for a b x name
    proof -
      have "w_notifications (send_email_response a b (update_notification_to_sending n
          (\<lambda>r. r\<lparr>n_reference := x\<rparr>) name (snd (create_uuid env w)))) =
          w_notifications (update_notification_to_sending n (\<lambda>r. r\<lparr>n_reference := x\<rparr>) name w)"
        by (simp add: send_email_response_def enqueue_def update_notification_to_sending_def create_uuid_def)
      then show ?thesis by (rule evolves_trans [OF sent evolves_same])
    qed
    show ?thesis
      unfolding send_email_to_provider_def Inr using active True sent test
      by (auto simp: with_sms_client_def case_prod_beta Let_def split: sum.split option.split)
  qed
qed

lemma retry_evolves: "evolves w (snd (retry_or_give_up env retries limit i m w))"
proof -
  obtain r w1 where u: "update_notification_status_by_id env i TechnicalFailure None None w = (r, w1)"
    by (cases "update_notification_status_by_id env i TechnicalFailure None None w")
  have "evolves w w1" by (rule update_by_id_evolves [OF u]) (simp add: reported_statuses_def)
  moreover have "snd (retry_or_give_up env retries limit i m w) \<in> {w, w1}"
    using u by (auto simp: retry_or_give_up_def give_up_def split: exn.split task_exn.split sum.split)
  ultimately show ?thesis by auto
qed

lemma with_notification_evolves:
  assumes "\<And>n. find_row n_id (n_id n) (w_notifications w) = Some n \<Longrightarrow> n_id n = i \<Longrightarrow> evolves w (snd (f n w))"
  shows "evolves w (snd (with_notification i f w))"
  using assms find_row_SomeD [of n_id i "w_notifications w"]
  by (auto simp: with_notification_def get_by_id split: option.split)

lemma deliver_sms_evolves:
  assumes "of_active_service i w" "out_meanwhile io = id"
  shows "evolves w (snd (deliver_sms env io retries i w))"
proof -
  have m: "evolves w (snd (with_notification i (send_sms_to_provider env io) w))"
    by (rule with_notification_evolves) (use assms send_sms_evolves in blast)
  obtain r w1 where run: "with_notification i (send_sms_to_provider env io) w = (r, w1)"
    by (cases "with_notification i (send_sms_to_provider env io) w")
  then show ?thesis
    using m evolves_trans [OF _ retry_evolves] by (cases r) (simp_all add: deliver_sms_def)
qed

lemma deliver_email_evolves:
  assumes "of_active_service i w"
  shows "evolves w (snd (deliver_email env io retries i w))"
proof -
  have m: "evolves w (snd (with_notification i (send_email_to_provider env io) w))"
    by (rule with_notification_evolves) (use assms send_email_evolves in blast)
  obtain r w1 where run: "with_notification i (send_email_to_provider env io) w = (r, w1)"
    by (cases "with_notification i (send_email_to_provider env io) w")
  obtain r2 w2 where u: "update_notification_status_by_id env i TechnicalFailure None None w1 = (r2, w2)"
    by (cases "update_notification_status_by_id env i TechnicalFailure None None w1")
  have t: "evolves w1 w2" by (rule update_by_id_evolves [OF u]) (simp add: reported_statuses_def)
  have m1: "evolves w w1" using m run by simp
  show ?thesis
  proof (cases r)
    case (Inr x)
    then show ?thesis using run m1 by (simp add: deliver_email_def)
  next
    case (Inl e)
    have "snd (deliver_email env io retries i w) = w2
        \<or> (\<exists>limit msg. snd (deliver_email env io retries i w) = snd (retry_or_give_up env retries limit i msg w1 :: unit result \<times> world))"
      using run u unfolding Inl deliver_email_def
      by (cases r2) (auto simp: op_return_def split: exn.split client_exn.split)
    then show ?thesis using evolves_trans [OF m1 t] evolves_trans [OF m1 retry_evolves] by auto
  qed
qed

section \<open>New notifications\<close>

definition start_statuses :: "nstatus list" where
  "start_statuses = [Created, ValidationFailed]"

definition grown :: "notification list \<Rightarrow> 'a result \<times> world \<Rightarrow> bool" where
  \<comment> \<open>at most one row more, which the constraints of the table allow\<close>
  "grown ns o1 \<longleftrightarrow> w_notifications (snd o1) = ns
     \<or> (\<exists>n. w_notifications (snd o1) = ns @ [n] \<and> \<not> insert_refused n ns \<and> n_status n \<in> set start_statuses)"

lemma grown_same: "w_notifications (snd o1) = ns \<Longrightarrow> grown ns o1"
  by (simp add: grown_def)

lemma grown_read:
  "w_notifications w = ns \<Longrightarrow> (\<And>x. g w = Inr x \<Longrightarrow> grown ns (f x w)) \<Longrightarrow> grown ns (op_bind (\<lambda>w. (g w, w)) f w)"
  by (cases "g w") (simp_all add: grown_def op_bind_def)

lemma grown_pair_read:
  "w_notifications w = ns \<Longrightarrow> (\<And>a b. g w = Inr (a, b) \<Longrightarrow> grown ns (f a b w)) \<Longrightarrow>
   grown ns (op_bind (\<lambda>w. (g w, w)) (\<lambda>(a, b). f a b) w)"
  by (rule grown_read) auto

lemma grown_persist:
  assumes "w_notifications w = ns" "pn_status a \<in> set start_statuses"
    and "\<And>n v. w_notifications (snd (f n v)) = w_notifications v"
  shows "grown ns (op_bind (persist_notification env lib s a) f w)"
proof (cases "persist_notification env lib s a w")
  case (Pair r v)
  have after: "w_notifications (snd (op_bind (persist_notification env lib s a) f w)) = w_notifications v"
    using Pair assms(3) by (cases r) (simp_all add: op_bind_def)
  from Pair show ?thesis
  proof (cases rule: persist_notification_cases)
    case (3 n i)
    have "n_status n \<in> set start_statuses"
      using set_recipient_keeps(2) [OF 3(8)] assms(2) by (simp add: new_notification_def)
    then show ?thesis unfolding grown_def after using 3(4,11) assms(1) by auto
  qed (use after assms(1) in \<open>simp_all add: grown_same\<close>)
qed

lemma grown_catch: "grown ns (m v) \<Longrightarrow> grown ns (catch_database_error env k i m v)"
proof -
  have "snd (handle_exception env k i e w) = w" for e w
    by (simp add: handle_exception_def split: option.split exn.split task_exn.split)
  then show "grown ns (m v) \<Longrightarrow> grown ns (catch_database_error env k i m v)"
    by (auto simp: catch_database_error_def grown_def split: prod.split sum.split exn.split)
qed

lemma apply_async_keeps [simp]: "w_notifications (snd (apply_async lib q t w)) = w_notifications w"
  by (simp add: apply_async_def enqueue_def split: option.split)

lemma row_call_status [simp]: "pn_status (row_call x r t now reply) = Created"
  by (simp add: row_call_def persist_call_def Let_def)

lemma save_sms_grows: "grown (w_notifications w) (save_sms env lib k x w)"
  unfolding save_sms_def
proof (rule grown_pair_read [OF refl], intro grown_read refl)
  fix s st reply allowed
  let ?v = "validate_and_format_recipient env lib (Some (jr_to (jt_data x))) NormalKey s Sms True False w"
  obtain r v where v: "?v = (r, v)" by (cases "?v")
  have same: "w_notifications v = w_notifications w"
    using idle_recipient [of env lib "Some (jr_to (jt_data x))" NormalKey s Sms True False, unfolded idle_def,
        THEN spec, of w] unfolding v snd_conv by blast
  have err: "grown (w_notifications w) (Inl e, v)" for e by (rule grown_same) (simp add: same)
  have skip: "grown (w_notifications w) (Inr (), w)" by (rule grown_same) simp
  show "grown (w_notifications w)
     (if \<not> allowed then (Inr (), w) else
        (case ?v of
           (Inl (Recipient (InvalidPhoneError c)), w1) \<Rightarrow>
              catch_database_error env k (jt_notification_id x)
                (op_bind (persist_notification env lib s
                    ((row_call x (PhoneData (invalid_number_data (jr_to (jt_data x)))) Sms (w_now w1) reply)
                     \<lparr>pn_status := ValidationFailed, pn_billable_units := Some 0,
                      pn_updated_at := Some (w_now w1)\<rparr>)) (\<lambda>_. op_return ())) w1
          | (Inl e, w1) \<Rightarrow> (Inl e, w1)
          | (Inr recipient, w1) \<Rightarrow>
              catch_database_error env k (jt_notification_id x)
                (op_bind (persist_notification env lib s (row_call x recipient Sms (w_now w1) reply))
                   (\<lambda>n. apply_async lib SEND_SMS (TDeliverSms (n_id n)))) w1))"
    unfolding v
    by (auto intro!: grown_catch grown_persist [OF same] err skip
        simp: op_return_def start_statuses_def split: sum.split exn.split recipient_exn.split)
qed

lemma save_email_grows: "grown (w_notifications w) (save_email env lib k x w)"
  unfolding save_email_def
proof (rule grown_pair_read [OF refl], intro grown_read refl)
  fix s st reply allowed
  have skip: "grown (w_notifications w) (Inr (), w)" by (rule grown_same) simp
  show "grown (w_notifications w)
     (if \<not> allowed then (Inr (), w)
      else catch_database_error env k (jt_notification_id x)
           (op_bind (persist_notification env lib s
               (row_call x (TextData (jr_to (jt_data x))) Email (w_now w) reply))
              (\<lambda>n. apply_async lib SEND_EMAIL (TDeliverEmail (n_id n)))) w)"
    using skip by (auto intro!: grown_catch grown_persist simp: start_statuses_def)
qed

lemma save_letter_grows: "grown (w_notifications w) (save_letter env lib k x w)"
  unfolding save_letter_def Let_def
  by (rule grown_pair_read [OF refl], rule grown_catch, rule grown_persist)
    (simp_all add: start_statuses_def)

lemma post_grows:
  assumes "t \<in> {Sms, Email}"
  shows "grown (w_notifications w) (post_notification env lib s key req (ntype_name t) w)"
  using post_settled [OF assms, of w env s key lib req]
  by (cases "post_notification env lib s key req (ntype_name t) w")
    (auto simp: settled_def grown_def accepted_message_def start_statuses_def split: sum.splits)

section \<open>The system\<close>

inductive message_step :: "env \<Rightarrow> api_lib \<Rightarrow> world \<Rightarrow> world \<Rightarrow> bool" for env lib where
  accept: "t \<in> {Sms, Email} \<Longrightarrow>
    message_step env lib w (snd (post_notification env lib s key req (ntype_name t) w))"
| save_row: "save \<in> {save_sms env lib k, save_email env lib k, save_letter env lib k} \<Longrightarrow>
    message_step env lib w (snd (save x w))"
| deliver_sms: "of_active_service i w \<Longrightarrow> out_meanwhile io = id \<Longrightarrow>
    message_step env lib w (snd (deliver_sms env io retries i w))"
| deliver_email: "of_active_service i w \<Longrightarrow>
    message_step env lib w (snd (deliver_email env io retries i w))"
| sms_receipt: "message_step env lib w (snd (process_sms_client_response env fragments st ref name code w))"
| messagebox_receipt: "message_step env lib w (snd (process_messagebox_client_response env st ref name code w))"
| email_receipt: "message_step env lib w (snd (process_ses_results env retries parse_iso response w))"
| time_out: "message_step env lib w (snd (dao_timeout_notifications cutoff limit w))"

inductive_cases message_stepE: "message_step env lib w w'"

definition table_ok :: "world \<Rightarrow> bool" where
  \<comment> \<open>the constraints of the table \<open>notifications\<close>\<close>
  "table_ok w \<longleftrightarrow> distinct_rows n_id (w_notifications w)
     \<and> list_all notification_row_ok (w_notifications w) \<and> distinct_job_rows (w_notifications w)"

definition adds :: "world \<Rightarrow> world \<Rightarrow> notification \<Rightarrow> bool" where
  "adds w w' n \<longleftrightarrow> w_notifications w' = w_notifications w @ [n]
     \<and> \<not> insert_refused n (w_notifications w) \<and> n_status n \<in> set start_statuses"

lemma grown_adds: "grown (w_notifications w) o1 \<Longrightarrow> evolves w (snd o1) \<or> (\<exists>n. adds w (snd o1) n)"
  using evolves_same by (auto simp: grown_def adds_def)

lemma message_step_effect:
  assumes "message_step env lib w w'" "distinct_rows n_id (w_notifications w)"
  shows "evolves w w' \<or> (\<exists>n. adds w w' n)"
  using assms(1)
proof (cases rule: message_step.cases)
  case (accept t s key req)
  then show ?thesis using grown_adds [OF post_grows [OF accept(2)]] by blast
next
  case (save_row save k x)
  have "grown (w_notifications w) (save x w)"
    using save_row(2) save_sms_grows save_email_grows save_letter_grows by auto
  then show ?thesis using grown_adds save_row(1) by blast
next
  case (deliver_sms i io retries)
  then show ?thesis using deliver_sms_evolves by blast
next
  case (deliver_email i io retries)
  then show ?thesis using deliver_email_evolves by blast
next
  case (sms_receipt fragments st ref name code)
  then show ?thesis using sms_response_evolves by blast
next
  case (messagebox_receipt st ref name code)
  then show ?thesis using messagebox_response_evolves by blast
next
  case (email_receipt retries parse_iso response)
  then show ?thesis using ses_results_evolves [OF assms(2)] by blast
next
  case (time_out cutoff limit)
  then show ?thesis using timeout_evolves [OF assms(2)] by blast
qed

lemma adds_status_map:
  assumes "adds w w' n"
  shows "status_map w (n_id n) = None" "status_map w' = (status_map w)(n_id n \<mapsto> n_status n)"
proof -
  have none: "find_row n_id (n_id n) (w_notifications w) = None"
    using assms by (simp add: adds_def insert_refused_def find_row_None_iff)
  then show "status_map w (n_id n) = None" by (simp add: status_map_def)
  show "status_map w' = (status_map w)(n_id n \<mapsto> n_status n)"
    using none assms
    by (auto simp: status_map_def adds_def find_row_append find_row_Cons fun_eq_iff split: option.split)
qed

lemma shape_table_ok:
  assumes "map shape (w_notifications w') = map shape (w_notifications w)" "table_ok w"
  shows "table_ok w'"
proof -
  have m: "map f (w_notifications w') = map f (w_notifications w)" if "\<And>x. f x = g (shape x)" for f :: "notification \<Rightarrow> 'b" and g
  proof -
    have "map f ns = map g (map shape ns)" for ns using that by simp
    then show ?thesis using assms(1) by metis
  qed
  have "map n_id (w_notifications w') = map n_id (w_notifications w)"
    by (rule m [of _ fst]) simp
  moreover have "map notification_row_ok (w_notifications w') = map notification_row_ok (w_notifications w)"
    by (rule m [of _ "\<lambda>(i, t, j, r, u). t = Email \<or> u = None"]) (simp add: notification_row_ok_def)
  then have "list_all notification_row_ok (w_notifications w') = list_all notification_row_ok (w_notifications w)"
  proof -
    assume same: "map notification_row_ok (w_notifications w') = map notification_row_ok (w_notifications w)"
    have "list_all notification_row_ok ns = list_all (\<lambda>b. b) (map notification_row_ok ns)" for ns
      by (simp add: list_all_iff)
    then show ?thesis using same by metis
  qed
  moreover have "map job_row (w_notifications w') = map job_row (w_notifications w)"
    by (rule m [of _ "\<lambda>(i, t, j, r, u). case (j, r) of (Some j, Some r) \<Rightarrow> Some (j, r) | _ \<Rightarrow> None"])
      (simp add: job_row_def)
  ultimately show ?thesis
    using assms(2) unfolding table_ok_def distinct_rows_def distinct_job_rows_def by simp
qed

lemma adds_table_ok:
  assumes "adds w w' n" "table_ok w"
  shows "table_ok w'"
proof -
  have n: "w_notifications w' = w_notifications w @ [n]" "n_id n \<notin> n_id ` set (w_notifications w)"
    "notification_row_ok n" "job_row n = None \<or> job_row n \<notin> job_row ` set (w_notifications w)"
    using assms(1) by (auto simp: adds_def insert_refused_def)
  show ?thesis
    using assms(2) n(2-4) unfolding table_ok_def n(1) distinct_rows_def distinct_job_rows_def by auto
qed

lemma step_table_ok:
  assumes "message_step env lib w w'" "table_ok w"
  shows "table_ok w'"
proof -
  have "distinct_rows n_id (w_notifications w)" using assms(2) by (simp add: table_ok_def)
  from message_step_effect [OF assms(1) this] show ?thesis
    using adds_table_ok [OF _ assms(2)] shape_table_ok [OF _ assms(2)] unfolding evolves_def by blast
qed

lemma run_table_ok: "(message_step env lib)\<^sup>*\<^sup>* w w' \<Longrightarrow> table_ok w \<Longrightarrow> table_ok w'"
  by (induction rule: rtranclp_induct) (auto intro: step_table_ok)

lemma run_moves:
  assumes "(message_step env lib)\<^sup>*\<^sup>* w w'" "table_ok w" "status_map w i = Some s"
  shows "\<exists>s'. status_map w' i = Some s' \<and> life_step\<^sup>*\<^sup>* s s'"
  using assms(1)
proof (induction rule: rtranclp_induct)
  case base
  then show ?case using assms(3) by simp
next
  case (step v v')
  then obtain s1 where s1: "status_map v i = Some s1" "life_step\<^sup>*\<^sup>* s s1" by blast
  have "distinct_rows n_id (w_notifications v)"
    using run_table_ok [OF step(1) assms(2)] by (simp add: table_ok_def)
  from message_step_effect [OF step(2) this] show ?case
  proof
    assume "evolves v v'"
    then have "rel_option life_step\<^sup>*\<^sup>* (Some s1) (status_map v' i)"
      unfolding evolves_def moves_on_def using s1(1) by metis
    then show ?thesis using s1(2) by (auto simp: option_rel_Some1 intro: rtranclp_trans)
  next
    assume "\<exists>n. adds v v' n"
    then obtain n where "adds v v' n" by blast
    then show ?thesis using adds_status_map s1 by (metis fun_upd_apply option.distinct(1))
  qed
qed

section \<open>Properties\<close>

definition sent_sms :: notification where
  "sent_sms = sample_notification\<lparr>n_status := Sending\<rparr>"

definition sent_world :: world where
  "sent_world = sample_world\<lparr>w_now := 200000000000, w_notifications := [sent_sms]\<rparr>"

lemma sent_world_ok: "table_ok sent_world"
  by (simp add: table_ok_def sent_world_def sent_sms_def distinct_rows_def notification_row_ok_def
      distinct_job_rows_def job_row_def sample_notification_def)









end
