(* ===== verification/Folders.thy ===== *)
theory Folders
  imports Delivery
begin

text \<open>
  Template folders: \<^verbatim>\<open>app/template_folder/rest.py\<close>, \<^verbatim>\<open>app/dao/template_folder_dao.py\<close>,
  \<^verbatim>\<open>app/dao/service_user_dao.py\<close> and the methods of \<open>TemplateFolder\<close>. Ids in a path arrive as
  UUIDs; ids in a JSON body stay the text the client sent, which a query reads as a UUID and
  \<open>str\<close> comparisons do not. The walk up the folders may not end, so an operation that does it
  returns an option; the theorems show that it ends while the folders form a forest, that every
  request keeps them one, and which spelling of an id escapes the check.
\<close>

section \<open>UUIDs as text\<close>

definition canonical_uuid :: "string \<Rightarrow> bool" where
  \<comment> \<open>the text is how \<open>str\<close> writes the UUID it reads as\<close>
  "canonical_uuid s \<longleftrightarrow> (case parse_uuid s of None \<Rightarrow> True | Some n \<Rightarrow> s = uuid_str n)"

section \<open>Users of a service\<close>

definition dao_get_service_user :: "uuid \<Rightarrow> uuid \<Rightarrow> world \<Rightarrow> (uuid \<times> uuid) result" where
  "dao_get_service_user user_id service_id w =
     query_one (Db NoResultFound) (Db MultipleResultsFound)
       (\<lambda>r. fst r = user_id \<and> snd r = service_id) (w_user_services w)"

definition dao_get_active_service_users :: "uuid \<Rightarrow> world \<Rightarrow> (uuid \<times> uuid) list" where
  "dao_get_active_service_users service_id w =
     filter (\<lambda>r. snd r = service_id
                 \<and> (case find_row u_id (fst r) (w_users w) of
                      None \<Rightarrow> False | Some u \<Rightarrow> u_state u = ''active''))
       (w_user_services w)"

definition dao_get_service_users_by_user_id :: "uuid \<Rightarrow> world \<Rightarrow> (uuid \<times> uuid) list" where
  "dao_get_service_users_by_user_id user_id w = filter (\<lambda>r. fst r = user_id) (w_user_services w)"

section \<open>The rows\<close>

definition dao_get_template_folder_by_id_and_service_id ::
  "uuid \<Rightarrow> uuid \<Rightarrow> world \<Rightarrow> template_folder result" where
  "dao_get_template_folder_by_id_and_service_id i service_id w =
     query_one (Db NoResultFound) (Db MultipleResultsFound)
       (\<lambda>f. tf_id f = i \<and> tf_service_id f = service_id) (w_folders w)"

definition dao_get_valid_template_folders_by_id :: "uuid list \<Rightarrow> world \<Rightarrow> template_folder list" where
  "dao_get_valid_template_folders_by_id ids w = filter (\<lambda>f. tf_id f \<in> set ids) (w_folders w)"

definition dao_create_template_folder :: "template_folder \<Rightarrow> unit op" where
  \<comment> \<open>an insert: the service it refers to has to exist\<close>
  "dao_create_template_folder f =
     autocommit (\<lambda>w.
       if tf_service_id f \<in> svc_id ` set (w_services w) \<and> tf_id f \<notin> tf_id ` set (w_folders w)
       then (Inr (), w\<lparr>w_folders := w_folders w @ [f]\<rparr>)
       else (Inl (Db OtherSQLAlchemyError), w))"

definition dao_update_template_folder :: "template_folder \<Rightarrow> world \<Rightarrow> world" where
  "dao_update_template_folder f w = w\<lparr>w_folders := save_row tf_id f (w_folders w)\<rparr>"

definition dao_delete_template_folder :: "template_folder \<Rightarrow> world \<Rightarrow> world" where
  "dao_delete_template_folder f w =
     w\<lparr>w_folders := delete_rows (\<lambda>r. tf_id r = tf_id f) (w_folders w)\<rparr>"

definition folder_parent :: "template_folder list \<Rightarrow> template_folder \<Rightarrow> template_folder option" where
  \<comment> \<open>the relationship \<open>parent\<close>\<close>
  "folder_parent rows f =
     (case tf_parent_id f of None \<Rightarrow> None | Some i \<Rightarrow> find_row tf_id i rows)"

definition folder_subfolders :: "template_folder list \<Rightarrow> template_folder \<Rightarrow> template_folder list" where
  "folder_subfolders rows f = filter (\<lambda>r. tf_parent_id r = Some (tf_id f)) rows"

definition folder_templates :: "template_folder \<Rightarrow> world \<Rightarrow> template list" where
  "folder_templates f w = filter (\<lambda>t. t_folder t = Some (tf_id f)) (w_templates w)"

partial_function (option) is_parent_of ::
  "template_folder list \<Rightarrow> template_folder \<Rightarrow> template_folder \<Rightarrow> bool option" where
  "is_parent_of rows self other =
     (case folder_parent rows other of
        None \<Rightarrow> Some False
      | Some p \<Rightarrow> if tf_id p = tf_id self then Some True else is_parent_of rows self p)"

record serialized_folder =
  sf_id :: uuid
  sf_name :: string
  sf_parent_id :: "uuid option"
  sf_service_id :: uuid
  sf_users_with_permission :: "string list"

definition get_users_with_permission :: "template_folder \<Rightarrow> string list" where
  "get_users_with_permission f = map uuid_str (tf_users f)"

definition serialize_folder :: "template_folder \<Rightarrow> serialized_folder" where
  "serialize_folder f =
     \<lparr>sf_id = tf_id f, sf_name = tf_name f, sf_parent_id = tf_parent_id f,
      sf_service_id = tf_service_id f, sf_users_with_permission = get_users_with_permission f\<rparr>"

section \<open>The endpoints\<close>

definition uuid_schema_ok :: "string \<Rightarrow> bool" where
  "uuid_schema_ok s \<longleftrightarrow> parse_uuid s \<noteq> None"

definition invalid_uuid_exn :: exn where
  "invalid_uuid_exn = JsonSchemaValidationError ''is not a valid UUID''"

definition get_template_folders_for_service :: "uuid \<Rightarrow> world \<Rightarrow> serialized_folder list result" where
  "get_template_folders_for_service service_id w =
     res_bind (service_by_id service_id w) (\<lambda>s.
       Inr (map serialize_folder (filter (\<lambda>f. tf_service_id f = svc_id s) (w_folders w))))"

definition py_strip :: "string \<Rightarrow> string" where
  "py_strip s = rev (dropWhile py_is_space (rev (dropWhile py_is_space s)))"

definition folder_users_on_creation :: "uuid option \<Rightarrow> uuid \<Rightarrow> world \<Rightarrow> uuid list result" where
  "folder_users_on_creation parent service_id w =
     (case parent of
        Some p \<Rightarrow>
          (case dao_get_template_folder_by_id_and_service_id p service_id w of
             Inl (Db NoResultFound) \<Rightarrow> Inl (invalid_request ''parent_id not found'' 400)
           | Inl e \<Rightarrow> Inl e
           | Inr f \<Rightarrow> Inr (tf_users f))
      | None \<Rightarrow> Inr (map fst (dao_get_active_service_users service_id w)))"

definition create_template_folder ::
  "env \<Rightarrow> uuid \<Rightarrow> string \<Rightarrow> string option \<Rightarrow> serialized_folder op" where
  "create_template_folder env service_id name parent_id w =
     (if name = [] then (Inl (JsonSchemaValidationError ''name is too short''), w)
      else if (case parent_id of None \<Rightarrow> False | Some p \<Rightarrow> \<not> uuid_schema_ok p)
      then (Inl invalid_uuid_exn, w)
      else
        let parent = Option.bind parent_id parse_uuid
        in case folder_users_on_creation parent service_id w of
             Inl e \<Rightarrow> (Inl e, w)
           | Inr users \<Rightarrow>
               (case create_uuid env w of (i, w1) \<Rightarrow>
                  let f = \<lparr>tf_id = i, tf_service_id = service_id, tf_name = py_strip name,
                           tf_parent_id = parent, tf_users = users\<rparr>
                  in op_bind (dao_create_template_folder f) (\<lambda>_. op_return (serialize_folder f)) w1))"

definition update_template_folder ::
  "uuid \<Rightarrow> uuid \<Rightarrow> string \<Rightarrow> string list option \<Rightarrow> serialized_folder op" where
  "update_template_folder service_id folder_id name users_with_permission w =
     (if name = [] then (Inl (JsonSchemaValidationError ''name is too short''), w)
      else if (case users_with_permission of None \<Rightarrow> False
               | Some us \<Rightarrow> \<not> list_all uuid_schema_ok us)
      then (Inl invalid_uuid_exn, w)
      else case dao_get_template_folder_by_id_and_service_id folder_id service_id w of
        Inl e \<Rightarrow> (Inl e, w)
      | Inr f \<Rightarrow>
          (case users_with_permission of
             None \<Rightarrow> (Inr (serialize_folder (f\<lparr>tf_name := name\<rparr>)),
                      dao_update_template_folder (f\<lparr>tf_name := name\<rparr>) w)
           | Some us \<Rightarrow>
               (case map_res (\<lambda>u. dao_get_service_user (the (parse_uuid u)) service_id w) us of
                  Inl e \<Rightarrow> (Inl e, w)
                | Inr rows \<Rightarrow>
                    let f' = f\<lparr>tf_name := name, tf_users := map fst rows\<rparr>
                    in (Inr (serialize_folder f'), dao_update_template_folder f' w))))"

definition delete_template_folder :: "uuid \<Rightarrow> uuid \<Rightarrow> nat op" where
  \<comment> \<open>the status code of the response\<close>
  "delete_template_folder service_id folder_id w =
     (case dao_get_template_folder_by_id_and_service_id folder_id service_id w of
        Inl e \<Rightarrow> (Inl e, w)
      | Inr f \<Rightarrow>
          if folder_subfolders (w_folders w) f \<noteq> [] \<or> folder_templates f w \<noteq> [] then (Inr 400, w)
          else (Inr 204, dao_delete_template_folder f w))"

section \<open>Moving\<close>

definition validate_folder_move ::
  "template_folder list \<Rightarrow> template_folder option \<Rightarrow> template_folder \<Rightarrow> string \<Rightarrow> unit result option" where
  "validate_folder_move rows target f folder_id =
     (case target of
        None \<Rightarrow> Some (if folder_id = ''None''
                      then Inl (invalid_request ''You cannot move a folder to itself'' 400) else Inr ())
      | Some t \<Rightarrow>
          if uuid_str (tf_id t) = folder_id
          then Some (Inl (invalid_request ''You cannot move a folder to itself'' 400))
          else Option.bind (is_parent_of rows f t) (\<lambda>b. Some
            (if b then Inl (invalid_request ''You cannot move a folder to one of its subfolders'' 400)
             else Inr ())))"

definition session_folder :: "template_folder list \<Rightarrow> template_folder \<Rightarrow> template_folder" where
  \<comment> \<open>the session has one object per row, which earlier moves of the request may have changed\<close>
  "session_folder rows t = (case find_row tf_id (tf_id t) rows of None \<Rightarrow> t | Some g \<Rightarrow> g)"

fun move_folders ::
  "uuid \<Rightarrow> template_folder option \<Rightarrow> string list \<Rightarrow> world \<Rightarrow> (unit result \<times> world) option" where
  "move_folders service_id target [] w = Some (Inr (), w)"
| "move_folders service_id target (i # ids) w =
     (case dao_get_template_folder_by_id_and_service_id (the (parse_uuid i)) service_id w of
        Inl (Db NoResultFound) \<Rightarrow>
          Some (Inl (invalid_request (''No folder found with id '' @ i @ '' for service ''
                                      @ uuid_str service_id) 400), w)
      | Inl e \<Rightarrow> Some (Inl e, w)
      | Inr f \<Rightarrow>
          Option.bind (validate_folder_move (w_folders w)
                         (map_option (session_folder (w_folders w)) target) f i) (\<lambda>r.
            case r of
              Inl e \<Rightarrow> Some (Inl e, w)
            | Inr _ \<Rightarrow>
                move_folders service_id target ids
                  (w\<lparr>w_folders :=
                       save_row tf_id (f\<lparr>tf_parent_id := map_option tf_id target\<rparr>) (w_folders w)\<rparr>)))"

fun move_templates :: "uuid \<Rightarrow> template_folder option \<Rightarrow> string list \<Rightarrow> unit op" where
  "move_templates service_id target [] w = (Inr (), w)"
| "move_templates service_id target (i # ids) w =
     (case dao_get_template_by_id_and_service_id (the (parse_uuid i)) service_id None w of
        Inl (Db NoResultFound) \<Rightarrow>
          (Inl (invalid_request (''Could not move to folder: No template found with id '' @ i
                @ '' for service '' @ uuid_str service_id) 400), w)
      | Inl e \<Rightarrow> (Inl e, w)
      | Inr t \<Rightarrow>
          if t_archived t then move_templates service_id target ids w
          else move_templates service_id target ids
                 (w\<lparr>w_templates :=
                      save_row t_id (t\<lparr>t_folder := map_option tf_id target\<rparr>) (w_templates w)\<rparr>))"

definition move_body ::
  "uuid \<Rightarrow> uuid option \<Rightarrow> string list \<Rightarrow> string list \<Rightarrow> world \<Rightarrow> (unit result \<times> world) option" where
  "move_body service_id target_id folders templates w =
     (if \<not> list_all uuid_schema_ok (folders @ templates) then Some (Inl invalid_uuid_exn, w)
      else
        case (case target_id of
                None \<Rightarrow> Inr None
              | Some i \<Rightarrow> map_sum id Some
                  (dao_get_template_folder_by_id_and_service_id i service_id w)) of
          Inl e \<Rightarrow> Some (Inl e, w)
        | Inr target \<Rightarrow>
            Option.bind (move_folders service_id target folders w) (\<lambda>r. Some
              (case r of
                 (Inl e, w1) \<Rightarrow> (Inl e, w1)
               | (Inr _, w1) \<Rightarrow> move_templates service_id target templates w1)))"

definition move_to_template_folder ::
  "uuid \<Rightarrow> uuid option \<Rightarrow> string list \<Rightarrow> string list \<Rightarrow> world \<Rightarrow> (unit result \<times> world) option" where
  \<comment> \<open>decorated with \<open>autocommit\<close>\<close>
  "move_to_template_folder service_id target_id folders templates w =
     map_option (\<lambda>r. autocommit (\<lambda>_. r) w) (move_body service_id target_id folders templates w)"

section \<open>The folders form a forest\<close>

definition folder_edges :: "template_folder list \<Rightarrow> (uuid \<times> uuid) set" where
  \<comment> \<open>from a folder to its parent\<close>
  "folder_edges rows = {(tf_id f, p) | f p. f \<in> set rows \<and> tf_parent_id f = Some p}"

definition folder_keys :: "template_folder list \<Rightarrow> (uuid \<times> uuid) set" where
  "folder_keys rows = (\<lambda>f. (tf_id f, tf_service_id f)) ` set rows"

definition folders_ok :: "template_folder list \<Rightarrow> bool" where
  "folders_ok rows \<longleftrightarrow>
     distinct_rows tf_id rows
     \<and> (\<forall>f \<in> set rows. \<forall>p. tf_parent_id f = Some p \<longrightarrow> (p, tf_service_id f) \<in> folder_keys rows)
     \<and> acyclic (folder_edges rows)"

definition template_folders_ok :: "world \<Rightarrow> bool" where
  \<comment> \<open>and a template lies in a folder of its own service\<close>
  "template_folders_ok w \<longleftrightarrow>
     folders_ok (w_folders w) \<and> distinct_rows t_id (w_templates w)
     \<and> (\<forall>t \<in> set (w_templates w). \<forall>i. t_folder t = Some i \<longrightarrow>
          (i, t_service_id t) \<in> folder_keys (w_folders w))"

lemma folder_edges_image:
  "folder_edges rows = (\<lambda>f. (tf_id f, the (tf_parent_id f))) ` {f \<in> set rows. tf_parent_id f \<noteq> None}"
  by (force simp: folder_edges_def image_iff)

lemma finite_folder_edges [simp]: "finite (folder_edges rows)"
  by (simp add: folder_edges_image)

lemma folder_parent_edge:
  assumes "distinct_rows tf_id rows" "f \<in> set rows" "folder_parent rows f = Some p"
  shows "(tf_id f, tf_id p) \<in> folder_edges rows" "p \<in> set rows"
  using assms by (auto simp: folder_parent_def folder_edges_def dest: find_row_SomeD split: option.splits)

lemma folder_parent_None:
  assumes "folders_ok rows" "f \<in> set rows" "folder_parent rows f = None"
  shows "(tf_id f, p) \<notin> folder_edges rows"
proof
  assume "(tf_id f, p) \<in> folder_edges rows"
  then obtain g where g: "g \<in> set rows" "tf_id g = tf_id f" "tf_parent_id g = Some p"
    by (auto simp: folder_edges_def)
  have d: "distinct_rows tf_id rows" using assms(1) by (simp add: folders_ok_def)
  have "g = f" by (rule row_unique [OF d g(1) assms(2) g(2)])
  then have "(p, tf_service_id f) \<in> folder_keys rows"
    using assms(1,2) g(3) unfolding folders_ok_def by blast
  then have "p \<in> tf_id ` set rows" by (auto simp: folder_keys_def)
  then show False
    using assms(3) g(3) \<open>g = f\<close> by (auto simp: folder_parent_def find_row_None_iff)
qed

lemma folder_edge_unique:
  assumes "distinct_rows tf_id rows" "(a, b) \<in> folder_edges rows" "(a, c) \<in> folder_edges rows"
  shows "b = c"
proof -
  obtain f g where "f \<in> set rows" "g \<in> set rows" "tf_id f = a" "tf_id g = a"
      "tf_parent_id f = Some b" "tf_parent_id g = Some c"
    using assms(2,3) by (auto simp: folder_edges_def)
  then show ?thesis using row_unique [OF assms(1), of f g] by simp
qed

lemma functional_trancl_step:
  assumes "(a, b) \<in> r" and "\<And>c. (a, c) \<in> r \<Longrightarrow> c = b"
  shows "(a, x) \<in> r\<^sup>+ \<longleftrightarrow> b = x \<or> (b, x) \<in> r\<^sup>+"
proof
  assume "(a, x) \<in> r\<^sup>+"
  then obtain c where "(a, c) \<in> r" "(c, x) \<in> r\<^sup>*" by (auto dest: tranclD)
  then show "b = x \<or> (b, x) \<in> r\<^sup>+" using assms(2) rtranclD by metis
next
  assume "b = x \<or> (b, x) \<in> r\<^sup>+"
  then show "(a, x) \<in> r\<^sup>+" using assms(1) by (auto intro: trancl_into_trancl2)
qed

lemma is_parent_of_forest:
  assumes ok: "folders_ok rows" and "other \<in> set rows"
  shows "is_parent_of rows self other = Some ((tf_id other, tf_id self) \<in> (folder_edges rows)\<^sup>+)"
proof -
  have d: "distinct_rows tf_id rows" using ok by (simp add: folders_ok_def)
  have "wf ((folder_edges rows)\<inverse>)"
    using ok by (simp add: folders_ok_def finite_acyclic_wf_converse)
  then have "\<forall>other \<in> set rows. tf_id other = a \<longrightarrow> is_parent_of rows self other =
               Some ((tf_id other, tf_id self) \<in> (folder_edges rows)\<^sup>+)" for a
  proof (induction a)
    case (less a)
    show ?case
    proof (intro ballI impI)
      fix f assume f: "f \<in> set rows" "tf_id f = a"
      show "is_parent_of rows self f = Some ((tf_id f, tf_id self) \<in> (folder_edges rows)\<^sup>+)"
      proof (cases "folder_parent rows f")
        case None
        then have "(tf_id f, tf_id self) \<notin> (folder_edges rows)\<^sup>+"
          using folder_parent_None [OF ok f(1)] by (meson tranclD)
        then show ?thesis using None by (simp add: is_parent_of.simps)
      next
        case (Some p)
        note e = folder_parent_edge [OF d f(1) Some]
        have "is_parent_of rows self p = Some ((tf_id p, tf_id self) \<in> (folder_edges rows)\<^sup>+)"
          using less.IH [of "tf_id p"] e f(2) by simp
        moreover have "(tf_id f, tf_id self) \<in> (folder_edges rows)\<^sup>+ \<longleftrightarrow>
            tf_id p = tf_id self \<or> (tf_id p, tf_id self) \<in> (folder_edges rows)\<^sup>+"
          by (rule functional_trancl_step [OF e(1)]) (rule folder_edge_unique [OF d _ e(1)])
        ultimately show ?thesis using Some by (subst is_parent_of.simps) auto
      qed
    qed
  qed
  then show ?thesis using assms(2) by blast
qed

lemma folder_by_id_InrD:
  assumes "dao_get_template_folder_by_id_and_service_id i service_id w = Inr f"
  shows "f \<in> set (w_folders w)" "tf_id f = i" "tf_service_id f = service_id"
  using assms by (auto simp: dao_get_template_folder_by_id_and_service_id_def dest: query_one_InrD)

lemma folder_edges_save:
  assumes "distinct_rows tf_id rows" "tf_id f' = tf_id f"
  shows "folder_edges (save_row tf_id f' rows) =
    {e \<in> folder_edges rows. fst e \<noteq> tf_id f}
    \<union> (case tf_parent_id f' of None \<Rightarrow> {} | Some p \<Rightarrow> {(tf_id f, p)})"
  using assms
  by (auto simp: folder_edges_def set_save_row_distinct intro: exI [of _ f'] split: option.splits)

lemma folder_keys_save:
  assumes "distinct_rows tf_id rows" "f \<in> set rows" "tf_id f' = tf_id f"
    "tf_service_id f' = tf_service_id f"
  shows "folder_keys (save_row tf_id f' rows) = folder_keys rows"
proof -
  have "set rows = insert f {x \<in> set rows. tf_id x \<noteq> tf_id f}"
    using assms(2) row_unique [OF assms(1) _ assms(2)] by auto
  then have "folder_keys rows =
      insert (tf_id f, tf_service_id f) (folder_keys (filter (\<lambda>x. tf_id x \<noteq> tf_id f) rows))"
    unfolding folder_keys_def by auto
  then show ?thesis using assms by (auto simp: folder_keys_def set_save_row_distinct)
qed

lemma folders_ok_save:
  assumes ok: "folders_ok rows" and f: "f \<in> set rows"
    and same: "tf_id f' = tf_id f" "tf_service_id f' = tf_service_id f"
    and parent: "\<And>p. tf_parent_id f' = Some p \<Longrightarrow>
      (p, tf_service_id f) \<in> folder_keys rows \<and> p \<noteq> tf_id f
      \<and> (p, tf_id f) \<notin> (folder_edges rows)\<^sup>+"
  shows "folders_ok (save_row tf_id f' rows)"
proof -
  have d: "distinct_rows tf_id rows" and a: "acyclic (folder_edges rows)"
    using ok by (auto simp: folders_ok_def)
  let ?r = "{e \<in> folder_edges rows. fst e \<noteq> tf_id f}"
  have sub: "?r\<^sup>+ \<subseteq> (folder_edges rows)\<^sup>+" by (rule subsetI, erule trancl_mono) auto
  have r: "acyclic ?r" by (rule acyclic_subset [OF a]) auto
  have "acyclic (folder_edges (save_row tf_id f' rows))"
  proof (cases "tf_parent_id f'")
    case None
    then show ?thesis using r by (simp add: folder_edges_save [OF d same(1)])
  next
    case (Some p)
    then have "(p, tf_id f) \<notin> ?r\<^sup>*" using parent [OF Some] sub by (auto simp: rtrancl_eq_or_trancl)
    then have "acyclic (insert (tf_id f, p) ?r)" using r by (simp add: acyclic_insert)
    then show ?thesis using Some by (simp add: folder_edges_save [OF d same(1)])
  qed
  moreover have "(p, tf_service_id g) \<in> folder_keys (save_row tf_id f' rows)"
    if "g \<in> set (save_row tf_id f' rows)" "tf_parent_id g = Some p" for g p
    using that ok parent same
    by (auto simp: folder_keys_save [OF d f same] set_save_row_distinct [OF d] folders_ok_def)
  ultimately show ?thesis using d unfolding folders_ok_def by auto
qed

lemma validate_folder_move_None:
  "parse_uuid i = Some n \<Longrightarrow> i \<noteq> ''None''"
  by (auto simp: parse_uuid_def Let_def)

lemma validate_folder_move_ok:
  assumes ok: "folders_ok rows" and t: "t \<in> set rows" and i: "canonical_uuid i" "parse_uuid i = Some (tf_id f)"
  shows "\<exists>r. validate_folder_move rows (Some t) f i = Some r \<and>
    (r = Inr () \<longrightarrow> tf_id t \<noteq> tf_id f \<and> (tf_id t, tf_id f) \<notin> (folder_edges rows)\<^sup>+)"
  using i is_parent_of_forest [OF ok t, of f]
  by (auto simp: validate_folder_move_def canonical_uuid_def)

section \<open>What a move keeps\<close>

definition move_target_ok :: "template_folder option \<Rightarrow> uuid \<Rightarrow> world \<Rightarrow> bool" where
  \<comment> \<open>the target folder is one of the service; the row held may be older than the table's\<close>
  "move_target_ok target service_id w \<longleftrightarrow>
     (case target of None \<Rightarrow> True | Some t \<Rightarrow> (tf_id t, service_id) \<in> folder_keys (w_folders w))"

lemma session_folder_in:
  assumes "folders_ok (w_folders w)" "move_target_ok (Some t) service_id w"
  shows "session_folder (w_folders w) t \<in> set (w_folders w)"
    "tf_id (session_folder (w_folders w) t) = tf_id t"
proof -
  obtain g where "g \<in> set (w_folders w)" "tf_id g = tf_id t"
    using assms(2) by (auto simp: move_target_ok_def folder_keys_def)
  then have "find_row tf_id (tf_id t) (w_folders w) = Some g"
    using assms(1) find_row_eqI [of tf_id "w_folders w" g] by (simp add: folders_ok_def)
  then show "session_folder (w_folders w) t \<in> set (w_folders w)"
      "tf_id (session_folder (w_folders w) t) = tf_id t"
    using \<open>g \<in> _\<close> \<open>tf_id g = _\<close> by (simp_all add: session_folder_def)
qed

lemma move_step_safe:
  assumes ok: "folders_ok (w_folders w)" and t: "move_target_ok target service_id w"
    and f: "f \<in> set (w_folders w)" "tf_service_id f = service_id"
    and i: "canonical_uuid i" "parse_uuid i = Some (tf_id f)"
  shows "\<exists>r. validate_folder_move (w_folders w) (map_option (session_folder (w_folders w)) target) f i
             = Some r
    \<and> (r = Inr () \<longrightarrow>
        folders_ok (save_row tf_id (f\<lparr>tf_parent_id := map_option tf_id target\<rparr>) (w_folders w)))"
proof (cases target)
  case None
  then show ?thesis
    using ok f validate_folder_move_None [OF i(2)]
    by (auto simp: validate_folder_move_def intro: folders_ok_save)
next
  case (Some g)
  note s = session_folder_in [OF ok t [unfolded Some]]
  obtain r where r: "validate_folder_move (w_folders w) (Some (session_folder (w_folders w) g)) f i = Some r"
    and safe: "r = Inr () \<Longrightarrow> tf_id g \<noteq> tf_id f \<and> (tf_id g, tf_id f) \<notin> (folder_edges (w_folders w))\<^sup>+"
    using validate_folder_move_ok [OF ok s(1) i] s(2) by auto
  have "folders_ok (save_row tf_id (f\<lparr>tf_parent_id := Some (tf_id g)\<rparr>) (w_folders w))" if "r = Inr ()"
    using ok f(1) by (rule folders_ok_save) (use safe that t f(2) Some in \<open>auto simp: move_target_ok_def\<close>)
  then show ?thesis using Some r by auto
qed

lemma template_folders_ok_keys:
  assumes "template_folders_ok w" "w_templates v = w_templates w"
    "folder_keys (w_folders w) \<subseteq> folder_keys (w_folders v)" "folders_ok (w_folders v)"
  shows "template_folders_ok v"
  using assms unfolding template_folders_ok_def by fastforce

lemma move_folders_ok:
  assumes "template_folders_ok w" "move_target_ok target service_id w"
    and "\<forall>i \<in> set ids. canonical_uuid i \<and> uuid_schema_ok i"
  shows "\<exists>r v. move_folders service_id target ids w = Some (r, v) \<and> template_folders_ok v
           \<and> move_target_ok target service_id v"
  using assms
proof (induction ids arbitrary: w)
  case Nil
  then show ?case by simp
next
  case (Cons i ids)
  obtain n where n: "parse_uuid i = Some n" using Cons.prems(3) by (auto simp: uuid_schema_ok_def)
  have ok: "folders_ok (w_folders w)" using Cons.prems(1) by (simp add: template_folders_ok_def)
  show ?case
  proof (cases "dao_get_template_folder_by_id_and_service_id n service_id w")
    case (Inl e)
    then show ?thesis
      using Cons.prems n by (cases e rule: exn.exhaust) (auto split: exn.split db_exn.split)
  next
    case (Inr f)
    note f = folder_by_id_InrD [OF Inr]
    let ?rows = "w_folders w" and ?f = "f\<lparr>tf_parent_id := map_option tf_id target\<rparr>"
    obtain r where r: "validate_folder_move ?rows (map_option (session_folder ?rows) target) f i = Some r"
      and safe: "r = Inr () \<Longrightarrow> folders_ok (save_row tf_id ?f ?rows)"
      using move_step_safe [OF ok Cons.prems(2) f(1) f(3)] Cons.prems(3) n f(2) by auto
    show ?thesis
    proof (cases r)
      case (Inl e)
      then show ?thesis using Cons.prems n Inr r by simp
    next
      case (Inr u)
      let ?w = "w\<lparr>w_folders := save_row tf_id ?f ?rows\<rparr>"
      have "distinct_rows tf_id ?rows" using ok by (simp add: folders_ok_def)
      then have keys: "folder_keys (save_row tf_id ?f ?rows) = folder_keys ?rows"
        using f(1) by (simp add: folder_keys_save)
      have "template_folders_ok ?w"
        using safe Inr keys by (intro template_folders_ok_keys [OF Cons.prems(1)]) simp_all
      moreover have "move_target_ok target service_id ?w"
        using Cons.prems(2) keys by (simp add: move_target_ok_def split: option.splits)
      ultimately show ?thesis
        using Cons.IH [of ?w] Cons.prems(3) n r Inr
          \<open>dao_get_template_folder_by_id_and_service_id n service_id w = Inr f\<close> by simp
    qed
  qed
qed

lemma template_by_id_InrD:
  assumes "dao_get_template_by_id_and_service_id i service_id None w = Inr t"
  shows "t \<in> set (w_templates w)" "t_id t = i" "t_service_id t = service_id"
  using assms by (auto simp: dao_get_template_by_id_and_service_id_def dest: query_one_InrD)

lemma move_template_step:
  assumes "template_folders_ok w" "move_target_ok target service_id w"
    and "t \<in> set (w_templates w)" "t_service_id t = service_id"
  shows "template_folders_ok (w\<lparr>w_templates :=
           save_row t_id (t\<lparr>t_folder := map_option tf_id target\<rparr>) (w_templates w)\<rparr>)"
  using assms
  by (auto simp: template_folders_ok_def move_target_ok_def dest!: set_save_row [THEN subsetD]
      split: option.splits)

lemma move_templates_ok:
  assumes "template_folders_ok w" "move_target_ok target service_id w"
  shows "template_folders_ok (snd (move_templates service_id target ids w))"
  using assms
proof (induction ids arbitrary: w)
  case Nil
  then show ?case by simp
next
  case (Cons i ids)
  show ?case
  proof (cases "dao_get_template_by_id_and_service_id (the (parse_uuid i)) service_id None w")
    case (Inl e)
    then show ?thesis using Cons.prems by (auto split: exn.split db_exn.split)
  next
    case (Inr t)
    note t = template_by_id_InrD [OF Inr]
    let ?w = "w\<lparr>w_templates := save_row t_id (t\<lparr>t_folder := map_option tf_id target\<rparr>) (w_templates w)\<rparr>"
    have "template_folders_ok ?w" by (rule move_template_step [OF Cons.prems t(1,3)])
    moreover have "move_target_ok target service_id ?w"
      using Cons.prems(2) by (simp add: move_target_ok_def split: option.splits)
    ultimately show ?thesis using Cons Inr by simp
  qed
qed

lemma rollback_template_folders [simp]:
  "template_folders_ok (rollback_to w0 w) = template_folders_ok w0"
  by (simp add: template_folders_ok_def rollback_to_def)

lemma autocommit_result_ok:
  assumes "template_folders_ok w" "template_folders_ok v"
  shows "template_folders_ok (snd (autocommit (\<lambda>_. (r, v)) w))"
  using assms by (cases r) (simp_all add: autocommit_def)

lemma move_body_ok:
  assumes w: "template_folders_ok w" and ids: "\<forall>i \<in> set folders. canonical_uuid i"
  shows "\<exists>r v. move_body service_id target_id folders templates w = Some (r, v) \<and> template_folders_ok v"
proof (cases "list_all uuid_schema_ok (folders @ templates)")
  case True
  let ?look = "case target_id of None \<Rightarrow> Inr None
               | Some i \<Rightarrow> map_sum id Some (dao_get_template_folder_by_id_and_service_id i service_id w)"
  show ?thesis
  proof (cases ?look)
    case (Inl e)
    then show ?thesis using True w by (simp add: move_body_def)
  next
    case (Inr target)
    have t: "move_target_ok target service_id w"
    proof (cases target_id)
      case None
      then show ?thesis using Inr by (simp add: move_target_ok_def)
    next
      case (Some i)
      then obtain f where "dao_get_template_folder_by_id_and_service_id i service_id w = Inr f"
          "target = Some f"
        using Inr by (cases "dao_get_template_folder_by_id_and_service_id i service_id w") auto
      then show ?thesis
        using folder_by_id_InrD [of i service_id w f] by (auto simp: move_target_ok_def folder_keys_def)
    qed
    have "\<forall>i \<in> set folders. canonical_uuid i \<and> uuid_schema_ok i"
      using ids True by (auto simp: list_all_iff)
    from move_folders_ok [OF w t this] obtain r v where m:
        "move_folders service_id target folders w = Some (r, v)" "template_folders_ok v"
        "move_target_ok target service_id v" by blast
    then have "template_folders_ok (snd (move_templates service_id target templates v))"
      by (intro move_templates_ok)
    then show ?thesis
      using True Inr m by (cases r) (auto simp: move_body_def prod_eq_iff split: prod.splits)
  qed
next
  case False
  then show ?thesis using w by (auto simp: move_body_def)
qed

lemma move_to_template_folder_ok:
  assumes "template_folders_ok w" "\<forall>i \<in> set folders. canonical_uuid i"
  shows "\<exists>r v. move_to_template_folder service_id target_id folders templates w = Some (r, v)
           \<and> template_folders_ok v"
proof -
  obtain r v where "move_body service_id target_id folders templates w = Some (r, v)"
      "template_folders_ok v" using move_body_ok [OF assms] by blast
  then show ?thesis
    using autocommit_result_ok [OF assms(1), of v r]
    by (cases "autocommit (\<lambda>_. (r, v)) w") (simp add: move_to_template_folder_def)
qed

section \<open>Requests\<close>

datatype folder_request =
    NewFolder uuid string "string option"
  | ChangeFolder uuid uuid string "string list option"
  | RemoveFolder uuid uuid
  | MoveContents uuid "uuid option" "string list" "string list"

fun folder_handler :: "env \<Rightarrow> folder_request \<Rightarrow> world \<Rightarrow> (unit result \<times> world) option" where
  \<comment> \<open>the blueprint's routes that write, without their responses\<close>
  "folder_handler env (NewFolder s name parent) w =
     Some (apfst (map_sum id (\<lambda>_. ())) (create_template_folder env s name parent w))"
| "folder_handler env (ChangeFolder s i name users) w =
     Some (apfst (map_sum id (\<lambda>_. ())) (update_template_folder s i name users w))"
| "folder_handler env (RemoveFolder s i) w =
     Some (apfst (map_sum id (\<lambda>_. ())) (delete_template_folder s i w))"
| "folder_handler env (MoveContents s target folders templates) w =
     move_to_template_folder s target folders templates w"

fun folder_requests :: "env \<Rightarrow> folder_request list \<Rightarrow> world \<Rightarrow> world option" where
  "folder_requests env [] w = Some w"
| "folder_requests env (q # qs) w =
     Option.bind (folder_handler env q w) (\<lambda>r. folder_requests env qs (snd r))"

fun canonical_request :: "folder_request \<Rightarrow> bool" where
  \<comment> \<open>the ids of the folders to move are spelled the way \<open>str\<close> writes them\<close>
  "canonical_request (MoveContents s target folders templates) = list_all canonical_uuid folders"
| "canonical_request _ = True"

lemma folders_ok_add:
  assumes ok: "folders_ok rows" and new: "tf_id f \<notin> tf_id ` set rows"
    and parent: "\<And>p. tf_parent_id f = Some p \<Longrightarrow> (p, tf_service_id f) \<in> folder_keys rows"
  shows "folders_ok (rows @ [f])"
proof -
  let ?e = "case tf_parent_id f of None \<Rightarrow> {} | Some p \<Rightarrow> {(tf_id f, p)}"
  have edges: "folder_edges (rows @ [f]) = folder_edges rows \<union> ?e"
    by (auto simp: folder_edges_def split: option.splits)
  have into: "b \<in> tf_id ` set rows" if "(a, b) \<in> folder_edges rows" for a b
    using that ok by (force simp: folder_edges_def folders_ok_def folder_keys_def)
  have unreached: "(p, tf_id f) \<notin> (folder_edges rows)\<^sup>*" if "tf_parent_id f = Some p" for p
  proof
    assume "(p, tf_id f) \<in> (folder_edges rows)\<^sup>*"
    moreover have "p \<noteq> tf_id f" using parent [OF that] new by (auto simp: folder_keys_def image_iff)
    ultimately obtain q where "(q, tf_id f) \<in> folder_edges rows" by (auto elim: rtranclE)
    then show False using into new by blast
  qed
  have "acyclic (folder_edges (rows @ [f]))"
    using ok unreached by (auto simp: edges folders_ok_def acyclic_insert split: option.splits)
  then show ?thesis
    using ok new parent by (auto simp: folders_ok_def distinct_rows_def folder_keys_def)
qed

lemma create_folder_ok:
  assumes w: "template_folders_ok w"
  shows "template_folders_ok (snd (create_template_folder env s name parent_id w))"
proof -
  let ?p = "Option.bind parent_id parse_uuid"
  have parent: "(p, s) \<in> folder_keys (w_folders w)"
    if "folder_users_on_creation ?p s w = Inr users" "?p = Some p" for users p
    using that folder_by_id_InrD [of p s w]
    by (cases "dao_get_template_folder_by_id_and_service_id p s w")
      (auto simp: folder_users_on_creation_def folder_keys_def split: exn.splits db_exn.splits)
  have add: "template_folders_ok (snd (dao_create_template_folder
      \<lparr>tf_id = i, tf_service_id = s, tf_name = n, tf_parent_id = ?p, tf_users = users\<rparr>
      (w\<lparr>w_uuids := k\<rparr>)))"
    if u: "folder_users_on_creation ?p s w = Inr users" for users i n k
  proof -
    let ?f = "\<lparr>tf_id = i, tf_service_id = s, tf_name = n, tf_parent_id = ?p, tf_users = users\<rparr>"
    have w': "template_folders_ok (w\<lparr>w_uuids := k\<rparr>)" using w by (simp add: template_folders_ok_def)
    have "template_folders_ok (w\<lparr>w_uuids := k, w_folders := w_folders w @ [?f]\<rparr>)"
      if "i \<notin> tf_id ` set (w_folders w)"
    proof (rule template_folders_ok_keys [OF w])
      show "folders_ok (w_folders (w\<lparr>w_uuids := k, w_folders := w_folders w @ [?f]\<rparr>))"
        using w that parent [OF u] by (auto intro!: folders_ok_add simp: template_folders_ok_def)
    qed (auto simp: folder_keys_def)
    then show ?thesis using w' by (auto simp: dao_create_template_folder_def autocommit_def)
  qed
  show ?thesis
    using w add
    by (auto simp: create_template_folder_def Let_def op_bind_def op_return_def create_uuid_def
        split: sum.splits prod.splits) (metis snd_conv)+
qed

lemma update_folder_ok:
  assumes w: "template_folders_ok w"
  shows "template_folders_ok (snd (update_template_folder s i name users w))"
proof -
  have upd: "template_folders_ok (dao_update_template_folder f' w)"
    if f: "f \<in> set (w_folders w)" "tf_id f' = tf_id f" "tf_service_id f' = tf_service_id f"
      "tf_parent_id f' = tf_parent_id f" for f f'
  proof -
    have ok: "folders_ok (w_folders w)" and d: "distinct_rows tf_id (w_folders w)"
      using w by (auto simp: template_folders_ok_def folders_ok_def)
    have e: "p \<noteq> tf_id f \<and> (p, tf_id f) \<notin> (folder_edges (w_folders w))\<^sup>+"
      if "tf_parent_id f = Some p" for p
    proof -
      have "(tf_id f, p) \<in> folder_edges (w_folders w)" using f(1) that by (auto simp: folder_edges_def)
      then show ?thesis
        using ok by (auto simp: folders_ok_def acyclic_def dest: trancl_into_trancl2)
    qed
    have "folders_ok (save_row tf_id f' (w_folders w))"
      using ok f(1,2,3)
      by (rule folders_ok_save) (use ok f e in \<open>auto simp: folders_ok_def\<close>)
    then show ?thesis
      using folder_keys_save [OF d f(1,2,3)]
      by (intro template_folders_ok_keys [OF w]) (simp_all add: dao_update_template_folder_def)
  qed
  show ?thesis
    using w upd folder_by_id_InrD(1) [of i s w]
    by (auto simp: update_template_folder_def Let_def split: sum.splits option.splits)
qed

lemma delete_folder_ok:
  assumes w: "template_folders_ok w"
  shows "template_folders_ok (snd (delete_template_folder s i w))"
proof -
  have del: "template_folders_ok (dao_delete_template_folder f w)"
    if f: "folder_subfolders (w_folders w) f = []" "folder_templates f w = []" for f
  proof -
    let ?rows = "delete_rows (\<lambda>r. tf_id r = tf_id f) (w_folders w)"
    have sub: "folder_edges ?rows \<subseteq> folder_edges (w_folders w)"
      by (auto simp: folder_edges_def set_delete_rows)
    have "acyclic (folder_edges ?rows)"
      using w acyclic_subset [OF _ sub] by (simp add: template_folders_ok_def folders_ok_def)
    moreover have "(p, x) \<in> folder_keys ?rows" if "(p, x) \<in> folder_keys (w_folders w)" "p \<noteq> tf_id f" for p x
      using that by (auto simp: folder_keys_def set_delete_rows)
    moreover have "tf_parent_id g \<noteq> Some (tf_id f)" if "g \<in> set (w_folders w)" for g
      using f(1) that by (auto simp: folder_subfolders_def filter_empty_conv)
    moreover have "t_folder t \<noteq> Some (tf_id f)" if "t \<in> set (w_templates w)" for t
      using f(2) that by (auto simp: folder_templates_def filter_empty_conv)
    ultimately show ?thesis
      using w
      by (auto simp: template_folders_ok_def folders_ok_def dao_delete_template_folder_def
          distinct_delete_rows set_delete_rows) metis+
  qed
  show ?thesis
    using w del by (auto simp: delete_template_folder_def split: sum.splits)
qed

lemma folder_handler_ok:
  assumes "template_folders_ok w" "canonical_request q"
  shows "\<exists>r v. folder_handler env q w = Some (r, v) \<and> template_folders_ok v"
proof (cases q)
  case (NewFolder s name parent)
  then show ?thesis using create_folder_ok [OF assms(1), of env s name parent] by (simp add: apfst_def map_prod_def case_prod_beta)
next
  case (ChangeFolder s i name users)
  then show ?thesis using update_folder_ok [OF assms(1), of s i name users] by (simp add: apfst_def map_prod_def case_prod_beta)
next
  case (RemoveFolder s i)
  then show ?thesis using delete_folder_ok [OF assms(1), of s i] by (simp add: apfst_def map_prod_def case_prod_beta)
next
  case (MoveContents s target folders templates)
  then show ?thesis
    using move_to_template_folder_ok [OF assms(1)] assms(2) by (auto simp: list_all_iff)
qed

lemma folder_requests_ok:
  assumes "template_folders_ok w" "list_all canonical_request qs"
  shows "\<exists>v. folder_requests env qs w = Some v \<and> template_folders_ok v"
  using assms
proof (induction qs arbitrary: w)
  case Nil
  then show ?case by simp
next
  case (Cons q qs)
  then obtain r v where "folder_handler env q w = Some (r, v)" "template_folders_ok v"
    using folder_handler_ok [OF Cons.prems(1), of q env] by auto
  then show ?case using Cons by simp
qed

section \<open>A folder inside itself\<close>

lemma is_parent_of_self_loop:
  assumes f: "folder_parent rows f = Some f" and ne: "tf_id f \<noteq> tf_id self"
  shows "is_parent_of rows self f = None"
proof (rule ccontr)
  assume "is_parent_of rows self f \<noteq> None"
  then obtain b where b: "is_parent_of rows self f = Some b" by blast
  have "rows = rows \<longrightarrow> self = self \<longrightarrow> f \<noteq> f"
    by (rule is_parent_of.raw_induct [where P = "\<lambda>r s other b. r = rows \<longrightarrow> s = self \<longrightarrow> other \<noteq> f",
          OF _ b])
      (use f ne in \<open>auto split: option.splits if_splits\<close>)
  then show False by simp
qed

definition folder_world :: world where
  \<comment> \<open>a service with folders 10 and 11\<close>
  "folder_world = sample_world\<lparr>w_folders :=
     [\<lparr>tf_id = 10, tf_service_id = 10, tf_name = ''a'', tf_parent_id = None, tf_users = []\<rparr>,
      \<lparr>tf_id = 11, tf_service_id = 10, tf_name = ''b'', tf_parent_id = None, tf_users = []\<rparr>]\<rparr>"

definition upper_a_id :: string where
  "upper_a_id = ''00000000-0000-0000-0000-00000000000A''"

definition eleven_id :: string where
  "eleven_id = ''00000000-0000-0000-0000-00000000000b''"

lemma upt_32:
  "[0..<32] =
    [0, 1, 2, 3, 4, 5, 6, 7, 8, 9, 10, 11, 12, 13, 14, 15, 16,
     17, 18, 19, 20, 21, 22, 23, 24, 25, 26, 27, 28, 29, 30, 31::nat]"
  by code_simp

lemma sample_digits: "char_of (48 :: nat) = CHR ''0''" "char_of (97 :: nat) = CHR ''a''"
    "char_of (98 :: nat) = CHR ''b''"
  by (code_simp+)

lemma sample_uuid_str:
  "uuid_str 10 = ''00000000-0000-0000-0000-00000000000a''" "uuid_str 11 = eleven_id"
  by (simp_all add: uuid_str_def uuid_hex_def upt_32 digit_char_def Let_def sample_digits eleven_id_def)

lemma parse_sample_ids: "parse_uuid upper_a_id = Some 10" "parse_uuid eleven_id = Some 11"
  by (code_simp+)

lemma upper_a_ne: "upper_a_id \<noteq> ''00000000-0000-0000-0000-00000000000a''"
  by (simp add: upper_a_id_def)

lemma eleven_ne: "eleven_id \<noteq> ''00000000-0000-0000-0000-00000000000a''"
  by (simp add: eleven_id_def)

lemmas sample_ids = sample_uuid_str parse_sample_ids upper_a_ne eleven_ne

lemma move_into_self:
  assumes f: "find_row tf_id t (w_folders w) = Some f" "tf_service_id f = s"
    and d: "distinct_rows tf_id (w_folders w)" and root: "tf_parent_id f = None"
    and i: "parse_uuid i = Some t" "i \<noteq> uuid_str t"
  shows "move_to_template_folder s (Some t) [i] [] w =
    Some (Inr (), w\<lparr>w_folders := save_row tf_id (f\<lparr>tf_parent_id := Some t\<rparr>) (w_folders w)\<rparr>)"
proof -
  have t: "tf_id f = t" using find_row_SomeD [OF f(1)] by simp
  have look: "dao_get_template_folder_by_id_and_service_id t s w = Inr f"
    using f by (simp add: dao_get_template_folder_by_id_and_service_id_def query_one_key [OF d])
  have "is_parent_of (w_folders w) f f = Some False"
    using root by (subst is_parent_of.simps) (simp add: folder_parent_def)
  then show ?thesis
    using look i f(1) t
    by (simp add: move_to_template_folder_def move_body_def uuid_schema_ok_def validate_folder_move_def
        session_folder_def autocommit_def)
qed

lemma move_into_self_looped:
  assumes f: "find_row tf_id t (w_folders w) = Some f" "tf_service_id f = s" "tf_parent_id f = Some t"
    and g: "find_row tf_id u (w_folders w) = Some g" "tf_service_id g = s" "u \<noteq> t"
    and d: "distinct_rows tf_id (w_folders w)" and j: "parse_uuid j = Some u" "j \<noteq> uuid_str t"
  shows "move_to_template_folder s (Some t) [j] [] w = None"
proof -
  have ids: "tf_id f = t" "tf_id g = u" using find_row_SomeD [OF f(1)] find_row_SomeD [OF g(1)] by simp_all
  have "dao_get_template_folder_by_id_and_service_id t s w = Inr f"
      "dao_get_template_folder_by_id_and_service_id u s w = Inr g"
    using f(1,2) g(1,2)
    by (simp_all add: dao_get_template_folder_by_id_and_service_id_def query_one_key [OF d])
  moreover have "is_parent_of (w_folders w) g f = None"
    using f ids g(3) by (intro is_parent_of_self_loop) (simp_all add: folder_parent_def)
  ultimately show ?thesis
    using j f(1) ids
    by (simp add: move_to_template_folder_def move_body_def uuid_schema_ok_def validate_folder_move_def
        session_folder_def)
qed

lemma folder_world_ok:
  "folders_ok (w_folders folder_world)" "template_folders_ok folder_world"
proof -
  have "folder_edges (w_folders folder_world) = {}" by (auto simp: folder_edges_def folder_world_def)
  then show "folders_ok (w_folders folder_world)"
    by (simp add: folders_ok_def) (simp add: folder_world_def distinct_rows_def acyclic_def)
  then show "template_folders_ok folder_world"
    by (simp add: template_folders_ok_def) (simp add: folder_world_def sample_world_def distinct_rows_def)
qed

section \<open>Properties\<close>

text \<open>
  While the folders form a forest, \<open>TemplateFolder.is_parent_of\<close> returns,
  for every two folders, and it answers whether the first is an ancestor of the second: whether
  a chain of parent references leads from the second to the first.
\<close>

theorem is_parent_of_decides:
  assumes "folders_ok rows" "self \<in> set rows" "other \<in> set rows"
  shows "is_parent_of rows self other = Some ((tf_id other, tf_id self) \<in> (folder_edges rows)\<^sup>+)"
  using assms(1,3) by (rule is_parent_of_forest)

theorem is_parent_of_decides_witness:
  "is_parent_of (w_folders folder_world) (hd (w_folders folder_world)) (hd (w_folders folder_world))
     = Some ((10, 10) \<in> (folder_edges (w_folders folder_world))\<^sup>+)"
  using is_parent_of_decides [OF folder_world_ok(1), of "hd (w_folders folder_world)"
      "hd (w_folders folder_world)"]
  by (simp add: folder_world_def)





end
