(* ===== verification/Versions.thy ===== *)
theory Versions
  imports World
begin

text \<open>
  Versioned tables: \<open>version_class\<close> of \<^verbatim>\<open>app/dao/dao_utils.py\<close> with \<open>create_history\<close> of
  \<^verbatim>\<open>app/history_meta.py\<close> appends a copy of every row an operation inserts or changes to the
  history table. The locale states what the operations on such a pair of tables promise, and
  proves once what follows: the history holds exactly the versions from 1 to the row's own.
\<close>

definition versions_ok :: "('r \<Rightarrow> uuid) \<Rightarrow> ('r \<Rightarrow> int) \<Rightarrow> 'r list \<Rightarrow> 'r list \<Rightarrow> bool" where
  "versions_ok ident ver rows history \<longleftrightarrow>
     distinct_rows ident rows \<and> set rows \<subseteq> set history
     \<and> distinct (map (\<lambda>h. (ident h, ver h)) history)
     \<and> (\<forall>i v. (i, v) \<in> (\<lambda>h. (ident h, ver h)) ` set history \<longleftrightarrow>
          (\<exists>r \<in> set rows. ident r = i \<and> 1 \<le> v \<and> v \<le> ver r))"

lemma versions_ok_create:
  assumes ok: "versions_ok ident ver rows history"
    and new: "ident r \<notin> ident ` set rows" "ver r = 1"
  shows "versions_ok ident ver (rows @ [r]) (history @ [r])"
proof -
  have "(ident r, v) \<notin> (\<lambda>h. (ident h, ver h)) ` set history" for v
    using ok new(1) by (auto simp: versions_ok_def image_iff)
  then show ?thesis
    using ok new by (auto simp: versions_ok_def distinct_rows_def image_iff)
qed

lemma versions_ok_update:
  assumes ok: "versions_ok ident ver rows history"
    and old: "r \<in> set rows" "ident r' = ident r" "ver r' = ver r + 1"
  shows "versions_ok ident ver (save_row ident r' rows) (history @ [r'])"
proof -
  let ?key = "\<lambda>h. (ident h, ver h)"
  have d: "distinct_rows ident rows" and sub: "set rows \<subseteq> set history"
    and keys: "\<And>i v. (i, v) \<in> ?key ` set history \<longleftrightarrow> (\<exists>r \<in> set rows. ident r = i \<and> 1 \<le> v \<and> v \<le> ver r)"
    using ok unfolding versions_ok_def by blast+
  have rows: "set (save_row ident r' rows) = insert r' {x \<in> set rows. ident x \<noteq> ident r}"
    using set_save_row_distinct [OF d, of r'] old(2) by simp
  have "(ident r, ver r) \<in> ?key ` set history" using sub old(1) by blast
  then have one: "1 \<le> ver r" unfolding keys by blast
  have only: "x = r" if "x \<in> set rows" "ident x = ident r" for x
    using row_unique [OF d that(1) old(1) that(2)] .
  have fresh: "?key r' \<notin> ?key ` set history"
  proof
    assume "?key r' \<in> ?key ` set history"
    then have "(ident r, ver r + 1) \<in> ?key ` set history" using old(2,3) by simp
    then show False unfolding keys using only by fastforce
  qed
  have all: "(i, v) \<in> ?key ` set (history @ [r']) \<longleftrightarrow>
      (\<exists>x \<in> set (save_row ident r' rows). ident x = i \<and> 1 \<le> v \<and> v \<le> ver x)" for i v
  proof (cases "i = ident r")
    case True
    have "(\<exists>x \<in> set rows. ident x = i \<and> 1 \<le> v \<and> v \<le> ver x) \<longleftrightarrow> 1 \<le> v \<and> v \<le> ver r"
      using True only old(1) by blast
    moreover have "(\<exists>x \<in> set (save_row ident r' rows). ident x = i \<and> 1 \<le> v \<and> v \<le> ver x)
        \<longleftrightarrow> 1 \<le> v \<and> v \<le> ver r + 1"
      using True old(2,3) by (auto simp: rows)
    moreover have "(i, v) \<in> ?key ` set (history @ [r'])
        \<longleftrightarrow> (i, v) \<in> ?key ` set history \<or> v = ver r + 1"
      using True old(2,3) by auto
    ultimately show ?thesis using keys [of i v] one by auto
  next
    case False
    then have "(\<exists>x \<in> set (save_row ident r' rows). ident x = i \<and> 1 \<le> v \<and> v \<le> ver x)
        \<longleftrightarrow> (\<exists>x \<in> set rows. ident x = i \<and> 1 \<le> v \<and> v \<le> ver x)"
      using old(2) by (auto simp: rows)
    moreover have "(i, v) \<in> ?key ` set (history @ [r']) \<longleftrightarrow> (i, v) \<in> ?key ` set history"
      using False old(2) by auto
    ultimately show ?thesis using keys [of i v] by simp
  qed
  have "distinct (map ?key (history @ [r']))"
    using ok fresh by (auto simp: versions_ok_def)
  moreover have "distinct_rows ident (save_row ident r' rows)" using d by simp
  moreover have "set (save_row ident r' rows) \<subseteq> set (history @ [r'])"
    using sub by (auto simp: rows)
  ultimately show ?thesis using all unfolding versions_ok_def by blast
qed

locale versioned_store =
  fixes rows :: "'s \<Rightarrow> 'r list" and history :: "'s \<Rightarrow> 'r list"
    and ident :: "'r \<Rightarrow> uuid" and ver :: "'r \<Rightarrow> int"
    and insert_row :: "'r \<Rightarrow> 's \<Rightarrow> 's" and change_row :: "'r \<Rightarrow> 's \<Rightarrow> 's"
  assumes insert_rows: "\<exists>r'. ident r' = ident r \<and> ver r' = 1
      \<and> rows (insert_row r s) = rows s @ [r'] \<and> history (insert_row r s) = history s @ [r']"
    and change_rows: "\<exists>r'. ident r' = ident r \<and> ver r' = ver r + 1
      \<and> rows (change_row r s) = save_row ident r' (rows s)
      \<and> history (change_row r s) = history s @ [r']"
begin

definition all_versions :: "'s \<Rightarrow> bool" where
  "all_versions s \<longleftrightarrow> versions_ok ident ver (rows s) (history s)"

lemma insert_keeps_versions:
  assumes "all_versions s" "ident r \<notin> ident ` set (rows s)"
  shows "all_versions (insert_row r s)"
proof -
  obtain r' where "ident r' = ident r" "ver r' = 1" "rows (insert_row r s) = rows s @ [r']"
      "history (insert_row r s) = history s @ [r']"
    using insert_rows [of r s] by blast
  then show ?thesis using assms versions_ok_create [of ident ver "rows s" "history s" r']
    by (simp add: all_versions_def)
qed

lemma change_keeps_versions:
  assumes "all_versions s" "old \<in> set (rows s)" "ident r = ident old" "ver r = ver old"
  shows "all_versions (change_row r s)"
proof -
  obtain r' where "ident r' = ident r" "ver r' = ver r + 1"
      "rows (change_row r s) = save_row ident r' (rows s)"
      "history (change_row r s) = history s @ [r']"
    using change_rows [of r s] by blast
  then show ?thesis
    using assms versions_ok_update [of ident ver "rows s" "history s" old r'] by (simp add: all_versions_def)
qed

lemma every_version_kept:
  assumes "all_versions s" "r \<in> set (rows s)" "1 \<le> v" "v \<le> ver r"
  shows "\<exists>h \<in> set (history s). ident h = ident r \<and> ver h = v"
proof -
  have "(ident r, v) \<in> (\<lambda>h. (ident h, ver h)) ` set (history s)"
    using assms unfolding all_versions_def versions_ok_def by blast
  then show ?thesis by auto
qed

end

end
