(* ===== verification/Auth.thy ===== *)
theory Auth
  imports Folders Validation Versions
begin

text \<open>
  Who may call the API: \<^verbatim>\<open>app/authentication/auth.py\<close> and \<^verbatim>\<open>app/dao/api_key_dao.py\<close>. What the
  token library answers is a parameter, as is the signing of stored secrets. The service and its
  keys are read from the tables, without the caches in front of them (two seconds in memory).
\<close>

section \<open>Tokens\<close>

datatype token_error =
    TokenExpiredError | TokenAlgorithmError | TokenDecodeError | TokenIssuerError | OtherTokenError

text \<open>
  \<open>au_issuer\<close> is \<open>get_token_issuer\<close>, \<open>au_decode\<close> what \<open>decode_jwt_token\<close> raises for a token and a
  secret, if it raises. A \<open>TokenIssuerError\<close> is a \<open>TokenDecodeError\<close>.
\<close>

record auth_lib =
  au_issuer :: "string \<Rightarrow> token_error + string"
  au_decode :: "string \<Rightarrow> string \<Rightarrow> token_error option"
  au_internal_client_api_keys :: "(string \<times> string list) list"
  au_admin_client_id :: string
  au_functional_tests_client_id :: string
  au_sign_secret :: "string \<Rightarrow> string"
  au_unsign_secret :: "string \<Rightarrow> string"

definition GENERAL_TOKEN_ERROR_MESSAGE :: string where
  "GENERAL_TOKEN_ERROR_MESSAGE =
     ''Invalid token: make sure your API token matches the example at https://docs.notifications.service.gov.uk/rest-api.html#authorisation-header''"

fun py_title_from :: "bool \<Rightarrow> string \<Rightarrow> string" where
  "py_title_from after [] = []"
| "py_title_from after (c # cs) =
     (let letter = (upper_char c \<noteq> c \<or> lower_char c \<noteq> c)
      in (if after then lower_char c else upper_char c) # py_title_from letter cs)"

definition get_auth_token :: "string option \<Rightarrow> string result" where
  \<comment> \<open>of the header \<open>Authorization\<close>\<close>
  "get_auth_token header =
     (case header of
        None \<Rightarrow> Inl (AuthError ''Unauthorized: authentication token must be provided'' 401)
      | Some h \<Rightarrow>
          if h = [] then Inl (AuthError ''Unauthorized: authentication token must be provided'' 401)
          else if py_title_from False (take 7 h) \<noteq> ''Bearer ''
          then Inl (AuthError ''Unauthorized: authentication bearer scheme must be used'' 401)
          else Inr (drop 7 h))"

definition get_token_issuer :: "auth_lib \<Rightarrow> string \<Rightarrow> string result" where
  "get_token_issuer lib token =
     (case au_issuer lib token of
        Inr i \<Rightarrow> Inr i
      | Inl TokenIssuerError \<Rightarrow> Inl (AuthError ''Invalid token: iss field not provided'' 403)
      | Inl TokenDecodeError \<Rightarrow> Inl (AuthError GENERAL_TOKEN_ERROR_MESSAGE 403)
      | Inl _ \<Rightarrow> Inl (py_exception ''TokenError''))"

fun decode_jwt_token ::
  "auth_lib \<Rightarrow> string \<Rightarrow> ('k \<Rightarrow> string) \<Rightarrow> ('k \<Rightarrow> time option) \<Rightarrow> 'k list \<Rightarrow> 'k result" where
  \<comment> \<open>\<open>_decode_jwt_token\<close>: the loop over the keys\<close>
  "decode_jwt_token lib token secret expiry [] =
     Inl (AuthError ''Invalid token: API key not found'' 403)"
| "decode_jwt_token lib token secret expiry (k # ks) =
     (case au_decode lib token (secret k) of
        Some TokenExpiredError \<Rightarrow>
          Inl (AuthError ''Error: Your system clock must be accurate to within 30 seconds'' 403)
      | Some TokenAlgorithmError \<Rightarrow>
          Inl (AuthError ''Invalid token: algorithm used is not HS256'' 403)
      | Some TokenDecodeError \<Rightarrow> decode_jwt_token lib token secret expiry ks
      | Some TokenIssuerError \<Rightarrow> decode_jwt_token lib token secret expiry ks
      | Some OtherTokenError \<Rightarrow> Inl (AuthError GENERAL_TOKEN_ERROR_MESSAGE 403)
      | None \<Rightarrow>
          if expiry k \<noteq> None then Inl (AuthError ''Invalid token: API key revoked'' 403)
          else Inr k)"

section \<open>API keys\<close>

definition api_key_secret :: "auth_lib \<Rightarrow> api_key \<Rightarrow> string" where
  \<comment> \<open>the getter of \<open>secret\<close>\<close>
  "api_key_secret lib k = au_unsign_secret lib (k_secret k)"

definition insert_api_key :: "api_key \<Rightarrow> world \<Rightarrow> world" where
  \<comment> \<open>with \<open>create_history\<close>\<close>
  "insert_api_key k w =
     (let k' = k\<lparr>k_version := 1, k_created_at := w_now w\<rparr>
      in w\<lparr>w_api_keys := w_api_keys w @ [k'], w_api_key_history := w_api_key_history w @ [k']\<rparr>)"

definition change_api_key :: "api_key \<Rightarrow> world \<Rightarrow> world" where
  "change_api_key k w =
     (let k' = k\<lparr>k_version := k_version k + 1, k_updated_at := Some (w_now w)\<rparr>
      in w\<lparr>w_api_keys := save_row k_id k' (w_api_keys w),
           w_api_key_history := w_api_key_history w @ [k']\<rparr>)"

definition api_key_refused :: "api_key \<Rightarrow> world \<Rightarrow> bool" where
  \<comment> \<open>the primary key, the unique secret and the index on the names of a service's live keys\<close>
  "api_key_refused k w \<longleftrightarrow>
     (\<exists>r \<in> set (w_api_keys w).
        k_id r = k_id k \<or> k_secret r = k_secret k
        \<or> (k_service_id r = k_service_id k \<and> k_name r = k_name k
           \<and> k_expiry_date r = None \<and> k_expiry_date k = None))"

definition save_model_api_key :: "env \<Rightarrow> auth_lib \<Rightarrow> api_key \<Rightarrow> unit op" where
  "save_model_api_key env lib k =
     autocommit (\<lambda>w.
       let (s, w1) = create_uuid env w;
           k' = k\<lparr>k_secret := au_sign_secret lib (uuid_str s)\<rparr>
       in if api_key_refused k' w1 then (Inl (Db OtherSQLAlchemyError), w1)
          else (Inr (), insert_api_key k' w1))"

definition expire_api_key :: "uuid \<Rightarrow> uuid \<Rightarrow> unit op" where
  "expire_api_key service_id key_id =
     autocommit (\<lambda>w.
       case query_one (Db NoResultFound) (Db MultipleResultsFound)
              (\<lambda>k. k_id k = key_id \<and> k_service_id k = service_id) (w_api_keys w) of
         Inl e \<Rightarrow> (Inl e, w)
       | Inr k \<Rightarrow> (Inr (), change_api_key (k\<lparr>k_expiry_date := Some (w_now w)\<rparr>) w))"

definition get_model_api_key :: "uuid \<Rightarrow> uuid \<Rightarrow> world \<Rightarrow> api_key result" where
  \<comment> \<open>\<open>get_model_api_keys\<close> with an id\<close>
  "get_model_api_key service_id i w =
     query_one (Db NoResultFound) (Db MultipleResultsFound)
       (\<lambda>k. k_id k = i \<and> k_service_id k = service_id \<and> k_expiry_date k = None) (w_api_keys w)"

definition get_model_api_keys :: "uuid \<Rightarrow> world \<Rightarrow> api_key list" where
  \<comment> \<open>and without one\<close>
  "get_model_api_keys service_id w =
     filter (\<lambda>k. k_service_id k = service_id
                 \<and> (case k_expiry_date k of None \<Rightarrow> True
                    | Some e \<Rightarrow> midnight_of (date_of e) > w_now w - days 7)) (w_api_keys w)"

definition get_unsigned_secrets :: "auth_lib \<Rightarrow> uuid \<Rightarrow> world \<Rightarrow> string list" where
  "get_unsigned_secrets lib service_id w =
     map (api_key_secret lib)
       (filter (\<lambda>k. k_service_id k = service_id \<and> k_expiry_date k = None) (w_api_keys w))"

definition get_unsigned_secret :: "auth_lib \<Rightarrow> uuid \<Rightarrow> world \<Rightarrow> string result" where
  "get_unsigned_secret lib key_id w =
     map_sum id (api_key_secret lib)
       (query_one (Db NoResultFound) (Db MultipleResultsFound)
          (\<lambda>k. k_id k = key_id \<and> k_expiry_date k = None) (w_api_keys w))"

section \<open>Requests\<close>

definition requires_internal_auth :: "auth_lib \<Rightarrow> string \<Rightarrow> string option \<Rightarrow> string result" where
  \<comment> \<open>the client the request then acts for\<close>
  "requires_internal_auth lib expected header =
     (case map_of (au_internal_client_api_keys lib) expected of
        None \<Rightarrow> Inl (Py TypeError)
      | Some _ \<Rightarrow>
          res_bind (get_auth_token header) (\<lambda>token.
          res_bind (get_token_issuer lib token) (\<lambda>client.
          if client \<noteq> expected
          then Inl (AuthError ''Unauthorized: not allowed to perform this action'' 401)
          else
            res_bind (decode_jwt_token lib token id (\<lambda>_. None)
                (the (map_of (au_internal_client_api_keys lib) client))) (\<lambda>_. Inr client))))"

definition requires_admin_auth :: "auth_lib \<Rightarrow> string option \<Rightarrow> string result" where
  "requires_admin_auth lib = requires_internal_auth lib (au_admin_client_id lib)"

definition requires_functional_test_auth :: "auth_lib \<Rightarrow> string option \<Rightarrow> string result" where
  "requires_functional_test_auth lib = requires_internal_auth lib (au_functional_tests_client_id lib)"

definition requires_auth :: "auth_lib \<Rightarrow> string option \<Rightarrow> world \<Rightarrow> (service \<times> api_key) result" where
  \<comment> \<open>the service and the API key the request then acts for\<close>
  "requires_auth lib header w =
     res_bind (get_auth_token header) (\<lambda>token.
     res_bind (get_token_issuer lib token) (\<lambda>issuer.
     case parse_uuid issuer of
       None \<Rightarrow> Inl (AuthError ''Invalid token: service id is not the right data type'' 403)
     | Some service_id \<Rightarrow>
         (case dao_fetch_service_by_id service_id False w of
            Inl (Db NoResultFound) \<Rightarrow> Inl (AuthError ''Invalid token: service not found'' 403)
          | Inl e \<Rightarrow> Inl e
          | Inr s \<Rightarrow>
              if get_model_api_keys (svc_id s) w = []
              then Inl (AuthError ''Invalid token: service has no API keys'' 403)
              else if \<not> svc_active s
              then Inl (AuthError ''Invalid token: service is archived'' 403)
              else res_bind (decode_jwt_token lib token (api_key_secret lib) k_expiry_date
                     (get_model_api_keys (svc_id s) w)) (\<lambda>k. Inr (s, k)))))"

section \<open>Versions of a key\<close>

interpretation api_keys: versioned_store w_api_keys w_api_key_history k_id k_version
    insert_api_key change_api_key
  by unfold_locales (auto simp: insert_api_key_def change_api_key_def Let_def)

definition api_key_versions_ok :: "world \<Rightarrow> bool" where
  "api_key_versions_ok w \<longleftrightarrow> versions_ok k_id k_version (w_api_keys w) (w_api_key_history w)"

lemma api_key_versions_iff: "api_key_versions_ok = api_keys.all_versions"
  by (simp add: fun_eq_iff api_key_versions_ok_def api_keys.all_versions_def)

lemma rollback_api_keys [simp]:
  "w_api_keys (rollback_to w0 w) = w_api_keys w0" "w_api_key_history (rollback_to w0 w) = w_api_key_history w0"
  by (simp_all add: rollback_to_def)

lemma save_api_key_versions:
  assumes "api_key_versions_ok w"
  shows "api_key_versions_ok (snd (save_model_api_key env lib k w))"
proof -
  let ?w = "snd (create_uuid env w)"
  have w: "api_keys.all_versions ?w"
    using assms by (simp add: api_key_versions_iff [symmetric] api_key_versions_ok_def create_uuid_def)
  have "api_keys.all_versions (insert_api_key k' ?w)" if "\<not> api_key_refused k' ?w" for k'
    by (rule api_keys.insert_keeps_versions [OF w]) (use that in \<open>auto simp: api_key_refused_def\<close>)
  then show ?thesis
    using assms
    by (auto simp: save_model_api_key_def autocommit_def Let_def split_beta api_key_versions_iff
        api_keys.all_versions_def)
qed

lemma expire_api_key_versions:
  assumes "api_key_versions_ok w"
  shows "api_key_versions_ok (snd (expire_api_key service_id i w))"
proof (cases "query_one (Db NoResultFound) (Db MultipleResultsFound)
    (\<lambda>k. k_id k = i \<and> k_service_id k = service_id) (w_api_keys w)")
  case (Inl e)
  then show ?thesis using assms by (simp add: expire_api_key_def autocommit_def)
next
  case (Inr k)
  have "api_keys.all_versions (change_api_key (k\<lparr>k_expiry_date := Some (w_now w)\<rparr>) w)"
    by (rule api_keys.change_keeps_versions [where old = k])
      (use assms query_one_InrD [OF Inr] in \<open>simp_all add: api_key_versions_iff\<close>)
  then show ?thesis using Inr by (simp add: expire_api_key_def autocommit_def api_key_versions_iff)
qed

section \<open>Who gets in\<close>

lemma decode_InrD:
  "decode_jwt_token lib token secret expiry ks = Inr k \<Longrightarrow>
     k \<in> set ks \<and> au_decode lib token (secret k) = None \<and> expiry k = None"
  by (induction ks) (auto split: option.splits token_error.splits if_splits)

lemma decode_finds:
  assumes "k \<in> set ks" "expiry k = None" "au_decode lib token (secret k) = None"
    and "\<And>k'. k' \<in> set ks \<Longrightarrow> k' \<noteq> k \<Longrightarrow> au_decode lib token (secret k') = Some TokenDecodeError"
  shows "decode_jwt_token lib token secret expiry ks = Inr k"
  using assms
proof (induction ks)
  case Nil
  then show ?case by simp
next
  case (Cons k' ks)
  then show ?case by (cases "k' = k") auto
qed

lemma requires_auth_InrD:
  assumes "requires_auth lib header w = Inr (s, k)"
  obtains token issuer where
    "get_auth_token header = Inr token" "get_token_issuer lib token = Inr issuer"
    "parse_uuid issuer = Some (svc_id s)" "s \<in> set (w_services w)" "svc_active s"
    "k \<in> set (get_model_api_keys (svc_id s) w)"
    "au_decode lib token (api_key_secret lib k) = None" "k_expiry_date k = None"
proof -
  obtain token where t: "get_auth_token header = Inr token"
    using assms by (auto simp: requires_auth_def res_bind_Inr_iff)
  obtain issuer where i: "get_token_issuer lib token = Inr issuer"
    using assms t by (auto simp: requires_auth_def res_bind_Inr_iff)
  obtain sid where p: "parse_uuid issuer = Some sid"
    using assms t i by (auto simp: requires_auth_def split: option.splits)
  obtain s' where s': "dao_fetch_service_by_id sid False w = Inr s'"
    using assms t i p by (auto simp: requires_auth_def split: sum.splits exn.splits db_exn.splits)
  have id: "svc_id s' = sid" "s' \<in> set (w_services w)"
    using s' by (auto simp: dao_fetch_service_by_id_def dest: query_one_InrD)
  have act: "svc_active s'"
    and d: "decode_jwt_token lib token (api_key_secret lib) k_expiry_date (get_model_api_keys sid w) = Inr k"
    and "s = s'"
    using assms t i p s' id(1) by (auto simp: requires_auth_def res_bind_Inr_iff split: if_splits)
  then show ?thesis using that [OF t i] p id decode_InrD [OF d] by simp
qed

lemma only_key_accepted:
  assumes "get_auth_token header = Inr token" "au_issuer lib token = Inr issuer"
    and "parse_uuid issuer = Some (svc_id s)" "distinct_rows svc_id (w_services w)"
    and "s \<in> set (w_services w)" "svc_active s"
    and k: "k \<in> set (w_api_keys w)" "k_service_id k = svc_id s" "k_expiry_date k = None"
      "au_decode lib token (api_key_secret lib k) = None"
    and others: "\<And>k'. k' \<in> set (w_api_keys w) \<Longrightarrow> k' \<noteq> k \<Longrightarrow>
      au_decode lib token (api_key_secret lib k') = Some TokenDecodeError"
  shows "requires_auth lib header w = Inr (s, k)"
proof -
  let ?ks = "get_model_api_keys (svc_id s) w"
  have mem: "k \<in> set ?ks" and sub: "set ?ks \<subseteq> set (w_api_keys w)"
    using k by (auto simp: get_model_api_keys_def)
  have "decode_jwt_token lib token (api_key_secret lib) k_expiry_date ?ks = Inr k"
    by (rule decode_finds [OF mem, of k_expiry_date lib token "api_key_secret lib"])
      (use k(3,4) others sub in auto)
  moreover have "dao_fetch_service_by_id (svc_id s) False w = Inr s"
    using query_one_key [OF assms(4), of "Db NoResultFound" "Db MultipleResultsFound" "svc_id s" "\<lambda>_. True"]
      find_row_eqI [OF assms(4,5)]
    by (simp add: dao_fetch_service_by_id_def)
  moreover have "?ks \<noteq> []" using mem by auto
  ultimately show ?thesis
    using assms by (simp add: requires_auth_def get_token_issuer_def)
qed

text \<open>
  C11: A request is authorised for a service only if the issuer of its token
  is the id of that service, the service is active, and the token was signed with the secret of
  an API key of that very service that has not been revoked.
\<close>

theorem auth_only_own_live_key:
  assumes "requires_auth lib header w = Inr (s, k)"
  shows "\<exists>token issuer. get_auth_token header = Inr token \<and> au_issuer lib token = Inr issuer
      \<and> parse_uuid issuer = Some (svc_id s) \<and> s \<in> set (w_services w) \<and> svc_active s
      \<and> k \<in> set (w_api_keys w) \<and> k_service_id k = svc_id s \<and> k_expiry_date k = None
      \<and> au_decode lib token (api_key_secret lib k) = None"
proof -
  from assms obtain token issuer where a:
    "get_auth_token header = Inr token" "get_token_issuer lib token = Inr issuer"
    "parse_uuid issuer = Some (svc_id s)" "s \<in> set (w_services w)" "svc_active s"
    "k \<in> set (get_model_api_keys (svc_id s) w)"
    "au_decode lib token (api_key_secret lib k) = None" "k_expiry_date k = None"
    by (rule requires_auth_InrD)
  have "au_issuer lib token = Inr issuer"
    using a(2) by (auto simp: get_token_issuer_def split: sum.splits token_error.splits)
  then show ?thesis using a by (auto simp: get_model_api_keys_def)
qed

definition sample_auth_lib :: auth_lib where
  \<comment> \<open>a token is the issuer, and every secret decodes it\<close>
  "sample_auth_lib =
     \<lparr>au_issuer = Inr, au_decode = (\<lambda>t s. if s = ''secret'' then None else Some TokenDecodeError),
      au_internal_client_api_keys = [(''notify-admin'', [''old'', ''secret''])],
      au_admin_client_id = ''notify-admin'', au_functional_tests_client_id = ''notify-functional-tests'',
      au_sign_secret = id, au_unsign_secret = id\<rparr>"

definition ten_id :: string where
  "ten_id = ''00000000-0000-0000-0000-00000000000a''"

definition auth_key :: "uuid \<Rightarrow> string \<Rightarrow> time option \<Rightarrow> api_key" where
  "auth_key i secret expiry =
     \<lparr>k_id = i, k_name = secret, k_secret = secret, k_service_id = 10, k_key_type = NormalKey,
      k_expiry_date = expiry, k_created_at = 0, k_updated_at = None, k_created_by_id = 5, k_version = 1\<rparr>"

definition auth_world :: world where
  "auth_world = sample_world\<lparr>w_services := [sample_service],
     w_api_keys := [auth_key 30 ''old'' None, auth_key 31 ''secret'' None],
     w_api_key_history := [auth_key 30 ''old'' None, auth_key 31 ''secret'' None]\<rparr>"

lemma parse_ten_id: "parse_uuid ten_id = Some 10"
  by code_simp

lemma sample_bearer: "get_auth_token (Some (''Bearer '' @ ten_id)) = Inr ten_id"
  by code_simp

lemma auth_world_accepts:
  "requires_auth sample_auth_lib (Some (''Bearer '' @ ten_id)) auth_world
     = Inr (sample_service, auth_key 31 ''secret'' None)"
  by (rule only_key_accepted [OF sample_bearer, where issuer = ten_id])
    (auto simp: sample_auth_lib_def parse_ten_id auth_world_def auth_key_def sample_service_def
      distinct_rows_def api_key_secret_def)

theorem auth_only_own_live_key_witness:
  "\<exists>token issuer. get_auth_token (Some (''Bearer '' @ ten_id)) = Inr token
      \<and> au_issuer sample_auth_lib token = Inr issuer
      \<and> parse_uuid issuer = Some (svc_id sample_service) \<and> sample_service \<in> set (w_services auth_world)
      \<and> svc_active sample_service \<and> auth_key 31 ''secret'' None \<in> set (w_api_keys auth_world)
      \<and> k_service_id (auth_key 31 ''secret'' None) = svc_id sample_service
      \<and> k_expiry_date (auth_key 31 ''secret'' None) = None
      \<and> au_decode sample_auth_lib token (api_key_secret sample_auth_lib (auth_key 31 ''secret'' None)) = None"
  by (rule auth_only_own_live_key [OF auth_world_accepts])

lemma expire_rows:
  assumes d: "distinct_rows k_id (w_api_keys w)" and e: "expire_api_key service_id i w = (Inr (), v)"
    and k: "k \<in> set (w_api_keys v)" "k_id k = i"
  shows "k_expiry_date k \<noteq> None"
proof -
  let ?q = "query_one (Db NoResultFound) (Db MultipleResultsFound)
              (\<lambda>k. k_id k = i \<and> k_service_id k = service_id) (w_api_keys w)"
  obtain r where r: "?q = Inr r" and v: "v = change_api_key (r\<lparr>k_expiry_date := Some (w_now w)\<rparr>) w"
    using e by (cases ?q) (auto simp: expire_api_key_def autocommit_def)
  have "k_id r = i" using query_one_InrD [OF r] by simp
  then have "set (w_api_keys v) = insert (r\<lparr>k_expiry_date := Some (w_now w), k_version := k_version r + 1,
      k_updated_at := Some (w_now w)\<rparr>) {x \<in> set (w_api_keys w). k_id x \<noteq> i}"
    using set_save_row_distinct [OF d] by (simp add: v change_api_key_def Let_def)
  then show ?thesis using k by auto
qed

text \<open>
  Once \<open>expire_api_key\<close> has revoked a key, no request is ever authorised
  with it, whatever header it sends and however much later (the key stays in the table, and in
  the keys that are tried, for seven days).
\<close>

theorem revoked_key_refused:
  assumes "distinct_rows k_id (w_api_keys w)" "expire_api_key service_id i w = (Inr (), v)"
    and "requires_auth lib header (v\<lparr>w_now := later\<rparr>) = Inr (s, k)"
  shows "k_id k \<noteq> i"
proof -
  from assms(3) have "k \<in> set (get_model_api_keys (svc_id s) (v\<lparr>w_now := later\<rparr>))" "k_expiry_date k = None"
    by (rule requires_auth_InrD, blast)+
  then show ?thesis
    using expire_rows [OF assms(1,2), of k] by (auto simp: get_model_api_keys_def)
qed

lemma expire_auth_world:
  "expire_api_key 10 30 auth_world = (Inr (), change_api_key (auth_key 30 ''old'' (Some 0)) auth_world)"
  by (simp add: expire_api_key_def autocommit_def query_one_def auth_world_def auth_key_def sample_world_def)

theorem revoked_key_refused_witness:
  "k_id (auth_key 31 ''secret'' None) \<noteq> 30"
proof (rule revoked_key_refused [OF _ expire_auth_world])
  show "distinct_rows k_id (w_api_keys auth_world)"
    by (simp add: auth_world_def auth_key_def distinct_rows_def)
  show "requires_auth sample_auth_lib (Some (''Bearer '' @ ten_id))
      ((change_api_key (auth_key 30 ''old'' (Some 0)) auth_world)\<lparr>w_now := 5\<rparr>)
      = Inr (sample_service, auth_key 31 ''secret'' None)"
    by (rule only_key_accepted [OF sample_bearer, where issuer = ten_id])
      (auto simp: sample_auth_lib_def parse_ten_id auth_world_def auth_key_def sample_service_def
        distinct_rows_def api_key_secret_def change_api_key_def Let_def)
qed

text \<open>
  The converse. A bearer token that names an active service in the table and
  that only one of the service's keys decodes is accepted with this key, provided the key is not
  revoked: no other key of the service gets in the way.
\<close>

theorem live_key_accepted:
  assumes "get_auth_token header = Inr token" "au_issuer lib token = Inr issuer"
    and "parse_uuid issuer = Some (svc_id s)" "distinct_rows svc_id (w_services w)"
    and "s \<in> set (w_services w)" "svc_active s"
    and k: "k \<in> set (w_api_keys w)" "k_service_id k = svc_id s" "k_expiry_date k = None"
      "au_decode lib token (api_key_secret lib k) = None"
    and others: "\<And>k'. k' \<in> set (w_api_keys w) \<Longrightarrow> k' \<noteq> k \<Longrightarrow>
      au_decode lib token (api_key_secret lib k') = Some TokenDecodeError"
  shows "requires_auth lib header w = Inr (s, k)"
  using assms by (rule only_key_accepted)

theorem live_key_accepted_witness:
  "requires_auth sample_auth_lib (Some (''Bearer '' @ ten_id)) auth_world
     = Inr (sample_service, auth_key 31 ''secret'' None)"
  by (rule live_key_accepted [OF sample_bearer, where issuer = ten_id])
    (auto simp: sample_auth_lib_def parse_ten_id auth_world_def auth_key_def sample_service_def
      distinct_rows_def api_key_secret_def)

text \<open>
  Saving a new API key and revoking one keep, next to the table, a history
  that has every version of every key from 1 to its current one, exactly once, the current row
  being the last.
\<close>

theorem api_key_versions:
  assumes "api_key_versions_ok w"
  shows "api_key_versions_ok (snd (save_model_api_key env lib k w))
    \<and> api_key_versions_ok (snd (expire_api_key service_id i w))"
  using save_api_key_versions [OF assms] expire_api_key_versions [OF assms] by blast

theorem api_key_versions_witness:
  "api_key_versions_ok (snd (save_model_api_key sample_env sample_auth_lib (auth_key 32 [] None) auth_world))
   \<and> api_key_versions_ok (snd (expire_api_key 10 31 auth_world))"
proof -
  have "api_key_versions_ok auth_world"
    by (auto simp: api_key_versions_ok_def versions_ok_def auth_world_def auth_key_def distinct_rows_def)
  then show ?thesis
    using api_key_versions [of auth_world sample_env sample_auth_lib "auth_key 32 [] None" 10 31] by simp
qed

end
