(* ===== verification/Users.thy ===== *)
theory Users
  imports Auth
begin

text \<open>
  Users and how they sign in: \<^verbatim>\<open>app/dao/users_dao.py\<close>, \<^verbatim>\<open>app/dao/permissions_dao.py\<close>,
  \<^verbatim>\<open>app/dao/organisation_user_permissions_dao.py\<close>, the parts of \<^verbatim>\<open>app/dao/services_dao.py\<close> and
  \<^verbatim>\<open>app/dao/organisation_dao.py\<close> on membership, and the endpoints of \<^verbatim>\<open>app/user/rest.py\<close>. Password
  hashing and the signing of links are parameters; the digits \<open>SystemRandom\<close> draws are a stream.
  An endpoint gets the loaded body of its request.
\<close>

record account_lib =
  ac_hash :: "string \<Rightarrow> string"
  ac_check_hash :: "string \<Rightarrow> string \<Rightarrow> bool"
  ac_random_digit :: "nat \<Rightarrow> nat"
  ac_url_with_token :: "string \<Rightarrow> string \<Rightarrow> string option \<Rightarrow> string"
  ac_template_id :: "string \<Rightarrow> uuid"
  ac_notify_service_id :: uuid
  ac_admin_base_url :: string
  ac_notify_email_domain :: string
  ac_international_sender :: string
  ac_numeric_sender :: "string \<Rightarrow> bool"
  ac_phone_of_none :: "phone result"
  ac_max_verify_code_count :: nat
  ac_max_failed_login_count :: int

section \<open>Secret codes\<close>

text \<open>
  \<open>output[index - 1]\<close> is the last element when \<open>index\<close> is 0. The state is the list and how many
  digits have been drawn; a loop that never ends has no result.
\<close>

definition previous_index :: "nat \<Rightarrow> nat \<Rightarrow> nat" where
  "previous_index len i = (if i = 0 then len - 1 else i - 1)"

partial_function (option) draw_digit ::
  "(nat \<Rightarrow> nat) \<Rightarrow> nat \<Rightarrow> string option list \<Rightarrow> nat \<Rightarrow> (string option list \<times> nat) option" where
  "draw_digit rnd i output drawn =
     (if output ! i = None \<or> output ! i = output ! previous_index (length output) i
      then draw_digit rnd i (output[i := Some (nat_str (rnd drawn))]) (Suc drawn)
      else Some (output, drawn))"

fun draw_digits ::
  "(nat \<Rightarrow> nat) \<Rightarrow> nat list \<Rightarrow> string option list \<Rightarrow> nat \<Rightarrow> (string option list \<times> nat) option" where
  "draw_digits rnd [] output drawn = Some (output, drawn)"
| "draw_digits rnd (i # is) output drawn =
     Option.bind (draw_digit rnd i output drawn) (\<lambda>(output', drawn'). draw_digits rnd is output' drawn')"

definition get_non_repeating_random_digits ::
  "(nat \<Rightarrow> nat) \<Rightarrow> nat \<Rightarrow> nat \<Rightarrow> (string list \<times> nat) option" where
  "get_non_repeating_random_digits rnd n drawn =
     map_option (\<lambda>(output, drawn'). (map the output, drawn'))
       (draw_digits rnd [0..<n] (replicate n None) drawn)"

definition create_secret_code :: "(nat \<Rightarrow> nat) \<Rightarrow> nat \<Rightarrow> string option" where
  "create_secret_code rnd drawn =
     map_option (\<lambda>(digits, _). concat digits) (get_non_repeating_random_digits rnd 5 drawn)"

section \<open>Rows\<close>

definition save_user :: "user \<Rightarrow> world \<Rightarrow> world" where
  \<comment> \<open>\<open>db.session.add\<close> and a commit: an update sets \<open>updated_at\<close>\<close>
  "save_user u w =
     w\<lparr>w_users :=
         (if u_id u \<in> u_id ` set (w_users w)
          then save_row u_id (u\<lparr>u_updated_at := Some (w_now w)\<rparr>) (w_users w)
          else w_users w @ [u])\<rparr>"

definition save_user_attribute :: "user \<Rightarrow> (user \<Rightarrow> user) \<Rightarrow> world \<Rightarrow> world" where
  "save_user_attribute usr update w =
     w\<lparr>w_users := update_rows (\<lambda>u. u_id u = u_id usr)
                    (\<lambda>u. (update u)\<lparr>u_id := u_id u, u_updated_at := Some (w_now w)\<rparr>) (w_users w)\<rparr>"

definition set_password :: "account_lib \<Rightarrow> string \<Rightarrow> user \<Rightarrow> user" where
  "set_password lib password u = u\<lparr>u_password := ac_hash lib password\<rparr>"

definition check_password :: "account_lib \<Rightarrow> string \<Rightarrow> user \<Rightarrow> bool" where
  "check_password lib password u = ac_check_hash lib password (u_password u)"

definition save_model_user :: "account_lib \<Rightarrow> user \<Rightarrow> string option \<Rightarrow> bool \<Rightarrow> world \<Rightarrow> world" where
  \<comment> \<open>without an \<open>update_dict\<close>\<close>
  "save_model_user lib u password validated_email_access w =
     (let u1 = (case password of
                  None \<Rightarrow> u
                | Some p \<Rightarrow> if p = [] then u
                    else (set_password lib p u)\<lparr>u_password_changed_at := w_now w\<rparr>);
          u2 = (if validated_email_access then u1\<lparr>u_email_access_validated_at := w_now w\<rparr> else u1)
      in save_user u2 w)"

definition create_user_code ::
  "env \<Rightarrow> account_lib \<Rightarrow> user \<Rightarrow> string \<Rightarrow> ntype \<Rightarrow> world \<Rightarrow> verify_code \<times> world" where
  "create_user_code env lib u code t w =
     (let (i, w1) = create_uuid env w;
          c = \<lparr>vc_id = i, vc_user_id = u_id u, vc_code = ac_hash lib code, vc_code_type = t,
               vc_expiry_datetime = w_now w + minutes 30, vc_code_used = False, vc_created_at = w_now w\<rparr>
      in (c, w1\<lparr>w_verify_codes := w_verify_codes w1 @ [c]\<rparr>))"

definition get_user_code ::
  "account_lib \<Rightarrow> user \<Rightarrow> string \<Rightarrow> string \<Rightarrow> world \<Rightarrow> verify_code option" where
  \<comment> \<open>newest first; rows created at the same time in the order of the table\<close>
  "get_user_code lib u code code_type w =
     find (\<lambda>c. ac_check_hash lib code (vc_code c))
       (sort_key (\<lambda>c. - vc_created_at c)
         (filter (\<lambda>c. vc_user_id c = u_id u \<and> ntype_name (vc_code_type c) = code_type) (w_verify_codes w)))"

definition delete_codes_older_created_more_than_a_day_ago :: "world \<Rightarrow> nat \<times> world" where
  "delete_codes_older_created_more_than_a_day_ago w =
     (let old = (\<lambda>c. vc_created_at c < w_now w - seconds (24 * 3600))
      in (length (filter old (w_verify_codes w)),
          w\<lparr>w_verify_codes := delete_rows old (w_verify_codes w)\<rparr>))"

definition use_user_code :: "uuid \<Rightarrow> unit op" where
  "use_user_code i w =
     (case find_row vc_id i (w_verify_codes w) of
        None \<Rightarrow> (Inl (Py AttributeError), w)
      | Some c \<Rightarrow>
          (Inr (), w\<lparr>w_verify_codes := save_row vc_id (c\<lparr>vc_code_used := True\<rparr>) (w_verify_codes w)\<rparr>))"

definition delete_user_verify_codes :: "user \<Rightarrow> world \<Rightarrow> world" where
  "delete_user_verify_codes u w =
     w\<lparr>w_verify_codes := delete_rows (\<lambda>c. vc_user_id c = u_id u) (w_verify_codes w)\<rparr>"

definition count_user_verify_codes :: "user \<Rightarrow> world \<Rightarrow> nat" where
  "count_user_verify_codes u w =
     length (filter (\<lambda>c. vc_user_id c = u_id u \<and> vc_expiry_datetime c > w_now w \<and> \<not> vc_code_used c)
       (w_verify_codes w))"

definition get_user_by_id :: "uuid \<Rightarrow> world \<Rightarrow> user result" where
  "get_user_by_id i w =
     query_one (Db NoResultFound) (Db MultipleResultsFound) (\<lambda>u. u_id u = i) (w_users w)"

definition get_user_by_email :: "string \<Rightarrow> world \<Rightarrow> user result" where
  "get_user_by_email email w =
     query_one (Db NoResultFound) (Db MultipleResultsFound)
       (\<lambda>u. py_lower (u_email_address u) = py_lower email) (w_users w)"

definition get_users_by_partial_email :: "string \<Rightarrow> world \<Rightarrow> user list" where
  "get_users_by_partial_email email w =
     filter (\<lambda>u. ilike (contains_pattern (escape_special_characters email)) (u_email_address u)) (w_users w)"

definition increment_failed_login_count :: "user \<Rightarrow> world \<Rightarrow> world" where
  "increment_failed_login_count u = save_user (u\<lparr>u_failed_login_count := u_failed_login_count u + 1\<rparr>)"

definition reset_failed_login_count :: "user \<Rightarrow> world \<Rightarrow> world" where
  "reset_failed_login_count u w =
     (if u_failed_login_count u > 0 then save_user (u\<lparr>u_failed_login_count := 0\<rparr>) w else w)"

definition update_user_password :: "account_lib \<Rightarrow> user \<Rightarrow> string \<Rightarrow> world \<Rightarrow> world" where
  "update_user_password lib u password w =
     save_user ((set_password lib password u)\<lparr>u_password_changed_at := w_now w\<rparr>) w"

definition get_users_for_research :: "time \<Rightarrow> time \<Rightarrow> world \<Rightarrow> user list" where
  "get_users_for_research start_date end_date w =
     filter (\<lambda>u. u_state u = ''active'' \<and> u_take_part_in_research u
                 \<and> start_date \<le> u_created_at u \<and> u_created_at u < end_date) (w_users w)"

record user_filter =
  uf_logged_in_start :: "time option"
  uf_logged_in_end :: "time option"
  uf_created_start :: "time option"
  uf_created_end :: "time option"
  uf_take_part_in_research :: "bool option"
  uf_state :: "string option"

definition get_users_list :: "user_filter \<Rightarrow> world \<Rightarrow> user list" where
  \<comment> \<open>a comparison with a null column is not true\<close>
  "get_users_list f w =
     filter (\<lambda>u.
         (case uf_state f of None \<Rightarrow> True | Some s \<Rightarrow> u_state u = s)
       \<and> (case uf_logged_in_start f of None \<Rightarrow> True
          | Some t \<Rightarrow> (case u_logged_in_at u of None \<Rightarrow> False | Some l \<Rightarrow> t \<le> l))
       \<and> (case uf_logged_in_end f of None \<Rightarrow> True
          | Some t \<Rightarrow> (case u_logged_in_at u of None \<Rightarrow> False | Some l \<Rightarrow> l \<le> t))
       \<and> (case uf_created_start f of None \<Rightarrow> True | Some t \<Rightarrow> t \<le> u_created_at u)
       \<and> (case uf_created_end f of None \<Rightarrow> True | Some t \<Rightarrow> u_created_at u \<le> t)
       \<and> (case uf_take_part_in_research f of None \<Rightarrow> True | Some b \<Rightarrow> u_take_part_in_research u = b))
       (w_users w)"

section \<open>Permissions and membership\<close>

definition default_service_permissions :: "permission list" where
  "default_service_permissions =
     [ManageUsers, ManageTemplates, ManageSettings, SendTexts, SendEmails, SendLetters,
      ManageApiKeys, ViewActivity]"

definition permission_row :: "uuid \<Rightarrow> uuid \<Rightarrow> world \<Rightarrow> permission \<Rightarrow> user_permission" where
  "permission_row user_id service_id w p =
     \<lparr>pm_service_id = Some service_id, pm_user_id = user_id, pm_permission = p, pm_created_at = w_now w\<rparr>"

definition add_permissions :: "uuid \<Rightarrow> uuid \<Rightarrow> permission list \<Rightarrow> unit op" where
  \<comment> \<open>the flush of the new rows, under the table's unique constraint\<close>
  "add_permissions user_id service_id ps w =
     (if distinct ps
         \<and> \<not> (\<exists>r \<in> set (w_permissions w). pm_user_id r = user_id \<and> pm_service_id r = Some service_id
                \<and> pm_permission r \<in> set ps)
      then (Inr (), w\<lparr>w_permissions := w_permissions w @ map (permission_row user_id service_id w) ps\<rparr>)
      else (Inl (Db OtherSQLAlchemyError), w))"

definition add_default_service_permissions_for_user :: "uuid \<Rightarrow> uuid \<Rightarrow> unit op" where
  "add_default_service_permissions_for_user user_id service_id =
     add_permissions user_id service_id default_service_permissions"

definition remove_user_service_permissions :: "uuid \<Rightarrow> uuid \<Rightarrow> world \<Rightarrow> world" where
  "remove_user_service_permissions user_id service_id w =
     w\<lparr>w_permissions :=
         delete_rows (\<lambda>r. pm_user_id r = user_id \<and> pm_service_id r = Some service_id) (w_permissions w)\<rparr>"

definition remove_user_service_permissions_for_all_services :: "uuid \<Rightarrow> world \<Rightarrow> world" where
  "remove_user_service_permissions_for_all_services user_id w =
     w\<lparr>w_permissions := delete_rows (\<lambda>r. pm_user_id r = user_id) (w_permissions w)\<rparr>"

definition set_user_service_permission :: "uuid \<Rightarrow> uuid \<Rightarrow> permission list \<Rightarrow> bool \<Rightarrow> unit op" where
  \<comment> \<open>with \<open>_commit\<close>; the other caller runs in a transaction of its own\<close>
  "set_user_service_permission user_id service_id ps replace =
     autocommit (\<lambda>w. add_permissions user_id service_id ps
       (if replace then remove_user_service_permissions user_id service_id w else w))"

definition service_is_active :: "uuid \<Rightarrow> world \<Rightarrow> bool" where
  "service_is_active i w =
     (case find_row svc_id i (w_services w) of None \<Rightarrow> False | Some s \<Rightarrow> svc_active s)"

definition get_permissions_by_user_id :: "uuid \<Rightarrow> world \<Rightarrow> user_permission list" where
  "get_permissions_by_user_id user_id w =
     filter (\<lambda>r. pm_user_id r = user_id
               \<and> (case pm_service_id r of None \<Rightarrow> False | Some i \<Rightarrow> service_is_active i w)) (w_permissions w)"

definition get_permissions_by_user_id_and_service_id :: "uuid \<Rightarrow> uuid \<Rightarrow> world \<Rightarrow> user_permission list" where
  "get_permissions_by_user_id_and_service_id user_id service_id w =
     filter (\<lambda>r. pm_user_id r = user_id \<and> pm_service_id r = Some service_id
               \<and> service_is_active service_id w) (w_permissions w)"

definition user_permissions :: "uuid \<Rightarrow> uuid \<Rightarrow> world \<Rightarrow> permission list" where
  \<comment> \<open>\<open>User.get_permissions(service_id)\<close>\<close>
  "user_permissions user_id service_id w =
     map pm_permission (get_permissions_by_user_id_and_service_id user_id service_id w)"

definition set_folders :: "uuid \<Rightarrow> uuid \<Rightarrow> uuid list \<Rightarrow> world \<Rightarrow> world" where
  \<comment> \<open>\<open>service_user.folders = \<dots>\<close>\<close>
  "set_folders user_id service_id ids w =
     w\<lparr>w_folders := update_rows (\<lambda>f. tf_service_id f = service_id)
         (\<lambda>f. f\<lparr>tf_users := filter (\<lambda>u. u \<noteq> user_id) (tf_users f)
                 @ (if tf_id f \<in> set ids then [user_id] else [])\<rparr>) (w_folders w)\<rparr>"

definition delete_service_user :: "uuid \<Rightarrow> uuid \<Rightarrow> world \<Rightarrow> world" where
  \<comment> \<open>the row of \<open>user_to_service\<close> goes with its folder permissions\<close>
  "delete_service_user user_id service_id w =
     (set_folders user_id service_id [] w)
       \<lparr>w_user_services := delete_rows (\<lambda>r. r = (user_id, service_id)) (w_user_services w)\<rparr>"

definition dao_add_user_to_service :: "uuid \<Rightarrow> uuid \<Rightarrow> permission list \<Rightarrow> uuid list \<Rightarrow> unit op" where
  \<comment> \<open>a folder of another service breaks the foreign key of \<open>user_folder_permissions\<close>\<close>
  "dao_add_user_to_service service_id user_id ps folder_ids =
     autocommit (\<lambda>w.
       if (user_id, service_id) \<in> set (w_user_services w)
          \<or> (\<exists>f \<in> set (dao_get_valid_template_folders_by_id folder_ids w). tf_service_id f \<noteq> service_id)
       then (Inl (Db OtherSQLAlchemyError), w)
       else op_bind (add_permissions user_id service_id ps) (\<lambda>_ w1.
         (Inr (), (set_folders user_id service_id folder_ids w1)
                    \<lparr>w_user_services := w_user_services w1 @ [(user_id, service_id)]\<rparr>)) w)"

definition dao_remove_user_from_service :: "uuid \<Rightarrow> uuid \<Rightarrow> unit op" where
  "dao_remove_user_from_service service_id user_id =
     autocommit (\<lambda>w.
       let w1 = remove_user_service_permissions user_id service_id w
       in case dao_get_service_user user_id service_id w1 of
            Inl e \<Rightarrow> (Inl e, w1)
          | Inr _ \<Rightarrow> (Inr (), delete_service_user user_id service_id w1))"

section \<open>Organisations\<close>

definition remove_user_organisation_permissions :: "uuid \<Rightarrow> uuid \<Rightarrow> world \<Rightarrow> world" where
  "remove_user_organisation_permissions user_id organisation_id w =
     w\<lparr>w_org_permissions :=
         delete_rows (\<lambda>r. op_user_id r = user_id \<and> op_organisation_id r = organisation_id)
           (w_org_permissions w)\<rparr>"

definition set_user_organisation_permission ::
  "uuid \<Rightarrow> uuid \<Rightarrow> string list \<Rightarrow> bool \<Rightarrow> unit op" where
  \<comment> \<open>with \<open>_commit\<close>; the enumeration has one permission\<close>
  "set_user_organisation_permission user_id organisation_id ps replace =
     autocommit (\<lambda>w.
       let w1 = (if replace then remove_user_organisation_permissions user_id organisation_id w else w)
       in if distinct ps \<and> set ps \<subseteq> {''can_make_services_live''}
             \<and> \<not> (\<exists>r \<in> set (w_org_permissions w1). op_user_id r = user_id
                    \<and> op_organisation_id r = organisation_id \<and> op_permission r \<in> set ps)
          then (Inr (), w1\<lparr>w_org_permissions := w_org_permissions w1
                  @ map (\<lambda>p. \<lparr>op_organisation_id = organisation_id, op_user_id = user_id,
                               op_permission = p\<rparr>) ps\<rparr>)
          else (Inl (Db OtherSQLAlchemyError), w1))"

definition get_organisation_permissions_by_user_id ::
  "uuid \<Rightarrow> world \<Rightarrow> organisation_user_permission list" where
  "get_organisation_permissions_by_user_id user_id w =
     filter (\<lambda>r. op_user_id r = user_id
               \<and> (case find_row o_id (op_organisation_id r) (w_organisations w) of
                    None \<Rightarrow> False | Some o' \<Rightarrow> o_active o')) (w_org_permissions w)"

definition dao_remove_user_from_organisation :: "uuid \<Rightarrow> uuid \<Rightarrow> world \<Rightarrow> world" where
  "dao_remove_user_from_organisation organisation_id user_id w =
     remove_user_organisation_permissions user_id organisation_id
       (w\<lparr>w_user_organisations := delete_rows (\<lambda>r. r = (user_id, organisation_id)) (w_user_organisations w)\<rparr>)"

section \<open>Archiving a user\<close>

definition user_services :: "uuid \<Rightarrow> world \<Rightarrow> service list" where
  "user_services user_id w = filter (\<lambda>s. (user_id, svc_id s) \<in> set (w_user_services w)) (w_services w)"

definition user_organisations :: "uuid \<Rightarrow> world \<Rightarrow> uuid list" where
  "user_organisations user_id w = map snd (filter (\<lambda>r. fst r = user_id) (w_user_organisations w))"

definition user_can_be_archived :: "user \<Rightarrow> world \<Rightarrow> bool" where
  "user_can_be_archived u w \<longleftrightarrow>
     list_all (\<lambda>s.
         let others = filter (\<lambda>x. u_state x = ''active'' \<and> u_id x \<noteq> u_id u) (service_users (svc_id s) w)
         in others \<noteq> []
            \<and> list_ex (\<lambda>x. ManageSettings \<in> set (user_permissions (u_id x) (svc_id s) w)) others)
       (filter svc_active (user_services (u_id u) w))"

definition loop_organisations :: "uuid list \<Rightarrow> uuid list" where
  \<comment> \<open>the ones the loop reaches: removing the user from the first takes it off the list that is
      being iterated, so the second is stepped over; its commit expires that list, and later
      removals leave it alone\<close>
  "loop_organisations orgs = (case orgs of [] \<Rightarrow> [] | x # rest \<Rightarrow> x # drop 1 rest)"

definition get_archived_db_column_value :: "string \<Rightarrow> world \<Rightarrow> string" where
  "get_archived_db_column_value column w =
     (let t = w_now w; s = time_of_day t div seconds 1
      in ''_archived_'' @ date_str (date_of t) @ ''-'' @ zfill 2 (int_str (s div 3600)) @ '':''
         @ zfill 2 (int_str (s div 60 mod 60)) @ '':'' @ zfill 2 (int_str (s mod 60)) @ ''_'' @ column)"

definition archived_user :: "account_lib \<Rightarrow> string \<Rightarrow> user \<Rightarrow> world \<Rightarrow> user" where
  \<comment> \<open>the new password is the text of a new UUID\<close>
  "archived_user lib password u w =
     u\<lparr>u_auth_type := EmailAuth, u_name := ''Archived user'',
       u_email_address := get_archived_db_column_value
         (uuid_str (u_id u) @ ''@'' @ ac_notify_email_domain lib) w,
       u_mobile_number := None, u_password := ac_hash lib password, u_platform_admin := False,
       u_current_session_id := Some 0, u_state := ''inactive''\<rparr>"

definition dao_archive_user :: "env \<Rightarrow> account_lib \<Rightarrow> user \<Rightarrow> unit op" where
  "dao_archive_user env lib u =
     autocommit (\<lambda>w.
       if \<not> user_can_be_archived u w
       then (Inl (invalid_request (''User can't be removed from a service - check all services have ''
              @ ''another team member with manage_settings'') 400), w)
       else
         let w1 = remove_user_service_permissions_for_all_services (u_id u) w;
             w2 = fold (\<lambda>r. delete_service_user (fst r) (snd r))
                    (dao_get_service_users_by_user_id (u_id u) w1) w1;
             w3 = fold (\<lambda>i. dao_remove_user_from_organisation i (u_id u))
                    (loop_organisations (user_organisations (u_id u) w2)) w2;
             (i, w4) = create_uuid env w3
         in (Inr (), save_user (archived_user lib (uuid_str i) u w4) w4))"

section \<open>Links\<close>

fun json_escape :: "char \<Rightarrow> string" where
  "json_escape c =
     (if c = CHR 0x22 then [CHR 0x5C, CHR 0x22]
      else if c = CHR 0x5C then [CHR 0x5C, CHR 0x5C]
      else if c = CHR 0x0A then [CHR 0x5C, CHR ''n'']
      else if c = CHR 0x0D then [CHR 0x5C, CHR ''r'']
      else if c = CHR 0x09 then [CHR 0x5C, CHR ''t'']
      else [c])"

definition json_string :: "string \<Rightarrow> string" where
  "json_string s = [CHR 0x22] @ concat (map json_escape s) @ [CHR 0x22]"

definition json_object :: "(string \<times> string) list \<Rightarrow> string" where
  \<comment> \<open>\<open>json.dumps\<close> of a dictionary of printable texts\<close>
  "json_object kvs =
     ''{'' @ py_join '', '' (map (\<lambda>(k, v). json_string k @ '': '' @ json_string v) kvs) @ ''}''"

definition unreserved :: "char \<Rightarrow> bool" where
  "unreserved c \<longleftrightarrow>
     (let n = of_char c :: nat
      in 48 \<le> n \<and> n \<le> 57 \<or> 65 \<le> n \<and> n \<le> 90 \<or> 97 \<le> n \<and> n \<le> 122) \<or> c \<in> set ''_.-~''"

definition quote_plus :: "string \<Rightarrow> string" where
  "quote_plus s =
     concat (map (\<lambda>c. if unreserved c then [c] else if c = CHR '' '' then ''+''
                  else CHR ''%'' # py_upper (zfill 2 (hex_str (of_char c)))) s)"

definition datetime_str :: "time \<Rightarrow> string" where
  \<comment> \<open>\<open>str(datetime)\<close>\<close>
  "datetime_str t =
     (let s = time_of_day t div seconds 1; micro = t mod seconds 1
      in date_str (date_of t) @ '' '' @ zfill 2 (int_str (s div 3600)) @ '':''
         @ zfill 2 (int_str (s div 60 mod 60)) @ '':'' @ zfill 2 (int_str (s mod 60))
         @ (if micro = 0 then [] else ''.'' @ zfill 6 (int_str micro)))"

definition with_next :: "string option \<Rightarrow> string \<Rightarrow> string" where
  "with_next next_redirect url =
     (case next_redirect of None \<Rightarrow> url
      | Some n \<Rightarrow> if n = [] then url else url @ ''?next='' @ quote_plus n)"

definition create_reset_password_url ::
  "account_lib \<Rightarrow> string \<Rightarrow> string option \<Rightarrow> string option \<Rightarrow> world \<Rightarrow> string" where
  "create_reset_password_url lib email next_redirect base_url w =
     with_next next_redirect
       (ac_url_with_token lib
         (json_object [(''email'', email), (''created_at'', datetime_str (w_now w))]) ''/new-password/'' base_url)"

definition create_verification_url :: "account_lib \<Rightarrow> user \<Rightarrow> string option \<Rightarrow> string" where
  "create_verification_url lib u base_url =
     ac_url_with_token lib
       (json_object [(''user_id'', uuid_str (u_id u)), (''email'', u_email_address u)]) ''/verify-email/'' base_url"

definition create_confirmation_url :: "account_lib \<Rightarrow> user \<Rightarrow> string \<Rightarrow> string" where
  "create_confirmation_url lib u email =
     ac_url_with_token lib
       (json_object [(''user_id'', uuid_str (u_id u)), (''email'', email)]) ''/your-account/email/confirm/'' None"

definition create_2fa_url ::
  "account_lib \<Rightarrow> user \<Rightarrow> string \<Rightarrow> string option \<Rightarrow> string option \<Rightarrow> string" where
  "create_2fa_url lib u secret_code next_redirect host =
     with_next next_redirect
       (ac_url_with_token lib
         (json_object [(''user_id'', uuid_str (u_id u)), (''secret_code'', secret_code)]) ''/email-auth/'' host)"

section \<open>Signing in\<close>

definition archive_user :: "env \<Rightarrow> account_lib \<Rightarrow> uuid \<Rightarrow> unit op" where
  "archive_user env lib user_id w =
     (case get_user_by_id user_id w of Inl e \<Rightarrow> (Inl e, w) | Inr u \<Rightarrow> dao_archive_user env lib u w)"

definition activate_user :: "account_lib \<Rightarrow> uuid \<Rightarrow> unit op" where
  "activate_user lib user_id w =
     (case get_user_by_id user_id w of
        Inl e \<Rightarrow> (Inl e, w)
      | Inr u \<Rightarrow>
          if u_state u = ''active'' then (Inl (invalid_request ''User already active'' 400), w)
          else (Inr (), save_model_user lib (u\<lparr>u_state := ''active''\<rparr>) None False w))"

definition user_reset_failed_login_count :: "uuid \<Rightarrow> unit op" where
  "user_reset_failed_login_count user_id w =
     (case get_user_by_id user_id w of
        Inl e \<Rightarrow> (Inl e, w) | Inr u \<Rightarrow> (Inr (), reset_failed_login_count u w))"

definition verify_user_password :: "account_lib \<Rightarrow> uuid \<Rightarrow> string option \<Rightarrow> unit op" where
  \<comment> \<open>the key \<open>password\<close> of the body may be missing\<close>
  "verify_user_password lib user_id password w =
     (case get_user_by_id user_id w of
        Inl e \<Rightarrow> (Inl e, w)
      | Inr u \<Rightarrow>
          (case password of
             None \<Rightarrow> (Inl (invalid_request ''Required field missing data'' 400), w)
           | Some p \<Rightarrow>
               if check_password lib p u then (Inr (), reset_failed_login_count u w)
               else (Inl (invalid_request ''Incorrect password'' 400), increment_failed_login_count u w)))"

definition signed_in :: "uuid \<Rightarrow> time \<Rightarrow> user \<Rightarrow> user" where
  "signed_in session now u =
     u\<lparr>u_current_session_id := Some session, u_logged_in_at := Some now, u_failed_login_count := 0\<rparr>"

definition verify_user_code :: "env \<Rightarrow> account_lib \<Rightarrow> uuid \<Rightarrow> string \<Rightarrow> string \<Rightarrow> unit op" where
  "verify_user_code env lib user_id code code_type w =
     (case get_user_by_id user_id w of
        Inl e \<Rightarrow> (Inl e, w)
      | Inr u \<Rightarrow>
          if code_type \<notin> {''email'', ''sms''} then (Inl (Db DataError), w)
          else if u_failed_login_count u \<ge> ac_max_failed_login_count lib
          then (Inl (invalid_request ''Code not found'' 404), w)
          else (case get_user_code lib u code code_type w of
            None \<Rightarrow> (Inl (invalid_request ''Code not found'' 404), increment_failed_login_count u w)
          | Some c \<Rightarrow>
              if w_now w > vc_expiry_datetime c \<or> vc_code_used c
              then (Inl (invalid_request ''Code has expired'' 400), increment_failed_login_count u w)
              else
                let (session, w1) = create_uuid env w;
                    u1 = signed_in session (w_now w) u;
                    u2 = (if code_type = ''email'' then u1\<lparr>u_email_access_validated_at := w_now w\<rparr> else u1)
                in use_user_code (vc_id c) (save_model_user lib u2 None False w1)))"

definition dao_get_webauthn_credential_by_user_and_id ::
  "uuid \<Rightarrow> uuid \<Rightarrow> world \<Rightarrow> webauthn_credential result" where
  "dao_get_webauthn_credential_by_user_and_id user_id i w =
     query_one (Db NoResultFound) (Db MultipleResultsFound)
       (\<lambda>c. wc_user_id c = user_id \<and> wc_id c = i) (w_webauthn w)"

definition dao_update_webauthn_credential_logged_in_at :: "webauthn_credential \<Rightarrow> world \<Rightarrow> world" where
  "dao_update_webauthn_credential_logged_in_at c w =
     w\<lparr>w_webauthn := save_row wc_id
         (c\<lparr>wc_logged_in_at := Some (w_now w), wc_updated_at := Some (w_now w)\<rparr>) (w_webauthn w)\<rparr>"

definition complete_login_after_webauthn_authentication_attempt ::
  "env \<Rightarrow> account_lib \<Rightarrow> uuid \<Rightarrow> bool \<Rightarrow> uuid option \<Rightarrow> unit op" where
  "complete_login_after_webauthn_authentication_attempt env lib user_id successful credential_id w =
     (case get_user_by_id user_id w of
        Inl e \<Rightarrow> (Inl e, w)
      | Inr u \<Rightarrow>
          if u_failed_login_count u \<ge> int (ac_max_verify_code_count lib)
          then (Inl (invalid_request ''Maximum login count exceeded'' 403), w)
          else if successful
          then
            let (session, w1) = create_uuid env w;
                w2 = save_model_user lib (signed_in session (w_now w) u) None False w1
            in (case credential_id of
                  None \<Rightarrow> (Inr (), w2)
                | Some i \<Rightarrow>
                    (case dao_get_webauthn_credential_by_user_and_id user_id i w2 of
                       Inl e \<Rightarrow> (Inl e, w2)
                     | Inr c \<Rightarrow> (Inr (), dao_update_webauthn_credential_logged_in_at c w2)))
          else (Inr (), increment_failed_login_count u w))"

definition update_password :: "account_lib \<Rightarrow> uuid \<Rightarrow> string result \<Rightarrow> unit op" where
  \<comment> \<open>the password of the body, or what loading the body raised\<close>
  "update_password lib user_id password w =
     (case get_user_by_id user_id w of
        Inl e \<Rightarrow> (Inl e, w)
      | Inr u \<Rightarrow>
          (case password of
             Inl e \<Rightarrow> (Inl e, w)
           | Inr p \<Rightarrow> (Inr (), update_user_password lib u p w)))"

section \<open>Messages to users\<close>

definition get_sms_reply_to_for_notify_service ::
  "api_lib \<Rightarrow> account_lib \<Rightarrow> string option \<Rightarrow> uuid \<Rightarrow> world \<Rightarrow> string result" where
  \<comment> \<open>the last id is the template's service\<close>
  "get_sms_reply_to_for_notify_service alib lib recipient service_id w =
     res_bind (case recipient of None \<Rightarrow> ac_phone_of_none lib | Some r \<Rightarrow> al_phone alib r) (\<lambda>phone.
       if \<not> ph_uk phone \<and> (case recipient of None \<Rightarrow> False | Some r \<Rightarrow> ac_numeric_sender lib r)
       then Inr (ac_international_sender lib)
       else get_default_sms_sender service_id w)"

definition notify_user ::
  "env \<Rightarrow> api_lib \<Rightarrow> template \<Rightarrow> service \<Rightarrow> recipient_data \<Rightarrow> (string \<times> string) list
     \<Rightarrow> string option \<Rightarrow> unit op" where
  \<comment> \<open>the common end of the functions below\<close>
  "notify_user env alib t s recipient ps reply_to =
     op_bind (persist_notification env alib s
         ((persist_call (t_id t) (t_version t) recipient (Some (map (\<lambda>(k, v). (k, PText v)) ps))
             (t_type t) None NormalKey)\<lparr>pn_reply_to_text := reply_to\<rparr>))
       (\<lambda>n. send_notification_to_queue alib n (Some NOTIFY))"

definition create_2fa_code ::
  "env \<Rightarrow> api_lib \<Rightarrow> account_lib \<Rightarrow> uuid \<Rightarrow> user \<Rightarrow> string \<Rightarrow> string option \<Rightarrow> (string \<times> string) list
     \<Rightarrow> unit op" where
  "create_2fa_code env alib lib template_id u secret_code recipient ps w =
     (case dao_get_template_by_id template_id None w of
        Inl e \<Rightarrow> (Inl e, w)
      | Inr t \<Rightarrow>
          let w1 = snd (create_user_code env lib u secret_code (t_type t) w)
          in case (if t_type t = Sms
                   then map_sum id Some
                          (get_sms_reply_to_for_notify_service alib lib recipient (t_service_id t) w1)
                   else if t_type t = Email
                   then Inr (get_default_reply_to_email_address (t_service_id t) w1) else Inr None) of
               Inl e \<Rightarrow> (Inl e, w1)
             | Inr reply_to \<Rightarrow>
                 (case find_row svc_id (t_service_id t) (w_services w1) of
                    None \<Rightarrow> (Inl (Py AttributeError), w1)
                  | Some s \<Rightarrow>
                      op_bind (validate_and_format_recipient env alib recipient NormalKey s (t_type t) False True)
                        (\<lambda>r. notify_user env alib t s r ps reply_to) w1))"

definition send_user_sms_code ::
  "env \<Rightarrow> api_lib \<Rightarrow> account_lib \<Rightarrow> nat \<Rightarrow> user \<Rightarrow> string option \<Rightarrow> world \<Rightarrow> (unit result \<times> world) option" where
  \<comment> \<open>\<open>drawn\<close> is where the digits of this request begin\<close>
  "send_user_sms_code env alib lib drawn u to w =
     (let recipient = (case to of None \<Rightarrow> u_mobile_number u
                       | Some t \<Rightarrow> if t = [] then u_mobile_number u else Some t)
      in map_option (\<lambda>code.
           create_2fa_code env alib lib (ac_template_id lib ''SMS_CODE_TEMPLATE_ID'') u code recipient
             [(''verify_code'', code)] w)
         (create_secret_code (ac_random_digit lib) drawn))"

definition send_user_email_code ::
  "env \<Rightarrow> api_lib \<Rightarrow> account_lib \<Rightarrow> user \<Rightarrow> string option \<Rightarrow> string option \<Rightarrow> unit op" where
  "send_user_email_code env alib lib u next_redirect host w =
     (let (i, w1) = create_uuid env w;
          code = uuid_str i
      in create_2fa_code env alib lib (ac_template_id lib ''EMAIL_2FA_TEMPLATE_ID'') u code
           (Some (u_email_address u))
           [(''name'', u_name u), (''url'', create_2fa_url lib u code next_redirect host)] w1)"

record code_request =
  cr_to :: "string option"
  cr_next :: "string option"
  cr_email_auth_link_host :: "string option"

definition send_user_2fa_code ::
  "env \<Rightarrow> api_lib \<Rightarrow> account_lib \<Rightarrow> nat \<Rightarrow> uuid \<Rightarrow> string \<Rightarrow> (string \<Rightarrow> code_request result)
     \<Rightarrow> world \<Rightarrow> (unit result \<times> world) option" where
  \<comment> \<open>the body as the schema of a type of code reads it\<close>
  "send_user_2fa_code env alib lib drawn user_id code_type body w =
     (case get_user_by_id user_id w of
        Inl e \<Rightarrow> Some (Inl e, w)
      | Inr u \<Rightarrow>
          if count_user_verify_codes u w \<ge> ac_max_verify_code_count lib then Some (Inr (), w)
          else if code_type = ''sms''
          then (case body code_type of
                  Inl e \<Rightarrow> Some (Inl e, w)
                | Inr b \<Rightarrow> send_user_sms_code env alib lib drawn u (cr_to b) w)
          else if code_type = ''email''
          then (case body code_type of
                  Inl e \<Rightarrow> Some (Inl e, w)
                | Inr b \<Rightarrow> Some (send_user_email_code env alib lib u (cr_next b) (cr_email_auth_link_host b) w))
          else Some (Inl (HttpAbort 404), w))"

definition email_user ::
  "env \<Rightarrow> api_lib \<Rightarrow> account_lib \<Rightarrow> string \<Rightarrow> string \<Rightarrow> (string \<times> string) list \<Rightarrow> unit op" where
  \<comment> \<open>an email from the service of this program itself: the common body of the endpoints below\<close>
  "email_user env alib lib template_name recipient ps w =
     (case dao_get_template_by_id (ac_template_id lib template_name) None w of
        Inl e \<Rightarrow> (Inl e, w)
      | Inr t \<Rightarrow>
          (case find_row svc_id (ac_notify_service_id lib) (w_services w) of
             None \<Rightarrow> (Inl (Py AttributeError), w)
           | Some s \<Rightarrow>
               notify_user env alib t s (TextData recipient) ps
                 (get_default_reply_to_email_address (svc_id s) w) w))"

definition send_user_confirm_new_email ::
  "env \<Rightarrow> api_lib \<Rightarrow> account_lib \<Rightarrow> uuid \<Rightarrow> string result \<Rightarrow> unit op" where
  "send_user_confirm_new_email env alib lib user_id email =
     op_bind (\<lambda>w. (get_user_by_id user_id w, w)) (\<lambda>u.
     op_bind (op_lift email) (\<lambda>e.
       email_user env alib lib ''CHANGE_EMAIL_CONFIRMATION_TEMPLATE_ID'' e
         [(''name'', u_name u), (''url'', create_confirmation_url lib u e),
          (''feedback_url'', ac_admin_base_url lib @ ''/support'')]))"

definition send_new_user_email_verification ::
  "env \<Rightarrow> api_lib \<Rightarrow> account_lib \<Rightarrow> uuid \<Rightarrow> string option \<Rightarrow> unit op" where
  "send_new_user_email_verification env alib lib user_id admin_base_url =
     op_bind (\<lambda>w. (get_user_by_id user_id w, w)) (\<lambda>u.
       email_user env alib lib ''NEW_USER_EMAIL_VERIFICATION_TEMPLATE_ID'' (u_email_address u)
         [(''name'', u_name u), (''url'', create_verification_url lib u admin_base_url)])"

definition send_already_registered_email ::
  "env \<Rightarrow> api_lib \<Rightarrow> account_lib \<Rightarrow> string result \<Rightarrow> unit op" where
  "send_already_registered_email env alib lib email =
     op_bind (op_lift email) (\<lambda>e.
       email_user env alib lib ''ALREADY_REGISTERED_EMAIL_TEMPLATE_ID'' e
         [(''signin_url'', ac_admin_base_url lib @ ''/sign-in''),
          (''forgot_password_url'', ac_admin_base_url lib @ ''/forgot-password''),
          (''feedback_url'', ac_admin_base_url lib @ ''/support'')])"

definition send_user_reset_password ::
  "env \<Rightarrow> api_lib \<Rightarrow> account_lib \<Rightarrow> string result \<Rightarrow> string option \<Rightarrow> string option \<Rightarrow> unit op" where
  "send_user_reset_password env alib lib email admin_base_url next_redirect =
     op_bind (op_lift email) (\<lambda>e.
     op_bind (\<lambda>w. (get_user_by_email e w, w)) (\<lambda>u w.
       email_user env alib lib ''PASSWORD_RESET_TEMPLATE_ID'' e
         [(''user_name'', u_name u),
          (''url'', create_reset_password_url lib (u_email_address u) next_redirect admin_base_url w)] w))"

section \<open>Changing users\<close>

text \<open>The loaded body of an update: what it sets, and whether it has the two keys asked for.\<close>

record user_update =
  uu_set :: "user \<Rightarrow> user"
  uu_email_address :: bool
  uu_mobile_number :: bool

definition users_refused :: "user list \<Rightarrow> bool" where
  \<comment> \<open>the check constraint and the unique email address\<close>
  "users_refused us \<longleftrightarrow> \<not> list_all user_row_ok us \<or> \<not> distinct (map u_email_address us)"

definition create_user :: "account_lib \<Rightarrow> user result \<Rightarrow> string option \<Rightarrow> user op" where
  "create_user lib loaded password w =
     (case loaded of
        Inl e \<Rightarrow> (Inl e, w)
      | Inr u \<Rightarrow>
          let w1 = save_model_user lib u password True w
          in if users_refused (w_users w1) then (Inl (Db OtherSQLAlchemyError), w) else (Inr u, w1))"

definition update_user_attribute ::
  "env \<Rightarrow> api_lib \<Rightarrow> account_lib \<Rightarrow> uuid \<Rightarrow> uuid option \<Rightarrow> user_update result \<Rightarrow> unit op" where
  "update_user_attribute env alib lib user_id updated_by_id body =
     op_bind (\<lambda>w. (get_user_by_id user_id w, w)) (\<lambda>u0.
     op_bind (\<lambda>w. ((case updated_by_id of None \<Rightarrow> Inr None
                    | Some i \<Rightarrow> map_sum id Some (get_user_by_id i w)), w)) (\<lambda>updated_by.
     op_bind (op_lift body) (\<lambda>b.
     op_bind (\<lambda>w. let w1 = save_user_attribute u0 (uu_set b) w
                  in if users_refused (w_users w1) then (Inl (Db OtherSQLAlchemyError), w)
                     else (Inr (), w1)) (\<lambda>_.
     op_bind (\<lambda>w. (get_user_by_id user_id w, w)) (\<lambda>u w.
       case updated_by of
         None \<Rightarrow> (Inr (), w)
       | Some by_user \<Rightarrow>
           let ps = [(''name'', u_name u), (''servicemanagername'', u_name by_user),
                     (''email address'', u_email_address u)];
               service = find_row svc_id (ac_notify_service_id lib) (w_services w)
           in if uu_email_address b
              then op_bind (op_lift (dao_get_template_by_id
                     (ac_template_id lib ''TEAM_MEMBER_EDIT_EMAIL_TEMPLATE_ID'') None w)) (\<lambda>t w.
                     case service of
                       None \<Rightarrow> (Inl (Py AttributeError), w)
                     | Some s \<Rightarrow> notify_user env alib t s (TextData (u_email_address u)) ps
                         (get_default_reply_to_email_address (t_service_id t) w) w) w
              else if uu_mobile_number b
              then op_bind (op_lift (dao_get_template_by_id
                     (ac_template_id lib ''TEAM_MEMBER_EDIT_MOBILE_TEMPLATE_ID'') None w)) (\<lambda>t w.
                     case service of
                       None \<Rightarrow> (Inl (Py AttributeError), w)
                     | Some s \<Rightarrow>
                         op_bind (validate_and_format_recipient env alib (u_mobile_number u) NormalKey s Sms
                                    True True) (\<lambda>r.
                         op_bind (\<lambda>w. (get_sms_reply_to_for_notify_service alib lib (u_mobile_number u)
                                    (t_service_id t) w, w)) (\<lambda>reply_to.
                           notify_user env alib t s r ps (Some reply_to))) w) w
              else (Inr (), w))))))"

definition set_permissions ::
  "uuid \<Rightarrow> uuid \<Rightarrow> permission list result \<Rightarrow> string list option \<Rightarrow> unit op" where
  \<comment> \<open>the permissions are committed before the folders are looked up\<close>
  "set_permissions user_id service_id permissions folder_permissions =
     op_bind (\<lambda>w. (dao_get_service_user user_id service_id w, w)) (\<lambda>_.
     op_bind (\<lambda>w. (get_user_by_id user_id w, w)) (\<lambda>_.
     op_bind (\<lambda>w. (dao_fetch_service_by_id service_id False w, w)) (\<lambda>_.
     op_bind (op_lift permissions) (\<lambda>ps.
     op_bind (set_user_service_permission user_id service_id ps True) (\<lambda>_ w.
       case folder_permissions of
         None \<Rightarrow> (Inr (), w)
       | Some ids \<Rightarrow>
           (case map_res (\<lambda>i. case parse_uuid i of
                     None \<Rightarrow> Inl (Db DataError)
                   | Some n \<Rightarrow> dao_get_template_folder_by_id_and_service_id n service_id w) ids of
              Inl e \<Rightarrow> (Inl e, w)
            | Inr fs \<Rightarrow> (Inr (), set_folders user_id service_id (map tf_id fs) w)))))))"

definition dao_get_organisation_by_id :: "uuid \<Rightarrow> world \<Rightarrow> organisation result" where
  "dao_get_organisation_by_id i w =
     query_one (Db NoResultFound) (Db MultipleResultsFound) (\<lambda>r. o_id r = i) (w_organisations w)"

definition set_organisation_permissions :: "uuid \<Rightarrow> uuid \<Rightarrow> string list result \<Rightarrow> unit op" where
  "set_organisation_permissions user_id organisation_id permissions =
     op_bind (\<lambda>w. (dao_get_organisation_by_id organisation_id w, w)) (\<lambda>_.
     op_bind (\<lambda>w. (get_user_by_id user_id w, w)) (\<lambda>_.
     op_bind (op_lift permissions) (\<lambda>ps.
       set_user_organisation_permission user_id organisation_id ps True)))"

end
