(* ===== verification/User_Rules.thy ===== *)
theory User_Rules
  imports Users
begin

text \<open>
  What holds of users and of signing in: the codes that are drawn, how often a code can be
  guessed and used, and what archiving a user leaves behind.
\<close>

section \<open>Secret codes\<close>

definition fair_digits :: "(nat \<Rightarrow> nat) \<Rightarrow> bool" where
  \<comment> \<open>what \<open>randrange(10)\<close> gives: digits, and never the same one for ever\<close>
  "fair_digits rnd \<longleftrightarrow> (\<forall>m. rnd m < 10) \<and> (\<forall>n d. \<exists>m \<ge> n. rnd m \<noteq> d)"

lemma nat_str_digit: "d < 10 \<Longrightarrow> nat_str d = [digit_char d]"
  by (simp add: nat_str_def nat_digits.simps)

lemma digit_char_inj: "a < 10 \<Longrightarrow> b < 10 \<Longrightarrow> digit_char a = digit_char b \<longleftrightarrow> a = b"
  by (auto simp: digit_char_def)

lemma draw_digit_steps:
  assumes i: "i < length out" "previous_index (length out) i \<noteq> i"
    and p: "out ! previous_index (length out) i = p"
    and good: "Some (nat_str (rnd (drawn + d))) \<noteq> p"
    and bad: "\<And>k. k < d \<Longrightarrow> Some (nat_str (rnd (drawn + k))) = p" and x: "x = None \<or> x = p"
  shows "draw_digit rnd i (out[i := x]) drawn
    = Some (out[i := Some (nat_str (rnd (drawn + d)))], Suc (drawn + d))"
  using good bad x
proof (induction d arbitrary: drawn x)
  case 0
  then show ?case
    using i p by (subst draw_digit.simps) (auto simp: draw_digit.simps [of rnd i "out[i := Some _]"])
next
  case (Suc d)
  have now: "Some (nat_str (rnd drawn)) = p" using Suc.prems(2) [of 0] by simp
  have later: "Some (nat_str (rnd (Suc drawn + k))) = p" if "k < d" for k
    using Suc.prems(2) [of "Suc k"] that by simp
  have "draw_digit rnd i (out[i := x]) drawn = draw_digit rnd i (out[i := p]) (Suc drawn)"
    using Suc.prems(3) i p now by (subst draw_digit.simps) auto
  also have "\<dots> = Some (out[i := Some (nat_str (rnd (Suc drawn + d)))], Suc (Suc drawn + d))"
    by (rule Suc.IH) (use Suc.prems(1) later in simp_all)
  finally show ?case by simp
qed

lemma draw_digit_ends:
  assumes r: "fair_digits rnd" and i: "i < length out" "previous_index (length out) i \<noteq> i" "out ! i = None"
    and p: "out ! previous_index (length out) i = None
      \<or> (\<exists>q < 10. out ! previous_index (length out) i = Some (nat_str q))"
  shows "\<exists>a drawn'. draw_digit rnd i out drawn = Some (out[i := Some (nat_str a)], drawn')
           \<and> a < 10 \<and> Some (nat_str a) \<noteq> out ! previous_index (length out) i"
proof -
  let ?p = "out ! previous_index (length out) i"
  let ?good = "\<lambda>d. Some (nat_str (rnd (drawn + d))) \<noteq> ?p"
  have "\<exists>d. ?good d"
  proof (cases ?p)
    case None
    then show ?thesis by simp
  next
    case (Some s)
    then obtain q where q: "q < 10" "s = nat_str q" using p by auto
    obtain m where m: "m \<ge> drawn" "rnd m \<noteq> q" using r unfolding fair_digits_def by blast
    have "nat_str (rnd m) \<noteq> nat_str q"
      using m(2) q(1) r by (simp add: nat_str_digit fair_digits_def digit_char_inj)
    then have "?good (m - drawn)" using m(1) Some q(2) by simp
    then show ?thesis by blast
  qed
  then have "?good (LEAST d. ?good d)" by (rule LeastI_ex)
  then obtain d where d: "?good d" "\<And>k. k < d \<Longrightarrow> \<not> ?good k" using not_less_Least by blast
  have "draw_digit rnd i (out[i := None]) drawn
      = Some (out[i := Some (nat_str (rnd (drawn + d)))], Suc (drawn + d))"
    by (rule draw_digit_steps [OF i(1,2) refl]) (use d in auto)
  then show ?thesis using d(1) i(3) r by (metis fair_digits_def list_update_id)
qed

definition digits_so_far :: "string option list \<Rightarrow> nat \<Rightarrow> bool" where
  "digits_so_far out k \<longleftrightarrow>
     (\<forall>j < k. \<exists>a < 10. out ! j = Some (nat_str a)) \<and> (\<forall>j. k \<le> j \<and> j < length out \<longrightarrow> out ! j = None)
     \<and> (\<forall>j. Suc j < k \<longrightarrow> out ! j \<noteq> out ! Suc j)"

lemma draw_digits_ends:
  assumes r: "fair_digits rnd" and n: "length out = n" "2 \<le> n" and k: "k \<le> n" "digits_so_far out k"
  shows "\<exists>out' drawn'. draw_digits rnd [k..<n] out drawn = Some (out', drawn')
           \<and> length out' = n \<and> digits_so_far out' n"
  using n k
proof (induction "n - k" arbitrary: k out drawn)
  case 0
  then show ?case by simp
next
  case (Suc m)
  then have kn: "k < n" by simp
  let ?prev = "previous_index (length out) k"
  have prev: "?prev \<noteq> k" "?prev < n" using Suc.prems kn by (auto simp: previous_index_def)
  have "out ! ?prev = None \<or> (\<exists>q < 10. out ! ?prev = Some (nat_str q))"
    using Suc.prems kn prev(2) by (cases "?prev < k") (auto simp: digits_so_far_def)
  then obtain a drawn1 where a: "draw_digit rnd k out drawn = Some (out[k := Some (nat_str a)], drawn1)"
      "a < 10" "Some (nat_str a) \<noteq> out ! ?prev"
    using draw_digit_ends [OF r, of k out drawn] Suc.prems kn prev(1) by (auto simp: digits_so_far_def)
  let ?out = "out[k := Some (nat_str a)]"
  have "digits_so_far ?out (Suc k)"
  proof -
    have "?out ! j \<noteq> ?out ! Suc j" if "Suc j < Suc k" for j
      using Suc.prems kn a(3) that
      by (cases "Suc j = k") (auto simp: digits_so_far_def previous_index_def)
    moreover have "\<exists>b < 10. ?out ! j = Some (nat_str b)" if "j < Suc k" for j
      using Suc.prems kn a(2) that by (cases "j = k") (auto simp: digits_so_far_def)
    ultimately show ?thesis using Suc.prems kn by (simp add: digits_so_far_def)
  qed
  then have "\<exists>out' drawn'. draw_digits rnd [Suc k..<n] ?out drawn1 = Some (out', drawn')
      \<and> length out' = n \<and> digits_so_far out' n"
    using Suc.hyps(2) Suc.prems kn by (intro Suc.hyps(1)) simp_all
  moreover have "[k..<n] = k # [Suc k..<n]" using kn by (simp add: upt_conv_Cons)
  ultimately show ?case using a(1) by simp
qed

lemma non_repeating_digits:
  assumes "fair_digits rnd" "2 \<le> n"
  shows "\<exists>ds drawn'. get_non_repeating_random_digits rnd n drawn
      = Some (map (\<lambda>d. [digit_char d]) ds, drawn') \<and> length ds = n \<and> set ds \<subseteq> {..<10}
      \<and> (\<forall>j. Suc j < n \<longrightarrow> ds ! j \<noteq> ds ! Suc j)"
proof -
  have "digits_so_far (replicate n None) 0" by (simp add: digits_so_far_def)
  then obtain out drawn' where o: "draw_digits rnd [0..<n] (replicate n None) drawn = Some (out, drawn')"
      "length out = n" "digits_so_far out n"
    using draw_digits_ends [OF assms(1), of "replicate n None" n 0 drawn] assms(2) by auto
  then obtain f where f: "\<And>j. j < n \<Longrightarrow> f j < 10 \<and> out ! j = Some (nat_str (f j))"
    unfolding digits_so_far_def by metis
  let ?ds = "map f [0..<n]"
  have "map the out = map (\<lambda>d. [digit_char d]) ?ds"
    using f o(2) by (intro nth_equalityI) (auto simp: nat_str_digit)
  moreover have "?ds ! j \<noteq> ?ds ! Suc j" if "Suc j < n" for j
    using o(3) that f [of j] f [of "Suc j"] by (auto simp: digits_so_far_def)
  ultimately show ?thesis
    using o f by (intro exI [of _ ?ds]) (auto simp: get_non_repeating_random_digits_def)
qed

text \<open>
  C39: \<open>create_secret_code\<close> returns, for every source of digits that does not
  repeat one digit for ever: a text of five digits of which no two neighbours are the same.
\<close>

theorem secret_code_drawn:
  assumes "fair_digits rnd"
  shows "\<exists>code. create_secret_code rnd drawn = Some code \<and> length code = 5
           \<and> set code \<subseteq> set ''0123456789'' \<and> (\<forall>j. Suc j < 5 \<longrightarrow> code ! j \<noteq> code ! Suc j)"
proof -
  obtain ds drawn' where ds: "get_non_repeating_random_digits rnd 5 drawn
      = Some (map (\<lambda>d. [digit_char d]) ds, drawn')" "length ds = 5" "set ds \<subseteq> {..<10}"
      "\<forall>j. Suc j < 5 \<longrightarrow> ds ! j \<noteq> ds ! Suc j"
    using non_repeating_digits [OF assms, of 5 drawn] by auto
  have "map digit_char [0..<10] = ''0123456789''" by code_simp
  then have digits: "digit_char ` {..<10} \<subseteq> set ''0123456789''"
    by (metis atLeast_upt set_map subset_refl)
  have "concat (map (\<lambda>d. [digit_char d]) ds) = map digit_char ds" by (induction ds) auto
  then have "create_secret_code rnd drawn = Some (map digit_char ds)"
    using ds(1) by (simp add: create_secret_code_def)
  moreover have "map digit_char ds ! j \<noteq> map digit_char ds ! Suc j" if "Suc j < 5" for j
  proof -
    have "ds ! j \<in> set ds" "ds ! Suc j \<in> set ds" using ds(2) that by simp_all
    then have "ds ! j < 10" "ds ! Suc j < 10" using ds(3) by auto
    then show ?thesis using ds(2,4) that by (simp add: digit_char_inj)
  qed
  moreover have "set (map digit_char ds) \<subseteq> set ''0123456789''"
    using digits ds(3) by auto
  ultimately show ?thesis using ds(2) by auto
qed

theorem secret_code_drawn_witness:
  "\<exists>code. create_secret_code (\<lambda>m. m div 2 mod 10) 7 = Some code \<and> length code = 5
     \<and> set code \<subseteq> set ''0123456789'' \<and> (\<forall>j. Suc j < 5 \<longrightarrow> code ! j \<noteq> code ! Suc j)"
proof (rule secret_code_drawn)
  have "\<exists>m \<ge> n. m div 2 mod 10 \<noteq> d" for n d :: nat
  proof (cases "n div 2 mod 10 = d")
    case True
    have "Suc (n div 2) mod 10 \<noteq> n div 2 mod 10" by (simp add: mod_Suc)
    then have "(n + 2) div 2 mod 10 \<noteq> d" using True by simp
    then show ?thesis by (intro exI [of _ "n + 2"]) simp
  qed auto
  then show "fair_digits (\<lambda>m. m div 2 mod 10)" by (simp add: fair_digits_def)
qed

section \<open>Guessing and using a code\<close>

text \<open>One request to verify a code: the code and its type.\<close>

type_synonym attempt = "string \<times> string"

definition try_code :: "env \<Rightarrow> account_lib \<Rightarrow> uuid \<Rightarrow> attempt \<Rightarrow> unit op" where
  "try_code env lib user_id a = verify_user_code env lib user_id (fst a) (snd a)"

fun try_codes :: "env \<Rightarrow> account_lib \<Rightarrow> uuid \<Rightarrow> attempt list \<Rightarrow> world \<Rightarrow> unit result list \<times> world" where
  \<comment> \<open>the answers to a series of requests, and the world after it\<close>
  "try_codes env lib user_id [] w = ([], w)"
| "try_codes env lib user_id (a # as) w =
     (let (r, w1) = try_code env lib user_id a w; (rs, w2) = try_codes env lib user_id as w1
      in (r # rs, w2))"

definition failed_logins :: "uuid \<Rightarrow> world \<Rightarrow> int" where
  "failed_logins i w = (case find_row u_id i (w_users w) of None \<Rightarrow> 0 | Some u \<Rightarrow> u_failed_login_count u)"

lemma get_user_by_id_find:
  "distinct_rows u_id (w_users w) \<Longrightarrow> find_row u_id i (w_users w) = Some u \<Longrightarrow> get_user_by_id i w = Inr u"
  using query_one_key [of u_id "w_users w" "Db NoResultFound" "Db MultipleResultsFound" i "\<lambda>_. True"]
  by (simp add: get_user_by_id_def)

lemma find_save_user:
  assumes "find_row u_id i (w_users w) = Some u" "u_id u' = i"
  shows "find_row u_id i (w_users (save_user u' w)) = Some (u'\<lparr>u_updated_at := Some (w_now w)\<rparr>)"
    "distinct_rows u_id (w_users w) \<Longrightarrow> distinct_rows u_id (w_users (save_user u' w))"
proof -
  have "i \<in> u_id ` set (w_users w)" using find_row_SomeD [OF assms(1)] by auto
  then show "find_row u_id i (w_users (save_user u' w)) = Some (u'\<lparr>u_updated_at := Some (w_now w)\<rparr>)"
      "distinct_rows u_id (w_users w) \<Longrightarrow> distinct_rows u_id (w_users (save_user u' w))"
    using assms(2) by (simp_all add: save_user_def find_save_row)
qed

lemma get_user_code_SomeD:
  assumes "get_user_code lib u code code_type w = Some c"
  shows "c \<in> set (w_verify_codes w)" "ac_check_hash lib code (vc_code c)" "vc_user_id c = u_id u"
    "ntype_name (vc_code_type c) = code_type"
  using query_first_SomeD [unfolded query_first_def, OF assms [unfolded get_user_code_def]] by auto

lemma failed_attempt:
  assumes u: "distinct_rows u_id (w_users w)" "find_row u_id i (w_users w) = Some u"
    and a: "snd a \<in> {''email'', ''sms''}" and f: "try_code env lib i a w = (Inl e, w')"
  shows "distinct_rows u_id (w_users w') \<and> (\<exists>u'. find_row u_id i (w_users w') = Some u')
    \<and> failed_logins i w' = (if failed_logins i w \<ge> ac_max_failed_login_count lib then failed_logins i w
                          else failed_logins i w + 1)
    \<and> (failed_logins i w \<ge> ac_max_failed_login_count lib \<longrightarrow> w' = w)"
proof -
  have id: "u_id u = i" using find_row_SomeD [OF u(2)] by simp
  let ?u = "u\<lparr>u_failed_login_count := u_failed_login_count u + 1\<rparr>"
  note saved = find_save_user [OF u(2), of ?u]
  show ?thesis
  proof (cases "u_failed_login_count u \<ge> ac_max_failed_login_count lib")
    case True
    then show ?thesis
      using f a u by (auto simp: try_code_def verify_user_code_def get_user_by_id_find failed_logins_def)
  next
    case False
    have "w' = save_user ?u w"
    proof (cases "get_user_code lib u (fst a) (snd a) w")
      case None
      then show ?thesis
        using f a u False
        by (auto simp: try_code_def verify_user_code_def get_user_by_id_find increment_failed_login_count_def)
    next
      case (Some c)
      then have "c \<in> set (w_verify_codes w)" by (rule get_user_code_SomeD)
      then obtain c' where "find_row vc_id (vc_id c) (w_verify_codes w) = Some c'"
        by (cases "find_row vc_id (vc_id c) (w_verify_codes w)") (auto simp: find_row_None_iff)
      then show ?thesis
        using f a u False Some
        by (auto simp: try_code_def verify_user_code_def get_user_by_id_find increment_failed_login_count_def
            use_user_code_def save_model_user_def save_user_def create_uuid_def Let_def split: if_splits)
    qed
    then show ?thesis using saved id u False by (simp add: failed_logins_def)
  qed
qed

lemma try_codes_keep_user:
  assumes "distinct_rows u_id (w_users w)" "find_row u_id i (w_users w) = Some u"
    and "\<forall>a \<in> set as. snd a \<in> {''email'', ''sms''}"
    and "\<forall>r \<in> set (fst (try_codes env lib i as w)). \<exists>e. r = Inl e"
  shows "\<exists>u'. find_row u_id i (w_users (snd (try_codes env lib i as w))) = Some u'
    \<and> distinct_rows u_id (w_users (snd (try_codes env lib i as w)))"
  using assms
proof (induction as arbitrary: w u)
  case Nil
  then show ?case by simp
next
  case (Cons a as)
  obtain r w1 where r: "try_code env lib i a w = (r, w1)" by force
  have rs: "fst (try_codes env lib i (a # as) w) = r # fst (try_codes env lib i as w1)"
    and w2: "snd (try_codes env lib i (a # as) w) = snd (try_codes env lib i as w1)"
    using r by (simp_all add: split_beta Let_def)
  have failures: "\<forall>r \<in> set (r # fst (try_codes env lib i as w1)). \<exists>e. r = Inl e"
    using Cons.prems(4) unfolding rs .
  then obtain e where e: "r = Inl e" by auto
  have "snd a \<in> {''email'', ''sms''}" "try_code env lib i a w = (Inl e, w1)"
    using Cons.prems(3) r e by auto
  from failed_attempt [OF Cons.prems(1,2) this] obtain u'
    where "distinct_rows u_id (w_users w1)" "find_row u_id i (w_users w1) = Some u'" by blast
  then show ?case unfolding w2 using Cons.prems(3) failures by (intro Cons.IH) auto
qed

lemma try_codes_bounded:
  assumes "distinct_rows u_id (w_users w)" "find_row u_id i (w_users w) = Some u"
    and "\<forall>a \<in> set as. snd a \<in> {''email'', ''sms''}"
    and "\<forall>r \<in> set (fst (try_codes env lib i as w)). \<exists>e. r = Inl e"
    and "failed_logins i w \<le> ac_max_failed_login_count lib"
  shows "failed_logins i (snd (try_codes env lib i as w))
    = min (ac_max_failed_login_count lib) (failed_logins i w + int (length as))"
  using assms
proof (induction as arbitrary: w u)
  case Nil
  then show ?case by simp
next
  case (Cons a as)
  obtain r w1 where r: "try_code env lib i a w = (r, w1)" by force
  have rs: "fst (try_codes env lib i (a # as) w) = r # fst (try_codes env lib i as w1)"
    and w2: "snd (try_codes env lib i (a # as) w) = snd (try_codes env lib i as w1)"
    using r by (simp_all add: split_beta Let_def)
  have failures: "\<forall>r \<in> set (r # fst (try_codes env lib i as w1)). \<exists>e. r = Inl e"
    using Cons.prems(4) unfolding rs .
  then obtain e where e: "r = Inl e" by auto
  have step: "distinct_rows u_id (w_users w1) \<and> (\<exists>u'. find_row u_id i (w_users w1) = Some u')
    \<and> failed_logins i w1 = (if failed_logins i w \<ge> ac_max_failed_login_count lib then failed_logins i w
                          else failed_logins i w + 1)
    \<and> (failed_logins i w \<ge> ac_max_failed_login_count lib \<longrightarrow> w1 = w)"
    by (rule failed_attempt [OF Cons.prems(1,2)]) (use Cons.prems(3) r e in auto)
  then obtain u' where u': "find_row u_id i (w_users w1) = Some u'" by blast
  have "failed_logins i (snd (try_codes env lib i as w1))
      = min (ac_max_failed_login_count lib) (failed_logins i w1 + int (length as))"
    using step failures Cons.prems(3,5) by (intro Cons.IH [OF _ u']) (auto split: if_splits)
  then show ?case using step Cons.prems(5) unfolding w2 by (auto split: if_splits)
qed

lemma save_row_as_update:
  assumes "distinct_rows key rows" "r \<in> set rows" "key (f r) = key r"
  shows "save_row key (f r) rows = update_rows (\<lambda>x. key x = key r) f rows"
  using assms
proof (induction rows)
  case Nil
  then show ?case by simp
next
  case (Cons x rows)
  show ?case
  proof (cases "key x = key r")
    case True
    then have "x = r" using row_unique [OF Cons.prems(1), of x r] Cons.prems(2) by simp
    moreover have "update_rows (\<lambda>y. key y = key r) f rows = rows"
      using Cons.prems(1) \<open>x = r\<close> by (auto simp: update_rows_def distinct_rows_def image_iff intro!: map_idI)
    ultimately show ?thesis using Cons.prems(3) by (simp add: update_rows_def)
  next
    case False
    then have "r \<in> set rows" using Cons.prems(2) by auto
    then show ?thesis using False Cons by (simp add: update_rows_def distinct_rows_def)
  qed
qed

lemma insort_key_map: "(\<And>x. k (f x) = k x) \<Longrightarrow> insort_key k (f x) (map f xs) = map f (insort_key k x xs)"
  by (induction xs) auto

lemma sort_key_map: "(\<And>x. k (f x) = k x) \<Longrightarrow> sort_key k (map f xs) = map f (sort_key k xs)"
  by (induction xs) (simp_all add: insort_key_map)

lemma find_map: "(\<And>x. P (f x) = P x) \<Longrightarrow> find P (map f xs) = map_option f (find P xs)"
  by (induction xs) auto

definition mark_used :: "uuid \<Rightarrow> verify_code \<Rightarrow> verify_code" where
  "mark_used i c = (if vc_id c = i then c\<lparr>vc_code_used := True\<rparr> else c)"

lemma mark_used_fields [simp]:
  "vc_id (mark_used i c) = vc_id c" "vc_user_id (mark_used i c) = vc_user_id c"
  "vc_code (mark_used i c) = vc_code c" "vc_code_type (mark_used i c) = vc_code_type c"
  "vc_created_at (mark_used i c) = vc_created_at c"
  by (simp_all add: mark_used_def)

lemma get_user_code_marked:
  assumes "w_verify_codes v = map (mark_used i) (w_verify_codes w)" "u_id u' = u_id u"
  shows "get_user_code lib u' code t v = map_option (mark_used i) (get_user_code lib u code t w)"
  unfolding get_user_code_def assms
  by (subst filter_map) (simp add: o_def sort_key_map find_map)

lemma verify_user_code_InrD:
  assumes u: "distinct_rows u_id (w_users w)" "distinct_rows vc_id (w_verify_codes w)"
    and ok: "verify_user_code env lib i code t w = (Inr (), v)"
  obtains u u' c where "find_row u_id i (w_users w) = Some u" "get_user_code lib u code t w = Some c"
    "w_now w \<le> vc_expiry_datetime c" "\<not> vc_code_used c" "t \<in> {''email'', ''sms''}"
    "u_failed_login_count u < ac_max_failed_login_count lib"
    "find_row u_id i (w_users v) = Some u'" "distinct_rows u_id (w_users v)"
    "u_failed_login_count u' = 0" "w_verify_codes v = map (mark_used (vc_id c)) (w_verify_codes w)"
proof -
  obtain u where g: "get_user_by_id i w = Inr u" using ok by (auto simp: verify_user_code_def split: sum.splits)
  then have "u \<in> set (w_users w)" "u_id u = i"
    by (auto simp: get_user_by_id_def dest: query_one_InrD)
  then have fu: "find_row u_id i (w_users w) = Some u" using find_row_eqI [OF u(1)] by blast
  have t: "t \<in> {''email'', ''sms''}" and few: "u_failed_login_count u < ac_max_failed_login_count lib"
    using ok g by (auto simp: verify_user_code_def split: if_splits)
  obtain c where c: "get_user_code lib u code t w = Some c"
    using ok g t few by (cases "get_user_code lib u code t w") (auto simp: verify_user_code_def)
  have fresh: "w_now w \<le> vc_expiry_datetime c" "\<not> vc_code_used c"
    using ok g t few c by (auto simp: verify_user_code_def not_less split: if_splits)
  define u1 where "u1 = signed_in (lib_uuid env (w_uuids w)) (w_now w) u"
  define u2 where "u2 = (if t = ''email'' then u1\<lparr>u_email_access_validated_at := w_now w\<rparr> else u1)"
  have "u_id u2 = i" "u_failed_login_count u2 = 0"
    using \<open>u_id u = i\<close> by (auto simp: u2_def u1_def signed_in_def)
  have v: "(Inr (), v) = use_user_code (vc_id c) (save_user u2 (w\<lparr>w_uuids := Suc (w_uuids w)\<rparr>))"
    using ok g t few c fresh
    by (auto simp: verify_user_code_def u2_def u1_def save_model_user_def create_uuid_def Let_def
        not_less split: if_splits)
  have "c \<in> set (w_verify_codes w)" using get_user_code_SomeD(1) [OF c] .
  then have "find_row vc_id (vc_id c) (w_verify_codes w) = Some c" by (rule find_row_eqI [OF u(2)])
  then have "v = (save_user u2 (w\<lparr>w_uuids := Suc (w_uuids w)\<rparr>))
      \<lparr>w_verify_codes := save_row vc_id (c\<lparr>vc_code_used := True\<rparr>) (w_verify_codes w)\<rparr>"
    using v by (simp add: use_user_code_def save_user_def)
  moreover have "save_row vc_id (c\<lparr>vc_code_used := True\<rparr>) (w_verify_codes w)
      = map (mark_used (vc_id c)) (w_verify_codes w)"
    using save_row_as_update [OF u(2) \<open>c \<in> _\<close>, of "\<lambda>c. c\<lparr>vc_code_used := True\<rparr>"]
    by (simp add: update_rows_def mark_used_def cong: map_cong)
  moreover have "find_row u_id i (w_users (save_user u2 (w\<lparr>w_uuids := Suc (w_uuids w)\<rparr>)))
      = Some (u2\<lparr>u_updated_at := Some (w_now w)\<rparr>)"
      "distinct_rows u_id (w_users (save_user u2 (w\<lparr>w_uuids := Suc (w_uuids w)\<rparr>)))"
    using find_save_user [of i "w\<lparr>w_uuids := Suc (w_uuids w)\<rparr>" u u2] fu u(1) \<open>u_id u2 = i\<close> by simp_all
  ultimately show ?thesis
    using \<open>u_failed_login_count u2 = 0\<close> by (intro that [OF fu c fresh t few, of "u2\<lparr>u_updated_at := Some (w_now w)\<rparr>"]) simp_all
qed

text \<open>
  \<open>verify_user_code\<close> accepts a code only if it is one that was made for this
  user and this type, has not expired and has not been used, and the user has not failed too
  often; and the same request made again, however much later, is refused.
\<close>

theorem code_accepted_once:
  assumes "distinct_rows u_id (w_users w)" "distinct_rows vc_id (w_verify_codes w)"
    and "0 < ac_max_failed_login_count lib"
    and "verify_user_code env lib i code t w = (Inr (), v)"
  shows "(\<exists>c \<in> set (w_verify_codes w). vc_user_id c = i \<and> ntype_name (vc_code_type c) = t
            \<and> ac_check_hash lib code (vc_code c) \<and> w_now w \<le> vc_expiry_datetime c \<and> \<not> vc_code_used c)
    \<and> failed_logins i w < ac_max_failed_login_count lib
    \<and> fst (verify_user_code env lib i code t (v\<lparr>w_now := later\<rparr>))
        = Inl (invalid_request ''Code has expired'' 400)"
proof -
  from assms(1,2,4) obtain u u' c where a:
    "find_row u_id i (w_users w) = Some u" "get_user_code lib u code t w = Some c"
    "w_now w \<le> vc_expiry_datetime c" "\<not> vc_code_used c" "t \<in> {''email'', ''sms''}"
    "u_failed_login_count u < ac_max_failed_login_count lib"
    "find_row u_id i (w_users v) = Some u'" "distinct_rows u_id (w_users v)"
    "u_failed_login_count u' = 0" "w_verify_codes v = map (mark_used (vc_id c)) (w_verify_codes w)"
    by (rule verify_user_code_InrD)
  let ?v = "v\<lparr>w_now := later\<rparr>"
  have ids: "u_id u = i" "u_id u' = i" using find_row_SomeD a(1,7) by (metis, metis)
  have "get_user_by_id i ?v = Inr u'" using get_user_by_id_find [of ?v] a(7,8) by simp
  moreover have "get_user_code lib u' code t ?v = Some (mark_used (vc_id c) c)"
    using get_user_code_marked [of ?v "vc_id c" w u' u lib code t] a(2,10) ids by simp
  ultimately have "fst (verify_user_code env lib i code t ?v) = Inl (invalid_request ''Code has expired'' 400)"
    using a(5,9) assms(3) by (auto simp: verify_user_code_def mark_used_def)
  then show ?thesis
    using a(1,3,4,6) get_user_code_SomeD [OF a(2)] ids(1) by (auto simp: failed_logins_def)
qed

definition sample_user :: "uuid \<Rightarrow> user" where
  "sample_user i =
     \<lparr>u_id = i, u_name = ''user'', u_email_address = nat_str i, u_created_at = 0, u_updated_at = None,
      u_password = ''hash'', u_mobile_number = Some ''0612345678'', u_password_changed_at = 0,
      u_logged_in_at = None, u_failed_login_count = 0, u_state = ''active'', u_platform_admin = False,
      u_current_session_id = None, u_auth_type = SmsAuth, u_email_access_validated_at = 0,
      u_take_part_in_research = True, u_receives_new_features_email = True\<rparr>"

definition sample_account :: account_lib where
  "sample_account =
     \<lparr>ac_hash = id, ac_check_hash = (=), ac_random_digit = (\<lambda>m. m mod 10),
      ac_url_with_token = (\<lambda>d u b. u @ d), ac_template_id = (\<lambda>n. 20), ac_notify_service_id = 10,
      ac_admin_base_url = ''admin'', ac_notify_email_domain = ''notify'',
      ac_international_sender = ''1'', ac_numeric_sender = (\<lambda>n. False),
      ac_phone_of_none = Inl (Py TypeError), ac_max_verify_code_count = 5, ac_max_failed_login_count = 2\<rparr>"

definition sample_code :: verify_code where
  "sample_code =
     \<lparr>vc_id = 40, vc_user_id = 5, vc_code = ''12345'', vc_code_type = Sms,
      vc_expiry_datetime = minutes 30, vc_code_used = False, vc_created_at = 0\<rparr>"

definition code_world :: world where
  "code_world = sample_world\<lparr>w_users := [sample_user 5], w_verify_codes := [sample_code]\<rparr>"

lemma code_world_rows:
  "distinct_rows u_id (w_users code_world)" "distinct_rows vc_id (w_verify_codes code_world)"
  "find_row u_id 5 (w_users code_world) = Some (sample_user 5)"
  by (simp_all add: code_world_def distinct_rows_def row_simps sample_user_def)

lemma code_world_user: "get_user_by_id 5 code_world = Inr (sample_user 5)"
  by (rule get_user_by_id_find [OF code_world_rows(1,3)])

lemma code_world_accepts:
  "fst (verify_user_code sample_env sample_account 5 ''12345'' ''sms'' code_world) = Inr ()"
  unfolding verify_user_code_def code_world_user
  by (simp add: get_user_code_def code_world_def sample_code_def sample_account_def sample_user_def
      use_user_code_def save_model_user_def save_user_def create_uuid_def sample_world_def
      minutes_def seconds_def row_simps Let_def)

theorem code_accepted_once_witness:
  "fst (verify_user_code sample_env sample_account 5 ''12345'' ''sms''
     ((snd (verify_user_code sample_env sample_account 5 ''12345'' ''sms'' code_world))\<lparr>w_now := 7\<rparr>))
   = Inl (invalid_request ''Code has expired'' 400)"
proof -
  let ?r = "verify_user_code sample_env sample_account 5 ''12345'' ''sms'' code_world"
  have "?r = (Inr (), snd ?r)" by (rule prod_eqI) (simp_all add: code_world_accepts)
  moreover have "0 < ac_max_failed_login_count sample_account" by (simp add: sample_account_def)
  ultimately show ?thesis using code_accepted_once [OF code_world_rows(1,2)] by blast
qed

text \<open>
  C13: However a series of requests to verify a code fails, each one is counted up
  to the limit; once the series is as long as the guesses the user has left, the right code is
  refused, too, and nothing changes any more (until the count is reset).
\<close>

theorem guesses_bounded:
  assumes "distinct_rows u_id (w_users w)" "find_row u_id i (w_users w) = Some u"
    and "\<forall>a \<in> set as. snd a \<in> {''email'', ''sms''}" and "snd b \<in> {''email'', ''sms''}"
    and "\<forall>r \<in> set (fst (try_codes env lib i as w)). \<exists>e. r = Inl e"
    and "failed_logins i w \<le> ac_max_failed_login_count lib"
    and "ac_max_failed_login_count lib - failed_logins i w \<le> int (length as)"
  shows "try_code env lib i b (snd (try_codes env lib i as w))
    = (Inl (invalid_request ''Code not found'' 404), snd (try_codes env lib i as w))"
proof -
  let ?v = "snd (try_codes env lib i as w)"
  have "failed_logins i ?v = ac_max_failed_login_count lib"
    using try_codes_bounded [OF assms(1,2,3,5,6)] assms(7) by linarith
  moreover obtain u' where "find_row u_id i (w_users ?v) = Some u'" "distinct_rows u_id (w_users ?v)"
    using try_codes_keep_user [OF assms(1,2,3,5)] by blast
  ultimately show ?thesis
    using assms(4) by (auto simp: try_code_def verify_user_code_def get_user_by_id_find failed_logins_def)
qed

definition guessed_world :: world where
  "guessed_world = code_world\<lparr>w_users :=
     [(sample_user 5)\<lparr>u_failed_login_count := 1, u_updated_at := Some 0\<rparr>]\<rparr>"

lemma first_guess:
  "try_code sample_env sample_account 5 (''0'', ''sms'') code_world
    = (Inl (invalid_request ''Code not found'' 404), guessed_world)"
  unfolding try_code_def verify_user_code_def guessed_world_def
  by (simp add: code_world_user get_user_code_def)
    (simp add: code_world_def sample_code_def sample_account_def sample_user_def
      increment_failed_login_count_def save_user_def sample_world_def)

lemma second_guess:
  "\<exists>v. try_code sample_env sample_account 5 (''1'', ''sms'') guessed_world
    = (Inl (invalid_request ''Code not found'' 404), v)"
  unfolding try_code_def verify_user_code_def
  by (simp add: get_user_by_id_def query_one_def get_user_code_def guessed_world_def)
    (simp add: code_world_def sample_code_def sample_account_def sample_user_def)

theorem guesses_bounded_witness:
  "\<exists>v. try_code sample_env sample_account 5 (''12345'', ''sms'') v
     = (Inl (invalid_request ''Code not found'' 404), v)"
proof -
  let ?as = "[(''0'', ''sms''), (''1'', ''sms'')]"
  obtain v where v: "try_codes sample_env sample_account 5 ?as code_world =
      ([Inl (invalid_request ''Code not found'' 404), Inl (invalid_request ''Code not found'' 404)], v)"
    using second_guess by (auto simp: first_guess)
  have "try_code sample_env sample_account 5 (''12345'', ''sms'')
      (snd (try_codes sample_env sample_account 5 ?as code_world))
    = (Inl (invalid_request ''Code not found'' 404), snd (try_codes sample_env sample_account 5 ?as code_world))"
    by (rule guesses_bounded [OF code_world_rows(1,3)], unfold v)
      (simp_all add: failed_logins_def code_world_rows(3), simp_all add: sample_account_def sample_user_def)
  then show ?thesis by blast
qed

section \<open>Archiving a user\<close>

lemma delete_memberships:
  "w_user_services (fold (\<lambda>r. delete_service_user (fst r) (snd r)) rs w)
     = filter (\<lambda>r. r \<notin> set rs) (w_user_services w)"
  "w_users (fold (\<lambda>r. delete_service_user (fst r) (snd r)) rs w) = w_users w"
  "w_services (fold (\<lambda>r. delete_service_user (fst r) (snd r)) rs w) = w_services w"
  "w_permissions (fold (\<lambda>r. delete_service_user (fst r) (snd r)) rs w) = w_permissions w"
  "w_user_organisations (fold (\<lambda>r. delete_service_user (fst r) (snd r)) rs w) = w_user_organisations w"
  "w_now (fold (\<lambda>r. delete_service_user (fst r) (snd r)) rs w) = w_now w"
  by (induction rs arbitrary: w)
    (auto simp: delete_service_user_def set_folders_def delete_rows_def intro: filter_cong)

lemma delete_org_memberships:
  "w_user_organisations (fold (\<lambda>i. dao_remove_user_from_organisation i u) is w)
     = filter (\<lambda>r. \<not> (fst r = u \<and> snd r \<in> set is)) (w_user_organisations w)"
  "w_users (fold (\<lambda>i. dao_remove_user_from_organisation i u) is w) = w_users w"
  "w_services (fold (\<lambda>i. dao_remove_user_from_organisation i u) is w) = w_services w"
  "w_permissions (fold (\<lambda>i. dao_remove_user_from_organisation i u) is w) = w_permissions w"
  "w_user_services (fold (\<lambda>i. dao_remove_user_from_organisation i u) is w) = w_user_services w"
  "w_now (fold (\<lambda>i. dao_remove_user_from_organisation i u) is w) = w_now w"
  by (induction "is" arbitrary: w)
    (auto simp: dao_remove_user_from_organisation_def remove_user_organisation_permissions_def
      delete_rows_def intro: filter_cong)

lemma archived_rows:
  assumes "dao_archive_user env lib u w = (Inr (), v)"
  shows "user_can_be_archived u w"
    "w_user_services v = filter (\<lambda>r. fst r \<noteq> u_id u) (w_user_services w)"
    "w_permissions v = delete_rows (\<lambda>r. pm_user_id r = u_id u) (w_permissions w)"
    "w_services v = w_services w"
    "w_user_organisations v = filter (\<lambda>r. \<not> (fst r = u_id u
        \<and> snd r \<in> set (loop_organisations (user_organisations (u_id u) w)))) (w_user_organisations w)"
    "\<exists>a. u_id a = u_id u \<and> u_state a = ''inactive'' \<and> \<not> u_platform_admin a \<and> u_mobile_number a = None
        \<and> w_users v = (if u_id u \<in> u_id ` set (w_users w) then save_row u_id a (w_users w)
                       else w_users w @ [a])"
proof -
  define w1 where "w1 = remove_user_service_permissions_for_all_services (u_id u) w"
  define rs where "rs = dao_get_service_users_by_user_id (u_id u) w1"
  define w2 where "w2 = fold (\<lambda>r. delete_service_user (fst r) (snd r)) rs w1"
  define w3 where "w3 = fold (\<lambda>i. dao_remove_user_from_organisation i (u_id u))
      (loop_organisations (user_organisations (u_id u) w2)) w2"
  define w4 where "w4 = snd (create_uuid env w3)"
  define a where "a = archived_user lib (uuid_str (fst (create_uuid env w3))) u w4"
  show can: "user_can_be_archived u w"
    using assms by (auto simp: dao_archive_user_def autocommit_def split: if_splits)
  have v: "v = save_user a w4"
    using assms can
    by (auto simp: dao_archive_user_def autocommit_def Let_def w1_def rs_def w2_def w3_def w4_def a_def split_beta)
  have w1: "w_user_services w1 = w_user_services w" "w_users w1 = w_users w" "w_services w1 = w_services w"
      "w_permissions w1 = delete_rows (\<lambda>r. pm_user_id r = u_id u) (w_permissions w)"
      "w_user_organisations w1 = w_user_organisations w"
    by (simp_all add: w1_def remove_user_service_permissions_for_all_services_def)
  have w4: "w_user_services w4 = w_user_services w2" "w_users w4 = w_users w"
      "w_services w4 = w_services w" "w_permissions w4 = w_permissions w1"
      "w_user_organisations w4 = w_user_organisations w3"
    by (simp_all add: w4_def create_uuid_def w3_def delete_org_memberships w2_def delete_memberships w1)
  have orgs: "user_organisations (u_id u) w2 = user_organisations (u_id u) w"
    by (simp add: user_organisations_def w2_def delete_memberships w1)
  have rows: "w_user_services (save_user a w4) = w_user_services w4"
      "w_permissions (save_user a w4) = w_permissions w4" "w_services (save_user a w4) = w_services w4"
      "w_user_organisations (save_user a w4) = w_user_organisations w4"
    by (simp_all add: save_user_def)
  show "w_user_services v = filter (\<lambda>r. fst r \<noteq> u_id u) (w_user_services w)"
    unfolding v rows w4 w2_def delete_memberships w1
    by (rule filter_cong) (auto simp: rs_def dao_get_service_users_by_user_id_def w1)
  show "w_permissions v = delete_rows (\<lambda>r. pm_user_id r = u_id u) (w_permissions w)"
    "w_services v = w_services w"
    unfolding v rows w4 w1 by (rule refl)+
  show "w_user_organisations v = filter (\<lambda>r. \<not> (fst r = u_id u
        \<and> snd r \<in> set (loop_organisations (user_organisations (u_id u) w)))) (w_user_organisations w)"
    unfolding v rows w4 w3_def delete_org_memberships orgs by (simp add: w2_def delete_memberships w1)
  show "\<exists>a. u_id a = u_id u \<and> u_state a = ''inactive'' \<and> \<not> u_platform_admin a \<and> u_mobile_number a = None
        \<and> w_users v = (if u_id u \<in> u_id ` set (w_users w) then save_row u_id a (w_users w)
                       else w_users w @ [a])"
    by (rule exI [of _ "if u_id a \<in> u_id ` set (w_users w4)
          then a\<lparr>u_updated_at := Some (w_now w4)\<rparr> else a"])
      (simp add: v save_user_def w4 a_def archived_user_def)
qed

lemma archive_allowed:
  "user_can_be_archived u w \<Longrightarrow>
     dao_archive_user env lib u w = (Inr (), snd (dao_archive_user env lib u w))"
  by (simp add: dao_archive_user_def autocommit_def Let_def split_beta)

definition archive_world :: world where
  "archive_world = sample_world\<lparr>w_users := [sample_user 5, sample_user 6],
     w_services := [sample_service], w_user_services := [(5, 10), (6, 10)],
     w_permissions := [\<lparr>pm_service_id = Some 10, pm_user_id = 6, pm_permission = ManageSettings,
                        pm_created_at = 0\<rparr>],
     w_user_organisations := [(5, 70), (5, 71)]\<rparr>"

lemma archive_world_allows: "user_can_be_archived (sample_user 5) archive_world"
  by (simp add: user_can_be_archived_def archive_world_def user_services_def service_users_def
      user_permissions_def get_permissions_by_user_id_and_service_id_def service_is_active_def
      row_simps Let_def sample_service_def sample_user_def)

lemma archive_world_users: "distinct_rows u_id (w_users archive_world)"
  by (simp add: archive_world_def distinct_rows_def sample_user_def)

text \<open>
  C14: \<open>dao_archive_user\<close> makes a user inactive and takes away every
  membership of and permission for a service, and it is refused unless each active service the
  user belonged to keeps another active member who may manage its settings.
\<close>

theorem archive_leaves_manager:
  assumes "dao_archive_user env lib u w = (Inr (), v)" and "distinct_rows u_id (w_users w)"
  shows "(\<forall>r \<in> set (w_user_services v). fst r \<noteq> u_id u)
    \<and> (\<forall>r \<in> set (w_permissions v). pm_user_id r \<noteq> u_id u)
    \<and> (\<forall>a \<in> set (w_users v). u_id a = u_id u \<longrightarrow> u_state a = ''inactive'' \<and> \<not> u_platform_admin a)
    \<and> (\<forall>s \<in> set (w_services w). svc_active s \<and> (u_id u, svc_id s) \<in> set (w_user_services w) \<longrightarrow>
         (\<exists>x \<in> set (service_users (svc_id s) v). u_state x = ''active'' \<and> u_id x \<noteq> u_id u
            \<and> ManageSettings \<in> set (user_permissions (u_id x) (svc_id s) v)))"
proof -
  note r = archived_rows [OF assms(1)]
  obtain a where a: "u_id a = u_id u" "u_state a = ''inactive''" "\<not> u_platform_admin a"
      "w_users v = (if u_id u \<in> u_id ` set (w_users w) then save_row u_id a (w_users w) else w_users w @ [a])"
    using r(6) by blast
  have users: "set (w_users v) = insert a {x \<in> set (w_users w). u_id x \<noteq> u_id u}"
    using a(1,4) set_save_row_distinct [OF assms(2), of a] by (auto simp: image_iff split: if_splits)
  have perms: "user_permissions i s v = user_permissions i s w" if "i \<noteq> u_id u" for i s
    using that
    by (simp add: user_permissions_def get_permissions_by_user_id_and_service_id_def r(3,4) delete_rows_def
        service_is_active_def cong: conj_cong) (metis (mono_tags, lifting))
  have "\<exists>x \<in> set (service_users (svc_id s) v). u_state x = ''active'' \<and> u_id x \<noteq> u_id u
            \<and> ManageSettings \<in> set (user_permissions (u_id x) (svc_id s) v)"
    if s: "s \<in> set (w_services w)" "svc_active s" "(u_id u, svc_id s) \<in> set (w_user_services w)" for s
  proof -
    have "s \<in> set (filter svc_active (user_services (u_id u) w))" using s by (simp add: user_services_def)
    then obtain x where x: "x \<in> set (service_users (svc_id s) w)" "u_state x = ''active''" "u_id x \<noteq> u_id u"
        "ManageSettings \<in> set (user_permissions (u_id x) (svc_id s) w)"
      using r(1) by (auto simp: user_can_be_archived_def list_all_iff list_ex_iff Let_def)
    then have "x \<in> set (service_users (svc_id s) v)" using users r(2) by (auto simp: service_users_def)
    then show ?thesis using x perms by auto
  qed
  then show ?thesis using r(2,3) users a by (auto simp: delete_rows_def)
qed

theorem archive_leaves_manager_witness:
  "\<exists>x \<in> set (service_users 10
      (snd (dao_archive_user sample_env sample_account (sample_user 5) archive_world))).
     u_state x = ''active'' \<and> u_id x \<noteq> 5"
proof -
  note p = archive_leaves_manager [OF archive_allowed [OF archive_world_allows] archive_world_users,
      of sample_env sample_account]
  have "sample_service \<in> set (w_services archive_world)" "svc_active sample_service" "svc_id sample_service = 10"
      "(5, 10) \<in> set (w_user_services archive_world)" "u_id (sample_user 5) = 5"
    by (simp_all add: archive_world_def sample_service_def sample_user_def)
  then show ?thesis using p by fastforce
qed

lemma filter_members:
  "map snd (filter (\<lambda>r. fst r = a) (filter (\<lambda>r. \<not> (fst r = a \<and> snd r \<in> S)) rows))
    = filter (\<lambda>i. i \<notin> S) (map snd (filter (\<lambda>r. fst r = a) rows))"
  by (induction rows) auto

text \<open>
  A user who belongs to two or more organisations still
  belongs to the second of them after being archived: the loop removes the user from the list it
  iterates over and steps over one.
\<close>

theorem archive_keeps_second_organisation:
  assumes "dao_archive_user env lib u w = (Inr (), v)"
    and "user_organisations (u_id u) w = o1 # o2 # os" "distinct (o1 # o2 # os)"
  shows "user_organisations (u_id u) v = [o2]"
proof -
  note r = archived_rows [OF assms(1)]
  have "user_organisations (u_id u) v = filter (\<lambda>i. i \<notin> set (o1 # os)) (user_organisations (u_id u) w)"
    unfolding user_organisations_def r(5) filter_members
    using assms(2) by (simp add: user_organisations_def loop_organisations_def)
  then show ?thesis using assms(2,3) by (auto simp: filter_id_conv filter_empty_conv)
qed

theorem archive_keeps_second_organisation_witness:
  "user_organisations 5 (snd (dao_archive_user sample_env sample_account (sample_user 5) archive_world))
     = [71]"
  using archive_keeps_second_organisation [where env = sample_env and lib = sample_account,
      OF archive_allowed [OF archive_world_allows], of 70 71 "[]"]
  by (simp add: user_organisations_def archive_world_def sample_user_def)

end
