(* ===== verification/Templates.thy ===== *)
theory Templates
  imports Post Auth
begin

text \<open>
  Templates: \<^verbatim>\<open>app/dao/templates_dao.py\<close> and the endpoints of \<^verbatim>\<open>app/template/rest.py\<close> that read and
  write templates (not the previews, which only call the template preview service). A request
  carries what its schema makes of the body. The rendering checks are parameters.
\<close>

record template_lib =
  tl_sms_too_long :: "string \<Rightarrow> bool"
  tl_qr_code_too_long :: "string option \<Rightarrow> string \<Rightarrow> bool"
  tl_collation :: "string \<Rightarrow> nat"
  tl_sms_char_count_limit :: int

section \<open>Rows\<close>

definition change_template :: "template \<Rightarrow> world \<Rightarrow> world" where
  \<comment> \<open>with \<open>create_history\<close>\<close>
  "change_template t w =
     (let t' = t\<lparr>t_version := t_version t + 1, t_updated_at := Some (w_now w)\<rparr>
      in w\<lparr>w_templates := save_row t_id t' (w_templates w),
           w_template_history := w_template_history w @ [template_to_history t']\<rparr>)"

definition dao_update_template :: "template \<Rightarrow> template op" where
  \<comment> \<open>the check constraints of the table may refuse the row\<close>
  "dao_update_template t =
     autocommit (\<lambda>w.
       if template_row_ok t then (Inr t, change_template t w) else (Inl (Db OtherSQLAlchemyError), w))"

definition dao_redact_template :: "template \<Rightarrow> uuid \<Rightarrow> unit op" where
  "dao_redact_template t user_id =
     autocommit (\<lambda>w.
       case find_row trd_template_id (t_id t) (w_redacted w) of
         None \<Rightarrow> (Inl (Py AttributeError), w)
       | Some r \<Rightarrow>
           (Inr (), w\<lparr>w_redacted := save_row trd_template_id
              (r\<lparr>trd_redact_personalisation := True, trd_updated_at := w_now w,
                 trd_updated_by_id := user_id\<rparr>) (w_redacted w)\<rparr>))"

definition redact_personalisation :: "template \<Rightarrow> world \<Rightarrow> bool" where
  "redact_personalisation t w =
     (case find_row trd_template_id (t_id t) (w_redacted w) of
        None \<Rightarrow> False | Some r \<Rightarrow> trd_redact_personalisation r)"

definition type_rank :: "ntype \<Rightarrow> nat" where
  \<comment> \<open>the order of the database's enumeration\<close>
  "type_rank t = (case t of Sms \<Rightarrow> 0 | Email \<Rightarrow> 1 | Letter \<Rightarrow> 2 | Messagebox \<Rightarrow> 3)"

definition dao_get_all_templates_for_service ::
  "template_lib \<Rightarrow> uuid \<Rightarrow> ntype option \<Rightarrow> world \<Rightarrow> template list" where
  "dao_get_all_templates_for_service lib service_id t w =
     sort_key (\<lambda>r. tl_collation lib (t_name r)) (sort_key (\<lambda>r. type_rank (t_type r))
       (filter (\<lambda>r. t_service_id r = service_id \<and> \<not> t_hidden r \<and> \<not> t_archived r
                   \<and> (case t of None \<Rightarrow> True | Some x \<Rightarrow> t_type r = x)) (w_templates w)))"

definition dao_get_template_versions :: "uuid \<Rightarrow> uuid \<Rightarrow> world \<Rightarrow> template list" where
  "dao_get_template_versions service_id i w =
     sort_key (\<lambda>r. - t_version r)
       (filter (\<lambda>r. t_service_id r = service_id \<and> t_id r = i \<and> \<not> t_hidden r) (w_template_history w))"

section \<open>Creating a template\<close>

record create_form =
  cf_name :: string
  cf_template_type :: ntype
  cf_content :: string
  cf_service :: uuid
  cf_created_by :: uuid
  cf_subject :: "string option"
  cf_parent_folder_id :: "string option"
  cf_postage :: "postage option"
  cf_reply_to :: "uuid option"
  cf_letter_languages :: "letter_language option"
  cf_letter_welsh_subject :: "string option"
  cf_letter_welsh_content :: "string option"
  cf_has_unsubscribe_link :: bool

definition validate_parent_folder :: "create_form \<Rightarrow> world \<Rightarrow> template_folder option result" where
  \<comment> \<open>the folder is looked up in the service the body names\<close>
  "validate_parent_folder form w =
     (case cf_parent_folder_id form of
        None \<Rightarrow> Inr None
      | Some i \<Rightarrow>
          (case dao_get_template_folder_by_id_and_service_id (the (parse_uuid i)) (cf_service form) w of
             Inl (Db NoResultFound) \<Rightarrow> Inl (invalid_request ''parent_folder_id not found'' 400)
           | Inl e \<Rightarrow> Inl e
           | Inr f \<Rightarrow> Inr (Some f)))"

definition template_from_json ::
  "create_form \<Rightarrow> template_folder option \<Rightarrow> uuid \<Rightarrow> time \<Rightarrow> template result" where
  "template_from_json form folder i now =
     set_template_reply_to (cf_reply_to form)
       \<lparr>t_id = i, t_name = cf_name form, t_type = cf_template_type form, t_created_at = now,
        t_updated_at = None, t_content = cf_content form, t_archived = False, t_hidden = False,
        t_subject = cf_subject form, t_postage = cf_postage form,
        t_letter_welsh_content = cf_letter_welsh_content form,
        t_letter_welsh_subject = cf_letter_welsh_subject form,
        t_letter_languages = (case cf_letter_languages form of
            None \<Rightarrow> letter_languages_default (cf_template_type form) | Some l \<Rightarrow> Some l),
        t_has_unsubscribe_link = cf_has_unsubscribe_link form, t_service_id = cf_service form,
        t_created_by_id = cf_created_by form, t_version = 0, t_service_letter_contact_id = None,
        t_letter_attachment_id = None, t_folder = map_option tf_id folder\<rparr>"

definition content_count_greater_than_limit :: "template_lib \<Rightarrow> string \<Rightarrow> ntype \<Rightarrow> bool" where
  "content_count_greater_than_limit lib content t \<longleftrightarrow> t = Sms \<and> tl_sms_too_long lib content"

definition check_template_content :: "template_lib \<Rightarrow> ntype \<Rightarrow> template \<Rightarrow> unit result" where
  \<comment> \<open>the two checks both endpoints make\<close>
  "check_template_content lib type t =
     (if content_count_greater_than_limit lib (t_content t) type
      then Inl (invalid_request (''Content has a character count greater than the limit of ''
              @ int_str (tl_sms_char_count_limit lib)) 400)
      else if type = Letter \<and> tl_qr_code_too_long lib (t_subject t) (t_content t)
      then Inl (invalid_request ''qr-code-too-long'' 400)
      else Inr ())"

definition insert_template :: "template \<Rightarrow> template op" where
  \<comment> \<open>\<open>dao_create_template\<close> under the table's constraints\<close>
  "insert_template t w =
     (if template_row_ok t \<and> t_id t \<notin> t_id ` set (w_templates w)
      then dao_create_template t w else (Inl (Db OtherSQLAlchemyError), w))"

definition create_template :: "env \<Rightarrow> template_lib \<Rightarrow> uuid \<Rightarrow> create_form result \<Rightarrow> template op" where
  \<comment> \<open>\<open>new_template.service\<close> is the service of the path\<close>
  "create_template env lib service_id body w =
     (case dao_fetch_service_by_id service_id False w of
        Inl e \<Rightarrow> (Inl e, w)
      | Inr s \<Rightarrow>
          op_bind (op_lift body) (\<lambda>form.
          op_bind (\<lambda>w. (validate_parent_folder form w, w)) (\<lambda>folder.
          op_bind (\<lambda>w. let (i, w1) = create_uuid env w
                       in (template_from_json form folder i (w_now w), w1)) (\<lambda>t0.
            if \<not> has_permission s (SendType (t_type t0))
            then op_raise (invalid_request (''Creating '' @ get_public_notify_type_text (t_type t0) False
                   @ '' templates is not allowed'') 403)
            else
              let t = t0\<lparr>t_postage := (if t_postage t0 = None \<and> t_type t0 = Letter
                                        then Some Netherlands else t_postage t0),
                         t_service_id := svc_id s\<rparr>
              in op_bind (op_lift (check_template_content lib (t_type t) t)) (\<lambda>_.
                 op_bind (\<lambda>w. (check_service_letter_contact_id service_id (template_reply_to t) w, w)) (\<lambda>_.
                   insert_template t))))) w)"

section \<open>Updating a template\<close>

text \<open>
  The body of an update: its keys \<open>redact_personalisation\<close>, \<open>created_by\<close> and \<open>reply_to\<close>, and what
  loading the template's data updated with it makes of the row, if the schema accepts that.
\<close>

record update_form =
  uf_redact_personalisation :: bool
  uf_created_by :: "uuid option"
  uf_reply_to :: "uuid option option"
  uf_set :: "template \<Rightarrow> template"
  uf_loads :: "template \<Rightarrow> unit result"

definition redact_template :: "template \<Rightarrow> update_form \<Rightarrow> unit op" where
  "redact_template t form w =
     (case uf_created_by form of
        None \<Rightarrow> (Inl (invalid_request ''Field is required'' 400), w)
      | Some user \<Rightarrow>
          if redact_personalisation t w then (Inr (), w) else dao_redact_template t user w)"

definition updated_template :: "update_form \<Rightarrow> template \<Rightarrow> template" where
  \<comment> \<open>the id in the body, if there is one, is the template's own\<close>
  "updated_template form t = (uf_set form t)\<lparr>t_id := t_id t\<rparr>"

definition update_template ::
  "template_lib \<Rightarrow> uuid \<Rightarrow> uuid \<Rightarrow> update_form result \<Rightarrow> unit op" where
  "update_template lib service_id template_id body w =
     (case dao_get_template_by_id_and_service_id template_id service_id None w of
        Inl e \<Rightarrow> (Inl e, w)
      | Inr t \<Rightarrow>
          (case service_by_id (t_service_id t) w of
             Inl e \<Rightarrow> (Inl e, w)
           | Inr s \<Rightarrow>
               if \<not> has_permission s (SendType (t_type t))
               then (Inl (invalid_request (''Updating '' @ get_public_notify_type_text (t_type t) False
                       @ '' templates is not allowed'') 403), w)
               else
                 op_bind (op_lift body) (\<lambda>form.
                   if uf_redact_personalisation form then redact_template t form
                   else case uf_reply_to form of
                     Some r \<Rightarrow>
                       op_bind (\<lambda>w. (check_service_letter_contact_id service_id r w, w)) (\<lambda>_.
                       op_bind (dao_update_template (t\<lparr>t_service_letter_contact_id := r\<rparr>)) (\<lambda>_.
                         op_return ()))
                   | None \<Rightarrow>
                       let t' = updated_template form t
                       in if t' = t then op_return ()
                          else
                            op_bind (op_lift (check_template_content lib (t_type t) t')) (\<lambda>_.
                            op_bind (op_lift (uf_loads form t')) (\<lambda>_.
                            op_bind (dao_update_template
                                (if t_archived t' then t'\<lparr>t_folder := None\<rparr> else t')) (\<lambda>_.
                              op_return ())))) w))"

section \<open>Versions and folders\<close>

interpretation templates: versioned_store w_templates w_template_history t_id t_version
    "\<lambda>t w. snd (dao_create_template t w)" change_template
  by unfold_locales
    (auto simp: dao_create_template_def change_template_def autocommit_def template_to_history_def Let_def)

definition template_versions_ok :: "world \<Rightarrow> bool" where
  "template_versions_ok w \<longleftrightarrow> versions_ok t_id t_version (w_templates w) (w_template_history w)"

lemma template_versions_iff: "template_versions_ok = templates.all_versions"
  by (simp add: fun_eq_iff template_versions_ok_def templates.all_versions_def)

text \<open>A request to the endpoints that write, and what it answers.\<close>

datatype template_request =
    CreateTemplate uuid "create_form result" | UpdateTemplate uuid uuid "update_form result"

fun template_handler :: "env \<Rightarrow> template_lib \<Rightarrow> template_request \<Rightarrow> unit op" where
  "template_handler env lib (CreateTemplate s body) =
     op_bind (create_template env lib s body) (\<lambda>_. op_return ())"
| "template_handler env lib (UpdateTemplate s i body) = update_template lib s i body"

fun plain_request :: "template_request \<Rightarrow> bool" where
  \<comment> \<open>the body names the service of the path, and no update changes version, service or folder\<close>
  "plain_request (CreateTemplate s (Inr form)) \<longleftrightarrow> cf_service form = s"
| "plain_request (UpdateTemplate s i (Inr form)) \<longleftrightarrow>
     (\<forall>t. t_version (uf_set form t) = t_version t \<and> t_service_id (uf_set form t) = t_service_id t
        \<and> t_folder (uf_set form t) = t_folder t)"
| "plain_request _ \<longleftrightarrow> True"

text \<open>What a request does to the two tables: nothing, one new row, or one new version.\<close>

definition adds_template :: "world \<Rightarrow> world \<Rightarrow> template \<Rightarrow> bool" where
  "adds_template w v t \<longleftrightarrow>
     w_templates v = w_templates w @ [t] \<and> w_template_history v = w_template_history w @ [t]
     \<and> t_id t \<notin> t_id ` set (w_templates w) \<and> t_version t = 1"

definition revises_template :: "world \<Rightarrow> world \<Rightarrow> template \<Rightarrow> template \<Rightarrow> bool" where
  "revises_template w v old t \<longleftrightarrow>
     old \<in> set (w_templates w) \<and> t_id t = t_id old
     \<and> w_templates v = save_row t_id t (w_templates w) \<and> w_template_history v = w_template_history w @ [t]"

definition same_templates :: "world \<Rightarrow> world \<Rightarrow> bool" where
  "same_templates w v \<longleftrightarrow> w_templates v = w_templates w \<and> w_template_history v = w_template_history w"

lemma insert_template_cases:
  "same_templates w (snd (insert_template t w)) \<or>
   (\<exists>t'. adds_template w (snd (insert_template t w)) t' \<and> t_folder t' = t_folder t
       \<and> t_service_id t' = t_service_id t)"
  by (auto simp: insert_template_def same_templates_def adds_template_def dao_create_template_def
      autocommit_def template_to_history_def Let_def)

lemma insert_template_folders [simp]: "w_folders (snd (insert_template t w)) = w_folders w"
  by (simp add: insert_template_def dao_create_template_def autocommit_def Let_def)

lemma dao_update_template_cases:
  assumes "old \<in> set (w_templates w)" "t_id t = t_id old"
  shows "same_templates w (snd (dao_update_template t w)) \<or>
   (\<exists>t'. revises_template w (snd (dao_update_template t w)) old t' \<and> t_folder t' = t_folder t
       \<and> t_service_id t' = t_service_id t \<and> t_version t' = t_version t + 1)"
  using assms
  by (auto simp: dao_update_template_def same_templates_def revises_template_def change_template_def
      autocommit_def template_to_history_def Let_def)

lemma dao_update_template_folders [simp]: "w_folders (snd (dao_update_template t w)) = w_folders w"
  by (simp add: dao_update_template_def change_template_def autocommit_def Let_def)

lemma validate_parent_folder_InrD:
  assumes "validate_parent_folder form w = Inr (Some f)"
  shows "(tf_id f, cf_service form) \<in> folder_keys (w_folders w)"
proof -
  obtain i where "dao_get_template_folder_by_id_and_service_id (the (parse_uuid i)) (cf_service form) w = Inr f"
    using assms by (auto simp: validate_parent_folder_def split: option.splits sum.splits exn.splits db_exn.splits)
  then show ?thesis using folder_by_id_InrD by (force simp: folder_keys_def)
qed

lemma same_templates_refl [simp]: "same_templates w w"
  by (simp add: same_templates_def)

lemma create_template_cases:
  assumes v_def: "v = snd (create_template env lib s body w)"
  shows "w_folders v = w_folders w \<and>
    (same_templates w v \<or>
     (\<exists>t' form. body = Inr form \<and> adds_template w v t' \<and> t_service_id t' = s
        \<and> (\<forall>i. t_folder t' = Some i \<longrightarrow> (i, cf_service form) \<in> folder_keys (w_folders w))))"
proof (cases "dao_fetch_service_by_id s False w")
  case (Inl e)
  then show ?thesis by (simp add: v_def create_template_def)
next
  case (Inr svc)
  have id: "svc_id svc = s" using Inr by (auto simp: dao_fetch_service_by_id_def dest: query_one_InrD)
  show ?thesis
  proof (cases body)
    case (Inl e)
    then show ?thesis using Inr by (simp add: v_def create_template_def op_lift_def)
  next
    case form: (Inr form)
    show ?thesis
    proof (cases "validate_parent_folder form w")
      case (Inl e)
      then show ?thesis using Inr form by (simp add: v_def create_template_def op_lift_def)
    next
      case folder: (Inr folder)
      let ?w = "w\<lparr>w_uuids := Suc (w_uuids w)\<rparr>"
      define r where "r = template_from_json form folder (lib_uuid env (w_uuids w)) (w_now w)"
      show ?thesis
      proof (cases r)
        case (Inl e)
        then show ?thesis using Inr form folder
          by (simp add: v_def create_template_def op_lift_def create_uuid_def r_def same_templates_def)
      next
        case t0: (Inr t0)
        define t where "t = t0\<lparr>t_postage := (if t_postage t0 = None \<and> t_type t0 = Letter
                                        then Some Netherlands else t_postage t0),
                         t_service_id := svc_id svc\<rparr>"
        have tf: "t_folder t = map_option tf_id folder"
          using t0 by (auto simp: t_def r_def template_from_json_def set_template_reply_to_def split: if_splits)
        have v: "v = ?w \<or> v = snd (insert_template t ?w)"
          using Inr form folder t0 id
          by (auto simp: v_def create_template_def op_lift_def create_uuid_def r_def op_raise_def t_def
              op_bind_def Let_def split: sum.splits)
        have keys: "(i, cf_service form) \<in> folder_keys (w_folders w)" if "t_folder t = Some i" for i
          using that tf validate_parent_folder_InrD [of form w] folder by (cases folder) auto
        from v show ?thesis
        proof
          assume "v = ?w"
          then show ?thesis by (simp add: same_templates_def)
        next
          assume v: "v = snd (insert_template t ?w)"
          from insert_template_cases [of ?w t] show ?thesis
          proof
            assume "same_templates ?w (snd (insert_template t ?w))"
            then show ?thesis unfolding v by (simp add: same_templates_def)
          next
            assume "\<exists>t'. adds_template ?w (snd (insert_template t ?w)) t' \<and> t_folder t' = t_folder t
                \<and> t_service_id t' = t_service_id t"
            then obtain t' where t': "adds_template ?w v t'" "t_folder t' = t_folder t"
                "t_service_id t' = t_service_id t" unfolding v by blast
            then have "adds_template w v t'" by (simp add: adds_template_def)
            moreover have "t_service_id t' = s" using t'(3) id by (simp add: t_def)
            moreover have "w_folders v = w_folders w" unfolding v by simp
            ultimately show ?thesis using t'(2) keys form by auto
          qed
        qed
      qed
    qed
  qed
qed

lemma update_template_cases:
  assumes v_def: "v = snd (update_template lib s i body w)"
  shows "w_folders v = w_folders w \<and>
    (same_templates w v \<or>
     (\<exists>t t' form. body = Inr form \<and> revises_template w v t t'
        \<and> (t_version (uf_set form t) = t_version t \<longrightarrow> t_version t' = t_version t + 1)
        \<and> (t_service_id (uf_set form t) = t_service_id t \<and> t_folder (uf_set form t) = t_folder t
           \<longrightarrow> t_service_id t' = t_service_id t \<and> t_folder t' \<in> {t_folder t, None})))"
proof (cases "dao_get_template_by_id_and_service_id i s None w")
  case (Inl e)
  then show ?thesis by (simp add: v_def update_template_def)
next
  case (Inr t)
  have t: "t \<in> set (w_templates w)" by (rule template_by_id_InrD [OF Inr])
  show ?thesis
  proof (cases "\<exists>form. body = Inr form")
    case False
    then obtain e where "body = Inl e" by (cases body) auto
    then show ?thesis using Inr by (auto simp: v_def update_template_def op_lift_def split: sum.splits)
  next
    case True
    then obtain form where form: "body = Inr form" by blast
    define t2 where "t2 = (case uf_reply_to form of
        Some r \<Rightarrow> t\<lparr>t_service_letter_contact_id := r\<rparr>
      | None \<Rightarrow> (if t_archived (updated_template form t) then (updated_template form t)\<lparr>t_folder := None\<rparr>
                 else updated_template form t))"
    have v: "v = w \<or> v = snd (redact_template t form w) \<or> v = snd (dao_update_template t2 w)"
    proof (cases "service_by_id (t_service_id t) w")
      case (Inl e)
      then show ?thesis using Inr by (simp add: v_def update_template_def)
    next
      case svc: (Inr svc)
      note go = v_def update_template_def Inr svc form op_lift_def
      consider "\<not> has_permission svc (SendType (t_type t))" | "uf_redact_personalisation form"
        | r where "has_permission svc (SendType (t_type t))" "\<not> uf_redact_personalisation form"
            "uf_reply_to form = Some r"
        | "has_permission svc (SendType (t_type t))" "\<not> uf_redact_personalisation form"
            "uf_reply_to form = None" by (cases "uf_reply_to form") auto
      then show ?thesis
      proof cases
        case 1
        then show ?thesis by (simp add: go)
      next
        case 2
        then show ?thesis by (simp add: go)
      next
        case (3 r)
        then show ?thesis
          by (cases "check_service_letter_contact_id s r w"; cases "dao_update_template t2 w";
              cases "fst (dao_update_template t2 w)")
            (simp_all add: go t2_def op_return_def)
      next
        case 4
        then show ?thesis
          by (cases "check_template_content lib (t_type t) (updated_template form t)";
              cases "uf_loads form (updated_template form t)"; cases "dao_update_template t2 w";
              cases "fst (dao_update_template t2 w)")
            (simp_all add: go t2_def op_return_def Let_def)
      qed
    qed
    have redact: "w_folders (snd (redact_template t form w)) = w_folders w
        \<and> same_templates w (snd (redact_template t form w))"
      by (auto simp: redact_template_def dao_redact_template_def autocommit_def same_templates_def
          split: option.splits)
    have t2: "t_id t2 = t_id t"
      by (simp add: t2_def updated_template_def split: option.split)
    have parts: "t_version t2 = (if uf_reply_to form = None then t_version (uf_set form t) else t_version t)"
        "t_service_id t2 = (if uf_reply_to form = None then t_service_id (uf_set form t) else t_service_id t)"
        "t_folder t2 \<in> {if uf_reply_to form = None then t_folder (uf_set form t) else t_folder t, None}"
      by (simp_all add: t2_def updated_template_def split: option.split)
    from v show ?thesis
    proof (elim disjE)
      assume v: "v = snd (dao_update_template t2 w)"
      from dao_update_template_cases [OF t t2] show ?thesis
      proof
        assume "same_templates w (snd (dao_update_template t2 w))"
        then show ?thesis by (simp add: v)
      next
        assume "\<exists>t'. revises_template w (snd (dao_update_template t2 w)) t t' \<and> t_folder t' = t_folder t2
            \<and> t_service_id t' = t_service_id t2 \<and> t_version t' = t_version t2 + 1"
        then obtain t' where t': "revises_template w v t t'" "t_folder t' = t_folder t2"
            "t_service_id t' = t_service_id t2" "t_version t' = t_version t2 + 1" unfolding v by blast
        have "t_version (uf_set form t) = t_version t \<longrightarrow> t_version t' = t_version t + 1"
            "t_service_id (uf_set form t) = t_service_id t \<and> t_folder (uf_set form t) = t_folder t
             \<longrightarrow> t_service_id t' = t_service_id t \<and> t_folder t' \<in> {t_folder t, None}"
          using t'(2-) parts by (auto split: if_splits)
        moreover have "w_folders v = w_folders w" by (simp add: v)
        ultimately show ?thesis using t'(1) form by blast
      qed
    qed (use redact in simp_all)
  qed
qed

lemma handler_create [simp]:
  "snd (template_handler env lib (CreateTemplate s body) w) = snd (create_template env lib s body w)"
  by (simp add: op_bind_def op_return_def split: prod.splits sum.splits)

lemma template_handler_cases:
  assumes "plain_request q" and v: "v = snd (template_handler env lib q w)"
  shows "w_folders v = w_folders w"
    and "same_templates w v \<or>
     (\<exists>t'. adds_template w v t' \<and> (\<forall>i. t_folder t' = Some i \<longrightarrow>
          (i, t_service_id t') \<in> folder_keys (w_folders w))) \<or>
     (\<exists>t t'. revises_template w v t t' \<and> t_version t' = t_version t + 1
        \<and> t_service_id t' = t_service_id t \<and> t_folder t' \<in> {t_folder t, None})"
proof -
  have "w_folders v = w_folders w \<and> (same_templates w v \<or>
     (\<exists>t'. adds_template w v t' \<and> (\<forall>i. t_folder t' = Some i \<longrightarrow>
          (i, t_service_id t') \<in> folder_keys (w_folders w))) \<or>
     (\<exists>t t'. revises_template w v t t' \<and> t_version t' = t_version t + 1
        \<and> t_service_id t' = t_service_id t \<and> t_folder t' \<in> {t_folder t, None}))"
  proof (cases q)
    case (CreateTemplate s body)
    then have "v = snd (create_template env lib s body w)" using v handler_create by metis
    from create_template_cases [OF this] show ?thesis using assms(1) CreateTemplate by auto
  next
    case (UpdateTemplate s i body)
    then have "v = snd (update_template lib s i body w)" using v by simp
    note c = update_template_cases [OF this]
    show ?thesis
    proof (cases "same_templates w v")
      case False
      then obtain t t' form where t: "body = Inr form" "revises_template w v t t'"
          "t_version (uf_set form t) = t_version t \<longrightarrow> t_version t' = t_version t + 1"
          "t_service_id (uf_set form t) = t_service_id t \<and> t_folder (uf_set form t) = t_folder t
           \<longrightarrow> t_service_id t' = t_service_id t \<and> t_folder t' \<in> {t_folder t, None}"
        using c by blast
      then show ?thesis using c assms(1) UpdateTemplate by auto
    qed (use c in simp)
  qed
  then show "w_folders v = w_folders w"
    and "same_templates w v \<or>
     (\<exists>t'. adds_template w v t' \<and> (\<forall>i. t_folder t' = Some i \<longrightarrow>
          (i, t_service_id t') \<in> folder_keys (w_folders w))) \<or>
     (\<exists>t t'. revises_template w v t t' \<and> t_version t' = t_version t + 1
        \<and> t_service_id t' = t_service_id t \<and> t_folder t' \<in> {t_folder t, None})" by blast+
qed

lemma template_handler_versions:
  assumes "template_versions_ok w" "plain_request q"
  shows "template_versions_ok (snd (template_handler env lib q w))"
  using template_handler_cases(2) [OF assms(2) refl, where env = env and lib = lib and w = w] assms(1)
    versions_ok_create [of t_id t_version "w_templates w" "w_template_history w"]
    versions_ok_update [of t_id t_version "w_templates w" "w_template_history w"]
  unfolding template_versions_ok_def same_templates_def adds_template_def revises_template_def
  by metis

lemma version_query_unique:
  assumes "distinct (map (\<lambda>h. (t_id h, t_version h)) hs)" "h \<in> set hs" "t_id h = i" "t_version h = n"
  shows "filter (\<lambda>t. t_id t = i \<and> t_version t = n) hs = [h]"
  using assms
proof (induction hs)
  case Nil
  then show ?case by simp
next
  case (Cons x hs)
  show ?case
  proof (cases "x = h")
    case True
    then have "filter (\<lambda>t. t_id t = i \<and> t_version t = n) hs = []"
      using Cons.prems by (auto simp: filter_empty_conv image_iff)
    then show ?thesis using True Cons.prems by simp
  next
    case False
    then show ?thesis using Cons by (auto simp: image_iff)
  qed
qed

lemma version_lookup:
  assumes "template_versions_ok w" "t \<in> set (w_template_history w)"
  shows "dao_get_template_by_id (t_id t) (Some (t_version t)) w = Inr t"
proof -
  have d: "distinct (map (\<lambda>h. (t_id h, t_version h)) (w_template_history w))"
    using assms(1) by (simp add: template_versions_ok_def versions_ok_def)
  show ?thesis
    by (simp add: dao_get_template_by_id_def query_one_def version_query_unique [OF d assms(2) refl refl])
qed

lemma history_grows:
  assumes "plain_request q"
  shows "set (w_template_history w) \<subseteq> set (w_template_history (snd (template_handler env lib q w)))"
  using template_handler_cases(2) [OF assms refl, where env = env and lib = lib and w = w]
  by (auto simp: same_templates_def adds_template_def revises_template_def)

definition template_world :: world where
  "template_world = sample_world\<lparr>w_services := [sample_service], w_templates := [sample_template],
     w_template_history := [sample_template]\<rparr>"

definition sample_template_lib :: template_lib where
  "sample_template_lib = \<lparr>tl_sms_too_long = (\<lambda>c. False), tl_qr_code_too_long = (\<lambda>a b. False),
     tl_collation = length, tl_sms_char_count_limit = 918\<rparr>"

definition sample_update :: template_request where
  "sample_update = UpdateTemplate 10 20 (Inr
     \<lparr>uf_redact_personalisation = False, uf_created_by = None, uf_reply_to = None,
      uf_set = (\<lambda>t. t\<lparr>t_content := ''new'', t_archived := True\<rparr>), uf_loads = (\<lambda>t. Inr ())\<rparr>)"

lemma template_world_ok:
  "template_versions_ok template_world" "template_folders_ok template_world" "plain_request sample_update"
proof -
  show "template_versions_ok template_world"
    by (simp add: template_versions_ok_def versions_ok_def template_world_def distinct_rows_def)
      (auto simp: sample_template_def)
  have "folder_edges (w_folders template_world) = {}"
    by (simp add: folder_edges_def template_world_def sample_world_def)
  then show "template_folders_ok template_world"
    by (simp add: template_folders_ok_def folders_ok_def template_world_def sample_world_def
        distinct_rows_def acyclic_def sample_template_def)
  show "plain_request sample_update" by (simp add: sample_update_def)
qed

text \<open>
  C15: Every request to create, change, archive or redact a template keeps
  the history complete: for each template exactly one copy of every version from 1 to the current
  one, the current row last; and what a version number refers to never changes: looking a version
  up gives, after the request, the template it gave before.
\<close>

theorem template_history_stable:
  assumes "template_versions_ok w" "plain_request q"
  shows "template_versions_ok (snd (template_handler env lib q w))
    \<and> (dao_get_template_by_id i (Some n) w = Inr t
       \<longrightarrow> dao_get_template_by_id i (Some n) (snd (template_handler env lib q w)) = Inr t)"
proof -
  let ?v = "snd (template_handler env lib q w)"
  have ok: "template_versions_ok ?v" by (rule template_handler_versions [OF assms])
  have "dao_get_template_by_id i (Some n) ?v = Inr t" if "dao_get_template_by_id i (Some n) w = Inr t"
  proof -
    have t: "t \<in> set (w_template_history w)" "t_id t = i" "t_version t = n"
      using that by (auto simp: dao_get_template_by_id_def dest: query_one_InrD)
    then have "t \<in> set (w_template_history ?v)" using history_grows [OF assms(2)] by blast
    then show ?thesis using version_lookup [OF ok] t(2,3) by blast
  qed
  then show ?thesis using ok by blast
qed

theorem template_history_stable_witness:
  "dao_get_template_by_id 20 (Some 1)
     (snd (template_handler sample_env sample_template_lib sample_update template_world)) = Inr sample_template"
proof -
  have "dao_get_template_by_id 20 (Some 1) template_world = Inr sample_template"
    by (simp add: dao_get_template_by_id_def query_one_def template_world_def) (simp add: sample_template_def)
  then show ?thesis using template_history_stable [OF template_world_ok(1,3)] by blast
qed

text \<open>
  Such a request keeps every template in a folder of its own
  service, provided the body of a creation names the service of its path (the folder is looked up
  in the service the body names, the template is saved under the service of the path).
\<close>

theorem templates_stay_in_own_folders:
  assumes "template_folders_ok w" "plain_request q"
  shows "template_folders_ok (snd (template_handler env lib q w))"
proof -
  let ?v = "snd (template_handler env lib q w)"
  note c = template_handler_cases [OF assms(2) refl, where env = env and lib = lib and w = w]
  have w: "folders_ok (w_folders w)" "distinct_rows t_id (w_templates w)"
      "\<And>t i. t \<in> set (w_templates w) \<Longrightarrow> t_folder t = Some i \<Longrightarrow> (i, t_service_id t) \<in> folder_keys (w_folders w)"
    using assms(1) by (auto simp: template_folders_ok_def)
  from c(2) show ?thesis
  proof (elim disjE exE conjE)
    assume "same_templates w ?v"
    then show ?thesis using assms(1) c(1) by (simp add: template_folders_ok_def same_templates_def)
  next
    fix t' assume t': "adds_template w ?v t'"
      "\<forall>i. t_folder t' = Some i \<longrightarrow> (i, t_service_id t') \<in> folder_keys (w_folders w)"
    then have "distinct_rows t_id (w_templates ?v)" using w(2) by (auto simp: adds_template_def distinct_rows_def)
    then show ?thesis using t' w c(1) by (auto simp: template_folders_ok_def adds_template_def)
  next
    fix t t' assume t': "revises_template w ?v t t'" "t_service_id t' = t_service_id t"
      "t_folder t' \<in> {t_folder t, None}"
    then have rows: "w_templates ?v = save_row t_id t' (w_templates w)" "t \<in> set (w_templates w)"
      by (auto simp: revises_template_def)
    then have "set (w_templates ?v) \<subseteq> insert t' (set (w_templates w))" by (simp add: set_save_row)
    moreover have "(i, t_service_id t') \<in> folder_keys (w_folders w)" if "t_folder t' = Some i" for i
      using that t'(2,3) w(3) [OF rows(2)] by auto
    moreover have "distinct_rows t_id (w_templates ?v)" using w(2) rows(1) by simp
    ultimately show ?thesis using w(1,3) c(1) unfolding template_folders_ok_def by (metis insertE subsetD)
  qed
qed

theorem templates_stay_in_own_folders_witness:
  "template_folders_ok (snd (template_handler sample_env sample_template_lib sample_update template_world))"
  by (rule templates_stay_in_own_folders [OF template_world_ok(2,3)])

end
