(* ===== verification/Group_By.thy ===== *)
theory Group_By
  imports Prelude "HOL-Library.Multiset"
begin

text \<open>
  \<open>GROUP BY\<close>, \<open>ORDER BY\<close> and \<open>UNION\<close> over lists of rows, with the facts the aggregating queries share:
  the groups partition the rows, so a sum over groups is a sum over rows.
\<close>

section \<open>Groups\<close>

definition group_by :: "('r \<Rightarrow> 'k) \<Rightarrow> 'r list \<Rightarrow> ('k \<times> 'r list) list" where
  \<comment> \<open>one entry per value of the key, in the order of the first row of each group\<close>
  "group_by key rows = map (\<lambda>k. (k, filter (\<lambda>r. key r = k) rows)) (remdups (map key rows))"

definition sql_union :: "'r list list \<Rightarrow> 'r list" where
  \<comment> \<open>\<open>UNION\<close> drops duplicate rows\<close>
  "sql_union tables = remdups (concat tables)"

definition total :: "('r \<Rightarrow> 'n::comm_monoid_add) \<Rightarrow> 'r list \<Rightarrow> 'n" where
  \<comment> \<open>\<open>SUM\<close>\<close>
  "total f rows = sum_list (map f rows)"

lemma total_Nil [simp]: "total f [] = 0"
  by (simp add: total_def)

lemma total_Cons [simp]: "total f (r # rows) = f r + total f rows"
  by (simp add: total_def)

lemma total_append [simp]: "total f (rows @ more) = total f rows + total f more"
  by (simp add: total_def)

lemma total_zero [simp]: "total (\<lambda>_. 0) rows = 0"
  by (induction rows) simp_all

lemma total_concat: "total f (concat tables) = total (total f) tables"
  by (induction tables) simp_all

lemma total_cong: "(\<And>r. r \<in> set rows \<Longrightarrow> f r = g r) \<Longrightarrow> total f rows = total g rows"
  by (simp add: total_def cong: map_cong)

lemma total_map: "total f (map g rows) = total (\<lambda>r. f (g r)) rows"
  by (simp add: total_def comp_def)

lemma total_mset: "mset rows = mset more \<Longrightarrow> total f rows = total f more"
  unfolding total_def by (metis mset_map sum_mset_sum_list)

lemma total_sort_key [simp]: "total f (sort_key key rows) = total f rows"
  by (rule total_mset) simp

lemma total_nonneg:
  fixes f :: "'r \<Rightarrow> 'n::ordered_comm_monoid_add"
  shows "(\<And>r. r \<in> set rows \<Longrightarrow> 0 \<le> f r) \<Longrightarrow> 0 \<le> total f rows"
  unfolding total_def by (rule sum_list_nonneg) auto

lemma total_length: "total (\<lambda>_. 1) rows = int (length rows)"
  by (induction rows) simp_all

lemma total_filter_split:
  "total f rows = total f (filter p rows) + total f (filter (\<lambda>r. \<not> p r) rows)"
  by (induction rows) (simp_all add: ac_simps)

lemma total_over_keys:
  assumes "distinct ks" "key ` set rows \<subseteq> set ks"
  shows "total (\<lambda>k. total f (filter (\<lambda>r. key r = k) rows)) ks = total f rows"
  using assms
proof (induction ks arbitrary: rows)
  case Nil
  then show ?case by simp
next
  case (Cons k ks)
  let ?rest = "filter (\<lambda>r. key r \<noteq> k) rows"
  have same: "filter (\<lambda>r. key r = j) rows = filter (\<lambda>r. key r = j) ?rest" if "j \<in> set ks" for j
    using that Cons.prems(1) by (auto intro: filter_cong)
  have "total (\<lambda>j. total f (filter (\<lambda>r. key r = j) rows)) ks
      = total (\<lambda>j. total f (filter (\<lambda>r. key r = j) ?rest)) ks"
    using same by (intro total_cong) simp
  also have "\<dots> = total f ?rest"
    using Cons.prems by (intro Cons.IH) auto
  finally show ?case
    using total_filter_split [of f rows "\<lambda>r. key r = k"] by simp
qed

lemma total_groups:
  "total (\<lambda>(k, rows). total f rows) (group_by key rows) = total f rows"
  by (simp add: group_by_def total_map total_over_keys)

lemma total_groups':
  assumes "\<And>k rs. g (k, rs) = total f rs"
  shows "total g (group_by key rows) = total f rows"
proof -
  have "total g (group_by key rows) = total (\<lambda>(k, rs). total f rs) (group_by key rows)"
    using assms by (intro total_cong) (auto split: prod.splits)
  then show ?thesis by (simp add: total_groups)
qed

lemma total_groups_in:
  assumes "\<And>k rs. (k, rs) \<in> set (group_by key rows) \<Longrightarrow> g (k, rs) = total f rs"
  shows "total g (group_by key rows) = total f rows"
proof -
  have "total g (group_by key rows) = total (\<lambda>(k, rs). total f rs) (group_by key rows)"
    using assms by (intro total_cong) (auto split: prod.splits)
  then show ?thesis by (simp add: total_groups)
qed

lemma total_find_row:
  assumes "distinct_rows key rows"
  shows "total f rows = total (\<lambda>k. f (the (find_row key k rows))) (map key rows)"
  unfolding total_map by (rule total_cong) (simp add: find_row_eqI [OF assms])

lemma total_same_rows:
  assumes "distinct_rows key rows" "distinct_rows key more" "key ` set rows = key ` set more"
    and "\<And>k r m. find_row key k rows = Some r \<Longrightarrow> find_row key k more = Some m \<Longrightarrow> f r = f m"
  shows "total f rows = total f more"
proof -
  have "f (the (find_row key k rows)) = f (the (find_row key k more))" if "k \<in> set (map key rows)" for k
  proof -
    have "find_row key k rows \<noteq> None" "find_row key k more \<noteq> None"
      using that assms(3) by (simp_all add: find_row_None_iff)
    then obtain r m where "find_row key k rows = Some r" "find_row key k more = Some m" by blast
    then show ?thesis using assms(4) by simp
  qed
  note agree = this
  have same: "mset (map key rows) = mset (map key more)"
    using assms(1-3) by (intro set_eq_iff_mset_eq_distinct [THEN iffD1]) (simp_all add: distinct_rows_def)
  have "total f rows = total (\<lambda>k. f (the (find_row key k rows))) (map key rows)"
    by (rule total_find_row [OF assms(1)])
  also have "\<dots> = total (\<lambda>k. f (the (find_row key k more))) (map key rows)"
    by (rule total_cong) (rule agree)
  also have "\<dots> = total (\<lambda>k. f (the (find_row key k more))) (map key more)"
    by (rule total_mset [OF same])
  also have "\<dots> = total f more" by (rule total_find_row [OF assms(2), symmetric])
  finally show ?thesis .
qed

lemma total_filter: "total f (filter p rows) = total (\<lambda>r. if p r then f r else 0) rows"
  by (induction rows) simp_all

lemma group_by_Nil [simp]: "group_by key [] = []"
  by (simp add: group_by_def)

lemma keys_group_by [simp]: "map fst (group_by key rows) = remdups (map key rows)"
  by (simp add: group_by_def comp_def)

lemma distinct_group_by: "distinct (map fst (group_by key rows))"
  by simp

lemma group_by_rows:
  "(k, rs) \<in> set (group_by key rows) \<Longrightarrow> rs = filter (\<lambda>r. key r = k) rows \<and> k \<in> key ` set rows"
  by (auto simp: group_by_def)

lemma group_by_in:
  "r \<in> set rows \<Longrightarrow> (key r, filter (\<lambda>x. key x = key r) rows) \<in> set (group_by key rows)"
  by (auto simp: group_by_def)

lemma group_nonempty: "(k, rs) \<in> set (group_by key rows) \<Longrightarrow> rs \<noteq> []"
  using group_by_rows [of k rs key rows] by (fastforce simp: filter_empty_conv)

lemma sql_union_distinct:
  "distinct (concat tables) \<Longrightarrow> sql_union tables = concat tables"
  by (simp add: sql_union_def distinct_remdups_id)

end
