(* ===== verification/Billing.thy ===== *)
theory Billing
  imports Group_By Notifications_Dao
begin

text \<open>
  The facts the bills and the status pages are computed from: the part of
  \<^verbatim>\<open>app/dao/fact_billing_dao.py\<close> that fills \<open>ft_billing\<close> and \<open>ft_billing_letter_despatch\<close>,
  \<open>update_fact_notification_status\<close> of \<^verbatim>\<open>app/dao/fact_notification_status_dao.py\<close>, and the nightly
  tasks of \<^verbatim>\<open>app/celery/reporting_tasks.py\<close> that call them. A query with \<open>GROUP BY\<close> is the list of its
  groups in the order of their first rows.
\<close>

section \<open>The billable notifications of a day\<close>

definition all_time_view :: "world \<Rightarrow> notification_history list" where
  \<comment> \<open>\<open>NotificationAllTimeView\<close>: both tables, \<open>UNION ALL\<close>\<close>
  "all_time_view w = map history_from_notification (w_notifications w) @ w_history w"

record billing_datum =
  bd_template_id :: uuid
  bd_crown :: "bool option"
  bd_service_id :: uuid
  bd_notification_type :: ntype
  bd_sent_by :: string
  bd_rate_multiplier :: int
  bd_international :: bool
  bd_letter_page_count :: "int option"
  bd_postage :: string
  bd_billable_units :: int
  bd_notifications_sent :: int

definition pg_integer :: "rat \<Rightarrow> int" where
  \<comment> \<open>a numeric cast to an integer rounds half away from zero\<close>
  "pg_integer x = (if x < 0 then - \<lfloor>1 / 2 - x\<rfloor> else \<lfloor>x + 1 / 2\<rfloor>)"

definition billable_statuses :: "ntype \<Rightarrow> nstatus list" where
  "billable_statuses t =
     (case t of Sms \<Rightarrow> NOTIFICATION_STATUS_TYPES_BILLABLE_SMS
      | Letter \<Rightarrow> NOTIFICATION_STATUS_TYPES_BILLABLE_FOR_LETTERS
      | _ \<Rightarrow> NOTIFICATION_STATUS_TYPES_SENT_EMAILS)"

definition is_billable :: "ntype \<Rightarrow> time \<Rightarrow> time \<Rightarrow> uuid list option \<Rightarrow> notification_history \<Rightarrow> bool" where
  "is_billable t start_date end_date service_ids r \<longleftrightarrow>
     h_status r \<in> set (billable_statuses t) \<and> h_key_type r \<in> {NormalKey, TeamKey}
     \<and> start_date \<le> h_created_at r \<and> h_created_at r < end_date \<and> h_type r = t
     \<and> (case service_ids of None \<Rightarrow> True | Some ids \<Rightarrow> h_service_id r \<in> set ids)"

definition has_billed_service :: "ntype \<Rightarrow> bool \<Rightarrow> world \<Rightarrow> notification_history \<Rightarrow> bool" where
  \<comment> \<open>the joins with the service and, for some callers, with its permission for the channel\<close>
  "has_billed_service t check_permissions w r \<longleftrightarrow>
     (case find_row svc_id (h_service_id r) (w_services w) of
        None \<Rightarrow> False
      | Some s \<Rightarrow> check_permissions \<longrightarrow> has_permission s (SendType t))"

definition service_crown :: "uuid \<Rightarrow> world \<Rightarrow> bool option" where
  "service_crown i w = (case find_row svc_id i (w_services w) of None \<Rightarrow> None | Some s \<Rightarrow> svc_crown s)"

definition rate_multiplier_of :: "notification_history \<Rightarrow> int" where
  "rate_multiplier_of r = pg_integer (case h_rate_multiplier r of None \<Rightarrow> 1 | Some x \<Rightarrow> x)"

definition sent_by_of :: "notification_history \<Rightarrow> string" where
  "sent_by_of r = (case h_sent_by r of None \<Rightarrow> ''unknown'' | Some p \<Rightarrow> p)"

definition postage_of :: "notification_history \<Rightarrow> string" where
  "postage_of r = (case h_postage r of None \<Rightarrow> ''none'' | Some p \<Rightarrow> postage_name p)"

definition email_query :: "world \<Rightarrow> notification_history list \<Rightarrow> billing_datum list" where
  "email_query w rows =
     map (\<lambda>((service, tmpl), rs).
         \<lparr>bd_template_id = tmpl, bd_crown = service_crown service w, bd_service_id = service,
          bd_notification_type = Email, bd_sent_by = ''ses'', bd_rate_multiplier = 0,
          bd_international = False, bd_letter_page_count = None, bd_postage = ''none'',
          bd_billable_units = 0, bd_notifications_sent = int (length rs)\<rparr>)
       (group_by (\<lambda>r. (h_service_id r, h_template_id r)) rows)"

definition sms_query :: "world \<Rightarrow> notification_history list \<Rightarrow> billing_datum list" where
  "sms_query w rows =
     map (\<lambda>((service, tmpl, provider, multiplier, abroad), rs).
         \<lparr>bd_template_id = tmpl, bd_crown = service_crown service w, bd_service_id = service,
          bd_notification_type = Sms, bd_sent_by = provider, bd_rate_multiplier = multiplier,
          bd_international = abroad, bd_letter_page_count = None, bd_postage = ''none'',
          bd_billable_units = total h_billable_units rs, bd_notifications_sent = int (length rs)\<rparr>)
       (group_by (\<lambda>r. (h_service_id r, h_template_id r, sent_by_of r, rate_multiplier_of r,
           h_international r)) rows)"

definition letter_query :: "world \<Rightarrow> notification_history list \<Rightarrow> billing_datum list" where
  "letter_query w rows =
     map (\<lambda>((service, tmpl, multiplier, pages, post, abroad), rs).
         \<lparr>bd_template_id = tmpl, bd_crown = service_crown service w, bd_service_id = service,
          bd_notification_type = Letter, bd_sent_by = ''dvla'', bd_rate_multiplier = multiplier,
          bd_international = abroad, bd_letter_page_count = Some pages, bd_postage = post,
          bd_billable_units = total h_billable_units rs, bd_notifications_sent = int (length rs)\<rparr>)
       (group_by (\<lambda>r. (h_service_id r, h_template_id r, rate_multiplier_of r, h_billable_units r,
           postage_of r, h_international r)) rows)"

definition billable_rows ::
  "ntype \<Rightarrow> time \<Rightarrow> time \<Rightarrow> uuid list option \<Rightarrow> bool \<Rightarrow> world \<Rightarrow> notification_history list" where
  "billable_rows t start_date end_date service_ids check_permissions w =
     filter (\<lambda>r. has_billed_service t check_permissions w r
       \<and> is_billable t start_date end_date service_ids r) (all_time_view w)"

definition query_for_billing_data ::
  "ntype \<Rightarrow> time \<Rightarrow> time \<Rightarrow> uuid list option \<Rightarrow> bool \<Rightarrow> world \<Rightarrow> billing_datum list" where
  \<comment> \<open>called for text messages, emails and letters\<close>
  "query_for_billing_data t start_date end_date service_ids check_permissions w =
     (case t of Sms \<Rightarrow> sms_query w | Letter \<Rightarrow> letter_query w | _ \<Rightarrow> email_query w)
       (billable_rows t start_date end_date service_ids check_permissions w)"

definition fetch_billing_data_for_day ::
  "env \<Rightarrow> date \<Rightarrow> uuid list option \<Rightarrow> bool \<Rightarrow> world \<Rightarrow> billing_datum list" where
  "fetch_billing_data_for_day env process_day service_ids check_permissions w =
     concat (map (\<lambda>t. query_for_billing_data t (get_london_midnight_in_utc env process_day)
                      (get_london_midnight_in_utc env (process_day + 1)) service_ids check_permissions w)
       [Sms, Email, Letter])"

section \<open>Rates\<close>

definition get_rates_for_billing :: "world \<Rightarrow> sms_rate list \<times> letter_rate list" where
  "get_rates_for_billing w =
     (sort_key (\<lambda>r. - r_valid_from r) (w_sms_rates w),
      sort_key (\<lambda>r. - lr_start_date r) (w_letter_rates w))"

definition get_rate ::
  "env \<Rightarrow> sms_rate list \<Rightarrow> letter_rate list \<Rightarrow> ntype \<Rightarrow> date \<Rightarrow> bool option \<Rightarrow> int option
   \<Rightarrow> string option \<Rightarrow> rat result" where
  \<comment> \<open>\<open>crown or True\<close> is \<open>True\<close> whatever \<open>crown\<close> is\<close>
  "get_rate env non_letter_rates letter_rates t d crown letter_page_count post_class =
     (let start_of_day = get_london_midnight_in_utc env d in
      if t = Letter then
        (if letter_page_count = Some 0 then Inr 0
         else case query_first (\<lambda>r. start_of_day \<ge> lr_start_date r \<and> lr_crown r
                 \<and> letter_page_count = Some (lr_sheet_count r)
                 \<and> post_class = Some (postage_name (lr_post_class r))) letter_rates of
                None \<Rightarrow> Inl (Py StopIteration) | Some r \<Rightarrow> Inr (lr_rate r))
      else if t = Sms then
        (case query_first (\<lambda>r. r_notification_type r = Sms \<and> start_of_day \<ge> r_valid_from r)
                non_letter_rates of
           None \<Rightarrow> Inl (Py StopIteration) | Some r \<Rightarrow> Inr (r_rate r))
      else Inr 0)"

definition create_billing_record :: "billing_datum \<Rightarrow> rat \<Rightarrow> date \<Rightarrow> fact_billing" where
  "create_billing_record b rate process_day =
     \<lparr>fb_bst_date = process_day, fb_template_id = bd_template_id b, fb_service_id = bd_service_id b,
      fb_notification_type = bd_notification_type b, fb_provider = bd_sent_by b,
      fb_rate_multiplier = bd_rate_multiplier b, fb_international = bd_international b,
      fb_rate = rate, fb_postage = bd_postage b, fb_billable_units = bd_billable_units b,
      fb_notifications_sent = bd_notifications_sent b, fb_updated_at = None\<rparr>"

section \<open>Writing the facts\<close>

type_synonym fact_key = "date \<times> uuid \<times> uuid \<times> ntype \<times> string \<times> int \<times> bool \<times> rat \<times> string"

definition ft_billing_pkey :: "fact_billing \<Rightarrow> fact_key" where
  "ft_billing_pkey f =
     (fb_bst_date f, fb_template_id f, fb_service_id f, fb_notification_type f, fb_provider f,
      fb_rate_multiplier f, fb_international f, fb_rate f, fb_postage f)"

definition upsert_fact :: "time \<Rightarrow> fact_billing \<Rightarrow> fact_billing list \<Rightarrow> fact_billing list" where
  \<comment> \<open>\<open>ON CONFLICT DO UPDATE\<close>\<close>
  "upsert_fact now f rows =
     (if ft_billing_pkey f \<in> ft_billing_pkey ` set rows
      then update_rows (\<lambda>x. ft_billing_pkey x = ft_billing_pkey f)
        (\<lambda>x. x\<lparr>fb_notifications_sent := fb_notifications_sent f, fb_billable_units := fb_billable_units f,
               fb_updated_at := Some now\<rparr>) rows
      else rows @ [f])"

definition datum_rate :: "env \<Rightarrow> date \<Rightarrow> world \<Rightarrow> billing_datum \<Rightarrow> rat result" where
  "datum_rate env process_day w b =
     get_rate env (fst (get_rates_for_billing w)) (snd (get_rates_for_billing w))
       (bd_notification_type b) process_day (bd_crown b) (bd_letter_page_count b) (Some (bd_postage b))"

definition billing_record :: "env \<Rightarrow> date \<Rightarrow> world \<Rightarrow> billing_datum \<Rightarrow> fact_billing result" where
  "billing_record env process_day w b =
     res_bind (datum_rate env process_day w b) (\<lambda>rate. Inr (create_billing_record b rate process_day))"

definition update_ft_billing :: "env \<Rightarrow> billing_datum list \<Rightarrow> date \<Rightarrow> unit op" where
  \<comment> \<open>the rates are looked up in a generator, where \<open>StopIteration\<close> becomes a \<open>RuntimeError\<close>; one
    statement may not touch a row twice\<close>
  "update_ft_billing env data process_day w =
     (if data = [] then (Inr (), w)
      else case map_res (billing_record env process_day w) data of
        Inl e \<Rightarrow> (Inl (if e = Py StopIteration then py_exception ''generator raised StopIteration'' else e), w)
      | Inr records \<Rightarrow>
          if distinct (map ft_billing_pkey records)
          then (Inr (), w\<lparr>w_ft_billing := fold (upsert_fact (w_now w)) records (w_ft_billing w)\<rparr>)
          else (Inl (Db OtherSQLAlchemyError), w))"

definition delete_billing_data_for_day :: "date \<Rightarrow> uuid list option \<Rightarrow> world \<Rightarrow> nat \<times> world" where
  "delete_billing_data_for_day process_day service_ids w =
     (let gone = (\<lambda>f. fb_bst_date f = process_day
            \<and> (case service_ids of None \<Rightarrow> True | Some [] \<Rightarrow> True | Some ids \<Rightarrow> fb_service_id f \<in> set ids))
      in (length (filter gone (w_ft_billing w)), w\<lparr>w_ft_billing := delete_rows gone (w_ft_billing w)\<rparr>))"

section \<open>Despatched letters\<close>

record letter_datum =
  ltd_bst_date :: date
  ltd_postage :: "postage option"
  ltd_letter_page_count :: int
  ltd_cost_threshold :: letter_cost_threshold
  ltd_notifications_sent :: int

definition despatched_letters :: "date \<Rightarrow> world \<Rightarrow> (uuid \<times> postage option \<times> int) list" where
  \<comment> \<open>the common table expression, a \<open>UNION\<close> of the two tables\<close>
  "despatched_letters process_day w =
     (let ids = ld_notification_id ` set (filter (\<lambda>d. ld_despatched_on d = process_day) (w_despatches w))
      in sql_union
        [map (\<lambda>n. (n_id n, n_postage n, n_billable_units n)) (filter (\<lambda>n. n_id n \<in> ids) (w_notifications w)),
         map (\<lambda>h. (h_id h, h_postage h, h_billable_units h)) (filter (\<lambda>h. h_id h \<in> ids) (w_history w))])"

definition despatch_data :: "date \<Rightarrow> world \<Rightarrow> letter_datum list" where
  \<comment> \<open>the order of the result is not used\<close>
  "despatch_data process_day w =
     map (\<lambda>((threshold_kind, post, pages), rs).
         \<lparr>ltd_bst_date = process_day, ltd_postage = post, ltd_letter_page_count = pages,
          ltd_cost_threshold = threshold_kind, ltd_notifications_sent = int (length rs)\<rparr>)
       (group_by (\<lambda>(d, i, post, pages). (ld_cost_threshold d, post, pages))
         (filter (\<lambda>(d, i, post, pages). ld_notification_id d = i)
           (List.product (filter (\<lambda>d. ld_despatched_on d = process_day) (w_despatches w))
             (despatched_letters process_day w))))"

definition despatch_record :: "env \<Rightarrow> world \<Rightarrow> letter_datum \<Rightarrow> fact_letter_despatch result" where
  "despatch_record env w b =
     res_bind (get_rate env (fst (get_rates_for_billing w)) (snd (get_rates_for_billing w)) Letter
         (ltd_bst_date b) None (Some (ltd_letter_page_count b)) (map_option postage_name (ltd_postage b)))
       (\<lambda>rate. Inr
         \<lparr>fd_bst_date = ltd_bst_date b, fd_postage = ltd_postage b, fd_cost_threshold = ltd_cost_threshold b,
          fd_rate = rate, fd_billable_units = ltd_letter_page_count b,
          fd_notifications_sent = ltd_notifications_sent b, fd_updated_at = None\<rparr>)"

type_synonym despatch_key = "date \<times> postage option \<times> letter_cost_threshold \<times> rat \<times> int"

definition ft_despatch_pkey :: "fact_letter_despatch \<Rightarrow> despatch_key" where
  "ft_despatch_pkey f =
     (fd_bst_date f, fd_postage f, fd_cost_threshold f, fd_rate f, fd_billable_units f)"

definition upsert_despatch ::
  "time \<Rightarrow> fact_letter_despatch \<Rightarrow> fact_letter_despatch list \<Rightarrow> fact_letter_despatch list" where
  "upsert_despatch now f rows =
     (if ft_despatch_pkey f \<in> ft_despatch_pkey ` set rows
      then update_rows (\<lambda>x. ft_despatch_pkey x = ft_despatch_pkey f)
        (\<lambda>x. x\<lparr>fd_notifications_sent := fd_notifications_sent f, fd_updated_at := Some now\<rparr>) rows
      else rows @ [f])"

definition update_ft_billing_letter_despatch :: "env \<Rightarrow> date \<Rightarrow> (nat \<times> nat) op" where
  \<comment> \<open>the postage of a fact may not be null; an exception leaves the transaction uncommitted\<close>
  "update_ft_billing_letter_despatch env process_day w =
     (case map_res (despatch_record env w) (despatch_data process_day w) of
        Inl e \<Rightarrow> (Inl e, w)
      | Inr records \<Rightarrow>
          let stale = (\<lambda>f. fd_bst_date f = process_day
                \<and> (fd_postage f, fd_billable_units f, fd_cost_threshold f, fd_rate f)
                    \<notin> (\<lambda>r. (fd_postage r, fd_billable_units r, fd_cost_threshold r, fd_rate r)) ` set records);
              deleted = length (filter stale (w_ft_despatch w));
              kept = delete_rows stale (w_ft_despatch w)
          in if (\<exists>r \<in> set records. fd_postage r = None) \<or> \<not> distinct (map ft_despatch_pkey records)
             then (Inl (Db OtherSQLAlchemyError), w)
             else (Inr (length records, deleted),
                   w\<lparr>w_ft_despatch := fold (upsert_despatch (w_now w)) records kept\<rparr>))"

section \<open>The status facts of a day\<close>

definition status_rows :: "env \<Rightarrow> date \<Rightarrow> ntype \<Rightarrow> uuid \<Rightarrow> world \<Rightarrow> notification_history list" where
  "status_rows env process_day t service_id w =
     filter (\<lambda>r. get_london_midnight_in_utc env process_day \<le> h_created_at r
               \<and> h_created_at r < get_london_midnight_in_utc env (process_day + 1)
               \<and> h_type r = t \<and> h_service_id r = service_id \<and> h_key_type r \<in> {NormalKey, TeamKey})
       (all_time_view w)"

definition status_facts :: "env \<Rightarrow> date \<Rightarrow> ntype \<Rightarrow> uuid \<Rightarrow> world \<Rightarrow> fact_notification_status list" where
  \<comment> \<open>the id 0 is the nil UUID\<close>
  "status_facts env process_day t service_id w =
     map (\<lambda>((tmpl, job, key, status), rs).
         \<lparr>fs_bst_date = process_day, fs_template_id = tmpl, fs_service_id = service_id, fs_job_id = job,
          fs_notification_type = t, fs_key_type = key, fs_notification_status = status,
          fs_notification_count = int (length rs), fs_created_at = w_now w, fs_updated_at = None\<rparr>)
       (group_by (\<lambda>r. (h_template_id r, case h_job_id r of None \<Rightarrow> 0 | Some j \<Rightarrow> j, h_key_type r, h_status r))
         (status_rows env process_day t service_id w))"

definition update_fact_notification_status :: "env \<Rightarrow> date \<Rightarrow> ntype \<Rightarrow> uuid \<Rightarrow> world \<Rightarrow> world" where
  "update_fact_notification_status env process_day t service_id w =
     w\<lparr>w_fact_status :=
         delete_rows (\<lambda>f. fs_bst_date f = process_day \<and> fs_notification_type f = t
                        \<and> fs_service_id f = service_id) (w_fact_status w)
         @ status_facts env process_day t service_id w\<rparr>"

section \<open>The nightly tasks\<close>

definition london_today :: "env \<Rightarrow> world \<Rightarrow> date" where
  \<comment> \<open>\<open>convert_utc_to_bst(datetime.utcnow()).date()\<close>\<close>
  "london_today env w = date_of (lib_utc_to_bst env (w_now w))"

definition create_nightly_billing :: "env \<Rightarrow> date option \<Rightarrow> nat \<Rightarrow> world \<Rightarrow> world" where
  \<comment> \<open>the start is a parsed date; the stagger of the tasks is left out\<close>
  "create_nightly_billing env day_start n_days w =
     (let d = (case day_start of None \<Rightarrow> london_today env w - 1 | Some x \<Rightarrow> x)
      in fold (\<lambda>i v. enqueue REPORTING (TFtBillingLetterDespatchForDay (d - int i))
                (enqueue REPORTING (TFtBillingForDay (d - int i)) v)) [0..<n_days] w)"

definition create_or_update_ft_billing_for_day :: "env \<Rightarrow> date \<Rightarrow> unit op" where
  "create_or_update_ft_billing_for_day env process_day w =
     update_ft_billing env (fetch_billing_data_for_day env process_day None False w) process_day w"

definition create_or_update_ft_billing_letter_despatch_for_day :: "env \<Rightarrow> date \<Rightarrow> unit op" where
  "create_or_update_ft_billing_letter_despatch_for_day env process_day =
     op_bind (update_ft_billing_letter_despatch env process_day) (\<lambda>_. op_return ())"

definition FT_BILLING_FOR_TODAY_UPDATED_AT_UTC_ISOFORMAT :: string where
  "FT_BILLING_FOR_TODAY_UPDATED_AT_UTC_ISOFORMAT = ''update_ft_billing_for_today:updated-at-utc-isoformat''"

definition update_ft_billing_for_today :: "env \<Rightarrow> unit op" where
  \<comment> \<open>the time is kept as a number and not as text\<close>
  "update_ft_billing_for_today env w =
     op_bind (create_or_update_ft_billing_for_day env (london_today env w))
       (\<lambda>_ w1. (Inr (), redis_set FT_BILLING_FOR_TODAY_UPDATED_AT_UTC_ISOFORMAT (w_now w1) w1)) w"

definition get_ft_billing_data_for_today_updated_at :: "world \<Rightarrow> time option" where
  "get_ft_billing_data_for_today_updated_at = redis_get FT_BILLING_FOR_TODAY_UPDATED_AT_UTC_ISOFORMAT"

definition nightly_status_tasks :: "ntype \<Rightarrow> date \<Rightarrow> uuid list \<Rightarrow> world \<Rightarrow> world" where
  "nightly_status_tasks t process_day service_ids =
     fold (\<lambda>s. enqueue REPORTING (TNotificationStatusForServiceAndDay process_day t s)) service_ids"

definition create_nightly_notification_status :: "env \<Rightarrow> (uuid set \<Rightarrow> uuid list) \<Rightarrow> world \<Rightarrow> world" where
  \<comment> \<open>\<open>order\<close> is the order in which Python iterates over the set of services\<close>
  "create_nightly_notification_status env order w =
     (let yesterday = london_today env w - 1
      in fold (\<lambda>t. fold (\<lambda>i v. nightly_status_tasks t (yesterday - int i)
                (order (get_service_ids_with_notifications_on_date env t (yesterday - int i) v)) v)
              [0..<(if t = Letter then 10 else 4)]) [Sms, Email, Letter] w)"

definition create_nightly_notification_status_for_service_and_day ::
  "env \<Rightarrow> date \<Rightarrow> uuid \<Rightarrow> ntype \<Rightarrow> unit op" where
  "create_nightly_notification_status_for_service_and_day env process_day service_id t =
     autocommit (\<lambda>w. (Inr (), update_fact_notification_status env process_day t service_id w))"

end
