(* ===== verification/Usage.thy ===== *)
theory Usage
  imports Billing Users
begin

text \<open>
  What services are billed: the queries of \<^verbatim>\<open>app/dao/fact_billing_dao.py\<close> over the facts with the
  free allowance of text messages, \<^verbatim>\<open>app/dao/annual_billing_dao.py\<close>, and the endpoints of
  \<^verbatim>\<open>app/billing/rest.py\<close> with \<^verbatim>\<open>app/billing/billing_schemas.py\<close>. Money is an exact fraction; the
  conversion of a result to floats is left out. The collation of names is a parameter.
\<close>

section \<open>The usage of a service\<close>

record usage_row =
  us_bst_date :: date
  us_postage :: string
  us_notifications_sent :: int
  us_chargeable_units :: int
  us_rate :: rat
  us_notification_type :: ntype
  us_cost :: rat
  us_free_allowance_used :: int
  us_charged_units :: int

definition fact_units :: "fact_billing \<Rightarrow> int" where
  "fact_units f = fb_billable_units f * fb_rate_multiplier f"

definition in_year :: "env \<Rightarrow> int \<Rightarrow> date \<Rightarrow> bool" where
  "in_year env year d \<longleftrightarrow> fst (get_financial_year_dates env year) \<le> d \<and> d \<le> snd (get_financial_year_dates env year)"

definition year_facts :: "env \<Rightarrow> int \<Rightarrow> uuid \<Rightarrow> ntype \<Rightarrow> world \<Rightarrow> fact_billing list" where
  "year_facts env year service_id t w =
     filter (\<lambda>f. fb_service_id f = service_id \<and> in_year env year (fb_bst_date f)
               \<and> fb_notification_type f = t) (w_ft_billing w)"

definition annual_allowance :: "uuid \<Rightarrow> int \<Rightarrow> world \<Rightarrow> annual_billing option" where
  \<comment> \<open>the join with \<open>annual_billing\<close>: unique by service and year\<close>
  "annual_allowance service_id year w =
     query_first (\<lambda>a. ab_service_id a = service_id \<and> ab_financial_year_start a = year) (w_annual_billing w)"

fun usage_window :: "int \<Rightarrow> int \<Rightarrow> fact_billing list \<Rightarrow> usage_row list" where
  \<comment> \<open>the window over the rows in the order of their dates, with the units used before the row\<close>
  "usage_window limit used [] = []"
| "usage_window limit used (f # fs) =
     (let units = fact_units f;
          remaining = max (limit - used) 0;
          charged = max (units - remaining) 0
      in \<lparr>us_bst_date = fb_bst_date f, us_postage = fb_postage f,
          us_notifications_sent = fb_notifications_sent f, us_chargeable_units = units,
          us_rate = fb_rate f, us_notification_type = fb_notification_type f,
          us_cost = of_int charged * fb_rate f, us_free_allowance_used = min remaining units,
          us_charged_units = charged\<rparr> # usage_window limit (used + units) fs)"

definition fetch_usage_for_service_sms :: "env \<Rightarrow> uuid \<Rightarrow> int \<Rightarrow> world \<Rightarrow> usage_row list" where
  "fetch_usage_for_service_sms env service_id year w =
     (case annual_allowance service_id year w of
        None \<Rightarrow> []
      | Some a \<Rightarrow> usage_window (ab_free_sms_fragment_limit a) 0
          (sort_key fb_bst_date (year_facts env year service_id Sms w)))"

definition fetch_usage_for_service_email :: "env \<Rightarrow> uuid \<Rightarrow> int \<Rightarrow> world \<Rightarrow> usage_row list" where
  "fetch_usage_for_service_email env service_id year w =
     map (\<lambda>f. \<lparr>us_bst_date = fb_bst_date f, us_postage = fb_postage f,
               us_notifications_sent = fb_notifications_sent f,
               us_chargeable_units = fb_billable_units f, us_rate = fb_rate f,
               us_notification_type = fb_notification_type f, us_cost = 0,
               us_free_allowance_used = 0, us_charged_units = fb_billable_units f\<rparr>)
       (year_facts env year service_id Email w)"

definition fetch_usage_for_service_letter :: "env \<Rightarrow> uuid \<Rightarrow> int \<Rightarrow> world \<Rightarrow> usage_row list" where
  "fetch_usage_for_service_letter env service_id year w =
     map (\<lambda>f. \<lparr>us_bst_date = fb_bst_date f, us_postage = fb_postage f,
               us_notifications_sent = fb_notifications_sent f,
               us_chargeable_units = fb_notifications_sent f, us_rate = fb_rate f,
               us_notification_type = fb_notification_type f,
               us_cost = of_int (fb_notifications_sent f) * fb_rate f,
               us_free_allowance_used = 0, us_charged_units = fb_notifications_sent f\<rparr>)
       (year_facts env year service_id Letter w)"

definition usage_queries :: "env \<Rightarrow> uuid \<Rightarrow> int \<Rightarrow> world \<Rightarrow> usage_row list list" where
  "usage_queries env service_id year w =
     [fetch_usage_for_service_sms env service_id year w,
      fetch_usage_for_service_email env service_id year w,
      fetch_usage_for_service_letter env service_id year w]"

record usage_total =
  ut_notification_type :: ntype
  ut_rate :: rat
  ut_notifications_sent :: int
  ut_chargeable_units :: int
  ut_cost :: rat
  ut_free_allowance_used :: int
  ut_charged_units :: int

record monthly_usage = usage_total +
  mu_postage :: string
  mu_month :: date

definition type_name_rank :: "ntype \<Rightarrow> nat" where
  \<comment> \<open>the column is text: its alphabetical order\<close>
  "type_name_rank t = (case t of Email \<Rightarrow> 0 | Letter \<Rightarrow> 1 | Messagebox \<Rightarrow> 2 | Sms \<Rightarrow> 3)"

definition annual_total :: "(rat \<times> ntype) \<times> usage_row list \<Rightarrow> usage_total" where
  "annual_total = (\<lambda>((rate, t), rs).
     \<lparr>ut_notification_type = t, ut_rate = rate, ut_notifications_sent = total us_notifications_sent rs,
      ut_chargeable_units = total us_chargeable_units rs, ut_cost = total us_cost rs,
      ut_free_allowance_used = total us_free_allowance_used rs,
      ut_charged_units = total us_charged_units rs\<rparr>)"

definition annual_totals :: "usage_row list \<Rightarrow> usage_total list" where
  "annual_totals rows = map annual_total (group_by (\<lambda>r. (us_rate r, us_notification_type r)) rows)"

definition month_of :: "date \<Rightarrow> date" where
  \<comment> \<open>\<open>date_trunc("month", \<dots>)\<close>\<close>
  "month_of d = (let (y, m, _) = civil_of_date d in date_of_civil y m 1)"

definition monthly_total :: "(rat \<times> ntype \<times> string \<times> date) \<times> usage_row list \<Rightarrow> monthly_usage" where
  "monthly_total = (\<lambda>((rate, t, post, month), rs).
     \<lparr>ut_notification_type = t, ut_rate = rate, ut_notifications_sent = total us_notifications_sent rs,
      ut_chargeable_units = total us_chargeable_units rs, ut_cost = total us_cost rs,
      ut_free_allowance_used = total us_free_allowance_used rs,
      ut_charged_units = total us_charged_units rs, mu_postage = post, mu_month = month\<rparr>)"

definition monthly_totals :: "usage_row list \<Rightarrow> monthly_usage list" where
  "monthly_totals rows =
     map monthly_total
       (group_by (\<lambda>r. (us_rate r, us_notification_type r, us_postage r, month_of (us_bst_date r))) rows)"

definition fetch_usage_for_service_annual :: "env \<Rightarrow> uuid \<Rightarrow> int \<Rightarrow> world \<Rightarrow> usage_total list" where
  "fetch_usage_for_service_annual env service_id year w =
     sort_key (\<lambda>u. type_name_rank (ut_notification_type u)) (sort_key ut_rate
       (sql_union (map annual_totals (usage_queries env service_id year w))))"

definition monthly_query :: "env \<Rightarrow> uuid \<Rightarrow> int \<Rightarrow> world \<Rightarrow> monthly_usage list" where
  "monthly_query env service_id year w =
     sort_key mu_month (sort_key (\<lambda>u. type_name_rank (ut_notification_type u)) (sort_key ut_rate
       (sql_union (map monthly_totals (usage_queries env service_id year w)))))"

definition fetch_usage_for_service_by_month :: "env \<Rightarrow> uuid \<Rightarrow> int \<Rightarrow> monthly_usage list op" where
  \<comment> \<open>the facts of today are refreshed first, unless the year is over\<close>
  "fetch_usage_for_service_by_month env service_id year w =
     op_bind
       (\<lambda>v. if snd (get_financial_year_dates env year) \<ge> london_today env v
            then update_ft_billing env
                   (fetch_billing_data_for_day env (london_today env v) (Some [service_id]) True v)
                   (london_today env v) v
            else (Inr (), v))
       (\<lambda>_ v. (Inr (monthly_query env service_id year v), v)) w"

section \<open>Counts\<close>

definition get_count_of_notifications_sent :: "env \<Rightarrow> uuid \<Rightarrow> ntype list \<Rightarrow> int \<Rightarrow> world \<Rightarrow> int" where
  "get_count_of_notifications_sent env service_id template_types limit_days w =
     total fb_notifications_sent (filter (\<lambda>f. fb_service_id f = service_id
         \<and> fb_bst_date f \<ge> date_of (midnight_n_days_ago env limit_days w)
         \<and> fb_notification_type f \<in> set template_types) (w_ft_billing w))"

definition get_sms_fragments_sent_last_financial_year :: "env \<Rightarrow> uuid \<Rightarrow> world \<Rightarrow> int" where
  "get_sms_fragments_sent_last_financial_year env service_id w =
     total fact_units (year_facts env (get_current_financial_year_start_year env w - 1) service_id Sms w)"

section \<open>The usage of all services\<close>

record service_sms_usage =
  su_service_id :: uuid
  su_bst_date :: date
  su_free_allowance :: "int option"
  su_free_allowance_left :: int
  su_chargeable_units :: int
  su_cost :: rat
  su_charged_units :: int

fun all_services_window :: "uuid \<Rightarrow> int option \<Rightarrow> int \<Rightarrow> fact_billing list \<Rightarrow> service_sms_usage list" where
  \<comment> \<open>without an allowance the greatest of null and 0 is 0\<close>
  "all_services_window service_id limit used [] = []"
| "all_services_window service_id limit used (f # fs) =
     (let units = fact_units f;
          remaining = (case limit of None \<Rightarrow> 0 | Some l \<Rightarrow> max (l - used) 0);
          charged = max (units - remaining) 0
      in \<lparr>su_service_id = service_id, su_bst_date = fb_bst_date f, su_free_allowance = limit,
          su_free_allowance_left = max (remaining - units) 0, su_chargeable_units = units,
          su_cost = of_int charged * fb_rate f, su_charged_units = charged\<rparr>
         # all_services_window service_id limit (used + units) fs)"

definition in_organisation :: "uuid option \<Rightarrow> service \<Rightarrow> bool" where
  "in_organisation organisation_id s \<longleftrightarrow> organisation_id = None \<or> svc_organisation_id s = organisation_id"

definition fetch_usage_for_all_services_sms_query ::
  "env \<Rightarrow> int \<Rightarrow> uuid option \<Rightarrow> world \<Rightarrow> service_sms_usage list" where
  \<comment> \<open>a service without facts has one row without a date, which the callers' filters on the date drop\<close>
  "fetch_usage_for_all_services_sms_query env year organisation_id w =
     concat (map (\<lambda>s. all_services_window (svc_id s)
         (map_option ab_free_sms_fragment_limit (annual_allowance (svc_id s) year w)) 0
         (sort_key fb_bst_date (year_facts env year (svc_id s) Sms w)))
       (filter (in_organisation organisation_id) (w_services w)))"

definition organisation_of :: "service \<Rightarrow> world \<Rightarrow> organisation option" where
  "organisation_of s w =
     (case svc_organisation_id s of None \<Rightarrow> None | Some i \<Rightarrow> find_row o_id i (w_organisations w))"

record service_usage =
  sv_organisation_name :: "string option"
  sv_organisation_id :: "uuid option"
  sv_service_name :: string
  sv_service_id :: uuid

record sms_usage = service_usage +
  sm_free_allowance :: "int option"
  sm_free_allowance_left :: int
  sm_chargeable_units :: int
  sm_charged_units :: int
  sm_cost :: rat
  sm_active :: bool

definition order_by_names ::
  "(string \<Rightarrow> nat) \<Rightarrow> ('a service_usage_scheme) list \<Rightarrow> ('a service_usage_scheme) list" where
  \<comment> \<open>by organisation and service; a null comes last\<close>
  "order_by_names collation rows =
     sort_key (\<lambda>r. if sv_organisation_name r = None then 1 else 0 :: nat)
       (sort_key (\<lambda>r. case sv_organisation_name r of None \<Rightarrow> 0 | Some n \<Rightarrow> collation n)
         (sort_key (\<lambda>r. collation (sv_service_name r)) rows))"

definition fetch_usage_for_all_services_sms ::
  "env \<Rightarrow> (string \<Rightarrow> nat) \<Rightarrow> date \<Rightarrow> date \<Rightarrow> uuid option \<Rightarrow> world \<Rightarrow> sms_usage list" where
  \<comment> \<open>the allowance is the same in every row of a service\<close>
  "fetch_usage_for_all_services_sms env collation start_date end_date organisation_id w =
     (let year = get_financial_year_for_datetime env (get_london_midnight_in_utc env start_date);
          rows = filter (\<lambda>r. start_date \<le> su_bst_date r \<and> su_bst_date r \<le> end_date)
            (fetch_usage_for_all_services_sms_query env year organisation_id w)
      in order_by_names collation (concat (map (\<lambda>s.
           let mine = filter (\<lambda>r. su_service_id r = svc_id s) rows
           in if mine = [] then []
              else [\<lparr>sv_organisation_name = map_option o_name (organisation_of s w),
                     sv_organisation_id = map_option o_id (organisation_of s w),
                     sv_service_name = svc_name s, sv_service_id = svc_id s,
                     sm_free_allowance = su_free_allowance (hd mine),
                     sm_free_allowance_left = Min (su_free_allowance_left ` set mine),
                     sm_chargeable_units = total su_chargeable_units mine,
                     sm_charged_units = total su_charged_units mine,
                     sm_cost = total su_cost mine, sm_active = svc_active s\<rparr>])
         (filter (in_organisation organisation_id) (w_services w)))))"

definition facts_between :: "date \<Rightarrow> date \<Rightarrow> ntype \<Rightarrow> uuid \<Rightarrow> world \<Rightarrow> fact_billing list" where
  "facts_between start_date end_date t service_id w =
     filter (\<lambda>f. fb_service_id f = service_id \<and> start_date \<le> fb_bst_date f \<and> fb_bst_date f \<le> end_date
               \<and> fb_notification_type f = t) (w_ft_billing w)"

record letter_usage = service_usage +
  le_total_letters :: int
  le_letter_cost :: rat

definition letter_cost :: "fact_billing \<Rightarrow> rat" where
  "letter_cost f = of_int (fb_notifications_sent f) * fb_rate f"

definition fetch_usage_for_all_services_letter ::
  "(string \<Rightarrow> nat) \<Rightarrow> date \<Rightarrow> date \<Rightarrow> world \<Rightarrow> letter_usage list" where
  "fetch_usage_for_all_services_letter collation start_date end_date w =
     order_by_names collation (concat (map (\<lambda>s.
       let facts = facts_between start_date end_date Letter (svc_id s) w
       in if facts = [] then []
          else [\<lparr>sv_organisation_name = map_option o_name (organisation_of s w),
                 sv_organisation_id = map_option o_id (organisation_of s w),
                 sv_service_name = svc_name s, sv_service_id = svc_id s,
                 le_total_letters = total fb_notifications_sent facts,
                 le_letter_cost = total letter_cost facts\<rparr>]) (w_services w)))"

record letter_breakdown = service_usage +
  lk_letter_rate :: rat
  lk_postage :: string
  lk_letters_sent :: int

definition formatted_postage :: "fact_billing \<Rightarrow> string" where
  "formatted_postage f =
     (if fb_postage f \<in> postage_name ` set INTERNATIONAL_POSTAGE_TYPES then ''international'' else ''netherlands'')"

definition fetch_usage_for_all_services_letter_breakdown ::
  "(string \<Rightarrow> nat) \<Rightarrow> date \<Rightarrow> date \<Rightarrow> world \<Rightarrow> letter_breakdown list" where
  \<comment> \<open>ordered by the names, then Netherlands before international, then by rate\<close>
  "fetch_usage_for_all_services_letter_breakdown collation start_date end_date w =
     order_by_names collation
       (sort_key (\<lambda>r. if lk_postage r = ''netherlands'' then 1 else 2 :: nat) (sort_key lk_letter_rate
         (concat (map (\<lambda>s. map (\<lambda>((rate, post), facts).
             \<lparr>sv_organisation_name = map_option o_name (organisation_of s w),
              sv_organisation_id = map_option o_id (organisation_of s w),
              sv_service_name = svc_name s, sv_service_id = svc_id s,
              lk_letter_rate = rate, lk_postage = post,
              lk_letters_sent = total fb_notifications_sent facts\<rparr>)
           (group_by (\<lambda>f. (fb_rate f, formatted_postage f))
             (facts_between start_date end_date Letter (svc_id s) w))) (w_services w)))))"

section \<open>The usage of an organisation\<close>

definition live_services_of :: "uuid \<Rightarrow> world \<Rightarrow> service list" where
  "live_services_of organisation_id w =
     filter (\<lambda>s. svc_organisation_id s = Some organisation_id \<and> \<not> svc_restricted s) (w_services w)"

definition get_organisation_live_services_and_their_free_allowance ::
  "uuid \<Rightarrow> int \<Rightarrow> world \<Rightarrow> (service \<times> int) list" where
  "get_organisation_live_services_and_their_free_allowance organisation_id year w =
     map (\<lambda>s. (s, case annual_allowance (svc_id s) year w of
                   None \<Rightarrow> 0 | Some a \<Rightarrow> ab_free_sms_fragment_limit a))
       (live_services_of organisation_id w)"

definition fetch_usage_for_organisation_letter ::
  "uuid \<Rightarrow> date \<Rightarrow> date \<Rightarrow> world \<Rightarrow> (uuid \<times> rat \<times> int) list" where
  \<comment> \<open>cost and number of the letters of a service; the order by name is not used\<close>
  "fetch_usage_for_organisation_letter organisation_id start_date end_date w =
     concat (map (\<lambda>s. let facts = facts_between start_date end_date Letter (svc_id s) w
       in if facts = [] then []
          else [(svc_id s, total letter_cost facts, total fb_notifications_sent facts)])
       (live_services_of organisation_id w))"

definition fetch_usage_for_organisation_email ::
  "uuid \<Rightarrow> date \<Rightarrow> date \<Rightarrow> world \<Rightarrow> (uuid \<times> int) list" where
  "fetch_usage_for_organisation_email organisation_id start_date end_date w =
     concat (map (\<lambda>s. let facts = facts_between start_date end_date Email (svc_id s) w
       in if facts = [] then [] else [(svc_id s, total fb_notifications_sent facts)])
       (live_services_of organisation_id w))"

definition is_restricted :: "uuid \<Rightarrow> world \<Rightarrow> bool" where
  "is_restricted i w = (case find_row svc_id i (w_services w) of None \<Rightarrow> False | Some s \<Rightarrow> svc_restricted s)"

definition fetch_usage_for_organisation_sms ::
  "env \<Rightarrow> (string \<Rightarrow> nat) \<Rightarrow> uuid \<Rightarrow> int \<Rightarrow> world \<Rightarrow> sms_usage list" where
  "fetch_usage_for_organisation_sms env collation organisation_id year w =
     filter (\<lambda>u. \<not> is_restricted (sv_service_id u) w)
       (fetch_usage_for_all_services_sms env collation (fst (get_financial_year_dates env year))
         (snd (get_financial_year_dates env year)) (Some organisation_id) w)"

record organisation_usage =
  ou_service_name :: string
  ou_free_sms_limit :: int
  ou_sms_remainder :: int
  ou_sms_billable_units :: int
  ou_chargeable_billable_sms :: int
  ou_sms_cost :: rat
  ou_letter_cost :: rat
  ou_emails_sent :: int
  ou_active :: bool
  ou_letters_sent :: int

definition unused_service :: "service \<times> int \<Rightarrow> organisation_usage" where
  "unused_service p =
     \<lparr>ou_service_name = svc_name (fst p), ou_free_sms_limit = snd p, ou_sms_remainder = snd p,
      ou_sms_billable_units = 0, ou_chargeable_billable_sms = 0, ou_sms_cost = 0, ou_letter_cost = 0,
      ou_emails_sent = 0, ou_active = svc_active (fst p), ou_letters_sent = 0\<rparr>"

type_synonym usage_dict = "(uuid \<times> organisation_usage) list"

fun dict_updates :: "(uuid \<times> (organisation_usage \<Rightarrow> organisation_usage)) list \<Rightarrow> usage_dict \<Rightarrow> usage_dict result" where
  \<comment> \<open>\<open>d[key] |= \<dots>\<close> for each usage\<close>
  "dict_updates [] d = Inr d"
| "dict_updates ((k, f) # us) d =
     (case map_of d k of
        None \<Rightarrow> Inl (Py (KeyError (uuid_str k)))
      | Some u \<Rightarrow> dict_updates us (dict_set k (f u) d))"

definition organisation_updates ::
  "env \<Rightarrow> (string \<Rightarrow> nat) \<Rightarrow> uuid \<Rightarrow> int \<Rightarrow> world \<Rightarrow> (uuid \<times> (organisation_usage \<Rightarrow> organisation_usage)) list" where
  "organisation_updates env collation organisation_id year w =
     (let (year_start, year_end) = get_financial_year_dates env year
      in map (\<lambda>u. (sv_service_id u, \<lambda>o1. o1\<lparr>ou_sms_remainder := sm_free_allowance_left u,
              ou_sms_billable_units := sm_chargeable_units u,
              ou_chargeable_billable_sms := sm_charged_units u, ou_sms_cost := sm_cost u\<rparr>))
           (fetch_usage_for_organisation_sms env collation organisation_id year w)
         @ map (\<lambda>(i, cost, n). (i, \<lambda>o1. o1\<lparr>ou_letter_cost := cost, ou_letters_sent := n\<rparr>))
           (fetch_usage_for_organisation_letter organisation_id year_start year_end w)
         @ map (\<lambda>(i, n). (i, \<lambda>o1. o1\<lparr>ou_emails_sent := n\<rparr>))
           (fetch_usage_for_organisation_email organisation_id year_start year_end w))"

definition fetch_usage_for_organisation ::
  "env \<Rightarrow> (string \<Rightarrow> nat) \<Rightarrow> uuid \<Rightarrow> int \<Rightarrow> world \<Rightarrow> (usage_dict \<times> time option) result" where
  \<comment> \<open>\<open>year_end\<close> is the last day of the year: on it no time of the last update is returned\<close>
  "fetch_usage_for_organisation env collation organisation_id year w =
     (let (year_start, year_end) = get_financial_year_dates env year;
          today = london_today env w;
          unused = fold (\<lambda>p. dict_set (svc_id (fst p)) (unused_service p))
            (get_organisation_live_services_and_their_free_allowance organisation_id year w) []
      in res_bind (dict_updates (organisation_updates env collation organisation_id year w) unused)
           (\<lambda>d. Inr (d, if year_start \<le> today \<and> today < year_end
                        then get_ft_billing_data_for_today_updated_at w else None)))"

section \<open>Volumes\<close>

definition sum_if :: "ntype \<Rightarrow> (fact_billing \<Rightarrow> 'n::comm_monoid_add) \<Rightarrow> fact_billing list \<Rightarrow> 'n" where
  \<comment> \<open>a sum of a \<open>CASE\<close> on the type; the sums of the groups by type are added up again\<close>
  "sum_if t f facts = total (\<lambda>x. if fb_notification_type x = t then f x else 0) facts"

record daily_volume =
  dv_bst_date :: date
  dv_sms_totals :: int
  dv_sms_fragment_totals :: int
  dv_sms_chargeable_units :: int
  dv_email_totals :: int
  dv_letter_totals :: int
  dv_letter_sheet_totals :: int

definition fetch_daily_volumes_for_platform :: "date \<Rightarrow> date \<Rightarrow> world \<Rightarrow> daily_volume list" where
  "fetch_daily_volumes_for_platform start_date end_date w =
     sort_key dv_bst_date (map (\<lambda>(d, facts).
         \<lparr>dv_bst_date = d, dv_sms_totals = sum_if Sms fb_notifications_sent facts,
          dv_sms_fragment_totals = sum_if Sms fb_billable_units facts,
          dv_sms_chargeable_units = sum_if Sms fact_units facts,
          dv_email_totals = sum_if Email fb_notifications_sent facts,
          dv_letter_totals = sum_if Letter fb_notifications_sent facts,
          dv_letter_sheet_totals = sum_if Letter fb_billable_units facts\<rparr>)
       (group_by fb_bst_date
         (filter (\<lambda>f. start_date \<le> fb_bst_date f \<and> fb_bst_date f \<le> end_date) (w_ft_billing w))))"

record provider_volume =
  pv_bst_date :: date
  pv_provider :: string
  pv_sms_totals :: int
  pv_sms_fragment_totals :: int
  pv_sms_chargeable_units :: int
  pv_sms_cost :: rat

definition fetch_daily_sms_provider_volumes_for_platform ::
  "(string \<Rightarrow> nat) \<Rightarrow> date \<Rightarrow> date \<Rightarrow> world \<Rightarrow> provider_volume list" where
  "fetch_daily_sms_provider_volumes_for_platform collation start_date end_date w =
     sort_key pv_bst_date (sort_key (\<lambda>v. collation (pv_provider v)) (map (\<lambda>((d, provider), facts).
         \<lparr>pv_bst_date = d, pv_provider = provider, pv_sms_totals = total fb_notifications_sent facts,
          pv_sms_fragment_totals = total fb_billable_units facts,
          pv_sms_chargeable_units = total fact_units facts,
          pv_sms_cost = total (\<lambda>f. of_int (fact_units f) * fb_rate f) facts\<rparr>)
       (group_by (\<lambda>f. (fb_bst_date f, fb_provider f))
         (filter (\<lambda>f. fb_notification_type f = Sms \<and> start_date \<le> fb_bst_date f \<and> fb_bst_date f \<le> end_date)
           (w_ft_billing w)))))"

record service_volume = service_usage +
  vo_free_allowance :: int
  vo_sms_notifications :: int
  vo_sms_chargeable_units :: int
  vo_email_totals :: int
  vo_letter_totals :: int
  vo_letter_cost :: rat
  vo_letter_sheet_totals :: int

definition latest_allowance :: "int \<Rightarrow> uuid \<Rightarrow> world \<Rightarrow> annual_billing option" where
  \<comment> \<open>the row of the latest year up to the given one\<close>
  "latest_allowance year service_id w =
     (let mine = filter (\<lambda>a. ab_service_id a = service_id \<and> ab_financial_year_start a \<le> year) (w_annual_billing w)
      in query_first (\<lambda>a. list_all (\<lambda>b. ab_financial_year_start b \<le> ab_financial_year_start a) mine) mine)"

definition fetch_volumes_by_service ::
  "(string \<Rightarrow> nat) \<Rightarrow> date \<Rightarrow> date \<Rightarrow> world \<Rightarrow> service_volume list" where
  "fetch_volumes_by_service collation start_date end_date w =
     order_by_names collation (concat (map (\<lambda>s.
       case latest_allowance (year_of_date end_date) (svc_id s) w of
         None \<Rightarrow> []
       | Some a \<Rightarrow>
           let facts = filter (\<lambda>f. fb_service_id f = svc_id s \<and> start_date \<le> fb_bst_date f
                 \<and> fb_bst_date f \<le> end_date) (w_ft_billing w)
           in [\<lparr>sv_organisation_name = map_option o_name (organisation_of s w),
                sv_organisation_id = svc_organisation_id s,
                sv_service_name = svc_name s, sv_service_id = svc_id s,
                vo_free_allowance = ab_free_sms_fragment_limit a,
                vo_sms_notifications = sum_if Sms fb_notifications_sent facts,
                vo_sms_chargeable_units = sum_if Sms fact_units facts,
                vo_email_totals = sum_if Email fb_notifications_sent facts,
                vo_letter_totals = sum_if Letter fb_notifications_sent facts,
                vo_letter_cost = sum_if Letter letter_cost facts,
                vo_letter_sheet_totals = sum_if Letter fb_billable_units facts\<rparr>])
       (filter (\<lambda>s. \<not> svc_restricted s \<and> svc_count_as_live s \<and> svc_active s) (w_services w))))"

section \<open>Annual allowances\<close>

definition dao_get_free_sms_fragment_limit_for_year ::
  "env \<Rightarrow> uuid \<Rightarrow> int option \<Rightarrow> world \<Rightarrow> annual_billing option" where
  "dao_get_free_sms_fragment_limit_for_year env service_id year w =
     annual_allowance service_id
       (case year of None \<Rightarrow> get_current_financial_year_start_year env w
        | Some y \<Rightarrow> if y = 0 then get_current_financial_year_start_year env w else y) w"

definition dao_create_or_update_annual_billing_for_year ::
  "env \<Rightarrow> uuid \<Rightarrow> int \<Rightarrow> int \<Rightarrow> bool option \<Rightarrow> bool option \<Rightarrow> annual_billing op" where
  "dao_create_or_update_annual_billing_for_year env service_id limit year high_volume custom =
     autocommit (\<lambda>w.
       let (row, w1) = (case dao_get_free_sms_fragment_limit_for_year env service_id (Some year) w of
             Some a \<Rightarrow> (a\<lparr>ab_free_sms_fragment_limit := limit\<rparr>, w)
           | None \<Rightarrow> (let (i, v) = create_uuid env w
                     in (\<lparr>ab_id = i, ab_service_id = service_id, ab_financial_year_start = year,
                          ab_free_sms_fragment_limit = limit, ab_high_volume_service_last_year = False,
                          ab_has_custom_allowance = False\<rparr>, v)));
           row1 = (case high_volume of None \<Rightarrow> row | Some b \<Rightarrow> row\<lparr>ab_high_volume_service_last_year := b\<rparr>);
           row2 = (case custom of None \<Rightarrow> row1 | Some b \<Rightarrow> row1\<lparr>ab_has_custom_allowance := b\<rparr>)
       in (Inr row2, w1\<lparr>w_annual_billing := save_row ab_id row2 (w_annual_billing w1)\<rparr>))"

definition dao_get_default_annual_allowance_for_service ::
  "service \<Rightarrow> int \<Rightarrow> world \<Rightarrow> default_annual_allowance result" where
  "dao_get_default_annual_allowance_for_service s year_start w =
     (let org_type = (case svc_organisation_type s of None \<Rightarrow> OrgOther | Some t \<Rightarrow> t)
      in case query_first (\<lambda>_. True) (sort_key (\<lambda>a. - da_valid_from_financial_year_start a)
            (filter (\<lambda>a. da_valid_from_financial_year_start a \<le> year_start
                       \<and> da_organisation_type a = Some org_type \<and> da_notification_type a = Sms)
              (w_default_allowances w))) of
           None \<Rightarrow> Inl (py_exception ''No default annual allowance'')
         | Some a \<Rightarrow> Inr a)"

definition is_high_volume_service :: "env \<Rightarrow> uuid \<Rightarrow> world \<Rightarrow> bool" where
  "is_high_volume_service env service_id w \<longleftrightarrow>
     get_sms_fragments_sent_last_financial_year env service_id w \<ge> HIGH_VOLUME_SERVICE_THRESHOLD"

definition next_allowance :: "env \<Rightarrow> service \<Rightarrow> int \<Rightarrow> world \<Rightarrow> (int \<times> bool \<times> bool) result" where
  \<comment> \<open>the limit, whether the service is high volume and whether the allowance is its own\<close>
  "next_allowance env s year_start w =
     (if is_high_volume_service env (svc_id s) w then Inr (0, True, False)
      else case annual_allowance (svc_id s) (year_start - 1) w of
        Some a \<Rightarrow>
          if ab_has_custom_allowance a then Inr (ab_free_sms_fragment_limit a, False, True)
          else res_bind (dao_get_default_annual_allowance_for_service s year_start w)
                 (\<lambda>d. Inr (da_allowance d, False, False))
      | None \<Rightarrow> res_bind (dao_get_default_annual_allowance_for_service s year_start w)
                 (\<lambda>d. Inr (da_allowance d, False, False)))"

definition set_default_free_allowance_for_service ::
  "env \<Rightarrow> service option \<Rightarrow> int option \<Rightarrow> annual_billing op" where
  \<comment> \<open>a missing service fails where its id is read\<close>
  "set_default_free_allowance_for_service env s year w =
     (let current = get_current_financial_year_start_year env w;
          year_start = (case year of None \<Rightarrow> current | Some y \<Rightarrow> if y = 0 then current else y)
      in if year_start < 2016 then (Inl (Py (ValueError ''year_start before 2016 is invalid'')), w)
         else if year_start > current
         then (Inl (Py (ValueError ''year_start cannot be in a future financial year'')), w)
         else case s of
           None \<Rightarrow> (Inl (Py AttributeError), w)
         | Some svc \<Rightarrow>
             op_bind (op_lift (next_allowance env svc year_start w))
               (\<lambda>(limit, high_volume, custom).
                  dao_create_or_update_annual_billing_for_year env (svc_id svc) limit year_start
                    (Some high_volume) (Some custom)) w)"

section \<open>Endpoints\<close>

definition serialize_ft_billing_remove_emails :: "monthly_usage list \<Rightarrow> (string \<times> monthly_usage) list" where
  "serialize_ft_billing_remove_emails rows =
     map (\<lambda>r. (month_name (fst (snd (civil_of_date (mu_month r)))), r)) (filter (\<lambda>r. ut_notification_type r \<noteq> Email) rows)"

definition get_yearly_usage_by_monthly_from_ft_billing ::
  "env \<Rightarrow> uuid \<Rightarrow> int option \<Rightarrow> (string \<times> monthly_usage) list op" where
  \<comment> \<open>the year of the query string, if any\<close>
  "get_yearly_usage_by_monthly_from_ft_billing env service_id year =
     (case year of
        None \<Rightarrow> op_raise (invalid_request ''No valid year provided'' 400)
      | Some y \<Rightarrow> op_bind (fetch_usage_for_service_by_month env service_id y)
          (\<lambda>rows. op_return (serialize_ft_billing_remove_emails rows)))"

definition get_yearly_billing_usage_summary_from_ft_billing ::
  "env \<Rightarrow> uuid \<Rightarrow> int option \<Rightarrow> usage_total list op" where
  "get_yearly_billing_usage_summary_from_ft_billing env service_id year w =
     (case year of
        None \<Rightarrow> (Inl (invalid_request ''No valid year provided'' 400), w)
      | Some y \<Rightarrow> (Inr (fetch_usage_for_service_annual env service_id y w), w))"

definition get_free_sms_fragment_limit :: "env \<Rightarrow> uuid \<Rightarrow> int option \<Rightarrow> (int \<times> int) op" where
  "get_free_sms_fragment_limit env service_id year w =
     (case dao_get_free_sms_fragment_limit_for_year env service_id year w of
        Some a \<Rightarrow> (Inr (ab_free_sms_fragment_limit a, ab_financial_year_start a), w)
      | None \<Rightarrow>
          (case set_default_free_allowance_for_service env (find_row svc_id service_id (w_services w)) year w of
             (Inl (Py (ValueError m)), w1) \<Rightarrow> (Inl (HttpAbort 400), w1)
           | (Inl e, w1) \<Rightarrow> (Inl e, w1)
           | (Inr a, w1) \<Rightarrow> (Inr (ab_free_sms_fragment_limit a, ab_financial_year_start a), w1)))"

definition update_free_sms_fragment_limit_data :: "env \<Rightarrow> uuid \<Rightarrow> int \<Rightarrow> unit op" where
  \<comment> \<open>a row never equals a number, so \<open>default_free_allowance != free_sms_fragment_limit\<close> is true\<close>
  "update_free_sms_fragment_limit_data env service_id limit w =
     (let year = get_current_financial_year_start_year env w
      in op_bind (op_lift (res_bind (dao_fetch_service_by_id service_id False w)
             (\<lambda>s. dao_get_default_annual_allowance_for_service s year w)))
           (\<lambda>_. op_bind (dao_create_or_update_annual_billing_for_year env service_id limit year None (Some True))
             (\<lambda>_. op_return ())) w)"

definition create_or_update_free_sms_fragment_limit :: "env \<Rightarrow> uuid \<Rightarrow> int result \<Rightarrow> unit op" where
  \<comment> \<open>the limit of the validated body\<close>
  "create_or_update_free_sms_fragment_limit env service_id limit =
     op_bind (op_lift limit) (update_free_sms_fragment_limit_data env service_id)"

end
