(* ===== verification/Billing_Rules.thy ===== *)
theory Billing_Rules
  imports Billing Delivery
begin

text \<open>
  What the facts of \<^verbatim>\<open>Billing\<close> are: every billable notification is counted in one datum, a run for a day
  writes all facts of the day or none, running it again changes no number, and the status facts of a
  day are replaced as a whole. Both tables of facts are written by an upsert, stated once as a locale.
\<close>

section \<open>Upserts\<close>

locale upsert_table =
  fixes key :: "'r \<Rightarrow> 'k"
    and merge :: "'r \<Rightarrow> 'r \<Rightarrow> 'r"
    and upsert :: "'r \<Rightarrow> 'r list \<Rightarrow> 'r list"
  assumes upsert: "upsert f rows =
      (if key f \<in> key ` set rows then update_rows (\<lambda>x. key x = key f) (merge f) rows else rows @ [f])"
    and merge_key [simp]: "key (merge f x) = key x"
begin

lemma map_key_upsert:
  "map key (upsert f rows) = map key rows @ (if key f \<in> key ` set rows then [] else [key f])"
  by (auto simp: upsert update_rows_def)

lemma keys_upsert: "key ` set (upsert f rows) = insert (key f) (key ` set rows)"
  using arg_cong [OF map_key_upsert [of f rows], of set] by auto

lemma distinct_upsert: "distinct_rows key rows \<Longrightarrow> distinct_rows key (upsert f rows)"
  by (auto simp: distinct_rows_def map_key_upsert)

lemma find_update_key:
  "find_row key k (update_rows (\<lambda>x. key x = key f) (merge f) rows) =
     (if k = key f then map_option (merge f) (find_row key k rows) else find_row key k rows)"
proof (induction rows)
  case Nil
  then show ?case by (simp add: update_rows_def)
next
  case (Cons r rows)
  then show ?case by (cases "k = key f"; cases "key r = key f") (simp_all add: update_rows_def row_simps)
qed

lemma find_upsert:
  "find_row key k (upsert f rows) =
     (if k = key f then Some (case find_row key k rows of None \<Rightarrow> f | Some x \<Rightarrow> merge f x)
      else find_row key k rows)"
proof (cases "key f \<in> key ` set rows")
  case True
  then have "find_row key (key f) rows \<noteq> None" by (simp add: find_row_None_iff)
  then show ?thesis
    using True by (cases "find_row key (key f) rows") (simp_all add: upsert find_update_key)
next
  case False
  then have "find_row key (key f) rows = None" by (simp add: find_row_None_iff)
  then show ?thesis
    using False by (cases "find_row key k rows") (auto simp: upsert find_row_append row_simps)
qed

lemma distinct_upserts: "distinct_rows key rows \<Longrightarrow> distinct_rows key (fold upsert fs rows)"
  by (induction fs arbitrary: rows) (simp_all add: distinct_upsert)

lemma keys_upserts: "key ` set (fold upsert fs rows) = key ` set rows \<union> key ` set fs"
  by (induction fs arbitrary: rows) (auto simp: keys_upsert)

lemma find_upserts:
  assumes "distinct (map key fs)"
  shows "find_row key k (fold upsert fs rows) =
    (case find_row key k fs of
       None \<Rightarrow> find_row key k rows
     | Some f \<Rightarrow> Some (case find_row key k rows of None \<Rightarrow> f | Some x \<Rightarrow> merge f x))"
  using assms
proof (induction fs arbitrary: rows)
  case Nil
  then show ?case by simp
next
  case (Cons f fs)
  show ?case
  proof (cases "k = key f")
    case True
    then have "find_row key k fs = None" using Cons.prems by (auto simp: find_row_None_iff)
    then show ?thesis using True Cons by (simp add: find_upsert row_simps)
  next
    case False
    then have "find_row key k (upsert f rows) = find_row key k rows" by (simp add: find_upsert)
    then show ?thesis using False Cons by (cases "find_row key k fs") (simp_all add: row_simps)
  qed
qed

lemma filter_upserts:
  assumes "\<And>f x. f \<in> set fs \<Longrightarrow> key x = key f \<Longrightarrow> \<not> p x"
  shows "filter p (fold upsert fs rows) = filter p rows"
  using assms
proof (induction fs arbitrary: rows)
  case Nil
  then show ?case by simp
next
  case (Cons f fs)
  have out: "\<not> p x" if "key x = key f" for x using Cons.prems that by auto
  have "filter p (update_rows (\<lambda>x. key x = key f) (merge f) rows) = filter p rows"
    using out by (induction rows) (auto simp: update_rows_def)
  then have "filter p (upsert f rows) = filter p rows"
    using out [OF refl] by (simp add: upsert)
  moreover have "filter p (fold upsert fs (upsert f rows)) = filter p (upsert f rows)"
    by (rule Cons.IH) (use Cons.prems in auto)
  ultimately show ?case by simp
qed

lemma upserts_known:
  assumes "\<And>f. f \<in> set fs \<Longrightarrow> key f \<in> key ` set rows"
    and "\<And>f x. f \<in> set fs \<Longrightarrow> x \<in> set rows \<Longrightarrow> key x = key f \<Longrightarrow> v (merge f x) = v x"
    and "\<And>f x. key x = key f \<Longrightarrow> v (merge f x) = v f"
  shows "map v (fold upsert fs rows) = map v rows"
  using assms(1,2)
proof (induction fs arbitrary: rows)
  case Nil
  then show ?case by simp
next
  case (Cons f fs)
  have known: "upsert f rows = update_rows (\<lambda>x. key x = key f) (merge f) rows"
    using Cons.prems(1) by (simp add: upsert)
  have here: "map v (upsert f rows) = map v rows"
    unfolding known using Cons.prems(2) by (auto simp: update_rows_def)
  have "map v (fold upsert fs (upsert f rows)) = map v (upsert f rows)"
  proof (rule Cons.IH)
    show "key g \<in> key ` set (upsert f rows)" if "g \<in> set fs" for g
      using Cons.prems(1) [of g] that by (simp add: keys_upsert)
    fix g x assume g: "g \<in> set fs" and x: "x \<in> set (upsert f rows)" "key x = key g"
    then obtain y where y: "y \<in> set rows" "key y = key x" "v y = v x"
      using Cons.prems(2) [of f] by (auto simp: known update_rows_def)
    have "v (merge g x) = v (merge g y)" using x y assms(3) by simp
    then show "v (merge g x) = v x" using Cons.prems(2) [of g y] g x y by simp
  qed
  then show ?case using here by simp
qed

end

definition refresh_fact :: "time \<Rightarrow> fact_billing \<Rightarrow> fact_billing \<Rightarrow> fact_billing" where
  "refresh_fact now f x =
     x\<lparr>fb_notifications_sent := fb_notifications_sent f, fb_billable_units := fb_billable_units f,
       fb_updated_at := Some now\<rparr>"

definition refresh_despatch :: "time \<Rightarrow> fact_letter_despatch \<Rightarrow> fact_letter_despatch \<Rightarrow> fact_letter_despatch" where
  "refresh_despatch now f x =
     x\<lparr>fd_notifications_sent := fd_notifications_sent f, fd_updated_at := Some now\<rparr>"

interpretation facts: upsert_table ft_billing_pkey "refresh_fact now" "upsert_fact now" for now
  by unfold_locales (simp_all add: upsert_fact_def refresh_fact_def [abs_def] ft_billing_pkey_def)

interpretation despatches: upsert_table ft_despatch_pkey "refresh_despatch now" "upsert_despatch now" for now
  by unfold_locales (simp_all add: upsert_despatch_def refresh_despatch_def [abs_def] ft_despatch_pkey_def)

section \<open>Every billable notification is counted once\<close>

definition billing_channels :: "ntype list" where
  "billing_channels = [Sms, Email, Letter]"

lemma total_query_for_billing_data:
  "total bd_notifications_sent (query_for_billing_data t a b ids check w) =
     int (length (billable_rows t a b ids check w))"
proof -
  define rows where "rows = billable_rows t a b ids check w"
  have sms: "total bd_notifications_sent (sms_query w rows) = int (length rows)"
    and email: "total bd_notifications_sent (email_query w rows) = int (length rows)"
    and letter: "total bd_notifications_sent (letter_query w rows) = int (length rows)"
    by (simp_all add: sms_query_def email_query_def letter_query_def total_map split_def
        total_groups' [where f = "\<lambda>_. 1"] total_length)
  show ?thesis
    using sms email letter by (cases t) (simp_all add: query_for_billing_data_def rows_def)
qed

lemma total_units_query:
  assumes "t \<in> {Sms, Letter}"
  shows "total bd_billable_units (query_for_billing_data t a b ids check w) =
     total h_billable_units (billable_rows t a b ids check w)"
  using assms
  by (auto simp: query_for_billing_data_def sms_query_def letter_query_def total_map split_def
      total_groups' [where f = h_billable_units])


section \<open>The facts of a day\<close>

lemma fetch_ignores_facts [simp]:
  "fetch_billing_data_for_day env d ids check (w\<lparr>w_ft_billing := facts\<rparr>) =
     fetch_billing_data_for_day env d ids check w"
proof -
  have "billable_rows t a b ids check (w\<lparr>w_ft_billing := facts\<rparr>) = billable_rows t a b ids check w" for t a b
    by (simp add: billable_rows_def all_time_view_def has_billed_service_def [abs_def] cong: filter_cong)
  moreover have "service_crown i (w\<lparr>w_ft_billing := facts\<rparr>) = service_crown i w" for i
    by (simp add: service_crown_def)
  ultimately show ?thesis
    by (simp add: fetch_billing_data_for_day_def query_for_billing_data_def sms_query_def email_query_def
        letter_query_def cong: ntype.case_cong)
qed

lemma billing_record_ignores_facts [simp]:
  "billing_record env d (w\<lparr>w_ft_billing := facts\<rparr>) = billing_record env d w"
  by (simp add: billing_record_def [abs_def] datum_rate_def get_rates_for_billing_def)

lemma map_res_set:
  "map_res f xs = Inr ys \<Longrightarrow> x \<in> set xs \<Longrightarrow> \<exists>y \<in> set ys. f x = Inr y"
  by (induction xs arbitrary: ys) (auto simp: res_bind_Inr_iff)

lemma map_res_source:
  "map_res f xs = Inr ys \<Longrightarrow> y \<in> set ys \<Longrightarrow> \<exists>x \<in> set xs. f x = Inr y"
  by (induction xs arbitrary: ys) (auto simp: res_bind_Inr_iff)

lemma update_ft_billing_InrD:
  assumes "update_ft_billing env data d w = (Inr (), w')"
  obtains records where "map_res (billing_record env d w) data = Inr records"
    "distinct (map ft_billing_pkey records)"
    "w' = w\<lparr>w_ft_billing := fold (upsert_fact (w_now w)) records (w_ft_billing w)\<rparr>"
proof (cases "data = []")
  case True
  then have "w' = w" using assms by (simp add: update_ft_billing_def)
  then show ?thesis using True by (intro that [of "[]"]) simp_all
next
  case False
  show ?thesis
  proof (cases "map_res (billing_record env d w) data")
    case (Inl e)
    then show ?thesis using assms False by (simp add: update_ft_billing_def)
  next
    case (Inr records)
    then show ?thesis
      using assms False that [of records]
      by (cases "distinct (map ft_billing_pkey records)") (simp_all add: update_ft_billing_def)
  qed
qed

lemma billing_record_InrD:
  assumes "billing_record env d w b = Inr f"
  shows "fb_bst_date f = d" "fb_notifications_sent f = bd_notifications_sent b"
    "fb_billable_units f = bd_billable_units b"
    "\<exists>rate. f = create_billing_record b rate d"
  using assms by (auto simp: billing_record_def res_bind_Inr_iff create_billing_record_def)

definition fact_numbers :: "fact_billing \<Rightarrow> fact_key \<times> int \<times> int" where
  "fact_numbers f = (ft_billing_pkey f, fb_billable_units f, fb_notifications_sent f)"

lemma numbers_refresh:
  "ft_billing_pkey x = ft_billing_pkey f \<Longrightarrow> fact_numbers (refresh_fact now f x) = fact_numbers f"
  using facts.merge_key [of now f x] by (simp add: fact_numbers_def refresh_fact_def)

lemma rerun_keeps_numbers:
  assumes "distinct (map ft_billing_pkey records)"
  shows "map fact_numbers (fold (upsert_fact t') records (fold (upsert_fact t) records rows)) =
    map fact_numbers (fold (upsert_fact t) records rows)"
proof (rule facts.upserts_known)
  let ?rows = "fold (upsert_fact t) records rows"
  show "ft_billing_pkey f \<in> ft_billing_pkey ` set ?rows" if "f \<in> set records" for f
    using that by (simp add: facts.keys_upserts)
  show "fact_numbers (refresh_fact t' f x) = fact_numbers f" if "ft_billing_pkey x = ft_billing_pkey f" for f x
    using that by (rule numbers_refresh)
  fix f x assume f: "f \<in> set records" and x: "x \<in> set ?rows" "ft_billing_pkey x = ft_billing_pkey f"
  have written: "fact_numbers x = fact_numbers f"
    if "x \<in> set (fold (upsert_fact t) records rows)" "distinct (map ft_billing_pkey records)" for rows
    using that f x(2)
  proof (induction records arbitrary: rows)
    case Nil
    then show ?case by simp
  next
    case (Cons g gs)
    show ?case
    proof (cases "f = g")
      case False
      then show ?thesis using Cons by auto
    next
      case True
      let ?p = "\<lambda>y. ft_billing_pkey y = ft_billing_pkey f"
      have "filter ?p (fold (upsert_fact t) gs (upsert_fact t g rows)) = filter ?p (upsert_fact t g rows)"
        using Cons.prems(2) True by (intro facts.filter_upserts) force
      moreover have "x \<in> set (filter ?p (fold (upsert_fact t) gs (upsert_fact t g rows)))"
        using Cons.prems by simp
      ultimately have "x \<in> set (upsert_fact t g rows)" by simp
      then show ?thesis
        using Cons.prems(4) True
        by (auto simp: facts.upsert update_rows_def numbers_refresh split: if_splits) (metis image_eqI)
    qed
  qed
  show "fact_numbers (refresh_fact t' f x) = fact_numbers x"
    using written [OF x(1) assms] numbers_refresh [OF x(2)] by simp
qed

definition has_fact :: "date \<Rightarrow> fact_billing list \<Rightarrow> billing_datum \<Rightarrow> bool" where
  \<comment> \<open>the row of the datum's key carries its numbers\<close>
  "has_fact d rows b \<longleftrightarrow>
     (\<exists>rate f. find_row ft_billing_pkey (ft_billing_pkey (create_billing_record b rate d)) rows = Some f
        \<and> fb_notifications_sent f = bd_notifications_sent b \<and> fb_billable_units f = bd_billable_units b)"

lemma update_has_facts:
  assumes "map_res (billing_record env d w) data = Inr records" "distinct (map ft_billing_pkey records)"
    and "b \<in> set data"
  shows "has_fact d (fold (upsert_fact now) records rows) b"
proof -
  obtain f where f: "f \<in> set records" "billing_record env d w b = Inr f"
    using map_res_set [OF assms(1,3)] by blast
  then obtain rate where rate: "f = create_billing_record b rate d" using billing_record_InrD(4) by blast
  have "find_row ft_billing_pkey (ft_billing_pkey f) records = Some f"
    using assms(2) f by (intro find_row_eqI) (simp_all add: distinct_rows_def)
  then have "\<exists>g. find_row ft_billing_pkey (ft_billing_pkey f) (fold (upsert_fact now) records rows) = Some g
      \<and> fb_notifications_sent g = fb_notifications_sent f \<and> fb_billable_units g = fb_billable_units f"
    using assms(2)
    by (cases "find_row ft_billing_pkey (ft_billing_pkey f) rows")
      (simp_all add: facts.find_upserts refresh_fact_def)
  then show ?thesis
    unfolding has_fact_def using billing_record_InrD [OF f(2)] rate by auto
qed

text \<open>C10: A run of the billing task for a day that succeeds writes a fact with the numbers
  of every group of billable notifications of the day, leaves the facts of all other days and every
  other table as they are, keeps the primary key of the facts, and can be repeated: a second run over
  the same notifications succeeds too and changes no number of any fact.\<close>
theorem facts_of_a_day:
  assumes "create_or_update_ft_billing_for_day env d w = (Inr (), w')"
    and "distinct_rows ft_billing_pkey (w_ft_billing w)"
  shows "list_all (has_fact d (w_ft_billing w')) (fetch_billing_data_for_day env d None False w)
    \<and> filter (\<lambda>f. fb_bst_date f \<noteq> d) (w_ft_billing w') = filter (\<lambda>f. fb_bst_date f \<noteq> d) (w_ft_billing w)
    \<and> w' = w\<lparr>w_ft_billing := w_ft_billing w'\<rparr>
    \<and> distinct_rows ft_billing_pkey (w_ft_billing w')
    \<and> fst (create_or_update_ft_billing_for_day env d w') = Inr ()
    \<and> map fact_numbers (w_ft_billing (snd (create_or_update_ft_billing_for_day env d w')))
        = map fact_numbers (w_ft_billing w')"
proof -
  define data where "data = fetch_billing_data_for_day env d None False w"
  obtain records where r: "map_res (billing_record env d w) data = Inr records"
    "distinct (map ft_billing_pkey records)"
    and w': "w' = w\<lparr>w_ft_billing := fold (upsert_fact (w_now w)) records (w_ft_billing w)\<rparr>"
    using assms(1) update_ft_billing_InrD
    unfolding create_or_update_ft_billing_for_day_def data_def by blast
  have dates: "fb_bst_date f = d" if "f \<in> set records" for f
    using map_res_source [OF r(1) that] billing_record_InrD(1) by blast
  have "filter (\<lambda>f. fb_bst_date f \<noteq> d) (w_ft_billing w') = filter (\<lambda>f. fb_bst_date f \<noteq> d) (w_ft_billing w)"
    unfolding w' using dates by simp (intro facts.filter_upserts, auto simp: ft_billing_pkey_def)
  moreover have "list_all (has_fact d (w_ft_billing w')) data"
    using update_has_facts [OF r] by (simp add: list_all_iff w')
  moreover have "distinct_rows ft_billing_pkey (w_ft_billing w')"
    using assms(2) by (simp add: w' facts.distinct_upserts)
  moreover have "create_or_update_ft_billing_for_day env d w' =
      (Inr (), w'\<lparr>w_ft_billing := fold (upsert_fact (w_now w)) records (w_ft_billing w')\<rparr>)"
  proof (cases "data = []")
    case True
    then show ?thesis using r(1)
      by (simp add: create_or_update_ft_billing_for_day_def update_ft_billing_def w' flip: data_def)
  next
    case False
    then show ?thesis using r
      by (simp add: create_or_update_ft_billing_for_day_def update_ft_billing_def w' flip: data_def)
  qed
  moreover have "map fact_numbers (fold (upsert_fact (w_now w)) records (w_ft_billing w')) =
      map fact_numbers (w_ft_billing w')"
    unfolding w' using rerun_keeps_numbers [OF r(2)] by simp
  ultimately show ?thesis unfolding data_def by (simp add: w')
qed

section \<open>The status facts\<close>

definition facts_of :: "date \<Rightarrow> ntype \<Rightarrow> uuid \<Rightarrow> fact_notification_status \<Rightarrow> bool" where
  "facts_of d t s f \<longleftrightarrow> fs_bst_date f = d \<and> fs_notification_type f = t \<and> fs_service_id f = s"

lemma status_facts_ignore_facts [simp]:
  "status_rows env d t s (w\<lparr>w_fact_status := facts\<rparr>) = status_rows env d t s w"
  "status_facts env d t s (w\<lparr>w_fact_status := facts\<rparr>) = status_facts env d t s w"
  by (simp_all add: status_rows_def all_time_view_def status_facts_def)

lemma status_facts_of: "f \<in> set (status_facts env d t s w) \<Longrightarrow> facts_of d t s f"
  by (auto simp: status_facts_def facts_of_def)

lemma total_status_facts:
  "total fs_notification_count (filter (\<lambda>f. fs_notification_status f = x) (status_facts env d t s w)) =
     int (length (filter (\<lambda>r. h_status r = x) (status_rows env d t s w)))"
proof -
  let ?key = "\<lambda>r. (h_template_id r, case h_job_id r of None \<Rightarrow> 0 | Some j \<Rightarrow> j, h_key_type r, h_status r)"
  let ?rows = "status_rows env d t s w"
  let ?g = "\<lambda>(k, rs). if snd (snd (snd k)) = x then int (length rs) else 0"
  have "total ?g (group_by ?key ?rows) = total (\<lambda>r. if h_status r = x then 1 else 0) ?rows"
  proof (rule total_groups_in)
    fix k rs assume "(k, rs) \<in> set (group_by ?key ?rows)"
    then have rs: "rs = filter (\<lambda>r. ?key r = k) ?rows" using group_by_rows by force
    have "total (\<lambda>r. if h_status r = x then 1 else 0) rs =
        total (\<lambda>r. if snd (snd (snd k)) = x then 1 else 0) rs"
      by (rule total_cong) (auto simp: rs)
    then show "?g (k, rs) = total (\<lambda>r. if h_status r = x then 1 else 0) rs"
      by (cases "snd (snd (snd k)) = x") (simp_all add: total_length)
  qed
  moreover have "total fs_notification_count
      (filter (\<lambda>f. fs_notification_status f = x) (status_facts env d t s w)) = total ?g (group_by ?key ?rows)"
    unfolding status_facts_def total_filter total_map by (rule total_cong) (auto split: prod.splits)
  ultimately show ?thesis by (simp add: total_length flip: total_filter)
qed

text \<open>After the status facts of a service, channel and day are rebuilt, the counts of
  its facts with any given status add up to the number of its notifications of that day, of either
  table and with a normal or team key, in that status; the facts of other services, channels and days
  are as before; and rebuilding them again at once gives the same database.\<close>
theorem status_facts_exact:
  "(\<forall>x. total fs_notification_count
          (filter (\<lambda>f. facts_of d t s f \<and> fs_notification_status f = x)
            (w_fact_status (update_fact_notification_status env d t s w)))
        = int (length (filter (\<lambda>r. h_status r = x) (status_rows env d t s w))))
   \<and> filter (\<lambda>f. \<not> facts_of d t s f) (w_fact_status (update_fact_notification_status env d t s w))
       = filter (\<lambda>f. \<not> facts_of d t s f) (w_fact_status w)
   \<and> update_fact_notification_status env d t s (update_fact_notification_status env d t s w)
       = update_fact_notification_status env d t s w"
proof -
  define facts where "facts = status_facts env d t s w"
  define kept where "kept = filter (\<lambda>f. \<not> facts_of d t s f) (w_fact_status w)"
  have w': "w_fact_status (update_fact_notification_status env d t s w) = kept @ facts"
    and again: "update_fact_notification_status env d t s w = w\<lparr>w_fact_status := kept @ facts\<rparr>"
    by (simp_all add: update_fact_notification_status_def delete_rows_def kept_def facts_def facts_of_def)
  have mine: "filter (\<lambda>f. facts_of d t s f \<and> p f) facts = filter p facts" for p
    using status_facts_of unfolding facts_def by (intro filter_cong) auto
  have others: "filter (\<lambda>f. facts_of d t s f \<and> p f) kept = []" for p
    by (auto simp: kept_def filter_empty_conv)
  have none: "filter (\<lambda>f. \<not> facts_of d t s f) facts = []"
    using status_facts_of unfolding facts_def by (auto simp: filter_empty_conv)
  have "update_fact_notification_status env d t s (w\<lparr>w_fact_status := kept @ facts\<rparr>) =
      w\<lparr>w_fact_status := kept @ facts\<rparr>"
    using none
    by (simp add: update_fact_notification_status_def delete_rows_def flip: facts_of_def facts_def)
      (simp add: kept_def)
  moreover have "total fs_notification_count (filter (\<lambda>f. facts_of d t s f \<and> fs_notification_status f = x)
      (kept @ facts)) = int (length (filter (\<lambda>r. h_status r = x) (status_rows env d t s w)))" for x
    using total_status_facts [of x env d t s w] by (simp add: mine others flip: facts_def)
  moreover have "filter (\<lambda>f. \<not> facts_of d t s f) (kept @ facts) = kept"
    using none by (simp add: kept_def)
  ultimately show ?thesis unfolding w' again kept_def [symmetric] by simp
qed

section \<open>A day that cannot be billed\<close>

lemma map_res_fails: "x \<in> set xs \<Longrightarrow> f x = Inl e \<Longrightarrow> \<exists>e'. map_res f xs = Inl e'"
proof (induction xs)
  case Nil
  then show ?case by simp
next
  case (Cons y ys)
  then show ?case by (cases "f y"; cases "map_res f ys") auto
qed

lemma unrated_notification_blocks_day:
  assumes "b \<in> set (fetch_billing_data_for_day env d None False w)" "billing_record env d w b = Inl e"
  shows "\<exists>e'. create_or_update_ft_billing_for_day env d w = (Inl e', w)"
  using assms(1) map_res_fails [of b "fetch_billing_data_for_day env d None False w" "billing_record env d w", OF assms]
  by (auto simp: create_or_update_ft_billing_for_day_def update_ft_billing_def)

lemma repeated_key_not_distinct:
  assumes "map_res f xs = Inr ys" "i < j" "j < length xs" "f (xs ! i) = Inr a" "f (xs ! j) = Inr b"
    and "key a = key b"
  shows "\<not> distinct (map key ys)"
proof -
  have nth: "f (xs ! k) = Inr (ys ! k)" if "k < length xs" for k
    using assms(1) that
  proof (induction xs arbitrary: ys k)
    case Nil
    then show ?case by simp
  next
    case (Cons x xs)
    then show ?case by (cases k) (auto simp: res_bind_Inr_iff)
  qed
  have "ys ! i = a" "ys ! j = b" "length ys = length xs"
    using nth [of i] nth [of j] assms map_res_length [OF assms(1)] by simp_all
  moreover have "i < length xs" "i \<noteq> j" using assms(2,3) by simp_all
  ultimately have "key (ys ! i) = key (ys ! j)" "i < length ys" "j < length ys" "i \<noteq> j"
    using assms(3,6) by simp_all
  then show ?thesis by (auto simp: distinct_conv_nth)
qed

definition only_pages_differ :: "billing_datum \<Rightarrow> billing_datum \<Rightarrow> bool" where
  "only_pages_differ a b \<longleftrightarrow>
     bd_template_id a = bd_template_id b \<and> bd_service_id a = bd_service_id b
     \<and> bd_notification_type a = Letter \<and> bd_notification_type b = Letter
     \<and> bd_sent_by a = bd_sent_by b \<and> bd_rate_multiplier a = bd_rate_multiplier b
     \<and> bd_international a = bd_international b \<and> bd_postage a = bd_postage b"

text \<open>The billing data groups letters by their number of sheets, but the
  key of a fact has the rate in its place. When a day has letters of one template with two numbers of
  sheets that cost the same, the statement would write one row twice, which the database refuses: the
  task fails and no fact at all is written for the day, of any service.\<close>
theorem same_rate_sheets_block_day:
  assumes "i < j" "j < length (fetch_billing_data_for_day env d None False w)"
    and "only_pages_differ (fetch_billing_data_for_day env d None False w ! i)
           (fetch_billing_data_for_day env d None False w ! j)"
    and "datum_rate env d w (fetch_billing_data_for_day env d None False w ! i) = Inr rate"
    and "datum_rate env d w (fetch_billing_data_for_day env d None False w ! j) = Inr rate"
  shows "\<exists>e. create_or_update_ft_billing_for_day env d w = (Inl e, w)"
proof -
  define data where "data = fetch_billing_data_for_day env d None False w"
  note assms = assms [folded data_def]
  let ?fact = "billing_record env d w"
  show ?thesis
  proof (cases "map_res ?fact data")
    case (Inl e)
    then show ?thesis using assms(2)
      by (auto simp: create_or_update_ft_billing_for_day_def update_ft_billing_def simp flip: data_def)
  next
    case (Inr records)
    have "?fact (data ! i) = Inr (create_billing_record (data ! i) rate d)"
      "?fact (data ! j) = Inr (create_billing_record (data ! j) rate d)"
      using assms(4,5) by (simp_all add: billing_record_def)
    moreover have "ft_billing_pkey (create_billing_record (data ! i) rate d) =
        ft_billing_pkey (create_billing_record (data ! j) rate d)"
      using assms(3) by (simp add: only_pages_differ_def ft_billing_pkey_def create_billing_record_def)
    ultimately have "\<not> distinct (map ft_billing_pkey records)"
      using repeated_key_not_distinct [OF Inr assms(1,2)] by blast
    then show ?thesis using Inr assms(2)
      by (auto simp: create_or_update_ft_billing_for_day_def update_ft_billing_def simp flip: data_def)
  qed
qed

section \<open>Concrete days\<close>

definition sample_letter :: "uuid \<Rightarrow> int \<Rightarrow> notification" where
  "sample_letter i pages = sample_notification
     \<lparr>n_id := i, n_type := Letter, n_billable_units := pages, n_postage := Some Netherlands\<rparr>"

definition sample_letter_rate :: "int \<Rightarrow> rat \<Rightarrow> letter_rate" where
  "sample_letter_rate pages rate =
     \<lparr>lr_id = 70, lr_start_date = 0, lr_end_date = None, lr_sheet_count = pages, lr_rate = rate,
      lr_crown = True, lr_post_class = Netherlands\<rparr>"

definition sample_sms_rate :: sms_rate where
  "sample_sms_rate = \<lparr>r_id = 60, r_valid_from = 0, r_rate = 1 / 50, r_notification_type = Sms\<rparr>"

definition billed_world :: world where
  "billed_world = sample_world\<lparr>w_services := [sample_service], w_sms_rates := [sample_sms_rate],
     w_letter_rates := [sample_letter_rate 1 (1 / 2), sample_letter_rate 2 (1 / 2)],
     w_notifications := [sample_notification, sample_notification\<lparr>n_id := 2\<rparr>]\<rparr>"

lemma billed_day: "fetch_billing_data_for_day sample_env 1 None False billed_world =
    [\<lparr>bd_template_id = 20, bd_crown = None, bd_service_id = 10, bd_notification_type = Sms,
      bd_sent_by = ''unknown'', bd_rate_multiplier = 1, bd_international = False,
      bd_letter_page_count = None, bd_postage = ''none'', bd_billable_units = 4,
      bd_notifications_sent = 2\<rparr>]"
  by code_simp

theorem facts_of_a_day_witness:
  "let w' = snd (create_or_update_ft_billing_for_day sample_env 1 billed_world)
   in list_all (has_fact 1 (w_ft_billing w')) (fetch_billing_data_for_day sample_env 1 None False billed_world)
      \<and> length (fetch_billing_data_for_day sample_env 1 None False billed_world) = 1"
proof -
  have "create_or_update_ft_billing_for_day sample_env 1 billed_world =
      (Inr (), snd (create_or_update_ft_billing_for_day sample_env 1 billed_world))"
    unfolding create_or_update_ft_billing_for_day_def billed_day
    by (simp add: update_ft_billing_def billing_record_def datum_rate_def get_rate_def query_first_def
        get_rates_for_billing_def billed_world_def sample_sms_rate_def get_london_midnight_in_utc_def
        sample_env_def midnight_of_def days_def minutes_def seconds_def Let_def)
  moreover have "distinct_rows ft_billing_pkey (w_ft_billing billed_world)"
    by (simp add: billed_world_def distinct_rows_def sample_world_def)
  ultimately show ?thesis
    using facts_of_a_day [of sample_env 1 billed_world] by (simp add: Let_def billed_day)
qed

definition two_letters_world :: world where
  "two_letters_world = billed_world\<lparr>w_notifications := [sample_letter 2 1, sample_letter 3 2]\<rparr>"

lemma two_letters_day: "fetch_billing_data_for_day sample_env 1 None False two_letters_world =
    [\<lparr>bd_template_id = 20, bd_crown = None, bd_service_id = 10, bd_notification_type = Letter,
      bd_sent_by = ''dvla'', bd_rate_multiplier = 1, bd_international = False,
      bd_letter_page_count = Some 1, bd_postage = ''netherlands'', bd_billable_units = 1,
      bd_notifications_sent = 1\<rparr>,
     \<lparr>bd_template_id = 20, bd_crown = None, bd_service_id = 10, bd_notification_type = Letter,
      bd_sent_by = ''dvla'', bd_rate_multiplier = 1, bd_international = False,
      bd_letter_page_count = Some 2, bd_postage = ''netherlands'', bd_billable_units = 2,
      bd_notifications_sent = 1\<rparr>]"
  by code_simp

theorem same_rate_sheets_block_day_witness:
  "\<exists>e. create_or_update_ft_billing_for_day sample_env 1 two_letters_world = (Inl e, two_letters_world)"
proof (rule same_rate_sheets_block_day [where i = 0 and j = 1 and rate = "1 / 2"])
qed (unfold two_letters_day,
    simp_all add: only_pages_differ_def datum_rate_def get_rate_def query_first_def get_rates_for_billing_def
      two_letters_world_def billed_world_def sample_letter_rate_def get_london_midnight_in_utc_def
      sample_env_def midnight_of_def days_def minutes_def seconds_def Let_def)

section \<open>The facts of despatched letters\<close>

lemma despatch_record_InrD:
  assumes "despatch_record env w b = Inr f"
  shows "fd_bst_date f = ltd_bst_date b" "fd_notifications_sent f = ltd_notifications_sent b"
  using assms by (auto simp: despatch_record_def res_bind_Inr_iff)

lemma total_map_res:
  assumes "map_res f xs = Inr ys" "\<And>x y. x \<in> set xs \<Longrightarrow> f x = Inr y \<Longrightarrow> v y = u x"
  shows "total v ys = total u xs"
  using assms
proof (induction xs arbitrary: ys)
  case Nil
  then show ?case by simp
next
  case (Cons x xs)
  then obtain y zs where "f x = Inr y" "map_res f xs = Inr zs" "ys = y # zs"
    by (auto simp: res_bind_Inr_iff)
  moreover have "v y = u x" using Cons.prems(2) \<open>f x = Inr y\<close> by simp
  moreover have "total v zs = total u xs"
    using Cons.IH [of zs] Cons.prems(2) \<open>map_res f xs = Inr zs\<close> by simp
  ultimately show ?case by simp
qed

lemma despatch_data_date: "b \<in> set (despatch_data d w) \<Longrightarrow> ltd_bst_date b = d"
  by (auto simp: despatch_data_def)

lemma find_row_filter_key:
  assumes "\<And>x. key x = k \<Longrightarrow> p x"
  shows "find_row key k (filter p rows) = find_row key k rows"
  using assms by (induction rows) (auto simp: row_simps)

lemma day_after_upserts:
  assumes "distinct_rows ft_despatch_pkey kept" "distinct_rows ft_despatch_pkey records"
    and "\<And>f. f \<in> set records \<Longrightarrow> fd_bst_date f = d"
    and "\<And>f. f \<in> set kept \<Longrightarrow> fd_bst_date f = d \<Longrightarrow> ft_despatch_pkey f \<in> ft_despatch_pkey ` set records"
  shows "total fd_notifications_sent (filter (\<lambda>f. fd_bst_date f = d) (fold (upsert_despatch now) records kept)) =
      total fd_notifications_sent records"
proof (rule total_same_rows)
  let ?rows = "fold (upsert_despatch now) records kept"
  let ?day = "\<lambda>f. fd_bst_date f = d"
  have date: "ft_despatch_pkey x = ft_despatch_pkey y \<Longrightarrow> fd_bst_date x = fd_bst_date y" for x y
    by (simp add: ft_despatch_pkey_def)
  show "distinct_rows ft_despatch_pkey (filter ?day ?rows)"
    using assms(1) by (simp add: distinct_filter_rows despatches.distinct_upserts)
  show "distinct_rows ft_despatch_pkey records" by (fact assms(2))
  have find_day: "find_row ft_despatch_pkey k (filter ?day ?rows) =
      (case find_row ft_despatch_pkey k records of
         None \<Rightarrow> None
       | Some f \<Rightarrow> Some (case find_row ft_despatch_pkey k kept of None \<Rightarrow> f | Some x \<Rightarrow> refresh_despatch now f x))"
    for k
  proof (cases "find_row ft_despatch_pkey k records")
    case None
    have "k \<notin> ft_despatch_pkey ` set (filter ?day ?rows)"
    proof
      assume "k \<in> ft_despatch_pkey ` set (filter ?day ?rows)"
      then obtain x where x: "x \<in> set ?rows" "?day x" "k = ft_despatch_pkey x" by auto
      then have "k \<in> ft_despatch_pkey ` set kept \<union> ft_despatch_pkey ` set records"
        using despatches.keys_upserts [of now records kept] by blast
      moreover have "k \<notin> ft_despatch_pkey ` set records" using None by (simp add: find_row_None_iff)
      ultimately show False using assms(4) x(2,3) date by (metis UnE imageE)
    qed
    then have "find_row ft_despatch_pkey k (filter ?day ?rows) = None" by (rule find_row_None_iff [THEN iffD2])
    then show ?thesis using None by simp
  next
    case (Some f)
    then have "f \<in> set records" "ft_despatch_pkey f = k" by (auto dest: find_row_SomeD)
    then have "?day x" if "ft_despatch_pkey x = k" for x using that date assms(3) by metis
    then have "find_row ft_despatch_pkey k (filter ?day ?rows) = find_row ft_despatch_pkey k ?rows"
      by (rule find_row_filter_key)
    then show ?thesis
      using assms(2) Some despatches.find_upserts [where k = k and now = now and fs = records and rows = kept]
      by (simp add: distinct_rows_def)
  qed
  show "ft_despatch_pkey ` set (filter ?day ?rows) = ft_despatch_pkey ` set records"
  proof (rule set_eqI)
    fix k
    have "find_row ft_despatch_pkey k (filter ?day ?rows) = None \<longleftrightarrow>
        find_row ft_despatch_pkey k records = None"
      by (simp add: find_day split: option.splits)
    then show "k \<in> ft_despatch_pkey ` set (filter ?day ?rows) \<longleftrightarrow> k \<in> ft_despatch_pkey ` set records"
      by (simp add: find_row_None_iff)
  qed
  show "fd_notifications_sent r = fd_notifications_sent m"
    if "find_row ft_despatch_pkey k (filter ?day ?rows) = Some r" "find_row ft_despatch_pkey k records = Some m"
    for k r m
    using that unfolding find_day by (auto simp: refresh_despatch_def split: option.splits)
qed

text \<open>After the facts of the letters despatched on a day are rebuilt, the numbers
  of the facts of that day add up to the number of despatches of the day that have a notification (one
  for each row the notification has); facts that no longer hold are gone and the facts of other days
  are as before.\<close>
theorem despatch_facts_exact:
  assumes "update_ft_billing_letter_despatch env d w = (Inr (created, deleted), w')"
    and "distinct_rows ft_despatch_pkey (w_ft_despatch w)"
  shows "total fd_notifications_sent (filter (\<lambda>f. fd_bst_date f = d) (w_ft_despatch w')) =
      int (length (filter (\<lambda>(r, i, post, pages). ld_notification_id r = i)
        (List.product (filter (\<lambda>r. ld_despatched_on r = d) (w_despatches w)) (despatched_letters d w))))
    \<and> filter (\<lambda>f. fd_bst_date f \<noteq> d) (w_ft_despatch w') = filter (\<lambda>f. fd_bst_date f \<noteq> d) (w_ft_despatch w)
    \<and> distinct_rows ft_despatch_pkey (w_ft_despatch w')"
proof -
  obtain records where r: "map_res (despatch_record env w) (despatch_data d w) = Inr records"
    using assms(1) by (auto simp: update_ft_billing_letter_despatch_def split: sum.splits)
  define stale where "stale = (\<lambda>f :: fact_letter_despatch. fd_bst_date f = d
      \<and> (fd_postage f, fd_billable_units f, fd_cost_threshold f, fd_rate f)
          \<notin> (\<lambda>r. (fd_postage r, fd_billable_units r, fd_cost_threshold r, fd_rate r)) ` set records)"
  define kept where "kept = delete_rows stale (w_ft_despatch w)"
  have distinct: "distinct (map ft_despatch_pkey records)"
    and w': "w_ft_despatch w' = fold (upsert_despatch (w_now w)) records kept"
    using assms(1) r
    by (auto simp: update_ft_billing_letter_despatch_def Let_def stale_def kept_def split: if_splits)
  have dates: "fd_bst_date f = d" if "f \<in> set records" for f
    using map_res_source [OF r that] despatch_record_InrD(1) despatch_data_date by metis
  have "total fd_notifications_sent (filter (\<lambda>f. fd_bst_date f = d) (w_ft_despatch w')) =
      total fd_notifications_sent records"
    unfolding w'
  proof (rule day_after_upserts)
    show "distinct_rows ft_despatch_pkey kept"
      using assms(2) by (simp add: kept_def distinct_delete_rows)
    show "distinct_rows ft_despatch_pkey records" using distinct by (simp add: distinct_rows_def)
    show "ft_despatch_pkey f \<in> ft_despatch_pkey ` set records"
      if "f \<in> set kept" "fd_bst_date f = d" for f
      using that dates by (force simp: kept_def set_delete_rows stale_def ft_despatch_pkey_def image_iff)
  qed (rule dates)
  also have "\<dots> = total ltd_notifications_sent (despatch_data d w)"
    by (rule total_map_res [OF r]) (rule despatch_record_InrD(2))
  also have "\<dots> = int (length (filter (\<lambda>(r, i, post, pages). ld_notification_id r = i)
        (List.product (filter (\<lambda>r. ld_despatched_on r = d) (w_despatches w)) (despatched_letters d w))))"
    by (simp add: despatch_data_def total_map split_def total_groups' [where f = "\<lambda>_. 1"] total_length)
  finally have count: "total fd_notifications_sent (filter (\<lambda>f. fd_bst_date f = d) (w_ft_despatch w')) = \<dots>" .
  have "filter (\<lambda>f. fd_bst_date f \<noteq> d) (fold (upsert_despatch (w_now w)) records kept) =
      filter (\<lambda>f. fd_bst_date f \<noteq> d) kept"
    using dates by (intro despatches.filter_upserts) (auto simp: ft_despatch_pkey_def)
  then have "filter (\<lambda>f. fd_bst_date f \<noteq> d) (w_ft_despatch w') = filter (\<lambda>f. fd_bst_date f \<noteq> d) (w_ft_despatch w)"
    by (auto simp: w' kept_def delete_rows_def stale_def intro: filter_cong)
  moreover have "distinct_rows ft_despatch_pkey (w_ft_despatch w')"
    using assms(2) by (simp add: w' kept_def distinct_delete_rows despatches.distinct_upserts)
  ultimately show ?thesis using count by simp
qed

definition despatched_world :: world where
  "despatched_world = two_letters_world\<lparr>w_despatches :=
     [\<lparr>ld_notification_id = 2, ld_despatched_on = 1, ld_cost_threshold = Sorted\<rparr>,
      \<lparr>ld_notification_id = 3, ld_despatched_on = 1, ld_cost_threshold = Sorted\<rparr>],
     w_ft_despatch := [\<lparr>fd_bst_date = 1, fd_postage = Some Europe, fd_cost_threshold = Sorted, fd_rate = 1,
       fd_billable_units = 1, fd_notifications_sent = 9, fd_updated_at = None\<rparr>]\<rparr>"

lemma despatched_run: "fst (update_ft_billing_letter_despatch sample_env 1 despatched_world) = Inr (2, 1)"
  by code_simp

lemma despatched_pairs: "length (filter (\<lambda>(r, i, post, pages). ld_notification_id r = i)
    (List.product (filter (\<lambda>r. ld_despatched_on r = 1) (w_despatches despatched_world))
      (despatched_letters 1 despatched_world))) = 2"
  by code_simp

theorem despatch_facts_exact_witness:
  "total fd_notifications_sent (filter (\<lambda>f. fd_bst_date f = 1)
     (w_ft_despatch (snd (update_ft_billing_letter_despatch sample_env 1 despatched_world)))) = 2"
proof -
  let ?run = "update_ft_billing_letter_despatch sample_env 1 despatched_world"
  have "?run = (Inr (2, 1), snd ?run)" using despatched_run by (metis prod.collapse)
  from despatch_facts_exact [OF this] show ?thesis
    unfolding despatched_pairs by (simp add: despatched_world_def distinct_rows_def)
qed

end
