(* ===== verification/Usage_Rules.thy ===== *)
theory Usage_Rules
  imports Usage Billing_Rules
begin

text \<open>
  What the bills of \<^verbatim>\<open>Usage\<close> add up to: the free allowance is spent on the first text messages of the
  year and everything after it is charged, the pages by month and by year agree, and the allowance of
  a new year follows from the year before.
\<close>

section \<open>The free allowance\<close>

lemma window_chargeable: "total us_chargeable_units (usage_window limit used fs) = total fact_units fs"
  by (induction limit used fs rule: usage_window.induct) (simp_all add: Let_def)

lemma window_charged:
  assumes "list_all (\<lambda>f. 0 \<le> fact_units f) fs"
  shows "total us_charged_units (usage_window limit used fs) =
    max 0 (used + total fact_units fs - limit) - max 0 (used - limit)"
  using assms
proof (induction limit used fs rule: usage_window.induct)
  case (1 limit used)
  then show ?case by simp
next
  case (2 limit used f fs)
  have "0 \<le> total fact_units fs" using 2(2) by (intro total_nonneg) (auto simp: list_all_iff)
  then show ?case using 2 by (auto simp: Let_def max_def)
qed

lemma window_free:
  assumes "list_all (\<lambda>f. 0 \<le> fact_units f) fs"
  shows "total us_free_allowance_used (usage_window limit used fs) =
    total fact_units fs - total us_charged_units (usage_window limit used fs)"
  using assms by (induction limit used fs rule: usage_window.induct) (auto simp: Let_def)

lemma window_type: "u \<in> set (usage_window limit used fs) \<Longrightarrow> us_notification_type u \<in> fb_notification_type ` set fs"
  by (induction limit used fs rule: usage_window.induct) (auto simp: Let_def)

section \<open>Pages by year and by month\<close>

lemma usage_query_types:
  "u \<in> set (fetch_usage_for_service_sms env i year w) \<Longrightarrow> us_notification_type u = Sms"
  "u \<in> set (fetch_usage_for_service_email env i year w) \<Longrightarrow> us_notification_type u = Email"
  "u \<in> set (fetch_usage_for_service_letter env i year w) \<Longrightarrow> us_notification_type u = Letter"
  by (auto simp: fetch_usage_for_service_sms_def fetch_usage_for_service_email_def
      fetch_usage_for_service_letter_def year_facts_def split: option.splits dest!: window_type)

lemma distinct_concat_types:
  assumes "distinct ts" "length tables = length ts"
    and "\<And>rows. rows \<in> set tables \<Longrightarrow> distinct rows"
    and "\<And>i r. i < length ts \<Longrightarrow> r \<in> set (tables ! i) \<Longrightarrow> key r = ts ! i"
  shows "distinct (concat tables)"
  using assms
proof (induction ts arbitrary: tables)
  case Nil
  then show ?case by simp
next
  case (Cons t ts)
  then obtain rows rest where tables: "tables = rows # rest" by (cases tables) auto
  have rest: "key r = ts ! i" if "i < length ts" "r \<in> set (rest ! i)" for i r
    using Cons.prems(4) [of "Suc i" r] that by (simp add: tables)
  have "distinct (concat rest)"
    by (rule Cons.IH) (use Cons.prems rest in \<open>auto simp: tables\<close>)
  moreover have "key r = t" if "r \<in> set rows" for r
    using Cons.prems(4) [of 0 r] that by (simp add: tables)
  moreover have "key r \<in> set ts" if r: "r \<in> set (concat rest)" for r
  proof -
    obtain rows where rows: "rows \<in> set rest" "r \<in> set rows" using r by auto
    then obtain i where "i < length rest" "rest ! i = rows" by (auto simp: in_set_conv_nth)
    with rows have "i < length rest" "r \<in> set (rest ! i)" by simp_all
    then show ?thesis using rest [of i r] Cons.prems(2) by (simp add: tables)
  qed
  ultimately show ?case using Cons.prems(1,3) by (fastforce simp: tables)
qed

lemma distinct_annual_totals: "distinct (annual_totals rows)"
proof -
  have "map (\<lambda>u. (ut_rate u, ut_notification_type u)) (annual_totals rows)
      = map fst (group_by (\<lambda>r. (us_rate r, us_notification_type r)) rows)"
    by (simp add: annual_totals_def annual_total_def comp_def split_def)
  then have "distinct (map (\<lambda>u. (ut_rate u, ut_notification_type u)) (annual_totals rows))"
    by simp
  then show ?thesis by (rule distinct_map [THEN iffD1, THEN conjunct1])
qed

lemma distinct_monthly_totals: "distinct (monthly_totals rows)"
proof -
  have "map (\<lambda>u. (ut_rate u, ut_notification_type u, mu_postage u, mu_month u)) (monthly_totals rows)
      = map fst (group_by (\<lambda>r. (us_rate r, us_notification_type r, us_postage r, month_of (us_bst_date r))) rows)"
    by (simp add: monthly_totals_def monthly_total_def comp_def split_def)
  then have "distinct (map (\<lambda>u. (ut_rate u, ut_notification_type u, mu_postage u, mu_month u)) (monthly_totals rows))"
    by simp
  then show ?thesis by (rule distinct_map [THEN iffD1, THEN conjunct1])
qed

lemma annual_totals_type:
  "(\<And>r. r \<in> set rows \<Longrightarrow> us_notification_type r = t) \<Longrightarrow> u \<in> set (annual_totals rows)
    \<Longrightarrow> ut_notification_type u = t"
  by (auto simp: annual_totals_def annual_total_def dest!: group_by_rows split: prod.splits)

lemma monthly_totals_type:
  "(\<And>r. r \<in> set rows \<Longrightarrow> us_notification_type r = t) \<Longrightarrow> u \<in> set (monthly_totals rows)
    \<Longrightarrow> ut_notification_type u = t"
  by (auto simp: monthly_totals_def monthly_total_def dest!: group_by_rows split: prod.splits)

lemma three_tables:
  fixes totals :: "usage_row list \<Rightarrow> 'u list"
  assumes "k < length [Sms, Email, Letter]" "r \<in> set (map totals (usage_queries env i year w) ! k)"
    and "\<And>rows t u. (\<And>r. r \<in> set rows \<Longrightarrow> us_notification_type r = t) \<Longrightarrow> u \<in> set (totals rows) \<Longrightarrow> key u = t"
  shows "key r = [Sms, Email, Letter] ! k"
proof -
  have "key u = Sms" if "u \<in> set (totals (fetch_usage_for_service_sms env i year w))" for u
    by (rule assms(3) [OF _ that]) (rule usage_query_types)
  moreover have "key u = Email" if "u \<in> set (totals (fetch_usage_for_service_email env i year w))" for u
    by (rule assms(3) [OF _ that]) (rule usage_query_types)
  moreover have "key u = Letter" if "u \<in> set (totals (fetch_usage_for_service_letter env i year w))" for u
    by (rule assms(3) [OF _ that]) (rule usage_query_types)
  moreover have "k = 0 \<or> k = 1 \<or> k = 2" using assms(1) by auto
  ultimately show ?thesis using assms(2) by (auto simp: usage_queries_def)
qed

lemma annual_union:
  "sql_union (map annual_totals (usage_queries env i year w)) =
     concat (map annual_totals (usage_queries env i year w))"
proof (rule sql_union_distinct, rule distinct_concat_types [where ts = "[Sms, Email, Letter]"])
  show "ut_notification_type r = [Sms, Email, Letter] ! k"
    if "k < length [Sms, Email, Letter]" "r \<in> set (map annual_totals (usage_queries env i year w) ! k)" for k r
    using that annual_totals_type by (rule three_tables)
qed (auto simp: usage_queries_def distinct_annual_totals)

lemma monthly_union:
  "sql_union (map monthly_totals (usage_queries env i year w)) =
     concat (map monthly_totals (usage_queries env i year w))"
proof (rule sql_union_distinct, rule distinct_concat_types [where ts = "[Sms, Email, Letter]"])
  show "ut_notification_type r = [Sms, Email, Letter] ! k"
    if "k < length [Sms, Email, Letter]" "r \<in> set (map monthly_totals (usage_queries env i year w) ! k)" for k r
    using that monthly_totals_type by (rule three_tables)
qed (auto simp: usage_queries_def distinct_monthly_totals)

lemma total_keys [simp]:
  "ut_rate (annual_total (k, rs)) = fst k" "ut_notification_type (annual_total (k, rs)) = snd k"
  "ut_rate (monthly_total (j, rs)) = fst j" "ut_notification_type (monthly_total (j, rs)) = fst (snd j)"
  by (simp_all add: annual_total_def monthly_total_def split_def)

lemma total_if: "total (\<lambda>r. if c then f r else 0) rs = (if c then total f rs else 0)"
  by simp

lemma total_annual_totals:
  assumes "\<And>k rs. g (annual_total (k, rs)) = total f rs"
  shows "total g (filter (\<lambda>u. ut_notification_type u = t \<and> ut_rate u = rate) (annual_totals rows)) =
    total f (filter (\<lambda>r. us_notification_type r = t \<and> us_rate r = rate) rows)"
proof -
  let ?key = "\<lambda>r. (us_rate r, us_notification_type r)"
  have "total (\<lambda>(k, rs). if k = (rate, t) then total f rs else 0) (group_by ?key rows) =
      total (\<lambda>r. if us_notification_type r = t \<and> us_rate r = rate then f r else 0) rows"
  proof (rule total_groups_in)
    fix k rs assume "(k, rs) \<in> set (group_by ?key rows)"
    then have rs: "rs = filter (\<lambda>r. ?key r = k) rows" using group_by_rows by force
    have "total (\<lambda>r. if us_notification_type r = t \<and> us_rate r = rate then f r else 0) rs =
        total (\<lambda>r. if k = (rate, t) then f r else 0) rs"
      by (rule total_cong) (auto simp: rs)
    then show "(\<lambda>(k, rs). if k = (rate, t) then total f rs else 0) (k, rs) =
        total (\<lambda>r. if us_notification_type r = t \<and> us_rate r = rate then f r else 0) rs"
      by (simp only: prod.case total_if)
  qed
  moreover have "total g (filter (\<lambda>u. ut_notification_type u = t \<and> ut_rate u = rate) (annual_totals rows)) =
      total (\<lambda>(k, rs). if k = (rate, t) then total f rs else 0) (group_by ?key rows)"
    unfolding annual_totals_def total_filter total_map
    by (rule total_cong) (auto simp: assms)
  ultimately show ?thesis by (simp add: total_filter)
qed

lemma total_monthly_totals:
  assumes "\<And>k rs. g (monthly_total (k, rs)) = total f rs"
  shows "total g (filter (\<lambda>u. ut_notification_type u = t \<and> ut_rate u = rate) (monthly_totals rows)) =
    total f (filter (\<lambda>r. us_notification_type r = t \<and> us_rate r = rate) rows)"
proof -
  let ?key = "\<lambda>r. (us_rate r, us_notification_type r, us_postage r, month_of (us_bst_date r))"
  let ?in = "\<lambda>k. fst k = rate \<and> fst (snd k) = t"
  have "total (\<lambda>(k, rs). if ?in k then total f rs else 0) (group_by ?key rows) =
      total (\<lambda>r. if us_notification_type r = t \<and> us_rate r = rate then f r else 0) rows"
  proof (rule total_groups_in)
    fix k rs assume "(k, rs) \<in> set (group_by ?key rows)"
    then have rs: "rs = filter (\<lambda>r. ?key r = k) rows" using group_by_rows by force
    have "total (\<lambda>r. if us_notification_type r = t \<and> us_rate r = rate then f r else 0) rs =
        total (\<lambda>r. if ?in k then f r else 0) rs"
      by (rule total_cong) (auto simp: rs)
    then show "(\<lambda>(k, rs). if ?in k then total f rs else 0) (k, rs) =
        total (\<lambda>r. if us_notification_type r = t \<and> us_rate r = rate then f r else 0) rs"
      by (simp only: prod.case total_if)
  qed
  moreover have "total g (filter (\<lambda>u. ut_notification_type u = t \<and> ut_rate u = rate) (monthly_totals rows)) =
      total (\<lambda>(k, rs). if ?in k then total f rs else 0) (group_by ?key rows)"
    unfolding monthly_totals_def total_filter total_map
    by (rule total_cong) (auto simp: assms)
  ultimately show ?thesis by (simp add: total_filter)
qed

lemma total_year_page:
  assumes "\<And>k rs. g (annual_total (k, rs)) = total f rs"
  shows "total g (filter (\<lambda>u. ut_notification_type u = t \<and> ut_rate u = rate)
          (fetch_usage_for_service_annual env i year w)) =
      total f (filter (\<lambda>r. us_notification_type r = t \<and> us_rate r = rate) (concat (usage_queries env i year w)))"
  by (simp add: fetch_usage_for_service_annual_def filter_sort annual_union filter_concat total_concat
      total_map comp_def total_annual_totals [where f = f, OF assms])

lemma total_month_page:
  assumes "\<And>k rs. g (monthly_total (k, rs)) = total f rs"
  shows "total g (filter (\<lambda>u. ut_notification_type u = t \<and> ut_rate u = rate) (monthly_query env i year w)) =
      total f (filter (\<lambda>r. us_notification_type r = t \<and> us_rate r = rate) (concat (usage_queries env i year w)))"
  by (simp add: monthly_query_def filter_sort monthly_union filter_concat total_concat
      total_map comp_def total_monthly_totals [where f = f, OF assms])

lemma total_columns:
  "ut_notifications_sent (annual_total (k, rs)) = total us_notifications_sent rs"
  "ut_chargeable_units (annual_total (k, rs)) = total us_chargeable_units rs"
  "ut_cost (annual_total (k, rs)) = total us_cost rs"
  "ut_free_allowance_used (annual_total (k, rs)) = total us_free_allowance_used rs"
  "ut_charged_units (annual_total (k, rs)) = total us_charged_units rs"
  "ut_notifications_sent (monthly_total (j, rs)) = total us_notifications_sent rs"
  "ut_chargeable_units (monthly_total (j, rs)) = total us_chargeable_units rs"
  "ut_cost (monthly_total (j, rs)) = total us_cost rs"
  "ut_free_allowance_used (monthly_total (j, rs)) = total us_free_allowance_used rs"
  "ut_charged_units (monthly_total (j, rs)) = total us_charged_units rs"
  by (simp_all add: annual_total_def monthly_total_def split_def)

text \<open>C17: For every channel and rate the page by month adds up to the page of the
  year: messages sent, chargeable units, free units, charged units and cost of all months and kinds of
  postage together are those of the year, whatever the facts.\<close>
theorem month_and_year_agree:
  "(let of_month = filter (\<lambda>u. ut_notification_type u = t \<and> ut_rate u = rate) (monthly_query env i year w);
        of_year = filter (\<lambda>u. ut_notification_type u = t \<and> ut_rate u = rate)
          (fetch_usage_for_service_annual env i year w)
    in total ut_notifications_sent of_month = total ut_notifications_sent of_year
       \<and> total ut_chargeable_units of_month = total ut_chargeable_units of_year
       \<and> total ut_free_allowance_used of_month = total ut_free_allowance_used of_year
       \<and> total ut_charged_units of_month = total ut_charged_units of_year
       \<and> total ut_cost of_month = total ut_cost of_year)"
  unfolding Let_def
  using total_year_page [OF total_columns(1)] total_month_page [OF total_columns(6)]
    total_year_page [OF total_columns(2)] total_month_page [OF total_columns(7)]
    total_year_page [OF total_columns(3)] total_month_page [OF total_columns(8)]
    total_year_page [OF total_columns(4)] total_month_page [OF total_columns(9)]
    total_year_page [OF total_columns(5)] total_month_page [OF total_columns(10)]
  by simp

lemma total_annual_type:
  assumes "\<And>k rs. g (annual_total (k, rs)) = total f rs"
  shows "total g (filter (\<lambda>u. ut_notification_type u = t) (fetch_usage_for_service_annual env i year w)) =
      total f (filter (\<lambda>r. us_notification_type r = t) (concat (usage_queries env i year w)))"
proof -
  let ?u = "filter (\<lambda>u. ut_notification_type u = t) (fetch_usage_for_service_annual env i year w)"
  let ?r = "filter (\<lambda>r. us_notification_type r = t) (concat (usage_queries env i year w))"
  define rates where "rates = remdups (map ut_rate ?u @ map us_rate ?r)"
  have "total g ?u = total (\<lambda>x. total g (filter (\<lambda>u. ut_rate u = x) ?u)) rates"
    by (rule total_over_keys [symmetric]) (auto simp: rates_def)
  also have "\<dots> = total (\<lambda>x. total f (filter (\<lambda>r. us_rate r = x) ?r)) rates"
  proof (rule total_cong)
    fix x
    show "total g (filter (\<lambda>u. ut_rate u = x) ?u) = total f (filter (\<lambda>r. us_rate r = x) ?r)"
      using total_year_page [where t = t and rate = x, OF assms] by (simp add: conj_commute)
  qed
  also have "\<dots> = total f ?r"
    by (rule total_over_keys) (auto simp: rates_def)
  finally show ?thesis .
qed

lemma sms_rows_of_queries:
  "filter (\<lambda>r. us_notification_type r = Sms) (concat (usage_queries env i year w)) =
     fetch_usage_for_service_sms env i year w"
proof -
  have "filter (\<lambda>r. us_notification_type r = Sms) (fetch_usage_for_service_sms env i year w) =
      fetch_usage_for_service_sms env i year w"
    using usage_query_types(1) by (intro filter_True) blast
  moreover have "filter (\<lambda>r. us_notification_type r = Sms) (fetch_usage_for_service_email env i year w) = []"
    "filter (\<lambda>r. us_notification_type r = Sms) (fetch_usage_for_service_letter env i year w) = []"
    using usage_query_types(2,3) by (force simp: filter_empty_conv)+
  ultimately show ?thesis by (simp add: usage_queries_def)
qed

text \<open>C9: A service with an allowance is charged, over the whole financial year,
  for exactly the units of its text messages beyond the allowance, and the free units it used are the
  rest: none is charged before the allowance is spent and none is free afterwards, however the units
  are spread over days, templates, providers and rates.\<close>
theorem free_allowance_spent_first:
  assumes "annual_allowance i year w = Some a" "0 \<le> ab_free_sms_fragment_limit a"
    and "list_all (\<lambda>f. 0 \<le> fact_units f) (year_facts env year i Sms w)"
  shows "(let page = filter (\<lambda>u. ut_notification_type u = Sms) (fetch_usage_for_service_annual env i year w);
              sent = total fact_units (year_facts env year i Sms w)
          in total ut_chargeable_units page = sent
             \<and> total ut_charged_units page = max 0 (sent - ab_free_sms_fragment_limit a)
             \<and> total ut_free_allowance_used page = min (ab_free_sms_fragment_limit a) sent)"
proof -
  let ?limit = "ab_free_sms_fragment_limit a"
  let ?facts = "sort_key fb_bst_date (year_facts env year i Sms w)"
  have rows: "fetch_usage_for_service_sms env i year w = usage_window ?limit 0 ?facts"
    using assms(1) by (simp add: fetch_usage_for_service_sms_def)
  have nonneg: "list_all (\<lambda>f. 0 \<le> fact_units f) ?facts" using assms(3) by (simp add: list_all_iff)
  show ?thesis
    unfolding Let_def total_annual_type [OF total_columns(2)] total_annual_type [OF total_columns(4)]
      total_annual_type [OF total_columns(5)] sms_rows_of_queries rows
    using window_chargeable [of ?limit 0 ?facts] window_charged [OF nonneg, of ?limit 0]
      window_free [OF nonneg, of ?limit 0] assms(2)
    by (auto simp: max_def min_def)
qed

section \<open>The pages of an organisation\<close>

lemma all_services_window_agrees:
  "map su_charged_units (all_services_window i (Some limit) used fs) =
     map us_charged_units (usage_window limit used fs)"
  "map su_cost (all_services_window i (Some limit) used fs) = map us_cost (usage_window limit used fs)"
  by (induction limit used fs rule: usage_window.induct) (simp_all add: Let_def)

lemma all_services_window_service: "r \<in> set (all_services_window i limit used fs) \<Longrightarrow> su_service_id r = i"
  by (induction i limit used fs rule: all_services_window.induct) (auto simp: Let_def)

lemma total_one_row:
  assumes "distinct_rows key rows" "r \<in> set rows"
  shows "total (\<lambda>x. if key x = key r then f x else 0) rows = f r"
  using assms
proof (induction rows)
  case Nil
  then show ?case by simp
next
  case (Cons x rows)
  show ?case
  proof (cases "x = r")
    case True
    then have "total (\<lambda>x. if key x = key r then f x else 0) rows = total (\<lambda>_. 0) rows"
      using Cons.prems(1) True by (intro total_cong) (auto simp: distinct_rows_def intro: rev_image_eqI)
    then show ?thesis using True by simp
  next
    case False
    then show ?thesis using Cons by (auto simp: distinct_rows_def)
  qed
qed

lemma service_window_of_all:
  assumes "distinct_rows svc_id (w_services w)" "s \<in> set (w_services w)" "in_organisation org s"
  shows "total f (filter (\<lambda>r. su_service_id r = svc_id s) (fetch_usage_for_all_services_sms_query env year org w)) =
    total f (all_services_window (svc_id s)
      (map_option ab_free_sms_fragment_limit (annual_allowance (svc_id s) year w)) 0
      (sort_key fb_bst_date (year_facts env year (svc_id s) Sms w)))"
proof -
  let ?window = "\<lambda>s. all_services_window (svc_id s)
      (map_option ab_free_sms_fragment_limit (annual_allowance (svc_id s) year w)) 0
      (sort_key fb_bst_date (year_facts env year (svc_id s) Sms w))"
  let ?services = "filter (in_organisation org) (w_services w)"
  have mine: "total f (filter (\<lambda>r. su_service_id r = svc_id s) (?window x)) =
      (if svc_id x = svc_id s then total f (?window x) else 0)" for x
  proof (cases "svc_id x = svc_id s")
    case True
    have "filter (\<lambda>r. su_service_id r = svc_id s) (?window x) = ?window x"
      using all_services_window_service True by (intro filter_True) metis
    then show ?thesis by (simp add: True)
  next
    case False
    have "filter (\<lambda>r. su_service_id r = svc_id s) (?window x) = []"
      using all_services_window_service False by (intro filter_False) metis
    then show ?thesis by (simp add: False)
  qed
  have "total f (filter (\<lambda>r. su_service_id r = svc_id s) (fetch_usage_for_all_services_sms_query env year org w))
      = total (\<lambda>x. total f (filter (\<lambda>r. su_service_id r = svc_id s) (?window x))) ?services"
    by (simp add: fetch_usage_for_all_services_sms_query_def filter_concat total_concat total_map comp_def)
  also have "\<dots> = total (\<lambda>x. if svc_id x = svc_id s then total f (?window x) else 0) ?services"
    by (rule total_cong) (rule mine)
  also have "\<dots> = total f (?window s)"
    by (rule total_one_row [where f = "\<lambda>x. total f (?window x)"]) (use assms in \<open>simp_all add: distinct_filter_rows\<close>)
  finally show ?thesis .
qed

text \<open>The page of an organisation and the page of a service compute the charges
  of text messages in two ways, with one window over all services and one over the service: they agree
  on the charged units and the cost of every service that has an allowance for the year.\<close>
theorem organisation_page_agrees:
  assumes "distinct_rows svc_id (w_services w)" "s \<in> set (w_services w)"
    and "annual_allowance (svc_id s) year w = Some a"
  shows "(let mine = filter (\<lambda>r. su_service_id r = svc_id s)
                (fetch_usage_for_all_services_sms_query env year (svc_organisation_id s) w);
              page = fetch_usage_for_service_sms env (svc_id s) year w
          in total su_charged_units mine = total us_charged_units page
             \<and> total su_cost mine = total us_cost page)"
proof -
  have same: "total su_charged_units (all_services_window i (Some limit) used fs) =
      total us_charged_units (usage_window limit used fs)"
    "total su_cost (all_services_window i (Some limit) used fs) = total us_cost (usage_window limit used fs)"
    for i limit used fs
    unfolding total_def all_services_window_agrees by (rule refl)+
  have "in_organisation (svc_organisation_id s) s" by (simp add: in_organisation_def)
  note window = service_window_of_all [OF assms(1,2) this]
  show ?thesis
    unfolding Let_def window [where f = su_charged_units] window [where f = su_cost]
    by (simp add: assms(3) same fetch_usage_for_service_sms_def)
qed

section \<open>The allowance of a year\<close>

definition allowances_ok :: "annual_billing list \<Rightarrow> bool" where
  \<comment> \<open>the primary key and the unique constraint on service and year\<close>
  "allowances_ok rows \<longleftrightarrow>
     distinct_rows ab_id rows \<and> distinct_rows (\<lambda>a. (ab_service_id a, ab_financial_year_start a)) rows"

lemma annual_allowance_key:
  "annual_allowance i year w = find_row (\<lambda>a. (ab_service_id a, ab_financial_year_start a)) (i, year) (w_annual_billing w)"
  by (simp add: annual_allowance_def query_first_def find_row_def)

lemma annual_allowance_row:
  "annual_allowance i year w = Some a \<Longrightarrow>
     a \<in> set (w_annual_billing w) \<and> ab_service_id a = i \<and> ab_financial_year_start a = year"
  using query_first_SomeD [of _ "w_annual_billing w" a] by (auto simp: annual_allowance_def)

lemma find_save_second_key:
  assumes "distinct_rows key rows" "distinct_rows other rows"
    and "\<And>x. x \<in> set rows \<Longrightarrow> key x = key r \<longleftrightarrow> other x = other r"
  shows "find_row other k (save_row key r rows) = (if k = other r then Some r else find_row other k rows)"
  using assms
proof (induction rows)
  case Nil
  then show ?case by (simp add: row_simps)
next
  case (Cons x rows)
  then show ?case by (auto simp: row_simps distinct_rows_def)
qed

lemma annual_billing_written:
  assumes "dao_create_or_update_annual_billing_for_year env i limit year high custom w = (Inr row, w')"
    and "allowances_ok (w_annual_billing w)" "year \<noteq> 0"
    and "lib_uuid env (w_uuids w) \<notin> ab_id ` set (w_annual_billing w)"
  shows "ab_free_sms_fragment_limit row = limit"
    and "custom = Some c \<Longrightarrow> ab_has_custom_allowance row = c"
    and "high = Some h \<Longrightarrow> ab_high_volume_service_last_year row = h"
    and "annual_allowance j y w' = (if (j, y) = (i, year) then Some row else annual_allowance j y w)"
    and "w_ft_billing w' = w_ft_billing w \<and> w_now w' = w_now w \<and> w_default_allowances w' = w_default_allowances w"
proof -
  define old where "old = annual_allowance i year w"
  define row0 where "row0 = (case old of
      Some a \<Rightarrow> a\<lparr>ab_free_sms_fragment_limit := limit\<rparr>
    | None \<Rightarrow> \<lparr>ab_id = lib_uuid env (w_uuids w), ab_service_id = i, ab_financial_year_start = year,
        ab_free_sms_fragment_limit = limit, ab_high_volume_service_last_year = False,
        ab_has_custom_allowance = False\<rparr>)"
  define row1 where "row1 = (case high of None \<Rightarrow> row0 | Some b \<Rightarrow> row0\<lparr>ab_high_volume_service_last_year := b\<rparr>)"
  define row2 where "row2 = (case custom of None \<Rightarrow> row1 | Some b \<Rightarrow> row1\<lparr>ab_has_custom_allowance := b\<rparr>)"
  have old: "dao_get_free_sms_fragment_limit_for_year env i (Some year) w = old"
    using assms(3) by (simp add: dao_get_free_sms_fragment_limit_for_year_def old_def)
  define w1 where "w1 = (case old of Some a \<Rightarrow> w | None \<Rightarrow> snd (create_uuid env w))"
  have w1: "w_annual_billing w1 = w_annual_billing w" "w_ft_billing w1 = w_ft_billing w" "w_now w1 = w_now w"
    "w_default_allowances w1 = w_default_allowances w"
    by (simp_all add: w1_def create_uuid_def split: option.splits)
  have "dao_create_or_update_annual_billing_for_year env i limit year high custom w =
      (Inr row2, w1\<lparr>w_annual_billing := save_row ab_id row2 (w_annual_billing w1)\<rparr>)"
    unfolding dao_create_or_update_annual_billing_for_year_def autocommit_def old
    by (cases old; cases high; cases custom)
      (simp_all add: create_uuid_def row0_def row1_def row2_def w1_def Let_def)
  then have "row = row2" and w': "w' = w1\<lparr>w_annual_billing := save_row ab_id row2 (w_annual_billing w1)\<rparr>"
    using assms(1) by (metis Inr_inject prod.inject)+
  have written: "row = row2" "w_annual_billing w' = save_row ab_id row2 (w_annual_billing w)"
    "w_ft_billing w' = w_ft_billing w" "w_now w' = w_now w" "w_default_allowances w' = w_default_allowances w"
    by (fact \<open>row = row2\<close>, simp_all add: w' w1)
  have old_key: "ab_service_id a = i" "ab_financial_year_start a = year" if "old = Some a" for a
    using annual_allowance_row [of i year w a] that by (simp_all add: old_def)
  have keys0: "ab_service_id row0 = i" "ab_financial_year_start row0 = year"
    "ab_free_sms_fragment_limit row0 = limit"
    "ab_id row0 = (case old of None \<Rightarrow> lib_uuid env (w_uuids w) | Some a \<Rightarrow> ab_id a)"
  proof -
    have "ab_service_id row0 = i \<and> ab_financial_year_start row0 = year
        \<and> ab_free_sms_fragment_limit row0 = limit
        \<and> ab_id row0 = (case old of None \<Rightarrow> lib_uuid env (w_uuids w) | Some a \<Rightarrow> ab_id a)"
    proof (cases old)
      case None
      then show ?thesis by (simp add: row0_def)
    next
      case (Some a)
      note keys = old_key [OF Some]
      show ?thesis unfolding row0_def Some option.case by (simp add: keys)
    qed
    then show "ab_service_id row0 = i" "ab_financial_year_start row0 = year"
      "ab_free_sms_fragment_limit row0 = limit"
      "ab_id row0 = (case old of None \<Rightarrow> lib_uuid env (w_uuids w) | Some a \<Rightarrow> ab_id a)" by blast+
  qed
  have keys1: "ab_service_id row1 = ab_service_id row0" "ab_id row1 = ab_id row0"
    "ab_financial_year_start row1 = ab_financial_year_start row0"
    "ab_free_sms_fragment_limit row1 = ab_free_sms_fragment_limit row0"
    by (simp_all add: row1_def split: option.splits)
  have keys2: "ab_service_id row2 = ab_service_id row1" "ab_id row2 = ab_id row1"
    "ab_financial_year_start row2 = ab_financial_year_start row1"
    "ab_free_sms_fragment_limit row2 = ab_free_sms_fragment_limit row1"
    by (simp_all add: row2_def split: option.splits)
  note key = keys2(1) [unfolded keys1 keys0] keys2(3) [unfolded keys1 keys0]
    keys2(4) [unfolded keys1 keys0] keys2(2) [unfolded keys1 keys0]
  show "ab_free_sms_fragment_limit row = limit" by (simp add: written(1) key(3))
  show "ab_has_custom_allowance row = c" if "custom = Some c" using that by (simp add: written(1) row2_def)
  show "ab_high_volume_service_last_year row = h" if "high = Some h"
    using that by (cases custom) (simp_all add: written(1) row2_def row1_def)
  show "w_ft_billing w' = w_ft_billing w \<and> w_now w' = w_now w \<and> w_default_allowances w' = w_default_allowances w"
    by (simp add: written)
  have "ab_id x = ab_id row2 \<longleftrightarrow> (ab_service_id x, ab_financial_year_start x) = (i, year)"
    if x: "x \<in> set (w_annual_billing w)" for x
  proof (cases old)
    case None
    then have "(i, year) \<notin> (\<lambda>a. (ab_service_id a, ab_financial_year_start a)) ` set (w_annual_billing w)"
      by (simp add: old_def annual_allowance_key find_row_None_iff)
    then have "(ab_service_id x, ab_financial_year_start x) \<noteq> (i, year)"
      using imageI [OF x, of "\<lambda>a. (ab_service_id a, ab_financial_year_start a)"] by auto
    moreover have "ab_id x \<noteq> lib_uuid env (w_uuids w)" using imageI [OF x, of ab_id] assms(4) by auto
    ultimately show ?thesis using None by (simp add: key)
  next
    case (Some a)
    then have a: "a \<in> set (w_annual_billing w)" "ab_service_id a = i" "ab_financial_year_start a = year"
      using annual_allowance_row by (auto simp: old_def)
    then show ?thesis
      using Some x assms(2) row_unique [of ab_id "w_annual_billing w" x a]
        row_unique [of "\<lambda>a. (ab_service_id a, ab_financial_year_start a)" "w_annual_billing w" x a]
      by (auto simp: key allowances_ok_def)
  qed
  then show "annual_allowance j y w' = (if (j, y) = (i, year) then Some row else annual_allowance j y w)"
    unfolding annual_allowance_key written
    using assms(2) by (subst find_save_second_key) (auto simp: allowances_ok_def key)
qed

lemma next_allowance_of_custom:
  assumes "annual_allowance (svc_id s) (year - 1) w = Some a" "ab_has_custom_allowance a"
    and "\<not> is_high_volume_service env (svc_id s) w"
  shows "next_allowance env s year w = Inr (ab_free_sms_fragment_limit a, False, True)"
  using assms by (simp add: next_allowance_def)

text \<open>Setting the allowance of a service through the endpoint marks it as a
  custom one whatever the number, the default of its kind of organisation included, although the
  docstring says the mark is cleared then (a row of the database is compared with a number). From then
  on the service keeps that number: in the next year it is carried over, and the new default is
  ignored, unless the service has become a high volume one.\<close>
theorem default_limit_marked_custom:
  assumes "update_free_sms_fragment_limit_data env (svc_id s) limit w = (Inr (), w')"
    and "allowances_ok (w_annual_billing w)" "get_current_financial_year_start_year env w \<noteq> 0"
    and "lib_uuid env (w_uuids w) \<notin> ab_id ` set (w_annual_billing w)"
    and "\<not> is_high_volume_service env (svc_id s) w'"
  shows "next_allowance env s (get_current_financial_year_start_year env w + 1) w' = Inr (limit, False, True)"
proof -
  define year where "year = get_current_financial_year_start_year env w"
  obtain row w1 where written:
    "dao_create_or_update_annual_billing_for_year env (svc_id s) limit year None (Some True) w = (Inr row, w1)"
    and "w' = w1"
  proof -
    have "fst (op_lift (res_bind (dao_fetch_service_by_id (svc_id s) False w)
        (\<lambda>s. dao_get_default_annual_allowance_for_service s year w)) w) \<noteq> Inl e" for e
      using assms(1) by (auto simp: update_free_sms_fragment_limit_data_def year_def op_lift_def op_bind_def Let_def)
    then show ?thesis
      using assms(1) that
      by (cases "dao_create_or_update_annual_billing_for_year env (svc_id s) limit year None (Some True) w")
        (auto simp: update_free_sms_fragment_limit_data_def year_def op_lift_def op_bind_def op_return_def Let_def
          split: sum.splits)
  qed
  note facts = annual_billing_written [OF written assms(2) assms(3) [folded year_def] assms(4)]
  have "annual_allowance (svc_id s) (year + 1 - 1) w' = Some row" "ab_has_custom_allowance row"
    "ab_free_sms_fragment_limit row = limit"
    using facts(1,2) facts(4) [of "svc_id s" year] \<open>w' = w1\<close> by simp_all
  then show ?thesis
    using next_allowance_of_custom [OF _ _ assms(5)] unfolding year_def by blast
qed

lemma op_lift_bind_InrD:
  "op_bind (op_lift r) f w = (Inr y, w') \<Longrightarrow> \<exists>x. r = Inr x \<and> f x w = (Inr y, w')"
  by (cases r) (simp_all add: op_bind_def op_lift_def)

text \<open>When the default allowance of a service is set for a year, the year is between
  2016 and the current one, the row of that service and year holds what the rules give (nothing for a
  service that sent a high volume in the last year, the number of the year before if that was a custom
  one, and otherwise the default of its kind of organisation), and no other allowance changes.\<close>
theorem new_year_allowance:
  assumes "set_default_free_allowance_for_service env (Some s) (Some year) w = (Inr row, w')" "year \<noteq> 0"
    and "allowances_ok (w_annual_billing w)" "lib_uuid env (w_uuids w) \<notin> ab_id ` set (w_annual_billing w)"
  shows "2016 \<le> year \<and> year \<le> get_current_financial_year_start_year env w
    \<and> next_allowance env s year w = Inr (ab_free_sms_fragment_limit row,
        ab_high_volume_service_last_year row, ab_has_custom_allowance row)
    \<and> (\<forall>j y. annual_allowance j y w' =
          (if (j, y) = (svc_id s, year) then Some row else annual_allowance j y w))"
proof -
  have years: "2016 \<le> year" "year \<le> get_current_financial_year_start_year env w"
    and run: "op_bind (op_lift (next_allowance env s year w)) (\<lambda>(limit, high_volume, custom).
        dao_create_or_update_annual_billing_for_year env (svc_id s) limit year (Some high_volume) (Some custom)) w
      = (Inr row, w')"
    using assms(1,2) by (auto simp: set_default_free_allowance_for_service_def Let_def split: if_splits)
  obtain limit high custom where allowed: "next_allowance env s year w = Inr (limit, high, custom)"
    and written: "dao_create_or_update_annual_billing_for_year env (svc_id s) limit year
        (Some high) (Some custom) w = (Inr row, w')"
    using op_lift_bind_InrD [OF run] by auto
  note facts = annual_billing_written [OF written assms(3,2,4)]
  show ?thesis using years allowed facts(1) facts(2) [OF refl] facts(3) [OF refl] facts(4) by simp
qed

section \<open>Concrete years\<close>

definition sms_fact :: "date \<Rightarrow> int \<Rightarrow> fact_billing" where
  "sms_fact d units =
     \<lparr>fb_bst_date = d, fb_template_id = 20, fb_service_id = 10, fb_notification_type = Sms,
      fb_provider = ''mmg'', fb_rate_multiplier = 1, fb_international = False, fb_rate = 1 / 50,
      fb_postage = ''none'', fb_billable_units = units, fb_notifications_sent = 1, fb_updated_at = None\<rparr>"

definition sample_allowance :: "int \<Rightarrow> int \<Rightarrow> annual_billing" where
  "sample_allowance year limit =
     \<lparr>ab_id = 50, ab_service_id = 10, ab_financial_year_start = year, ab_free_sms_fragment_limit = limit,
      ab_high_volume_service_last_year = False, ab_has_custom_allowance = False\<rparr>"

definition usage_world :: world where
  "usage_world = sample_world\<lparr>w_services := [sample_service], w_annual_billing := [sample_allowance 1970 5],
     w_ft_billing := [sms_fact 201 4, sms_fact 200 3]\<rparr>"

lemma sample_year: "get_financial_year_dates sample_env 1970 = (90, 454)"
  by code_simp

lemma usage_world_facts: "year_facts sample_env 1970 10 Sms usage_world = [sms_fact 201 4, sms_fact 200 3]"
  by (simp add: year_facts_def in_year_def sample_year usage_world_def sms_fact_def)

lemma usage_world_allowance: "annual_allowance 10 1970 usage_world = Some (sample_allowance 1970 5)"
  by (simp add: annual_allowance_def query_first_def usage_world_def sample_allowance_def)

theorem free_allowance_spent_first_witness:
  "(let page = filter (\<lambda>u. ut_notification_type u = Sms)
        (fetch_usage_for_service_annual sample_env 10 1970 usage_world)
    in total ut_chargeable_units page = 7 \<and> total ut_charged_units page = 2
       \<and> total ut_free_allowance_used page = 5)"
proof -
  have "0 \<le> ab_free_sms_fragment_limit (sample_allowance 1970 5)" by (simp add: sample_allowance_def)
  moreover have "list_all (\<lambda>f. 0 \<le> fact_units f) (year_facts sample_env 1970 10 Sms usage_world)"
    by (simp add: usage_world_facts fact_units_def sms_fact_def)
  ultimately show ?thesis
    using free_allowance_spent_first [OF usage_world_allowance]
    by (simp add: usage_world_facts fact_units_def sms_fact_def sample_allowance_def Let_def)
qed

theorem organisation_page_agrees_witness:
  "total su_charged_units (filter (\<lambda>r. su_service_id r = 10)
      (fetch_usage_for_all_services_sms_query sample_env 1970 None usage_world))
   = total us_charged_units (fetch_usage_for_service_sms sample_env 10 1970 usage_world)"
proof -
  have s: "svc_id sample_service = 10" "svc_organisation_id sample_service = None"
    by (simp_all add: sample_service_def)
  have "distinct_rows svc_id (w_services usage_world)" "sample_service \<in> set (w_services usage_world)"
    by (simp_all add: usage_world_def distinct_rows_def)
  from organisation_page_agrees [OF this, of 1970 "sample_allowance 1970 5" sample_env]
  show ?thesis by (simp add: s usage_world_allowance Let_def)
qed

definition allowance_world :: world where
  "allowance_world = sample_world\<lparr>w_now := datetime_of 2020 6 1, w_services := [sample_service],
     w_default_allowances :=
       [\<lparr>da_id = 51, da_valid_from_financial_year_start = 2016, da_organisation_type = Some OrgOther,
         da_allowance = 1000, da_notification_type = Sms\<rparr>]\<rparr>"

lemma allowance_world_year: "get_current_financial_year_start_year sample_env allowance_world = 2020"
  by code_simp

lemma allowance_world_run:
  "fst (set_default_free_allowance_for_service sample_env (Some sample_service) (Some 2020) allowance_world) =
     Inr \<lparr>ab_id = 1000, ab_service_id = 10, ab_financial_year_start = 2020, ab_free_sms_fragment_limit = 1000,
         ab_high_volume_service_last_year = False, ab_has_custom_allowance = False\<rparr>"
  "fst (update_free_sms_fragment_limit_data sample_env 10 1000 allowance_world) = Inr ()"
  "w_ft_billing (snd (update_free_sms_fragment_limit_data sample_env 10 1000 allowance_world)) = []"
  by code_simp+

theorem new_year_allowance_witness:
  "annual_allowance 10 2020 (snd (set_default_free_allowance_for_service sample_env (Some sample_service)
      (Some 2020) allowance_world)) \<noteq> None"
proof -
  let ?run = "set_default_free_allowance_for_service sample_env (Some sample_service) (Some 2020) allowance_world"
  obtain row where "?run = (Inr row, snd ?run)"
    using allowance_world_run(1) by (metis prod.collapse)
  from new_year_allowance [OF this] show ?thesis
    by (simp add: allowances_ok_def distinct_rows_def allowance_world_def sample_world_def sample_service_def)
qed

theorem default_limit_marked_custom_witness:
  "next_allowance sample_env sample_service 2021
     (snd (update_free_sms_fragment_limit_data sample_env 10 1000 allowance_world)) = Inr (1000, False, True)"
proof -
  let ?run = "update_free_sms_fragment_limit_data sample_env 10 1000 allowance_world"
  have s: "svc_id sample_service = 10" by (simp add: sample_service_def)
  have run: "update_free_sms_fragment_limit_data sample_env (svc_id sample_service) 1000 allowance_world =
      (Inr (), snd ?run)"
    unfolding s using allowance_world_run(2) by (metis prod.collapse)
  have "\<not> is_high_volume_service sample_env (svc_id sample_service) (snd ?run)"
    by (simp add: is_high_volume_service_def get_sms_fragments_sent_last_financial_year_def year_facts_def
        allowance_world_run(3) HIGH_VOLUME_SERVICE_THRESHOLD_def)
  moreover have "allowances_ok (w_annual_billing allowance_world)"
    "lib_uuid sample_env (w_uuids allowance_world) \<notin> ab_id ` set (w_annual_billing allowance_world)"
    by (simp_all add: allowances_ok_def distinct_rows_def allowance_world_def sample_world_def)
  ultimately show ?thesis
    using default_limit_marked_custom [OF run] by (simp add: allowance_world_year)
qed

end
