(* ===== verification/Letters_Pdf.thy ===== *)
theory Letters_Pdf
  imports Users
begin

text \<open>
  The PDFs of letters (\<^verbatim>\<open>app/celery/letters_pdf_tasks.py\<close>): asking the template preview service for
  the PDF of a letter, taking in the checked file of a pre-compiled one, the results of the
  virus scan, and the daily print run with the email that announces its volume. The template
  preview service is outside: it is sent a message and answers with a task of this theory.
  \<open>letters_lib\<close> decodes its signed answer and tells the postage of an address.
\<close>

record sanitise_data =
  sd_filename :: string
  sd_notification_id :: uuid
  sd_validation_status :: string
  sd_message :: string
  sd_invalid_pages :: "int list"
  sd_page_count :: "int option"
  sd_address :: "string option"

record letters_lib =
  ll_decode :: "string \<Rightarrow> sanitise_data result"
  ll_postage :: "string \<Rightarrow> postage option"
  ll_dvla_email_addresses :: "string list"

section \<open>A letter made from a template\<close>

definition letter_data :: "uuid \<Rightarrow> notification \<Rightarrow> string \<Rightarrow> world \<Rightarrow> pdf_letter_data result" where
  \<comment> \<open>a relationship without a row is \<open>None\<close>\<close>
  "letter_data i n letter_filename w =
     (case dao_get_template_by_id (n_template_id n) (Some (n_template_version n)) w of
        Inl e \<Rightarrow> Inl (Py AttributeError)
      | Inr t \<Rightarrow>
          (let attachment = (case t_letter_attachment_id t of None \<Rightarrow> None
                             | Some a \<Rightarrow> find_row la_id a (w_attachments w))
           in if t_letter_attachment_id t \<noteq> None \<and> attachment = None then Inl (Py AttributeError)
              else (case find_row svc_id (n_service_id n) (w_services w) of
                      None \<Rightarrow> Inl (Py AttributeError)
                    | Some s \<Rightarrow>
                        Inr \<lparr>pl_letter_contact_block = n_reply_to_text n, pl_service = n_service_id n,
                          pl_letter_languages = t_letter_languages t, pl_subject = t_subject t,
                          pl_content = t_content t,
                          pl_letter_welsh_subject = t_letter_welsh_subject t,
                          pl_letter_welsh_content = t_letter_welsh_content t,
                          pl_template_type = t_type t, pl_letter_attachment = attachment,
                          pl_values = n_personalisation n,
                          pl_logo_filename = (case svc_letter_branding s of None \<Rightarrow> None
                            | Some b \<Rightarrow> map_option lb_filename (find_row lb_id b (w_letter_brandings w))),
                          pl_letter_filename = letter_filename, pl_notification_id = i,
                          pl_key_type = n_key_type n\<rparr>)))"

definition send_pdf_request :: "env \<Rightarrow> api_lib \<Rightarrow> uuid \<Rightarrow> unit op" where
  \<comment> \<open>the \<open>try\<close> of the task below\<close>
  "send_pdf_request env lib i w =
     (case res_bind (get_notification_by_id_raise i None w) (\<lambda>n.
             res_bind (generate_letter_pdf_filename env (n_reference n) (n_created_at n)
                         (n_key_type n = TestKey) (n_postage n))
               (\<lambda>name. letter_data i n name w)) of
        Inl e \<Rightarrow> (Inl e, w)
      | Inr d \<Rightarrow> apply_async lib SANITISE_LETTERS (TCreatePdf d) w)"

definition get_pdf_for_templated_letter :: "env \<Rightarrow> api_lib \<Rightarrow> nat \<Rightarrow> uuid \<Rightarrow> unit op" where
  \<comment> \<open>\<open>self.retry(exc=e)\<close>\<close>
  "get_pdf_for_templated_letter env lib retries i w =
     (case send_pdf_request env lib i w of
        (Inr _, w') \<Rightarrow> (Inr (), w')
      | (Inl e, w') \<Rightarrow>
          (case lib_retry env retries 15 (Some e) of
             Task MaxRetriesExceededError \<Rightarrow>
               give_up env i (''RETRY FAILED: Max retries reached. The task create-letter-pdf failed for notification id ''
                 @ uuid_str i @ ''. Notification has been updated to technical-failure'') w'
           | e' \<Rightarrow> (Inl e', w')))"

definition update_billable_units_for_letter :: "uuid \<Rightarrow> int option \<Rightarrow> unit op" where
  "update_billable_units_for_letter i page_count w =
     (case get_notification_by_id_raise i None w of
        Inl e \<Rightarrow> (Inl e, w)
      | Inr n \<Rightarrow>
          if n_key_type n \<noteq> TestKey
          then (Inr (), snd (dao_update_notification
                  (n\<lparr>n_billable_units := get_billable_units_for_letter_page_count page_count\<rparr>) w))
          else (Inr (), w))"

definition update_validation_failed_for_templated_letter :: "uuid \<Rightarrow> unit op" where
  \<comment> \<open>the page count is only logged\<close>
  "update_validation_failed_for_templated_letter i w =
     (case get_notification_by_id_raise i None w of
        Inl e \<Rightarrow> (Inl e, w)
      | Inr n \<Rightarrow> (Inr (), snd (dao_update_notification (n\<lparr>n_status := ValidationFailed\<rparr>) w)))"

section \<open>The print run\<close>

definition dict_add :: "string \<Rightarrow> int \<Rightarrow> (string \<times> int) list \<Rightarrow> (string \<times> int) list" where
  \<comment> \<open>\<open>d[k] += v\<close> on a key that is there\<close>
  "dict_add k v d = dict_set k ((case map_of d k of None \<Rightarrow> 0 | Some x \<Rightarrow> x) + v) d"

definition volume_totals :: "(string \<times> int) list" where
  "volume_totals =
     [(''total_volume'', 0), (''first_class_volume'', 0), (''second_class_volume'', 0),
      (''economy_mail_volume'', 0), (''international_volume'', 0), (''total_sheets'', 0),
      (''first_class_sheets'', 0), (''second_class_sheets'', 0), (''economy_mail_sheets'', 0),
      (''international_sheets'', 0)]"

definition postage_text :: "postage option \<Rightarrow> string" where
  \<comment> \<open>in an f-string\<close>
  "postage_text p = (case p of None \<Rightarrow> ''None'' | Some q \<Rightarrow> postage_name q)"

definition add_volume :: "nat \<times> int \<times> postage option \<Rightarrow> (string \<times> int) list \<Rightarrow> (string \<times> int) list" where
  "add_volume item d =
     (case item of (letters_count, sheets_count, p) \<Rightarrow>
        dict_set (postage_text p @ ''_class_sheets'') sheets_count
          (dict_set (postage_text p @ ''_class_volume'') (int letters_count)
             (dict_add ''total_sheets'' sheets_count (dict_add ''total_volume'' (int letters_count) d))))"

definition volume_counts :: "(nat \<times> int \<times> postage option) list \<Rightarrow> (string \<times> int) list" where
  "volume_counts letters_volumes = fold add_volume letters_volumes volume_totals"

definition long_date :: "date \<Rightarrow> string" where
  \<comment> \<open>\<open>strftime("%d %B %Y")\<close>\<close>
  "long_date d =
     (let (y, m, day) = civil_of_date d
      in zfill 2 (int_str day) @ '' '' @ month_name m @ '' '' @ int_str y)"

definition send_letters_volume_email_to_dvla ::
  "env \<Rightarrow> api_lib \<Rightarrow> account_lib \<Rightarrow> letters_lib \<Rightarrow> (nat \<times> int \<times> postage option) list \<Rightarrow> date \<Rightarrow> unit op" where
  "send_letters_volume_email_to_dvla env lib ac ll letters_volumes d w =
     (case dao_get_template_by_id (ac_template_id ac ''LETTERS_VOLUME_EMAIL_TEMPLATE_ID'') None w of
        Inl e \<Rightarrow> (Inl e, w)
      | Inr t \<Rightarrow>
          (let ps = map (\<lambda>(k, v). (k, PNumber v)) (volume_counts letters_volumes)
                    @ [(''date'', PText (long_date d))];
               reply_to = get_default_reply_to_email_address (t_service_id t) w;
               service = find_row svc_id (ac_notify_service_id ac) (w_services w)
           in op_iter (\<lambda>recipient v.
                case service of
                  None \<Rightarrow> (Inl (Py AttributeError), v)
                | Some s \<Rightarrow>
                    op_bind (persist_notification env lib s
                        ((persist_call (t_id t) (t_version t) (TextData recipient) (Some ps) (t_type t)
                            None NormalKey)\<lparr>pn_reply_to_text := reply_to\<rparr>))
                      (\<lambda>n. send_notification_to_queue lib n (Some NOTIFY)) v)
                (ll_dvla_email_addresses ll) w))"

definition get_letters_and_sheets_volumes_and_send_to_dvla ::
  "env \<Rightarrow> api_lib \<Rightarrow> account_lib \<Rightarrow> letters_lib \<Rightarrow> time \<Rightarrow> unit op" where
  "get_letters_and_sheets_volumes_and_send_to_dvla env lib ac ll print_run_deadline_local w =
     send_letters_volume_email_to_dvla env lib ac ll
       (dao_get_letters_and_sheets_volume_by_postage env print_run_deadline_local w)
       (date_of print_run_deadline_local) w"

definition shatter_deliver_letter_tasks :: "api_lib \<Rightarrow> uuid list \<Rightarrow> unit op" where
  "shatter_deliver_letter_tasks lib notification_ids =
     op_iter (\<lambda>i. apply_async lib SEND_LETTER (TDeliverLetter i)) notification_ids"

definition send_dvla_letters_via_api :: "api_lib \<Rightarrow> int \<Rightarrow> unit op" where
  \<comment> \<open>the deadline it gets is not used; the generator of batches may raise after the last one\<close>
  "send_dvla_letters_via_api lib batch_size w =
     (let (batches, e) = batched False batch_size (dao_get_letters_to_be_printed_all w)
      in op_bind (op_iter (\<lambda>b. apply_async lib PERIODIC (TShatterDeliverLetterTasks b)) batches)
           (\<lambda>_. case e of None \<Rightarrow> op_return () | Some x \<Rightarrow> op_raise x) w)"

definition collate_letter_pdfs_to_be_sent ::
  "env \<Rightarrow> api_lib \<Rightarrow> account_lib \<Rightarrow> letters_lib \<Rightarrow> time \<Rightarrow> unit op" where
  "collate_letter_pdfs_to_be_sent env lib ac ll print_run_deadline_utc =
     op_bind (get_letters_and_sheets_volumes_and_send_to_dvla env lib ac ll
                (lib_utc_to_bst env print_run_deadline_utc))
       (\<lambda>_. send_dvla_letters_via_api lib 100)"

definition print_run_deadline :: "env \<Rightarrow> time \<Rightarrow> time" where
  "print_run_deadline env now =
     (let datetime_local = lib_utc_to_bst env now;
          day = (if time_of_day datetime_local < lib_letter_processing_deadline env
                 then datetime_local - days 1 else datetime_local)
      in lib_bst_to_utc env (midnight_of (date_of day) + minutes (17 * 60 + 30)))"

definition check_time_to_collate_letters :: "env \<Rightarrow> api_lib \<Rightarrow> unit op" where
  "check_time_to_collate_letters env lib w =
     apply_async lib PERIODIC (TCollateLetterPdfs (print_run_deadline env (w_now w))) w"

section \<open>A pre-compiled letter\<close>

definition letter_service :: "notification \<Rightarrow> world \<Rightarrow> service result" where
  "letter_service n w =
     (case find_row svc_id (n_service_id n) (w_services w) of
        None \<Rightarrow> Inl (Py AttributeError) | Some s \<Rightarrow> Inr s)"

definition sanitise_letter :: "env \<Rightarrow> api_lib \<Rightarrow> nat \<Rightarrow> string option \<Rightarrow> unit op" where
  \<comment> \<open>its \<open>except\<close> clause reads \<open>notification\<close>, which is not bound when the lookup failed\<close>
  "sanitise_letter env lib retries filename w =
     (case filename of
        None \<Rightarrow> (Inl (Py UnboundLocalError), w)
      | Some f \<Rightarrow>
          (case res_bind (get_reference_from_filename f)
                  (\<lambda>reference. dao_get_notification_by_reference reference w) of
             Inl e \<Rightarrow> (Inl (Py UnboundLocalError), w)
           | Inr n \<Rightarrow>
               if n_status n \<noteq> PendingVirusCheck then (Inr (), w)
               else
                 (case (case letter_service n w of
                          Inl e \<Rightarrow> (Inl e, w)
                        | Inr s \<Rightarrow>
                            apply_async lib SANITISE_LETTERS
                              (TSanitiseAndUploadLetter (n_id n) f
                                 (has_permission s InternationalLetters)) w) of
                    (Inr _, w') \<Rightarrow> (Inr (), w')
                  | (Inl e, w') \<Rightarrow>
                      retry_or_give_up env retries 15 (n_id n)
                        (''RETRY FAILED: Max retries reached. The task sanitise_letter failed for notification ''
                         @ uuid_str (n_id n) @ ''. Notification has been updated to technical-failure'') w')))"

definition international_postage_of :: "letters_lib \<Rightarrow> string option \<Rightarrow> postage option" where
  "international_postage_of ll recipient_address =
     (case recipient_address of
        None \<Rightarrow> None
      | Some a \<Rightarrow>
          if a = [] then None
          else (case ll_postage ll (map (\<lambda>c. if c = CHR '','' then CHR 0x0A else c) a) of
                  None \<Rightarrow> None
                | Some p \<Rightarrow> if p \<in> set INTERNATIONAL_POSTAGE_TYPES then Some p else None))"

definition pdf_status_row ::
  "letters_lib \<Rightarrow> nstatus \<Rightarrow> int \<Rightarrow> string option \<Rightarrow> time \<Rightarrow> notification \<Rightarrow> notification" where
  "pdf_status_row ll status billable_units recipient_address now n =
     (let n1 = n\<lparr>n_status := status, n_billable_units := billable_units, n_updated_at := Some now\<rparr>;
          n2 = (case international_postage_of ll recipient_address of
                  None \<Rightarrow> n1 | Some p \<Rightarrow> n1\<lparr>n_postage := Some p, n_international := True\<rparr>)
      in if recipient_address \<in> {None, Some []} then n2
         else n2\<lparr>n_to := the recipient_address,
                 n_normalised_to := Some (py_lower (remove_spaces (the recipient_address)))\<rparr>)"

definition update_letter_pdf_status ::
  "letters_lib \<Rightarrow> string option \<Rightarrow> nstatus \<Rightarrow> int \<Rightarrow> string option \<Rightarrow> nat op" where
  \<comment> \<open>the archive has no column for the recipient: an update of it with one raises, and rolls back;
     no row has the reference \<open>NULL\<close>\<close>
  "update_letter_pdf_status ll reference status billable_units recipient_address w =
     (let hits = (case reference of None \<Rightarrow> 0
                  | Some r \<Rightarrow> length (filter (\<lambda>n. n_reference n = Some r) (w_notifications w)))
      in if hits \<noteq> 1 \<and> recipient_address \<notin> {None, Some []} then (Inl (Db OtherSQLAlchemyError), w)
         else
           (case reference of
              None \<Rightarrow> (Inr 0, w)
            | Some r \<Rightarrow>
                (let (counts, w') = dao_update_notifications_by_reference [r]
                       (pdf_status_row ll status billable_units recipient_address (w_now w))
                       (\<lambda>h. h\<lparr>h_status := status, h_billable_units := billable_units,
                              h_updated_at := Some (w_now w)\<rparr>) w
                 in (Inr (fst counts), w'))))"

definition move_invalid_letter_and_update_status ::
  "env \<Rightarrow> letters_lib \<Rightarrow> notification \<Rightarrow> sanitise_data \<Rightarrow> unit op" where
  "move_invalid_letter_and_update_status env ll n d w =
     (case move_scan_to_invalid_pdf_bucket (sd_filename d) (sd_message d) (sd_invalid_pages d)
             (case sd_page_count d of None \<Rightarrow> 0 | Some p \<Rightarrow> p) w of
        (Inl (Storage (BotoClientError m)), w1) \<Rightarrow> give_up env (n_id n) [] w1
      | (Inl e, w1) \<Rightarrow> (Inl e, w1)
      | (Inr _, w1) \<Rightarrow>
          op_bind (update_letter_pdf_status ll (n_reference n) ValidationFailed 0 None)
            (\<lambda>_. op_return ()) (s3_delete S3_BUCKET_LETTERS_SCAN (sd_filename d) w1))"

definition store_valid_letter ::
  "env \<Rightarrow> letters_lib \<Rightarrow> notification \<Rightarrow> sanitise_data \<Rightarrow> unit op" where
  \<comment> \<open>the row is loaded again after the commit of its update\<close>
  "store_valid_letter env ll n d =
     op_bind (update_letter_pdf_status ll (n_reference n)
                (if n_key_type n = TestKey then Delivered else Created)
                (get_billable_units_for_letter_page_count (sd_page_count d)) (sd_address d))
       (\<lambda>_ w. case find_row n_id (n_id n) (w_notifications w) of
           None \<Rightarrow> (Inl (Db OtherSQLAlchemyError), w)
         | Some n1 \<Rightarrow>
             (case generate_letter_pdf_filename env (n_reference n1) (n_created_at n1) True
                     (n_postage n1) of
                Inl e \<Rightarrow> (Inl e, w)
              | Inr upload_file_name \<Rightarrow>
                  op_bind (move_sanitised_letter_to_test_or_live_pdf_bucket env (sd_filename d)
                             (n_key_type n = TestKey) (n_created_at n1) upload_file_name)
                    (\<lambda>_ v. (Inr (), s3_delete S3_BUCKET_LETTERS_SCAN (sd_filename d) v)) w))"

definition process_sanitised_letter :: "env \<Rightarrow> letters_lib \<Rightarrow> nat \<Rightarrow> string \<Rightarrow> unit op" where
  "process_sanitised_letter env ll retries sanitise_data w =
     (case ll_decode ll sanitise_data of
        Inl e \<Rightarrow> (Inl e, w)
      | Inr d \<Rightarrow>
          (case get_notification_by_id_raise (sd_notification_id d) None w of
             Inl e \<Rightarrow> (Inl e, w)
           | Inr n \<Rightarrow>
               if n_status n \<noteq> PendingVirusCheck then (Inr (), w)
               else
                 (case (if sd_validation_status d = ''failed''
                        then move_invalid_letter_and_update_status env ll n d w
                        else store_valid_letter env ll n d w) of
                    (Inr _, w') \<Rightarrow> (Inr (), w')
                  | (Inl (Storage (BotoClientError m)), w') \<Rightarrow> give_up env (n_id n) [] w'
                  | (Inl e, w') \<Rightarrow>
                      retry_or_give_up env retries 15 (n_id n)
                        (''RETRY FAILED: Max retries reached. The task process_sanitised_letter failed for notification ''
                         @ uuid_str (n_id n) @ ''. Notification has been updated to technical-failure'') w')))"

section \<open>The virus scan\<close>

definition scan_result ::
  "letters_lib \<Rightarrow> scan_error_type \<Rightarrow> nstatus \<Rightarrow> string \<Rightarrow> string \<Rightarrow> unit op" where
  \<comment> \<open>the common body of the two tasks below, which end in an exception whatever happens\<close>
  "scan_result ll scan_error status text filename =
     op_bind (move_failed_pdf filename scan_error) (\<lambda>_ w.
       case res_bind (get_reference_from_filename filename)
              (\<lambda>r. map_sum id (\<lambda>n. (r, n)) (dao_get_notification_by_reference r w)) of
         Inl e \<Rightarrow> (Inl e, w)
       | Inr (r, n) \<Rightarrow>
           op_bind (update_letter_pdf_status ll (Some r) status 0 None) (\<lambda>updated_count.
             if updated_count \<noteq> 1
             then op_raise (py_exception (''There should only be one letter notification for each reference. Found ''
                    @ nat_str updated_count @ '' notifications''))
             else op_raise (Task (VirusScanError (''notification id '' @ uuid_str (n_id n) @ text
                    @ filename)))) w)"

definition process_virus_scan_failed :: "letters_lib \<Rightarrow> string \<Rightarrow> unit op" where
  "process_virus_scan_failed ll = scan_result ll ScanFailure VirusScanFailed '' Virus scan failed: ''"

definition process_virus_scan_error :: "letters_lib \<Rightarrow> string \<Rightarrow> unit op" where
  "process_virus_scan_error ll = scan_result ll ScanError TechnicalFailure '' Virus scan error: ''"

section \<open>Doing it again\<close>

definition scan_again :: "env \<Rightarrow> api_lib \<Rightarrow> string \<Rightarrow> string option \<Rightarrow> unit op" where
  \<comment> \<open>the file to scan, and the argument of the stub without a virus scanner\<close>
  "scan_again env lib f stub_argument =
     op_bind (move_error_pdf_to_scan_bucket f) (\<lambda>_.
       if cfg_antivirus_enabled env then apply_async lib ANTIVIRUS (TScanFile f)
       else apply_async lib LETTERS (TSanitiseLetter stub_argument))"

definition replay_letters_in_error :: "env \<Rightarrow> api_lib \<Rightarrow> string option \<Rightarrow> unit op" where
  "replay_letters_in_error env lib filename w =
     (if filename \<notin> {None, Some []} then scan_again env lib (the filename) filename w
      else op_iter (\<lambda>key v.
             case py_split (CHR ''/'') key of
               _ # moved_file_name # _ \<Rightarrow> scan_again env lib moved_file_name filename v
             | _ \<Rightarrow> (Inl (Py IndexError), v)) (get_file_names_from_error_bucket w) w)"

definition resanitise_pdf :: "env \<Rightarrow> api_lib \<Rightarrow> uuid \<Rightarrow> unit op" where
  "resanitise_pdf env lib i w =
     (case get_notification_by_id i None w of
        None \<Rightarrow> (Inl (Py AttributeError), w)
      | Some n \<Rightarrow>
          (case res_bind (generate_letter_pdf_filename env (n_reference n) (n_created_at n) True
                            (n_postage n))
                  (\<lambda>filename. map_sum id (\<lambda>s. (filename, s)) (letter_service n w)) of
             Inl e \<Rightarrow> (Inl e, w)
           | Inr (filename, s) \<Rightarrow>
               apply_async lib SANITISE_LETTERS
                 (TRecreatePdf i (get_folder_name env (n_created_at n) @ filename)
                    (has_permission s InternationalLetters)) w))"

end
