(* ===== verification/Letters_Pdf_Rules.thy ===== *)
theory Letters_Pdf_Rules
  imports Letters_Pdf Lifecycle
begin

text \<open>
  What the letter tasks do: a checked file becomes the PDF that the print run will read, a
  refused one goes to the bucket of invalid letters, the print run queues every letter once, and
  its email counts them; and what happens on the failures the tasks mean to survive.
\<close>

section \<open>Lemmas\<close>

lemma op_iter_publish:
  assumes "\<And>x. x \<in> set xs \<Longrightarrow> al_publish lib q (t x) = None"
  shows "op_iter (\<lambda>x. apply_async lib q (t x)) xs w =
    (Inr (), w\<lparr>w_tasks := w_tasks w @ map (\<lambda>x. (q, t x)) xs\<rparr>)"
  using assms by (induction xs arbitrary: w) (simp_all add: enqueue_def)

lemma op_iter_shatter:
  assumes "\<And>t. al_publish lib SEND_LETTER t = None"
  shows "op_iter (shatter_deliver_letter_tasks lib) bs w =
    (Inr (), w\<lparr>w_tasks := w_tasks w @ map (\<lambda>i. (SEND_LETTER, TDeliverLetter i)) (concat bs)\<rparr>)"
proof (induction bs arbitrary: w)
  case Nil
  then show ?case by simp
next
  case (Cons b bs)
  have "shatter_deliver_letter_tasks lib b w =
      (Inr (), w\<lparr>w_tasks := w_tasks w @ map (\<lambda>i. (SEND_LETTER, TDeliverLetter i)) b\<rparr>)"
    unfolding shatter_deliver_letter_tasks_def by (rule op_iter_publish) (simp add: assms)
  then show ?case by (simp add: Cons.IH)
qed

section \<open>The print run\<close>

text \<open>
  The print run queues every letter that is ready to print, in order and once: run the
  messages it sends, and the delivery tasks that follow are those of exactly these letters, in
  messages of at most a hundred letters.
\<close>

theorem print_run_queues_every_letter:
  assumes "\<And>q t. al_publish lib q t = None"
  shows "\<exists>batches w1 w2. send_dvla_letters_via_api lib 100 w = (Inr (), w1)
    \<and> w_tasks w1 = w_tasks w @ map (\<lambda>b. (PERIODIC, TShatterDeliverLetterTasks b)) batches
    \<and> op_iter (shatter_deliver_letter_tasks lib) batches w1 = (Inr (), w2)
    \<and> w_tasks w2 = w_tasks w1 @ map (\<lambda>n. (SEND_LETTER, TDeliverLetter (n_id n)))
        (filter ready_to_print (w_notifications w))
    \<and> list_all (\<lambda>b. b \<noteq> [] \<and> length b \<le> 100) batches"
proof -
  obtain batches where b: "batched False 100 (dao_get_letters_to_be_printed_all w) = (batches, None)"
    "concat batches = dao_get_letters_to_be_printed_all w" "\<forall>b \<in> set batches. b \<noteq> [] \<and> length b \<le> 100"
    using batches_lenient [of 100 "dao_get_letters_to_be_printed_all w"]
    by (cases "batches False 100 (dao_get_letters_to_be_printed_all w)") (auto simp: batched_def)
  let ?w1 = "w\<lparr>w_tasks := w_tasks w @ map (\<lambda>b. (PERIODIC, TShatterDeliverLetterTasks b)) batches\<rparr>"
  have "send_dvla_letters_via_api lib 100 w = (Inr (), ?w1)"
    by (simp add: send_dvla_letters_via_api_def b op_iter_publish assms op_return_def)
  then show ?thesis
    using b by (auto simp: op_iter_shatter assms dao_get_letters_to_be_printed_all_def list_all_iff)
qed

definition waiting_letter :: "uuid \<Rightarrow> notification" where
  "waiting_letter i = sample_notification\<lparr>n_id := i, n_type := Letter, n_status := Created,
     n_reference := Some ''REF'', n_postage := Some Europe\<rparr>"

definition print_world :: world where
  "print_world = sample_world\<lparr>w_notifications := [waiting_letter 31, sample_notification, waiting_letter 32]\<rparr>"

lemma sample_api_publishes [simp]: "al_publish sample_api q t = None"
  by (simp add: sample_api_def)

theorem print_run_queues_every_letter_witness:
  "\<exists>batches w1 w2. send_dvla_letters_via_api sample_api 100 print_world = (Inr (), w1)
    \<and> op_iter (shatter_deliver_letter_tasks sample_api) batches w1 = (Inr (), w2)
    \<and> w_tasks w2 = w_tasks w1 @ [(SEND_LETTER, TDeliverLetter 31), (SEND_LETTER, TDeliverLetter 32)]"
proof -
  have "filter ready_to_print (w_notifications print_world) = [waiting_letter 31, waiting_letter 32]"
    by (simp add: print_world_def ready_to_print_def waiting_letter_def)
  then show ?thesis
    using print_run_queues_every_letter [of sample_api print_world]
    by (auto simp: waiting_letter_def)
qed

section \<open>The email that announces a print run\<close>

lemma postage_text_keys [simp]:
  "postage_text p @ ''_class_volume'' \<noteq> ''total_volume''"
  "postage_text p @ ''_class_sheets'' \<noteq> ''total_volume''"
  "postage_text p @ ''_class_volume'' \<noteq> ''total_sheets''"
  "postage_text p @ ''_class_sheets'' \<noteq> ''total_sheets''"
proof -
  have "p \<in> {None, Some Europe, Some Netherlands, Some RestOfWorld}"
    by (cases p) (auto intro: postage.exhaust)
  then show "postage_text p @ ''_class_volume'' \<noteq> ''total_volume''"
    "postage_text p @ ''_class_sheets'' \<noteq> ''total_volume''"
    "postage_text p @ ''_class_volume'' \<noteq> ''total_sheets''"
    "postage_text p @ ''_class_sheets'' \<noteq> ''total_sheets''"
    by (auto simp: postage_text_def)
qed

lemma volume_counts_totals:
  assumes "map_of d ''total_volume'' = Some a" "map_of d ''total_sheets'' = Some b"
  shows "map_of (fold add_volume vs d) ''total_volume'' = Some (a + (\<Sum>v\<leftarrow>vs. int (fst v)))
    \<and> map_of (fold add_volume vs d) ''total_sheets'' = Some (b + (\<Sum>v\<leftarrow>vs. fst (snd v)))"
  using assms
proof (induction vs arbitrary: d a b)
  case Nil
  then show ?case by simp
next
  case (Cons v vs)
  have "map_of (add_volume v d) ''total_volume'' = Some (a + int (fst v))"
    "map_of (add_volume v d) ''total_sheets'' = Some (b + fst (snd v))"
    using Cons.prems by (auto simp: add_volume_def dict_add_def split: prod.splits)
  from Cons.IH [OF this] show ?case by simp
qed

definition volume_classes :: "string list" where
  \<comment> \<open>the fields of the email for the classes of post\<close>
  "volume_classes =
     [''first_class_volume'', ''second_class_volume'', ''economy_mail_volume'', ''international_volume'',
      ''first_class_sheets'', ''second_class_sheets'', ''economy_mail_sheets'', ''international_sheets'']"

lemma volume_classes_postage:
  assumes "k \<in> set volume_classes"
  shows "k \<noteq> postage_text p @ ''_class_volume''" "k \<noteq> postage_text p @ ''_class_sheets''"
proof -
  have "p \<in> {None, Some Europe, Some Netherlands, Some RestOfWorld}"
    by (cases p) (auto intro: postage.exhaust)
  then show "k \<noteq> postage_text p @ ''_class_volume''" "k \<noteq> postage_text p @ ''_class_sheets''"
    using assms by (auto simp: postage_text_def volume_classes_def)
qed

lemma volume_counts_other:
  assumes "k \<notin> {''total_volume'', ''total_sheets''}"
    and "\<And>v. v \<in> set vs \<Longrightarrow> k \<noteq> postage_text (snd (snd v)) @ ''_class_volume''"
    and "\<And>v. v \<in> set vs \<Longrightarrow> k \<noteq> postage_text (snd (snd v)) @ ''_class_sheets''"
  shows "map_of (fold add_volume vs d) k = map_of d k"
  using assms
proof (induction vs arbitrary: d)
  case Nil
  then show ?case by simp
next
  case (Cons v vs)
  have "map_of (add_volume v d) k = map_of d k"
    using Cons.prems(1) Cons.prems(2,3) [of v] by (auto simp: add_volume_def dict_add_def split: prod.splits)
  moreover have "map_of (fold add_volume vs (add_volume v d)) k = map_of (add_volume v d) k"
    by (rule Cons.IH) (use Cons.prems in auto)
  ultimately show ?case by simp
qed

lemma sum_over_groups:
  fixes h :: "'a list \<Rightarrow> int"
  assumes "h [] = 0"
  shows "(\<Sum>p\<leftarrow>filter (\<lambda>p. g p \<noteq> []) ps. h (g p)) = (\<Sum>p\<leftarrow>ps. h (g p))"
  using assms by (induction ps) auto

lemma sum_over_postage:
  fixes f :: "notification \<Rightarrow> int"
  shows "(\<Sum>p\<leftarrow>[Some Europe, Some Netherlands, Some RestOfWorld, None].
          \<Sum>n\<leftarrow>filter (\<lambda>n. n_postage n = p) rows. f n) = (\<Sum>n\<leftarrow>rows. f n)"
proof (induction rows)
  case Nil
  then show ?case by simp
next
  case (Cons n rows)
  have "n_postage n \<in> {Some Europe, Some Netherlands, Some RestOfWorld, None}"
    by (cases "n_postage n") (auto intro: postage.exhaust)
  then show ?case using Cons by auto
qed

lemma volumes_sum:
  fixes g :: "postage option \<Rightarrow> notification list"
  assumes "vs = map (\<lambda>p. (length (g p), sum_list (map n_billable_units (g p)), p)) ps"
  shows "(\<Sum>v\<leftarrow>vs. int (fst v)) = (\<Sum>p\<leftarrow>ps. \<Sum>n\<leftarrow>g p. 1)"
    "(\<Sum>v\<leftarrow>vs. fst (snd v)) = (\<Sum>p\<leftarrow>ps. \<Sum>n\<leftarrow>g p. n_billable_units n)"
  by (simp_all add: assms comp_def sum_list_triv)

text \<open>
  The email that announces a print run counts the letters created before its deadline: the
  total is their number and the sheets are those they are billed for. The four counts per class
  of post, which the email's template names first class, second class, economy and
  international, stay at zero: no postage of this program has one of these names.
\<close>

theorem volume_email_totals:
  fixes env w
  defines "counts deadline \<equiv> map_of
    (volume_counts (dao_get_letters_and_sheets_volume_by_postage env deadline w))"
  shows "counts deadline ''total_volume'' = Some (int (length (dao_get_letters_to_be_printed env deadline w)))
    \<and> counts deadline ''total_sheets'' = Some (\<Sum>n\<leftarrow>filter (\<lambda>n. n_created_at n < lib_bst_to_utc env deadline
        \<and> ready_to_print n) (w_notifications w). n_billable_units n)
    \<and> list_all (\<lambda>k. counts deadline k = Some 0) volume_classes"
proof -
  let ?rows = "filter (\<lambda>n. n_created_at n < lib_bst_to_utc env deadline \<and> ready_to_print n) (w_notifications w)"
  let ?vs = "dao_get_letters_and_sheets_volume_by_postage env deadline w"
  have vs: "?vs = map (\<lambda>p. (length (filter (\<lambda>n. n_postage n = p) ?rows),
        sum_list (map n_billable_units (filter (\<lambda>n. n_postage n = p) ?rows)), p))
      (filter (\<lambda>p. filter (\<lambda>n. n_postage n = p) ?rows \<noteq> [])
        [Some Europe, Some Netherlands, Some RestOfWorld, None])"
    by (simp only: dao_get_letters_and_sheets_volume_by_postage_def Let_def)
  have sums: "(\<Sum>v\<leftarrow>?vs. int (fst v)) = (\<Sum>n\<leftarrow>?rows. 1)"
    "(\<Sum>v\<leftarrow>?vs. fst (snd v)) = (\<Sum>n\<leftarrow>?rows. n_billable_units n)"
    using volumes_sum [OF vs]
      sum_over_groups [of "\<lambda>ns. \<Sum>n\<leftarrow>ns. 1" "\<lambda>p. filter (\<lambda>n. n_postage n = p) ?rows"]
      sum_over_groups [of "\<lambda>ns. \<Sum>n\<leftarrow>ns. n_billable_units n" "\<lambda>p. filter (\<lambda>n. n_postage n = p) ?rows"]
    by (simp_all only: sum_over_postage list.map(1) sum_list.Nil)
  have "counts deadline k = map_of volume_totals k" if "k \<in> set volume_classes" for k
    unfolding counts_def volume_counts_def
    by (rule volume_counts_other) (use that volume_classes_postage in \<open>auto simp: volume_classes_def\<close>)
  then have "list_all (\<lambda>k. counts deadline k = Some 0) volume_classes"
    by (simp add: volume_totals_def volume_classes_def)
  moreover have "counts deadline ''total_volume'' = Some (0 + (\<Sum>v\<leftarrow>?vs. int (fst v)))
      \<and> counts deadline ''total_sheets'' = Some (0 + (\<Sum>v\<leftarrow>?vs. fst (snd v)))"
    unfolding counts_def volume_counts_def by (rule volume_counts_totals) (simp_all add: volume_totals_def)
  ultimately show ?thesis
    unfolding sums by (simp add: dao_get_letters_to_be_printed_def sum_list_triv)
qed

section \<open>A checked file\<close>

definition awaits_file :: "notification \<Rightarrow> string \<Rightarrow> world \<Rightarrow> bool" where
  \<comment> \<open>the letter waits for the checks of its file, and its reference is its own\<close>
  "awaits_file n r w \<longleftrightarrow>
     distinct_rows n_id (w_notifications w) \<and> find_row n_id (n_id n) (w_notifications w) = Some n
     \<and> n_type n = Letter \<and> n_status n = PendingVirusCheck \<and> n_reference n = Some r
     \<and> filter (\<lambda>m. n_reference m = Some r) (w_notifications w) = [n]"

lemma get_by_id_raise:
  "distinct_rows n_id (w_notifications w) \<Longrightarrow> find_row n_id i (w_notifications w) = Some n \<Longrightarrow>
   get_notification_by_id_raise i None w = Inr n"
  by (simp add: get_notification_by_id_raise_def query_one_def filter_key)

lemma pdf_status_row_fields [simp]:
  "n_id (pdf_status_row ll s u a t n) = n_id n" "n_type (pdf_status_row ll s u a t n) = n_type n"
  "n_status (pdf_status_row ll s u a t n) = s" "n_billable_units (pdf_status_row ll s u a t n) = u"
  "n_reference (pdf_status_row ll s u a t n) = n_reference n"
  "n_created_at (pdf_status_row ll s u a t n) = n_created_at n"
  "n_key_type (pdf_status_row ll s u a t n) = n_key_type n"
  by (simp_all add: pdf_status_row_def Let_def split: option.split)

lemma pdf_status_row_postage:
  "n_postage n \<noteq> None \<Longrightarrow> n_postage (pdf_status_row ll s u a t n) \<noteq> None"
  by (auto simp: pdf_status_row_def Let_def split: option.split)

lemma update_pdf_status_waiting:
  assumes "awaits_file n r w"
  shows "update_letter_pdf_status ll (Some r) s u a w =
    (Inr 1, save_notification (pdf_status_row ll s u a (w_now w) n) w)"
proof -
  have one: "filter (\<lambda>m. n_reference m = Some r) (w_notifications w) = [n]"
    and d: "distinct_rows n_id (w_notifications w)"
    using assms by (simp_all add: awaits_file_def)
  have "update_rows (\<lambda>m. n_reference m = Some r) (pdf_status_row ll s u a (w_now w)) (w_notifications w)
      = save_row n_id (pdf_status_row ll s u a (w_now w) n) (w_notifications w)"
    by (rule update_rows_unique [OF d one]) simp
  then show ?thesis
    unfolding update_letter_pdf_status_def dao_update_notifications_by_reference_def in_one_reference
    by (simp add: one save_notification_def)
qed

lemma s3_save_notification [simp]: "s3_get b k (save_notification n w) = s3_get b k w"
  "s3_list b p (save_notification n w) = s3_list b p w"
  by (simp_all add: s3_get_def s3_list_def save_notification_def)

lemma s3_list_delete_other [simp]: "b \<noteq> b' \<Longrightarrow> s3_list b p (s3_delete b' k w) = s3_list b p w"
proof -
  assume "b \<noteq> b'"
  then have "filter (\<lambda>((a, x), y). a = b \<and> prefix p x) (filter (\<lambda>(x, y). x \<noteq> (b', k)) xs) =
      filter (\<lambda>((a, x), y). a = b \<and> prefix p x) xs" for xs :: "((string \<times> string) \<times> s3_object) list"
    by (induction xs) auto
  then show ?thesis by (simp add: s3_list_def s3_delete_def)
qed

lemma notifications_s3 [simp]:
  "w_notifications (s3_put b k obj w) = w_notifications w"
  "w_notifications (s3_delete b k w) = w_notifications w"
  by (simp_all add: s3_put_def s3_delete_def)

lemma upper_folder [simp]: "py_upper (get_folder_name env t) = get_folder_name env t"
proof -
  have small: "upper_char c = c" if "(of_char c :: nat) < 97" for c using that by (simp add: upper_char_def)
  have digit: "upper_char (digit_char d) = digit_char d" if "d < 10" for d
    using that by (intro small) (simp add: digit_char_def)
  have nat: "map upper_char (nat_str m) = nat_str m" for m
    by (auto simp: nat_str_def intro!: map_idI digit dest: nat_digits_decimal)
  have minus: "upper_char (CHR ''-'') = CHR ''-''" "upper_char (CHR ''0'') = CHR ''0''"
    "upper_char (CHR ''/'') = CHR ''/''" by (simp_all add: upper_char_def)
  have "map upper_char (int_str i) = int_str i" for i by (simp add: int_str_def nat minus)
  then show ?thesis
    by (simp add: py_upper_def get_folder_name_def date_str_def zfill_def minus split: prod.split)
qed

abbreviation letter_bucket :: "notification \<Rightarrow> string" where
  "letter_bucket n \<equiv> (if n_key_type n = TestKey then S3_BUCKET_TEST_LETTERS else S3_BUCKET_LETTERS_PDF)"

abbreviation letter_prefix :: "env \<Rightarrow> notification \<Rightarrow> string" where
  "letter_prefix env n \<equiv> py_upper ((if n_key_type n = TestKey then [] else get_folder_name env (n_created_at n))
     @ ''NOTIFY.'' @ format_reference (n_reference n))"

lemma stored_under_prefix:
  assumes "generate_letter_pdf_filename env (n_reference n) t True p = Inr name"
  shows "prefix (letter_prefix env n)
    ((if n_key_type n = TestKey then [] else get_folder_name env (n_created_at n)) @ name)"
  using generated_name_prefix [OF assms]
  by (cases "n_key_type n = TestKey") (simp_all add: py_upper_append [of "get_folder_name env (n_created_at n)"])

lemma letter_found:
  assumes "n_status n \<noteq> ValidationFailed" "s3_list (letter_bucket n) (letter_prefix env n) w = key # ks"
    and "s3_get (letter_bucket n) key w = Some pdf"
  shows "get_letter_pdf_and_metadata env n w = Inr pdf"
proof -
  have "get_bucket_name_and_prefix_for_notification env n = (letter_bucket n, letter_prefix env n)"
    using assms(1) by (simp add: get_bucket_name_and_prefix_for_notification_def)
  then show ?thesis using assms(2,3) by (simp add: get_letter_pdf_and_metadata_def find_letter_pdf_in_s3_def)
qed

definition checked_letter :: "letters_lib \<Rightarrow> sanitise_data \<Rightarrow> world \<Rightarrow> notification \<Rightarrow> notification" where
  \<comment> \<open>the row once its file has been found valid\<close>
  "checked_letter ll d w n =
     pdf_status_row ll (if n_key_type n = TestKey then Delivered else Created)
       (get_billable_units_for_letter_page_count (sd_page_count d)) (sd_address d) (w_now w) n"

lemma store_valid_letter_effect:
  assumes n: "awaits_file n r w" and post: "n_postage n \<noteq> None"
    and stored: "s3_get S3_BUCKET_LETTER_SANITISE (sd_filename d) w = Some pdf"
    and alone: "s3_list (letter_bucket n) (letter_prefix env n) w = []"
  shows "\<exists>w'. store_valid_letter env ll n d w = (Inr (), w')
    \<and> find_row n_id (n_id n) (w_notifications w') = Some (checked_letter ll d w n)
    \<and> get_letter_pdf_and_metadata env (checked_letter ll d w n) w' = Inr pdf
    \<and> s3_get S3_BUCKET_LETTER_SANITISE (sd_filename d) w' = None
    \<and> s3_get S3_BUCKET_LETTERS_SCAN (sd_filename d) w' = None"
proof -
  define n' where "n' = checked_letter ll d w n"
  have ref: "n_reference n = Some r" using n by (simp add: awaits_file_def)
  let ?w1 = "save_notification n' w"
  have found: "find_row n_id (n_id n) (w_notifications ?w1) = Some n'"
    by (simp add: row_simps n'_def checked_letter_def)
  obtain p where p: "n_postage n' = Some p" using pdf_status_row_postage [OF post]
    unfolding n'_def checked_letter_def by blast
  then obtain name where name: "generate_letter_pdf_filename env (n_reference n') (n_created_at n') True (n_postage n') = Inr name"
    by (simp add: generate_letter_pdf_filename_def)
  have kt: "n_key_type n' = n_key_type n" "n_created_at n' = n_created_at n" "n_reference n' = n_reference n"
    "n_status n' \<noteq> ValidationFailed" by (simp_all add: n'_def checked_letter_def)
  let ?key = "(if n_key_type n = TestKey then [] else get_folder_name env (n_created_at n)) @ name"
  let ?w2 = "s3_delete S3_BUCKET_LETTER_SANITISE (sd_filename d) (s3_put (letter_bucket n) ?key pdf ?w1)"
  let ?w3 = "s3_delete S3_BUCKET_LETTERS_SCAN (sd_filename d) ?w2"
  have move: "move_sanitised_letter_to_test_or_live_pdf_bucket env (sd_filename d) (n_key_type n = TestKey)
      (n_created_at n') name ?w1 = (Inr (), ?w2)"
    by (cases pdf) (simp add: move_sanitised_letter_to_test_or_live_pdf_bucket_def move_s3_object_def stored kt)
  have "store_valid_letter env ll n d w = (Inr (), ?w3)"
    unfolding store_valid_letter_def ref
    by (simp add: op_bind_def update_pdf_status_waiting [OF n] found name move flip: n'_def checked_letter_def)
  moreover have "find_row n_id (n_id n) (w_notifications ?w3) = Some n'" using found by simp
  moreover have "get_letter_pdf_and_metadata env n' ?w3 = Inr pdf"
  proof -
    have "prefix (letter_prefix env n') ?key" using stored_under_prefix [OF name]
      by (simp add: kt cong: if_cong)
    moreover have "s3_list (letter_bucket n') (letter_prefix env n') ?w1 = []"
      using alone by (simp add: kt cong: if_cong)
    ultimately obtain ks where "s3_list (letter_bucket n') (letter_prefix env n')
        (s3_put (letter_bucket n') ?key pdf ?w1) = ?key # ks"
      using s3_list_put_alone by blast
    then have "s3_list (letter_bucket n') (letter_prefix env n') ?w3 = ?key # ks"
      by (simp add: kt bucket_defs)
    then show ?thesis by (rule letter_found [OF kt(4)]) (simp add: kt bucket_defs)
  qed
  moreover have "s3_get S3_BUCKET_LETTER_SANITISE (sd_filename d) ?w3 = None"
    "s3_get S3_BUCKET_LETTERS_SCAN (sd_filename d) ?w3 = None" by (simp_all add: bucket_defs)
  ultimately show ?thesis unfolding n'_def by blast
qed

lemma process_waiting:
  assumes "ll_decode ll data = Inr d" "awaits_file n r w" "sd_notification_id d = n_id n"
  shows "process_sanitised_letter env ll retries data w =
    (case (if sd_validation_status d = ''failed''
           then move_invalid_letter_and_update_status env ll n d w
           else store_valid_letter env ll n d w) of
       (Inr _, w') \<Rightarrow> (Inr (), w')
     | (Inl (Storage (BotoClientError m)), w') \<Rightarrow> give_up env (n_id n) [] w'
     | (Inl e, w') \<Rightarrow>
         retry_or_give_up env retries 15 (n_id n)
           (''RETRY FAILED: Max retries reached. The task process_sanitised_letter failed for notification ''
            @ uuid_str (n_id n) @ ''. Notification has been updated to technical-failure'') w')"
  using assms by (simp add: process_sanitised_letter_def get_by_id_raise awaits_file_def)

text \<open>
  C36: A file the checks found valid becomes the letter's PDF. The letter's row takes the sheets and
  the address of the answer and becomes ready to be printed, or delivered when it was sent
  with a test key; the file leaves the buckets of unchecked files, and
  \<open>get_letter_pdf_and_metadata\<close>, with which the print run fetches the PDF of a letter, returns
  exactly this file, unless an older file has the same name.
\<close>

theorem checked_file_is_the_letter:
  assumes "ll_decode ll data = Inr d" "awaits_file n r w" "sd_notification_id d = n_id n"
    and "sd_validation_status d \<noteq> ''failed''" "n_postage n \<noteq> None"
    and "s3_get S3_BUCKET_LETTER_SANITISE (sd_filename d) w = Some pdf"
    and "s3_list (letter_bucket n) (letter_prefix env n) w = []"
  shows "\<exists>n' w'. process_sanitised_letter env ll retries data w = (Inr (), w')
    \<and> find_row n_id (n_id n) (w_notifications w') = Some n'
    \<and> n_status n' = (if n_key_type n = TestKey then Delivered else Created)
    \<and> n_billable_units n' = get_billable_units_for_letter_page_count (sd_page_count d)
    \<and> get_letter_pdf_and_metadata env n' w' = Inr pdf
    \<and> s3_get S3_BUCKET_LETTER_SANITISE (sd_filename d) w' = None
    \<and> s3_get S3_BUCKET_LETTERS_SCAN (sd_filename d) w' = None"
proof -
  obtain w' where w': "store_valid_letter env ll n d w = (Inr (), w')"
    "find_row n_id (n_id n) (w_notifications w') = Some (checked_letter ll d w n)"
    "get_letter_pdf_and_metadata env (checked_letter ll d w n) w' = Inr pdf"
    "s3_get S3_BUCKET_LETTER_SANITISE (sd_filename d) w' = None"
    "s3_get S3_BUCKET_LETTERS_SCAN (sd_filename d) w' = None"
    using store_valid_letter_effect [OF assms(2,5-7)] by blast
  have "process_sanitised_letter env ll retries data w = (Inr (), w')"
    unfolding process_waiting [OF assms(1-3)] using assms(4) w'(1) by simp
  then show ?thesis using w'(2-5) by (intro exI conjI) (simp_all add: checked_letter_def)
qed

definition scanned_letter :: notification where
  "scanned_letter = sample_notification\<lparr>n_id := 41, n_type := Letter, n_status := PendingVirusCheck,
     n_reference := Some ''REF'', n_postage := Some Netherlands\<rparr>"

definition sample_answer :: sanitise_data where
  "sample_answer = \<lparr>sd_filename = ''NOTIFY.REF.PDF'', sd_notification_id = 41,
     sd_validation_status = ''passed'', sd_message = [], sd_invalid_pages = [],
     sd_page_count = Some 3, sd_address = Some ''Rue de la Loi''\<rparr>"

definition sample_letters_lib :: letters_lib where
  "sample_letters_lib = \<lparr>ll_decode = (\<lambda>s. Inr sample_answer), ll_postage = (\<lambda>a. Some Europe),
     ll_dvla_email_addresses = [''dvla@example.nl'']\<rparr>"

definition scanned_world :: world where
  "scanned_world = sample_world\<lparr>w_notifications := [sample_notification, scanned_letter],
     w_s3 := [((S3_BUCKET_LETTERS_SCAN, ''NOTIFY.REF.PDF''), (''original'', [])),
              ((S3_BUCKET_LETTER_SANITISE, ''NOTIFY.REF.PDF''), (''checked'', []))]\<rparr>"

lemma scanned_letter_fields [simp]:
  "n_id scanned_letter = 41" "n_type scanned_letter = Letter" "n_status scanned_letter = PendingVirusCheck"
  "n_reference scanned_letter = Some ''REF''" "n_postage scanned_letter = Some Netherlands"
  "n_key_type scanned_letter = NormalKey"
  by (simp_all add: scanned_letter_def)

lemma sample_answer_fields [simp]:
  "sd_filename sample_answer = ''NOTIFY.REF.PDF''" "sd_notification_id sample_answer = 41"
  "sd_validation_status sample_answer = ''passed''" "sd_page_count sample_answer = Some 3"
  "ll_decode sample_letters_lib s = Inr sample_answer"
  by (simp_all add: sample_answer_def sample_letters_lib_def)

lemma scanned_world_awaits: "awaits_file scanned_letter ''REF'' scanned_world"
  by (simp add: awaits_file_def scanned_world_def distinct_rows_def row_simps)

theorem checked_file_is_the_letter_witness:
  "\<exists>n' w'. process_sanitised_letter sample_env sample_letters_lib 0 ''data'' scanned_world = (Inr (), w')
    \<and> find_row n_id 41 (w_notifications w') = Some n' \<and> n_status n' = Created \<and> n_billable_units n' = 2
    \<and> get_letter_pdf_and_metadata sample_env n' w' = Inr (''checked'', [])"
proof -
  have "s3_list (letter_bucket scanned_letter) (letter_prefix sample_env scanned_letter) scanned_world = []"
    by (simp add: s3_list_def scanned_world_def bucket_defs)
  moreover have "s3_get S3_BUCKET_LETTER_SANITISE ''NOTIFY.REF.PDF'' scanned_world = Some (''checked'', [])"
    by (simp add: s3_get_def scanned_world_def bucket_defs)
  moreover have "get_billable_units_for_letter_page_count (Some 3) = 2"
    by (simp add: get_billable_units_for_letter_page_count_def)
  ultimately show ?thesis
    using checked_file_is_the_letter [of sample_letters_lib "''data''" sample_answer scanned_letter "''REF''"
        scanned_world "(''checked'', [])" sample_env 0] scanned_world_awaits by auto
qed

text \<open>
  A file the checks refused: the letter fails validation with no sheets to pay, and the file
  goes to the bucket of invalid letters with the reason in its metadata.
\<close>

theorem refused_file_is_kept:
  assumes "ll_decode ll data = Inr d" "awaits_file n r w" "sd_notification_id d = n_id n"
    and "sd_validation_status d = ''failed''" "sd_message d \<noteq> []"
    and "s3_get S3_BUCKET_LETTERS_SCAN (sd_filename d) w = Some (content, old)"
  shows "\<exists>n' w' meta. process_sanitised_letter env ll retries data w = (Inr (), w')
    \<and> find_row n_id (n_id n) (w_notifications w') = Some n'
    \<and> n_status n' = ValidationFailed \<and> n_billable_units n' = 0
    \<and> s3_get S3_BUCKET_INVALID_PDF (sd_filename d) w' = Some (content, meta)
    \<and> map_of meta ''message'' = Some (sd_message d)
    \<and> s3_get S3_BUCKET_LETTERS_SCAN (sd_filename d) w' = None"
proof -
  let ?f = "sd_filename d"
  define pages where "pages = (case sd_page_count d of None \<Rightarrow> 0 | Some p \<Rightarrow> p)"
  define meta where "meta = [(''message'', sd_message d)]
        @ (if sd_invalid_pages d \<noteq> [] then [(''invalid_pages'', json_int_list (sd_invalid_pages d))] else [])
        @ (if pages \<noteq> 0 then [(''page_count'', int_str pages)] else [])"
  have meta: "meta \<noteq> []" "map_of meta ''message'' = Some (sd_message d)" by (simp_all add: meta_def)
  define w1 where "w1 = s3_delete S3_BUCKET_LETTERS_SCAN ?f (s3_put S3_BUCKET_INVALID_PDF ?f (content, meta) w)"
  define w2 where "w2 = s3_delete S3_BUCKET_LETTERS_SCAN ?f w1"
  have move: "move_scan_to_invalid_pdf_bucket ?f (sd_message d) (sd_invalid_pages d) pages w = (Inr (), w1)"
  proof -
    have "move_scan_to_invalid_pdf_bucket ?f (sd_message d) (sd_invalid_pages d) pages w =
        move_s3_object S3_BUCKET_LETTERS_SCAN ?f S3_BUCKET_INVALID_PDF ?f meta w"
      using assms(5) by (simp add: move_scan_to_invalid_pdf_bucket_def meta_def)
    then show ?thesis using assms(6) meta(1) by (simp add: move_s3_object_def w1_def)
  qed
  have waits: "awaits_file n r w2" "n_reference n = Some r"
    using assms(2) by (simp_all add: awaits_file_def w2_def w1_def)
  let ?n' = "pdf_status_row ll ValidationFailed 0 None (w_now w2) n"
  have "move_invalid_letter_and_update_status env ll n d w = (Inr (), save_notification ?n' w2)"
    by (simp add: move_invalid_letter_and_update_status_def move op_bind_def op_return_def waits(2)
        update_pdf_status_waiting [OF waits(1)] flip: pages_def w2_def)
  then have "process_sanitised_letter env ll retries data w = (Inr (), save_notification ?n' w2)"
    unfolding process_waiting [OF assms(1-3)] using assms(4) by simp
  moreover have "find_row n_id (n_id n) (w_notifications (save_notification ?n' w2)) = Some ?n'"
    by (simp add: row_simps)
  moreover have "s3_get S3_BUCKET_INVALID_PDF ?f (save_notification ?n' w2) = Some (content, meta)"
    "s3_get S3_BUCKET_LETTERS_SCAN ?f (save_notification ?n' w2) = None"
    by (simp_all add: bucket_defs w2_def w1_def)
  ultimately show ?thesis using meta(2) by (metis pdf_status_row_fields(3,4))
qed

definition refusing_lib :: letters_lib where
  "refusing_lib = sample_letters_lib\<lparr>ll_decode := (\<lambda>s. Inr (sample_answer
     \<lparr>sd_validation_status := ''failed'', sd_message := ''too-long''\<rparr>))\<rparr>"

theorem refused_file_is_kept_witness:
  "\<exists>n' w' meta. process_sanitised_letter sample_env refusing_lib 0 ''data'' scanned_world = (Inr (), w')
    \<and> find_row n_id 41 (w_notifications w') = Some n' \<and> n_status n' = ValidationFailed
    \<and> s3_get S3_BUCKET_INVALID_PDF ''NOTIFY.REF.PDF'' w' = Some (''original'', meta)
    \<and> map_of meta ''message'' = Some ''too-long''"
proof -
  have "s3_get S3_BUCKET_LETTERS_SCAN ''NOTIFY.REF.PDF'' scanned_world = Some (''original'', [])"
    by (simp add: s3_get_def scanned_world_def)
  then show ?thesis
    using refused_file_is_kept [of refusing_lib "''data''"
        "sample_answer\<lparr>sd_validation_status := ''failed'', sd_message := ''too-long''\<rparr>" scanned_letter "''REF''"
        scanned_world "''original''" "[]" sample_env 0] scanned_world_awaits
    by (fastforce simp: refusing_lib_def)
qed

text \<open>
  When the checked file is missing, the row has already been updated: a live letter becomes a
  technical failure, but one sent with a test key stays delivered, and either way a second run
  of the task does nothing, since the letter no longer waits for its file.
\<close>

theorem missing_checked_file:
  assumes "ll_decode ll data = Inr d" "awaits_file n r w" "sd_notification_id d = n_id n"
    and "sd_validation_status d \<noteq> ''failed''" "n_postage n \<noteq> None"
    and "s3_get S3_BUCKET_LETTER_SANITISE (sd_filename d) w = None"
  shows "\<exists>n' w'. process_sanitised_letter env ll retries data w = (Inl (technical_failure_exn []), w')
    \<and> find_row n_id (n_id n) (w_notifications w') = Some n'
    \<and> n_status n' = (if n_key_type n = TestKey then Delivered else TechnicalFailure)
    \<and> w_s3 w' = w_s3 w
    \<and> process_sanitised_letter env ll again data w' = (Inr (), w')"
proof -
  have ref: "n_reference n = Some r" and ty: "n_type n = Letter"
    and dist: "distinct_rows n_id (w_notifications w)" using assms(2) by (simp_all add: awaits_file_def)
  define n1 where "n1 = checked_letter ll d w n"
  let ?w1 = "save_notification n1 w"
  have n1: "n_id n1 = n_id n" "n_type n1 = Letter"
    "n_status n1 = (if n_key_type n = TestKey then Delivered else Created)"
    by (simp_all add: n1_def checked_letter_def ty)
  have found: "find_row n_id (n_id n) (w_notifications ?w1) = Some n1" by (simp add: row_simps n1)
  have "n_postage n1 \<noteq> None" using pdf_status_row_postage [OF assms(5)]
    unfolding n1_def checked_letter_def by blast
  then obtain name where name: "generate_letter_pdf_filename env (n_reference n1) (n_created_at n1) True (n_postage n1) = Inr name"
    by (auto simp: generate_letter_pdf_filename_def)
  have "s3_get S3_BUCKET_LETTER_SANITISE (sd_filename d) ?w1 = None" using assms(6) by simp
  then have "store_valid_letter env ll n d w = (Inl (Storage (BotoClientError ''404'')), ?w1)"
    unfolding store_valid_letter_def ref
    by (simp add: op_bind_def update_pdf_status_waiting [OF assms(2)] found name
        move_sanitised_letter_to_test_or_live_pdf_bucket_def move_s3_object_def flip: checked_letter_def n1_def)
  then have run: "process_sanitised_letter env ll retries data w = give_up env (n_id n) [] ?w1"
    unfolding process_waiting [OF assms(1-3)] using assms(4) by simp
  have second: "process_sanitised_letter env ll again data v = (Inr (), v)"
    if "distinct_rows n_id (w_notifications v)" "find_row n_id (n_id n) (w_notifications v) = Some m"
      "n_status m \<noteq> PendingVirusCheck" for v m
    using that assms(1,3) by (simp add: process_sanitised_letter_def get_by_id_raise)
  have d1: "distinct_rows n_id (w_notifications ?w1)" using dist by (simp add: save_notification_def)
  show ?thesis
  proof (cases "n_key_type n = TestKey")
    case True
    then have "give_up env (n_id n) [] ?w1 = (Inl (technical_failure_exn []), ?w1)"
      by (simp add: give_up_def update_by_id_final [OF found] n1 updatable_statuses_def)
    moreover have "w_s3 ?w1 = w_s3 w" by (simp add: save_notification_def)
    ultimately show ?thesis using True found second [OF d1 found] n1 run by auto
  next
    case False
    let ?n2 = "receipt_row None TechnicalFailure None n1 (w_now ?w1)"
    have "n_status n1 \<in> set updatable_statuses" "\<not> (n_type n1 = Sms \<and> n_international n1)"
      using False n1 by (simp_all add: updatable_statuses_def)
    then have "give_up env (n_id n) [] ?w1 = (Inl (technical_failure_exn []), save_notification ?n2 ?w1)"
      by (simp add: give_up_def update_by_id_national [OF found])
    moreover have "find_row n_id (n_id n) (w_notifications (save_notification ?n2 ?w1)) = Some ?n2"
      by (simp add: row_simps n1)
    moreover have "n_status ?n2 = TechnicalFailure"
      by (simp add: receipt_row_def decide_permanent_temporary_failure_def Let_def)
    moreover have "distinct_rows n_id (w_notifications (save_notification ?n2 ?w1))"
      using d1 by (simp add: save_notification_def)
    moreover have "w_s3 (save_notification ?n2 ?w1) = w_s3 w" by (simp add: save_notification_def)
    moreover note second [of "save_notification ?n2 ?w1" ?n2]
    ultimately show ?thesis using False run by auto
  qed
qed

definition lost_file_world :: world where
  "lost_file_world = scanned_world\<lparr>w_notifications := [scanned_letter\<lparr>n_key_type := TestKey\<rparr>],
     w_s3 := [((S3_BUCKET_LETTERS_SCAN, ''NOTIFY.REF.PDF''), (''original'', []))]\<rparr>"

theorem missing_checked_file_witness:
  "\<exists>n' w'. process_sanitised_letter sample_env sample_letters_lib 0 ''data'' lost_file_world =
      (Inl (technical_failure_exn []), w')
    \<and> find_row n_id 41 (w_notifications w') = Some n' \<and> n_status n' = Delivered
    \<and> process_sanitised_letter sample_env sample_letters_lib 1 ''data'' w' = (Inr (), w')"
proof -
  have "s3_get S3_BUCKET_LETTER_SANITISE ''NOTIFY.REF.PDF'' lost_file_world = None"
    by (simp add: s3_get_def lost_file_world_def bucket_defs)
  moreover have "awaits_file (scanned_letter\<lparr>n_key_type := TestKey\<rparr>) ''REF'' lost_file_world"
    by (simp add: awaits_file_def lost_file_world_def distinct_rows_def row_simps)
  ultimately show ?thesis
    using missing_checked_file [of sample_letters_lib "''data''" sample_answer
        "scanned_letter\<lparr>n_key_type := TestKey\<rparr>" "''REF''" lost_file_world sample_env 0 1] by auto
qed

section \<open>Failures the tasks mean to survive\<close>

lemma retry_of_exception:
  assumes "celery_retry env" "e \<noteq> Task MaxRetriesExceededError"
  shows "lib_retry env retries limit (Some e) \<noteq> Task MaxRetriesExceededError"
proof -
  have "if retries < limit then \<exists>m. lib_retry env retries limit (Some e) = Task (CeleryRetry m)
      else lib_retry env retries limit (Some e) = e"
    using assms(1) unfolding celery_retry_def by (metis option.case(2))
  then show ?thesis using assms(2) by (auto split: if_splits)
qed

text \<open>
  A letter whose PDF cannot be asked for is never given up: after the last retry
  \<open>self.retry(exc=e)\<close> raises the exception itself and not the one the code waits for, so that
  however often the task has run, a failure leaves the letter as it was, still to be created.
\<close>

theorem pdf_request_never_gives_up:
  assumes "celery_retry env" "get_pdf_for_templated_letter env lib retries i w = (Inl e, w')"
    and "\<And>q t. al_publish lib q t \<noteq> Some (Task MaxRetriesExceededError)"
  shows "w' = w"
proof -
  obtain e0 where fail: "send_pdf_request env lib i w = (Inl e0, w)" and e0: "e0 \<noteq> Task MaxRetriesExceededError"
  proof (cases "res_bind (get_notification_by_id_raise i None w) (\<lambda>n.
       res_bind (generate_letter_pdf_filename env (n_reference n) (n_created_at n)
         (n_key_type n = TestKey) (n_postage n)) (\<lambda>name. letter_data i n name w))")
    case (Inl x)
    moreover have "x \<noteq> Task MaxRetriesExceededError"
      using Inl by (auto simp: res_bind_Inl_iff get_notification_by_id_raise_def query_one_def
          generate_letter_pdf_filename_def letter_data_def Let_def split: list.splits option.splits if_splits sum.splits)
    ultimately show ?thesis by (intro that [of x]) (simp_all add: send_pdf_request_def)
  next
    case (Inr d)
    then show ?thesis
      using assms(2,3) that
      by (auto simp: get_pdf_for_templated_letter_def send_pdf_request_def apply_async_def split: option.splits)
  qed
  show ?thesis
    using assms(2) retry_of_exception [OF assms(1) e0, of retries 15]
    by (auto simp: get_pdf_for_templated_letter_def fail split: exn.splits task_exn.splits)
qed

theorem pdf_request_never_gives_up_witness:
  "snd (get_pdf_for_templated_letter sample_env sample_api 15 99 print_world) = print_world"
proof -
  obtain e w' where run: "get_pdf_for_templated_letter sample_env sample_api 15 99 print_world = (Inl e, w')"
    by (simp add: get_pdf_for_templated_letter_def send_pdf_request_def get_notification_by_id_raise_def
        query_one_def print_world_def waiting_letter_def sample_env_def)
  have "w' = print_world" by (rule pdf_request_never_gives_up [OF sample_celery_retry run]) simp
  then show ?thesis by (simp add: run)
qed

text \<open>
  A scanned file whose name has no reference, or one of no letter, makes \<open>sanitise_letter\<close> fail
  with an unbound name instead of being retried: a file that arrives before its letter is
  committed is lost to the task.
\<close>

theorem unknown_file_is_not_retried:
  assumes "res_bind (get_reference_from_filename f) (\<lambda>r. dao_get_notification_by_reference r w) = Inl e"
  shows "sanitise_letter env lib retries (Some f) w = (Inl (Py UnboundLocalError), w)"
  using assms by (simp add: sanitise_letter_def)

theorem unknown_file_is_not_retried_witness:
  "sanitise_letter sample_env sample_api 0 (Some ''NOTIFY.XYZ.PDF'') scanned_world =
     (Inl (Py UnboundLocalError), scanned_world)"
proof -
  have "get_reference_from_filename ''NOTIFY.XYZ.PDF'' = Inr ''XYZ''" by code_simp
  then have "res_bind (get_reference_from_filename ''NOTIFY.XYZ.PDF'')
      (\<lambda>r. dao_get_notification_by_reference r scanned_world) = Inl (Db NoResultFound)"
    by (simp add: dao_get_notification_by_reference_def query_one_def scanned_world_def)
  then show ?thesis by (rule unknown_file_is_not_retried)
qed

end
