(* ===== verification/Unsubscribe.thy ===== *)
theory Unsubscribe
  imports Delivery "HOL-Library.Multiset"
begin

text \<open>
  Requests to unsubscribe: their tables (\<^verbatim>\<open>app/dao/unsubscribe_request_dao.py\<close>), the link in an email
  (\<^verbatim>\<open>app/one_click_unsubscribe/rest.py\<close>), the endpoints with which a service collects them in a
  report and marks it as processed (\<^verbatim>\<open>app/service/rest.py\<close>), and the nightly tasks that archive
  them (\<^verbatim>\<open>app/celery/nightly_tasks.py\<close>). The check of a link's token is a parameter; the cached
  statistics in Redis are left out.
\<close>

section \<open>The tables\<close>

definition new_unsubscribe_request ::
  "uuid \<Rightarrow> time \<Rightarrow> uuid \<Rightarrow> uuid \<Rightarrow> uuid \<Rightarrow> int \<Rightarrow> string \<Rightarrow> unsubscribe_request" where
  "new_unsubscribe_request i now notification_id service_id template_id template_version email_address =
     \<lparr>ur_id = i, ur_notification_id = notification_id, ur_service_id = service_id,
      ur_template_id = template_id, ur_template_version = template_version,
      ur_email_address = email_address, ur_created_at = now, ur_report_id = None\<rparr>"

definition create_unsubscribe_request_dao ::
  "env \<Rightarrow> (uuid \<Rightarrow> time \<Rightarrow> unsubscribe_request) \<Rightarrow> world \<Rightarrow> world" where
  \<comment> \<open>the row without the columns that have defaults\<close>
  "create_unsubscribe_request_dao env unsubscribe_data w =
     (let (i, w1) = create_uuid env w
      in w1\<lparr>w_unsubscribe_requests := w_unsubscribe_requests w1 @ [unsubscribe_data i (w_now w1)]\<rparr>)"

definition query_one_or_none :: "('r \<Rightarrow> bool) \<Rightarrow> 'r list \<Rightarrow> 'r option result" where
  "query_one_or_none p rows =
     (case filter p rows of [] \<Rightarrow> Inr None | [r] \<Rightarrow> Inr (Some r) | _ \<Rightarrow> Inl (Db MultipleResultsFound))"

definition get_unsubscribe_request_by_notification_id_dao ::
  "uuid \<Rightarrow> world \<Rightarrow> unsubscribe_request option result" where
  "get_unsubscribe_request_by_notification_id_dao notification_id w =
     query_one_or_none (\<lambda>r. ur_notification_id r = notification_id) (w_unsubscribe_requests w)"

definition get_unsubscribe_request_report_by_id_dao :: "uuid \<Rightarrow> world \<Rightarrow> unsubscribe_report option" where
  "get_unsubscribe_request_report_by_id_dao batch_id w = find_row up_id batch_id (w_unsubscribe_reports w)"

definition is_processed :: "unsubscribe_request \<Rightarrow> world \<Rightarrow> bool" where
  \<comment> \<open>the outer join with its report: a missing one has no date\<close>
  "is_processed r w =
     (case ur_report_id r of
        None \<Rightarrow> False
      | Some b \<Rightarrow> (case get_unsubscribe_request_report_by_id_dao b w of
                    None \<Rightarrow> False | Some p \<Rightarrow> up_processed_by_service_at p \<noteq> None))"

definition get_unsubscribe_requests_statistics_dao :: "uuid \<Rightarrow> world \<Rightarrow> (nat \<times> time) option" where
  \<comment> \<open>no group without rows\<close>
  "get_unsubscribe_requests_statistics_dao service_id w =
     (let rows = filter (\<lambda>r. ur_service_id r = service_id \<and> \<not> is_processed r w) (w_unsubscribe_requests w)
      in if rows = [] then None else Some (length rows, Max (ur_created_at ` set rows)))"

definition get_latest_unsubscribe_request_date_dao :: "uuid \<Rightarrow> world \<Rightarrow> time option" where
  "get_latest_unsubscribe_request_date_dao service_id w =
     (let rows = filter (\<lambda>r. ur_service_id r = service_id) (w_unsubscribe_requests w)
      in if rows = [] then None else Some (Max (ur_created_at ` set rows)))"

definition get_unsubscribe_request_reports_dao :: "uuid \<Rightarrow> world \<Rightarrow> unsubscribe_report list" where
  \<comment> \<open>the inner join leaves out a report without requests\<close>
  "get_unsubscribe_request_reports_dao service_id w =
     rev (sort_key up_latest_timestamp (filter (\<lambda>p. up_service_id p = service_id
       \<and> (\<exists>r \<in> set (w_unsubscribe_requests w). ur_report_id r = Some (up_id p))) (w_unsubscribe_reports w)))"

definition unbatched :: "uuid \<Rightarrow> unsubscribe_request \<Rightarrow> bool" where
  "unbatched service_id r \<longleftrightarrow> ur_service_id r = service_id \<and> ur_report_id r = None"

definition get_unbatched_unsubscribe_requests_dao :: "uuid \<Rightarrow> world \<Rightarrow> unsubscribe_request list" where
  "get_unbatched_unsubscribe_requests_dao service_id w =
     rev (sort_key ur_created_at (filter (unbatched service_id) (w_unsubscribe_requests w)))"

definition create_unsubscribe_request_reports_dao :: "unsubscribe_report \<Rightarrow> world \<Rightarrow> world" where
  "create_unsubscribe_request_reports_dao p w =
     w\<lparr>w_unsubscribe_reports := w_unsubscribe_reports w @ [p]\<rparr>"

definition update_unsubscribe_request_report_processed_by_date_dao ::
  "unsubscribe_report \<Rightarrow> bool \<Rightarrow> world \<Rightarrow> world" where
  "update_unsubscribe_request_report_processed_by_date_dao p report_has_been_processed w =
     w\<lparr>w_unsubscribe_reports := save_row up_id
         (p\<lparr>up_processed_by_service_at := (if report_has_been_processed then Some (w_now w) else None)\<rparr>)
         (w_unsubscribe_reports w)\<rparr>"

definition assign_unbatched_unsubscribe_requests_to_report_dao ::
  "uuid \<Rightarrow> uuid \<Rightarrow> time \<Rightarrow> time \<Rightarrow> world \<Rightarrow> world" where
  "assign_unbatched_unsubscribe_requests_to_report_dao report_id service_id earliest latest w =
     w\<lparr>w_unsubscribe_requests := update_rows
         (\<lambda>r. unbatched service_id r \<and> earliest \<le> ur_created_at r \<and> ur_created_at r \<le> latest)
         (\<lambda>r. r\<lparr>ur_report_id := Some report_id\<rparr>) (w_unsubscribe_requests w)\<rparr>"

definition get_service_ids_with_unsubscribe_requests :: "world \<Rightarrow> uuid list" where
  \<comment> \<open>a set: the order is not specified\<close>
  "get_service_ids_with_unsubscribe_requests w = remdups (map ur_service_id (w_unsubscribe_requests w))"

definition archive_unsubscribe_requests_from_query :: "(unsubscribe_request \<Rightarrow> bool) \<Rightarrow> nat op" where
  \<comment> \<open>the insertion fails when an id is archived already\<close>
  "archive_unsubscribe_requests_from_query query w =
     (let rows = filter query (w_unsubscribe_requests w)
      in if rows = [] then (Inr 0, w)
         else if list_ex (\<lambda>r. ur_id r \<in> uh_id ` set (w_unsubscribe_history w)) rows
         then (Inl (Db OtherSQLAlchemyError), w)
         else
           (let doomed = (\<lambda>r. ur_id r \<in> ur_id ` set rows)
            in (Inr (length (filter doomed (w_unsubscribe_requests w))),
                w\<lparr>w_unsubscribe_history := w_unsubscribe_history w @ map serialize_for_history rows,
                  w_unsubscribe_requests := delete_rows doomed (w_unsubscribe_requests w)\<rparr>)))"

definition batch_created_before :: "time \<Rightarrow> unsubscribe_request \<Rightarrow> world \<Rightarrow> bool" where
  \<comment> \<open>the inner join with its report; a report without a date of creation does not match\<close>
  "batch_created_before t r w =
     (case ur_report_id r of
        None \<Rightarrow> False
      | Some b \<Rightarrow> (case get_unsubscribe_request_report_by_id_dao b w of
                    None \<Rightarrow> False
                  | Some p \<Rightarrow> (case up_created_at p of None \<Rightarrow> False | Some c \<Rightarrow> c < t)))"

definition dao_archive_batched_unsubscribe_requests :: "env \<Rightarrow> uuid \<Rightarrow> nat op" where
  "dao_archive_batched_unsubscribe_requests env service_id w =
     archive_unsubscribe_requests_from_query
       (\<lambda>r. batch_created_before (midnight_n_days_ago env 7 w) r w \<and> ur_service_id r = service_id) w"

definition dao_archive_old_unsubscribe_requests :: "env \<Rightarrow> uuid \<Rightarrow> nat op" where
  "dao_archive_old_unsubscribe_requests env service_id w =
     archive_unsubscribe_requests_from_query
       (\<lambda>r. ur_created_at r < midnight_n_days_ago env 90 w \<and> ur_service_id r = service_id
            \<and> ur_report_id r = None) w"

section \<open>The link in an email\<close>

definition is_duplicate_unsubscribe_request :: "uuid \<Rightarrow> world \<Rightarrow> bool result" where
  \<comment> \<open>the report of a request exists, by its foreign key\<close>
  "is_duplicate_unsubscribe_request notification_id w =
     res_bind (get_unsubscribe_request_by_notification_id_dao notification_id w) (\<lambda>found.
       case found of
         None \<Rightarrow> Inr False
       | Some r \<Rightarrow>
           (case ur_report_id r of
              None \<Rightarrow> Inr True
            | Some b \<Rightarrow>
                (case get_unsubscribe_request_report_by_id_dao b w of
                   None \<Rightarrow> Inl (Py AttributeError)
                 | Some p \<Rightarrow> Inr (up_processed_by_service_at p = None))))"

definition invalid_unsubscribe_link :: exn where
  "invalid_unsubscribe_link = invalid_request ''This is not a valid unsubscribe link.'' 404"

definition get_unsubscribe_request_data ::
  "notification + notification_history \<Rightarrow> string \<Rightarrow> uuid \<Rightarrow> time \<Rightarrow> unsubscribe_request" where
  "get_unsubscribe_request_data row email_address i now =
     (case row of
        Inl n \<Rightarrow> new_unsubscribe_request i now (n_id n) (n_service_id n) (n_template_id n)
                   (n_template_version n) email_address
      | Inr h \<Rightarrow> new_unsubscribe_request i now (h_id h) (h_service_id h) (h_template_id h)
                   (h_template_version h) email_address)"

definition one_click_unsubscribe :: "env \<Rightarrow> (string \<Rightarrow> string option) \<Rightarrow> uuid \<Rightarrow> string \<Rightarrow> unit op" where
  \<comment> \<open>\<open>check_token\<close> gives the email address in a token that is not a year old\<close>
  "one_click_unsubscribe env check_token notification_id token w =
     (case check_token token of
        None \<Rightarrow> (Inl invalid_unsubscribe_link, w)
      | Some email_address \<Rightarrow>
          (case is_duplicate_unsubscribe_request notification_id w of
             Inl e \<Rightarrow> (Inl e, w)
           | Inr True \<Rightarrow> (Inr (), w)
           | Inr False \<Rightarrow>
               (case dao_get_notification_or_history_by_id notification_id w of
                  None \<Rightarrow> (Inl invalid_unsubscribe_link, w)
                | Some row \<Rightarrow>
                    (Inr (), create_unsubscribe_request_dao env
                       (get_unsubscribe_request_data row email_address) w))))"

section \<open>Reports\<close>

record report_summary =
  rs_batch_id :: "uuid option"
  rs_count :: int
  rs_created_at :: "time option"
  rs_earliest_timestamp :: time
  rs_latest_timestamp :: time
  rs_processed_by_service_at :: "time option"
  rs_is_a_batched_report :: bool
  rs_will_be_archived_at :: time
  rs_service_id :: uuid

definition serialize_report :: "env \<Rightarrow> unsubscribe_report \<Rightarrow> report_summary result" where
  \<comment> \<open>the date of creation may be \<open>NULL\<close>\<close>
  "serialize_report env p =
     (case up_created_at p of
        None \<Rightarrow> Inl (Py AttributeError)
      | Some c \<Rightarrow>
          Inr \<lparr>rs_batch_id = Some (up_id p), rs_count = up_count p, rs_created_at = Some c,
            rs_earliest_timestamp = up_earliest_timestamp p, rs_latest_timestamp = up_latest_timestamp p,
            rs_processed_by_service_at = up_processed_by_service_at p, rs_is_a_batched_report = True,
            rs_will_be_archived_at = get_london_midnight_in_utc env (date_of (c + days 7)),
            rs_service_id = up_service_id p\<rparr>)"

definition serialize_unbatched_requests :: "env \<Rightarrow> unsubscribe_request list \<Rightarrow> report_summary" where
  \<comment> \<open>of a list that is not empty, the newest first\<close>
  "serialize_unbatched_requests env rs =
     \<lparr>rs_batch_id = None, rs_count = int (length rs), rs_created_at = None,
      rs_earliest_timestamp = ur_created_at (last rs), rs_latest_timestamp = ur_created_at (hd rs),
      rs_processed_by_service_at = None, rs_is_a_batched_report = False,
      rs_will_be_archived_at = get_london_midnight_in_utc env (date_of (ur_created_at (last rs) + days 90)),
      rs_service_id = ur_service_id (hd rs)\<rparr>"

definition create_unsubscribe_request_reports_summary :: "env \<Rightarrow> uuid \<Rightarrow> world \<Rightarrow> report_summary list result" where
  "create_unsubscribe_request_reports_summary env service_id w =
     res_bind (map_res (serialize_report env) (get_unsubscribe_request_reports_dao service_id w)) (\<lambda>reports.
       case get_unbatched_unsubscribe_requests_dao service_id w of
         [] \<Rightarrow> Inr reports
       | rs \<Rightarrow> Inr (serialize_unbatched_requests env rs # reports))"

definition get_unsubscribe_requests_statistics :: "uuid \<Rightarrow> world \<Rightarrow> (nat \<times> time) option" where
  "get_unsubscribe_requests_statistics service_id w =
     (case get_unsubscribe_requests_statistics_dao service_id w of
        Some d \<Rightarrow> Some d
      | None \<Rightarrow> map_option (\<lambda>t. (0, t)) (get_latest_unsubscribe_request_date_dao service_id w))"

definition process_unsubscribe_request_report :: "uuid \<Rightarrow> bool option \<Rightarrow> unit op" where
  \<comment> \<open>the flag in the body, if there is a body; the service in the path is not looked at\<close>
  "process_unsubscribe_request_report batch_id data w =
     (case data of
        None \<Rightarrow> (Inl (invalid_request ''missing data for required field'' 400), w)
      | Some report_has_been_processed \<Rightarrow>
          (case get_unsubscribe_request_report_by_id_dao batch_id w of
             None \<Rightarrow> (Inl (invalid_request (''No UnsubscribeRequestReport found for id:'' @ uuid_str batch_id) 400), w)
           | Some p \<Rightarrow>
               (Inr (), update_unsubscribe_request_report_processed_by_date_dao p
                  report_has_been_processed w)))"

definition create_unsubscribe_request_report :: "env \<Rightarrow> uuid \<Rightarrow> report_summary option \<Rightarrow> uuid op" where
  \<comment> \<open>of the body only the count and the two timestamps are read\<close>
  "create_unsubscribe_request_report env service_id summary_data w =
     (case summary_data of
        None \<Rightarrow> (Inl (invalid_request
                  ''summary data needed to create an unsubscribe request report is missing'' 400), w)
      | Some d \<Rightarrow>
          (let (i, w1) = create_uuid env w;
               p = \<lparr>up_id = i, up_service_id = service_id, up_created_at = Some (w_now w),
                    up_earliest_timestamp = rs_earliest_timestamp d,
                    up_latest_timestamp = rs_latest_timestamp d, up_processed_by_service_at = None,
                    up_count = rs_count d\<rparr>
           in (Inr i, assign_unbatched_unsubscribe_requests_to_report_dao i service_id
                 (up_earliest_timestamp p) (up_latest_timestamp p)
                 (create_unsubscribe_request_reports_dao p w1))))"

section \<open>The nightly tasks\<close>

definition archive_unsubscribe_requests :: "world \<Rightarrow> world" where
  "archive_unsubscribe_requests w =
     fold (\<lambda>service_id v. enqueue REPORTING (TArchiveOldUnsubscribeRequests service_id)
             (enqueue REPORTING (TArchiveBatchedUnsubscribeRequests service_id) v))
       (get_service_ids_with_unsubscribe_requests w) w"

definition archive_batched_unsubscribe_requests :: "env \<Rightarrow> uuid \<Rightarrow> unit op" where
  "archive_batched_unsubscribe_requests env service_id =
     op_bind (dao_archive_batched_unsubscribe_requests env service_id) (\<lambda>_. op_return ())"

definition archive_old_unsubscribe_requests :: "env \<Rightarrow> uuid \<Rightarrow> unit op" where
  "archive_old_unsubscribe_requests env service_id =
     op_bind (dao_archive_old_unsubscribe_requests env service_id) (\<lambda>_. op_return ())"

end
