(* ===== verification/Unsubscribe_Rules.thy ===== *)
theory Unsubscribe_Rules
  imports Unsubscribe
begin

text \<open>
  Properties of the requests to unsubscribe: archiving keeps every one, a report takes exactly the
  ones that no report had, and a notification never has more than two.
\<close>

section \<open>Archiving\<close>

lemma archive_from_query_conserves:
  assumes d: "distinct_rows ur_id (w_unsubscribe_requests w)"
    and run: "archive_unsubscribe_requests_from_query q w = (Inr k, w')"
  shows "mset (map serialize_for_history (w_unsubscribe_requests w')) + mset (w_unsubscribe_history w')
           = mset (map serialize_for_history (w_unsubscribe_requests w)) + mset (w_unsubscribe_history w)"
    and "k + length (w_unsubscribe_requests w') = length (w_unsubscribe_requests w)"
    and "w_unsubscribe_requests w' = filter (\<lambda>r. \<not> q r) (w_unsubscribe_requests w)"
proof -
  let ?rows = "filter q (w_unsubscribe_requests w)"
  have doomed: "ur_id r \<in> ur_id ` set ?rows \<longleftrightarrow> q r" if "r \<in> set (w_unsubscribe_requests w)" for r
    using row_unique [OF d _ that] that by (auto simp: image_iff)
  then have kept: "delete_rows (\<lambda>r. ur_id r \<in> ur_id ` set ?rows) (w_unsubscribe_requests w)
      = filter (\<lambda>r. \<not> q r) (w_unsubscribe_requests w)"
    unfolding delete_rows_def by (intro filter_cong) simp_all
  have gone: "filter (\<lambda>r. ur_id r \<in> ur_id ` set ?rows) (w_unsubscribe_requests w) = ?rows"
    using doomed by (intro filter_cong) simp_all
  have split: "mset ?rows + mset (filter (\<lambda>r. \<not> q r) (w_unsubscribe_requests w)) = mset (w_unsubscribe_requests w)"
    by (metis mset_filter multiset_partition)
  have len: "length ?rows + length (filter (\<lambda>r. \<not> q r) (w_unsubscribe_requests w)) = length (w_unsubscribe_requests w)"
    by (rule sum_length_filter_compl)
  show rows: "w_unsubscribe_requests w' = filter (\<lambda>r. \<not> q r) (w_unsubscribe_requests w)"
  proof (cases "?rows = []")
    case True
    then have "filter (\<lambda>r. \<not> q r) (w_unsubscribe_requests w) = w_unsubscribe_requests w"
      by (simp add: filter_empty_conv)
    then show ?thesis using True run by (simp add: archive_unsubscribe_requests_from_query_def)
  next
    case False
    then show ?thesis using run kept
      by (auto simp: archive_unsubscribe_requests_from_query_def Let_def split: if_splits)
  qed
  show "k + length (w_unsubscribe_requests w') = length (w_unsubscribe_requests w)"
  proof (cases "?rows = []")
    case True
    then show ?thesis using run by (simp add: archive_unsubscribe_requests_from_query_def)
  next
    case False
    then have "k = length ?rows" using run gone
      by (auto simp: archive_unsubscribe_requests_from_query_def Let_def split: if_splits)
    then show ?thesis using rows len by simp
  qed
  have history: "w_unsubscribe_history w' = w_unsubscribe_history w @ map serialize_for_history ?rows"
    using run by (cases "?rows = []")
      (auto simp: archive_unsubscribe_requests_from_query_def Let_def split: if_splits)
  show "mset (map serialize_for_history (w_unsubscribe_requests w')) + mset (w_unsubscribe_history w')
      = mset (map serialize_for_history (w_unsubscribe_requests w)) + mset (w_unsubscribe_history w)"
    unfolding rows history split [symmetric] mset_map mset_append image_mset_union
    by (simp add: ac_simps)
qed

definition past_retention :: "env \<Rightarrow> bool \<Rightarrow> uuid \<Rightarrow> world \<Rightarrow> unsubscribe_request \<Rightarrow> bool" where
  \<comment> \<open>in a report made before the last 7 days, or in no report and older than 90 days\<close>
  "past_retention env in_report service_id w r \<longleftrightarrow>
     (if in_report
      then batch_created_before (midnight_n_days_ago env 7 w) r w \<and> ur_service_id r = service_id
      else ur_created_at r < midnight_n_days_ago env 90 w \<and> ur_service_id r = service_id
           \<and> ur_report_id r = None)"

text \<open>
  C26: Neither nightly task loses or doubles a request to unsubscribe: as rows of the history table,
  the requests and their archive together are the same multiset before and after, the number
  returned is the number of rows that left the table, and what stays is what is not past its
  retention.
\<close>

theorem archiving_keeps_every_request:
  assumes "distinct_rows ur_id (w_unsubscribe_requests w)"
    and "(if in_report then dao_archive_batched_unsubscribe_requests
          else dao_archive_old_unsubscribe_requests) env sid w = (Inr k, w')"
  shows "mset (map serialize_for_history (w_unsubscribe_requests w')) + mset (w_unsubscribe_history w')
           = mset (map serialize_for_history (w_unsubscribe_requests w)) + mset (w_unsubscribe_history w)
    \<and> k + length (w_unsubscribe_requests w') = length (w_unsubscribe_requests w)
    \<and> w_unsubscribe_requests w'
        = filter (\<lambda>r. \<not> past_retention env in_report sid w r) (w_unsubscribe_requests w)"
proof -
  have "archive_unsubscribe_requests_from_query (past_retention env in_report sid w) w = (Inr k, w')"
    using assms(2) by (cases in_report) (simp_all add: past_retention_def [abs_def]
      dao_archive_batched_unsubscribe_requests_def dao_archive_old_unsubscribe_requests_def)
  then show ?thesis using archive_from_query_conserves [OF assms(1)] by blast
qed

section \<open>Reports\<close>

lemma sorted_times:
  assumes "rows \<noteq> []" "r \<in> set rows"
  shows "ur_created_at (last (rev (sort_key ur_created_at rows))) \<le> ur_created_at r"
    and "ur_created_at r \<le> ur_created_at (hd (rev (sort_key ur_created_at rows)))"
proof -
  let ?s = "sort_key ur_created_at rows"
  have ne: "?s \<noteq> []" using assms(1) by (metis length_0_conv length_sort)
  obtain i where i: "i < length ?s" "?s ! i = r" using assms(2) by (metis in_set_conv_nth set_sort)
  have sorted: "sorted (map ur_created_at ?s)" by simp
  have len: "0 < length rows" using assms(1) by simp
  have "map ur_created_at ?s ! 0 \<le> map ur_created_at ?s ! i"
    by (rule sorted_nth_mono [OF sorted]) (use i in simp_all)
  then show "ur_created_at (last (rev ?s)) \<le> ur_created_at r"
    using i ne len by (simp add: last_rev hd_conv_nth)
  have "map ur_created_at ?s ! i \<le> map ur_created_at ?s ! (length ?s - 1)"
    by (rule sorted_nth_mono [OF sorted]) (use i in simp_all)
  then show "ur_created_at r \<le> ur_created_at (hd (rev ?s))"
    using i ne len by (simp add: hd_rev last_conv_nth)
qed

text \<open>
  The summary that a service is shown for its new requests, sent back to make the report: the
  report holds exactly the requests that were in none, its count is their number, none of them
  stays without a report, and the requests of other services and of earlier reports are as before.
\<close>

theorem report_takes_every_new_request:
  assumes new: "get_unbatched_unsubscribe_requests_dao sid w \<noteq> []"
    and fresh: "Some (lib_uuid env (w_uuids w)) \<notin> ur_report_id ` set (w_unsubscribe_requests w)"
  shows "\<exists>i w' p. create_unsubscribe_request_report env sid
        (Some (serialize_unbatched_requests env (get_unbatched_unsubscribe_requests_dao sid w))) w = (Inr i, w')
    \<and> get_unbatched_unsubscribe_requests_dao sid w' = []
    \<and> w_unsubscribe_reports w' = w_unsubscribe_reports w @ [p] \<and> up_id p = i
    \<and> up_count p = int (length (filter (unbatched sid) (w_unsubscribe_requests w)))
    \<and> map ur_id (filter (\<lambda>r. ur_report_id r = Some i) (w_unsubscribe_requests w'))
        = map ur_id (filter (unbatched sid) (w_unsubscribe_requests w))
    \<and> filter (\<lambda>r. ur_report_id r \<noteq> Some i) (w_unsubscribe_requests w')
        = filter (\<lambda>r. \<not> unbatched sid r) (w_unsubscribe_requests w)"
proof -
  define rows where "rows = filter (unbatched sid) (w_unsubscribe_requests w)"
  define d where "d = serialize_unbatched_requests env (get_unbatched_unsubscribe_requests_dao sid w)"
  define i where "i = lib_uuid env (w_uuids w)"
  define p where "p = \<lparr>up_id = i, up_service_id = sid, up_created_at = Some (w_now w),
    up_earliest_timestamp = rs_earliest_timestamp d, up_latest_timestamp = rs_latest_timestamp d,
    up_processed_by_service_at = None, up_count = rs_count d\<rparr>"
  define w' where "w' = snd (create_unsubscribe_request_report env sid (Some d) w)"
  have ne: "rows \<noteq> []"
    using new by (auto simp: rows_def get_unbatched_unsubscribe_requests_dao_def)
  have covered: "rs_earliest_timestamp d \<le> ur_created_at r \<and> ur_created_at r \<le> rs_latest_timestamp d"
    if "r \<in> set (w_unsubscribe_requests w)" "unbatched sid r" for r
    using sorted_times [OF ne, of r] that
    by (simp add: d_def serialize_unbatched_requests_def get_unbatched_unsubscribe_requests_dao_def rows_def)
  have run: "create_unsubscribe_request_report env sid (Some d) w = (Inr i, w')"
    by (simp add: w'_def create_unsubscribe_request_report_def create_uuid_def i_def Let_def)
  have requests: "w_unsubscribe_requests w'
      = update_rows (unbatched sid) (\<lambda>r. r\<lparr>ur_report_id := Some i\<rparr>) (w_unsubscribe_requests w)"
    unfolding w'_def create_unsubscribe_request_report_def create_uuid_def update_rows_def
    using covered by (simp add: Let_def assign_unbatched_unsubscribe_requests_to_report_dao_def
      create_unsubscribe_request_reports_dao_def update_rows_def i_def)
  have reports: "w_unsubscribe_reports w' = w_unsubscribe_reports w @ [p]"
    by (simp add: w'_def create_unsubscribe_request_report_def create_uuid_def Let_def p_def i_def
      assign_unbatched_unsubscribe_requests_to_report_dao_def create_unsubscribe_request_reports_dao_def)
  have count: "up_count p = int (length rows)"
    by (simp add: p_def d_def serialize_unbatched_requests_def get_unbatched_unsubscribe_requests_dao_def
      rows_def)
  have old: "ur_report_id r \<noteq> Some i" if "r \<in> set (w_unsubscribe_requests w)" for r
    using fresh that by (auto simp: i_def image_iff)
  have changed: "\<not> unbatched sid (if unbatched sid r then r\<lparr>ur_report_id := Some i\<rparr> else r)" for r
    by (simp add: unbatched_def)
  have "filter (unbatched sid) (w_unsubscribe_requests w') = []"
    unfolding requests update_rows_def filter_empty_conv set_map using changed by blast
  then have none: "get_unbatched_unsubscribe_requests_dao sid w' = []"
    by (simp add: get_unbatched_unsubscribe_requests_dao_def)
  have taken: "map ur_id (filter (\<lambda>r. ur_report_id r = Some i) (update_rows (unbatched sid)
      (\<lambda>r. r\<lparr>ur_report_id := Some i\<rparr>) rs)) = map ur_id (filter (unbatched sid) rs)"
    and left: "filter (\<lambda>r. ur_report_id r \<noteq> Some i) (update_rows (unbatched sid)
      (\<lambda>r. r\<lparr>ur_report_id := Some i\<rparr>) rs) = filter (\<lambda>r. \<not> unbatched sid r) rs"
    if "set rs \<subseteq> set (w_unsubscribe_requests w)" for rs
    using that by (induction rs) (auto simp: update_rows_def dest: old)
  show ?thesis
    using run none reports count taken [OF order.refl] left [OF order.refl]
    by (intro exI [of _ i] exI [of _ w'] exI [of _ p]) (simp add: d_def p_def rows_def requests)
qed

section \<open>Clicks\<close>

definition requests_of :: "uuid \<Rightarrow> world \<Rightarrow> unsubscribe_request list" where
  "requests_of notification_id w =
     filter (\<lambda>r. ur_notification_id r = notification_id) (w_unsubscribe_requests w)"

lemma found_request:
  "get_unsubscribe_request_by_notification_id_dao n w =
     (case requests_of n w of [] \<Rightarrow> Inr None | [r] \<Rightarrow> Inr (Some r) | _ \<Rightarrow> Inl (Db MultipleResultsFound))"
  by (simp add: get_unsubscribe_request_by_notification_id_dao_def query_one_or_none_def requests_of_def)

definition notification_row_id :: "notification + notification_history \<Rightarrow> uuid" where
  "notification_row_id row = (case row of Inl n \<Rightarrow> n_id n | Inr h \<Rightarrow> h_id h)"

lemma row_found_by_id:
  "dao_get_notification_or_history_by_id i w = Some row \<Longrightarrow> notification_row_id row = i"
  by (auto simp: dao_get_notification_or_history_by_id_def notification_row_id_def
    dest!: find_row_SomeD split: option.splits)

lemma stored_request:
  "ur_notification_id (get_unsubscribe_request_data row e i t) = notification_row_id row"
  "ur_report_id (get_unsubscribe_request_data row e i t) = None"
  by (cases row; simp add: get_unsubscribe_request_data_def new_unsubscribe_request_def
    notification_row_id_def)+

lemma click_cases:
  assumes "one_click_unsubscribe env check n token w = (res, w')"
  obtains (unchanged) "w' = w"
  | (stored) r email where "check token = Some email" "is_duplicate_unsubscribe_request n w = Inr False"
      "ur_notification_id r = n" "ur_report_id r = None" "res = Inr ()"
      "w_unsubscribe_requests w' = w_unsubscribe_requests w @ [r]"
      "w_unsubscribe_reports w' = w_unsubscribe_reports w"
proof (cases "w' = w")
  case True
  then show ?thesis by (rule unchanged)
next
  case False
  obtain email where email: "check token = Some email"
    using assms False by (cases "check token") (auto simp: one_click_unsubscribe_def)
  have dup: "is_duplicate_unsubscribe_request n w = Inr False"
    using assms False email by (auto simp: one_click_unsubscribe_def split: sum.splits bool.splits)
  obtain row where row: "dao_get_notification_or_history_by_id n w = Some row"
    using assms False email dup
    by (cases "dao_get_notification_or_history_by_id n w") (auto simp: one_click_unsubscribe_def)
  define r where "r = get_unsubscribe_request_data row email (lib_uuid env (w_uuids w)) (w_now w)"
  have run: "res = Inr ()" "w' = create_unsubscribe_request_dao env (get_unsubscribe_request_data row email) w"
    using assms email dup row by (simp_all add: one_click_unsubscribe_def)
  show ?thesis
    by (rule stored [OF email dup, of r])
      (use run row_found_by_id [OF row] in \<open>simp_all add: r_def stored_request
        create_unsubscribe_request_dao_def create_uuid_def Let_def\<close>)
qed

text \<open>
  A reader who clicks the link again changes nothing: after a click that was accepted, every
  later click for the notification with a valid token is accepted and stores no second request,
  as long as the report that took the request, if any, is not processed.
\<close>

theorem second_click_changes_nothing:
  assumes "one_click_unsubscribe env check n token w = (Inr (), w1)"
    and "list_all (\<lambda>r. \<not> is_processed r w1) (requests_of n w1)"
    and "length (requests_of n w1) = 1"
    and "list_all (\<lambda>r. ur_report_id r \<in> insert None (Some ` up_id ` set (w_unsubscribe_reports w1)))
           (requests_of n w1)"
    and "check' token' = Some email"
  shows "one_click_unsubscribe env check' n token' w1 = (Inr (), w1)"
proof -
  obtain r where r: "requests_of n w1 = [r]" using assms(3) by (auto simp: length_Suc_conv)
  have "is_duplicate_unsubscribe_request n w1 = Inr True"
    using assms(2,4) unfolding is_duplicate_unsubscribe_request_def found_request r
    by (auto simp: is_processed_def get_unsubscribe_request_report_by_id_dao_def find_row_None_iff
      split: option.splits)
  then show ?thesis using assms(5) by (simp add: one_click_unsubscribe_def)
qed

text \<open>
  A request that arrives after the service processed the first one is stored, and from then on
  every click for that notification, by whomever, ends in a server error: the lookup of the
  request expects at most one row.
\<close>

theorem clicks_fail_after_second_request:
  assumes "one_click_unsubscribe env check n token w = (Inr (), w1)"
    and "requests_of n w = [r]" "is_processed r w" "w1 \<noteq> w"
    and "check' token' = Some email"
  shows "length (requests_of n w1) = 2
    \<and> one_click_unsubscribe env check' n token' w1 = (Inl (Db MultipleResultsFound), w1)"
  using assms(1)
proof (cases rule: click_cases)
  case unchanged
  then show ?thesis using assms(4) by simp
next
  case (stored r' e)
  then have two: "requests_of n w1 = [r, r']" using assms(2) by (simp add: requests_of_def)
  then show ?thesis
    using assms(5) by (simp add: one_click_unsubscribe_def is_duplicate_unsubscribe_request_def found_request)
qed

section \<open>How many requests a notification can have\<close>

inductive unsubscribe_step :: "env \<Rightarrow> world \<Rightarrow> world \<Rightarrow> bool" for env where
  click: "unsubscribe_step env w (snd (one_click_unsubscribe env check n token w))"
| report: "unsubscribe_step env w (snd (create_unsubscribe_request_report env sid data w))"
| processed: "unsubscribe_step env w (snd (process_unsubscribe_request_report batch_id flag w))"
| archive_old: "unsubscribe_step env w (snd (archive_old_unsubscribe_requests env sid w))"
| archive_batched: "unsubscribe_step env w (snd (archive_batched_unsubscribe_requests env sid w))"

lemma requests_after_archive:
  "\<exists>p. w_unsubscribe_requests (snd (archive_unsubscribe_requests_from_query q w))
     = filter p (w_unsubscribe_requests w)"
proof -
  have "\<exists>p. w_unsubscribe_requests w = filter p (w_unsubscribe_requests w)"
    by (rule exI [of _ "\<lambda>_. True"]) simp
  then show ?thesis
    unfolding archive_unsubscribe_requests_from_query_def Let_def delete_rows_def by auto
qed

lemma fewer_requests:
  assumes "w_unsubscribe_requests w' = filter p (w_unsubscribe_requests w)"
  shows "length (requests_of n w') \<le> length (requests_of n w)"
proof -
  have "requests_of n w' = filter p (requests_of n w)"
    by (simp add: requests_of_def assms conj_commute)
  then show ?thesis by simp
qed

lemma op_bind_return_world [simp]: "snd (op_bind m (\<lambda>_. op_return x) w) = snd (m w)"
  by (cases "m w"; cases "fst (m w)") (auto simp: op_bind_def op_return_def)

lemma assigned_requests:
  "length (filter (\<lambda>r. ur_notification_id r = n) (update_rows p (ur_report_id_update f) rs))
     = length (filter (\<lambda>r. ur_notification_id r = n) rs)"
  by (induction rs) (auto simp: update_rows_def)

lemma unsubscribe_step_bound:
  assumes "unsubscribe_step env w w'" "length (requests_of n w) \<le> 2"
  shows "length (requests_of n w') \<le> 2"
  using assms(1)
proof cases
  case (click check m token)
  obtain res v where run: "one_click_unsubscribe env check m token w = (res, v)" by fastforce
  then have "w' = v" using click by simp
  from run show ?thesis
  proof (cases rule: click_cases)
    case unchanged
    then show ?thesis using assms(2) \<open>w' = v\<close> by simp
  next
    case (stored r e)
    have "length (requests_of m w) \<le> 1"
      using stored(2) by (auto simp: is_duplicate_unsubscribe_request_def found_request split: list.splits)
    then show ?thesis using stored(3,6) assms(2) \<open>w' = v\<close> by (auto simp: requests_of_def)
  qed
next
  case (report sid data)
  then show ?thesis using assms(2)
    by (auto simp: requests_of_def assigned_requests create_unsubscribe_request_report_def create_uuid_def Let_def
      assign_unbatched_unsubscribe_requests_to_report_dao_def create_unsubscribe_request_reports_dao_def
      split: option.splits)
next
  case (processed batch_id flag)
  then show ?thesis using assms(2)
    by (auto simp: requests_of_def process_unsubscribe_request_report_def
      update_unsubscribe_request_report_processed_by_date_dao_def split: option.splits)
next
  case (archive_old sid)
  then obtain p where "w_unsubscribe_requests w' = filter p (w_unsubscribe_requests w)"
    using requests_after_archive [of _ w] unfolding archive_old_unsubscribe_requests_def
      dao_archive_old_unsubscribe_requests_def by fastforce
  then show ?thesis using fewer_requests assms(2) le_trans by blast
next
  case (archive_batched sid)
  then obtain p where "w_unsubscribe_requests w' = filter p (w_unsubscribe_requests w)"
    using requests_after_archive [of _ w] unfolding archive_batched_unsubscribe_requests_def
      dao_archive_batched_unsubscribe_requests_def by fastforce
  then show ?thesis using fewer_requests assms(2) le_trans by blast
qed

text \<open>
  Whatever clicks arrive, whatever reports a service makes, marks or unmarks and whenever the
  nightly tasks run: no notification ever has more than two requests in the table.
\<close>

theorem at_most_two_requests:
  assumes "(unsubscribe_step env)\<^sup>*\<^sup>* w w'" "length (requests_of n w) \<le> 2"
  shows "length (requests_of n w') \<le> 2"
  using assms by (induction rule: rtranclp_induct) (auto intro: unsubscribe_step_bound)

section \<open>Concrete runs\<close>

definition sample_unsubscribe :: "uuid \<Rightarrow> time \<Rightarrow> uuid option \<Rightarrow> unsubscribe_request" where
  "sample_unsubscribe i created report =
     (new_unsubscribe_request i created (100 + i) 10 20 1 ''a@b.nl'')\<lparr>ur_report_id := report\<rparr>"

definition sample_unsubscribe_report :: "time option \<Rightarrow> unsubscribe_report" where
  "sample_unsubscribe_report processed =
     \<lparr>up_id = 50, up_service_id = 10, up_created_at = Some 0, up_earliest_timestamp = 0,
      up_latest_timestamp = 0, up_processed_by_service_at = processed, up_count = 1\<rparr>"

definition unsubscribe_world :: "time option \<Rightarrow> world" where
  "unsubscribe_world processed =
     sample_world\<lparr>w_now := days 200, w_notifications := [sample_notification\<lparr>n_id := 131, n_type := Email\<rparr>,
        sample_notification\<lparr>n_id := 134, n_type := Email\<rparr>],
       w_unsubscribe_requests := [sample_unsubscribe 31 0 (Some 50), sample_unsubscribe 32 0 None,
         sample_unsubscribe 33 (days 199) None],
       w_unsubscribe_reports := [sample_unsubscribe_report processed]\<rparr>"

theorem archiving_keeps_every_request_witness:
  "\<exists>w'. dao_archive_old_unsubscribe_requests sample_env 10 (unsubscribe_world None) = (Inr 1, w')
     \<and> 1 + length (w_unsubscribe_requests w') = length (w_unsubscribe_requests (unsubscribe_world None))"
proof -
  define w' where "w' = snd (dao_archive_old_unsubscribe_requests sample_env 10 (unsubscribe_world None))"
  have "fst (dao_archive_old_unsubscribe_requests sample_env 10 (unsubscribe_world None)) = Inr 1"
    by code_simp
  then have run: "(if False then dao_archive_batched_unsubscribe_requests
      else dao_archive_old_unsubscribe_requests) sample_env 10 (unsubscribe_world None) = (Inr 1, w')"
    by (simp add: w'_def prod_eq_iff)
  have "distinct_rows ur_id (w_unsubscribe_requests (unsubscribe_world None))" by code_simp
  from archiving_keeps_every_request [OF this run] run show ?thesis by auto
qed

theorem report_takes_every_new_request_witness:
  "\<exists>i w'. create_unsubscribe_request_report sample_env 10
      (Some (serialize_unbatched_requests sample_env
        (get_unbatched_unsubscribe_requests_dao 10 (unsubscribe_world None)))) (unsubscribe_world None)
      = (Inr i, w') \<and> get_unbatched_unsubscribe_requests_dao 10 w' = []"
proof -
  have "get_unbatched_unsubscribe_requests_dao 10 (unsubscribe_world None) \<noteq> []" by code_simp
  moreover have "Some (lib_uuid sample_env (w_uuids (unsubscribe_world None)))
      \<notin> ur_report_id ` set (w_unsubscribe_requests (unsubscribe_world None))" by code_simp
  ultimately show ?thesis using report_takes_every_new_request by blast
qed

definition clicked_world :: world where
  "clicked_world = snd (one_click_unsubscribe sample_env Some 134 ''a@b.nl'' (unsubscribe_world None))"

theorem second_click_changes_nothing_witness:
  "one_click_unsubscribe sample_env Some 134 ''a@b.nl'' clicked_world = (Inr (), clicked_world)"
proof -
  have "fst (one_click_unsubscribe sample_env Some 134 ''a@b.nl'' (unsubscribe_world None)) = Inr ()"
    by code_simp
  then have "one_click_unsubscribe sample_env Some 134 ''a@b.nl'' (unsubscribe_world None)
      = (Inr (), clicked_world)" by (simp add: clicked_world_def prod_eq_iff)
  moreover have "list_all (\<lambda>r. \<not> is_processed r clicked_world) (requests_of 134 clicked_world)" by code_simp
  moreover have "length (requests_of 134 clicked_world) = 1" by code_simp
  moreover have "list_all (\<lambda>r. ur_report_id r \<in> insert None (Some ` up_id `
      set (w_unsubscribe_reports clicked_world))) (requests_of 134 clicked_world)" by code_simp
  ultimately show ?thesis by (rule second_click_changes_nothing) simp
qed

definition reclicked_world :: world where
  "reclicked_world = snd (one_click_unsubscribe sample_env Some 131 ''a@b.nl'' (unsubscribe_world (Some 5)))"

theorem clicks_fail_after_second_request_witness:
  "length (requests_of 131 reclicked_world) = 2
   \<and> one_click_unsubscribe sample_env Some 131 ''a@b.nl'' reclicked_world
       = (Inl (Db MultipleResultsFound), reclicked_world)"
proof -
  have "fst (one_click_unsubscribe sample_env Some 131 ''a@b.nl'' (unsubscribe_world (Some 5))) = Inr ()"
    by code_simp
  then have run: "one_click_unsubscribe sample_env Some 131 ''a@b.nl'' (unsubscribe_world (Some 5))
      = (Inr (), reclicked_world)" by (simp add: reclicked_world_def prod_eq_iff)
  have one: "requests_of 131 (unsubscribe_world (Some 5)) = [sample_unsubscribe 31 0 (Some 50)]" by code_simp
  have processed: "is_processed (sample_unsubscribe 31 0 (Some 50)) (unsubscribe_world (Some 5))" by code_simp
  have "length (requests_of 131 reclicked_world) \<noteq> length (requests_of 131 (unsubscribe_world (Some 5)))"
    by code_simp
  then have "reclicked_world \<noteq> unsubscribe_world (Some 5)" by auto
  from clicks_fail_after_second_request [OF run one processed this, of Some "''a@b.nl''"]
  show ?thesis by simp
qed

theorem at_most_two_requests_witness: "length (requests_of 131 reclicked_world) \<le> 2"
proof -
  have "unsubscribe_step sample_env (unsubscribe_world (Some 5)) reclicked_world"
    unfolding reclicked_world_def by (rule click)
  moreover have "length (requests_of 131 (unsubscribe_world (Some 5))) \<le> 2" by code_simp
  ultimately show ?thesis using at_most_two_requests by blast
qed

end
