(* ===== verification/Inbound.thy ===== *)
theory Inbound
  imports Delivery Senders
begin

text \<open>
  Text messages that people send to a service: the endpoints that the providers call
  (\<^verbatim>\<open>app/notifications/receive_notifications.py\<close>), the table and its archive
  (\<^verbatim>\<open>app/dao/inbound_sms_dao.py\<close>), the inbox of a service (\<^verbatim>\<open>app/inbound_sms/rest.py\<close>), and giving a
  number to a service (\<^verbatim>\<open>app/inbound_number/rest.py\<close>). The decoding of a message and of its date
  and the signing of its content are parameters.
\<close>

record inbound_lib =
  il_decode_text :: "string \<Rightarrow> string result"
  il_parse_date :: "string \<Rightarrow> time option result"
  il_sign :: "string \<Rightarrow> string"
  il_mmg_usernames :: "string list"
  il_mmg_passwords :: "string list"
  il_firetext_passwords :: "string list"

section \<open>The table\<close>

definition dao_create_inbound_sms :: "inbound_sms \<Rightarrow> world \<Rightarrow> world" where
  "dao_create_inbound_sms r w = w\<lparr>w_inbound_sms := w_inbound_sms w @ [r]\<rparr>"

definition newest_first :: "inbound_sms list \<Rightarrow> inbound_sms list" where
  "newest_first rows = rev (sort_key is_created_at rows)"

definition dao_get_inbound_sms_for_service ::
  "env \<Rightarrow> uuid \<Rightarrow> string option \<Rightarrow> int option \<Rightarrow> nat option \<Rightarrow> world \<Rightarrow> inbound_sms list" where
  "dao_get_inbound_sms_for_service env service_id user_number limit_days limit w =
     (let rows = newest_first (filter (\<lambda>r. is_service_id r = service_id
                   \<and> (case limit_days of None \<Rightarrow> True
                       | Some d \<Rightarrow> is_created_at r \<ge> midnight_n_days_ago env d w)
                   \<and> (user_number \<notin> {None, Some []} \<longrightarrow> Some (is_user_number r) = user_number))
                 (w_inbound_sms w))
      in case limit of None \<Rightarrow> rows | Some n \<Rightarrow> if n = 0 then rows else take n rows)"

definition dao_get_paginated_inbound_sms_for_service_for_public_api ::
  "env \<Rightarrow> uuid \<Rightarrow> uuid option \<Rightarrow> nat option \<Rightarrow> world \<Rightarrow> inbound_sms list" where
  \<comment> \<open>no row is older than the \<open>NULL\<close> of an unknown id\<close>
  "dao_get_paginated_inbound_sms_for_service_for_public_api env service_id older_than page_size w =
     take (case page_size of None \<Rightarrow> cfg_page_size env | Some n \<Rightarrow> n)
       (newest_first (filter (\<lambda>r. is_service_id r = service_id
          \<and> (case older_than of None \<Rightarrow> True
              | Some i \<Rightarrow> (case find_row is_id i (w_inbound_sms w) of
                            None \<Rightarrow> False | Some o' \<Rightarrow> is_created_at r < is_created_at o')))
         (w_inbound_sms w)))"

definition dao_count_inbound_sms_for_service :: "env \<Rightarrow> uuid \<Rightarrow> int \<Rightarrow> world \<Rightarrow> nat" where
  "dao_count_inbound_sms_for_service env service_id limit_days w =
     length (filter (\<lambda>r. is_service_id r = service_id
       \<and> is_created_at r \<ge> midnight_n_days_ago env limit_days w) (w_inbound_sms w))"

definition dao_get_inbound_sms_by_id :: "uuid \<Rightarrow> uuid \<Rightarrow> world \<Rightarrow> inbound_sms result" where
  "dao_get_inbound_sms_by_id service_id inbound_id w =
     query_one (Db NoResultFound) (Db MultipleResultsFound)
       (\<lambda>r. is_id r = inbound_id \<and> is_service_id r = service_id) (w_inbound_sms w)"

definition dao_get_paginated_most_recent_inbound_sms_by_user_number_for_service ::
  "env \<Rightarrow> uuid \<Rightarrow> nat \<Rightarrow> int \<Rightarrow> world \<Rightarrow> inbound_sms list" where
  \<comment> \<open>the rows for which the outer self join finds no newer row of the same number\<close>
  "dao_get_paginated_most_recent_inbound_sms_by_user_number_for_service env service_id page limit_days w =
     take (cfg_page_size env) (drop ((page - 1) * cfg_page_size env)
       (newest_first (filter (\<lambda>r. is_service_id r = service_id
          \<and> is_created_at r \<ge> midnight_n_days_ago env limit_days w
          \<and> \<not> (\<exists>t \<in> set (w_inbound_sms w). is_user_number t = is_user_number r
                \<and> is_service_id t = is_service_id r \<and> is_created_at r < is_created_at t))
         (w_inbound_sms w))))"

definition latest_time :: "time list \<Rightarrow> time option" where
  "latest_time ts = (if ts = [] then None else Some (Max (set ts)))"

definition dao_get_most_recent_inbound_usage_date :: "uuid \<Rightarrow> inbound_number \<Rightarrow> world \<Rightarrow> time option" where
  "dao_get_most_recent_inbound_usage_date service_id inbound w =
     latest_time (List.map_filter id
       [latest_time (map n_created_at (filter (\<lambda>n. n_reply_to_text n = Some (in_number inbound)
          \<and> n_service_id n = service_id) (w_notifications w))),
        latest_time (map is_created_at (filter (\<lambda>r. is_notify_number r = in_number inbound
          \<and> is_service_id r = service_id) (w_inbound_sms w))),
        latest_time (map ih_created_at (filter (\<lambda>r. ih_notify_number r = in_number inbound
          \<and> ih_service_id r = service_id) (w_inbound_history w)))])"

section \<open>Archiving\<close>

definition inbound_history_of :: "inbound_sms \<Rightarrow> inbound_sms_history" where
  "inbound_history_of r =
     \<lparr>ih_id = is_id r, ih_created_at = is_created_at r, ih_service_id = is_service_id r,
      ih_notify_number = is_notify_number r, ih_provider_date = is_provider_date r,
      ih_provider_reference = is_provider_reference r, ih_provider = is_provider r\<rparr>"

definition insert_inbound_sms_history :: "uuid set \<Rightarrow> world \<Rightarrow> world" where
  \<comment> \<open>\<open>ON CONFLICT ... DO NOTHING\<close>; the pages together are all the rows\<close>
  "insert_inbound_sms_history ids w =
     w\<lparr>w_inbound_history :=
         fold (\<lambda>r h. if find_row ih_id (is_id r) h = None then h @ [inbound_history_of r] else h)
           (filter (\<lambda>r. is_id r \<in> ids) (w_inbound_sms w)) (w_inbound_history w)\<rparr>"

definition oldest_inbound_ids :: "(inbound_sms \<Rightarrow> bool) \<Rightarrow> world \<Rightarrow> uuid set" where
  \<comment> \<open>the subquery: it has no \<open>ORDER BY\<close>; here the first rows of the table\<close>
  "oldest_inbound_ids p w = is_id ` set (take 10000 (filter p (w_inbound_sms w)))"

function delete_inbound_sms :: "(inbound_sms \<Rightarrow> bool) \<Rightarrow> world \<Rightarrow> nat \<times> world" where
  \<comment> \<open>the rows before the date that the filter selects; the loop ends when a pass deletes none\<close>
  "delete_inbound_sms p w =
     (let ids = oldest_inbound_ids p w;
          w1 = insert_inbound_sms_history ids w;
          doomed = (\<lambda>r. is_id r \<in> ids);
          number_deleted = length (filter doomed (w_inbound_sms w1));
          w2 = w1\<lparr>w_inbound_sms := delete_rows doomed (w_inbound_sms w1)\<rparr>
      in if number_deleted = 0 then (0, w2)
         else (let (deleted, w3) = delete_inbound_sms p w2 in (number_deleted + deleted, w3)))"
  by pat_completeness auto
termination
proof (relation "measure (\<lambda>(p, w). length (w_inbound_sms w))")
  show "wf (measure (\<lambda>(p, w). length (w_inbound_sms w)))" by simp
next
  fix p :: "inbound_sms \<Rightarrow> bool" and w ids w1 doomed number_deleted w2
  assume w1: "w1 = insert_inbound_sms_history ids w" and doomed: "doomed = (\<lambda>r. is_id r \<in> ids)"
    and n: "number_deleted = length (filter doomed (w_inbound_sms w1))"
    and w2: "w2 = w1\<lparr>w_inbound_sms := delete_rows doomed (w_inbound_sms w1)\<rparr>"
    and some: "number_deleted \<noteq> 0"
  have "w_inbound_sms w1 = w_inbound_sms w" by (simp add: w1 insert_inbound_sms_history_def)
  moreover have "length (filter doomed rs) + length (delete_rows doomed rs) = length rs" for rs
    by (simp add: delete_rows_def sum_length_filter_compl)
  ultimately have "number_deleted + length (w_inbound_sms w2) = length (w_inbound_sms w)"
    by (simp add: w2 n)
  then have "length (w_inbound_sms w2) < length (w_inbound_sms w)" using some by linarith
  then show "((p, w2), (p, w)) \<in> measure (\<lambda>(p, w). length (w_inbound_sms w))" by simp
qed

declare delete_inbound_sms.simps [simp del]

definition flexible_retention :: "world \<Rightarrow> data_retention list" where
  \<comment> \<open>the inner joins leave out the services without an inbound number\<close>
  "flexible_retention w =
     filter (\<lambda>d. dr_notification_type d = Sms \<and> find_row svc_id (dr_service_id d) (w_services w) \<noteq> None
                 \<and> dao_get_inbound_number_for_service (dr_service_id d) w \<noteq> None) (w_retention w)"

definition delete_inbound_sms_older_than_retention :: "env \<Rightarrow> world \<Rightarrow> nat \<times> world" where
  "delete_inbound_sms_older_than_retention env w =
     (let flexible = flexible_retention w;
          (n, v) = fold (\<lambda>d (deleted, u).
             let (k, u') = delete_inbound_sms (\<lambda>r. is_created_at r
                   < midnight_n_days_ago env (dr_days_of_retention d) w \<and> is_service_id r = dr_service_id d) u
             in (deleted + k, u')) flexible (0, w);
          (m, v') = delete_inbound_sms (\<lambda>r. is_created_at r < midnight_n_days_ago env 7 w
             \<and> is_service_id r \<notin> dr_service_id ` set flexible) v
      in (n + m, v'))"

section \<open>Receiving\<close>

definition strip_leading_forty_four :: "string \<Rightarrow> string" where
  "strip_leading_forty_four number =
     (if take 2 number = ''44'' then CHR ''0'' # drop 2 number else number)"

definition dao_fetch_service_by_inbound_number :: "string \<Rightarrow> world \<Rightarrow> service option" where
  "dao_fetch_service_by_inbound_number number w =
     (case query_first (\<lambda>r. in_number r = number \<and> in_active r) (w_inbound_numbers w) of
        None \<Rightarrow> None
      | Some r \<Rightarrow> (case in_service_id r of None \<Rightarrow> None | Some i \<Rightarrow> find_row svc_id i (w_services w)))"

definition fetch_potential_service :: "string \<Rightarrow> world \<Rightarrow> service option" where
  "fetch_potential_service inbound_number w =
     (case dao_fetch_service_by_inbound_number inbound_number w of
        None \<Rightarrow> None
      | Some s \<Rightarrow> if has_permission s InboundSmsPermission then Some s else None)"

definition get_inbound_number :: "service \<Rightarrow> world \<Rightarrow> string option" where
  "get_inbound_number s w =
     (case dao_get_inbound_number_for_service (svc_id s) w of
        None \<Rightarrow> None | Some r \<Rightarrow> if in_active r then Some (in_number r) else None)"

definition format_mmg_datetime :: "inbound_lib \<Rightarrow> string \<Rightarrow> world \<Rightarrow> time result" where
  \<comment> \<open>a date that does not parse is now\<close>
  "format_mmg_datetime lib d w =
     res_bind (il_decode_text lib d) (\<lambda>text.
       map_sum id (\<lambda>t. case t of None \<Rightarrow> w_now w | Some x \<Rightarrow> x) (il_parse_date lib text))"

definition create_inbound_sms_object ::
  "env \<Rightarrow> inbound_lib \<Rightarrow> service \<Rightarrow> string \<Rightarrow> string \<Rightarrow> string option \<Rightarrow> string option \<Rightarrow> string
     \<Rightarrow> inbound_sms op" where
  \<comment> \<open>a message without a number to store is refused by the table\<close>
  "create_inbound_sms_object env lib s content from_number provider_ref date_received provider_name w =
     (case try_parse_and_format_phone_number env from_number True of
        Inl e \<Rightarrow> (Inl e, w)
      | Inr user_number \<Rightarrow>
          (case (if date_received \<in> {None, Some []} then Inr None
                 else map_sum id Some (format_mmg_datetime lib (the date_received) w)) of
             Inl e \<Rightarrow> (Inl e, w)
           | Inr provider_date \<Rightarrow>
               (case get_inbound_number s w of
                  None \<Rightarrow> (Inl (Db OtherSQLAlchemyError), w)
                | Some notify_number \<Rightarrow>
                    (let (i, w1) = create_uuid env w;
                         r = \<lparr>is_id = i, is_created_at = w_now w, is_service_id = svc_id s,
                              is_notify_number = notify_number, is_user_number = user_number,
                              is_provider_date = provider_date, is_provider_reference = provider_ref,
                              is_provider = provider_name, is_content = il_sign lib content\<rparr>
                     in (Inr r, dao_create_inbound_sms r w1)))))"

definition forward_inbound_sms :: "service \<Rightarrow> inbound_sms op \<Rightarrow> unit op" where
  \<comment> \<open>the message goes to the service in a task\<close>
  "forward_inbound_sms s create =
     op_bind create (\<lambda>r w. (Inr (), enqueue CALLBACKS (TSendInboundSms (is_id r) (svc_id s)) w))"

record mmg_message =
  mm_number :: string
  mm_message :: string
  mm_msisdn :: string
  mm_id :: string
  mm_date_received :: "string option"

definition receive_mmg_sms ::
  "env \<Rightarrow> inbound_lib \<Rightarrow> (string \<times> string) option \<Rightarrow> mmg_message \<Rightarrow> unit op" where
  \<comment> \<open>the user name and password of basic authentication; the counter is left out\<close>
  "receive_mmg_sms env lib auth d w =
     (case auth of
        None \<Rightarrow> (Inl (HttpAbort 401), w)
      | Some (username, password) \<Rightarrow>
          if username \<notin> set (il_mmg_usernames lib) \<or> password \<notin> set (il_mmg_passwords lib)
          then (Inl (HttpAbort 403), w)
          else
            (case fetch_potential_service (strip_leading_forty_four (mm_number d)) w of
               None \<Rightarrow> (Inr (), w)
             | Some s \<Rightarrow>
                 (case il_decode_text lib (mm_message d) of
                    Inl e \<Rightarrow> (Inl e, w)
                  | Inr content \<Rightarrow>
                      forward_inbound_sms s (create_inbound_sms_object env lib s content (mm_msisdn d)
                        (Some (mm_id d)) (mm_date_received d) ''mmg'') w)))"

record firetext_message =
  fm_destination :: string
  fm_message :: string
  fm_source :: string
  fm_time :: string

definition receive_firetext_sms ::
  "env \<Rightarrow> inbound_lib \<Rightarrow> (string \<times> string) option \<Rightarrow> firetext_message \<Rightarrow> unit op" where
  "receive_firetext_sms env lib auth d w =
     (case auth of
        None \<Rightarrow> (Inl (HttpAbort 401), w)
      | Some (username, password) \<Rightarrow>
          if username \<noteq> ''notify'' \<or> password \<notin> set (il_firetext_passwords lib)
          then (Inl (HttpAbort 403), w)
          else
            (case fetch_potential_service (strip_leading_forty_four (fm_destination d)) w of
               None \<Rightarrow> (Inr (), w)
             | Some s \<Rightarrow>
                 forward_inbound_sms s (create_inbound_sms_object env lib s (fm_message d) (fm_source d)
                   None (Some (fm_time d)) ''firetext'') w))"

section \<open>The inbox and the numbers\<close>

definition inbound_limit_days :: "uuid \<Rightarrow> world \<Rightarrow> int" where
  "inbound_limit_days service_id w =
     (case fetch_service_data_retention_by_notification_type service_id Sms w of
        None \<Rightarrow> 7 | Some d \<Rightarrow> dr_days_of_retention d)"

definition post_inbound_sms_for_service ::
  "env \<Rightarrow> uuid \<Rightarrow> string option \<Rightarrow> world \<Rightarrow> inbound_sms list result" where
  "post_inbound_sms_for_service env service_id phone_number w =
     res_bind (case phone_number of
                 None \<Rightarrow> Inr None
               | Some n \<Rightarrow> if n = [] then Inr (Some n)
                           else map_sum id Some (try_parse_and_format_phone_number env n True))
       (\<lambda>user_number. Inr (dao_get_inbound_sms_for_service env service_id user_number
          (Some (inbound_limit_days service_id w)) None w))"

definition get_inbound_sms_summary_for_service :: "env \<Rightarrow> uuid \<Rightarrow> world \<Rightarrow> nat \<times> time option" where
  "get_inbound_sms_summary_for_service env service_id w =
     (dao_count_inbound_sms_for_service env service_id 7 w,
      (case dao_get_inbound_sms_for_service env service_id None None (Some 1) w of
         [] \<Rightarrow> None | r # _ \<Rightarrow> Some (is_created_at r)))"

definition add_inbound_number_to_service :: "env \<Rightarrow> uuid \<Rightarrow> uuid option \<Rightarrow> sms_sender op" where
  "add_inbound_number_to_service env service_id inbound_number_id =
     op_bind (\<lambda>w. case inbound_number_id of
                 Some i \<Rightarrow> (Inr i, w)
               | None \<Rightarrow> (case dao_get_available_inbound_numbers w of
                            [] \<Rightarrow> (Inl (py_exception ''There are no available inbound numbers''), w)
                          | r # _ \<Rightarrow> (Inr (in_id r), w)))
       (\<lambda>i. op_bind (dao_allocate_number_for_service service_id i) (\<lambda>r w.
          case dao_get_sms_senders_by_service_id service_id w of
            [sender] \<Rightarrow> (let (s, w') = update_existing_sms_sender_with_inbound_number sender (in_number r) (in_id r) w
                         in (Inr s, w'))
          | _ \<Rightarrow> dao_add_sms_sender_for_service env service_id (in_number r) True (Some (in_id r)) w))"

end
