(* ===== verification/Inbound_Rules.thy ===== *)
theory Inbound_Rules
  imports Inbound
begin

text \<open>
  Properties of the text messages people send in: the nightly deletion removes exactly what is past
  its service's retention and archives it, and a message is stored only for the service that holds
  the number it was sent to.
\<close>

section \<open>Deletion\<close>

lemma history_after_insert:
  "ih_id ` set (fold (\<lambda>r h. if find_row ih_id (is_id r) h = None then h @ [inbound_history_of r] else h) rs h)
     = ih_id ` set h \<union> is_id ` set rs"
proof (induction rs arbitrary: h)
  case (Cons r rs)
  then show ?case by (auto simp: inbound_history_of_def find_row_None_iff)
qed simp

lemma one_pass:
  fixes p :: "inbound_sms \<Rightarrow> bool" and n :: nat and rows :: "inbound_sms list"
  assumes d: "distinct_rows is_id rows"
  defines "ids \<equiv> is_id ` set (take n (filter p rows))"
  shows "filter (\<lambda>r. \<not> p r) (delete_rows (\<lambda>r. is_id r \<in> ids) rows) = filter (\<lambda>r. \<not> p r) rows"
    and "filter p (delete_rows (\<lambda>r. is_id r \<in> ids) rows) = drop n (filter p rows)"
    and "length (filter (\<lambda>r. is_id r \<in> ids) rows) = length (take n (filter p rows))"
    and "{r \<in> set rows. is_id r \<in> ids} = set (take n (filter p rows))"
proof -
  let ?xs = "take n (filter p rows)"
  have part: "set ?xs \<subseteq> set rows" by (auto dest!: in_set_takeD)
  have ids: "is_id r \<in> ids \<longleftrightarrow> r \<in> set ?xs" if "r \<in> set rows" for r
  proof
    assume "is_id r \<in> ids"
    then obtain x where x: "x \<in> set ?xs" "is_id x = is_id r" by (auto simp: ids_def)
    then show "r \<in> set ?xs" using row_unique [OF d _ that x(2)] part by blast
  qed (simp add: ids_def)
  show "{r \<in> set rows. is_id r \<in> ids} = set ?xs" using ids part by blast
  have del: "delete_rows (\<lambda>r. is_id r \<in> ids) rows = filter (\<lambda>r. r \<notin> set ?xs) rows"
    unfolding delete_rows_def using ids by (intro filter_cong) simp_all
  have only: "p r" if "r \<in> set ?xs" for r using that by (auto dest!: in_set_takeD)
  show "filter (\<lambda>r. \<not> p r) (delete_rows (\<lambda>r. is_id r \<in> ids) rows) = filter (\<lambda>r. \<not> p r) rows"
    unfolding del filter_filter by (rule filter_cong) (use only in blast)+
  have dist: "distinct (filter p rows)"
    using d unfolding distinct_rows_def by (metis distinct_filter distinct_map)
  have "filter (\<lambda>r. r \<notin> set ?xs) (filter p rows) = drop n (filter p rows)"
  proof -
    have "distinct (?xs @ drop n (filter p rows))" using dist by simp
    then have "filter (\<lambda>r. r \<notin> set ?xs) (?xs @ drop n (filter p rows)) = drop n (filter p rows)"
      unfolding filter_append distinct_append by (auto simp: filter_empty_conv intro!: filter_True)
    then show ?thesis by simp
  qed
  then show "filter p (delete_rows (\<lambda>r. is_id r \<in> ids) rows) = drop n (filter p rows)"
    unfolding del by (simp add: conj_commute)
  have same: "filter (\<lambda>r. is_id r \<in> ids) rows = filter (\<lambda>r. r \<in> set ?xs) rows"
    using ids by (intro filter_cong) simp_all
  have "distinct (filter (\<lambda>r. r \<in> set ?xs) rows)"
    using d unfolding distinct_rows_def by (metis distinct_filter distinct_map)
  then have "length (filter (\<lambda>r. is_id r \<in> ids) rows) = card (set (filter (\<lambda>r. r \<in> set ?xs) rows))"
    unfolding same by (rule distinct_card [symmetric])
  also have "set (filter (\<lambda>r. r \<in> set ?xs) rows) = set ?xs" using part by auto
  also have "card (set ?xs) = length ?xs" using dist by (simp add: distinct_card)
  finally show "length (filter (\<lambda>r. is_id r \<in> ids) rows) = length ?xs" .
qed

definition deletes :: "(inbound_sms \<Rightarrow> bool) \<Rightarrow> nat \<Rightarrow> world \<Rightarrow> world \<Rightarrow> bool" where
  \<comment> \<open>the rows that the filter selects are gone, counted and in the archive\<close>
  "deletes p k w w' \<longleftrightarrow>
     w_inbound_sms w' = filter (\<lambda>r. \<not> p r) (w_inbound_sms w)
     \<and> k + length (w_inbound_sms w') = length (w_inbound_sms w)
     \<and> ih_id ` set (w_inbound_history w)
         \<union> is_id ` {r \<in> set (w_inbound_sms w). p r} \<subseteq> ih_id ` set (w_inbound_history w')"

lemma delete_inbound_sms_deletes:
  assumes "distinct_rows is_id (w_inbound_sms w)" "delete_inbound_sms p w = (k, w')"
  shows "deletes p k w w'"
  using assms
proof (induction p w arbitrary: k w' rule: delete_inbound_sms.induct)
  case (1 p w)
  let ?rows = "w_inbound_sms w"
  define ids where "ids = oldest_inbound_ids p w"
  define w1 where "w1 = insert_inbound_sms_history ids w"
  define w2 where "w2 = w1\<lparr>w_inbound_sms := delete_rows (\<lambda>r. is_id r \<in> ids) (w_inbound_sms w1)\<rparr>"
  define m where "m = length (filter (\<lambda>r. is_id r \<in> ids) (w_inbound_sms w1))"
  have ids: "ids = is_id ` set (take 10000 (filter p ?rows))"
    by (simp add: ids_def oldest_inbound_ids_def)
  note pass = one_pass [OF "1.prems"(1), where n = 10000 and p = p, folded ids]
  have w1: "w_inbound_sms w1 = ?rows" by (simp add: w1_def insert_inbound_sms_history_def)
  have h1: "ih_id ` set (w_inbound_history w1)
      = ih_id ` set (w_inbound_history w) \<union> is_id ` {r \<in> set ?rows. is_id r \<in> ids}"
    by (simp add: w1_def insert_inbound_sms_history_def history_after_insert)
  have rows2: "w_inbound_sms w2 = delete_rows (\<lambda>r. is_id r \<in> ids) ?rows" by (simp add: w2_def w1)
  have h2: "w_inbound_history w2 = w_inbound_history w1" by (simp add: w2_def)
  have dist2: "distinct_rows is_id (w_inbound_sms w2)"
    unfolding rows2 by (rule distinct_delete_rows) (rule "1.prems"(1))
  have len2: "m + length (w_inbound_sms w2) = length ?rows"
    unfolding rows2 m_def delete_rows_def w1 by (rule sum_length_filter_compl)
  have run: "delete_inbound_sms p w = (if m = 0 then (0, w2)
      else (let (d, w3) = delete_inbound_sms p w2 in (m + d, w3)))"
    unfolding delete_inbound_sms.simps [of p w] Let_def w2_def m_def w1_def ids_def by (rule refl)
  show ?case
  proof (cases "m = 0")
    case True
    then have "min (length (filter p ?rows)) 10000 = 0" using pass(3) by (simp add: m_def w1)
    then have "length (filter p ?rows) = 0" by (simp only: min_def split: if_splits)
    then have none: "filter p ?rows = []" by simp
    then have "w_inbound_sms w2 = ?rows" "ids = {}" by (simp_all add: rows2 ids delete_rows_def)
    moreover have "w' = w2" "k = 0" using run "1.prems"(2) True by simp_all
    ultimately show ?thesis using none h1 h2 by (auto simp: deletes_def filter_empty_conv)
  next
    case False
    obtain d w3 where rest: "delete_inbound_sms p w2 = (d, w3)" by fastforce
    have fin: "w' = w3" "k = m + d" using run "1.prems"(2) False rest by simp_all
    have more: "deletes p d w2 w3"
      using "1.IH" [OF ids_def w1_def refl m_def w2_def False dist2 rest] .
    show ?thesis
      unfolding deletes_def fin
    proof (intro conjI)
      show "w_inbound_sms w3 = filter (\<lambda>r. \<not> p r) ?rows"
        using more pass(1) by (simp add: deletes_def rows2)
      show "m + d + length (w_inbound_sms w3) = length ?rows"
        using more len2 unfolding deletes_def by linarith
      have "set (filter p ?rows) = set (take 10000 (filter p ?rows)) \<union> set (drop 10000 (filter p ?rows))"
        by (metis append_take_drop_id set_append)
      moreover have "{r \<in> set (w_inbound_sms w2). p r} = set (drop 10000 (filter p ?rows))"
        using pass(2) unfolding rows2 by (metis set_filter)
      moreover have "ih_id ` set (w_inbound_history w1)
          = ih_id ` set (w_inbound_history w) \<union> is_id ` set (take 10000 (filter p ?rows))"
        using h1 pass(4) by simp
      ultimately show "ih_id ` set (w_inbound_history w) \<union> is_id ` {r \<in> set ?rows. p r}
          \<subseteq> ih_id ` set (w_inbound_history w3)"
        using more unfolding deletes_def h2 set_filter by (simp add: image_Un)
    qed
  qed
qed

lemma deletesD:
  assumes "deletes p k w w'"
  shows "w_inbound_sms w' = filter (\<lambda>r. \<not> p r) (w_inbound_sms w)"
    and "k + length (w_inbound_sms w') = length (w_inbound_sms w)"
    and "ih_id ` set (w_inbound_history w) \<subseteq> ih_id ` set (w_inbound_history w')"
    and "r \<in> set (w_inbound_sms w) \<Longrightarrow> p r \<Longrightarrow> is_id r \<in> ih_id ` set (w_inbound_history w')"
  using assms unfolding deletes_def by blast+

lemma deletes_compose:
  assumes "deletes p k w w1" "deletes q m w1 w2"
  shows "deletes (\<lambda>r. p r \<or> q r) (k + m) w w2"
  unfolding deletes_def
proof (intro conjI)
  note one = deletesD [OF assms(1)] and two = deletesD [OF assms(2)]
  show "w_inbound_sms w2 = filter (\<lambda>r. \<not> (p r \<or> q r)) (w_inbound_sms w)"
    unfolding two(1) one(1) by simp
  show "k + m + length (w_inbound_sms w2) = length (w_inbound_sms w)"
    using one(2) two(2) by linarith
  have "is_id r \<in> ih_id ` set (w_inbound_history w2)"
    if r: "r \<in> set (w_inbound_sms w)" "p r \<or> q r" for r
  proof (cases "p r")
    case True
    then show ?thesis using one(4) [OF r(1)] two(3) by blast
  next
    case False
    then have "r \<in> set (w_inbound_sms w1)" using r(1) by (simp add: one(1))
    then show ?thesis using two(4) r(2) False by blast
  qed
  then show "ih_id ` set (w_inbound_history w) \<union> is_id ` {r \<in> set (w_inbound_sms w). p r \<or> q r}
      \<subseteq> ih_id ` set (w_inbound_history w2)"
    using one(3) two(3) by blast
qed

lemma deletes_nothing: "deletes (\<lambda>_. False) 0 w w"
  by (simp add: deletes_def)

lemma deletes_distinct: "distinct_rows is_id (w_inbound_sms w) \<Longrightarrow> deletes p k w w' \<Longrightarrow>
  distinct_rows is_id (w_inbound_sms w')"
  by (simp add: deletes_def distinct_filter_rows)

lemma deletes_by_services:
  assumes "distinct_rows is_id (w_inbound_sms u)"
    and "fold (\<lambda>d (deleted, u). let (k, u') = delete_inbound_sms (p d) u in (deleted + k, u')) ds (n, u)
           = (m, v)"
  shows "\<exists>k. m = n + k \<and> deletes (\<lambda>r. \<exists>d \<in> set ds. p d r) k u v"
  using assms
proof (induction ds arbitrary: n u)
  case Nil
  then show ?case by (simp add: deletes_nothing)
next
  case (Cons d ds)
  obtain k u' where run: "delete_inbound_sms (p d) u = (k, u')" by fastforce
  have one: "deletes (p d) k u u'" by (rule delete_inbound_sms_deletes [OF Cons.prems(1) run])
  have "distinct_rows is_id (w_inbound_sms u')" by (rule deletes_distinct [OF Cons.prems(1) one])
  then obtain k' where k': "m = n + k + k'" "deletes (\<lambda>r. \<exists>d \<in> set ds. p d r) k' u' v"
    using Cons.IH Cons.prems(2) run by (force simp: Let_def)
  have "deletes (\<lambda>r. p d r \<or> (\<exists>d \<in> set ds. p d r)) (k + k') u v"
    by (rule deletes_compose [OF one k'(2)])
  then show ?case using k'(1) by (intro exI [of _ "k + k'"]) simp
qed

definition inbound_retention_days :: "uuid \<Rightarrow> world \<Rightarrow> int" where
  \<comment> \<open>what the deletion goes by: the days of a service with an inbound number, else 7\<close>
  "inbound_retention_days service_id w =
     (case find_row dr_service_id service_id (flexible_retention w) of
        None \<Rightarrow> 7 | Some d \<Rightarrow> dr_days_of_retention d)"

definition past_inbound_retention :: "env \<Rightarrow> world \<Rightarrow> inbound_sms \<Rightarrow> bool" where
  "past_inbound_retention env w r \<longleftrightarrow>
     is_created_at r < midnight_n_days_ago env (inbound_retention_days (is_service_id r) w) w"


text \<open>
  A service that gave up its inbound number loses the retention it set: its messages are removed
  after 7 days, although the row with its own number of days is still there.
\<close>

theorem retention_lost_with_the_number:
  assumes "dao_get_inbound_number_for_service sid w = None"
  shows "inbound_retention_days sid w = 7"
proof -
  have "sid \<notin> dr_service_id ` set (flexible_retention w)"
    using assms by (auto simp: flexible_retention_def)
  then show ?thesis by (simp add: inbound_retention_days_def find_row_None_iff [THEN iffD2])
qed

section \<open>Receiving\<close>

definition stored_for :: "world \<Rightarrow> world \<Rightarrow> service \<Rightarrow> inbound_sms \<Rightarrow> bool" where
  \<comment> \<open>one row and one message to the service's task, and nothing else but a new id\<close>
  "stored_for w w' s r \<longleftrightarrow>
     is_service_id r = svc_id s \<and> get_inbound_number s w = Some (is_notify_number r)
     \<and> w' = w\<lparr>w_uuids := Suc (w_uuids w), w_inbound_sms := w_inbound_sms w @ [r],
              w_tasks := w_tasks w @ [(CALLBACKS, TSendInboundSms (is_id r) (svc_id s))]\<rparr>"

lemma create_inbound_cases:
  obtains (refused) e where "create_inbound_sms_object env lib s content from_number ref d p w = (Inl e, w)"
  | (stored) r where "create_inbound_sms_object env lib s content from_number ref d p w
        = (Inr r, w\<lparr>w_uuids := Suc (w_uuids w), w_inbound_sms := w_inbound_sms w @ [r]\<rparr>)"
      "is_service_id r = svc_id s" "get_inbound_number s w = Some (is_notify_number r)"
proof (cases "try_parse_and_format_phone_number env from_number True")
  case (Inl e)
  then show ?thesis by (intro refused [of e]) (simp add: create_inbound_sms_object_def)
next
  case user: (Inr user_number)
  let ?date = "if d \<in> {None, Some []} then Inr None
    else map_sum id Some (format_mmg_datetime lib (the d) w)"
  show ?thesis
  proof (cases ?date)
    case (Inl e)
    then show ?thesis using user
      by (intro refused [of e]) (simp only: create_inbound_sms_object_def sum.case)
  next
    case date: (Inr provider_date)
    show ?thesis
    proof (cases "get_inbound_number s w")
      case None
      then show ?thesis using user date by (intro refused [of "Db OtherSQLAlchemyError"])
          (simp only: create_inbound_sms_object_def sum.case option.case)
    next
      case (Some number)
      define r where "r = \<lparr>is_id = lib_uuid env (w_uuids w), is_created_at = w_now w,
        is_service_id = svc_id s, is_notify_number = number, is_user_number = user_number,
        is_provider_date = provider_date, is_provider_reference = ref, is_provider = p,
        is_content = il_sign lib content\<rparr>"
      have "create_inbound_sms_object env lib s content from_number ref d p w
          = (Inr r, dao_create_inbound_sms r (w\<lparr>w_uuids := Suc (w_uuids w)\<rparr>))"
        using user date Some by (simp only: create_inbound_sms_object_def sum.case option.case
          create_uuid_def Let_def prod.case r_def)
      then show ?thesis using Some by (intro stored [of r]) (simp_all add: r_def dao_create_inbound_sms_def)
    qed
  qed
qed

lemma stored_once:
  "snd (forward_inbound_sms s (create_inbound_sms_object env lib s content from_number ref d p) w) = w
   \<or> (\<exists>r. stored_for w (snd (forward_inbound_sms s
        (create_inbound_sms_object env lib s content from_number ref d p) w)) s r)"
proof (cases rule: create_inbound_cases [of env lib s content from_number ref d p w])
  case (refused e)
  then show ?thesis by (simp add: forward_inbound_sms_def)
next
  case (stored r)
  then have "stored_for w (snd (forward_inbound_sms s
      (create_inbound_sms_object env lib s content from_number ref d p) w)) s r"
    by (simp add: forward_inbound_sms_def stored_for_def enqueue_def)
  then show ?thesis by blast
qed

definition accepted_by :: "inbound_lib \<Rightarrow> bool \<Rightarrow> (string \<times> string) option \<Rightarrow> bool" where
  "accepted_by lib mmg auth \<longleftrightarrow>
     (case auth of
        None \<Rightarrow> False
      | Some (username, password) \<Rightarrow>
          if mmg then username \<in> set (il_mmg_usernames lib) \<and> password \<in> set (il_mmg_passwords lib)
          else username = ''notify'' \<and> password \<in> set (il_firetext_passwords lib))"

lemma mmg_message_stored:
  assumes wm_def: "wm = snd (receive_mmg_sms env lib auth d w)"
  shows "wm = w \<or> (\<exists>s r. accepted_by lib True auth \<and> has_permission s InboundSmsPermission
     \<and> dao_fetch_service_by_inbound_number (strip_leading_forty_four (mm_number d)) w = Some s
     \<and> stored_for w wm s r)"
proof (cases "accepted_by lib True auth \<and> wm \<noteq> w")
  case True
  then obtain u p where auth: "auth = Some (u, p)" "u \<in> set (il_mmg_usernames lib)"
      "p \<in> set (il_mmg_passwords lib)" by (auto simp: accepted_by_def split: option.splits)
  obtain s where s: "fetch_potential_service (strip_leading_forty_four (mm_number d)) w = Some s"
    using True auth unfolding wm_def
    by (cases "fetch_potential_service (strip_leading_forty_four (mm_number d)) w")
      (simp_all add: receive_mmg_sms_def)
  obtain content where content: "il_decode_text lib (mm_message d) = Inr content"
    using True auth s unfolding wm_def
    by (cases "il_decode_text lib (mm_message d)") (simp_all add: receive_mmg_sms_def)
  have "wm = snd (forward_inbound_sms s (create_inbound_sms_object env lib s content (mm_msisdn d)
      (Some (mm_id d)) (mm_date_received d) ''mmg'') w)"
    using auth s content unfolding wm_def by (simp add: receive_mmg_sms_def)
  with stored_once True obtain r where "stored_for w wm s r" by metis
  moreover have "has_permission s InboundSmsPermission
      \<and> dao_fetch_service_by_inbound_number (strip_leading_forty_four (mm_number d)) w = Some s"
    using s by (auto simp: fetch_potential_service_def split: option.splits if_splits)
  ultimately show ?thesis using True by blast
next
  case False
  then show ?thesis unfolding wm_def
    by (auto simp: receive_mmg_sms_def accepted_by_def split: option.splits)
qed

lemma firetext_message_stored:
  assumes wt_def: "wt = snd (receive_firetext_sms env lib auth f w)"
  shows "wt = w \<or> (\<exists>s r. accepted_by lib False auth \<and> has_permission s InboundSmsPermission
     \<and> dao_fetch_service_by_inbound_number (strip_leading_forty_four (fm_destination f)) w = Some s
     \<and> stored_for w wt s r)"
proof (cases "accepted_by lib False auth \<and> wt \<noteq> w")
  case True
  then obtain p where auth: "auth = Some (''notify'', p)" "p \<in> set (il_firetext_passwords lib)"
    by (auto simp: accepted_by_def split: option.splits)
  obtain s where s: "fetch_potential_service (strip_leading_forty_four (fm_destination f)) w = Some s"
    using True auth unfolding wt_def
    by (cases "fetch_potential_service (strip_leading_forty_four (fm_destination f)) w")
      (simp_all add: receive_firetext_sms_def)
  have "wt = snd (forward_inbound_sms s (create_inbound_sms_object env lib s (fm_message f) (fm_source f)
      None (Some (fm_time f)) ''firetext'') w)"
    using auth s unfolding wt_def by (simp add: receive_firetext_sms_def)
  with stored_once True obtain r where "stored_for w wt s r" by metis
  moreover have "has_permission s InboundSmsPermission
      \<and> dao_fetch_service_by_inbound_number (strip_leading_forty_four (fm_destination f)) w = Some s"
    using s by (auto simp: fetch_potential_service_def split: option.splits if_splits)
  ultimately show ?thesis using True by blast
next
  case False
  then show ?thesis unfolding wt_def
    by (auto simp: receive_firetext_sms_def accepted_by_def split: option.splits)
qed

text \<open>
  What a provider's call with a text message can do: nothing at all, or, when it carries the
  provider's credentials, store one message for the service that holds the number it was sent to,
  is permitted to receive messages and has an active number, and send that message to the
  service's task once.
\<close>

theorem inbound_message_stored_for_holder:
  "let wm = snd (receive_mmg_sms env lib auth d w); wt = snd (receive_firetext_sms env lib auth f w)
   in (wm = w \<or> (\<exists>s r. accepted_by lib True auth \<and> has_permission s InboundSmsPermission
          \<and> dao_fetch_service_by_inbound_number (strip_leading_forty_four (mm_number d)) w = Some s
          \<and> stored_for w wm s r))
    \<and> (wt = w \<or> (\<exists>s r. accepted_by lib False auth \<and> has_permission s InboundSmsPermission
          \<and> dao_fetch_service_by_inbound_number (strip_leading_forty_four (fm_destination f)) w = Some s
          \<and> stored_for w wt s r))"
  unfolding Let_def by (intro conjI mmg_message_stored [OF refl] firetext_message_stored [OF refl])

section \<open>Concrete runs\<close>

definition sample_inbound :: "uuid \<Rightarrow> uuid \<Rightarrow> time \<Rightarrow> inbound_sms" where
  "sample_inbound i sid created =
     \<lparr>is_id = i, is_created_at = created, is_service_id = sid, is_notify_number = ''0123'',
      is_user_number = ''447900900123'', is_provider_date = None, is_provider_reference = None,
      is_provider = ''mmg'', is_content = ''hello''\<rparr>"

definition inbound_world :: world where
  "inbound_world =
     sample_world\<lparr>w_now := days 200,
       w_services := [sample_service\<lparr>svc_id := 10\<rparr>, sample_service\<lparr>svc_id := 11\<rparr>],
       w_inbound_numbers := [\<lparr>in_id = 60, in_number = ''0123'', in_provider = ''mmg'', in_service_id = Some 10,
         in_active = True, in_created_at = 0, in_updated_at = None\<rparr>],
       w_retention := [\<lparr>dr_id = 70, dr_service_id = 10, dr_notification_type = Sms,
           dr_days_of_retention = 30, dr_created_at = 0, dr_updated_at = None\<rparr>,
         \<lparr>dr_id = 71, dr_service_id = 11, dr_notification_type = Sms,
           dr_days_of_retention = 30, dr_created_at = 0, dr_updated_at = None\<rparr>],
       w_inbound_sms := [sample_inbound 31 10 (days 180), sample_inbound 32 11 (days 180),
         sample_inbound 33 10 0]\<rparr>"

theorem retention_lost_with_the_number_witness:
  "inbound_retention_days 10 inbound_world = 30 \<and> inbound_retention_days 11 inbound_world = 7"
proof -
  have "dao_get_inbound_number_for_service 11 inbound_world = None" by code_simp
  from retention_lost_with_the_number [OF this] show ?thesis by (simp, code_simp)
qed


end
