(* ===== verification/Services.thy ===== *)
theory Services
  imports Users Templates Usage
begin

text \<open>
  Services: \<^verbatim>\<open>app/dao/services_dao.py\<close>, the endpoints of \<^verbatim>\<open>app/service/rest.py\<close> that create, change
  and archive a service and its membership, \<^verbatim>\<open>app/service/sender.py\<close>, and the organisation an email
  address belongs to (\<^verbatim>\<open>app/dao/organisation_dao.py\<close>). Loading a body with the marshmallow schema is
  left to the caller: an endpoint gets what the loaded body sets. The brandings of emails are a
  parameter.
\<close>

record service_lib =
  se_safe_local_part :: "string \<Rightarrow> string"
  se_email_brandings :: "(uuid \<times> string) list"
  se_collation :: "string \<Rightarrow> nat"

section \<open>Rows\<close>

definition service_to_history :: "service \<Rightarrow> service" where
  \<comment> \<open>the history table has columns only: the relationships are not copied\<close>
  "service_to_history s =
     s\<lparr>svc_permissions := [], svc_email_branding := None, svc_letter_branding := None\<rparr>"

definition insert_service :: "service \<Rightarrow> world \<Rightarrow> world" where
  \<comment> \<open>with \<open>create_history\<close>\<close>
  "insert_service s w =
     (let s' = s\<lparr>svc_version := 1, svc_created_at := w_now w\<rparr>
      in w\<lparr>w_services := w_services w @ [s'],
           w_service_history := w_service_history w @ [service_to_history s']\<rparr>)"

definition change_service :: "service \<Rightarrow> world \<Rightarrow> world" where
  "change_service s w =
     (let s' = s\<lparr>svc_version := svc_version s + 1, svc_updated_at := Some (w_now w)\<rparr>
      in w\<lparr>w_services := save_row svc_id s' (w_services w),
           w_service_history := w_service_history w @ [service_to_history s']\<rparr>)"

definition insert_flushed_service :: "service \<Rightarrow> world \<Rightarrow> world" where
  \<comment> \<open>a query flushed the new row before \<open>create_history\<close> saw it: its version 1 is not recorded\<close>
  "insert_flushed_service s w =
     (let s' = s\<lparr>svc_version := 2, svc_created_at := w_now w, svc_updated_at := Some (w_now w)\<rparr>
      in w\<lparr>w_services := w_services w @ [s'],
           w_service_history := w_service_history w @ [service_to_history s']\<rparr>)"

definition service_refused :: "service \<Rightarrow> world \<Rightarrow> bool" where
  \<comment> \<open>the unique names\<close>
  "service_refused s w \<longleftrightarrow>
     (\<exists>r \<in> set (w_services w). svc_id r \<noteq> svc_id s
        \<and> (svc_name r = svc_name s \<or> svc_normalised_service_name r = svc_normalised_service_name s))"

section \<open>Queries\<close>

definition dao_fetch_all_services :: "bool \<Rightarrow> world \<Rightarrow> service list" where
  "dao_fetch_all_services only_active w =
     sort_key svc_created_at (filter (\<lambda>s. only_active \<longrightarrow> svc_active s) (w_services w))"

definition get_services_by_partial_name :: "string \<Rightarrow> world \<Rightarrow> service list" where
  "get_services_by_partial_name service_name w =
     filter (\<lambda>s. ilike (contains_pattern (escape_special_characters service_name)) (svc_name s))
       (w_services w)"

definition is_live_service :: "service \<Rightarrow> bool" where
  "is_live_service s \<longleftrightarrow> svc_active s \<and> \<not> svc_restricted s \<and> svc_count_as_live s"

definition dao_count_live_services :: "world \<Rightarrow> nat" where
  "dao_count_live_services w = length (filter is_live_service (w_services w))"

definition dao_fetch_all_services_by_user :: "uuid \<Rightarrow> bool \<Rightarrow> world \<Rightarrow> service list" where
  "dao_fetch_all_services_by_user user_id only_active w =
     sort_key svc_created_at (filter (\<lambda>s. (user_id, svc_id s) \<in> set (w_user_services w)
       \<and> (only_active \<longrightarrow> svc_active s)) (w_services w))"

definition dao_fetch_all_services_created_by_user :: "uuid \<Rightarrow> world \<Rightarrow> service list" where
  "dao_fetch_all_services_created_by_user user_id w =
     sort_key svc_created_at (filter (\<lambda>s. svc_created_by_id s = user_id) (w_services w))"

definition dao_fetch_service_by_id_and_user :: "uuid \<Rightarrow> uuid \<Rightarrow> world \<Rightarrow> service result" where
  "dao_fetch_service_by_id_and_user service_id user_id w =
     query_one (Db NoResultFound) (Db MultipleResultsFound)
       (\<lambda>s. (user_id, svc_id s) \<in> set (w_user_services w) \<and> svc_id s = service_id) (w_services w)"

definition dao_fetch_active_users_for_service :: "uuid \<Rightarrow> world \<Rightarrow> user list" where
  "dao_fetch_active_users_for_service service_id w =
     filter (\<lambda>u. u_state u = ''active'') (service_users service_id w)"

definition get_live_services_with_organisation ::
  "service_lib \<Rightarrow> world \<Rightarrow> (uuid \<times> string \<times> organisation option) list" where
  \<comment> \<open>a service without an organisation comes last\<close>
  "get_live_services_with_organisation lib w =
     map (\<lambda>s. (svc_id s, svc_name s, organisation_of s w))
       (sort_key (\<lambda>s. if organisation_of s w = None then 1 else 0 :: nat)
         (sort_key (\<lambda>s. case organisation_of s w of None \<Rightarrow> 0 | Some r \<Rightarrow> se_collation lib (o_name r))
           (sort_key (\<lambda>s. se_collation lib (svc_name s)) (filter is_live_service (w_services w)))))"

section \<open>Numbers of today and of misuse\<close>

definition todays_notifications :: "env \<Rightarrow> world \<Rightarrow> notification list" where
  \<comment> \<open>from London's midnight; the date is the server's\<close>
  "todays_notifications env w =
     filter (\<lambda>n. get_london_midnight_in_utc env (date_of (w_now w)) \<le> n_created_at n) (w_notifications w)"

definition dao_fetch_todays_stats_for_service ::
  "env \<Rightarrow> uuid \<Rightarrow> world \<Rightarrow> ((ntype \<times> nstatus) \<times> nat) list" where
  "dao_fetch_todays_stats_for_service env service_id w =
     map (map_prod id length) (group_by (\<lambda>n. (n_type n, n_status n))
       (filter (\<lambda>n. n_service_id n = service_id \<and> n_key_type n \<noteq> TestKey) (todays_notifications env w)))"

definition dao_fetch_todays_stats_for_all_services ::
  "env \<Rightarrow> bool \<Rightarrow> bool \<Rightarrow> world \<Rightarrow> (service \<times> ((ntype \<times> nstatus) \<times> nat) option) list" where
  \<comment> \<open>the outer join: a service without notifications has one row without numbers\<close>
  "dao_fetch_todays_stats_for_all_services env include_from_test_key only_active w =
     (let rows = filter (\<lambda>n. n_created_at n < get_london_midnight_in_utc env (date_of (w_now w) + 1)
            \<and> (include_from_test_key \<or> n_key_type n \<noteq> TestKey)) (todays_notifications env w)
      in concat (map (\<lambda>s.
           case group_by (\<lambda>n. (n_type n, n_status n)) (filter (\<lambda>n. n_service_id n = svc_id s) rows) of
             [] \<Rightarrow> [(s, None)]
           | gs \<Rightarrow> map (\<lambda>(k, ns). (s, Some (k, length ns))) gs)
         (sort_key svc_id (filter (\<lambda>s. only_active \<longrightarrow> svc_active s) (w_services w)))))"

definition sent_by_live_service :: "time \<Rightarrow> time \<Rightarrow> world \<Rightarrow> notification \<Rightarrow> bool" where
  \<comment> \<open>the filter that the two searches below share\<close>
  "sent_by_live_service start_date end_date w n \<longleftrightarrow>
     start_date \<le> n_created_at n \<and> n_created_at n \<le> end_date \<and> n_key_type n \<noteq> TestKey \<and> n_type n = Sms
     \<and> (case find_row svc_id (n_service_id n) (w_services w) of
          None \<Rightarrow> False | Some s \<Rightarrow> \<not> svc_restricted s \<and> svc_active s)"

definition dao_find_services_sending_to_tv_numbers ::
  "time \<Rightarrow> time \<Rightarrow> nat \<Rightarrow> world \<Rightarrow> (uuid \<times> nat) list" where
  "dao_find_services_sending_to_tv_numbers start_date end_date limit w =
     filter (\<lambda>(i, n). n > limit) (map (map_prod id length) (group_by n_service_id
       (filter (\<lambda>n. sent_by_live_service start_date end_date w n
            \<and> (case n_normalised_to n of None \<Rightarrow> False | Some to \<Rightarrow> take 7 (drop 2 to) = ''7700900''))
         (w_notifications w))))"

record failure_rate =
  fr_service_id :: uuid
  fr_permanent_failure_count :: nat
  fr_total_count :: nat
  fr_permanent_failure_rate :: rat

definition dao_find_services_with_high_failure_rates ::
  "time \<Rightarrow> time \<Rightarrow> nat \<Rightarrow> world \<Rightarrow> failure_rate list" where
  \<comment> \<open>the inner join of the totals with the failures; \<open>Float\<close> as an exact rational\<close>
  "dao_find_services_with_high_failure_rates start_date end_date limit w =
     (let rows = filter (sent_by_live_service start_date end_date w) (w_notifications w)
      in filter (\<lambda>r. fr_permanent_failure_rate r \<ge> 1 / 4)
           (List.map_filter (\<lambda>(i, ns).
              let failed = length (filter (\<lambda>n. n_status n = PermanentFailure) ns)
              in if length ns \<ge> limit \<and> failed > 0
                 then Some \<lparr>fr_service_id = i, fr_permanent_failure_count = failed,
                        fr_total_count = length ns,
                        fr_permanent_failure_rate = of_nat failed / of_nat (length ns)\<rparr>
                 else None)
             (group_by n_service_id rows)))"

section \<open>Creating a service\<close>

fun replace_all :: "nat \<Rightarrow> string \<Rightarrow> string \<Rightarrow> string \<Rightarrow> string" where
  \<comment> \<open>\<open>str.replace\<close>; the number is how many characters of a match are still to be skipped\<close>
  "replace_all skip old new [] = []"
| "replace_all (Suc n) old new (c # cs) = replace_all n old new cs"
| "replace_all 0 old new (c # cs) =
     (if old \<noteq> [] \<and> prefix old (c # cs) then new @ replace_all (length old - 1) old new cs
      else c # replace_all 0 old new cs)"

definition dao_get_organisation_by_email_address :: "string \<Rightarrow> world \<Rightarrow> organisation option result" where
  \<comment> \<open>the longest domain first\<close>
  "dao_get_organisation_by_email_address email_address w =
     (let e = replace_all 0 ''.gsi.gov.uk'' ''.gov.uk'' (py_lower email_address)
      in case find (\<lambda>(d, _). suffix (''@'' @ d) e \<or> suffix (''.'' @ d) e)
                (rev (sort_key (\<lambda>(d, _). length d) (w_domains w))) of
           None \<Rightarrow> Inr None
         | Some (d, i) \<Rightarrow> map_sum id Some (query_one (Db NoResultFound) (Db MultipleResultsFound)
             (\<lambda>r. o_id r = i) (w_organisations w)))"

definition DEFAULT_SERVICE_PERMISSIONS :: "service_permission list" where
  "DEFAULT_SERVICE_PERMISSIONS =
     [SendType Sms, SendType Email, SendType Letter, InternationalSms, InternationalLetters,
      SendType Messagebox]"

definition branding_named :: "service_lib \<Rightarrow> string \<Rightarrow> uuid option" where
  "branding_named lib name = map_option fst (find (\<lambda>(i, n). n = name) (se_email_brandings lib))"

definition letter_branding_named :: "string \<Rightarrow> world \<Rightarrow> uuid option" where
  "letter_branding_named name w =
     map_option lb_id (query_first (\<lambda>b. lb_name b = name) (w_letter_brandings w))"

definition is_nhs_service :: "service_lib \<Rightarrow> service \<Rightarrow> user \<Rightarrow> bool" where
  "is_nhs_service lib s u \<longleftrightarrow>
     svc_organisation_type s \<in> Some ` set NHS_ORGANISATION_TYPES \<or> email_address_is_nhs (u_email_address u)"

definition with_organisation :: "service_lib \<Rightarrow> organisation option \<Rightarrow> user \<Rightarrow> service \<Rightarrow> world \<Rightarrow> service" where
  \<comment> \<open>the type, the brandings and the crown status that a new service takes\<close>
  "with_organisation lib found u s w =
     (let s1 = (case found of
            Some r \<Rightarrow>
              s\<lparr>svc_organisation_id := Some (o_id r), svc_organisation_type := o_organisation_type r,
                svc_email_branding := (case o_email_branding_id r of None \<Rightarrow> svc_email_branding s | b \<Rightarrow> b),
                svc_letter_branding := (case o_letter_branding_id r of None \<Rightarrow> svc_letter_branding s | b \<Rightarrow> b)\<rparr>
          | None \<Rightarrow>
              if is_nhs_service lib s u
              then s\<lparr>svc_email_branding := branding_named lib ''NHS'',
                     svc_letter_branding := letter_branding_named ''NHS'' w\<rparr>
              else s)
      in s1\<lparr>svc_crown :=
           (case found of
              Some r \<Rightarrow> o_crown r
            | None \<Rightarrow>
                if svc_organisation_type s1 \<in> Some ` set CROWN_ORGANISATION_TYPES then Some True
                else if svc_organisation_type s1 \<in> Some ` set NON_CROWN_ORGANISATION_TYPES then Some False
                else svc_crown s1)\<rparr>)"

definition flushed_early :: "service_lib \<Rightarrow> organisation option \<Rightarrow> user \<Rightarrow> service \<Rightarrow> bool" where
  \<comment> \<open>whether looking up a branding sends a query, which flushes the session\<close>
  "flushed_early lib found u s \<longleftrightarrow>
     (case found of
        Some r \<Rightarrow> o_email_branding_id r \<noteq> None \<or> o_letter_branding_id r \<noteq> None
      | None \<Rightarrow> is_nhs_service lib s u)"

definition dao_create_service ::
  "env \<Rightarrow> service_lib \<Rightarrow> service \<Rightarrow> user option \<Rightarrow> service_permission list option \<Rightarrow> service op" where
  \<comment> \<open>the row has its id; the tables refuse a taken id or name, a permission given twice and a
      membership or a default permission of the creator that exists\<close>
  "dao_create_service env lib s creator service_permissions =
     autocommit (\<lambda>w.
       case creator of
         None \<Rightarrow> (Inl (Py (ValueError ''Can't create a service without a user'')), w)
       | Some u \<Rightarrow>
           (case dao_get_organisation_by_email_address (u_email_address u) w of
              Inl e \<Rightarrow> (Inl e, w)
            | Inr found \<Rightarrow>
                let ps = (case service_permissions of None \<Rightarrow> DEFAULT_SERVICE_PERMISSIONS | Some l \<Rightarrow> l);
                    s1 = (with_organisation lib found u s w)
                           \<lparr>svc_active := True, svc_permissions := svc_permissions s @ ps,
                            svc_count_as_live := \<not> u_platform_admin u\<rparr>
                in if find_row svc_id (svc_id s1) (w_services w) \<noteq> None \<or> service_refused s1 w
                      \<or> \<not> distinct (svc_permissions s1)
                      \<or> (u_id u, svc_id s1) \<in> set (w_user_services w)
                   then (Inl (Db OtherSQLAlchemyError), w)
                   else
                     op_bind (add_default_service_permissions_for_user (u_id u) (svc_id s1)) (\<lambda>_ w1.
                       let w2 = insert_service_sms_sender env (svc_id s1) (cfg_from_number env) w1;
                           w3 = w2\<lparr>w_user_services := w_user_services w2 @ [(u_id u, svc_id s1)]\<rparr>
                       in (Inr s1, (if flushed_early lib found u s then insert_flushed_service
                                    else insert_service) s1 w3)) w))"

definition create_service ::
  "env \<Rightarrow> service_lib \<Rightarrow> uuid option \<Rightarrow> (env \<Rightarrow> world \<Rightarrow> service result) \<Rightarrow> service op" where
  \<comment> \<open>\<open>body\<close> is the service the body describes, without its id, or what loading it raises\<close>
  "create_service env lib user_id body =
     op_bind (op_lift (case user_id of
         None \<Rightarrow> Inl (invalid_request ''Missing data for required field.'' 400) | Some i \<Rightarrow> Inr i)) (\<lambda>i.
     op_bind (\<lambda>w. (body env w, w)) (\<lambda>s.
     op_bind (\<lambda>w. (get_user_by_id i w, w)) (\<lambda>u.
     op_bind (\<lambda>w. let (i, w1) = create_uuid env w in (Inr i, w1)) (\<lambda>service_id.
       autocommit
         (op_bind (dao_create_service env lib (s\<lparr>svc_id := service_id\<rparr>) (Some u) None) (\<lambda>s'.
          op_bind (set_default_free_allowance_for_service env (Some s') None) (\<lambda>_. op_return s')))))))"

section \<open>Messages to the users of a service\<close>

definition add_user_fields ::
  "user \<Rightarrow> (string \<times> (user \<Rightarrow> string)) list \<Rightarrow> (string \<times> string) list \<Rightarrow> (string \<times> string) list" where
  \<comment> \<open>\<open>_add_user_fields\<close>; a field comes with its getter\<close>
  "add_user_fields u user_fields ps = fold (\<lambda>(k, get). dict_set k (get u)) user_fields ps"

definition message_to_user ::
  "env \<Rightarrow> api_lib \<Rightarrow> template \<Rightarrow> service \<Rightarrow> (string \<times> string) list
     \<Rightarrow> (string \<times> (user \<Rightarrow> string)) list \<Rightarrow> user \<Rightarrow> unit op" where
  \<comment> \<open>the body of the loop; every pass sets the same keys of the shared dictionary\<close>
  "message_to_user env alib t notify_service ps user_fields u =
     op_bind (if t_type t = Email then op_return (TextData (u_email_address u))
              else validate_and_format_recipient env alib (u_mobile_number u) NormalKey notify_service
                     Sms True True) (\<lambda>r w.
       notify_user env alib t notify_service r (add_user_fields u user_fields ps)
         (get_default_reply_to_email_address (svc_id notify_service) w) w)"

definition send_notification_to_service_users ::
  "env \<Rightarrow> api_lib \<Rightarrow> account_lib \<Rightarrow> uuid \<Rightarrow> uuid \<Rightarrow> (string \<times> string) list
     \<Rightarrow> (string \<times> (user \<Rightarrow> string)) list \<Rightarrow> unit op" where
  "send_notification_to_service_users env alib lib service_id template_id ps user_fields =
     op_bind (\<lambda>w. (dao_get_template_by_id template_id None w, w)) (\<lambda>t.
     op_bind (\<lambda>w. (dao_fetch_service_by_id service_id False w, w)) (\<lambda>s.
     op_bind (\<lambda>w. (Inr (dao_fetch_active_users_for_service (svc_id s) w), w)) (\<lambda>users.
     op_bind (\<lambda>w. (dao_fetch_service_by_id (ac_notify_service_id lib) False w, w)) (\<lambda>notify_service.
       op_iter (message_to_user env alib t notify_service ps user_fields) users))))"

section \<open>Changing a service\<close>

definition dao_update_service :: "service \<Rightarrow> service op" where
  "dao_update_service s =
     autocommit (\<lambda>w.
       if service_refused s w \<or> \<not> distinct (svc_permissions s) then (Inl (Db OtherSQLAlchemyError), w)
       else (Inr s, change_service s w))"

text \<open>
  The body of an update: what loading it over the dumped row sets, and the keys the endpoint
  reads itself. The id of a branding that does not exist gives no branding.
\<close>

record service_update =
  sd_set :: "service \<Rightarrow> service result"
  sd_restricted :: "bool option"
  sd_email_branding :: "uuid option option"
  sd_letter_branding :: "uuid option option"

definition updated_service :: "service_lib \<Rightarrow> service_update \<Rightarrow> service \<Rightarrow> world \<Rightarrow> service" where
  "updated_service lib b s w =
     (let s1 = (case sd_email_branding b of
            None \<Rightarrow> s
          | Some i \<Rightarrow> s\<lparr>svc_email_branding := Option.bind i (\<lambda>x.
              if x \<in> fst ` set (se_email_brandings lib) then Some x else None)\<rparr>)
      in case sd_letter_branding b of
           None \<Rightarrow> s1
         | Some i \<Rightarrow> s1\<lparr>svc_letter_branding := Option.bind i (\<lambda>x.
             map_option lb_id (find_row lb_id x (w_letter_brandings w)))\<rparr>)"

definition going_live :: "service_update \<Rightarrow> service \<Rightarrow> bool" where
  "going_live b s \<longleftrightarrow> svc_restricted s \<and> sd_restricted b = Some False"

definition update_service ::
  "env \<Rightarrow> api_lib \<Rightarrow> account_lib \<Rightarrow> service_lib \<Rightarrow> uuid \<Rightarrow> service_update \<Rightarrow> unit op" where
  "update_service env alib acc lib service_id b =
     op_bind (\<lambda>w. (dao_fetch_service_by_id service_id False w, w)) (\<lambda>fetched.
     op_bind (op_lift (sd_set b fetched)) (\<lambda>loaded.
     op_bind (\<lambda>w. dao_update_service (updated_service lib b loaded w) w) (\<lambda>s.
       if going_live b fetched
       then send_notification_to_service_users env alib acc service_id
              (ac_template_id acc ''SERVICE_NOW_LIVE_TEMPLATE_ID'') [(''service_name'', svc_name s)]
              [(''name'', u_name)]
       else op_return ())))"

section \<open>Archiving a service\<close>

definition archived_service :: "service_lib \<Rightarrow> service \<Rightarrow> world \<Rightarrow> service" where
  "archived_service lib s w =
     set_service_name (se_safe_local_part lib) (get_archived_db_column_value (svc_name s) w)
       (s\<lparr>svc_active := False\<rparr>)"

definition dao_archive_service :: "service_lib \<Rightarrow> uuid \<Rightarrow> unit op" where
  \<comment> \<open>the templates that are not archived and the keys that have not expired\<close>
  "dao_archive_service lib service_id =
     autocommit (\<lambda>w.
       case dao_fetch_service_by_id service_id False w of
         Inl e \<Rightarrow> (Inl e, w)
       | Inr s \<Rightarrow>
           let s' = archived_service lib s w;
               templates = filter (\<lambda>t. t_service_id t = service_id \<and> \<not> t_archived t) (w_templates w);
               keys = filter (\<lambda>k. k_service_id k = service_id \<and> k_expiry_date k = None) (w_api_keys w)
           in if service_refused s' w then (Inl (Db OtherSQLAlchemyError), w)
              else (Inr (), fold (\<lambda>k. change_api_key (k\<lparr>k_expiry_date := Some (w_now w)\<rparr>)) keys
                     (fold (\<lambda>t. change_template (t\<lparr>t_archived := True\<rparr>)) templates
                       (change_service s' w))))"

definition archive_service :: "service_lib \<Rightarrow> uuid \<Rightarrow> unit op" where
  "archive_service lib service_id =
     op_bind (\<lambda>w. (dao_fetch_service_by_id service_id False w, w)) (\<lambda>s.
       if svc_active s then dao_archive_service lib (svc_id s) else op_return ())"

section \<open>Users of a service\<close>

definition add_user_to_service ::
  "uuid \<Rightarrow> uuid \<Rightarrow> permission list result \<Rightarrow> uuid list \<Rightarrow> unit op" where
  "add_user_to_service service_id user_id permissions folder_permissions =
     op_bind (\<lambda>w. (dao_fetch_service_by_id service_id False w, w)) (\<lambda>s.
     op_bind (\<lambda>w. (get_user_by_id user_id w, w)) (\<lambda>u w.
       if u \<in> set (service_users service_id w)
       then (Inl (invalid_request (''User id: '' @ uuid_str user_id @ '' already part of service id: ''
              @ uuid_str service_id) 400), w)
       else op_bind (op_lift permissions)
              (\<lambda>ps. dao_add_user_to_service service_id user_id ps folder_permissions) w))"

definition remove_user_from_service :: "uuid \<Rightarrow> uuid \<Rightarrow> unit op" where
  "remove_user_from_service service_id user_id =
     op_bind (\<lambda>w. (dao_fetch_service_by_id service_id False w, w)) (\<lambda>s.
     op_bind (\<lambda>w. (get_user_by_id user_id w, w)) (\<lambda>u w.
       if u \<notin> set (service_users service_id w) then (Inl (invalid_request ''User not found'' 404), w)
       else if length (service_users service_id w) = 1
       then (Inl (invalid_request ''You cannot remove the only user for a service'' 400), w)
       else dao_remove_user_from_service service_id user_id w))"

definition get_users_for_service :: "uuid \<Rightarrow> world \<Rightarrow> user list result" where
  "get_users_for_service service_id w =
     res_bind (dao_fetch_service_by_id service_id False w) (\<lambda>s. Inr (service_users (svc_id s) w))"

section \<open>Keys of a service\<close>

definition create_api_key :: "env \<Rightarrow> auth_lib \<Rightarrow> uuid \<Rightarrow> api_key result \<Rightarrow> string op" where
  "create_api_key env lib service_id body =
     op_bind (\<lambda>w. (dao_fetch_service_by_id service_id False w, w)) (\<lambda>s.
     op_bind (op_lift body) (\<lambda>k.
     op_bind (\<lambda>w. let (i, w1) = create_uuid env w in (Inr i, w1)) (\<lambda>i.
     op_bind (save_model_api_key env lib (k\<lparr>k_id := i, k_service_id := svc_id s\<rparr>)) (\<lambda>_ w.
       (get_unsigned_secret lib i w, w)))))"

definition get_api_keys :: "uuid \<Rightarrow> uuid option \<Rightarrow> world \<Rightarrow> api_key list result" where
  \<comment> \<open>the message of a missing key names the service\<close>
  "get_api_keys service_id key_id w =
     res_bind (dao_fetch_service_by_id service_id False w) (\<lambda>_.
       case key_id of
         None \<Rightarrow> Inr (get_model_api_keys service_id w)
       | Some i \<Rightarrow>
           (case get_model_api_key service_id i w of
              Inl (Db NoResultFound) \<Rightarrow>
                Inl (invalid_request (''API key not found for id: '' @ uuid_str service_id) 404)
            | Inl e \<Rightarrow> Inl e
            | Inr k \<Rightarrow> Inr [k]))"

definition get_service_history :: "uuid \<Rightarrow> world \<Rightarrow> service list \<times> api_key list \<times> template list" where
  "get_service_history service_id w =
     (filter (\<lambda>s. svc_id s = service_id) (w_service_history w),
      filter (\<lambda>k. k_service_id k = service_id) (w_api_key_history w),
      filter (\<lambda>t. t_service_id t = service_id) (w_template_history w))"

end
