(* ===== verification/Service_Messages.thy ===== *)
theory Service_Messages
  imports Services
begin

text \<open>
  Messages that a member of a service sends or cancels by hand: \<^verbatim>\<open>app/service/send_notification.py\<close>
  and the endpoints of \<^verbatim>\<open>app/service/rest.py\<close> on single notifications and their search. When a
  letter can be cancelled is decided by the utils library, a parameter; bodies are given as their
  schema leaves them.
\<close>

record letter_timings =
  lt_can_be_cancelled :: "time \<Rightarrow> nstatus \<Rightarrow> time \<Rightarrow> bool"
  lt_too_late_to_cancel :: "time \<Rightarrow> time \<Rightarrow> bool"
  lt_page_count :: "string \<Rightarrow> int"

section \<open>A message to one recipient\<close>

definition validate_created_by :: "service \<Rightarrow> uuid \<Rightarrow> world \<Rightarrow> unit result" where
  "validate_created_by s created_by_id w =
     res_bind (get_user_by_id created_by_id w) (\<lambda>u.
       if s \<notin> set (user_services (u_id u) w)
       then Inl (bad_request (''Can't create notification - '' @ u_name u @ '' is not part of the '' @ [CHR 0x22]
              @ svc_name s @ [CHR 0x22] @ '' service''))
       else Inr ())"

definition create_one_off_reference :: "api_lib \<Rightarrow> ntype \<Rightarrow> world \<Rightarrow> string option" where
  "create_one_off_reference lib t w =
     (if t = Letter then Some (al_random_identifier lib (w_uuids w)) else None)"

definition get_reference_from_personalisation :: "personalisation option \<Rightarrow> string option" where
  \<comment> \<open>a value that is not a text does not occur: the admin app sends texts\<close>
  "get_reference_from_personalisation ps =
     (case ps of
        None \<Rightarrow> None
      | Some p \<Rightarrow> (case map_of p ''reference'' of Some (PText x) \<Rightarrow> Some x | _ \<Rightarrow> None))"

definition one_off_reply_to_text ::
  "env \<Rightarrow> ntype \<Rightarrow> uuid option \<Rightarrow> service \<Rightarrow> template \<Rightarrow> world \<Rightarrow> string option result" where
  \<comment> \<open>a letter with a sender has no reply-to text\<close>
  "one_off_reply_to_text env t sender_id s tmpl w =
     (case sender_id of
        None \<Rightarrow> template_reply_to_text env tmpl w
      | Some i \<Rightarrow>
          if t = Email then
            (case dao_get_reply_to_by_id i (Some (svc_id s)) w of
               Inl (Db NoResultFound) \<Rightarrow> Inl (bad_request ''Reply to email address not found'')
             | Inl e \<Rightarrow> Inl e
             | Inr r \<Rightarrow> Inr (Some (rt_email_address r)))
          else if t = Sms then
            (case dao_get_service_sms_senders_by_id (svc_id s) i w of
               Inl (Db NoResultFound) \<Rightarrow> Inl (bad_request ''SMS sender not found'')
             | Inl e \<Rightarrow> Inl e
             | Inr r \<Rightarrow> map_sum id Some (try_parse_and_format_phone_number env (ss_sms_sender r) True))
          else Inr None)"

record one_off_request =
  oo_template_id :: uuid
  oo_to :: string
  oo_created_by :: uuid
  oo_sender_id :: "uuid option"
  oo_personalisation :: "personalisation option"

definition one_off_postage ::
  "api_lib \<Rightarrow> service \<Rightarrow> template \<Rightarrow> personalisation option \<Rightarrow> (postage option \<times> string option) result" where
  \<comment> \<open>and the client reference; both only of letters\<close>
  "one_off_postage lib s t ps =
     (if t_type t = Letter
      then res_bind (validate_address lib s (case ps of None \<Rightarrow> [] | Some p \<Rightarrow> p)) (\<lambda>postage.
             Inr (case postage of None \<Rightarrow> t_postage t | Some p \<Rightarrow> Some p, get_reference_from_personalisation ps))
      else Inr (None, None))"

definition one_off_call ::
  "template \<Rightarrow> one_off_request \<Rightarrow> recipient_data \<Rightarrow> string option \<Rightarrow> string option
     \<Rightarrow> postage option \<times> string option \<Rightarrow> persist_args" where
  \<comment> \<open>without recipient data the \<open>to\<close> of the body\<close>
  "one_off_call t d recipient reply_to reference letter =
     (persist_call (t_id t) (t_version t) (case recipient of NoData \<Rightarrow> TextData (oo_to d) | r \<Rightarrow> r)
        (oo_personalisation d) (t_type t) None NormalKey)
       \<lparr>pn_created_by_id := Some (oo_created_by d), pn_reply_to_text := reply_to,
        pn_reference := reference, pn_postage := fst letter, pn_client_reference := snd letter\<rparr>"

definition send_one_off_notification :: "env \<Rightarrow> api_lib \<Rightarrow> uuid \<Rightarrow> one_off_request \<Rightarrow> uuid op" where
  "send_one_off_notification env lib service_id d =
     op_bind (\<lambda>w. (dao_fetch_service_by_id service_id False w, w)) (\<lambda>s.
     op_bind (\<lambda>w. (dao_get_template_by_id_and_service_id (oo_template_id d) service_id None w, w)) (\<lambda>t.
     op_bind (\<lambda>w. (validate_template env lib (t_id t)
                (case oo_personalisation d of None \<Rightarrow> [] | Some p \<Rightarrow> p) s (t_type t) True w, w)) (\<lambda>_.
     op_bind (check_service_over_daily_message_limit env s NormalKey (ntype_name (t_type t)) 1) (\<lambda>_.
     op_bind (validate_and_format_recipient env lib (Some (oo_to d)) NormalKey s (t_type t) False True) (\<lambda>recipient.
     op_bind (op_lift (one_off_postage lib s t (oo_personalisation d))) (\<lambda>letter.
     op_bind (\<lambda>w. (validate_created_by s (oo_created_by d) w, w)) (\<lambda>_.
     op_bind (\<lambda>w. (one_off_reply_to_text env (t_type t) (oo_sender_id d) s t w, w)) (\<lambda>reply_to.
     op_bind (\<lambda>w. persist_notification env lib s (one_off_call t d recipient reply_to
                (create_one_off_reference lib (t_type t) w) letter) w) (\<lambda>n.
     op_bind (send_notification_to_queue lib n None) (\<lambda>_. op_return (n_id n)))))))))))"

section \<open>An uploaded letter\<close>

fun hex_value :: "char \<Rightarrow> nat option" where
  "hex_value c =
     (let n = (of_char c :: nat)
      in if 48 \<le> n \<and> n \<le> 57 then Some (n - 48)
         else if 65 \<le> n \<and> n \<le> 70 then Some (n - 55)
         else if 97 \<le> n \<and> n \<le> 102 then Some (n - 87)
         else None)"

fun unquote :: "string \<Rightarrow> string" where
  \<comment> \<open>\<open>urllib.parse.unquote\<close>, on the bytes of UTF-8\<close>
  "unquote (p # a # b # cs) =
     (if p = CHR ''%''
      then (case (hex_value a, hex_value b) of
              (Some x, Some y) \<Rightarrow> (char_of (16 * x + y) :: char) # unquote cs
            | _ \<Rightarrow> p # unquote (a # b # cs))
      else p # unquote (a # b # cs))"
| "unquote cs = cs"

record pdf_letter_request =
  pr_file_id :: uuid
  pr_filename :: string
  pr_created_by :: uuid
  pr_postage :: "postage option"
  pr_recipient_address :: string

definition uploaded_file_location :: "uuid \<Rightarrow> uuid \<Rightarrow> string" where
  "uploaded_file_location service_id file_id =
     ''service-'' @ uuid_str service_id @ ''/'' @ uuid_str file_id @ ''.pdf''"

definition pdf_letter_call ::
  "api_lib \<Rightarrow> letter_timings \<Rightarrow> template \<Rightarrow> pdf_letter_request \<Rightarrow> string \<Rightarrow> world \<Rightarrow> persist_args" where
  "pdf_letter_call lib lt t d pdf w =
     (persist_call (t_id t) (t_version t) (TextData (unquote (pr_recipient_address d)))
        (Some [(''address_line_1'', PText (pr_filename d))]) Letter None NormalKey)
       \<lparr>pn_notification_id := Some (pr_file_id d),
        pn_reference := create_one_off_reference lib Letter w,
        pn_client_reference := Some (pr_filename d), pn_created_by_id := Some (pr_created_by d),
        pn_billable_units := Some (get_billable_units_for_letter_page_count (Some (lt_page_count lt pdf))),
        pn_postage := (case pr_postage d of None \<Rightarrow> t_postage t | Some p \<Rightarrow> Some p)\<rparr>"

definition send_pdf_letter_notification ::
  "env \<Rightarrow> api_lib \<Rightarrow> letter_timings \<Rightarrow> uuid \<Rightarrow> pdf_letter_request \<Rightarrow> uuid op" where
  \<comment> \<open>a notification with the id of the file, of whatever service, means that the letter was sent\<close>
  "send_pdf_letter_notification env lib lt service_id d =
     op_bind (\<lambda>w. (dao_fetch_service_by_id service_id False w, w)) (\<lambda>s.
     op_bind (op_lift (check_service_has_permission s Letter)) (\<lambda>_.
     op_bind (check_service_over_daily_message_limit env s NormalKey (ntype_name Letter) 1) (\<lambda>_.
     op_bind (\<lambda>w. (validate_created_by s (pr_created_by d) w, w)) (\<lambda>_.
     op_bind (validate_and_format_recipient env lib (Some (pr_recipient_address d)) NormalKey s Letter
                False True) (\<lambda>_ w.
       if get_notification_by_id (pr_file_id d) None w \<noteq> None then (Inr (pr_file_id d), w)
       else
         op_bind (get_precompiled_letter_template env lib (svc_id s)) (\<lambda>t v.
           let location = uploaded_file_location (svc_id s) (pr_file_id d)
           in case s3_get S3_BUCKET_TRANSIENT_UPLOADED_LETTERS location v of
                None \<Rightarrow> (Inl (Storage S3ObjectNotFound), v)
              | Some (pdf, metadata) \<Rightarrow>
                  op_bind (persist_notification env lib s (pdf_letter_call lib lt t d pdf v)) (\<lambda>n.
                  op_bind (op_lift (generate_letter_pdf_filename env (n_reference n) (n_created_at n) False
                             (n_postage n))) (\<lambda>upload_filename.
                  op_bind (move_uploaded_pdf_to_letters_bucket location upload_filename)
                    (\<lambda>_. op_return (n_id n)))) v) w)))))"

section \<open>Cancelling a letter\<close>

definition cannot_cancel_message :: "env \<Rightarrow> letter_timings \<Rightarrow> notification \<Rightarrow> world \<Rightarrow> string" where
  "cannot_cancel_message env lt n w =
     (if lt_too_late_to_cancel lt (w_now w) (n_created_at n)
      then ''It's too late to cancel this letter. Printing started ''
             @ letter_print_day env (n_created_at n) w @ '' at 5.30pm''
      else if n_status n = Cancelled then ''This letter has already been cancelled.''
      else ''We could not cancel this letter. Letter status: '' @ nstatus_name (n_status n)
             @ '', created_at: '' @ datetime_str (n_created_at n))"

definition cancel_notification_for_service ::
  "env \<Rightarrow> letter_timings \<Rightarrow> uuid \<Rightarrow> uuid \<Rightarrow> notification option op" where
  "cancel_notification_for_service env lt service_id notification_id w =
     (case get_notification_by_id notification_id (Some service_id) w of
        None \<Rightarrow> (Inl (invalid_request ''Notification not found'' 404), w)
      | Some n \<Rightarrow>
          if n_type n \<noteq> Letter
          then (Inl (invalid_request ''Notification cannot be cancelled - only letters can be cancelled'' 400), w)
          else if \<not> lt_can_be_cancelled lt (w_now w) (n_status n) (n_created_at n)
          then (Inl (invalid_request (cannot_cancel_message env lt n w) 400), w)
          else
            op_bind (update_notification_status_by_id env notification_id Cancelled None None) (\<lambda>updated w1.
              (Inr updated, adjust_daily_service_limits_for_cancelled_letters env service_id 1
                 (n_created_at n) w1)) w)"

section \<open>Lists of notifications\<close>

definition page_of :: "nat \<Rightarrow> nat \<Rightarrow> 'r list \<Rightarrow> 'r list" where
  \<comment> \<open>the items of \<open>paginate\<close>\<close>
  "page_of page per_page rows = take per_page (drop ((page - 1) * per_page) rows)"

definition paginate :: "nat \<Rightarrow> nat \<Rightarrow> bool \<Rightarrow> 'r list \<Rightarrow> 'r list result" where
  \<comment> \<open>with \<open>error_out\<close> an empty page that is not the first is not found, and neither is page 0\<close>
  "paginate page per_page error_out rows =
     (let items = page_of page per_page rows
      in if error_out \<and> (page = 0 \<or> (items = [] \<and> page \<noteq> 1)) then Inl (HttpAbort 404) else Inr items)"

record notifications_request =
  nr_filter :: list_options
  nr_to :: "string option"
  nr_statuses :: "nstatus list"
  nr_page :: nat
  nr_page_size :: nat
  nr_limit_days :: "int option"
  nr_include_jobs :: bool
  nr_include_from_test_key :: bool
  nr_include_one_off :: bool
  nr_count_pages :: bool

definition search_for_notification_by_to_field ::
  "env \<Rightarrow> uuid \<Rightarrow> string \<Rightarrow> nstatus list \<Rightarrow> ntype option \<Rightarrow> world
     \<Rightarrow> (notification list \<times> (bool \<times> bool)) result" where
  \<comment> \<open>the first page and whether there are pages around it\<close>
  "search_for_notification_by_to_field env service_id search_term statuses t w =
     res_bind (dao_get_notifications_by_recipient_or_reference env service_id search_term t statuses w)
       (\<lambda>rows. res_bind (paginate 1 (cfg_page_size env) True rows) (\<lambda>items.
          Inr (items, get_prev_next_pagination_links 1 (page_of 2 (cfg_page_size env) rows \<noteq> []))))"

definition get_all_notifications_for_service ::
  "env \<Rightarrow> uuid \<Rightarrow> notifications_request \<Rightarrow> world
     \<Rightarrow> (notification list \<times> (bool \<times> bool) option) result" where
  "get_all_notifications_for_service env service_id d w =
     (if nr_to d \<notin> {None, Some []}
      then map_sum id (map_prod id Some) (search_for_notification_by_to_field env service_id (the (nr_to d))
             (nr_statuses d) (case lo_template_type (nr_filter d) of [] \<Rightarrow> None | t # _ \<Rightarrow> Some t) w)
      else
        (let rows = get_notifications_for_service env service_id
               \<lparr>sl_filter = Some (nr_filter d), sl_limit_days = nr_limit_days d, sl_key_type = None,
                sl_include_jobs = nr_include_jobs d,
                sl_include_from_test_key = nr_include_from_test_key d, sl_older_than = None,
                sl_client_reference = None, sl_include_one_off = nr_include_one_off d\<rparr> w
         in res_bind (paginate (nr_page d) (nr_page_size d) True rows) (\<lambda>items.
              Inr (items, if nr_count_pages d
                 then Some (get_prev_next_pagination_links (int (nr_page d))
                        (page_of (nr_page d + 1) (nr_page_size d) rows \<noteq> []))
                 else None))))"

definition get_notification_for_service :: "uuid \<Rightarrow> uuid \<Rightarrow> world \<Rightarrow> notification result" where
  "get_notification_for_service service_id notification_id w =
     get_notification_with_personalisation service_id notification_id None w"

end
