(* ===== verification/Service_Settings.thy ===== *)
theory Service_Settings
  imports Services
begin

text \<open>
  What a service sets and asks for: the endpoints of \<^verbatim>\<open>app/service/rest.py\<close> on senders, the guest
  list (\<^verbatim>\<open>app/service/utils.py\<close>), data retention, contact lists
  (\<^verbatim>\<open>app/dao/service_contact_list_dao.py\<close>), reports (\<^verbatim>\<open>app/dao/report_requests_dao.py\<close>), returned
  letters (\<^verbatim>\<open>app/dao/returned_letters_dao.py\<close>) and requests to join it
  (\<^verbatim>\<open>app/dao/service_join_requests_dao.py\<close>). A form has passed its schema.
\<close>

section \<open>Senders\<close>

definition check_if_reply_to_address_already_in_use :: "uuid \<Rightarrow> string \<Rightarrow> world \<Rightarrow> unit result" where
  "check_if_reply_to_address_already_in_use service_id email_address w =
     (if email_address \<in> rt_email_address ` set (dao_get_reply_to_by_service_id service_id w)
      then Inl (invalid_request (email_address
             @ '' is already a reply-to email address for this service.'') 409)
      else Inr ())"

definition verify_reply_to_email_address ::
  "env \<Rightarrow> api_lib \<Rightarrow> account_lib \<Rightarrow> uuid \<Rightarrow> string result \<Rightarrow> unit op" where
  "verify_reply_to_email_address env alib lib service_id email_address =
     op_bind (op_lift email_address) (\<lambda>email.
     op_bind (\<lambda>w. (check_if_reply_to_address_already_in_use service_id email w, w)) (\<lambda>_.
       email_user env alib lib ''REPLY_TO_EMAIL_ADDRESS_VERIFICATION_TEMPLATE_ID'' email []))"

definition add_service_reply_to_email_address ::
  "env \<Rightarrow> uuid \<Rightarrow> string \<Rightarrow> bool \<Rightarrow> email_reply_to op" where
  "add_service_reply_to_email_address env service_id email_address is_default =
     op_bind (\<lambda>w. (dao_fetch_service_by_id service_id False w, w)) (\<lambda>_.
     op_bind (\<lambda>w. (check_if_reply_to_address_already_in_use service_id email_address w, w)) (\<lambda>_.
       add_reply_to_email_address_for_service env service_id email_address is_default))"

definition update_service_reply_to_email_address ::
  "uuid \<Rightarrow> uuid \<Rightarrow> string \<Rightarrow> bool \<Rightarrow> email_reply_to op" where
  \<comment> \<open>unlike the previous endpoint it does not look for the address in the others\<close>
  "update_service_reply_to_email_address service_id i email_address is_default =
     op_bind (\<lambda>w. (dao_fetch_service_by_id service_id False w, w)) (\<lambda>_.
       update_reply_to_email_address service_id i email_address is_default)"

definition add_service_letter_contact :: "env \<Rightarrow> uuid \<Rightarrow> string \<Rightarrow> bool \<Rightarrow> letter_contact op" where
  "add_service_letter_contact env service_id contact_block is_default =
     op_bind (\<lambda>w. (dao_fetch_service_by_id service_id False w, w)) (\<lambda>_.
       add_letter_contact_for_service env service_id contact_block is_default)"

definition update_service_letter_contact :: "uuid \<Rightarrow> uuid \<Rightarrow> string \<Rightarrow> bool \<Rightarrow> letter_contact op" where
  "update_service_letter_contact service_id i contact_block is_default =
     op_bind (\<lambda>w. (dao_fetch_service_by_id service_id False w, w)) (\<lambda>_.
       update_letter_contact service_id i contact_block is_default)"

definition add_service_sms_sender :: "env \<Rightarrow> uuid \<Rightarrow> string \<Rightarrow> bool \<Rightarrow> sms_sender op" where
  "add_service_sms_sender env service_id text is_default =
     op_bind (\<lambda>w. (dao_fetch_service_by_id service_id False w, w)) (\<lambda>_.
       dao_add_sms_sender_for_service env service_id text is_default None)"

section \<open>Guest list\<close>

definition MOBILE_TYPE :: string where
  "MOBILE_TYPE = ''mobile''"

definition EMAIL_TYPE :: string where
  "EMAIL_TYPE = ''email''"

definition guest_recipient :: "env \<Rightarrow> api_lib \<Rightarrow> string \<Rightarrow> string \<Rightarrow> unit result" where
  \<comment> \<open>the checks of \<open>ServiceGuestList.from_string\<close>\<close>
  "guest_recipient env lib recipient_type recipient =
     (case (if recipient_type = MOBILE_TYPE
            then res_bind (al_phone lib recipient) (\<lambda>p. al_validate_phone lib p True False)
            else if recipient_type = EMAIL_TYPE
            then res_bind (lib_validate_email env recipient) (\<lambda>_. Inr ())
            else Inl (Py (ValueError ''Invalid recipient type''))) of
        Inl (Recipient e) \<Rightarrow>
          Inl (Py (ValueError (''Invalid guest list: '' @ [CHR 0x22] @ recipient @ [CHR 0x22])))
      | r \<Rightarrow> r)"

fun get_guest_list_objects ::
  "env \<Rightarrow> api_lib \<Rightarrow> uuid \<Rightarrow> (string \<times> string) list \<Rightarrow> guest_list_entry list op" where
  \<comment> \<open>the phone numbers of the body, then its email addresses, each with its type\<close>
  "get_guest_list_objects env lib service_id [] w = (Inr [], w)"
| "get_guest_list_objects env lib service_id ((t, r) # rs) w =
     (case guest_recipient env lib t r of
        Inl e \<Rightarrow> (Inl e, w)
      | Inr _ \<Rightarrow>
          (let (i, w1) = create_uuid env w;
               g = \<lparr>gl_id = i, gl_service_id = service_id, gl_recipient_type = t, gl_recipient = r,
                    gl_created_at = w_now w\<rparr>
           in op_bind (get_guest_list_objects env lib service_id rs) (\<lambda>gs. op_return (g # gs)) w1))"

definition get_guest_list :: "uuid \<Rightarrow> world \<Rightarrow> (string list \<times> string list) result" where
  "get_guest_list service_id w =
     res_bind (dao_fetch_service_by_id service_id False w) (\<lambda>s.
       let gs = dao_fetch_service_guest_list (svc_id s) w
       in Inr (map gl_recipient (filter (\<lambda>g. gl_recipient_type g = EMAIL_TYPE) gs),
               map gl_recipient (filter (\<lambda>g. gl_recipient_type g = MOBILE_TYPE) gs)))"

definition update_guest_list ::
  "env \<Rightarrow> api_lib \<Rightarrow> uuid \<Rightarrow> string list \<Rightarrow> string list \<Rightarrow> unit op" where
  \<comment> \<open>the removal is not committed before the new entries are made\<close>
  "update_guest_list env lib service_id phone_numbers email_addresses w =
     (let w1 = snd (dao_remove_service_guest_list service_id w)
      in case get_guest_list_objects env lib service_id
                (map (Pair MOBILE_TYPE) phone_numbers @ map (Pair EMAIL_TYPE) email_addresses) w1 of
           (Inl (Py (ValueError m)), w2) \<Rightarrow>
             (Inl (invalid_request (m @ '' is not a valid email address or phone number'') 400),
              rollback_to w w2)
         | (Inl e, w2) \<Rightarrow> (Inl e, rollback_to w w2)
         | (Inr gs, w2) \<Rightarrow> (Inr (), dao_add_and_commit_guest_list_contacts gs w2))"

section \<open>Data retention\<close>

definition fetch_service_data_retention :: "uuid \<Rightarrow> world \<Rightarrow> data_retention list" where
  "fetch_service_data_retention service_id w =
     sort_key (\<lambda>r. case dr_notification_type r of Email \<Rightarrow> 0 :: nat | Sms \<Rightarrow> 1 | Letter \<Rightarrow> 2 | Messagebox \<Rightarrow> 3)
       (filter (\<lambda>r. dr_service_id r = service_id) (w_retention w))"

definition create_service_data_retention :: "env \<Rightarrow> uuid \<Rightarrow> ntype \<Rightarrow> int \<Rightarrow> data_retention op" where
  "create_service_data_retention env service_id t days_of_retention w =
     (case insert_service_data_retention env service_id t days_of_retention w of
        (Inl (Db OtherSQLAlchemyError), w1) \<Rightarrow>
          (Inl (invalid_request (''Service already has data retention for '' @ ntype_name t
                  @ '' notification type'') 400), w1)
      | r \<Rightarrow> r)"

definition modify_service_data_retention :: "uuid \<Rightarrow> uuid \<Rightarrow> int \<Rightarrow> unit op" where
  "modify_service_data_retention service_id i days_of_retention w =
     (let (update_count, w1) = update_service_data_retention i service_id days_of_retention w
      in if update_count = 0
         then (Inl (invalid_request (''The service data retention for id: '' @ uuid_str i
                 @ '' was not found for service: '' @ uuid_str service_id) 404), w1)
         else (Inr (), w1))"

section \<open>Contact lists\<close>

definition dao_get_contact_list_by_id :: "uuid \<Rightarrow> uuid \<Rightarrow> world \<Rightarrow> contact_list result" where
  "dao_get_contact_list_by_id service_id i w =
     query_one (Db NoResultFound) (Db MultipleResultsFound)
       (\<lambda>c. cl_service_id c = service_id \<and> cl_id c = i \<and> \<not> cl_archived c) (w_contact_lists w)"

definition dao_get_contact_lists :: "uuid \<Rightarrow> world \<Rightarrow> contact_list list" where
  "dao_get_contact_lists service_id w =
     rev (sort_key cl_created_at
       (filter (\<lambda>c. cl_service_id c = service_id \<and> \<not> cl_archived c) (w_contact_lists w)))"

definition save_service_contact_list :: "contact_list \<Rightarrow> world \<Rightarrow> world" where
  "save_service_contact_list c w = w\<lparr>w_contact_lists := w_contact_lists w @ [c]\<rparr>"

definition dao_archive_contact_list :: "contact_list \<Rightarrow> world \<Rightarrow> world" where
  "dao_archive_contact_list c w =
     w\<lparr>w_contact_lists := save_row cl_id (c\<lparr>cl_archived := True, cl_updated_at := Some (w_now w)\<rparr>)
         (w_contact_lists w)\<rparr>"

definition contact_list_key :: "uuid \<Rightarrow> uuid \<Rightarrow> string" where
  \<comment> \<open>\<open>get_contact_list_location\<close>, without the bucket\<close>
  "contact_list_key service_id i =
     ''service-'' @ uuid_str service_id @ ''-notify/'' @ uuid_str i @ ''.csv''"

definition delete_contact_list_by_id :: "uuid \<Rightarrow> uuid \<Rightarrow> unit op" where
  "delete_contact_list_by_id service_id i =
     op_bind (\<lambda>w. (dao_get_contact_list_by_id service_id i w, w)) (\<lambda>c w.
       (Inr (), s3_delete ''S3_BUCKET_CONTACT_LIST'' (contact_list_key service_id i)
                  (dao_archive_contact_list c w)))"

record contact_list_form =
  cf_id :: uuid
  cf_original_file_name :: string
  cf_row_count :: int
  cf_template_type :: ntype
  cf_created_by :: uuid

definition create_contact_list :: "uuid \<Rightarrow> contact_list_form \<Rightarrow> contact_list op" where
  "create_contact_list service_id f w =
     (let c = \<lparr>cl_id = cf_id f, cl_original_file_name = cf_original_file_name f,
               cl_row_count = cf_row_count f, cl_template_type = cf_template_type f,
               cl_service_id = service_id, cl_created_by_id = Some (cf_created_by f),
               cl_created_at = w_now w, cl_updated_at = None, cl_archived = False\<rparr>
      in if find_row cl_id (cf_id f) (w_contact_lists w) \<noteq> None then (Inl (Db OtherSQLAlchemyError), w)
         else (Inr c, save_service_contact_list c w))"

section \<open>Reports\<close>

definition dao_create_report_request :: "report_request \<Rightarrow> world \<Rightarrow> world" where
  "dao_create_report_request r w = w\<lparr>w_report_requests := w_report_requests w @ [r]\<rparr>"

definition dao_get_report_request_by_id :: "uuid \<Rightarrow> uuid \<Rightarrow> world \<Rightarrow> report_request result" where
  "dao_get_report_request_by_id service_id i w =
     query_one (Db NoResultFound) (Db MultipleResultsFound)
       (\<lambda>r. rr_service_id r = service_id \<and> rr_id r = i) (w_report_requests w)"

definition dao_get_active_report_request_by_id :: "uuid \<Rightarrow> uuid \<Rightarrow> world \<Rightarrow> report_request result" where
  "dao_get_active_report_request_by_id service_id i w =
     query_one (Db NoResultFound) (Db MultipleResultsFound)
       (\<lambda>r. rr_service_id r = service_id \<and> rr_id r = i \<and> rr_status r \<noteq> ReportRequestDeleted)
       (w_report_requests w)"

definition same_report :: "report_request \<Rightarrow> report_request \<Rightarrow> bool" where
  "same_report a b \<longleftrightarrow>
     rr_user_id a = rr_user_id b \<and> rr_service_id a = rr_service_id b
     \<and> rr_notification_type a = rr_notification_type b
     \<and> rr_notification_status a = rr_notification_status b"

definition ongoing_report :: "int \<Rightarrow> world \<Rightarrow> report_request \<Rightarrow> bool" where
  \<comment> \<open>not older than the timeout, by the last update or else the creation\<close>
  "ongoing_report timeout_minutes w r \<longleftrightarrow>
     rr_status r \<in> {ReportRequestPending, ReportRequestInProgress}
     \<and> (case rr_updated_at r of None \<Rightarrow> rr_created_at r | Some t \<Rightarrow> t) > w_now w - minutes timeout_minutes"

definition dao_get_oldest_ongoing_report_request ::
  "report_request \<Rightarrow> int \<Rightarrow> world \<Rightarrow> report_request option" where
  "dao_get_oldest_ongoing_report_request r timeout_minutes w =
     query_first (\<lambda>_. True) (sort_key rr_created_at
       (filter (\<lambda>x. same_report x r \<and> ongoing_report timeout_minutes w x) (w_report_requests w)))"

definition dao_update_report_request :: "report_request \<Rightarrow> world \<Rightarrow> world" where
  "dao_update_report_request r w =
     w\<lparr>w_report_requests := save_row rr_id (r\<lparr>rr_updated_at := Some (w_now w)\<rparr>) (w_report_requests w)\<rparr>"

definition update_report_requests_status_to_deleted :: "world \<Rightarrow> world" where
  "update_report_requests_status_to_deleted w =
     w\<lparr>w_report_requests := update_rows
         (\<lambda>r. rr_status r \<noteq> ReportRequestDeleted \<and> rr_created_at r < w_now w - days 1
            \<and> rr_created_at r \<ge> w_now w - days 5)
         (\<lambda>r. r\<lparr>rr_status := ReportRequestDeleted, rr_updated_at := Some (w_now w)\<rparr>)
         (w_report_requests w)\<rparr>"

definition new_report_request ::
  "uuid \<Rightarrow> time \<Rightarrow> uuid \<Rightarrow> uuid \<Rightarrow> string \<Rightarrow> string \<Rightarrow> report_request" where
  "new_report_request i now service_id user_id t status =
     \<lparr>rr_id = i, rr_user_id = user_id, rr_service_id = service_id, rr_status = ReportRequestPending,
      rr_notification_type = t, rr_notification_status = status, rr_created_at = now,
      rr_updated_at = None\<rparr>"

definition create_report_request_by_type ::
  "env \<Rightarrow> api_lib \<Rightarrow> int \<Rightarrow> uuid \<Rightarrow> uuid \<Rightarrow> string \<Rightarrow> string \<Rightarrow> report_request op" where
  "create_report_request_by_type env lib timeout_minutes service_id user_id t status w =
     (let (i, w1) = create_uuid env w;
          r = new_report_request i (w_now w) service_id user_id t status
      in case dao_get_oldest_ongoing_report_request r timeout_minutes w of
           Some existing \<Rightarrow> (Inr existing, w)
         | None \<Rightarrow>
             op_bind (apply_async lib REPORT_REQUESTS_NOTIFICATIONS (TProcessReportRequest service_id i))
               (\<lambda>_. op_return r) (dao_create_report_request r w1))"

section \<open>Returned letters\<close>

definition notification_ids_for_references :: "string list \<Rightarrow> world \<Rightarrow> (uuid \<times> uuid) list" where
  "notification_ids_for_references references w =
     map (\<lambda>n. (n_id n, n_service_id n))
       (filter (\<lambda>n. n_reference n \<in> Some ` set references) (w_notifications w))
     @ map (\<lambda>h. (h_id h, h_service_id h))
       (filter (\<lambda>h. h_reference h \<in> Some ` set references) (w_history w))"

definition insert_returned_letter :: "env \<Rightarrow> uuid \<times> uuid \<Rightarrow> world \<Rightarrow> world" where
  \<comment> \<open>\<open>ON CONFLICT DO NOTHING\<close>, by the notification\<close>
  "insert_returned_letter env row w =
     (if find_row rtl_notification_id (fst row) (w_returned_letters w) \<noteq> None then w
      else
        (let (i, w1) = create_uuid env w
         in w1\<lparr>w_returned_letters := w_returned_letters w1
                @ [\<lparr>rtl_id = i, rtl_reported_at = date_of (w_now w), rtl_service_id = snd row,
                    rtl_notification_id = fst row, rtl_created_at = w_now w, rtl_updated_at = None\<rparr>]\<rparr>))"

definition insert_returned_letters :: "env \<Rightarrow> string list \<Rightarrow> world \<Rightarrow> world" where
  "insert_returned_letters env references w =
     fold (insert_returned_letter env) (notification_ids_for_references references w) w"

definition fetch_recent_returned_letter_count :: "env \<Rightarrow> uuid \<Rightarrow> world \<Rightarrow> nat" where
  \<comment> \<open>a date is compared as its midnight\<close>
  "fetch_recent_returned_letter_count env service_id w =
     length (filter (\<lambda>r. rtl_service_id r = service_id
       \<and> midnight_of (rtl_reported_at r) > midnight_n_days_ago env 7 w) (w_returned_letters w))"

definition fetch_most_recent_returned_letter :: "uuid \<Rightarrow> world \<Rightarrow> date option" where
  "fetch_most_recent_returned_letter service_id w =
     (let ds = map rtl_reported_at (filter (\<lambda>r. rtl_service_id r = service_id) (w_returned_letters w))
      in if ds = [] then None else Some (Max (set ds)))"

definition fetch_returned_letter_summary :: "uuid \<Rightarrow> world \<Rightarrow> (date \<times> nat) list" where
  "fetch_returned_letter_summary service_id w =
     rev (sort_key fst (map (map_prod id length) (group_by rtl_reported_at
       (filter (\<lambda>r. rtl_service_id r = service_id) (w_returned_letters w)))))"

definition returned_letter_statistics :: "env \<Rightarrow> uuid \<Rightarrow> world \<Rightarrow> nat \<times> date option" where
  "returned_letter_statistics env service_id w =
     (case fetch_most_recent_returned_letter service_id w of
        None \<Rightarrow> (0, None)
      | Some d \<Rightarrow>
          if midnight_of d < midnight_n_days_ago env 7 w then (0, Some d)
          else (fetch_recent_returned_letter_count env service_id w, Some d))"

section \<open>Requests to join a service\<close>

definition dao_create_service_join_request ::
  "env \<Rightarrow> uuid \<Rightarrow> uuid \<Rightarrow> uuid list \<Rightarrow> string option \<Rightarrow> join_request op" where
  "dao_create_service_join_request env requester_id service_id contacted_user_ids reason =
     autocommit (\<lambda>w.
       let (i, w1) = create_uuid env w;
           r = \<lparr>sj_id = i, sj_requester_id = requester_id, sj_service_id = service_id,
                sj_created_at = w_now w, sj_status = JoinPending, sj_status_changed_at = None,
                sj_status_changed_by_id = None, sj_reason = reason,
                sj_contacted_service_users =
                  map u_id (filter (\<lambda>u. u_id u \<in> set contacted_user_ids) (w_users w))\<rparr>
       in (Inr r, w1\<lparr>w_join_requests := w_join_requests w1 @ [r]\<rparr>))"

definition dao_get_service_join_request_by_id_and_service_id ::
  "uuid \<Rightarrow> uuid \<Rightarrow> world \<Rightarrow> join_request result" where
  "dao_get_service_join_request_by_id_and_service_id i service_id w =
     query_one (Db NoResultFound) (Db MultipleResultsFound)
       (\<lambda>r. sj_id r = i \<and> sj_service_id r = service_id) (w_join_requests w)"

definition dao_update_service_join_request_by_id ::
  "uuid \<Rightarrow> uuid \<Rightarrow> join_request_status \<Rightarrow> uuid \<Rightarrow> string option \<Rightarrow> join_request op" where
  \<comment> \<open>every caller gives a status; the foreign key asks for a user\<close>
  "dao_update_service_join_request_by_id i service_id status changed_by reason =
     autocommit (\<lambda>w.
       case dao_get_service_join_request_by_id_and_service_id i service_id w of
         Inl e \<Rightarrow> (Inl e, w)
       | Inr r \<Rightarrow>
           if find_row u_id changed_by (w_users w) = None then (Inl (Db OtherSQLAlchemyError), w)
           else let r' = r\<lparr>sj_status := status, sj_status_changed_by_id := Some changed_by,
                      sj_status_changed_at := Some (w_now w),
                      sj_reason := (case reason of None \<Rightarrow> sj_reason r | x \<Rightarrow> x)\<rparr>
           in (Inr r', w\<lparr>w_join_requests := save_row sj_id r' (w_join_requests w)\<rparr>))"

definition dao_cancel_pending_service_join_requests :: "uuid \<Rightarrow> uuid \<Rightarrow> uuid \<Rightarrow> unit op" where
  "dao_cancel_pending_service_join_requests requester_id approver_id service_id w =
     op_iter (\<lambda>r. op_bind (dao_update_service_join_request_by_id (sj_id r) service_id JoinCancelled
                    approver_id None) (\<lambda>_. op_return ()))
       (filter (\<lambda>r. sj_requester_id r = requester_id \<and> sj_service_id r = service_id
          \<and> sj_status r = JoinPending) (w_join_requests w)) w"

definition is_line_end :: "char \<Rightarrow> bool" where
  \<comment> \<open>the line boundaries of ASCII\<close>
  "is_line_end c \<longleftrightarrow> (of_char c :: nat) \<in> {10, 11, 12, 13, 28, 29, 30}"

fun splitlines_from :: "bool \<Rightarrow> string \<Rightarrow> string \<Rightarrow> string list" where
  \<comment> \<open>\<open>str.splitlines\<close>: whether a carriage return came before, the line read so far, and the rest\<close>
  "splitlines_from cr line [] = (if line = [] then [] else [line])"
| "splitlines_from cr line (c # cs) =
     (if cr \<and> c = CHR 0x0A then splitlines_from False line cs
      else if is_line_end c then line # splitlines_from (c = CHR 0x0D) [] cs
      else splitlines_from False (line @ [c]) cs)"

definition quoted_reason :: "string \<Rightarrow> string" where
  "quoted_reason reason = py_join [CHR 0x0A] (map (\<lambda>line. ''^ '' @ line) (splitlines_from False [] reason))"

definition invite_request_message ::
  "env \<Rightarrow> api_lib \<Rightarrow> account_lib \<Rightarrow> template \<Rightarrow> user \<Rightarrow> service \<Rightarrow> string option \<Rightarrow> string
     \<Rightarrow> user \<Rightarrow> unit op" where
  \<comment> \<open>the message to one member; without a reason there are no lines to split\<close>
  "invite_request_message env alib lib t requester s reason url recipient w =
     (case reason of
        None \<Rightarrow> (Inl (Py AttributeError), w)
      | Some r \<Rightarrow>
          (case find_row svc_id (ac_notify_service_id lib) (w_services w) of
             None \<Rightarrow> (Inl (Py AttributeError), w)
           | Some notify_service \<Rightarrow>
               notify_user env alib t notify_service (TextData (u_email_address recipient))
                 [(''approver_name'', u_name recipient), (''requester_name'', u_name requester),
                  (''requester_email_address'', u_email_address requester),
                  (''service_name'', svc_name s),
                  (''reason_given'', if r = [] then ''no'' else ''yes''),
                  (''reason'', quoted_reason r), (''url'', url)]
                 (Some (u_email_address requester)) w))"

definition send_service_invite_request ::
  "env \<Rightarrow> api_lib \<Rightarrow> account_lib \<Rightarrow> user \<Rightarrow> user list \<Rightarrow> service \<Rightarrow> string option \<Rightarrow> string \<Rightarrow> unit op" where
  \<comment> \<open>only members of the service are written to\<close>
  "send_service_invite_request env alib lib requester recipients s reason url =
     op_bind (\<lambda>w. (dao_get_template_by_id (ac_template_id lib ''REQUEST_INVITE_TO_SERVICE_TEMPLATE_ID'')
                     None w, w)) (\<lambda>t w.
       let members = filter (\<lambda>u. s \<in> set (user_services (u_id u) w)) recipients
       in op_bind (op_iter (invite_request_message env alib lib t requester s reason url) members)
            (\<lambda>_ v. if members = [] then (Inl (invalid_request ''no-valid-service-managers-ids'' 400), v)
                   else (Inr (), v)) w)"

definition send_receipt_after_sending_request_invite_letter ::
  "env \<Rightarrow> api_lib \<Rightarrow> account_lib \<Rightarrow> user \<Rightarrow> service \<Rightarrow> user list \<Rightarrow> string \<Rightarrow> unit op" where
  \<comment> \<open>the dash between name and address is a plain one\<close>
  "send_receipt_after_sending_request_invite_letter env alib lib requester s recipients url =
     op_bind (\<lambda>w. (dao_get_template_by_id
         (ac_template_id lib ''RECEIPT_FOR_REQUEST_INVITE_TO_SERVICE_TEMPLATE_ID'') None w, w)) (\<lambda>t w.
       case find_row svc_id (ac_notify_service_id lib) (w_services w) of
         None \<Rightarrow> (Inl (Py AttributeError), w)
       | Some notify_service \<Rightarrow>
           op_bind (persist_notification env alib notify_service
               ((persist_call (t_id t) (t_version t) (TextData (u_email_address requester))
                   (Some [(''requester_name'', PText (u_name requester)),
                          (''service_name'', PText (svc_name s)),
                          (''service_admin_names'',
                           PList (map (\<lambda>u. u_name u @ '' - '' @ u_email_address u) recipients)),
                          (''url_ask_to_join_page'', PText url)])
                   (t_type t) None NormalKey)
                 \<lparr>pn_reply_to_text := get_default_reply_to_email_address (svc_id notify_service) w\<rparr>))
             (\<lambda>n. send_notification_to_queue alib n (Some NOTIFY)) w)"

record join_form =
  jf_requester_id :: uuid
  jf_contacted_user_ids :: "uuid list"
  jf_invite_link_host :: string
  jf_reason :: "string option"

definition create_service_join_request ::
  "env \<Rightarrow> api_lib \<Rightarrow> account_lib \<Rightarrow> uuid \<Rightarrow> join_form \<Rightarrow> uuid op" where
  "create_service_join_request env alib lib service_id f =
     op_bind (\<lambda>w. (get_user_by_id (jf_requester_id f) w, w)) (\<lambda>requester.
     op_bind (\<lambda>w. (map_res (\<lambda>i. get_user_by_id i w) (jf_contacted_user_ids f), w)) (\<lambda>recipients.
     op_bind (\<lambda>w. (dao_fetch_service_by_id service_id False w, w)) (\<lambda>s w.
       if s \<in> set (user_services (u_id requester) w)
       then (Inl (invalid_request ''user-already-in-service'' 400), w)
       else
         let base = jf_invite_link_host f @ ''/services/'' @ uuid_str (svc_id s)
         in op_bind (dao_create_service_join_request env (jf_requester_id f) service_id
                       (jf_contacted_user_ids f) (jf_reason f)) (\<lambda>r.
            op_bind (send_service_invite_request env alib lib requester recipients s (jf_reason f)
                       (base @ ''/join-request/'' @ uuid_str (sj_id r) @ ''/approve'')) (\<lambda>_.
            op_bind (send_receipt_after_sending_request_invite_letter env alib lib requester s recipients
                       (base @ ''/join/ask'')) (\<lambda>_. op_return (sj_id r)))) w)))"

definition send_service_join_request_decision_email ::
  "env \<Rightarrow> api_lib \<Rightarrow> account_lib \<Rightarrow> string \<Rightarrow> template \<Rightarrow> (string \<times> string) list \<Rightarrow> unit op" where
  "send_service_join_request_decision_email env alib lib email t ps =
     op_bind (\<lambda>w. (dao_fetch_service_by_id (ac_notify_service_id lib) False w, w)) (\<lambda>notify_service w.
       op_bind (persist_notification env alib notify_service
           ((persist_call (t_id t) (t_version t) (TextData email)
               (Some (map (\<lambda>(k, v). (k, PText v)) ps)) Email None NormalKey)
             \<lparr>pn_reply_to_text := get_default_reply_to_email_address (svc_id notify_service) w\<rparr>))
         (\<lambda>n. send_notification_to_queue alib n (Some NOTIFY)) w)"

definition update_auth_type :: "auth_type option \<Rightarrow> user \<Rightarrow> world \<Rightarrow> world" where
  "update_auth_type updated_auth_type u w =
     (case updated_auth_type of
        None \<Rightarrow> w
      | Some a \<Rightarrow>
          if a = u_auth_type u \<or> (a = SmsAuth \<and> u_mobile_number u \<in> {None, Some []}) then w
          else save_user_attribute u (\<lambda>x. x\<lparr>u_auth_type := a\<rparr>) w)"

record join_decision =
  jd_status :: join_request_status
  jd_changed_by :: uuid
  jd_reason :: "string option"
  jd_permissions :: "permission list option"
  jd_folder_permissions :: "uuid list"
  jd_auth_type :: "auth_type option"

definition approve_join_request ::
  "env \<Rightarrow> api_lib \<Rightarrow> account_lib \<Rightarrow> join_decision \<Rightarrow> join_request \<Rightarrow> unit op" where
  \<comment> \<open>the part of the endpoint after the status has been committed\<close>
  "approve_join_request env alib lib d r =
     op_bind (\<lambda>w. (get_user_by_id (sj_requester_id r) w, w)) (\<lambda>requester.
     op_bind (\<lambda>w. (get_user_by_id (jd_changed_by d) w, w)) (\<lambda>approver.
     op_bind (\<lambda>w. (dao_fetch_service_by_id (sj_service_id r) False w, w)) (\<lambda>s.
     op_bind (dao_add_user_to_service (svc_id s) (u_id requester)
                (case jd_permissions d of None \<Rightarrow> [] | Some ps \<Rightarrow> ps) (jd_folder_permissions d)) (\<lambda>_.
     op_bind (\<lambda>w. (Inr (), update_auth_type (jd_auth_type d) requester w)) (\<lambda>_.
     op_bind (\<lambda>w. (dao_get_template_by_id (ac_template_id lib ''SERVICE_JOIN_REQUEST_APPROVED_TEMPLATE_ID'')
                     None w, w)) (\<lambda>t.
     op_bind (send_service_join_request_decision_email env alib lib (u_email_address requester) t
                [(''requester_name'', u_name requester), (''approver_name'', u_name approver),
                 (''service_name'', svc_name s),
                 (''dashboard_url'', ac_admin_base_url lib @ ''/services/'' @ uuid_str (svc_id s))]) (\<lambda>_.
       dao_cancel_pending_service_join_requests (u_id requester) (u_id approver) (svc_id s))))))))"

definition update_service_join_request_by_id ::
  "env \<Rightarrow> api_lib \<Rightarrow> account_lib \<Rightarrow> uuid \<Rightarrow> uuid \<Rightarrow> join_decision \<Rightarrow> unit op" where
  "update_service_join_request_by_id env alib lib service_id i d =
     op_bind (dao_update_service_join_request_by_id i service_id (jd_status d) (jd_changed_by d)
                (jd_reason d)) (\<lambda>r.
       if jd_status d = JoinApproved then approve_join_request env alib lib d r else op_return ())"

end
