(* ===== verification/Service_Rules.thy ===== *)
theory Service_Rules
  imports Services User_Rules Usage_Rules
begin

text \<open>
  Properties of services: the history of a service holds its versions, an archived service is
  closed to its API, a service is created with all that belongs to it or not at all, and it never
  loses its last member.
\<close>

section \<open>Versions\<close>

lemma map_save_row:
  "(\<And>x. key (f x) = key x) \<Longrightarrow> map f (save_row key r rows) = save_row key (f r) (map f rows)"
  by (induction rows) auto

lemma service_to_history_fields [simp]:
  "svc_id (service_to_history s) = svc_id s" "svc_version (service_to_history s) = svc_version s"
  by (simp_all add: service_to_history_def)

definition service_columns :: "world \<Rightarrow> service list" where
  \<comment> \<open>the table without the relationships, which are not versioned\<close>
  "service_columns w = map service_to_history (w_services w)"

interpretation services: versioned_store service_columns w_service_history svc_id svc_version
    insert_service change_service
proof
  fix s :: service and w :: world
  define s' where "s' = s\<lparr>svc_version := 1, svc_created_at := w_now w\<rparr>"
  have "svc_id s' = svc_id s" "svc_version s' = 1" by (simp_all add: s'_def)
  moreover have "service_columns (insert_service s w) = service_columns w @ [service_to_history s']"
    "w_service_history (insert_service s w) = w_service_history w @ [service_to_history s']"
    by (simp_all add: insert_service_def Let_def s'_def service_columns_def)
  ultimately show "\<exists>r'. svc_id r' = svc_id s \<and> svc_version r' = 1
      \<and> service_columns (insert_service s w) = service_columns w @ [r']
      \<and> w_service_history (insert_service s w) = w_service_history w @ [r']"
    by (intro exI [of _ "service_to_history s'"]) simp
next
  fix s :: service and w :: world
  define s' where "s' = s\<lparr>svc_version := svc_version s + 1, svc_updated_at := Some (w_now w)\<rparr>"
  have "svc_id s' = svc_id s" "svc_version s' = svc_version s + 1" by (simp_all add: s'_def)
  moreover have "service_columns (change_service s w) = save_row svc_id (service_to_history s') (service_columns w)"
    "w_service_history (change_service s w) = w_service_history w @ [service_to_history s']"
    by (simp_all add: change_service_def Let_def s'_def service_columns_def map_save_row)
  ultimately show "\<exists>r'. svc_id r' = svc_id s \<and> svc_version r' = svc_version s + 1
      \<and> service_columns (change_service s w) = save_row svc_id r' (service_columns w)
      \<and> w_service_history (change_service s w) = w_service_history w @ [r']"
    by (intro exI [of _ "service_to_history s'"]) simp
qed

context versioned_store
begin

lemma bulk_change_keeps_versions:
  assumes "all_versions s" "distinct_rows ident rs"
    and "\<And>r. r \<in> set rs \<Longrightarrow> \<exists>old \<in> set (rows s). ident r = ident old \<and> ver r = ver old"
  shows "all_versions (fold change_row rs s)"
  using assms
proof (induction rs arbitrary: s)
  case (Cons r rs)
  obtain old where old: "old \<in> set (rows s)" "ident r = ident old" "ver r = ver old"
    using Cons.prems(3) [of r] by auto
  have step: "all_versions (change_row r s)"
    by (rule change_keeps_versions [OF Cons.prems(1) old])
  have "\<exists>old \<in> set (rows (change_row r s)). ident x = ident old \<and> ver x = ver old" if x: "x \<in> set rs" for x
  proof -
    obtain y where y: "y \<in> set (rows s)" "ident x = ident y" "ver x = ver y"
      using Cons.prems(3) [of x] x by auto
    have "ident x \<noteq> ident r" using Cons.prems(2) x by (force simp: distinct_rows_def image_iff)
    moreover obtain r' where "ident r' = ident r" "rows (change_row r s) = save_row ident r' (rows s)"
      using change_rows [of r s] by blast
    moreover have "distinct_rows ident (rows s)"
      using Cons.prems(1) by (simp add: all_versions_def versions_ok_def)
    ultimately have "y \<in> set (rows (change_row r s))"
      using y set_save_row_distinct [of ident "rows s" r'] by simp
    then show ?thesis using y by blast
  qed
  moreover have "distinct_rows ident rs" using Cons.prems(2) by (simp add: distinct_rows_def)
  ultimately show ?case using Cons.IH [OF step] by simp
qed simp

end

definition histories_ok :: "world \<Rightarrow> bool" where
  \<comment> \<open>of services, templates and API keys\<close>
  "histories_ok w \<longleftrightarrow>
     versions_ok svc_id svc_version (service_columns w) (w_service_history w)
     \<and> template_versions_ok w \<and> api_key_versions_ok w"

lemma histories_iff:
  "histories_ok w \<longleftrightarrow> services.all_versions w \<and> templates.all_versions w \<and> api_keys.all_versions w"
  by (simp add: histories_ok_def services.all_versions_def template_versions_iff api_key_versions_iff)

lemma versioned_elsewhere [simp]:
  "templates.all_versions (change_service s w) = templates.all_versions w"
  "templates.all_versions (change_api_key k w) = templates.all_versions w"
  "services.all_versions (change_template t w) = services.all_versions w"
  "services.all_versions (change_api_key k w) = services.all_versions w"
  "api_keys.all_versions (change_service s w) = api_keys.all_versions w"
  "api_keys.all_versions (change_template t w) = api_keys.all_versions w"
  by (simp_all add: templates.all_versions_def services.all_versions_def api_keys.all_versions_def
    service_columns_def change_service_def change_template_def change_api_key_def Let_def)

lemma fold_keeps: "(\<And>x v. x \<in> set xs \<Longrightarrow> P v \<Longrightarrow> P (f x v)) \<Longrightarrow> P w \<Longrightarrow> P (fold f xs w)"
  by (induction xs arbitrary: w) auto

lemma fold_map_arg: "fold (\<lambda>x. f (g x)) xs w = fold f (map g xs) w"
  by (simp add: fold_map comp_def)

lemma bulk_change_rows:
  assumes "distinct_rows key rows" "\<And>r. key (f r) = key r"
  shows "fold (\<lambda>r. save_row key (f r)) (filter p rows) rows = update_rows p f rows"
proof -
  have "fold (\<lambda>r. save_row key (f r)) (filter p ys) (xs @ ys) = xs @ update_rows p f ys"
    if "distinct_rows key (xs @ ys)" for xs ys
    using that
  proof (induction ys arbitrary: xs)
    case (Cons y ys)
    show ?case
    proof (cases "p y")
      case True
      have "key y \<notin> key ` set xs" using Cons.prems by (auto simp: distinct_rows_def)
      then have "save_row key (f y) (xs @ y # ys) = (xs @ [f y]) @ ys"
        by (induction xs) (auto simp: assms(2))
      moreover have "distinct_rows key ((xs @ [f y]) @ ys)"
        using Cons.prems by (simp add: distinct_rows_def assms(2))
      ultimately show ?thesis using Cons.IH [of "xs @ [f y]"] True by (simp add: update_rows_def)
    next
      case False
      then show ?thesis using Cons.IH [of "xs @ [y]"] Cons.prems by (simp add: update_rows_def)
    qed
  qed (simp add: update_rows_def)
  from this [of "[]" rows] show ?thesis using assms(1) by simp
qed

section \<open>Archiving\<close>

definition expired_key :: "time \<Rightarrow> api_key \<Rightarrow> api_key" where
  "expired_key now k =
     k\<lparr>k_expiry_date := Some now, k_version := k_version k + 1, k_updated_at := Some now\<rparr>"

definition archived_template :: "time \<Rightarrow> template \<Rightarrow> template" where
  "archived_template now t =
     t\<lparr>t_archived := True, t_version := t_version t + 1, t_updated_at := Some now\<rparr>"

lemma archived_keys [simp]:
  "k_id (expired_key now k) = k_id k" "t_id (archived_template now t) = t_id t"
  by (simp_all add: expired_key_def archived_template_def)

lemma bulk_keys:
  "w_now w = now \<Longrightarrow> w_api_keys (fold (\<lambda>k. change_api_key (k\<lparr>k_expiry_date := Some now\<rparr>)) ks w)
     = fold (\<lambda>k. save_row k_id (expired_key now k)) ks (w_api_keys w)"
  by (induction ks arbitrary: w) (simp_all add: change_api_key_def Let_def expired_key_def)

lemma bulk_templates:
  "w_templates (fold (\<lambda>t. change_template (t\<lparr>t_archived := True\<rparr>)) ts w)
     = fold (\<lambda>t. save_row t_id (archived_template (w_now w) t)) ts (w_templates w)"
  by (induction ts arbitrary: w) (simp_all add: change_template_def Let_def archived_template_def)

lemma bulk_elsewhere [simp]:
  "w_services (fold (\<lambda>k. change_api_key (f k)) ks w) = w_services w"
  "w_templates (fold (\<lambda>k. change_api_key (f k)) ks w) = w_templates w"
  "w_services (fold (\<lambda>t. change_template (g t)) ts w) = w_services w"
  "w_api_keys (fold (\<lambda>t. change_template (g t)) ts w) = w_api_keys w"
  "w_now (fold (\<lambda>t. change_template (g t)) ts w) = w_now w"
  by (rule fold_keeps; simp add: change_api_key_def change_template_def Let_def)+

lemma change_service_tables [simp]:
  "w_api_keys (change_service s w) = w_api_keys w" "w_templates (change_service s w) = w_templates w"
  "w_now (change_service s w) = w_now w"
  by (simp_all add: change_service_def Let_def)

lemma fetch_service:
  "dao_fetch_service_by_id i False w = Inr s \<Longrightarrow> s \<in> set (w_services w) \<and> svc_id s = i"
  unfolding dao_fetch_service_by_id_def by (auto dest: query_one_InrD)

lemma archive_run:
  assumes "archive_service lib sid w = (Inr (), w')" "dao_fetch_service_by_id sid False w = Inr s" "svc_active s"
  shows "w' = fold (\<lambda>k. change_api_key (k\<lparr>k_expiry_date := Some (w_now w)\<rparr>))
      (filter (\<lambda>k. k_service_id k = sid \<and> k_expiry_date k = None) (w_api_keys w))
      (fold (\<lambda>t. change_template (t\<lparr>t_archived := True\<rparr>))
        (filter (\<lambda>t. t_service_id t = sid \<and> \<not> t_archived t) (w_templates w))
        (change_service (archived_service lib s w) w))"
  using assms fetch_service [OF assms(2)]
  by (auto simp: archive_service_def dao_archive_service_def autocommit_def Let_def split: if_splits)

lemma archive_no_run:
  assumes "archive_service lib sid w = (res, w')"
    and "res \<noteq> Inr () \<or> (\<exists>s. dao_fetch_service_by_id sid False w = Inr s \<and> \<not> svc_active s)"
  shows "w_services w' = w_services w" "w_templates w' = w_templates w" "w_api_keys w' = w_api_keys w"
    "w_service_history w' = w_service_history w" "w_template_history w' = w_template_history w"
    "w_api_key_history w' = w_api_key_history w"
  using assms
  by (auto simp: archive_service_def dao_archive_service_def autocommit_def Let_def op_bind_def
    op_return_def rollback_to_def split: if_splits sum.splits)

lemma archived_service_fields [simp]:
  "svc_id (archived_service lib s w) = svc_id s" "svc_active (archived_service lib s w) = False"
  "svc_version (archived_service lib s w) = svc_version s"
  by (simp_all add: archived_service_def set_service_name_def Let_def)

definition primary_keys :: "world \<Rightarrow> bool" where
  "primary_keys w \<longleftrightarrow> distinct_rows svc_id (w_services w) \<and> distinct_rows t_id (w_templates w)
     \<and> distinct_rows k_id (w_api_keys w)"

text \<open>
  C35: An archived service is closed: its row is inactive, exactly its templates that were in use are
  archived and exactly its keys that were live are expired, now; no request is authorised for it
  any more, with whatever token. The services, templates and keys of others are untouched.
\<close>

theorem archived_service_is_closed:
  assumes keys: "primary_keys w"
    and run: "archive_service lib sid w = (Inr (), w')"
    and active: "dao_fetch_service_by_id sid False w = Inr s" "svc_active s"
  shows "\<exists>s'. svc_id s' = sid \<and> \<not> svc_active s' \<and> svc_version s' = svc_version s + 1
      \<and> w_services w' = save_row svc_id s' (w_services w)
    \<and> w_templates w' = update_rows (\<lambda>t. t_service_id t = sid \<and> \<not> t_archived t)
        (archived_template (w_now w)) (w_templates w)
    \<and> w_api_keys w' = update_rows (\<lambda>k. k_service_id k = sid \<and> k_expiry_date k = None)
        (expired_key (w_now w)) (w_api_keys w)
    \<and> (\<nexists>au header r k. svc_id r = sid \<and> requires_auth au header w' = Inr (r, k))"
proof -
  define s' where "s' = (archived_service lib s w)
    \<lparr>svc_version := svc_version s + 1, svc_updated_at := Some (w_now w)\<rparr>"
  have s: "s \<in> set (w_services w)" "svc_id s = sid" using fetch_service [OF active(1)] by simp_all
  have s': "svc_id s' = sid" "\<not> svc_active s'" "svc_version s' = svc_version s + 1"
    by (simp_all add: s'_def s(2))
  have w': "w' = fold (\<lambda>k. change_api_key (k\<lparr>k_expiry_date := Some (w_now w)\<rparr>))
      (filter (\<lambda>k. k_service_id k = sid \<and> k_expiry_date k = None) (w_api_keys w))
      (fold (\<lambda>t. change_template (t\<lparr>t_archived := True\<rparr>))
        (filter (\<lambda>t. t_service_id t = sid \<and> \<not> t_archived t) (w_templates w))
        (change_service (archived_service lib s w) w))"
    by (rule archive_run [OF run active])
  have services: "w_services w' = save_row svc_id s' (w_services w)"
    unfolding w' by (simp add: change_service_def Let_def s'_def)
  have templates: "w_templates w' = update_rows (\<lambda>t. t_service_id t = sid \<and> \<not> t_archived t)
      (archived_template (w_now w)) (w_templates w)"
    unfolding w' using keys
    by (simp add: bulk_templates bulk_change_rows primary_keys_def)
  have api_keys: "w_api_keys w' = update_rows (\<lambda>k. k_service_id k = sid \<and> k_expiry_date k = None)
      (expired_key (w_now w)) (w_api_keys w)"
    unfolding w' using keys
    by (simp add: bulk_keys bulk_change_rows primary_keys_def)
  have "\<not> svc_active r" if r: "r \<in> set (w_services w')" "svc_id r = sid" for r
  proof -
    have "r = s'"
      using r set_save_row_distinct [of svc_id "w_services w" s'] keys s'(1)
      by (auto simp: services primary_keys_def)
    then show ?thesis using s'(2) by simp
  qed
  then have "\<nexists>au header r k. svc_id r = sid \<and> requires_auth au header w' = Inr (r, k)"
    by (blast elim: requires_auth_InrD)
  then show ?thesis using s' services templates api_keys by blast
qed

section \<open>Histories\<close>

lemma archive_histories:
  assumes ok: "histories_ok w" and run: "archive_service lib sid w = (res, w')"
  shows "histories_ok w'"
proof (cases "res = Inr () \<and> \<not> (\<exists>s. dao_fetch_service_by_id sid False w = Inr s \<and> \<not> svc_active s)")
  case True
  obtain s where s: "dao_fetch_service_by_id sid False w = Inr s"
    using True run by (cases "dao_fetch_service_by_id sid False w") (auto simp: archive_service_def op_bind_def)
  then have "svc_active s" using True by blast
  from archive_run [OF _ s this] True run
  have w': "w' = fold (\<lambda>k. change_api_key (k\<lparr>k_expiry_date := Some (w_now w)\<rparr>))
      (filter (\<lambda>k. k_service_id k = sid \<and> k_expiry_date k = None) (w_api_keys w))
      (fold (\<lambda>t. change_template (t\<lparr>t_archived := True\<rparr>))
        (filter (\<lambda>t. t_service_id t = sid \<and> \<not> t_archived t) (w_templates w))
        (change_service (archived_service lib s w) w))" by blast
  define w1 where "w1 = change_service (archived_service lib s w) w"
  define ts where "ts = map (\<lambda>t. t\<lparr>t_archived := True\<rparr>)
    (filter (\<lambda>t. t_service_id t = sid \<and> \<not> t_archived t) (w_templates w))"
  define ks where "ks = map (\<lambda>k. k\<lparr>k_expiry_date := Some (w_now w)\<rparr>)
    (filter (\<lambda>k. k_service_id k = sid \<and> k_expiry_date k = None) (w_api_keys w))"
  define w2 where "w2 = fold change_template ts w1"
  have w': "w' = fold change_api_key ks w2"
    by (simp add: w' w2_def w1_def ts_def ks_def fold_map comp_def)
  have start: "services.all_versions w" "templates.all_versions w" "api_keys.all_versions w"
    using ok by (simp_all add: histories_iff)
  have old: "service_to_history s \<in> set (service_columns w)"
    using fetch_service [OF s] by (simp add: service_columns_def)
  have one: "services.all_versions w1"
    unfolding w1_def by (rule services.change_keeps_versions [OF start(1) old]) simp_all
  have two: "templates.all_versions w1" "api_keys.all_versions w1"
    using start(2,3) by (simp_all add: w1_def)
  have "templates.all_versions w2"
    unfolding w2_def
  proof (rule templates.bulk_change_keeps_versions [OF two(1)])
    show "distinct_rows t_id ts"
      using start(2) unfolding ts_def templates.all_versions_def versions_ok_def distinct_rows_def
      by (simp add: comp_def distinct_map_filter)
    show "\<exists>old \<in> set (w_templates w1). t_id r = t_id old \<and> t_version r = t_version old"
      if "r \<in> set ts" for r using that by (auto simp: ts_def w1_def)
  qed
  moreover have "services.all_versions w2" "api_keys.all_versions w2"
    unfolding w2_def by (rule fold_keeps; simp add: one two)+
  moreover have keys2: "w_api_keys w2 = w_api_keys w"
    unfolding w2_def w1_def by (rule fold_keeps; simp add: change_template_def Let_def)
  ultimately have "services.all_versions w2" "templates.all_versions w2" "api_keys.all_versions w2" by simp_all
  moreover have "api_keys.all_versions w'"
    unfolding w'
  proof (rule api_keys.bulk_change_keeps_versions)
    show "api_keys.all_versions w2" by fact
    show "distinct_rows k_id ks"
      using start(3) unfolding ks_def api_keys.all_versions_def versions_ok_def distinct_rows_def
      by (simp add: comp_def distinct_map_filter)
    show "\<exists>old \<in> set (w_api_keys w2). k_id r = k_id old \<and> k_version r = k_version old"
      if "r \<in> set ks" for r using that by (auto simp: ks_def keys2)
  qed
  moreover have "services.all_versions w'" "templates.all_versions w'"
    unfolding w' using calculation(1,2) by (auto intro: fold_keeps)
  ultimately show ?thesis by (simp add: histories_iff)
next
  case False
  then have "res \<noteq> Inr () \<or> (\<exists>s. dao_fetch_service_by_id sid False w = Inr s \<and> \<not> svc_active s)" by blast
  from archive_no_run [OF run this] show ?thesis
    using ok by (simp add: histories_ok_def service_columns_def template_versions_ok_def api_key_versions_ok_def)
qed

lemma update_histories:
  assumes ok: "histories_ok w" and old: "s0 \<in> set (w_services w)" "svc_id s = svc_id s0"
    "svc_version s = svc_version s0"
  shows "histories_ok (snd (dao_update_service s w))"
proof -
  have "service_to_history s0 \<in> set (service_columns w)" using old(1) by (simp add: service_columns_def)
  from services.change_keeps_versions [OF _ this, of s] ok old(2,3)
  have "histories_ok (change_service s w)" by (simp add: histories_iff)
  moreover have "histories_ok (rollback_to w w)" using ok by (simp add: rollback_to_def)
  ultimately show ?thesis by (simp add: dao_update_service_def autocommit_def)
qed

section \<open>Creating a service\<close>

definition created_service ::
  "service_lib \<Rightarrow> organisation option \<Rightarrow> user \<Rightarrow> service_permission list option \<Rightarrow> service \<Rightarrow> world \<Rightarrow> service" where
  "created_service lib found u ps s w =
     (with_organisation lib found u s w)
       \<lparr>svc_active := True,
        svc_permissions := svc_permissions s @ (case ps of None \<Rightarrow> DEFAULT_SERVICE_PERMISSIONS | Some l \<Rightarrow> l),
        svc_count_as_live := \<not> u_platform_admin u\<rparr>"

lemma created_service_id [simp]: "svc_id (created_service lib found u ps s w) = svc_id s"
  by (simp add: created_service_def with_organisation_def Let_def split: option.splits)

definition before_insert :: "env \<Rightarrow> user \<Rightarrow> uuid \<Rightarrow> world \<Rightarrow> world" where
  \<comment> \<open>the rows of the creator and the sender, before the service's own\<close>
  "before_insert env u sid w =
     (let w1 = w\<lparr>w_permissions := w_permissions w
                 @ map (permission_row (u_id u) sid w) default_service_permissions\<rparr>;
          w2 = insert_service_sms_sender env sid (cfg_from_number env) w1
      in w2\<lparr>w_user_services := w_user_services w2 @ [(u_id u, sid)]\<rparr>)"

lemma before_insert_tables [simp]:
  "w_services (before_insert env u sid w) = w_services w"
  "w_service_history (before_insert env u sid w) = w_service_history w"
  "w_templates (before_insert env u sid w) = w_templates w"
  "w_template_history (before_insert env u sid w) = w_template_history w"
  "w_api_keys (before_insert env u sid w) = w_api_keys w"
  "w_api_key_history (before_insert env u sid w) = w_api_key_history w"
  "w_now (before_insert env u sid w) = w_now w"
  "w_annual_billing (before_insert env u sid w) = w_annual_billing w"
  "w_users (before_insert env u sid w) = w_users w"
  "w_user_services (before_insert env u sid w) = w_user_services w @ [(u_id u, sid)]"
  "w_permissions (before_insert env u sid w)
     = w_permissions w @ map (permission_row (u_id u) sid w) default_service_permissions"
  by (simp_all add: before_insert_def insert_service_sms_sender_def new_sms_sender_def save_sender_def
    create_uuid_def Let_def)

lemma create_run:
  assumes "dao_create_service env lib s (Some u) ps w = (Inr s1, w')"
  obtains found where "dao_get_organisation_by_email_address (u_email_address u) w = Inr found"
    "s1 = created_service lib found u ps s w" "svc_id s \<notin> svc_id ` set (w_services w)"
    "w' = (if flushed_early lib found u s then insert_flushed_service else insert_service) s1
        (before_insert env u (svc_id s) w)"
proof -
  obtain found where found: "dao_get_organisation_by_email_address (u_email_address u) w = Inr found"
    using assms by (cases "dao_get_organisation_by_email_address (u_email_address u) w")
      (simp_all add: dao_create_service_def autocommit_def)
  define r where "r = created_service lib found u ps s w"
  define refused where "refused \<longleftrightarrow> find_row svc_id (svc_id r) (w_services w) \<noteq> None \<or> service_refused r w
    \<or> \<not> distinct (svc_permissions r) \<or> (u_id u, svc_id r) \<in> set (w_user_services w)"
  define tail where "tail = (\<lambda>w1. let w2 = insert_service_sms_sender env (svc_id r) (cfg_from_number env) w1;
      w3 = w2\<lparr>w_user_services := w_user_services w2 @ [(u_id u, svc_id r)]\<rparr>
    in (Inr r :: service result, (if flushed_early lib found u s then insert_flushed_service
          else insert_service) r w3))"
  have body: "dao_create_service env lib s (Some u) ps w = autocommit (\<lambda>w.
      if refused then (Inl (Db OtherSQLAlchemyError), w)
      else op_bind (add_default_service_permissions_for_user (u_id u) (svc_id r)) (\<lambda>_. tail) w) w"
    by (simp add: dao_create_service_def autocommit_def found refused_def tail_def r_def
      created_service_def Let_def)
  have "\<not> refused" using assms unfolding body by (auto simp: autocommit_def)
  then have new: "svc_id s \<notin> svc_id ` set (w_services w)"
    by (simp add: refused_def r_def find_row_None_iff)
  have "distinct default_service_permissions
      \<and> add_permissions (u_id u) (svc_id r) default_service_permissions w
        = (Inr (), w\<lparr>w_permissions := w_permissions w
            @ map (permission_row (u_id u) (svc_id r) w) default_service_permissions\<rparr>)"
    using assms \<open>\<not> refused\<close> unfolding body
    by (auto simp: autocommit_def add_default_service_permissions_for_user_def add_permissions_def
      op_bind_def split: if_splits)
  then have "dao_create_service env lib s (Some u) ps w
      = (Inr r, (if flushed_early lib found u s then insert_flushed_service else insert_service) r
          (before_insert env u (svc_id s) w))"
    unfolding body using \<open>\<not> refused\<close>
    by (simp add: autocommit_def add_default_service_permissions_for_user_def tail_def before_insert_def
      Let_def r_def)
  then show ?thesis using that [OF found _ new] assms by (simp add: r_def)
qed

lemma create_histories:
  assumes ok: "histories_ok w" and run: "dao_create_service env lib s (Some u) ps w = (Inr s1, w')"
    and org: "dao_get_organisation_by_email_address (u_email_address u) w = Inr found"
      "\<not> flushed_early lib found u s"
  shows "histories_ok w'"
  using run
proof (rule create_run)
  fix found'
  assume f: "dao_get_organisation_by_email_address (u_email_address u) w = Inr found'"
    and s1: "s1 = created_service lib found' u ps s w" and new: "svc_id s \<notin> svc_id ` set (w_services w)"
    and w': "w' = (if flushed_early lib found' u s then insert_flushed_service else insert_service) s1
        (before_insert env u (svc_id s) w)"
  define v where "v = before_insert env u (svc_id s) w"
  have v: "services.all_versions v" "templates.all_versions v" "api_keys.all_versions v"
    using ok by (simp_all add: histories_iff v_def services.all_versions_def templates.all_versions_def
      api_keys.all_versions_def service_columns_def)
  have fresh: "svc_id s1 \<notin> svc_id ` set (service_columns v)"
    using new by (auto simp: s1 v_def service_columns_def)
  have "w' = insert_service s1 v" using w' org f by (simp add: v_def)
  moreover have "services.all_versions (insert_service s1 v)"
    by (rule services.insert_keeps_versions [OF v(1) fresh])
  moreover have "templates.all_versions (insert_service s1 v)" "api_keys.all_versions (insert_service s1 v)"
    using v by (simp_all add: templates.all_versions_def api_keys.all_versions_def insert_service_def Let_def)
  ultimately show ?thesis by (simp add: histories_iff)
qed

inductive service_step :: "env \<Rightarrow> service_lib \<Rightarrow> world \<Rightarrow> world \<Rightarrow> bool" for env lib where
  archive: "service_step env lib w (snd (archive_service lib sid w))"
| update: "s0 \<in> set (w_services w) \<Longrightarrow> svc_id s = svc_id s0 \<Longrightarrow> svc_version s = svc_version s0 \<Longrightarrow>
    service_step env lib w (snd (dao_update_service s w))"
| create: "dao_create_service env lib s (Some u) ps w = (Inr s1, w') \<Longrightarrow>
    dao_get_organisation_by_email_address (u_email_address u) w = Inr found \<Longrightarrow>
    \<not> flushed_early lib found u s \<Longrightarrow> service_step env lib w w'"

text \<open>
  However services are created (without a lookup of brandings), changed and archived: the history
  of a service has every one of its versions, from the first to the current one.
\<close>

theorem every_service_version_kept:
  assumes "(service_step env lib)\<^sup>*\<^sup>* w w'" "histories_ok w"
    and "s \<in> set (w_services w')" "1 \<le> v" "v \<le> svc_version s"
  shows "\<exists>h \<in> set (w_service_history w'). svc_id h = svc_id s \<and> svc_version h = v"
proof -
  have step: "histories_ok w2" if "service_step env lib w1 w2" "histories_ok w1" for w1 w2
    using that
  proof cases
    case (archive sid)
    then show ?thesis using archive_histories [OF that(2), of lib sid "fst (archive_service lib sid w1)"]
      by simp
  next
    case (update s0 s)
    then show ?thesis using update_histories [OF that(2)] by simp
  next
    case (create s u ps s1 found)
    then show ?thesis using create_histories [OF that(2)] by blast
  qed
  from assms(1,2) have "histories_ok w'" by (induction rule: rtranclp_induct) (auto intro: step)
  then have "services.all_versions w'" by (simp add: histories_iff)
  from services.every_version_kept [OF this, of "service_to_history s" v] assms(3-5)
  show ?thesis by (simp add: service_columns_def)
qed

text \<open>
  A service that takes the branding of its organisation or of the NHS is flushed before its history
  is written: it starts at version 2 and its history has no version 1.
\<close>

theorem first_version_not_recorded:
  assumes "dao_create_service env lib s (Some u) ps w = (Inr s1, w')"
    and "dao_get_organisation_by_email_address (u_email_address u) w = Inr found"
    and "flushed_early lib found u s" "svc_id s \<notin> svc_id ` set (w_service_history w)"
  shows "map svc_version (filter (\<lambda>r. svc_id r = svc_id s) (w_service_history w')) = [2]"
  using assms(1)
proof (rule create_run)
  fix found'
  assume f: "dao_get_organisation_by_email_address (u_email_address u) w = Inr found'"
    and s1: "s1 = created_service lib found' u ps s w"
    and w': "w' = (if flushed_early lib found' u s then insert_flushed_service else insert_service) s1
        (before_insert env u (svc_id s) w)"
  have "filter (\<lambda>r. svc_id r = svc_id s) (w_service_history w) = []"
    using assms(4) by (auto simp: filter_empty_conv image_iff)
  then show ?thesis using w' assms(2,3) f
    by (simp add: insert_flushed_service_def Let_def s1)
qed

lemma default_allowance_run:
  assumes "set_default_free_allowance_for_service env (Some s) None w = (Inr b, w')"
  shows "\<exists>k bs. w' = w\<lparr>w_uuids := k, w_annual_billing := bs\<rparr>
    \<and> annual_allowance (svc_id s) (get_current_financial_year_start_year env w) w' \<noteq> None"
proof -
  define year where "year = get_current_financial_year_start_year env w"
  obtain limit high custom where
    run: "dao_create_or_update_annual_billing_for_year env (svc_id s) limit year (Some high) (Some custom) w
      = (Inr b, w')"
    using assms by (auto simp: set_default_free_allowance_for_service_def Let_def year_def op_bind_def
      op_lift_def split: if_splits sum.splits)
  have allowance: "annual_allowance (svc_id s) year (v\<lparr>w_annual_billing := save_row ab_id row rows\<rparr>) \<noteq> None"
    if "ab_service_id row = svc_id s" "ab_financial_year_start row = year" for v row rows
    using that save_row_in [of row ab_id rows]
    by (auto simp: annual_allowance_def query_first_def find_None_iff)
  show ?thesis
  proof (cases "dao_get_free_sms_fragment_limit_for_year env (svc_id s) (Some year) w")
    case None
    define row where "row = \<lparr>ab_id = lib_uuid env (w_uuids w), ab_service_id = svc_id s,
      ab_financial_year_start = year, ab_free_sms_fragment_limit = limit,
      ab_high_volume_service_last_year = high, ab_has_custom_allowance = custom\<rparr>"
    have "dao_create_or_update_annual_billing_for_year env (svc_id s) limit year (Some high) (Some custom) w
        = (Inr row, w\<lparr>w_uuids := Suc (w_uuids w),
            w_annual_billing := save_row ab_id row (w_annual_billing w)\<rparr>)"
      using None by (simp add: dao_create_or_update_annual_billing_for_year_def autocommit_def
        create_uuid_def Let_def row_def)
    then have "w' = w\<lparr>w_uuids := Suc (w_uuids w), w_annual_billing := save_row ab_id row (w_annual_billing w)\<rparr>"
      by (simp add: run)
    then show ?thesis
      using allowance [of row "w_annual_billing w" "w\<lparr>w_uuids := Suc (w_uuids w)\<rparr>"]
      by (simp add: row_def year_def) blast
  next
    case (Some a)
    define row where "row = a\<lparr>ab_free_sms_fragment_limit := limit,
      ab_high_volume_service_last_year := high, ab_has_custom_allowance := custom\<rparr>"
    have "dao_create_or_update_annual_billing_for_year env (svc_id s) limit year (Some high) (Some custom) w
        = (Inr row, w\<lparr>w_annual_billing := save_row ab_id row (w_annual_billing w)\<rparr>)"
      using Some by (simp add: dao_create_or_update_annual_billing_for_year_def autocommit_def
        Let_def row_def)
    then have w': "w' = w\<lparr>w_uuids := w_uuids w, w_annual_billing := save_row ab_id row (w_annual_billing w)\<rparr>"
      by (simp add: run)
    have "ab_service_id row = svc_id s \<and> ab_financial_year_start row = year"
    proof (cases "year = 0")
      case True
      then show ?thesis using Some
        by (auto simp: dao_get_free_sms_fragment_limit_for_year_def annual_allowance_def query_first_def
          find_Some_iff row_def year_def split: if_splits)
    next
      case False
      then show ?thesis using Some
        by (auto simp: dao_get_free_sms_fragment_limit_for_year_def annual_allowance_def query_first_def
          find_Some_iff row_def)
    qed
    then have "annual_allowance (svc_id s) (get_current_financial_year_start_year env w) w' \<noteq> None"
      using allowance [of row "w_annual_billing w" w] unfolding w' by (simp add: year_def)
    then show ?thesis using w' by blast
  qed
qed

lemma rollback_self [simp]: "rollback_to w w = w"
  by (simp add: rollback_to_def)

lemma rollback_new_id: "rollback_to (w\<lparr>w_uuids := k\<rparr>) v = rollback_to w (rollback_to (w\<lparr>w_uuids := k\<rparr>) v)"
  by (simp add: rollback_to_def)

definition service_created :: "env \<Rightarrow> world \<Rightarrow> world \<Rightarrow> uuid \<Rightarrow> uuid \<Rightarrow> bool" where
  "service_created env w w' user_id sid \<longleftrightarrow>
     (\<exists>s. svc_id s = sid \<and> svc_active s \<and> w_services w' = w_services w @ [s]
        \<and> set DEFAULT_SERVICE_PERMISSIONS \<subseteq> set (svc_permissions s))
     \<and> w_user_services w' = w_user_services w @ [(user_id, sid)]
     \<and> w_permissions w' = w_permissions w @ map (permission_row user_id sid w) default_service_permissions
     \<and> (\<exists>r \<in> set (w_sms_senders w'). ss_service_id r = sid \<and> ss_is_default r
          \<and> ss_sms_sender r = cfg_from_number env)
     \<and> annual_allowance sid (get_current_financial_year_start_year env w) w' \<noteq> None"

lemma before_insert_sender:
  "\<exists>r \<in> set (w_sms_senders (before_insert env u sid w)). ss_service_id r = sid \<and> ss_is_default r
     \<and> ss_sms_sender r = cfg_from_number env"
proof -
  define r where "r = \<lparr>ss_id = lib_uuid env (w_uuids w), ss_sms_sender = cfg_from_number env,
    ss_service_id = sid, ss_is_default = True, ss_archived = False, ss_inbound_number_id = None,
    ss_created_at = w_now w, ss_updated_at = None\<rparr>"
  have "w_sms_senders (before_insert env u sid w) = save_row ss_id r (w_sms_senders w)"
    by (simp add: before_insert_def insert_service_sms_sender_def new_sms_sender_def save_sender_def
      create_uuid_def Let_def r_def)
  then have "r \<in> set (w_sms_senders (before_insert env u sid w))" using save_row_in by simp
  moreover have "ss_service_id r = sid \<and> ss_is_default r \<and> ss_sms_sender r = cfg_from_number env"
    by (simp add: r_def)
  ultimately show ?thesis by blast
qed

lemma create_makes_everything:
  assumes run: "dao_create_service env lib s (Some u) None v = (Inr s1, w1)"
    and allowance: "set_default_free_allowance_for_service env (Some s1) None w1 = (Inr b, w')"
    and v: "v = w\<lparr>w_uuids := k\<rparr>"
  shows "service_created env w w' (u_id u) (svc_id s)"
  using run
proof (rule create_run)
  fix found
  assume s1: "s1 = created_service lib found u None s v"
    and w1: "w1 = (if flushed_early lib found u s then insert_flushed_service else insert_service) s1
        (before_insert env u (svc_id s) v)"
  obtain s2 where s2: "w_services w1 = w_services w @ [s2]" "svc_id s2 = svc_id s1"
      "svc_active s2 = svc_active s1" "svc_permissions s2 = svc_permissions s1"
    using w1 by (cases "flushed_early lib found u s")
      (auto simp: insert_flushed_service_def insert_service_def Let_def v)
  have tables: "w_user_services w1 = w_user_services w @ [(u_id u, svc_id s)]"
    "w_permissions w1 = w_permissions w @ map (permission_row (u_id u) (svc_id s) w) default_service_permissions"
    "w_sms_senders w1 = w_sms_senders (before_insert env u (svc_id s) v)" "w_now w1 = w_now w"
    using w1 by (auto simp: insert_flushed_service_def insert_service_def Let_def v permission_row_def)
  obtain j bs where w': "w' = w1\<lparr>w_uuids := j, w_annual_billing := bs\<rparr>"
    and paid: "annual_allowance (svc_id s1) (get_current_financial_year_start_year env w1) w' \<noteq> None"
    using default_allowance_run [OF allowance] by blast
  have year: "get_current_financial_year_start_year env w1 = get_current_financial_year_start_year env w"
    using tables(4) by (simp add: get_current_financial_year_start_year_def)
  have "svc_active s2" "set DEFAULT_SERVICE_PERMISSIONS \<subseteq> set (svc_permissions s2)"
    by (simp_all add: s2 s1 created_service_def)
  then show ?thesis
    unfolding service_created_def using s2 tables paid year before_insert_sender [of env u "svc_id s" v]
    by (simp add: w' s1)
qed

text \<open>
  C24: A service is created as a whole: an answer with an error leaves every table as it was, and
  otherwise there is the active service with the default permissions, its creator as a member with
  all default rights, a default sender and the allowance of the current year.
\<close>

theorem service_created_as_a_whole:
  "case create_service env lib user_id body w of
     (Inl e, w') \<Rightarrow> w' = rollback_to w w'
   | (Inr s, w') \<Rightarrow> (\<exists>i. user_id = Some i \<and> service_created env w w' i (svc_id s))"
proof (cases "\<exists>i b u. user_id = Some i \<and> body env w = Inr b \<and> get_user_by_id i w = Inr u")
  case False
  then have "\<exists>e. create_service env lib user_id body w = (Inl e, w)"
    by (cases user_id; cases "body env w"; cases "get_user_by_id (the user_id) w")
      (auto simp: create_service_def op_bind_def op_lift_def)
  then show ?thesis by auto
next
  case True
  then obtain i b u where i: "user_id = Some i" and b: "body env w = Inr b" and u: "get_user_by_id i w = Inr u"
    by blast
  define v where "v = w\<lparr>w_uuids := Suc (w_uuids w)\<rparr>"
  define s where "s = b\<lparr>svc_id := lib_uuid env (w_uuids w)\<rparr>"
  have uid: "u_id u = i" using u by (auto simp: get_user_by_id_def dest: query_one_InrD)
  have run: "create_service env lib user_id body w = autocommit
      (op_bind (dao_create_service env lib s (Some u) None) (\<lambda>s'.
        op_bind (set_default_free_allowance_for_service env (Some s') None) (\<lambda>_. op_return s'))) v"
    using i b u by (simp add: create_service_def op_lift_def create_uuid_def Let_def v_def s_def)
  obtain r w1 where dao: "dao_create_service env lib s (Some u) None v = (r, w1)" by fastforce
  show ?thesis
  proof (cases r)
    case (Inl e)
    then show ?thesis unfolding run using dao rollback_new_id [of "Suc (w_uuids w)" w w1]
      by (simp add: autocommit_def flip: v_def)
  next
    case (Inr s1)
    obtain r2 w2 where allow: "set_default_free_allowance_for_service env (Some s1) None w1 = (r2, w2)"
      by fastforce
    show ?thesis
    proof (cases r2)
      case (Inl e)
      then show ?thesis unfolding run using dao Inr allow rollback_new_id [of "Suc (w_uuids w)" w w2]
        by (simp add: autocommit_def flip: v_def)
    next
      case ok: (Inr ab)
      have "service_created env w w2 i (svc_id s)"
        using create_makes_everything [of env lib s u v s1 w1 ab w2 "Suc (w_uuids w)" w] dao Inr allow ok uid
        by (simp add: v_def)
      moreover have "svc_id s1 = svc_id s" using dao Inr create_run by fastforce
      ultimately show ?thesis unfolding run using dao Inr allow ok i
        by (simp add: autocommit_def op_return_def)
    qed
  qed
qed

section \<open>Members\<close>

text \<open>
  No request to remove a user leaves a service without members, be it the service it names or
  another.
\<close>

theorem last_member_stays:
  assumes "distinct_rows u_id (w_users w)" "service_users i w \<noteq> []"
  shows "service_users i (snd (remove_user_from_service sid uid w)) \<noteq> []"
proof (cases "\<exists>s u. dao_fetch_service_by_id sid False w = Inr s \<and> get_user_by_id uid w = Inr u
    \<and> u \<in> set (service_users sid w) \<and> length (service_users sid w) \<noteq> 1")
  case False
  then have "snd (remove_user_from_service sid uid w) = w"
    by (cases "dao_fetch_service_by_id sid False w"; cases "get_user_by_id uid w")
      (auto simp: remove_user_from_service_def op_bind_def)
  then show ?thesis using assms(2) by simp
next
  case True
  then obtain s u where s: "dao_fetch_service_by_id sid False w = Inr s"
    and u: "get_user_by_id uid w = Inr u" "u \<in> set (service_users sid w)"
    and many: "length (service_users sid w) \<noteq> 1" by blast
  define w' where "w' = snd (remove_user_from_service sid uid w)"
  have run: "w' = snd (dao_remove_user_from_service sid uid w)"
    unfolding w'_def using s u many by (simp add: remove_user_from_service_def op_bind_def)
  have users: "w_users w' = w_users w"
    unfolding run by (simp add: dao_remove_user_from_service_def autocommit_def Let_def rollback_to_def
      remove_user_service_permissions_def delete_service_user_def set_folders_def split: sum.splits)
  have members: "set (w_user_services w) - {(uid, sid)} \<subseteq> set (w_user_services w')"
    unfolding run by (auto simp: dao_remove_user_from_service_def autocommit_def Let_def rollback_to_def
      remove_user_service_permissions_def delete_service_user_def set_folders_def set_delete_rows
      split: sum.splits)
  have uid: "u_id u = uid" using u(1) by (auto simp: get_user_by_id_def dest: query_one_InrD)
  have "\<exists>x \<in> set (service_users i w). (u_id x, i) \<noteq> (uid, sid)"
  proof (cases "i = sid")
    case False
    then show ?thesis using assms(2) by (cases "service_users i w") auto
  next
    case True
    have d: "distinct (service_users sid w)"
      using assms(1) by (simp add: service_users_def distinct_rows_def distinct_map)
    then have "card (set (service_users sid w)) \<noteq> 1" using many by (simp add: distinct_card)
    then obtain x where x: "x \<in> set (service_users sid w)" "x \<noteq> u"
      using u(2) by (metis card_1_singleton_iff insertI1 set_eq_iff singletonD One_nat_def)
    then have "u_id x \<noteq> uid"
      using row_unique [OF assms(1), of x u] u(2) uid by (auto simp: service_users_def)
    then show ?thesis using x True by blast
  qed
  then obtain x where "x \<in> set (w_users w)" "(u_id x, i) \<in> set (w_user_services w')"
    using members by (auto simp: service_users_def)
  then have "x \<in> set (service_users i w')" by (simp add: service_users_def users)
  then show ?thesis unfolding w'_def [symmetric] by auto
qed

section \<open>Concrete runs\<close>

definition sample_service_lib :: service_lib where
  "sample_service_lib =
     \<lparr>se_safe_local_part = id, se_email_brandings = [(80, ''NHS'')], se_collation = length\<rparr>"

definition open_world :: world where
  \<comment> \<open>a service with a template, a key and two members\<close>
  "open_world =
     auth_world\<lparr>w_services := [sample_service], w_service_history := [service_to_history sample_service],
       w_templates := [sample_template], w_template_history := [template_to_history sample_template],
       w_users := [sample_user 41, sample_user 42], w_user_services := [(41, 10), (42, 10)]\<rparr>"

lemma open_world_facts:
  "primary_keys open_world" "histories_ok open_world"
  "dao_fetch_service_by_id 10 False open_world = Inr sample_service" "svc_active sample_service"
  "fst (archive_service sample_service_lib 10 open_world) = Inr ()"
proof -
  show "primary_keys open_world" by code_simp
  show "dao_fetch_service_by_id 10 False open_world = Inr sample_service" by code_simp
  show "svc_active sample_service" by code_simp
  show "fst (archive_service sample_service_lib 10 open_world) = Inr ()" by code_simp
  show "histories_ok open_world"
    by (auto simp: histories_ok_def service_columns_def template_versions_ok_def api_key_versions_ok_def
      versions_ok_def distinct_rows_def open_world_def auth_world_def auth_key_def sample_service_def
      service_to_history_def sample_template_def template_to_history_def)
qed

definition closed_world :: world where
  "closed_world = snd (archive_service sample_service_lib 10 open_world)"

lemma closed_run: "archive_service sample_service_lib 10 open_world = (Inr (), closed_world)"
  using open_world_facts(5) by (simp add: closed_world_def prod_eq_iff)

theorem archived_service_is_closed_witness:
  "\<exists>s'. svc_id s' = 10 \<and> \<not> svc_active s'
     \<and> w_services closed_world = save_row svc_id s' (w_services open_world)"
  using archived_service_is_closed [OF open_world_facts(1) closed_run open_world_facts(3,4)] by blast

theorem every_service_version_kept_witness:
  "\<exists>h \<in> set (w_service_history closed_world). svc_id h = 10 \<and> svc_version h = 1"
proof -
  have step: "service_step sample_env sample_service_lib open_world closed_world"
    unfolding closed_world_def by (rule archive)
  obtain s where s: "s \<in> set (w_services closed_world)" "svc_id s = 10" "svc_version s = 2"
  proof -
    have "map (\<lambda>s. (svc_id s, svc_version s)) (w_services closed_world) = [(10, 2)]" by code_simp
    then show ?thesis using that by (cases "w_services closed_world") auto
  qed
  from every_service_version_kept [OF r_into_rtranclp [of "service_step sample_env sample_service_lib", OF step]
    open_world_facts(2) s(1), of 1] s(2,3)
  show ?thesis by simp
qed

definition nhs_user :: user where
  "nhs_user = (sample_user 41)\<lparr>u_email_address := ''a@nhs.net''\<rparr>"

definition new_service :: service where
  "new_service = sample_service\<lparr>svc_id := 15, svc_name := ''New'', svc_normalised_service_name := ''new'',
     svc_permissions := []\<rparr>"

theorem first_version_not_recorded_witness:
  "\<exists>s1 w'. dao_create_service sample_env sample_service_lib new_service (Some nhs_user) None open_world
       = (Inr s1, w')
     \<and> map svc_version (filter (\<lambda>r. svc_id r = 15) (w_service_history w')) = [2]"
proof -
  obtain r w' where run: "dao_create_service sample_env sample_service_lib new_service (Some nhs_user) None
      open_world = (r, w')" by fastforce
  have "isl (fst (dao_create_service sample_env sample_service_lib new_service (Some nhs_user) None
      open_world)) = False" by code_simp
  then obtain s1 where r: "r = Inr s1" using run by (cases r) auto
  have org: "dao_get_organisation_by_email_address (u_email_address nhs_user) open_world = Inr None"
    by code_simp
  have early: "flushed_early sample_service_lib None nhs_user new_service" by code_simp
  have new: "svc_id new_service \<notin> svc_id ` set (w_service_history open_world)" by code_simp
  have "svc_id new_service = 15" by code_simp
  with first_version_not_recorded [OF run [unfolded r] org early new] run r show ?thesis by auto
qed

theorem last_member_stays_witness:
  "service_users 10 (snd (remove_user_from_service 10 41 open_world)) \<noteq> []"
proof -
  have "distinct_rows u_id (w_users open_world)" "service_users 10 open_world \<noteq> []" by code_simp+
  then show ?thesis by (rule last_member_stays)
qed

end
