(* ===== verification/Service_Use_Rules.thy ===== *)
theory Service_Use_Rules
  imports Service_Messages Service_Settings Service_Rules Post Billing_Rules
begin

text \<open>
  Properties of what the members of a service do: messages sent and letters cancelled by hand, the
  guest list, reports, and requests to join.
\<close>

section \<open>What a message leaves alone\<close>

definition other_tables ::
  "world \<Rightarrow> user list \<times> service list \<times> (uuid \<times> uuid) list \<times> template list \<times> join_request list \<times> time
     \<times> invited_user list" where
  "other_tables w =
     (w_users w, w_services w, w_user_services w, w_templates w, w_join_requests w, w_now w,
      w_invited_users w)"

definition untouched :: "'a op \<Rightarrow> bool" where
  "untouched m \<longleftrightarrow> (\<forall>w. other_tables (snd (m w)) = other_tables w)"

named_theorems untouched_intros

lemma untouched_run: "untouched m \<Longrightarrow> m w = (r, v) \<Longrightarrow> other_tables v = other_tables w"
  by (metis snd_conv untouched_def)

lemma other_tablesD:
  assumes "other_tables v = other_tables w"
  shows "w_users v = w_users w" "w_services v = w_services w" "w_user_services v = w_user_services w"
    "w_templates v = w_templates w" "w_join_requests v = w_join_requests w" "w_now v = w_now w"
    "w_invited_users v = w_invited_users w"
  using assms by (simp_all add: other_tables_def)

lemma other_tables_updates [simp]:
  "other_tables (save_notification n w) = other_tables w"
  "other_tables (redis_set k x w) = other_tables w"
  "other_tables (enqueue q t w) = other_tables w"
  "other_tables u = other_tables w \<Longrightarrow> other_tables (rollback_to w u) = other_tables w"
  "other_tables (dao_delete_notifications_by_id i w) = other_tables w"
  "other_tables (snd (create_uuid env w)) = other_tables w"
  "other_tables (increment_daily_limit_caches env lib s n' kt w) = other_tables w"
  by (simp_all add: other_tables_def save_notification_def redis_set_def enqueue_def rollback_to_def
      dao_delete_notifications_by_id_def create_uuid_def increment_daily_limit_caches_def
      increment_daily_limit_cache_def redis_incrby_def Let_def split: option.split)

lemma untouched_pure [untouched_intros]:
  "untouched (op_lift r)" "untouched (op_return x)" "untouched (\<lambda>w. (f w, w))"
  by (simp_all add: untouched_def op_lift_def op_return_def)

lemma untouched_bind [untouched_intros]:
  assumes "untouched m" "\<And>x. untouched (f x)"
  shows "untouched (op_bind m f)"
  unfolding untouched_def
proof
  fix w
  obtain r v where m: "m w = (r, v)" by (cases "m w")
  then have "other_tables v = other_tables w" using untouched_run [OF assms(1)] by blast
  then show "other_tables (snd (op_bind m f w)) = other_tables w"
    using m assms(2) by (cases r) (simp_all add: untouched_def)
qed

lemma untouched_diagonal: "(\<And>u. untouched (m u)) \<Longrightarrow> untouched (\<lambda>w. m w w)"
  by (simp add: untouched_def)

lemma untouched_autocommit:
  assumes "untouched m" shows "untouched (autocommit m)"
  unfolding untouched_def
proof
  fix w
  obtain r v where m: "m w = (r, v)" by (cases "m w")
  then show "other_tables (snd (autocommit m w)) = other_tables w"
    using untouched_run [OF assms m] by (cases r) simp_all
qed

lemma untouched_daily_check [untouched_intros]:
  "untouched (check_service_over_daily_message_limit env s k name n)"
  by (auto simp: untouched_def check_service_over_daily_message_limit_def Let_def
      split: option.split if_splits)

lemma untouched_recipient [untouched_intros]:
  "untouched (validate_and_format_recipient env lib x k s t g c)"
proof -
  have "untouched (validate_and_return_extended_phone_number_info env lib s y k c)" for y
  proof -
    have "untouched (op_bind (check_service_over_daily_message_limit env s k name 1) (\<lambda>_. op_return p))"
      for p :: recipient_info and name
      by (intro untouched_intros)
    then show ?thesis
      by (auto simp: validate_and_return_extended_phone_number_info_def untouched_def split: sum.split)
  qed
  then have "untouched (op_bind (validate_and_return_extended_phone_number_info env lib s y k c)
      (\<lambda>i. op_return (PhoneData i)))" for y
    by (intro untouched_intros)
  then show ?thesis
    by (auto simp: untouched_def validate_and_format_recipient_def op_bind_def op_return_def op_lift_def
        split: option.split sum.split prod.split)
qed

lemma untouched_persist [untouched_intros]: "untouched (persist_notification env lib s a)"
proof -
  have create: "untouched (dao_create_notification env (Some i) st row)" for i st row
    unfolding dao_create_notification_def
    by (rule untouched_autocommit) (auto simp: untouched_def Let_def)
  have "other_tables (snd (persist_notification env lib s a w)) = other_tables w" for w
  proof -
    obtain i w1 where i: "(case pn_notification_id a of None \<Rightarrow> create_uuid env w | Some i \<Rightarrow> (i, w)) = (i, w1)"
      by (cases "case pn_notification_id a of None \<Rightarrow> create_uuid env w | Some i \<Rightarrow> (i, w)")
    then have w1: "other_tables w1 = other_tables w"
      using other_tables_updates(6) [of env w] by (auto simp del: other_tables_updates split: option.splits)
    show ?thesis
      unfolding persist_notification_def i Let_def prod.case
      using w1 by (auto split: sum.split prod.split dest!: untouched_run [OF create])
  qed
  then show ?thesis by (simp add: untouched_def)
qed

lemma untouched_send [untouched_intros]: "untouched (send_notification_to_queue lib n q)"
  by (auto simp: untouched_def send_notification_to_queue_def send_notification_to_queue_detached_def
      apply_async_def Let_def split: option.split sum.split prod.split if_splits)

lemma untouched_notify_user [untouched_intros]: "untouched (notify_user env lib t s r ps reply_to)"
  unfolding notify_user_def by (intro untouched_intros)

section \<open>Messages sent by hand\<close>

definition sent_by_hand ::
  "uuid \<Rightarrow> one_off_request \<Rightarrow> notification list \<Rightarrow> (queue \<times> celery_task) list \<Rightarrow> uuid \<Rightarrow> world \<Rightarrow> bool" where
  \<comment> \<open>one notification more, of the member who asked for it, and its message to the workers\<close>
  "sent_by_hand service_id d ns ts i v \<longleftrightarrow>
     (oo_created_by d, service_id) \<in> set (w_user_services v)
     \<and> (\<exists>n. w_notifications v = ns @ [n] \<and> n_id n = i \<and> n_status n = Created
          \<and> n_service_id n = service_id \<and> n_template_id n = oo_template_id d
          \<and> n_created_by_id n = Some (oo_created_by d) \<and> n_key_type n = NormalKey
          \<and> w_tasks v = ts @ [(delivery_queue NormalKey (n_type n), delivery_task n)])"

lemma created_by_member:
  assumes "validate_created_by s u w = Inr x"
  shows "(u, svc_id s) \<in> set (w_user_services w)"
  using assms
  by (auto simp: validate_created_by_def user_services_def res_bind_Inr_iff get_user_by_id_def
      dest!: query_one_InrD split: if_splits)

lemma set_recipient_creator:
  "set_recipient lib a n = Inr n' \<Longrightarrow> n_created_by_id n' = n_created_by_id n"
  by (auto simp: set_recipient_def res_bind_Inr_iff split: ntype.splits recipient_data.splits)

lemma persist_and_send_one:
  assumes "w_notifications w = ns" "w_tasks w = ts" "\<not> pn_simulated a" "pn_status a = Created"
    and "pn_key_type a = NormalKey" "pn_created_by_id a = Some (oo_created_by d)"
    and "pn_template_id a = oo_template_id d" "svc_id s = service_id"
    and "(oo_created_by d, service_id) \<in> set (w_user_services w)"
  shows "settled ns ts (sent_by_hand service_id d ns ts)
    (op_bind (persist_notification env lib s a) (\<lambda>n.
       op_bind (send_notification_to_queue lib n None) (\<lambda>_. op_return (n_id n))) w)"
proof (cases "persist_notification env lib s a w")
  case (Pair res v)
  then show ?thesis
  proof (cases rule: persist_notification_cases)
    case (1 e)
    then show ?thesis using Pair assms(1,2) by (simp add: settled_def)
  next
    case (2 n j)
    then show ?thesis using assms(3) by simp
  next
    case (3 n j)
    note keeps = set_recipient_keeps [OF 3(8)] set_recipient_creator [OF 3(8)]
    have member: "(oo_created_by d, service_id) \<in> set (w_user_services v)"
      using assms(9) other_tablesD(3) [OF untouched_run [OF untouched_persist Pair]] by simp
    have key: "n_key_type n = NormalKey" using keeps assms(5) by (simp add: new_notification_def)
    obtain res2 v2 where send: "send_notification_to_queue lib n None v = (res2, v2)"
      by (cases "send_notification_to_queue lib n None v")
    have gone: "settled ns ts Q (Inl e, dao_delete_notifications_by_id (n_id n) v)" for Q e
      using 3(3-5) assms(1,2) delete_new_row [OF 3(3)]
      by (simp add: settled_def dao_delete_notifications_by_id_def)
    have split: "op_bind (persist_notification env lib s a) (\<lambda>n.
       op_bind (send_notification_to_queue lib n None) (\<lambda>_. op_return (n_id n))) w
         = (case res2 of Inl e \<Rightarrow> (Inl e, v2) | Inr _ \<Rightarrow> (Inr (n_id n), v2))"
      using Pair 3(1) send by (simp add: op_bind_def op_return_def split: sum.split)
    show ?thesis
    proof (cases "n_type n = Messagebox")
      case True
      then have "res2 = Inl (Py UnboundLocalError)" "v2 = dao_delete_notifications_by_id (n_id n) v"
        using send by (auto simp: send_notification_to_queue_def send_notification_to_queue_detached_def)
      then show ?thesis unfolding split using gone by simp
    next
      case False
      then have t: "n_type n \<in> {Sms, Email, Letter}" by (cases "n_type n") simp_all
      from send [unfolded send_notification_to_queue_def] t show ?thesis
      proof (cases rule: send_detached_cases)
        case (1 e)
        then show ?thesis unfolding split using gone by simp
      next
        case 2
        have "sent_by_hand service_id d ns ts (n_id n) v2"
          unfolding sent_by_hand_def
          by (intro conjI exI [of _ n])
            (use 2(2) 3(4,5) keeps assms key member in
              \<open>simp_all add: enqueue_def new_notification_def delivery_task_def\<close>)
        then show ?thesis unfolding split 2(1) by (simp add: settled_def)
      qed
    qed
  qed
qed

lemma persist_reads_world:
  "op_bind (\<lambda>v. persist_notification env lib s (g v) v) f w = op_bind (persist_notification env lib s (g w)) f w"
  by (simp add: op_bind_def)

text \<open>
  C32: A message sent by hand: either nothing is stored and no message goes to the workers, or the
  person named in the request is a member of the service, exactly one notification of the service
  with the template asked for is stored under that person's name, and exactly its delivery is
  queued.
\<close>

theorem one_off_only_by_members:
  "settled (w_notifications w) (w_tasks w) (sent_by_hand service_id d (w_notifications w) (w_tasks w))
     (send_one_off_notification env lib service_id d w)"
  unfolding send_one_off_notification_def
  apply (rule settled_read [OF refl refl])
  apply (rule settled_read, rule refl, rule refl)
  apply (rule settled_read, rule refl, rule refl)
  apply (rule settled_idle_bind [OF idle_daily_check refl refl])
  apply (rule settled_idle_bind [OF idle_recipient], assumption, assumption)
  apply (rule settled_lift, assumption, assumption)
  apply (rule settled_read, assumption, assumption)
  apply (rule settled_read, assumption, assumption)
  apply (subst persist_reads_world)
  subgoal premises prems for s t _ _ v1 recipient v2 letter _ reply_to
  proof (rule persist_and_send_one)
    have s: "svc_id s = service_id" using fetch_service [OF prems(1)] by simp
    show "svc_id s = service_id" by (rule s)
    show "(oo_created_by d, service_id) \<in> set (w_user_services v2)"
      using created_by_member [OF prems(11)] by (simp add: s)
    have "t_id t = oo_template_id d"
      using prems(2) by (auto simp: dao_get_template_by_id_and_service_id_def dest!: query_one_InrD)
    then show "pn_template_id (one_off_call t d recipient reply_to
        (create_one_off_reference lib (t_type t) v2) letter) = oo_template_id d"
      by (simp add: one_off_call_def persist_call_def)
  qed (use prems in \<open>simp_all add: one_off_call_def persist_call_def\<close>)
  done

section \<open>Cancelling a letter\<close>

lemma adjust_limits_tables [simp]:
  "w_notifications (adjust_daily_service_limits_for_cancelled_letters env i k t w) = w_notifications w"
  "w_tasks (adjust_daily_service_limits_for_cancelled_letters env i k t w) = w_tasks w"
  "w_history (adjust_daily_service_limits_for_cancelled_letters env i k t w) = w_history w"
  by (simp_all add: adjust_daily_service_limits_for_cancelled_letters_def redis_incrby_def redis_set_def
      Let_def split: option.split)

lemma cancel_status_run:
  assumes "find_row n_id i (w_notifications w) = Some n" "n_type n = Letter"
  shows "update_notification_status_by_id env i Cancelled None None w =
    (if n_status n \<notin> set updatable_statuses then (Inr None, w)
     else let n' = n\<lparr>n_status := Cancelled, n_updated_at := Some (w_now w)\<rparr>
          in (Inr (Some n'), save_notification n' w))"
  using assms
  by (simp add: update_notification_status_by_id_def autocommit_def update_status_row_def
      dao_update_notification_def decide_permanent_temporary_failure_def Let_def split: option.split)

lemma own_notification_found:
  assumes "get_notification_by_id i (Some s) w = Some n" "distinct_rows n_id (w_notifications w)"
  shows "find_row n_id i (w_notifications w) = Some n" "n_service_id n = s"
  using assms find_row_eqI [of n_id "w_notifications w" n]
  by (auto simp: get_notification_by_id_def dest!: query_first_SomeD)

text \<open>
  Cancelling a letter: a notification of another service, one that is not a letter or a letter that
  may not be cancelled any more is refused and nothing changes. Otherwise exactly that letter
  becomes cancelled and nothing is queued. A letter whose status is not one of those that may be
  updated is left as it is, though the request succeeds.
\<close>

theorem cancel_changes_only_the_letter:
  assumes "distinct_rows n_id (w_notifications w)"
    and "cancel_notification_for_service env lt service_id i w = (r, v)"
  shows "w_tasks v = w_tasks w \<and> w_history v = w_history w \<and>
    (case get_notification_by_id i (Some service_id) w of
       None \<Rightarrow> r = Inl (invalid_request ''Notification not found'' 404) \<and> v = w
     | Some n \<Rightarrow>
         if n_type n \<noteq> Letter \<or> \<not> lt_can_be_cancelled lt (w_now w) (n_status n) (n_created_at n)
         then isl r \<and> v = w
         else if n_status n \<in> set updatable_statuses
         then r = Inr (Some (n\<lparr>n_status := Cancelled, n_updated_at := Some (w_now w)\<rparr>))
              \<and> w_notifications v = save_row n_id
                   (n\<lparr>n_status := Cancelled, n_updated_at := Some (w_now w)\<rparr>) (w_notifications w)
         else r = Inr None \<and> w_notifications v = w_notifications w)"
proof (cases "get_notification_by_id i (Some service_id) w")
  case None
  then show ?thesis using assms(2) by (auto simp: cancel_notification_for_service_def)
next
  case (Some n)
  note found = own_notification_found(1) [OF Some assms(1)]
  show ?thesis
  proof (cases "n_type n = Letter \<and> lt_can_be_cancelled lt (w_now w) (n_status n) (n_created_at n)")
    case False
    then show ?thesis
      using assms(2) Some by (auto simp: cancel_notification_for_service_def split: if_splits)
  next
    case True
    have "(r, v) = op_bind (update_notification_status_by_id env i Cancelled None None) (\<lambda>updated w1.
        (Inr updated, adjust_daily_service_limits_for_cancelled_letters env service_id 1
           (n_created_at n) w1)) w"
      using assms(2) Some True by (simp add: cancel_notification_for_service_def)
    then show ?thesis
      using Some True cancel_status_run [OF found, of env]
      by (auto simp: Let_def save_notification_def split: if_splits)
  qed
qed

section \<open>The guest list\<close>

lemma guest_list_objects:
  "get_guest_list_objects env lib service_id rs w = (r, v) \<Longrightarrow>
    w_guest_list v = w_guest_list w \<and>
    (case r of Inl _ \<Rightarrow> True
     | Inr gs \<Rightarrow> map (\<lambda>g. (gl_recipient_type g, gl_recipient g)) gs = rs
                 \<and> list_all (\<lambda>g. gl_service_id g = service_id) gs
                 \<and> list_all (\<lambda>(t, x). guest_recipient env lib t x = Inr ()) rs)"
proof (induction env lib service_id rs w arbitrary: r v rule: get_guest_list_objects.induct)
  case (1 env lib service_id w)
  then have "r = Inr []" "v = w" by simp_all
  then show ?case by simp
next
  case (2 env lib service_id t x rs w)
  show ?case
  proof (cases "guest_recipient env lib t x")
    case (Inl e)
    then show ?thesis using 2(2) by auto
  next
    case (Inr u)
    obtain i w1 where i: "create_uuid env w = (i, w1)" by (cases "create_uuid env w")
    obtain r' v' where rest: "get_guest_list_objects env lib service_id rs w1 = (r', v')"
      by (cases "get_guest_list_objects env lib service_id rs w1")
    have w1: "w_guest_list w1 = w_guest_list w" using i by (auto simp: create_uuid_def)
    have run: "r = (case r' of Inl e \<Rightarrow> Inl e | Inr gs \<Rightarrow> Inr (\<lparr>gl_id = i, gl_service_id = service_id,
        gl_recipient_type = t, gl_recipient = x, gl_created_at = w_now w\<rparr> # gs))" "v = v'"
      using 2(2) Inr i rest by (auto simp: op_bind_def op_return_def split: sum.splits)
    show ?thesis
      using 2(1) [OF Inr i [symmetric] refl refl rest] run w1 Inr by (cases r') auto
  qed
qed

text \<open>
  The guest list of a service is replaced as a whole or not at all: an address or number that is
  not valid leaves the list as it was, and after a success the list of the service has exactly the
  numbers and addresses of the request, in their order, all of them valid. The lists of other
  services stay.
\<close>

theorem guest_list_replaced_as_a_whole:
  "let (r, v) = update_guest_list env lib service_id phones emails w;
       asked = map (Pair MOBILE_TYPE) phones @ map (Pair EMAIL_TYPE) emails
   in case r of
        Inl e \<Rightarrow> w_guest_list v = w_guest_list w
      | Inr _ \<Rightarrow>
          map (\<lambda>g. (gl_recipient_type g, gl_recipient g)) (dao_fetch_service_guest_list service_id v) = asked
          \<and> filter (\<lambda>g. gl_service_id g \<noteq> service_id) (w_guest_list v)
              = filter (\<lambda>g. gl_service_id g \<noteq> service_id) (w_guest_list w)
          \<and> list_all (\<lambda>(t, x). guest_recipient env lib t x = Inr ()) asked"
proof -
  define asked where "asked = map (Pair MOBILE_TYPE) phones @ map (Pair EMAIL_TYPE) emails"
  define w1 where "w1 = snd (dao_remove_service_guest_list service_id w)"
  obtain res w2 where run: "get_guest_list_objects env lib service_id asked w1 = (res, w2)"
    by (cases "get_guest_list_objects env lib service_id asked w1")
  note objects = guest_list_objects [OF run]
  have w1: "w_guest_list w1 = delete_rows (\<lambda>g. gl_service_id g = service_id) (w_guest_list w)"
    by (simp add: w1_def dao_remove_service_guest_list_def)
  show ?thesis
  proof (cases res)
    case (Inl e)
    have "\<exists>e'. update_guest_list env lib service_id phones emails w = (Inl e', rollback_to w w2)"
      using run Inl
      by (auto simp: update_guest_list_def w1_def [symmetric] asked_def [symmetric]
          split: exn.split py_exn.split)
    then show ?thesis by (auto simp: rollback_to_def)
  next
    case (Inr gs)
    have "update_guest_list env lib service_id phones emails w
        = (Inr (), dao_add_and_commit_guest_list_contacts gs w2)"
      using run Inr by (simp add: update_guest_list_def w1_def [symmetric] asked_def [symmetric])
    moreover have "filter (\<lambda>g. gl_service_id g = service_id) gs = gs"
        "filter (\<lambda>g. gl_service_id g \<noteq> service_id) gs = []"
      using objects Inr by (auto simp: list_all_iff filter_id_conv filter_empty_conv)
    ultimately show ?thesis
      using objects Inr w1
      by (simp add: dao_add_and_commit_guest_list_contacts_def dao_fetch_service_guest_list_def
          delete_rows_def asked_def [symmetric] cong: conj_cong)
  qed
qed

section \<open>Reports\<close>

lemma oldest_of_fewer:
  assumes "query_first (\<lambda>_. True) (sort_key f (filter P rows)) = Some r"
    and "\<And>x. Q x \<Longrightarrow> P x" "Q r"
  shows "query_first (\<lambda>_. True) (sort_key f (filter Q rows)) = Some r"
proof -
  obtain rest where "sort_key f (filter P rows) = r # rest"
    using assms(1) by (cases "sort_key f (filter P rows)") (auto simp: query_first_def)
  moreover have fewer: "filter Q (filter P rows) = filter Q rows"
    using assms(2) by (auto intro: filter_cong)
  have "sort_key f (filter Q rows) = filter Q (sort_key f (filter P rows))"
    by (simp only: filter_sort fewer)
  ultimately have "sort_key f (filter Q rows) = r # filter Q rest" using assms(3) by simp
  then show ?thesis by (simp add: query_first_def)
qed

text \<open>
  A report that is asked for twice is made once: as long as the request a user got is pending or in
  progress and not timed out, asking again for the same report gives the same request, and nothing
  is stored or queued, whatever else happened in between to other tables.
\<close>

theorem report_made_once:
  assumes "create_report_request_by_type env lib timeout service_id user_id t status w = (Inr r, v)"
    and "w_report_requests u = w_report_requests v" "w_now w \<le> w_now u" "ongoing_report timeout u r"
  shows "create_report_request_by_type env lib timeout service_id user_id t status u = (Inr r, u)"
proof -
  define asked where "asked i now = new_report_request i now service_id user_id t status" for i now
  have asked: "same_report x (asked i now) = same_report x (asked j then')" for x i j now then'
    by (simp add: same_report_def asked_def new_report_request_def)
  define P where "P = (\<lambda>x. same_report x (asked 0 0) \<and> ongoing_report timeout w x)"
  define Q where "Q = (\<lambda>x. same_report x (asked 0 0) \<and> ongoing_report timeout u x)"
  have fewer: "Q x \<Longrightarrow> P x" for x using assms(3) by (auto simp: P_def Q_def ongoing_report_def)
  obtain i w1 where i: "create_uuid env w = (i, w1)" by (cases "create_uuid env w")
  have w1: "w_report_requests w1 = w_report_requests w" using i by (auto simp: create_uuid_def)
  have oldest_w: "dao_get_oldest_ongoing_report_request (asked i (w_now w)) timeout w
      = query_first (\<lambda>_. True) (sort_key rr_created_at (filter P (w_report_requests w)))"
    unfolding dao_get_oldest_ongoing_report_request_def P_def asked [of _ i "w_now w" 0 0] by (rule refl)
  have "query_first (\<lambda>_. True) (sort_key rr_created_at (filter Q (w_report_requests u))) = Some r"
  proof (cases "dao_get_oldest_ongoing_report_request (asked i (w_now w)) timeout w")
    case (Some existing)
    then have same: "r = existing" "v = w"
      using assms(1) i by (auto simp: create_report_request_by_type_def asked_def)
    have "query_first (\<lambda>_. True) (sort_key rr_created_at (filter P (w_report_requests w))) = Some r"
      using Some oldest_w same by simp
    moreover from this have "r \<in> set (filter P (w_report_requests w))"
      by (auto dest: query_first_SomeD)
    then have "Q r" using assms(4) by (simp add: P_def Q_def)
    ultimately show ?thesis using oldest_of_fewer [of rr_created_at P _ r Q] fewer assms(2) same by metis
  next
    case None
    then have none: "filter P (w_report_requests w) = []"
      using oldest_w by (cases "sort_key rr_created_at (filter P (w_report_requests w))")
        (auto simp: query_first_def simp flip: set_empty)
    have run: "op_bind (apply_async lib REPORT_REQUESTS_NOTIFICATIONS (TProcessReportRequest service_id i))
        (\<lambda>_. op_return (asked i (w_now w))) (dao_create_report_request (asked i (w_now w)) w1) = (Inr r, v)"
      using assms(1) i None by (simp add: create_report_request_by_type_def asked_def Let_def)
    then have r: "r = asked i (w_now w)" "w_report_requests v = w_report_requests w @ [r]"
      using w1 by (auto simp: op_bind_def apply_async_def op_return_def enqueue_def
          dao_create_report_request_def split: option.splits)
    have "filter Q (w_report_requests w) = []" using none fewer by (auto simp: filter_empty_conv)
    moreover have "Q r"
      using assms(4) by (simp add: Q_def r(1) asked_def same_report_def new_report_request_def)
    ultimately show ?thesis using r(2) assms(2) by (simp add: query_first_def)
  qed
  moreover have "dao_get_oldest_ongoing_report_request (asked j now) timeout u
      = query_first (\<lambda>_. True) (sort_key rr_created_at (filter Q (w_report_requests u)))" for j now
    unfolding dao_get_oldest_ongoing_report_request_def Q_def asked [of _ j now 0 0] by (rule refl)
  ultimately show ?thesis
    by (auto simp: create_report_request_by_type_def asked_def split: prod.split)
qed

section \<open>Requests to join\<close>

text \<open>
  A request to join a service that gives no reason, which the schema allows, is stored, and then
  fails: the message to the members splits the reason into lines. None of them is told, and each
  further try stores another request.
\<close>

theorem join_without_reason_fails:
  assumes "get_user_by_id (jf_requester_id f) w = Inr requester"
    and "map_res (\<lambda>i. get_user_by_id i w) (jf_contacted_user_ids f) = Inr recipients"
    and "dao_fetch_service_by_id service_id False w = Inr s"
    and "s \<notin> set (user_services (u_id requester) w)" "jf_reason f = None"
    and "dao_get_template_by_id (ac_template_id lib ''REQUEST_INVITE_TO_SERVICE_TEMPLATE_ID'') None w = Inr t"
    and "u \<in> set recipients" "s \<in> set (user_services (u_id u) w)"
    and "create_service_join_request env alib lib service_id f w = (r, v)"
  shows "r = Inl (Py AttributeError) \<and> w_tasks v = w_tasks w \<and> w_notifications v = w_notifications w
    \<and> map (\<lambda>x. (sj_requester_id x, sj_service_id x, sj_status x)) (w_join_requests v)
        = map (\<lambda>x. (sj_requester_id x, sj_service_id x, sj_status x)) (w_join_requests w)
          @ [(jf_requester_id f, service_id, JoinPending)]"
proof -
  obtain i w1 where i: "create_uuid env w = (i, w1)" by (cases "create_uuid env w")
  define x where "x = \<lparr>sj_id = i, sj_requester_id = jf_requester_id f, sj_service_id = service_id,
    sj_created_at = w_now w, sj_status = JoinPending, sj_status_changed_at = None,
    sj_status_changed_by_id = None, sj_reason = None, sj_contacted_service_users =
      map u_id (filter (\<lambda>u. u_id u \<in> set (jf_contacted_user_ids f)) (w_users w))\<rparr>"
  define w2 where "w2 = w1\<lparr>w_join_requests := w_join_requests w1 @ [x]\<rparr>"
  have w1: "w1 = w\<lparr>w_uuids := Suc (w_uuids w)\<rparr>" using i by (simp add: create_uuid_def)
  have stored: "dao_create_service_join_request env (jf_requester_id f) service_id
      (jf_contacted_user_ids f) None w = (Inr x, w2)"
    by (simp add: dao_create_service_join_request_def autocommit_def i x_def w2_def Let_def)
  have tables: "w_users w2 = w_users w" "w_services w2 = w_services w" "w_user_services w2 = w_user_services w"
      "w_templates w2 = w_templates w" "w_template_history w2 = w_template_history w" "w_tasks w2 = w_tasks w"
      "w_notifications w2 = w_notifications w" "w_join_requests w2 = w_join_requests w @ [x]"
    by (simp_all add: w2_def w1)
  have template: "dao_get_template_by_id (ac_template_id lib ''REQUEST_INVITE_TO_SERVICE_TEMPLATE_ID'') None w2 = Inr t"
    using assms(6) by (simp add: dao_get_template_by_id_def tables)
  define members where "members = filter (\<lambda>u. s \<in> set (user_services (u_id u) w2)) recipients"
  have "u \<in> set members" using assms(7,8) by (simp add: members_def user_services_def tables)
  then have "members \<noteq> []" by auto
  then have "op_iter (invite_request_message env alib lib t requester s None url) members w2
      = (Inl (Py AttributeError), w2)" for url
    by (cases members) (simp_all add: invite_request_message_def)
  then have "send_service_invite_request env alib lib requester recipients s None url w2
      = (Inl (Py AttributeError), w2)" for url
    using template by (simp add: send_service_invite_request_def members_def [symmetric] op_bind_def)
  then have "create_service_join_request env alib lib service_id f w = (Inl (Py AttributeError), w2)"
    using assms(1-5) stored by (simp add: create_service_join_request_def op_bind_def Let_def)
  then have "r = Inl (Py AttributeError)" "v = w2" using assms(9) by simp_all
  then show ?thesis by (simp add: tables x_def)
qed

definition decided :: "join_request_status \<Rightarrow> uuid \<Rightarrow> time \<Rightarrow> string option \<Rightarrow> join_request \<Rightarrow> join_request" where
  "decided status changed_by now reason r =
     r\<lparr>sj_status := status, sj_status_changed_by_id := Some changed_by, sj_status_changed_at := Some now,
       sj_reason := (case reason of None \<Rightarrow> sj_reason r | x \<Rightarrow> x)\<rparr>"

lemma decided_fields [simp]:
  "sj_id (decided st a now m r) = sj_id r" "sj_service_id (decided st a now m r) = sj_service_id r"
  "sj_requester_id (decided st a now m r) = sj_requester_id r" "sj_status (decided st a now m r) = st"
  by (simp_all add: decided_def)

lemma decided_twice [simp]: "decided st a now None (decided st a now None r) = decided st a now None r"
  by (simp add: decided_def)

lemma decision_run:
  assumes "dao_update_service_join_request_by_id i service_id st a m w = (Inr r', v)"
    and "distinct_rows sj_id (w_join_requests w)"
  obtains r where "r \<in> set (w_join_requests w)" "sj_id r = i" "sj_service_id r = service_id"
    "r' = decided st a (w_now w) m r"
    "v = w\<lparr>w_join_requests := update_rows (\<lambda>x. sj_id x = i) (decided st a (w_now w) m) (w_join_requests w)\<rparr>"
proof (cases "dao_get_service_join_request_by_id_and_service_id i service_id w")
  case (Inl e)
  then show ?thesis using assms(1) by (simp add: dao_update_service_join_request_by_id_def autocommit_def)
next
  case (Inr r)
  then have r: "r \<in> set (w_join_requests w)" "sj_id r = i" "sj_service_id r = service_id"
    by (auto simp: dao_get_service_join_request_by_id_and_service_id_def dest!: query_one_InrD)
  have "r' = decided st a (w_now w) m r
      \<and> v = w\<lparr>w_join_requests := save_row sj_id (decided st a (w_now w) m r) (w_join_requests w)\<rparr>"
    using assms(1) Inr
    by (auto simp: dao_update_service_join_request_by_id_def autocommit_def decided_def Let_def
        split: if_splits)
  then show ?thesis using that [OF r] save_row_as_update [OF assms(2) r(1), of "decided st a (w_now w) m"] r(2)
    by simp
qed

lemma cancel_loop:
  fixes rs :: "join_request list"
  assumes "op_iter (\<lambda>r. op_bind (dao_update_service_join_request_by_id (sj_id r) service_id JoinCancelled a None)
      (\<lambda>_. op_return ())) rs w = (Inr (), v)" "distinct_rows sj_id (w_join_requests w)"
  shows "w_user_services v = w_user_services w \<and>
    w_join_requests v = update_rows (\<lambda>x. sj_id x \<in> sj_id ` set rs) (decided JoinCancelled a (w_now w) None)
      (w_join_requests w)"
  using assms
proof (induction rs arbitrary: w)
  case Nil
  then show ?case by (simp add: update_rows_def)
next
  case (Cons r rs)
  define cancel where "cancel = (\<lambda>r :: join_request. op_bind
    (dao_update_service_join_request_by_id (sj_id r) service_id JoinCancelled a None) (\<lambda>_. op_return ()))"
  obtain o1 w1 where step: "dao_update_service_join_request_by_id (sj_id r) service_id JoinCancelled a None w
      = (o1, w1)" by (cases "dao_update_service_join_request_by_id (sj_id r) service_id JoinCancelled a None w")
  obtain r' where o1: "o1 = Inr r'"
    using Cons.prems(1) step by (cases o1) auto
  have "cancel r w = (Inr (), w1)" by (simp add: cancel_def step o1 op_return_def)
  then have "op_iter cancel rs w1 = (Inr (), v)" using Cons.prems(1) [folded cancel_def] by simp
  note rest = this [unfolded cancel_def]
  from step [unfolded o1] Cons.prems(2) obtain r0 where w1: "w1 = w\<lparr>w_join_requests :=
      update_rows (\<lambda>x. sj_id x = sj_id r) (decided JoinCancelled a (w_now w) None) (w_join_requests w)\<rparr>"
    by (rule decision_run) blast
  have distinct: "distinct_rows sj_id (w_join_requests w1)"
    using Cons.prems(2) by (simp add: w1 distinct_update_rows)
  have "w_user_services w1 = w_user_services w" "w_now w1 = w_now w"
    by (simp_all add: w1)
  moreover have "w_join_requests w1 = update_rows (\<lambda>x. sj_id x = sj_id r)
      (decided JoinCancelled a (w_now w) None) (w_join_requests w)" by (simp add: w1)
  ultimately show ?case
    using Cons.IH [OF rest distinct] by (auto simp: update_rows_def)
qed

lemma add_user_run:
  assumes "dao_add_user_to_service service_id user_id ps fs w = (Inr (), v)"
  shows "w_user_services v = w_user_services w @ [(user_id, service_id)]"
    "w_join_requests v = w_join_requests w" "w_now v = w_now w"
    "w_invited_users v = w_invited_users w"
  using assms
  by (auto simp: dao_add_user_to_service_def autocommit_def op_bind_def add_permissions_def set_folders_def
      split: if_splits sum.splits prod.splits)

lemma op_bind_InrE:
  assumes "op_bind m f w = (Inr y, v)"
  obtains x u where "m w = (Inr x, u)" "f x u = (Inr y, v)"
  using assms by (cases "m w") (auto simp: op_bind_def split: sum.splits)

lemma approve_run:
  assumes "approve_join_request env alib lib d r w = (Inr (), v)"
  obtains ps fs w2 w3 where
    "dao_add_user_to_service (sj_service_id r) (sj_requester_id r) ps fs w = (Inr (), w2)"
    "w_user_services w3 = w_user_services w2" "w_join_requests w3 = w_join_requests w2" "w_now w3 = w_now w2"
    "dao_cancel_pending_service_join_requests (sj_requester_id r) (jd_changed_by d) (sj_service_id r) w3
       = (Inr (), v)"
proof -
  define fs where "fs = jd_folder_permissions d"
  define ps where "ps = (case jd_permissions d of None \<Rightarrow> [] | Some ps \<Rightarrow> ps)"
  from assms obtain requester approver s where
      users: "get_user_by_id (sj_requester_id r) w = Inr requester" "get_user_by_id (jd_changed_by d) w = Inr approver"
        "dao_fetch_service_by_id (sj_service_id r) False w = Inr s"
      and rest: "op_bind (dao_add_user_to_service (svc_id s) (u_id requester) ps fs) (\<lambda>_.
        op_bind (\<lambda>w. (Inr (), update_auth_type (jd_auth_type d) requester w)) (\<lambda>_.
        op_bind (\<lambda>w. (dao_get_template_by_id (ac_template_id lib ''SERVICE_JOIN_REQUEST_APPROVED_TEMPLATE_ID'')
                     None w, w)) (\<lambda>t.
        op_bind (send_service_join_request_decision_email env alib lib (u_email_address requester) t
                [(''requester_name'', u_name requester), (''approver_name'', u_name approver),
                 (''service_name'', svc_name s),
                 (''dashboard_url'', ac_admin_base_url lib @ ''/services/'' @ uuid_str (svc_id s))]) (\<lambda>_.
        dao_cancel_pending_service_join_requests (u_id requester) (u_id approver) (svc_id s))))) w = (Inr (), v)"
    unfolding approve_join_request_def ps_def [symmetric] fs_def [symmetric]
    by (elim op_bind_InrE) auto
  have ids: "u_id requester = sj_requester_id r" "u_id approver = jd_changed_by d" "svc_id s = sj_service_id r"
    using users fetch_service [OF users(3)] by (auto simp: get_user_by_id_def dest!: query_one_InrD)
  have mail: "untouched (send_service_join_request_decision_email env alib lib e t xs)" for e t xs
    unfolding send_service_join_request_decision_email_def
  proof (intro untouched_bind untouched_pure)
    fix x :: service
    show "untouched (\<lambda>w. op_bind (persist_notification env alib x (a w)) (\<lambda>n. send_notification_to_queue alib n q) w)"
      for a q
      by (rule untouched_diagonal, intro untouched_intros)
  qed
  from rest obtain w2 where add: "dao_add_user_to_service (svc_id s) (u_id requester) ps fs w = (Inr (), w2)"
    and "op_bind (\<lambda>w. (Inr (), update_auth_type (jd_auth_type d) requester w)) (\<lambda>_.
        op_bind (\<lambda>w. (dao_get_template_by_id (ac_template_id lib ''SERVICE_JOIN_REQUEST_APPROVED_TEMPLATE_ID'')
                     None w, w)) (\<lambda>t.
        op_bind (send_service_join_request_decision_email env alib lib (u_email_address requester) t
                [(''requester_name'', u_name requester), (''approver_name'', u_name approver),
                 (''service_name'', svc_name s),
                 (''dashboard_url'', ac_admin_base_url lib @ ''/services/'' @ uuid_str (svc_id s))]) (\<lambda>_.
        dao_cancel_pending_service_join_requests (u_id requester) (u_id approver) (svc_id s)))) w2 = (Inr (), v)"
    by (elim op_bind_InrE) auto
  then obtain t x w3 where send: "send_service_join_request_decision_email env alib lib (u_email_address requester) t
        [(''requester_name'', u_name requester), (''approver_name'', u_name approver),
         (''service_name'', svc_name s),
         (''dashboard_url'', ac_admin_base_url lib @ ''/services/'' @ uuid_str (svc_id s))]
        (update_auth_type (jd_auth_type d) requester w2) = (Inr x, w3)"
    and cancel: "dao_cancel_pending_service_join_requests (u_id requester) (u_id approver) (svc_id s) w3 = (Inr (), v)"
    by (elim op_bind_InrE) auto
  have auth: "w_user_services (update_auth_type a u w2) = w_user_services w2"
      "w_join_requests (update_auth_type a u w2) = w_join_requests w2"
      "w_now (update_auth_type a u w2) = w_now w2" for a u
    by (simp_all add: update_auth_type_def save_user_attribute_def split: option.split)
  note kept = other_tablesD [OF untouched_run [OF mail send]]
  show ?thesis
    by (rule that [OF add [unfolded ids] _ _ _ cancel [unfolded ids]]) (simp_all add: kept auth)
qed

text \<open>
  C31: An approval that succeeds makes the requester, and nobody else, a member of the service; that
  request is approved, every other pending request of the same person for this service is
  cancelled, and all other requests stay.
\<close>

theorem approval_makes_member:
  assumes "update_service_join_request_by_id env alib lib service_id i d w = (Inr (), v)"
    and "jd_status d = JoinApproved" "distinct_rows sj_id (w_join_requests w)"
  shows "\<exists>r \<in> set (w_join_requests w). sj_id r = i \<and> sj_service_id r = service_id
    \<and> w_user_services v = w_user_services w @ [(sj_requester_id r, service_id)]
    \<and> w_join_requests v = map (\<lambda>x.
         if sj_id x = i then decided JoinApproved (jd_changed_by d) (w_now w) (jd_reason d) x
         else if sj_requester_id x = sj_requester_id r \<and> sj_service_id x = service_id
                 \<and> sj_status x = JoinPending
         then decided JoinCancelled (jd_changed_by d) (w_now w) None x else x) (w_join_requests w)"
proof -
  obtain o1 w1 where decide: "dao_update_service_join_request_by_id i service_id JoinApproved
      (jd_changed_by d) (jd_reason d) w = (o1, w1)"
    by (cases "dao_update_service_join_request_by_id i service_id JoinApproved (jd_changed_by d) (jd_reason d) w")
  then obtain r' where "o1 = Inr r'"
    using assms(1,2) by (cases o1) (auto simp: update_service_join_request_by_id_def)
  note decide = decide [unfolded this]
  from decide assms(3) obtain r where r: "r \<in> set (w_join_requests w)" "sj_id r = i" "sj_service_id r = service_id"
      and r': "r' = decided JoinApproved (jd_changed_by d) (w_now w) (jd_reason d) r"
      and w1: "w1 = w\<lparr>w_join_requests := update_rows (\<lambda>x. sj_id x = i)
        (decided JoinApproved (jd_changed_by d) (w_now w) (jd_reason d)) (w_join_requests w)\<rparr>"
    by (rule decision_run)
  have approve: "approve_join_request env alib lib d r' w1 = (Inr (), v)"
    using assms(1,2) decide by (simp add: update_service_join_request_by_id_def)
  from approve obtain ps fs w2 w3 where
      add: "dao_add_user_to_service (sj_service_id r') (sj_requester_id r') ps fs w1 = (Inr (), w2)"
      and w3: "w_user_services w3 = w_user_services w2" "w_join_requests w3 = w_join_requests w2" "w_now w3 = w_now w2"
      and cancel: "dao_cancel_pending_service_join_requests (sj_requester_id r') (jd_changed_by d)
        (sj_service_id r') w3 = (Inr (), v)"
    by (rule approve_run)
  have w1_tables: "w_user_services w1 = w_user_services w" "w_now w1 = w_now w"
      "w_join_requests w1 = update_rows (\<lambda>x. sj_id x = i)
        (decided JoinApproved (jd_changed_by d) (w_now w) (jd_reason d)) (w_join_requests w)"
    by (simp_all add: w1)
  note added = add_user_run [OF add]
  have rows: "w_join_requests w3 = w_join_requests w1" "w_now w3 = w_now w"
    using w3 added w1_tables by simp_all
  have distinct: "distinct_rows sj_id (w_join_requests w3)"
    unfolding rows w1_tables using assms(3) by (simp add: distinct_update_rows)
  define pending where "pending = (\<lambda>x :: join_request. sj_requester_id x = sj_requester_id r \<and> sj_service_id x = service_id
    \<and> sj_status x = JoinPending)"
  have names: "sj_requester_id r' = sj_requester_id r" "sj_service_id r' = service_id"
    using r r' by simp_all
  note loop = cancel_loop [OF cancel [unfolded dao_cancel_pending_service_join_requests_def names,
    folded pending_def] distinct]
  have "sj_id x \<in> sj_id ` set (filter pending (w_join_requests w3)) \<longleftrightarrow> pending x"
    if "x \<in> set (w_join_requests w3)" for x
    using that distinct by (auto simp: distinct_rows_def distinct_map inj_on_def)
  then have "w_join_requests v = update_rows pending (decided JoinCancelled (jd_changed_by d) (w_now w) None)
      (w_join_requests w3)"
    using loop rows(2) by (auto simp: update_rows_def)
  then have "w_join_requests v = map (\<lambda>x.
         if sj_id x = i then decided JoinApproved (jd_changed_by d) (w_now w) (jd_reason d) x
         else if pending x then decided JoinCancelled (jd_changed_by d) (w_now w) None x else x) (w_join_requests w)"
    unfolding rows w1_tables update_rows_def by (simp add: pending_def comp_def)
  moreover have "w_user_services v = w_user_services w @ [(sj_requester_id r, service_id)]"
    using loop w3 added w1_tables names by simp
  ultimately show ?thesis using r by (auto simp: pending_def)
qed

text \<open>
  The new status is committed before the membership is added. Approving the request of somebody who
  is a member already therefore fails with a server error and leaves the request approved.
\<close>

theorem approving_a_member_fails:
  assumes "distinct_rows sj_id (w_join_requests w)" "r \<in> set (w_join_requests w)"
    and "sj_id r = i" "sj_service_id r = service_id" "jd_status d = JoinApproved"
    and "get_user_by_id (sj_requester_id r) w = Inr requester" "get_user_by_id (jd_changed_by d) w = Inr approver"
    and "dao_fetch_service_by_id service_id False w = Inr s"
    and "(sj_requester_id r, service_id) \<in> set (w_user_services w)"
    and "update_service_join_request_by_id env alib lib service_id i d w = (res, v)"
  shows "res = Inl (Db OtherSQLAlchemyError)
    \<and> find_row sj_id i (w_join_requests v)
        = Some (decided JoinApproved (jd_changed_by d) (w_now w) (jd_reason d) r)
    \<and> w_user_services v = w_user_services w"
proof -
  define r' where "r' = decided JoinApproved (jd_changed_by d) (w_now w) (jd_reason d) r"
  define w1 where "w1 = w\<lparr>w_join_requests := save_row sj_id r' (w_join_requests w)\<rparr>"
  have found: "dao_get_service_join_request_by_id_and_service_id i service_id w = Inr r"
    using query_one_key [of sj_id "w_join_requests w" "Db NoResultFound" "Db MultipleResultsFound" i
        "\<lambda>x. sj_service_id x = service_id"] find_row_eqI [OF assms(1,2)] assms(1,3,4)
    by (simp add: dao_get_service_join_request_by_id_and_service_id_def)
  have "approver \<in> set (w_users w)" "jd_changed_by d = u_id approver"
    using query_one_InrD [OF assms(7) [unfolded get_user_by_id_def]] by simp_all
  then have "find_row u_id (jd_changed_by d) (w_users w) \<noteq> None"
    unfolding find_row_None_iff by blast
  then have decide: "dao_update_service_join_request_by_id i service_id JoinApproved (jd_changed_by d)
      (jd_reason d) w = (Inr r', w1)"
    using found by (auto simp: dao_update_service_join_request_by_id_def autocommit_def r'_def w1_def
        decided_def Let_def)
  have ids: "u_id requester = sj_requester_id r" "svc_id s = service_id"
    using assms(6) fetch_service [OF assms(8)] by (auto simp: get_user_by_id_def dest!: query_one_InrD)
  have tables: "w_users w1 = w_users w" "w_services w1 = w_services w" "w_user_services w1 = w_user_services w"
    by (simp_all add: w1_def)
  have "get_user_by_id (sj_requester_id r') w1 = Inr requester" "get_user_by_id (jd_changed_by d) w1 = Inr approver"
      "dao_fetch_service_by_id (sj_service_id r') False w1 = Inr s"
    using assms(4,6,7,8) by (simp_all add: get_user_by_id_def dao_fetch_service_by_id_def tables r'_def)
  moreover have "dao_add_user_to_service (svc_id s) (u_id requester) ps fs w1
      = (Inl (Db OtherSQLAlchemyError), w1)" for ps fs
    using assms(9) by (simp add: dao_add_user_to_service_def autocommit_def tables ids)
  ultimately have "approve_join_request env alib lib d r' w1 = (Inl (Db OtherSQLAlchemyError), w1)"
    by (simp add: approve_join_request_def)
  then have "res = Inl (Db OtherSQLAlchemyError)" "v = w1"
    using assms(5,10) decide by (simp_all add: update_service_join_request_by_id_def)
  then show ?thesis using assms(3) by (simp add: w1_def r'_def row_simps tables)
qed

section \<open>Concrete runs\<close>

definition pending_request :: "uuid \<Rightarrow> uuid \<Rightarrow> join_request" where
  "pending_request i requester =
     \<lparr>sj_id = i, sj_requester_id = requester, sj_service_id = 10, sj_created_at = 0,
      sj_status = JoinPending, sj_status_changed_at = None, sj_status_changed_by_id = None,
      sj_reason = None, sj_contacted_service_users = [41]\<rparr>"

definition join_world :: world where
  \<comment> \<open>user 43, who is not a member, has asked twice to join; user 42, who is, once\<close>
  "join_world = open_world\<lparr>w_users := [sample_user 41, sample_user 42, sample_user 43],
     w_join_requests := [pending_request 60 43, pending_request 61 43, pending_request 62 42]\<rparr>"

definition approval :: join_decision where
  "approval = \<lparr>jd_status = JoinApproved, jd_changed_by = 41, jd_reason = None, jd_permissions = None,
     jd_folder_permissions = [], jd_auth_type = None\<rparr>"

definition join_without_reason :: join_form where
  "join_without_reason = \<lparr>jf_requester_id = 43, jf_contacted_user_ids = [41],
     jf_invite_link_host = ''admin'', jf_reason = None\<rparr>"

theorem cancel_changes_only_the_letter_witness:
  "\<exists>r v. cancel_notification_for_service sample_env
       \<lparr>lt_can_be_cancelled = \<lambda>now s t. True, lt_too_late_to_cancel = \<lambda>now t. False, lt_page_count = \<lambda>p. 1\<rparr>
       10 50 (sample_world\<lparr>w_notifications := [(sample_letter 50 1)\<lparr>n_status := Created\<rparr>]\<rparr>) = (r, v)
     \<and> map n_status (w_notifications v) = [Cancelled]"
proof -
  define n where "n = (sample_letter 50 1)\<lparr>n_status := Created\<rparr>"
  define w where "w = sample_world\<lparr>w_notifications := [n]\<rparr>"
  define lt where "lt = \<lparr>lt_can_be_cancelled = \<lambda>now s t. True, lt_too_late_to_cancel = \<lambda>now t. False,
    lt_page_count = \<lambda>p. 1\<rparr>"
  obtain r v where run: "cancel_notification_for_service sample_env lt 10 50 w = (r, v)" by fastforce
  have n: "n_id n = 50" "n_service_id n = 10" "n_type n = Letter" "n_status n = Created"
    by (simp_all add: n_def sample_letter_def sample_notification_def)
  have "distinct_rows n_id (w_notifications w)" by (simp add: w_def distinct_rows_def)
  from cancel_changes_only_the_letter [OF this run]
  have "map n_status (w_notifications v) = [Cancelled]"
    by (simp add: w_def get_notification_by_id_def query_first_def n lt_def updatable_statuses_def)
  then show ?thesis using run by (auto simp: w_def n_def lt_def)
qed

theorem report_made_once_witness:
  "\<exists>r v. create_report_request_by_type sample_env sample_api 30 10 41 ''email'' ''all'' open_world = (Inr r, v)
     \<and> create_report_request_by_type sample_env sample_api 30 10 41 ''email'' ''all''
         (v\<lparr>w_tasks := [], w_now := w_now open_world + minutes 29\<rparr>)
       = (Inr r, v\<lparr>w_tasks := [], w_now := w_now open_world + minutes 29\<rparr>)"
proof -
  obtain o1 v where run: "create_report_request_by_type sample_env sample_api 30 10 41 ''email'' ''all''
      open_world = (o1, v)" by fastforce
  have "(case fst (create_report_request_by_type sample_env sample_api 30 10 41 ''email'' ''all'' open_world) of
      Inl _ \<Rightarrow> False | Inr r \<Rightarrow> rr_status r = ReportRequestPending \<and> rr_updated_at r = None
        \<and> rr_created_at r = w_now open_world)" by code_simp
  then obtain r where r: "o1 = Inr r" "rr_status r = ReportRequestPending" "rr_updated_at r = None"
      "rr_created_at r = w_now open_world" using run by (cases o1) auto
  define u where "u = v\<lparr>w_tasks := [], w_now := w_now open_world + minutes 29\<rparr>"
  have u: "w_report_requests u = w_report_requests v" "w_now u = w_now open_world + minutes 29"
    by (simp_all add: u_def)
  have "w_now open_world \<le> w_now u" by (simp add: u(2) minutes_def seconds_def)
  moreover have "ongoing_report 30 u r"
    by (simp add: ongoing_report_def r u(2) minutes_def seconds_def)
  ultimately show ?thesis
    using report_made_once [OF run [unfolded r(1)] u(1)] run r(1) by (auto simp: u_def)
qed

theorem join_without_reason_fails_witness:
  "\<exists>v. create_service_join_request sample_env sample_api sample_account 10 join_without_reason join_world
       = (Inl (Py AttributeError), v) \<and> length (w_join_requests v) = 4"
proof -
  obtain r v where run: "create_service_join_request sample_env sample_api sample_account 10
      join_without_reason join_world = (r, v)" by fastforce
  have facts: "get_user_by_id (jf_requester_id join_without_reason) join_world = Inr (sample_user 43)"
    "map_res (\<lambda>i. get_user_by_id i join_world) (jf_contacted_user_ids join_without_reason) = Inr [sample_user 41]"
    "dao_fetch_service_by_id 10 False join_world = Inr sample_service"
    "sample_service \<notin> set (user_services (u_id (sample_user 43)) join_world)"
    "jf_reason join_without_reason = None"
    "dao_get_template_by_id (ac_template_id sample_account ''REQUEST_INVITE_TO_SERVICE_TEMPLATE_ID'') None
       join_world = Inr sample_template"
    "sample_user 41 \<in> set [sample_user 41]"
    "sample_service \<in> set (user_services (u_id (sample_user 41)) join_world)"
    by code_simp+
  have rows: "length (w_join_requests join_world) = 3" by (simp add: join_world_def)
  from join_without_reason_fails [OF facts run]
  have "r = Inl (Py AttributeError)" "length (map (\<lambda>x. (sj_requester_id x, sj_service_id x, sj_status x))
      (w_join_requests v)) = 4" by (auto simp: rows)
  then show ?thesis using run by auto
qed

lemma join_world_rows:
  "w_join_requests join_world = [pending_request 60 43, pending_request 61 43, pending_request 62 42]"
  "w_user_services join_world = [(41, 10), (42, 10)]"
  by (simp_all add: join_world_def open_world_def)

lemma join_world_reads:
  "get_user_by_id 42 join_world = Inr (sample_user 42)" "get_user_by_id 41 join_world = Inr (sample_user 41)"
  "dao_fetch_service_by_id 10 False join_world = Inr sample_service"
  by code_simp+

definition approved_request :: join_request where
  "approved_request = decided JoinApproved 41 (w_now join_world) None (pending_request 60 43)"

definition approved_world :: world where
  "approved_world = snd (dao_update_service_join_request_by_id 60 10 JoinApproved 41 None join_world)"

definition joined_world :: world where
  "joined_world = snd (dao_add_user_to_service 10 43 [] [] approved_world)"

lemma approval_runs: "fst (approve_join_request sample_env sample_api sample_account approval
    approved_request approved_world) = Inr ()"
proof -
  have request: "sj_requester_id approved_request = 43" "sj_service_id approved_request = 10"
    by (simp_all add: approved_request_def pending_request_def)
  have reads: "get_user_by_id 43 approved_world = Inr (sample_user 43)"
      "get_user_by_id 41 approved_world = Inr (sample_user 41)"
      "dao_fetch_service_by_id 10 False approved_world = Inr sample_service"
    by code_simp+
  have ids: "svc_id sample_service = 10" "u_id (sample_user 43) = 43" "u_id (sample_user 41) = 41"
    by code_simp+
  have "isl (fst (dao_add_user_to_service 10 43 [] [] approved_world)) = False" by code_simp
  then have add: "dao_add_user_to_service 10 43 [] [] approved_world = (Inr (), joined_world)"
    by (cases "dao_add_user_to_service 10 43 [] [] approved_world")
      (auto simp: joined_world_def isl_def split: sum.splits intro: sum.exhaust)
  have template: "dao_get_template_by_id 20 None joined_world = Inr sample_template" by code_simp
  have template_id: "ac_template_id sample_account n = 20" for n by (simp add: sample_account_def)
  have mailed: "\<exists>x v. send_service_join_request_decision_email sample_env sample_api sample_account e
      sample_template ps joined_world = (Inr x, v)
      \<and> fst (dao_cancel_pending_service_join_requests 43 41 10 v) = Inr ()" for e ps
  proof -
    obtain o1 v where run: "send_service_join_request_decision_email sample_env sample_api sample_account e
      sample_template ps joined_world = (o1, v)" by fastforce
    have "isl (fst (send_service_join_request_decision_email sample_env sample_api sample_account e
      sample_template ps joined_world)) = False" by code_simp
    moreover have "isl (fst (dao_cancel_pending_service_join_requests 43 41 10
        (snd (send_service_join_request_decision_email sample_env sample_api sample_account e
          sample_template ps joined_world)))) = False" by code_simp
    ultimately show ?thesis
      using run by (cases o1; cases "fst (dao_cancel_pending_service_join_requests 43 41 10 v)") simp_all
  qed
  have auth: "update_auth_type None u w = w" for u w by (simp add: update_auth_type_def)
  define e ps where "e = u_email_address (sample_user 43)" and
    "ps = [(''requester_name'', u_name (sample_user 43)), (''approver_name'', u_name (sample_user 41)),
       (''service_name'', svc_name sample_service),
       (''dashboard_url'', ac_admin_base_url sample_account @ ''/services/'' @ uuid_str 10)]"
  from mailed [of e ps] obtain x v where
      "send_service_join_request_decision_email sample_env sample_api sample_account e
        sample_template ps joined_world = (Inr x, v)"
      "fst (dao_cancel_pending_service_join_requests 43 41 10 v) = Inr ()" by blast
  then show ?thesis
    unfolding approve_join_request_def request
    by (simp add: reads ids add template template_id auth approval_def e_def ps_def)
qed

theorem approval_makes_member_witness:
  "\<exists>v. update_service_join_request_by_id sample_env sample_api sample_account 10 60 approval join_world = (Inr (), v)
     \<and> w_user_services v = [(41, 10), (42, 10), (43, 10)]
     \<and> map sj_status (w_join_requests v) = [JoinApproved, JoinCancelled, JoinPending]"
proof -
  obtain r v where run: "update_service_join_request_by_id sample_env sample_api sample_account 10 60 approval
      join_world = (r, v)" by fastforce
  have "fst (dao_update_service_join_request_by_id 60 10 JoinApproved 41 None join_world) = Inr approved_request"
    by code_simp
  then have "dao_update_service_join_request_by_id 60 10 JoinApproved 41 None join_world
      = (Inr approved_request, approved_world)"
    by (simp add: approved_world_def prod_eq_iff)
  then have "fst (update_service_join_request_by_id sample_env sample_api sample_account 10 60 approval
      join_world) = Inr ()"
    using approval_runs by (simp add: update_service_join_request_by_id_def approval_def)
  then have r: "r = Inr ()" using run by simp
  have d: "jd_status approval = JoinApproved" by (simp add: approval_def)
  have "distinct_rows sj_id (w_join_requests join_world)"
    by (simp add: join_world_rows distinct_rows_def pending_request_def)
  from approval_makes_member [OF run [unfolded r] d this] obtain q where
      q: "q \<in> set (w_join_requests join_world)" "sj_id q = 60"
      and services: "w_user_services v = w_user_services join_world @ [(sj_requester_id q, 10)]"
      and requests: "w_join_requests v = map (\<lambda>x.
         if sj_id x = 60 then decided JoinApproved (jd_changed_by approval) (w_now join_world) (jd_reason approval) x
         else if sj_requester_id x = sj_requester_id q \<and> sj_service_id x = 10 \<and> sj_status x = JoinPending
         then decided JoinCancelled (jd_changed_by approval) (w_now join_world) None x else x)
         (w_join_requests join_world)"
    by blast
  have "sj_requester_id q = 43" using q by (auto simp: join_world_rows pending_request_def)
  moreover have "map sj_status (w_join_requests v) = [JoinApproved, JoinCancelled, JoinPending]"
    unfolding requests join_world_rows calculation by (simp add: pending_request_def)
  ultimately have "w_user_services v = [(41, 10), (42, 10), (43, 10)]
     \<and> map sj_status (w_join_requests v) = [JoinApproved, JoinCancelled, JoinPending]"
    using services by (simp add: join_world_rows)
  with run [unfolded r] show ?thesis by (intro exI [of _ v] conjI) simp_all
qed

theorem approving_a_member_fails_witness:
  "\<exists>v. update_service_join_request_by_id sample_env sample_api sample_account 10 62 approval join_world
       = (Inl (Db OtherSQLAlchemyError), v)
     \<and> map_option sj_status (find_row sj_id 62 (w_join_requests v)) = Some JoinApproved"
proof -
  obtain r v where run: "update_service_join_request_by_id sample_env sample_api sample_account 10 62 approval
      join_world = (r, v)" by fastforce
  define r0 where "r0 = pending_request 62 42"
  have r0: "sj_id r0 = 62" "sj_service_id r0 = 10" "sj_requester_id r0 = 42"
    by (simp_all add: r0_def pending_request_def)
  have decision: "jd_status approval = JoinApproved" "jd_changed_by approval = 41"
    by (simp_all add: approval_def)
  have rows: "distinct_rows sj_id (w_join_requests join_world)" "r0 \<in> set (w_join_requests join_world)"
    by (simp_all add: join_world_rows distinct_rows_def pending_request_def r0_def)
  have "(sj_requester_id r0, 10) \<in> set (w_user_services join_world)" by (simp add: r0 join_world_rows)
  note facts = rows r0(1,2) decision(1) join_world_reads(1) [folded r0(3)]
    join_world_reads(2) [folded decision(2)] join_world_reads(3) this
  show ?thesis using approving_a_member_fails [OF facts run] run by (auto simp del: join_world_reads)
qed

end
