(* ===== verification/Invites.thy ===== *)
theory Invites
  imports Service_Settings
begin

text \<open>
  Invitations: their tables (\<^verbatim>\<open>app/dao/invited_user_dao.py\<close>, \<^verbatim>\<open>app/dao/invited_org_user_dao.py\<close>), and the
  endpoints that invite somebody to a service or an organisation and open the link of the email
  (\<^verbatim>\<open>app/service_invite/rest.py\<close>, \<^verbatim>\<open>app/organisation/invite_rest.py\<close>). Signing and checking a token
  belong to a library: \<open>il_token\<close> signs, \<open>il_check_token\<close> reads a token that is at most so many
  seconds old.
\<close>

datatype token_check = TokenData uuid | TokenExpired | TokenBad

record invite_lib =
  il_token :: "string \<Rightarrow> string"
  il_check_token :: "string \<Rightarrow> int \<Rightarrow> token_check"
  il_expiration_days :: int

section \<open>The tables\<close>

definition save_invited_user :: "invited_user \<Rightarrow> unit op" where
  \<comment> \<open>the foreign keys of the user who invites and of the service must exist\<close>
  "save_invited_user r w =
     (if find_row u_id (iu_user_id r) (w_users w) = None
         \<or> find_row svc_id (iu_service_id r) (w_services w) = None
      then (Inl (Db OtherSQLAlchemyError), w)
      else (Inr (), w\<lparr>w_invited_users := save_row iu_id r (w_invited_users w)\<rparr>))"

definition get_invited_user_by_service_and_id :: "uuid \<Rightarrow> uuid \<Rightarrow> world \<Rightarrow> invited_user result" where
  "get_invited_user_by_service_and_id service_id i w =
     query_one (Db NoResultFound) (Db MultipleResultsFound)
       (\<lambda>r. iu_service_id r = service_id \<and> iu_id r = i) (w_invited_users w)"

definition get_invited_user_by_id :: "uuid \<Rightarrow> world \<Rightarrow> invited_user result" where
  "get_invited_user_by_id i w =
     query_one (Db NoResultFound) (Db MultipleResultsFound) (\<lambda>r. iu_id r = i) (w_invited_users w)"

definition get_invited_users_for_service :: "uuid \<Rightarrow> world \<Rightarrow> invited_user list" where
  "get_invited_users_for_service service_id w =
     filter (\<lambda>r. iu_service_id r = service_id) (w_invited_users w)"

definition delete_invitations_created_more_than_two_days_ago :: "world \<Rightarrow> nat \<times> world" where
  "delete_invitations_created_more_than_two_days_ago w =
     (let old = (\<lambda>r. iu_created_at r \<le> w_now w - days 2)
      in (length (filter old (w_invited_users w)),
          w\<lparr>w_invited_users := delete_rows old (w_invited_users w)\<rparr>))"

definition save_invited_org_user :: "invited_org_user \<Rightarrow> unit op" where
  "save_invited_org_user r w =
     (if find_row u_id (io_invited_by_id r) (w_users w) = None
         \<or> find_row o_id (io_organisation_id r) (w_organisations w) = None
      then (Inl (Db OtherSQLAlchemyError), w)
      else (Inr (), w\<lparr>w_invited_org_users := save_row io_id r (w_invited_org_users w)\<rparr>))"

definition get_invited_org_user :: "uuid \<Rightarrow> uuid \<Rightarrow> world \<Rightarrow> invited_org_user result" where
  "get_invited_org_user organisation_id i w =
     query_one (Db NoResultFound) (Db MultipleResultsFound)
       (\<lambda>r. io_organisation_id r = organisation_id \<and> io_id r = i) (w_invited_org_users w)"

definition get_invited_org_user_by_id :: "uuid \<Rightarrow> world \<Rightarrow> invited_org_user result" where
  "get_invited_org_user_by_id i w =
     query_one (Db NoResultFound) (Db MultipleResultsFound) (\<lambda>r. io_id r = i) (w_invited_org_users w)"

definition get_invited_org_users_for_organisation :: "uuid \<Rightarrow> world \<Rightarrow> invited_org_user list" where
  "get_invited_org_users_for_organisation organisation_id w =
     filter (\<lambda>r. io_organisation_id r = organisation_id) (w_invited_org_users w)"

definition delete_org_invitations_created_more_than_two_days_ago :: "world \<Rightarrow> nat \<times> world" where
  "delete_org_invitations_created_more_than_two_days_ago w =
     (let old = (\<lambda>r. io_created_at r \<le> w_now w - days 2)
      in (length (filter old (w_invited_org_users w)),
          w\<lparr>w_invited_org_users := delete_rows old (w_invited_org_users w)\<rparr>))"

section \<open>Inviting\<close>

definition invited_user_url :: "invite_lib \<Rightarrow> account_lib \<Rightarrow> uuid \<Rightarrow> string option \<Rightarrow> string" where
  "invited_user_url il lib i host =
     (case host of None \<Rightarrow> ac_admin_base_url lib | Some h \<Rightarrow> h) @ ''/invitation/'' @ il_token il (uuid_str i)"

definition invited_org_user_url :: "invite_lib \<Rightarrow> account_lib \<Rightarrow> uuid \<Rightarrow> string option \<Rightarrow> string" where
  "invited_org_user_url il lib i host =
     (case host of None \<Rightarrow> ac_admin_base_url lib | Some h \<Rightarrow> h) @ ''/organisation-invitation/''
       @ il_token il (uuid_str i)"

definition send_invitation ::
  "env \<Rightarrow> api_lib \<Rightarrow> template \<Rightarrow> service option \<Rightarrow> string \<Rightarrow> (string \<times> string) list \<Rightarrow> string \<Rightarrow> unit op" where
  \<comment> \<open>the common end of the endpoints: an email from the service, or from none\<close>
  "send_invitation env alib t s email ps reply_to w =
     (case s of
        None \<Rightarrow> (Inl (Py AttributeError), w)
      | Some svc \<Rightarrow>
          op_bind (persist_notification env alib svc
              ((persist_call (t_id t) (t_version t) (TextData email)
                  (Some (map (\<lambda>(k, v). (k, PText v)) ps)) Email None NormalKey)
                \<lparr>pn_reply_to_text := Some reply_to\<rparr>))
            (\<lambda>n. send_notification_to_queue alib n (Some NOTIFY)) w)"

text \<open>
  The body of a request is loaded by a schema, so the row it makes is given; its id is new. The
  service of the path is not read.
\<close>

definition create_invited_user ::
  "env \<Rightarrow> api_lib \<Rightarrow> account_lib \<Rightarrow> invite_lib \<Rightarrow> invited_user \<Rightarrow> string option \<Rightarrow> uuid op" where
  "create_invited_user env alib lib il row host w =
     (let (i, w1) = create_uuid env w; r = row\<lparr>iu_id := i, iu_created_at := w_now w\<rparr>
      in op_bind (save_invited_user r) (\<lambda>_.
         op_bind (\<lambda>v. (dao_get_template_by_id (ac_template_id lib ''INVITATION_EMAIL_TEMPLATE_ID'') None v, v)) (\<lambda>t v.
         op_bind (op_lift (get_user_by_id (iu_user_id r) v)) (\<lambda>inviter.
         op_bind (op_lift (dao_fetch_service_by_id (iu_service_id r) False v)) (\<lambda>s.
         op_bind (send_invitation env alib t
             (find_row svc_id (ac_notify_service_id lib) (w_services v)) (iu_email_address r)
             [(''user_name'', u_name inviter), (''service_name'', svc_name s),
              (''url'', invited_user_url il lib i host)] (u_email_address inviter))
           (\<lambda>_. op_return i))) v)) w1)"

definition get_invited_users_by_service :: "uuid \<Rightarrow> world \<Rightarrow> invited_user list" where
  "get_invited_users_by_service service_id w = get_invited_users_for_service service_id w"

definition get_invited_user_by_service :: "uuid \<Rightarrow> uuid \<Rightarrow> world \<Rightarrow> invited_user result" where
  "get_invited_user_by_service service_id i w = get_invited_user_by_service_and_id service_id i w"

definition update_invited_user ::
  "(invited_user \<Rightarrow> invited_user result) \<Rightarrow> uuid \<Rightarrow> uuid \<Rightarrow> invited_user op" where
  \<comment> \<open>\<open>load\<close>: the schema on the columns of the row overwritten by the body\<close>
  "update_invited_user load service_id i =
     op_bind (\<lambda>w. (get_invited_user_by_service_and_id service_id i w, w)) (\<lambda>fetched.
     op_bind (op_lift (load fetched)) (\<lambda>r.
     op_bind (save_invited_user r) (\<lambda>_. op_return r)))"

definition check_invitation_token :: "invite_lib \<Rightarrow> string \<Rightarrow> uuid result" where
  "check_invitation_token il token =
     (case il_check_token il token (60 * 60 * 24 * il_expiration_days il) of
        TokenData i \<Rightarrow> Inr i
      | TokenExpired \<Rightarrow> Inl (invalid_request (''Your invitation to GOV.UK Notify has expired. ''
          @ ''Please ask the person that invited you to send you another one'') 400)
      | TokenBad \<Rightarrow> Inl (invalid_request ''Something's wrong with this link. Make sure you've copied the whole thing.'' 400))"

definition validate_service_invitation_token :: "invite_lib \<Rightarrow> string \<Rightarrow> world \<Rightarrow> invited_user result" where
  "validate_service_invitation_token il token w =
     res_bind (check_invitation_token il token) (\<lambda>i. get_invited_user_by_id i w)"

record org_invite_form =
  oi_email_address :: string
  oi_invited_by :: uuid
  oi_permissions :: "string list"
  oi_invite_link_host :: "string option"

definition invite_user_to_org ::
  "env \<Rightarrow> api_lib \<Rightarrow> account_lib \<Rightarrow> invite_lib \<Rightarrow> uuid \<Rightarrow> org_invite_form \<Rightarrow> uuid op" where
  "invite_user_to_org env alib lib il organisation_id f w =
     (let (i, w1) = create_uuid env w
      in op_bind (save_invited_org_user
             \<lparr>io_id = i, io_email_address = oi_email_address f, io_invited_by_id = oi_invited_by f,
              io_organisation_id = organisation_id, io_permissions = py_join '','' (oi_permissions f),
              io_created_at = w_now w, io_status = InvitePending\<rparr>) (\<lambda>_.
         op_bind (\<lambda>v. (dao_get_template_by_id (ac_template_id lib ''ORGANISATION_INVITATION_EMAIL_TEMPLATE_ID'')
                         None v, v)) (\<lambda>t v.
         op_bind (op_lift (get_user_by_id (oi_invited_by f) v)) (\<lambda>inviter.
         op_bind (op_lift (dao_get_organisation_by_id organisation_id v)) (\<lambda>org.
         op_bind (send_invitation env alib t (find_row svc_id (t_service_id t) (w_services v)) (oi_email_address f)
             [(''user_name'', if u_platform_admin inviter then ''The GOV.UK Notify team'' else u_name inviter),
              (''organisation_name'', o_name org),
              (''url'', invited_org_user_url il lib i (oi_invite_link_host f))] (u_email_address inviter))
           (\<lambda>_. op_return i))) v)) w1)"

definition get_invited_org_users_by_organisation :: "uuid \<Rightarrow> world \<Rightarrow> invited_org_user list" where
  "get_invited_org_users_by_organisation organisation_id w =
     get_invited_org_users_for_organisation organisation_id w"

definition update_org_invite_status :: "uuid \<Rightarrow> uuid \<Rightarrow> invite_status \<Rightarrow> invited_org_user op" where
  "update_org_invite_status organisation_id i status =
     op_bind (\<lambda>w. (get_invited_org_user organisation_id i w, w)) (\<lambda>fetched.
     op_bind (save_invited_org_user (fetched\<lparr>io_status := status\<rparr>))
       (\<lambda>_. op_return (fetched\<lparr>io_status := status\<rparr>)))"

definition validate_invitation_token :: "invite_lib \<Rightarrow> string \<Rightarrow> world \<Rightarrow> invited_org_user result" where
  "validate_invitation_token il token w =
     res_bind (check_invitation_token il token) (\<lambda>i. get_invited_org_user_by_id i w)"

end
