(* ===== verification/Organisations.thy ===== *)
theory Organisations
  imports Invites
begin

text \<open>
  Organisations: \<^verbatim>\<open>app/dao/organisation_dao.py\<close>, \<^verbatim>\<open>app/dao/organisation_permissions_dao.py\<close>,
  the endpoints of \<^verbatim>\<open>app/organisation/rest.py\<close> and the emails of \<^verbatim>\<open>app/organisation/sender.py\<close> and
  \<^verbatim>\<open>app/organisation/requester.py\<close>. An organisation has services, which take its type, crown status
  and branding, members, domains, and the pools of branding its services may wanted from. The
  row has the columns that other code reads; the agreement and billing details are left out.
\<close>

record organisation_lib =
  og_services :: service_lib
  og_nhs_email_branding :: uuid
  og_nhs_letter_branding :: uuid
  og_support_email :: string
  og_has_active_go_live_request :: "service \<Rightarrow> bool"
  og_collation :: "string \<Rightarrow> nat"

section \<open>Queries\<close>

definition dao_get_organisations :: "organisation_lib \<Rightarrow> world \<Rightarrow> organisation list" where
  \<comment> \<open>active ones first, then by name\<close>
  "dao_get_organisations ol w =
     sort_key (\<lambda>r. if o_active r then 0 else 1 :: nat)
       (sort_key (\<lambda>r. og_collation ol (o_name r)) (w_organisations w))"

definition organisation_services :: "uuid \<Rightarrow> world \<Rightarrow> service list" where
  \<comment> \<open>\<open>Organisation.services\<close>\<close>
  "organisation_services i w = filter (\<lambda>s. svc_organisation_id s = Some i) (w_services w)"

definition dao_count_organisations_with_live_services :: "world \<Rightarrow> nat" where
  "dao_count_organisations_with_live_services w =
     length (filter (\<lambda>r. list_ex (\<lambda>s. svc_active s \<and> \<not> svc_restricted s \<and> svc_count_as_live s)
                           (organisation_services (o_id r) w)) (w_organisations w))"

definition dao_get_organisation_services :: "uuid \<Rightarrow> world \<Rightarrow> service list result" where
  "dao_get_organisation_services i w =
     map_sum id (\<lambda>r. organisation_services (o_id r) w) (dao_get_organisation_by_id i w)"

definition dao_get_organisations_by_partial_name ::
  "organisation_lib \<Rightarrow> string \<Rightarrow> world \<Rightarrow> organisation list" where
  "dao_get_organisations_by_partial_name ol name w =
     sort_key (\<lambda>r. og_collation ol (o_name r))
       (filter (\<lambda>r. ilike (contains_pattern (escape_special_characters name)) (o_name r)) (w_organisations w))"

definition dao_get_organisation_by_service_id :: "uuid \<Rightarrow> world \<Rightarrow> organisation option" where
  "dao_get_organisation_by_service_id service_id w =
     query_first (\<lambda>r. list_ex (\<lambda>s. svc_id s = service_id) (organisation_services (o_id r) w)) (w_organisations w)"

definition dao_get_users_for_organisation :: "uuid \<Rightarrow> world \<Rightarrow> user list" where
  "dao_get_users_for_organisation i w =
     sort_key u_created_at
       (filter (\<lambda>u. (u_id u, i) \<in> set (w_user_organisations w) \<and> u_state u = ''active'') (w_users w))"

section \<open>The pools of branding\<close>

definition extend_pool :: "uuid \<Rightarrow> uuid list \<Rightarrow> (uuid \<times> uuid) list \<Rightarrow> (uuid \<times> uuid) list result" where
  \<comment> \<open>what is in the pool is not inserted again; a new one given twice is, and the key refuses it\<close>
  "extend_pool i bs pool =
     (let new = filter (\<lambda>b. (i, b) \<notin> set pool) bs
      in if distinct new then Inr (pool @ map (\<lambda>b. (i, b)) new) else Inl (Db OtherSQLAlchemyError))"

definition email_branding_exists :: "organisation_lib \<Rightarrow> uuid \<Rightarrow> bool" where
  "email_branding_exists ol b \<longleftrightarrow> b \<in> fst ` set (se_email_brandings (og_services ol))"

definition letter_branding_exists :: "uuid \<Rightarrow> world \<Rightarrow> bool" where
  "letter_branding_exists b w \<longleftrightarrow> find_row lb_id b (w_letter_brandings w) \<noteq> None"

definition dao_add_email_branding_list_to_organisation_pool ::
  "organisation_lib \<Rightarrow> uuid \<Rightarrow> uuid list \<Rightarrow> unit op" where
  "dao_add_email_branding_list_to_organisation_pool ol i bs =
     autocommit (\<lambda>w.
       case dao_get_organisation_by_id i w of
         Inl e \<Rightarrow> (Inl e, w)
       | Inr _ \<Rightarrow>
           if \<not> list_all (email_branding_exists ol) bs then (Inl (Db NoResultFound), w)
           else (case extend_pool i bs (w_email_branding_pool w) of
                   Inl e \<Rightarrow> (Inl e, w) | Inr pool \<Rightarrow> (Inr (), w\<lparr>w_email_branding_pool := pool\<rparr>)))"

definition dao_add_email_branding_to_organisation_pool ::
  "organisation_lib \<Rightarrow> uuid \<Rightarrow> uuid \<Rightarrow> unit op" where
  "dao_add_email_branding_to_organisation_pool ol i b =
     dao_add_email_branding_list_to_organisation_pool ol i [b]"

definition dao_add_letter_branding_list_to_organisation_pool :: "uuid \<Rightarrow> uuid list \<Rightarrow> unit op" where
  "dao_add_letter_branding_list_to_organisation_pool i bs =
     autocommit (\<lambda>w.
       case dao_get_organisation_by_id i w of
         Inl e \<Rightarrow> (Inl e, w)
       | Inr _ \<Rightarrow>
           if \<not> list_all (\<lambda>b. letter_branding_exists b w) bs then (Inl (Db NoResultFound), w)
           else (case extend_pool i bs (w_letter_branding_pool w) of
                   Inl e \<Rightarrow> (Inl e, w) | Inr pool \<Rightarrow> (Inr (), w\<lparr>w_letter_branding_pool := pool\<rparr>)))"

definition dao_get_email_branding_pool_for_organisation ::
  "organisation_lib \<Rightarrow> uuid \<Rightarrow> world \<Rightarrow> (uuid \<times> string) list" where
  "dao_get_email_branding_pool_for_organisation ol i w =
     sort_key (\<lambda>(b, name). og_collation ol name)
       (filter (\<lambda>(b, name). (i, b) \<in> set (w_email_branding_pool w)) (se_email_brandings (og_services ol)))"

definition dao_get_all_organisations_with_specific_email_branding_in_their_pool ::
  "uuid \<Rightarrow> world \<Rightarrow> organisation list" where
  "dao_get_all_organisations_with_specific_email_branding_in_their_pool b w =
     filter (\<lambda>r. (o_id r, b) \<in> set (w_email_branding_pool w)) (w_organisations w)"

definition dao_remove_email_branding_from_organisation_pool ::
  "organisation_lib \<Rightarrow> uuid \<Rightarrow> uuid \<Rightarrow> unit op" where
  \<comment> \<open>taking away what is not in the list raises \<open>ValueError\<close>\<close>
  "dao_remove_email_branding_from_organisation_pool ol i b =
     autocommit (\<lambda>w.
       case dao_get_organisation_by_id i w of
         Inl e \<Rightarrow> (Inl e, w)
       | Inr r \<Rightarrow>
           if \<not> email_branding_exists ol b then (Inl (Db NoResultFound), w)
           else if o_email_branding_id r = Some b
           then (Inl (invalid_request ''You cannot remove an organisation's default email branding'' 400), w)
           else if (i, b) \<notin> set (w_email_branding_pool w)
           then (Inl (Py (ValueError ''list.remove(x): x not in list'')), w)
           else (Inr (), w\<lparr>w_email_branding_pool := delete_rows (\<lambda>x. x = (i, b)) (w_email_branding_pool w)\<rparr>))"

definition dao_get_letter_branding_pool_for_organisation :: "uuid \<Rightarrow> world \<Rightarrow> letter_branding list result" where
  \<comment> \<open>sorted in Python, by code points\<close>
  "dao_get_letter_branding_pool_for_organisation i w =
     map_sum id (\<lambda>_. sort_key lb_name
         (filter (\<lambda>b. (i, lb_id b) \<in> set (w_letter_branding_pool w)) (w_letter_brandings w)))
       (dao_get_organisation_by_id i w)"

definition dao_remove_letter_branding_from_organisation_pool :: "uuid \<Rightarrow> uuid \<Rightarrow> unit op" where
  "dao_remove_letter_branding_from_organisation_pool i b =
     autocommit (\<lambda>w.
       case dao_get_organisation_by_id i w of
         Inl e \<Rightarrow> (Inl e, w)
       | Inr _ \<Rightarrow>
           if \<not> letter_branding_exists b w then (Inl (Db NoResultFound), w)
           else if (i, b) \<notin> set (w_letter_branding_pool w)
           then (Inl (Py (ValueError ''list.remove(x): x not in list'')), w)
           else (Inr (), w\<lparr>w_letter_branding_pool := delete_rows (\<lambda>x. x = (i, b)) (w_letter_branding_pool w)\<rparr>))"

section \<open>Creating and changing\<close>

definition organisation_refused :: "organisation_lib \<Rightarrow> organisation \<Rightarrow> world \<Rightarrow> bool" where
  \<comment> \<open>the name is unique, a branding must exist\<close>
  "organisation_refused ol r w \<longleftrightarrow>
     list_ex (\<lambda>x. o_name x = o_name r \<and> o_id x \<noteq> o_id r) (w_organisations w)
     \<or> (case o_email_branding_id r of None \<Rightarrow> False | Some b \<Rightarrow> \<not> email_branding_exists ol b)
     \<or> (case o_letter_branding_id r of None \<Rightarrow> False | Some b \<Rightarrow> \<not> letter_branding_exists b w)"

definition is_nhs_type :: "org_type option \<Rightarrow> bool" where
  "is_nhs_type t \<longleftrightarrow> t \<in> Some ` set NHS_ORGANISATION_TYPES"

definition add_nhs_branding :: "organisation_lib \<Rightarrow> uuid \<Rightarrow> unit op" where
  "add_nhs_branding ol i =
     op_bind (dao_add_email_branding_to_organisation_pool ol i (og_nhs_email_branding ol))
       (\<lambda>_. dao_add_letter_branding_list_to_organisation_pool i [og_nhs_letter_branding ol])"

definition dao_create_organisation :: "organisation_lib \<Rightarrow> organisation \<Rightarrow> unit op" where
  \<comment> \<open>committed before the pools are filled\<close>
  "dao_create_organisation ol row w =
     (let nhs = is_nhs_type (o_organisation_type row);
          r = (if nhs then row\<lparr>o_email_branding_id := Some (og_nhs_email_branding ol),
                              o_letter_branding_id := Some (og_nhs_letter_branding ol)\<rparr> else row)
      in if find_row o_id (o_id r) (w_organisations w) \<noteq> None \<or> organisation_refused ol r w
         then (Inl (Db OtherSQLAlchemyError), w)
         else
           (if nhs then add_nhs_branding ol (o_id r) else op_return ())
             (w\<lparr>w_organisations := w_organisations w @ [r],
                w_organisation_permissions :=
                  w_organisation_permissions w @ [(o_id r, ''can_ask_to_join_a_service'')]\<rparr>))"

text \<open>The body of an update: a key that is absent is \<open>None\<close>.\<close>

record organisation_update =
  ou_name :: "string option"
  ou_active :: "bool option"
  ou_organisation_type :: "org_type option option"
  ou_crown :: "bool option option"
  ou_email_branding_id :: "uuid option option"
  ou_letter_branding_id :: "uuid option option"
  ou_domains :: "string list option"

definition given :: "'a option \<Rightarrow> ('a \<Rightarrow> 'r \<Rightarrow> 'r) \<Rightarrow> 'r \<Rightarrow> 'r" where
  "given v set_field r = (case v of None \<Rightarrow> r | Some x \<Rightarrow> set_field x r)"

definition updated_organisation :: "organisation_update \<Rightarrow> organisation \<Rightarrow> organisation" where
  "updated_organisation u r =
     given (ou_name u) (\<lambda>x r. r\<lparr>o_name := x\<rparr>)
       (given (ou_active u) (\<lambda>x r. r\<lparr>o_active := x\<rparr>)
       (given (ou_organisation_type u) (\<lambda>x r. r\<lparr>o_organisation_type := x\<rparr>)
       (given (ou_crown u) (\<lambda>x r. r\<lparr>o_crown := x\<rparr>)
       (given (ou_email_branding_id u) (\<lambda>x r. r\<lparr>o_email_branding_id := x\<rparr>)
       (given (ou_letter_branding_id u) (\<lambda>x r. r\<lparr>o_letter_branding_id := x\<rparr>) r)))))"

definition replace_domains :: "uuid \<Rightarrow> string list \<Rightarrow> world \<Rightarrow> world result" where
  \<comment> \<open>the domain is the key of its table\<close>
  "replace_domains i ds w =
     (let rest = delete_rows (\<lambda>(d, j). j = i) (w_domains w); new = map py_lower ds
      in if distinct new \<and> fst ` set rest \<inter> set new = {}
         then Inr (w\<lparr>w_domains := rest @ map (\<lambda>d. (d, i)) new\<rparr>) else Inl (Db OtherSQLAlchemyError))"

definition update_organisation_services ::
  "uuid \<Rightarrow> (service \<Rightarrow> bool) \<Rightarrow> (service \<Rightarrow> service) \<Rightarrow> world \<Rightarrow> world" where
  \<comment> \<open>every service that an attribute is set on gets a version; services are flushed in between\<close>
  "update_organisation_services i wanted set_attribute w =
     fold (\<lambda>s v. change_service (set_attribute s) v) (filter wanted (organisation_services i w)) w"

definition update_organisation_services_free_allowance :: "env \<Rightarrow> uuid \<Rightarrow> unit op" where
  "update_organisation_services_free_allowance env i w =
     op_iter (\<lambda>s. op_bind (set_default_free_allowance_for_service env (Some s) None) (\<lambda>_. op_return ()))
       (organisation_services i w) w"

definition add_branding_to_branding_pool :: "organisation_lib \<Rightarrow> uuid \<Rightarrow> organisation_update \<Rightarrow> unit op" where
  "add_branding_to_branding_pool ol i u =
     (if is_nhs_type (Option.bind (ou_organisation_type u) id) then add_nhs_branding ol i
      else
        op_bind (case Option.bind (ou_email_branding_id u) id of
                   None \<Rightarrow> op_return () | Some b \<Rightarrow> dao_add_email_branding_to_organisation_pool ol i b)
          (\<lambda>_. case Option.bind (ou_letter_branding_id u) id of
                 None \<Rightarrow> op_return () | Some b \<Rightarrow> dao_add_letter_branding_list_to_organisation_pool i [b]))"

definition spread_to_services ::
  "env \<Rightarrow> organisation_lib \<Rightarrow> uuid \<Rightarrow> organisation_update \<Rightarrow> organisation \<Rightarrow> nat op" where
  \<comment> \<open>what follows the update of the row; the allowances and the pools commit on their own\<close>
  "spread_to_services env ol i u r =
     op_bind (if ou_organisation_type u = None then op_return ()
              else (\<lambda>w. update_organisation_services_free_allowance env i
                     (update_organisation_services i (\<lambda>_. True)
                        (\<lambda>s. s\<lparr>svc_organisation_type := o_organisation_type r\<rparr>) w))) (\<lambda>_ w1.
     let w2 = (if ou_crown u = None then w1
               else update_organisation_services i (\<lambda>_. True) (\<lambda>s. s\<lparr>svc_crown := o_crown r\<rparr>) w1);
         w3 = (if ou_email_branding_id u = None then w2
               else update_organisation_services i (\<lambda>s. svc_email_branding s = None)
                      (\<lambda>s. s\<lparr>svc_email_branding := o_email_branding_id r\<rparr>) w2);
         w4 = (if ou_letter_branding_id u = None then w3
               else update_organisation_services i (\<lambda>s. svc_letter_branding s = None)
                      (\<lambda>s. s\<lparr>svc_letter_branding := o_letter_branding_id r\<rparr>) w3)
     in op_bind (add_branding_to_branding_pool ol i u) (\<lambda>_. op_return 1) w4)"

definition dao_update_organisation ::
  "env \<Rightarrow> organisation_lib \<Rightarrow> uuid \<Rightarrow> organisation_update \<Rightarrow> nat op" where
  \<comment> \<open>the endpoint has found the organisation\<close>
  "dao_update_organisation env ol i u w =
     (case find_row o_id i (w_organisations w) of
        None \<Rightarrow> (Inl (Py AttributeError), w)
      | Some r0 \<Rightarrow>
          let r = updated_organisation u r0;
              w1 = w\<lparr>w_organisations := save_row o_id r (w_organisations w)\<rparr>
          in if organisation_refused ol r w then (Inl (Db OtherSQLAlchemyError), w)
             else (case (case ou_domains u of None \<Rightarrow> Inr w1 | Some ds \<Rightarrow> replace_domains i ds w1) of
                     Inl e \<Rightarrow> (Inl e, w)
                   | Inr w2 \<Rightarrow> spread_to_services env ol i u r w2))"

definition dao_archive_organisation :: "uuid \<Rightarrow> unit op" where
  "dao_archive_organisation i =
     autocommit (\<lambda>w.
       case dao_get_organisation_by_id i w of
         Inl e \<Rightarrow> (Inl e, w)
       | Inr r \<Rightarrow>
           let r' = r\<lparr>o_email_branding_id := None, o_letter_branding_id := None,
                      o_name := get_archived_db_column_value (o_name r) w, o_active := False\<rparr>
           in (Inr (), w\<lparr>w_domains := delete_rows (\<lambda>(d, j). j = i) (w_domains w),
                         w_organisations := save_row o_id r' (w_organisations w)\<rparr>))"

definition dao_add_service_to_organisation :: "service \<Rightarrow> uuid \<Rightarrow> service op" where
  "dao_add_service_to_organisation s i =
     autocommit (\<lambda>w.
       case dao_get_organisation_by_id i w of
         Inl e \<Rightarrow> (Inl e, w)
       | Inr r \<Rightarrow>
           let s' = s\<lparr>svc_organisation_id := Some i, svc_organisation_type := o_organisation_type r,
                      svc_crown := o_crown r\<rparr>
           in (Inr s', change_service s' w))"

definition dao_add_user_to_organisation :: "uuid \<Rightarrow> uuid \<Rightarrow> string list \<Rightarrow> user op" where
  \<comment> \<open>a member is not inserted again\<close>
  "dao_add_user_to_organisation i user_id permissions =
     autocommit
       (op_bind (\<lambda>w. (dao_get_organisation_by_id i w, w)) (\<lambda>_.
        op_bind (\<lambda>w. (get_user_by_id user_id w, w)) (\<lambda>u.
        op_bind (\<lambda>w. (Inr (), if (user_id, i) \<in> set (w_user_organisations w) then w
                               else w\<lparr>w_user_organisations := w_user_organisations w @ [(user_id, i)]\<rparr>)) (\<lambda>_.
        op_bind (set_user_organisation_permission user_id i permissions False) (\<lambda>_. op_return u)))))"

definition set_organisation_permission :: "uuid \<Rightarrow> string list \<Rightarrow> unit op" where
  \<comment> \<open>a permission given twice is refused\<close>
  "set_organisation_permission i ps w =
     (if \<not> distinct ps then (Inl (Db OtherSQLAlchemyError), w)
      else (Inr (), w\<lparr>w_organisation_permissions :=
                        delete_rows (\<lambda>(j, p). j = i) (w_organisation_permissions w) @ map (\<lambda>p. (i, p)) ps\<rparr>))"

section \<open>Endpoints\<close>

definition get_organisation_by_domain :: "string \<Rightarrow> world \<Rightarrow> organisation result" where
  "get_organisation_by_domain domain w =
     (if domain = [] \<or> CHR ''@'' \<in> set domain then Inl (HttpAbort 400)
      else res_bind (dao_get_organisation_by_email_address (''example@'' @ domain) w)
             (\<lambda>found. case found of None \<Rightarrow> Inl (HttpAbort 404) | Some r \<Rightarrow> Inr r))"

definition search_organisations :: "organisation_lib \<Rightarrow> string \<Rightarrow> world \<Rightarrow> organisation list result" where
  "search_organisations ol name w =
     (if name = [] then Inl (invalid_request ''Missing data for required field.'' 400)
      else Inr (dao_get_organisations_by_partial_name ol name w))"

definition create_organisation :: "env \<Rightarrow> organisation_lib \<Rightarrow> organisation \<Rightarrow> uuid op" where
  "create_organisation env ol row w =
     (let (i, w1) = create_uuid env w
      in op_bind (dao_create_organisation ol (row\<lparr>o_id := i\<rparr>)) (\<lambda>_. op_return i) w1)"

definition with_nhs_branding :: "organisation_lib \<Rightarrow> organisation \<Rightarrow> organisation_update \<Rightarrow> organisation_update" where
  "with_nhs_branding ol r u =
     (if is_nhs_type (Option.bind (ou_organisation_type u) id)
      then u\<lparr>ou_email_branding_id := (if o_email_branding_id r = None
               then Some (Some (og_nhs_email_branding ol)) else ou_email_branding_id u),
             ou_letter_branding_id := (if o_letter_branding_id r = None
               then Some (Some (og_nhs_letter_branding ol)) else ou_letter_branding_id u)\<rparr>
      else u)"

definition update_organisation ::
  "env \<Rightarrow> organisation_lib \<Rightarrow> uuid \<Rightarrow> organisation_update \<Rightarrow> string list option \<Rightarrow> unit op" where
  \<comment> \<open>\<open>permissions\<close>: the list of the body. The emails about a signed agreement are left out.\<close>
  "update_organisation env ol i u permissions =
     op_bind (\<lambda>w. (dao_get_organisation_by_id i w, w)) (\<lambda>r.
     op_bind (case permissions of
                Some ps \<Rightarrow> op_bind (set_organisation_permission i ps) (\<lambda>_. op_return 1)
              | None \<Rightarrow> dao_update_organisation env ol i (with_nhs_branding ol r u)) (\<lambda>n.
     if n \<noteq> 0 then op_return () else op_raise (invalid_request ''Organisation not found'' 404)))"

definition archive_organisation :: "uuid \<Rightarrow> unit op" where
  "archive_organisation i =
     op_bind (\<lambda>w. (dao_get_organisation_by_id i w, w)) (\<lambda>r w.
       if list_ex svc_active (organisation_services i w)
       then (Inl (invalid_request ''Cannot archive an organisation with active services'' 400), w)
       else if list_ex (\<lambda>u. (u_id u, i) \<in> set (w_user_organisations w)) (w_users w)
               \<or> list_ex (\<lambda>x. io_status x = InvitePending) (get_invited_org_users_for_organisation i w)
       then (Inl (invalid_request
                ''Cannot archive an organisation with team members or invited team members'' 400), w)
       else if o_active r then dao_archive_organisation i w else (Inr (), w))"

definition link_service_to_organisation :: "env \<Rightarrow> uuid \<Rightarrow> uuid \<Rightarrow> unit op" where
  "link_service_to_organisation env i service_id =
     op_bind (\<lambda>w. (dao_fetch_service_by_id service_id False w, w)) (\<lambda>s.
       autocommit
         (op_bind (dao_add_service_to_organisation s i) (\<lambda>s'.
          op_bind (set_default_free_allowance_for_service env (Some s') None) (\<lambda>_. op_return ()))))"

definition get_organisation_services :: "uuid \<Rightarrow> world \<Rightarrow> service list result" where
  \<comment> \<open>active ones first, then by name\<close>
  "get_organisation_services i w =
     map_sum id (\<lambda>ss. sort_key (\<lambda>s. if svc_active s then 0 else 1 :: nat) (sort_key svc_name ss))
       (dao_get_organisation_services i w)"

definition add_user_to_organisation :: "uuid \<Rightarrow> uuid \<Rightarrow> string list \<Rightarrow> user op" where
  "add_user_to_organisation i user_id permissions = dao_add_user_to_organisation i user_id permissions"

definition remove_user_from_organisation :: "uuid \<Rightarrow> uuid \<Rightarrow> unit op" where
  "remove_user_from_organisation i user_id =
     op_bind (\<lambda>w. (dao_get_organisation_by_id i w, w)) (\<lambda>_.
     op_bind (\<lambda>w. (get_user_by_id user_id w, w)) (\<lambda>u w.
       if (u_id u, i) \<notin> set (w_user_organisations w) then (Inl (invalid_request ''User not found'' 404), w)
       else (Inr (), dao_remove_user_from_organisation i (u_id u) w)))"

definition update_organisation_email_branding_pool :: "organisation_lib \<Rightarrow> uuid \<Rightarrow> uuid list \<Rightarrow> unit op" where
  "update_organisation_email_branding_pool ol i bs = dao_add_email_branding_list_to_organisation_pool ol i bs"

definition remove_email_branding_from_organisation_pool :: "organisation_lib \<Rightarrow> uuid \<Rightarrow> uuid \<Rightarrow> unit op" where
  "remove_email_branding_from_organisation_pool ol i b =
     op_bind (\<lambda>w. (dao_get_organisation_by_id i w, w)) (\<lambda>r w.
       if (i, b) \<notin> set (w_email_branding_pool w)
       then (Inl (invalid_request (''Email branding '' @ uuid_str b @ '' not in the pool'') 404), w)
       else dao_remove_email_branding_from_organisation_pool ol i b w)"

definition update_organisation_letter_branding_pool :: "uuid \<Rightarrow> uuid list \<Rightarrow> unit op" where
  "update_organisation_letter_branding_pool i bs = dao_add_letter_branding_list_to_organisation_pool i bs"

definition remove_letter_branding_from_organisation_pool :: "uuid \<Rightarrow> uuid \<Rightarrow> unit op" where
  "remove_letter_branding_from_organisation_pool i b =
     op_bind (\<lambda>w. (dao_get_organisation_by_id i w, w)) (\<lambda>r w.
       if (i, b) \<notin> set (w_letter_branding_pool w)
       then (Inl (invalid_request
          (''Letter branding '' @ uuid_str b @ '' not in '' @ o_name r @ '''s pool'') 404), w)
       else if o_letter_branding_id r = Some b
       then (Inl (invalid_request ''You cannot remove an organisation's default letter branding'' 400), w)
       else dao_remove_letter_branding_from_organisation_pool i b w)"

section \<open>Emails about going live\<close>

definition go_live_user :: "service \<Rightarrow> world \<Rightarrow> user result" where
  \<comment> \<open>reading a field of a user that is not there raises\<close>
  "go_live_user s w =
     (case Option.bind (svc_go_live_user_id s) (\<lambda>i. find_row u_id i (w_users w)) of
        None \<Rightarrow> Inl (Py AttributeError) | Some u \<Rightarrow> Inr u)"

definition send_go_live_request_receipt_to_requester ::
  "env \<Rightarrow> api_lib \<Rightarrow> account_lib \<Rightarrow> organisation_lib \<Rightarrow> organisation \<Rightarrow> service \<Rightarrow> template
     \<Rightarrow> user list \<Rightarrow> unit op" where
  "send_go_live_request_receipt_to_requester env alib lib ol r s t approvers =
     op_bind (\<lambda>w. (go_live_user s w, w)) (\<lambda>requester.
     op_bind (\<lambda>w. (dao_fetch_service_by_id (ac_notify_service_id lib) False w, w)) (\<lambda>notify_service.
     op_bind (persist_notification env alib notify_service
         ((persist_call (t_id t) (t_version t) (TextData (u_email_address requester))
             (Some [(''service_name'', PText (svc_name s)), (''name'', PText (u_name requester)),
                    (''organisation_name'', PText (o_name r)),
                    (''organisation_team_member_names'', PList (map u_name approvers))])
             (t_type t) None NormalKey)\<lparr>pn_reply_to_text := Some (og_support_email ol)\<rparr>))
       (\<lambda>n. send_notification_to_queue alib n (Some NOTIFY))))"

definition approves :: "uuid \<Rightarrow> string option \<Rightarrow> user \<Rightarrow> world \<Rightarrow> bool" where
  \<comment> \<open>\<open>with_permission\<close>: the permissions of active organisations\<close>
  "approves i with_permission u w =
     (case with_permission of
        None \<Rightarrow> True
      | Some p \<Rightarrow>
          list_ex (\<lambda>x. op_user_id x = u_id u \<and> op_organisation_id x = i \<and> op_permission x = p)
            (w_org_permissions w)
          \<and> list_ex (\<lambda>r. o_id r = i \<and> o_active r) (w_organisations w))"

definition send_notification_to_organisation_users ::
  "env \<Rightarrow> api_lib \<Rightarrow> account_lib \<Rightarrow> organisation_lib \<Rightarrow> organisation \<Rightarrow> service \<Rightarrow> template \<Rightarrow> template
     \<Rightarrow> string option \<Rightarrow> string option \<Rightarrow> (string \<times> string) list \<Rightarrow> (string \<times> (user \<Rightarrow> string)) list \<Rightarrow> unit op" where
  "send_notification_to_organisation_users env alib lib ol r s approver_template requester_template
       reply_to_text with_permission ps user_fields w =
     (let approvers = filter (\<lambda>u. approves (o_id r) with_permission u w)
                        (dao_get_users_for_organisation (o_id r) w)
      in op_bind (\<lambda>v. (dao_fetch_service_by_id (ac_notify_service_id lib) False v, v)) (\<lambda>notify_service.
         op_bind (op_iter (\<lambda>u. notify_user env alib approver_template notify_service
             (TextData (u_email_address u)) (add_user_fields u user_fields ps) reply_to_text) approvers) (\<lambda>_.
         if approvers \<noteq> []
         then send_go_live_request_receipt_to_requester env alib lib ol r s requester_template approvers
         else op_return ())) w)"

definition notify_users_of_request_to_go_live ::
  "env \<Rightarrow> api_lib \<Rightarrow> account_lib \<Rightarrow> organisation_lib \<Rightarrow> uuid \<Rightarrow> unit op" where
  "notify_users_of_request_to_go_live env alib lib ol service_id =
     op_bind (\<lambda>w. (dao_get_template_by_id (ac_template_id lib
         ''GO_LIVE_NEW_REQUEST_FOR_ORG_APPROVERS_TEMPLATE_ID'') None w, w)) (\<lambda>approver_template.
     op_bind (\<lambda>w. (dao_get_template_by_id (ac_template_id lib
         ''GO_LIVE_NEW_REQUEST_FOR_ORG_REQUESTER_TEMPLATE_ID'') None w, w)) (\<lambda>requester_template.
     op_bind (\<lambda>w. (dao_fetch_service_by_id service_id False w, w)) (\<lambda>s.
     op_bind (\<lambda>w. (go_live_user s w, w)) (\<lambda>requester.
     op_bind (\<lambda>w. (case Option.bind (svc_organisation_id s) (\<lambda>i. find_row o_id i (w_organisations w)) of
                     None \<Rightarrow> Inl (Py AttributeError) | Some r \<Rightarrow> Inr r, w)) (\<lambda>r.
       send_notification_to_organisation_users env alib lib ol r s approver_template requester_template
         (Some (u_email_address requester)) (Some ''can_make_services_live'')
         [(''service_name'', svc_name s), (''requester_name'', u_name requester),
          (''requester_email_address'', u_email_address requester),
          (''make_service_live_link'',
           ac_admin_base_url lib @ ''/services/'' @ uuid_str (svc_id s) @ ''/make-service-live''),
          (''support_page_link'', ac_admin_base_url lib @ ''/support''),
          (''organisation_name'', o_name r)]
         [(''name'', u_name)])))))"

definition with_active_go_live_request :: "organisation_lib \<Rightarrow> service \<Rightarrow> world \<Rightarrow> user result" where
  "with_active_go_live_request ol s w =
     (case go_live_user s w of
        Inl _ \<Rightarrow> Inl (HttpAbort 400)
      | Inr u \<Rightarrow> if og_has_active_go_live_request ol s then Inr u else Inl (HttpAbort 400))"

definition notify_org_member_about_next_steps_of_go_live_request ::
  "env \<Rightarrow> api_lib \<Rightarrow> account_lib \<Rightarrow> organisation_lib \<Rightarrow> uuid \<Rightarrow> string \<Rightarrow> string \<Rightarrow> string \<Rightarrow> unit op" where
  "notify_org_member_about_next_steps_of_go_live_request env alib lib ol service_id recipient service_name body =
     op_bind (\<lambda>w. (dao_get_template_by_id (ac_template_id lib
         ''GO_LIVE_REQUEST_NEXT_STEPS_FOR_ORG_USER_TEMPLATE_ID'') None w, w)) (\<lambda>t.
     op_bind (\<lambda>w. (dao_fetch_service_by_id service_id False w, w)) (\<lambda>s.
     op_bind (\<lambda>w. (with_active_go_live_request ol s w, w)) (\<lambda>_.
     op_bind (\<lambda>w. (dao_fetch_service_by_id (ac_notify_service_id lib) False w, w)) (\<lambda>notify_service w.
       notify_user env alib t notify_service (TextData recipient)
         [(''service_name'', service_name), (''body'', body)]
         (get_default_reply_to_email_address (svc_id notify_service) w) w))))"

record rejected_go_live_form =
  rg_name :: string
  rg_service_name :: string
  rg_organisation_name :: string
  rg_reason :: string
  rg_organisation_team_member_name :: string
  rg_organisation_team_member_email :: string

definition notify_service_member_of_rejected_go_live_request ::
  "env \<Rightarrow> api_lib \<Rightarrow> account_lib \<Rightarrow> organisation_lib \<Rightarrow> uuid \<Rightarrow> rejected_go_live_form \<Rightarrow> unit op" where
  "notify_service_member_of_rejected_go_live_request env alib lib ol service_id f =
     op_bind (\<lambda>w. (dao_get_template_by_id (ac_template_id lib
         ''GO_LIVE_REQUEST_REJECTED_BY_ORG_USER_TEMPLATE_ID'') None w, w)) (\<lambda>t.
     op_bind (\<lambda>w. (dao_fetch_service_by_id service_id False w, w)) (\<lambda>s.
     op_bind (\<lambda>w. (with_active_go_live_request ol s w, w)) (\<lambda>requester.
     op_bind (\<lambda>w. (dao_fetch_service_by_id (ac_notify_service_id lib) False w, w)) (\<lambda>notify_service w.
       notify_user env alib t notify_service (TextData (u_email_address requester))
         [(''name'', rg_name f), (''service_name'', rg_service_name f),
          (''organisation_name'', rg_organisation_name f),
          (''reason'', py_join [CHR 0x0A] (map (\<lambda>line. ''^ '' @ line) (py_split (CHR 0x0A) (rg_reason f)))),
          (''organisation_team_member_name'', rg_organisation_team_member_name f),
          (''organisation_team_member_email'', rg_organisation_team_member_email f)]
         (get_default_reply_to_email_address (svc_id notify_service) w) w))))"

end
