(* ===== verification/Invites_Rules.thy ===== *)
theory Invites_Rules
  imports Invites Service_Use_Rules
begin

text \<open>
  Properties of invitations: the link of an invitation opens it, whether or not its email was sent.
\<close>

lemma untouched_invitation [untouched_intros]: "untouched (send_invitation env alib t s email ps reply_to)"
proof (cases s)
  case None
  then show ?thesis by (simp add: untouched_def send_invitation_def)
next
  case (Some svc)
  have "untouched (op_bind (persist_notification env alib svc a) (\<lambda>n. send_notification_to_queue alib n q))" for a q
    by (intro untouched_intros)
  then show ?thesis by (simp add: Some untouched_def send_invitation_def)
qed

definition invite_email_from ::
  "env \<Rightarrow> api_lib \<Rightarrow> account_lib \<Rightarrow> invite_lib \<Rightarrow> invited_user \<Rightarrow> string option \<Rightarrow> template \<Rightarrow> world
     \<Rightarrow> uuid op" where
  \<comment> \<open>reference: the email of an invitation, with the rows of the given world\<close>
  "invite_email_from env alib lib il r host t v =
     op_bind (op_lift (get_user_by_id (iu_user_id r) v)) (\<lambda>inviter.
     op_bind (op_lift (dao_fetch_service_by_id (iu_service_id r) False v)) (\<lambda>s.
     op_bind (send_invitation env alib t
         (find_row svc_id (ac_notify_service_id lib) (w_services v)) (iu_email_address r)
         [(''user_name'', u_name inviter), (''service_name'', svc_name s),
          (''url'', invited_user_url il lib (iu_id r) host)] (u_email_address inviter))
       (\<lambda>_. op_return (iu_id r))))"

definition invite_email ::
  "env \<Rightarrow> api_lib \<Rightarrow> account_lib \<Rightarrow> invite_lib \<Rightarrow> invited_user \<Rightarrow> string option \<Rightarrow> uuid op" where
  \<comment> \<open>reference: what follows the saving of an invitation\<close>
  "invite_email env alib lib il r host =
     op_bind (\<lambda>v. (dao_get_template_by_id (ac_template_id lib ''INVITATION_EMAIL_TEMPLATE_ID'') None v, v))
       (\<lambda>t v. invite_email_from env alib lib il r host t v v)"

lemma untouched_invite_email: "untouched (invite_email env alib lib il r host)"
proof -
  have "untouched (invite_email_from env alib lib il r host t u)" for t u
    unfolding invite_email_from_def by (intro untouched_intros)
  then have "untouched (\<lambda>v. invite_email_from env alib lib il r host t v v)" for t
    by (simp add: untouched_def)
  then show ?thesis unfolding invite_email_def by (intro untouched_intros)
qed

lemma invite_email_id: "invite_email env alib lib il r host w = (Inr j, v) \<Longrightarrow> j = iu_id r"
  unfolding invite_email_def invite_email_from_def by (elim op_bind_InrE) (simp add: op_return_def)

lemma create_invited_user_run:
  fixes env :: env
  assumes "find_row u_id (iu_user_id row) (w_users w) \<noteq> None"
    and "find_row svc_id (iu_service_id row) (w_services w) \<noteq> None"
  defines "r \<equiv> row\<lparr>iu_id := lib_uuid env (w_uuids w), iu_created_at := w_now w\<rparr>"
  shows "\<exists>w1. create_invited_user env alib lib il row host w = invite_email env alib lib il r host w1
    \<and> w_invited_users w1 = save_row iu_id r (w_invited_users w)"
proof -
  define w0 where "w0 = w\<lparr>w_uuids := Suc (w_uuids w)\<rparr>"
  define w1 where "w1 = w0\<lparr>w_invited_users := save_row iu_id r (w_invited_users w0)\<rparr>"
  have save: "save_invited_user r w0 = (Inr (), w1)"
    using assms(1,2) by (simp add: save_invited_user_def r_def w1_def w0_def)
  have table: "w_invited_users w1 = save_row iu_id r (w_invited_users w)" by (simp add: w1_def w0_def)
  have i: "lib_uuid env (w_uuids w) = iu_id r" by (simp add: r_def)
  show ?thesis
    unfolding create_invited_user_def create_uuid_def Let_def prod.case r_def [symmetric] w0_def [symmetric]
      op_bind_simps(2) [where m = "save_invited_user r" and w = w0, OF save]
    unfolding i invite_email_from_def [symmetric] invite_email_def [symmetric]
    using table by blast
qed

text \<open>
  An invitation is stored before its email is written, so whatever becomes of the email, the link
  in it opens the invitation as it was made, as long as the token is not too old.
\<close>

theorem invitation_link_opens_it:
  assumes "find_row u_id (iu_user_id row) (w_users w) \<noteq> None"
    and "find_row svc_id (iu_service_id row) (w_services w) \<noteq> None"
    and "lib_uuid env (w_uuids w) = i" "i \<notin> iu_id ` set (w_invited_users w)"
    and "il_check_token il (il_token il (uuid_str i)) (60 * 60 * 24 * il_expiration_days il) = TokenData i"
    and "create_invited_user env alib lib il row host w = (res, v)"
  shows "validate_service_invitation_token il (il_token il (uuid_str i)) v =
      Inr (row\<lparr>iu_id := i, iu_created_at := w_now w\<rparr>)
    \<and> (case res of Inr j \<Rightarrow> j = i | Inl e \<Rightarrow> True)"
proof -
  define r where "r = row\<lparr>iu_id := i, iu_created_at := w_now w\<rparr>"
  obtain w1 where w1: "invite_email env alib lib il r host w1 = (res, v)"
    "w_invited_users w1 = save_row iu_id r (w_invited_users w)"
    using create_invited_user_run [OF assms(1,2), of env alib lib il host] assms(3,6) by (auto simp: r_def)
  have "w_invited_users v = w_invited_users w @ [r]"
    using other_tablesD(7) [OF untouched_run [OF untouched_invite_email w1(1)]] w1(2) assms(4)
    by (simp add: r_def map_key_save_row_absent)
  moreover have "filter (\<lambda>x. iu_id x = i) (w_invited_users w) = []"
    using assms(4) by (auto simp: filter_empty_conv)
  ultimately have "get_invited_user_by_id i v = Inr r"
    by (simp add: get_invited_user_by_id_def query_one_def r_def)
  then have "validate_service_invitation_token il (il_token il (uuid_str i)) v = Inr r"
    using assms(5) by (simp add: validate_service_invitation_token_def check_invitation_token_def)
  moreover have "case res of Inr j \<Rightarrow> j = i | Inl e \<Rightarrow> True"
    using invite_email_id [of env alib lib il r host w1 _ v] w1(1) by (auto simp: r_def split: sum.split)
  ultimately show ?thesis by (simp add: r_def)
qed

definition sample_invite_lib :: invite_lib where
  \<comment> \<open>tokens that are the signed text itself and one that is known\<close>
  "sample_invite_lib = \<lparr>il_token = (\<lambda>d. d),
     il_check_token = (\<lambda>token age. if token = uuid_str 1000 then TokenData 1000 else TokenBad),
     il_expiration_days = 2\<rparr>"

definition sample_invitation :: invited_user where
  "sample_invitation = \<lparr>iu_id = 0, iu_email_address = ''new@example.gov'', iu_user_id = 41, iu_service_id = 10,
     iu_created_at = 0, iu_status = InvitePending, iu_permissions = ''send_texts'', iu_auth_type = EmailAuth,
     iu_folder_permissions = []\<rparr>"

theorem invitation_link_opens_it_witness:
  "\<exists>res v. create_invited_user sample_env sample_api sample_account sample_invite_lib sample_invitation None
      join_world = (res, v)
    \<and> validate_service_invitation_token sample_invite_lib (uuid_str 1000) v =
        Inr (sample_invitation\<lparr>iu_id := 1000\<rparr>)"
proof -
  obtain res v where run: "create_invited_user sample_env sample_api sample_account sample_invite_lib
      sample_invitation None join_world = (res, v)" by fastforce
  have known: "find_row u_id (iu_user_id sample_invitation) (w_users join_world) \<noteq> None"
    "find_row svc_id (iu_service_id sample_invitation) (w_services join_world) \<noteq> None"
    by (simp_all add: sample_invitation_def join_world_def open_world_def sample_user_def sample_service_def row_simps)
  have fresh: "lib_uuid sample_env (w_uuids join_world) = 1000" "1000 \<notin> iu_id ` set (w_invited_users join_world)"
    and now: "w_now join_world = 0"
    by (simp_all add: join_world_def open_world_def auth_world_def sample_env_def sample_world_def)
  have token: "il_token sample_invite_lib d = d"
    "il_check_token sample_invite_lib (uuid_str 1000) age = TokenData 1000" for d age
    by (simp_all add: sample_invite_lib_def)
  have "validate_service_invitation_token sample_invite_lib (uuid_str 1000) v =
      Inr (sample_invitation\<lparr>iu_id := 1000, iu_created_at := w_now join_world\<rparr>)"
    using invitation_link_opens_it [OF known fresh _ run] by (simp only: token simp_thms)
  moreover have "sample_invitation\<lparr>iu_id := 1000, iu_created_at := 0\<rparr> = sample_invitation\<lparr>iu_id := 1000\<rparr>"
    by (simp add: sample_invitation_def)
  ultimately show ?thesis using run now by (intro exI [of _ res] exI [of _ v] conjI) simp_all
qed

end
