(* ===== verification/Organisation_Rules.thy ===== *)
theory Organisation_Rules
  imports Organisations Invites_Rules
begin

text \<open>
  Properties of organisations: an archived one has nobody and nothing left to send with, its type
  spreads to its services, and its default branding stays in its pool.
\<close>

section \<open>Archiving\<close>

lemma organisation_found:
  "dao_get_organisation_by_id i w = Inr r \<Longrightarrow> r \<in> set (w_organisations w) \<and> o_id r = i"
  unfolding dao_get_organisation_by_id_def by (rule query_one_InrD)

lemma found_by_email:
  assumes "dao_get_organisation_by_email_address e w = Inr (Some r)"
  shows "\<exists>d. (d, o_id r) \<in> set (w_domains w)"
proof -
  define address where "address = replace_all 0 ''.gsi.gov.uk'' ''.gov.uk'' (py_lower e)"
  define hit where "hit = (\<lambda>(d, i :: uuid). suffix (''@'' @ d) address \<or> suffix (''.'' @ d) address)"
  have run: "(case find hit (rev (sort_key (\<lambda>(d, _). length d) (w_domains w))) of
      None \<Rightarrow> Inr None
    | Some (d, i) \<Rightarrow> map_sum id Some (query_one (Db NoResultFound) (Db MultipleResultsFound)
        (\<lambda>r. o_id r = i) (w_organisations w))) = Inr (Some r)"
    using assms unfolding dao_get_organisation_by_email_address_def Let_def address_def hit_def .
  obtain d i where "find hit (rev (sort_key (\<lambda>(d, _). length d) (w_domains w))) = Some (d, i)"
    and one: "query_one (Db NoResultFound) (Db MultipleResultsFound) (\<lambda>r. o_id r = i) (w_organisations w) = Inr r"
  proof (cases "find hit (rev (sort_key (\<lambda>(d, _). length d) (w_domains w)))")
    case (Some x)
    obtain d i where x: "x = (d, i)" by (cases x)
    show ?thesis
      by (rule that [of d i])
        (use run Some x in \<open>cases "query_one (Db NoResultFound) (Db MultipleResultsFound) (\<lambda>r. o_id r = i)
           (w_organisations w)"; simp\<close>)+
  qed (use run in simp)
  then have "(d, i) \<in> set (rev (sort_key (\<lambda>(d, _). length d) (w_domains w)))"
    by (auto simp del: set_rev simp: find_Some_iff intro: nth_mem)
  then have "(d, i) \<in> set (w_domains w)" by simp
  then show ?thesis using query_one_InrD [OF one] by blast
qed

text \<open>
  An organisation is archived only when none of its services is active and it has neither
  members nor pending invitations; it is then inactive, without branding, and no email address
  leads to it any more, so no new service joins it.
\<close>

theorem archived_organisation_is_closed:
  assumes "archive_organisation i w = (Inr (), v)"
    and "dao_get_organisation_by_id i w = Inr r" "o_active r"
  shows "\<not> list_ex svc_active (organisation_services i v)
    \<and> \<not> list_ex (\<lambda>u. (u_id u, i) \<in> set (w_user_organisations v)) (w_users v)
    \<and> \<not> list_ex (\<lambda>x. io_status x = InvitePending) (get_invited_org_users_for_organisation i v)
    \<and> find_row o_id i (w_organisations v) =
        Some (r\<lparr>o_email_branding_id := None, o_letter_branding_id := None,
                o_name := get_archived_db_column_value (o_name r) w, o_active := False\<rparr>)
    \<and> (case dao_get_organisation_by_email_address e v of
         Inr (Some x) \<Rightarrow> o_id x \<noteq> i
       | _ \<Rightarrow> True)"
proof -
  define r' where "r' = r\<lparr>o_email_branding_id := None, o_letter_branding_id := None,
      o_name := get_archived_db_column_value (o_name r) w, o_active := False\<rparr>"
  have i: "o_id r' = i" using organisation_found [OF assms(2)] by (simp add: r'_def)
  have guards: "\<not> list_ex svc_active (organisation_services i w)"
      "\<not> list_ex (\<lambda>u. (u_id u, i) \<in> set (w_user_organisations w)) (w_users w)"
      "\<not> list_ex (\<lambda>x. io_status x = InvitePending) (get_invited_org_users_for_organisation i w)"
    and run: "dao_archive_organisation i w = (Inr (), v)"
    using assms by (auto simp: archive_organisation_def op_bind_def split: if_splits)
  then have v: "w_domains v = delete_rows (\<lambda>(d, j). j = i) (w_domains w)"
      "w_organisations v = save_row o_id r' (w_organisations w)" "w_services v = w_services w"
      "w_users v = w_users w" "w_user_organisations v = w_user_organisations w"
      "w_invited_org_users v = w_invited_org_users w"
    using assms(2) by (auto simp: dao_archive_organisation_def autocommit_def r'_def Let_def)
  have "o_id x \<noteq> i" if "dao_get_organisation_by_email_address e v = Inr (Some x)" for x
    using found_by_email [OF that] by (auto simp: v(1) set_delete_rows)
  then have "case dao_get_organisation_by_email_address e v of Inr (Some x) \<Rightarrow> o_id x \<noteq> i | _ \<Rightarrow> True"
    by (auto split: sum.split option.split)
  moreover have "find_row o_id i (w_organisations v) = Some r'" by (simp add: v(2) i row_simps)
  ultimately show ?thesis
    using guards by (simp add: v organisation_services_def get_invited_org_users_for_organisation_def r'_def)
qed

text \<open>
  A body with permissions changes the permissions and nothing else: whatever it says besides is
  ignored, though the answer is a success.
\<close>

lemma permissions_ignore_the_rest:
  assumes "dao_get_organisation_by_id i w = Inr r" "distinct ps"
  shows "update_organisation env ol i u (Some ps) w =
    (Inr (), w\<lparr>w_organisation_permissions :=
       delete_rows (\<lambda>(j, p). j = i) (w_organisation_permissions w) @ map (\<lambda>p. (i, p)) ps\<rparr>)"
  using assms by (simp add: update_organisation_def set_organisation_permission_def op_return_def)

section \<open>What the services take over\<close>

definition next_version :: "time \<Rightarrow> service \<Rightarrow> service" where
  \<comment> \<open>reference: the row that \<open>change_service\<close> writes\<close>
  "next_version now s = s\<lparr>svc_version := svc_version s + 1, svc_updated_at := Some now\<rparr>"

lemma change_service_rows [simp]:
  "w_services (change_service s w) = save_row svc_id (next_version (w_now w) s) (w_services w)"
  "w_now (change_service s w) = w_now w"
  by (simp_all add: change_service_def next_version_def Let_def)

lemma next_version_id [simp]: "svc_id (next_version now s) = svc_id s"
  by (simp add: next_version_def)

lemma changed_services_all:
  fixes ss :: "service list" and f :: "service \<Rightarrow> service"
  assumes "\<And>s. svc_id (f s) = svc_id s" "distinct_rows svc_id (w_services w)"
  shows "distinct_rows svc_id (w_services (fold (\<lambda>s. change_service (f s)) ss w))
    \<and> w_now (fold (\<lambda>s. change_service (f s)) ss w) = w_now w
    \<and> set (w_services (fold (\<lambda>s. change_service (f s)) ss w)) \<subseteq>
      (\<lambda>s. next_version (w_now w) (f s)) ` set ss \<union> {s \<in> set (w_services w). svc_id s \<notin> svc_id ` set ss}"
  using assms(2)
proof (induction ss arbitrary: w)
  case Nil
  then show ?case by simp
next
  case (Cons s ss)
  define w1 where "w1 = change_service (f s) w"
  have w1: "distinct_rows svc_id (w_services w1)" "w_now w1 = w_now w"
    using Cons.prems by (simp_all add: w1_def)
  have "set (w_services w1) = insert (next_version (w_now w) (f s)) {x \<in> set (w_services w). svc_id x \<noteq> svc_id s}"
    using set_save_row_distinct [OF Cons.prems, of "next_version (w_now w) (f s)"] assms(1) by (simp add: w1_def)
  moreover have "fold (\<lambda>s. change_service (f s)) (s # ss) w = fold (\<lambda>s. change_service (f s)) ss w1"
    by (simp add: w1_def)
  ultimately show ?case using Cons.IH [OF w1(1)] w1(2) assms(1) by auto
qed

lemmas changed_services = changed_services_all [THEN conjunct1] changed_services_all [THEN conjunct2, THEN conjunct1]
  changed_services_all [THEN conjunct2, THEN conjunct2]

definition services_take :: "uuid \<Rightarrow> (service \<Rightarrow> bool) \<Rightarrow> world \<Rightarrow> bool" where
  \<comment> \<open>the services of the organisation have the property\<close>
  "services_take i p w \<longleftrightarrow> list_all p (organisation_services i w)"

lemma update_services_gives:
  assumes "distinct_rows svc_id (w_services w)"
    and "\<And>s. svc_id (f s) = svc_id s" "\<And>s. p (next_version (w_now w) (f s))"
  shows "services_take i p (update_organisation_services i (\<lambda>_. True) f w)"
    and "distinct_rows svc_id (w_services (update_organisation_services i (\<lambda>_. True) f w))"
proof -
  let ?ss = "organisation_services i w"
  note c = changed_services [OF assms(2,1), of ?ss]
  show "distinct_rows svc_id (w_services (update_organisation_services i (\<lambda>_. True) f w))"
    using c(1) by (simp add: update_organisation_services_def)
  have "p s" if "s \<in> set (w_services (update_organisation_services i (\<lambda>_. True) f w))"
    "svc_organisation_id s = Some i" for s
  proof -
    from that(1) c(3) consider x where "s = next_version (w_now w) (f x)"
      | "s \<in> set (w_services w)" "svc_id s \<notin> svc_id ` set ?ss"
      by (auto simp: update_organisation_services_def)
    then show ?thesis
      by cases (use assms(3) that(2) in \<open>auto simp: organisation_services_def\<close>)
  qed
  then show "services_take i p (update_organisation_services i (\<lambda>_. True) f w)"
    by (auto simp: services_take_def organisation_services_def list_all_iff)
qed

lemma update_services_keeps:
  assumes "services_take i p w" "distinct_rows svc_id (w_services w)"
    and "\<And>s. svc_id (f s) = svc_id s" "\<And>s now. p s \<Longrightarrow> p (next_version now (f s))"
  shows "services_take i p (update_organisation_services i wanted f w)"
    and "distinct_rows svc_id (w_services (update_organisation_services i wanted f w))"
proof -
  let ?ss = "filter wanted (organisation_services i w)"
  note c = changed_services [OF assms(3,2), of ?ss]
  show "distinct_rows svc_id (w_services (update_organisation_services i wanted f w))"
    using c(1) by (simp add: update_organisation_services_def)
  have "p s" if "s \<in> set (w_services (update_organisation_services i wanted f w))"
    "svc_organisation_id s = Some i" for s
  proof -
    from that(1) c(3) consider x where "x \<in> set ?ss" "s = next_version (w_now w) (f x)" | "s \<in> set (w_services w)"
      by (auto simp: update_organisation_services_def)
    then show ?thesis
      by cases (use assms(1,4) that(2) in \<open>auto simp: services_take_def organisation_services_def list_all_iff\<close>)
  qed
  then show "services_take i p (update_organisation_services i wanted f w)"
    by (auto simp: services_take_def organisation_services_def list_all_iff)
qed

lemma return_run: "op_return x w = (Inr x, w)"
  by (simp add: op_return_def)

lemma op_iter_ConsD:
  "op_iter f (x # xs) w = (Inr (), v) \<Longrightarrow> \<exists>w1. f x w = (Inr (), w1) \<and> op_iter f xs w1 = (Inr (), v)"
  by (auto split: prod.splits sum.splits)

lemma allowances_keep_services:
  "update_organisation_services_free_allowance env i w = (Inr (), v) \<Longrightarrow> w_services v = w_services w"
proof -
  have "op_iter (\<lambda>s. op_bind (set_default_free_allowance_for_service env (Some s) None) (\<lambda>_. op_return ())) ss w
      = (Inr (), v) \<Longrightarrow> w_services v = w_services w" for ss
  proof (induction ss arbitrary: w)
    case Nil
    then show ?case by simp
  next
    case (Cons s ss)
    obtain w1 where step: "op_bind (set_default_free_allowance_for_service env (Some s) None) (\<lambda>_. op_return ()) w
        = (Inr (), w1)"
      and rest: "op_iter (\<lambda>s. op_bind (set_default_free_allowance_for_service env (Some s) None) (\<lambda>_. op_return ()))
        ss w1 = (Inr (), v)"
      using op_iter_ConsD [OF Cons.prems] by blast
    obtain b u where "set_default_free_allowance_for_service env (Some s) None w = (Inr b, u)"
      and "op_return () u = (Inr (), w1)"
      using step by (elim op_bind_InrE)
    then have one: "set_default_free_allowance_for_service env (Some s) None w = (Inr b, w1)"
      by (simp add: return_run)
    then show ?case using Cons.IH [OF rest] default_allowance_run [OF one] by auto
  qed
  then show "update_organisation_services_free_allowance env i w = (Inr (), v) \<Longrightarrow> w_services v = w_services w"
    by (simp add: update_organisation_services_free_allowance_def)
qed

lemma rollback_services [simp]: "w_services (rollback_to w0 w) = w_services w0"
  by (simp add: rollback_to_def)

lemma pools_keep_services [simp]:
  "w_services (snd (dao_add_email_branding_list_to_organisation_pool ol i bs w)) = w_services w"
  "w_services (snd (dao_add_letter_branding_list_to_organisation_pool i bs w)) = w_services w"
  by (simp_all add: dao_add_email_branding_list_to_organisation_pool_def
      dao_add_letter_branding_list_to_organisation_pool_def autocommit_def split: sum.split prod.split)

lemma bind_keeps_services:
  "(\<And>w. w_services (snd (m w)) = w_services w) \<Longrightarrow> (\<And>x w. w_services (snd (f x w)) = w_services w)
    \<Longrightarrow> w_services (snd (op_bind m f w)) = w_services w"
proof -
  assume m: "\<And>w. w_services (snd (m w)) = w_services w" and f: "\<And>x w. w_services (snd (f x w)) = w_services w"
  obtain x v where run: "m w = (x, v)" by (cases "m w")
  then have "w_services v = w_services w" using m [of w] by simp
  then show ?thesis using run f by (cases x) simp_all
qed

lemma branding_pool_keeps_services: "w_services (snd (add_branding_to_branding_pool ol i u w)) = w_services w"
proof -
  have "w_services (snd (add_nhs_branding ol i w)) = w_services w" for w
    unfolding add_nhs_branding_def dao_add_email_branding_to_organisation_pool_def
    by (rule bind_keeps_services) simp_all
  then show ?thesis
    unfolding add_branding_to_branding_pool_def
    by (auto intro!: bind_keeps_services split: option.split
        simp: dao_add_email_branding_to_organisation_pool_def op_return_def)
qed

lemma updated_fields:
  "ou_organisation_type u = Some t \<Longrightarrow> o_organisation_type (updated_organisation u r) = t"
  "ou_crown u = Some c \<Longrightarrow> o_crown (updated_organisation u r) = c"
  by (simp_all add: updated_organisation_def given_def split: option.split)

lemma replace_domains_services: "replace_domains i ds w = Inr v \<Longrightarrow> w_services v = w_services w"
  by (auto simp: replace_domains_def Let_def split: if_splits)

text \<open>
  C34: when the type of an organisation is changed, every service of it has the new type afterwards, and
  the crown status too when the request gives one; whatever else the request changes.
\<close>

theorem organisation_type_spreads:
  assumes "dao_update_organisation env ol i u w = (Inr n, v)" "ou_organisation_type u = Some t"
    and "distinct_rows svc_id (w_services w)"
  shows "services_take i (\<lambda>s. svc_organisation_type s = t
    \<and> (case ou_crown u of None \<Rightarrow> True | Some c \<Rightarrow> svc_crown s = c)) v"
proof -
  obtain r0 where r0: "find_row o_id i (w_organisations w) = Some r0"
    using assms(1) by (cases "find_row o_id i (w_organisations w)") (simp_all add: dao_update_organisation_def)
  define r where "r = updated_organisation u r0"
  have r: "o_organisation_type r = t" "ou_crown u = Some c \<Longrightarrow> o_crown r = c" for c
    using assms(2) by (simp_all add: r_def updated_fields)
  define P where "P = (\<lambda>s :: service. svc_organisation_type s = t)"
  define Q where "Q = (\<lambda>s :: service. P s \<and> (case ou_crown u of None \<Rightarrow> True | Some c \<Rightarrow> svc_crown s = c))"
  define crown where "crown = (\<lambda>x. if ou_crown u = None then x
      else update_organisation_services i (\<lambda>_. True) (\<lambda>s. s\<lparr>svc_crown := o_crown r\<rparr>) x)"
  define email where "email = (\<lambda>x. if ou_email_branding_id u = None then x
      else update_organisation_services i (\<lambda>s. svc_email_branding s = None)
             (\<lambda>s. s\<lparr>svc_email_branding := o_email_branding_id r\<rparr>) x)"
  define letter where "letter = (\<lambda>x. if ou_letter_branding_id u = None then x
      else update_organisation_services i (\<lambda>s. svc_letter_branding s = None)
             (\<lambda>s. s\<lparr>svc_letter_branding := o_letter_branding_id r\<rparr>) x)"
  let ?spread = "update_organisation_services i (\<lambda>_. True) (\<lambda>s. s\<lparr>svc_organisation_type := o_organisation_type r\<rparr>)"
  have typed: "ou_organisation_type u \<noteq> None" using assms(2) by simp
  define w1 where "w1 = w\<lparr>w_organisations := save_row o_id r (w_organisations w)\<rparr>"
  have w1: "w_services w1 = w_services w" by (simp add: w1_def)
  have body: "(case (case ou_domains u of None \<Rightarrow> Inr w1 | Some ds \<Rightarrow> replace_domains i ds w1) of
      Inl e \<Rightarrow> (Inl e, w) | Inr w2 \<Rightarrow> spread_to_services env ol i u r w2) = (Inr n, v)"
    using assms(1) unfolding dao_update_organisation_def r0 option.case Let_def r_def [symmetric] w1_def [symmetric]
    by (cases "organisation_refused ol r w") simp_all
  have "\<exists>w2. w_services w2 = w_services w \<and> spread_to_services env ol i u r w2 = (Inr n, v)"
  proof (cases "case ou_domains u of None \<Rightarrow> Inr w1 | Some ds \<Rightarrow> replace_domains i ds w1")
    case (Inl e)
    then show ?thesis using body by simp
  next
    case (Inr w2)
    then have "w_services w2 = w_services w"
      using w1 replace_domains_services [of i _ w1 w2] by (cases "ou_domains u") simp_all
    then show ?thesis using body Inr by (intro exI [of _ w2]) simp
  qed
  then obtain w2 where w2: "w_services w2 = w_services w" and spread: "spread_to_services env ol i u r w2 = (Inr n, v)"
    by blast
  have run: "op_bind (\<lambda>v. update_organisation_services_free_allowance env i (?spread v))
      (\<lambda>_ w3. op_bind (add_branding_to_branding_pool ol i u) (\<lambda>_. op_return 1) (letter (email (crown w3)))) w2
      = (Inr n, v)"
    using spread typed unfolding spread_to_services_def crown_def email_def letter_def Let_def by simp
  obtain w3 where w3: "update_organisation_services_free_allowance env i (?spread w2) = (Inr (), w3)"
    and tail: "op_bind (add_branding_to_branding_pool ol i u) (\<lambda>_. op_return 1) (letter (email (crown w3))) = (Inr n, v)"
    using run by (elim op_bind_InrE) auto
  have "w_services (snd (op_bind (add_branding_to_branding_pool ol i u) (\<lambda>_. op_return (1 :: nat)) (letter (email (crown w3)))))
      = w_services (letter (email (crown w3)))"
    by (rule bind_keeps_services) (simp_all add: branding_pool_keeps_services return_run)
  then have v: "w_services v = w_services (letter (email (crown w3)))" by (simp only: tail snd_conv)
  note spread = update_services_gives [of w2 "\<lambda>s. s\<lparr>svc_organisation_type := o_organisation_type r\<rparr>" P i]
  have s3: "services_take i P w3" "distinct_rows svc_id (w_services w3)"
    using spread assms(3) w2 allowances_keep_services [OF w3]
    by (simp_all add: P_def r(1) next_version_def services_take_def organisation_services_def)
  have s4: "services_take i Q (crown w3)" "distinct_rows svc_id (w_services (crown w3))"
  proof -
    show "distinct_rows svc_id (w_services (crown w3))"
      using update_services_keeps(2) [of i P w3 "\<lambda>s. s\<lparr>svc_crown := o_crown r\<rparr>" "\<lambda>_. True"] s3
      by (auto simp: crown_def P_def next_version_def)
    show "services_take i Q (crown w3)"
    proof (cases "ou_crown u")
      case None
      then show ?thesis using s3 by (simp add: crown_def Q_def)
    next
      case (Some c)
      have "services_take i P (crown w3)"
        using update_services_keeps(1) [of i P w3 "\<lambda>s. s\<lparr>svc_crown := o_crown r\<rparr>" "\<lambda>_. True"] s3 Some
        by (auto simp: crown_def P_def next_version_def)
      moreover have "services_take i (\<lambda>s. svc_crown s = c) (crown w3)"
        using update_services_gives(1) [of w3 "\<lambda>s. s\<lparr>svc_crown := o_crown r\<rparr>" "\<lambda>s. svc_crown s = c" i] s3 Some r(2)
        by (simp add: crown_def next_version_def)
      ultimately show ?thesis using Some by (simp add: services_take_def Q_def list_all_iff)
    qed
  qed
  have s5: "services_take i Q (email (crown w3))" "distinct_rows svc_id (w_services (email (crown w3)))"
    using update_services_keeps [OF s4, of "\<lambda>s. s\<lparr>svc_email_branding := o_email_branding_id r\<rparr>"
        "\<lambda>s. svc_email_branding s = None"] s4
    by (auto simp: email_def Q_def P_def next_version_def split: option.splits)
  have "services_take i Q (letter (email (crown w3)))"
    using update_services_keeps(1) [OF s5, of "\<lambda>s. s\<lparr>svc_letter_branding := o_letter_branding_id r\<rparr>"
        "\<lambda>s. svc_letter_branding s = None"] s5
    by (auto simp: letter_def Q_def P_def next_version_def split: option.splits)
  then show ?thesis using v by (simp add: services_take_def organisation_services_def Q_def P_def)
qed

section \<open>Concrete runs\<close>

definition sample_organisation :: organisation where
  "sample_organisation = \<lparr>o_id = 70, o_name = ''Org'', o_active = True, o_organisation_type = None,
     o_crown = None, o_email_branding_id = None, o_letter_branding_id = None\<rparr>"

definition sample_organisation_lib :: organisation_lib where
  "sample_organisation_lib = \<lparr>og_services = sample_service_lib, og_nhs_email_branding = 80,
     og_nhs_letter_branding = 81, og_support_email = ''support'', og_has_active_go_live_request = (\<lambda>s. False),
     og_collation = length\<rparr>"

definition organisation_world :: world where
  \<comment> \<open>an organisation with one service\<close>
  "organisation_world = allowance_world\<lparr>w_organisations := [sample_organisation],
     w_services := [sample_service\<lparr>svc_organisation_id := Some 70\<rparr>]\<rparr>"

definition type_update :: organisation_update where
  "type_update = \<lparr>ou_name = None, ou_active = None, ou_organisation_type = Some (Some OrgOther),
     ou_crown = Some (Some True), ou_email_branding_id = None, ou_letter_branding_id = None, ou_domains = None\<rparr>"

theorem organisation_type_spreads_witness:
  "let (r, v) = dao_update_organisation sample_env sample_organisation_lib 70 type_update organisation_world
   in r = Inr 1 \<and> services_take 70 (\<lambda>s. svc_organisation_type s = Some OrgOther \<and> svc_crown s = Some True) v"
proof -
  have "fst (dao_update_organisation sample_env sample_organisation_lib 70 type_update organisation_world) = Inr 1"
    by code_simp
  then obtain v where run:
    "dao_update_organisation sample_env sample_organisation_lib 70 type_update organisation_world = (Inr 1, v)"
    by (metis prod.collapse)
  have fields: "ou_organisation_type type_update = Some (Some OrgOther)" "ou_crown type_update = Some (Some True)"
    by (simp_all add: type_update_def)
  have "distinct_rows svc_id (w_services organisation_world)"
    by (simp add: organisation_world_def distinct_rows_def)
  from organisation_type_spreads [OF run fields(1) this] show ?thesis by (simp add: run fields(2))
qed

theorem archived_organisation_is_closed_witness:
  "let w = sample_world\<lparr>w_organisations := [sample_organisation], w_domains := [(''org.gov'', 70)]\<rparr>;
       (r, v) = archive_organisation 70 w
   in r = Inr () \<and> (case dao_get_organisation_by_email_address ''a@org.gov'' v of
        Inr (Some x) \<Rightarrow> o_id x \<noteq> 70 | _ \<Rightarrow> True)"
proof -
  let ?w = "sample_world\<lparr>w_organisations := [sample_organisation], w_domains := [(''org.gov'', 70)]\<rparr>"
  have found: "dao_get_organisation_by_id 70 ?w = Inr sample_organisation" and active: "o_active sample_organisation"
    by (simp_all add: dao_get_organisation_by_id_def query_one_def sample_organisation_def)
  obtain v where run: "archive_organisation 70 ?w = (Inr (), v)"
    using found active
    by (auto simp: archive_organisation_def dao_archive_organisation_def organisation_services_def sample_world_def
        get_invited_org_users_for_organisation_def autocommit_def Let_def op_bind_def)
  show ?thesis
    using archived_organisation_is_closed [OF run found active, of "''a@org.gov''"]
    by (simp add: run Let_def)
qed

end
