(* ===== verification/Nightly.thy ===== *)
theory Nightly
  imports Invites Jobs Inbound Usage
begin

text \<open>
  What runs by the clock: the tasks of \<^verbatim>\<open>app/celery/nightly_tasks.py\<close> and \<^verbatim>\<open>app/celery/scheduled_tasks.py\<close>
  that no other theory has, the history they delete (\<^verbatim>\<open>app/dao/notification_history_dao.py\<close>) and the
  processing times they save (\<^verbatim>\<open>app/dao/fact_processing_time_dao.py\<close>). The tasks that move old
  notifications to the history queue themselves again as long as they find some; \<open>work_off\<close> is a worker
  that runs a task and then what it queued. A ticket for the people who run the program is a
  value, made of what its text is made of.
\<close>

datatype zendesk_ticket =
    LettersStillSending nat date
  | LettersPendingVirusCheck "(uuid \<times> string option) list"
  | LettersStillCreated nat
  | LowInboundNumbers nat

record nightly_lib =
  nl_is_dvla_working_day :: "time \<Rightarrow> bool"
  nl_dvla_working_day_offset :: "time \<Rightarrow> int \<Rightarrow> date"
  nl_should_send_zendesk_alerts :: bool
  nl_should_check_slow_delivery :: bool
  nl_should_send_research_email :: bool

section \<open>Notifications past their retention\<close>

definition remove_csv_file :: "job \<Rightarrow> world \<Rightarrow> world" where
  "remove_csv_file j w = dao_archive_job j (remove_job_from_s3 (j_service_id j) (j_id j) w)"

definition remove_csv_files :: "ntype list \<Rightarrow> world \<Rightarrow> world" where
  "remove_csv_files job_types w =
     fold remove_csv_file (dao_get_jobs_older_than_data_retention job_types w) w"

definition remove_sms_email_csv_files :: "world \<Rightarrow> world" where
  "remove_sms_email_csv_files = remove_csv_files [Email, Sms]"

definition remove_letter_csv_files :: "world \<Rightarrow> world" where
  "remove_letter_csv_files = remove_csv_files [Letter]"

definition delete_notifications_older_than_retention :: "api_lib \<Rightarrow> unit op" where
  "delete_notifications_older_than_retention lib =
     op_iter (\<lambda>t. apply_async lib REPORTING (TDeleteNotificationsByType t)) [Email, Sms, Letter]"

definition retention_midnight :: "env \<Rightarrow> int \<Rightarrow> world \<Rightarrow> time" where
  \<comment> \<open>the London midnight that so many days of retention end at\<close>
  "retention_midnight env n w =
     get_london_midnight_in_utc env (date_of (lib_utc_to_bst env (w_now w)) - n)"

definition delete_notifications_older_than_retention_by_type :: "env \<Rightarrow> api_lib \<Rightarrow> ntype \<Rightarrow> unit op" where
  \<comment> \<open>the subtasks are spread over five minutes; the services of the second loop come in no order\<close>
  "delete_notifications_older_than_retention_by_type env lib t w =
     (let flexible = fetch_service_data_retention_for_all_services_by_notification_type t w;
          seven_days_ago = retention_midnight env 7 w;
          to_purge = get_service_ids_with_notifications_before t seven_days_ago w - dr_service_id ` set flexible
      in op_bind (op_iter (\<lambda>f. apply_async lib REPORTING
                   (TDeleteNotifications (dr_service_id f) t (retention_midnight env (dr_days_of_retention f) w))) flexible)
           (\<lambda>_. op_iter (\<lambda>s. apply_async lib REPORTING (TDeleteNotifications s t seven_days_ago))
                  (sorted_list_of_set to_purge)) w)"

definition delete_notifications_for_service_and_type ::
  "env \<Rightarrow> api_lib \<Rightarrow> uuid \<Rightarrow> ntype \<Rightarrow> time \<Rightarrow> unit op" where
  "delete_notifications_for_service_and_type env lib service_id t before w =
     (let (num_deleted, v) = move_notifications_to_notification_history env t service_id before 50000 w
      in apply_async lib REPORTING
           (if num_deleted \<noteq> 0 then TDeleteNotifications service_id t before
            else TDeleteTestNotifications service_id t before) v)"

definition delete_test_notifications_for_service_and_type ::
  "env \<Rightarrow> api_lib \<Rightarrow> uuid \<Rightarrow> ntype \<Rightarrow> time \<Rightarrow> unit op" where
  "delete_test_notifications_for_service_and_type env lib service_id t before w =
     (let (num_deleted, v) = delete_test_notifications env t service_id before 50000 w
      in if num_deleted \<noteq> 0
         then apply_async lib REPORTING (TDeleteTestNotifications service_id t before) v else (Inr (), v))"

definition deletion_task :: "env \<Rightarrow> api_lib \<Rightarrow> celery_task \<Rightarrow> unit op" where
  \<comment> \<open>the two tasks above by the messages that call them\<close>
  "deletion_task env lib task =
     (case task of
        TDeleteNotifications s t before \<Rightarrow> delete_notifications_for_service_and_type env lib s t before
      | TDeleteTestNotifications s t before \<Rightarrow> delete_test_notifications_for_service_and_type env lib s t before
      | _ \<Rightarrow> op_return ())"

definition deletion_stage :: "celery_task \<Rightarrow> nat" where
  "deletion_stage task =
     (case task of TDeleteNotifications s t before \<Rightarrow> 2 | TDeleteTestNotifications s t before \<Rightarrow> 1 | _ \<Rightarrow> 0)"

lemma delete_letters_loop_rows [simp]:
  "w_notifications (delete_letters_loop env ls w) = w_notifications w"
  "w_history (delete_letters_loop env ls w) = w_history w"
  "w_tasks (delete_letters_loop env ls w) = w_tasks w"
  unfolding delete_letters_loop_def
  by (induction ls arbitrary: w) (auto simp: s3_delete_def split: sum.split prod.split)

lemma delete_letters_from_s3_rows [simp]:
  "w_notifications (delete_letters_from_s3 env t s b k w) = w_notifications w"
  "w_history (delete_letters_from_s3 env t s b k w) = w_history w"
  "w_tasks (delete_letters_from_s3 env t s b k w) = w_tasks w"
  "w_notifications (delete_test_letters_from_s3 env s b k w) = w_notifications w"
  "w_history (delete_test_letters_from_s3 env s b k w) = w_history w"
  "w_tasks (delete_test_letters_from_s3 env s b k w) = w_tasks w"
  by (simp_all add: delete_letters_from_s3_def delete_test_letters_from_s3_def)

definition test_past_retention :: "ntype \<Rightarrow> uuid \<Rightarrow> time \<Rightarrow> notification \<Rightarrow> bool" where
  "test_past_retention t service_id before n \<longleftrightarrow>
     n_type n = t \<and> n_service_id n = service_id \<and> n_created_at n < before \<and> n_key_type n = TestKey"

definition batch :: "nat \<Rightarrow> (notification \<Rightarrow> bool) \<Rightarrow> world \<Rightarrow> notification list" where
  \<comment> \<open>the oldest rows that a query with a limit selects\<close>
  "batch limit p w = take limit (sort_key n_created_at (filter p (w_notifications w)))"

lemma batch_rows: "n \<in> set (batch limit p w) \<Longrightarrow> n \<in> set (w_notifications w) \<and> p n"
  using archive_subset [of limit p "w_notifications w"] by (auto simp: batch_def)

lemma batch_empty: "0 < limit \<Longrightarrow> batch limit p w = [] \<longleftrightarrow> filter p (w_notifications w) = []"
  unfolding batch_def by (metis length_0_conv length_sort less_numeral_extra(3) take_eq_Nil)

definition batch_limit :: "ntype \<Rightarrow> nat" where
  "batch_limit t = (if t = Letter then 5000 else 50000)"

lemma batch_limit_pos [simp]: "0 < batch_limit t"
  by (simp add: batch_limit_def)

lemma move_run:
  assumes "move_notifications_to_notification_history env t s b 50000 w = (k, v)"
  defines "a \<equiv> batch (batch_limit t) (to_archive t s b) w"
  shows "k = length a"
    and "w_notifications v = delete_rows (\<lambda>n. n_id n \<in> n_id ` set a) (w_notifications w)"
    and "w_history v = insert_history (w_history w) a"
    and "w_tasks v = w_tasks w"
  using assms unfolding a_def batch_def batch_limit_def
  by (auto simp: move_notifications_to_notification_history_def Let_def
      insert_notification_history_delete_notifications_def split: if_splits)

lemma test_run:
  assumes "delete_test_notifications env t s b 50000 w = (k, v)"
  defines "a \<equiv> batch (batch_limit t) (test_past_retention t s b) w"
  shows "k = length (filter (\<lambda>n. n_id n \<in> n_id ` set a) (w_notifications w))"
    and "w_notifications v = delete_rows (\<lambda>n. n_id n \<in> n_id ` set a) (w_notifications w)"
    and "w_history v = w_history w"
    and "w_tasks v = w_tasks w"
  using assms unfolding a_def batch_def batch_limit_def test_past_retention_def
  by (auto simp: delete_test_notifications_def Let_def split: if_splits)

lemma batch_shrinks:
  assumes "batch limit p w \<noteq> []"
  shows "length (delete_rows (\<lambda>n. n_id n \<in> n_id ` set (batch limit p w)) (w_notifications w))
    < length (w_notifications w)"
proof -
  obtain n where "n \<in> set (batch limit p w)" using assms by (cases "batch limit p w") auto
  then show ?thesis
    using batch_rows [of n limit p w] unfolding delete_rows_def by (intro length_filter_less [of n]) auto
qed

lemma enqueued [simp]: "w_tasks (enqueue q t w) = w_tasks w @ [(q, t)]"
  "w_notifications (enqueue q t w) = w_notifications w" "w_history (enqueue q t w) = w_history w"
  by (simp_all add: enqueue_def)

lemma deletion_task_queues:
  assumes "deletion_task env lib task w = (Inr (), v)" "drop (length (w_tasks w)) (w_tasks v) = (q, next) # ts"
  shows "deletion_stage next < deletion_stage task
    \<or> deletion_stage next = deletion_stage task \<and> length (w_notifications v) < length (w_notifications w)"
proof (cases task)
  case (TDeleteNotifications s t b)
  obtain k u where run: "move_notifications_to_notification_history env t s b 50000 w = (k, u)" by fastforce
  show ?thesis
    using assms batch_shrinks [of "batch_limit t" "to_archive t s b" w]
    unfolding TDeleteNotifications deletion_task_def celery_task.case
      delete_notifications_for_service_and_type_def run prod.case apply_async_def
    by (auto simp: move_run [OF run] deletion_stage_def split: option.splits if_splits)
next
  case (TDeleteTestNotifications s t b)
  obtain k u where run: "delete_test_notifications env t s b 50000 w = (k, u)" by fastforce
  note u = test_run [OF run]
  have shrunk: "length (w_notifications u) < length (w_notifications w)" if "k \<noteq> 0"
  proof -
    from that have "batch (batch_limit t) (test_past_retention t s b) w \<noteq> []" by (auto simp: u(1))
    then show ?thesis unfolding u(2) by (rule batch_shrinks)
  qed
  have "deletion_task env lib task w =
      (if k \<noteq> 0 then apply_async lib REPORTING task u else (Inr (), u))"
    by (simp add: TDeleteTestNotifications deletion_task_def delete_test_notifications_for_service_and_type_def run)
  then have "k \<noteq> 0" "v = enqueue REPORTING task u"
    using assms u(4) by (auto simp: apply_async_def split: option.splits if_splits)
  then show ?thesis using assms(2) u(4) shrunk by simp
qed (use assms in \<open>auto simp: deletion_task_def op_return_def\<close>)

function work_off :: "env \<Rightarrow> api_lib \<Rightarrow> celery_task \<Rightarrow> unit op" where
  \<comment> \<open>a worker runs the task, then the one that it queued\<close>
  "work_off env lib task w =
     (case deletion_task env lib task w of
        (Inl e, v) \<Rightarrow> (Inl e, v)
      | (Inr _, v) \<Rightarrow>
          (case drop (length (w_tasks w)) (w_tasks v) of
             [] \<Rightarrow> (Inr (), v)
           | (q, next) # _ \<Rightarrow> work_off env lib next v))"
  by pat_completeness auto

termination
  by (relation "measures [\<lambda>(env, lib, task, w). deletion_stage task,
                          \<lambda>(env, lib, task, w). length (w_notifications w)]")
    (use deletion_task_queues in fastforce)+

declare work_off.simps [simp del]

section \<open>Timing out\<close>

definition sending_timeout :: time where
  \<comment> \<open>\<open>SENDING_NOTIFICATIONS_TIMEOUT_PERIOD\<close>\<close>
  "sending_timeout = seconds 259200"

definition times_out :: "time \<Rightarrow> notification \<Rightarrow> bool" where
  "times_out cutoff_time n \<longleftrightarrow>
     n_created_at n < cutoff_time \<and> n_status n \<in> {Sending, Pending} \<and> n_type n \<in> {Sms, Email}"

definition queue_callbacks :: "notification list \<Rightarrow> unit op" where
  "queue_callbacks = op_iter (\<lambda>n. check_and_queue_callback_task (Inl n))"

lemma queue_callbacks_run:
  "queue_callbacks ns w = (Inr (), fold queue_status_callback ns w)"
  by (induction ns arbitrary: w) (simp_all add: queue_callbacks_def check_and_queue_live)

lemma queue_callbacks_rows [simp]:
  "w_notifications (fold queue_status_callback ns w) = w_notifications w"
  "w_history (fold queue_status_callback ns w) = w_history w"
  by (induction ns arbitrary: w) simp_all

lemma timed_out_rows:
  assumes "dao_timeout_notifications cutoff_time k w = (ns, v)"
  defines "hits \<equiv> take k (filter (times_out cutoff_time) (w_notifications w))"
  shows "map n_id ns = map n_id hits"
    and "w_notifications v = update_rows (\<lambda>n. n_id n \<in> n_id ` set hits)
           (\<lambda>n. n\<lparr>n_status := TemporaryFailure, n_updated_at := Some (w_now w)\<rparr>) (w_notifications w)"
    and "w_history v = w_history w"
  using assms unfolding hits_def times_out_def [abs_def]
  by (auto simp: dao_timeout_notifications_def Let_def)

lemma length_filter_update:
  assumes "\<And>r. r \<in> set rows \<Longrightarrow> p (if q r then f r else r) \<Longrightarrow> p r"
  shows "length (filter p (update_rows q f rows)) \<le> length (filter p rows)"
  using assms
proof (induction rows)
  case Nil
  then show ?case by (simp add: update_rows_def)
next
  case (Cons x rows)
  have "length (filter p (update_rows q f rows)) \<le> length (filter p rows)"
    by (rule Cons.IH) (use Cons.prems in simp)
  then show ?case using Cons.prems [of x] by (simp add: update_rows_def)
qed

lemma length_filter_update_less:
  assumes "\<And>r. r \<in> set rows \<Longrightarrow> p (if q r then f r else r) \<Longrightarrow> p r"
    and "r \<in> set rows" "p r" "q r" "\<not> p (f r)"
  shows "length (filter p (update_rows q f rows)) < length (filter p rows)"
proof -
  obtain xs ys where rows: "rows = xs @ r # ys" using split_list [OF assms(2)] by blast
  have "length (filter p (update_rows q f xs)) \<le> length (filter p xs)"
    "length (filter p (update_rows q f ys)) \<le> length (filter p ys)"
    by (rule length_filter_update, use assms(1) rows in simp)+
  then show ?thesis using assms(3-5) by (simp add: rows update_rows_def)
qed

lemma fewer_time_out:
  assumes "dao_timeout_notifications cutoff_time k w = (ns, v)" "ns \<noteq> []"
  shows "length (filter (times_out cutoff_time) (w_notifications v))
    < length (filter (times_out cutoff_time) (w_notifications w))"
proof -
  obtain n where n: "n \<in> set (take k (filter (times_out cutoff_time) (w_notifications w)))"
    using assms(2) timed_out_rows(1) [OF assms(1)]
    by (metis list.map_disc_iff list.set_intros(1) neq_Nil_conv)
  then have "n \<in> set (filter (times_out cutoff_time) (w_notifications w))" by (rule in_set_takeD)
  then have row: "n \<in> set (w_notifications w)" "times_out cutoff_time n" by simp_all
  have q: "n_id n \<in> n_id ` set (take k (filter (times_out cutoff_time) (w_notifications w)))"
    using n by (rule imageI)
  let ?f = "\<lambda>n. n\<lparr>n_status := TemporaryFailure, n_updated_at := Some (w_now w)\<rparr>"
  have done_with: "\<not> times_out cutoff_time (?f m)" for m by (simp add: times_out_def)
  show ?thesis
    unfolding timed_out_rows(2) [OF assms(1)]
    by (rule length_filter_update_less [where p = "times_out cutoff_time" and r = n])
      (use row q done_with in \<open>auto split: if_splits\<close>)
qed

function timeout_loop :: "time \<Rightarrow> unit op" where
  \<comment> \<open>\<open>while len(notifications) > 0\<close>, the list that enters the first round is not empty\<close>
  "timeout_loop cutoff_time w =
     (let (notifications, v) = dao_timeout_notifications cutoff_time 100000 w
      in case queue_callbacks notifications v of
           (Inl e, u) \<Rightarrow> (Inl e, u)
         | (Inr _, u) \<Rightarrow> if notifications = [] then (Inr (), u) else timeout_loop cutoff_time u)"
  by pat_completeness auto

termination
proof (relation "measure (\<lambda>(cutoff_time, w). length (filter (times_out cutoff_time) (w_notifications w)))", goal_cases)
  case (2 cutoff_time w p ns v res u e)
  then have "u = fold queue_status_callback ns v" by (simp add: queue_callbacks_run)
  then show ?case using fewer_time_out [of cutoff_time 100000 w ns v] 2 by simp
qed simp

declare timeout_loop.simps [simp del]

definition timeout_notifications :: "unit op" where
  "timeout_notifications w = timeout_loop (w_now w - sending_timeout) w"

definition delete_inbound_sms_task :: "env \<Rightarrow> world \<Rightarrow> world" where
  "delete_inbound_sms_task env w = snd (delete_inbound_sms_older_than_retention env w)"

definition get_letter_notifications_still_sending_when_they_shouldnt_be ::
  "nightly_lib \<Rightarrow> world \<Rightarrow> nat \<times> date option" where
  "get_letter_notifications_still_sending_when_they_shouldnt_be nl w =
     (if \<not> nl_is_dvla_working_day nl (w_now w) then (0, None)
      else
        let expected_sent_date = nl_dvla_working_day_offset nl (w_now w) (- 2)
        in (length (filter (\<lambda>n. n_type n = Letter \<and> n_status n = Sending \<and> n_key_type n = NormalKey
               \<and> (case n_sent_at n of None \<Rightarrow> False | Some s \<Rightarrow> date_of s \<le> expected_sent_date))
             (w_notifications w)), Some expected_sent_date))"

definition raise_alert_if_letter_notifications_still_sending ::
  "nightly_lib \<Rightarrow> world \<Rightarrow> zendesk_ticket option" where
  "raise_alert_if_letter_notifications_still_sending nl w =
     (case get_letter_notifications_still_sending_when_they_shouldnt_be nl w of
        (0, _) \<Rightarrow> None
      | (_, None) \<Rightarrow> None
      | (n, Some d) \<Rightarrow> if nl_should_send_zendesk_alerts nl then Some (LettersStillSending n d) else None)"

section \<open>Processing times\<close>

definition insert_update_processing_time :: "date \<Rightarrow> nat \<Rightarrow> nat \<Rightarrow> world \<Rightarrow> world" where
  \<comment> \<open>\<open>ON CONFLICT (bst_date) DO UPDATE\<close>\<close>
  "insert_update_processing_time d messages fast w =
     w\<lparr>w_processing_times :=
         (case find_row pt_bst_date d (w_processing_times w) of
            None \<Rightarrow> w_processing_times w @
              [\<lparr>pt_bst_date = d, pt_messages_total = int messages, pt_messages_within_10_secs = int fast,
                pt_created_at = w_now w, pt_updated_at = None\<rparr>]
          | Some _ \<Rightarrow> update_rows (\<lambda>r. pt_bst_date r = d)
              (\<lambda>r. r\<lparr>pt_messages_total := int messages, pt_messages_within_10_secs := int fast,
                     pt_updated_at := Some (w_now w)\<rparr>) (w_processing_times w))\<rparr>"

definition get_processing_time_percentage_for_date_range ::
  "date \<Rightarrow> date \<Rightarrow> world \<Rightarrow> (date \<times> int \<times> int \<times> rat option) list" where
  "get_processing_time_percentage_for_date_range start_date end_date w =
     map (\<lambda>r. (pt_bst_date r, pt_messages_total r, pt_messages_within_10_secs r,
              if pt_messages_total r > 0
              then Some (of_int (pt_messages_within_10_secs r) / of_int (pt_messages_total r) * 100)
              else if pt_messages_total r = 0 then Some 100 else None))
       (sort_key pt_bst_date (filter (\<lambda>r. start_date \<le> pt_bst_date r \<and> pt_bst_date r \<le> end_date)
          (w_processing_times w)))"

definition save_daily_notification_processing_time :: "env \<Rightarrow> date option \<Rightarrow> world \<Rightarrow> world" where
  "save_daily_notification_processing_time env bst_date w =
     (let d = (case bst_date of None \<Rightarrow> date_of (w_now w - days 1) | Some d \<Rightarrow> d);
          (messages, fast) = dao_get_notifications_processing_time_stats
            (get_london_midnight_in_utc env d) (get_london_midnight_in_utc env (d + 1)) w
      in insert_update_processing_time d messages fast w)"

section \<open>Old history\<close>

definition delete_notification_history_between_two_datetimes :: "time \<Rightarrow> time \<Rightarrow> world \<Rightarrow> world" where
  "delete_notification_history_between_two_datetimes start finish w =
     w\<lparr>w_history := delete_rows (\<lambda>h. start \<le> h_created_at h \<and> h_created_at h < finish) (w_history w)\<rparr>"

definition get_notification_history_by_id :: "uuid \<Rightarrow> world \<Rightarrow> notification_history option" where
  "get_notification_history_by_id i w = find_row h_id i (w_history w)"

function queue_hours :: "api_lib \<Rightarrow> time \<Rightarrow> time \<Rightarrow> unit op" where
  \<comment> \<open>\<open>while start_datetime < retention_limit\<close>\<close>
  "queue_hours lib start_datetime retention_limit w =
     (if start_datetime < retention_limit
      then
        (let end_datetime = start_datetime + minutes 60
         in case apply_async lib REPORTING (TDeleteHistoryBetween start_datetime end_datetime) w of
              (Inl e, v) \<Rightarrow> (Inl e, v)
            | (Inr _, v) \<Rightarrow> queue_hours lib end_datetime retention_limit v)
      else (Inr (), w))"
  by pat_completeness auto

termination
  by (relation "measure (\<lambda>(lib, start, limit, w). nat (limit - start))") (auto simp: minutes_def seconds_def)

declare queue_hours.simps [simp del]

definition delete_unneeded_notification_history_by_hour :: "api_lib \<Rightarrow> unit op" where
  "delete_unneeded_notification_history_by_hour lib =
     queue_hours lib (datetime_of 2020 8 1) (datetime_of 2023 1 1)"

definition delete_unneeded_notification_history_for_specific_hour :: "time \<Rightarrow> time \<Rightarrow> world \<Rightarrow> world" where
  "delete_unneeded_notification_history_for_specific_hour start finish w =
     delete_notification_history_between_two_datetimes start finish w"

definition update_report_status_to_deleted :: "world \<Rightarrow> world" where
  "update_report_status_to_deleted w = update_report_requests_status_to_deleted w"

section \<open>Scheduled tasks\<close>

definition delete_verify_codes :: "world \<Rightarrow> nat \<times> world" where
  "delete_verify_codes w = delete_codes_older_created_more_than_a_day_ago w"

definition delete_invitations :: "world \<Rightarrow> nat \<times> world" where
  "delete_invitations w =
     (let (n, v) = delete_invitations_created_more_than_two_days_ago w;
          (m, u) = delete_org_invitations_created_more_than_two_days_ago v
      in (n + m, u))"

definition switch_current_sms_provider_on_slow_delivery :: "unit op" where
  "switch_current_sms_provider_on_slow_delivery w =
     (let slow = is_delivery_slow_for_providers 15 5 (15 / 100) w
      in if length (remdups (map snd slow)) \<noteq> 1
         then op_iter (\<lambda>(provider, is_slow).
                if is_slow then dao_reduce_sms_provider_priority provider (minutes 5) else op_return ()) slow w
         else (Inr (), w))"

definition slow_sms_key :: string where
  \<comment> \<open>\<open>CacheKeys.NUMBER_OF_TIMES_OVER_SLOW_SMS_DELIVERY_THRESHOLD\<close>\<close>
  "slow_sms_key = ''slow-sms-delivery:number-of-times-over-threshold''"

definition check_slow_text_message_delivery_reports ::
  "env \<Rightarrow> slow_provider_report list \<Rightarrow> bool op" where
  \<comment> \<open>whether the error is logged; a Redis that is off counts nothing\<close>
  "check_slow_text_message_delivery_reports env reports w =
     (let messages = sum_list (map sp_total reports); slow = sum_list (map sp_slow reports)
      in if messages = 0 then (Inl (py_exception ''division by zero''), w)
         else if \<not> cfg_redis_enabled env then (Inr False, w)
         else if (of_nat slow / of_nat messages :: rat) * 100 \<ge> 10
         then (let v = redis_incrby slow_sms_key 1 w in (Inr (redis_get slow_sms_key v = Some 10), v))
         else (Inr False, redis_set slow_sms_key 0 w))"

definition delivery_stats_for ::
  "env \<Rightarrow> nightly_lib \<Rightarrow> int \<Rightarrow> ((string \<times> rat) list \<times> bool) op" where
  \<comment> \<open>one round: the gauges, and whether the error was logged\<close>
  "delivery_stats_for env nl delivery_interval w =
     (let reports = get_slow_text_message_delivery_reports_by_provider 15 delivery_interval w;
          messages = sum_list (map sp_total reports); slow = sum_list (map sp_slow reports);
          gauge = (\<lambda>name. ''slow-delivery.'' @ name @ ''.delivered-within-minutes.''
                            @ int_str delivery_interval @ ''.ratio'')
      in if messages = 0 then (Inl (py_exception ''division by zero''), w)
         else op_bind (if delivery_interval = 5 \<and> nl_should_check_slow_delivery nl
                       then check_slow_text_message_delivery_reports env reports else op_return False)
                (\<lambda>alert. op_return (map (\<lambda>r. (gauge (sp_provider r), sp_slow_ratio r)) reports
                   @ [(gauge ''sms'', of_nat slow / of_nat messages)], alert)) w)"

definition generate_sms_delivery_stats :: "env \<Rightarrow> nightly_lib \<Rightarrow> ((string \<times> rat) list \<times> bool) op" where
  "generate_sms_delivery_stats env nl =
     op_bind (delivery_stats_for env nl 1) (\<lambda>(g1, _).
     op_bind (delivery_stats_for env nl 5) (\<lambda>(g5, alert).
     op_bind (delivery_stats_for env nl 10) (\<lambda>(g10, _). op_return (g1 @ g5 @ g10, alert))))"

definition tend_providers_back_to_middle :: "env \<Rightarrow> unit op" where
  "tend_providers_back_to_middle env = dao_adjust_provider_priority_back_to_resting_points env"

fun rescan_letters :: "env \<Rightarrow> api_lib \<Rightarrow> notification list \<Rightarrow> notification list op" where
  \<comment> \<open>the letters whose file is not in the bucket\<close>
  "rescan_letters env lib [] w = (Inr [], w)"
| "rescan_letters env lib (n # ns) w =
     (case generate_letter_pdf_filename env (n_reference n) (n_created_at n) True (n_postage n) of
        Inl e \<Rightarrow> (Inl e, w)
      | Inr filename \<Rightarrow>
          if s3_get S3_BUCKET_LETTERS_SCAN filename w \<noteq> None
          then (case apply_async lib ANTIVIRUS (TScanFile filename) w of
                  (Inl e, v) \<Rightarrow> (Inl e, v) | (Inr _, v) \<Rightarrow> rescan_letters env lib ns v)
          else (case rescan_letters env lib ns w of
                  (Inl e, v) \<Rightarrow> (Inl e, v) | (Inr missing, v) \<Rightarrow> (Inr (n # missing), v)))"

definition check_if_letters_still_pending_virus_check ::
  "env \<Rightarrow> api_lib \<Rightarrow> nightly_lib \<Rightarrow> int \<Rightarrow> zendesk_ticket option op" where
  "check_if_letters_still_pending_virus_check env lib nl max_minutes_ago_to_check w =
     op_bind (rescan_letters env lib
         (dao_precompiled_letters_still_pending_virus_check max_minutes_ago_to_check w))
       (\<lambda>letters. op_return
          (if letters \<noteq> [] \<and> nl_should_send_zendesk_alerts nl
           then Some (LettersPendingVirusCheck
                  (sort_key fst (map (\<lambda>n. (n_id n, n_reference n)) letters)))
           else None)) w"

definition check_if_letters_still_in_created ::
  "env \<Rightarrow> nightly_lib \<Rightarrow> world \<Rightarrow> zendesk_ticket option" where
  "check_if_letters_still_in_created env nl w =
     (let letters = dao_old_letters_with_created_status env w
      in if letters \<noteq> [] \<and> nl_should_send_zendesk_alerts nl
         then Some (LettersStillCreated (length letters)) else None)"

definition check_for_low_available_inbound_sms_numbers ::
  "nightly_lib \<Rightarrow> world \<Rightarrow> zendesk_ticket option" where
  "check_for_low_available_inbound_sms_numbers nl w =
     (let n = length (dao_get_available_inbound_numbers w)
      in if \<not> nl_should_send_zendesk_alerts nl \<or> n > 50 then None else Some (LowInboundNumbers n))"

definition weekly_user_research_email ::
  "env \<Rightarrow> api_lib \<Rightarrow> account_lib \<Rightarrow> nightly_lib \<Rightarrow> unit op" where
  "weekly_user_research_email env alib lib nl w =
     (if \<not> nl_should_send_research_email nl then (Inr (), w)
      else
        let today = date_of (w_now w);
            users = get_users_for_research (midnight_of (today - 16)) (midnight_of (today - 9)) w
        in op_bind (\<lambda>v. (dao_get_template_by_id
                (ac_template_id lib ''USER_RESEARCH_EMAIL_FOR_NEW_USERS_TEMPLATE_ID'') None v, v)) (\<lambda>t.
           op_bind (\<lambda>v. (dao_fetch_service_by_id (ac_notify_service_id lib) False v, v)) (\<lambda>notify_service.
           op_iter (\<lambda>u v. notify_user env alib t notify_service (TextData (u_email_address u))
              [(''name'', u_name u)]
              (get_default_reply_to_email_address (svc_id notify_service) v) v) users)) w)"

definition populate_annual_billing :: "env \<Rightarrow> int \<Rightarrow> bool \<Rightarrow> unit op" where
  "populate_annual_billing env year missing_services_only w =
     (let services = filter (\<lambda>s. svc_active s
            \<and> (missing_services_only \<longrightarrow> filter (\<lambda>b. ab_service_id b = svc_id s
                 \<and> ab_financial_year_start b = year) (w_annual_billing w) = [])) (w_services w)
      in op_iter (\<lambda>s. op_bind (set_default_free_allowance_for_service env (Some s) (Some year))
                        (\<lambda>_. op_return ())) services w)"

definition run_populate_annual_billing :: "env \<Rightarrow> unit op" where
  "run_populate_annual_billing env w =
     populate_annual_billing env (get_current_financial_year_start_year env w) True w"

end
