(* ===== verification/Nightly_Rules.thy ===== *)
theory Nightly_Rules
  imports Nightly Billing_Rules
begin

text \<open>
  Properties of what runs by the clock: the chain of deletion tasks ends and leaves exactly what is not
  past its retention, timing out in batches is one update of all rows, the hourly deletion of
  history covers its range, and a slow delivery is reported once.
\<close>

section \<open>Deletion in batches\<close>

lemma find_row_same_keys:
  assumes "distinct_rows key xs" "distinct_rows key ys"
    and "\<And>r. key r = i \<Longrightarrow> r \<in> set xs \<longleftrightarrow> r \<in> set ys"
  shows "find_row key i xs = find_row key i ys"
proof (cases "find_row key i xs")
  case None
  then have "i \<notin> key ` set ys" using assms(3) by (auto simp: find_row_None_iff)
  then show ?thesis using None find_row_None_iff [of key i ys] by simp
next
  case (Some r)
  then have "r \<in> set ys" "key r = i" using assms(3) by (auto dest: find_row_SomeD)
  then show ?thesis using Some find_row_eqI [OF assms(2), of r] by simp
qed

lemma in_batch_ids:
  assumes "distinct_rows n_id (w_notifications w)" "n \<in> set (w_notifications w)"
  shows "n_id n \<in> n_id ` set (batch k p w) \<longleftrightarrow> n \<in> set (batch k p w)"
  by (rule key_in_sublist [OF assms(1) _ assms(2)]) (use batch_rows in blast)

lemma filter_without_batch:
  assumes "distinct_rows n_id (w_notifications w)" "\<And>n. p n \<Longrightarrow> \<not> r n"
  shows "filter r (delete_rows (\<lambda>n. n_id n \<in> n_id ` set (batch k p w)) (w_notifications w))
    = filter r (w_notifications w)"
  unfolding delete_rows_def filter_filter
proof (rule filter_cong [OF refl])
  fix n assume "n \<in> set (w_notifications w)"
  then show "(\<not> n_id n \<in> n_id ` set (batch k p w) \<and> r n) = r n"
    using in_batch_ids [OF assms(1), of n k p] batch_rows [of n k p w] assms(2) by blast
qed

lemma batch_then_rest:
  fixes k :: nat and p :: "notification \<Rightarrow> bool"
  assumes "distinct_rows n_id (w_notifications w)"
  defines "rest \<equiv> filter p (delete_rows (\<lambda>n. n_id n \<in> n_id ` set (batch k p w)) (w_notifications w))"
  shows "(case find_row n_id i (batch k p w) of Some n \<Rightarrow> Some n | None \<Rightarrow> find_row n_id i rest)
    = find_row n_id i (filter p (w_notifications w))"
proof -
  let ?a = "batch k p w" and ?rows = "w_notifications w"
  have distinct: "distinct_rows n_id ?a" "distinct_rows n_id rest" "distinct_rows n_id (filter p ?rows)"
    using assms(1) by (simp_all add: batch_def archive_distinct rest_def distinct_filter_rows distinct_delete_rows)
  show ?thesis
  proof (cases "find_row n_id i ?a")
    case None
    then have "n_id n \<noteq> i" if "n \<in> set ?a" for n using that by (auto simp: find_row_None_iff)
    then have "find_row n_id i rest = find_row n_id i (filter p ?rows)"
      by (intro find_row_same_keys distinct)
        (use None in \<open>auto simp: rest_def set_delete_rows find_row_None_iff\<close>)
    then show ?thesis using None by simp
  next
    case (Some n)
    then have "n \<in> set ?a" "n_id n = i" by (auto dest: find_row_SomeD)
    then show ?thesis
      using Some batch_rows [of n k p w] find_row_eqI [OF distinct(3), of n] by simp
  qed
qed

lemma work_off_unfold:
  "deletion_task env lib task w = (Inr (), v) \<Longrightarrow> w_tasks v = w_tasks w \<Longrightarrow> work_off env lib task w = (Inr (), v)"
  "deletion_task env lib task w = (Inr (), v) \<Longrightarrow> w_tasks v = w_tasks w @ [(q, next)]
    \<Longrightarrow> work_off env lib task w = work_off env lib next v"
  by (simp_all add: work_off.simps [of env lib task w])

definition archived_as :: "world \<Rightarrow> notification list \<Rightarrow> uuid \<Rightarrow> notification_history option" where
  \<comment> \<open>the history row of an id once the given notifications are archived; one that exists stays\<close>
  "archived_as w ns i =
     (case find_row h_id i (w_history w) of
        Some h \<Rightarrow> Some h | None \<Rightarrow> map_option history_from_notification (find_row n_id i ns))"

lemma work_off_tests:
  assumes "distinct_rows n_id (w_notifications w)" "al_publish lib = (\<lambda>_ _. None)"
  shows "\<exists>v. work_off env lib (TDeleteTestNotifications s t b) w = (Inr (), v)
    \<and> w_notifications v = filter (\<lambda>n. \<not> test_past_retention t s b n) (w_notifications w)
    \<and> w_history v = w_history w"
  using assms(1)
proof (induction "length (w_notifications w)" arbitrary: w rule: less_induct)
  case less
  let ?p = "test_past_retention t s b" and ?task = "TDeleteTestNotifications s t b"
  obtain k u where run: "delete_test_notifications env t s b 50000 w = (k, u)" by fastforce
  note u = test_run [OF run]
  have task: "deletion_task env lib ?task w =
      (if k \<noteq> 0 then (Inr (), enqueue REPORTING ?task u) else (Inr (), u))"
    using assms(2)
    by (simp add: deletion_task_def delete_test_notifications_for_service_and_type_def run)
  have survivors: "filter (\<lambda>n. \<not> ?p n) (w_notifications u) = filter (\<lambda>n. \<not> ?p n) (w_notifications w)"
    unfolding u(2) by (rule filter_without_batch [OF less.prems]) simp
  show ?case
  proof (cases "k = 0")
    case True
    have "batch (batch_limit t) ?p w = []"
    proof (rule ccontr)
      assume "batch (batch_limit t) ?p w \<noteq> []"
      from batch_shrinks [OF this] show False
        using True unfolding u(1) by (simp add: delete_rows_def filter_empty_conv)
    qed
    then have "w_notifications u = w_notifications w" by (simp add: u(2) delete_rows_def)
    moreover have "filter ?p (w_notifications w) = []"
      using \<open>batch (batch_limit t) ?p w = []\<close> by (simp add: batch_empty)
    ultimately have "w_notifications u = filter (\<lambda>n. \<not> ?p n) (w_notifications w)"
      by (metis (mono_tags, lifting) filter_True filter_empty_conv)
    then show ?thesis
      using work_off_unfold(1) [of env lib ?task w u] task True u by (intro exI [of _ u]) simp
  next
    case False
    then have "batch (batch_limit t) ?p w \<noteq> []" by (auto simp: u(1))
    then have "length (w_notifications u) < length (w_notifications w)"
      unfolding u(2) by (rule batch_shrinks)
    moreover have "distinct_rows n_id (w_notifications (enqueue REPORTING ?task u))"
      using less.prems by (simp add: u(2) distinct_delete_rows)
    ultimately obtain v where
      "work_off env lib ?task (enqueue REPORTING ?task u) = (Inr (), v)"
      "w_notifications v = filter (\<lambda>n. \<not> ?p n) (w_notifications u)" "w_history v = w_history u"
      using less.hyps [of "enqueue REPORTING ?task u"] by auto
    then show ?thesis
      using work_off_unfold(2) [of env lib ?task w "enqueue REPORTING ?task u" REPORTING ?task] task False u survivors
      by (intro exI [of _ v]) simp
  qed
qed


lemma work_off_archives:
  assumes "distinct_rows n_id (w_notifications w)" "al_publish lib = (\<lambda>_ _. None)"
  shows "\<exists>v. work_off env lib (TDeleteNotifications s t b) w = (Inr (), v)
    \<and> w_notifications v =
        filter (\<lambda>n. \<not> to_archive t s b n \<and> \<not> test_past_retention t s b n) (w_notifications w)
    \<and> (\<forall>i. find_row h_id i (w_history v) =
            archived_as w (filter (to_archive t s b) (w_notifications w)) i)"
  using assms(1)
proof (induction "length (w_notifications w)" arbitrary: w rule: less_induct)
  case less
  let ?p = "to_archive t s b" and ?q = "test_past_retention t s b"
  let ?task = "TDeleteNotifications s t b" and ?next = "TDeleteTestNotifications s t b"
  let ?r = "\<lambda>n. \<not> ?p n \<and> \<not> ?q n"
  obtain k u where run: "move_notifications_to_notification_history env t s b 50000 w = (k, u)" by fastforce
  note u = move_run [OF run]
  have task: "deletion_task env lib ?task w =
      (Inr (), enqueue REPORTING (if k \<noteq> 0 then ?task else ?next) u)"
    using assms(2) by (simp add: deletion_task_def delete_notifications_for_service_and_type_def run)
  have survivors: "filter ?r (w_notifications u) = filter ?r (w_notifications w)"
    unfolding u(2) by (rule filter_without_batch [OF less.prems]) simp
  have distinct: "distinct_rows n_id (w_notifications u)"
    using less.prems by (simp add: u(2) distinct_delete_rows)
  have history: "archived_as u (filter ?p (w_notifications u)) i = archived_as w (filter ?p (w_notifications w)) i" for i
    using batch_then_rest [OF less.prems, where i = i and k = "batch_limit t" and p = ?p]
    unfolding archived_as_def u(2,3) find_insert_history by (auto split: option.splits)
  show ?case
  proof (cases "k = 0")
    case True
    then have "batch (batch_limit t) ?p w = []" by (simp add: u(1))
    then have none: "filter ?p (w_notifications w) = []" "w_notifications u = w_notifications w"
      using batch_empty [of "batch_limit t" ?p w] by (simp_all add: u(2) delete_rows_def)
    obtain v where v: "work_off env lib ?next (enqueue REPORTING ?next u) = (Inr (), v)"
      "w_notifications v = filter (\<lambda>n. \<not> ?q n) (w_notifications u)" "w_history v = w_history u"
      using work_off_tests [OF _ assms(2), of "enqueue REPORTING ?next u" env s t b] distinct by auto
    have "filter (\<lambda>n. \<not> ?q n) (w_notifications u) = filter ?r (w_notifications w)"
      using none by (auto simp: filter_empty_conv intro: filter_cong)
    moreover have "find_row h_id i (w_history u) = archived_as w (filter ?p (w_notifications w)) i" for i
      using history [of i] none unfolding archived_as_def by (simp split: option.splits)
    ultimately show ?thesis
      using work_off_unfold(2) [of env lib ?task w "enqueue REPORTING ?next u" REPORTING ?next] task True u(4) v
      by (intro exI [of _ v]) simp
  next
    case False
    then have "batch (batch_limit t) ?p w \<noteq> []" by (auto simp: u(1))
    then have "length (w_notifications u) < length (w_notifications w)"
      unfolding u(2) by (rule batch_shrinks)
    then obtain v where v: "work_off env lib ?task (enqueue REPORTING ?task u) = (Inr (), v)"
      "w_notifications v = filter ?r (w_notifications u)"
      "\<And>i. find_row h_id i (w_history v) =
         archived_as (enqueue REPORTING ?task u) (filter ?p (w_notifications u)) i"
      using less.hyps [of "enqueue REPORTING ?task u"] distinct by auto
    then show ?thesis
      using work_off_unfold(2) [of env lib ?task w "enqueue REPORTING ?task u" REPORTING ?task] task False u(4)
        survivors history
      by (intro exI [of _ v]) (simp add: archived_as_def)
  qed
qed

text \<open>
  C21: the chain of deletion tasks of a service and type ends, however many batches it takes. When it
  has, the notifications that were past the retention are gone and no other, those of live and
  team keys are in the history (a history row that was there before stays), and nothing else was added
  to the history.
\<close>

theorem retention_deletion_completes:
  assumes "distinct_rows n_id (w_notifications w)" "al_publish lib = (\<lambda>_ _. None)"
  shows "case work_off env lib (TDeleteNotifications s t b) w of (r, v) \<Rightarrow>
    r = Inr ()
    \<and> w_notifications v =
        filter (\<lambda>n. \<not> to_archive t s b n \<and> \<not> test_past_retention t s b n) (w_notifications w)
    \<and> find_row h_id i (w_history v) =
        (case find_row h_id i (w_history w) of
           Some h \<Rightarrow> Some h
         | None \<Rightarrow> map_option history_from_notification
             (find_row n_id i (filter (to_archive t s b) (w_notifications w))))"
  using work_off_archives [OF assms, of env s t b] by (auto simp: archived_as_def)


theorem retention_deletion_completes_witness:
  "let n = sample_notification; test = sample_notification\<lparr>n_id := 2, n_key_type := TestKey\<rparr>;
       w = sample_world\<lparr>w_notifications := [test, n]\<rparr>;
       (r, v) = work_off sample_env sample_api (TDeleteNotifications 10 Sms 100000000000) w
   in r = Inr () \<and> w_notifications v = []
      \<and> find_row h_id 1 (w_history v) = Some (history_from_notification n)
      \<and> find_row h_id 2 (w_history v) = None"
proof -
  let ?test = "sample_notification\<lparr>n_id := 2, n_key_type := TestKey\<rparr>"
  let ?w = "sample_world\<lparr>w_notifications := [?test, sample_notification]\<rparr>"
  have d: "distinct_rows n_id (w_notifications ?w)" and p: "al_publish sample_api = (\<lambda>_ _. None)"
    by (simp_all add: distinct_rows_def sample_api_def)
  have past: "to_archive Sms 10 100000000000 sample_notification" "\<not> to_archive Sms 10 100000000000 ?test"
    "test_past_retention Sms 10 100000000000 ?test"
    by (simp_all add: to_archive_def test_past_retention_def sample_notification_def)
  show ?thesis
    using retention_deletion_completes [OF d p, where env = sample_env and s = 10 and t = Sms and b = 100000000000 and i = 1]
      retention_deletion_completes [OF d p, where env = sample_env and s = 10 and t = Sms and b = 100000000000 and i = 2] past
    by (simp add: Let_def row_simps sample_world_def split: prod.splits)
qed

section \<open>Timing out in batches\<close>

definition timed_out :: "time \<Rightarrow> notification \<Rightarrow> notification" where
  \<comment> \<open>reference: a row that timed out\<close>
  "timed_out now n = n\<lparr>n_status := TemporaryFailure, n_updated_at := Some now\<rparr>"

definition with_notifications :: "notification list \<Rightarrow> world \<Rightarrow> world" where
  "with_notifications ns w = w\<lparr>w_notifications := ns\<rparr>"

lemma with_notifications_simps [simp]:
  "w_notifications (with_notifications ns w) = ns" "w_now (with_notifications ns w) = w_now w"
  "with_notifications ns (with_notifications ms w) = with_notifications ns w"
  "with_notifications (w_notifications w) w = w"
  by (simp_all add: with_notifications_def)

lemma queue_status_now [simp]: "w_now (queue_status_callback n w) = w_now w"
  by (simp add: queue_status_callback_def enqueue_def split: option.split sum.split)

lemma queue_statuses_now [simp]: "w_now (fold queue_status_callback ns w) = w_now w"
  by (induction ns arbitrary: w) simp_all

lemma callback_api_with [simp]:
  "get_delivery_status_callback_api_for_service i (with_notifications ms w) =
     get_delivery_status_callback_api_for_service i w"
  by (simp add: get_delivery_status_callback_api_for_service_def get_service_callback_api_by_callback_type_def
      with_notifications_def)

lemma enqueue_with [simp]: "enqueue q t (with_notifications ms w) = with_notifications ms (enqueue q t w)"
  by (simp add: enqueue_def with_notifications_def)

lemma queue_status_with [simp]:
  "queue_status_callback n (with_notifications ms w) = with_notifications ms (queue_status_callback n w)"
  by (simp add: queue_status_callback_def split: option.split sum.split)

lemma queue_statuses_with [simp]:
  "fold queue_status_callback ns (with_notifications ms w) =
     with_notifications ms (fold queue_status_callback ns w)"
  by (induction ns arbitrary: w) simp_all

lemma not_times_out [simp]: "\<not> times_out cutoff (timed_out now n)"
  by (simp add: times_out_def timed_out_def)

lemma timeout_round:
  "dao_timeout_notifications cutoff k w =
     (let hits = take k (filter (times_out cutoff) (w_notifications w))
      in (map (timed_out (w_now w)) hits,
          with_notifications (update_rows (\<lambda>n. n_id n \<in> n_id ` set hits) (timed_out (w_now w))
            (w_notifications w)) w))"
  by (simp add: dao_timeout_notifications_def Let_def times_out_def [abs_def] timed_out_def [abs_def]
      with_notifications_def)

lemma rows_of_hits:
  fixes cutoff now :: time and k :: nat
  assumes "distinct_rows n_id rows"
  defines "F \<equiv> filter (times_out cutoff) rows"
  defines "rows' \<equiv> update_rows (\<lambda>n. n_id n \<in> n_id ` set (take k F)) (timed_out now) rows"
  shows "filter (times_out cutoff) rows' = drop k F"
    and "update_rows (times_out cutoff) (timed_out now) rows' = update_rows (times_out cutoff) (timed_out now) rows"
    and "distinct_rows n_id rows'"
proof -
  have sub: "set (take k F) \<subseteq> set rows" "\<And>n. n \<in> set (take k F) \<Longrightarrow> times_out cutoff n"
    using set_take_subset [of k F] by (auto simp: F_def)
  have hit: "n_id n \<in> n_id ` set (take k F) \<longleftrightarrow> n \<in> set (take k F)" if "n \<in> set rows" for n
    by (rule key_in_sublist [OF assms(1) sub(1) that])
  have rows': "rows' = map (\<lambda>n. if n \<in> set (take k F) then timed_out now n else n) rows"
    unfolding rows'_def update_rows_def by (rule map_cong) (simp_all add: hit)
  show "distinct_rows n_id rows'"
    unfolding rows'_def using assms(1) by (subst distinct_update_rows) (simp_all add: timed_out_def)
  show "update_rows (times_out cutoff) (timed_out now) rows' = update_rows (times_out cutoff) (timed_out now) rows"
    unfolding rows' update_rows_def map_map
    by (rule map_cong) (use sub(2) in auto)
  have "distinct F" unfolding F_def using distinct_rows_distinct [OF assms(1)] by simp
  then have disjoint: "set (take k F) \<inter> set (drop k F) = {}"
    using append_take_drop_id [of k F] by (metis distinct_append)
  have kept: "filter (times_out cutoff) (map (\<lambda>n. if n \<in> A then timed_out now n else n) xs) =
      filter (\<lambda>n. n \<notin> A) (filter (times_out cutoff) xs)" for A xs
    by (induction xs) auto
  have "filter (times_out cutoff) rows' = filter (\<lambda>n. n \<notin> set (take k F)) F"
    unfolding rows' kept F_def ..
  also have "\<dots> = filter (\<lambda>n. n \<notin> set (take k F)) (take k F @ drop k F)" by simp
  also have "\<dots> = drop k F"
    unfolding filter_append using disjoint by (auto simp: filter_empty_conv filter_id_conv)
  finally show "filter (times_out cutoff) rows' = drop k F" .
qed


lemma timeout_loop_run:
  assumes "distinct_rows n_id (w_notifications w)"
  shows "timeout_loop cutoff w =
    (Inr (), with_notifications (update_rows (times_out cutoff) (timed_out (w_now w)) (w_notifications w))
       (fold queue_status_callback
          (map (timed_out (w_now w)) (filter (times_out cutoff) (w_notifications w))) w))"
  using assms
proof (induction "length (filter (times_out cutoff) (w_notifications w))" arbitrary: w rule: less_induct)
  case less
  let ?F = "filter (times_out cutoff) (w_notifications w)" and ?k = "100000 :: nat" and ?t = "timed_out (w_now w)"
  define rows' where "rows' = update_rows (\<lambda>n. n_id n \<in> n_id ` set (take ?k ?F)) ?t (w_notifications w)"
  define u where "u = with_notifications rows' (fold queue_status_callback (map ?t (take ?k ?F)) w)"
  note hits = rows_of_hits [OF less.prems, where cutoff = cutoff and k = ?k and now = "w_now w", folded rows'_def]
  have "dao_timeout_notifications cutoff ?k w = (map ?t (take ?k ?F), with_notifications rows' w)"
    by (simp add: timeout_round Let_def rows'_def)
  then have step: "timeout_loop cutoff w = (if take ?k ?F = [] then (Inr (), u) else timeout_loop cutoff u)"
    by (subst timeout_loop.simps) (simp add: queue_callbacks_run u_def)
  have u: "w_notifications u = rows'" "w_now u = w_now w" by (simp_all add: u_def)
  show ?case
  proof (cases "?F = []")
    case True
    then have "rows' = update_rows (times_out cutoff) ?t (w_notifications w)"
      by (auto simp: rows'_def update_rows_def filter_empty_conv intro!: map_idI [symmetric])
    then show ?thesis using True by (simp add: step u_def)
  next
    case False
    then have "length (drop ?k ?F) < length ?F" by simp
    then have "timeout_loop cutoff u = (Inr (), with_notifications (update_rows (times_out cutoff) ?t rows')
        (fold queue_status_callback (map ?t (drop ?k ?F)) u))"
      using less.hyps [of u] hits(1,3) by (simp add: u)
    moreover have "fold queue_status_callback (map ?t (drop ?k ?F)) u =
        with_notifications rows' (fold queue_status_callback (map ?t ?F) w)"
    proof -
      have "map ?t ?F = map ?t (take ?k ?F) @ map ?t (drop ?k ?F)"
        by (metis append_take_drop_id map_append)
      then show ?thesis by (simp only: u_def queue_statuses_with fold_append comp_apply)
    qed
    ultimately show ?thesis using False step hits(2) by simp
  qed
qed

text \<open>
  C27: the loop that times notifications out, a hundred thousand at a time until none is found,
  ends and amounts to one update of every text message and email that has been sending for three
  days, with one status callback each, in order, for the services that asked for them; no other row
  changes.
\<close>

theorem timing_out_is_one_update:
  assumes "distinct_rows n_id (w_notifications w)"
  shows "timeout_notifications w =
    (let cutoff = w_now w - days 3;
         time_out = (\<lambda>n. n\<lparr>n_status := TemporaryFailure, n_updated_at := Some (w_now w)\<rparr>)
     in (Inr (), (fold queue_status_callback (map time_out (filter (times_out cutoff) (w_notifications w))) w)
           \<lparr>w_notifications := update_rows (times_out cutoff) time_out (w_notifications w)\<rparr>))"
proof -
  have "sending_timeout = days 3" by (simp add: sending_timeout_def days_def)
  then show ?thesis
    unfolding timeout_notifications_def timeout_loop_run [OF assms]
    by (simp add: Let_def with_notifications_def timed_out_def [abs_def])
qed

theorem timing_out_is_one_update_witness:
  "let n = sample_notification\<lparr>n_status := Sending\<rparr>;
       w = sample_world\<lparr>w_now := 90000000000 + days 4, w_notifications := [n]\<rparr>;
       (r, v) = timeout_notifications w
   in r = Inr () \<and> map n_status (w_notifications v) = [TemporaryFailure]"
proof -
  let ?n = "sample_notification\<lparr>n_status := Sending\<rparr>"
  let ?w = "sample_world\<lparr>w_now := 90000000000 + days 4, w_notifications := [?n]\<rparr>"
  have "distinct_rows n_id (w_notifications ?w)" by (simp add: distinct_rows_def)
  note run = timing_out_is_one_update [OF this]
  have "times_out (90000000000 + days 4 - days 3) ?n" by (simp add: times_out_def days_def seconds_def)
  then show ?thesis by (simp add: Let_def run update_rows_def)
qed

section \<open>Deleting history by the hour\<close>

definition history_task :: "celery_task \<Rightarrow> world \<Rightarrow> world" where
  \<comment> \<open>a worker runs the task of an hour\<close>
  "history_task task w =
     (case task of
        TDeleteHistoryBetween start finish \<Rightarrow> delete_unneeded_notification_history_for_specific_hour start finish w
      | _ \<Rightarrow> w)"

definition hour :: time where
  "hour = minutes 60"

lemma hour_pos [simp]: "0 < hour"
  by (simp add: hour_def minutes_def seconds_def)

lemma queue_hours_run:
  assumes "al_publish lib = (\<lambda>_ _. None)"
  shows "\<exists>v. queue_hours lib start (start + int n * hour) w = (Inr (), v) \<and> w_history v = w_history w
    \<and> w_tasks v = w_tasks w @ map (\<lambda>k. (REPORTING,
          TDeleteHistoryBetween (start + int k * hour) (start + int (Suc k) * hour))) [0..<n]"
proof (induction n arbitrary: start w)
  case 0
  then show ?case by (simp add: queue_hours.simps)
next
  case (Suc n)
  define w1 where "w1 = enqueue REPORTING (TDeleteHistoryBetween start (start + hour)) w"
  have limit: "start + int (Suc n) * hour = start + hour + int n * hour" by (simp add: algebra_simps)
  have "start < start + int (Suc n) * hour" by simp
  then have step: "queue_hours lib start (start + int (Suc n) * hour) w =
      queue_hours lib (start + hour) (start + hour + int n * hour) w1"
    unfolding limit using assms by (subst queue_hours.simps) (simp add: w1_def hour_def [symmetric] Let_def)
  obtain v where v: "queue_hours lib (start + hour) (start + hour + int n * hour) w1 = (Inr (), v)"
    "w_history v = w_history w1"
    "w_tasks v = w_tasks w1 @ map (\<lambda>k. (REPORTING, TDeleteHistoryBetween (start + hour + int k * hour)
          (start + hour + int (Suc k) * hour))) [0..<n]"
    using Suc.IH [of "start + hour" w1] by blast
  have "[0..<Suc n] = 0 # map Suc [0..<n]" by (simp add: map_Suc_upt upt_conv_Cons del: upt_Suc)
  then show ?case
    unfolding step using v by (intro exI [of _ v]) (simp add: w1_def algebra_simps del: upt_Suc)
qed

lemma history_task_hour [simp]:
  "w_history (history_task (TDeleteHistoryBetween a b) w) =
     delete_rows (\<lambda>h. a \<le> h_created_at h \<and> h_created_at h < b) (w_history w)"
  by (simp add: history_task_def delete_unneeded_notification_history_for_specific_hour_def
      delete_notification_history_between_two_datetimes_def)

lemma delete_rows_joined:
  fixes f :: "'r \<Rightarrow> time"
  assumes "a \<le> b" "b \<le> c"
  shows "delete_rows (\<lambda>x. b \<le> f x \<and> f x < c) (delete_rows (\<lambda>x. a \<le> f x \<and> f x < b) rows) =
    delete_rows (\<lambda>x. a \<le> f x \<and> f x < c) rows"
  unfolding delete_rows_def filter_filter by (rule filter_cong) (use assms in auto)

lemma hours_deleted:
  "w_history (fold history_task (map (\<lambda>k. TDeleteHistoryBetween (start + int k * hour)
       (start + int (Suc k) * hour)) [0..<n]) w) =
     delete_rows (\<lambda>h. start \<le> h_created_at h \<and> h_created_at h < start + int n * hour) (w_history w)"
proof (induction n)
  case 0
  then show ?case by (auto simp: delete_rows_def filter_id_conv)
next
  case (Suc n)
  have "0 \<le> hour" by (rule less_imp_le [OF hour_pos])
  then have "start \<le> start + int n * hour" "start + int n * hour \<le> start + int (Suc n) * hour"
    by (simp_all add: mult_right_mono)
  from delete_rows_joined [OF this, of h_created_at] show ?case
    unfolding upt_Suc by (simp add: Suc del: of_nat_Suc)
qed

lemma history_range: "datetime_of 2023 1 1 = datetime_of 2020 8 1 + int 21192 * hour"
  by (simp add: hour_def minutes_def seconds_def datetime_of_def midnight_of_def days_def) code_simp

text \<open>
  The hours that the deletion of old history is cut into, 21192 tasks, neither overlap nor leave a
  gap: when all have run, what was created from August 2020 until the end of 2022 is gone
  and the rest of the history is as it was.
\<close>

theorem history_hours_cover:
  assumes "al_publish lib = (\<lambda>_ _. None)"
  shows "case delete_unneeded_notification_history_by_hour lib w of (r, v) \<Rightarrow>
    r = Inr () \<and> length (w_tasks v) = length (w_tasks w) + 21192
    \<and> w_history (fold history_task (map snd (drop (length (w_tasks w)) (w_tasks v))) v) =
        filter (\<lambda>h. \<not> (datetime_of 2020 8 1 \<le> h_created_at h \<and> h_created_at h < datetime_of 2023 1 1))
          (w_history w)"
proof -
  obtain v where v: "delete_unneeded_notification_history_by_hour lib w = (Inr (), v)" "w_history v = w_history w"
    "w_tasks v = w_tasks w @ map (\<lambda>k. (REPORTING, TDeleteHistoryBetween (datetime_of 2020 8 1 + int k * hour)
          (datetime_of 2020 8 1 + int (Suc k) * hour))) [0..<21192]"
    using queue_hours_run [OF assms, of "datetime_of 2020 8 1" 21192 w]
    unfolding delete_unneeded_notification_history_by_hour_def history_range [symmetric] by blast
  have "map snd (drop (length (w_tasks w)) (w_tasks v)) =
      map (\<lambda>k. TDeleteHistoryBetween (datetime_of 2020 8 1 + int k * hour)
          (datetime_of 2020 8 1 + int (Suc k) * hour)) [0..<21192]"
    unfolding v(3) by (simp only: append_eq_conv_conj [THEN iffD1, THEN conjunct2] drop_append
        diff_self_eq_0 drop_all order_refl drop0 append_Nil map_map comp_def snd_conv)
  then show ?thesis
    using v hours_deleted [of "datetime_of 2020 8 1" 21192 v, folded history_range]
    by (simp only: prod.case delete_rows_def length_append length_map length_upt minus_nat.diff_0 simp_thms)
qed

theorem history_hours_cover_witness:
  "case delete_unneeded_notification_history_by_hour sample_api sample_world of (r, v) \<Rightarrow>
    r = Inr () \<and> length (w_tasks v) = 21192"
proof -
  have "al_publish sample_api = (\<lambda>_ _. None)" by (simp add: sample_api_def)
  from history_hours_cover [OF this, of sample_world] show ?thesis
    by (auto simp: sample_world_def)
qed

section \<open>Slow delivery\<close>

definition breaches :: "slow_provider_report list \<Rightarrow> bool" where
  \<comment> \<open>reference: a tenth or more of the messages were slow\<close>
  "breaches reports \<longleftrightarrow>
     sum_list (map sp_total reports) \<noteq> 0 \<and> sum_list (map sp_total reports) \<le> 10 * sum_list (map sp_slow reports)"

definition breaches_in_a_row :: "slow_provider_report list list \<Rightarrow> nat" where
  \<comment> \<open>reference: how many of the last checks breached\<close>
  "breaches_in_a_row checks = length (takeWhile breaches (rev checks))"

definition after_checks :: "env \<Rightarrow> slow_provider_report list list \<Rightarrow> world \<Rightarrow> world" where
  "after_checks env checks w = fold (\<lambda>reports v. snd (check_slow_text_message_delivery_reports env reports v)) checks w"

lemma breach_percentage:
  "messages \<noteq> 0 \<Longrightarrow> (of_nat slow / of_nat messages :: rat) * 100 \<ge> 10 \<longleftrightarrow> messages \<le> 10 * slow"
proof -
  assume "messages \<noteq> 0"
  then have "(of_nat slow / of_nat messages :: rat) * 100 \<ge> 10 \<longleftrightarrow> of_nat (10 * messages) \<le> (of_nat (100 * slow) :: rat)"
    by (simp add: field_simps)
  also have "\<dots> \<longleftrightarrow> messages \<le> 10 * slow" unfolding of_nat_le_iff by linarith
  finally show ?thesis .
qed

lemma check_run:
  assumes "cfg_redis_enabled env" "sum_list (map sp_total reports) \<noteq> 0"
    and "redis_get slow_sms_key w = Some (int n) \<or> n = 0 \<and> redis_get slow_sms_key w = None"
  shows "\<exists>v. check_slow_text_message_delivery_reports env reports w =
      (Inr (breaches reports \<and> n = 9), v)
    \<and> redis_get slow_sms_key v = Some (if breaches reports then int (Suc n) else 0)"
proof -
  have "check_slow_text_message_delivery_reports env reports w =
      (if breaches reports
       then let v = redis_incrby slow_sms_key 1 w in (Inr (redis_get slow_sms_key v = Some 10), v)
       else (Inr False, redis_set slow_sms_key 0 w))"
    using assms(1,2)
    by (simp only: check_slow_text_message_delivery_reports_def Let_def breaches_def if_False not_True_eq_False
        breach_percentage [OF assms(2)] simp_thms)
  then show ?thesis using assms(3) by (auto simp: Let_def redis_incrby_def)
qed

lemma count_after_checks:
  assumes "cfg_redis_enabled env" "list_all (\<lambda>reports. sum_list (map sp_total reports) \<noteq> 0) checks"
    and "redis_get slow_sms_key w = None"
  shows "redis_get slow_sms_key (after_checks env checks w) = Some (int (breaches_in_a_row checks))
    \<or> breaches_in_a_row checks = 0 \<and> redis_get slow_sms_key (after_checks env checks w) = None"
  using assms(2)
proof (induction checks rule: rev_induct)
  case Nil
  then show ?case using assms(3) by (simp add: after_checks_def breaches_in_a_row_def)
next
  case (snoc reports checks)
  then show ?case
    using check_run [OF assms(1), of reports "after_checks env checks w" "breaches_in_a_row checks"]
    by (auto simp: after_checks_def breaches_in_a_row_def)
qed

text \<open>
  Slow delivery is reported on the tenth check in a row that finds a tenth or more of the text
  messages slow, and not on the eleventh: from a counter that was never set, after any series of
  checks, a check logs the error exactly when it is the tenth of its row.
\<close>

theorem slow_delivery_reported_once:
  assumes "cfg_redis_enabled env"
    and "list_all (\<lambda>reports. sum_list (map sp_total reports) \<noteq> 0) (checks @ [now])"
    and "redis_get slow_sms_key w = None"
  shows "fst (check_slow_text_message_delivery_reports env now (after_checks env checks w)) =
    Inr (breaches_in_a_row (checks @ [now]) = 10)"
proof -
  have "list_all (\<lambda>reports. sum_list (map sp_total reports) \<noteq> 0) checks" "sum_list (map sp_total now) \<noteq> 0"
    using assms(2) by simp_all
  from check_run [OF assms(1) this(2) count_after_checks [OF assms(1) this(1) assms(3)]] show ?thesis
    by (auto simp: breaches_in_a_row_def)
qed

theorem slow_delivery_reported_once_witness:
  "let slow = [\<lparr>sp_provider = ''mmg'', sp_slow_ratio = 1, sp_slow = 5, sp_total = 5\<rparr>]
   in fst (check_slow_text_message_delivery_reports sample_env slow
        (after_checks sample_env (replicate 9 slow) sample_world)) = Inr True
    \<and> fst (check_slow_text_message_delivery_reports sample_env slow
        (after_checks sample_env (replicate 10 slow) sample_world)) = Inr False"
proof -
  let ?slow = "[\<lparr>sp_provider = ''mmg'', sp_slow_ratio = 1, sp_slow = 5, sp_total = 5\<rparr>]"
  have on: "cfg_redis_enabled sample_env" and unset: "redis_get slow_sms_key sample_world = None"
    by (simp_all add: sample_env_def sample_world_def redis_get_def)
  have counted: "list_all (\<lambda>reports. sum_list (map sp_total reports) \<noteq> 0) (replicate n ?slow @ [?slow])" for n
    by (induction n) simp_all
  have "breaches ?slow" by (simp add: breaches_def)
  then have row: "breaches_in_a_row (replicate n ?slow @ [?slow]) = Suc n" for n
    by (simp add: breaches_in_a_row_def rev_replicate takeWhile_replicate)
  show ?thesis
    unfolding Let_def slow_delivery_reported_once [OF on counted unset] row by simp
qed

text \<open>
  With no active provider of text messages there is nothing to divide by, and the task that measures
  their delivery fails.
\<close>

theorem delivery_stats_without_providers:
  assumes "list_all (\<lambda>p. \<not> (p_notification_type p = Sms \<and> p_active p)) (w_providers w)"
  shows "generate_sms_delivery_stats env nl w = (Inl (py_exception ''division by zero''), w)"
proof -
  have "filter (\<lambda>p. p_notification_type p = Sms \<and> p_active p) (w_providers w) = []"
    using assms by (auto simp: filter_empty_conv list_all_iff)
  then have "delivery_stats_for env nl 1 w = (Inl (py_exception ''division by zero''), w)"
    by (simp add: delivery_stats_for_def get_slow_text_message_delivery_reports_by_provider_def Let_def)
  then show ?thesis by (simp add: generate_sms_delivery_stats_def)
qed

section \<open>Processing times\<close>

definition upsert_time :: "time \<Rightarrow> fact_processing_time \<Rightarrow> fact_processing_time list \<Rightarrow> fact_processing_time list" where
  "upsert_time now f rows =
     (if pt_bst_date f \<in> pt_bst_date ` set rows
      then update_rows (\<lambda>r. pt_bst_date r = pt_bst_date f)
        (\<lambda>r. r\<lparr>pt_messages_total := pt_messages_total f,
               pt_messages_within_10_secs := pt_messages_within_10_secs f, pt_updated_at := Some now\<rparr>) rows
      else rows @ [f])"

interpretation times: upsert_table pt_bst_date
  "\<lambda>f r. r\<lparr>pt_messages_total := pt_messages_total f,
           pt_messages_within_10_secs := pt_messages_within_10_secs f, pt_updated_at := Some now\<rparr>"
  "upsert_time now" for now
  by unfold_locales (simp_all add: upsert_time_def)

lemma processing_time_upsert:
  "w_processing_times (insert_update_processing_time d n m w) =
     upsert_time (w_now w)
       \<lparr>pt_bst_date = d, pt_messages_total = int n, pt_messages_within_10_secs = int m,
        pt_created_at = w_now w, pt_updated_at = None\<rparr> (w_processing_times w)"
proof (cases "find_row pt_bst_date d (w_processing_times w)")
  case None
  then have "d \<notin> pt_bst_date ` set (w_processing_times w)" by (simp add: find_row_None_iff)
  then show ?thesis using None by (simp add: insert_update_processing_time_def upsert_time_def)
next
  case (Some r)
  then have "d \<in> pt_bst_date ` set (w_processing_times w)"
    using find_row_SomeD [OF Some] by auto
  then show ?thesis using Some by (simp add: insert_update_processing_time_def upsert_time_def)
qed

text \<open>
  Saving the processing times of a day, as often as it is run, leaves one row for that day with
  the counts of its messages, touches no other day and never makes a second row.
\<close>

theorem processing_times_of_a_day:
  assumes "distinct_rows pt_bst_date (w_processing_times w)"
  shows "let v = save_daily_notification_processing_time env (Some d) w;
             (messages, fast) = dao_get_notifications_processing_time_stats
               (get_london_midnight_in_utc env d) (get_london_midnight_in_utc env (d + 1)) w
    in distinct_rows pt_bst_date (w_processing_times v)
      \<and> map_option (\<lambda>r. (pt_messages_total r, pt_messages_within_10_secs r))
          (find_row pt_bst_date d (w_processing_times v)) = Some (int messages, int fast)
      \<and> filter (\<lambda>r. pt_bst_date r \<noteq> d) (w_processing_times v) =
          filter (\<lambda>r. pt_bst_date r \<noteq> d) (w_processing_times w)"
proof -
  obtain n m where counts: "dao_get_notifications_processing_time_stats
      (get_london_midnight_in_utc env d) (get_london_midnight_in_utc env (d + 1)) w = (n, m)" by fastforce
  define f :: fact_processing_time where "f = \<lparr>pt_bst_date = d, pt_messages_total = int n,
      pt_messages_within_10_secs = int m, pt_created_at = w_now w, pt_updated_at = None\<rparr>"
  have f: "pt_bst_date f = d" "pt_messages_total f = int n" "pt_messages_within_10_secs f = int m"
    by (simp_all add: f_def)
  have table: "w_processing_times (save_daily_notification_processing_time env (Some d) w) =
      upsert_time (w_now w) f (w_processing_times w)"
    by (simp add: save_daily_notification_processing_time_def counts processing_time_upsert f_def)
  have "filter (\<lambda>r. pt_bst_date r \<noteq> d) (upsert_time (w_now w) f (w_processing_times w)) =
      filter (\<lambda>r. pt_bst_date r \<noteq> d) (w_processing_times w)"
    using times.filter_upserts [of "[f]" "\<lambda>r. pt_bst_date r \<noteq> d" "w_now w" "w_processing_times w"] f(1) by simp
  then show ?thesis
    unfolding Let_def counts prod.case table
    using times.distinct_upsert [OF assms, of "w_now w" f]
    by (simp add: times.find_upsert f split: option.split)
qed

theorem processing_times_of_a_day_witness:
  "let v = save_daily_notification_processing_time sample_env (Some 5)
             (save_daily_notification_processing_time sample_env (Some 5) sample_world)
   in length (filter (\<lambda>r. pt_bst_date r \<noteq> 5) (w_processing_times v)) = 0"
proof -
  let ?v = "save_daily_notification_processing_time sample_env (Some 5) sample_world"
  have step: "distinct_rows pt_bst_date (w_processing_times (save_daily_notification_processing_time sample_env (Some 5) w))
      \<and> filter (\<lambda>r. pt_bst_date r \<noteq> 5) (w_processing_times (save_daily_notification_processing_time sample_env (Some 5) w))
        = filter (\<lambda>r. pt_bst_date r \<noteq> 5) (w_processing_times w)"
    if "distinct_rows pt_bst_date (w_processing_times w)" for w
    using processing_times_of_a_day [OF that, of sample_env 5] unfolding Let_def case_prod_beta by blast
  have none: "w_processing_times sample_world = []" by (simp add: sample_world_def)
  then have "distinct_rows pt_bst_date (w_processing_times sample_world)" by (simp add: distinct_rows_def)
  note once = step [OF this]
  note twice = step [OF once [THEN conjunct1]]
  show ?thesis
    unfolding Let_def twice [THEN conjunct2] once [THEN conjunct2] none by (simp only: filter.simps list.size)
qed

end
